(* ===== verification/Prelude.thy ===== *)
theory Prelude
  imports Main "HOL-Library.Word" "HOL-Library.AList"
begin

text \<open>
  Shared vocabulary of the development: the machine types of the C++ sources, little-endian
  encoding of words, C strings in fixed arrays, decimal printing, and the association lists
  that stand for \<^verbatim>\<open>std::unordered_map\<close> and \<^verbatim>\<open>std::unordered_set\<close>.

  Conventions.
  \<^item> \<^verbatim>\<open>std::uintN_t\<close> is \<open>N word\<close>; \<^verbatim>\<open>std::size_t\<close> values that only measure containers are \<open>nat\<close>.
  \<^item> \<^verbatim>\<open>float\<close> and \<^verbatim>\<open>double\<close> are the IEEE-754 bit patterns (\<open>32 word\<close>, \<open>64 word\<close>); the
    theory Ieee defines the arithmetic.
  \<^item> a byte buffer is a \<open>bytes\<close> list; \<^verbatim>\<open>std::string\<close> and \<^verbatim>\<open>char[N]\<close> are \<open>string\<close>.
  \<^item> an unordered map is an association list in iteration order. The C++ standard leaves that
    order open, so every theorem quantifies over lists in any order.
\<close>

unbundle bit_operations_syntax

named_theorems wire \<open>reading fields out of encoded messages\<close>
named_theorems amap \<open>association lists as unordered maps\<close>

type_synonym u8 = "8 word"
type_synonym u16 = "16 word"
type_synonym u32 = "32 word"
type_synonym u64 = "64 word"
type_synonym f32 = "32 word"
type_synonym f64 = "64 word"
type_synonym bytes = "u8 list"
type_synonym ('k, 'v) umap = "('k \<times> 'v) list"

subsection \<open>Little-endian words\<close>

fun le_bytes :: "nat \<Rightarrow> nat \<Rightarrow> bytes" where
  "le_bytes 0 v = []"
| "le_bytes (Suc n) v = word_of_nat (v mod 256) # le_bytes n (v div 256)"

fun le_val :: "bytes \<Rightarrow> nat" where
  "le_val [] = 0"
| "le_val (b # bs) = unat b + 256 * le_val bs"

lemma length_le_bytes [simp]: "length (le_bytes n v) = n"
  by (induction n arbitrary: v) auto

lemma le_val_bound: "le_val bs < 256 ^ length bs"
proof (induction bs)
  case (Cons b bs)
  have "unat b < 256" using unsigned_less [of b] by simp
  with Cons show ?case by simp
qed simp

lemma le_val_le_bytes [simp]: "le_val (le_bytes n v) = v mod 256 ^ n"
proof (induction n arbitrary: v)
  case (Suc n)
  have "unat (word_of_nat (v mod 256) :: u8) = v mod 256"
    by (simp add: unat_of_nat)
  with Suc show ?case by (simp add: mod_mult2_eq add.commute)
qed simp

lemma le_bytes_le_val [simp]: "le_bytes (length bs) (le_val bs) = bs"
proof (induction bs)
  case (Cons b bs)
  have b: "unat b < 256" using unsigned_less [of b] by simp
  then have "(unat b + 256 * le_val bs) mod 256 = unat b"
    and "(unat b + 256 * le_val bs) div 256 = le_val bs" by auto
  with Cons show ?case by simp
qed simp

text \<open>A word of \<open>n\<close> bytes: \<^verbatim>\<open>memcpy\<close> of an integer on a little-endian machine.\<close>

definition enc_word :: "nat \<Rightarrow> 'a::len word \<Rightarrow> bytes" where
  "enc_word n w = le_bytes n (unat w)"

definition dec_word :: "bytes \<Rightarrow> 'a::len word" where
  "dec_word bs = word_of_nat (le_val bs)"

lemma length_enc_word [simp]: "length (enc_word n w) = n"
  by (simp add: enc_word_def)

lemma dec_enc_word:
  assumes "LENGTH('a::len) = 8 * n"
  shows "dec_word (enc_word n (w :: 'a word)) = w"
proof -
  have "unat w < 2 ^ LENGTH('a)" by (rule unsigned_less)
  also have "2 ^ LENGTH('a) = (256::nat) ^ n"
    using assms by (simp add: power_mult)
  finally have "unat w mod 256 ^ n = unat w" by simp
  then show ?thesis by (simp add: dec_word_def enc_word_def)
qed

lemma enc_dec_word:
  assumes "LENGTH('a::len) = 8 * length bs"
  shows "enc_word (length bs) (dec_word bs :: 'a word) = bs"
proof -
  have "2 ^ LENGTH('a) = (256::nat) ^ length bs"
    using assms by (simp add: power_mult)
  with le_val_bound [of bs] have "unat (dec_word bs :: 'a word) = le_val bs"
    by (simp add: dec_word_def unat_of_nat)
  then show ?thesis by (simp add: enc_word_def)
qed

lemma unat_u8 [simp]: "n < 256 \<Longrightarrow> unat (word_of_nat n :: u8) = n"
  and unat_u16 [simp]: "n < 65536 \<Longrightarrow> unat (word_of_nat n :: u16) = n"
  and unat_u32 [simp]: "n < 4294967296 \<Longrightarrow> unat (word_of_nat n :: u32) = n"
  by (simp_all add: unat_of_nat)

subsection \<open>Characters and fixed character arrays\<close>

definition c2b :: "char \<Rightarrow> u8" where
  "c2b c = word_of_nat (of_char c)"

definition b2c :: "u8 \<Rightarrow> char" where
  "b2c b = char_of (unat b)"

lemma b2c_c2b [simp]: "b2c (c2b c) = c"
proof -
  have "(of_char c :: nat) < 256" by simp
  then have "unat (c2b c) = of_char c" by (simp add: c2b_def unat_of_nat)
  then show ?thesis by (simp add: b2c_def)
qed

lemma c2b_b2c [simp]: "c2b (b2c b) = b"
proof -
  have "unat b < 256" using unsigned_less [of b] by simp
  then show ?thesis by (simp add: c2b_def b2c_def)
qed

abbreviation nul :: char where
  "nul \<equiv> CHR 0x00"

text \<open>What C reads from a character array: up to the first NUL.\<close>

definition c_str :: "string \<Rightarrow> string" where
  "c_str cs = takeWhile (\<lambda>c. c \<noteq> nul) cs"

definition zeros :: "nat \<Rightarrow> string" where
  "zeros n = replicate n nul"

lemma length_zeros [simp]: "length (zeros n) = n"
  by (simp add: zeros_def)

lemma c_str_append_nul: "nul \<notin> set s \<Longrightarrow> c_str (s @ nul # t) = s"
  by (induction s) (auto simp: c_str_def)

lemma nul_notin_c_str [simp]: "nul \<notin> set (c_str s)"
  by (auto simp: c_str_def dest: set_takeWhileD)

lemma c_str_idem: "nul \<notin> set s \<Longrightarrow> c_str s = s"
  by (induction s) (auto simp: c_str_def)

subsection \<open>Fields of a packed struct\<close>

text \<open>
  \<open>fld off n b\<close> is the slice a struct field occupies. The simplification rules walk over the
  fields of an encoded struct, so a decoder meets its encoder by \<open>simp add: wire\<close>.
\<close>

definition fld :: "nat \<Rightarrow> nat \<Rightarrow> bytes \<Rightarrow> bytes" where
  "fld off n b = take n (drop off b)"

definition rd :: "nat \<Rightarrow> bytes \<Rightarrow> 'a::len word" where
  "rd off b = dec_word (fld off (LENGTH('a) div 8) b)"

definition rd_str :: "nat \<Rightarrow> nat \<Rightarrow> bytes \<Rightarrow> string" where
  "rd_str off n b = map b2c (fld off n b)"

definition wr :: "'a::len word \<Rightarrow> bytes" where
  "wr w = enc_word (LENGTH('a) div 8) w"

definition wr_str :: "string \<Rightarrow> bytes" where
  "wr_str s = map c2b s"

lemma length_wr_str [simp]: "length (wr_str s) = length s"
  by (simp add: wr_str_def)

lemma length_wr8 [simp]: "length (wr (w :: u8)) = 1"
  and length_wr16 [simp]: "length (wr (v :: u16)) = 2"
  and length_wr32 [simp]: "length (wr (x :: u32)) = 4"
  by (simp_all add: wr_def)

lemma fld_skip [wire]: "length xs \<le> off \<Longrightarrow> fld off n (xs @ ys) = fld (off - length xs) n ys"
  by (simp add: fld_def)

lemma rd_skip [wire]: "length xs \<le> off \<Longrightarrow> rd off (xs @ ys) = rd (off - length xs) ys"
  by (simp add: rd_def fld_skip)

lemma rd_str_skip [wire]:
  "length xs \<le> off \<Longrightarrow> rd_str off n (xs @ ys) = rd_str (off - length xs) n ys"
  by (simp add: rd_str_def fld_skip)

lemma rd_str_here [wire]: "length s = n \<Longrightarrow> rd_str 0 n (wr_str s @ ys) = s"
  by (simp add: rd_str_def fld_def wr_str_def o_def)

lemma rd8_here [wire]: "rd 0 (wr (w :: u8) @ ys) = w"
  and rd16_here [wire]: "rd 0 (wr (v :: u16) @ ys) = v"
  and rd32_here [wire]: "rd 0 (wr (x :: u32) @ ys) = x"
  by (simp_all add: rd_def fld_def wr_def dec_enc_word)

lemma wr_rd8: "off + 1 \<le> length b \<Longrightarrow> wr (rd off b :: u8) = fld off 1 b"
  and wr_rd16: "off + 2 \<le> length b \<Longrightarrow> wr (rd off b :: u16) = fld off 2 b"
  and wr_rd32: "off + 4 \<le> length b \<Longrightarrow> wr (rd off b :: u32) = fld off 4 b"
proof -
  assume a: "off + 1 \<le> length b"
  then have "length (fld off 1 b) = 1" by (simp add: fld_def)
  then show "wr (rd off b :: u8) = fld off 1 b"
    using enc_dec_word [of "fld off 1 b", where 'a = 8] by (simp add: wr_def rd_def)
next
  assume a: "off + 2 \<le> length b"
  then have "length (fld off 2 b) = 2" by (simp add: fld_def)
  then show "wr (rd off b :: u16) = fld off 2 b"
    using enc_dec_word [of "fld off 2 b", where 'a = 16] by (simp add: wr_def rd_def)
next
  assume a: "off + 4 \<le> length b"
  then have "length (fld off 4 b) = 4" by (simp add: fld_def)
  then show "wr (rd off b :: u32) = fld off 4 b"
    using enc_dec_word [of "fld off 4 b", where 'a = 32] by (simp add: wr_def rd_def)
qed

lemma wr_str_rd_str: "wr_str (rd_str off n b) = fld off n b"
  by (simp add: wr_str_def rd_str_def o_def)

lemma length_rd_str: "off + n \<le> length b \<Longrightarrow> length (rd_str off n b) = n"
  by (simp add: rd_str_def fld_def)

lemma fld_join: "fld off n b @ fld (off + n) m b = fld off (n + m) b"
  by (simp add: fld_def take_add add.commute [of off])

lemma fld_join_append: "off' = off + n \<Longrightarrow> fld off n b @ (fld off' m b @ r) = fld off (n + m) b @ r"
  by (simp add: fld_join flip: append_assoc)

lemma fld_join_end: "off' = off + n \<Longrightarrow> fld off n b @ fld off' m b = fld off (n + m) b"
  by (simp add: fld_join)

lemma fld_0: "fld 0 n b = take n b"
  by (simp add: fld_def)

lemma take_fld_join: "off = n \<Longrightarrow> take n b @ fld off m b = take (n + m) b"
  by (simp add: fld_def take_add)

lemmas wr_rds = wr_rd8 wr_rd16 wr_rd32 wr_str_rd_str
lemmas fld_joins = fld_join_append fld_join_end take_fld_join fld_0

subsection \<open>Cutting a list into pieces\<close>

lemma concat_pieces: "concat (map (\<lambda>i. take k (drop (i * k) xs)) [0..<n]) = take (n * k) xs"
proof (induction n)
  case (Suc n)
  have "take (Suc n * k) xs = take (n * k) xs @ take k (drop (n * k) xs)"
    using take_add [of "n * k" k xs] by (simp add: add.commute)
  with Suc show ?case by simp
qed simp

subsection \<open>Decimal printing\<close>

text \<open>\<^verbatim>\<open>std::to_string\<close> on an unsigned integer.\<close>

definition digit_char :: "nat \<Rightarrow> char" where
  "digit_char d = char_of (48 + d)"

fun dec_str :: "nat \<Rightarrow> string" where
  "dec_str n = (if n < 10 then [digit_char n] else dec_str (n div 10) @ [digit_char (n mod 10)])"

declare dec_str.simps [simp del]

definition is_digit :: "char \<Rightarrow> bool" where
  "is_digit c \<longleftrightarrow> 48 \<le> (of_char c :: nat) \<and> (of_char c :: nat) \<le> 57"

definition digit_val :: "char \<Rightarrow> nat" where
  "digit_val c = of_char c - 48"

definition dec_val :: "string \<Rightarrow> nat" where
  "dec_val s = foldl (\<lambda>a c. 10 * a + digit_val c) 0 s"

lemma of_digit_char: "d < 10 \<Longrightarrow> (of_char (digit_char d) :: nat) = 48 + d"
  by (simp add: digit_char_def)

lemma digit_char_eval [simp]:
  "digit_char 0 = CHR ''0''" "digit_char (Suc 0) = CHR ''1''" "digit_char 1 = CHR ''1''"
  "digit_char 2 = CHR ''2''" "digit_char 3 = CHR ''3''" "digit_char 4 = CHR ''4''"
  "digit_char 5 = CHR ''5''" "digit_char 6 = CHR ''6''" "digit_char 7 = CHR ''7''"
  "digit_char 8 = CHR ''8''" "digit_char 9 = CHR ''9''"
  by (simp_all add: digit_char_def char_of_def bit_iff_odd)

lemma digit_val_digit_char [simp]: "d < 10 \<Longrightarrow> digit_val (digit_char d) = d"
  by (simp add: digit_val_def of_digit_char)

lemma is_digit_digit_char [simp]: "d < 10 \<Longrightarrow> is_digit (digit_char d)"
  by (simp add: is_digit_def of_digit_char)

lemma dec_val_snoc: "dec_val (s @ [c]) = 10 * dec_val s + digit_val c"
  by (simp add: dec_val_def)

lemma dec_val_dec_str [simp]: "dec_val (dec_str n) = n"
proof (induction n rule: dec_str.induct)
  case (1 n)
  show ?case
  proof (cases "n < 10")
    case True
    then show ?thesis by (subst dec_str.simps) (simp add: dec_val_def)
  next
    case False
    with 1 have "dec_val (dec_str (n div 10)) = n div 10" by simp
    with False show ?thesis
      by (subst dec_str.simps) (simp add: dec_val_snoc)
  qed
qed

lemma dec_str_inject [simp]: "dec_str m = dec_str n \<longleftrightarrow> m = n"
  by (metis dec_val_dec_str)

lemma dec_str_digits: "c \<in> set (dec_str n) \<Longrightarrow> is_digit c"
proof (induction n rule: dec_str.induct)
  case (1 n)
  then show ?case
    by (cases "n < 10") (auto simp: dec_str.simps [of n])
qed

lemma dec_str_not_Nil [simp]: "dec_str n \<noteq> []"
  by (subst dec_str.simps) simp

text \<open>A digit string followed by a separator splits in one way only.\<close>

lemma split_at_sep:
  assumes "xs @ c # ys = xs' @ c # ys'" and "c \<notin> set xs" and "c \<notin> set xs'"
  shows "xs = xs' \<and> ys = ys'"
  using assms
proof (induction xs arbitrary: xs')
  case Nil
  then show ?case by (cases xs') auto
next
  case (Cons x xs)
  then show ?case by (cases xs') auto
qed

subsection \<open>Unordered maps and sets\<close>

definition um_find :: "'k \<Rightarrow> ('k, 'v) umap \<Rightarrow> 'v option" where
  "um_find k m = map_of m k"

definition um_put :: "'k \<Rightarrow> 'v \<Rightarrow> ('k, 'v) umap \<Rightarrow> ('k, 'v) umap" where
  "um_put k v m = AList.update k v m"

text \<open>\<^verbatim>\<open>emplace\<close> keeps the mapped value when the key is already there.\<close>

definition um_emplace :: "'k \<Rightarrow> 'v \<Rightarrow> ('k, 'v) umap \<Rightarrow> ('k, 'v) umap" where
  "um_emplace k v m = (case map_of m k of None \<Rightarrow> m @ [(k, v)] | Some _ \<Rightarrow> m)"

definition um_erase :: "'k \<Rightarrow> ('k, 'v) umap \<Rightarrow> ('k, 'v) umap" where
  "um_erase k m = filter (\<lambda>kv. fst kv \<noteq> k) m"

text \<open>Writing through a reference to the value stored under a key.\<close>

definition um_upd :: "'k \<Rightarrow> ('v \<Rightarrow> 'v) \<Rightarrow> ('k, 'v) umap \<Rightarrow> ('k, 'v) umap" where
  "um_upd k f m = map (\<lambda>kv. if fst kv = k then (fst kv, f (snd kv)) else kv) m"

definition um_ok :: "('k, 'v) umap \<Rightarrow> bool" where
  "um_ok m \<longleftrightarrow> distinct (map fst m)"

definition us_insert :: "'k \<Rightarrow> 'k list \<Rightarrow> 'k list" where
  "us_insert k s = (if k \<in> set s then s else s @ [k])"

definition us_erase :: "'k \<Rightarrow> 'k list \<Rightarrow> 'k list" where
  "us_erase k s = filter (\<lambda>x. x \<noteq> k) s"

lemma um_find_Nil [amap]: "um_find k [] = None"
  by (simp add: um_find_def)

lemma um_find_put [amap]: "um_find k (um_put k' v m) = (if k = k' then Some v else um_find k m)"
  by (simp add: um_find_def um_put_def update_conv')

lemma um_find_emplace [amap]:
  "um_find k (um_emplace k' v m) =
     (if k = k' then (case um_find k' m of None \<Rightarrow> Some v | Some w \<Rightarrow> Some w) else um_find k m)"
  by (auto simp: um_find_def um_emplace_def map_add_def split: option.splits)

lemma um_find_erase [amap]: "um_find k (um_erase k' m) = (if k = k' then None else um_find k m)"
  by (induction m) (auto simp: um_find_def um_erase_def)

lemma um_find_upd [amap]:
  "um_find k (um_upd k' f m) = (if k = k' then map_option f (um_find k m) else um_find k m)"
  by (induction m) (auto simp: um_find_def um_upd_def)

lemma map_fst_upd [simp, amap]: "map fst (um_upd k f m) = map fst m"
  by (simp add: um_upd_def)

lemma length_um_upd [simp, amap]: "length (um_upd k f m) = length m"
  by (simp add: um_upd_def)

lemma um_ok_Nil [amap, simp]: "um_ok []"
  by (simp add: um_ok_def)

lemma um_ok_put [amap, simp]: "um_ok m \<Longrightarrow> um_ok (um_put k v m)"
  by (simp add: um_ok_def um_put_def distinct_update)

lemma um_ok_emplace [amap, simp]: "um_ok m \<Longrightarrow> um_ok (um_emplace k v m)"
  by (auto simp: um_ok_def um_emplace_def map_of_eq_None_iff split: option.splits)

lemma um_ok_erase [amap, simp]: "um_ok m \<Longrightarrow> um_ok (um_erase k m)"
  by (simp add: um_ok_def um_erase_def distinct_map_filter)

lemma um_ok_upd [amap, simp]: "um_ok (um_upd k f m) = um_ok m"
  by (simp add: um_ok_def)

lemma um_find_Some_iff: "um_ok m \<Longrightarrow> um_find k m = Some v \<longleftrightarrow> (k, v) \<in> set m"
  by (simp add: um_ok_def um_find_def)

lemma um_find_SomeD: "um_find k m = Some v \<Longrightarrow> (k, v) \<in> set m"
  by (simp add: um_find_def map_of_SomeD)

lemma um_find_None_iff: "um_find k m = None \<longleftrightarrow> k \<notin> fst ` set m"
  by (simp add: um_find_def map_of_eq_None_iff)

lemma um_find_in_keys: "um_find k m = Some v \<Longrightarrow> k \<in> fst ` set m"
  by (force dest: um_find_SomeD)

lemma set_us_insert [amap, simp]: "set (us_insert k s) = insert k (set s)"
  by (auto simp: us_insert_def)

lemma set_us_erase [amap, simp]: "set (us_erase k s) = set s - {k}"
  by (auto simp: us_erase_def)

lemma distinct_us_insert [amap, simp]: "distinct s \<Longrightarrow> distinct (us_insert k s)"
  by (simp add: us_insert_def)

lemma distinct_us_erase [amap, simp]: "distinct s \<Longrightarrow> distinct (us_erase k s)"
  by (simp add: us_erase_def)

lemma set_um_erase: "set (um_erase k m) = {kv \<in> set m. fst kv \<noteq> k}"
  by (auto simp: um_erase_def)

lemma keys_um_put [amap]: "fst ` set (um_put k v m) = insert k (fst ` set m)"
  by (simp add: um_put_def dom_update)

lemma keys_um_erase [amap]: "fst ` set (um_erase k m) = fst ` set m - {k}"
  by (force simp: um_erase_def)

lemma keys_um_upd [amap]: "fst ` set (um_upd k f m) = fst ` set m"
  by (metis list.set_map map_fst_upd)

end
