(* ===== verification/Ieee.thy ===== *)
theory Ieee
  imports Prelude Complex_Main
begin

text \<open>
  IEEE-754 binary interchange formats on bit patterns, as far as the sources use \<^verbatim>\<open>float\<close> and
  \<^verbatim>\<open>double\<close>: decoding, comparison, and addition, subtraction, multiplication and division
  rounded to nearest, ties to even. A format is given by the width \<open>mb\<close> of the fraction field
  and \<open>eb\<close> of the exponent field (23 and 8 for \<^verbatim>\<open>float\<close>, 52 and 11 for \<^verbatim>\<open>double\<close>).
  Everything is integer arithmetic, so the definitions evaluate; \<open>fp_real\<close> relates them to
  real numbers. An operation with a NaN operand returns that operand with its quiet bit set, as
  the SSE instructions of the target do; an invalid operation returns the default NaN.
\<close>

datatype fp = FNan | FInf bool | FFin bool nat int

definition fp_emin :: "nat \<Rightarrow> nat \<Rightarrow> int" where
  "fp_emin mb eb = 2 - 2 ^ (eb - 1) - int mb"

definition fp_emax :: "nat \<Rightarrow> nat \<Rightarrow> int" where
  "fp_emax mb eb = 2 ^ (eb - 1) - 1 - int mb"

definition fp_fields :: "nat \<Rightarrow> nat \<Rightarrow> bool \<Rightarrow> nat \<Rightarrow> nat \<Rightarrow> fp" where
  "fp_fields mb eb s x f =
     (if x = 2 ^ eb - 1 then (if f = 0 then FInf s else FNan)
      else if x = 0 then FFin s f (fp_emin mb eb)
      else FFin s (2 ^ mb + f) (fp_emin mb eb + int x - 1))"

definition fp_of_bits :: "nat \<Rightarrow> nat \<Rightarrow> nat \<Rightarrow> fp" where
  "fp_of_bits mb eb n =
     fp_fields mb eb (odd (n div 2 ^ (mb + eb))) (n div 2 ^ mb mod 2 ^ eb) (n mod 2 ^ mb)"

definition bits_of_fp :: "nat \<Rightarrow> nat \<Rightarrow> fp \<Rightarrow> nat" where
  "bits_of_fp mb eb v =
     (case v of
        FNan \<Rightarrow> 2 ^ (mb + eb) + (2 ^ eb - 1) * 2 ^ mb + 2 ^ (mb - 1)
      | FInf s \<Rightarrow> (if s then 2 ^ (mb + eb) else 0) + (2 ^ eb - 1) * 2 ^ mb
      | FFin s m e \<Rightarrow> (if s then 2 ^ (mb + eb) else 0) +
          (if m < 2 ^ mb then m else (nat (e - fp_emin mb eb) + 1) * 2 ^ mb + (m - 2 ^ mb)))"

subsection \<open>Rounding\<close>

fun nat_bits :: "nat \<Rightarrow> nat" where
  "nat_bits n = (if n = 0 then 0 else Suc (nat_bits (n div 2)))"

declare nat_bits.simps [simp del]

text \<open>\<open>a / b\<close> to the nearest integer, ties to even.\<close>

definition rne_qr :: "nat \<Rightarrow> nat \<Rightarrow> nat \<Rightarrow> nat" where
  "rne_qr q r b = (if b < 2 * r \<or> (2 * r = b \<and> odd q) then q + 1 else q)"

definition rne :: "nat \<Rightarrow> nat \<Rightarrow> nat" where
  "rne a b = rne_qr (a div b) (a mod b) b"

text \<open>
  The magnitude \<open>n / d\<close> (with \<open>0 < d\<close>) in the format, with sign \<open>s\<close>: the exponent that
  brings the quotient to \<open>mb + 1\<close> bits, at least the smallest one, then one rounding.
\<close>

definition fp_exp :: "nat \<Rightarrow> nat \<Rightarrow> nat \<Rightarrow> int \<Rightarrow> int" where
  "fp_exp mb n d e = (if 2 ^ (mb + 1) * d * 2 ^ nat e \<le> n * 2 ^ nat (- e) then e + 1 else e)"

definition fp_pack :: "nat \<Rightarrow> nat \<Rightarrow> bool \<Rightarrow> nat \<Rightarrow> int \<Rightarrow> fp" where
  "fp_pack mb eb s q e =
     (if q = 2 ^ (mb + 1)
      then (if e + 1 > fp_emax mb eb then FInf s else FFin s (2 ^ mb) (e + 1))
      else (if e > fp_emax mb eb then FInf s else FFin s q e))"

definition fp_round_at :: "nat \<Rightarrow> nat \<Rightarrow> bool \<Rightarrow> nat \<Rightarrow> nat \<Rightarrow> int \<Rightarrow> fp" where
  "fp_round_at mb eb s n d e = fp_pack mb eb s (rne (n * 2 ^ nat (- e)) (d * 2 ^ nat e)) e"

definition fp_round :: "nat \<Rightarrow> nat \<Rightarrow> bool \<Rightarrow> nat \<Rightarrow> nat \<Rightarrow> fp" where
  "fp_round mb eb s n d =
     (if n = 0 then FFin s 0 (fp_emin mb eb)
      else fp_round_at mb eb s n d
        (max (fp_emin mb eb)
          (fp_exp mb n d (int (nat_bits n) - int (nat_bits d) - int (mb + 1)))))"

subsection \<open>Operations\<close>

definition sgn_int :: "bool \<Rightarrow> nat \<Rightarrow> int" where
  "sgn_int s m = (if s then - int m else int m)"

fun fp_less :: "fp \<Rightarrow> fp \<Rightarrow> bool" where
  "fp_less (FFin s m e) (FFin t n f) =
     (sgn_int s m * 2 ^ nat (e - min e f) < sgn_int t n * 2 ^ nat (f - min e f))"
| "fp_less (FInf s) (FInf t) = (s \<and> \<not> t)"
| "fp_less (FInf s) (FFin t n f) = s"
| "fp_less (FFin s m e) (FInf t) = (\<not> t)"
| "fp_less _ _ = False"

fun fp_equal :: "fp \<Rightarrow> fp \<Rightarrow> bool" where
  "fp_equal (FFin s m e) (FFin t n f) =
     (sgn_int s m * 2 ^ nat (e - min e f) = sgn_int t n * 2 ^ nat (f - min e f))"
| "fp_equal (FInf s) (FInf t) = (s = t)"
| "fp_equal _ _ = False"

definition fp_add_fin :: "nat \<Rightarrow> nat \<Rightarrow> bool \<Rightarrow> int \<Rightarrow> int \<Rightarrow> fp" where
  "fp_add_fin mb eb s z g =
     (if z = 0 then FFin s 0 (fp_emin mb eb)
      else fp_round mb eb (z < 0) (nat \<bar>z\<bar> * 2 ^ nat g) (2 ^ nat (- g)))"

fun fp_add :: "nat \<Rightarrow> nat \<Rightarrow> fp \<Rightarrow> fp \<Rightarrow> fp" where
  "fp_add mb eb (FFin s m e) (FFin t n f) =
     fp_add_fin mb eb (s \<and> t)
       (sgn_int s m * 2 ^ nat (e - min e f) + sgn_int t n * 2 ^ nat (f - min e f)) (min e f)"
| "fp_add mb eb (FInf s) (FInf t) = (if s = t then FInf s else FNan)"
| "fp_add mb eb (FInf s) (FFin t n f) = FInf s"
| "fp_add mb eb (FFin s m e) (FInf t) = FInf t"
| "fp_add mb eb _ _ = FNan"

fun fp_neg :: "fp \<Rightarrow> fp" where
  "fp_neg FNan = FNan"
| "fp_neg (FInf s) = FInf (\<not> s)"
| "fp_neg (FFin s m e) = FFin (\<not> s) m e"

fun fp_mul :: "nat \<Rightarrow> nat \<Rightarrow> fp \<Rightarrow> fp \<Rightarrow> fp" where
  "fp_mul mb eb (FFin s m e) (FFin t n f) =
     fp_round mb eb (s \<noteq> t) (m * n * 2 ^ nat (e + f)) (2 ^ nat (- (e + f)))"
| "fp_mul mb eb (FInf s) (FInf t) = FInf (s \<noteq> t)"
| "fp_mul mb eb (FInf s) (FFin t n f) = (if n = 0 then FNan else FInf (s \<noteq> t))"
| "fp_mul mb eb (FFin s m e) (FInf t) = (if m = 0 then FNan else FInf (s \<noteq> t))"
| "fp_mul mb eb _ _ = FNan"

fun fp_div :: "nat \<Rightarrow> nat \<Rightarrow> fp \<Rightarrow> fp \<Rightarrow> fp" where
  "fp_div mb eb (FFin s m e) (FFin t n f) =
     (if n = 0 then (if m = 0 then FNan else FInf (s \<noteq> t))
      else fp_round mb eb (s \<noteq> t) (m * 2 ^ nat (e - f)) (n * 2 ^ nat (f - e)))"
| "fp_div mb eb (FInf s) (FFin t n f) = FInf (s \<noteq> t)"
| "fp_div mb eb (FFin s m e) (FInf t) = FFin (s \<noteq> t) 0 (fp_emin mb eb)"
| "fp_div mb eb _ _ = FNan"

subsection \<open>The two formats\<close>

definition f32_fp :: "f32 \<Rightarrow> fp" where "f32_fp w = fp_of_bits 23 8 (unat w)"
definition f64_fp :: "f64 \<Rightarrow> fp" where "f64_fp w = fp_of_bits 52 11 (unat w)"
definition fp_f32 :: "fp \<Rightarrow> f32" where "fp_f32 v = word_of_nat (bits_of_fp 23 8 v)"
definition fp_f64 :: "fp \<Rightarrow> f64" where "fp_f64 v = word_of_nat (bits_of_fp 52 11 v)"

definition f32_less :: "f32 \<Rightarrow> f32 \<Rightarrow> bool" where "f32_less a b = fp_less (f32_fp a) (f32_fp b)"
definition f32_eq :: "f32 \<Rightarrow> f32 \<Rightarrow> bool" where "f32_eq a b = fp_equal (f32_fp a) (f32_fp b)"
definition f32_le :: "f32 \<Rightarrow> f32 \<Rightarrow> bool" where "f32_le a b \<longleftrightarrow> f32_less a b \<or> f32_eq a b"
definition f64_less :: "f64 \<Rightarrow> f64 \<Rightarrow> bool" where "f64_less a b = fp_less (f64_fp a) (f64_fp b)"
definition f64_eq :: "f64 \<Rightarrow> f64 \<Rightarrow> bool" where "f64_eq a b = fp_equal (f64_fp a) (f64_fp b)"
definition f64_le :: "f64 \<Rightarrow> f64 \<Rightarrow> bool" where "f64_le a b \<longleftrightarrow> f64_less a b \<or> f64_eq a b"

definition f32_op :: "(fp \<Rightarrow> fp \<Rightarrow> fp) \<Rightarrow> f32 \<Rightarrow> f32 \<Rightarrow> f32" where
  "f32_op g a b =
     (if f32_fp a = FNan then a OR 0x00400000
      else if f32_fp b = FNan then b OR 0x00400000
      else fp_f32 (g (f32_fp a) (f32_fp b)))"

definition f64_op :: "(fp \<Rightarrow> fp \<Rightarrow> fp) \<Rightarrow> f64 \<Rightarrow> f64 \<Rightarrow> f64" where
  "f64_op g a b =
     (if f64_fp a = FNan then a OR 0x0008000000000000
      else if f64_fp b = FNan then b OR 0x0008000000000000
      else fp_f64 (g (f64_fp a) (f64_fp b)))"

definition f32_add :: "f32 \<Rightarrow> f32 \<Rightarrow> f32" where "f32_add = f32_op (fp_add 23 8)"
definition f32_sub :: "f32 \<Rightarrow> f32 \<Rightarrow> f32" where "f32_sub = f32_op (\<lambda>a b. fp_add 23 8 a (fp_neg b))"
definition f32_mul :: "f32 \<Rightarrow> f32 \<Rightarrow> f32" where "f32_mul = f32_op (fp_mul 23 8)"
definition f32_div :: "f32 \<Rightarrow> f32 \<Rightarrow> f32" where "f32_div = f32_op (fp_div 23 8)"
definition f64_add :: "f64 \<Rightarrow> f64 \<Rightarrow> f64" where "f64_add = f64_op (fp_add 52 11)"
definition f64_sub :: "f64 \<Rightarrow> f64 \<Rightarrow> f64" where "f64_sub = f64_op (\<lambda>a b. fp_add 52 11 a (fp_neg b))"
definition f64_mul :: "f64 \<Rightarrow> f64 \<Rightarrow> f64" where "f64_mul = f64_op (fp_mul 52 11)"
definition f64_div :: "f64 \<Rightarrow> f64 \<Rightarrow> f64" where "f64_div = f64_op (fp_div 52 11)"

lemma nat_bits_eval:
  "nat_bits 0 = 0" "nat_bits (Suc 0) = 1" "nat_bits 1 = 1"
  "nat_bits (numeral (Num.Bit0 k)) = nat_bits (numeral k) + 1"
  "nat_bits (numeral (Num.Bit1 k)) = nat_bits (numeral k) + 1"
  by (simp_all add: nat_bits.simps [of "numeral (Num.Bit0 k)"] nat_bits.simps [of "numeral (Num.Bit1 k)"]
      nat_bits.simps [of 0] nat_bits.simps [of "Suc 0"])

text \<open>Evaluation of closed terms by the simplifier.\<close>

lemmas ieee_eval = fp_f32_def fp_f64_def f32_fp_def f64_fp_def fp_of_bits_def fp_fields_def
  bits_of_fp_def fp_round_def fp_round_at_def fp_exp_def fp_pack_def rne_def rne_qr_def
  nat_bits_eval fp_emin_def fp_emax_def fp_add_fin_def
  sgn_int_def f32_op_def f64_op_def f32_add_def f32_sub_def f32_mul_def f32_div_def f64_add_def
  f64_sub_def f64_mul_def f64_div_def f32_less_def f32_eq_def f32_le_def
  f64_less_def f64_eq_def f64_le_def

text \<open>Literals: an integer constant of the sources.\<close>

definition f32_of_int :: "int \<Rightarrow> f32" where
  "f32_of_int i = fp_f32 (fp_round 23 8 (i < 0) (nat \<bar>i\<bar>) 1)"

definition f64_of_int :: "int \<Rightarrow> f64" where
  "f64_of_int i = fp_f64 (fp_round 52 11 (i < 0) (nat \<bar>i\<bar>) 1)"

subsection \<open>Real values\<close>

definition fp_real :: "fp \<Rightarrow> real" where
  "fp_real v = (case v of FFin s m e \<Rightarrow> of_int (sgn_int s m) * 2 powr of_int e | _ \<Rightarrow> 0)"

definition fp_finite :: "fp \<Rightarrow> bool" where
  "fp_finite v = (case v of FFin _ _ _ \<Rightarrow> True | _ \<Rightarrow> False)"

lemma scale_real:
  assumes "g \<le> e"
  shows "of_int (x * 2 ^ nat (e - g)) * 2 powr of_int g = (of_int x * 2 powr of_int e :: real)"
proof -
  have "(2::real) powr of_int e = 2 powr (of_int (e - g) + of_int g)" by simp
  also have "\<dots> = 2 ^ nat (e - g) * 2 powr of_int g"
    using assms by (simp add: powr_realpow [symmetric] flip: powr_add)
  finally show ?thesis by simp
qed

lemma fp_less_real:
  assumes "fp_finite a" "fp_finite b"
  shows "fp_less a b \<longleftrightarrow> fp_real a < fp_real b"
proof -
  obtain s m e t n f where ab: "a = FFin s m e" "b = FFin t n f"
    using assms by (auto simp: fp_finite_def split: fp.splits)
  let ?g = "min e f"
  have "fp_real a < fp_real b \<longleftrightarrow>
      of_int (sgn_int s m * 2 ^ nat (e - ?g)) * 2 powr of_int ?g
      < (of_int (sgn_int t n * 2 ^ nat (f - ?g)) * 2 powr of_int ?g :: real)"
    by (simp only: ab fp_real_def fp.case scale_real [of ?g e] scale_real [of ?g f] min.cobounded1 min.cobounded2)
  also have "\<dots> \<longleftrightarrow> sgn_int s m * 2 ^ nat (e - ?g) < sgn_int t n * 2 ^ nat (f - ?g)"
    by (simp only: mult_less_cancel_right_pos powr_gt_zero of_int_less_iff)
  finally show ?thesis by (simp add: ab)
qed

lemma fp_less_irrefl [simp]: "\<not> fp_less a a"
  by (cases a) auto

lemma fp_less_NaN [simp]: "\<not> fp_less FNan b" "\<not> fp_less a FNan"
  by (cases a; simp)+

lemma fp_less_trans: "fp_less a b \<Longrightarrow> fp_less b c \<Longrightarrow> fp_less a c"
proof (cases "fp_finite a \<and> fp_finite b \<and> fp_finite c")
  case True
  moreover assume "fp_less a b" "fp_less b c"
  ultimately show ?thesis by (simp add: fp_less_real)
next
  case False
  moreover assume "fp_less a b" "fp_less b c"
  ultimately show ?thesis
    by (cases a; cases b; cases c; simp add: fp_finite_def)
qed

lemma fp_less_asym: "fp_less a b \<Longrightarrow> \<not> fp_less b a"
  using fp_less_trans [of a b a] by auto

end
