(* ===== verification/Protocol.thy ===== *)
theory Protocol
  imports Ieee
begin

text \<open>
  \<^verbatim>\<open>protocol/cmp_protocol.hpp\<close>: the constants, the message types, one record per packed struct,
  the header checks and the \<^verbatim>\<open>make_*\<close> constructors. A \<^verbatim>\<open>char[N]\<close> field is a string of
  exactly \<open>N\<close> characters. The memory layout of the structs is in the theory Codec.
\<close>

subsection \<open>Constants\<close>

definition kMagic :: string where "kMagic = ''CMP1''"
definition kProtocolVersion :: nat where "kProtocolVersion = 12"
definition kPluginVersion :: u32 where "kPluginVersion = 12"
definition kDefaultPort :: u16 where "kDefaultPort = 7777"
definition kCommonwealthWorldspace :: u32 where "kCommonwealthWorldspace = 0x0000003C"
definition kMaxDatagram :: nat where "kMaxDatagram = 512"
definition kMaxTcpFrame :: nat where "kMaxTcpFrame = 65535"
definition kSanctuaryX :: f32 where "kSanctuaryX = f32_of_int (-79348)"
definition kSanctuaryY :: f32 where "kSanctuaryY = f32_of_int 89752"
definition kSanctuaryZ :: f32 where "kSanctuaryZ = f32_of_int 7936"
definition kPlayerBaseForm :: u32 where "kPlayerBaseForm = 0x00000007"
definition kEncWorkshopNpcForm :: u32 where "kEncWorkshopNpcForm = 0x00020593"
definition kHelloFlagRequireHost :: u8 where "kHelloFlagRequireHost = 1"
definition kSessionPvpEnabled :: u32 where "kSessionPvpEnabled = 1"
definition kSessionPasswordRequired :: u32 where "kSessionPasswordRequired = 2"
definition kGuestSpawnOffsetX :: f32 where "kGuestSpawnOffsetX = f32_of_int 80"

subsection \<open>Message types\<close>

datatype msg =
    Hello | Welcome | PlayerPose | Bye | Reject | WorldSnapshot | AppearanceChunk
  | InventoryChunk | SessionQuery | SessionInfo | ActorPose | Hit | Chat | Kick | Heartbeat
  | Teleport | SessionRules | UdpBind

fun msg_code :: "msg \<Rightarrow> nat" where
  "msg_code Hello = 1" | "msg_code Welcome = 2" | "msg_code PlayerPose = 3" | "msg_code Bye = 4"
| "msg_code Reject = 5" | "msg_code WorldSnapshot = 6" | "msg_code AppearanceChunk = 7"
| "msg_code InventoryChunk = 8" | "msg_code SessionQuery = 9" | "msg_code SessionInfo = 10"
| "msg_code ActorPose = 11" | "msg_code Hit = 12" | "msg_code Chat = 13" | "msg_code Kick = 14"
| "msg_code Heartbeat = 15" | "msg_code Teleport = 16" | "msg_code SessionRules = 17"
| "msg_code UdpBind = 18"

definition all_msgs :: "msg list" where
  "all_msgs = [Hello, Welcome, PlayerPose, Bye, Reject, WorldSnapshot, AppearanceChunk,
     InventoryChunk, SessionQuery, SessionInfo, ActorPose, Hit, Chat, Kick, Heartbeat, Teleport,
     SessionRules, UdpBind]"

text \<open>
  \<^verbatim>\<open>static_cast<Msg>(h.type)\<close>: any byte is a value of the enum; the ones that name no
  enumerator are \<open>None\<close> and take the \<^verbatim>\<open>default\<close> branch of every switch.
\<close>

definition msg_of_u8 :: "u8 \<Rightarrow> msg option" where
  "msg_of_u8 b = find (\<lambda>m. msg_code m = unat b) all_msgs"

datatype reject_reason =
    RR_None | RR_Protocol | RR_PluginVersion | RR_NotInWorld | RR_NoHost | RR_HostNotStreaming
  | RR_Full | RR_Banned | RR_Password | RR_ModMismatch

fun reject_code :: "reject_reason \<Rightarrow> u32" where
  "reject_code RR_None = 0" | "reject_code RR_Protocol = 1" | "reject_code RR_PluginVersion = 2"
| "reject_code RR_NotInWorld = 4" | "reject_code RR_NoHost = 8"
| "reject_code RR_HostNotStreaming = 16" | "reject_code RR_Full = 32"
| "reject_code RR_Banned = 64" | "reject_code RR_Password = 128"
| "reject_code RR_ModMismatch = 256"

fun msg_is_udp :: "msg \<Rightarrow> bool" where
  "msg_is_udp PlayerPose = True"
| "msg_is_udp ActorPose = True"
| "msg_is_udp UdpBind = True"
| "msg_is_udp _ = False"

definition msg_is_tcp :: "msg \<Rightarrow> bool" where
  "msg_is_tcp t = (\<not> msg_is_udp t)"

subsection \<open>Structs\<close>

record header =
  h_magic :: string
  h_type :: u8
  h_version :: u8
  h_size :: u16
  h_seq :: u16
  h_flags :: u8
  h_reserved :: u8

record hello =
  he_header :: header
  he_protocol :: u32
  he_pluginVersion :: u32
  he_playerKey :: string
  he_name :: string
  he_locationFormId :: u32
  he_gameDaysPassed :: f32
  he_gameHour :: f32
  he_weatherFormId :: u32
  he_x :: f32
  he_y :: f32
  he_z :: f32
  he_inWorld :: u8
  he_interior :: u8
  he_flags :: u8
  he_modHash :: u32
  he_password :: string

record welcome_msg =
  we_header :: header
  we_peerId :: u32
  we_fakePeerId :: u32
  we_isNewPlayer :: u8
  we_isHost :: u8
  we_sessionFlags :: u32
  we_udpToken :: u32

record session_rules =
  sr_header :: header
  sr_sessionFlags :: u32

record player_pose =
  pp_header :: header
  pp_peerId :: u32
  pp_locationFormId :: u32
  pp_x :: f32
  pp_y :: f32
  pp_z :: f32
  pp_yaw :: f32
  pp_pitch :: f32
  pp_speed :: f32
  pp_vx :: f32
  pp_vy :: f32
  pp_flags :: u32

record bye =
  by_header :: header
  by_peerId :: u32

record hit =
  hi_header :: header
  hi_attackerPeerId :: u32
  hi_targetPeerId :: u32
  hi_damage :: f32
  hi_flags :: u32

record chat =
  ch_header :: header
  ch_fromPeerId :: u32
  ch_text :: string

record kick =
  ki_header :: header
  ki_targetPeerId :: u32
  ki_reason :: string

record heartbeat =
  hb_header :: header
  hb_peerId :: u32
  hb_clientStampMs :: u32

record teleport =
  tp_header :: header
  tp_targetPeerId :: u32
  tp_x :: f32
  tp_y :: f32
  tp_z :: f32
  tp_locationFormId :: u32

record actor_pose =
  ap_header :: header
  ap_refFormId :: u32
  ap_baseFormId :: u32
  ap_locationFormId :: u32
  ap_x :: f32
  ap_y :: f32
  ap_z :: f32
  ap_yaw :: f32
  ap_pitch :: f32
  ap_speed :: f32
  ap_vx :: f32
  ap_vy :: f32
  ap_flags :: u32
  ap_unique :: u8
  ap_dead :: u8
  ap_pad :: string

record reject =
  re_header :: header
  re_reason :: u32
  re_message :: string

record world_snapshot =
  ws_header :: header
  ws_gameHour :: f32
  ws_gameDaysPassed :: f32
  ws_weatherFormId :: u32
  ws_hostLocationFormId :: u32
  ws_hostX :: f32
  ws_hostY :: f32
  ws_hostZ :: f32
  ws_hostPeerId :: u32
  ws_placeLocationFormId :: u32
  ws_placeX :: f32
  ws_placeY :: f32
  ws_placeZ :: f32
  ws_isNewPlayer :: u8
  ws_pad :: string

record blob_chunk =
  bc_header :: header
  bc_peerId :: u32
  bc_chunkIndex :: u16
  bc_chunkCount :: u16
  bc_blobBytes :: u16
  bc_payloadBytes :: u16

record session_query =
  sq_header :: header
  sq_pluginVersion :: u32
  sq_pad :: string

record session_info =
  si_header :: header
  si_hostPeerId :: u32
  si_hostLocationFormId :: u32
  si_hostX :: f32
  si_hostY :: f32
  si_hostZ :: f32
  si_clientCount :: u32
  si_haveHost :: u8
  si_hostInterior :: u8
  si_sessionFlags :: u32
  si_serverName :: string
  si_maxPlayers :: u32
  si_motd :: string

record udp_bind =
  ub_header :: header
  ub_peerId :: u32
  ub_udpToken :: u32

text \<open>The sizes the \<^verbatim>\<open>static_assert\<close>s pin; \<^verbatim>\<open>BlobChunk\<close> is both chunk types.\<close>

definition sizeof_Header :: nat where "sizeof_Header = 12"

fun sizeof_msg :: "msg \<Rightarrow> nat" where
  "sizeof_msg Hello = 135" | "sizeof_msg Welcome = 30" | "sizeof_msg SessionRules = 16"
| "sizeof_msg PlayerPose = 56" | "sizeof_msg Bye = 16" | "sizeof_msg Hit = 28"
| "sizeof_msg Chat = 96" | "sizeof_msg Kick = 96" | "sizeof_msg Heartbeat = 20"
| "sizeof_msg Teleport = 32" | "sizeof_msg ActorPose = 64" | "sizeof_msg Reject = 112"
| "sizeof_msg WorldSnapshot = 64" | "sizeof_msg AppearanceChunk = 24"
| "sizeof_msg InventoryChunk = 24" | "sizeof_msg SessionQuery = 20"
| "sizeof_msg SessionInfo = 142" | "sizeof_msg UdpBind = 20"

definition sizeof_BlobChunk :: nat where "sizeof_BlobChunk = 24"

definition kBlobPayloadMax :: nat where
  "kBlobPayloadMax = kMaxDatagram - sizeof_BlobChunk"

subsection \<open>Pose flags\<close>

definition PF_Sneak :: u32 where "PF_Sneak = push_bit 0 1"
definition PF_Sprint :: u32 where "PF_Sprint = push_bit 1 1"
definition PF_Drawn :: u32 where "PF_Drawn = push_bit 2 1"
definition PF_Reloading :: u32 where "PF_Reloading = push_bit 3 1"
definition PF_Attacking :: u32 where "PF_Attacking = push_bit 4 1"
definition PF_Jumping :: u32 where "PF_Jumping = push_bit 5 1"
definition PF_Sighted :: u32 where "PF_Sighted = push_bit 6 1"
definition PF_Dead :: u32 where "PF_Dead = push_bit 7 1"
definition PF_Pipboy :: u32 where "PF_Pipboy = push_bit 8 1"
definition PF_Menu :: u32 where "PF_Menu = push_bit 9 1"
definition PF_SlowWalk :: u32 where "PF_SlowWalk = push_bit 10 1"

definition has_pose_flag :: "u32 \<Rightarrow> u32 \<Rightarrow> bool" where
  "has_pose_flag flags b = (flags AND b \<noteq> 0)"

definition kPoseAnimStepCount :: int where "kPoseAnimStepCount = 8"

definition kSteps :: "u32 list" where
  "kSteps = [PF_Drawn, PF_Drawn OR PF_Sighted, PF_Drawn OR PF_Sighted OR PF_Attacking,
     PF_Drawn OR PF_Reloading, PF_Jumping, PF_Sneak, PF_Sprint, 0]"

definition pose_anim_flags :: "int \<Rightarrow> u32" where
  "pose_anim_flags step = kSteps ! nat ((if step < 0 then 0 else step) mod kPoseAnimStepCount)"

definition pose_anim_holds_still :: "u32 \<Rightarrow> bool" where
  "pose_anim_holds_still flags \<longleftrightarrow> has_pose_flag flags PF_Drawn \<or> has_pose_flag flags PF_Jumping"

definition pose_anim_name :: "u32 \<Rightarrow> string" where
  "pose_anim_name flags =
     (if has_pose_flag flags PF_Attacking then ''fire''
      else if has_pose_flag flags PF_Reloading then ''reload''
      else if has_pose_flag flags PF_Sighted then ''ads''
      else if has_pose_flag flags PF_Pipboy then ''pipboy''
      else if has_pose_flag flags PF_Menu then ''menu''
      else if has_pose_flag flags PF_Jumping then ''jump''
      else if has_pose_flag flags PF_Drawn then ''draw''
      else if has_pose_flag flags PF_SlowWalk then ''slowwalk''
      else if has_pose_flag flags PF_Sneak then ''sneak''
      else if has_pose_flag flags PF_Sprint then ''sprint''
      else ''walk'')"

subsection \<open>Headers\<close>

definition fill_header :: "nat \<Rightarrow> msg \<Rightarrow> header" where
  "fill_header sz t =
     \<lparr>h_magic = kMagic, h_type = word_of_nat (msg_code t),
      h_version = word_of_nat kProtocolVersion, h_size = word_of_nat sz, h_seq = 0, h_flags = 0,
      h_reserved = 0\<rparr>"

fun expected_msg_size :: "msg \<Rightarrow> u16 \<Rightarrow> bool" where
  "expected_msg_size AppearanceChunk n = (sizeof_BlobChunk \<le> unat n)"
| "expected_msg_size InventoryChunk n = (sizeof_BlobChunk \<le> unat n)"
| "expected_msg_size t n = (unat n = sizeof_msg t)"

definition header_ok :: "header \<Rightarrow> nat \<Rightarrow> bool" where
  "header_ok h nbytes =
     (if h_magic h \<noteq> kMagic \<or> unat (h_size h) > nbytes \<or> unat (h_size h) < sizeof_Header
      then False
      else case msg_of_u8 (h_type h) of
             None \<Rightarrow> False
           | Some t \<Rightarrow> expected_msg_size t (h_size h))"

text \<open>\<^verbatim>\<open>copy_cstr\<close> writes into an array of \<^verbatim>\<open>destSize\<close> characters and leaves the rest of it.\<close>

definition copy_cstr :: "string \<Rightarrow> string \<Rightarrow> string" where
  "copy_cstr dest src =
     (if dest = [] then dest
      else
        let n = (if length src < length dest - 1 then length src else length dest - 1)
        in take n src @ [nul] @ drop (n + 1) dest)"

definition clamp_hit_damage :: "f32 \<Rightarrow> f32" where
  "clamp_hit_damage d =
     (if \<not> f32_less 0 d then 0
      else if f32_less (f32_of_int 500) d then f32_of_int 500
      else d)"

definition forbidden_actor_base :: "u32 \<Rightarrow> bool" where
  "forbidden_actor_base formId =
     (let l = formId AND 0x00FFFFFF
      in l = kPlayerBaseForm AND 0x00FFFFFF \<or> l = kEncWorkshopNpcForm AND 0x00FFFFFF)"

definition flag_u8 :: "bool \<Rightarrow> u8" where
  "flag_u8 b = (if b then 1 else 0)"

subsection \<open>Message constructors\<close>

definition make_hello ::
  "string \<Rightarrow> string \<Rightarrow> bool \<Rightarrow> u32 \<Rightarrow> f32 \<Rightarrow> f32 \<Rightarrow> u32 \<Rightarrow> f32 \<Rightarrow> f32 \<Rightarrow> f32 \<Rightarrow> bool \<Rightarrow> u8 \<Rightarrow> u32 \<Rightarrow>
   string \<Rightarrow> hello" where
  "make_hello name playerKey inWorld locationFormId gameDaysPassed gameHour weatherFormId x y z
     interior flags modHash password =
   \<lparr>he_header = fill_header (sizeof_msg Hello) Hello,
    he_protocol = word_of_nat kProtocolVersion,
    he_pluginVersion = kPluginVersion,
    he_playerKey = copy_cstr (zeros 32) playerKey,
    he_name = copy_cstr (zeros 32) name,
    he_locationFormId = locationFormId,
    he_gameDaysPassed = gameDaysPassed,
    he_gameHour = gameHour,
    he_weatherFormId = weatherFormId,
    he_x = x, he_y = y, he_z = z,
    he_inWorld = flag_u8 inWorld,
    he_interior = flag_u8 interior,
    he_flags = flags,
    he_modHash = modHash,
    he_password = copy_cstr (zeros 16) password\<rparr>"

definition make_welcome :: "u32 \<Rightarrow> u32 \<Rightarrow> bool \<Rightarrow> bool \<Rightarrow> u32 \<Rightarrow> u32 \<Rightarrow> welcome_msg" where
  "make_welcome peerId fakePeerId isNewPlayer isHost sessionFlags udpToken =
   \<lparr>we_header = fill_header (sizeof_msg Welcome) Welcome,
    we_peerId = peerId, we_fakePeerId = fakePeerId,
    we_isNewPlayer = flag_u8 isNewPlayer, we_isHost = flag_u8 isHost,
    we_sessionFlags = sessionFlags, we_udpToken = udpToken\<rparr>"

definition make_session_rules :: "u32 \<Rightarrow> session_rules" where
  "make_session_rules sessionFlags =
   \<lparr>sr_header = fill_header (sizeof_msg SessionRules) SessionRules,
    sr_sessionFlags = sessionFlags\<rparr>"

definition make_pose ::
  "u32 \<Rightarrow> u32 \<Rightarrow> f32 \<Rightarrow> f32 \<Rightarrow> f32 \<Rightarrow> f32 \<Rightarrow> f32 \<Rightarrow> f32 \<Rightarrow> f32 \<Rightarrow> f32 \<Rightarrow> u32 \<Rightarrow> player_pose" where
  "make_pose peerId locationFormId x y z yaw pitch speed vx vy flags =
   \<lparr>pp_header = fill_header (sizeof_msg PlayerPose) PlayerPose,
    pp_peerId = peerId, pp_locationFormId = locationFormId,
    pp_x = x, pp_y = y, pp_z = z, pp_yaw = yaw, pp_pitch = pitch, pp_speed = speed,
    pp_vx = vx, pp_vy = vy, pp_flags = flags\<rparr>"

definition make_actor_pose ::
  "u32 \<Rightarrow> u32 \<Rightarrow> u32 \<Rightarrow> f32 \<Rightarrow> f32 \<Rightarrow> f32 \<Rightarrow> f32 \<Rightarrow> f32 \<Rightarrow> f32 \<Rightarrow> f32 \<Rightarrow> f32 \<Rightarrow> u32 \<Rightarrow> bool \<Rightarrow> bool \<Rightarrow>
   actor_pose" where
  "make_actor_pose refFormId baseFormId locationFormId x y z yaw pitch speed vx vy flags unique
     dead =
   \<lparr>ap_header = fill_header (sizeof_msg ActorPose) ActorPose,
    ap_refFormId = refFormId, ap_baseFormId = baseFormId, ap_locationFormId = locationFormId,
    ap_x = x, ap_y = y, ap_z = z, ap_yaw = yaw, ap_pitch = pitch, ap_speed = speed,
    ap_vx = vx, ap_vy = vy, ap_flags = flags, ap_unique = flag_u8 unique, ap_dead = flag_u8 dead,
    ap_pad = zeros 2\<rparr>"

definition make_bye :: "u32 \<Rightarrow> bye" where
  "make_bye peerId = \<lparr>by_header = fill_header (sizeof_msg Bye) Bye, by_peerId = peerId\<rparr>"

definition make_hit :: "u32 \<Rightarrow> u32 \<Rightarrow> f32 \<Rightarrow> u32 \<Rightarrow> hit" where
  "make_hit attackerPeerId targetPeerId damage flags =
   \<lparr>hi_header = fill_header (sizeof_msg Hit) Hit, hi_attackerPeerId = attackerPeerId,
    hi_targetPeerId = targetPeerId, hi_damage = clamp_hit_damage damage, hi_flags = flags\<rparr>"

definition make_chat :: "u32 \<Rightarrow> string \<Rightarrow> chat" where
  "make_chat fromPeerId txt =
   \<lparr>ch_header = fill_header (sizeof_msg Chat) Chat, ch_fromPeerId = fromPeerId,
    ch_text = copy_cstr (zeros 80) txt\<rparr>"

definition make_kick :: "u32 \<Rightarrow> string \<Rightarrow> kick" where
  "make_kick targetPeerId reason =
   \<lparr>ki_header = fill_header (sizeof_msg Kick) Kick, ki_targetPeerId = targetPeerId,
    ki_reason = copy_cstr (zeros 80) reason\<rparr>"

definition make_heartbeat :: "u32 \<Rightarrow> u32 \<Rightarrow> heartbeat" where
  "make_heartbeat peerId clientStampMs =
   \<lparr>hb_header = fill_header (sizeof_msg Heartbeat) Heartbeat, hb_peerId = peerId,
    hb_clientStampMs = clientStampMs\<rparr>"

definition make_udp_bind :: "u32 \<Rightarrow> u32 \<Rightarrow> udp_bind" where
  "make_udp_bind peerId udpToken =
   \<lparr>ub_header = fill_header (sizeof_msg UdpBind) UdpBind, ub_peerId = peerId,
    ub_udpToken = udpToken\<rparr>"

definition make_teleport :: "u32 \<Rightarrow> f32 \<Rightarrow> f32 \<Rightarrow> f32 \<Rightarrow> u32 \<Rightarrow> teleport" where
  "make_teleport targetPeerId x y z locationFormId =
   \<lparr>tp_header = fill_header (sizeof_msg Teleport) Teleport, tp_targetPeerId = targetPeerId,
    tp_x = x, tp_y = y, tp_z = z, tp_locationFormId = locationFormId\<rparr>"

definition make_reject :: "reject_reason \<Rightarrow> string \<Rightarrow> reject" where
  "make_reject reason txt =
   \<lparr>re_header = fill_header (sizeof_msg Reject) Reject, re_reason = reject_code reason,
    re_message = copy_cstr (zeros 96) txt\<rparr>"

definition make_world_snapshot ::
  "f32 \<Rightarrow> f32 \<Rightarrow> u32 \<Rightarrow> u32 \<Rightarrow> f32 \<Rightarrow> f32 \<Rightarrow> f32 \<Rightarrow> u32 \<Rightarrow> u32 \<Rightarrow> f32 \<Rightarrow> f32 \<Rightarrow> f32 \<Rightarrow> bool \<Rightarrow>
   world_snapshot" where
  "make_world_snapshot gameHour gameDaysPassed weatherFormId hostLocationFormId hostX hostY hostZ
     hostPeerId placeLocationFormId placeX placeY placeZ isNewPlayer =
   \<lparr>ws_header = fill_header (sizeof_msg WorldSnapshot) WorldSnapshot,
    ws_gameHour = gameHour, ws_gameDaysPassed = gameDaysPassed,
    ws_weatherFormId = weatherFormId, ws_hostLocationFormId = hostLocationFormId,
    ws_hostX = hostX, ws_hostY = hostY, ws_hostZ = hostZ, ws_hostPeerId = hostPeerId,
    ws_placeLocationFormId = placeLocationFormId, ws_placeX = placeX, ws_placeY = placeY,
    ws_placeZ = placeZ, ws_isNewPlayer = flag_u8 isNewPlayer, ws_pad = zeros 3\<rparr>"

definition make_session_query :: session_query where
  "make_session_query =
   \<lparr>sq_header = fill_header (sizeof_msg SessionQuery) SessionQuery,
    sq_pluginVersion = kPluginVersion, sq_pad = zeros 4\<rparr>"

definition make_session_info ::
  "u32 \<Rightarrow> u32 \<Rightarrow> f32 \<Rightarrow> f32 \<Rightarrow> f32 \<Rightarrow> u32 \<Rightarrow> bool \<Rightarrow> bool \<Rightarrow> string \<Rightarrow> u32 \<Rightarrow> string \<Rightarrow> u32 \<Rightarrow> session_info"
  where
  "make_session_info hostPeerId hostLocationFormId hostX hostY hostZ clientCount haveHost
     hostInterior serverName maxPlayers motd sessionFlags =
   \<lparr>si_header = fill_header (sizeof_msg SessionInfo) SessionInfo,
    si_hostPeerId = hostPeerId, si_hostLocationFormId = hostLocationFormId,
    si_hostX = hostX, si_hostY = hostY, si_hostZ = hostZ, si_clientCount = clientCount,
    si_haveHost = flag_u8 haveHost, si_hostInterior = flag_u8 hostInterior,
    si_sessionFlags = sessionFlags, si_serverName = copy_cstr (zeros 32) serverName,
    si_maxPlayers = maxPlayers, si_motd = copy_cstr (zeros 64) motd\<rparr>"

lemmas make_defs = make_hello_def make_welcome_def make_session_rules_def make_pose_def
  make_actor_pose_def make_bye_def make_hit_def make_chat_def make_kick_def make_heartbeat_def
  make_udp_bind_def make_teleport_def make_reject_def make_world_snapshot_def
  make_session_query_def make_session_info_def

fun reject_name :: "reject_reason \<Rightarrow> string" where
  "reject_name RR_Protocol = ''protocol''"
| "reject_name RR_PluginVersion = ''plugin version''"
| "reject_name RR_NotInWorld = ''not in world''"
| "reject_name RR_NoHost = ''no host''"
| "reject_name RR_HostNotStreaming = ''host not streaming''"
| "reject_name RR_Full = ''server full''"
| "reject_name RR_Banned = ''banned''"
| "reject_name RR_Password = ''password''"
| "reject_name RR_ModMismatch = ''mod mismatch''"
| "reject_name RR_None = ''reject''"

fun msg_name :: "msg option \<Rightarrow> string" where
  "msg_name (Some Hello) = ''Hello''"
| "msg_name (Some Welcome) = ''Welcome''"
| "msg_name (Some PlayerPose) = ''PlayerPose''"
| "msg_name (Some Bye) = ''Bye''"
| "msg_name (Some Reject) = ''Reject''"
| "msg_name (Some WorldSnapshot) = ''WorldSnapshot''"
| "msg_name (Some AppearanceChunk) = ''AppearanceChunk''"
| "msg_name (Some InventoryChunk) = ''InventoryChunk''"
| "msg_name (Some SessionQuery) = ''SessionQuery''"
| "msg_name (Some SessionInfo) = ''SessionInfo''"
| "msg_name (Some ActorPose) = ''ActorPose''"
| "msg_name (Some Hit) = ''Hit''"
| "msg_name (Some Chat) = ''Chat''"
| "msg_name (Some Kick) = ''Kick''"
| "msg_name (Some Heartbeat) = ''Heartbeat''"
| "msg_name (Some Teleport) = ''Teleport''"
| "msg_name (Some SessionRules) = ''SessionRules''"
| "msg_name (Some UdpBind) = ''UdpBind''"
| "msg_name None = ''Unknown''"

subsection \<open>Facts about the protocol\<close>

text \<open>The type byte identifies the message: \<^verbatim>\<open>static_cast\<close> there and back.\<close>

lemma msg_code_bounds: "1 \<le> msg_code m \<and> msg_code m \<le> 18"
  by (cases m) auto

lemma msg_of_u8_code [simp]: "msg_of_u8 (word_of_nat (msg_code m)) = Some m"
  by (cases m) (simp_all add: msg_of_u8_def all_msgs_def)

lemma msg_of_u8_Some: "msg_of_u8 b = Some m \<Longrightarrow> unat b = msg_code m"
  by (auto simp: msg_of_u8_def find_Some_iff)

lemma msg_code_inject: "msg_code a = msg_code b \<longleftrightarrow> a = b"
  by (cases a; cases b) auto

lemma length_copy_cstr [simp]: "length (copy_cstr d s) = length d"
  by (auto simp: copy_cstr_def Let_def)

text \<open>\<^verbatim>\<open>copy_cstr\<close> always terminates, truncates to the array, and keeps what fits.\<close>

lemma c_str_copy_cstr:
  assumes "d \<noteq> []"
  shows "c_str (copy_cstr d s) = c_str (take (length d - 1) s)"
proof -
  define n where "n = (if length s < length d - 1 then length s else length d - 1)"
  have "take n s = take (length d - 1) s" by (auto simp: n_def)
  moreover have "copy_cstr d s = take n s @ nul # drop (n + 1) d"
    using assms by (simp add: copy_cstr_def n_def)
  moreover have "c_str (xs @ nul # ys) = c_str xs" for xs ys
    by (induction xs) (auto simp: c_str_def)
  ultimately show ?thesis by simp
qed

lemma copy_cstr_last_nul:
  assumes "d \<noteq> []" and "last d = nul"
  shows "last (copy_cstr d s) = nul"
proof -
  define n where "n = (if length s < length d - 1 then length s else length d - 1)"
  have eq: "copy_cstr d s = take n s @ nul # drop (n + 1) d"
    using assms by (simp add: copy_cstr_def n_def)
  have "drop (n + 1) d \<noteq> [] \<Longrightarrow> last (drop (n + 1) d) = nul"
    using assms(2) by (simp add: last_drop)
  then show ?thesis by (auto simp: eq)
qed

lemma copy_cstr_stays: "d \<noteq> [] \<Longrightarrow> last d = nul \<Longrightarrow> length d = Suc n \<Longrightarrow> (copy_cstr d s)[n := nul] = copy_cstr d s"
  using copy_cstr_last_nul [of d s] length_copy_cstr [of d s]
  by (metis diff_Suc_1 last_conv_nth length_greater_0_conv list_update_id)

subsection \<open>Damage\<close>

lemma f32_500: "f32_fp (f32_of_int 500) = FFin False 16384000 (-15)"
  by (simp add: f32_of_int_def ieee_eval)

lemma f32_le_total: "f32_less 0 d \<Longrightarrow> \<not> f32_less (f32_of_int 500) d \<Longrightarrow> f32_le d (f32_of_int 500)"
  by (cases "f32_fp d") (auto simp: f32_less_def f32_le_def f32_eq_def f32_500 min.commute split: if_splits)

text \<open>
  The damage the server passes on is a number between 0 and 500 whatever bit pattern was sent,
  NaN and infinity included, and clamping is idempotent.
\<close>

lemma clamped_damage_range:
  "f32_le 0 (clamp_hit_damage d) \<and> f32_le (clamp_hit_damage d) (f32_of_int 500) \<and>
   clamp_hit_damage (clamp_hit_damage d) = clamp_hit_damage d"
proof -
  have "f32_le 0 0" "f32_le 0 (f32_of_int 500)" "f32_le (f32_of_int 500) (f32_of_int 500)" "f32_less 0 (f32_of_int 500)"
    "\<not> f32_less 0 0" "\<not> f32_less (f32_of_int 500) (f32_of_int 500)"
    by (simp_all add: f32_le_def f32_of_int_def ieee_eval)
  with f32_le_total [of d] show ?thesis by (auto simp: clamp_hit_damage_def f32_le_def [of 0 d])
qed

end
