(* ===== verification/Codec.thy ===== *)
theory Codec
  imports Protocol
begin

text \<open>
  The packed, little-endian memory layout of the structs of \<^verbatim>\<open>protocol/cmp_protocol.hpp\<close>: for each
  struct the bytes \<^verbatim>\<open>memcpy\<close> reads out of it (\<open>enc_*\<close>) and the value it gets from a buffer of at
  least its size (\<open>dec_*\<close>). The locale \<open>wire_codec\<close> states what the handlers rely on; it is
  interpreted for every struct, with the size its \<^verbatim>\<open>static_assert\<close> names.
\<close>

subsection \<open>The interface\<close>

locale wire_codec =
  fixes enc :: "'a \<Rightarrow> bytes" and dec :: "bytes \<Rightarrow> 'a" and sz :: nat and ok :: "'a \<Rightarrow> bool"
  assumes enc_len: "ok m \<Longrightarrow> length (enc m) = sz"
    and dec_enc: "ok m \<Longrightarrow> dec (enc m @ rest) = m"
    and enc_dec: "sz \<le> length b \<Longrightarrow> enc (dec b) = take sz b"
    and ok_dec: "sz \<le> length b \<Longrightarrow> ok (dec b)"
begin

lemma dec_enc_exact: "ok m \<Longrightarrow> dec (enc m) = m"
  using dec_enc [of m "[]"] by simp

lemma enc_inject: "ok m \<Longrightarrow> ok m' \<Longrightarrow> enc m = enc m' \<longleftrightarrow> m = m'"
  by (metis dec_enc_exact)

lemma dec_take: "sz \<le> length b \<Longrightarrow> dec (take sz b) = dec b"
  by (metis dec_enc_exact enc_dec ok_dec)

end

definition header_wf :: "header \<Rightarrow> bool" where
  "header_wf m \<longleftrightarrow> length (h_magic m) = 4"

definition enc_header :: "header \<Rightarrow> bytes" where
  "enc_header m =
     wr_str (h_magic m) @ wr (h_type m) @ wr (h_version m) @ wr (h_size m) @ wr (h_seq m) @
     wr (h_flags m) @ wr (h_reserved m)"

definition dec_header :: "bytes \<Rightarrow> header" where
  "dec_header b =
     \<lparr>h_magic = rd_str 0 4 b, h_type = rd 4 b, h_version = rd 5 b, h_size = rd 6 b,
      h_seq = rd 8 b, h_flags = rd 10 b, h_reserved = rd 11 b\<rparr>"


subsection \<open>The header\<close>

lemma length_enc_header [simp]: "header_wf h \<Longrightarrow> length (enc_header h) = 12"
  by (simp add: enc_header_def header_wf_def)

lemma dec_enc_header [wire]: "header_wf h \<Longrightarrow> dec_header (enc_header h @ rest) = h"
  by (cases h) (simp add: enc_header_def dec_header_def header_wf_def wire)

lemma enc_dec_header: "12 \<le> length b \<Longrightarrow> enc_header (dec_header b) = fld 0 12 b"
  by (simp add: enc_header_def dec_header_def wr_rds fld_join_append fld_join_end)

lemma header_wf_dec: "12 \<le> length b \<Longrightarrow> header_wf (dec_header b)"
  by (simp add: header_wf_def dec_header_def length_rd_str)

lemma header_wf_fill [simp]: "header_wf (fill_header n t)"
  by (simp add: header_wf_def fill_header_def kMagic_def)

interpretation header_codec: wire_codec enc_header dec_header sizeof_Header header_wf
  by unfold_locales
     (simp_all add: sizeof_Header_def dec_enc_header enc_dec_header header_wf_dec fld_0)

lemmas codec_lens = header_wf_dec sizeof_BlobChunk_def

text \<open>A struct that starts with a header: the receiver sees that header first.\<close>

locale framed_codec = wire_codec enc dec sz ok
  for enc :: "'a \<Rightarrow> bytes" and dec :: "bytes \<Rightarrow> 'a" and sz :: nat and ok :: "'a \<Rightarrow> bool" +
  fixes hdr :: "'a \<Rightarrow> header"
  assumes hdr_enc: "ok m \<Longrightarrow> dec_header (enc m @ rest) = hdr m"
begin

lemma header_accepted:
  assumes "ok m" and "hdr m = fill_header sz t" and "expected_msg_size t (word_of_nat sz)"
    and "12 \<le> sz" and "sz < 65536"
  shows "header_ok (dec_header (enc m @ rest)) (length (enc m @ rest))"
proof -
  have "unat (word_of_nat sz :: u16) = sz" using assms(5) by (simp add: unat_of_nat)
  with assms show ?thesis
    by (simp add: hdr_enc enc_len header_ok_def fill_header_def sizeof_Header_def)
qed

end

subsection \<open>Layouts\<close>

definition hello_wf :: "hello \<Rightarrow> bool" where
  "hello_wf m \<longleftrightarrow> header_wf (he_header m) \<and> length (he_playerKey m) = 32 \<and>
     length (he_name m) = 32 \<and> length (he_password m) = 16"

definition enc_hello :: "hello \<Rightarrow> bytes" where
  "enc_hello m =
     enc_header (he_header m) @ wr (he_protocol m) @ wr (he_pluginVersion m) @
     wr_str (he_playerKey m) @ wr_str (he_name m) @ wr (he_locationFormId m) @
     wr (he_gameDaysPassed m) @ wr (he_gameHour m) @ wr (he_weatherFormId m) @
     wr (he_x m) @ wr (he_y m) @ wr (he_z m) @ wr (he_inWorld m) @
     wr (he_interior m) @ wr (he_flags m) @ wr (he_modHash m) @ wr_str (he_password m)"

definition dec_hello :: "bytes \<Rightarrow> hello" where
  "dec_hello b =
     \<lparr>he_header = dec_header b, he_protocol = rd 12 b, he_pluginVersion = rd 16 b,
      he_playerKey = rd_str 20 32 b, he_name = rd_str 52 32 b,
      he_locationFormId = rd 84 b, he_gameDaysPassed = rd 88 b, he_gameHour = rd 92 b,
      he_weatherFormId = rd 96 b, he_x = rd 100 b, he_y = rd 104 b, he_z = rd 108 b,
      he_inWorld = rd 112 b, he_interior = rd 113 b, he_flags = rd 114 b,
      he_modHash = rd 115 b, he_password = rd_str 119 16 b\<rparr>"

definition welcome_wf :: "welcome_msg \<Rightarrow> bool" where
  "welcome_wf m \<longleftrightarrow> header_wf (we_header m)"

definition enc_welcome :: "welcome_msg \<Rightarrow> bytes" where
  "enc_welcome m =
     enc_header (we_header m) @ wr (we_peerId m) @ wr (we_fakePeerId m) @
     wr (we_isNewPlayer m) @ wr (we_isHost m) @ wr (we_sessionFlags m) @
     wr (we_udpToken m)"

definition dec_welcome :: "bytes \<Rightarrow> welcome_msg" where
  "dec_welcome b =
     \<lparr>we_header = dec_header b, we_peerId = rd 12 b, we_fakePeerId = rd 16 b,
      we_isNewPlayer = rd 20 b, we_isHost = rd 21 b, we_sessionFlags = rd 22 b,
      we_udpToken = rd 26 b\<rparr>"

definition session_rules_wf :: "session_rules \<Rightarrow> bool" where
  "session_rules_wf m \<longleftrightarrow> header_wf (sr_header m)"

definition enc_session_rules :: "session_rules \<Rightarrow> bytes" where
  "enc_session_rules m =
     enc_header (sr_header m) @ wr (sr_sessionFlags m)"

definition dec_session_rules :: "bytes \<Rightarrow> session_rules" where
  "dec_session_rules b =
     \<lparr>sr_header = dec_header b, sr_sessionFlags = rd 12 b\<rparr>"

definition player_pose_wf :: "player_pose \<Rightarrow> bool" where
  "player_pose_wf m \<longleftrightarrow> header_wf (pp_header m)"

definition enc_player_pose :: "player_pose \<Rightarrow> bytes" where
  "enc_player_pose m =
     enc_header (pp_header m) @ wr (pp_peerId m) @ wr (pp_locationFormId m) @ wr (pp_x m) @
     wr (pp_y m) @ wr (pp_z m) @ wr (pp_yaw m) @ wr (pp_pitch m) @ wr (pp_speed m) @
     wr (pp_vx m) @ wr (pp_vy m) @ wr (pp_flags m)"

definition dec_player_pose :: "bytes \<Rightarrow> player_pose" where
  "dec_player_pose b =
     \<lparr>pp_header = dec_header b, pp_peerId = rd 12 b, pp_locationFormId = rd 16 b,
      pp_x = rd 20 b, pp_y = rd 24 b, pp_z = rd 28 b, pp_yaw = rd 32 b,
      pp_pitch = rd 36 b, pp_speed = rd 40 b, pp_vx = rd 44 b, pp_vy = rd 48 b,
      pp_flags = rd 52 b\<rparr>"

definition bye_wf :: "bye \<Rightarrow> bool" where
  "bye_wf m \<longleftrightarrow> header_wf (by_header m)"

definition enc_bye :: "bye \<Rightarrow> bytes" where
  "enc_bye m =
     enc_header (by_header m) @ wr (by_peerId m)"

definition dec_bye :: "bytes \<Rightarrow> bye" where
  "dec_bye b =
     \<lparr>by_header = dec_header b, by_peerId = rd 12 b\<rparr>"

definition hit_wf :: "hit \<Rightarrow> bool" where
  "hit_wf m \<longleftrightarrow> header_wf (hi_header m)"

definition enc_hit :: "hit \<Rightarrow> bytes" where
  "enc_hit m =
     enc_header (hi_header m) @ wr (hi_attackerPeerId m) @ wr (hi_targetPeerId m) @
     wr (hi_damage m) @ wr (hi_flags m)"

definition dec_hit :: "bytes \<Rightarrow> hit" where
  "dec_hit b =
     \<lparr>hi_header = dec_header b, hi_attackerPeerId = rd 12 b, hi_targetPeerId = rd 16 b,
      hi_damage = rd 20 b, hi_flags = rd 24 b\<rparr>"

definition chat_wf :: "chat \<Rightarrow> bool" where
  "chat_wf m \<longleftrightarrow> header_wf (ch_header m) \<and> length (ch_text m) = 80"

definition enc_chat :: "chat \<Rightarrow> bytes" where
  "enc_chat m =
     enc_header (ch_header m) @ wr (ch_fromPeerId m) @ wr_str (ch_text m)"

definition dec_chat :: "bytes \<Rightarrow> chat" where
  "dec_chat b =
     \<lparr>ch_header = dec_header b, ch_fromPeerId = rd 12 b, ch_text = rd_str 16 80 b\<rparr>"

definition kick_wf :: "kick \<Rightarrow> bool" where
  "kick_wf m \<longleftrightarrow> header_wf (ki_header m) \<and> length (ki_reason m) = 80"

definition enc_kick :: "kick \<Rightarrow> bytes" where
  "enc_kick m =
     enc_header (ki_header m) @ wr (ki_targetPeerId m) @ wr_str (ki_reason m)"

definition dec_kick :: "bytes \<Rightarrow> kick" where
  "dec_kick b =
     \<lparr>ki_header = dec_header b, ki_targetPeerId = rd 12 b, ki_reason = rd_str 16 80 b\<rparr>"

definition heartbeat_wf :: "heartbeat \<Rightarrow> bool" where
  "heartbeat_wf m \<longleftrightarrow> header_wf (hb_header m)"

definition enc_heartbeat :: "heartbeat \<Rightarrow> bytes" where
  "enc_heartbeat m =
     enc_header (hb_header m) @ wr (hb_peerId m) @ wr (hb_clientStampMs m)"

definition dec_heartbeat :: "bytes \<Rightarrow> heartbeat" where
  "dec_heartbeat b =
     \<lparr>hb_header = dec_header b, hb_peerId = rd 12 b, hb_clientStampMs = rd 16 b\<rparr>"

definition teleport_wf :: "teleport \<Rightarrow> bool" where
  "teleport_wf m \<longleftrightarrow> header_wf (tp_header m)"

definition enc_teleport :: "teleport \<Rightarrow> bytes" where
  "enc_teleport m =
     enc_header (tp_header m) @ wr (tp_targetPeerId m) @ wr (tp_x m) @ wr (tp_y m) @
     wr (tp_z m) @ wr (tp_locationFormId m)"

definition dec_teleport :: "bytes \<Rightarrow> teleport" where
  "dec_teleport b =
     \<lparr>tp_header = dec_header b, tp_targetPeerId = rd 12 b, tp_x = rd 16 b, tp_y = rd 20 b,
      tp_z = rd 24 b, tp_locationFormId = rd 28 b\<rparr>"

definition actor_pose_wf :: "actor_pose \<Rightarrow> bool" where
  "actor_pose_wf m \<longleftrightarrow> header_wf (ap_header m) \<and> length (ap_pad m) = 2"

definition enc_actor_pose :: "actor_pose \<Rightarrow> bytes" where
  "enc_actor_pose m =
     enc_header (ap_header m) @ wr (ap_refFormId m) @ wr (ap_baseFormId m) @
     wr (ap_locationFormId m) @ wr (ap_x m) @ wr (ap_y m) @ wr (ap_z m) @
     wr (ap_yaw m) @ wr (ap_pitch m) @ wr (ap_speed m) @ wr (ap_vx m) @ wr (ap_vy m) @
     wr (ap_flags m) @ wr (ap_unique m) @ wr (ap_dead m) @ wr_str (ap_pad m)"

definition dec_actor_pose :: "bytes \<Rightarrow> actor_pose" where
  "dec_actor_pose b =
     \<lparr>ap_header = dec_header b, ap_refFormId = rd 12 b, ap_baseFormId = rd 16 b,
      ap_locationFormId = rd 20 b, ap_x = rd 24 b, ap_y = rd 28 b, ap_z = rd 32 b,
      ap_yaw = rd 36 b, ap_pitch = rd 40 b, ap_speed = rd 44 b, ap_vx = rd 48 b,
      ap_vy = rd 52 b, ap_flags = rd 56 b, ap_unique = rd 60 b, ap_dead = rd 61 b,
      ap_pad = rd_str 62 2 b\<rparr>"

definition reject_wf :: "reject \<Rightarrow> bool" where
  "reject_wf m \<longleftrightarrow> header_wf (re_header m) \<and> length (re_message m) = 96"

definition enc_reject :: "reject \<Rightarrow> bytes" where
  "enc_reject m =
     enc_header (re_header m) @ wr (re_reason m) @ wr_str (re_message m)"

definition dec_reject :: "bytes \<Rightarrow> reject" where
  "dec_reject b =
     \<lparr>re_header = dec_header b, re_reason = rd 12 b, re_message = rd_str 16 96 b\<rparr>"

definition world_snapshot_wf :: "world_snapshot \<Rightarrow> bool" where
  "world_snapshot_wf m \<longleftrightarrow> header_wf (ws_header m) \<and> length (ws_pad m) = 3"

definition enc_world_snapshot :: "world_snapshot \<Rightarrow> bytes" where
  "enc_world_snapshot m =
     enc_header (ws_header m) @ wr (ws_gameHour m) @ wr (ws_gameDaysPassed m) @
     wr (ws_weatherFormId m) @ wr (ws_hostLocationFormId m) @ wr (ws_hostX m) @
     wr (ws_hostY m) @ wr (ws_hostZ m) @ wr (ws_hostPeerId m) @
     wr (ws_placeLocationFormId m) @ wr (ws_placeX m) @ wr (ws_placeY m) @
     wr (ws_placeZ m) @ wr (ws_isNewPlayer m) @ wr_str (ws_pad m)"

definition dec_world_snapshot :: "bytes \<Rightarrow> world_snapshot" where
  "dec_world_snapshot b =
     \<lparr>ws_header = dec_header b, ws_gameHour = rd 12 b, ws_gameDaysPassed = rd 16 b,
      ws_weatherFormId = rd 20 b, ws_hostLocationFormId = rd 24 b, ws_hostX = rd 28 b,
      ws_hostY = rd 32 b, ws_hostZ = rd 36 b, ws_hostPeerId = rd 40 b,
      ws_placeLocationFormId = rd 44 b, ws_placeX = rd 48 b, ws_placeY = rd 52 b,
      ws_placeZ = rd 56 b, ws_isNewPlayer = rd 60 b, ws_pad = rd_str 61 3 b\<rparr>"

definition blob_chunk_wf :: "blob_chunk \<Rightarrow> bool" where
  "blob_chunk_wf m \<longleftrightarrow> header_wf (bc_header m)"

definition enc_blob_chunk :: "blob_chunk \<Rightarrow> bytes" where
  "enc_blob_chunk m =
     enc_header (bc_header m) @ wr (bc_peerId m) @ wr (bc_chunkIndex m) @
     wr (bc_chunkCount m) @ wr (bc_blobBytes m) @ wr (bc_payloadBytes m)"

definition dec_blob_chunk :: "bytes \<Rightarrow> blob_chunk" where
  "dec_blob_chunk b =
     \<lparr>bc_header = dec_header b, bc_peerId = rd 12 b, bc_chunkIndex = rd 16 b,
      bc_chunkCount = rd 18 b, bc_blobBytes = rd 20 b, bc_payloadBytes = rd 22 b\<rparr>"

definition session_query_wf :: "session_query \<Rightarrow> bool" where
  "session_query_wf m \<longleftrightarrow> header_wf (sq_header m) \<and> length (sq_pad m) = 4"

definition enc_session_query :: "session_query \<Rightarrow> bytes" where
  "enc_session_query m =
     enc_header (sq_header m) @ wr (sq_pluginVersion m) @ wr_str (sq_pad m)"

definition dec_session_query :: "bytes \<Rightarrow> session_query" where
  "dec_session_query b =
     \<lparr>sq_header = dec_header b, sq_pluginVersion = rd 12 b, sq_pad = rd_str 16 4 b\<rparr>"

definition session_info_wf :: "session_info \<Rightarrow> bool" where
  "session_info_wf m \<longleftrightarrow> header_wf (si_header m) \<and> length (si_serverName m) = 32 \<and>
     length (si_motd m) = 64"

definition enc_session_info :: "session_info \<Rightarrow> bytes" where
  "enc_session_info m =
     enc_header (si_header m) @ wr (si_hostPeerId m) @ wr (si_hostLocationFormId m) @
     wr (si_hostX m) @ wr (si_hostY m) @ wr (si_hostZ m) @ wr (si_clientCount m) @
     wr (si_haveHost m) @ wr (si_hostInterior m) @ wr (si_sessionFlags m) @
     wr_str (si_serverName m) @ wr (si_maxPlayers m) @ wr_str (si_motd m)"

definition dec_session_info :: "bytes \<Rightarrow> session_info" where
  "dec_session_info b =
     \<lparr>si_header = dec_header b, si_hostPeerId = rd 12 b, si_hostLocationFormId = rd 16 b,
      si_hostX = rd 20 b, si_hostY = rd 24 b, si_hostZ = rd 28 b,
      si_clientCount = rd 32 b, si_haveHost = rd 36 b, si_hostInterior = rd 37 b,
      si_sessionFlags = rd 38 b, si_serverName = rd_str 42 32 b,
      si_maxPlayers = rd 74 b, si_motd = rd_str 78 64 b\<rparr>"

definition udp_bind_wf :: "udp_bind \<Rightarrow> bool" where
  "udp_bind_wf m \<longleftrightarrow> header_wf (ub_header m)"

definition enc_udp_bind :: "udp_bind \<Rightarrow> bytes" where
  "enc_udp_bind m =
     enc_header (ub_header m) @ wr (ub_peerId m) @ wr (ub_udpToken m)"

definition dec_udp_bind :: "bytes \<Rightarrow> udp_bind" where
  "dec_udp_bind b =
     \<lparr>ub_header = dec_header b, ub_peerId = rd 12 b, ub_udpToken = rd 16 b\<rparr>"

subsection \<open>The layouts obey the interface\<close>

lemmas hello_layout = enc_hello_def dec_hello_def hello_wf_def

interpretation hello_c: framed_codec enc_hello dec_hello "sizeof_msg Hello" hello_wf he_header
proof unfold_locales
  fix m rest assume ok: "hello_wf m"
  then show "length (enc_hello m) = sizeof_msg Hello" by (simp add: hello_layout codec_lens)
  from ok show "dec_hello (enc_hello m @ rest) = m"
    by (cases m) (simp add: hello_layout codec_lens wire)
  from ok show "dec_header (enc_hello m @ rest) = he_header m"
    by (simp add: hello_layout codec_lens wire)
next
  fix b :: bytes assume "sizeof_msg Hello \<le> length b"
  then show "enc_hello (dec_hello b) = take (sizeof_msg Hello) b" and "hello_wf (dec_hello b)"
    by (simp_all add: hello_layout codec_lens enc_dec_header wr_rds fld_joins length_rd_str)
qed

lemmas welcome_layout = enc_welcome_def dec_welcome_def welcome_wf_def

interpretation welcome_c: framed_codec enc_welcome dec_welcome "sizeof_msg Welcome" welcome_wf we_header
proof unfold_locales
  fix m rest assume ok: "welcome_wf m"
  then show "length (enc_welcome m) = sizeof_msg Welcome" by (simp add: welcome_layout codec_lens)
  from ok show "dec_welcome (enc_welcome m @ rest) = m"
    by (cases m) (simp add: welcome_layout codec_lens wire)
  from ok show "dec_header (enc_welcome m @ rest) = we_header m"
    by (simp add: welcome_layout codec_lens wire)
next
  fix b :: bytes assume "sizeof_msg Welcome \<le> length b"
  then show "enc_welcome (dec_welcome b) = take (sizeof_msg Welcome) b" and "welcome_wf (dec_welcome b)"
    by (simp_all add: welcome_layout codec_lens enc_dec_header wr_rds fld_joins length_rd_str)
qed

lemmas session_rules_layout = enc_session_rules_def dec_session_rules_def session_rules_wf_def

interpretation session_rules_c: framed_codec enc_session_rules dec_session_rules "sizeof_msg SessionRules" session_rules_wf sr_header
proof unfold_locales
  fix m rest assume ok: "session_rules_wf m"
  then show "length (enc_session_rules m) = sizeof_msg SessionRules" by (simp add: session_rules_layout codec_lens)
  from ok show "dec_session_rules (enc_session_rules m @ rest) = m"
    by (cases m) (simp add: session_rules_layout codec_lens wire)
  from ok show "dec_header (enc_session_rules m @ rest) = sr_header m"
    by (simp add: session_rules_layout codec_lens wire)
next
  fix b :: bytes assume "sizeof_msg SessionRules \<le> length b"
  then show "enc_session_rules (dec_session_rules b) = take (sizeof_msg SessionRules) b" and "session_rules_wf (dec_session_rules b)"
    by (simp_all add: session_rules_layout codec_lens enc_dec_header wr_rds fld_joins length_rd_str)
qed

lemmas player_pose_layout = enc_player_pose_def dec_player_pose_def player_pose_wf_def

interpretation player_pose_c: framed_codec enc_player_pose dec_player_pose "sizeof_msg PlayerPose" player_pose_wf pp_header
proof unfold_locales
  fix m rest assume ok: "player_pose_wf m"
  then show "length (enc_player_pose m) = sizeof_msg PlayerPose" by (simp add: player_pose_layout codec_lens)
  from ok show "dec_player_pose (enc_player_pose m @ rest) = m"
    by (cases m) (simp add: player_pose_layout codec_lens wire)
  from ok show "dec_header (enc_player_pose m @ rest) = pp_header m"
    by (simp add: player_pose_layout codec_lens wire)
next
  fix b :: bytes assume "sizeof_msg PlayerPose \<le> length b"
  then show "enc_player_pose (dec_player_pose b) = take (sizeof_msg PlayerPose) b" and "player_pose_wf (dec_player_pose b)"
    by (simp_all add: player_pose_layout codec_lens enc_dec_header wr_rds fld_joins length_rd_str)
qed

lemmas bye_layout = enc_bye_def dec_bye_def bye_wf_def

interpretation bye_c: framed_codec enc_bye dec_bye "sizeof_msg Bye" bye_wf by_header
proof unfold_locales
  fix m rest assume ok: "bye_wf m"
  then show "length (enc_bye m) = sizeof_msg Bye" by (simp add: bye_layout codec_lens)
  from ok show "dec_bye (enc_bye m @ rest) = m"
    by (cases m) (simp add: bye_layout codec_lens wire)
  from ok show "dec_header (enc_bye m @ rest) = by_header m"
    by (simp add: bye_layout codec_lens wire)
next
  fix b :: bytes assume "sizeof_msg Bye \<le> length b"
  then show "enc_bye (dec_bye b) = take (sizeof_msg Bye) b" and "bye_wf (dec_bye b)"
    by (simp_all add: bye_layout codec_lens enc_dec_header wr_rds fld_joins length_rd_str)
qed

lemmas hit_layout = enc_hit_def dec_hit_def hit_wf_def

interpretation hit_c: framed_codec enc_hit dec_hit "sizeof_msg Hit" hit_wf hi_header
proof unfold_locales
  fix m rest assume ok: "hit_wf m"
  then show "length (enc_hit m) = sizeof_msg Hit" by (simp add: hit_layout codec_lens)
  from ok show "dec_hit (enc_hit m @ rest) = m"
    by (cases m) (simp add: hit_layout codec_lens wire)
  from ok show "dec_header (enc_hit m @ rest) = hi_header m"
    by (simp add: hit_layout codec_lens wire)
next
  fix b :: bytes assume "sizeof_msg Hit \<le> length b"
  then show "enc_hit (dec_hit b) = take (sizeof_msg Hit) b" and "hit_wf (dec_hit b)"
    by (simp_all add: hit_layout codec_lens enc_dec_header wr_rds fld_joins length_rd_str)
qed

lemmas chat_layout = enc_chat_def dec_chat_def chat_wf_def

interpretation chat_c: framed_codec enc_chat dec_chat "sizeof_msg Chat" chat_wf ch_header
proof unfold_locales
  fix m rest assume ok: "chat_wf m"
  then show "length (enc_chat m) = sizeof_msg Chat" by (simp add: chat_layout codec_lens)
  from ok show "dec_chat (enc_chat m @ rest) = m"
    by (cases m) (simp add: chat_layout codec_lens wire)
  from ok show "dec_header (enc_chat m @ rest) = ch_header m"
    by (simp add: chat_layout codec_lens wire)
next
  fix b :: bytes assume "sizeof_msg Chat \<le> length b"
  then show "enc_chat (dec_chat b) = take (sizeof_msg Chat) b" and "chat_wf (dec_chat b)"
    by (simp_all add: chat_layout codec_lens enc_dec_header wr_rds fld_joins length_rd_str)
qed

lemmas kick_layout = enc_kick_def dec_kick_def kick_wf_def

interpretation kick_c: framed_codec enc_kick dec_kick "sizeof_msg Kick" kick_wf ki_header
proof unfold_locales
  fix m rest assume ok: "kick_wf m"
  then show "length (enc_kick m) = sizeof_msg Kick" by (simp add: kick_layout codec_lens)
  from ok show "dec_kick (enc_kick m @ rest) = m"
    by (cases m) (simp add: kick_layout codec_lens wire)
  from ok show "dec_header (enc_kick m @ rest) = ki_header m"
    by (simp add: kick_layout codec_lens wire)
next
  fix b :: bytes assume "sizeof_msg Kick \<le> length b"
  then show "enc_kick (dec_kick b) = take (sizeof_msg Kick) b" and "kick_wf (dec_kick b)"
    by (simp_all add: kick_layout codec_lens enc_dec_header wr_rds fld_joins length_rd_str)
qed

lemmas heartbeat_layout = enc_heartbeat_def dec_heartbeat_def heartbeat_wf_def

interpretation heartbeat_c: framed_codec enc_heartbeat dec_heartbeat "sizeof_msg Heartbeat" heartbeat_wf hb_header
proof unfold_locales
  fix m rest assume ok: "heartbeat_wf m"
  then show "length (enc_heartbeat m) = sizeof_msg Heartbeat" by (simp add: heartbeat_layout codec_lens)
  from ok show "dec_heartbeat (enc_heartbeat m @ rest) = m"
    by (cases m) (simp add: heartbeat_layout codec_lens wire)
  from ok show "dec_header (enc_heartbeat m @ rest) = hb_header m"
    by (simp add: heartbeat_layout codec_lens wire)
next
  fix b :: bytes assume "sizeof_msg Heartbeat \<le> length b"
  then show "enc_heartbeat (dec_heartbeat b) = take (sizeof_msg Heartbeat) b" and "heartbeat_wf (dec_heartbeat b)"
    by (simp_all add: heartbeat_layout codec_lens enc_dec_header wr_rds fld_joins length_rd_str)
qed

lemmas teleport_layout = enc_teleport_def dec_teleport_def teleport_wf_def

interpretation teleport_c: framed_codec enc_teleport dec_teleport "sizeof_msg Teleport" teleport_wf tp_header
proof unfold_locales
  fix m rest assume ok: "teleport_wf m"
  then show "length (enc_teleport m) = sizeof_msg Teleport" by (simp add: teleport_layout codec_lens)
  from ok show "dec_teleport (enc_teleport m @ rest) = m"
    by (cases m) (simp add: teleport_layout codec_lens wire)
  from ok show "dec_header (enc_teleport m @ rest) = tp_header m"
    by (simp add: teleport_layout codec_lens wire)
next
  fix b :: bytes assume "sizeof_msg Teleport \<le> length b"
  then show "enc_teleport (dec_teleport b) = take (sizeof_msg Teleport) b" and "teleport_wf (dec_teleport b)"
    by (simp_all add: teleport_layout codec_lens enc_dec_header wr_rds fld_joins length_rd_str)
qed

lemmas actor_pose_layout = enc_actor_pose_def dec_actor_pose_def actor_pose_wf_def

interpretation actor_pose_c: framed_codec enc_actor_pose dec_actor_pose "sizeof_msg ActorPose" actor_pose_wf ap_header
proof unfold_locales
  fix m rest assume ok: "actor_pose_wf m"
  then show "length (enc_actor_pose m) = sizeof_msg ActorPose" by (simp add: actor_pose_layout codec_lens)
  from ok show "dec_actor_pose (enc_actor_pose m @ rest) = m"
    by (cases m) (simp add: actor_pose_layout codec_lens wire)
  from ok show "dec_header (enc_actor_pose m @ rest) = ap_header m"
    by (simp add: actor_pose_layout codec_lens wire)
next
  fix b :: bytes assume "sizeof_msg ActorPose \<le> length b"
  then show "enc_actor_pose (dec_actor_pose b) = take (sizeof_msg ActorPose) b" and "actor_pose_wf (dec_actor_pose b)"
    by (simp_all add: actor_pose_layout codec_lens enc_dec_header wr_rds fld_joins length_rd_str)
qed

lemmas reject_layout = enc_reject_def dec_reject_def reject_wf_def

interpretation reject_c: framed_codec enc_reject dec_reject "sizeof_msg Reject" reject_wf re_header
proof unfold_locales
  fix m rest assume ok: "reject_wf m"
  then show "length (enc_reject m) = sizeof_msg Reject" by (simp add: reject_layout codec_lens)
  from ok show "dec_reject (enc_reject m @ rest) = m"
    by (cases m) (simp add: reject_layout codec_lens wire)
  from ok show "dec_header (enc_reject m @ rest) = re_header m"
    by (simp add: reject_layout codec_lens wire)
next
  fix b :: bytes assume "sizeof_msg Reject \<le> length b"
  then show "enc_reject (dec_reject b) = take (sizeof_msg Reject) b" and "reject_wf (dec_reject b)"
    by (simp_all add: reject_layout codec_lens enc_dec_header wr_rds fld_joins length_rd_str)
qed

lemmas world_snapshot_layout = enc_world_snapshot_def dec_world_snapshot_def world_snapshot_wf_def

interpretation world_snapshot_c: framed_codec enc_world_snapshot dec_world_snapshot "sizeof_msg WorldSnapshot" world_snapshot_wf ws_header
proof unfold_locales
  fix m rest assume ok: "world_snapshot_wf m"
  then show "length (enc_world_snapshot m) = sizeof_msg WorldSnapshot" by (simp add: world_snapshot_layout codec_lens)
  from ok show "dec_world_snapshot (enc_world_snapshot m @ rest) = m"
    by (cases m) (simp add: world_snapshot_layout codec_lens wire)
  from ok show "dec_header (enc_world_snapshot m @ rest) = ws_header m"
    by (simp add: world_snapshot_layout codec_lens wire)
next
  fix b :: bytes assume "sizeof_msg WorldSnapshot \<le> length b"
  then show "enc_world_snapshot (dec_world_snapshot b) = take (sizeof_msg WorldSnapshot) b" and "world_snapshot_wf (dec_world_snapshot b)"
    by (simp_all add: world_snapshot_layout codec_lens enc_dec_header wr_rds fld_joins length_rd_str)
qed

lemmas blob_chunk_layout = enc_blob_chunk_def dec_blob_chunk_def blob_chunk_wf_def

interpretation blob_chunk_c: framed_codec enc_blob_chunk dec_blob_chunk sizeof_BlobChunk blob_chunk_wf bc_header
proof unfold_locales
  fix m rest assume ok: "blob_chunk_wf m"
  then show "length (enc_blob_chunk m) = sizeof_BlobChunk" by (simp add: blob_chunk_layout codec_lens)
  from ok show "dec_blob_chunk (enc_blob_chunk m @ rest) = m"
    by (cases m) (simp add: blob_chunk_layout codec_lens wire)
  from ok show "dec_header (enc_blob_chunk m @ rest) = bc_header m"
    by (simp add: blob_chunk_layout codec_lens wire)
next
  fix b :: bytes assume "sizeof_BlobChunk \<le> length b"
  then show "enc_blob_chunk (dec_blob_chunk b) = take (sizeof_BlobChunk) b" and "blob_chunk_wf (dec_blob_chunk b)"
    by (simp_all add: blob_chunk_layout codec_lens enc_dec_header wr_rds fld_joins length_rd_str)
qed

lemmas session_query_layout = enc_session_query_def dec_session_query_def session_query_wf_def

interpretation session_query_c: framed_codec enc_session_query dec_session_query "sizeof_msg SessionQuery" session_query_wf sq_header
proof unfold_locales
  fix m rest assume ok: "session_query_wf m"
  then show "length (enc_session_query m) = sizeof_msg SessionQuery" by (simp add: session_query_layout codec_lens)
  from ok show "dec_session_query (enc_session_query m @ rest) = m"
    by (cases m) (simp add: session_query_layout codec_lens wire)
  from ok show "dec_header (enc_session_query m @ rest) = sq_header m"
    by (simp add: session_query_layout codec_lens wire)
next
  fix b :: bytes assume "sizeof_msg SessionQuery \<le> length b"
  then show "enc_session_query (dec_session_query b) = take (sizeof_msg SessionQuery) b" and "session_query_wf (dec_session_query b)"
    by (simp_all add: session_query_layout codec_lens enc_dec_header wr_rds fld_joins length_rd_str)
qed

lemmas session_info_layout = enc_session_info_def dec_session_info_def session_info_wf_def

interpretation session_info_c: framed_codec enc_session_info dec_session_info "sizeof_msg SessionInfo" session_info_wf si_header
proof unfold_locales
  fix m rest assume ok: "session_info_wf m"
  then show "length (enc_session_info m) = sizeof_msg SessionInfo" by (simp add: session_info_layout codec_lens)
  from ok show "dec_session_info (enc_session_info m @ rest) = m"
    by (cases m) (simp add: session_info_layout codec_lens wire)
  from ok show "dec_header (enc_session_info m @ rest) = si_header m"
    by (simp add: session_info_layout codec_lens wire)
next
  fix b :: bytes assume "sizeof_msg SessionInfo \<le> length b"
  then show "enc_session_info (dec_session_info b) = take (sizeof_msg SessionInfo) b" and "session_info_wf (dec_session_info b)"
    by (simp_all add: session_info_layout codec_lens enc_dec_header wr_rds fld_joins length_rd_str)
qed

lemmas udp_bind_layout = enc_udp_bind_def dec_udp_bind_def udp_bind_wf_def

interpretation udp_bind_c: framed_codec enc_udp_bind dec_udp_bind "sizeof_msg UdpBind" udp_bind_wf ub_header
proof unfold_locales
  fix m rest assume ok: "udp_bind_wf m"
  then show "length (enc_udp_bind m) = sizeof_msg UdpBind" by (simp add: udp_bind_layout codec_lens)
  from ok show "dec_udp_bind (enc_udp_bind m @ rest) = m"
    by (cases m) (simp add: udp_bind_layout codec_lens wire)
  from ok show "dec_header (enc_udp_bind m @ rest) = ub_header m"
    by (simp add: udp_bind_layout codec_lens wire)
next
  fix b :: bytes assume "sizeof_msg UdpBind \<le> length b"
  then show "enc_udp_bind (dec_udp_bind b) = take (sizeof_msg UdpBind) b" and "udp_bind_wf (dec_udp_bind b)"
    by (simp_all add: udp_bind_layout codec_lens enc_dec_header wr_rds fld_joins length_rd_str)
qed

end
