(* ===== verification/Blobs.thy ===== *)
theory Blobs
  imports Codec
begin

text \<open>
  \<^verbatim>\<open>protocol/cmp_blobs.hpp\<close>: packed form ids, the inventory sheet codec, and the splitting of a
  blob into chunks and its reassembly. \<^verbatim>\<open>BlobReader\<close> is the list of bytes still to read; a read
  that does not fit is \<open>None\<close>, where the source returns false. The steady-clock reading that
  \<^verbatim>\<open>assemble_blob_chunk\<close> takes is an argument.
\<close>

definition kPluginField :: nat where "kPluginField = 24"
definition kInvMagic :: u32 where "kInvMagic = 0x54564E49"
definition kInvVersion :: u16 where "kInvVersion = 1"
definition kMaxWorn :: nat where "kMaxWorn = 32"
definition kMaxStacks :: nat where "kMaxStacks = 192"

definition kMaxBlobChunks :: nat where
  "kMaxBlobChunks = (0xFFFF + kBlobPayloadMax - 1) div kBlobPayloadMax"

subsection \<open>Form ids\<close>

record packed_form =
  pf_raw :: u32
  pf_plugin :: string

definition pack_form_id :: "u32 \<Rightarrow> string \<Rightarrow> bool \<Rightarrow> packed_form" where
  "pack_form_id formId plugin isLight =
     \<lparr>pf_raw = (if isLight then formId else formId AND 0x00FFFFFF),
      pf_plugin = copy_cstr (zeros kPluginField) plugin\<rparr>"

definition full_form_id :: "u32 \<Rightarrow> u8 \<Rightarrow> bool \<Rightarrow> u32" where
  "full_form_id raw compileIndex isLight =
     (if raw = 0 then 0
      else if isLight then raw
      else push_bit 24 (ucast compileIndex) OR (raw AND 0x00FFFFFF))"

subsection \<open>Writer\<close>

definition bw_raw :: "bytes \<Rightarrow> bytes \<Rightarrow> bytes" where "bw_raw d w = w @ d"
definition bw_u8 :: "u8 \<Rightarrow> bytes \<Rightarrow> bytes" where "bw_u8 v w = w @ [v]"
definition bw_u16 :: "u16 \<Rightarrow> bytes \<Rightarrow> bytes" where "bw_u16 v w = bw_raw (wr v) w"
definition bw_u32 :: "u32 \<Rightarrow> bytes \<Rightarrow> bytes" where "bw_u32 v w = bw_raw (wr v) w"

definition plugin_buf :: "string \<Rightarrow> string" where
  "plugin_buf name =
     (let n = min (length (c_str name)) (kPluginField - 1)
      in take n (c_str name) @ zeros (kPluginField - n))"

definition bw_plugin :: "string \<Rightarrow> bytes \<Rightarrow> bytes" where
  "bw_plugin name w = bw_raw (wr_str (plugin_buf name)) w"

definition write_form :: "packed_form \<Rightarrow> bytes \<Rightarrow> bytes" where
  "write_form f w = bw_plugin (pf_plugin f) (bw_u32 (pf_raw f) w)"

subsection \<open>Reader\<close>

definition br_raw :: "nat \<Rightarrow> bytes \<Rightarrow> (bytes \<times> bytes) option" where
  "br_raw n b = (if n \<le> length b then Some (take n b, drop n b) else None)"

definition br_u8 :: "bytes \<Rightarrow> (u8 \<times> bytes) option" where
  "br_u8 b = map_option (\<lambda>(x, r). (dec_word x, r)) (br_raw 1 b)"

definition br_u16 :: "bytes \<Rightarrow> (u16 \<times> bytes) option" where
  "br_u16 b = map_option (\<lambda>(x, r). (dec_word x, r)) (br_raw 2 b)"

definition br_u32 :: "bytes \<Rightarrow> (u32 \<times> bytes) option" where
  "br_u32 b = map_option (\<lambda>(x, r). (dec_word x, r)) (br_raw 4 b)"

definition br_plugin :: "bytes \<Rightarrow> (string \<times> bytes) option" where
  "br_plugin b =
     map_option (\<lambda>(x, r). ((map b2c x)[kPluginField - 1 := nul], r)) (br_raw kPluginField b)"

definition read_form :: "bytes \<Rightarrow> (packed_form \<times> bytes) option" where
  "read_form b =
     (case br_u32 b of
        None \<Rightarrow> None
      | Some (r, b1) \<Rightarrow>
          (case br_plugin b1 of
             None \<Rightarrow> None
           | Some (p, b2) \<Rightarrow> Some (\<lparr>pf_raw = r, pf_plugin = p\<rparr>, b2)))"

subsection \<open>The inventory sheet\<close>

record inv_stack =
  is_form :: packed_form
  is_count :: u32

record inventory_sheet =
  iv_name :: string
  iv_sex :: u8
  iv_race :: packed_form
  iv_worn :: "packed_form list"
  iv_stacks :: "inv_stack list"

fun write_forms :: "packed_form list \<Rightarrow> bytes \<Rightarrow> bytes" where
  "write_forms [] w = w"
| "write_forms (f # fs) w = write_forms fs (write_form f w)"

fun write_stacks :: "inv_stack list \<Rightarrow> bytes \<Rightarrow> bytes" where
  "write_stacks [] w = w"
| "write_stacks (s # ss) w = write_stacks ss (bw_u32 (is_count s) (write_form (is_form s) w))"

definition encode_inventory_sheet :: "inventory_sheet \<Rightarrow> bytes" where
  "encode_inventory_sheet sheet =
     (let w = bw_u32 kInvMagic [];
          w = bw_u16 kInvVersion w;
          w = bw_raw (wr_str (copy_cstr (zeros 32) (c_str (iv_name sheet)))) w;
          w = bw_u8 (iv_sex sheet) w;
          w = write_form (iv_race sheet) w;
          nWorn = min (length (iv_worn sheet)) kMaxWorn;
          w = bw_u8 (word_of_nat nWorn) w;
          w = write_forms (take nWorn (iv_worn sheet)) w;
          nStacks = min (length (iv_stacks sheet)) kMaxStacks;
          w = bw_u16 (word_of_nat nStacks) w
      in write_stacks (take nStacks (iv_stacks sheet)) w)"

definition keep_form :: "packed_form \<Rightarrow> bool" where
  "keep_form f = (\<not> (pf_raw f = 0 \<or> forbidden_actor_base (pf_raw f)))"

fun read_worn :: "nat \<Rightarrow> bytes \<Rightarrow> (packed_form list \<times> bytes) option" where
  "read_worn 0 b = Some ([], b)"
| "read_worn (Suc n) b =
     (case read_form b of
        None \<Rightarrow> None
      | Some (f, b1) \<Rightarrow>
          map_option (\<lambda>(fs, r). (if keep_form f then f # fs else fs, r)) (read_worn n b1))"

fun read_stacks :: "nat \<Rightarrow> bytes \<Rightarrow> (inv_stack list \<times> bytes) option" where
  "read_stacks 0 b = Some ([], b)"
| "read_stacks (Suc n) b =
     (case read_form b of
        None \<Rightarrow> None
      | Some (f, b1) \<Rightarrow>
          (case br_u32 b1 of
             None \<Rightarrow> None
           | Some (c, b2) \<Rightarrow>
               map_option
                 (\<lambda>(ss, r). (if keep_form f then \<lparr>is_form = f, is_count = c\<rparr> # ss else ss, r))
                 (read_stacks n b2)))"

definition decode_inventory_sheet :: "bytes \<Rightarrow> inventory_sheet option" where
  "decode_inventory_sheet b =
     (if length b < 8 then None
      else
        case br_u32 b of None \<Rightarrow> None | Some (magic, b) \<Rightarrow>
        if magic \<noteq> kInvMagic then None
        else
        case br_u16 b of None \<Rightarrow> None | Some (ver, b) \<Rightarrow>
        case br_raw 32 b of None \<Rightarrow> None | Some (nm, b) \<Rightarrow>
        case br_u8 b of None \<Rightarrow> None | Some (sex, b) \<Rightarrow>
        case read_form b of None \<Rightarrow> None | Some (race, b) \<Rightarrow>
        case br_u8 b of None \<Rightarrow> None | Some (nWorn, b) \<Rightarrow>
        if unat nWorn > kMaxWorn then None
        else
        case read_worn (unat nWorn) b of None \<Rightarrow> None | Some (worn, b) \<Rightarrow>
        case br_u16 b of None \<Rightarrow> None | Some (nStacks, b) \<Rightarrow>
        if unat nStacks > kMaxStacks then None
        else
        case read_stacks (unat nStacks) b of None \<Rightarrow> None | Some (stacks, b) \<Rightarrow>
        Some \<lparr>iv_name = (map b2c nm)[31 := nul], iv_sex = sex, iv_race = race, iv_worn = worn,
              iv_stacks = stacks\<rparr>)"

subsection \<open>Splitting and reassembly\<close>

datatype assemble_status = A_Pending | A_Complete | A_Reject

record blob_assembly =
  ba_chunkCount :: u16
  ba_blobBytes :: u16
  ba_chunks :: "bytes list"
  ba_startedSec :: f64

definition empty_assembly :: blob_assembly where
  "empty_assembly = \<lparr>ba_chunkCount = 0, ba_blobBytes = 0, ba_chunks = [], ba_startedSec = 0\<rparr>"

definition chunk_packet :: "msg \<Rightarrow> u32 \<Rightarrow> bytes \<Rightarrow> nat \<Rightarrow> nat \<Rightarrow> bytes" where
  "chunk_packet t peerId blob count i =
     (let off = i * kBlobPayloadMax;
          n = min kBlobPayloadMax (length blob - off);
          h = fill_header sizeof_BlobChunk t;
          chunk = \<lparr>bc_header = h\<lparr>h_size := word_of_nat (sizeof_BlobChunk + n)\<rparr>,
                   bc_peerId = peerId, bc_chunkIndex = word_of_nat i,
                   bc_chunkCount = word_of_nat count, bc_blobBytes = word_of_nat (length blob),
                   bc_payloadBytes = word_of_nat n\<rparr>
      in enc_blob_chunk chunk @ take n (drop off blob))"

definition split_blob_chunks :: "msg \<Rightarrow> u32 \<Rightarrow> bytes \<Rightarrow> bytes list option" where
  "split_blob_chunks t peerId blob =
     (if blob = [] \<or> length blob > 0xFFFF then None
      else
        let count = (length blob + kBlobPayloadMax - 1) div kBlobPayloadMax
        in Some (map (chunk_packet t peerId blob count) [0..<count]))"

text \<open>The loop over the stored chunks: \<open>None\<close> at the first empty one, else the bytes held.\<close>

fun chunks_got :: "bytes list \<Rightarrow> nat \<Rightarrow> nat option" where
  "chunks_got [] got = Some got"
| "chunks_got (c # cs) got = (if c = [] then None else chunks_got cs (got + length c))"

definition chunk_valid :: "blob_chunk \<Rightarrow> nat \<Rightarrow> bool" where
  "chunk_valid c n \<longleftrightarrow>
     \<not> (bc_payloadBytes c = 0 \<or> unat (bc_payloadBytes c) > kBlobPayloadMax
        \<or> sizeof_BlobChunk + unat (bc_payloadBytes c) > n) \<and>
     \<not> (bc_chunkCount c = 0 \<or> unat (bc_chunkCount c) > kMaxBlobChunks
        \<or> unat (bc_chunkIndex c) \<ge> unat (bc_chunkCount c))"

definition assembly_begin :: "blob_assembly \<Rightarrow> blob_chunk \<Rightarrow> f64 \<Rightarrow> blob_assembly" where
  "assembly_begin a c now =
     (let a = (if ba_chunkCount a \<noteq> bc_chunkCount c \<or> ba_blobBytes a \<noteq> bc_blobBytes c
               then a\<lparr>ba_chunkCount := bc_chunkCount c, ba_blobBytes := bc_blobBytes c,
                      ba_chunks := replicate (unat (bc_chunkCount c)) [], ba_startedSec := 0\<rparr>
               else a)
      in if f64_le (ba_startedSec a) 0 then a\<lparr>ba_startedSec := now\<rparr> else a)"

definition assemble_blob_chunk ::
  "blob_assembly \<Rightarrow> bytes \<Rightarrow> f64 \<Rightarrow> assemble_status \<times> blob_assembly \<times> bytes option" where
  "assemble_blob_chunk a datagram now =
     (if length datagram < sizeof_BlobChunk then (A_Reject, a, None)
      else
        let c = dec_blob_chunk datagram
        in if \<not> chunk_valid c (length datagram) then (A_Reject, a, None)
           else
             let a = assembly_begin a c now;
                 payload = take (unat (bc_payloadBytes c)) (drop sizeof_BlobChunk datagram);
                 a = a\<lparr>ba_chunks := (ba_chunks a)[unat (bc_chunkIndex c) := payload]\<rparr>
             in case chunks_got (ba_chunks a) 0 of
                  None \<Rightarrow> (A_Pending, a, None)
                | Some got \<Rightarrow>
                    if got \<noteq> unat (bc_blobBytes c) then (A_Reject, a, None)
                    else (A_Complete, empty_assembly, Some (concat (ba_chunks a))))"

subsection \<open>Form ids: lemmas\<close>

lemma pack_full_form_id:
  assumes "f AND 0x00FFFFFF \<noteq> 0"
  shows "full_form_id (pf_raw (pack_form_id f p False)) (ucast (drop_bit 24 f)) False = f"
proof -
  have low: "f AND 0x00FFFFFF = take_bit 24 f"
    by (simp add: take_bit_eq_mask mask_eq_exp_minus_1)
  have "push_bit 24 (ucast (ucast (drop_bit 24 f) :: u8)) OR take_bit 24 f = f"
    by (rule bit_word_eqI)
       (auto simp: bit_or_iff bit_push_bit_iff bit_unsigned_iff bit_drop_bit_eq bit_take_bit_iff)
  moreover have "take_bit 24 f AND 0x00FFFFFF = take_bit 24 f"
    by (simp add: low [symmetric] and.assoc)
  ultimately show ?thesis
    using assms by (simp add: full_form_id_def pack_form_id_def low)
qed

subsection \<open>Inventory sheet: lemmas\<close>

definition norm_form :: "packed_form \<Rightarrow> packed_form" where
  "norm_form f = f\<lparr>pf_plugin := plugin_buf (pf_plugin f)\<rparr>"

definition norm_stack :: "inv_stack \<Rightarrow> inv_stack" where
  "norm_stack s = s\<lparr>is_form := norm_form (is_form s)\<rparr>"

definition enc_form :: "packed_form \<Rightarrow> bytes" where
  "enc_form f = wr (pf_raw f) @ wr_str (plugin_buf (pf_plugin f))"

definition enc_stack :: "inv_stack \<Rightarrow> bytes" where
  "enc_stack s = enc_form (is_form s) @ wr (is_count s)"

lemma br_raw_append [simp]: "length xs = n \<Longrightarrow> br_raw n (xs @ r) = Some (xs, r)"
  by (simp add: br_raw_def)

lemma br_u32_wr [simp]: "br_u32 (wr v @ r) = Some (v, r)"
  and br_u16_wr [simp]: "br_u16 (wr h @ r) = Some (h, r)"
  by (simp_all add: br_u32_def br_u16_def wr_def dec_enc_word)

lemma br_u8_Cons [simp]: "br_u8 (v # r) = Some (v, r)"
  using br_raw_append [of "[v]" 1 r] by (simp add: br_u8_def dec_word_def)

lemma length_plugin_buf [simp]: "length (plugin_buf p) = 24"
  by (simp add: plugin_buf_def kPluginField_def Let_def)

lemma plugin_buf_last [simp]: "(plugin_buf p)[23 := nul] = plugin_buf p"
proof -
  have "plugin_buf p ! 23 = nul"
    by (simp add: plugin_buf_def kPluginField_def Let_def nth_append zeros_def)
  then show ?thesis by (metis list_update_id)
qed

lemma write_form_append: "write_form f w = w @ enc_form f"
  by (simp add: write_form_def bw_plugin_def bw_u32_def bw_raw_def enc_form_def)

lemma read_form_enc [simp]: "read_form (enc_form f @ r) = Some (norm_form f, r)"
proof -
  have "br_plugin (wr_str (plugin_buf p) @ r) = Some (plugin_buf p, r)" for p
    by (simp add: br_plugin_def kPluginField_def wr_str_def o_def)
  then show ?thesis by (cases f) (simp add: read_form_def enc_form_def norm_form_def)
qed

lemma write_forms_append: "write_forms fs w = w @ concat (map enc_form fs)"
  by (induction fs arbitrary: w) (simp_all add: write_form_append)

lemma write_stacks_append: "write_stacks ss w = w @ concat (map enc_stack ss)"
  by (induction ss arbitrary: w)
     (simp_all add: write_form_append bw_u32_def bw_raw_def enc_stack_def)

lemma keep_norm_form [simp]: "keep_form (norm_form f) = keep_form f"
  by (simp add: keep_form_def norm_form_def)

lemma read_worn_enc:
  "read_worn (length fs) (concat (map enc_form fs) @ r) =
     Some (map norm_form (filter keep_form fs), r)"
  by (induction fs) auto

lemma read_stacks_enc:
  "read_stacks (length ss) (concat (map enc_stack ss) @ r) =
     Some (map norm_stack (filter (\<lambda>s. keep_form (is_form s)) ss), r)"
  by (induction ss) (auto simp: enc_stack_def norm_stack_def)

definition norm_sheet :: "inventory_sheet \<Rightarrow> inventory_sheet" where
  "norm_sheet s =
     \<lparr>iv_name = copy_cstr (zeros 32) (c_str (iv_name s)), iv_sex = iv_sex s,
      iv_race = norm_form (iv_race s),
      iv_worn = map norm_form (filter keep_form (take kMaxWorn (iv_worn s))),
      iv_stacks = map norm_stack (filter (\<lambda>t. keep_form (is_form t)) (take kMaxStacks (iv_stacks s)))\<rparr>"

lemma encode_layout:
  "encode_inventory_sheet s =
     wr kInvMagic @ wr kInvVersion @ wr_str (copy_cstr (zeros 32) (c_str (iv_name s))) @
     iv_sex s # enc_form (iv_race s) @
     word_of_nat (min (length (iv_worn s)) kMaxWorn) #
     concat (map enc_form (take kMaxWorn (iv_worn s))) @
     wr (word_of_nat (min (length (iv_stacks s)) kMaxStacks) :: u16) @
     concat (map enc_stack (take kMaxStacks (iv_stacks s)))"
  by (simp add: encode_inventory_sheet_def Let_def bw_u32_def bw_u16_def bw_u8_def bw_raw_def
      write_form_append write_forms_append write_stacks_append min_def)

lemma copy_cstr_31: "(copy_cstr (zeros 32) s)[31 := nul] = copy_cstr (zeros 32) s"
proof -
  have "last (copy_cstr (zeros 32) s) = nul"
    by (rule copy_cstr_last_nul) (auto simp: zeros_def)
  then have "copy_cstr (zeros 32) s ! 31 = nul"
    by (subst (asm) last_conv_nth) (simp_all flip: length_greater_0_conv)
  then show ?thesis by (metis list_update_id)
qed

lemma decode_encode_sheet: "decode_inventory_sheet (encode_inventory_sheet s) = Some (norm_sheet s)"
proof -
  let ?w = "take kMaxWorn (iv_worn s)" and ?t = "take kMaxStacks (iv_stacks s)"
  have uw: "unat (word_of_nat (min (length (iv_worn s)) kMaxWorn) :: u8) = length ?w"
    by (simp add: unat_of_nat kMaxWorn_def)
  have ut: "unat (word_of_nat (min (length (iv_stacks s)) kMaxStacks) :: u16) = length ?t"
    by (simp add: unat_of_nat kMaxStacks_def)
  have wl: "length ?w \<le> kMaxWorn" "length ?t \<le> kMaxStacks" by auto
  have rt: "read_stacks (length ?t) (concat (map enc_stack ?t)) =
      Some (map norm_stack (filter (\<lambda>s. keep_form (is_form s)) ?t), [])"
    using read_stacks_enc [of ?t "[]"] by simp
  have nm: "br_raw 32 (wr_str (copy_cstr (zeros 32) x) @ r) =
      Some (wr_str (copy_cstr (zeros 32) x), r)" for x r
    by simp
  show ?thesis
    unfolding encode_layout decode_inventory_sheet_def
    by (simp only: br_u32_wr br_u16_wr br_u8_Cons nm read_form_enc uw ut read_worn_enc rt
          option.case prod.case append_Cons append.assoc)
       (use wl in \<open>simp add: norm_sheet_def wr_str_def o_def copy_cstr_31\<close>)
qed

text \<open>What decoding promises about any bytes it accepts.\<close>

lemma read_worn_keeps: "read_worn n b = Some (fs, r) \<Longrightarrow> list_all keep_form fs \<and> length fs \<le> n"
proof (induction n arbitrary: b fs r)
  case (Suc n)
  then obtain f b1 fs' where "read_form b = Some (f, b1)" "read_worn n b1 = Some (fs', r)"
    "fs = (if keep_form f then f # fs' else fs')"
    by (auto split: option.splits)
  with Suc.IH [of b1 fs' r] show ?case by auto
qed auto

lemma read_stacks_keeps:
  "read_stacks n b = Some (ss, r) \<Longrightarrow> list_all (\<lambda>s. keep_form (is_form s)) ss \<and> length ss \<le> n"
proof (induction n arbitrary: b ss r)
  case (Suc n)
  then obtain f b1 c b2 ss' where "read_form b = Some (f, b1)" "br_u32 b1 = Some (c, b2)"
    "read_stacks n b2 = Some (ss', r)"
    "ss = (if keep_form f then \<lparr>is_form = f, is_count = c\<rparr> # ss' else ss')"
    by (auto split: option.splits)
  with Suc.IH [of b2 ss' r] show ?case by auto
qed auto

lemma decode_sheet_bounds:
  assumes "decode_inventory_sheet b = Some s"
  shows "list_all keep_form (iv_worn s) \<and> length (iv_worn s) \<le> kMaxWorn \<and>
     list_all (\<lambda>t. keep_form (is_form t)) (iv_stacks s) \<and> length (iv_stacks s) \<le> kMaxStacks"
proof -
  obtain n b1 b2 m b3 b4 where w: "read_worn n b1 = Some (iv_worn s, b2)" "n \<le> kMaxWorn"
    and t: "read_stacks m b3 = Some (iv_stacks s, b4)" "m \<le> kMaxStacks"
    using assms
    by (auto simp: decode_inventory_sheet_def not_less split: option.splits if_splits prod.splits)
  show ?thesis using read_worn_keeps [OF w(1)] read_stacks_keeps [OF t(1)] w(2) t(2) by linarith
qed

subsection \<open>Reassembly: lemmas\<close>

lemma blob_consts: "kBlobPayloadMax = 488" "kMaxBlobChunks = 135" "sizeof_BlobChunk = 24"
  by (simp_all add: kBlobPayloadMax_def kMaxBlobChunks_def kMaxDatagram_def sizeof_BlobChunk_def)

lemma chunks_got_eq:
  "chunks_got cs g = (if [] \<in> set cs then None else Some (g + length (concat cs)))"
  by (induction cs arbitrary: g) auto

definition blob_count :: "bytes \<Rightarrow> nat" where
  "blob_count blob = (length blob + 487) div 488"

definition blob_piece :: "bytes \<Rightarrow> nat \<Rightarrow> bytes" where
  "blob_piece blob i = take 488 (drop (i * 488) blob)"

lemma blob_count_eq: "(length blob + kBlobPayloadMax - 1) div kBlobPayloadMax = blob_count blob"
  by (simp add: blob_count_def blob_consts add.commute)

lemma split_blob_Some:
  "split_blob_chunks t p blob = Some pkts \<longleftrightarrow>
     blob \<noteq> [] \<and> length blob \<le> 65535 \<and>
     pkts = map (chunk_packet t p blob (blob_count blob)) [0..<blob_count blob]"
  unfolding split_blob_chunks_def blob_count_eq Let_def by auto

lemma blob_count_bound: "length blob \<le> 65535 \<Longrightarrow> blob_count blob \<le> 135"
  by (simp add: blob_count_def)

lemma piece_nonempty: "i < blob_count blob \<Longrightarrow> blob_piece blob i \<noteq> []"
  by (auto simp: blob_count_def blob_piece_def)

lemma concat_blob_pieces: "concat (map (blob_piece blob) [0..<blob_count blob]) = blob"
proof -
  have "length blob \<le> blob_count blob * 488" by (simp add: blob_count_def)
  then show ?thesis by (simp add: blob_piece_def [abs_def] concat_pieces)
qed

lemma length_blob_piece: "length (blob_piece blob i) = min 488 (length blob - i * 488)"
  by (simp add: blob_piece_def)

text \<open>What the receiver reads from the \<open>i\<close>-th packet.\<close>

lemma chunk_packet_decoded:
  fixes t :: msg and p :: u32
  assumes "i < blob_count blob" and "length blob \<le> 65535"
  defines "d \<equiv> chunk_packet t p blob (blob_count blob) i"
  shows "length d = 24 + length (blob_piece blob i)"
    and "drop 24 d = blob_piece blob i"
    and "unat (bc_payloadBytes (dec_blob_chunk d)) = length (blob_piece blob i)"
    and "unat (bc_chunkIndex (dec_blob_chunk d)) = i"
    and "bc_chunkCount (dec_blob_chunk d) = word_of_nat (blob_count blob)"
    and "bc_blobBytes (dec_blob_chunk d) = word_of_nat (length blob)"
    and "bc_peerId (dec_blob_chunk d) = p"
proof -
  define n where "n = length (blob_piece blob i)"
  define c where "c = \<lparr>bc_header = (fill_header 24 t)\<lparr>h_size := word_of_nat (24 + n)\<rparr>,
     bc_peerId = p, bc_chunkIndex = word_of_nat i, bc_chunkCount = word_of_nat (blob_count blob),
     bc_blobBytes = word_of_nat (length blob), bc_payloadBytes = word_of_nat n\<rparr>"
  have n: "n = min 488 (length blob - i * 488)" by (simp add: n_def length_blob_piece)
  have piece: "take n (drop (i * 488) blob) = blob_piece blob i"
    by (simp add: n blob_piece_def min_def)
  have d: "d = enc_blob_chunk c @ blob_piece blob i"
    by (simp add: d_def chunk_packet_def Let_def blob_consts c_def n piece [symmetric])
  have wf: "blob_chunk_wf c"
    by (simp add: c_def blob_chunk_wf_def header_wf_def fill_header_def kMagic_def)
  have len: "length (enc_blob_chunk c) = 24" using blob_chunk_c.enc_len [OF wf] by (simp add: blob_consts)
  have dec: "dec_blob_chunk d = c" by (simp add: d blob_chunk_c.dec_enc [OF wf])
  have "i < 65536" using assms blob_count_bound [of blob] by simp
  moreover have "n < 65536" using n by simp
  ultimately show "unat (bc_payloadBytes (dec_blob_chunk d)) = length (blob_piece blob i)"
    and "unat (bc_chunkIndex (dec_blob_chunk d)) = i"
    by (simp_all add: dec c_def unat_of_nat n_def)
  show "length d = 24 + length (blob_piece blob i)" "drop 24 d = blob_piece blob i"
    by (simp_all add: d len)
  show "bc_chunkCount (dec_blob_chunk d) = word_of_nat (blob_count blob)"
    "bc_blobBytes (dec_blob_chunk d) = word_of_nat (length blob)" "bc_peerId (dec_blob_chunk d) = p"
    by (simp_all add: dec c_def)
qed

lemma chunk_packet_valid:
  fixes t :: msg and p :: u32
  assumes "i < blob_count blob" and "length blob \<le> 65535"
  defines "d \<equiv> chunk_packet t p blob (blob_count blob) i"
  shows "chunk_valid (dec_blob_chunk d) (length d)"
proof -
  note dc = chunk_packet_decoded [OF assms(1,2), of t p, folded d_def]
  have b: "0 < blob_count blob" "blob_count blob \<le> 135" using assms blob_count_bound by auto
  then have uc: "unat (word_of_nat (blob_count blob) :: u16) = blob_count blob"
    by (simp add: unat_of_nat)
  have "length (blob_piece blob i) \<le> 488" "blob_piece blob i \<noteq> []"
    using piece_nonempty [OF assms(1)] by (auto simp: length_blob_piece)
  then have p0: "bc_payloadBytes (dec_blob_chunk d) \<noteq> 0" using dc(3) by auto
  have c0: "bc_chunkCount (dec_blob_chunk d) \<noteq> 0" using dc(5) uc b(1) by auto
  show ?thesis
    using p0 c0 dc b assms(1) \<open>length (blob_piece blob i) \<le> 488\<close>
    by (simp add: chunk_valid_def blob_consts uc)
qed

text \<open>
  The chunks an assembly holds for the blob being received: those stored, or none when the
  assembly is for another \<^verbatim>\<open>(chunkCount, blobBytes)\<close> pair and will be reset.
\<close>

definition held :: "bytes \<Rightarrow> blob_assembly \<Rightarrow> bytes list" where
  "held blob a =
     (if ba_chunkCount a \<noteq> word_of_nat (blob_count blob) \<or> ba_blobBytes a \<noteq> word_of_nat (length blob)
      then replicate (blob_count blob) [] else ba_chunks a)"

definition has_pieces :: "bytes \<Rightarrow> nat set \<Rightarrow> blob_assembly \<Rightarrow> bool" where
  "has_pieces blob S a \<longleftrightarrow>
     held blob a = map (\<lambda>i. if i \<in> S then blob_piece blob i else []) [0..<blob_count blob]"

lemma has_pieces_empty [simp]: "blob \<noteq> [] \<Longrightarrow> length blob \<le> 65535 \<Longrightarrow> has_pieces blob {} empty_assembly"
proof -
  assume b: "blob \<noteq> []" "length blob \<le> 65535"
  then have "unat (word_of_nat (length blob) :: u16) \<noteq> 0" by simp
  then have "(word_of_nat (length blob) :: u16) \<noteq> 0" by (metis unat_0)
  then show ?thesis
    by (simp add: has_pieces_def held_def empty_assembly_def map_replicate_const)
qed

lemma assembly_begin_chunks:
  assumes "bc_chunkCount c = word_of_nat (blob_count blob)" "bc_blobBytes c = word_of_nat (length blob)"
    and "length blob \<le> 65535"
  shows "ba_chunks (assembly_begin a c now) = held blob a"
    and "ba_chunkCount (assembly_begin a c now) = word_of_nat (blob_count blob)"
    and "ba_blobBytes (assembly_begin a c now) = word_of_nat (length blob)"
proof -
  have "unat (word_of_nat (blob_count blob) :: u16) = blob_count blob"
    using blob_count_bound [OF assms(3)] by (simp add: unat_of_nat)
  then show "ba_chunks (assembly_begin a c now) = held blob a"
    "ba_chunkCount (assembly_begin a c now) = word_of_nat (blob_count blob)"
    "ba_blobBytes (assembly_begin a c now) = word_of_nat (length blob)"
    using assms by (auto simp: assembly_begin_def held_def Let_def)
qed

lemma assemble_step:
  fixes t :: msg and p :: u32 and now :: f64
  assumes a: "has_pieces blob S a" and j: "j < blob_count blob" and len: "length blob \<le> 65535"
  defines "r \<equiv> assemble_blob_chunk a (chunk_packet t p blob (blob_count blob) j) now"
  shows "{..<blob_count blob} \<subseteq> insert j S \<Longrightarrow> r = (A_Complete, empty_assembly, Some blob)"
    and "\<not> {..<blob_count blob} \<subseteq> insert j S \<Longrightarrow>
      fst r = A_Pending \<and> snd (snd r) = None \<and> has_pieces blob (insert j S) (fst (snd r))"
proof -
  define d where "d = chunk_packet t p blob (blob_count blob) j"
  note dc = chunk_packet_decoded [OF j len, of t p, folded d_def]
  define a1 where "a1 = assembly_begin a (dec_blob_chunk d) now"
  define a2 where "a2 = a1\<lparr>ba_chunks := (held blob a)[j := blob_piece blob j]\<rparr>"
  have val: "chunk_valid (dec_blob_chunk d) (length d)"
    unfolding d_def by (rule chunk_packet_valid [OF j len])
  have l24: "\<not> length d < 24" by (simp add: dc(1))
  note ab = assembly_begin_chunks [OF dc(5,6) len, of a now, folded a1_def]
  have new: "(held blob a)[j := blob_piece blob j] =
      map (\<lambda>i. if i \<in> insert j S then blob_piece blob i else []) [0..<blob_count blob]"
    using a j by (intro nth_equalityI) (auto simp: has_pieces_def nth_list_update)
  have ul: "unat (word_of_nat (length blob) :: u16) = length blob"
    using len by (simp add: unat_of_nat)
  have r: "r = (case chunks_got (ba_chunks a2) 0 of None \<Rightarrow> (A_Pending, a2, None)
      | Some got \<Rightarrow> if got \<noteq> length blob then (A_Reject, a2, None)
                    else (A_Complete, empty_assembly, Some (concat (ba_chunks a2))))"
    using val l24 dc ab
    by (simp add: r_def assemble_blob_chunk_def Let_def blob_consts a2_def ul flip: d_def a1_def
        split: option.split)
  {
    assume "{..<blob_count blob} \<subseteq> insert j S"
    then have "map (\<lambda>i. if i \<in> insert j S then blob_piece blob i else []) [0..<blob_count blob]
        = map (blob_piece blob) [0..<blob_count blob]" by auto
    with new have c: "ba_chunks a2 = map (blob_piece blob) [0..<blob_count blob]"
      by (simp add: a2_def)
    have "[] \<notin> set (map (blob_piece blob) [0..<blob_count blob])"
      using piece_nonempty by fastforce
    then show "r = (A_Complete, empty_assembly, Some blob)"
      unfolding r by (simp only: c chunks_got_eq concat_blob_pieces) simp
  next
    assume "\<not> {..<blob_count blob} \<subseteq> insert j S"
    then have "[] \<in> set (ba_chunks a2)" by (force simp: a2_def new)
    moreover have "held blob a2 = ba_chunks a2"
      using ab(2,3) by (simp add: held_def [of blob a2], simp add: a2_def)
    then have "has_pieces blob (insert j S) a2"
      by (simp add: has_pieces_def, simp add: a2_def new)
    ultimately show "fst r = A_Pending \<and> snd (snd r) = None \<and> has_pieces blob (insert j S) (fst (snd r))"
      by (simp add: r chunks_got_eq)
  }
qed

text \<open>Feeding packets one after the other, each with the clock reading it arrived at.\<close>

fun assemble_all :: "blob_assembly \<Rightarrow> (bytes \<times> f64) list \<Rightarrow> assemble_status list \<times> blob_assembly" where
  "assemble_all a [] = ([], a)"
| "assemble_all a ((p, now) # ps) =
     (case assemble_blob_chunk a p now of
        (st, a1, _) \<Rightarrow> (case assemble_all a1 ps of (sts, a2) \<Rightarrow> (st # sts, a2)))"

lemma assemble_all_pending:
  fixes t :: msg and p :: u32
  assumes "has_pieces blob S a" and "length blob \<le> 65535"
    and "\<forall>(i, now) \<in> set js. i < blob_count blob"
    and "\<not> {..<blob_count blob} \<subseteq> S \<union> fst ` set js"
  defines "pk \<equiv> (\<lambda>(i, now). (chunk_packet t p blob (blob_count blob) i, now))"
  shows "\<exists>a'. assemble_all a (map pk js) = (replicate (length js) A_Pending, a') \<and>
     has_pieces blob (S \<union> fst ` set js) a'"
  using assms(1,3,4)
proof (induction js arbitrary: S a)
  case (Cons jn js)
  obtain j now where jn: "jn = (j, now)" by (cases jn)
  have j: "j < blob_count blob" using Cons.prems(2) jn by auto
  have "\<not> {..<blob_count blob} \<subseteq> insert j S" using Cons.prems(3) jn by auto
  from assemble_step(2) [OF Cons.prems(1) j assms(2) this, of t p now]
  obtain a1 where s: "assemble_blob_chunk a (chunk_packet t p blob (blob_count blob) j) now =
      (A_Pending, a1, None)" and h: "has_pieces blob (insert j S) a1"
    by (metis prod.collapse)
  have "\<not> {..<blob_count blob} \<subseteq> insert j S \<union> fst ` set js" using Cons.prems(3) jn by auto
  from Cons.IH [OF h _ this] Cons.prems(2)
  obtain a' where "assemble_all a1 (map pk js) = (replicate (length js) A_Pending, a')"
    "has_pieces blob (insert j S \<union> fst ` set js) a'" by auto
  with s jn show ?case by (simp add: pk_def)
qed simp

subsection \<open>Memory safety of the assembly\<close>

definition assembly_wf :: "blob_assembly \<Rightarrow> bool" where
  "assembly_wf a \<longleftrightarrow>
     length (ba_chunks a) = unat (ba_chunkCount a) \<and> unat (ba_chunkCount a) \<le> kMaxBlobChunks \<and>
     list_all (\<lambda>c. length c \<le> kBlobPayloadMax) (ba_chunks a)"

lemma assembly_wf_empty [simp]: "assembly_wf empty_assembly"
  by (simp add: assembly_wf_def empty_assembly_def)

lemma assembly_wf_begin:
  assumes "assembly_wf a" and "chunk_valid c n"
  shows "assembly_wf (assembly_begin a c now)"
    and "unat (bc_chunkIndex c) < length (ba_chunks (assembly_begin a c now))"
  using assms by (auto simp: assembly_wf_def assembly_begin_def chunk_valid_def Let_def list_all_iff)

lemma assemble_keeps_wf:
  assumes "assembly_wf a"
  shows "assembly_wf (fst (snd (assemble_blob_chunk a d now)))"
proof (cases "length d < sizeof_BlobChunk \<or> \<not> chunk_valid (dec_blob_chunk d) (length d)")
  case True
  then show ?thesis using assms by (auto simp: assemble_blob_chunk_def Let_def)
next
  case False
  let ?a = "assembly_begin a (dec_blob_chunk d) now"
  let ?c = "dec_blob_chunk d"
  let ?p = "take (unat (bc_payloadBytes ?c)) (drop sizeof_BlobChunk d)"
  have "assembly_wf ?a" using False assembly_wf_begin(1) [OF assms] by blast
  moreover have "length ?p \<le> kBlobPayloadMax" using False by (auto simp: chunk_valid_def)
  ultimately have "assembly_wf (?a\<lparr>ba_chunks := (ba_chunks ?a)[unat (bc_chunkIndex ?c) := ?p]\<rparr>)"
    by (auto simp: assembly_wf_def list_all_iff dest!: set_update_subset_insert [THEN subsetD])
  with False show ?thesis
    by (auto simp: assemble_blob_chunk_def Let_def split: option.splits)
qed

text \<open>
  C12: a blob split into chunks comes back whole whatever order the chunks arrive in and however
  often some are repeated: every chunk before the last missing one leaves the assembly pending, and
  the last missing one completes it with the original bytes and empties the assembly.
\<close>

theorem blob_any_order:
  fixes now :: "nat \<Rightarrow> f64"
  assumes "split_blob_chunks t p blob = Some pkts" and "j \<notin> set js" and "insert j (set js) = {..<length pkts}"
  shows "\<exists>a. assemble_all empty_assembly (map (\<lambda>i. (pkts ! i, now i)) js) = (replicate (length js) A_Pending, a) \<and>
     assemble_blob_chunk a (pkts ! j) (now j) = (A_Complete, empty_assembly, Some blob)"
proof -
  from assms(1) have b: "blob \<noteq> []" "length blob \<le> 65535"
    and pk: "pkts = map (chunk_packet t p blob (blob_count blob)) [0..<blob_count blob]"
    by (simp_all add: split_blob_Some)
  let ?js = "map (\<lambda>i. (i, now i)) js" and ?pk = "\<lambda>(i, n). (chunk_packet t p blob (blob_count blob) i, n)"
  have lt: "i \<in> insert j (set js) \<Longrightarrow> i < blob_count blob" for i using assms(3) pk by simp
  have "\<forall>(i, n)\<in>set ?js. i < blob_count blob" using lt by auto
  moreover have "\<not> {..<blob_count blob} \<subseteq> {} \<union> fst ` set ?js"
    using assms(2) lt by (auto simp: image_image)
  ultimately obtain a where a: "assemble_all empty_assembly (map ?pk ?js) = (replicate (length ?js) A_Pending, a)"
    "has_pieces blob ({} \<union> fst ` set ?js) a"
    using assemble_all_pending [OF has_pieces_empty [OF b] b(2), of ?js t p] by blast
  have "map ?pk ?js = map (\<lambda>i. (pkts ! i, now i)) js" using lt pk by simp
  moreover have "{..<blob_count blob} \<subseteq> insert j ({} \<union> fst ` set ?js)" using assms(3) pk by (simp add: image_image)
  from assemble_step(1) [OF a(2) _ b(2) this, of t p "now j"] lt
  have "assemble_blob_chunk a (pkts ! j) (now j) = (A_Complete, empty_assembly, Some blob)" by (simp add: pk)
  ultimately show ?thesis using a(1) unfolding length_map by metis
qed

theorem blob_any_order_witness:
  "\<exists>pkts a. split_blob_chunks AppearanceChunk 1 (replicate 600 (7 :: u8)) = Some pkts \<and>
     assemble_all empty_assembly [(pkts ! 1, 0), (pkts ! 1, 0)] = ([A_Pending, A_Pending], a) \<and>
     assemble_blob_chunk a (pkts ! 0) 0 = (A_Complete, empty_assembly, Some (replicate 600 (7 :: u8)))"
proof -
  let ?b = "replicate 600 (7 :: u8)"
  obtain pkts where s: "split_blob_chunks AppearanceChunk 1 ?b = Some pkts"
    and "pkts = map (chunk_packet AppearanceChunk 1 ?b (blob_count ?b)) [0..<blob_count ?b]"
    by (simp add: split_blob_Some)
  then have "insert 0 (set [1, 1]) = {..<length pkts}" by (auto simp: blob_count_def)
  from blob_any_order [OF s _ this, of "\<lambda>_. 0"] s show ?thesis by (auto simp: numeral_2_eq_2)
qed

lemma c_str_zeros: "nul \<notin> set s \<Longrightarrow> 0 < n \<Longrightarrow> c_str (s @ zeros n) = s"
  using c_str_append_nul [of s "zeros (n - 1)"] by (cases n) (simp_all add: zeros_def)

lemma nul_notin_take: "nul \<notin> set (take n (c_str s))"
  using nul_notin_c_str [of s] by (auto dest: in_set_takeD)

lemma plugin_buf_idem [simp]: "plugin_buf (plugin_buf p) = plugin_buf p"
proof -
  let ?n = "min (length (c_str p)) 23"
  have "c_str (take ?n (c_str p) @ zeros (24 - ?n)) = take ?n (c_str p)"
    by (rule c_str_zeros [OF nul_notin_take]) simp
  then show ?thesis by (simp add: plugin_buf_def kPluginField_def Let_def min_def)
qed

lemma norm_form_idem [simp]: "norm_form (norm_form f) = norm_form f"
  by (simp add: norm_form_def)

lemma norm_stack_idem [simp]: "norm_stack (norm_stack t) = norm_stack t" "is_form (norm_stack t) = norm_form (is_form t)"
  by (simp_all add: norm_stack_def)

lemma copy_name_idem:
  "copy_cstr (zeros 32) (c_str (copy_cstr (zeros 32) (c_str s))) = copy_cstr (zeros 32) (c_str s)"
  using c_str_copy_cstr [of "zeros 32" "c_str s"] nul_notin_take [of 31 s]
  by (simp add: zeros_def c_str_idem) (simp add: copy_cstr_def Let_def)

lemma norm_sheet_idem: "norm_sheet (norm_sheet s) = norm_sheet s"
proof -
  have w: "length (filter keep_form (take kMaxWorn ws)) \<le> kMaxWorn" for ws
    using length_filter_le [of keep_form "take kMaxWorn ws"] by simp
  have k: "length (filter (\<lambda>t. keep_form (is_form t)) (take kMaxStacks ss)) \<le> kMaxStacks" for ss
    using length_filter_le [of "\<lambda>t. keep_form (is_form t)" "take kMaxStacks ss"] by simp
  show ?thesis
    by (simp add: norm_sheet_def copy_name_idem filter_map o_def take_map take_all [OF w] take_all [OF k])
qed

text \<open>
  Decoding an encoded inventory sheet gives the sheet back up to what the format keeps (names
  cut to their fields, at most \<^verbatim>\<open>kMaxWorn\<close> and \<^verbatim>\<open>kMaxStacks\<close> entries, no empty or forbidden forms),
  and what comes back survives another round trip unchanged.
\<close>

lemma inventory_round_trip:
  "decode_inventory_sheet (encode_inventory_sheet s) = Some (norm_sheet s) \<and>
   decode_inventory_sheet (encode_inventory_sheet (norm_sheet s)) = Some (norm_sheet s)"
  by (simp add: decode_encode_sheet norm_sheet_idem)

text \<open>
  Whatever bytes arrive as an inventory blob, a sheet that decodes holds at most \<^verbatim>\<open>kMaxWorn\<close> worn
  forms and \<^verbatim>\<open>kMaxStacks\<close> stacks, and none of them is empty or the player or the NPC template.
\<close>

lemma decoded_sheet_bounded:
  assumes "decode_inventory_sheet b = Some s"
  shows "length (iv_worn s) \<le> 32 \<and> length (iv_stacks s) \<le> 192 \<and>
    list_all (\<lambda>f. pf_raw f \<noteq> 0 \<and> \<not> forbidden_actor_base (pf_raw f)) (iv_worn s @ map is_form (iv_stacks s))"
  using decode_sheet_bounds [OF assms] by (auto simp: kMaxWorn_def kMaxStacks_def keep_form_def list_all_iff)

end
