(* ===== verification/Net.thy ===== *)
theory Net
  imports Codec
begin

text \<open>
  \<^verbatim>\<open>protocol/cmp_net.hpp\<close>: sending a whole message, cutting frames out of the TCP byte stream, the
  receive buffer, the UDP token generator and the outbound queue of a nonblocking socket.

  The socket calls belong to the operating system. \<^verbatim>\<open>send\<close> is a function of the number of the
  call and of the length asked for; \<^verbatim>\<open>recv\<close> is a value of \<open>recv_res\<close>. A positive result of
  \<^verbatim>\<open>send\<close> is at most the length asked for: the hypothesis \<open>send_bounded\<close> says so where it is
  needed.
\<close>

subsection \<open>Sending\<close>

type_synonym send_fn = "nat \<Rightarrow> nat \<Rightarrow> int"

definition send_bounded :: "send_fn \<Rightarrow> bool" where
  "send_bounded f \<longleftrightarrow> (\<forall>k n. f k n \<le> int n)"

text \<open>The result and the bytes handed to the network.\<close>

function send_loop :: "send_fn \<Rightarrow> nat \<Rightarrow> bytes \<Rightarrow> bool \<times> bytes" where
  "send_loop f k rest =
     (if rest = [] then (True, [])
      else if f k (length rest) \<le> 0 then (False, [])
      else
        let n = nat (f k (length rest)); r = send_loop f (k + 1) (drop n rest)
        in (fst r, take n rest @ snd r))"
  by pat_completeness auto
termination
  by (relation "measure (\<lambda>(f, k, rest). length rest)") auto

declare send_loop.simps [simp del]

definition tcp_send_all :: "send_fn \<Rightarrow> bool \<Rightarrow> bytes \<Rightarrow> bool \<times> bytes" where
  "tcp_send_all f sockValid data =
     (if \<not> sockValid \<or> data = [] then (False, []) else send_loop f 0 data)"

definition tcp_send_msg :: "send_fn \<Rightarrow> bool \<Rightarrow> bytes \<Rightarrow> bool \<times> bytes" where
  "tcp_send_msg f sockValid data =
     (if length data < sizeof_Header then (False, [])
      else
        let h = dec_header data
        in if h_size h = 0 \<or> unat (h_size h) > kMaxTcpFrame \<or> unat (h_size h) \<noteq> length data
           then (False, [])
           else tcp_send_all f sockValid data)"

lemma send_loop_prefix: "\<exists>r. rest = snd (send_loop f k rest) @ r"
proof (induction f k rest rule: send_loop.induct)
  case (1 f k rest)
  show ?case
  proof (cases "rest = [] \<or> f k (length rest) \<le> 0")
    case False
    let ?n = "nat (f k (length rest))"
    from 1 False obtain r where r: "drop ?n rest = snd (send_loop f (k + 1) (drop ?n rest)) @ r"
      by fastforce
    have "rest = take ?n rest @ snd (send_loop f (k + 1) (drop ?n rest)) @ r"
      by (metis append_take_drop_id r)
    with False show ?thesis by (subst send_loop.simps) (auto simp: Let_def)
  qed (auto simp: send_loop.simps [of f k rest])
qed

lemma send_loop_complete: "fst (send_loop f k rest) \<Longrightarrow> snd (send_loop f k rest) = rest"
proof (induction f k rest rule: send_loop.induct)
  case (1 f k rest)
  let ?n = "nat (f k (length rest))"
  show ?case
  proof (cases "rest = [] \<or> f k (length rest) \<le> 0")
    case True
    then have "send_loop f k rest = (rest = [], [])" by (auto simp: send_loop.simps [of f k rest])
    with "1.prems" show ?thesis by simp
  next
    case False
    then have e: "send_loop f k rest = (fst (send_loop f (k + 1) (drop ?n rest)),
        take ?n rest @ snd (send_loop f (k + 1) (drop ?n rest)))"
      by (simp add: send_loop.simps [of f k rest] Let_def)
    from "1.prems" have "fst (send_loop f (k + 1) (drop ?n rest))" by (simp add: e)
    then have "snd (send_loop f (k + 1) (drop ?n rest)) = drop ?n rest"
      using "1.IH" False by simp
    then show ?thesis by (simp add: e)
  qed
qed

lemma send_loop_succeeds:
  "(\<And>k n. 0 < n \<Longrightarrow> 0 < f k n) \<Longrightarrow> fst (send_loop f k rest)"
proof (induction f k rest rule: send_loop.induct)
  case (1 f k rest)
  show ?case
  proof (cases "rest = []")
    case False
    then have pos: "0 < f k (length rest)" using "1.prems" by simp
    then have "fst (send_loop f (k + 1) (drop (nat (f k (length rest))) rest))"
      using "1.IH" [OF False] "1.prems" by fastforce
    with pos False show ?thesis by (subst send_loop.simps) (simp add: Let_def)
  qed (simp add: send_loop.simps [of f k "[]"])
qed

subsection \<open>Frames in the byte stream\<close>

definition tcp_try_extract_frame :: "bytes \<Rightarrow> bytes option \<times> bytes" where
  "tcp_try_extract_frame buf =
     (if length buf < sizeof_Header then (None, buf)
      else
        let h = dec_header buf
        in if h_magic h \<noteq> kMagic \<or> unat (h_size h) < sizeof_Header \<or> unat (h_size h) > kMaxTcpFrame
           then (None, [])
           else if length buf < unat (h_size h) then (None, buf)
           else (Some (take (unat (h_size h)) buf), drop (unat (h_size h)) buf))"

lemma extract_shrinks: "tcp_try_extract_frame buf = (Some f, r) \<Longrightarrow> length r < length buf"
  by (auto simp: tcp_try_extract_frame_def Let_def sizeof_Header_def split: if_splits)

text \<open>The loop \<^verbatim>\<open>while (tcp_try_extract_frame(recvBuf, frame))\<close> of the callers.\<close>

function extract_frames :: "bytes \<Rightarrow> bytes list \<times> bytes" where
  "extract_frames buf =
     (case tcp_try_extract_frame buf of
        (None, b) \<Rightarrow> ([], b)
      | (Some f, b) \<Rightarrow> (f # fst (extract_frames b), snd (extract_frames b)))"
  by pat_completeness auto
termination
  by (relation "measure length") (auto dest: extract_shrinks [OF sym])

declare extract_frames.simps [simp del]

datatype recv_res = RData bytes | RClosed | RErr int

definition tcp_recv_append :: "recv_res \<Rightarrow> bytes \<Rightarrow> nat \<Rightarrow> int \<times> bytes" where
  "tcp_recv_append r buf maxBuf =
     (case r of
        RData d \<Rightarrow> if length buf + length d > maxBuf then (-2, []) else (int (length d), buf @ d)
      | RClosed \<Rightarrow> (0, buf)
      | RErr _ \<Rightarrow> (-1, buf))"

definition recv_max :: nat where "recv_max = kMaxTcpFrame * 2"

text \<open>A frame as \<^verbatim>\<open>tcp_send_msg\<close> puts it on the wire.\<close>

definition valid_frame :: "bytes \<Rightarrow> bool" where
  "valid_frame f \<longleftrightarrow> sizeof_Header \<le> length f \<and> h_magic (dec_header f) = kMagic \<and>
     unat (h_size (dec_header f)) = length f"

lemma dec_header_append: "12 \<le> length a \<Longrightarrow> dec_header (a @ b) = dec_header a"
  using header_codec.dec_take [of "a @ b"] header_codec.dec_take [of a]
  by (simp add: sizeof_Header_def)

lemma extract_valid_frame:
  "valid_frame f \<Longrightarrow> tcp_try_extract_frame (f @ r) = (Some f, r)"
  using unsigned_less [of "h_size (dec_header f)", where 'a = nat]
  by (auto simp: valid_frame_def tcp_try_extract_frame_def Let_def sizeof_Header_def kMaxTcpFrame_def
      dec_header_append)

lemma extract_partial_frame:
  assumes "valid_frame (p @ q)" and "q \<noteq> []"
  shows "tcp_try_extract_frame p = (None, p)"
proof (cases "length p < 12")
  case False
  then have "dec_header (p @ q) = dec_header p" by (simp add: dec_header_append)
  with assms False show ?thesis
    using unsigned_less [of "h_size (dec_header p)", where 'a = nat]
    by (auto simp: valid_frame_def tcp_try_extract_frame_def Let_def sizeof_Header_def kMaxTcpFrame_def)
qed (simp add: tcp_try_extract_frame_def sizeof_Header_def)

lemma extract_frames_valid:
  assumes "list_all valid_frame fs" and "p = [] \<or> (\<exists>q. q \<noteq> [] \<and> valid_frame (p @ q))"
  shows "extract_frames (concat fs @ p) = (fs, p)"
  using assms(1)
proof (induction fs)
  case Nil
  have "tcp_try_extract_frame p = (None, p)"
  proof (cases "p = []")
    case True
    then show ?thesis by (simp add: tcp_try_extract_frame_def sizeof_Header_def)
  next
    case False
    with assms(2) show ?thesis using extract_partial_frame by blast
  qed
  then show ?case by (simp add: extract_frames.simps [of p])
next
  case (Cons f fs)
  then have "tcp_try_extract_frame (f @ (concat fs @ p)) = (Some f, concat fs @ p)"
    by (simp add: extract_valid_frame)
  with Cons show ?case
    by (simp add: extract_frames.simps [of "f @ concat fs @ p"])
qed

text \<open>
  The receive loop of \<^verbatim>\<open>NetIo::poll_conn\<close> without the queue: append what \<^verbatim>\<open>recv\<close> returned, then
  take out every complete frame. The buffer is \<open>None\<close> when the connection is closed instead, at the end of
  the stream or when the buffer would grow too big.
\<close>

fun recv_chunks :: "bytes \<Rightarrow> bytes list \<Rightarrow> bytes list \<times> bytes option" where
  "recv_chunks buf [] = ([], Some buf)"
| "recv_chunks buf (c # cs) =
     (case tcp_recv_append (RData c) buf recv_max of (n, buf') \<Rightarrow>
        if n \<le> 0 then ([], None)
        else let r = extract_frames buf'; r' = recv_chunks (snd r) cs in (fst r @ fst r', snd r'))"

text \<open>What \<^verbatim>\<open>recv\<close> returns is not empty and fits the 4096 bytes it is given.\<close>

definition recv_sizes :: "bytes list \<Rightarrow> bool" where
  "recv_sizes cs \<longleftrightarrow> list_all (\<lambda>c. c \<noteq> [] \<and> length c \<le> 4096) cs"

lemma extract_frames_all_valid:
  "list_all valid_frame (fst (extract_frames buf))"
proof (induction buf rule: extract_frames.induct)
  case (1 buf)
  obtain o' r where e: "tcp_try_extract_frame buf = (o', r)" by fastforce
  show ?case
  proof (cases o')
    case (Some f)
    with e have "valid_frame f"
      using dec_header_append [of f r]
      by (auto simp: tcp_try_extract_frame_def Let_def valid_frame_def sizeof_Header_def
          split: if_splits)
    with 1 e Some show ?thesis by (simp add: extract_frames.simps [of buf])
  qed (simp add: extract_frames.simps [of buf] e)
qed

text \<open>What stays in the buffer is less than one frame of the largest size.\<close>

lemma extract_residual: "length (snd (extract_frames buf)) < kMaxTcpFrame"
proof (induction buf rule: extract_frames.induct)
  case (1 buf)
  obtain o' r where e: "tcp_try_extract_frame buf = (o', r)" by fastforce
  show ?case
  proof (cases o')
    case None
    with e have "length r < kMaxTcpFrame"
      by (auto simp: tcp_try_extract_frame_def Let_def sizeof_Header_def kMaxTcpFrame_def split: if_splits)
    with e None show ?thesis by (simp add: extract_frames.simps [of buf])
  next
    case (Some f)
    with 1 e show ?thesis by (simp add: extract_frames.simps [of buf])
  qed
qed

lemma recv_chunks_step:
  assumes "length buf < kMaxTcpFrame" "recv_sizes (c # cs)"
  shows "recv_chunks buf (c # cs) =
    (fst (extract_frames (buf @ c)) @ fst (recv_chunks (snd (extract_frames (buf @ c))) cs),
     snd (recv_chunks (snd (extract_frames (buf @ c))) cs))"
  using assms by (simp add: tcp_recv_append_def recv_sizes_def recv_max_def kMaxTcpFrame_def Let_def)

declare recv_chunks.simps(2) [simp del]

lemma extract_nil: "extract_frames [] = ([], [])"
  by (subst extract_frames.simps) (simp add: tcp_try_extract_frame_def sizeof_Header_def)

text \<open>A beginning in which no decision about a frame can be made: too short for a header, or a part of a frame.\<close>

definition undecided :: "bytes \<Rightarrow> bool" where
  "undecided p \<longleftrightarrow> length p < sizeof_Header \<or> (\<exists>q. q \<noteq> [] \<and> valid_frame (p @ q))"

text \<open>A header that is no frame's.\<close>

definition malformed :: "bytes \<Rightarrow> bool" where
  "malformed p \<longleftrightarrow> sizeof_Header \<le> length p \<and>
     (h_magic (dec_header p) \<noteq> kMagic \<or> unat (h_size (dec_header p)) < sizeof_Header \<or> unat (h_size (dec_header p)) > kMaxTcpFrame)"

lemma extract_undecided: "undecided p \<Longrightarrow> extract_frames p = ([], p)"
  using extract_partial_frame [of p]
  by (subst extract_frames.simps) (auto simp: undecided_def tcp_try_extract_frame_def)

lemma extract_malformed: "malformed p \<Longrightarrow> extract_frames p = ([], [])"
  by (subst extract_frames.simps) (auto simp: malformed_def tcp_try_extract_frame_def Let_def)

lemma malformed_append: "sizeof_Header \<le> length p \<Longrightarrow> malformed (p @ q) \<longleftrightarrow> malformed p"
  by (simp add: malformed_def dec_header_append sizeof_Header_def)

lemma extract_after_frames:
  "list_all valid_frame fs \<Longrightarrow> extract_frames (concat fs @ p) = (fs @ fst (extract_frames p), snd (extract_frames p))"
  by (induction fs) (simp_all add: extract_frames.simps [of "_ @ _ @ _"] extract_valid_frame)

text \<open>Where a cut falls: after some of the frames, in the next one or in what follows the last.\<close>

lemma cut_stream:
  assumes "list_all valid_frame fs" "a @ b = concat fs @ p"
  shows "\<exists>fs1 fs2 p1. fs = fs1 @ fs2 \<and> a = concat fs1 @ p1 \<and> p1 @ b = concat fs2 @ p \<and> (fs2 = [] \<or> undecided p1)"
  using assms
proof (induction fs arbitrary: a)
  case (Cons f fs)
  show ?case
  proof (cases "length f \<le> length a")
    case True
    then obtain a' where a: "a = f @ a'"
      using Cons.prems(2) by (metis append_eq_append_conv_if append_take_drop_id concat.simps(2) append.assoc)
    then have "a' @ b = concat fs @ p" using Cons.prems(2) by simp
    with Cons.IH [of a'] Cons.prems(1) obtain fs1 fs2 p1 where
      "fs = fs1 @ fs2" "a' = concat fs1 @ p1" "p1 @ b = concat fs2 @ p" "fs2 = [] \<or> undecided p1" by auto
    then show ?thesis using a by (intro exI [of _ "f # fs1"] exI [of _ fs2] exI [of _ p1]) simp
  next
    case False
    then have "f = a @ drop (length a) f" "drop (length a) f \<noteq> []"
      using Cons.prems(2) by (simp_all add: append_eq_append_conv_if)
        (metis append_eq_append_conv_if append_take_drop_id nat_le_linear)
    moreover have "valid_frame f" using Cons.prems(1) by simp
    ultimately have "undecided a" unfolding undecided_def by metis
    then show ?thesis using Cons.prems(2) by (intro exI [of _ "[]"] exI [of _ "f # fs"] exI [of _ a]) simp
  qed
qed simp

lemma recv_chunks_frames:
  assumes "list_all valid_frame fs" "undecided p" "buf @ concat cs = concat fs @ p"
    and "recv_sizes cs" "extract_frames buf = ([], buf)"
  shows "recv_chunks buf cs = (fs, Some p)"
  using assms
proof (induction cs arbitrary: buf fs)
  case Nil
  with extract_after_frames [OF Nil(1), of p] extract_undecided [OF Nil(2)] show ?case by simp
next
  case (Cons c cs)
  have len: "length buf < kMaxTcpFrame" using extract_residual [of buf] Cons.prems(5) by simp
  from cut_stream [OF Cons.prems(1), of "buf @ c" "concat cs" p] Cons.prems(3) obtain fs1 fs2 p1 where
    cut: "fs = fs1 @ fs2" "buf @ c = concat fs1 @ p1" "p1 @ concat cs = concat fs2 @ p" "fs2 = [] \<or> undecided p1" by auto
  have "undecided p1"
  proof (cases "fs2 = []")
    case True
    with cut(3) Cons.prems(2) show ?thesis by (auto simp: undecided_def)
  qed (use cut(4) in simp)
  then have 1: "extract_frames p1 = ([], p1)" by (rule extract_undecided)
  then have "extract_frames (buf @ c) = (fs1, p1)"
    using cut(1,2) Cons.prems(1) by (simp add: extract_after_frames)
  moreover have "recv_chunks p1 cs = (fs2, Some p)"
    using Cons.IH [of fs2 p1] Cons.prems(1,2,4) cut 1 by (simp add: recv_sizes_def)
  ultimately show ?case
    using recv_chunks_step [OF len Cons.prems(4)] cut(1) by simp
qed

lemma recv_chunks_malformed:
  assumes "list_all valid_frame fs" "malformed p" "buf @ concat cs = concat fs @ p"
    and "recv_sizes cs" "extract_frames buf = ([], buf)"
  shows "\<exists>cs1 cs2. cs = cs1 @ cs2 \<and> cs1 \<noteq> [] \<and>
    length (buf @ concat (butlast cs1)) < length (concat fs) + sizeof_Header \<and>
    length (concat fs) + sizeof_Header \<le> length (buf @ concat cs1) \<and>
    recv_chunks buf cs = (fs @ fst (recv_chunks [] cs2), snd (recv_chunks [] cs2))"
  using assms
proof (induction cs arbitrary: buf fs)
  case Nil
  then have "extract_frames buf = (fs, [])"
    using extract_after_frames [OF Nil(1), of p] by (simp add: extract_malformed)
  with Nil show ?case by (auto simp: malformed_def sizeof_Header_def)
next
  case (Cons c cs)
  have len: "length buf < kMaxTcpFrame" using extract_residual [of buf] Cons.prems(5) by simp
  have before: "length buf < length (concat fs) + sizeof_Header"
  proof (rule ccontr)
    assume "\<not> ?thesis"
    then have l: "length (concat fs) + sizeof_Header \<le> length buf" by simp
    define p0 where "p0 = drop (length (concat fs)) buf"
    have "buf = concat fs @ p0" "p = p0 @ c @ concat cs"
      using l Cons.prems(3) by (simp_all add: p0_def append_eq_append_conv_if split: if_splits)
        (metis append_eq_append_conv_if append_take_drop_id le_add1 le_trans)+
    moreover have "sizeof_Header \<le> length p0" using l by (simp add: p0_def)
    ultimately have "malformed p0" using Cons.prems(2) malformed_append by simp
    then have "extract_frames buf = (fs, [])"
      using extract_after_frames [OF Cons.prems(1), of p0] \<open>buf = concat fs @ p0\<close> by (simp add: extract_malformed)
    with Cons.prems(5) l show False by (simp add: sizeof_Header_def)
  qed
  from cut_stream [OF Cons.prems(1), of "buf @ c" "concat cs" p] Cons.prems(3) obtain fs1 fs2 p1 where
    cut: "fs = fs1 @ fs2" "buf @ c = concat fs1 @ p1" "p1 @ concat cs = concat fs2 @ p" "fs2 = [] \<or> undecided p1" by auto
  have l: "length buf + length c = length (concat fs1) + length p1"
    using arg_cong [OF cut(2), of length] by simp
  have fs1: "list_all valid_frame fs1" using cut(1) Cons.prems(1) by simp
  show ?case
  proof (cases "undecided p1")
    case True
    then have 1: "extract_frames p1 = ([], p1)" by (rule extract_undecided)
    then have e: "extract_frames (buf @ c) = (fs1, p1)"
      using cut(2) fs1 by (simp add: extract_after_frames)
    from Cons.IH [of fs2 p1] Cons.prems(1,2,4) cut 1 obtain cs1 cs2 where
      r: "cs = cs1 @ cs2" "cs1 \<noteq> []" "length (p1 @ concat (butlast cs1)) < length (concat fs2) + sizeof_Header"
      "length (concat fs2) + sizeof_Header \<le> length (p1 @ concat cs1)"
      "recv_chunks p1 cs = (fs2 @ fst (recv_chunks [] cs2), snd (recv_chunks [] cs2))"
      by (auto simp: recv_sizes_def)
    have "recv_chunks buf (c # cs) = (fs @ fst (recv_chunks [] cs2), snd (recv_chunks [] cs2))"
      using recv_chunks_step [OF len Cons.prems(4)] e r(5) cut(1) by simp
    then show ?thesis
      using r(1-4) l cut(1) by (intro exI [of _ "c # cs1"] exI [of _ cs2]) simp
  next
    case False
    then have fs2: "fs2 = []" and "sizeof_Header \<le> length p1" using cut(4) by (auto simp: undecided_def)
    with cut(3) Cons.prems(2) have "malformed p1" by (metis append_Nil concat.simps(1) malformed_append)
    then have e: "extract_frames (buf @ c) = (fs1, [])"
      using cut(2) fs1 by (simp add: extract_after_frames extract_malformed)
    then have "recv_chunks buf (c # cs) = (fs @ fst (recv_chunks [] cs), snd (recv_chunks [] cs))"
      using recv_chunks_step [OF len Cons.prems(4)] fs2 cut(1) by simp
    then show ?thesis
      using before l fs2 cut(1) \<open>sizeof_Header \<le> length p1\<close> by (intro exI [of _ "[c]"] exI [of _ cs]) simp
  qed
qed

subsection \<open>Tokens\<close>

text \<open>The static of \<^verbatim>\<open>make_udp_token\<close> is passed in; the new value is also the token.\<close>

definition udp_token_seed :: u32 where "udp_token_seed = 0xC0FFEE01"

definition make_udp_token :: "u32 \<Rightarrow> u32" where
  "make_udp_token s = (let s' = s * 1664525 + 1013904223 in if s' = 0 then 1 else s')"

lemma make_udp_token_nonzero [simp]: "make_udp_token s \<noteq> 0"
  by (simp add: make_udp_token_def Let_def)

subsection \<open>The outbound queue of a nonblocking socket\<close>

definition kTcpSendQueueMax :: nat where "kTcpSendQueueMax = 1024 * 1024"

record TcpSendQueue =
  sq_bytes :: bytes
  sq_offset :: nat

definition sq_init :: TcpSendQueue where "sq_init = \<lparr>sq_bytes = [], sq_offset = 0\<rparr>"

definition sq_empty :: "TcpSendQueue \<Rightarrow> bool" where
  "sq_empty q \<longleftrightarrow> sq_offset q \<ge> length (sq_bytes q)"

definition sq_pending :: "TcpSendQueue \<Rightarrow> nat" where
  "sq_pending q = (if sq_empty q then 0 else length (sq_bytes q) - sq_offset q)"

definition sq_clear :: "TcpSendQueue \<Rightarrow> TcpSendQueue" where
  "sq_clear q = q\<lparr>sq_bytes := [], sq_offset := 0\<rparr>"

definition sq_compact :: "TcpSendQueue \<Rightarrow> TcpSendQueue" where
  "sq_compact q =
     (if sq_offset q > 0 \<and> sq_offset q = length (sq_bytes q) then sq_clear q
      else if sq_offset q > 64 * 1024 \<and> sq_offset q * 2 > length (sq_bytes q)
      then q\<lparr>sq_bytes := drop (sq_offset q) (sq_bytes q), sq_offset := 0\<rparr>
      else q)"

definition sq_append :: "TcpSendQueue \<Rightarrow> bytes \<Rightarrow> bool \<times> TcpSendQueue" where
  "sq_append q data =
     (if data = [] then (False, q)
      else if sq_pending q + length data > kTcpSendQueueMax then (False, q)
      else (True, (sq_compact q)\<lparr>sq_bytes := sq_bytes (sq_compact q) @ data\<rparr>))"

text \<open>
  \<^verbatim>\<open>send\<close> on a nonblocking socket, for the number of the call and the bytes offered: some bytes
  taken, a would-block error or another failure (a return of zero included).
\<close>

datatype send_res = Sent nat | WouldBlock | SendErr

type_synonym nb_send = "nat \<Rightarrow> bytes \<Rightarrow> send_res"

definition nb_send_ok :: "nb_send \<Rightarrow> bool" where
  "nb_send_ok f \<longleftrightarrow> (\<forall>k d n. f k d = Sent n \<longrightarrow> 0 < n \<and> n \<le> length d)"

record drain_res =
  dr_ok :: bool
  dr_wantPollOut :: bool
  dr_closed :: bool
  dr_sent :: bytes

function drain_loop :: "nb_send \<Rightarrow> nat \<Rightarrow> TcpSendQueue \<Rightarrow> drain_res \<times> TcpSendQueue" where
  "drain_loop f k q =
     (if sq_empty q
      then (\<lparr>dr_ok = True, dr_wantPollOut = False, dr_closed = False, dr_sent = []\<rparr>,
            if sq_offset q > 0 then sq_clear q else q)
      else case f k (drop (sq_offset q) (sq_bytes q)) of
        Sent n \<Rightarrow>
          (if n = 0
           then (\<lparr>dr_ok = False, dr_wantPollOut = False, dr_closed = True, dr_sent = []\<rparr>, q)
           else let r = drain_loop f (k + 1) (q\<lparr>sq_offset := sq_offset q + n\<rparr>)
                in ((fst r)\<lparr>dr_sent := take n (drop (sq_offset q) (sq_bytes q)) @ dr_sent (fst r)\<rparr>, snd r))
      | WouldBlock \<Rightarrow> (\<lparr>dr_ok = True, dr_wantPollOut = True, dr_closed = False, dr_sent = []\<rparr>, q)
      | SendErr \<Rightarrow> (\<lparr>dr_ok = False, dr_wantPollOut = False, dr_closed = True, dr_sent = []\<rparr>, q))"
  by pat_completeness auto
termination
  by (relation "measure (\<lambda>(f, k, q). length (sq_bytes q) - sq_offset q)") (auto simp: sq_empty_def)

declare drain_loop.simps [simp del]

definition sq_drain :: "nb_send \<Rightarrow> bool \<Rightarrow> TcpSendQueue \<Rightarrow> drain_res \<times> TcpSendQueue" where
  "sq_drain f sockValid q =
     (if \<not> sockValid then (\<lparr>dr_ok = False, dr_wantPollOut = False, dr_closed = False, dr_sent = []\<rparr>, q)
      else drain_loop f 0 q)"

text \<open>
  The contract: the queue holds a string of bytes; an accepted \<^verbatim>\<open>append\<close> adds at its end, a
  \<^verbatim>\<open>drain\<close> sends a prefix of it and keeps the rest.
\<close>

definition sq_abs :: "TcpSendQueue \<Rightarrow> bytes" where
  "sq_abs q = drop (sq_offset q) (sq_bytes q)"

definition sq_inv :: "TcpSendQueue \<Rightarrow> bool" where
  "sq_inv q \<longleftrightarrow> sq_offset q \<le> length (sq_bytes q) \<and> length (sq_abs q) \<le> kTcpSendQueueMax"

locale byte_fifo =
  fixes abs :: "'q \<Rightarrow> bytes" and inv :: "'q \<Rightarrow> bool" and cap :: nat
    and app :: "'q \<Rightarrow> bytes \<Rightarrow> bool \<times> 'q" and flush :: "'e \<Rightarrow> 'q \<Rightarrow> drain_res \<times> 'q"
    and okenv :: "'e \<Rightarrow> bool"
  assumes app_accept: "inv q \<Longrightarrow> fst (app q d) \<longleftrightarrow> d \<noteq> [] \<and> length (abs q) + length d \<le> cap"
    and app_abs: "inv q \<Longrightarrow> abs (snd (app q d)) = (if fst (app q d) then abs q @ d else abs q)"
    and app_inv: "inv q \<Longrightarrow> inv (snd (app q d))"
    and flush_abs: "okenv e \<Longrightarrow> inv q \<Longrightarrow> dr_sent (fst (flush e q)) @ abs (snd (flush e q)) = abs q"
    and flush_inv: "okenv e \<Longrightarrow> inv q \<Longrightarrow> inv (snd (flush e q))"
begin

text \<open>A run of appends and drains; \<open>Inl\<close> an append, \<open>Inr\<close> a drain in its environment.\<close>

primrec run :: "(bytes + 'e) list \<Rightarrow> 'q \<Rightarrow> bytes \<times> bytes \<times> 'q" where
  "run [] q = ([], [], q)"
| "run (x # xs) q =
     (case x of
        Inl d \<Rightarrow> let r = run xs (snd (app q d))
                 in ((if fst (app q d) then d else []) @ fst r, fst (snd r), snd (snd r))
      | Inr e \<Rightarrow> let r = run xs (snd (flush e q))
                 in (fst r, dr_sent (fst (flush e q)) @ fst (snd r), snd (snd r)))"

lemma run_stream:
  "inv q \<Longrightarrow> \<forall>e. Inr e \<in> set xs \<longrightarrow> okenv e \<Longrightarrow>
     fst (snd (run xs q)) @ abs (snd (snd (run xs q))) = abs q @ fst (run xs q) \<and> inv (snd (snd (run xs q)))"
proof (induction xs arbitrary: q)
  case (Cons x xs)
  show ?case
  proof (cases x)
    case (Inl d)
    with Cons.IH [of "snd (app q d)"] Cons.prems show ?thesis
      by (auto simp: Let_def app_abs app_inv)
  next
    case (Inr e)
    with Cons.IH [of "snd (flush e q)"] Cons.prems flush_abs [of e q] flush_inv [of e q] show ?thesis
      by (auto simp: Let_def)
  qed
qed simp

end

lemma sq_abs_compact: "sq_abs (sq_compact q) = sq_abs q"
  by (auto simp: sq_abs_def sq_compact_def sq_clear_def)

lemma sq_compact_offset:
  "sq_offset q \<le> length (sq_bytes q) \<Longrightarrow> sq_offset (sq_compact q) \<le> length (sq_bytes (sq_compact q))"
  by (auto simp: sq_compact_def sq_clear_def)

lemma sq_pending_abs: "sq_pending q = length (sq_abs q)"
  by (auto simp: sq_pending_def sq_abs_def sq_empty_def)

lemma sq_abs_append:
  "sq_offset q \<le> length (sq_bytes q) \<Longrightarrow>
     sq_abs ((sq_compact q)\<lparr>sq_bytes := sq_bytes (sq_compact q) @ d\<rparr>) = sq_abs q @ d"
  using sq_abs_compact [of q] sq_compact_offset [of q] by (simp add: sq_abs_def)

lemma drain_loop_abs:
  assumes "nb_send_ok f" and "sq_inv q"
  shows "dr_sent (fst (drain_loop f k q)) @ sq_abs (snd (drain_loop f k q)) = sq_abs q \<and>
     sq_inv (snd (drain_loop f k q))"
  using assms
proof (induction f k q rule: drain_loop.induct)
  case (1 f k q)
  show ?case
  proof (cases "sq_empty q")
    case True
    with "1.prems" show ?thesis
      by (subst (1 2 3) drain_loop.simps) (auto simp: sq_abs_def sq_clear_def sq_empty_def sq_inv_def)
  next
    case False
    show ?thesis
    proof (cases "f k (drop (sq_offset q) (sq_bytes q))")
      case (Sent n)
      let ?q = "q\<lparr>sq_offset := sq_offset q + n\<rparr>"
      from Sent "1.prems" have n: "0 < n" "n \<le> length (sq_bytes q) - sq_offset q"
        by (force simp: nb_send_ok_def)+
      with "1.prems" False have "sq_inv ?q" by (auto simp: sq_inv_def sq_abs_def sq_empty_def)
      then have "dr_sent (fst (drain_loop f (k + 1) ?q)) @ sq_abs (snd (drain_loop f (k + 1) ?q)) = sq_abs ?q \<and>
          sq_inv (snd (drain_loop f (k + 1) ?q))"
        using "1.IH" [OF False Sent] n "1.prems" by simp
      moreover have "take n (drop (sq_offset q) (sq_bytes q)) @ sq_abs ?q = sq_abs q"
        by (simp add: sq_abs_def add.commute flip: drop_drop)
      ultimately show ?thesis using False Sent n
        by (subst (1 2 3) drain_loop.simps) (simp add: Let_def)
    qed (use False "1.prems" in \<open>simp_all add: drain_loop.simps [of f k q]\<close>)
  qed
qed

interpretation tcp_fifo: byte_fifo sq_abs sq_inv kTcpSendQueueMax sq_append "\<lambda>(f, v). sq_drain f v" "\<lambda>(f, v). nb_send_ok f"
proof (unfold_locales, goal_cases)
  case (1 q d)
  then show ?case by (auto simp: sq_append_def sq_pending_abs)
next
  case (2 q d)
  then show ?case by (auto simp: sq_append_def sq_inv_def sq_abs_append)
next
  case (3 q d)
  then show ?case
    using sq_compact_offset [of q] by (auto simp: sq_append_def sq_inv_def sq_abs_append sq_pending_abs)
next
  case (4 e q)
  then show ?case using drain_loop_abs by (auto simp: sq_drain_def split: prod.splits)
next
  case (5 e q)
  then show ?case using drain_loop_abs by (auto simp: sq_drain_def split: prod.splits)
qed

text \<open>A drain that says all is well and asks for no poll has sent everything.\<close>

lemma drain_loop_flushed:
  "dr_ok (fst (drain_loop f k q)) \<Longrightarrow> \<not> dr_wantPollOut (fst (drain_loop f k q)) \<Longrightarrow>
     sq_empty (snd (drain_loop f k q))"
proof (induction f k q rule: drain_loop.induct)
  case (1 f k q)
  show ?case
  proof (cases "sq_empty q")
    case True
    then show ?thesis
      by (subst drain_loop.simps) (auto simp: sq_empty_def sq_clear_def)
  next
    case False
    show ?thesis
    proof (cases "f k (drop (sq_offset q) (sq_bytes q))")
      case (Sent n)
      let ?q = "q\<lparr>sq_offset := sq_offset q + n\<rparr>"
      show ?thesis
      proof (cases "n = 0")
        case True
        with Sent False "1.prems" show ?thesis by (simp add: drain_loop.simps [of f k q])
      next
        case nz: False
        let ?r = "drain_loop f (k + 1) ?q"
        have e: "drain_loop f k q =
            ((fst ?r)\<lparr>dr_sent := take n (drop (sq_offset q) (sq_bytes q)) @ dr_sent (fst ?r)\<rparr>, snd ?r)"
          using Sent False nz by (subst drain_loop.simps) (simp add: Let_def)
        show ?thesis using "1.IH" [OF False Sent nz] "1.prems" by (simp add: e)
      qed
    qed (use False "1.prems" in \<open>simp_all add: drain_loop.simps [of f k q]\<close>)
  qed
qed

subsection \<open>Messages on the wire\<close>

text \<open>
  What the receiver of a message needs: the bytes read back as the message, the header passes with
  its type, and they fit the transport of that type, one datagram or one TCP frame.
\<close>

definition delivers :: "(bytes \<Rightarrow> 'a) \<Rightarrow> msg \<Rightarrow> 'a \<Rightarrow> bytes \<Rightarrow> bool" where
  "delivers dec t m b \<longleftrightarrow>
     dec b = m \<and> header_ok (dec_header b) (length b) \<and> msg_of_u8 (h_type (dec_header b)) = Some t \<and>
     (if msg_is_udp t then length b \<le> kMaxDatagram else valid_frame b \<and> length b < kMaxTcpFrame)"

context framed_codec
begin

lemma made_delivers:
  assumes "ok m" and "hdr m = fill_header sz t" and "expected_msg_size t (word_of_nat sz)" and "12 \<le> sz" and "sz \<le> 512"
  shows "delivers dec t m (enc m)"
proof -
  have d: "dec_header (enc m) = fill_header sz t" using hdr_enc [OF assms(1), of "[]"] assms(2) by simp
  have l: "length (enc m) = sz" by (rule enc_len [OF assms(1)])
  have "header_ok (dec_header (enc m)) (length (enc m))"
    using header_accepted [OF assms(1-4), of "[]"] assms(5) by simp
  moreover have "valid_frame (enc m)"
    using assms(4,5) l by (simp add: valid_frame_def d sizeof_Header_def fill_header_def unsigned_of_nat take_bit_nat_eq_self)
  ultimately show ?thesis
    using assms l dec_enc_exact by (simp add: delivers_def d kMaxDatagram_def kMaxTcpFrame_def) (simp add: fill_header_def)
qed

end

lemmas made_wf =
  make_hello_def hello_wf_def make_welcome_def welcome_wf_def make_session_rules_def session_rules_wf_def
  make_pose_def player_pose_wf_def make_actor_pose_def actor_pose_wf_def make_bye_def bye_wf_def
  make_hit_def hit_wf_def make_chat_def chat_wf_def make_kick_def kick_wf_def make_heartbeat_def heartbeat_wf_def
  make_teleport_def teleport_wf_def make_reject_def reject_wf_def make_world_snapshot_def world_snapshot_wf_def
  make_session_query_def session_query_wf_def make_session_info_def session_info_wf_def
  make_udp_bind_def udp_bind_wf_def

text \<open>
  C10: every message the constructors of the protocol build is one its receiver accepts: the bytes
  sent pass \<^verbatim>\<open>header_ok\<close> under the right type, fit a datagram or are one whole TCP frame, and read
  back as the message that was built.
\<close>

theorem constructors_deliver:
  "delivers dec_hello Hello (make_hello a1 a2 a3 a4 a5 a6 a7 a8 a9 a10 a11 a12 a13 a14)
     (enc_hello (make_hello a1 a2 a3 a4 a5 a6 a7 a8 a9 a10 a11 a12 a13 a14)) \<and>
   delivers dec_welcome Welcome (make_welcome b1 b2 b3 b4 b5 b6) (enc_welcome (make_welcome b1 b2 b3 b4 b5 b6)) \<and>
   delivers dec_session_rules SessionRules (make_session_rules c1) (enc_session_rules (make_session_rules c1)) \<and>
   delivers dec_player_pose PlayerPose (make_pose d1 d2 d3 d4 d5 d6 d7 d8 d9 d10 d11)
     (enc_player_pose (make_pose d1 d2 d3 d4 d5 d6 d7 d8 d9 d10 d11)) \<and>
   delivers dec_bye Bye (make_bye e1) (enc_bye (make_bye e1)) \<and>
   delivers dec_hit Hit (make_hit f1 f2 f3 f4) (enc_hit (make_hit f1 f2 f3 f4)) \<and>
   delivers dec_chat Chat (make_chat g1 g2) (enc_chat (make_chat g1 g2)) \<and>
   delivers dec_kick Kick (make_kick h1 h2) (enc_kick (make_kick h1 h2)) \<and>
   delivers dec_heartbeat Heartbeat (make_heartbeat i1 i2) (enc_heartbeat (make_heartbeat i1 i2)) \<and>
   delivers dec_teleport Teleport (make_teleport j1 j2 j3 j4 j5) (enc_teleport (make_teleport j1 j2 j3 j4 j5)) \<and>
   delivers dec_reject Reject (make_reject k1 k2) (enc_reject (make_reject k1 k2)) \<and>
   delivers dec_actor_pose ActorPose (make_actor_pose m1 m2 m3 m4 m5 m6 m7 m8 m9 m10 m11 m12 m13 m14)
     (enc_actor_pose (make_actor_pose m1 m2 m3 m4 m5 m6 m7 m8 m9 m10 m11 m12 m13 m14)) \<and>
   delivers dec_world_snapshot WorldSnapshot (make_world_snapshot n1 n2 n3 n4 n5 n6 n7 n8 n9 n10 n11 n12 n13)
     (enc_world_snapshot (make_world_snapshot n1 n2 n3 n4 n5 n6 n7 n8 n9 n10 n11 n12 n13)) \<and>
   delivers dec_session_info SessionInfo (make_session_info o1 o2 o3 o4 o5 o6 o7 o8 o9 o10 o11 o12)
     (enc_session_info (make_session_info o1 o2 o3 o4 o5 o6 o7 o8 o9 o10 o11 o12)) \<and>
   delivers dec_session_query SessionQuery make_session_query (enc_session_query make_session_query) \<and>
   delivers dec_udp_bind UdpBind (make_udp_bind l1 l2) (enc_udp_bind (make_udp_bind l1 l2))"
proof -
  note made = hello_c.made_delivers welcome_c.made_delivers session_rules_c.made_delivers player_pose_c.made_delivers
    bye_c.made_delivers hit_c.made_delivers chat_c.made_delivers kick_c.made_delivers heartbeat_c.made_delivers
    teleport_c.made_delivers reject_c.made_delivers session_query_c.made_delivers udp_bind_c.made_delivers
    actor_pose_c.made_delivers world_snapshot_c.made_delivers session_info_c.made_delivers
  show ?thesis
    by (intro conjI; rule made; simp add: made_wf zeros_def)
qed


text \<open>
  C9: the frames a receiver takes out of a TCP stream do not depend on how \<^verbatim>\<open>recv\<close> cut it, as long as the stream is
  whole frames: any pieces of a stream of frames followed by the start of one more, or by less than a header, give exactly
  those frames, in order, and leave the start in the buffer, which never grows too big. When a header that no frame has
  follows, the frames before it are still delivered, all of them; then the bytes up to the end of the very piece that
  completes this header are dropped, and reception starts afresh with the next piece: from there on it does matter how
  the stream was cut.
\<close>

theorem frames_any_chunking:
  assumes "list_all valid_frame fs" "undecided p \<or> malformed p" "concat cs = concat fs @ p" "recv_sizes cs"
  shows "(undecided p \<longrightarrow> recv_chunks [] cs = (fs, Some p)) \<and>
    (malformed p \<longrightarrow> (\<exists>cs1 cs2. cs = cs1 @ cs2 \<and> cs1 \<noteq> [] \<and>
       length (concat (butlast cs1)) < length (concat fs) + sizeof_Header \<and>
       length (concat fs) + sizeof_Header \<le> length (concat cs1) \<and>
       recv_chunks [] cs = (fs @ fst (recv_chunks [] cs2), snd (recv_chunks [] cs2))))"
  using recv_chunks_frames [OF assms(1) _ _ assms(4) extract_nil] recv_chunks_malformed [OF assms(1) _ _ assms(4) extract_nil] assms(3)
  by simp

theorem frames_any_chunking_witness:
  "let b = enc_bye (make_bye 7)
   in recv_chunks [] [take 5 b, drop 5 b @ take 3 b] = ([b], Some (take 3 b)) \<and>
      recv_chunks [] [b @ replicate 12 0 @ b, b] = ([b, b], Some []) \<and>
      recv_chunks [] [b @ replicate 12 0, b, b] = ([b, b, b], Some [])"
proof -
  let ?b = "enc_bye (make_bye 7)"
  have v: "valid_frame ?b" using bye_c.made_delivers [of "make_bye 7" Bye] by (simp add: delivers_def made_wf)
  have len: "length ?b = 16" using bye_c.enc_len [of "make_bye 7"] by (simp add: made_wf)
  have bad0: "malformed (replicate 12 0)" by code_simp
  have bad: "malformed (replicate 12 0 @ r)" for r
    using bad0 by (simp add: malformed_append sizeof_Header_def)
  have ne: "?b \<noteq> []" using len by auto
  have part: "undecided (take 3 ?b)" "undecided []" using len by (simp_all add: undecided_def sizeof_Header_def)
  have "recv_chunks [] [take 5 ?b, drop 5 ?b @ take 3 ?b] = ([?b], Some (take 3 ?b))"
  proof (rule frames_any_chunking [THEN conjunct1, THEN mp])
    show "recv_sizes [take 5 ?b, drop 5 ?b @ take 3 ?b]"
      using len by (auto simp: recv_sizes_def)
  qed (use v part in simp_all)
  moreover have one: "recv_chunks [] (replicate n ?b) = (replicate n ?b, Some [])" for n
    by (rule recv_chunks_frames) (use v len part(2) in \<open>auto simp: recv_sizes_def list_all_iff extract_nil\<close>)
  have split: "\<exists>cs2. [c1] @ cs = [c1] @ cs2 \<and> recv_chunks [] (c1 # cs) = ([?b] @ fst (recv_chunks [] cs2), snd (recv_chunks [] cs2))"
    if "c1 = ?b @ replicate 12 0 @ r" "length r \<le> 100" "recv_sizes cs" for c1 r cs
  proof -
    from frames_any_chunking [of "[?b]" "replicate 12 0 @ r @ concat cs" "c1 # cs"] v len bad [of "r @ concat cs"] that
    obtain cs1 cs2 where "c1 # cs = cs1 @ cs2" "cs1 \<noteq> []" "length (concat (butlast cs1)) < 28"
      "recv_chunks [] (c1 # cs) = ([?b] @ fst (recv_chunks [] cs2), snd (recv_chunks [] cs2))"
      by (auto simp: recv_sizes_def sizeof_Header_def)
    moreover from this(1-3) have "cs1 = [c1]"
      using that(1) len by (cases cs1; cases "tl cs1") auto
    ultimately show ?thesis by auto
  qed
  have "recv_chunks [] [?b @ replicate 12 0 @ ?b, ?b] = ([?b, ?b], Some [])"
    using split [OF refl, of ?b "[?b]"] one [of 1] len ne by (auto simp: recv_sizes_def)
  moreover have "recv_chunks [] [?b @ replicate 12 0, ?b, ?b] = ([?b, ?b, ?b], Some [])"
    using split [OF refl, of "[]" "[?b, ?b]"] one [of 2] len ne by (auto simp: recv_sizes_def numeral_eq_Suc)
  ultimately show ?thesis by (simp only: Let_def simp_thms)
qed

text \<open>
  C35: the outbound buffer of a connection is a FIFO byte stream. Over any run of \<^verbatim>\<open>append\<close>s and
  \<^verbatim>\<open>drain\<close>s, whatever \<^verbatim>\<open>send\<close> accepts each time, the bytes handed to the socket followed by the bytes
  still buffered are the bytes buffered at the start followed by the appends that were accepted, and
  the buffer never holds more than \<^verbatim>\<open>kTcpSendQueueMax\<close> unsent bytes.
\<close>

theorem send_queue_stream:
  assumes "sq_inv q" and "\<forall>f v. Inr (f, v) \<in> set xs \<longrightarrow> nb_send_ok f"
  shows "case tcp_fifo.run xs q of (accepted, sent, q') \<Rightarrow>
    sent @ sq_abs q' = sq_abs q @ accepted \<and> sq_pending q' \<le> kTcpSendQueueMax"
  using tcp_fifo.run_stream [of q xs] assms
  by (auto simp: sq_pending_abs sq_inv_def split: prod.split)

theorem send_queue_stream_witness:
  "tcp_fifo.run [Inl [1, 2, 3], Inr (\<lambda>k d. if k = 0 \<and> 2 \<le> length d then Sent 2 else WouldBlock, True), Inl [4]] sq_init =
     ([1, 2, 3, 4], [1, 2], \<lparr>sq_bytes = [1, 2, 3, 4], sq_offset = 2\<rparr>) \<and>
   [1, 2] @ sq_abs \<lparr>sq_bytes = [1, 2, 3, 4], sq_offset = 2\<rparr> = sq_abs sq_init @ [1, 2, 3, 4]"
proof -
  let ?xs = "[Inl [1, 2, 3], Inr (\<lambda>k d. if k = 0 \<and> 2 \<le> length d then Sent 2 else WouldBlock, True), Inl [4]]"
  have e: "tcp_fifo.run ?xs sq_init = ([1, 2, 3, 4], [1, 2], \<lparr>sq_bytes = [1, 2, 3, 4], sq_offset = 2\<rparr>)"
    by (simp add: sq_append_def sq_init_def sq_pending_def sq_empty_def sq_compact_def kTcpSendQueueMax_def Let_def
        sq_drain_def drain_loop.simps)
  have "sq_inv sq_init" "\<forall>f v. Inr (f, v) \<in> set ?xs \<longrightarrow> nb_send_ok f"
    by (auto simp: sq_inv_def sq_init_def sq_abs_def nb_send_ok_def split: if_splits)
  from send_queue_stream [OF this] e show ?thesis by simp
qed

end
