(* ===== verification/Sim.thy ===== *)
theory Sim
  imports Protocol
begin

text \<open>
  \<^verbatim>\<open>server/src/sim.hpp\<close>: the per-key rate limiter and the interest test that limits the fan-out of
  poses. Times are \<^verbatim>\<open>double\<close> values of \<^verbatim>\<open>now_sec\<close>.
\<close>

record RateBucket =
  rb_windowStart :: f64
  rb_count :: int

definition rate_default :: RateBucket where
  "rate_default = \<lparr>rb_windowStart = 0, rb_count = 0\<rparr>"

type_synonym rates = "(string, RateBucket) umap"

text \<open>One pass through the bucket: reset when a second has gone by, then count.\<close>

definition rate_step :: "RateBucket \<Rightarrow> f64 \<Rightarrow> RateBucket" where
  "rate_step b t =
     (let b1 = (if f64_le (f64_of_int 1) (f64_sub t (rb_windowStart b))
                then \<lparr>rb_windowStart = t, rb_count = 0\<rparr> else b)
      in b1\<lparr>rb_count := rb_count b1 + 1\<rparr>)"

definition rate_get :: "rates \<Rightarrow> string \<Rightarrow> RateBucket" where
  "rate_get buckets key = (case um_find key buckets of Some b \<Rightarrow> b | None \<Rightarrow> rate_default)"

definition allow_rate :: "rates \<Rightarrow> string \<Rightarrow> f64 \<Rightarrow> int \<Rightarrow> bool \<times> rates" where
  "allow_rate buckets key t maxPerSec =
     (let b = rate_step (rate_get buckets key) t
      in (rb_count b \<le> maxPerSec, um_put key b buckets))"

definition in_interest ::
  "u32 \<Rightarrow> f32 \<Rightarrow> f32 \<Rightarrow> f32 \<Rightarrow> bool \<Rightarrow> u32 \<Rightarrow> f32 \<Rightarrow> f32 \<Rightarrow> f32 \<Rightarrow> bool \<Rightarrow> f32 \<Rightarrow> bool" where
  "in_interest locA ax ay az haveA locB bx by' bz haveB maxUu =
     (if f32_le maxUu 0 then True
      else if \<not> haveA \<or> \<not> haveB then True
      else if locA \<noteq> 0 \<and> locB \<noteq> 0 \<and> locA \<noteq> locB then True
      else
        let dx = f32_sub ax bx; dy = f32_sub ay by'; dz = f32_sub az bz
        in f32_le (f32_add (f32_add (f32_mul dx dx) (f32_mul dy dy)) (f32_mul dz dz)) (f32_mul maxUu maxUu))"

definition in_interest_pose :: "player_pose \<Rightarrow> bool \<Rightarrow> player_pose \<Rightarrow> bool \<Rightarrow> f32 \<Rightarrow> bool" where
  "in_interest_pose a haveA b haveB maxUu =
     in_interest (pp_locationFormId a) (pp_x a) (pp_y a) (pp_z a) haveA
       (pp_locationFormId b) (pp_x b) (pp_y b) (pp_z b) haveB maxUu"

definition in_interest_actor :: "actor_pose \<Rightarrow> player_pose \<Rightarrow> bool \<Rightarrow> f32 \<Rightarrow> bool" where
  "in_interest_actor a b haveB maxUu =
     in_interest (ap_locationFormId a) (ap_x a) (ap_y a) (ap_z a) True
       (pp_locationFormId b) (pp_x b) (pp_y b) (pp_z b) haveB maxUu"

subsection \<open>The rate limit\<close>

lemma rate_get_put: "rate_get (um_put k b m) k' = (if k' = k then b else rate_get m k')"
  by (simp add: rate_get_def amap)

lemma rate_other_key: "k' \<noteq> key \<Longrightarrow> rate_get (snd (allow_rate m key t mx)) k' = rate_get m k'"
  by (simp add: allow_rate_def Let_def rate_get_put)

text \<open>A run of calls for one key at the given times; the verdicts in order.\<close>

fun rate_run :: "rates \<Rightarrow> string \<Rightarrow> int \<Rightarrow> f64 list \<Rightarrow> bool list" where
  "rate_run m key mx [] = []"
| "rate_run m key mx (t # ts) =
     (let r = allow_rate m key t mx in fst r # rate_run (snd r) key mx ts)"

text \<open>No time in the list is a second or more after \<open>t0\<close>.\<close>

definition in_window :: "f64 \<Rightarrow> f64 list \<Rightarrow> bool" where
  "in_window t0 ts \<longleftrightarrow> (\<forall>t\<in>set ts. \<not> f64_le (f64_of_int 1) (f64_sub t t0))"

lemma rate_run_window:
  assumes "in_window (rb_windowStart (rate_get m key)) ts" and "rb_count (rate_get m key) = c"
  shows "rate_run m key mx ts = map (\<lambda>i. c + int i < mx) [0..<length ts]"
  using assms
proof (induction ts arbitrary: m c)
  case (Cons t ts)
  let ?b = "rate_get m key"
  from Cons.prems have s: "rate_step ?b t = ?b\<lparr>rb_count := c + 1\<rparr>"
    by (simp add: rate_step_def in_window_def Let_def)
  let ?m = "um_put key (?b\<lparr>rb_count := c + 1\<rparr>) m"
  have "rate_run ?m key mx ts = map (\<lambda>i. c + 1 + int i < mx) [0..<length ts]"
    using Cons.prems by (intro Cons.IH) (simp_all add: rate_get_put in_window_def)
  moreover have "[0..<length (t # ts)] = 0 # map Suc [0..<length ts]"
    by (simp add: map_Suc_upt upt_conv_Cons del: upt_Suc)
  ultimately show ?case by (auto simp: allow_rate_def s Let_def o_def)
qed simp

text \<open>The number of accepted calls in one window.\<close>

lemma rate_window_bound:
  assumes "in_window (rb_windowStart (rate_get m key)) ts" and "0 \<le> rb_count (rate_get m key)"
  shows "int (length (filter id (rate_run m key mx ts))) \<le> max 0 (mx - rb_count (rate_get m key))"
proof -
  let ?c = "rb_count (rate_get m key)"
  have "length (filter id (rate_run m key mx ts)) = length (filter (\<lambda>i. ?c + int i < mx) [0..<length ts])"
    using rate_run_window [OF assms(1) refl, of mx] by (simp add: filter_map o_def)
  also have "\<dots> = card {i. i < length ts \<and> ?c + int i < mx}"
    by (subst distinct_card [symmetric]) (auto intro: arg_cong [where f = card])
  also have "\<dots> \<le> card {..<nat (mx - ?c)}"
    by (rule card_mono) auto
  finally show ?thesis by simp
qed

text \<open>
  The rate limiter lets at most \<^verbatim>\<open>maxPerSec\<close> events of a key through in one window: while the
  clock stays within a second of the window's start, the calls allowed are the first ones, up to
  what the window has left, and all later ones are refused.
\<close>

lemma rate_limit_bound:
  assumes "in_window (rb_windowStart (rate_get m key)) ts" and "rb_count (rate_get m key) = c" and "0 \<le> c"
  shows "rate_run m key mx ts = map (\<lambda>i. c + int i < mx) [0..<length ts] \<and>
    int (length (filter id (rate_run m key mx ts))) \<le> max 0 (mx - c)"
  using rate_run_window [OF assms(1,2)] rate_window_bound [OF assms(1)] assms(2,3) by simp

lemma rate_limit_bound_witness:
  "rate_run [] ''1'' 2 [0, 0, 0] = [True, True, False] \<and>
   int (length (filter id (rate_run [] ''1'' 2 [0, 0, 0]))) \<le> max 0 (2 - 0)"
proof -
  have "in_window (rb_windowStart (rate_get [] ''1'')) [0, 0, 0]"
    by (simp add: in_window_def rate_get_def rate_default_def amap f64_of_int_def ieee_eval)
  moreover have "rb_count (rate_get [] ''1'') = 0" by (simp add: rate_get_def rate_default_def amap)
  ultimately show ?thesis using rate_limit_bound [of "[]" "''1''" "[0, 0, 0]" 0 2] by (simp add: upt_rec)
qed

end
