(* ===== verification/Queues.thy ===== *)
theory Queues
  imports Prelude
begin

text \<open>
  \<^verbatim>\<open>AsyncQueue\<close> of \<^verbatim>\<open>server/src/queues.hpp\<close>: a bounded queue under a mutex. Every operation takes the
  lock for its whole body, so each one is a function on the queue and concurrent use is an
  interleaving of them. \<^verbatim>\<open>wait_pop\<close> also returns on a timeout or when its predicate holds; whether
  the wait ended with the condition true is the argument \<open>woken\<close>.
\<close>

record 'a AsyncQueue =
  aq_q :: "'a list"
  aq_maxSize :: nat

definition aq_new :: "nat \<Rightarrow> 'a AsyncQueue" where
  "aq_new n = \<lparr>aq_q = [], aq_maxSize = n\<rparr>"

definition aq_push :: "'a AsyncQueue \<Rightarrow> 'a \<Rightarrow> bool \<times> 'a AsyncQueue" where
  "aq_push q x =
     (if length (aq_q q) \<ge> aq_maxSize q then (False, q) else (True, q\<lparr>aq_q := aq_q q @ [x]\<rparr>))"

definition aq_try_pop :: "'a AsyncQueue \<Rightarrow> 'a option \<times> 'a AsyncQueue" where
  "aq_try_pop q = (case aq_q q of [] \<Rightarrow> (None, q) | x # xs \<Rightarrow> (Some x, q\<lparr>aq_q := xs\<rparr>))"

definition aq_wait_pop :: "bool \<Rightarrow> 'a AsyncQueue \<Rightarrow> 'a option \<times> 'a AsyncQueue" where
  "aq_wait_pop woken q = (if \<not> woken then (None, q) else aq_try_pop q)"

definition aq_size :: "'a AsyncQueue \<Rightarrow> nat" where
  "aq_size q = length (aq_q q)"

definition aq_clear :: "'a AsyncQueue \<Rightarrow> 'a AsyncQueue" where
  "aq_clear q = q\<lparr>aq_q := []\<rparr>"

definition aq_ok :: "'a AsyncQueue \<Rightarrow> bool" where
  "aq_ok q \<longleftrightarrow> length (aq_q q) \<le> aq_maxSize q"

text \<open>The contract of a bounded queue, and what a producer and a consumer get from it.\<close>

locale bounded_queue =
  fixes items :: "'q \<Rightarrow> 'a list" and cap :: "'q \<Rightarrow> nat" and ok :: "'q \<Rightarrow> bool"
    and push :: "'q \<Rightarrow> 'a \<Rightarrow> bool \<times> 'q" and pop :: "'q \<Rightarrow> 'a option \<times> 'q"
  assumes push_accepts: "ok q \<Longrightarrow> fst (push q x) \<longleftrightarrow> length (items q) < cap q"
    and push_items: "items (snd (push q x)) = (if fst (push q x) then items q @ [x] else items q)"
    and push_ok: "ok q \<Longrightarrow> ok (snd (push q x))"
    and push_cap: "cap (snd (push q x)) = cap q"
    and pop_items: "items q = (case fst (pop q) of None \<Rightarrow> [] | Some x \<Rightarrow> x # items (snd (pop q)))"
    and pop_none: "fst (pop q) = None \<Longrightarrow> snd (pop q) = q"
    and pop_ok: "ok q \<Longrightarrow> ok (snd (pop q))"
    and pop_cap: "cap (snd (pop q)) = cap q"
    and ok_bound: "ok q \<Longrightarrow> length (items q) \<le> cap q"
begin

text \<open>Any interleaving of pushes (\<open>Some x\<close>) and pops (\<open>None\<close>): accepted items, popped items, queue.\<close>

primrec run :: "'a option list \<Rightarrow> 'q \<Rightarrow> 'a list \<times> 'a list \<times> 'q" where
  "run [] q = ([], [], q)"
| "run (c # cs) q =
     (case c of
        Some x \<Rightarrow> let r = run cs (snd (push q x))
                  in ((if fst (push q x) then [x] else []) @ fst r, fst (snd r), snd (snd r))
      | None \<Rightarrow> let r = run cs (snd (pop q))
                in (fst r, (case fst (pop q) of None \<Rightarrow> [] | Some x \<Rightarrow> [x]) @ fst (snd r), snd (snd r)))"

lemma pop_split: "(case fst (pop q) of None \<Rightarrow> [] | Some x \<Rightarrow> [x]) @ items (snd (pop q)) = items q"
  using pop_items [of q] pop_none [of q] by (auto split: option.splits)

lemma run_fifo: "fst (snd (run cs q)) @ items (snd (snd (run cs q))) = items q @ fst (run cs q)"
proof (induction cs arbitrary: q)
  case (Cons c cs)
  show ?case
  proof (cases c)
    case None
    have "(case fst (pop q) of None \<Rightarrow> [] | Some x \<Rightarrow> [x]) @
        fst (snd (run cs (snd (pop q)))) @ items (snd (snd (run cs (snd (pop q))))) =
        items q @ fst (run cs (snd (pop q)))"
      unfolding Cons.IH using pop_split [of q] by (metis append.assoc)
    with None show ?thesis by (simp add: Let_def)
  next
    case (Some x)
    with Cons.IH [of "snd (push q x)"] show ?thesis by (simp add: Let_def push_items)
  qed
qed simp

lemma run_ok: "ok q \<Longrightarrow> ok (snd (snd (run cs q))) \<and> cap (snd (snd (run cs q))) = cap q"
  by (induction cs arbitrary: q) (auto simp: Let_def push_ok pop_ok push_cap pop_cap split: option.splits)

lemma run_bound: "ok q \<Longrightarrow> length (items (snd (snd (run cs q)))) \<le> cap q"
  using run_ok [of q cs] ok_bound [of "snd (snd (run cs q))"] by simp

end

interpretation async: bounded_queue aq_q aq_maxSize aq_ok aq_push aq_try_pop
  by unfold_locales
    (auto simp: aq_push_def aq_try_pop_def aq_ok_def split: list.splits)

text \<open>Pushing a list of items in order; items that do not fit are dropped.\<close>

definition aq_push_all :: "'a AsyncQueue \<Rightarrow> 'a list \<Rightarrow> 'a AsyncQueue" where
  "aq_push_all q xs = foldl (\<lambda>q x. snd (aq_push q x)) q xs"

lemma aq_push_all_items:
  "aq_ok q \<Longrightarrow> aq_q (aq_push_all q xs) = aq_q q @ take (aq_maxSize q - length (aq_q q)) xs \<and>
     aq_maxSize (aq_push_all q xs) = aq_maxSize q \<and> aq_ok (aq_push_all q xs)"
proof (induction xs arbitrary: q)
  case (Cons x xs)
  have "aq_ok (snd (aq_push q x))" using Cons.prems by (rule async.push_ok)
  from Cons.IH [OF this] Cons.prems show ?case
    by (auto simp: aq_push_all_def aq_push_def aq_ok_def not_le Suc_diff_Suc [symmetric]
        split: if_splits simp del: diff_Suc_Suc)
qed (simp add: aq_push_all_def)

text \<open>
  Over any interleaving of pushes and pops by the two threads, what is popped followed by what
  is left is what was there followed by the accepted items, in order: nothing is lost, duplicated or
  reordered, and the queue stays within its bound.
\<close>

lemma async_queue_fifo:
  assumes "aq_ok q"
  shows "case async.run cs q of (accepted, popped, q') \<Rightarrow>
    popped @ aq_q q' = aq_q q @ accepted \<and> aq_size q' \<le> aq_maxSize q"
  using async.run_fifo [where q = q and cs = cs] async.run_bound [OF assms, of cs]
  by (auto simp: aq_size_def split: prod.split)

lemma async_queue_fifo_witness:
  "async.run [Some 1, Some 2, Some 3, None, Some (4 :: nat)] (aq_new 2) =
     ([1, 2, 4], [1], \<lparr>aq_q = [2, 4], aq_maxSize = 2\<rparr>) \<and>
   [1] @ [2, 4] = aq_q (aq_new 2) @ [1, 2, 4 :: nat]"
proof -
  have e: "async.run [Some 1, Some 2, Some 3, None, Some (4 :: nat)] (aq_new 2) =
     ([1, 2, 4], [1], \<lparr>aq_q = [2, 4], aq_maxSize = 2\<rparr>)"
    by (simp add: aq_push_def aq_try_pop_def aq_new_def)
  have "aq_ok (aq_new 2 :: nat AsyncQueue)" by (simp add: aq_ok_def aq_new_def)
  from async_queue_fifo [OF this, of "[Some 1, Some 2, Some 3, None, Some 4]"] e show ?thesis by simp
qed

end
