(* ===== verification/Util.thy ===== *)
theory Util
  imports Ieee
begin

text \<open>
  Text handling: \<^verbatim>\<open>protocol/cmp_util.hpp\<close> (player keys), \<^verbatim>\<open>protocol/cmp_json.hpp\<close> (the two
  JSON field readers), the string helpers of \<^verbatim>\<open>server/src/net_util.cpp\<close>, and what the sources use of
  the C++ number conversions: \<^verbatim>\<open>strtod\<close>, \<^verbatim>\<open>stof\<close>, \<^verbatim>\<open>stoi\<close>, \<^verbatim>\<open>stoul\<close> and stream output of
  numbers, in the \<^verbatim>\<open>C\<close> locale on a 64-bit POSIX target. A conversion that throws is \<open>None\<close>.
\<close>

subsection \<open>Character classes\<close>

definition c_isspace :: "char \<Rightarrow> bool" where
  "c_isspace c \<longleftrightarrow> of_char c = (32::nat) \<or> (9 \<le> (of_char c :: nat) \<and> (of_char c :: nat) \<le> 13)"

definition c_isalpha :: "char \<Rightarrow> bool" where
  "c_isalpha c \<longleftrightarrow> (65 \<le> (of_char c :: nat) \<and> (of_char c :: nat) \<le> 90) \<or>
     (97 \<le> (of_char c :: nat) \<and> (of_char c :: nat) \<le> 122)"

definition c_isalnum :: "char \<Rightarrow> bool" where
  "c_isalnum c \<longleftrightarrow> is_digit c \<or> c_isalpha c"

definition c_tolower :: "char \<Rightarrow> char" where
  "c_tolower c =
     (if 65 \<le> (of_char c :: nat) \<and> (of_char c :: nat) \<le> 90 then char_of (of_char c + 32 :: nat) else c)"

definition lower_copy :: "string \<Rightarrow> string" where
  "lower_copy s = map c_tolower s"

lemma length_dropWhile_hd: "x \<noteq> [] \<Longrightarrow> P (hd x) \<Longrightarrow> length (dropWhile P x) < length x"
  by (cases x) (auto simp: le_imp_less_Suc length_dropWhile_le)

text \<open>Reading words with \<^verbatim>\<open>>>\<close>: skip white space, take up to the next white space.\<close>

function split_words :: "string \<Rightarrow> string list" where
  "split_words s =
     (let s1 = dropWhile c_isspace s
      in if s1 = [] then []
         else takeWhile (\<lambda>c. \<not> c_isspace c) s1 # split_words (dropWhile (\<lambda>c. \<not> c_isspace c) s1))"
  by pat_completeness auto
termination
proof (relation "measure length", goal_cases)
  case (2 s x)
  then have "\<not> c_isspace (hd x)" by (metis hd_dropWhile)
  with 2(2) have "length (dropWhile (\<lambda>c. \<not> c_isspace c) x) < length x"
    by (rule length_dropWhile_hd)
  moreover have "length x \<le> length s" using 2 by (simp add: length_dropWhile_le)
  ultimately show ?case by simp
qed simp

declare split_words.simps [simp del]

subsection \<open>Player keys\<close>

definition kPlayerKeyMax :: nat where "kPlayerKeyMax = 31"

definition key_char :: "char \<Rightarrow> bool" where
  "key_char c \<longleftrightarrow> c_isalnum c \<or> c = CHR ''-'' \<or> c = CHR ''_''"

definition sanitize_player_key :: "string \<Rightarrow> string \<Rightarrow> string" where
  "sanitize_player_key raw emptyFallback =
     (let out = filter key_char raw
      in if out = [] then emptyFallback
         else if length out > kPlayerKeyMax then take kPlayerKeyMax out
         else out)"

text \<open>What a key looks like after sanitizing.\<close>

definition player_key_ok :: "string \<Rightarrow> bool" where
  "player_key_ok k \<longleftrightarrow> k \<noteq> [] \<and> length k \<le> kPlayerKeyMax \<and> list_all key_char k"

lemma player_key_ok_sanitize:
  "player_key_ok (sanitize_player_key raw fb) \<or> (filter key_char raw = [] \<and> sanitize_player_key raw fb = fb)"
  by (auto simp: sanitize_player_key_def player_key_ok_def Let_def kPlayerKeyMax_def list_all_iff
      dest: in_set_takeD)

lemma player_key_ok_player: "player_key_ok ''player''"
  by (simp add: player_key_ok_def kPlayerKeyMax_def key_char_def c_isalnum_def c_isalpha_def is_digit_def)

lemma sanitize_player: "player_key_ok (sanitize_player_key raw ''player'')"
  using player_key_ok_sanitize [of raw "''player''"] player_key_ok_player by auto

lemma sanitize_idem: "player_key_ok k \<Longrightarrow> sanitize_player_key k fb = k"
  by (simp add: sanitize_player_key_def player_key_ok_def list_all_iff)

lemma key_char_neq: "key_char c \<Longrightarrow> c \<noteq> CHR 0x22 \<and> c \<noteq> CHR ''/'' \<and> c \<noteq> CHR ''.'' \<and> c \<noteq> CHR 0x5C"
  by (auto simp: key_char_def c_isalnum_def c_isalpha_def is_digit_def)

subsection \<open>Searching\<close>

text \<open>\<^verbatim>\<open>std::string::find\<close> from a position; \<open>None\<close> is \<^verbatim>\<open>npos\<close>.\<close>

fun find_sub :: "string \<Rightarrow> string \<Rightarrow> nat option" where
  "find_sub nd [] = (if nd = [] then Some 0 else None)"
| "find_sub nd (c # s) =
     (if take (length nd) (c # s) = nd then Some 0 else map_option Suc (find_sub nd s))"

definition find_from :: "string \<Rightarrow> string \<Rightarrow> nat \<Rightarrow> nat option" where
  "find_from nd s i = (if i \<le> length s then map_option (\<lambda>k. i + k) (find_sub nd (drop i s)) else None)"

definition find_char :: "char \<Rightarrow> string \<Rightarrow> nat \<Rightarrow> nat option" where
  "find_char c s i = find_from [c] s i"

definition substr :: "string \<Rightarrow> nat \<Rightarrow> nat \<Rightarrow> string" where
  "substr s i n = take n (drop i s)"

abbreviation dq :: char where "dq \<equiv> CHR 0x22"

text \<open>The position after the colon that follows the quoted key.\<close>

definition json_colon :: "string \<Rightarrow> string \<Rightarrow> nat option" where
  "json_colon text key =
     (case find_from (dq # key @ [dq]) text 0 of
        None \<Rightarrow> None
      | Some i \<Rightarrow> find_char CHR '':'' text (i + length (dq # key @ [dq])))"

definition json_quoted :: "string \<Rightarrow> string \<Rightarrow> string" where
  "json_quoted text key =
     (case json_colon text key of
        None \<Rightarrow> []
      | Some colon \<Rightarrow>
          (case find_char dq text colon of
             None \<Rightarrow> []
           | Some q1 \<Rightarrow>
               (case find_char dq text (q1 + 1) of
                  None \<Rightarrow> []
                | Some q2 \<Rightarrow> substr text (q1 + 1) (q2 - q1 - 1))))"

subsection \<open>Number literals\<close>

datatype num_lit = NLNan | NLInf | NLFrac nat nat

definition is_xdigit :: "char \<Rightarrow> bool" where
  "is_xdigit c \<longleftrightarrow> is_digit c \<or> (97 \<le> (of_char (c_tolower c) :: nat) \<and> (of_char (c_tolower c) :: nat) \<le> 102)"

definition xdigit_val :: "char \<Rightarrow> nat" where
  "xdigit_val c = (if is_digit c then digit_val c else of_char (c_tolower c) - 87)"

definition hex_val :: "string \<Rightarrow> nat" where
  "hex_val s = foldl (\<lambda>a c. 16 * a + xdigit_val c) 0 s"

definition skip_sign :: "string \<Rightarrow> string" where
  "skip_sign s = (if take 1 s = ''+'' \<or> take 1 s = ''-'' then drop 1 s else s)"

definition neg_sign :: "string \<Rightarrow> bool" where
  "neg_sign s \<longleftrightarrow> take 1 s = ''-''"

text \<open>The optional exponent after a mantissa, introduced by \<open>c\<close> in either case.\<close>

definition exp_part :: "char \<Rightarrow> string \<Rightarrow> int" where
  "exp_part c s =
     (if s \<noteq> [] \<and> c_tolower (hd s) = c then
        (let n = int (dec_val (takeWhile is_digit (skip_sign (tl s))))
         in if neg_sign (tl s) then - n else n)
      else 0)"

text \<open>Integer digits, fraction digits and what follows.\<close>

definition mantissa :: "(char \<Rightarrow> bool) \<Rightarrow> string \<Rightarrow> string \<times> string \<times> string" where
  "mantissa p s =
     (let ip = takeWhile p s; s1 = dropWhile p s
      in if take 1 s1 = ''.'' then (ip, takeWhile p (tl s1), dropWhile p (tl s1)) else (ip, [], s1))"

definition frac :: "nat \<Rightarrow> nat \<Rightarrow> int \<Rightarrow> num_lit" where
  "frac m b e = NLFrac (m * b ^ nat e) (b ^ nat (- e))"

definition dec_lit :: "string \<Rightarrow> num_lit option" where
  "dec_lit s =
     (case mantissa is_digit s of (ip, fp, r) \<Rightarrow>
        if ip = [] \<and> fp = [] then None
        else Some (frac (dec_val (ip @ fp)) 10 (exp_part CHR ''e'' r - int (length fp))))"

definition hex_lit :: "string \<Rightarrow> num_lit option" where
  "hex_lit s =
     (if lower_copy (take 2 s) \<noteq> ''0x'' then None
      else case mantissa is_xdigit (drop 2 s) of (ip, fp, r) \<Rightarrow>
        if ip = [] \<and> fp = [] then None
        else Some (frac (hex_val (ip @ fp)) 2 (exp_part CHR ''p'' r - 4 * int (length fp))))"

definition strto_lit :: "string \<Rightarrow> (bool \<times> num_lit) option" where
  "strto_lit s =
     (let s1 = dropWhile c_isspace s; s2 = skip_sign s1
      in map_option (Pair (neg_sign s1))
           (if lower_copy (take 3 s2) = ''inf'' then Some NLInf
            else if lower_copy (take 3 s2) = ''nan'' then Some NLNan
            else case hex_lit s2 of Some l \<Rightarrow> Some l | None \<Rightarrow> dec_lit s2))"

fun f64_of_lit :: "bool \<Rightarrow> num_lit \<Rightarrow> f64" where
  "f64_of_lit neg NLNan = (if neg then 0xFFF8000000000000 else 0x7FF8000000000000)"
| "f64_of_lit neg NLInf = fp_f64 (FInf neg)"
| "f64_of_lit neg (NLFrac n d) = fp_f64 (fp_round 52 11 neg n d)"

fun f32_of_lit :: "bool \<Rightarrow> num_lit \<Rightarrow> f32" where
  "f32_of_lit neg NLNan = (if neg then 0xFFC00000 else 0x7FC00000)"
| "f32_of_lit neg NLInf = fp_f32 (FInf neg)"
| "f32_of_lit neg (NLFrac n d) = fp_f32 (fp_round 23 8 neg n d)"

definition strtod :: "string \<Rightarrow> f64 option" where
  "strtod s = map_option (\<lambda>(neg, l). f64_of_lit neg l) (strto_lit s)"

text \<open>The range error of \<^verbatim>\<open>strtof\<close>: overflow, or a subnormal result that is not exact.\<close>

definition f32_erange :: "nat \<Rightarrow> nat \<Rightarrow> bool" where
  "f32_erange n d \<longleftrightarrow>
     (case fp_round 23 8 False n d of
        FFin _ m e \<Rightarrow> n \<noteq> 0 \<and> m < 2 ^ 23 \<and> m * 2 ^ nat e * d \<noteq> n * 2 ^ nat (- e)
      | _ \<Rightarrow> True)"

definition stof :: "string \<Rightarrow> f32 option" where
  "stof s =
     (case strto_lit s of
        None \<Rightarrow> None
      | Some (neg, l) \<Rightarrow>
          (case l of
             NLFrac n d \<Rightarrow> if f32_erange n d then None else Some (f32_of_lit neg l)
           | _ \<Rightarrow> Some (f32_of_lit neg l)))"

definition stoi :: "string \<Rightarrow> int option" where
  "stoi s =
     (let s1 = dropWhile c_isspace s; ds = takeWhile is_digit (skip_sign s1);
          v = (if neg_sign s1 then - int (dec_val ds) else int (dec_val ds))
      in if ds = [] then None
         else if v < - (2 ^ 31) \<or> 2 ^ 31 \<le> v then None
         else Some v)"

text \<open>\<^verbatim>\<open>stoul(s, nullptr, 16)\<close>; a minus sign negates modulo the width.\<close>

definition stoul16 :: "string \<Rightarrow> u64 option" where
  "stoul16 s =
     (let s1 = dropWhile c_isspace s; s2 = skip_sign s1;
          s3 = (if lower_copy (take 2 s2) = ''0x'' \<and> takeWhile is_xdigit (drop 2 s2) \<noteq> []
                then drop 2 s2 else s2);
          ds = takeWhile is_xdigit s3
      in if ds = [] then None
         else if 2 ^ 64 \<le> hex_val ds then None
         else Some (if neg_sign s1 then - word_of_nat (hex_val ds) else word_of_nat (hex_val ds)))"

definition json_space :: "char \<Rightarrow> bool" where
  "json_space c \<longleftrightarrow> c = CHR '' '' \<or> c = CHR 0x09 \<or> c = CHR 0x0A \<or> c = CHR 0x0D"

definition json_number :: "string \<Rightarrow> string \<Rightarrow> f64 \<Rightarrow> f64" where
  "json_number text key fallback =
     (case json_colon text key of
        None \<Rightarrow> fallback
      | Some colon \<Rightarrow>
          (let start = dropWhile json_space (drop (colon + 1) text)
           in if start = [] \<or> hd start = nul \<or> hd start = CHR '','' \<or> hd start = CHR ''}''
              then fallback
              else case strtod start of None \<Rightarrow> fallback | Some v \<Rightarrow> v))"

subsection \<open>Conversions\<close>

fun fp_conv :: "nat \<Rightarrow> nat \<Rightarrow> fp \<Rightarrow> fp" where
  "fp_conv mb eb (FFin s m e) = fp_round mb eb s (m * 2 ^ nat e) (2 ^ nat (- e))"
| "fp_conv mb eb v = v"

definition f64_to_f32 :: "f64 \<Rightarrow> f32" where
  "f64_to_f32 w =
     (if f64_fp w = FNan
      then (if bit w 63 then 0x80000000 else 0) OR 0x7FC00000 OR (ucast (drop_bit 29 w) AND 0x007FFFFF)
      else fp_f32 (fp_conv 23 8 (f64_fp w)))"

definition f32_to_f64 :: "f32 \<Rightarrow> f64" where
  "f32_to_f64 w =
     (if f32_fp w = FNan
      then (if bit w 31 then 0x8000000000000000 else 0) OR 0x7FF8000000000000 OR
        push_bit 29 (ucast w AND 0x007FFFFF)
      else fp_f64 (fp_conv 52 11 (f32_fp w)))"

text \<open>
  \<^verbatim>\<open>static_cast<std::uint32_t>(double)\<close>. Outside the range of the type the language leaves the
  result undefined; the value given here is the one of the 64-bit conversion instruction the
  target uses.
\<close>

definition fp_trunc :: "bool \<Rightarrow> nat \<Rightarrow> int \<Rightarrow> int" where
  "fp_trunc s m e = sgn_int s (m * 2 ^ nat e div 2 ^ nat (- e))"

definition f64_to_u32 :: "f64 \<Rightarrow> u32" where
  "f64_to_u32 w =
     (case f64_fp w of
        FFin s m e \<Rightarrow>
          (let z = fp_trunc s m e in if \<bar>z\<bar> < 2 ^ 63 then word_of_int z else 0)
      | _ \<Rightarrow> 0)"

subsection \<open>Stream output of numbers\<close>

text \<open>A \<^verbatim>\<open>float\<close> with the default flags: six significant digits, as \<^verbatim>\<open>%g\<close> prints them.\<close>

fun ilog10 :: "nat \<Rightarrow> nat" where
  "ilog10 n = (if n < 10 then 0 else Suc (ilog10 (n div 10)))"

declare ilog10.simps [simp del]

definition log10_floor :: "nat \<Rightarrow> nat \<Rightarrow> int" where
  "log10_floor n d = (if d \<le> n then int (ilog10 (n div d)) else - int (ilog10 ((d - 1) div n)) - 1)"

definition strip_zeros :: "string \<Rightarrow> string" where
  "strip_zeros s = rev (dropWhile (\<lambda>c. c = CHR ''0'') (rev s))"

definition with_point :: "string \<Rightarrow> string \<Rightarrow> string" where
  "with_point ip fp = (if strip_zeros fp = [] then ip else ip @ ''.'' @ strip_zeros fp)"

definition g_layout :: "string \<Rightarrow> int \<Rightarrow> string" where
  "g_layout ds x =
     (if -4 \<le> x \<and> x < 0 then with_point ''0'' (replicate (nat (- x) - 1) CHR ''0'' @ ds)
      else if 0 \<le> x \<and> x < 6 then with_point (take (nat x + 1) ds) (drop (nat x + 1) ds)
      else with_point (take 1 ds) (drop 1 ds) @ (if x < 0 then ''e-'' else ''e+'') @
        (if \<bar>x\<bar> < 10 then ''0'' else []) @ dec_str (nat \<bar>x\<bar>))"

definition g_digits :: "nat \<Rightarrow> nat \<Rightarrow> int \<Rightarrow> string" where
  "g_digits n d x =
     (let sig = rne (n * 10 ^ nat (5 - x)) (d * 10 ^ nat (x - 5))
      in if sig = 10 ^ 6 then g_layout ''100000'' (x + 1) else g_layout (dec_str sig) x)"

fun fp_show :: "fp \<Rightarrow> string" where
  "fp_show (FInf s) = (if s then ''-inf'' else ''inf'')"
| "fp_show (FFin s m e) =
     (if s then ''-'' else []) @
     (if m = 0 then ''0''
      else g_digits (m * 2 ^ nat e) (2 ^ nat (- e)) (log10_floor (m * 2 ^ nat e) (2 ^ nat (- e))))"
| "fp_show FNan = ''nan''"

definition show_f32 :: "f32 \<Rightarrow> string" where
  "show_f32 w = (if f32_fp w = FNan \<and> bit w 31 then ''-nan'' else fp_show (f32_fp w))"

definition show_u32 :: "u32 \<Rightarrow> string" where
  "show_u32 w = dec_str (unat w)"

text \<open>What a key consists of, character by character.\<close>

definition letter_digit_dash :: "char \<Rightarrow> bool" where
  "letter_digit_dash c \<longleftrightarrow>
     (let n = of_char c :: nat
      in (48 \<le> n \<and> n \<le> 57) \<or> (65 \<le> n \<and> n \<le> 90) \<or> (97 \<le> n \<and> n \<le> 122) \<or> n = 45 \<or> n = 95)"

lemma key_char_letters: "key_char c = letter_digit_dash c"
proof -
  have eq: "c = d \<longleftrightarrow> (of_char c :: nat) = of_char d" for d
    by simp
  have "of_char (CHR ''-'') = (45 :: nat)" "of_char (CHR ''_'') = (95 :: nat)"
    by simp_all
  with eq [of "CHR ''-''"] eq [of "CHR ''_''"]
  have "(c = CHR ''-'') = (of_char c = (45 :: nat))" "(c = CHR ''_'') = (of_char c = (95 :: nat))"
    by (simp_all only:)
  then show ?thesis
    by (auto simp: key_char_def letter_digit_dash_def c_isalnum_def c_isalpha_def is_digit_def Let_def)
qed

text \<open>
  C40: whatever text it is made from and whichever fallback is given, a sanitized key is the fallback when the text has
  no letter, digit, hyphen or underscore. Else it is not empty, has at most 31 characters, all of them of these
  (so none that could leave a file name or a JSON string), and sanitizing it again changes nothing. With the fallback
  the server uses for players and bans it is never empty and is safe in any case; with the empty
  fallback it is empty exactly when nothing of the text is left, and sanitizing the result again changes nothing.
\<close>

theorem sanitized_key_safe:
  "let safe = (\<lambda>k. k \<noteq> [] \<and> length k \<le> 31 \<and> list_all letter_digit_dash k \<and> (\<forall>fb'. sanitize_player_key k fb' = k) \<and>
         list_all (\<lambda>c. c \<noteq> CHR 0x22 \<and> c \<noteq> CHR ''/'' \<and> c \<noteq> CHR ''.'' \<and> c \<noteq> CHR 0x5C) k);
       k0 = sanitize_player_key raw []
   in (if list_ex letter_digit_dash raw then safe (sanitize_player_key raw fb) \<and> sanitize_player_key raw fb = k0
       else sanitize_player_key raw fb = fb) \<and>
      safe (sanitize_player_key raw ''player'') \<and>
      (k0 = [] \<longleftrightarrow> \<not> list_ex letter_digit_dash raw) \<and> sanitize_player_key k0 [] = k0"
proof -
  have safe: "k \<noteq> [] \<and> length k \<le> 31 \<and> list_all letter_digit_dash k \<and> (\<forall>fb'. sanitize_player_key k fb' = k) \<and>
      list_all (\<lambda>c. c \<noteq> CHR 0x22 \<and> c \<noteq> CHR ''/'' \<and> c \<noteq> CHR ''.'' \<and> c \<noteq> CHR 0x5C) k" if "player_key_ok k" for k
    using that sanitize_idem [OF that] key_char_neq
    by (auto simp: player_key_ok_def kPlayerKeyMax_def list_all_iff key_char_letters)
  have left: "filter key_char raw = [] \<longleftrightarrow> \<not> list_ex letter_digit_dash raw"
    by (auto simp: filter_empty_conv list_ex_iff key_char_letters)
  have empty: "sanitize_player_key [] [] = []"
    by (simp add: sanitize_player_key_def)
  show ?thesis
  proof (cases "list_ex letter_digit_dash raw")
    case True
    then have ok: "player_key_ok (sanitize_player_key raw f)" for f
      using player_key_ok_sanitize [of raw f] left by blast
    have "sanitize_player_key raw f = sanitize_player_key raw []" for f
      using True left by (simp add: sanitize_player_key_def)
    with safe [OF ok] True show ?thesis
      unfolding Let_def by metis
  next
    case False
    then have fb: "sanitize_player_key raw f = f" for f
      using left by (simp add: sanitize_player_key_def)
    from False show ?thesis
      using safe [OF player_key_ok_player] unfolding Let_def fb by (simp only: empty if_False simp_thms)
  qed
qed

end
