(* ===== verification/Config.thy ===== *)
theory Config
  imports Util Protocol
begin

text \<open>
  \<^verbatim>\<open>server/src/config.hpp\<close>: the settings record and the INI reader. The file system is an association
  list from paths to contents; \<open>canWrite\<close> says which paths the process may create.
\<close>

record ServerConfig =
  cfg_name :: string
  cfg_motd :: string
  cfg_port :: u16
  cfg_maxPlayers :: int
  cfg_verbose :: bool
  cfg_quiet :: bool
  cfg_jsonLog :: bool
  cfg_pvp :: bool
  cfg_password :: string
  cfg_modHash :: u32
  cfg_interestUu :: f32
  cfg_logFile :: string
  cfg_sessionDir :: string
  cfg_configPath :: string
  cfg_resetSession :: bool
  cfg_banKeys :: "string list"

definition default_config :: ServerConfig where
  "default_config =
   \<lparr>cfg_name = ''CommonwealthMP'', cfg_motd = [], cfg_port = kDefaultPort, cfg_maxPlayers = 8,
    cfg_verbose = False, cfg_quiet = False, cfg_jsonLog = False, cfg_pvp = True, cfg_password = [],
    cfg_modHash = 0, cfg_interestUu = f32_of_int 20000, cfg_logFile = [], cfg_sessionDir = [],
    cfg_configPath = [], cfg_resetSession = False, cfg_banKeys = []\<rparr>"

type_synonym files = "(string, string) umap"

definition ini_blank :: "char \<Rightarrow> bool" where
  "ini_blank c \<longleftrightarrow> c = CHR '' '' \<or> c = CHR 0x09 \<or> c = CHR 0x0D"

definition trim_ini :: "string \<Rightarrow> string" where
  "trim_ini s = rev (dropWhile ini_blank (rev (dropWhile ini_blank s)))"

definition parse_bool_ini :: "string \<Rightarrow> bool \<Rightarrow> bool" where
  "parse_bool_ini v fallback =
     (if v = [] then fallback
      else if v = ''1'' \<or> v = ''true'' \<or> v = ''True'' \<or> v = ''TRUE'' \<or> v = ''yes'' \<or> v = ''on'' then True
      else if v = ''0'' \<or> v = ''false'' \<or> v = ''False'' \<or> v = ''FALSE'' \<or> v = ''no'' \<or> v = ''off'' then False
      else fallback)"

definition strip_0x :: "string \<Rightarrow> string" where
  "strip_0x s =
     (if length s > 2 \<and> s ! 0 = CHR ''0'' \<and> (s ! 1 = CHR ''x'' \<or> s ! 1 = CHR ''X'') then drop 2 s else s)"

definition parse_mod_hash_ini :: "string \<Rightarrow> u32" where
  "parse_mod_hash_ini v =
     (if v = [] then 0
      else case stoul16 (strip_0x (trim_ini v)) of None \<Rightarrow> 0 | Some w \<Rightarrow> ucast w)"

definition default_ini :: string where
  "default_ini = concat (map (\<lambda>l. l @ [CHR 0x0A])
     [''# CommonwealthMP.Server settings.'', '''', ''name=CommonwealthMP'', ''motd='', ''port=7777'',
      ''max_players=8'', ''interest_uu=20000'', ''pvp=1'', ''password='', ''# mod_hash=0'', ''verbose=0'',
      ''quiet=0'', ''json_log=0'', ''# log_file='', ''# session_dir=''])"

definition write_default_server_ini :: "(string \<Rightarrow> bool) \<Rightarrow> string \<Rightarrow> files \<Rightarrow> bool \<times> files" where
  "write_default_server_ini canWrite path fs =
     (if \<not> canWrite path then (False, fs) else (True, um_put path default_ini fs))"

text \<open>The lines \<^verbatim>\<open>std::getline\<close> delivers.\<close>

function text_lines :: "string \<Rightarrow> string list" where
  "text_lines s =
     (if s = [] then []
      else takeWhile (\<lambda>c. c \<noteq> CHR 0x0A) s # text_lines (drop 1 (dropWhile (\<lambda>c. c \<noteq> CHR 0x0A) s)))"
  by pat_completeness auto
termination
proof (relation "measure length", goal_cases)
  case (2 s)
  then show ?case
    using length_dropWhile_le [of "\<lambda>c. c \<noteq> CHR 0x0A" s] by (cases s) auto
qed simp

declare text_lines.simps [simp del]

definition apply_ini_key :: "ServerConfig \<Rightarrow> string \<Rightarrow> string \<Rightarrow> ServerConfig" where
  "apply_ini_key cfg key val =
     (if key = ''name'' then cfg\<lparr>cfg_name := (if val = [] then cfg_name cfg else val)\<rparr>
      else if key = ''motd'' then cfg\<lparr>cfg_motd := val\<rparr>
      else if key = ''port'' then
        (case stoi val of Some v \<Rightarrow> cfg\<lparr>cfg_port := word_of_int v\<rparr> | None \<Rightarrow> cfg)
      else if key = ''max_players'' then
        (case stoi val of Some v \<Rightarrow> cfg\<lparr>cfg_maxPlayers := v\<rparr> | None \<Rightarrow> cfg)
      else if key = ''verbose'' then cfg\<lparr>cfg_verbose := parse_bool_ini val (cfg_verbose cfg)\<rparr>
      else if key = ''quiet'' then cfg\<lparr>cfg_quiet := parse_bool_ini val (cfg_quiet cfg)\<rparr>
      else if key = ''json_log'' then cfg\<lparr>cfg_jsonLog := parse_bool_ini val (cfg_jsonLog cfg)\<rparr>
      else if key = ''pvp'' then cfg\<lparr>cfg_pvp := parse_bool_ini val (cfg_pvp cfg)\<rparr>
      else if key = ''password'' then cfg\<lparr>cfg_password := val\<rparr>
      else if key = ''mod_hash'' then cfg\<lparr>cfg_modHash := parse_mod_hash_ini val\<rparr>
      else if key = ''interest_uu'' then
        (case stof val of Some v \<Rightarrow> cfg\<lparr>cfg_interestUu := v\<rparr> | None \<Rightarrow> cfg)
      else if key = ''log_file'' then cfg\<lparr>cfg_logFile := val\<rparr>
      else if key = ''session_dir'' then cfg\<lparr>cfg_sessionDir := val\<rparr>
      else cfg)"

definition apply_ini_line :: "ServerConfig \<Rightarrow> string \<Rightarrow> ServerConfig" where
  "apply_ini_line cfg raw =
     (let line = trim_ini raw
      in if line = [] \<or> hd line = CHR ''#'' \<or> hd line = CHR '';'' then cfg
         else case find_char CHR ''='' line 0 of
           None \<Rightarrow> cfg
         | Some eq \<Rightarrow> apply_ini_key cfg (trim_ini (take eq line)) (trim_ini (drop (eq + 1) line)))"

definition clamp_config :: "ServerConfig \<Rightarrow> ServerConfig" where
  "clamp_config c =
     c\<lparr>cfg_maxPlayers := (if cfg_maxPlayers c < 1 then 1 else cfg_maxPlayers c),
       cfg_interestUu := (if f32_less (cfg_interestUu c) 0 then 0 else cfg_interestUu c),
       cfg_password := (if length (cfg_password c) > 15 then take 15 (cfg_password c) else cfg_password c)\<rparr>"

definition load_server_ini :: "files \<Rightarrow> string \<Rightarrow> ServerConfig \<Rightarrow> bool \<times> ServerConfig" where
  "load_server_ini fs path cfg =
     (case um_find path fs of
        None \<Rightarrow> (False, cfg)
      | Some text \<Rightarrow> (True, clamp_config (foldl apply_ini_line cfg (text_lines text))))"

record ensure_res =
  er_ok :: bool
  er_created :: bool
  er_cfg :: ServerConfig
  er_files :: files

definition ensure_server_ini :: "(string \<Rightarrow> bool) \<Rightarrow> files \<Rightarrow> string \<Rightarrow> ServerConfig \<Rightarrow> ensure_res" where
  "ensure_server_ini canWrite fs path cfg =
     (case um_find path fs of
        Some _ \<Rightarrow>
          \<lparr>er_ok = fst (load_server_ini fs path cfg), er_created = False,
           er_cfg = snd (load_server_ini fs path cfg), er_files = fs\<rparr>
      | None \<Rightarrow>
          (case write_default_server_ini canWrite path fs of (ok, fs') \<Rightarrow>
             if \<not> ok then \<lparr>er_ok = False, er_created = False, er_cfg = cfg, er_files = fs'\<rparr>
             else \<lparr>er_ok = fst (load_server_ini fs' path cfg), er_created = True,
                   er_cfg = snd (load_server_ini fs' path cfg), er_files = fs'\<rparr>))"

subsection \<open>Correctness\<close>

definition config_ok :: "ServerConfig \<Rightarrow> bool" where
  "config_ok c \<longleftrightarrow> 1 \<le> cfg_maxPlayers c \<and> length (cfg_password c) \<le> 15 \<and> \<not> f32_less (cfg_interestUu c) 0"

lemma f32_zero_not_neg [simp]: "\<not> f32_less 0 0"
  by (simp add: f32_less_def)

lemma config_ok_clamp: "config_ok (clamp_config c)"
  by (simp add: clamp_config_def config_ok_def)

lemma load_ok: "fst (load_server_ini fs path cfg) \<Longrightarrow> config_ok (snd (load_server_ini fs path cfg))"
  by (auto simp: load_server_ini_def config_ok_clamp split: option.splits)

text \<open>A setting's value as the reader delivers it: no blank at either end.\<close>

definition trimmed :: "string \<Rightarrow> bool" where
  "trimmed s \<longleftrightarrow> s = [] \<or> (\<not> ini_blank (hd s) \<and> \<not> ini_blank (last s))"

lemma trim_ini_trimmed: "trimmed (trim_ini s)"
proof (cases "trim_ini s = []")
  case False
  let ?d = "dropWhile ini_blank s"
  have l: "\<not> ini_blank (last (trim_ini s))"
    using False by (metis hd_dropWhile last_rev rev_is_Nil_conv trim_ini_def)
  have "\<exists>zs. ?d = trim_ini s @ zs"
    unfolding trim_ini_def by (metis rev_append rev_rev_ident takeWhile_dropWhile_id)
  then obtain zs where zs: "?d = trim_ini s @ zs" by blast
  with False have "hd (trim_ini s) = hd ?d" by simp
  moreover have "?d \<noteq> []" using False zs by auto
  ultimately have "\<not> ini_blank (hd (trim_ini s))" by (metis hd_dropWhile)
  with l show ?thesis by (simp add: trimmed_def)
qed (simp add: trimmed_def)

lemma trim_ini_id: "trimmed s \<Longrightarrow> trim_ini s = s"
proof -
  assume t: "trimmed s"
  then have "dropWhile ini_blank s = s" by (auto simp: trimmed_def dropWhile_eq_self_iff)
  moreover from t have "dropWhile ini_blank (rev s) = rev s"
    by (auto simp: trimmed_def dropWhile_eq_self_iff hd_rev)
  ultimately show ?thesis by (simp add: trim_ini_def)
qed

lemma trim_ini_idem: "trim_ini (trim_ini s) = trim_ini s"
  by (rule trim_ini_id [OF trim_ini_trimmed])

lemma default_ini_lines:
  "text_lines default_ini =
     [''# CommonwealthMP.Server settings.'', '''', ''name=CommonwealthMP'', ''motd='', ''port=7777'',
      ''max_players=8'', ''interest_uu=20000'', ''pvp=1'', ''password='', ''# mod_hash=0'', ''verbose=0'',
      ''quiet=0'', ''json_log=0'', ''# log_file='', ''# session_dir='']"
  by (simp add: default_ini_def text_lines.simps)

text \<open>What the written defaults leave of a configuration.\<close>

definition with_defaults :: "ServerConfig \<Rightarrow> ServerConfig" where
  "with_defaults cfg =
     cfg\<lparr>cfg_name := ''CommonwealthMP'', cfg_motd := [], cfg_port := 7777, cfg_maxPlayers := 8,
       cfg_interestUu := f32_of_int 20000, cfg_pvp := True, cfg_password := [], cfg_verbose := False,
       cfg_quiet := False, cfg_jsonLog := False\<rparr>"

lemma stof_20000: "stof ''20000'' = Some (f32_of_int 20000)"
  by (simp add: stof_def strto_lit_def dec_lit_def hex_lit_def mantissa_def exp_part_def frac_def
      neg_sign_def skip_sign_def lower_copy_def c_tolower_def c_isspace_def is_digit_def dec_val_def
      digit_val_def f32_erange_def f32_of_int_def ieee_eval)

lemma stoi_defaults: "stoi ''7777'' = Some 7777" "stoi ''8'' = Some 8"
  by (simp_all add: stoi_def Let_def c_isspace_def skip_sign_def neg_sign_def is_digit_def dec_val_def
      digit_val_def)

lemma load_default_ini:
  "clamp_config (foldl apply_ini_line cfg (text_lines default_ini)) = with_defaults cfg"
proof -
  have "foldl apply_ini_line cfg (text_lines default_ini) = with_defaults cfg"
    by (simp add: default_ini_lines apply_ini_line_def trim_ini_def ini_blank_def find_char_def
        find_from_def apply_ini_key_def Let_def stof_20000 stoi_defaults parse_bool_ini_def
        with_defaults_def)
  moreover have "\<not> f32_less (f32_of_int 20000) 0" by (simp add: f32_of_int_def ieee_eval)
  ultimately show ?thesis by (simp add: clamp_config_def with_defaults_def)
qed

text \<open>
  A configuration that was loaded is within its bounds whatever the file says: at least one
  player, a password of at most 15 characters and an interest radius that is not negative.
\<close>

lemma loaded_config_bounds:
  assumes "er_ok (ensure_server_ini canWrite fs path cfg)"
  shows "1 \<le> cfg_maxPlayers (er_cfg (ensure_server_ini canWrite fs path cfg)) \<and>
    length (cfg_password (er_cfg (ensure_server_ini canWrite fs path cfg))) \<le> 15 \<and>
    \<not> f32_less (cfg_interestUu (er_cfg (ensure_server_ini canWrite fs path cfg))) 0"
proof -
  have "config_ok (er_cfg (ensure_server_ini canWrite fs path cfg))"
    using assms load_ok by (auto simp: ensure_server_ini_def split: option.splits prod.splits if_splits)
  then show ?thesis by (simp add: config_ok_def)
qed

text \<open>
  Starting without a settings file writes one, reports that it did, and runs with the defaults
  that file spells out; the next start finds the file, creates nothing and gets the same settings.
\<close>

lemma default_ini_round_trip:
  assumes "um_find path fs = None" and "canWrite path"
  shows "let e = ensure_server_ini canWrite fs path cfg; e' = ensure_server_ini canWrite (er_files e) path cfg
    in er_ok e \<and> er_created e \<and> er_cfg e = with_defaults cfg \<and>
       er_ok e' \<and> \<not> er_created e' \<and> er_cfg e' = with_defaults cfg \<and> er_files e' = er_files e"
  using assms
  by (simp add: ensure_server_ini_def write_default_server_ini_def load_server_ini_def amap load_default_ini Let_def)

lemma default_ini_round_trip_witness:
  "er_cfg (ensure_server_ini (\<lambda>_. True) [] ''server.ini'' default_config) = default_config"
proof -
  have "um_find ''server.ini'' ([] :: files) = None" by (simp add: amap)
  from default_ini_round_trip [OF this, of "\<lambda>_. True" default_config] show ?thesis
    by (simp add: Let_def with_defaults_def default_config_def kDefaultPort_def)
qed

end
