(* ===== verification/ServerState.thy ===== *)
theory ServerState
  imports Blobs Net Sim Queues Config
begin

text \<open>
  The server's data: the structs of \<^verbatim>\<open>server/src/server_state.hpp\<close>, the event and command types of
  \<^verbatim>\<open>server/src/queues.hpp\<close>, and the helpers of \<^verbatim>\<open>server/src/net_util.cpp\<close> that work on them.

  A \<^verbatim>\<open>sockaddr_in\<close> keeps the address and the port in network order, as the socket calls
  deliver them; the family is always \<^verbatim>\<open>AF_INET\<close>.
\<close>

subsection \<open>Constants\<close>

definition kClientTimeoutSec :: f64 where "kClientTimeoutSec = f64_of_int 8"
definition kPendingTcpTimeoutSec :: f64 where "kPendingTcpTimeoutSec = f64_of_int 10"
definition kPersistIntervalSec :: f64 where "kPersistIntervalSec = f64_of_int 2"
definition kStatusBarIntervalSec :: f64 where "kStatusBarIntervalSec = f64_of_int 1"

subsection \<open>Addresses\<close>

record sockaddr_in =
  sin_addr :: u32
  sin_port :: u16

definition sockaddr_zero :: sockaddr_in where
  "sockaddr_zero = \<lparr>sin_addr = 0, sin_port = 0\<rparr>"

definition ntohs :: "u16 \<Rightarrow> u16" where
  "ntohs p = word_of_nat (le_val (rev (enc_word 2 p)))"

definition inet_ntop :: "u32 \<Rightarrow> string" where
  "inet_ntop a =
     (case map (\<lambda>b. dec_str (unat b)) (enc_word 4 a) of
        [p, q, r, s] \<Rightarrow> p @ ''.'' @ q @ ''.'' @ r @ ''.'' @ s
      | _ \<Rightarrow> [])"

definition addr_key :: "sockaddr_in \<Rightarrow> string" where
  "addr_key a = inet_ntop (sin_addr a) @ '':'' @ dec_str (unat (ntohs (sin_port a)))"

definition same_addr :: "sockaddr_in \<Rightarrow> sockaddr_in \<Rightarrow> bool" where
  "same_addr a b \<longleftrightarrow> sin_addr a = sin_addr b \<and> sin_port a = sin_port b"

subsection \<open>Records\<close>

record player_rec =
  pr_key :: string
  pr_name :: string
  pr_havePose :: bool
  pr_locationFormId :: u32
  pr_x :: f32
  pr_y :: f32
  pr_z :: f32
  pr_yaw :: f32
  pr_appearance :: bytes
  pr_inventory :: bytes

definition default_player :: player_rec where
  "default_player =
   \<lparr>pr_key = [], pr_name = [], pr_havePose = False, pr_locationFormId = kCommonwealthWorldspace,
    pr_x = kSanctuaryX, pr_y = kSanctuaryY, pr_z = kSanctuaryZ, pr_yaw = 0, pr_appearance = [],
    pr_inventory = []\<rparr>"

record client =
  cl_connId :: u64
  cl_tcpAddr :: sockaddr_in
  cl_udpAddr :: sockaddr_in
  cl_udpBound :: bool
  cl_udpToken :: u32
  cl_peerId :: u32
  cl_playerKey :: string
  cl_name :: string
  cl_lastSeen :: f64
  cl_posesIn :: u64
  cl_lastPose :: player_pose
  cl_havePose :: bool
  cl_appearance :: bytes
  cl_inventory :: bytes

record pending_tcp =
  pt_connId :: u64
  pt_addr :: sockaddr_in
  pt_connectedAt :: f64

record session_world =
  wo_created :: bool
  wo_spawnLocation :: u32
  wo_spawnX :: f32
  wo_spawnY :: f32
  wo_spawnZ :: f32
  wo_gameHour :: f32
  wo_gameDaysPassed :: f32
  wo_weatherFormId :: u32
  wo_hostPeerId :: u32
  wo_hostLocation :: u32
  wo_hostX :: f32
  wo_hostY :: f32
  wo_hostZ :: f32

definition default_world :: session_world where
  "default_world =
   \<lparr>wo_created = False, wo_spawnLocation = kCommonwealthWorldspace,
    wo_spawnX = kSanctuaryX, wo_spawnY = kSanctuaryY, wo_spawnZ = kSanctuaryZ,
    wo_gameHour = f32_of_int 10, wo_gameDaysPassed = 0, wo_weatherFormId = 0, wo_hostPeerId = 0,
    wo_hostLocation = kCommonwealthWorldspace,
    wo_hostX = kSanctuaryX, wo_hostY = kSanctuaryY, wo_hostZ = kSanctuaryZ\<rparr>"

subsection \<open>Events, commands and jobs\<close>

datatype inbound_kind = TcpAccept | TcpFrame | TcpClosed | UdpDatagram

record inbound_event =
  ie_kind :: inbound_kind
  ie_connId :: u64
  ie_peerId :: u32
  ie_addr :: sockaddr_in
  ie_bytes :: bytes

datatype outbound_kind = TcpSend | UdpSend | BindPeer | CloseConn | KeepPending

record outbound_cmd =
  oc_kind :: outbound_kind
  oc_connId :: u64
  oc_peerId :: u32
  oc_addr :: sockaddr_in
  oc_bytes :: bytes

definition outbound_default :: "outbound_kind \<Rightarrow> outbound_cmd" where
  "outbound_default k =
     \<lparr>oc_kind = k, oc_connId = 0, oc_peerId = 0, oc_addr = sockaddr_zero, oc_bytes = []\<rparr>"

record persist_job =
  pj_world :: bool
  pj_worldSnap :: session_world
  pj_players :: "player_rec list"
  pj_banKeys :: "string list"
  pj_writeBans :: bool

definition empty_job :: persist_job where
  "empty_job =
     \<lparr>pj_world = False, pj_worldSnap = default_world, pj_players = [], pj_banKeys = [],
      pj_writeBans = False\<rparr>"

subsection \<open>Helpers\<close>

definition in_interest_client :: "client \<Rightarrow> client \<Rightarrow> f32 \<Rightarrow> bool" where
  "in_interest_client a b maxUu =
     in_interest_pose (cl_lastPose a) (cl_havePose a) (cl_lastPose b) (cl_havePose b) maxUu"

text \<open>The blob when the last chunk arrived, and the assembly after the packet.\<close>

definition take_blob :: "blob_assembly \<Rightarrow> bytes \<Rightarrow> f64 \<Rightarrow> bytes option \<times> blob_assembly" where
  "take_blob a buf now =
     (case assemble_blob_chunk a buf now of
        (st, a', out) \<Rightarrow> (if st = A_Complete then out else None, a'))"

text \<open>The peer handed out and the counter after it.\<close>

definition alloc_peer :: "u32 \<Rightarrow> u32 \<times> u32" where
  "alloc_peer nextPeer = (nextPeer, nextPeer + 1)"

definition build_session_flags :: "ServerConfig \<Rightarrow> u32" where
  "build_session_flags cfg =
     (let flags = (if cfg_pvp cfg then 0 OR kSessionPvpEnabled else 0)
      in if cfg_password cfg \<noteq> [] then flags OR kSessionPasswordRequired else flags)"

type_synonym clients = "(u32, client) umap"

text \<open>The key of the host's entry, and the world with a host elected when there was none.\<close>

definition find_host :: "clients \<Rightarrow> session_world \<Rightarrow> u32 option \<times> session_world" where
  "find_host clients world =
     (case find (\<lambda>kc. cl_peerId (snd kc) = wo_hostPeerId world) clients of
        Some kc \<Rightarrow> (Some (fst kc), world)
      | None \<Rightarrow>
          (case clients of
             [] \<Rightarrow> (None, world\<lparr>wo_hostPeerId := 0\<rparr>)
           | kc # _ \<Rightarrow> (Some (fst kc), world\<lparr>wo_hostPeerId := cl_peerId (snd kc)\<rparr>)))"

subsection \<open>Facts\<close>

lemma enc_word_inject:
  assumes "LENGTH('a::len) = 8 * n" and "enc_word n (a :: 'a word) = enc_word n b"
  shows "a = b"
  using dec_enc_word [OF assms(1), of a] dec_enc_word [OF assms(1), of b] assms(2) by metis

lemma find_SomeD: "find P xs = Some x \<Longrightarrow> x \<in> set xs \<and> P x"
  by (auto simp: find_Some_iff)

lemma ntohs_inject: "ntohs p = ntohs q \<Longrightarrow> p = q"
proof -
  assume eq: "ntohs p = ntohs q"
  have b: "le_val (rev (enc_word 2 r)) < 65536" for r :: u16
    using le_val_bound [of "rev (enc_word 2 r)"] by simp
  from eq b have "le_val (rev (enc_word 2 p)) = le_val (rev (enc_word 2 q))"
    unfolding ntohs_def by (metis unat_u16)
  then have "rev (enc_word 2 p) = rev (enc_word 2 q)"
    using le_bytes_le_val [of "rev (enc_word 2 p)"] le_bytes_le_val [of "rev (enc_word 2 q)"] by simp
  then show "p = q" by (simp add: enc_word_inject [of 2])
qed

lemma dec_str_no_sep: "CHR ''.'' \<notin> set (dec_str n)" "CHR '':'' \<notin> set (dec_str n)"
  using dec_str_digits [of "CHR ''.''" n] dec_str_digits [of "CHR '':''" n] by (auto simp: is_digit_def)

lemma inet_ntop_bytes:
  obtains p q r s where "enc_word 4 a = [p, q, r, s]"
    and "inet_ntop a = dec_str (unat p) @ CHR ''.'' # dec_str (unat q) @ CHR ''.'' # dec_str (unat r) @
      CHR ''.'' # dec_str (unat s)"
proof -
  have "length (enc_word 4 a) = 4" by simp
  then obtain p q r s where "enc_word 4 a = [p, q, r, s]"
    by (auto simp: numeral_eq_Suc length_Suc_conv simp del: length_enc_word)
  with that show ?thesis by (simp add: inet_ntop_def)
qed

lemma inet_ntop_inject: "inet_ntop a = inet_ntop b \<Longrightarrow> a = b"
proof -
  assume eq: "inet_ntop a = inet_ntop b"
  obtain p q r s where a: "enc_word 4 a = [p, q, r, s]" "inet_ntop a = dec_str (unat p) @ CHR ''.'' #
      dec_str (unat q) @ CHR ''.'' # dec_str (unat r) @ CHR ''.'' # dec_str (unat s)"
    by (rule inet_ntop_bytes)
  obtain p' q' r' s' where b: "enc_word 4 b = [p', q', r', s']" "inet_ntop b = dec_str (unat p') @ CHR ''.'' #
      dec_str (unat q') @ CHR ''.'' # dec_str (unat r') @ CHR ''.'' # dec_str (unat s')"
    by (rule inet_ntop_bytes)
  note sep = split_at_sep [where c = "CHR ''.''"] dec_str_no_sep
  from eq a b have 1: "dec_str (unat p) = dec_str (unat p') \<and> dec_str (unat q) @ CHR ''.'' #
      dec_str (unat r) @ CHR ''.'' # dec_str (unat s) = dec_str (unat q') @ CHR ''.'' # dec_str (unat r') @
      CHR ''.'' # dec_str (unat s')"
    using sep by metis
  then have 2: "dec_str (unat q) = dec_str (unat q') \<and> dec_str (unat r) @ CHR ''.'' # dec_str (unat s) =
      dec_str (unat r') @ CHR ''.'' # dec_str (unat s')"
    using sep by metis
  then have 3: "dec_str (unat r) = dec_str (unat r') \<and> dec_str (unat s) = dec_str (unat s')"
    using sep by metis
  from 1 2 3 have "enc_word 4 a = enc_word 4 b" by (auto simp: a(1) b(1) intro: unsigned_word_eqI)
  then show "a = b" by (simp add: enc_word_inject [of 4])
qed

lemma colon_notin_ntop: "CHR '':'' \<notin> set (inet_ntop a)"
  by (rule inet_ntop_bytes [of a]) (simp add: dec_str_no_sep)

text \<open>Two addresses have the same key only when they are the same.\<close>

lemma addr_key_inject: "addr_key a = addr_key b \<longleftrightarrow> a = b"
proof
  assume "addr_key a = addr_key b"
  then have "inet_ntop (sin_addr a) = inet_ntop (sin_addr b) \<and>
      dec_str (unat (ntohs (sin_port a))) = dec_str (unat (ntohs (sin_port b)))"
    unfolding addr_key_def using split_at_sep colon_notin_ntop by (metis append_Cons append_Nil)
  then have "sin_addr a = sin_addr b \<and> ntohs (sin_port a) = ntohs (sin_port b)"
    by (auto dest: inet_ntop_inject intro: unsigned_word_eqI)
  then show "a = b" by (auto dest: ntohs_inject intro: sockaddr_in.equality)
qed simp

lemma same_addr_iff: "same_addr a b \<longleftrightarrow> a = b"
  by (auto simp: same_addr_def intro: sockaddr_in.equality)

subsection \<open>The host\<close>

text \<open>Every entry is stored under its own peer id.\<close>

definition clients_keyed :: "clients \<Rightarrow> bool" where
  "clients_keyed cs \<longleftrightarrow> um_ok cs \<and> (\<forall>kc\<in>set cs. cl_peerId (snd kc) = fst kc)"

text \<open>The host is one of the clients, and there is none exactly when nobody is connected.\<close>

definition host_ok :: "clients \<Rightarrow> session_world \<Rightarrow> bool" where
  "host_ok cs w \<longleftrightarrow> (if cs = [] then wo_hostPeerId w = 0 else wo_hostPeerId w \<in> fst ` set cs)"

lemma find_host_only_host: "\<exists>h. snd (find_host cs w) = w\<lparr>wo_hostPeerId := h\<rparr>"
  by (auto simp: find_host_def split: option.splits list.splits intro: exI [of _ "wo_hostPeerId w"])

lemma find_host_ok:
  assumes "clients_keyed cs"
  shows "host_ok cs (snd (find_host cs w))"
    and "fst (find_host cs w) = (if cs = [] then None else Some (wo_hostPeerId (snd (find_host cs w))))"
proof -
  have "host_ok cs (snd (find_host cs w)) \<and>
    fst (find_host cs w) = (if cs = [] then None else Some (wo_hostPeerId (snd (find_host cs w))))"
  proof (cases "find (\<lambda>kc. cl_peerId (snd kc) = wo_hostPeerId w) cs")
    case None
    with assms show ?thesis by (auto simp: find_host_def host_ok_def clients_keyed_def split: list.splits)
  next
    case (Some kc)
    from find_SomeD [OF this] assms have "kc \<in> set cs" "fst kc = wo_hostPeerId w"
      by (auto simp: clients_keyed_def)
    moreover from this have "cs \<noteq> []" by auto
    ultimately show ?thesis using Some by (auto simp: find_host_def host_ok_def intro: rev_image_eqI)
  qed
  then show "host_ok cs (snd (find_host cs w))"
    and "fst (find_host cs w) = (if cs = [] then None else Some (wo_hostPeerId (snd (find_host cs w))))"
    by blast+
qed

text \<open>A host that is still connected stays host.\<close>

lemma find_host_stays:
  assumes "clients_keyed cs" and "wo_hostPeerId w \<in> fst ` set cs"
  shows "find_host cs w = (Some (wo_hostPeerId w), w)"
proof (cases "find (\<lambda>kc. cl_peerId (snd kc) = wo_hostPeerId w) cs")
  case None
  with assms show ?thesis by (auto simp: find_None_iff clients_keyed_def)
next
  case (Some kc)
  from find_SomeD [OF this] assms(1) have "fst kc = wo_hostPeerId w" by (auto simp: clients_keyed_def)
  with Some show ?thesis by (simp add: find_host_def)
qed

text \<open>
  The text key of a UDP source, \<^verbatim>\<open>ip:port\<close>, tells any two addresses apart, so the table from
  keys to peers never confuses two senders.
\<close>

lemma addr_key_injective: "addr_key a = addr_key b \<longleftrightarrow> same_addr a b"
  by (simp add: addr_key_inject same_addr_iff)

end
