(* ===== verification/Handlers.thy ===== *)
theory Handlers
  imports ServerState
begin

text \<open>
  \<^verbatim>\<open>server/src/handlers.cpp\<close>: the runtime of the simulation thread, every message handler, the
  removal and expiry of clients and the admission of new ones.

  The runtime is one record, passed through every operation. The configuration, the world, the
  player records and the ban list, which the C++ class holds by reference, are fields of it. A
  \<^verbatim>\<open>Client&\<close> is the key of its entry in \<open>rt_clients\<close>; a \<^verbatim>\<open>PendingTcp&\<close> is its index in
  \<open>rt_pendingTcp\<close>. \<open>rt_token\<close> is the static variable of \<^verbatim>\<open>make_udp_token\<close>, \<open>rt_persist\<close> the queue of
  the persist worker. \<open>now\<close> is what \<^verbatim>\<open>now_sec()\<close> reads during the call. Log output is left out.
\<close>

record server_runtime =
  rt_cfg :: ServerConfig
  rt_world :: session_world
  rt_players :: "(string, player_rec) umap"
  rt_bannedKeys :: "string list"
  rt_clients :: clients
  rt_udpPeerByAddr :: "(string, u32) umap"
  rt_pendingTcp :: "pending_tcp list"
  rt_appearAsm :: "(u32, blob_assembly) umap"
  rt_invAsm :: "(u32, blob_assembly) umap"
  rt_dirtyPlayers :: "string list"
  rt_worldDirty :: bool
  rt_nextPeer :: u32
  rt_sessionModHash :: u32
  rt_queryRates :: rates
  rt_helloRates :: rates
  rt_hitRates :: rates
  rt_poseRates :: rates
  rt_chatRates :: rates
  rt_blobRates :: rates
  rt_datagrams :: u64
  rt_badHeaders :: u64
  rt_outbound :: "outbound_cmd AsyncQueue option"
  rt_persist :: "persist_job AsyncQueue option"
  rt_removePeers :: "u32 list"
  rt_keepTcpPeers :: "u32 list"
  rt_token :: u32

definition ServerRuntime ::
  "ServerConfig \<Rightarrow> session_world \<Rightarrow> (string, player_rec) umap \<Rightarrow> string list \<Rightarrow> u32 \<Rightarrow> server_runtime" where
  "ServerRuntime config sessionWorld playerRecords bans modHash =
   \<lparr>rt_cfg = config, rt_world = sessionWorld, rt_players = playerRecords, rt_bannedKeys = bans,
    rt_clients = [], rt_udpPeerByAddr = [], rt_pendingTcp = [], rt_appearAsm = [], rt_invAsm = [],
    rt_dirtyPlayers = [], rt_worldDirty = False, rt_nextPeer = 1, rt_sessionModHash = modHash,
    rt_queryRates = [], rt_helloRates = [], rt_hitRates = [], rt_poseRates = [], rt_chatRates = [],
    rt_blobRates = [], rt_datagrams = 0, rt_badHeaders = 0, rt_outbound = None, rt_persist = None,
    rt_removePeers = [], rt_keepTcpPeers = [], rt_token = udp_token_seed\<rparr>"

subsection \<open>Sending\<close>

definition push_outbound :: "server_runtime \<Rightarrow> outbound_cmd \<Rightarrow> server_runtime" where
  "push_outbound r cmd = r\<lparr>rt_outbound := map_option (\<lambda>q. snd (aq_push q cmd)) (rt_outbound r)\<rparr>"

definition send_tcp_conn :: "server_runtime \<Rightarrow> u64 \<Rightarrow> bytes \<Rightarrow> server_runtime" where
  "send_tcp_conn r connId data =
     (if rt_outbound r = None \<or> connId = 0 \<or> data = [] then r
      else push_outbound r ((outbound_default TcpSend)\<lparr>oc_connId := connId, oc_bytes := data\<rparr>))"

definition send_tcp :: "server_runtime \<Rightarrow> client \<Rightarrow> bytes \<Rightarrow> server_runtime" where
  "send_tcp r c data =
     (if cl_connId c = 0 then r
      else if rt_outbound r = None \<or> data = [] then r
      else push_outbound r
        ((outbound_default TcpSend)\<lparr>oc_connId := cl_connId c, oc_peerId := cl_peerId c, oc_bytes := data\<rparr>))"

definition send_udp_addr :: "server_runtime \<Rightarrow> sockaddr_in \<Rightarrow> bytes \<Rightarrow> server_runtime" where
  "send_udp_addr r addr data =
     (if rt_outbound r = None \<or> data = [] then r
      else push_outbound r ((outbound_default UdpSend)\<lparr>oc_addr := addr, oc_bytes := data\<rparr>))"

definition send_udp :: "server_runtime \<Rightarrow> client \<Rightarrow> bytes \<Rightarrow> server_runtime" where
  "send_udp r c data = (if \<not> cl_udpBound c then r else send_udp_addr r (cl_udpAddr c) data)"

definition send_blob_tcp :: "server_runtime \<Rightarrow> client \<Rightarrow> msg \<Rightarrow> u32 \<Rightarrow> bytes \<Rightarrow> server_runtime" where
  "send_blob_tcp r c t peerId blob =
     (case split_blob_chunks t peerId blob of
        None \<Rightarrow> r
      | Some packets \<Rightarrow> foldl (\<lambda>r packet. send_tcp r c packet) r packets)"

text \<open>A range-for over the clients that only sends.\<close>

definition for_clients :: "(server_runtime \<Rightarrow> u32 \<Rightarrow> client \<Rightarrow> server_runtime) \<Rightarrow> server_runtime \<Rightarrow> server_runtime" where
  "for_clients body r = foldl (\<lambda>r kc. body r (fst kc) (snd kc)) r (rt_clients r)"

definition broadcast_session_rules :: "server_runtime \<Rightarrow> server_runtime" where
  "broadcast_session_rules r =
     (let rules = make_session_rules (build_session_flags (rt_cfg r))
      in for_clients (\<lambda>r _ c. send_tcp r c (enc_session_rules rules)) r)"

definition reject_conn :: "server_runtime \<Rightarrow> u64 \<Rightarrow> reject_reason \<Rightarrow> string \<Rightarrow> server_runtime" where
  "reject_conn r connId reason txt = send_tcp_conn r connId (enc_reject (make_reject reason txt))"

definition close_conn :: "server_runtime \<Rightarrow> u64 \<Rightarrow> server_runtime" where
  "close_conn r connId =
     (if rt_outbound r = None \<or> connId = 0 then r
      else push_outbound r ((outbound_default CloseConn)\<lparr>oc_connId := connId\<rparr>))"

definition bind_peer :: "server_runtime \<Rightarrow> u64 \<Rightarrow> u32 \<Rightarrow> server_runtime" where
  "bind_peer r connId peerId =
     (if rt_outbound r = None \<or> connId = 0 \<or> peerId = 0 then r
      else push_outbound r ((outbound_default BindPeer)\<lparr>oc_connId := connId, oc_peerId := peerId\<rparr>))"

subsection \<open>Persisting\<close>

definition enqueue :: "server_runtime \<Rightarrow> persist_job \<Rightarrow> server_runtime" where
  "enqueue r job = r\<lparr>rt_persist := map_option (\<lambda>q. snd (aq_push q job)) (rt_persist r)\<rparr>"

definition dirty_job :: "server_runtime \<Rightarrow> persist_job" where
  "dirty_job r =
     empty_job\<lparr>pj_world := rt_worldDirty r,
       pj_worldSnap := (if rt_worldDirty r then rt_world r else default_world),
       pj_players := List.map_filter (\<lambda>key. um_find key (rt_players r)) (rt_dirtyPlayers r)\<rparr>"

definition flush_dirty_async :: "server_runtime \<Rightarrow> server_runtime" where
  "flush_dirty_async r =
     (if rt_persist r = None then r
      else
        let job = dirty_job r;
            r1 = r\<lparr>rt_worldDirty := False, rt_dirtyPlayers := []\<rparr>
        in if \<not> pj_world job \<and> pj_players job = [] then r1 else enqueue r1 job)"

definition persist_bans_async :: "server_runtime \<Rightarrow> server_runtime" where
  "persist_bans_async r =
     (if rt_persist r = None then r
      else enqueue r (empty_job\<lparr>pj_writeBans := True, pj_banKeys := rt_bannedKeys r\<rparr>))"

subsection \<open>Lookup\<close>

definition upd_client :: "server_runtime \<Rightarrow> u32 \<Rightarrow> (client \<Rightarrow> client) \<Rightarrow> server_runtime" where
  "upd_client r k f = r\<lparr>rt_clients := um_upd k f (rt_clients r)\<rparr>"

definition unbind_udp :: "server_runtime \<Rightarrow> u32 \<Rightarrow> server_runtime" where
  "unbind_udp r k =
     (case um_find k (rt_clients r) of
        None \<Rightarrow> r
      | Some c \<Rightarrow>
          if \<not> cl_udpBound c then r
          else upd_client (r\<lparr>rt_udpPeerByAddr := um_erase (addr_key (cl_udpAddr c)) (rt_udpPeerByAddr r)\<rparr>) k
            (\<lambda>c. c\<lparr>cl_udpBound := False, cl_udpAddr := sockaddr_zero\<rparr>))"

definition find_by_udp :: "server_runtime \<Rightarrow> sockaddr_in \<Rightarrow> u32 option \<times> server_runtime" where
  "find_by_udp r from' =
     (case um_find (addr_key from') (rt_udpPeerByAddr r) of
        None \<Rightarrow> (None, r)
      | Some peer \<Rightarrow>
          (case um_find peer (rt_clients r) of
             None \<Rightarrow> (None, r\<lparr>rt_udpPeerByAddr := um_erase (addr_key from') (rt_udpPeerByAddr r)\<rparr>)
           | Some _ \<Rightarrow> (Some peer, r)))"

fun find_index :: "('a \<Rightarrow> bool) \<Rightarrow> 'a list \<Rightarrow> nat option" where
  "find_index P [] = None"
| "find_index P (x # xs) = (if P x then Some 0 else map_option Suc (find_index P xs))"

definition find_pending :: "server_runtime \<Rightarrow> u64 \<Rightarrow> nat option" where
  "find_pending r connId = find_index (\<lambda>p. pt_connId p = connId) (rt_pendingTcp r)"

definition find_by_conn :: "server_runtime \<Rightarrow> u64 \<Rightarrow> u32 option" where
  "find_by_conn r connId = map_option fst (find (\<lambda>kc. cl_connId (snd kc) = connId) (rt_clients r))"

subsection \<open>Removing a client\<close>

definition keep_pending :: "server_runtime \<Rightarrow> u32 \<Rightarrow> client \<Rightarrow> f64 \<Rightarrow> server_runtime" where
  "keep_pending r peerId c now =
     (let r1 = (if rt_outbound r = None then r
                else push_outbound r ((outbound_default KeepPending)\<lparr>oc_peerId := peerId\<rparr>))
      in r1\<lparr>rt_pendingTcp := rt_pendingTcp r1 @
             [\<lparr>pt_connId = cl_connId c, pt_addr = cl_tcpAddr c, pt_connectedAt = now\<rparr>]\<rparr>)"

definition remove_client :: "server_runtime \<Rightarrow> u32 \<Rightarrow> bool \<Rightarrow> f64 \<Rightarrow> server_runtime" where
  "remove_client r peerId keepTcp now =
     (case um_find peerId (rt_clients r) of
        None \<Rightarrow> r
      | Some c \<Rightarrow>
          let r1 = (case um_find (cl_playerKey c) (rt_players r) of
                      Some _ \<Rightarrow> r\<lparr>rt_dirtyPlayers := us_insert (cl_playerKey c) (rt_dirtyPlayers r)\<rparr>
                    | None \<Rightarrow> r);
              r2 = (if cl_peerId c = wo_hostPeerId (rt_world r1)
                    then r1\<lparr>rt_world := (rt_world r1)\<lparr>wo_hostPeerId := 0\<rparr>\<rparr> else r1);
              r3 = for_clients (\<lambda>r oid other.
                     if oid \<noteq> peerId then send_tcp r other (enc_bye (make_bye (cl_peerId c))) else r) r2;
              r4 = unbind_udp r3 peerId;
              r5 = (if keepTcp \<and> cl_connId c \<noteq> 0 then keep_pending r4 peerId c now
                    else if cl_connId c \<noteq> 0 then close_conn r4 (cl_connId c)
                    else r4);
              r6 = r5\<lparr>rt_clients := um_erase peerId (rt_clients r5)\<rparr>;
              r7 = r6\<lparr>rt_world := snd (find_host (rt_clients r6) (rt_world r6))\<rparr>
          in flush_dirty_async r7)"

subsection \<open>Messages from a connection that has not said Hello\<close>

text \<open>\<^verbatim>\<open>players[key]\<close>: the record, default-constructed when there was none.\<close>

definition player_at :: "server_runtime \<Rightarrow> string \<Rightarrow> player_rec" where
  "player_at r key = (case um_find key (rt_players r) of Some p \<Rightarrow> p | None \<Rightarrow> default_player)"

definition bad_header :: "server_runtime \<Rightarrow> server_runtime" where
  "bad_header r = r\<lparr>rt_badHeaders := rt_badHeaders r + 1\<rparr>"

text \<open>The \<^verbatim>\<open>SessionInfo\<close> reply, from the runtime after the host was looked up.\<close>

definition session_info_for :: "server_runtime \<Rightarrow> u32 option \<Rightarrow> session_info" where
  "session_info_for r host =
     (let w = rt_world r;
          hostPose = (case host of None \<Rightarrow> False
                      | Some k \<Rightarrow> (case um_find k (rt_clients r) of None \<Rightarrow> False | Some c \<Rightarrow> cl_havePose c));
          haveHost = (hostPose \<and> wo_hostPeerId w \<noteq> 0);
          hostInterior = (haveHost \<and> wo_hostLocation w \<noteq> 0 \<and> wo_hostLocation w \<noteq> kCommonwealthWorldspace)
      in make_session_info
           (if haveHost then wo_hostPeerId w else 0) (if haveHost then wo_hostLocation w else 0)
           (if haveHost then wo_hostX w else 0) (if haveHost then wo_hostY w else 0)
           (if haveHost then wo_hostZ w else 0)
           (word_of_nat (length (rt_clients r))) haveHost hostInterior (cfg_name (rt_cfg r))
           (word_of_int (cfg_maxPlayers (rt_cfg r))) (cfg_motd (rt_cfg r)) (build_session_flags (rt_cfg r)))"

definition pending_query :: "server_runtime \<Rightarrow> pending_tcp \<Rightarrow> f64 \<Rightarrow> server_runtime" where
  "pending_query r p t =
     (let rl = allow_rate (rt_queryRates r) (addr_key (pt_addr p)) t 4;
          r1 = r\<lparr>rt_queryRates := snd rl\<rparr>
      in if \<not> fst rl then r1
         else
           let fh = find_host (rt_clients r1) (rt_world r1);
               r2 = r1\<lparr>rt_world := snd fh\<rparr>
           in send_tcp_conn r2 (pt_connId p) (enc_session_info (session_info_for r2 (fst fh))))"

definition read_hello :: "bytes \<Rightarrow> hello" where
  "read_hello buf =
     (let h = dec_hello buf
      in h\<lparr>he_name := (he_name h)[31 := nul], he_playerKey := (he_playerKey h)[31 := nul],
          he_password := (he_password h)[15 := nul]\<rparr>)"

definition hello_key :: "hello \<Rightarrow> string" where
  "hello_key h = sanitize_player_key (c_str (he_playerKey h)) ''player''"

text \<open>The checks before the host is looked at, in order; the first that fails decides.\<close>

definition hello_reject :: "server_runtime \<Rightarrow> header \<Rightarrow> hello \<Rightarrow> (reject_reason \<times> string) option" where
  "hello_reject r hdr h =
     (if unat (he_protocol h) \<noteq> kProtocolVersion \<or> unat (h_version hdr) \<noteq> kProtocolVersion
      then Some (RR_Protocol, ''need protocol 12'')
      else if he_pluginVersion h \<noteq> kPluginVersion
      then Some (RR_PluginVersion, ''plugin version mismatch'')
      else if he_inWorld h = 0
      then Some (RR_NotInWorld, ''load a save and enter the world'')
      else if hello_key h \<in> set (rt_bannedKeys r)
      then Some (RR_Banned, ''banned'')
      else if cfg_password (rt_cfg r) \<noteq> [] \<and> c_str (he_password h) = []
      then Some (RR_Password, ''password required'')
      else if cfg_password (rt_cfg r) \<noteq> [] \<and> cfg_password (rt_cfg r) \<noteq> c_str (he_password h)
      then Some (RR_Password, ''wrong password'')
      else if rt_sessionModHash r \<noteq> 0 \<and> he_modHash h \<noteq> rt_sessionModHash r
      then Some (RR_ModMismatch, ''mod list mismatch'')
      else None)"

definition requires_host :: "hello \<Rightarrow> bool" where
  "requires_host h \<longleftrightarrow> he_flags h AND kHelloFlagRequireHost \<noteq> 0"

text \<open>The two checks of a guest that wants a live host, after \<^verbatim>\<open>find_host\<close>.\<close>

definition host_reject :: "server_runtime \<Rightarrow> u32 option \<Rightarrow> (reject_reason \<times> string) option" where
  "host_reject r host =
     (if (case host of None \<Rightarrow> True
          | Some k \<Rightarrow> (case um_find k (rt_clients r) of None \<Rightarrow> True | Some c \<Rightarrow> \<not> cl_havePose c))
         \<or> wo_hostPeerId (rt_world r) = 0
      then Some (RR_NoHost, ''need a live host in the world'')
      else if wo_hostLocation (rt_world r) \<noteq> kCommonwealthWorldspace
      then Some (RR_HostNotStreaming, ''host is not Commonwealth exterior'')
      else None)"

definition clear_pending :: "server_runtime \<Rightarrow> nat \<Rightarrow> server_runtime" where
  "clear_pending r i =
     r\<lparr>rt_pendingTcp := (rt_pendingTcp r)[i := (rt_pendingTcp r ! i)\<lparr>pt_connId := 0\<rparr>]\<rparr>"

text \<open>The player record a joining Hello leaves.\<close>

definition joined_rec :: "player_rec \<Rightarrow> string \<Rightarrow> hello \<Rightarrow> player_rec" where
  "joined_rec rec pkey h =
     rec\<lparr>pr_key := pkey,
         pr_name := (if pr_name rec = [] then (if c_str (he_name h) \<noteq> [] then c_str (he_name h) else ''player'')
                     else pr_name rec)\<rparr>"

definition rec_pose :: "u32 \<Rightarrow> player_rec \<Rightarrow> player_pose" where
  "rec_pose peerId rec =
     make_pose peerId (pr_locationFormId rec) (pr_x rec) (pr_y rec) (pr_z rec) (pr_yaw rec) 0 0 0 0 0"

definition soft_reconnect ::
  "server_runtime \<Rightarrow> u32 \<Rightarrow> pending_tcp \<Rightarrow> string \<Rightarrow> hello \<Rightarrow> player_rec \<Rightarrow> f64 \<Rightarrow> server_runtime" where
  "soft_reconnect r k p pkey h rec t =
     (case um_find k (rt_clients r) of
        None \<Rightarrow> r
      | Some old \<Rightarrow>
          let r1 = unbind_udp r k;
              r2 = (if cl_connId old \<noteq> 0 \<and> cl_connId old \<noteq> pt_connId p then close_conn r1 (cl_connId old) else r1);
              token = make_udp_token (rt_token r2);
              r3 = upd_client (r2\<lparr>rt_token := token\<rparr>) k (\<lambda>c. c
                \<lparr>cl_connId := pt_connId p, cl_tcpAddr := pt_addr p, cl_lastSeen := t, cl_playerKey := pkey,
                 cl_name := (if c_str (he_name h) \<noteq> [] then c_str (he_name h) else cl_name c),
                 cl_udpToken := token, cl_udpBound := False,
                 cl_appearance := (if pr_appearance rec \<noteq> [] then pr_appearance rec else cl_appearance c),
                 cl_inventory := (if pr_inventory rec \<noteq> [] then pr_inventory rec else cl_inventory c),
                 cl_lastPose := (if \<not> cl_havePose c \<and> pr_havePose rec then rec_pose (cl_peerId c) rec
                                 else cl_lastPose c),
                 cl_havePose := (cl_havePose c \<or> pr_havePose rec)\<rparr>)
          in bind_peer r3 (pt_connId p) (cl_peerId old))"

definition fresh_client ::
  "server_runtime \<Rightarrow> pending_tcp \<Rightarrow> string \<Rightarrow> hello \<Rightarrow> player_rec \<Rightarrow> f64 \<Rightarrow> u32 \<Rightarrow> u32 \<Rightarrow> client" where
  "fresh_client r p pkey h rec t peerId token =
     (let w = rt_world r
      in \<lparr>cl_connId = pt_connId p, cl_tcpAddr = pt_addr p, cl_udpAddr = sockaddr_zero, cl_udpBound = False,
          cl_udpToken = token, cl_peerId = peerId, cl_playerKey = pkey,
          cl_name = (if c_str (he_name h) \<noteq> [] then c_str (he_name h) else pr_name rec),
          cl_lastSeen = t, cl_posesIn = 0,
          cl_lastPose = (if \<not> pr_havePose rec
            then make_pose peerId (wo_spawnLocation w) (wo_spawnX w) (wo_spawnY w) (wo_spawnZ w) 0 0 0 0 0 0
            else rec_pose peerId rec),
          cl_havePose = True, cl_appearance = pr_appearance rec, cl_inventory = pr_inventory rec\<rparr>)"

text \<open>What the joiner is told: its place, the world, and the others it can see.\<close>

definition join_snapshot :: "server_runtime \<Rightarrow> player_rec \<Rightarrow> bool \<Rightarrow> bool \<Rightarrow> world_snapshot" where
  "join_snapshot r rec requireHost isNew =
     (let w = rt_world r;
          atRec = (\<not> requireHost \<and> \<not> isNew \<and> pr_havePose rec \<and> pr_locationFormId rec \<noteq> 0 \<and>
                   pr_locationFormId rec = wo_hostLocation w)
      in make_world_snapshot (wo_gameHour w) (wo_gameDaysPassed w) (wo_weatherFormId w) (wo_hostLocation w)
           (wo_hostX w) (wo_hostY w) (wo_hostZ w) (wo_hostPeerId w)
           (if atRec then pr_locationFormId rec else wo_hostLocation w)
           (if requireHost then f32_add (wo_hostX w) kGuestSpawnOffsetX
            else if atRec then pr_x rec else wo_hostX w)
           (if atRec then pr_y rec else wo_hostY w)
           (if atRec then pr_z rec else wo_hostZ w)
           isNew)"

definition tell_about :: "client \<Rightarrow> server_runtime \<Rightarrow> u32 \<Rightarrow> client \<Rightarrow> server_runtime" where
  "tell_about joined r oid other =
     (if oid = cl_peerId joined \<or> \<not> cl_havePose other then r
      else
        let r1 = send_udp r joined (enc_player_pose (cl_lastPose other));
            r2 = (if cl_appearance other \<noteq> []
                  then send_blob_tcp r1 joined AppearanceChunk (cl_peerId other) (cl_appearance other) else r1)
        in if cl_inventory other \<noteq> []
           then send_blob_tcp r2 joined InventoryChunk (cl_peerId other) (cl_inventory other) else r2)"

definition host_hello :: "server_runtime \<Rightarrow> hello \<Rightarrow> server_runtime" where
  "host_hello r h =
     (let w = rt_world r;
          r1 = r\<lparr>rt_world := w\<lparr>wo_gameHour := he_gameHour h, wo_gameDaysPassed := he_gameDaysPassed h,
                   wo_weatherFormId := he_weatherFormId h,
                   wo_hostLocation := (if he_locationFormId h \<noteq> 0 then he_locationFormId h else wo_hostLocation w),
                   wo_hostX := he_x h, wo_hostY := he_y h, wo_hostZ := he_z h\<rparr>,
                 rt_worldDirty := True\<rparr>
      in if rt_sessionModHash r1 = 0 \<and> he_modHash h \<noteq> 0 then r1\<lparr>rt_sessionModHash := he_modHash h\<rparr> else r1)"

definition finish_join ::
  "server_runtime \<Rightarrow> nat \<Rightarrow> u32 \<Rightarrow> hello \<Rightarrow> bool \<Rightarrow> bool \<Rightarrow> player_rec \<Rightarrow> server_runtime" where
  "finish_join r i k h requireHost isNew rec =
     (case um_find k (rt_clients r) of
        None \<Rightarrow> r
      | Some joined \<Rightarrow>
          let r1 = clear_pending r i;
              r2 = (if cl_peerId joined = wo_hostPeerId (rt_world r1) then host_hello r1 h else r1);
              isHost = (cl_peerId joined = wo_hostPeerId (rt_world r2));
              r3 = send_tcp r2 joined (enc_welcome (make_welcome (cl_peerId joined) 0 isNew isHost
                     (build_session_flags (rt_cfg r2)) (cl_udpToken joined)));
              r4 = send_tcp r3 joined (enc_world_snapshot (join_snapshot r3 rec requireHost isNew))
          in for_clients (tell_about joined) r4)"

definition join_new ::
  "server_runtime \<Rightarrow> nat \<Rightarrow> pending_tcp \<Rightarrow> string \<Rightarrow> hello \<Rightarrow> player_rec \<Rightarrow> bool \<Rightarrow> f64 \<Rightarrow> server_runtime" where
  "join_new r i p pkey h rec requireHost t =
     (let peerId = fst (alloc_peer (rt_nextPeer r));
          token = make_udp_token (rt_token r);
          r1 = r\<lparr>rt_nextPeer := snd (alloc_peer (rt_nextPeer r)), rt_token := token,
                 rt_clients := um_emplace peerId (fresh_client r p pkey h rec t peerId token) (rt_clients r)\<rparr>
      in if wo_hostPeerId (rt_world r1) = 0 \<and> requireHost
         then
           let joinedConn = (case um_find peerId (rt_clients r1) of None \<Rightarrow> 0 | Some c \<Rightarrow> cl_connId c);
               r2 = close_conn (reject_conn r1 joinedConn RR_NoHost ''need a live host in the world'') joinedConn
           in clear_pending (r2\<lparr>rt_clients := um_erase peerId (rt_clients r2)\<rparr>) i
         else
           let r2 = (if wo_hostPeerId (rt_world r1) = 0
                     then r1\<lparr>rt_world := (rt_world r1)\<lparr>wo_hostPeerId := peerId\<rparr>\<rparr> else r1)
           in finish_join (bind_peer r2 (pt_connId p) peerId) i peerId h requireHost (\<not> pr_havePose rec) rec)"

definition admit :: "server_runtime \<Rightarrow> nat \<Rightarrow> hello \<Rightarrow> bool \<Rightarrow> f64 \<Rightarrow> server_runtime" where
  "admit r i h requireHost t =
     (let p = rt_pendingTcp r ! i;
          pkey = hello_key h;
          reconnect = find (\<lambda>kc. cl_playerKey (snd kc) = pkey) (rt_clients r)
      in if reconnect = None \<and> int (length (rt_clients r)) \<ge> cfg_maxPlayers (rt_cfg r)
         then reject_conn r (pt_connId p) RR_Full ''server full''
         else
           let rec = joined_rec (player_at r pkey) pkey h;
               r1 = r\<lparr>rt_players := um_put pkey rec (rt_players r)\<rparr>;
               r2 = (if \<not> wo_created (rt_world r1)
                     then r1\<lparr>rt_world := (rt_world r1)\<lparr>wo_created := True\<rparr>, rt_worldDirty := True\<rparr> else r1)
           in case reconnect of
                Some kc \<Rightarrow>
                  finish_join (soft_reconnect r2 (fst kc) p pkey h rec t) i (fst kc) h requireHost
                    (\<not> pr_havePose rec) rec
              | None \<Rightarrow> join_new r2 i p pkey h rec requireHost t)"

definition pending_hello :: "server_runtime \<Rightarrow> nat \<Rightarrow> bytes \<Rightarrow> header \<Rightarrow> f64 \<Rightarrow> server_runtime" where
  "pending_hello r i buf hdr t =
     (let p = rt_pendingTcp r ! i;
          rl = allow_rate (rt_helloRates r) (addr_key (pt_addr p)) t 2;
          r1 = r\<lparr>rt_helloRates := snd rl\<rparr>
      in if \<not> fst rl then r1
         else
           let h = read_hello buf
           in case hello_reject r1 hdr h of
                Some rej \<Rightarrow> reject_conn r1 (pt_connId p) (fst rej) (snd rej)
              | None \<Rightarrow>
                  if \<not> requires_host h then admit r1 i h False t
                  else
                    let fh = find_host (rt_clients r1) (rt_world r1);
                        r2 = r1\<lparr>rt_world := snd fh\<rparr>
                    in case host_reject r2 (fst fh) of
                         Some rej \<Rightarrow> reject_conn r2 (pt_connId p) (fst rej) (snd rej)
                       | None \<Rightarrow> admit r2 i h True t)"

definition handle_pending_message :: "server_runtime \<Rightarrow> nat \<Rightarrow> bytes \<Rightarrow> f64 \<Rightarrow> server_runtime" where
  "handle_pending_message r i buf t =
     (if length buf < sizeof_Header then bad_header r
      else
        let hdr = dec_header buf; ty = msg_of_u8 (h_type hdr)
        in if \<not> header_ok hdr (length buf) then bad_header r
           else if ty = Some SessionQuery \<and> length buf \<ge> sizeof_msg SessionQuery
           then pending_query r (rt_pendingTcp r ! i) t
           else if ty \<noteq> Some Hello \<or> length buf < sizeof_msg Hello then r
           else pending_hello r i buf hdr t)"

subsection \<open>Messages of a client over TCP\<close>

text \<open>
  Each branch of \<^verbatim>\<open>handle_tcp_message\<close>; \<open>k\<close> is the client's key and \<open>c\<close> its value after
  \<^verbatim>\<open>lastSeen\<close> was set.
\<close>

definition tcp_bye :: "server_runtime \<Rightarrow> client \<Rightarrow> server_runtime" where
  "tcp_bye r c =
     r\<lparr>rt_removePeers := rt_removePeers r @ [cl_peerId c], rt_keepTcpPeers := rt_keepTcpPeers r @ [cl_peerId c]\<rparr>"

definition tcp_hello_again :: "server_runtime \<Rightarrow> u32 \<Rightarrow> client \<Rightarrow> server_runtime" where
  "tcp_hello_again r k c =
     (let token = make_udp_token (rt_token r);
          r1 = upd_client (r\<lparr>rt_token := token\<rparr>) k (\<lambda>c. c\<lparr>cl_udpToken := token\<rparr>);
          r2 = unbind_udp r1 k;
          rec = player_at r2 (cl_playerKey c);
          r3 = r2\<lparr>rt_players := um_put (cl_playerKey c) rec (rt_players r2)\<rparr>;
          isHost = (cl_peerId c = wo_hostPeerId (rt_world r3))
      in send_tcp r3 c (enc_welcome (make_welcome (cl_peerId c) 0 (\<not> pr_havePose rec) isHost
           (build_session_flags (rt_cfg r3)) token)))"

definition tcp_world_snapshot :: "server_runtime \<Rightarrow> client \<Rightarrow> bytes \<Rightarrow> server_runtime" where
  "tcp_world_snapshot r c buf =
     (let snap = dec_world_snapshot buf; w = rt_world r
      in if cl_peerId c = wo_hostPeerId w
         then r\<lparr>rt_world := w\<lparr>wo_gameHour := ws_gameHour snap, wo_gameDaysPassed := ws_gameDaysPassed snap,
                  wo_weatherFormId := ws_weatherFormId snap,
                  wo_hostLocation := (if ws_hostLocationFormId snap \<noteq> 0 then ws_hostLocationFormId snap
                                      else wo_hostLocation w),
                  wo_hostX := ws_hostX snap, wo_hostY := ws_hostY snap, wo_hostZ := ws_hostZ snap\<rparr>,
                rt_worldDirty := True\<rparr>
         else r)"

definition asm_at :: "(u32, blob_assembly) umap \<Rightarrow> u32 \<Rightarrow> blob_assembly" where
  "asm_at m k = (case um_find k m of Some a \<Rightarrow> a | None \<Rightarrow> empty_assembly)"

definition asms_of :: "server_runtime \<Rightarrow> msg \<Rightarrow> (u32, blob_assembly) umap" where
  "asms_of r ty = (if ty = AppearanceChunk then rt_appearAsm r else rt_invAsm r)"

definition set_asms :: "server_runtime \<Rightarrow> msg \<Rightarrow> (u32, blob_assembly) umap \<Rightarrow> server_runtime" where
  "set_asms r ty m = (if ty = AppearanceChunk then r\<lparr>rt_appearAsm := m\<rparr> else r\<lparr>rt_invAsm := m\<rparr>)"

text \<open>Storing a complete blob with the client and its record, and passing it on.\<close>

definition blob_done :: "server_runtime \<Rightarrow> u32 \<Rightarrow> client \<Rightarrow> msg \<Rightarrow> bytes \<Rightarrow> server_runtime" where
  "blob_done r k c ty blob =
     (let rec = (player_at r (cl_playerKey c))\<lparr>pr_key := cl_playerKey c\<rparr>;
          rec' = (if ty = AppearanceChunk then rec\<lparr>pr_appearance := blob\<rparr> else rec\<lparr>pr_inventory := blob\<rparr>);
          r1 = r\<lparr>rt_players := um_put (cl_playerKey c) rec' (rt_players r)\<rparr>;
          r2 = upd_client r1 k (\<lambda>c. if ty = AppearanceChunk then c\<lparr>cl_appearance := blob\<rparr> else c\<lparr>cl_inventory := blob\<rparr>);
          r3 = r2\<lparr>rt_dirtyPlayers := us_insert (pr_key rec') (rt_dirtyPlayers r2)\<rparr>
      in for_clients (\<lambda>r oid other.
           if oid \<noteq> cl_peerId c then send_blob_tcp r other ty (cl_peerId c) blob else r) r3)"

definition tcp_blob :: "server_runtime \<Rightarrow> u32 \<Rightarrow> client \<Rightarrow> msg \<Rightarrow> bytes \<Rightarrow> f64 \<Rightarrow> f64 \<Rightarrow> server_runtime" where
  "tcp_blob r k c ty buf t now =
     (let rl = allow_rate (rt_blobRates r) (show_u32 (cl_peerId c)) t 64;
          r1 = r\<lparr>rt_blobRates := snd rl\<rparr>
      in if \<not> fst rl then r1
         else
           let tb = take_blob (asm_at (asms_of r1 ty) (cl_peerId c)) buf now
           in case fst tb of
                None \<Rightarrow> set_asms r1 ty (um_put (cl_peerId c) (snd tb) (asms_of r1 ty))
              | Some blob \<Rightarrow> blob_done (set_asms r1 ty (um_erase (cl_peerId c) (asms_of r1 ty))) k c ty blob)"

definition tcp_heartbeat :: "server_runtime \<Rightarrow> client \<Rightarrow> bytes \<Rightarrow> server_runtime" where
  "tcp_heartbeat r c buf =
     send_tcp r c (enc_heartbeat ((dec_heartbeat buf)
       \<lparr>hb_peerId := cl_peerId c, hb_header := fill_header (sizeof_msg Heartbeat) Heartbeat\<rparr>))"

definition tcp_chat :: "server_runtime \<Rightarrow> client \<Rightarrow> bytes \<Rightarrow> f64 \<Rightarrow> server_runtime" where
  "tcp_chat r c buf t =
     (let chat = (dec_chat buf)\<lparr>ch_text := (ch_text (dec_chat buf))[79 := nul]\<rparr>;
          rl = allow_rate (rt_chatRates r) (show_u32 (cl_peerId c)) t 4;
          r1 = r\<lparr>rt_chatRates := snd rl\<rparr>
      in if \<not> fst rl then r1
         else
           let chat' = chat\<lparr>ch_fromPeerId := cl_peerId c, ch_header := fill_header (sizeof_msg Chat) Chat\<rparr>
           in for_clients (\<lambda>r oid other. if oid \<noteq> cl_peerId c then send_tcp r other (enc_chat chat') else r) r1)"

text \<open>The loops that stop at the first client with the target's peer id.\<close>

definition send_to_peer :: "server_runtime \<Rightarrow> u32 \<Rightarrow> bytes \<Rightarrow> server_runtime" where
  "send_to_peer r target data =
     (case find (\<lambda>kc. cl_peerId (snd kc) = target) (rt_clients r) of
        None \<Rightarrow> r | Some kc \<Rightarrow> send_tcp r (snd kc) data)"

definition tcp_kick :: "server_runtime \<Rightarrow> client \<Rightarrow> bytes \<Rightarrow> server_runtime" where
  "tcp_kick r c buf =
     (let kick = (dec_kick buf)\<lparr>ki_reason := (ki_reason (dec_kick buf))[79 := nul]\<rparr>
      in if cl_peerId c = wo_hostPeerId (rt_world r)
         then send_to_peer r (ki_targetPeerId kick) (enc_kick kick) else r)"

definition tcp_teleport :: "server_runtime \<Rightarrow> client \<Rightarrow> bytes \<Rightarrow> server_runtime" where
  "tcp_teleport r c buf =
     (let tp = dec_teleport buf
      in if cl_peerId c = wo_hostPeerId (rt_world r)
         then send_to_peer r (tp_targetPeerId tp) (enc_teleport tp) else r)"

definition tcp_hit :: "server_runtime \<Rightarrow> client \<Rightarrow> bytes \<Rightarrow> f64 \<Rightarrow> server_runtime" where
  "tcp_hit r c buf t =
     (if \<not> cfg_pvp (rt_cfg r) then r
      else
        let hit = dec_hit buf;
            rl = allow_rate (rt_hitRates r) (show_u32 (cl_peerId c)) t 24;
            r1 = r\<lparr>rt_hitRates := snd rl\<rparr>
        in if \<not> fst rl then r1
           else if hi_attackerPeerId hit \<noteq> cl_peerId c \<or> hi_targetPeerId hit = 0
                   \<or> hi_targetPeerId hit = hi_attackerPeerId hit then r1
           else
             let damage = clamp_hit_damage (hi_damage hit)
             in if f32_le damage 0 then r1
                else
                  let hit' = hit\<lparr>hi_damage := damage, hi_header := fill_header (sizeof_msg Hit) Hit\<rparr>
                  in for_clients (\<lambda>r _ other.
                       if cl_peerId other = hi_targetPeerId hit' then send_tcp r other (enc_hit hit') else r) r1)"

definition tcp_dispatch :: "server_runtime \<Rightarrow> u32 \<Rightarrow> client \<Rightarrow> msg option \<Rightarrow> bytes \<Rightarrow> f64 \<Rightarrow> f64 \<Rightarrow> server_runtime" where
  "tcp_dispatch r k c ty buf t now =
     (let n = length buf
      in if ty = Some Bye then tcp_bye r c
         else if ty = Some Hello \<and> n \<ge> sizeof_msg Hello then tcp_hello_again r k c
         else if ty = Some WorldSnapshot \<and> n \<ge> sizeof_msg WorldSnapshot then tcp_world_snapshot r c buf
         else if ty = Some AppearanceChunk \<and> n \<ge> sizeof_BlobChunk then tcp_blob r k c AppearanceChunk buf t now
         else if ty = Some InventoryChunk \<and> n \<ge> sizeof_BlobChunk then tcp_blob r k c InventoryChunk buf t now
         else if ty = Some Heartbeat \<and> n \<ge> sizeof_msg Heartbeat then tcp_heartbeat r c buf
         else if ty = Some Chat \<and> n \<ge> sizeof_msg Chat then tcp_chat r c buf t
         else if ty = Some Kick \<and> n \<ge> sizeof_msg Kick then tcp_kick r c buf
         else if ty = Some Teleport \<and> n \<ge> sizeof_msg Teleport then tcp_teleport r c buf
         else if ty = Some Hit \<and> n \<ge> sizeof_msg Hit then tcp_hit r c buf t
         else r)"

definition type_is_udp :: "msg option \<Rightarrow> bool" where
  "type_is_udp ty = (case ty of None \<Rightarrow> False | Some m \<Rightarrow> msg_is_udp m)"

definition handle_tcp_message :: "server_runtime \<Rightarrow> u32 \<Rightarrow> bytes \<Rightarrow> f64 \<Rightarrow> f64 \<Rightarrow> server_runtime" where
  "handle_tcp_message r k buf t now =
     (if length buf < sizeof_Header then bad_header r
      else
        let hdr = dec_header buf; ty = msg_of_u8 (h_type hdr)
        in if \<not> header_ok hdr (length buf) then bad_header r
           else if type_is_udp ty then r
           else
             let r1 = upd_client r k (\<lambda>c. c\<lparr>cl_lastSeen := t\<rparr>)
             in case um_find k (rt_clients r1) of
                  None \<Rightarrow> r1
                | Some c \<Rightarrow> tcp_dispatch r1 k c ty buf t now)"

subsection \<open>Datagrams\<close>

definition udp_bind_msg :: "server_runtime \<Rightarrow> bytes \<Rightarrow> sockaddr_in \<Rightarrow> f64 \<Rightarrow> server_runtime" where
  "udp_bind_msg r buf from' t =
     (let b = dec_udp_bind buf; k = ub_peerId b
      in case um_find k (rt_clients r) of
           None \<Rightarrow> r
         | Some c \<Rightarrow>
             if cl_udpToken c = 0 \<or> cl_udpToken c \<noteq> ub_udpToken b then r
             else
               let r1 = unbind_udp r k;
                   r2 = upd_client r1 k (\<lambda>c. c\<lparr>cl_udpAddr := from', cl_udpBound := True, cl_lastSeen := t\<rparr>);
                   r3 = r2\<lparr>rt_udpPeerByAddr := um_put (addr_key from') (cl_peerId c) (rt_udpPeerByAddr r2)\<rparr>
               in for_clients (\<lambda>r oid other.
                    if oid = cl_peerId c \<or> \<not> cl_havePose other then r
                    else send_udp r (c\<lparr>cl_udpAddr := from', cl_udpBound := True, cl_lastSeen := t\<rparr>)
                      (enc_player_pose (cl_lastPose other))) r3)"

text \<open>The record and the world after a pose of the client.\<close>

definition pose_rec :: "player_rec \<Rightarrow> string \<Rightarrow> player_pose \<Rightarrow> player_rec" where
  "pose_rec rec key pose =
     rec\<lparr>pr_key := key, pr_havePose := True, pr_locationFormId := pp_locationFormId pose,
         pr_x := pp_x pose, pr_y := pp_y pose, pr_z := pp_z pose, pr_yaw := pp_yaw pose\<rparr>"

definition pose_world :: "session_world \<Rightarrow> player_pose \<Rightarrow> session_world" where
  "pose_world w pose =
     w\<lparr>wo_hostLocation := (if pp_locationFormId pose \<noteq> 0 then pp_locationFormId pose else wo_hostLocation w),
       wo_hostX := pp_x pose, wo_hostY := pp_y pose, wo_hostZ := pp_z pose\<rparr>"

text \<open>The pose as it goes on: under the id the datagram's address is bound to, with a fresh header.\<close>

definition pose_relay :: "client \<Rightarrow> bytes \<Rightarrow> player_pose" where
  "pose_relay c buf =
     (dec_player_pose buf)\<lparr>pp_peerId := cl_peerId c, pp_header := fill_header (sizeof_msg PlayerPose) PlayerPose\<rparr>"

definition posed_client :: "client \<Rightarrow> bytes \<Rightarrow> client" where
  "posed_client c buf =
     c\<lparr>cl_posesIn := cl_posesIn c + 1, cl_lastPose := pose_relay c buf, cl_havePose := True\<rparr>"

definition udp_player_pose :: "server_runtime \<Rightarrow> u32 \<Rightarrow> client \<Rightarrow> bytes \<Rightarrow> f64 \<Rightarrow> server_runtime" where
  "udp_player_pose r k c buf t =
     (let rl = allow_rate (rt_poseRates r) (show_u32 (cl_peerId c)) t 30;
          r1 = r\<lparr>rt_poseRates := snd rl\<rparr>
      in if \<not> fst rl then r1
         else
           let pose = pose_relay c buf;
               c' = posed_client c buf;
               r2 = upd_client r1 k (\<lambda>_. c');
               rec = pose_rec (player_at r2 (cl_playerKey c)) (cl_playerKey c) pose;
               r3 = r2\<lparr>rt_players := um_put (cl_playerKey c) rec (rt_players r2),
                       rt_dirtyPlayers := us_insert (pr_key rec) (rt_dirtyPlayers r2)\<rparr>;
               r4 = (if cl_peerId c = wo_hostPeerId (rt_world r3)
                     then r3\<lparr>rt_world := pose_world (rt_world r3) pose, rt_worldDirty := True\<rparr> else r3)
           in for_clients (\<lambda>r oid other.
                if oid \<noteq> cl_peerId c \<and> cl_udpBound other \<and> in_interest_client c' other (cfg_interestUu (rt_cfg r))
                then send_udp r other (enc_player_pose pose) else r) r4)"

definition udp_actor_pose :: "server_runtime \<Rightarrow> client \<Rightarrow> bytes \<Rightarrow> server_runtime" where
  "udp_actor_pose r c buf =
     (if cl_peerId c \<noteq> wo_hostPeerId (rt_world r) then r
      else
        let pose = (dec_actor_pose buf)\<lparr>ap_header := fill_header (sizeof_msg ActorPose) ActorPose\<rparr>
        in for_clients (\<lambda>r oid other.
             if oid \<noteq> cl_peerId c \<and> cl_udpBound other \<and>
                in_interest_actor pose (cl_lastPose other) (cl_havePose other) (cfg_interestUu (rt_cfg r))
             then send_udp r other (enc_actor_pose pose) else r) r)"

definition udp_from_client :: "server_runtime \<Rightarrow> u32 \<Rightarrow> msg option \<Rightarrow> bytes \<Rightarrow> f64 \<Rightarrow> server_runtime" where
  "udp_from_client r k ty buf t =
     (let r1 = upd_client r k (\<lambda>c. c\<lparr>cl_lastSeen := t\<rparr>)
      in case um_find k (rt_clients r1) of
           None \<Rightarrow> r1
         | Some c \<Rightarrow>
             if ty = Some PlayerPose \<and> length buf \<ge> sizeof_msg PlayerPose then udp_player_pose r1 k c buf t
             else if ty = Some ActorPose \<and> length buf \<ge> sizeof_msg ActorPose then udp_actor_pose r1 c buf
             else r1)"

definition handle_udp_packet :: "server_runtime \<Rightarrow> bytes \<Rightarrow> sockaddr_in \<Rightarrow> f64 \<Rightarrow> server_runtime" where
  "handle_udp_packet r0 buf from' t =
     (let r = r0\<lparr>rt_datagrams := rt_datagrams r0 + 1\<rparr>
      in if length buf < sizeof_Header then bad_header r
         else
           let hdr = dec_header buf; ty = msg_of_u8 (h_type hdr)
           in if \<not> header_ok hdr (length buf) then bad_header r
              else if \<not> type_is_udp ty then r
              else if ty = Some UdpBind \<and> length buf \<ge> sizeof_msg UdpBind then udp_bind_msg r buf from' t
              else
                let fb = find_by_udp r from'
                in case fst fb of
                     None \<Rightarrow> snd fb
                   | Some k \<Rightarrow> udp_from_client (snd fb) k ty buf t)"

subsection \<open>Inbound events\<close>

text \<open>Handle one frame of a client, then remove the peers it said goodbye for.\<close>

definition client_frame :: "server_runtime \<Rightarrow> u32 \<Rightarrow> bytes \<Rightarrow> f64 \<Rightarrow> f64 \<Rightarrow> server_runtime" where
  "client_frame r k buf t now =
     (let r1 = handle_tcp_message (r\<lparr>rt_removePeers := [], rt_keepTcpPeers := []\<rparr>) k buf t now;
          r2 = foldl (\<lambda>r peerId. remove_client r peerId (peerId \<in> set (rt_keepTcpPeers r)) now) r1 (rt_removePeers r1)
      in r2\<lparr>rt_removePeers := [], rt_keepTcpPeers := []\<rparr>)"

definition pending_frame :: "server_runtime \<Rightarrow> nat \<Rightarrow> bytes \<Rightarrow> f64 \<Rightarrow> server_runtime" where
  "pending_frame r i buf t =
     (let r1 = handle_pending_message r i buf t
      in if pt_connId (rt_pendingTcp r1 ! i) = 0
         then r1\<lparr>rt_pendingTcp := filter (\<lambda>p. pt_connId p \<noteq> 0) (rt_pendingTcp r1)\<rparr> else r1)"

definition tcp_frame_event :: "server_runtime \<Rightarrow> inbound_event \<Rightarrow> f64 \<Rightarrow> f64 \<Rightarrow> server_runtime" where
  "tcp_frame_event r ev t now =
     (if ie_peerId ev \<noteq> 0 \<and> um_find (ie_peerId ev) (rt_clients r) \<noteq> None
      then client_frame r (ie_peerId ev) (ie_bytes ev) t now
      else case find_pending r (ie_connId ev) of
        Some i \<Rightarrow> pending_frame r i (ie_bytes ev) t
      | None \<Rightarrow>
          (case find_by_conn r (ie_connId ev) of
             Some k \<Rightarrow> client_frame r k (ie_bytes ev) t now
           | None \<Rightarrow> r))"

definition tcp_closed_event :: "server_runtime \<Rightarrow> inbound_event \<Rightarrow> f64 \<Rightarrow> server_runtime" where
  "tcp_closed_event r ev now =
     (let r1 = r\<lparr>rt_pendingTcp := filter (\<lambda>p. pt_connId p \<noteq> ie_connId ev) (rt_pendingTcp r)\<rparr>
      in if ie_peerId ev \<noteq> 0 then remove_client r1 (ie_peerId ev) False now
         else case find_by_conn r1 (ie_connId ev) of
           None \<Rightarrow> r1
         | Some k \<Rightarrow>
             (case um_find k (rt_clients r1) of
                None \<Rightarrow> r1
              | Some c \<Rightarrow>
                  remove_client (upd_client r1 k (\<lambda>c. c\<lparr>cl_connId := 0\<rparr>)) (cl_peerId c) False now))"

definition apply_inbound :: "server_runtime \<Rightarrow> inbound_event \<Rightarrow> f64 \<Rightarrow> f64 \<Rightarrow> server_runtime" where
  "apply_inbound r ev t now =
     (case ie_kind ev of
        TcpAccept \<Rightarrow>
          r\<lparr>rt_pendingTcp := rt_pendingTcp r @
              [\<lparr>pt_connId = ie_connId ev, pt_addr = ie_addr ev, pt_connectedAt = t\<rparr>]\<rparr>
      | TcpFrame \<Rightarrow> tcp_frame_event r ev t now
      | TcpClosed \<Rightarrow> tcp_closed_event r ev now
      | UdpDatagram \<Rightarrow> handle_udp_packet r (ie_bytes ev) (ie_addr ev) t)"

subsection \<open>Timeouts and heartbeats\<close>

definition pending_expired :: "f64 \<Rightarrow> pending_tcp \<Rightarrow> bool" where
  "pending_expired t p \<longleftrightarrow> f64_less kPendingTcpTimeoutSec (f64_sub t (pt_connectedAt p))"

definition expire_pending :: "server_runtime \<Rightarrow> f64 \<Rightarrow> server_runtime" where
  "expire_pending r t =
     (let r1 = foldl (\<lambda>r p. if pending_expired t p then close_conn r (pt_connId p) else r) r (rt_pendingTcp r)
      in r1\<lparr>rt_pendingTcp := filter (\<lambda>p. \<not> pending_expired t p) (rt_pendingTcp r1)\<rparr>)"

definition client_expired :: "f64 \<Rightarrow> client \<Rightarrow> bool" where
  "client_expired t c \<longleftrightarrow> f64_less kClientTimeoutSec (f64_sub t (cl_lastSeen c))"

definition expire_clients :: "server_runtime \<Rightarrow> f64 \<Rightarrow> f64 \<Rightarrow> server_runtime" where
  "expire_clients r t now =
     (let dead = map fst (filter (\<lambda>kc. client_expired t (snd kc)) (rt_clients r))
      in foldl (\<lambda>r peerId. remove_client r peerId False now) r dead)"

definition send_heartbeat :: "server_runtime \<Rightarrow> server_runtime" where
  "send_heartbeat r = for_clients (\<lambda>r _ c. send_tcp r c (enc_heartbeat (make_heartbeat 0 0))) r"

end
