(* ===== verification/Outputs.thy ===== *)
theory Outputs
  imports Handlers
begin

text \<open>
  What the handlers send. Every sending operation of \<^verbatim>\<open>server/src/handlers.cpp\<close> appends commands to the
  outbound queue and changes nothing else: \<open>out_cmds\<close> is that effect, and the equations below bring each
  operation into the form of a state change followed by a list of commands.
\<close>

named_theorems sends \<open>sending operations as lists of commands\<close>

definition out_cmds :: "server_runtime \<Rightarrow> outbound_cmd list \<Rightarrow> server_runtime" where
  "out_cmds r cs = r\<lparr>rt_outbound := map_option (\<lambda>q. aq_push_all q cs) (rt_outbound r)\<rparr>"

definition conn_cmds :: "u64 \<Rightarrow> bytes \<Rightarrow> outbound_cmd list" where
  "conn_cmds connId data =
     (if connId = 0 \<or> data = [] then []
      else [(outbound_default TcpSend)\<lparr>oc_connId := connId, oc_bytes := data\<rparr>])"

definition tcp_cmds :: "client \<Rightarrow> bytes \<Rightarrow> outbound_cmd list" where
  "tcp_cmds c data =
     (if cl_connId c = 0 \<or> data = [] then []
      else [(outbound_default TcpSend)\<lparr>oc_connId := cl_connId c, oc_peerId := cl_peerId c, oc_bytes := data\<rparr>])"

definition udp_cmds :: "client \<Rightarrow> bytes \<Rightarrow> outbound_cmd list" where
  "udp_cmds c data =
     (if \<not> cl_udpBound c \<or> data = [] then []
      else [(outbound_default UdpSend)\<lparr>oc_addr := cl_udpAddr c, oc_bytes := data\<rparr>])"

definition close_cmds :: "u64 \<Rightarrow> outbound_cmd list" where
  "close_cmds connId = (if connId = 0 then [] else [(outbound_default CloseConn)\<lparr>oc_connId := connId\<rparr>])"

definition bind_cmds :: "u64 \<Rightarrow> u32 \<Rightarrow> outbound_cmd list" where
  "bind_cmds connId peerId =
     (if connId = 0 \<or> peerId = 0 then []
      else [(outbound_default BindPeer)\<lparr>oc_connId := connId, oc_peerId := peerId\<rparr>])"

definition blob_cmds :: "client \<Rightarrow> msg \<Rightarrow> u32 \<Rightarrow> bytes \<Rightarrow> outbound_cmd list" where
  "blob_cmds c t peerId blob =
     (case split_blob_chunks t peerId blob of None \<Rightarrow> [] | Some ps \<Rightarrow> concat (map (tcp_cmds c) ps))"

definition each_client :: "clients \<Rightarrow> (u32 \<Rightarrow> client \<Rightarrow> outbound_cmd list) \<Rightarrow> outbound_cmd list" where
  "each_client cs f = concat (map (\<lambda>kc. f (fst kc) (snd kc)) cs)"

subsection \<open>The effect touches the queue only\<close>

lemma out_cmds_frame [simp]:
  "rt_cfg (out_cmds r cs) = rt_cfg r" "rt_world (out_cmds r cs) = rt_world r"
  "rt_players (out_cmds r cs) = rt_players r" "rt_bannedKeys (out_cmds r cs) = rt_bannedKeys r"
  "rt_clients (out_cmds r cs) = rt_clients r" "rt_udpPeerByAddr (out_cmds r cs) = rt_udpPeerByAddr r"
  "rt_pendingTcp (out_cmds r cs) = rt_pendingTcp r" "rt_appearAsm (out_cmds r cs) = rt_appearAsm r"
  "rt_invAsm (out_cmds r cs) = rt_invAsm r" "rt_dirtyPlayers (out_cmds r cs) = rt_dirtyPlayers r"
  "rt_worldDirty (out_cmds r cs) = rt_worldDirty r" "rt_nextPeer (out_cmds r cs) = rt_nextPeer r"
  "rt_sessionModHash (out_cmds r cs) = rt_sessionModHash r" "rt_queryRates (out_cmds r cs) = rt_queryRates r"
  "rt_helloRates (out_cmds r cs) = rt_helloRates r" "rt_hitRates (out_cmds r cs) = rt_hitRates r"
  "rt_poseRates (out_cmds r cs) = rt_poseRates r" "rt_chatRates (out_cmds r cs) = rt_chatRates r"
  "rt_blobRates (out_cmds r cs) = rt_blobRates r" "rt_datagrams (out_cmds r cs) = rt_datagrams r"
  "rt_badHeaders (out_cmds r cs) = rt_badHeaders r" "rt_persist (out_cmds r cs) = rt_persist r"
  "rt_removePeers (out_cmds r cs) = rt_removePeers r" "rt_keepTcpPeers (out_cmds r cs) = rt_keepTcpPeers r"
  "rt_token (out_cmds r cs) = rt_token r"
  "rt_outbound (out_cmds r cs) = map_option (\<lambda>q. aq_push_all q cs) (rt_outbound r)"
  by (simp_all add: out_cmds_def)

lemma out_cmds_upd [simp]:
  "(out_cmds r cs)\<lparr>rt_world := w\<rparr> = out_cmds (r\<lparr>rt_world := w\<rparr>) cs"
  "(out_cmds r cs)\<lparr>rt_players := p\<rparr> = out_cmds (r\<lparr>rt_players := p\<rparr>) cs"
  "(out_cmds r cs)\<lparr>rt_clients := m\<rparr> = out_cmds (r\<lparr>rt_clients := m\<rparr>) cs"
  "(out_cmds r cs)\<lparr>rt_pendingTcp := l\<rparr> = out_cmds (r\<lparr>rt_pendingTcp := l\<rparr>) cs"
  "(out_cmds r cs)\<lparr>rt_udpPeerByAddr := u\<rparr> = out_cmds (r\<lparr>rt_udpPeerByAddr := u\<rparr>) cs"
  "(out_cmds r cs)\<lparr>rt_worldDirty := b\<rparr> = out_cmds (r\<lparr>rt_worldDirty := b\<rparr>) cs"
  "(out_cmds r cs)\<lparr>rt_dirtyPlayers := d\<rparr> = out_cmds (r\<lparr>rt_dirtyPlayers := d\<rparr>) cs"
  "(out_cmds r cs)\<lparr>rt_token := t\<rparr> = out_cmds (r\<lparr>rt_token := t\<rparr>) cs"
  "(out_cmds r cs)\<lparr>rt_sessionModHash := h\<rparr> = out_cmds (r\<lparr>rt_sessionModHash := h\<rparr>) cs"
  "(out_cmds r cs)\<lparr>rt_persist := pq\<rparr> = out_cmds (r\<lparr>rt_persist := pq\<rparr>) cs"
  "(out_cmds r cs)\<lparr>rt_removePeers := rp\<rparr> = out_cmds (r\<lparr>rt_removePeers := rp\<rparr>) cs"
  "(out_cmds r cs)\<lparr>rt_keepTcpPeers := kp\<rparr> = out_cmds (r\<lparr>rt_keepTcpPeers := kp\<rparr>) cs"
  by (simp_all add: out_cmds_def)

lemma aq_push_all_Nil [simp]: "aq_push_all q [] = q"
  and aq_push_all_append: "aq_push_all (aq_push_all q xs) ys = aq_push_all q (xs @ ys)"
  by (simp_all add: aq_push_all_def)

lemma out_cmds_Nil [simp]: "out_cmds r [] = r"
  by (cases r) (simp add: out_cmds_def option.map_ident [unfolded id_def])

lemma out_cmds_append [simp]: "out_cmds (out_cmds r xs) ys = out_cmds r (xs @ ys)"
  by (simp add: out_cmds_def aq_push_all_append option.map_comp o_def)

lemma push_outbound_out [sends]: "push_outbound r cmd = out_cmds r [cmd]"
  by (simp add: push_outbound_def out_cmds_def aq_push_all_def)

lemma no_outbound [simp]: "rt_outbound r = None \<Longrightarrow> out_cmds r cs = r"
  by (cases r) (simp add: out_cmds_def)

lemma send_tcp_conn_out [sends]: "send_tcp_conn r k d = out_cmds r (conn_cmds k d)"
  by (auto simp: send_tcp_conn_def conn_cmds_def sends)

lemma send_tcp_out [sends]: "send_tcp r c d = out_cmds r (tcp_cmds c d)"
  by (auto simp: send_tcp_def tcp_cmds_def sends)

lemma send_udp_out [sends]: "send_udp r c d = out_cmds r (udp_cmds c d)"
  by (auto simp: send_udp_def send_udp_addr_def udp_cmds_def sends)

lemma close_conn_out [sends]: "close_conn r k = out_cmds r (close_cmds k)"
  by (auto simp: close_conn_def close_cmds_def sends)

lemma bind_peer_out [sends]: "bind_peer r k p = out_cmds r (bind_cmds k p)"
  by (auto simp: bind_peer_def bind_cmds_def sends)

lemma reject_conn_out [sends]: "reject_conn r k reason txt = out_cmds r (conn_cmds k (enc_reject (make_reject reason txt)))"
  by (simp add: reject_conn_def sends)

lemma foldl_out: "foldl (\<lambda>r x. out_cmds r (f x)) r xs = out_cmds r (concat (map f xs))"
  by (induction xs arbitrary: r) simp_all

lemma send_blob_out [sends]: "send_blob_tcp r c t p b = out_cmds r (blob_cmds c t p b)"
  by (simp add: send_blob_tcp_def blob_cmds_def sends foldl_out split: option.split)

lemma for_clients_out:
  assumes "\<And>cs k c. body (out_cmds r cs) k c = out_cmds (out_cmds r cs) (f k c)"
  shows "for_clients body r = out_cmds r (each_client (rt_clients r) f)"
proof -
  have "foldl (\<lambda>r kc. body r (fst kc) (snd kc)) (out_cmds r cs) xs =
      out_cmds (out_cmds r cs) (concat (map (\<lambda>kc. f (fst kc) (snd kc)) xs))" for cs xs
    by (induction xs arbitrary: cs) (simp_all add: assms)
  from this [of "[]"] show ?thesis by (simp add: for_clients_def each_client_def)
qed

lemma for_clients_all [sends]:
  "for_clients (\<lambda>r k c. out_cmds r (f k c)) r = out_cmds r (each_client (rt_clients r) f)"
  by (rule for_clients_out) simp

lemma for_clients_if [sends]:
  "for_clients (\<lambda>r k c. if P k c then out_cmds r (f k c) else r) r =
     out_cmds r (each_client (rt_clients r) (\<lambda>k c. if P k c then f k c else []))"
  by (rule for_clients_out) simp

lemma for_clients_if_tcp [sends]:
  "for_clients (\<lambda>r k c. if P k c then send_tcp r c d else r) r =
     out_cmds r (each_client (rt_clients r) (\<lambda>k c. if P k c then tcp_cmds c d else []))"
  by (rule for_clients_out) (simp add: sends)

lemma for_clients_if_blob [sends]:
  "for_clients (\<lambda>r k c. if P k c then send_blob_tcp r c t p b else r) r =
     out_cmds r (each_client (rt_clients r) (\<lambda>k c. if P k c then blob_cmds c t p b else []))"
  by (rule for_clients_out) (simp add: sends)

definition about_cmds :: "client \<Rightarrow> u32 \<Rightarrow> client \<Rightarrow> outbound_cmd list" where
  "about_cmds joined oid other =
     (if oid = cl_peerId joined \<or> \<not> cl_havePose other then []
      else udp_cmds joined (enc_player_pose (cl_lastPose other)) @
        (if cl_appearance other \<noteq> []
         then blob_cmds joined AppearanceChunk (cl_peerId other) (cl_appearance other) else []) @
        (if cl_inventory other \<noteq> []
         then blob_cmds joined InventoryChunk (cl_peerId other) (cl_inventory other) else []))"

lemma for_clients_about [sends]:
  "for_clients (tell_about joined) r = out_cmds r (each_client (rt_clients r) (about_cmds joined))"
  by (rule for_clients_out) (simp add: tell_about_def about_cmds_def sends Let_def)

subsection \<open>Handlers as a state change and commands\<close>

lemma broadcast_rules_out:
  "broadcast_session_rules r = out_cmds r (each_client (rt_clients r)
     (\<lambda>_ c. tcp_cmds c (enc_session_rules (make_session_rules (build_session_flags (rt_cfg r))))))"
  by (simp add: broadcast_session_rules_def sends)

lemma send_heartbeat_out:
  "send_heartbeat r =
     out_cmds r (each_client (rt_clients r) (\<lambda>_ c. tcp_cmds c (enc_heartbeat (make_heartbeat 0 0))))"
  by (simp add: send_heartbeat_def sends)

text \<open>The chat as it goes out: the sender's id and a fresh header, the text cut at its last byte.\<close>

definition chat_relay :: "client \<Rightarrow> bytes \<Rightarrow> chat" where
  "chat_relay c buf =
     \<lparr>ch_header = fill_header (sizeof_msg Chat) Chat, ch_fromPeerId = cl_peerId c,
      ch_text = (ch_text (dec_chat buf))[79 := nul]\<rparr>"

lemma tcp_chat_out:
  "tcp_chat r c buf t =
     (let rl = allow_rate (rt_chatRates r) (show_u32 (cl_peerId c)) t 4
      in if fst rl then out_cmds (r\<lparr>rt_chatRates := snd rl\<rparr>) (each_client (rt_clients r)
             (\<lambda>oid other. if oid \<noteq> cl_peerId c then tcp_cmds other (enc_chat (chat_relay c buf)) else []))
         else r\<lparr>rt_chatRates := snd rl\<rparr>)"
proof -
  have e: "(dec_chat buf)\<lparr>ch_text := (ch_text (dec_chat buf))[79 := nul], ch_fromPeerId := cl_peerId c,
      ch_header := fill_header (sizeof_msg Chat) Chat\<rparr> = chat_relay c buf"
    by (cases "dec_chat buf") (simp add: chat_relay_def)
  show ?thesis unfolding tcp_chat_def Let_def e by (simp add: sends)
qed

definition hit_relay :: "bytes \<Rightarrow> hit" where
  "hit_relay buf =
     (dec_hit buf)\<lparr>hi_damage := clamp_hit_damage (hi_damage (dec_hit buf)),
       hi_header := fill_header (sizeof_msg Hit) Hit\<rparr>"

definition hit_allowed :: "client \<Rightarrow> bytes \<Rightarrow> bool" where
  "hit_allowed c buf \<longleftrightarrow>
     hi_attackerPeerId (dec_hit buf) = cl_peerId c \<and> hi_targetPeerId (dec_hit buf) \<noteq> 0 \<and>
     hi_targetPeerId (dec_hit buf) \<noteq> cl_peerId c \<and> \<not> f32_le (clamp_hit_damage (hi_damage (dec_hit buf))) 0"

lemma tcp_hit_out:
  "tcp_hit r c buf t =
     (let rl = allow_rate (rt_hitRates r) (show_u32 (cl_peerId c)) t 24
      in if \<not> cfg_pvp (rt_cfg r) then r
         else if fst rl \<and> hit_allowed c buf
         then out_cmds (r\<lparr>rt_hitRates := snd rl\<rparr>) (each_client (rt_clients r)
           (\<lambda>_ other. if cl_peerId other = hi_targetPeerId (dec_hit buf)
                      then tcp_cmds other (enc_hit (hit_relay buf)) else []))
         else r\<lparr>rt_hitRates := snd rl\<rparr>)"
  by (auto simp: tcp_hit_def Let_def sends hit_allowed_def hit_relay_def cong: if_cong)

text \<open>The state after an accepted pose, before it is passed on.\<close>

definition posed_state :: "server_runtime \<Rightarrow> u32 \<Rightarrow> client \<Rightarrow> bytes \<Rightarrow> server_runtime" where
  "posed_state r k c buf =
     (let rec = pose_rec (player_at r (cl_playerKey c)) (cl_playerKey c) (pose_relay c buf);
          host = (cl_peerId c = wo_hostPeerId (rt_world r))
      in r\<lparr>rt_clients := um_upd k (\<lambda>_. posed_client c buf) (rt_clients r),
           rt_players := um_put (cl_playerKey c) rec (rt_players r),
           rt_dirtyPlayers := us_insert (cl_playerKey c) (rt_dirtyPlayers r),
           rt_world := (if host then pose_world (rt_world r) (pose_relay c buf) else rt_world r),
           rt_worldDirty := (host \<or> rt_worldDirty r)\<rparr>)"

definition pose_cmds :: "server_runtime \<Rightarrow> client \<Rightarrow> bytes \<Rightarrow> outbound_cmd list" where
  "pose_cmds r c buf =
     each_client (rt_clients r) (\<lambda>oid other.
       if oid \<noteq> cl_peerId c \<and> cl_udpBound other \<and> in_interest_client (posed_client c buf) other (cfg_interestUu (rt_cfg r))
       then udp_cmds other (enc_player_pose (pose_relay c buf)) else [])"

lemma udp_player_pose_out:
  "udp_player_pose r k c buf t =
     (let rl = allow_rate (rt_poseRates r) (show_u32 (cl_peerId c)) t 30;
          r1 = r\<lparr>rt_poseRates := snd rl\<rparr>
      in if fst rl then out_cmds (posed_state r1 k c buf) (pose_cmds (posed_state r1 k c buf) c buf) else r1)"
proof -
  let ?r1 = "r\<lparr>rt_poseRates := snd (allow_rate (rt_poseRates r) (show_u32 (cl_peerId c)) t 30)\<rparr>"
  have "for_clients (\<lambda>r oid other.
       if oid \<noteq> cl_peerId c \<and> cl_udpBound other \<and> in_interest_client (posed_client c buf) other (cfg_interestUu (rt_cfg r))
       then send_udp r other (enc_player_pose (pose_relay c buf)) else r) (posed_state ?r1 k c buf) =
     out_cmds (posed_state ?r1 k c buf) (pose_cmds (posed_state ?r1 k c buf) c buf)"
    unfolding pose_cmds_def by (rule for_clients_out) (simp add: sends)
  moreover have "(let r2 = upd_client ?r1 k (\<lambda>_. posed_client c buf);
       rec = pose_rec (player_at r2 (cl_playerKey c)) (cl_playerKey c) (pose_relay c buf);
       r3 = r2\<lparr>rt_players := um_put (cl_playerKey c) rec (rt_players r2),
               rt_dirtyPlayers := us_insert (pr_key rec) (rt_dirtyPlayers r2)\<rparr>
      in if cl_peerId c = wo_hostPeerId (rt_world r3)
         then r3\<lparr>rt_world := pose_world (rt_world r3) (pose_relay c buf), rt_worldDirty := True\<rparr> else r3) =
      posed_state ?r1 k c buf"
    by (simp add: posed_state_def upd_client_def player_at_def Let_def pose_rec_def)
  ultimately show ?thesis
    by (simp only: udp_player_pose_def Let_def not_not if_not_P split: if_split) simp
qed

definition actor_relay :: "bytes \<Rightarrow> actor_pose" where
  "actor_relay buf = (dec_actor_pose buf)\<lparr>ap_header := fill_header (sizeof_msg ActorPose) ActorPose\<rparr>"

lemma udp_actor_pose_out:
  "udp_actor_pose r c buf =
     (if cl_peerId c \<noteq> wo_hostPeerId (rt_world r) then r
      else out_cmds r (each_client (rt_clients r) (\<lambda>oid other.
             if oid \<noteq> cl_peerId c \<and> cl_udpBound other \<and>
                in_interest_actor (actor_relay buf) (cl_lastPose other) (cl_havePose other) (cfg_interestUu (rt_cfg r))
             then udp_cmds other (enc_actor_pose (actor_relay buf)) else [])))"
proof -
  have "for_clients (\<lambda>r oid other.
             if oid \<noteq> cl_peerId c \<and> cl_udpBound other \<and>
                in_interest_actor (actor_relay buf) (cl_lastPose other) (cl_havePose other) (cfg_interestUu (rt_cfg r))
             then send_udp r other (enc_actor_pose (actor_relay buf)) else r) r =
     out_cmds r (each_client (rt_clients r) (\<lambda>oid other.
             if oid \<noteq> cl_peerId c \<and> cl_udpBound other \<and>
                in_interest_actor (actor_relay buf) (cl_lastPose other) (cl_havePose other) (cfg_interestUu (rt_cfg r))
             then udp_cmds other (enc_actor_pose (actor_relay buf)) else []))"
    by (rule for_clients_out) (simp add: sends)
  then show ?thesis unfolding udp_actor_pose_def Let_def actor_relay_def by presburger
qed

lemma send_to_peer_out [sends]:
  "send_to_peer r target d = out_cmds r
     (case find (\<lambda>kc. cl_peerId (snd kc) = target) (rt_clients r) of None \<Rightarrow> [] | Some kc \<Rightarrow> tcp_cmds (snd kc) d)"
  by (simp add: send_to_peer_def sends split: option.split)

text \<open>Where a command goes.\<close>

lemma in_tcp_cmds: "cmd \<in> set (tcp_cmds c d) \<Longrightarrow>
    oc_kind cmd = TcpSend \<and> oc_connId cmd = cl_connId c \<and> oc_peerId cmd = cl_peerId c \<and> oc_bytes cmd = d"
  by (auto simp: tcp_cmds_def outbound_default_def split: if_splits)

lemma in_udp_cmds: "cmd \<in> set (udp_cmds c d) \<Longrightarrow>
    oc_kind cmd = UdpSend \<and> cl_udpBound c \<and> oc_addr cmd = cl_udpAddr c \<and> oc_bytes cmd = d"
  by (auto simp: udp_cmds_def outbound_default_def split: if_splits)

lemma in_blob_cmds: "cmd \<in> set (blob_cmds c t p b) \<Longrightarrow>
    oc_kind cmd = TcpSend \<and> oc_connId cmd = cl_connId c \<and> oc_peerId cmd = cl_peerId c"
  by (auto simp: blob_cmds_def dest: in_tcp_cmds split: option.splits)

lemma in_each_client: "cmd \<in> set (each_client cs f) \<longleftrightarrow> (\<exists>kc\<in>set cs. cmd \<in> set (f (fst kc) (snd kc)))"
  by (auto simp: each_client_def)

end
