(* ===== verification/Invariant.thy ===== *)
theory Invariant
  imports Outputs
begin

text \<open>
  The invariant of the server runtime and its preservation by every operation of
  \<^verbatim>\<open>server/src/handlers.cpp\<close>. \<open>core_inv\<close> is kept by each step inside a handler; \<open>conns_inv\<close> (every TCP
  connection has one owner) is broken while a connection moves from the pending list to a client
  and holds again when the event has been handled.
\<close>

subsection \<open>The invariant\<close>

definition pose_ok :: "client \<Rightarrow> bool" where
  "pose_ok c \<longleftrightarrow> (cl_havePose c \<longrightarrow> pp_peerId (cl_lastPose c) = cl_peerId c \<and>
     pp_header (cl_lastPose c) = fill_header (sizeof_msg PlayerPose) PlayerPose)"

definition client_ok :: "client \<Rightarrow> bool" where
  "client_ok c \<longleftrightarrow> player_key_ok (cl_playerKey c) \<and> cl_udpToken c \<noteq> 0 \<and> cl_peerId c \<noteq> 0 \<and> pose_ok c"

text \<open>No two entries of the map share the value of \<open>g\<close>.\<close>

definition uniq_on :: "('v \<Rightarrow> 'b) \<Rightarrow> ('k, 'v) umap \<Rightarrow> bool" where
  "uniq_on g m \<longleftrightarrow> (\<forall>x\<in>set m. \<forall>y\<in>set m. g (snd x) = g (snd y) \<longrightarrow> fst x = fst y)"

definition clients_inv :: "clients \<Rightarrow> u32 \<Rightarrow> string set \<Rightarrow> bool" where
  "clients_inv cs nextPeer known \<longleftrightarrow>
     clients_keyed cs \<and> nextPeer \<noteq> 0 \<and>
     (\<forall>kc\<in>set cs. client_ok (snd kc) \<and> fst kc < nextPeer \<and> cl_playerKey (snd kc) \<in> known) \<and>
     uniq_on cl_playerKey cs"

definition udp_inv :: "(string, u32) umap \<Rightarrow> clients \<Rightarrow> bool" where
  "udp_inv m cs \<longleftrightarrow>
     (\<forall>a p. um_find a m = Some p \<longrightarrow>
        (\<exists>c. um_find p cs = Some c \<and> cl_udpBound c \<and> addr_key (cl_udpAddr c) = a))"

definition asm_inv :: "(u32, blob_assembly) umap \<Rightarrow> bool" where
  "asm_inv m \<longleftrightarrow> um_ok m \<and> (\<forall>ka\<in>set m. assembly_wf (snd ka))"

definition queue_inv :: "'a AsyncQueue option \<Rightarrow> bool" where
  "queue_inv q \<longleftrightarrow> (case q of None \<Rightarrow> True | Some q \<Rightarrow> aq_ok q)"

definition conns_inv :: "pending_tcp list \<Rightarrow> clients \<Rightarrow> bool" where
  "conns_inv ps cs \<longleftrightarrow>
     distinct (map pt_connId ps) \<and> 0 \<notin> pt_connId ` set ps \<and>
     (\<forall>kc\<in>set cs. cl_connId (snd kc) \<noteq> 0 \<and> cl_connId (snd kc) \<notin> pt_connId ` set ps) \<and>
     uniq_on cl_connId cs"

definition core_inv :: "server_runtime \<Rightarrow> bool" where
  "core_inv r \<longleftrightarrow>
     clients_inv (rt_clients r) (rt_nextPeer r) (fst ` set (rt_players r)) \<and>
     host_ok (rt_clients r) (rt_world r) \<and>
     udp_inv (rt_udpPeerByAddr r) (rt_clients r) \<and>
     asm_inv (rt_appearAsm r) \<and> asm_inv (rt_invAsm r) \<and>
     queue_inv (rt_outbound r) \<and> queue_inv (rt_persist r)"

definition runtime_inv :: "server_runtime \<Rightarrow> bool" where
  "runtime_inv r \<longleftrightarrow> core_inv r \<and> conns_inv (rt_pendingTcp r) (rt_clients r)"

lemma uniq_onD: "uniq_on g m \<Longrightarrow> (k, v) \<in> set m \<Longrightarrow> (k', v') \<in> set m \<Longrightarrow> g v = g v' \<Longrightarrow> k = k'"
  unfolding uniq_on_def by fastforce

lemma uniq_onI:
  "(\<And>k v k' v'. (k, v) \<in> set m \<Longrightarrow> (k', v') \<in> set m \<Longrightarrow> g v = g v' \<Longrightarrow> k = k') \<Longrightarrow> uniq_on g m"
  unfolding uniq_on_def by (metis prod.collapse)

lemma uniq_on_subset: "uniq_on g m \<Longrightarrow> set m' \<subseteq> set m \<Longrightarrow> uniq_on g m'"
  unfolding uniq_on_def by blast

subsection \<open>Frame\<close>

lemma clients_inv_mono: "clients_inv cs n known \<Longrightarrow> known \<subseteq> known' \<Longrightarrow> clients_inv cs n known'"
  unfolding clients_inv_def by blast

lemma core_inv_frame:
  assumes "core_inv r" and "rt_clients r' = rt_clients r" and "rt_nextPeer r' = rt_nextPeer r"
    and "fst ` set (rt_players r) \<subseteq> fst ` set (rt_players r')"
    and "wo_hostPeerId (rt_world r') = wo_hostPeerId (rt_world r)"
    and "rt_udpPeerByAddr r' = rt_udpPeerByAddr r"
    and "rt_appearAsm r' = rt_appearAsm r" and "rt_invAsm r' = rt_invAsm r"
    and "queue_inv (rt_outbound r) \<Longrightarrow> queue_inv (rt_outbound r')"
    and "queue_inv (rt_persist r) \<Longrightarrow> queue_inv (rt_persist r')"
  shows "core_inv r'"
proof -
  have "clients_inv (rt_clients r) (rt_nextPeer r) (fst ` set (rt_players r'))"
    using assms(1,4) by (auto simp: core_inv_def intro: clients_inv_mono)
  with assms show ?thesis by (simp add: core_inv_def host_ok_def)
qed

lemma queue_inv_push_all: "queue_inv q \<Longrightarrow> queue_inv (map_option (\<lambda>q. aq_push_all q cs) q)"
  by (cases q) (auto simp: queue_inv_def dest: aq_push_all_items)

lemma queue_inv_push: "queue_inv q \<Longrightarrow> queue_inv (map_option (\<lambda>q. snd (aq_push q x)) q)"
  by (cases q) (auto simp: queue_inv_def async.push_ok)

lemma core_inv_out [simp, intro]: "core_inv r \<Longrightarrow> core_inv (out_cmds r cs)"
  by (erule core_inv_frame) (simp_all add: queue_inv_push_all)

lemma core_inv_keyed: "core_inv r \<Longrightarrow> clients_keyed (rt_clients r)"
  by (simp add: core_inv_def clients_inv_def)

lemma core_inv_um_ok: "core_inv r \<Longrightarrow> um_ok (rt_clients r)"
  using core_inv_keyed by (simp add: clients_keyed_def)

lemma core_inv_client:
  assumes "core_inv r" and "um_find k (rt_clients r) = Some c"
  shows "client_ok c" and "cl_peerId c = k" and "k \<noteq> 0" and "k < rt_nextPeer r"
    and "cl_playerKey c \<in> fst ` set (rt_players r)"
proof -
  from assms have m: "(k, c) \<in> set (rt_clients r)" by (simp add: um_find_SomeD)
  have i: "clients_inv (rt_clients r) (rt_nextPeer r) (fst ` set (rt_players r))"
    using assms(1) by (simp add: core_inv_def)
  from i have "\<forall>kc\<in>set (rt_clients r). client_ok (snd kc) \<and> fst kc < rt_nextPeer r \<and>
      cl_playerKey (snd kc) \<in> fst ` set (rt_players r)" by (simp add: clients_inv_def)
  from bspec [OF this m] show "client_ok c" "k < rt_nextPeer r" "cl_playerKey c \<in> fst ` set (rt_players r)"
    by simp_all
  from i have "\<forall>kc\<in>set (rt_clients r). cl_peerId (snd kc) = fst kc" by (simp add: clients_inv_def clients_keyed_def)
  from bspec [OF this m] show "cl_peerId c = k" by simp
  with \<open>client_ok c\<close> show "k \<noteq> 0" by (auto simp: client_ok_def)
qed

lemma core_inv_world [intro]:
  "core_inv r \<Longrightarrow> wo_hostPeerId w = wo_hostPeerId (rt_world r) \<Longrightarrow> core_inv (r\<lparr>rt_world := w\<rparr>)"
  by (erule core_inv_frame) simp_all

lemma core_inv_put_player [intro]:
  "core_inv r \<Longrightarrow> core_inv (r\<lparr>rt_players := um_put k p (rt_players r)\<rparr>)"
  by (erule core_inv_frame) (auto simp: amap)

lemma core_inv_enqueue [intro]: "core_inv r \<Longrightarrow> core_inv (enqueue r job)"
  unfolding enqueue_def by (erule core_inv_frame) (simp_all add: queue_inv_push)

text \<open>Fields the invariant does not mention.\<close>

lemma core_inv_misc [simp]:
  "core_inv (r\<lparr>rt_worldDirty := b\<rparr>) = core_inv r" "core_inv (r\<lparr>rt_dirtyPlayers := d\<rparr>) = core_inv r"
  "core_inv (r\<lparr>rt_token := tk\<rparr>) = core_inv r" "core_inv (r\<lparr>rt_sessionModHash := h\<rparr>) = core_inv r"
  "core_inv (r\<lparr>rt_queryRates := q\<rparr>) = core_inv r" "core_inv (r\<lparr>rt_helloRates := q\<rparr>) = core_inv r"
  "core_inv (r\<lparr>rt_hitRates := q\<rparr>) = core_inv r" "core_inv (r\<lparr>rt_poseRates := q\<rparr>) = core_inv r"
  "core_inv (r\<lparr>rt_chatRates := q\<rparr>) = core_inv r" "core_inv (r\<lparr>rt_blobRates := q\<rparr>) = core_inv r"
  "core_inv (r\<lparr>rt_datagrams := n\<rparr>) = core_inv r" "core_inv (r\<lparr>rt_badHeaders := n\<rparr>) = core_inv r"
  "core_inv (r\<lparr>rt_removePeers := l\<rparr>) = core_inv r" "core_inv (r\<lparr>rt_keepTcpPeers := l\<rparr>) = core_inv r"
  "core_inv (r\<lparr>rt_pendingTcp := ps\<rparr>) = core_inv r" "core_inv (r\<lparr>rt_cfg := c\<rparr>) = core_inv r"
  "core_inv (r\<lparr>rt_bannedKeys := bk\<rparr>) = core_inv r"
  by (simp_all add: core_inv_def)

lemma core_inv_flush [intro]: "core_inv r \<Longrightarrow> core_inv (flush_dirty_async r)"
  by (auto simp: flush_dirty_async_def Let_def)

lemma core_inv_bans [intro]: "core_inv r \<Longrightarrow> core_inv (persist_bans_async r)"
  by (auto simp: persist_bans_async_def)

subsection \<open>Updating one client\<close>

lemma set_um_upd: "x \<in> set (um_upd k f m) \<Longrightarrow>
    (x \<in> set m \<and> fst x \<noteq> k) \<or> (\<exists>v. (k, v) \<in> set m \<and> x = (k, f v))"
  by (auto simp: um_upd_def)

lemma um_upd_absent: "um_find k m = None \<Longrightarrow> um_upd k f m = m"
  unfolding um_find_None_iff um_upd_def by (induction m) auto

lemma um_erase_absent: "um_find k m = None \<Longrightarrow> um_erase k m = m"
  unfolding um_find_None_iff um_erase_def by (induction m) auto

lemma um_erase_upd [simp]: "um_erase k (um_upd k f m) = um_erase k m"
  by (induction m) (auto simp: um_erase_def um_upd_def)

text \<open>An update that keeps who the client is.\<close>

definition same_client :: "client \<Rightarrow> client \<Rightarrow> bool" where
  "same_client c c' \<longleftrightarrow> cl_peerId c' = cl_peerId c \<and> cl_playerKey c' = cl_playerKey c \<and> (client_ok c \<longrightarrow> client_ok c')"

lemma clients_inv_upd:
  assumes "clients_inv cs n known" and "\<And>c. um_find k cs = Some c \<Longrightarrow> same_client c (f c)"
  shows "clients_inv (um_upd k f cs) n known"
proof -
  from assms(1) have ok: "um_ok cs" by (simp add: clients_inv_def clients_keyed_def)
  have look: "um_find k cs = Some v" if "(k, v) \<in> set cs" for v using that ok by (simp add: um_find_Some_iff)
  have keep: "\<exists>c. (fst x, c) \<in> set cs \<and> same_client c (snd x)" if "x \<in> set (um_upd k f cs)" for x
    using set_um_upd [OF that] assms(2) look by (cases x) (fastforce simp: same_client_def)
  show ?thesis
    unfolding clients_inv_def clients_keyed_def
  proof (intro conjI ballI)
    show "um_ok (um_upd k f cs)" using ok by simp
    show "n \<noteq> 0" using assms(1) by (simp add: clients_inv_def)
  next
    fix x assume "x \<in> set (um_upd k f cs)"
    from keep [OF this] obtain c where c: "(fst x, c) \<in> set cs" "same_client c (snd x)" by blast
    from assms(1) have i: "\<forall>kc\<in>set cs. cl_peerId (snd kc) = fst kc \<and> client_ok (snd kc) \<and> fst kc < n \<and>
        cl_playerKey (snd kc) \<in> known" by (simp add: clients_inv_def clients_keyed_def)
    from bspec [OF i c(1)] c(2)
    show "cl_peerId (snd x) = fst x" "client_ok (snd x)" "fst x < n" "cl_playerKey (snd x) \<in> known"
      by (simp_all add: same_client_def)
  next
    have u: "uniq_on cl_playerKey cs" using assms(1) by (simp add: clients_inv_def)
    show "uniq_on cl_playerKey (um_upd k f cs)"
    proof (rule uniq_onI)
      fix k1 v1 k2 v2
      assume xy: "(k1, v1) \<in> set (um_upd k f cs)" "(k2, v2) \<in> set (um_upd k f cs)"
        and eq: "cl_playerKey v1 = cl_playerKey v2"
      from keep [OF xy(1)] keep [OF xy(2)] obtain c d where "(k1, c) \<in> set cs" "same_client c v1"
        "(k2, d) \<in> set cs" "same_client d v2" by auto
      with uniq_onD [OF u, of k1 c k2 d] eq show "k1 = k2" by (simp add: same_client_def)
    qed
  qed
qed

lemma host_ok_keys: "fst ` set cs' = fst ` set cs \<Longrightarrow> host_ok cs' w = host_ok cs w"
  by (auto simp: host_ok_def)

lemma core_inv_upd_udp:
  assumes "core_inv r" and "\<And>c. um_find k (rt_clients r) = Some c \<Longrightarrow> same_client c (f c)"
    and "udp_inv m (um_upd k f (rt_clients r))"
  shows "core_inv (upd_client (r\<lparr>rt_udpPeerByAddr := m\<rparr>) k f)"
  using assms clients_inv_upd [of "rt_clients r" "rt_nextPeer r" "fst ` set (rt_players r)" k f]
  by (auto simp: core_inv_def upd_client_def host_ok_keys [OF keys_um_upd])

lemma udp_inv_upd:
  assumes "udp_inv m cs"
    and "\<And>c. um_find k cs = Some c \<Longrightarrow> cl_udpBound (f c) = cl_udpBound c \<and> cl_udpAddr (f c) = cl_udpAddr c"
  shows "udp_inv m (um_upd k f cs)"
  using assms by (fastforce simp: udp_inv_def amap)

lemma core_inv_upd:
  assumes "core_inv r" and "\<And>c. um_find k (rt_clients r) = Some c \<Longrightarrow> same_client c (f c) \<and>
     cl_udpBound (f c) = cl_udpBound c \<and> cl_udpAddr (f c) = cl_udpAddr c"
  shows "core_inv (upd_client r k f)"
proof -
  have "udp_inv (rt_udpPeerByAddr r) (um_upd k f (rt_clients r))"
    using assms by (intro udp_inv_upd) (auto simp: core_inv_def)
  from core_inv_upd_udp [OF assms(1) _ this] assms(2) show ?thesis by simp
qed

lemma core_inv_unbind [intro]: "core_inv r \<Longrightarrow> core_inv (unbind_udp r k)"
proof -
  assume inv: "core_inv r"
  show ?thesis
  proof (cases "um_find k (rt_clients r)")
    case (Some c)
    show ?thesis
    proof (cases "cl_udpBound c")
      case True
      let ?f = "\<lambda>c. c\<lparr>cl_udpBound := False, cl_udpAddr := sockaddr_zero\<rparr>"
      have "udp_inv (um_erase (addr_key (cl_udpAddr c)) (rt_udpPeerByAddr r)) (um_upd k ?f (rt_clients r))"
        unfolding udp_inv_def
      proof (intro allI impI)
        fix a p
        assume "um_find a (um_erase (addr_key (cl_udpAddr c)) (rt_udpPeerByAddr r)) = Some p"
        then have a: "a \<noteq> addr_key (cl_udpAddr c)" "um_find a (rt_udpPeerByAddr r) = Some p"
          by (auto simp: amap split: if_splits)
        with inv obtain d where d: "um_find p (rt_clients r) = Some d" "cl_udpBound d" "addr_key (cl_udpAddr d) = a"
          by (auto simp: core_inv_def udp_inv_def)
        with a Some have "p \<noteq> k" by auto
        with d show "\<exists>d. um_find p (um_upd k ?f (rt_clients r)) = Some d \<and> cl_udpBound d \<and> addr_key (cl_udpAddr d) = a"
          by (auto simp: amap)
      qed
      from core_inv_upd_udp [OF inv _ this] have "core_inv (upd_client
          (r\<lparr>rt_udpPeerByAddr := um_erase (addr_key (cl_udpAddr c)) (rt_udpPeerByAddr r)\<rparr>) k ?f)"
        by (simp add: same_client_def client_ok_def pose_ok_def)
      with Some True show ?thesis by (simp add: unbind_udp_def)
    qed (use inv Some in \<open>simp add: unbind_udp_def\<close>)
  qed (use inv in \<open>simp add: unbind_udp_def\<close>)
qed

subsection \<open>Removing a client\<close>

lemma unbind_out [simp]: "unbind_udp (out_cmds r cs) k = out_cmds (unbind_udp r k) cs"
  by (simp add: unbind_udp_def upd_client_def out_cmds_def split: option.split)

lemma unbind_upd [simp]:
  "unbind_udp (r\<lparr>rt_dirtyPlayers := d\<rparr>) k = (unbind_udp r k)\<lparr>rt_dirtyPlayers := d\<rparr>"
  "unbind_udp (r\<lparr>rt_world := w\<rparr>) k = (unbind_udp r k)\<lparr>rt_world := w\<rparr>"
  by (simp_all add: unbind_udp_def upd_client_def split: option.split)

lemma unbind_frame [simp]:
  "rt_cfg (unbind_udp r k) = rt_cfg r" "rt_world (unbind_udp r k) = rt_world r"
  "rt_players (unbind_udp r k) = rt_players r" "rt_pendingTcp (unbind_udp r k) = rt_pendingTcp r"
  "rt_dirtyPlayers (unbind_udp r k) = rt_dirtyPlayers r" "rt_outbound (unbind_udp r k) = rt_outbound r"
  "rt_persist (unbind_udp r k) = rt_persist r" "rt_token (unbind_udp r k) = rt_token r"
  "rt_worldDirty (unbind_udp r k) = rt_worldDirty r" "rt_nextPeer (unbind_udp r k) = rt_nextPeer r"
  "rt_removePeers (unbind_udp r k) = rt_removePeers r" "rt_keepTcpPeers (unbind_udp r k) = rt_keepTcpPeers r"
  "rt_sessionModHash (unbind_udp r k) = rt_sessionModHash r"
  "rt_bannedKeys (unbind_udp r k) = rt_bannedKeys r"
  "um_erase k (rt_clients (unbind_udp r k)) = um_erase k (rt_clients r)"
  "fst ` set (rt_clients (unbind_udp r k)) = fst ` set (rt_clients r)"
  "length (rt_clients (unbind_udp r k)) = length (rt_clients r)"
  by (auto simp: unbind_udp_def upd_client_def keys_um_upd split: option.split)

definition host_gone :: "session_world \<Rightarrow> u32 \<Rightarrow> session_world" where
  "host_gone w peerId = (if peerId = wo_hostPeerId w then w\<lparr>wo_hostPeerId := 0\<rparr> else w)"

text \<open>The state and the commands of a removal, before dirty records are flushed.\<close>

definition removed_state :: "server_runtime \<Rightarrow> u32 \<Rightarrow> client \<Rightarrow> bool \<Rightarrow> f64 \<Rightarrow> server_runtime" where
  "removed_state r k c keepTcp now =
     (unbind_udp r k)
       \<lparr>rt_dirtyPlayers := (if um_find (cl_playerKey c) (rt_players r) = None then rt_dirtyPlayers r
                            else us_insert (cl_playerKey c) (rt_dirtyPlayers r)),
        rt_pendingTcp := rt_pendingTcp r @
          (if keepTcp \<and> cl_connId c \<noteq> 0
           then [\<lparr>pt_connId = cl_connId c, pt_addr = cl_tcpAddr c, pt_connectedAt = now\<rparr>] else []),
        rt_clients := um_erase k (rt_clients r),
        rt_world := snd (find_host (um_erase k (rt_clients r)) (host_gone (rt_world r) (cl_peerId c)))\<rparr>"

definition remove_cmds :: "server_runtime \<Rightarrow> u32 \<Rightarrow> client \<Rightarrow> bool \<Rightarrow> outbound_cmd list" where
  "remove_cmds r k c keepTcp =
     each_client (rt_clients r) (\<lambda>oid other.
       if oid \<noteq> k then tcp_cmds other (enc_bye (make_bye (cl_peerId c))) else []) @
     (if keepTcp \<and> cl_connId c \<noteq> 0 then [(outbound_default KeepPending)\<lparr>oc_peerId := k\<rparr>]
      else close_cmds (cl_connId c))"

lemma close_cmds_0 [simp]: "close_cmds 0 = []"
  by (simp add: close_cmds_def)

lemma pending_same: "rt_pendingTcp r = ps \<Longrightarrow> r\<lparr>rt_pendingTcp := ps\<rparr> = r"
  by (cases r) simp

lemma remove_client_eq:
  assumes "um_find k (rt_clients r) = Some c"
  shows "remove_client r k keepTcp now =
    flush_dirty_async (out_cmds (removed_state r k c keepTcp now) (remove_cmds r k c keepTcp))"
proof -
  define d where "d = (if um_find (cl_playerKey c) (rt_players r) = None then rt_dirtyPlayers r
                       else us_insert (cl_playerKey c) (rt_dirtyPlayers r))"
  define r2 where "r2 = r\<lparr>rt_dirtyPlayers := d, rt_world := host_gone (rt_world r) (cl_peerId c)\<rparr>"
  have r2: "(if cl_peerId c = wo_hostPeerId (rt_world (case um_find (cl_playerKey c) (rt_players r) of
        Some x \<Rightarrow> r\<lparr>rt_dirtyPlayers := us_insert (cl_playerKey c) (rt_dirtyPlayers r)\<rparr> | None \<Rightarrow> r))
      then (case um_find (cl_playerKey c) (rt_players r) of
        Some x \<Rightarrow> r\<lparr>rt_dirtyPlayers := us_insert (cl_playerKey c) (rt_dirtyPlayers r)\<rparr> | None \<Rightarrow> r)
        \<lparr>rt_world := (rt_world (case um_find (cl_playerKey c) (rt_players r) of
          Some x \<Rightarrow> r\<lparr>rt_dirtyPlayers := us_insert (cl_playerKey c) (rt_dirtyPlayers r)\<rparr> | None \<Rightarrow> r))
          \<lparr>wo_hostPeerId := 0\<rparr>\<rparr>
      else (case um_find (cl_playerKey c) (rt_players r) of
        Some x \<Rightarrow> r\<lparr>rt_dirtyPlayers := us_insert (cl_playerKey c) (rt_dirtyPlayers r)\<rparr> | None \<Rightarrow> r)) = r2"
    by (cases r) (auto simp: r2_def d_def host_gone_def split: option.split)
  have cl: "rt_clients r2 = rt_clients r" "rt_pendingTcp r2 = rt_pendingTcp r" by (simp_all add: r2_def)
  show ?thesis
    unfolding remove_client_def assms option.case Let_def r2
    by (auto simp: sends keep_pending_def removed_state_def remove_cmds_def cl d_def [symmetric] Let_def)
      (simp_all add: r2_def pending_same)
qed

lemma remove_client_none: "um_find k (rt_clients r) = None \<Longrightarrow> remove_client r k keepTcp now = r"
  by (simp add: remove_client_def)

lemma flush_frame [simp]:
  "rt_clients (flush_dirty_async r) = rt_clients r" "rt_world (flush_dirty_async r) = rt_world r"
  "rt_pendingTcp (flush_dirty_async r) = rt_pendingTcp r" "rt_outbound (flush_dirty_async r) = rt_outbound r"
  "rt_nextPeer (flush_dirty_async r) = rt_nextPeer r" "rt_players (flush_dirty_async r) = rt_players r"
  "rt_cfg (flush_dirty_async r) = rt_cfg r" "rt_keepTcpPeers (flush_dirty_async r) = rt_keepTcpPeers r"
  "rt_removePeers (flush_dirty_async r) = rt_removePeers r"
  "rt_udpPeerByAddr (flush_dirty_async r) = rt_udpPeerByAddr r"
  by (simp_all add: flush_dirty_async_def enqueue_def Let_def)

lemma remove_client_clients [simp]:
  "rt_clients (remove_client r k keepTcp now) = um_erase k (rt_clients r)"
  by (cases "um_find k (rt_clients r)")
     (simp_all add: remove_client_none um_erase_absent remove_client_eq removed_state_def)

lemma remove_client_frame [simp]:
  "rt_nextPeer (remove_client r k keepTcp now) = rt_nextPeer r"
  "rt_cfg (remove_client r k keepTcp now) = rt_cfg r"
  "rt_keepTcpPeers (remove_client r k keepTcp now) = rt_keepTcpPeers r"
  by (cases "um_find k (rt_clients r)"; simp add: remove_client_none remove_client_eq removed_state_def)+

lemma remove_client_pending:
  "um_find k (rt_clients r) = Some c \<Longrightarrow> rt_pendingTcp (remove_client r k keepTcp now) =
     rt_pendingTcp r @ (if keepTcp \<and> cl_connId c \<noteq> 0
       then [\<lparr>pt_connId = cl_connId c, pt_addr = cl_tcpAddr c, pt_connectedAt = now\<rparr>] else [])"
  by (simp add: remove_client_eq removed_state_def)

text \<open>After unbinding, no address leads to the client any more.\<close>

lemma udp_inv_unbound:
  assumes "core_inv r" and "um_find a (rt_udpPeerByAddr (unbind_udp r k)) = Some p"
  shows "p \<noteq> k"
proof -
  have "core_inv (unbind_udp r k)" using assms(1) by blast
  then obtain d where d: "um_find p (rt_clients (unbind_udp r k)) = Some d" "cl_udpBound d"
    using assms(2) by (auto simp: core_inv_def udp_inv_def)
  moreover have "\<not> cl_udpBound d" if "um_find k (rt_clients (unbind_udp r k)) = Some d" for d
    using that by (auto simp: unbind_udp_def upd_client_def amap split: option.splits if_splits)
  ultimately show ?thesis by auto
qed

lemma clients_inv_subset:
  assumes "clients_inv cs n known" and "set cs' \<subseteq> set cs" and "um_ok cs'"
  shows "clients_inv cs' n known"
  using assms uniq_on_subset [of cl_playerKey cs cs'] by (auto simp: clients_inv_def clients_keyed_def)

lemma core_inv_removed:
  assumes inv: "core_inv r" and "um_find k (rt_clients r) = Some c"
  shows "core_inv (removed_state r k c keepTcp now)"
proof -
  have u: "core_inv (unbind_udp r k)" using inv by blast
  have k: "clients_keyed (um_erase k (rt_clients r))"
    using core_inv_keyed [OF inv] by (auto simp: clients_keyed_def set_um_erase)
  have "udp_inv (rt_udpPeerByAddr (unbind_udp r k)) (um_erase k (rt_clients (unbind_udp r k)))"
    unfolding udp_inv_def
  proof (intro allI impI)
    fix a p assume a: "um_find a (rt_udpPeerByAddr (unbind_udp r k)) = Some p"
    from u have "udp_inv (rt_udpPeerByAddr (unbind_udp r k)) (rt_clients (unbind_udp r k))"
      by (simp add: core_inv_def)
    with a udp_inv_unbound [OF inv a] show "\<exists>d. um_find p (um_erase k (rt_clients (unbind_udp r k))) = Some d \<and>
        cl_udpBound d \<and> addr_key (cl_udpAddr d) = a"
      unfolding udp_inv_def um_find_erase by auto
  qed
  moreover have "clients_inv (um_erase k (rt_clients r)) (rt_nextPeer r) (fst ` set (rt_players r))"
  proof (rule clients_inv_subset)
    show "clients_inv (rt_clients r) (rt_nextPeer r) (fst ` set (rt_players r))"
      using inv by (simp add: core_inv_def)
    show "set (um_erase k (rt_clients r)) \<subseteq> set (rt_clients r)" by (auto simp: set_um_erase)
    show "um_ok (um_erase k (rt_clients r))" using core_inv_um_ok [OF inv] by simp
  qed
  moreover have "host_ok (um_erase k (rt_clients r))
      (snd (find_host (um_erase k (rt_clients r)) (host_gone (rt_world r) (cl_peerId c))))"
    by (rule find_host_ok(1) [OF k])
  ultimately show ?thesis
    using u by (simp add: core_inv_def removed_state_def)
qed

lemma core_inv_remove [intro]: "core_inv r \<Longrightarrow> core_inv (remove_client r k keepTcp now)"
  by (cases "um_find k (rt_clients r)")
     (auto simp: remove_client_none remove_client_eq intro: core_inv_removed)

subsection \<open>Handlers of a client's messages\<close>

text \<open>Which connection each client has; most handlers leave it and the pending list alone.\<close>

definition conn_view :: "clients \<Rightarrow> (u32 \<times> u64) list" where
  "conn_view cs = map (\<lambda>kc. (fst kc, cl_connId (snd kc))) cs"

definition quiet :: "server_runtime \<Rightarrow> server_runtime \<Rightarrow> bool" where
  "quiet r r' \<longleftrightarrow> rt_pendingTcp r' = rt_pendingTcp r \<and> conn_view (rt_clients r') = conn_view (rt_clients r)"

lemma quiet_refl [simp]: "quiet r r"
  by (simp add: quiet_def)

lemma quiet_trans: "quiet r r' \<Longrightarrow> quiet r' r'' \<Longrightarrow> quiet r r''"
  by (simp add: quiet_def)

lemma conn_view_upd:
  "(\<And>c. cl_connId (f c) = cl_connId c) \<Longrightarrow> conn_view (um_upd k f cs) = conn_view cs"
  by (simp add: conn_view_def um_upd_def)

lemma quiet_fields:
  "rt_pendingTcp r' = rt_pendingTcp r \<Longrightarrow> rt_clients r' = rt_clients r \<Longrightarrow> quiet r r'"
  by (simp add: quiet_def)

lemma quiet_upd: "(\<And>c. cl_connId (f c) = cl_connId c) \<Longrightarrow> quiet r (upd_client r k f)"
  by (simp add: quiet_def upd_client_def conn_view_upd)

lemma quiet_unbind: "quiet r (unbind_udp r k)"
  by (auto simp: unbind_udp_def quiet_def upd_client_def conn_view_upd split: option.split)

lemma quiet_length: "quiet r r' \<Longrightarrow> length (rt_clients r') = length (rt_clients r)"
  unfolding quiet_def conn_view_def by (drule conjunct2, drule arg_cong [where f = length]) simp

lemma keys_conn_view: "fst ` set (conn_view cs) = fst ` set cs"
  by (simp add: conn_view_def image_image)

lemma quiet_keys: "quiet r r' \<Longrightarrow> fst ` set (rt_clients r') = fst ` set (rt_clients r)"
  unfolding quiet_def keys_conn_view [symmetric, of "rt_clients r'"] keys_conn_view [symmetric, of "rt_clients r"]
  by (elim conjE, erule arg_cong)

lemma conns_inv_view:
  "conns_inv ps cs \<longleftrightarrow> distinct (map pt_connId ps) \<and> 0 \<notin> pt_connId ` set ps \<and>
     (\<forall>v\<in>set (conn_view cs). snd v \<noteq> 0 \<and> snd v \<notin> pt_connId ` set ps) \<and> uniq_on id (conn_view cs)"
  by (auto simp: conns_inv_def conn_view_def uniq_on_def)

lemma conns_inv_quiet: "quiet r r' \<Longrightarrow> conns_inv (rt_pendingTcp r') (rt_clients r') = conns_inv (rt_pendingTcp r) (rt_clients r)"
  by (simp add: conns_inv_view quiet_def)

lemma asm_inv_put: "asm_inv m \<Longrightarrow> assembly_wf a \<Longrightarrow> asm_inv (um_put k a m)"
proof -
  assume "asm_inv m" "assembly_wf a"
  moreover have "x \<in> set (um_put k a m) \<Longrightarrow> x \<in> set m \<or> snd x = a" for x
    unfolding um_put_def by (induction m) (auto split: if_splits)
  ultimately show ?thesis by (auto simp: asm_inv_def)
qed

lemma asm_inv_erase: "asm_inv m \<Longrightarrow> asm_inv (um_erase k m)"
  by (auto simp: asm_inv_def set_um_erase)

lemma asm_at_wf: "asm_inv m \<Longrightarrow> assembly_wf (asm_at m k)"
  by (auto simp: asm_inv_def asm_at_def dest!: um_find_SomeD split: option.splits)

lemma take_blob_wf: "assembly_wf a \<Longrightarrow> assembly_wf (snd (take_blob a buf now))"
  using assemble_keeps_wf [of a buf now] by (cases "assemble_blob_chunk a buf now") (simp add: take_blob_def)

lemma core_inv_asms:
  assumes "core_inv r" and "asm_inv (asms_of r ty) \<Longrightarrow> asm_inv m"
  shows "core_inv (set_asms r ty m)" and "quiet r (set_asms r ty m)"
  using assms by (auto simp: core_inv_def set_asms_def asms_of_def quiet_def)

lemma core_inv_blob_done:
  assumes "core_inv r"
  shows "core_inv (blob_done r k c ty blob)" and "quiet r (blob_done r k c ty blob)"
proof -
  let ?f = "\<lambda>c. if ty = AppearanceChunk then c\<lparr>cl_appearance := blob\<rparr> else c\<lparr>cl_inventory := blob\<rparr>"
  let ?p = "\<lambda>rec'. r\<lparr>rt_players := um_put (cl_playerKey c) rec' (rt_players r)\<rparr>"
  have "core_inv (upd_client (?p rec') k ?f)" for rec'
    using assms by (intro core_inv_upd core_inv_put_player) (auto simp: same_client_def client_ok_def pose_ok_def)
  then show "core_inv (blob_done r k c ty blob)" by (simp add: blob_done_def Let_def sends)
  have "quiet (?p rec') (upd_client (?p rec') k ?f)" for rec' by (rule quiet_upd) simp
  then show "quiet r (blob_done r k c ty blob)" by (simp add: blob_done_def Let_def sends quiet_def)
qed

lemma core_inv_tcp_blob:
  assumes inv: "core_inv r"
  shows "core_inv (tcp_blob r k c ty buf t now) \<and> quiet r (tcp_blob r k c ty buf t now)"
proof -
  let ?r1 = "r\<lparr>rt_blobRates := snd (allow_rate (rt_blobRates r) (show_u32 (cl_peerId c)) t 64)\<rparr>"
  let ?tb = "take_blob (asm_at (asms_of ?r1 ty) (cl_peerId c)) buf now"
  have r1: "core_inv ?r1" "quiet r ?r1" using inv by (simp_all add: quiet_def)
  have w: "asm_inv (asms_of ?r1 ty) \<Longrightarrow> assembly_wf (snd ?tb)"
    by (intro take_blob_wf asm_at_wf)
  have p: "core_inv (set_asms ?r1 ty (um_put (cl_peerId c) (snd ?tb) (asms_of ?r1 ty)))"
    "quiet ?r1 (set_asms ?r1 ty (um_put (cl_peerId c) (snd ?tb) (asms_of ?r1 ty)))"
    by (rule core_inv_asms [OF r1(1)]; use w in \<open>simp add: asm_inv_put\<close>)+
  have e: "core_inv (set_asms ?r1 ty (um_erase (cl_peerId c) (asms_of ?r1 ty)))"
    "quiet ?r1 (set_asms ?r1 ty (um_erase (cl_peerId c) (asms_of ?r1 ty)))"
    by (rule core_inv_asms [OF r1(1)]; simp add: asm_inv_erase)+
  show ?thesis
    using r1 p core_inv_blob_done [OF e(1)] quiet_trans [OF r1(2) p(2)]
      quiet_trans [OF r1(2) quiet_trans [OF e(2)]]
    by (simp add: tcp_blob_def Let_def split: option.split)
qed

lemma core_inv_hello_again:
  assumes inv: "core_inv r"
  shows "core_inv (tcp_hello_again r k c) \<and> quiet r (tcp_hello_again r k c)"
proof -
  let ?t = "make_udp_token (rt_token r)"
  let ?r1 = "upd_client (r\<lparr>rt_token := ?t\<rparr>) k (\<lambda>c. c\<lparr>cl_udpToken := ?t\<rparr>)"
  have r1: "core_inv ?r1" using inv
    by (intro core_inv_upd) (auto simp: same_client_def client_ok_def pose_ok_def)
  have "quiet (r\<lparr>rt_token := ?t\<rparr>) ?r1" by (rule quiet_upd) simp
  then have q: "quiet r (unbind_udp ?r1 k)" using quiet_unbind [of ?r1 k] by (simp add: quiet_def)
  have "core_inv (unbind_udp ?r1 k)" using r1 by blast
  then have "core_inv ((unbind_udp ?r1 k)\<lparr>rt_players := um_put (cl_playerKey c) rec (rt_players (unbind_udp ?r1 k))\<rparr>)" for rec
    by blast
  with q show ?thesis by (simp add: tcp_hello_again_def Let_def sends quiet_def)
qed

lemma core_inv_tcp_rest:
  assumes "core_inv r"
  shows "core_inv (tcp_bye r c) \<and> quiet r (tcp_bye r c)"
    and "core_inv (tcp_world_snapshot r c buf) \<and> quiet r (tcp_world_snapshot r c buf)"
    and "core_inv (tcp_heartbeat r c buf) \<and> quiet r (tcp_heartbeat r c buf)"
    and "core_inv (tcp_chat r c buf t) \<and> quiet r (tcp_chat r c buf t)"
    and "core_inv (tcp_kick r c buf) \<and> quiet r (tcp_kick r c buf)"
    and "core_inv (tcp_teleport r c buf) \<and> quiet r (tcp_teleport r c buf)"
    and "core_inv (tcp_hit r c buf t) \<and> quiet r (tcp_hit r c buf t)"
  using assms
  by (auto simp: tcp_bye_def tcp_world_snapshot_def tcp_heartbeat_def tcp_chat_out tcp_kick_def
      tcp_teleport_def tcp_hit_out sends Let_def quiet_def)

lemma core_inv_dispatch:
  assumes "core_inv r"
  shows "core_inv (tcp_dispatch r k c ty buf t now) \<and> quiet r (tcp_dispatch r k c ty buf t now)"
  using core_inv_tcp_rest [OF assms] core_inv_tcp_blob [OF assms] core_inv_hello_again [OF assms] assms
  by (simp add: tcp_dispatch_def Let_def)

lemma core_inv_seen:
  assumes "core_inv r"
  shows "core_inv (upd_client r k (\<lambda>c. c\<lparr>cl_lastSeen := t\<rparr>))" and "quiet r (upd_client r k (\<lambda>c. c\<lparr>cl_lastSeen := t\<rparr>))"
proof -
  show "core_inv (upd_client r k (\<lambda>c. c\<lparr>cl_lastSeen := t\<rparr>))"
    using assms by (intro core_inv_upd) (auto simp: same_client_def client_ok_def pose_ok_def)
  show "quiet r (upd_client r k (\<lambda>c. c\<lparr>cl_lastSeen := t\<rparr>))" by (rule quiet_upd) simp
qed

lemma core_inv_tcp_message:
  assumes "core_inv r"
  shows "core_inv (handle_tcp_message r k buf t now) \<and> quiet r (handle_tcp_message r k buf t now)"
proof -
  have "core_inv (bad_header r) \<and> quiet r (bad_header r)" using assms by (simp add: bad_header_def quiet_def)
  moreover note s = core_inv_seen [OF assms, of k t]
  moreover note d = core_inv_dispatch [OF s(1)]
  moreover note quiet_trans [OF s(2)]
  ultimately show ?thesis
    using assms by (auto simp: handle_tcp_message_def Let_def split: option.split)
qed


subsection \<open>Datagrams\<close>

lemma core_inv_udp_bind:
  assumes inv: "core_inv r"
  shows "core_inv (udp_bind_msg r buf from' t) \<and> quiet r (udp_bind_msg r buf from' t)"
proof -
  define k where "k = ub_peerId (dec_udp_bind buf)"
  show ?thesis
  proof (cases "um_find k (rt_clients r)")
    case None
    with inv show ?thesis by (simp add: udp_bind_msg_def Let_def flip: k_def)
  next
    case (Some c)
    let ?f = "\<lambda>c. c\<lparr>cl_udpAddr := from', cl_udpBound := True, cl_lastSeen := t\<rparr>"
    let ?u = "unbind_udp r k"
    let ?m = "um_put (addr_key from') (cl_peerId c) (rt_udpPeerByAddr ?u)"
    have pk: "cl_peerId c = k" using core_inv_client [OF inv Some] by simp
    have u: "core_inv ?u" using inv by blast
    then have ui: "udp_inv (rt_udpPeerByAddr ?u) (rt_clients ?u)" by (simp add: core_inv_def)
    have "k \<in> fst ` set (rt_clients ?u)" using Some um_find_in_keys by fastforce
    then obtain d where d: "um_find k (rt_clients ?u) = Some d"
      using um_find_None_iff by fastforce
    have "udp_inv ?m (um_upd k ?f (rt_clients ?u))"
      unfolding udp_inv_def
    proof (intro allI impI)
      fix a p assume a: "um_find a ?m = Some p"
      show "\<exists>d. um_find p (um_upd k ?f (rt_clients ?u)) = Some d \<and> cl_udpBound d \<and> addr_key (cl_udpAddr d) = a"
      proof (cases "a = addr_key from'")
        case True
        with a pk d show ?thesis by (simp add: amap)
      next
        case False
        with a have p: "um_find a (rt_udpPeerByAddr ?u) = Some p" by (simp add: amap)
        with ui udp_inv_unbound [OF inv p] show ?thesis unfolding udp_inv_def um_find_upd by auto
      qed
    qed
    from core_inv_upd_udp [OF u _ this] have c3: "core_inv (upd_client (?u\<lparr>rt_udpPeerByAddr := ?m\<rparr>) k ?f)"
      by (simp add: same_client_def client_ok_def pose_ok_def)
    have q: "quiet r (upd_client (?u\<lparr>rt_udpPeerByAddr := ?m\<rparr>) k ?f)"
      using quiet_unbind [of r k] by (simp add: quiet_def upd_client_def conn_view_upd)
    have eq: "(upd_client ?u k ?f)\<lparr>rt_udpPeerByAddr := um_put (addr_key from') (cl_peerId c)
        (rt_udpPeerByAddr (upd_client ?u k ?f))\<rparr> = upd_client (?u\<lparr>rt_udpPeerByAddr := ?m\<rparr>) k ?f"
      by (simp add: upd_client_def)
    have out: "for_clients (\<lambda>r oid other. if oid = cl_peerId c \<or> \<not> cl_havePose other then r
        else send_udp r (?f c) (enc_player_pose (cl_lastPose other))) s =
      out_cmds s (each_client (rt_clients s) (\<lambda>oid other. if oid = cl_peerId c \<or> \<not> cl_havePose other then []
        else udp_cmds (?f c) (enc_player_pose (cl_lastPose other))))" for s
      by (rule for_clients_out) (simp add: sends)
    from inv c3 q show ?thesis
      unfolding udp_bind_msg_def Let_def k_def [symmetric] Some option.case eq out
      by (simp add: quiet_def)
  qed
qed

lemma pose_relay_ok: "client_ok c \<Longrightarrow> same_client c (posed_client c buf)"
  by (simp add: same_client_def client_ok_def pose_ok_def posed_client_def pose_relay_def)

lemma core_inv_posed:
  assumes "core_inv r" and "um_find k (rt_clients r) = Some c"
  shows "core_inv (posed_state r k c buf)" and "quiet r (posed_state r k c buf)"
proof -
  have "core_inv (upd_client r k (\<lambda>_. posed_client c buf))"
    using assms core_inv_client(1) [OF assms]
    by (intro core_inv_upd) (simp_all add: pose_relay_ok, simp_all add: posed_client_def)
  then show "core_inv (posed_state r k c buf)"
    by (rule core_inv_frame) (auto simp: posed_state_def upd_client_def Let_def pose_world_def amap)
  have "conn_view (um_upd k (\<lambda>_. posed_client c buf) (rt_clients r)) = conn_view (rt_clients r)"
  proof -
    have "(k, v) \<in> set (rt_clients r) \<Longrightarrow> v = c" for v
      using assms core_inv_um_ok [OF assms(1)] by (simp add: um_find_Some_iff [symmetric])
    then show ?thesis by (auto simp: conn_view_def um_upd_def posed_client_def)
  qed
  then show "quiet r (posed_state r k c buf)" by (simp add: posed_state_def quiet_def Let_def)
qed

lemma core_inv_udp_client:
  assumes "core_inv r"
  shows "core_inv (udp_from_client r k ty buf t) \<and> quiet r (udp_from_client r k ty buf t)"
proof -
  let ?r = "upd_client r k (\<lambda>c. c\<lparr>cl_lastSeen := t\<rparr>)"
  note s = core_inv_seen [OF assms, of k t]
  show ?thesis
  proof (cases "um_find k (rt_clients ?r)")
    case None
    with s show ?thesis by (simp add: udp_from_client_def Let_def)
  next
    case (Some c)
    let ?p = "?r\<lparr>rt_poseRates := snd (allow_rate (rt_poseRates ?r) (show_u32 (cl_peerId c)) t 30)\<rparr>"
    have "core_inv ?p" "um_find k (rt_clients ?p) = Some c" "quiet ?r ?p" using s Some by (simp_all add: quiet_def)
    note p = core_inv_posed [OF this(1,2), of buf] quiet_trans [OF s(2) this(3)]
    then have "core_inv (udp_player_pose ?r k c buf t) \<and> quiet r (udp_player_pose ?r k c buf t)"
      using \<open>core_inv ?p\<close> by (auto simp: udp_player_pose_out Let_def quiet_def)
    moreover have "core_inv (udp_actor_pose ?r c buf) \<and> quiet r (udp_actor_pose ?r c buf)"
      using s by (auto simp: udp_actor_pose_out quiet_def)
    ultimately show ?thesis using s Some by (simp add: udp_from_client_def Let_def)
  qed
qed

text \<open>The branch that drops a stale address is never taken.\<close>

lemma find_by_udp_live: "core_inv r \<Longrightarrow> snd (find_by_udp r a) = r"
proof -
  assume "core_inv r"
  then have "\<forall>a p. um_find a (rt_udpPeerByAddr r) = Some p \<longrightarrow> um_find p (rt_clients r) \<noteq> None"
    unfolding core_inv_def udp_inv_def by (metis option.distinct(1))
  then have "um_find (addr_key a) (rt_udpPeerByAddr r) = Some p \<Longrightarrow> um_find p (rt_clients r) \<noteq> None" for p
    by blast
  then show ?thesis by (cases "um_find (addr_key a) (rt_udpPeerByAddr r)") (auto simp: find_by_udp_def)
qed

lemma find_by_udp_bound:
  assumes "core_inv r" and "fst (find_by_udp r a) = Some k"
  shows "\<exists>c. um_find k (rt_clients r) = Some c \<and> cl_peerId c = k \<and> cl_udpBound c \<and> cl_udpAddr c = a"
proof -
  from assms(2) have "um_find (addr_key a) (rt_udpPeerByAddr r) = Some k"
    by (auto simp: find_by_udp_def split: option.splits)
  with assms(1) obtain c where "um_find k (rt_clients r) = Some c" "cl_udpBound c" "addr_key (cl_udpAddr c) = addr_key a"
    by (auto simp: core_inv_def udp_inv_def)
  with core_inv_client [OF assms(1) this(1)] show ?thesis by (auto simp: addr_key_inject)
qed

lemma core_inv_udp_packet:
  assumes "core_inv r"
  shows "core_inv (handle_udp_packet r buf from' t) \<and> quiet r (handle_udp_packet r buf from' t)"
proof -
  let ?r = "r\<lparr>rt_datagrams := rt_datagrams r + 1\<rparr>"
  have r: "core_inv ?r" "quiet r ?r" using assms by (simp_all add: quiet_def)
  have b: "core_inv (bad_header ?r) \<and> quiet r (bad_header ?r)" using r by (simp add: bad_header_def quiet_def)
  have f: "snd (find_by_udp ?r from') = ?r" using r by (simp add: find_by_udp_live)
  show ?thesis
    using r b core_inv_udp_bind [OF r(1), of buf from' t] core_inv_udp_client [OF r(1)]
      quiet_trans [OF r(2)]
    by (auto simp: handle_udp_packet_def Let_def f split: option.split)
qed

subsection \<open>Admission\<close>

lemma find_host_inv:
  assumes "core_inv r"
  shows "find_host (rt_clients r) (rt_world r) =
    (if rt_clients r = [] then None else Some (wo_hostPeerId (rt_world r)), rt_world r)"
proof (cases "rt_clients r = []")
  case True
  with assms show ?thesis by (simp add: find_host_def core_inv_def host_ok_def)
next
  case False
  with assms have "wo_hostPeerId (rt_world r) \<in> fst ` set (rt_clients r)" by (simp add: core_inv_def host_ok_def)
  with find_host_stays [OF core_inv_keyed [OF assms]] False show ?thesis by simp
qed

lemma same_world: "rt_world r = w \<Longrightarrow> r\<lparr>rt_world := w\<rparr> = r"
  by (cases r) simp

lemma core_inv_query: "core_inv r \<Longrightarrow> core_inv (pending_query r p t) \<and> quiet r (pending_query r p t)"
proof -
  assume "core_inv r"
  with find_host_inv [OF this] show ?thesis
    by (simp add: pending_query_def Let_def sends quiet_def same_world)
qed

lemma upd_client_out [simp]: "upd_client (out_cmds r cs) k f = out_cmds (upd_client r k f) cs"
  by (simp add: upd_client_def)

text \<open>The entry a soft reconnect leaves.\<close>

definition reconnected :: "pending_tcp \<Rightarrow> string \<Rightarrow> hello \<Rightarrow> player_rec \<Rightarrow> f64 \<Rightarrow> u32 \<Rightarrow> client \<Rightarrow> client" where
  "reconnected p pkey h rec t token c = c
     \<lparr>cl_connId := pt_connId p, cl_tcpAddr := pt_addr p, cl_lastSeen := t, cl_playerKey := pkey,
      cl_name := (if c_str (he_name h) \<noteq> [] then c_str (he_name h) else cl_name c),
      cl_udpToken := token, cl_udpBound := False,
      cl_appearance := (if pr_appearance rec \<noteq> [] then pr_appearance rec else cl_appearance c),
      cl_inventory := (if pr_inventory rec \<noteq> [] then pr_inventory rec else cl_inventory c),
      cl_lastPose := (if \<not> cl_havePose c \<and> pr_havePose rec then rec_pose (cl_peerId c) rec else cl_lastPose c),
      cl_havePose := (cl_havePose c \<or> pr_havePose rec)\<rparr>"

lemma soft_reconnect_eq:
  assumes "um_find k (rt_clients r) = Some old"
  shows "soft_reconnect r k p pkey h rec t =
    out_cmds (upd_client ((unbind_udp r k)\<lparr>rt_token := make_udp_token (rt_token r)\<rparr>) k
        (reconnected p pkey h rec t (make_udp_token (rt_token r))))
      ((if cl_connId old \<noteq> 0 \<and> cl_connId old \<noteq> pt_connId p then close_cmds (cl_connId old) else []) @
       bind_cmds (pt_connId p) (cl_peerId old))"
  using assms by (simp add: soft_reconnect_def Let_def sends reconnected_def [abs_def])

lemma reconnected_same:
  "cl_playerKey c = pkey \<Longrightarrow> token \<noteq> 0 \<Longrightarrow> same_client c (reconnected p pkey h rec t token c)"
  by (auto simp: same_client_def client_ok_def pose_ok_def reconnected_def rec_pose_def make_pose_def)

lemma unbind_client:
  "um_find k (rt_clients (unbind_udp r k)) = Some d \<Longrightarrow>
     \<exists>c. um_find k (rt_clients r) = Some c \<and> cl_playerKey d = cl_playerKey c \<and> cl_connId d = cl_connId c"
  by (auto simp: unbind_udp_def upd_client_def amap split: option.splits if_splits)

lemma core_inv_reconnect:
  assumes inv: "core_inv r" and old: "um_find k (rt_clients r) = Some old" and key: "cl_playerKey old = pkey"
  shows "core_inv (soft_reconnect r k p pkey h rec t)"
proof -
  let ?u = "(unbind_udp r k)\<lparr>rt_token := make_udp_token (rt_token r)\<rparr>"
  let ?f = "reconnected p pkey h rec t (make_udp_token (rt_token r))"
  have u: "core_inv ?u" using inv by auto
  have s: "same_client d (?f d)" if "um_find k (rt_clients ?u) = Some d" for d
    using unbind_client [of k r d] that old key by (intro reconnected_same) auto
  have "udp_inv (rt_udpPeerByAddr ?u) (um_upd k ?f (rt_clients ?u))"
    unfolding udp_inv_def
  proof (intro allI impI)
    fix a q assume a: "um_find a (rt_udpPeerByAddr ?u) = Some q"
    then have "q \<noteq> k" using udp_inv_unbound [OF inv, of a k q] by simp
    moreover have "udp_inv (rt_udpPeerByAddr ?u) (rt_clients ?u)" using u by (simp only: core_inv_def)
    ultimately show "\<exists>d. um_find q (um_upd k ?f (rt_clients ?u)) = Some d \<and> cl_udpBound d \<and> addr_key (cl_udpAddr d) = a"
      using a unfolding udp_inv_def um_find_upd by auto
  qed
  from core_inv_upd_udp [OF u s this] have "core_inv (upd_client ?u k ?f)" by simp
  with old show ?thesis by (simp add: soft_reconnect_eq)
qed

lemma core_inv_host_hello [simp, intro]: "core_inv r \<Longrightarrow> core_inv (host_hello r h)"
  by (erule core_inv_frame) (simp_all add: host_hello_def Let_def)

lemma host_hello_frame [simp]:
  "rt_clients (host_hello r h) = rt_clients r" "rt_pendingTcp (host_hello r h) = rt_pendingTcp r"
  "rt_outbound (host_hello r h) = rt_outbound r" "rt_cfg (host_hello r h) = rt_cfg r"
  "rt_players (host_hello r h) = rt_players r" "rt_bannedKeys (host_hello r h) = rt_bannedKeys r"
  "wo_hostPeerId (rt_world (host_hello r h)) = wo_hostPeerId (rt_world r)"
  by (simp_all add: host_hello_def Let_def)

lemma core_inv_finish: "core_inv r \<Longrightarrow> core_inv (finish_join r i k h req isNew rec)"
  by (auto simp: finish_join_def Let_def sends clear_pending_def split: option.split)

lemma finish_join_fields:
  assumes "um_find k (rt_clients r) = Some c"
  shows "rt_clients (finish_join r i k h req isNew rec) = rt_clients r"
    and "rt_pendingTcp (finish_join r i k h req isNew rec) = rt_pendingTcp (clear_pending r i)"
  using assms by (simp_all add: finish_join_def Let_def sends clear_pending_def)

lemma fresh_client_ok:
  "player_key_ok pkey \<Longrightarrow> token \<noteq> 0 \<Longrightarrow> peerId \<noteq> 0 \<Longrightarrow> client_ok (fresh_client r p pkey h rec t peerId token)"
  by (simp add: client_ok_def pose_ok_def fresh_client_def rec_pose_def make_pose_def Let_def)

lemma clients_inv_add:
  assumes inv: "clients_inv cs n known" and "n + 1 \<noteq> 0" and c: "client_ok c" "cl_peerId c = n"
    and key: "cl_playerKey c \<in> known" and fresh: "\<And>kc. kc \<in> set cs \<Longrightarrow> cl_playerKey (snd kc) \<noteq> cl_playerKey c"
  shows "clients_inv (cs @ [(n, c)]) (n + 1) known"
proof -
  have lt: "k < n + 1" if "k < n \<or> k = n" for k
    using that unatSuc [of n] assms(2) by (auto simp: word_less_nat_alt add.commute)
  have i: "\<forall>kc\<in>set cs. cl_peerId (snd kc) = fst kc \<and> client_ok (snd kc) \<and> fst kc < n \<and>
        cl_playerKey (snd kc) \<in> known" and ok: "um_ok cs" and u: "uniq_on cl_playerKey cs"
    using inv by (simp_all add: clients_inv_def clients_keyed_def)
  have "n \<notin> fst ` set cs" using i by (auto simp: image_iff)
  then have "um_ok (cs @ [(n, c)])" using ok by (auto simp: um_ok_def)
  moreover have "uniq_on cl_playerKey (cs @ [(n, c)])"
  proof (rule uniq_onI)
    fix k v k' v' assume "(k, v) \<in> set (cs @ [(n, c)])" "(k', v') \<in> set (cs @ [(n, c)])" "cl_playerKey v = cl_playerKey v'"
    then show "k = k'" using uniq_onD [OF u, of k v k' v'] fresh [of "(k, v)"] fresh [of "(k', v')"] by auto
  qed
  moreover have "\<forall>kc\<in>set (cs @ [(n, c)]). cl_peerId (snd kc) = fst kc \<and> client_ok (snd kc) \<and> fst kc < n + 1 \<and>
        cl_playerKey (snd kc) \<in> known"
    using i c key lt by simp
  ultimately show ?thesis using assms(2) by (simp add: clients_inv_def clients_keyed_def)
qed

lemma um_emplace_new: "um_find k m = None \<Longrightarrow> um_emplace k v m = m @ [(k, v)]"
  by (simp add: um_emplace_def um_find_def)

lemma um_erase_snoc: "um_find k m = None \<Longrightarrow> um_erase k (m @ [(k, v)]) = m"
  using um_erase_absent [of k m] by (simp add: um_erase_def)

lemma next_peer_fresh: "core_inv r \<Longrightarrow> um_find (rt_nextPeer r) (rt_clients r) = None"
  using core_inv_client(4) [of r "rt_nextPeer r"] by (cases "um_find (rt_nextPeer r) (rt_clients r)") auto

text \<open>The state with the new client in it.\<close>

definition joined_state ::
  "server_runtime \<Rightarrow> pending_tcp \<Rightarrow> string \<Rightarrow> hello \<Rightarrow> player_rec \<Rightarrow> f64 \<Rightarrow> server_runtime" where
  "joined_state r p pkey h rec t =
     (let token = make_udp_token (rt_token r)
      in r\<lparr>rt_nextPeer := rt_nextPeer r + 1, rt_token := token,
           rt_clients := rt_clients r @ [(rt_nextPeer r, fresh_client r p pkey h rec t (rt_nextPeer r) token)]\<rparr>)"

definition elect :: "session_world \<Rightarrow> u32 \<Rightarrow> session_world" where
  "elect w peerId = (if wo_hostPeerId w = 0 then w\<lparr>wo_hostPeerId := peerId\<rparr> else w)"

lemma join_new_eq:
  assumes inv: "core_inv r"
  shows "join_new r i p pkey h rec req t =
    (if wo_hostPeerId (rt_world r) = 0 \<and> req
     then clear_pending (out_cmds (r\<lparr>rt_nextPeer := rt_nextPeer r + 1, rt_token := make_udp_token (rt_token r)\<rparr>)
       (conn_cmds (pt_connId p) (enc_reject (make_reject RR_NoHost ''need a live host in the world'')) @
        close_cmds (pt_connId p))) i
     else finish_join (out_cmds ((joined_state r p pkey h rec t)\<lparr>rt_world := elect (rt_world r) (rt_nextPeer r)\<rparr>)
         (bind_cmds (pt_connId p) (rt_nextPeer r))) i (rt_nextPeer r) h req (\<not> pr_havePose rec) rec)"
proof -
  have n: "um_find (rt_nextPeer r) (rt_clients r) = None" by (rule next_peer_fresh [OF inv])
  have f: "um_find (rt_nextPeer r) (rt_clients r @ [(rt_nextPeer r, v)]) = Some v" for v
    using n by (simp add: um_find_def map_add_Some_iff split: option.split)
  let ?j = "joined_state r p pkey h rec t"
  have r1: "r\<lparr>rt_nextPeer := rt_nextPeer r + 1, rt_token := make_udp_token (rt_token r), rt_clients :=
      um_emplace (rt_nextPeer r) (fresh_client r p pkey h rec t (rt_nextPeer r) (make_udp_token (rt_token r)))
        (rt_clients r)\<rparr> = ?j"
    by (simp add: joined_state_def Let_def um_emplace_new [OF n])
  have conn: "(case um_find (rt_nextPeer r) (rt_clients ?j) of None \<Rightarrow> 0 | Some c \<Rightarrow> cl_connId c) = pt_connId p"
    by (simp add: joined_state_def Let_def f fresh_client_def)
  have gone: "?j\<lparr>rt_clients := um_erase (rt_nextPeer r) (rt_clients ?j)\<rparr> =
      r\<lparr>rt_nextPeer := rt_nextPeer r + 1, rt_token := make_udp_token (rt_token r)\<rparr>"
    by (cases r) (use n in \<open>simp add: joined_state_def Let_def um_erase_snoc\<close>)
  have w: "rt_world ?j = rt_world r" by (simp add: joined_state_def Let_def)
  have el: "(if wo_hostPeerId (rt_world r) = 0 then ?j\<lparr>rt_world := (rt_world r)\<lparr>wo_hostPeerId := rt_nextPeer r\<rparr>\<rparr>
      else ?j) = ?j\<lparr>rt_world := elect (rt_world r) (rt_nextPeer r)\<rparr>"
    by (simp add: elect_def same_world w)
  show ?thesis
    unfolding join_new_def Let_def alloc_peer_def fst_conv snd_conv r1 conn w el
    by (simp add: sends gone)
qed

lemma core_inv_joined:
  assumes inv: "core_inv r" and "player_key_ok pkey" and "pkey \<in> fst ` set (rt_players r)"
    and fresh: "\<And>kc. kc \<in> set (rt_clients r) \<Longrightarrow> cl_playerKey (snd kc) \<noteq> pkey" and "rt_nextPeer r + 1 \<noteq> 0"
  shows "core_inv ((joined_state r p pkey h rec t)\<lparr>rt_world := elect (rt_world r) (rt_nextPeer r)\<rparr>)"
proof -
  let ?c = "fresh_client r p pkey h rec t (rt_nextPeer r) (make_udp_token (rt_token r))"
  let ?cs = "rt_clients r @ [(rt_nextPeer r, ?c)]"
  have ci: "clients_inv (rt_clients r) (rt_nextPeer r) (fst ` set (rt_players r))"
    using inv by (simp add: core_inv_def)
  then have "rt_nextPeer r \<noteq> 0" by (simp add: clients_inv_def)
  then have cok: "client_ok ?c" using assms(2) by (intro fresh_client_ok) simp_all
  have cf: "cl_peerId ?c = rt_nextPeer r" "cl_playerKey ?c = pkey" by (simp_all add: fresh_client_def Let_def)
  have "clients_inv ?cs (rt_nextPeer r + 1) (fst ` set (rt_players r))"
    using ci assms(5) cok cf(1) assms(3) fresh by (intro clients_inv_add) (simp_all add: cf)
  moreover have "host_ok ?cs (elect (rt_world r) (rt_nextPeer r))"
    using inv by (auto simp: core_inv_def host_ok_def elect_def split: if_splits)
  moreover have "udp_inv (rt_udpPeerByAddr r) ?cs"
    using inv unfolding core_inv_def udp_inv_def um_find_def by (fastforce simp: map_add_Some_iff)
  ultimately show ?thesis
    using inv by (simp add: core_inv_def joined_state_def Let_def)
qed

lemma core_inv_join_new:
  assumes inv: "core_inv r" and "player_key_ok pkey" and "pkey \<in> fst ` set (rt_players r)"
    and "\<And>kc. kc \<in> set (rt_clients r) \<Longrightarrow> cl_playerKey (snd kc) \<noteq> pkey" and "rt_nextPeer r + 1 \<noteq> 0"
  shows "core_inv (join_new r i p pkey h rec req t)"
proof (cases "wo_hostPeerId (rt_world r) = 0 \<and> req")
  case True
  have ci: "clients_inv (rt_clients r) (rt_nextPeer r) (fst ` set (rt_players r))"
    using inv by (simp add: core_inv_def)
  have "rt_clients r = []"
  proof (rule ccontr)
    assume "rt_clients r \<noteq> []"
    with inv True have "0 \<in> fst ` set (rt_clients r)" by (simp add: core_inv_def host_ok_def)
    then obtain c where "(0, c) \<in> set (rt_clients r)" by auto
    then have "um_find 0 (rt_clients r) = Some c" by (simp add: um_find_Some_iff core_inv_um_ok [OF inv])
    with core_inv_client(3) [OF inv] show False by blast
  qed
  with inv assms(5) have "core_inv (r\<lparr>rt_nextPeer := rt_nextPeer r + 1\<rparr>)"
    by (simp add: core_inv_def clients_inv_def clients_keyed_def)
  with True show ?thesis by (simp add: join_new_eq [OF inv] clear_pending_def)
next
  case False
  show ?thesis
    unfolding join_new_eq [OF inv] if_not_P [OF False]
    using core_inv_joined [OF assms] by (intro core_inv_finish core_inv_out)
qed

lemma hello_key_ok: "player_key_ok (hello_key h)"
  by (simp add: hello_key_def sanitize_player)

text \<open>The runtime when the player record is in place, before the client joins.\<close>

definition recorded :: "server_runtime \<Rightarrow> string \<Rightarrow> player_rec \<Rightarrow> server_runtime" where
  "recorded r pkey rec =
     (let r1 = r\<lparr>rt_players := um_put pkey rec (rt_players r)\<rparr>
      in if \<not> wo_created (rt_world r1)
         then r1\<lparr>rt_world := (rt_world r1)\<lparr>wo_created := True\<rparr>, rt_worldDirty := True\<rparr> else r1)"

lemma recorded_frame [simp]:
  "rt_clients (recorded r pkey rec) = rt_clients r" "rt_pendingTcp (recorded r pkey rec) = rt_pendingTcp r"
  "rt_nextPeer (recorded r pkey rec) = rt_nextPeer r" "rt_outbound (recorded r pkey rec) = rt_outbound r"
  "rt_token (recorded r pkey rec) = rt_token r" "rt_cfg (recorded r pkey rec) = rt_cfg r"
  "fst ` set (rt_players (recorded r pkey rec)) = insert pkey (fst ` set (rt_players r))"
  "wo_hostPeerId (rt_world (recorded r pkey rec)) = wo_hostPeerId (rt_world r)"
  by (simp_all add: recorded_def Let_def amap)

lemma core_inv_recorded: "core_inv r \<Longrightarrow> core_inv (recorded r pkey rec)"
  by (erule core_inv_frame) (auto simp: recorded_def Let_def amap)

lemma admit_eq:
  "admit r i h req t =
     (let p = rt_pendingTcp r ! i; pkey = hello_key h; rec = joined_rec (player_at r pkey) pkey h
      in case find (\<lambda>kc. cl_playerKey (snd kc) = pkey) (rt_clients r) of
           None \<Rightarrow>
             (if int (length (rt_clients r)) \<ge> cfg_maxPlayers (rt_cfg r)
              then out_cmds r (conn_cmds (pt_connId p) (enc_reject (make_reject RR_Full ''server full'')))
              else join_new (recorded r pkey rec) i p pkey h rec req t)
         | Some kc \<Rightarrow> finish_join (soft_reconnect (recorded r pkey rec) (fst kc) p pkey h rec t) i (fst kc) h req
             (\<not> pr_havePose rec) rec)"
  by (simp add: admit_def Let_def sends recorded_def split: option.split)

lemma find_client:
  assumes "core_inv r" and "find P (rt_clients r) = Some kc"
  shows "um_find (fst kc) (rt_clients r) = Some (snd kc)" and "P kc"
  using find_SomeD [OF assms(2)] core_inv_um_ok [OF assms(1)] by (simp_all add: um_find_Some_iff)

lemma core_inv_admit:
  assumes "core_inv r" and "rt_nextPeer r + 1 \<noteq> 0"
  shows "core_inv (admit r i h req t)"
proof (cases "find (\<lambda>kc. cl_playerKey (snd kc) = hello_key h) (rt_clients r)")
  case None
  then have "kc \<in> set (rt_clients r) \<Longrightarrow> cl_playerKey (snd kc) \<noteq> hello_key h" for kc
    unfolding find_None_iff by blast
  then have "core_inv (join_new (recorded r (hello_key h) rec) i p (hello_key h) h rec req t)" for rec p
    using assms by (intro core_inv_join_new core_inv_recorded hello_key_ok) simp_all
  with None assms show ?thesis by (simp add: admit_eq Let_def)
next
  case (Some kc)
  from find_client [OF assms(1) Some] have "um_find (fst kc) (rt_clients r) = Some (snd kc)"
    "cl_playerKey (snd kc) = hello_key h" by auto
  then have "core_inv (soft_reconnect (recorded r (hello_key h) rec) (fst kc) p (hello_key h) h rec t)" for rec p
    using core_inv_recorded [OF assms(1)] by (intro core_inv_reconnect) simp_all
  with Some show ?thesis by (simp add: admit_eq Let_def core_inv_finish)
qed

lemma core_inv_pending_hello:
  assumes "core_inv r" and "rt_nextPeer r + 1 \<noteq> 0"
  shows "core_inv (pending_hello r i buf hdr t)"
proof -
  have a: "core_inv (admit (r\<lparr>rt_helloRates := q\<rparr>) i h req t)" for q h req
    using assms by (intro core_inv_admit) simp_all
  show ?thesis
    using assms a find_host_inv [OF assms(1)]
    by (simp add: pending_hello_def Let_def sends same_world split: option.split)
qed

lemma core_inv_pending_message:
  assumes "core_inv r" and "rt_nextPeer r + 1 \<noteq> 0"
  shows "core_inv (handle_pending_message r i buf t)"
  using assms core_inv_query [OF assms(1)] core_inv_pending_hello [OF assms]
  by (simp add: handle_pending_message_def Let_def bad_header_def)

subsection \<open>One owner per connection\<close>

lemma conns_inv_add_pending:
  assumes "conns_inv ps cs" and "pt_connId p \<noteq> 0" and "pt_connId p \<notin> pt_connId ` set ps"
    and "\<And>kc. kc \<in> set cs \<Longrightarrow> cl_connId (snd kc) \<noteq> pt_connId p"
  shows "conns_inv (ps @ [p]) cs"
  using assms by (auto simp: conns_inv_def)

lemma conns_inv_subset:
  assumes "conns_inv ps cs" and "set cs' \<subseteq> set cs"
  shows "conns_inv ps cs'"
  using assms uniq_on_subset [of cl_connId cs cs'] unfolding conns_inv_def by blast

lemma conns_inv_filter: "conns_inv ps cs \<Longrightarrow> conns_inv (filter P ps) cs"
  unfolding conns_inv_def using distinct_map_filter [of pt_connId ps P] by auto

lemma conns_inv_keep:
  assumes inv: "conns_inv ps cs" and c: "(k, c) \<in> set cs" and p: "pt_connId p = cl_connId c"
  shows "conns_inv (ps @ [p]) (um_erase k cs)"
proof (rule conns_inv_add_pending)
  have "set (um_erase k cs) \<subseteq> set cs" by (auto simp: set_um_erase)
  with inv show "conns_inv ps (um_erase k cs)" by (rule conns_inv_subset)
  from inv c have *: "cl_connId c \<noteq> 0 \<and> cl_connId c \<notin> pt_connId ` set ps" unfolding conns_inv_def by force
  with p show "pt_connId p \<noteq> 0" "pt_connId p \<notin> pt_connId ` set ps" by simp_all
  have u: "uniq_on cl_connId cs" using inv by (simp add: conns_inv_def)
  fix kc assume "kc \<in> set (um_erase k cs)"
  then have "kc \<in> set cs" "fst kc \<noteq> k" by (auto simp: set_um_erase)
  then show "cl_connId (snd kc) \<noteq> pt_connId p"
    using uniq_onD [OF u _ c, of "fst kc" "snd kc"] p by auto
qed

lemma runtime_inv_remove:
  assumes "runtime_inv r"
  shows "runtime_inv (remove_client r k keepTcp now)"
proof (cases "um_find k (rt_clients r)")
  case None
  with assms show ?thesis by (simp add: remove_client_none)
next
  case (Some c)
  have ci: "conns_inv (rt_pendingTcp r) (rt_clients r)" "core_inv r" using assms by (simp_all add: runtime_inv_def)
  have sub: "set (um_erase k (rt_clients r)) \<subseteq> set (rt_clients r)" by (auto simp: set_um_erase)
  have "conns_inv (rt_pendingTcp (remove_client r k keepTcp now)) (um_erase k (rt_clients r))"
    using remove_client_pending [OF Some, of keepTcp now] conns_inv_subset [OF ci(1) sub]
      conns_inv_keep [OF ci(1) um_find_SomeD [OF Some]]
    by simp
  with ci(2) show ?thesis by (simp add: runtime_inv_def core_inv_remove)
qed

lemma runtime_inv_misc [simp]:
  "runtime_inv (r\<lparr>rt_removePeers := l\<rparr>) = runtime_inv r" "runtime_inv (r\<lparr>rt_keepTcpPeers := l\<rparr>) = runtime_inv r"
  by (simp_all add: runtime_inv_def)

lemma runtime_inv_quiet: "runtime_inv r \<Longrightarrow> core_inv r' \<Longrightarrow> quiet r r' \<Longrightarrow> runtime_inv r'"
  by (simp add: runtime_inv_def conns_inv_quiet)

lemma runtime_inv_remove_all:
  "runtime_inv r \<Longrightarrow> runtime_inv (foldl (\<lambda>r p. remove_client r p (f r p) now) r ps)"
  by (induction ps arbitrary: r) (auto intro: runtime_inv_remove)

lemma runtime_inv_client_frame:
  assumes "runtime_inv r"
  shows "runtime_inv (client_frame r k buf t now)"
proof -
  let ?r = "r\<lparr>rt_removePeers := [], rt_keepTcpPeers := []\<rparr>"
  have "runtime_inv ?r" using assms by simp
  moreover from this core_inv_tcp_message [of ?r k buf t now]
  have "core_inv (handle_tcp_message ?r k buf t now)" "quiet ?r (handle_tcp_message ?r k buf t now)"
    by (simp_all add: runtime_inv_def)
  ultimately have "runtime_inv (handle_tcp_message ?r k buf t now)" by (rule runtime_inv_quiet)
  then show ?thesis by (simp add: client_frame_def Let_def runtime_inv_remove_all)
qed

text \<open>What a message on a pending connection does to the connections.\<close>

definition moved :: "server_runtime \<Rightarrow> nat \<Rightarrow> server_runtime \<Rightarrow> bool" where
  "moved r i r' \<longleftrightarrow>
     rt_pendingTcp r' = rt_pendingTcp (clear_pending r i) \<and>
     (\<exists>k. set (conn_view (rt_clients r')) \<subseteq>
        {v \<in> set (conn_view (rt_clients r)). fst v \<noteq> k} \<union> {(k, pt_connId (rt_pendingTcp r ! i))})"

lemma moved_new:
  assumes inv: "core_inv r"
  shows "moved r i (join_new r i (rt_pendingTcp r ! i) pkey h rec req t)"
proof (cases "wo_hostPeerId (rt_world r) = 0 \<and> req")
  case True
  have "set (conn_view (rt_clients r)) \<subseteq> {v \<in> set (conn_view (rt_clients r)). fst v \<noteq> rt_nextPeer r}"
    using next_peer_fresh [OF inv] by (auto simp: conn_view_def um_find_None_iff image_iff)
  with True show ?thesis
    unfolding moved_def join_new_eq [OF inv] if_P [OF True] by (auto simp: clear_pending_def)
next
  case False
  let ?s = "out_cmds ((joined_state r (rt_pendingTcp r ! i) pkey h rec t)
      \<lparr>rt_world := elect (rt_world r) (rt_nextPeer r)\<rparr>) (bind_cmds (pt_connId (rt_pendingTcp r ! i)) (rt_nextPeer r))"
  have f: "um_find (rt_nextPeer r) (rt_clients ?s) = Some (fresh_client r (rt_pendingTcp r ! i) pkey h rec t
      (rt_nextPeer r) (make_udp_token (rt_token r)))"
    using next_peer_fresh [OF inv] by (simp add: joined_state_def Let_def um_find_def map_add_Some_iff split: option.split)
  have "set (conn_view (rt_clients ?s)) \<subseteq> {v \<in> set (conn_view (rt_clients r)). fst v \<noteq> rt_nextPeer r} \<union>
      {(rt_nextPeer r, pt_connId (rt_pendingTcp r ! i))}"
    using next_peer_fresh [OF inv]
    by (auto simp: joined_state_def Let_def conn_view_def um_find_None_iff image_iff fresh_client_def)
  moreover have "rt_pendingTcp (clear_pending ?s i) = rt_pendingTcp (clear_pending r i)"
    by (simp add: clear_pending_def joined_state_def Let_def)
  ultimately show ?thesis
    unfolding moved_def join_new_eq [OF inv] if_not_P [OF False] finish_join_fields [OF f] by blast
qed

lemma moved_reconnect:
  assumes inv: "core_inv r" and k: "um_find k (rt_clients r) = Some c"
  shows "moved r i (finish_join (soft_reconnect r k (rt_pendingTcp r ! i) pkey h rec t) i k h' req isNew rec')"
proof -
  let ?s = "soft_reconnect r k (rt_pendingTcp r ! i) pkey h rec t"
  have keys: "fst ` set (rt_clients ?s) = fst ` set (rt_clients r)"
    using k by (simp add: soft_reconnect_eq upd_client_def keys_um_upd)
  with k obtain d where d: "um_find k (rt_clients ?s) = Some d"
    using um_find_in_keys [OF k] um_find_None_iff by (metis not_Some_eq)
  have "v \<in> set (conn_view (rt_clients ?s)) \<Longrightarrow>
      v = (k, pt_connId (rt_pendingTcp r ! i)) \<or> (v \<in> set (conn_view (rt_clients (unbind_udp r k))) \<and> fst v \<noteq> k)" for v
    using k by (auto simp: soft_reconnect_eq upd_client_def conn_view_def um_upd_def reconnected_def split: if_splits)
  then have "set (conn_view (rt_clients ?s)) \<subseteq> {v \<in> set (conn_view (rt_clients r)). fst v \<noteq> k} \<union>
      {(k, pt_connId (rt_pendingTcp r ! i))}"
    using quiet_unbind [of r k] unfolding quiet_def by auto
  moreover have "rt_pendingTcp (clear_pending ?s i) = rt_pendingTcp (clear_pending r i)"
    using k by (simp add: clear_pending_def soft_reconnect_eq upd_client_def)
  ultimately show ?thesis
    unfolding moved_def finish_join_fields [OF d] by blast
qed

lemma moved_cong:
  "rt_pendingTcp r1 = rt_pendingTcp r \<Longrightarrow> rt_clients r1 = rt_clients r \<Longrightarrow> moved r1 i r' \<Longrightarrow> moved r i r'"
  by (simp add: moved_def clear_pending_def)

lemma admit_effect:
  assumes "core_inv r"
  shows "quiet r (admit r i h req t) \<or> moved r i (admit r i h req t)"
proof -
  note rec = core_inv_recorded [OF assms]
  have cong: "moved (recorded r pkey rec') i r' \<Longrightarrow> moved r i r'" for pkey rec' r'
    by (erule moved_cong [rotated 2]) simp_all
  show ?thesis
  proof (cases "find (\<lambda>kc. cl_playerKey (snd kc) = hello_key h) (rt_clients r)")
    case None
    with cong [OF moved_new [OF rec]] show ?thesis by (simp add: admit_eq Let_def quiet_def)
  next
    case (Some kc)
    from find_client(1) [OF assms Some] have "um_find (fst kc) (rt_clients (recorded r pkey rec')) = Some (snd kc)"
      for pkey rec' by simp
    from cong [OF moved_reconnect [OF rec this]] Some show ?thesis by (simp add: admit_eq Let_def)
  qed
qed

lemma quiet_cong:
  "rt_pendingTcp r1 = rt_pendingTcp r \<Longrightarrow> rt_clients r1 = rt_clients r \<Longrightarrow> quiet r1 r' \<Longrightarrow> quiet r r'"
  by (simp add: quiet_def)

lemma pending_effect:
  assumes "core_inv r"
  shows "quiet r (handle_pending_message r i buf t) \<or> moved r i (handle_pending_message r i buf t)"
proof -
  have a: "quiet r (admit (r\<lparr>rt_helloRates := q\<rparr>) i h req t) \<or> moved r i (admit (r\<lparr>rt_helloRates := q\<rparr>) i h req t)"
    for q h req
    using admit_effect [of "r\<lparr>rt_helloRates := q\<rparr>" i h req t] assms
      quiet_cong [of "r\<lparr>rt_helloRates := q\<rparr>" r] moved_cong [of "r\<lparr>rt_helloRates := q\<rparr>" r] by auto
  have q: "quiet r (r\<lparr>rt_helloRates := q\<rparr>)" "quiet r (out_cmds (r\<lparr>rt_helloRates := q\<rparr>) cs)" for q cs
    by (simp_all add: quiet_def)
  have h: "quiet r (pending_hello r i buf hdr t) \<or> moved r i (pending_hello r i buf hdr t)" for hdr
    using find_host_inv [OF assms]
    by (simp add: pending_hello_def Let_def sends same_world a q split: option.split)
  show ?thesis
    using h core_inv_query [OF assms] by (simp add: handle_pending_message_def Let_def bad_header_def quiet_def)
qed

lemma filter_cleared:
  assumes "i < length ps" and "0 \<notin> pt_connId ` set ps"
  shows "filter (\<lambda>p. pt_connId p \<noteq> 0) (ps[i := (ps ! i)\<lparr>pt_connId := 0\<rparr>]) = take i ps @ drop (Suc i) ps"
proof -
  have "filter (\<lambda>p. pt_connId p \<noteq> 0) xs = xs" if "set xs \<subseteq> set ps" for xs
    using that assms(2) by (auto simp: filter_id_conv)
  from this [of "take i ps"] this [of "drop (Suc i) ps"] assms(1) show ?thesis
    by (simp add: upd_conv_take_nth_drop set_take_subset set_drop_subset)
qed

lemma distinct_map_mid:
  "distinct (map f (xs @ y # zs)) \<Longrightarrow> distinct (map f (xs @ zs)) \<and> f y \<notin> f ` set (xs @ zs)"
  by auto

lemma conns_inv_moved:
  assumes inv: "conns_inv (rt_pendingTcp r) (rt_clients r)" and i: "i < length (rt_pendingTcp r)" and m: "moved r i r'"
  shows "conns_inv (filter (\<lambda>p. pt_connId p \<noteq> 0) (rt_pendingTcp r')) (rt_clients r')"
proof -
  let ?ps = "rt_pendingTcp r" and ?c = "pt_connId (rt_pendingTcp r ! i)"
  from m obtain k where v: "set (conn_view (rt_clients r')) \<subseteq>
      {v \<in> set (conn_view (rt_clients r)). fst v \<noteq> k} \<union> {(k, ?c)}" unfolding moved_def by blast
  have z: "0 \<notin> pt_connId ` set ?ps" and d: "distinct (map pt_connId ?ps)"
    and old: "\<forall>v\<in>set (conn_view (rt_clients r)). snd v \<noteq> 0 \<and> snd v \<notin> pt_connId ` set ?ps"
    and u: "uniq_on id (conn_view (rt_clients r))" using inv unfolding conns_inv_view by blast+
  have ps: "filter (\<lambda>p. pt_connId p \<noteq> 0) (rt_pendingTcp r') = take i ?ps @ drop (Suc i) ?ps"
    using m i z by (simp add: moved_def clear_pending_def filter_cleared)
  have "distinct (map pt_connId (take i ?ps @ ?ps ! i # drop (Suc i) ?ps))"
    unfolding id_take_nth_drop [OF i, symmetric] by (rule d)
  from distinct_map_mid [OF this] have dd: "distinct (map pt_connId (take i ?ps @ drop (Suc i) ?ps))"
    "?c \<notin> pt_connId ` set (take i ?ps @ drop (Suc i) ?ps)" by blast+
  have mem: "?ps ! i \<in> set ?ps" using i by simp
  have sub: "set (take i ?ps @ drop (Suc i) ?ps) \<subseteq> set ?ps" by (auto dest: in_set_takeD in_set_dropD)
  have e: "(k1 = k \<and> v1 = ?c) \<or> ((k1, v1) \<in> set (conn_view (rt_clients r)) \<and> v1 \<noteq> ?c)"
    if "(k1, v1) \<in> set (conn_view (rt_clients r'))" for k1 v1
  proof -
    have "(k1, v1) \<in> set (conn_view (rt_clients r)) \<Longrightarrow> v1 \<noteq> ?c" using old mem by fastforce
    with that v show ?thesis by auto
  qed
  have "uniq_on id (conn_view (rt_clients r'))"
  proof (rule uniq_onI)
    fix k1 v1 k2 v2
    assume "(k1, v1) \<in> set (conn_view (rt_clients r'))" "(k2, v2) \<in> set (conn_view (rt_clients r'))" "id v1 = id v2"
    with e [of k1 v1] e [of k2 v2] uniq_onD [OF u, of k1 v1 k2 v2] show "k1 = k2" by auto
  qed
  moreover have "\<forall>v\<in>set (conn_view (rt_clients r')). snd v \<noteq> 0 \<and> snd v \<notin> pt_connId ` set (take i ?ps @ drop (Suc i) ?ps)"
  proof (rule ballI)
    fix x assume x: "x \<in> set (conn_view (rt_clients r'))"
    from e [of "fst x" "snd x"] x have "snd x = ?c \<or> x \<in> set (conn_view (rt_clients r))" by auto
    moreover have "?c \<noteq> 0" using z mem by (metis imageI)
    ultimately show "snd x \<noteq> 0 \<and> snd x \<notin> pt_connId ` set (take i ?ps @ drop (Suc i) ?ps)"
      using old dd(2) image_mono [OF sub, of pt_connId] by (elim disjE) (simp, blast)
  qed
  moreover have "0 \<notin> pt_connId ` set (take i ?ps @ drop (Suc i) ?ps)" using z sub by blast
  ultimately show ?thesis unfolding conns_inv_view ps using dd(1) by blast
qed

subsection \<open>Events\<close>

lemma find_index_Some: "find_index P xs = Some i \<Longrightarrow> i < length xs \<and> P (xs ! i)"
  by (induction xs arbitrary: i) (auto split: if_splits)

lemma runtime_inv_pending_frame:
  assumes inv: "runtime_inv r" and i: "i < length (rt_pendingTcp r)" and "rt_nextPeer r + 1 \<noteq> 0"
  shows "runtime_inv (pending_frame r i buf t)"
proof -
  let ?r = "handle_pending_message r i buf t"
  have ci: "core_inv r" "conns_inv (rt_pendingTcp r) (rt_clients r)" using inv by (simp_all add: runtime_inv_def)
  have c: "core_inv ?r" using ci(1) assms(3) by (rule core_inv_pending_message)
  consider (q) "quiet r ?r" | (m) "moved r i ?r" using pending_effect [OF ci(1)] by blast
  then show ?thesis
  proof cases
    case q
    then have "pt_connId (rt_pendingTcp ?r ! i) \<noteq> 0"
      using ci(2) i unfolding conns_inv_def quiet_def by (metis imageI nth_mem)
    with c q ci(2) show ?thesis by (simp add: pending_frame_def Let_def runtime_inv_def conns_inv_quiet)
  next
    case m
    then have "pt_connId (rt_pendingTcp ?r ! i) = 0" using i by (simp add: moved_def clear_pending_def)
    with c conns_inv_moved [OF ci(2) i m] show ?thesis
      by (simp add: pending_frame_def Let_def runtime_inv_def)
  qed
qed

text \<open>
  The events the network thread delivers: an accepted connection has a number that is in use
  nowhere (the numbers come from a counter, see the theory NetIo).
\<close>

definition event_ok :: "server_runtime \<Rightarrow> inbound_event \<Rightarrow> bool" where
  "event_ok r ev \<longleftrightarrow> (ie_kind ev = TcpAccept \<longrightarrow>
     ie_connId ev \<noteq> 0 \<and> ie_connId ev \<notin> pt_connId ` set (rt_pendingTcp r) \<and>
     ie_connId ev \<notin> (\<lambda>kc. cl_connId (snd kc)) ` set (rt_clients r))"

lemma runtime_inv_closed:
  assumes inv: "runtime_inv r"
  shows "runtime_inv (tcp_closed_event r ev now)"
proof -
  let ?r = "r\<lparr>rt_pendingTcp := filter (\<lambda>p. pt_connId p \<noteq> ie_connId ev) (rt_pendingTcp r)\<rparr>"
  have r: "runtime_inv ?r" using inv by (simp add: runtime_inv_def conns_inv_filter)
  have "runtime_inv (remove_client (upd_client ?r k (\<lambda>c. c\<lparr>cl_connId := 0\<rparr>)) (cl_peerId c) False now)"
    if k: "um_find k (rt_clients ?r) = Some c" for k c
  proof -
    have c: "core_inv ?r" using r by (simp add: runtime_inv_def)
    have pk: "cl_peerId c = k" using core_inv_client [OF c k] by simp
    let ?u = "upd_client ?r k (\<lambda>c. c\<lparr>cl_connId := 0\<rparr>)"
    have "core_inv ?u" using c by (intro core_inv_upd) (auto simp: same_client_def client_ok_def pose_ok_def)
    moreover have "rt_clients (remove_client ?u k False now) = um_erase k (rt_clients r)"
      by (simp add: upd_client_def)
    moreover have "um_find k (rt_clients ?u) = Some (c\<lparr>cl_connId := 0\<rparr>)" using k by (simp add: upd_client_def amap)
    then have "rt_pendingTcp (remove_client ?u k False now) = rt_pendingTcp ?r"
      by (simp add: remove_client_pending) (simp add: upd_client_def)
    moreover have "set (um_erase k (rt_clients r)) \<subseteq> set (rt_clients ?r)" by (auto simp: set_um_erase)
    then have "conns_inv (rt_pendingTcp ?r) (um_erase k (rt_clients r))"
      using r unfolding runtime_inv_def by (auto intro: conns_inv_subset)
    ultimately show ?thesis by (simp add: runtime_inv_def core_inv_remove pk)
  qed
  with r show ?thesis
    by (auto simp: tcp_closed_event_def Let_def intro: runtime_inv_remove split: option.split)
qed

theorem runtime_inv_apply:
  assumes inv: "runtime_inv r" and ev: "event_ok r ev" and n: "rt_nextPeer r + 1 \<noteq> 0"
  shows "runtime_inv (apply_inbound r ev t now)"
proof (cases "ie_kind ev")
  case TcpAccept
  with ev inv show ?thesis
    by (auto simp: apply_inbound_def runtime_inv_def event_ok_def image_iff intro!: conns_inv_add_pending)
next
  case TcpFrame
  have "runtime_inv (pending_frame r i (ie_bytes ev) t)" if "find_pending r (ie_connId ev) = Some i" for i
    using that find_index_Some [of _ "rt_pendingTcp r" i] inv n
    by (intro runtime_inv_pending_frame) (auto simp: find_pending_def)
  with TcpFrame inv show ?thesis
    by (auto simp: apply_inbound_def tcp_frame_event_def intro: runtime_inv_client_frame split: option.split)
next
  case TcpClosed
  with inv show ?thesis by (simp add: apply_inbound_def runtime_inv_closed)
next
  case UdpDatagram
  have "runtime_inv (handle_udp_packet r (ie_bytes ev) (ie_addr ev) t)"
    using core_inv_udp_packet [of r "ie_bytes ev" "ie_addr ev" t] inv
    by (intro runtime_inv_quiet [OF inv]) (simp_all add: runtime_inv_def)
  with UdpDatagram show ?thesis by (simp add: apply_inbound_def)
qed

lemma expire_pending_out:
  "expire_pending r t = out_cmds (r\<lparr>rt_pendingTcp := filter (\<lambda>p. \<not> pending_expired t p) (rt_pendingTcp r)\<rparr>)
     (concat (map (\<lambda>p. if pending_expired t p then close_cmds (pt_connId p) else []) (rt_pendingTcp r)))"
proof -
  have "(\<lambda>r p. if pending_expired t p then close_conn r (pt_connId p) else r) =
      (\<lambda>r p. out_cmds r (if pending_expired t p then close_cmds (pt_connId p) else []))"
    by (auto simp: fun_eq_iff sends)
  then show ?thesis by (simp add: expire_pending_def foldl_out Let_def)
qed

lemma runtime_inv_expire_pending: "runtime_inv r \<Longrightarrow> runtime_inv (expire_pending r t)"
  by (auto simp: expire_pending_out runtime_inv_def conns_inv_filter)

lemma runtime_inv_expire_clients: "runtime_inv r \<Longrightarrow> runtime_inv (expire_clients r t now)"
  by (simp add: expire_clients_def Let_def runtime_inv_remove_all)

lemma runtime_inv_init:
  assumes "wo_hostPeerId w = 0"
  shows "runtime_inv (ServerRuntime cfg w ps bans mh)"
  using assms by (simp add: runtime_inv_def ServerRuntime_def core_inv_def clients_inv_def clients_keyed_def
      uniq_on_def host_ok_def udp_inv_def asm_inv_def queue_inv_def conns_inv_def amap)

end
