(* ===== verification/Example.thy ===== *)
theory Example
  imports Invariant
begin

text \<open>
  A small session the witnesses run on: Ann, the host, and Bob are connected and bound to their UDP
  addresses, and a third connection has not said Hello yet.
\<close>

definition ex_addr :: "u16 \<Rightarrow> sockaddr_in" where
  "ex_addr port = \<lparr>sin_addr = 0x0100007F, sin_port = port\<rparr>"

definition ex_client :: "u32 \<Rightarrow> string \<Rightarrow> client" where
  "ex_client k key =
     \<lparr>cl_connId = ucast k, cl_tcpAddr = ex_addr 1, cl_udpAddr = ex_addr (ucast k), cl_udpBound = True,
      cl_udpToken = k + 100, cl_peerId = k, cl_playerKey = key, cl_name = key, cl_lastSeen = 0, cl_posesIn = 0,
      cl_lastPose = make_pose k kCommonwealthWorldspace 0 0 0 0 0 0 0 0 0, cl_havePose = True,
      cl_appearance = [], cl_inventory = []\<rparr>"

definition ex_rt :: server_runtime where
  "ex_rt = (ServerRuntime default_config (default_world\<lparr>wo_hostPeerId := 1\<rparr>)
       [(''ann'', default_player), (''bob'', default_player)] [''eve''] 0)
     \<lparr>rt_clients := [(1, ex_client 1 ''ann''), (2, ex_client 2 ''bob'')],
      rt_udpPeerByAddr := [(addr_key (ex_addr 1), 1), (addr_key (ex_addr 2), 2)],
      rt_pendingTcp := [\<lparr>pt_connId = 3, pt_addr = ex_addr 3, pt_connectedAt = 0\<rparr>],
      rt_nextPeer := 3, rt_outbound := Some (aq_new 8192)\<rparr>"

lemma ex_rt_fields [simp]:
  "rt_clients ex_rt = [(1, ex_client 1 ''ann''), (2, ex_client 2 ''bob'')]"
  "rt_udpPeerByAddr ex_rt = [(addr_key (ex_addr 1), 1), (addr_key (ex_addr 2), 2)]"
  "rt_pendingTcp ex_rt = [\<lparr>pt_connId = 3, pt_addr = ex_addr 3, pt_connectedAt = 0\<rparr>]"
  "rt_nextPeer ex_rt = 3" "wo_hostPeerId (rt_world ex_rt) = 1" "rt_bannedKeys ex_rt = [''eve'']"
  "rt_cfg ex_rt = default_config" "rt_outbound ex_rt = Some (aq_new 8192)" "rt_persist ex_rt = None"
  "rt_chatRates ex_rt = []" "rt_hitRates ex_rt = []" "rt_poseRates ex_rt = []" "rt_helloRates ex_rt = []"
  "rt_sessionModHash ex_rt = 0" "rt_players ex_rt = [(''ann'', default_player), (''bob'', default_player)]"
  by (simp_all add: ex_rt_def ServerRuntime_def)

lemma ex_client_fields [simp]:
  "cl_connId (ex_client k key) = ucast k" "cl_peerId (ex_client k key) = k" "cl_playerKey (ex_client k key) = key"
  "cl_udpBound (ex_client k key)" "cl_udpAddr (ex_client k key) = ex_addr (ucast k)"
  "cl_udpToken (ex_client k key) = k + 100" "cl_havePose (ex_client k key)"
  "cl_lastPose (ex_client k key) = make_pose k kCommonwealthWorldspace 0 0 0 0 0 0 0 0 0"
  by (simp_all add: ex_client_def)

lemma ex_find [simp]:
  "um_find (1 :: u32) [(1, ex_client 1 ''ann''), (2, ex_client 2 ''bob'')] = Some (ex_client 1 ''ann'')"
  "um_find (2 :: u32) [(1, ex_client 1 ''ann''), (2, ex_client 2 ''bob'')] = Some (ex_client 2 ''bob'')"
  by (simp_all add: um_find_def)

lemma ex_addr_inject: "addr_key (ex_addr p) = addr_key (ex_addr q) \<longleftrightarrow> p = q"
  by (simp add: addr_key_inject ex_addr_def)

lemma ex_client_ok: "player_key_ok key \<Longrightarrow> k \<noteq> 0 \<Longrightarrow> k + 100 \<noteq> 0 \<Longrightarrow> client_ok (ex_client k key)"
  by (simp add: client_ok_def pose_ok_def make_pose_def)

lemma ex_keys: "player_key_ok ''ann''" "player_key_ok ''bob''"
  by (simp_all add: player_key_ok_def kPlayerKeyMax_def key_char_def c_isalnum_def c_isalpha_def is_digit_def)

lemma ex_rt_core: "core_inv ex_rt"
proof -
  have "clients_inv (rt_clients ex_rt) (rt_nextPeer ex_rt) (fst ` set (rt_players ex_rt))"
    by (simp add: clients_inv_def clients_keyed_def um_ok_def uniq_on_def ex_client_ok ex_keys)
  moreover have "udp_inv (rt_udpPeerByAddr ex_rt) (rt_clients ex_rt)"
    by (auto simp: udp_inv_def um_find_def split: if_splits)
  ultimately show ?thesis
    by (simp add: core_inv_def host_ok_def queue_inv_def aq_ok_def aq_new_def)
      (simp add: ex_rt_def ServerRuntime_def asm_inv_def)
qed

lemma ex_rt_inv: "runtime_inv ex_rt"
  using ex_rt_core by (simp add: runtime_inv_def conns_inv_def uniq_on_def)

end
