(* ===== verification/Joining.thy ===== *)
theory Joining
  imports Example
begin

text \<open>
  Who gets in: what a message on a connection that has not said Hello does to the table of clients.
  The table changes only for a Hello that passes every check, and then by one new entry at the end
  or by one entry moved to the new connection.
\<close>

subsection \<open>Frames with a known header\<close>

definition frame_of :: "bytes \<Rightarrow> msg \<Rightarrow> bool" where
  "frame_of buf m \<longleftrightarrow>
     sizeof_Header \<le> length buf \<and> header_ok (dec_header buf) (length buf) \<and>
     msg_of_u8 (h_type (dec_header buf)) = Some m"

lemma frame_size: "frame_of buf m \<Longrightarrow> m \<notin> {AppearanceChunk, InventoryChunk} \<Longrightarrow> sizeof_msg m \<le> length buf"
  by (cases m) (auto simp: frame_of_def header_ok_def Let_def split: if_splits)

subsection \<open>The table of clients after a Hello\<close>

definition same_key :: "server_runtime \<Rightarrow> hello \<Rightarrow> (u32 \<times> client) option" where
  "same_key r h = find (\<lambda>kc. cl_playerKey (snd kc) = hello_key h) (rt_clients r)"

lemma join_new_clients:
  assumes inv: "core_inv r"
  shows "rt_clients (join_new r i p pkey h rec req t) =
    (if wo_hostPeerId (rt_world r) = 0 \<and> req then rt_clients r
     else rt_clients r @ [(rt_nextPeer r,
       fresh_client r p pkey h rec t (rt_nextPeer r) (make_udp_token (rt_token r)))])"
proof -
  let ?c = "fresh_client r p pkey h rec t (rt_nextPeer r) (make_udp_token (rt_token r))"
  let ?s = "out_cmds ((joined_state r p pkey h rec t)\<lparr>rt_world := elect (rt_world r) (rt_nextPeer r)\<rparr>)
    (bind_cmds (pt_connId p) (rt_nextPeer r))"
  have cs: "rt_clients ?s = rt_clients r @ [(rt_nextPeer r, ?c)]" by (simp add: joined_state_def Let_def)
  have "um_find (rt_nextPeer r) (rt_clients ?s) = Some ?c"
    using next_peer_fresh [OF inv] unfolding cs by (simp add: um_find_def map_add_Some_iff split: option.split)
  from finish_join_fields(1) [OF this] cs show ?thesis
    unfolding join_new_eq [OF inv] by (simp add: clear_pending_def)
qed

lemma um_upd_at: "um_find k m = Some v \<Longrightarrow> um_ok m \<Longrightarrow> um_upd k f m = um_upd k (\<lambda>_. f v) m"
  by (auto simp: um_upd_def um_find_Some_iff um_ok_def dest: eq_key_imp_eq_value)

lemma um_upd_twice: "um_upd k f (um_upd k g m) = um_upd k (\<lambda>v. f (g v)) m"
  by (simp add: um_upd_def)

lemma reconnect_clients:
  assumes "um_find k (rt_clients r) = Some c" and "um_ok (rt_clients r)"
  shows "rt_clients (finish_join (soft_reconnect r k p pkey h rec t) i k h' req isNew rec') =
    um_upd k (\<lambda>_. reconnected p pkey h rec t (make_udp_token (rt_token r))
      (if cl_udpBound c then c\<lparr>cl_udpBound := False, cl_udpAddr := sockaddr_zero\<rparr> else c)) (rt_clients r)"
proof -
  let ?s = "soft_reconnect r k p pkey h rec t"
  have "rt_clients ?s = um_upd k (\<lambda>c'. reconnected p pkey h rec t (make_udp_token (rt_token r))
      (if cl_udpBound c then c'\<lparr>cl_udpBound := False, cl_udpAddr := sockaddr_zero\<rparr> else c')) (rt_clients r)"
    using assms(1) by (cases "cl_udpBound c") (simp_all add: soft_reconnect_eq upd_client_def unbind_udp_def um_upd_twice)
  also have "\<dots> = um_upd k (\<lambda>_. reconnected p pkey h rec t (make_udp_token (rt_token r))
      (if cl_udpBound c then c\<lparr>cl_udpBound := False, cl_udpAddr := sockaddr_zero\<rparr> else c)) (rt_clients r)"
    by (rule um_upd_at [OF assms])
  finally have cs: "rt_clients ?s = um_upd k (\<lambda>_. reconnected p pkey h rec t (make_udp_token (rt_token r))
      (if cl_udpBound c then c\<lparr>cl_udpBound := False, cl_udpAddr := sockaddr_zero\<rparr> else c)) (rt_clients r)" .
  have "um_find k (rt_clients ?s) \<noteq> None"
    using assms keys_um_upd um_find_None_iff unfolding cs by (metis option.distinct(1))
  then obtain d where "um_find k (rt_clients ?s) = Some d" by blast
  from finish_join_fields(1) [OF this] cs show ?thesis by simp
qed

text \<open>Everything \<^verbatim>\<open>handle_pending_message\<close> checks, from the frame to the last rejection.\<close>

definition hello_passes :: "server_runtime \<Rightarrow> bytes \<Rightarrow> bool" where
  "hello_passes r buf \<longleftrightarrow>
     (let h = read_hello buf; w = rt_world r
      in frame_of buf Hello \<and> unat (he_protocol h) = kProtocolVersion \<and>
         unat (h_version (dec_header buf)) = kProtocolVersion \<and> he_pluginVersion h = kPluginVersion \<and>
         he_inWorld h \<noteq> 0 \<and> hello_key h \<notin> set (rt_bannedKeys r) \<and>
         (cfg_password (rt_cfg r) \<noteq> [] \<longrightarrow> c_str (he_password h) = cfg_password (rt_cfg r)) \<and>
         (rt_sessionModHash r \<noteq> 0 \<longrightarrow> he_modHash h = rt_sessionModHash r) \<and>
         (requires_host h \<longrightarrow> wo_hostLocation w = kCommonwealthWorldspace \<and>
            (\<exists>c. um_find (wo_hostPeerId w) (rt_clients r) = Some c \<and> cl_havePose c)) \<and>
         (same_key r h \<noteq> None \<or> int (length (rt_clients r)) < cfg_maxPlayers (rt_cfg r)))"

lemma hello_reject_rates [simp]: "hello_reject (r\<lparr>rt_helloRates := q\<rparr>) hdr h = hello_reject r hdr h"
  by (simp add: hello_reject_def)

lemma same_key_rates [simp]: "same_key (r\<lparr>rt_helloRates := q\<rparr>) h = same_key r h"
  by (simp add: same_key_def)

lemma admit_full:
  "same_key r h = None \<Longrightarrow> cfg_maxPlayers (rt_cfg r) \<le> int (length (rt_clients r)) \<Longrightarrow>
   rt_clients (admit r i h req t) = rt_clients r"
  by (simp add: admit_eq Let_def same_key_def)

lemma hello_reject_None:
  assumes "hello_reject r hdr h = None"
  shows "unat (he_protocol h) = kProtocolVersion" "unat (h_version hdr) = kProtocolVersion" "he_pluginVersion h = kPluginVersion" "he_inWorld h \<noteq> 0"
    "hello_key h \<notin> set (rt_bannedKeys r)"
    "cfg_password (rt_cfg r) \<noteq> [] \<longrightarrow> c_str (he_password h) = cfg_password (rt_cfg r)"
    "rt_sessionModHash r \<noteq> 0 \<longrightarrow> he_modHash h = rt_sessionModHash r"
  using assms by (auto simp: hello_reject_def split: if_splits)

lemma host_reject_None:
  assumes "core_inv r" and "host_reject r (fst (find_host (rt_clients r) (rt_world r))) = None"
  shows "wo_hostLocation (rt_world r) = kCommonwealthWorldspace"
    and "\<exists>c. um_find (wo_hostPeerId (rt_world r)) (rt_clients r) = Some c \<and> cl_havePose c"
  using assms(2) find_host_inv [OF assms(1)] by (auto simp: host_reject_def split: if_splits option.splits)

lemma query_clients [simp]: "rt_clients (pending_query r p t) = rt_clients r"
  by (simp add: pending_query_def Let_def sends)

lemma pending_hello_gate:
  assumes inv: "core_inv r" and f: "frame_of buf Hello"
    and ch: "rt_clients (pending_hello r i buf (dec_header buf) t) \<noteq> rt_clients r"
  shows "hello_passes r buf"
proof -
  let ?h = "read_hello buf" and ?q = "snd (allow_rate (rt_helloRates r) (addr_key (pt_addr (rt_pendingTcp r ! i))) t 2)"
  let ?r = "r\<lparr>rt_helloRates := ?q\<rparr>"
  have ci: "core_inv ?r" using inv by simp
  have w: "?r\<lparr>rt_world := snd (find_host (rt_clients r) (rt_world r))\<rparr> = ?r"
    using find_host_inv [OF inv] by (simp add: same_world)
  have rej: "hello_reject r (dec_header buf) ?h = None"
    using ch by (auto simp: pending_hello_def Let_def sends split: if_splits option.splits)
  have host: "requires_host ?h \<Longrightarrow> host_reject ?r (fst (find_host (rt_clients ?r) (rt_world ?r))) = None"
    using ch w by (auto simp: pending_hello_def Let_def sends split: if_splits option.splits)
  have room: "same_key ?r ?h \<noteq> None \<or> int (length (rt_clients r)) < cfg_maxPlayers (rt_cfg r)"
    using ch w admit_full [of ?r ?h i _ t]
    by (force simp: pending_hello_def Let_def sends split: if_splits option.splits)
  show ?thesis
    using f hello_reject_None [OF rej] host_reject_None [OF ci host] room
    unfolding hello_passes_def Let_def by simp
qed

lemma pending_gate:
  assumes "core_inv r" and ch: "rt_clients (handle_pending_message r i buf t) \<noteq> rt_clients r"
  shows "hello_passes r buf"
proof -
  have "frame_of buf Hello" "rt_clients (pending_hello r i buf (dec_header buf) t) \<noteq> rt_clients r"
    using ch by (auto simp: handle_pending_message_def frame_of_def Let_def bad_header_def split: if_splits)
  with assms(1) show ?thesis by (intro pending_hello_gate)
qed

subsection \<open>A Hello that passes gets in\<close>

lemma passes_hello_reject:
  "hello_passes r buf \<Longrightarrow> hello_reject r (dec_header buf) (read_hello buf) = None"
  unfolding hello_passes_def Let_def hello_reject_def by (elim conjE) (simp split del: if_split, auto)

lemma host_nonzero:
  assumes "core_inv r" and "um_find (wo_hostPeerId (rt_world r)) (rt_clients r) = Some c"
  shows "wo_hostPeerId (rt_world r) \<noteq> 0"
  using core_inv_client(3) [OF assms] .

lemma passes_host_reject:
  assumes inv: "core_inv r" and "hello_passes r buf" and "requires_host (read_hello buf)"
  shows "host_reject r (fst (find_host (rt_clients r) (rt_world r))) = None" and "wo_hostPeerId (rt_world r) \<noteq> 0"
proof -
  from assms(2,3) obtain c where c: "um_find (wo_hostPeerId (rt_world r)) (rt_clients r) = Some c" "cl_havePose c"
    and l: "wo_hostLocation (rt_world r) = kCommonwealthWorldspace" by (auto simp: hello_passes_def Let_def)
  show h: "wo_hostPeerId (rt_world r) \<noteq> 0" by (rule host_nonzero [OF inv c(1)])
  have "rt_clients r \<noteq> []" using c(1) by (auto simp: amap)
  with c l h find_host_inv [OF inv] show "host_reject r (fst (find_host (rt_clients r) (rt_world r))) = None"
    by (simp add: host_reject_def)
qed

text \<open>The limit on Hellos of one address is the last thing in the way of \<^const>\<open>admit\<close>.\<close>

lemma passes_admit:
  fixes t :: f64
  assumes inv: "core_inv r" and p: "hello_passes r buf"
    and rate: "allow_rate (rt_helloRates r) (addr_key (pt_addr (rt_pendingTcp r ! i))) t 2 = (True, q)"
  shows "handle_pending_message r i buf t =
    admit (r\<lparr>rt_helloRates := q\<rparr>) i (read_hello buf) (requires_host (read_hello buf)) t"
proof -
  let ?r = "r\<lparr>rt_helloRates := q\<rparr>" and ?h = "read_hello buf"
  have ci: "core_inv ?r" and pq: "hello_passes ?r buf" using inv p by (simp_all add: hello_passes_def)
  have f: "frame_of buf Hello" using p by (simp add: hello_passes_def Let_def)
  have w: "?r\<lparr>rt_world := snd (find_host (rt_clients r) (rt_world r))\<rparr> = ?r"
    using find_host_inv [OF inv] by (simp add: same_world)
  have "handle_pending_message r i buf t = pending_hello r i buf (dec_header buf) t"
    using f frame_size [OF f] by (auto simp: handle_pending_message_def frame_of_def Let_def)
  also have "\<dots> = admit ?r i ?h (requires_host ?h) t"
    using passes_hello_reject [OF p] passes_host_reject(1) [OF ci pq] w
    by (auto simp: pending_hello_def Let_def rate)
  finally show ?thesis .
qed

lemma admit_new:
  assumes inv: "core_inv r" and "same_key r h = None" and "int (length (rt_clients r)) < cfg_maxPlayers (rt_cfg r)"
    and "req \<Longrightarrow> wo_hostPeerId (rt_world r) \<noteq> 0"
  shows "rt_clients (admit r i h req t) = rt_clients r @
    [(rt_nextPeer r, fresh_client (recorded r (hello_key h) (joined_rec (player_at r (hello_key h)) (hello_key h) h))
       (rt_pendingTcp r ! i) (hello_key h) h (joined_rec (player_at r (hello_key h)) (hello_key h) h) t
       (rt_nextPeer r) (make_udp_token (rt_token r)))]"
  using assms(2-4) join_new_clients [OF core_inv_recorded [OF inv]]
  by (auto simp: admit_eq Let_def same_key_def)

lemma admit_again:
  assumes inv: "core_inv r" and "same_key r h = Some (k, c)"
  shows "rt_clients (admit r i h req t) =
    um_upd k (\<lambda>_. reconnected (rt_pendingTcp r ! i) (hello_key h) h (joined_rec (player_at r (hello_key h)) (hello_key h) h)
      t (make_udp_token (rt_token r))
      (if cl_udpBound c then c\<lparr>cl_udpBound := False, cl_udpAddr := sockaddr_zero\<rparr> else c)) (rt_clients r)"
proof -
  have k: "um_find k (rt_clients r) = Some c" using find_client(1) [OF inv assms(2) [unfolded same_key_def]] by simp
  from reconnect_clients [of k "recorded r (hello_key h) rec" c for rec] k core_inv_um_ok [OF inv] assms(2)
  show ?thesis by (simp add: admit_eq Let_def same_key_def)
qed

subsection \<open>The number of clients\<close>

lemma length_um_erase: "length (um_erase k m) \<le> length m"
  by (simp add: um_erase_def)

lemma admit_length:
  assumes "core_inv r"
  shows "length (rt_clients (admit r i h req t)) \<le> max (length (rt_clients r)) (nat (cfg_maxPlayers (rt_cfg r)))"
proof (cases "same_key r h")
  case None
  then show ?thesis
    using join_new_clients [OF core_inv_recorded [OF assms]] by (auto simp: admit_eq Let_def same_key_def)
next
  case (Some kc)
  then have "rt_clients (admit r i h req t) = um_upd (fst kc) (\<lambda>_. reconnected (rt_pendingTcp r ! i) (hello_key h) h
      (joined_rec (player_at r (hello_key h)) (hello_key h) h) t (make_udp_token (rt_token r))
      (if cl_udpBound (snd kc) then (snd kc)\<lparr>cl_udpBound := False, cl_udpAddr := sockaddr_zero\<rparr> else snd kc))
      (rt_clients r)" using admit_again [OF assms, of h "fst kc" "snd kc"] by simp
  then show ?thesis by simp
qed

lemma pending_hello_cases:
  assumes inv: "core_inv r"
  shows "rt_clients (pending_hello r i buf hdr t) = rt_clients r \<or>
    (\<exists>q h req. pending_hello r i buf hdr t = admit (r\<lparr>rt_helloRates := q\<rparr>) i h req t)"
proof -
  let ?q = "snd (allow_rate (rt_helloRates r) (addr_key (pt_addr (rt_pendingTcp r ! i))) t 2)"
  have w: "r\<lparr>rt_helloRates := ?q, rt_world := snd (find_host (rt_clients r) (rt_world r))\<rparr> = r\<lparr>rt_helloRates := ?q\<rparr>"
    using find_host_inv [OF inv] by (simp add: same_world)
  show ?thesis unfolding pending_hello_def Let_def by (auto simp: sends w split: option.split)
qed

lemma pending_length:
  assumes inv: "core_inv r"
  shows "length (rt_clients (handle_pending_message r i buf t)) \<le>
    max (length (rt_clients r)) (nat (cfg_maxPlayers (rt_cfg r)))"
proof -
  have "core_inv (r\<lparr>rt_helloRates := q\<rparr>)" for q using inv by simp
  from admit_length [OF this] have adm: "length (rt_clients (admit (r\<lparr>rt_helloRates := q\<rparr>) i h req t)) \<le>
      max (length (rt_clients r)) (nat (cfg_maxPlayers (rt_cfg r)))" for q h req by simp
  from pending_hello_cases [OF inv]
  have "length (rt_clients (pending_hello r i buf hdr t)) \<le> max (length (rt_clients r)) (nat (cfg_maxPlayers (rt_cfg r)))"
    for hdr
  proof (rule disjE)
    assume "\<exists>q h req. pending_hello r i buf hdr t = admit (r\<lparr>rt_helloRates := q\<rparr>) i h req t"
    with adm show ?thesis by fastforce
  qed simp
  then show ?thesis by (simp add: handle_pending_message_def Let_def bad_header_def)
qed

lemma remove_all_length: "length (rt_clients (foldl (\<lambda>r p. remove_client r p (f r p) now) r ps)) \<le> length (rt_clients r)"
proof (induction ps arbitrary: r)
  case (Cons p ps)
  have "length (rt_clients (remove_client r p (f r p) now)) \<le> length (rt_clients r)" by (simp add: length_um_erase)
  from le_trans [OF Cons this] show ?case by simp
qed simp

lemma client_frame_length:
  assumes "core_inv r"
  shows "length (rt_clients (client_frame r k buf t now)) \<le> length (rt_clients r)"
proof -
  let ?r = "r\<lparr>rt_removePeers := [], rt_keepTcpPeers := []\<rparr>"
  have "quiet ?r (handle_tcp_message ?r k buf t now)" using core_inv_tcp_message [of ?r] assms by simp
  then have "length (rt_clients (handle_tcp_message ?r k buf t now)) = length (rt_clients r)"
    using quiet_length by fastforce
  with remove_all_length [of "\<lambda>r p. p \<in> set (rt_keepTcpPeers r)" now "handle_tcp_message ?r k buf t now"]
  show ?thesis by (simp add: client_frame_def Let_def)
qed

lemma apply_length:
  assumes inv: "core_inv r"
  shows "length (rt_clients (apply_inbound r ev t now)) \<le> max (length (rt_clients r)) (nat (cfg_maxPlayers (rt_cfg r)))"
proof (cases "ie_kind ev")
  case TcpAccept
  then show ?thesis by (simp add: apply_inbound_def)
next
  case TcpFrame
  have "length (rt_clients (pending_frame r i (ie_bytes ev) t)) \<le> max (length (rt_clients r)) (nat (cfg_maxPlayers (rt_cfg r)))" for i
    using pending_length [OF inv] by (simp add: pending_frame_def Let_def)
  moreover have "length (rt_clients (client_frame r k (ie_bytes ev) t now)) \<le> max (length (rt_clients r)) m" for k m
    by (rule max.coboundedI1 [OF client_frame_length [OF inv]])
  ultimately show ?thesis
    using TcpFrame by (simp add: apply_inbound_def tcp_frame_event_def split: option.split)
next
  case TcpClosed
  have "length (um_erase k (rt_clients r)) \<le> max (length (rt_clients r)) m"
    "length (um_erase k (um_upd j f (rt_clients r))) \<le> max (length (rt_clients r)) m" for j k m f
    using length_um_erase [of k "rt_clients r"] length_um_erase [of k "um_upd j f (rt_clients r)"] by simp_all
  with TcpClosed show ?thesis
    by (simp add: apply_inbound_def tcp_closed_event_def Let_def upd_client_def split: option.split)
next
  case UdpDatagram
  with core_inv_udp_packet [OF inv] quiet_length [of r "handle_udp_packet r (ie_bytes ev) (ie_addr ev) t"]
  show ?thesis by (simp add: apply_inbound_def)
qed

lemma passes_new_client:
  assumes inv: "core_inv r" and p: "hello_passes r buf" and new: "same_key r (read_hello buf) = None"
    and rate: "fst (allow_rate (rt_helloRates r) (addr_key (pt_addr (rt_pendingTcp r ! i))) t 2)"
  shows "\<exists>c. rt_clients (handle_pending_message r i buf t) = rt_clients r @ [(rt_nextPeer r, c)] \<and>
    cl_peerId c = rt_nextPeer r \<and> cl_connId c = pt_connId (rt_pendingTcp r ! i) \<and>
    cl_playerKey c = hello_key (read_hello buf) \<and> cl_udpToken c = make_udp_token (rt_token r) \<and> \<not> cl_udpBound c"
proof -
  let ?q = "snd (allow_rate (rt_helloRates r) (addr_key (pt_addr (rt_pendingTcp r ! i))) t 2)"
  let ?r = "r\<lparr>rt_helloRates := ?q\<rparr>" and ?h = "read_hello buf"
  have ci: "core_inv ?r" using inv by simp
  have a: "handle_pending_message r i buf t = admit ?r i ?h (requires_host ?h) t"
    using passes_admit [OF inv p, of i t ?q] rate by (simp add: prod_eq_iff)
  have room: "int (length (rt_clients ?r)) < cfg_maxPlayers (rt_cfg ?r)"
    using p new by (simp add: hello_passes_def Let_def)
  have host: "requires_host ?h \<Longrightarrow> wo_hostPeerId (rt_world ?r) \<noteq> 0" using passes_host_reject(2) [OF inv p] by simp
  show ?thesis
    using admit_new [OF ci _ room, where h = ?h and i = i and t = t and req = "requires_host ?h"] host new
    by (simp add: a fresh_client_def Let_def)
qed

subsection \<open>An example\<close>

definition ex_hello :: "string \<Rightarrow> hello" where
  "ex_hello key = make_hello key key True kCommonwealthWorldspace 0 0 0 0 0 0 False 0 0 []"

lemma ex_hello_read: "read_hello (enc_hello (ex_hello key)) = ex_hello key"
proof -
  have "dec_hello (enc_hello (ex_hello key)) = ex_hello key"
    by (rule hello_c.dec_enc_exact) (simp add: ex_hello_def made_wf)
  then show ?thesis by (simp add: read_hello_def ex_hello_def make_hello_def copy_cstr_stays zeros_def Let_def)
qed

lemma ex_hello_key:
  assumes "player_key_ok key"
  shows "hello_key (ex_hello key) = key"
proof -
  have "c_str (copy_cstr (zeros 32) key) = c_str (take 31 key)" using c_str_copy_cstr [of "zeros 32" key] by (simp add: zeros_def)
  moreover have "take 31 key = key" "nul \<notin> set key"
    using assms by (auto simp: player_key_ok_def kPlayerKeyMax_def list_all_iff key_char_def c_isalnum_def c_isalpha_def is_digit_def)
  ultimately show ?thesis
    using sanitize_idem [OF assms] by (simp add: hello_key_def ex_hello_def make_hello_def c_str_idem)
qed

lemma ex_hello_frame: "frame_of (enc_hello (ex_hello key)) Hello" "h_version (dec_header (enc_hello (ex_hello key))) = 12"
proof -
  have "delivers dec_hello Hello (ex_hello key) (enc_hello (ex_hello key))"
    by (rule hello_c.made_delivers) (simp_all add: ex_hello_def made_wf)
  then show "frame_of (enc_hello (ex_hello key)) Hello"
    using hello_c.enc_len [of "ex_hello key"] by (simp add: delivers_def frame_of_def ex_hello_def made_wf sizeof_Header_def)
  show "h_version (dec_header (enc_hello (ex_hello key))) = 12"
    using hello_c.hdr_enc [of "ex_hello key" "[]"]
    by (simp add: ex_hello_def made_wf) (simp add: fill_header_def kProtocolVersion_def)
qed

lemma ex_hello_passes:
  assumes "player_key_ok key" and "key \<noteq> ''eve''"
  shows "hello_passes ex_rt (enc_hello (ex_hello key))"
proof -
  have "cfg_password default_config = []" "cfg_maxPlayers default_config = 8" by (simp_all add: default_config_def)
  moreover have "he_protocol (ex_hello key) = 12" "he_pluginVersion (ex_hello key) = kPluginVersion"
    "he_inWorld (ex_hello key) = 1" "\<not> requires_host (ex_hello key)"
    by (simp_all add: ex_hello_def make_hello_def flag_u8_def requires_host_def kProtocolVersion_def)
  ultimately show ?thesis
    using assms ex_hello_frame [of key]
    by (simp add: hello_passes_def Let_def ex_hello_read ex_hello_key kProtocolVersion_def)
qed

lemma ex_rate: "fst (allow_rate (rt_helloRates ex_rt) key 0 2)"
  by (simp add: allow_rate_def rate_step_def rate_get_def rate_default_def amap f64_of_int_def ieee_eval Let_def)

lemma ex_cat: "player_key_ok ''cat''"
  by (simp add: player_key_ok_def kPlayerKeyMax_def key_char_def c_isalnum_def c_isalpha_def is_digit_def)

subsection \<open>Nobody else gets in\<close>

lemma remove_all_keys:
  "fst ` set (rt_clients (foldl (\<lambda>r p. remove_client r p (f r p) now) r ps)) \<subseteq> fst ` set (rt_clients r)"
proof (induction ps arbitrary: r)
  case (Cons p ps)
  have "fst ` set (rt_clients (remove_client r p (f r p) now)) \<subseteq> fst ` set (rt_clients r)" by (auto simp: keys_um_erase)
  from subset_trans [OF Cons this] show ?case by simp
qed simp

lemma client_frame_keys:
  assumes "core_inv r"
  shows "fst ` set (rt_clients (client_frame r k buf t now)) \<subseteq> fst ` set (rt_clients r)"
proof -
  let ?r = "r\<lparr>rt_removePeers := [], rt_keepTcpPeers := []\<rparr>"
  have "quiet ?r (handle_tcp_message ?r k buf t now)" using core_inv_tcp_message [of ?r] assms by simp
  from quiet_keys [OF this] remove_all_keys [of "\<lambda>r p. p \<in> set (rt_keepTcpPeers r)" now "handle_tcp_message ?r k buf t now"]
  show ?thesis by (simp add: client_frame_def Let_def)
qed

text \<open>
  C4: a peer enters the session only through a Hello that passed every check: when a peer id appears
  in the table of clients, the event was a frame on a pending connection holding a Hello of the right
  protocol and plugin version, from a player in the world whose key is not banned, with the server's
  password and mod list, with a live host in the Commonwealth when it asked for one, and there was
  room.
\<close>

theorem join_gate:
  assumes inv: "core_inv r" and new: "k \<in> fst ` set (rt_clients (apply_inbound r ev t now))" "k \<notin> fst ` set (rt_clients r)"
  shows "ie_kind ev = TcpFrame \<and> find_pending r (ie_connId ev) \<noteq> None \<and> hello_passes r (ie_bytes ev)"
proof (cases "ie_kind ev")
  case TcpAccept
  with new show ?thesis by (simp add: apply_inbound_def)
next
  case TcpFrame
  then have e: "apply_inbound r ev t now = tcp_frame_event r ev t now" by (simp add: apply_inbound_def)
  have no: "k \<notin> fst ` set (rt_clients (client_frame r p (ie_bytes ev) t now))" for p
    using client_frame_keys [OF inv, of p "ie_bytes ev" t now] new(2) by blast
  with new e obtain i where i: "find_pending r (ie_connId ev) = Some i"
    and "k \<in> fst ` set (rt_clients (pending_frame r i (ie_bytes ev) t))"
    by (auto simp: tcp_frame_event_def split: if_splits option.splits)
  then have "rt_clients (handle_pending_message r i (ie_bytes ev) t) \<noteq> rt_clients r"
    using new(2) by (auto simp: pending_frame_def Let_def split: if_splits)
  from pending_gate [OF inv this] i TcpFrame show ?thesis by simp
next
  case TcpClosed
  with new show ?thesis
    by (auto simp: apply_inbound_def tcp_closed_event_def Let_def upd_client_def keys_um_erase keys_um_upd
        split: option.splits if_splits)
next
  case UdpDatagram
  with core_inv_udp_packet [OF inv] quiet_keys [of r "handle_udp_packet r (ie_bytes ev) (ie_addr ev) t"] new
  show ?thesis by (simp add: apply_inbound_def)
qed

theorem join_gate_witness:
  "let ev = \<lparr>ie_kind = TcpFrame, ie_connId = 3, ie_peerId = 0, ie_addr = ex_addr 3, ie_bytes = enc_hello (ex_hello ''cat'')\<rparr>
   in 3 \<in> fst ` set (rt_clients (apply_inbound ex_rt ev 0 0)) \<and> hello_passes ex_rt (ie_bytes ev)"
proof -
  let ?b = "enc_hello (ex_hello ''cat'')"
  let ?ev = "\<lparr>ie_kind = TcpFrame, ie_connId = 3, ie_peerId = 0, ie_addr = ex_addr 3, ie_bytes = ?b\<rparr>"
  have "same_key ex_rt (read_hello ?b) = None" by (simp add: same_key_def ex_hello_read ex_hello_key ex_cat)
  from passes_new_client [OF ex_rt_core ex_hello_passes [OF ex_cat] this ex_rate, of 0]
  have "3 \<in> fst ` set (rt_clients (handle_pending_message ex_rt 0 ?b 0))" by auto
  then have new: "3 \<in> fst ` set (rt_clients (apply_inbound ex_rt ?ev 0 0))"
    by (simp add: apply_inbound_def tcp_frame_event_def find_pending_def pending_frame_def Let_def)
  from join_gate [OF ex_rt_core this] new show ?thesis by (simp add: Let_def)
qed

text \<open>
  The way in is open to a Hello that passes: on a connection within its rate, with a key nobody
  holds, it adds one client at the end of the table under the next peer id, owning the connection the
  Hello came in on and holding the sanitized key and a fresh token; everyone else stays as they were.
\<close>

lemma hello_admitted:
  assumes inv: "core_inv r" and p: "hello_passes r buf" and new: "same_key r (read_hello buf) = None"
    and rate: "fst (allow_rate (rt_helloRates r) (addr_key (pt_addr (rt_pendingTcp r ! i))) t 2)"
  shows "\<exists>c. rt_clients (handle_pending_message r i buf t) = rt_clients r @ [(rt_nextPeer r, c)] \<and>
    cl_peerId c = rt_nextPeer r \<and> cl_connId c = pt_connId (rt_pendingTcp r ! i) \<and>
    cl_playerKey c = hello_key (read_hello buf) \<and> cl_udpToken c = make_udp_token (rt_token r) \<and> \<not> cl_udpBound c"
  using assms by (rule passes_new_client)

lemma hello_admitted_witness:
  "\<exists>c. rt_clients (handle_pending_message ex_rt 0 (enc_hello (ex_hello ''cat'')) 0) = rt_clients ex_rt @ [(3, c)] \<and>
     cl_connId c = 3 \<and> cl_playerKey c = ''cat''"
proof -
  have "same_key ex_rt (read_hello (enc_hello (ex_hello ''cat''))) = None"
    by (simp add: same_key_def ex_hello_read ex_hello_key ex_cat)
  from hello_admitted [OF ex_rt_core ex_hello_passes [OF ex_cat] this ex_rate, of 0] show ?thesis
    by (auto simp: ex_hello_read ex_hello_key ex_cat)
qed

lemma passes_reconnect:
  assumes inv: "core_inv r" and p: "hello_passes r buf" and old: "same_key r (read_hello buf) = Some (k, c)"
    and rate: "fst (allow_rate (rt_helloRates r) (addr_key (pt_addr (rt_pendingTcp r ! i))) t 2)"
  shows "\<exists>c'. rt_clients (handle_pending_message r i buf t) = um_upd k (\<lambda>_. c') (rt_clients r) \<and>
    cl_peerId c' = k \<and> cl_playerKey c' = cl_playerKey c \<and> cl_connId c' = pt_connId (rt_pendingTcp r ! i) \<and>
    cl_udpToken c' = make_udp_token (rt_token r) \<and> \<not> cl_udpBound c'"
proof -
  let ?q = "snd (allow_rate (rt_helloRates r) (addr_key (pt_addr (rt_pendingTcp r ! i))) t 2)"
  let ?r = "r\<lparr>rt_helloRates := ?q\<rparr>" and ?h = "read_hello buf"
  have ci: "core_inv ?r" using inv by simp
  have a: "handle_pending_message r i buf t = admit ?r i ?h (requires_host ?h) t"
    using passes_admit [OF inv p, of i t ?q] rate by (simp add: prod_eq_iff)
  have f: "um_find k (rt_clients r) = Some c" "cl_playerKey c = hello_key ?h"
    using find_client [OF inv old [unfolded same_key_def]] by simp_all
  have pk: "cl_peerId c = k" by (rule core_inv_client(2) [OF inv f(1)])
  let ?c = "reconnected (rt_pendingTcp ?r ! i) (hello_key ?h) ?h (joined_rec (player_at ?r (hello_key ?h)) (hello_key ?h) ?h) t
      (make_udp_token (rt_token ?r)) (if cl_udpBound c then c\<lparr>cl_udpBound := False, cl_udpAddr := sockaddr_zero\<rparr> else c)"
  have "same_key ?r ?h = Some (k, c)" using old by simp
  from admit_again [OF ci this] have "rt_clients (handle_pending_message r i buf t) = um_upd k (\<lambda>_. ?c) (rt_clients r)"
    by (simp add: a)
  moreover have "cl_peerId ?c = k \<and> cl_playerKey ?c = cl_playerKey c \<and> cl_connId ?c = pt_connId (rt_pendingTcp r ! i) \<and>
    cl_udpToken ?c = make_udp_token (rt_token r) \<and> \<not> cl_udpBound ?c"
    by (simp add: reconnected_def pk f(2))
  ultimately show ?thesis by blast
qed

text \<open>A Hello within its rate that does not pass is answered by a Reject, and changes no client.\<close>

lemma hello_refused:
  assumes inv: "core_inv r" and f: "frame_of buf Hello" and p: "\<not> hello_passes r buf"
    and rate: "fst (allow_rate (rt_helloRates r) (addr_key (pt_addr (rt_pendingTcp r ! i))) t 2)"
  shows "\<exists>r0 reason txt'. handle_pending_message r i buf t = reject_conn r0 (pt_connId (rt_pendingTcp r ! i)) reason txt' \<and>
    rt_clients r0 = rt_clients r"
proof -
  let ?q = "snd (allow_rate (rt_helloRates r) (addr_key (pt_addr (rt_pendingTcp r ! i))) t 2)"
  let ?r = "r\<lparr>rt_helloRates := ?q\<rparr>" and ?h = "read_hello buf" and ?conn = "pt_connId (rt_pendingTcp r ! i)"
  have ci: "core_inv ?r" using inv by simp
  have w: "?r\<lparr>rt_world := snd (find_host (rt_clients r) (rt_world r))\<rparr> = ?r"
    using find_host_inv [OF inv] by (simp add: same_world)
  have "handle_pending_message r i buf t = pending_hello r i buf (dec_header buf) t"
    using f frame_size [OF f] by (auto simp: handle_pending_message_def frame_of_def Let_def)
  also have "\<dots> = (case hello_reject ?r (dec_header buf) ?h of
      Some rej \<Rightarrow> reject_conn ?r ?conn (fst rej) (snd rej)
    | None \<Rightarrow> if \<not> requires_host ?h then admit ?r i ?h False t
        else case host_reject ?r (fst (find_host (rt_clients ?r) (rt_world ?r))) of
               Some rej \<Rightarrow> reject_conn ?r ?conn (fst rej) (snd rej)
             | None \<Rightarrow> admit ?r i ?h True t)"
    using rate w unfolding pending_hello_def Let_def by (simp split: option.split)
  finally have e: "handle_pending_message r i buf t = \<dots>" .
  have full: "admit ?r i ?h req t = reject_conn ?r ?conn RR_Full ''server full''"
    if "hello_reject ?r (dec_header buf) ?h = None"
      "requires_host ?h \<longrightarrow> host_reject ?r (fst (find_host (rt_clients ?r) (rt_world ?r))) = None" for req
  proof -
    have "\<not> (same_key r ?h \<noteq> None \<or> int (length (rt_clients r)) < cfg_maxPlayers (rt_cfg r))"
      using p f hello_reject_None [OF that(1)] host_reject_None [OF ci] that(2)
      unfolding hello_passes_def Let_def by auto
    then show ?thesis by (simp add: admit_def Let_def same_key_def)
  qed
  have "\<exists>rs tx. handle_pending_message r i buf t = reject_conn ?r ?conn rs tx"
  proof (cases "hello_reject ?r (dec_header buf) ?h")
    case None
    show ?thesis
    proof (cases "requires_host ?h")
      case True
      with None full show ?thesis
        unfolding e by (cases "host_reject ?r (fst (find_host (rt_clients ?r) (rt_world ?r)))") auto
    qed (use None full in \<open>auto simp: e\<close>)
  qed (auto simp: e)
  then obtain rs tx where "handle_pending_message r i buf t = reject_conn ?r ?conn rs tx" by blast
  then show ?thesis by (intro exI [of _ ?r] exI [of _ rs] exI [of _ tx]) simp
qed

text \<open>
  C27: a player who says Hello again on a new connection takes over its own entry: the table keeps the
  same peers in the same places, the entry keeps its peer id and moves to the new connection, its old
  UDP address is unbound and its token replaced, and no other entry changes.
\<close>

theorem reconnect_keeps_peer:
  assumes inv: "core_inv r" and p: "hello_passes r buf" and old: "same_key r (read_hello buf) = Some (k, c)"
    and rate: "fst (allow_rate (rt_helloRates r) (addr_key (pt_addr (rt_pendingTcp r ! i))) t 2)"
  shows "\<exists>c'. rt_clients (handle_pending_message r i buf t) = um_upd k (\<lambda>_. c') (rt_clients r) \<and>
    cl_peerId c' = k \<and> cl_playerKey c' = cl_playerKey c \<and> cl_connId c' = pt_connId (rt_pendingTcp r ! i) \<and>
    cl_udpToken c' = make_udp_token (rt_token r) \<and> \<not> cl_udpBound c'"
  using assms by (rule passes_reconnect)

theorem reconnect_keeps_peer_witness:
  "\<exists>c'. rt_clients (handle_pending_message ex_rt 0 (enc_hello (ex_hello ''bob'')) 0) =
     [(1, ex_client 1 ''ann''), (2, c')] \<and> cl_peerId c' = 2 \<and> cl_connId c' = 3"
proof -
  have "same_key ex_rt (read_hello (enc_hello (ex_hello ''bob''))) = Some (2, ex_client 2 ''bob'')"
    by (simp add: same_key_def ex_hello_read ex_hello_key ex_keys)
  from reconnect_keeps_peer [OF ex_rt_core ex_hello_passes [OF ex_keys(2)] this ex_rate, of 0] show ?thesis
    by (auto simp: um_upd_def)
qed

text \<open>
  The server never takes in more players than it is configured for: no event makes the table of
  clients longer than the larger of what it was and \<^verbatim>\<open>maxPlayers\<close>.
\<close>

lemma capacity_respected:
  assumes "core_inv r"
  shows "length (rt_clients (apply_inbound r ev t now)) \<le> max (length (rt_clients r)) (nat (cfg_maxPlayers (rt_cfg r)))"
  using assms by (rule apply_length)

lemma capacity_respected_witness:
  "length (rt_clients (apply_inbound ex_rt
     \<lparr>ie_kind = TcpClosed, ie_connId = 3, ie_peerId = 0, ie_addr = ex_addr 3, ie_bytes = []\<rparr> 0 0)) \<le> 8"
  using capacity_respected [OF ex_rt_core] by (simp add: default_config_def)

end
