(* ===== verification/Relay.thy ===== *)
theory Relay
  imports Joining Example
begin

text \<open>
  What clients can make the server do to others: every message of a client as it reaches the handler,
  the commands it leaves in the outbound queue, and the things it cannot do.
\<close>

subsection \<open>From a frame to its branch\<close>

lemma tcp_frame_dispatch:
  assumes "frame_of buf m" and "\<not> msg_is_udp m" and "um_find k (rt_clients r) = Some c"
  shows "handle_tcp_message r k buf t now =
    tcp_dispatch (upd_client r k (\<lambda>c. c\<lparr>cl_lastSeen := t\<rparr>)) k (c\<lparr>cl_lastSeen := t\<rparr>) (Some m) buf t now"
  using assms by (simp add: handle_tcp_message_def frame_of_def Let_def type_is_udp_def upd_client_def amap)

lemma udp_frame_client:
  assumes inv: "core_inv r" and "frame_of buf m" and "msg_is_udp m" and "m \<noteq> UdpBind"
    and "um_find (addr_key from') (rt_udpPeerByAddr r) = Some k" and "um_find k (rt_clients r) = Some c"
  shows "handle_udp_packet r buf from' t =
    udp_from_client (r\<lparr>rt_datagrams := rt_datagrams r + 1\<rparr>) k (Some m) buf t"
  using assms by (simp add: handle_udp_packet_def frame_of_def Let_def type_is_udp_def find_by_udp_def)

lemma for_clients_unless:
  "for_clients (\<lambda>r k c. if P k c then r else send_udp r d (f k c)) r =
   out_cmds r (each_client (rt_clients r) (\<lambda>k c. if P k c then [] else udp_cmds d (f k c)))"
  by (rule for_clients_out) (simp add: sends)

lemma each_client_others:
  "each_client (um_upd k f cs) (\<lambda>oid other. if oid \<noteq> k \<and> P other then g other else []) =
   each_client cs (\<lambda>oid other. if oid \<noteq> k \<and> P other then g other else [])"
  "each_client (um_upd k f cs) (\<lambda>oid other. if oid \<noteq> k then g other else []) =
   each_client cs (\<lambda>oid other. if oid \<noteq> k then g other else [])"
  by (induction cs) (auto simp: each_client_def um_upd_def)

subsection \<open>Datagrams\<close>

text \<open>
  A datagram from an address no client is bound to does nothing but count: unless it is a
  \<^verbatim>\<open>UdpBind\<close>, no player moves, no record changes and nothing is sent, whatever peer id it carries.
\<close>

lemma unbound_datagram_ignored:
  assumes inv: "core_inv r" and "\<not> frame_of buf UdpBind"
    and unbound: "\<And>k c. um_find k (rt_clients r) = Some c \<Longrightarrow> cl_udpBound c \<Longrightarrow> \<not> same_addr (cl_udpAddr c) from'"
  shows "\<exists>bad. handle_udp_packet r buf from' t = r\<lparr>rt_datagrams := rt_datagrams r + 1, rt_badHeaders := bad\<rparr>"
proof -
  let ?r = "r\<lparr>rt_datagrams := rt_datagrams r + 1\<rparr>"
  have ci: "core_inv ?r" using inv by simp
  have "fst (find_by_udp ?r from') = None"
  proof (rule ccontr)
    assume "fst (find_by_udp ?r from') \<noteq> None"
    then obtain k where "fst (find_by_udp ?r from') = Some k" by blast
    from find_by_udp_bound [OF ci this] unbound show False by (auto simp: same_addr_iff)
  qed
  with assms(2) find_by_udp_live [OF ci, of from']
  have "handle_udp_packet r buf from' t = ?r \<or> handle_udp_packet r buf from' t = bad_header ?r"
    by (auto simp: handle_udp_packet_def Let_def frame_of_def)
  moreover have "\<exists>bad. ?r = r\<lparr>rt_datagrams := rt_datagrams r + 1, rt_badHeaders := bad\<rparr>"
    by (rule exI [of _ "rt_badHeaders r"]) (cases r, simp)
  moreover have "\<exists>bad. bad_header ?r = r\<lparr>rt_datagrams := rt_datagrams r + 1, rt_badHeaders := bad\<rparr>"
    by (rule exI [of _ "rt_badHeaders r + 1"]) (simp add: bad_header_def)
  ultimately show ?thesis by (elim disjE ssubst)
qed

lemma udp_bind_effect:
  assumes inv: "core_inv r" and f: "frame_of buf UdpBind"
  shows "let b = dec_udp_bind buf; r' = handle_udp_packet r buf from' t
    in case um_find (ub_peerId b) (rt_clients r) of
         None \<Rightarrow> r' = r\<lparr>rt_datagrams := rt_datagrams r + 1\<rparr>
       | Some c \<Rightarrow>
           if cl_udpToken c \<noteq> ub_udpToken b then r' = r\<lparr>rt_datagrams := rt_datagrams r + 1\<rparr>
           else fst (find_by_udp r' from') = Some (ub_peerId b) \<and>
             (\<exists>c'. um_find (ub_peerId b) (rt_clients r') = Some c' \<and> cl_udpBound c' \<and> cl_udpAddr c' = from')"
proof -
  let ?b = "dec_udp_bind buf"
  let ?r = "r\<lparr>rt_datagrams := rt_datagrams r + 1\<rparr>"
  have e: "handle_udp_packet r buf from' t = udp_bind_msg ?r buf from' t"
    using f frame_size [OF f] by (simp add: handle_udp_packet_def frame_of_def Let_def type_is_udp_def)
  show ?thesis
  proof (cases "um_find (ub_peerId ?b) (rt_clients r)")
    case None
    then show ?thesis by (simp add: e udp_bind_msg_def Let_def)
  next
    case (Some c)
    have tok: "cl_udpToken c \<noteq> 0" and pk: "cl_peerId c = ub_peerId ?b"
      using core_inv_client(1,2) [OF inv Some] by (simp_all add: client_ok_def)
    have "fst ` set (rt_clients (unbind_udp ?r k)) = fst ` set (rt_clients r)" for k by simp
    then obtain d where d: "um_find (ub_peerId ?b) (rt_clients (unbind_udp ?r (ub_peerId ?b))) = Some d"
      using Some um_find_None_iff um_find_in_keys [OF Some] by (metis not_Some_eq)
    show ?thesis
      using Some tok pk d by (simp add: e udp_bind_msg_def Let_def for_clients_unless find_by_udp_def upd_client_def amap)
  qed
qed

text \<open>Which addresses are attributed to which peer: what nothing but a \<^verbatim>\<open>UdpBind\<close> may add to.\<close>

definition binds_nothing :: "server_runtime \<Rightarrow> server_runtime \<Rightarrow> bool" where
  "binds_nothing r r' \<longleftrightarrow>
     (\<forall>a p. um_find a (rt_udpPeerByAddr r') = Some p \<longrightarrow> um_find a (rt_udpPeerByAddr r) = Some p)"

lemma binds_same: "rt_udpPeerByAddr r' = rt_udpPeerByAddr r \<Longrightarrow> binds_nothing r r'"
  by (simp add: binds_nothing_def)

lemma binds_trans: "binds_nothing r1 r2 \<Longrightarrow> binds_nothing r2 r3 \<Longrightarrow> binds_nothing r1 r3"
  by (simp add: binds_nothing_def)

lemma binds_from_same: "rt_udpPeerByAddr r = rt_udpPeerByAddr r1 \<Longrightarrow> binds_nothing r r' \<longleftrightarrow> binds_nothing r1 r'"
  by (simp add: binds_nothing_def)

lemma udp_upd_client [simp]: "rt_udpPeerByAddr (upd_client r k f) = rt_udpPeerByAddr r"
  by (simp add: upd_client_def)

lemma udp_pending_same [simp]: "rt_udpPeerByAddr (clear_pending r i) = rt_udpPeerByAddr r" "rt_udpPeerByAddr (bad_header r) = rt_udpPeerByAddr r"
  "rt_udpPeerByAddr (keep_pending r k c now) = rt_udpPeerByAddr r" "rt_udpPeerByAddr (host_hello r h) = rt_udpPeerByAddr r"
  by (simp_all add: clear_pending_def bad_header_def keep_pending_def host_hello_def sends Let_def)

lemma binds_unbind: "binds_nothing r (unbind_udp r k)"
  by (auto simp: binds_nothing_def unbind_udp_def amap split: option.splits if_splits)

lemma binds_remove: "binds_nothing r (remove_client r k keepTcp now)"
proof (cases "um_find k (rt_clients r)")
  case (Some c)
  define r2 where "r2 = (let r1 = (case um_find (cl_playerKey c) (rt_players r) of
      Some _ \<Rightarrow> r\<lparr>rt_dirtyPlayers := us_insert (cl_playerKey c) (rt_dirtyPlayers r)\<rparr> | None \<Rightarrow> r)
    in if cl_peerId c = wo_hostPeerId (rt_world r1) then r1\<lparr>rt_world := (rt_world r1)\<lparr>wo_hostPeerId := 0\<rparr>\<rparr> else r1)"
  have 2: "rt_udpPeerByAddr r2 = rt_udpPeerByAddr r"
    by (simp add: r2_def Let_def split: option.split)
  have "rt_udpPeerByAddr (remove_client r k keepTcp now) = rt_udpPeerByAddr (unbind_udp r2 k)"
    by (simp add: remove_client_def Some Let_def r2_def [unfolded Let_def, symmetric] sends)
  then show ?thesis
    using binds_unbind [of r2 k] 2 by (simp add: binds_nothing_def)
qed (simp add: remove_client_none binds_same)

lemma binds_remove_all: "binds_nothing r (foldl (\<lambda>r p. remove_client r p (K r p) now) r ps)"
  by (induction ps arbitrary: r) (auto intro: binds_same binds_trans [OF binds_remove])

lemma udp_finish_join [simp]: "rt_udpPeerByAddr (finish_join r i k h q n rec) = rt_udpPeerByAddr r"
  by (simp add: finish_join_def Let_def sends split: option.split)

lemma binds_soft: "binds_nothing r (soft_reconnect r k p key h rec t)"
proof (cases "um_find k (rt_clients r)")
  case (Some c)
  then have "rt_udpPeerByAddr (soft_reconnect r k p key h rec t) = rt_udpPeerByAddr (unbind_udp r k)"
    by (simp add: soft_reconnect_def Let_def sends)
  then show ?thesis
    using binds_unbind [of r k] by (simp add: binds_nothing_def)
qed (simp add: soft_reconnect_def binds_same)

lemma udp_join_new [simp]: "rt_udpPeerByAddr (join_new r i p key h rec q t) = rt_udpPeerByAddr r"
  by (simp add: join_new_def Let_def sends)

lemma binds_admit: "binds_nothing r (admit r i h q t)"
proof -
  have "binds_nothing r (finish_join (soft_reconnect r2 k p key h rec t) i k h q n rec')"
    if "rt_udpPeerByAddr r2 = rt_udpPeerByAddr r" for r2 k p key rec n rec'
    using binds_soft [of r2 k p key h rec t] that by (simp add: binds_nothing_def)
  then show ?thesis
    by (auto simp: admit_def Let_def sends binds_same split: option.split)
qed

lemma binds_pending: "binds_nothing r (handle_pending_message r i buf t)"
proof -
  have "binds_nothing r (admit r2 i h q t)" if "rt_udpPeerByAddr r2 = rt_udpPeerByAddr r" for r2 h q
    using binds_admit [of r2 i h q t] that by (simp add: binds_nothing_def)
  then have "binds_nothing r (pending_hello r i buf hdr t)" for hdr
    by (auto simp: pending_hello_def Let_def sends binds_same split: option.split)
  then show ?thesis
    by (auto simp: handle_pending_message_def pending_query_def Let_def sends binds_same)
qed

lemma binds_tcp: "binds_nothing r (handle_tcp_message r k buf t now)"
proof -
  have again: "binds_nothing r (tcp_hello_again r1 k c)" if "rt_udpPeerByAddr r1 = rt_udpPeerByAddr r" for r1 c
  proof -
    have "rt_udpPeerByAddr (tcp_hello_again r1 k c) =
        rt_udpPeerByAddr (unbind_udp (upd_client (r1\<lparr>rt_token := make_udp_token (rt_token r1)\<rparr>) k
          (\<lambda>c. c\<lparr>cl_udpToken := make_udp_token (rt_token r1)\<rparr>)) k)"
      by (simp add: tcp_hello_again_def Let_def sends)
    then show ?thesis
      using binds_unbind [of "upd_client (r1\<lparr>rt_token := make_udp_token (rt_token r1)\<rparr>) k
          (\<lambda>c. c\<lparr>cl_udpToken := make_udp_token (rt_token r1)\<rparr>)" k] that
      by (simp add: binds_nothing_def)
  qed
  have blob: "rt_udpPeerByAddr (tcp_blob r1 k c ty buf t now) = rt_udpPeerByAddr r1" for r1 c ty
    by (simp add: tcp_blob_def blob_done_def set_asms_def Let_def sends split: option.split)
  have rest: "rt_udpPeerByAddr (tcp_bye r1 c) = rt_udpPeerByAddr r1" "rt_udpPeerByAddr (tcp_world_snapshot r1 c buf) = rt_udpPeerByAddr r1"
    "rt_udpPeerByAddr (tcp_heartbeat r1 c buf) = rt_udpPeerByAddr r1" "rt_udpPeerByAddr (tcp_chat r1 c buf t) = rt_udpPeerByAddr r1"
    "rt_udpPeerByAddr (tcp_kick r1 c buf) = rt_udpPeerByAddr r1" "rt_udpPeerByAddr (tcp_teleport r1 c buf) = rt_udpPeerByAddr r1"
    "rt_udpPeerByAddr (tcp_hit r1 c buf t) = rt_udpPeerByAddr r1" for r1 c
    by (simp_all add: tcp_bye_def tcp_world_snapshot_def tcp_heartbeat_def tcp_chat_def tcp_kick_def tcp_teleport_def tcp_hit_def Let_def sends)
  have "binds_nothing r (tcp_dispatch r1 k c ty buf t now)" if "rt_udpPeerByAddr r1 = rt_udpPeerByAddr r" for r1 c ty
    using that again [OF that, of c] by (simp add: tcp_dispatch_def Let_def binds_same blob rest)
  then show ?thesis
    by (auto simp: handle_tcp_message_def Let_def binds_same split: option.split)
qed

lemma binds_client_frame: "binds_nothing r (client_frame r k buf t now)"
proof -
  let ?r1 = "handle_tcp_message (r\<lparr>rt_removePeers := [], rt_keepTcpPeers := []\<rparr>) k buf t now"
  have "binds_nothing r ?r1"
    using binds_tcp [of "r\<lparr>rt_removePeers := [], rt_keepTcpPeers := []\<rparr>" k buf t now] by (simp add: binds_nothing_def)
  from binds_trans [OF this binds_remove_all [where K = "\<lambda>r p. p \<in> set (rt_keepTcpPeers r)"]]
  show ?thesis
    by (simp add: client_frame_def Let_def binds_nothing_def)
qed

lemma binds_events: "binds_nothing r (tcp_frame_event r ev t now)" "binds_nothing r (tcp_closed_event r ev now)"
proof -
  have "binds_nothing r (pending_frame r i buf t)" for i buf
    using binds_pending [of r i buf t] by (simp add: pending_frame_def Let_def binds_nothing_def)
  then show "binds_nothing r (tcp_frame_event r ev t now)"
    by (auto simp: tcp_frame_event_def binds_client_frame binds_same split: option.split)
  have "binds_nothing r (remove_client r1 p False now)" if "rt_udpPeerByAddr r1 = rt_udpPeerByAddr r" for r1 p
    using binds_remove [of r1 p False now] that by (simp add: binds_nothing_def)
  then show "binds_nothing r (tcp_closed_event r ev now)"
    by (auto simp: tcp_closed_event_def Let_def binds_same split: option.split)
qed

lemma udp_for_clients:
  assumes "\<And>r k c. rt_udpPeerByAddr (body r k c) = rt_udpPeerByAddr r"
  shows "rt_udpPeerByAddr (for_clients body r) = rt_udpPeerByAddr r"
proof -
  have "rt_udpPeerByAddr (foldl (\<lambda>r kc. body r (fst kc) (snd kc)) r kcs) = rt_udpPeerByAddr r" for kcs
    by (induction kcs arbitrary: r) (simp_all add: assms)
  then show ?thesis by (simp add: for_clients_def)
qed

lemma udp_poses: "rt_udpPeerByAddr (udp_player_pose r k c buf t) = rt_udpPeerByAddr r"
  "rt_udpPeerByAddr (udp_actor_pose r c buf) = rt_udpPeerByAddr r"
  by (auto simp: udp_player_pose_def udp_actor_pose_def Let_def udp_for_clients send_udp_out)

text \<open>Of all datagrams only a \<^verbatim>\<open>UdpBind\<close> with the token adds an entry, that of its sender.\<close>

lemma binds_datagram:
  assumes inv: "core_inv r" and a: "um_find a (rt_udpPeerByAddr (handle_udp_packet r buf from' t)) = Some p"
    and new: "um_find a (rt_udpPeerByAddr r) \<noteq> Some p"
  shows "frame_of buf UdpBind \<and> a = addr_key from' \<and> p = ub_peerId (dec_udp_bind buf) \<and>
    (\<exists>c. um_find p (rt_clients r) = Some c \<and> cl_udpToken c = ub_udpToken (dec_udp_bind buf))"
proof -
  let ?r = "r\<lparr>rt_datagrams := rt_datagrams r + 1\<rparr>"
  have pose: "rt_udpPeerByAddr (udp_from_client r1 k ty buf t) = rt_udpPeerByAddr r1" for r1 k ty
    by (simp add: udp_from_client_def udp_poses Let_def split: option.split)
  have find: "binds_nothing ?r (snd (find_by_udp ?r from'))"
    by (auto simp: find_by_udp_def binds_nothing_def amap split: option.split)
  have bind: "frame_of buf UdpBind"
  proof (rule ccontr)
    assume "\<not> frame_of buf UdpBind"
    then have "binds_nothing ?r (handle_udp_packet r buf from' t)"
      using find by (auto simp: handle_udp_packet_def Let_def frame_of_def binds_same binds_nothing_def pose split: option.split)
    with a new show False by (simp add: binds_nothing_def)
  qed
  let ?b = "dec_udp_bind buf"
  have e: "handle_udp_packet r buf from' t = udp_bind_msg ?r buf from' t"
    using bind frame_size [OF bind] by (simp add: handle_udp_packet_def frame_of_def Let_def type_is_udp_def)
  from a new obtain c where c: "um_find (ub_peerId ?b) (rt_clients r) = Some c" "cl_udpToken c = ub_udpToken ?b"
    by (auto simp: e udp_bind_msg_def Let_def split: option.splits if_splits)
  have tok: "cl_udpToken c \<noteq> 0" and pk: "cl_peerId c = ub_peerId ?b"
    using core_inv_client(1,2) [OF inv c(1)] by (simp_all add: client_ok_def)
  have "um_find a (um_put (addr_key from') (ub_peerId ?b) (rt_udpPeerByAddr (unbind_udp ?r (ub_peerId ?b)))) = Some p"
    using a c tok pk by (simp add: e udp_bind_msg_def Let_def for_clients_unless)
  moreover have "um_find a (rt_udpPeerByAddr (unbind_udp ?r (ub_peerId ?b))) \<noteq> Some p"
    using binds_unbind [of ?r "ub_peerId ?b"] new by (auto simp: binds_nothing_def)
  ultimately show ?thesis
    using bind c by (auto simp: amap split: if_splits)
qed

text \<open>
  C7: an address is bound to a peer only with that peer's secret token. Whatever event reaches the server, an address that
  is attributed to a peer afterwards and was not before is the sender of a \<^verbatim>\<open>UdpBind\<close> datagram that names this peer and
  holds the token the server gave this client; no pose, heartbeat, TCP frame, accept or close binds anything. And
  a \<^verbatim>\<open>UdpBind\<close> with another token, or for a peer that is not connected, only counts; one with the
  right token binds the peer to the sender's address, which from then on is attributed to that peer.
\<close>

theorem udp_bind_needs_token:
  assumes inv: "core_inv r"
  shows "(um_find a (rt_udpPeerByAddr (apply_inbound r ev t now)) = Some p \<longrightarrow>
      um_find a (rt_udpPeerByAddr r) = Some p \<or>
      (ie_kind ev = UdpDatagram \<and> frame_of (ie_bytes ev) UdpBind \<and> a = addr_key (ie_addr ev) \<and>
       p = ub_peerId (dec_udp_bind (ie_bytes ev)) \<and>
       (\<exists>c. um_find p (rt_clients r) = Some c \<and> cl_udpToken c = ub_udpToken (dec_udp_bind (ie_bytes ev))))) \<and>
    (frame_of buf UdpBind \<longrightarrow>
      (let b = dec_udp_bind buf; r' = handle_udp_packet r buf from' t
       in case um_find (ub_peerId b) (rt_clients r) of
            None \<Rightarrow> r' = r\<lparr>rt_datagrams := rt_datagrams r + 1\<rparr>
          | Some c \<Rightarrow>
              if cl_udpToken c \<noteq> ub_udpToken b then r' = r\<lparr>rt_datagrams := rt_datagrams r + 1\<rparr>
              else fst (find_by_udp r' from') = Some (ub_peerId b) \<and>
                (\<exists>c'. um_find (ub_peerId b) (rt_clients r') = Some c' \<and> cl_udpBound c' \<and> cl_udpAddr c' = from')))"
proof -
  have "um_find a (rt_udpPeerByAddr r) = Some p"
    if "ie_kind ev \<noteq> UdpDatagram" "um_find a (rt_udpPeerByAddr (apply_inbound r ev t now)) = Some p"
  proof -
    have "binds_nothing r (apply_inbound r ev t now)"
      using that(1) by (cases "ie_kind ev") (simp_all add: apply_inbound_def binds_events binds_same)
    with that(2) show ?thesis by (simp add: binds_nothing_def)
  qed
  with binds_datagram [OF inv, of a "ie_bytes ev" "ie_addr ev" t p] udp_bind_effect [OF inv]
  show ?thesis
    by (cases "ie_kind ev = UdpDatagram") (auto simp: apply_inbound_def)
qed

theorem udp_bind_needs_token_witness:
  "fst (find_by_udp (handle_udp_packet ex_rt (enc_udp_bind (make_udp_bind 2 102)) (ex_addr 9) 0) (ex_addr 9)) = Some 2 \<and>
   handle_udp_packet ex_rt (enc_udp_bind (make_udp_bind 2 103)) (ex_addr 9) 0 =
     ex_rt\<lparr>rt_datagrams := rt_datagrams ex_rt + 1\<rparr>"
proof -
  have d: "delivers dec_udp_bind UdpBind (make_udp_bind 2 tk) (enc_udp_bind (make_udp_bind 2 tk))" for tk
    by (rule udp_bind_c.made_delivers) (simp_all add: made_wf)
  have f: "frame_of (enc_udp_bind (make_udp_bind 2 tk)) UdpBind" for tk
    using d [of tk] udp_bind_c.enc_len [of "make_udp_bind 2 tk"]
    by (simp add: delivers_def frame_of_def made_wf sizeof_Header_def)
  have u: "dec_udp_bind (enc_udp_bind (make_udp_bind 2 tk)) = make_udp_bind 2 tk" for tk
    using d [of tk] by (simp add: delivers_def)
  note t1 = udp_bind_needs_token [OF ex_rt_core, THEN conjunct2, THEN mp, OF f [of 102], of "ex_addr 9" 0]
  note t2 = udp_bind_needs_token [OF ex_rt_core, THEN conjunct2, THEN mp, OF f [of 103], of "ex_addr 9" 0]
  have m: "ub_peerId (make_udp_bind 2 tk) = 2" "ub_udpToken (make_udp_bind 2 tk) = tk" for tk
    by (simp_all add: make_udp_bind_def)
  from t1 t2 show ?thesis unfolding Let_def u m by simp
qed

text \<open>
  C8: a pose is relayed under the id of the client its source address is bound to, whatever id the
  datagram carries: it becomes that client's last pose and goes, with the rest of its fields as sent,
  to exactly the other clients that are bound and within interest; nothing else is sent.
\<close>

theorem pose_relayed:
  assumes inv: "core_inv r" and f: "frame_of buf PlayerPose"
    and b: "um_find (addr_key from') (rt_udpPeerByAddr r) = Some k" and c: "um_find k (rt_clients r) = Some c"
    and rate: "fst (allow_rate (rt_poseRates r) (show_u32 k) t 30)"
  shows "let p = (dec_player_pose buf)\<lparr>pp_peerId := k, pp_header := fill_header (sizeof_msg PlayerPose) PlayerPose\<rparr>
    in \<exists>r1. handle_udp_packet r buf from' t = out_cmds r1 (each_client (rt_clients r) (\<lambda>oid other.
          if oid \<noteq> k \<and> cl_udpBound other \<and> in_interest_pose p True (cl_lastPose other) (cl_havePose other) (cfg_interestUu (rt_cfg r))
          then udp_cmds other (enc_player_pose p) else [])) \<and>
        rt_outbound r1 = rt_outbound r \<and>
        rt_clients r1 = um_upd k (\<lambda>c. c\<lparr>cl_lastSeen := t, cl_posesIn := cl_posesIn c + 1, cl_lastPose := p, cl_havePose := True\<rparr>)
          (rt_clients r)"
proof -
  let ?c = "c\<lparr>cl_lastSeen := t\<rparr>"
  let ?r = "upd_client (r\<lparr>rt_datagrams := rt_datagrams r + 1\<rparr>) k (\<lambda>c. c\<lparr>cl_lastSeen := t\<rparr>)"
  let ?p = "(dec_player_pose buf)\<lparr>pp_peerId := k, pp_header := fill_header (sizeof_msg PlayerPose) PlayerPose\<rparr>"
  let ?q = "snd (allow_rate (rt_poseRates r) (show_u32 k) t 30)"
  let ?s = "posed_state (?r\<lparr>rt_poseRates := ?q\<rparr>) k ?c buf"
  have pk: "cl_peerId c = k" by (rule core_inv_client(2) [OF inv c])
  have p: "pose_relay ?c buf = ?p" by (simp add: pose_relay_def pk)
  have "handle_udp_packet r buf from' t = udp_player_pose ?r k ?c buf t"
    using udp_frame_client [OF inv f _ _ b c] frame_size [OF f] c by (simp add: udp_from_client_def Let_def upd_client_def amap)
  also have "\<dots> = out_cmds ?s (pose_cmds ?s ?c buf)"
    using rate by (simp add: udp_player_pose_out Let_def pk) (simp add: upd_client_def)
  finally have e: "handle_udp_packet r buf from' t = out_cmds ?s (pose_cmds ?s ?c buf)" .
  have cs: "rt_clients ?s = um_upd k (\<lambda>_. posed_client ?c buf) (rt_clients r)"
    by (simp add: posed_state_def Let_def upd_client_def um_upd_twice)
  have "posed_client ?c buf = c\<lparr>cl_lastSeen := t, cl_posesIn := cl_posesIn c + 1, cl_lastPose := ?p, cl_havePose := True\<rparr>"
    by (simp add: posed_client_def p)
  with um_upd_at [OF c core_inv_um_ok [OF inv], of "\<lambda>c. c\<lparr>cl_lastSeen := t, cl_posesIn := cl_posesIn c + 1,
      cl_lastPose := ?p, cl_havePose := True\<rparr>"] cs
  have cs': "rt_clients ?s = um_upd k (\<lambda>c. c\<lparr>cl_lastSeen := t, cl_posesIn := cl_posesIn c + 1, cl_lastPose := ?p,
      cl_havePose := True\<rparr>) (rt_clients r)" by simp
  have k: "cl_peerId ?c = k" and cfg: "rt_cfg ?s = rt_cfg r"
    by (simp_all add: pk posed_state_def Let_def upd_client_def)
  have i: "in_interest_client (posed_client ?c buf) other u = in_interest_pose ?p True (cl_lastPose other) (cl_havePose other) u"
    for other u by (simp add: in_interest_client_def posed_client_def p)
  have "pose_cmds ?s ?c buf = each_client (rt_clients r) (\<lambda>oid other.
          if oid \<noteq> k \<and> cl_udpBound other \<and> in_interest_pose ?p True (cl_lastPose other) (cl_havePose other) (cfg_interestUu (rt_cfg r))
          then udp_cmds other (enc_player_pose ?p) else [])"
    unfolding pose_cmds_def cs' p k cfg i each_client_others ..
  moreover have "rt_outbound ?s = rt_outbound r" by (simp add: posed_state_def Let_def upd_client_def)
  ultimately show ?thesis unfolding Let_def by (intro exI [of _ ?s] conjI) (simp_all only: e cs')
qed

theorem pose_relayed_witness:
  "let p = make_pose 2 0x99 0 0 0 0 0 0 0 0 0
   in \<exists>r1. handle_udp_packet ex_rt (enc_player_pose (p\<lparr>pp_peerId := 1\<rparr>)) (ex_addr 2) 0 =
     out_cmds r1 (udp_cmds (ex_client 1 ''ann'') (enc_player_pose p))"
proof -
  let ?p = "make_pose 2 0x99 0 0 0 0 0 0 0 0 0"
  let ?b = "enc_player_pose (?p\<lparr>pp_peerId := 1\<rparr>)"
  have d: "delivers dec_player_pose PlayerPose (?p\<lparr>pp_peerId := 1\<rparr>) ?b"
    by (rule player_pose_c.made_delivers) (simp_all add: made_wf)
  have f: "frame_of ?b PlayerPose"
    using d player_pose_c.enc_len [of "?p\<lparr>pp_peerId := 1\<rparr>"] by (simp add: delivers_def frame_of_def made_wf sizeof_Header_def)
  have p: "(dec_player_pose ?b)\<lparr>pp_peerId := 2, pp_header := fill_header (sizeof_msg PlayerPose) PlayerPose\<rparr> = ?p"
    using d by (simp add: delivers_def make_pose_def)
  have b: "um_find (addr_key (ex_addr 2)) (rt_udpPeerByAddr ex_rt) = Some 2"
    by (simp add: um_find_def ex_addr_inject)
  have c: "um_find 2 (rt_clients ex_rt) = Some (ex_client 2 ''bob'')" by simp
  have rate: "fst (allow_rate (rt_poseRates ex_rt) (show_u32 2) 0 30)"
    by (simp add: allow_rate_def rate_step_def rate_get_def rate_default_def amap f64_of_int_def ieee_eval Let_def)
  have i: "in_interest_pose ?p True (make_pose 1 kCommonwealthWorldspace 0 0 0 0 0 0 0 0 0) True (cfg_interestUu default_config)"
    by (simp add: in_interest_pose_def in_interest_def make_pose_def kCommonwealthWorldspace_def)
  from pose_relayed [OF ex_rt_core f b c rate] show ?thesis
    unfolding Let_def p by (auto simp: each_client_def i)
qed

text \<open>
  A chat line reaches every other client once, under the id of the client whose connection it
  came in on, its text cut at 79 characters; the sender gets nothing, and a client over its rate
  sends nothing at all.
\<close>

lemma chat_relayed:
  assumes inv: "core_inv r" and f: "frame_of buf Chat" and c: "um_find k (rt_clients r) = Some c"
  shows "let rl = allow_rate (rt_chatRates r) (show_u32 k) t 4;
      r1 = (upd_client r k (\<lambda>c. c\<lparr>cl_lastSeen := t\<rparr>))\<lparr>rt_chatRates := snd rl\<rparr>;
      line = \<lparr>ch_header = fill_header (sizeof_msg Chat) Chat, ch_fromPeerId = k,
              ch_text = (ch_text (dec_chat buf))[79 := nul]\<rparr>
    in handle_tcp_message r k buf t now =
      (if fst rl then out_cmds r1 (each_client (rt_clients r)
         (\<lambda>oid other. if oid \<noteq> k then tcp_cmds other (enc_chat line) else [])) else r1)"
proof -
  have pk: "cl_peerId c = k" by (rule core_inv_client(2) [OF inv c])
  let ?r = "upd_client r k (\<lambda>c. c\<lparr>cl_lastSeen := t\<rparr>)" and ?c = "c\<lparr>cl_lastSeen := t\<rparr>"
  have h: "handle_tcp_message r k buf t now = tcp_chat ?r ?c buf t"
    using tcp_frame_dispatch [OF f _ c] frame_size [OF f] by (simp add: tcp_dispatch_def Let_def)
  have u: "rt_chatRates ?r = rt_chatRates r" "rt_clients ?r = um_upd k (\<lambda>c. c\<lparr>cl_lastSeen := t\<rparr>) (rt_clients r)"
    by (simp_all add: upd_client_def)
  have l: "chat_relay ?c buf = \<lparr>ch_header = fill_header (sizeof_msg Chat) Chat, ch_fromPeerId = k,
      ch_text = (ch_text (dec_chat buf))[79 := nul]\<rparr>" and k: "cl_peerId ?c = k"
    by (simp_all add: chat_relay_def pk)
  show ?thesis unfolding h tcp_chat_out Let_def u l k each_client_others ..
qed

lemma chat_relayed_witness:
  "\<exists>r1. handle_tcp_message ex_rt 2 (enc_chat (make_chat 1 ''hi'')) 0 0 =
     out_cmds r1 (tcp_cmds (ex_client 1 ''ann'') (enc_chat (make_chat 2 ''hi'')))"
proof -
  let ?m = "make_chat 1 ''hi''"
  have d: "delivers dec_chat Chat ?m (enc_chat ?m)" by (rule chat_c.made_delivers) (simp_all add: made_wf)
  have f: "frame_of (enc_chat ?m) Chat"
    using d chat_c.enc_len [of ?m] by (simp add: delivers_def frame_of_def made_wf sizeof_Header_def)
  have l: "\<lparr>ch_header = fill_header (sizeof_msg Chat) Chat, ch_fromPeerId = 2, ch_text = (ch_text (dec_chat (enc_chat ?m)))[79 := nul]\<rparr>
      = make_chat 2 ''hi''"
    using d by (simp add: delivers_def make_chat_def copy_cstr_def zeros_def numeral_eq_Suc)
  have rate: "fst (allow_rate (rt_chatRates ex_rt) (show_u32 2) 0 4)"
    by (simp add: allow_rate_def rate_step_def rate_get_def rate_default_def amap f64_of_int_def ieee_eval Let_def)
  have c: "um_find 2 (rt_clients ex_rt) = Some (ex_client 2 ''bob'')" by simp
  from chat_relayed [OF ex_rt_core f c, of 0 0] rate show ?thesis
    unfolding Let_def l by (auto simp: each_client_def)
qed

lemma each_client_key:
  assumes "clients_keyed cs"
  shows "each_client cs (\<lambda>_ other. if cl_peerId other = p then g other else []) =
    (case um_find p cs of None \<Rightarrow> [] | Some other \<Rightarrow> g other)"
  using assms
proof (induction cs)
  case (Cons kc cs)
  have IH: "each_client cs (\<lambda>_ other. if cl_peerId other = p then g other else []) =
      (case um_find p cs of None \<Rightarrow> [] | Some other \<Rightarrow> g other)"
    using Cons by (auto simp: clients_keyed_def um_ok_def)
  have "cl_peerId (snd kc) = fst kc" "fst kc \<notin> fst ` set cs" using Cons.prems by (auto simp: clients_keyed_def um_ok_def)
  moreover from this(2) have "um_find (fst kc) cs = None" by (simp add: um_find_None_iff)
  ultimately show ?case using IH by (cases kc) (auto simp: each_client_def um_find_def)
qed (simp add: each_client_def um_find_def)

text \<open>
  A hit is passed on only when the server allows PvP, the sender is within its rate, names itself
  as the attacker, names another peer as the target and does positive damage; then exactly the target
  gets it, with the damage cut to the server's limit. Otherwise nothing is sent.
\<close>

lemma hit_relayed:
  assumes inv: "core_inv r" and f: "frame_of buf Hit" and c: "um_find k (rt_clients r) = Some c"
  shows "let h = dec_hit buf; d = clamp_hit_damage (hi_damage h);
      h' = h\<lparr>hi_damage := d, hi_header := fill_header (sizeof_msg Hit) Hit\<rparr>
    in \<exists>r1. handle_tcp_message r k buf t now = out_cmds r1
         (if cfg_pvp (rt_cfg r) \<and> fst (allow_rate (rt_hitRates r) (show_u32 k) t 24) \<and> hi_attackerPeerId h = k \<and>
             hi_targetPeerId h \<notin> {0, k} \<and> \<not> f32_le d 0
          then (case um_find (hi_targetPeerId h) (rt_clients r) of None \<Rightarrow> [] | Some other \<Rightarrow> tcp_cmds other (enc_hit h'))
          else []) \<and>
       rt_outbound r1 = rt_outbound r \<and> rt_clients r1 = um_upd k (\<lambda>c. c\<lparr>cl_lastSeen := t\<rparr>) (rt_clients r)"
proof -
  let ?r = "upd_client r k (\<lambda>c. c\<lparr>cl_lastSeen := t\<rparr>)" and ?c = "c\<lparr>cl_lastSeen := t\<rparr>" and ?h = "dec_hit buf"
  have pk: "cl_peerId ?c = k" using core_inv_client(2) [OF inv c] by simp
  have h: "handle_tcp_message r k buf t now = tcp_hit ?r ?c buf t"
    using tcp_frame_dispatch [OF f _ c] frame_size [OF f] by (simp add: tcp_dispatch_def Let_def)
  have u: "rt_hitRates ?r = rt_hitRates r" "rt_cfg ?r = rt_cfg r" "rt_outbound ?r = rt_outbound r"
    "rt_clients ?r = um_upd k (\<lambda>c. c\<lparr>cl_lastSeen := t\<rparr>) (rt_clients r)" by (simp_all add: upd_client_def)
  have keyed: "clients_keyed (rt_clients ?r)" using core_inv_keyed [OF core_inv_seen(1) [OF inv]] .
  have t: "(case um_find p (rt_clients ?r) of None \<Rightarrow> [] | Some other \<Rightarrow> tcp_cmds other b) =
      (case um_find p (rt_clients r) of None \<Rightarrow> [] | Some other \<Rightarrow> tcp_cmds other b)" for p b
    by (simp add: u um_find_upd tcp_cmds_def split: option.split)
  let ?q = "snd (allow_rate (rt_hitRates r) (show_u32 k) t 24)"
  have e: "tcp_hit ?r ?c buf t = out_cmds (if cfg_pvp (rt_cfg r) then ?r\<lparr>rt_hitRates := ?q\<rparr> else ?r)
     (if cfg_pvp (rt_cfg r) \<and> fst (allow_rate (rt_hitRates r) (show_u32 k) t 24) \<and> hit_allowed ?c buf
      then (case um_find (hi_targetPeerId ?h) (rt_clients r) of None \<Rightarrow> [] | Some other \<Rightarrow> tcp_cmds other (enc_hit (hit_relay buf)))
      else [])"
    unfolding tcp_hit_out Let_def pk u(1,2) each_client_key [OF keyed] t by (simp del: upd_client_out)
  have a: "hit_allowed ?c buf \<longleftrightarrow> hi_attackerPeerId ?h = k \<and> hi_targetPeerId ?h \<notin> {0, k} \<and>
      \<not> f32_le (clamp_hit_damage (hi_damage ?h)) 0" by (auto simp: hit_allowed_def pk)
  let ?s = "if cfg_pvp (rt_cfg r) then ?r\<lparr>rt_hitRates := ?q\<rparr> else ?r"
  have s: "rt_outbound ?s = rt_outbound r" "rt_clients ?s = um_upd k (\<lambda>c. c\<lparr>cl_lastSeen := t\<rparr>) (rt_clients r)"
    by (simp_all add: u)
  show ?thesis
    unfolding Let_def h e a hit_relay_def by (intro exI [of _ ?s] conjI refl s)
qed

lemma hit_relayed_witness:
  "\<exists>r1. handle_tcp_message ex_rt 2 (enc_hit ((make_hit 2 1 0 0)\<lparr>hi_damage := f32_of_int 900\<rparr>)) 0 0 =
     out_cmds r1 (tcp_cmds (ex_client 1 ''ann'') (enc_hit ((make_hit 2 1 0 0)\<lparr>hi_damage := f32_of_int 500\<rparr>)))"
proof -
  let ?m = "(make_hit 2 1 0 0)\<lparr>hi_damage := f32_of_int 900\<rparr>"
  have d: "delivers dec_hit Hit ?m (enc_hit ?m)" by (rule hit_c.made_delivers) (simp_all add: made_wf)
  have f: "frame_of (enc_hit ?m) Hit"
    using d hit_c.enc_len [of ?m] by (simp add: delivers_def frame_of_def made_wf sizeof_Header_def)
  have m: "dec_hit (enc_hit ?m) = ?m" using d by (simp add: delivers_def)
  have dm: "clamp_hit_damage (f32_of_int 900) = f32_of_int 500" "\<not> f32_le (f32_of_int 500) 0"
    by (simp_all add: clamp_hit_damage_def f32_le_def f32_of_int_def ieee_eval)
  have h: "hi_damage ?m = f32_of_int 900" "hi_attackerPeerId ?m = 2" "hi_targetPeerId ?m = 1"
    "?m\<lparr>hi_damage := x, hi_header := fill_header (sizeof_msg Hit) Hit\<rparr> = (make_hit 2 1 0 0)\<lparr>hi_damage := x\<rparr>" for x
    by (simp_all add: make_hit_def)
  have rate: "fst (allow_rate (rt_hitRates ex_rt) (show_u32 2) 0 24)"
    by (simp add: allow_rate_def rate_step_def rate_get_def rate_default_def amap f64_of_int_def ieee_eval Let_def)
  have pvp: "cfg_pvp default_config" by (simp add: default_config_def)
  have c: "um_find 2 (rt_clients ex_rt) = Some (ex_client 2 ''bob'')" by simp
  from hit_relayed [OF ex_rt_core f c, of 0 0] show ?thesis
    unfolding Let_def m h dm using rate pvp dm(2) by auto
qed

text \<open>
  C38: what only the host may do, nobody else can: a world snapshot, a kick, a teleport or an actor
  pose of any other client changes nothing but when that client was last seen, and is sent to no one.
\<close>

theorem host_only:
  assumes inv: "core_inv r" and c: "um_find k (rt_clients r) = Some c" and g: "k \<noteq> wo_hostPeerId (rt_world r)"
    and f: "frame_of buf m" and m: "m \<in> {WorldSnapshot, Kick, Teleport}"
    and fa: "frame_of dgram ActorPose" and b: "um_find (addr_key from') (rt_udpPeerByAddr r) = Some k"
  shows "handle_tcp_message r k buf t now = upd_client r k (\<lambda>c. c\<lparr>cl_lastSeen := t\<rparr>) \<and>
    handle_udp_packet r dgram from' t =
      upd_client (r\<lparr>rt_datagrams := rt_datagrams r + 1\<rparr>) k (\<lambda>c. c\<lparr>cl_lastSeen := t\<rparr>)"
proof -
  have pk: "cl_peerId c = k" by (rule core_inv_client(2) [OF inv c])
  have "\<not> msg_is_udp m" "m \<notin> {AppearanceChunk, InventoryChunk}" using m by auto
  then have "handle_tcp_message r k buf t now = upd_client r k (\<lambda>c. c\<lparr>cl_lastSeen := t\<rparr>)"
    using tcp_frame_dispatch [OF f _ c, of t now] m g
    by (auto simp: tcp_dispatch_def tcp_world_snapshot_def tcp_kick_def tcp_teleport_def Let_def pk upd_client_def)
  moreover have "handle_udp_packet r dgram from' t =
      upd_client (r\<lparr>rt_datagrams := rt_datagrams r + 1\<rparr>) k (\<lambda>c. c\<lparr>cl_lastSeen := t\<rparr>)"
    using udp_frame_client [OF inv fa _ _ b c] g c
    by (simp add: udp_from_client_def Let_def udp_actor_pose_def pk upd_client_def amap)
  ultimately show ?thesis ..
qed

theorem host_only_witness:
  "handle_tcp_message ex_rt 2 (enc_kick (make_kick 1 ''bye'')) 0 0 = upd_client ex_rt 2 (\<lambda>c. c\<lparr>cl_lastSeen := 0\<rparr>)"
proof -
  let ?m = "make_kick 1 ''bye''" and ?a = "make_actor_pose 1 1 1 0 0 0 0 0 0 0 0 0 False False"
  have d: "delivers dec_kick Kick ?m (enc_kick ?m)" by (rule kick_c.made_delivers) (simp_all add: made_wf)
  have da: "delivers dec_actor_pose ActorPose ?a (enc_actor_pose ?a)" by (rule actor_pose_c.made_delivers) (simp_all add: made_wf)
  have f: "frame_of (enc_kick ?m) Kick"
    using d kick_c.enc_len [of ?m] by (simp add: delivers_def frame_of_def made_wf sizeof_Header_def)
  have fa: "frame_of (enc_actor_pose ?a) ActorPose"
    using da actor_pose_c.enc_len [of ?a] by (simp add: delivers_def frame_of_def made_wf sizeof_Header_def)
  have c: "um_find 2 (rt_clients ex_rt) = Some (ex_client 2 ''bob'')" by simp
  have b: "um_find (addr_key (ex_addr 2)) (rt_udpPeerByAddr ex_rt) = Some 2" by (simp add: um_find_def ex_addr_inject)
  from host_only [OF ex_rt_core c _ f _ fa b] show ?thesis by simp
qed

end
