(* ===== verification/Admin.thy ===== *)
theory Admin
  imports Invariant
begin

text \<open>
  \<^verbatim>\<open>server/src/admin_cmds.cpp\<close> and \<^verbatim>\<open>server/src/admin.hpp\<close>: the console line queue and the commands an
  operator can give. A command maps the runtime to a new one and says whether the server keeps
  running (\<^verbatim>\<open>g_running\<close>); what it prints is left out. \<open>fs\<close> is the file system \<^verbatim>\<open>reload\<close> reads.
\<close>

subsection \<open>The console\<close>

record AdminConsole =
  ac_running :: bool
  ac_lines :: "string list"

text \<open>One turn of the reader thread: \<open>None\<close> is the end of the input.\<close>

definition console_read :: "AdminConsole \<Rightarrow> string option \<Rightarrow> AdminConsole" where
  "console_read a input =
     (if \<not> ac_running a then a
      else case input of
        None \<Rightarrow> a\<lparr>ac_running := False\<rparr>
      | Some line \<Rightarrow> if line = [] then a else a\<lparr>ac_lines := ac_lines a @ [line]\<rparr>)"

definition console_poll :: "AdminConsole \<Rightarrow> string option \<times> AdminConsole" where
  "console_poll a =
     (case ac_lines a of [] \<Rightarrow> (None, a) | l # ls \<Rightarrow> (Some l, a\<lparr>ac_lines := ls\<rparr>))"

subsection \<open>Commands\<close>

definition join_words :: "string list \<Rightarrow> string" where
  "join_words ws = (case ws of [] \<Rightarrow> [] | w # rest \<Rightarrow> w @ concat (map (\<lambda>x. '' '' @ x) rest))"

definition kick_matches :: "string \<Rightarrow> client \<Rightarrow> bool" where
  "kick_matches target c \<longleftrightarrow> show_u32 (cl_peerId c) = target \<or> cl_playerKey c = target"

definition kick_client :: "server_runtime \<Rightarrow> u32 \<Rightarrow> client \<Rightarrow> bool \<Rightarrow> server_runtime" where
  "kick_client r k c doBan =
     (let r1 = (if doBan
                then persist_bans_async (r\<lparr>rt_bannedKeys := us_insert (cl_playerKey c) (rt_bannedKeys r)\<rparr>) else r);
          r2 = send_tcp r1 c (enc_bye (make_bye (cl_peerId c)));
          r3 = (case um_find (cl_playerKey c) (rt_players r2) of
                  Some _ \<Rightarrow> r2\<lparr>rt_dirtyPlayers := us_insert (cl_playerKey c) (rt_dirtyPlayers r2)\<rparr> | None \<Rightarrow> r2);
          r4 = (if cl_peerId c = wo_hostPeerId (rt_world r3)
                then r3\<lparr>rt_world := (rt_world r3)\<lparr>wo_hostPeerId := 0\<rparr>\<rparr> else r3);
          r5 = close_conn (unbind_udp r4 k) (cl_connId c);
          r6 = r5\<lparr>rt_clients := um_erase k (rt_clients r5)\<rparr>
      in r6\<lparr>rt_world := snd (find_host (rt_clients r6) (rt_world r6))\<rparr>)"

definition cmd_kick :: "server_runtime \<Rightarrow> string \<Rightarrow> bool \<Rightarrow> server_runtime" where
  "cmd_kick r target doBan =
     (case find (\<lambda>kc. kick_matches target (snd kc)) (rt_clients r) of
        None \<Rightarrow> r
      | Some kc \<Rightarrow> kick_client r (fst kc) (snd kc) doBan)"

definition cmd_say :: "server_runtime \<Rightarrow> string \<Rightarrow> server_runtime" where
  "cmd_say r txt = for_clients (\<lambda>r _ c. send_tcp r c (enc_chat (make_chat 0 txt))) r"

definition cmd_save :: "server_runtime \<Rightarrow> server_runtime" where
  "cmd_save r =
     flush_dirty_async
       (r\<lparr>rt_dirtyPlayers := foldl (\<lambda>d kc. us_insert (cl_playerKey (snd kc)) d) (rt_dirtyPlayers r) (rt_clients r),
          rt_worldDirty := True\<rparr>)"

definition cmd_maxplayers :: "server_runtime \<Rightarrow> string \<Rightarrow> server_runtime" where
  "cmd_maxplayers r arg =
     (case stoi arg of
        None \<Rightarrow> r
      | Some n \<Rightarrow> r\<lparr>rt_cfg := (rt_cfg r)\<lparr>cfg_maxPlayers := max 1 n\<rparr>\<rparr>)"

definition cut_password :: "string \<Rightarrow> string" where
  "cut_password p = (if length p > 15 then take 15 p else p)"

definition cmd_reload :: "server_runtime \<Rightarrow> files \<Rightarrow> string \<Rightarrow> server_runtime" where
  "cmd_reload r fs path =
     (case load_server_ini fs path (rt_cfg r) of (ok, re) \<Rightarrow>
        if \<not> ok then r
        else
          let r1 = r\<lparr>rt_cfg := (rt_cfg r)
                \<lparr>cfg_name := cfg_name re, cfg_motd := cfg_motd re, cfg_maxPlayers := cfg_maxPlayers re,
                 cfg_interestUu := cfg_interestUu re, cfg_jsonLog := cfg_jsonLog re, cfg_pvp := cfg_pvp re,
                 cfg_password := cut_password (cfg_password re)\<rparr>\<rparr>;
              r2 = (if cfg_modHash re \<noteq> 0
                    then r1\<lparr>rt_sessionModHash := cfg_modHash re, rt_cfg := (rt_cfg r1)\<lparr>cfg_modHash := cfg_modHash re\<rparr>\<rparr>
                    else r1)
          in broadcast_session_rules r2)"

definition cmd_pvp :: "server_runtime \<Rightarrow> string list \<Rightarrow> server_runtime" where
  "cmd_pvp r ws =
     (if length ws < 2 then r
      else
        let arg = lower_copy (ws ! 1)
        in if arg = ''on'' then broadcast_session_rules (r\<lparr>rt_cfg := (rt_cfg r)\<lparr>cfg_pvp := True\<rparr>\<rparr>)
           else if arg = ''off'' then broadcast_session_rules (r\<lparr>rt_cfg := (rt_cfg r)\<lparr>cfg_pvp := False\<rparr>\<rparr>)
           else r)"

definition cmd_password :: "server_runtime \<Rightarrow> string list \<Rightarrow> server_runtime" where
  "cmd_password r ws =
     (if length ws < 2 then r
      else broadcast_session_rules (r\<lparr>rt_cfg := (rt_cfg r)\<lparr>cfg_password := cut_password (ws ! 1)\<rparr>\<rparr>))"

definition cmd_ban :: "server_runtime \<Rightarrow> string \<Rightarrow> server_runtime" where
  "cmd_ban r arg =
     persist_bans_async (r\<lparr>rt_bannedKeys := us_insert (sanitize_player_key arg ''player'') (rt_bannedKeys r)\<rparr>)"

definition cmd_unban :: "server_runtime \<Rightarrow> string \<Rightarrow> server_runtime" where
  "cmd_unban r arg =
     persist_bans_async (r\<lparr>rt_bannedKeys := us_erase (sanitize_player_key arg ''player'') (rt_bannedKeys r)\<rparr>)"

definition cmd_motd :: "server_runtime \<Rightarrow> string list \<Rightarrow> server_runtime" where
  "cmd_motd r ws =
     (if length ws < 2 then r else r\<lparr>rt_cfg := (rt_cfg r)\<lparr>cfg_motd := join_words (tl ws)\<rparr>\<rparr>)"

definition admin_dispatch :: "server_runtime \<Rightarrow> files \<Rightarrow> string \<Rightarrow> string \<Rightarrow> string list \<Rightarrow> server_runtime" where
  "admin_dispatch r fs path cmd ws =
     (if cmd = ''kick'' \<and> length ws \<ge> 2
      then cmd_kick r (ws ! 1) (length ws \<ge> 3 \<and> lower_copy (ws ! 2) = ''ban'')
      else if cmd = ''say'' \<and> length ws \<ge> 2 then cmd_say r (join_words (tl ws))
      else if cmd = ''save'' then cmd_save r
      else if cmd = ''maxplayers'' \<and> length ws \<ge> 2 then cmd_maxplayers r (ws ! 1)
      else if cmd = ''reload'' then cmd_reload r fs path
      else if cmd = ''pvp'' then cmd_pvp r ws
      else if cmd = ''password'' then cmd_password r ws
      else if cmd = ''ban'' \<and> length ws \<ge> 2 then cmd_ban r (ws ! 1)
      else if cmd = ''unban'' \<and> length ws \<ge> 2 then cmd_unban r (ws ! 1)
      else if cmd = ''motd'' then cmd_motd r ws
      else r)"

definition run_admin_command :: "string \<Rightarrow> files \<Rightarrow> string \<Rightarrow> server_runtime \<times> bool \<Rightarrow> server_runtime \<times> bool" where
  "run_admin_command cmdLine fs path st =
     (let ws = split_words cmdLine
      in if ws = [] then st
         else
           let cmd = lower_copy (ws ! 0)
           in if cmd = ''quit'' \<or> cmd = ''exit'' then (fst st, False)
              else (admin_dispatch (fst st) fs path cmd ws, snd st))"

subsection \<open>Commands keep the invariant\<close>

definition kicked_state :: "server_runtime \<Rightarrow> u32 \<Rightarrow> client \<Rightarrow> server_runtime" where
  "kicked_state r k c =
     (unbind_udp r k)
       \<lparr>rt_dirtyPlayers := (if um_find (cl_playerKey c) (rt_players r) = None then rt_dirtyPlayers r
                            else us_insert (cl_playerKey c) (rt_dirtyPlayers r)),
        rt_clients := um_erase k (rt_clients r),
        rt_world := snd (find_host (um_erase k (rt_clients r)) (host_gone (rt_world r) (cl_peerId c)))\<rparr>"

definition banned_state :: "server_runtime \<Rightarrow> client \<Rightarrow> bool \<Rightarrow> server_runtime" where
  "banned_state r c doBan =
     (if doBan then persist_bans_async (r\<lparr>rt_bannedKeys := us_insert (cl_playerKey c) (rt_bannedKeys r)\<rparr>) else r)"

lemma bans_frame [simp]:
  "rt_clients (persist_bans_async r) = rt_clients r" "rt_pendingTcp (persist_bans_async r) = rt_pendingTcp r"
  "rt_world (persist_bans_async r) = rt_world r" "rt_players (persist_bans_async r) = rt_players r"
  "rt_bannedKeys (persist_bans_async r) = rt_bannedKeys r" "rt_outbound (persist_bans_async r) = rt_outbound r"
  "rt_cfg (persist_bans_async r) = rt_cfg r"
  by (simp_all add: persist_bans_async_def enqueue_def)

lemma banned_frame [simp]:
  "rt_clients (banned_state r c b) = rt_clients r" "rt_pendingTcp (banned_state r c b) = rt_pendingTcp r"
  by (simp_all add: banned_state_def)

lemma kick_client_eq:
  "kick_client r k c doBan =
     out_cmds (kicked_state (banned_state r c doBan) k c)
       (tcp_cmds c (enc_bye (make_bye (cl_peerId c))) @ close_cmds (cl_connId c))"
proof -
  let ?b = "banned_state r c doBan"
  define d where "d = (if um_find (cl_playerKey c) (rt_players ?b) = None then rt_dirtyPlayers ?b
                       else us_insert (cl_playerKey c) (rt_dirtyPlayers ?b))"
  define r4 where "r4 = ?b\<lparr>rt_dirtyPlayers := d, rt_world := host_gone (rt_world ?b) (cl_peerId c)\<rparr>"
  have e: "(if cl_peerId c = wo_hostPeerId (rt_world (case um_find (cl_playerKey c) (rt_players ?b) of
        None \<Rightarrow> out_cmds ?b cs
      | Some x \<Rightarrow> (out_cmds ?b cs)\<lparr>rt_dirtyPlayers := us_insert (cl_playerKey c) (rt_dirtyPlayers ?b)\<rparr>))
     then (case um_find (cl_playerKey c) (rt_players ?b) of None \<Rightarrow> out_cmds ?b cs
      | Some x \<Rightarrow> (out_cmds ?b cs)\<lparr>rt_dirtyPlayers := us_insert (cl_playerKey c) (rt_dirtyPlayers ?b)\<rparr>)
      \<lparr>rt_world := (rt_world (case um_find (cl_playerKey c) (rt_players ?b) of None \<Rightarrow> out_cmds ?b cs
      | Some x \<Rightarrow> (out_cmds ?b cs)\<lparr>rt_dirtyPlayers := us_insert (cl_playerKey c) (rt_dirtyPlayers ?b)\<rparr>))\<lparr>wo_hostPeerId := 0\<rparr>\<rparr>
     else (case um_find (cl_playerKey c) (rt_players ?b) of None \<Rightarrow> out_cmds ?b cs
      | Some x \<Rightarrow> (out_cmds ?b cs)\<lparr>rt_dirtyPlayers := us_insert (cl_playerKey c) (rt_dirtyPlayers ?b)\<rparr>)) = out_cmds r4 cs" for cs
    by (cases ?b) (auto simp: r4_def d_def host_gone_def out_cmds_def split: option.split)
  show ?thesis
    unfolding kick_client_def Let_def banned_state_def [symmetric] send_tcp_out out_cmds_frame e
    by (simp add: sends kicked_state_def d_def [symmetric] r4_def)
qed

lemma core_inv_kicked:
  assumes "core_inv r" and "um_find k (rt_clients r) = Some c"
  shows "core_inv (kicked_state r k c)"
  by (rule core_inv_frame [OF core_inv_removed [OF assms, of False undefined]])
     (simp_all add: kicked_state_def removed_state_def)

lemma runtime_inv_frame:
  assumes "runtime_inv r" and "core_inv r'" and "rt_pendingTcp r' = rt_pendingTcp r" and "set (rt_clients r') \<subseteq> set (rt_clients r)"
  shows "runtime_inv r'"
  using assms conns_inv_subset [of "rt_pendingTcp r" "rt_clients r" "rt_clients r'"] by (simp add: runtime_inv_def)

lemma runtime_inv_kick:
  assumes inv: "runtime_inv r"
  shows "runtime_inv (cmd_kick r target doBan)"
proof (cases "find (\<lambda>kc. kick_matches target (snd kc)) (rt_clients r)")
  case None
  with inv show ?thesis by (simp add: cmd_kick_def)
next
  case (Some kc)
  have c: "core_inv r" using inv by (simp add: runtime_inv_def)
  let ?b = "banned_state r (snd kc) doBan"
  have b: "core_inv ?b" using c by (auto simp: banned_state_def)
  have "um_find (fst kc) (rt_clients ?b) = Some (snd kc)" using find_client(1) [OF c Some] by simp
  from core_inv_kicked [OF b this] have "core_inv (kick_client r (fst kc) (snd kc) doBan)" by (simp add: kick_client_eq)
  moreover have "rt_pendingTcp (kick_client r (fst kc) (snd kc) doBan) = rt_pendingTcp r"
    by (simp add: kick_client_eq kicked_state_def)
  moreover have "set (rt_clients (kick_client r (fst kc) (snd kc) doBan)) \<subseteq> set (rt_clients r)"
    by (auto simp: kick_client_eq kicked_state_def set_um_erase)
  ultimately have "runtime_inv (kick_client r (fst kc) (snd kc) doBan)" by (rule runtime_inv_frame [OF inv])
  with Some show ?thesis by (simp add: cmd_kick_def)
qed

lemma runtime_inv_simple:
  "runtime_inv r \<Longrightarrow> core_inv r' \<Longrightarrow> rt_pendingTcp r' = rt_pendingTcp r \<Longrightarrow> rt_clients r' = rt_clients r \<Longrightarrow> runtime_inv r'"
  by (simp add: runtime_inv_def)

lemma runtime_inv_commands:
  assumes "runtime_inv r"
  shows "runtime_inv (cmd_say r txt)" and "runtime_inv (cmd_save r)" and "runtime_inv (cmd_maxplayers r arg)"
    and "runtime_inv (cmd_reload r fs path)" and "runtime_inv (cmd_pvp r ws)" and "runtime_inv (cmd_password r ws)"
    and "runtime_inv (cmd_ban r arg)" and "runtime_inv (cmd_unban r arg)" and "runtime_inv (cmd_motd r ws)"
proof -
  have c: "core_inv r" using assms by (simp add: runtime_inv_def)
  note s = runtime_inv_simple [OF assms]
  show "runtime_inv (cmd_say r txt)" by (rule s) (use c in \<open>simp_all add: cmd_say_def sends\<close>)
  have "core_inv (r\<lparr>rt_dirtyPlayers := d, rt_worldDirty := True\<rparr>)" for d using c by simp
  then show "runtime_inv (cmd_save r)" by (intro s) (auto simp: cmd_save_def)
  show "runtime_inv (cmd_maxplayers r arg)" "runtime_inv (cmd_motd r ws)"
    by (rule s; use c in \<open>simp add: cmd_maxplayers_def cmd_motd_def split: option.split\<close>)+
  show "runtime_inv (cmd_reload r fs path)" "runtime_inv (cmd_pvp r ws)" "runtime_inv (cmd_password r ws)"
    by (rule s; use c in \<open>simp add: cmd_reload_def cmd_pvp_def cmd_password_def broadcast_rules_out Let_def split: prod.split\<close>)+
  show "runtime_inv (cmd_ban r arg)" "runtime_inv (cmd_unban r arg)"
    by (rule s; use c in \<open>auto simp: cmd_ban_def cmd_unban_def\<close>)+
qed

lemma runtime_inv_admin:
  "runtime_inv (fst st) \<Longrightarrow> runtime_inv (fst (run_admin_command cmdLine fs path st))"
  using runtime_inv_commands [of "fst st"] runtime_inv_kick [of "fst st"]
  by (simp add: run_admin_command_def admin_dispatch_def Let_def)

end
