(* ===== verification/NetIo.thy ===== *)
theory NetIo
  imports ServerState
begin

text \<open>
  \<^verbatim>\<open>server/src/net_io.cpp\<close> and \<^verbatim>\<open>server/src/net_io.hpp\<close>: the network thread. It owns the sockets, turns bytes
  into inbound events and carries out outbound commands. The thread's state is a record; the results
  of the socket calls are arguments: the accepted addresses, the datagrams, the results of \<^verbatim>\<open>recv\<close> in
  the order of the calls, and a \<^verbatim>\<open>send\<close> function.
\<close>

record net_conn =
  nc_sockValid :: bool
  nc_addr :: sockaddr_in
  nc_recvBuf :: bytes
  nc_sendQ :: TcpSendQueue
  nc_peerId :: u32
  nc_connectedAt :: f64
  nc_wantOut :: bool

record net_io =
  ni_udpValid :: bool
  ni_inbound :: "inbound_event AsyncQueue"
  ni_outbound :: "outbound_cmd AsyncQueue"
  ni_conns :: "(u64, net_conn) umap"
  ni_peerToConn :: "(u32, u64) umap"
  ni_nextConnId :: u64
  ni_running :: bool
  ni_udpSent :: "(sockaddr_in \<times> bytes) list"

definition NetIo_init :: "inbound_event AsyncQueue \<Rightarrow> outbound_cmd AsyncQueue \<Rightarrow> net_io" where
  "NetIo_init inbound outbound =
   \<lparr>ni_udpValid = True, ni_inbound = inbound, ni_outbound = outbound, ni_conns = [], ni_peerToConn = [],
    ni_nextConnId = 1, ni_running = False, ni_udpSent = []\<rparr>"

text \<open>The errors that mean \<open>try again\<close>: \<^verbatim>\<open>EWOULDBLOCK\<close> and \<^verbatim>\<open>EAGAIN\<close> (11) and \<^verbatim>\<open>EINTR\<close> (4) on Linux.\<close>

definition udp_would_block :: "int \<Rightarrow> bool" where
  "udp_would_block err \<longleftrightarrow> err = 11 \<or> err = 4"

definition net_start :: "net_io \<Rightarrow> net_io" where
  "net_start n = n\<lparr>ni_running := True\<rparr>"

definition net_stop :: "net_io \<Rightarrow> net_io" where
  "net_stop n =
     (if \<not> ni_running n then n else n\<lparr>ni_running := False, ni_conns := [], ni_peerToConn := []\<rparr>)"

definition push_inbound :: "net_io \<Rightarrow> inbound_event \<Rightarrow> bool \<times> net_io" where
  "push_inbound n ev =
     (fst (aq_push (ni_inbound n) ev), n\<lparr>ni_inbound := snd (aq_push (ni_inbound n) ev)\<rparr>)"

definition net_close_conn :: "net_io \<Rightarrow> u64 \<Rightarrow> bool \<Rightarrow> net_io" where
  "net_close_conn n connId notifySim =
     (case um_find connId (ni_conns n) of
        None \<Rightarrow> n
      | Some c \<Rightarrow>
          let n1 = (if nc_peerId c \<noteq> 0 then n\<lparr>ni_peerToConn := um_erase (nc_peerId c) (ni_peerToConn n)\<rparr> else n);
              n2 = (if notifySim
                    then snd (push_inbound n1 \<lparr>ie_kind = TcpClosed, ie_connId = connId, ie_peerId = nc_peerId c,
                                ie_addr = nc_addr c, ie_bytes = []\<rparr>)
                    else n1)
          in n2\<lparr>ni_conns := um_erase connId (ni_conns n2)\<rparr>)"

definition upd_conn :: "net_io \<Rightarrow> u64 \<Rightarrow> (net_conn \<Rightarrow> net_conn) \<Rightarrow> net_io" where
  "upd_conn n connId f = n\<lparr>ni_conns := um_upd connId f (ni_conns n)\<rparr>"

subsection \<open>Outbound commands\<close>

text \<open>Drain the send queue of a connection; close it when the socket failed.\<close>

definition drain_conn :: "nb_send \<Rightarrow> net_io \<Rightarrow> u64 \<Rightarrow> net_conn \<Rightarrow> bool \<times> net_io" where
  "drain_conn f n connId c =
     (case sq_drain f (nc_sockValid c) (nc_sendQ c) of (res, q) \<Rightarrow>
        (dr_closed res, upd_conn n connId (\<lambda>c. c\<lparr>nc_sendQ := q, nc_wantOut := dr_wantPollOut res\<rparr>)))"

text \<open>The connection a command names, by its number or through the peer.\<close>

definition target_conn :: "net_io \<Rightarrow> outbound_cmd \<Rightarrow> u64" where
  "target_conn n cmd =
     (if oc_connId cmd \<noteq> 0 then oc_connId cmd
      else if oc_peerId cmd \<noteq> 0
      then (case um_find (oc_peerId cmd) (ni_peerToConn n) of Some cid \<Rightarrow> cid | None \<Rightarrow> 0)
      else 0)"

definition do_tcp_send :: "nb_send \<Rightarrow> net_io \<Rightarrow> outbound_cmd \<Rightarrow> net_io" where
  "do_tcp_send f n cmd =
     (let cid = target_conn n cmd
      in case (if cid = 0 then None else um_find cid (ni_conns n)) of
           None \<Rightarrow> n
         | Some c \<Rightarrow>
             if \<not> nc_sockValid c then n
             else
               let c1 = c\<lparr>nc_sendQ := snd (sq_append (nc_sendQ c) (oc_bytes cmd))\<rparr>;
                   d = drain_conn f (upd_conn n cid (\<lambda>_. c1)) cid c1
               in if fst d then net_close_conn (snd d) cid True else snd d)"

definition do_udp_send :: "net_io \<Rightarrow> outbound_cmd \<Rightarrow> net_io" where
  "do_udp_send n cmd =
     (if \<not> ni_udpValid n \<or> oc_bytes cmd = [] then n
      else n\<lparr>ni_udpSent := ni_udpSent n @ [(oc_addr cmd, oc_bytes cmd)]\<rparr>)"

definition do_bind_peer :: "net_io \<Rightarrow> u64 \<Rightarrow> u32 \<Rightarrow> net_io" where
  "do_bind_peer n connId peerId =
     (case um_find connId (ni_conns n) of
        None \<Rightarrow> n
      | Some c \<Rightarrow>
          let n1 = (if nc_peerId c \<noteq> 0 \<and> nc_peerId c \<noteq> peerId
                    then n\<lparr>ni_peerToConn := um_erase (nc_peerId c) (ni_peerToConn n)\<rparr> else n);
              n2 = (if peerId \<noteq> 0
                    then (let n' = (case um_find peerId (ni_peerToConn n1) of
                                      Some old \<Rightarrow> if old \<noteq> connId then net_close_conn n1 old False else n1
                                    | None \<Rightarrow> n1)
                          in n'\<lparr>ni_peerToConn := um_put peerId connId (ni_peerToConn n')\<rparr>)
                    else n1)
          in upd_conn n2 connId (\<lambda>c. c\<lparr>nc_peerId := peerId\<rparr>))"

definition do_close :: "net_io \<Rightarrow> outbound_cmd \<Rightarrow> net_io" where
  "do_close n cmd =
     (let cid = target_conn n cmd in if cid \<noteq> 0 then net_close_conn n cid False else n)"

definition do_keep_pending :: "net_io \<Rightarrow> u32 \<Rightarrow> f64 \<Rightarrow> net_io" where
  "do_keep_pending n peerId now =
     (case um_find peerId (ni_peerToConn n) of
        None \<Rightarrow> n
      | Some cid \<Rightarrow>
          let n1 = n\<lparr>ni_peerToConn := um_erase peerId (ni_peerToConn n)\<rparr>
          in if um_find cid (ni_conns n) = None then n1
             else upd_conn n1 cid (\<lambda>c. c\<lparr>nc_peerId := 0, nc_connectedAt := now\<rparr>))"

definition do_cmd :: "nb_send \<Rightarrow> f64 \<Rightarrow> net_io \<Rightarrow> outbound_cmd \<Rightarrow> net_io" where
  "do_cmd f now n cmd =
     (case oc_kind cmd of
        TcpSend \<Rightarrow> do_tcp_send f n cmd
      | UdpSend \<Rightarrow> do_udp_send n cmd
      | BindPeer \<Rightarrow> do_bind_peer n (oc_connId cmd) (oc_peerId cmd)
      | CloseConn \<Rightarrow> do_close n cmd
      | KeepPending \<Rightarrow> do_keep_pending n (oc_peerId cmd) now)"

text \<open>One turn of the loop of \<^verbatim>\<open>process_outbound\<close>.\<close>

definition process_one :: "nb_send \<Rightarrow> f64 \<Rightarrow> net_io \<Rightarrow> net_io" where
  "process_one f now n =
     (case aq_try_pop (ni_outbound n) of
        (None, _) \<Rightarrow> n
      | (Some cmd, q) \<Rightarrow> do_cmd f now (n\<lparr>ni_outbound := q\<rparr>) cmd)"

lemma um_upd_frame [simp]:
  "ni_outbound (upd_conn n k f) = ni_outbound n" "ni_inbound (upd_conn n k f) = ni_inbound n"
  "ni_peerToConn (upd_conn n k f) = ni_peerToConn n" "ni_nextConnId (upd_conn n k f) = ni_nextConnId n"
  "ni_conns (upd_conn n k f) = um_upd k f (ni_conns n)" "ni_udpSent (upd_conn n k f) = ni_udpSent n"
  "ni_running (upd_conn n k f) = ni_running n" "ni_udpValid (upd_conn n k f) = ni_udpValid n"
  by (simp_all add: upd_conn_def)

lemma close_outbound [simp]: "ni_outbound (net_close_conn n k b) = ni_outbound n"
  by (simp add: net_close_conn_def push_inbound_def Let_def split: option.split)

lemma do_cmd_outbound [simp]: "ni_outbound (do_cmd f now n cmd) = ni_outbound n"
  by (auto simp: do_cmd_def do_tcp_send_def drain_conn_def do_udp_send_def do_bind_peer_def do_close_def
      do_keep_pending_def Let_def split: outbound_kind.split option.split prod.split)

text \<open>
  \<^verbatim>\<open>process_outbound\<close>: pop and carry out until the queue is empty. \<open>fs\<close> gives each command its own
  \<^verbatim>\<open>send\<close>.
\<close>

function process_outbound :: "(nat \<Rightarrow> nb_send) \<Rightarrow> nat \<Rightarrow> f64 \<Rightarrow> net_io \<Rightarrow> net_io" where
  "process_outbound fs i now n =
     (if aq_q (ni_outbound n) = [] then n else process_outbound fs (i + 1) now (process_one (fs i) now n))"
  by pat_completeness auto
termination
  by (relation "measure (\<lambda>(fs, i, now, n). length (aq_q (ni_outbound n)))")
     (auto simp: process_one_def aq_try_pop_def split: list.splits)

declare process_outbound.simps [simp del]

subsection \<open>Inbound\<close>

definition accept_one :: "net_io \<Rightarrow> sockaddr_in \<Rightarrow> f64 \<Rightarrow> net_io" where
  "accept_one n from' now =
     (let connId = ni_nextConnId n;
          n1 = n\<lparr>ni_nextConnId := connId + 1,
                 ni_conns := um_emplace connId
                   \<lparr>nc_sockValid = True, nc_addr = from', nc_recvBuf = [], nc_sendQ = sq_init, nc_peerId = 0,
                    nc_connectedAt = now, nc_wantOut = False\<rparr> (ni_conns n)\<rparr>
      in snd (push_inbound n1 \<lparr>ie_kind = TcpAccept, ie_connId = connId, ie_peerId = 0, ie_addr = from', ie_bytes = []\<rparr>))"

definition accept_ready :: "net_io \<Rightarrow> sockaddr_in list \<Rightarrow> f64 \<Rightarrow> net_io" where
  "accept_ready n froms now = foldl (\<lambda>n a. accept_one n a now) n froms"

definition udp_one :: "net_io \<Rightarrow> sockaddr_in \<Rightarrow> bytes \<Rightarrow> net_io" where
  "udp_one n from' data =
     snd (push_inbound n \<lparr>ie_kind = UdpDatagram, ie_connId = 0, ie_peerId = 0, ie_addr = from',
       ie_bytes = take kMaxDatagram data\<rparr>)"

text \<open>The loop of \<^verbatim>\<open>poll_udp\<close> over the datagrams that are ready; an empty one ends it.\<close>

fun poll_udp :: "net_io \<Rightarrow> (sockaddr_in \<times> bytes) list \<Rightarrow> net_io" where
  "poll_udp n [] = n"
| "poll_udp n ((a, d) # ds) = (if d = [] then n else poll_udp (udp_one n a d) ds)"

definition frame_event :: "u64 \<Rightarrow> net_conn \<Rightarrow> bytes \<Rightarrow> inbound_event" where
  "frame_event connId c f =
     \<lparr>ie_kind = TcpFrame, ie_connId = connId, ie_peerId = nc_peerId c, ie_addr = nc_addr c, ie_bytes = f\<rparr>"

text \<open>Hand on every complete frame; a full queue closes the connection. True when it is still open.\<close>

function deliver_frames :: "net_io \<Rightarrow> u64 \<Rightarrow> net_conn \<Rightarrow> bytes \<Rightarrow> bool \<times> net_io" where
  "deliver_frames n connId c buf =
     (case tcp_try_extract_frame buf of
        (None, b) \<Rightarrow> (True, upd_conn n connId (\<lambda>c. c\<lparr>nc_recvBuf := b\<rparr>))
      | (Some f, b) \<Rightarrow>
          if fst (push_inbound n (frame_event connId c f))
          then deliver_frames (snd (push_inbound n (frame_event connId c f))) connId c b
          else (False, net_close_conn (snd (push_inbound n (frame_event connId c f))) connId True))"
  by pat_completeness auto
termination
  by (relation "measure (\<lambda>(n, connId, c, buf). length buf)") (auto dest: extract_shrinks [OF sym])

declare deliver_frames.simps [simp del]

text \<open>The receive loop; the list holds the results of the successive \<^verbatim>\<open>recv\<close> calls.\<close>

fun poll_in :: "net_io \<Rightarrow> u64 \<Rightarrow> recv_res list \<Rightarrow> net_io" where
  "poll_in n connId [] = n"
| "poll_in n connId (r # rs) =
     (case um_find connId (ni_conns n) of
        None \<Rightarrow> n
      | Some c \<Rightarrow>
          (case tcp_recv_append r (nc_recvBuf c) recv_max of (k, buf) \<Rightarrow>
             if k = 0 \<or> k = -2 then net_close_conn n connId True
             else if k < 0 then
               (case r of
                  RErr err \<Rightarrow> if udp_would_block err then n else net_close_conn n connId True
                | _ \<Rightarrow> n)
             else
               let d = deliver_frames n connId c buf
               in if fst d then poll_in (snd d) connId rs else snd d))"

definition kPollIn :: "16 word" where "kPollIn = 0x001"
definition kPollOut :: "16 word" where "kPollOut = 0x004"
definition kPollErr :: "16 word" where "kPollErr = 0x008"
definition kPollHup :: "16 word" where "kPollHup = 0x010"

definition poll_conn :: "nb_send \<Rightarrow> net_io \<Rightarrow> u64 \<Rightarrow> 16 word \<Rightarrow> recv_res list \<Rightarrow> net_io" where
  "poll_conn f n connId revents rs =
     (case um_find connId (ni_conns n) of
        None \<Rightarrow> n
      | Some c \<Rightarrow>
          if revents AND (kPollErr OR kPollHup) \<noteq> 0 then net_close_conn n connId True
          else
            let d = (if revents AND kPollOut \<noteq> 0 then drain_conn f n connId c else (False, n))
            in if fst d then net_close_conn (snd d) connId True
               else if revents AND kPollIn \<noteq> 0 then poll_in (snd d) connId rs
               else snd d)"

text \<open>What the loop asks \<^verbatim>\<open>poll\<close> to watch for each connection.\<close>

definition conn_events :: "net_conn \<Rightarrow> 16 word" where
  "conn_events c = (if nc_wantOut c \<or> \<not> sq_empty (nc_sendQ c) then kPollIn OR kPollOut else kPollIn)"

text \<open>What one call of \<^verbatim>\<open>poll\<close> and the socket calls after it deliver.\<close>

record net_env =
  ne_sends :: "nat \<Rightarrow> nb_send"
  ne_stillRunning :: bool
  ne_ready :: int
  ne_udpReady :: bool
  ne_datagrams :: "(sockaddr_in \<times> bytes) list"
  ne_listenReady :: bool
  ne_accepts :: "sockaddr_in list"
  ne_revents :: "u64 \<Rightarrow> 16 word"
  ne_connSend :: "u64 \<Rightarrow> nb_send"
  ne_recvs :: "u64 \<Rightarrow> recv_res list"
  ne_now :: f64

definition poll_all :: "net_env \<Rightarrow> net_io \<Rightarrow> u64 list \<Rightarrow> net_io" where
  "poll_all e n ids =
     foldl (\<lambda>n cid. if ne_revents e cid = 0 then n
                    else poll_conn (ne_connSend e cid) n cid (ne_revents e cid) (ne_recvs e cid)) n ids"

definition net_turn :: "net_env \<Rightarrow> net_io \<Rightarrow> net_io" where
  "net_turn e n0 =
     (let n = process_outbound (ne_sends e) 0 (ne_now e) n0;
          ids = map fst (ni_conns n)
      in if \<not> ne_stillRunning e \<or> ne_ready e \<le> 0 then n
         else
           let n1 = (if ne_udpReady e then poll_udp n (ne_datagrams e) else n);
               n2 = (if ne_listenReady e then accept_ready n1 (ne_accepts e) (ne_now e) else n1)
           in poll_all e n2 ids)"

subsection \<open>The invariant of the network thread\<close>

text \<open>
  The two tables agree: a peer is bound to a connection exactly when that connection carries the
  peer's id. Every connection has a number below the counter, a bounded send queue and less than
  one frame of the largest size in its buffer.
\<close>

definition peer_of :: "(u64, net_conn) umap \<Rightarrow> u64 \<Rightarrow> u32 option" where
  "peer_of cs cid = map_option nc_peerId (um_find cid cs)"

definition peers_inv :: "(u32, u64) umap \<Rightarrow> (u64, net_conn) umap \<Rightarrow> bool" where
  "peers_inv m cs \<longleftrightarrow> (\<forall>p cid. um_find p m = Some cid \<longleftrightarrow> p \<noteq> 0 \<and> peer_of cs cid = Some p)"

definition conn_ok :: "net_conn \<Rightarrow> bool" where
  "conn_ok c \<longleftrightarrow> sq_inv (nc_sendQ c) \<and> length (nc_recvBuf c) < kMaxTcpFrame"

definition net_inv :: "net_io \<Rightarrow> bool" where
  "net_inv n \<longleftrightarrow>
     peers_inv (ni_peerToConn n) (ni_conns n) \<and>
     (\<forall>cid c. um_find cid (ni_conns n) = Some c \<longrightarrow> cid \<noteq> 0 \<and> cid < ni_nextConnId n \<and> conn_ok c) \<and>
     ni_nextConnId n \<noteq> 0 \<and> aq_ok (ni_inbound n) \<and> aq_ok (ni_outbound n)"

lemma net_inv_conn: "net_inv n \<Longrightarrow> um_find cid (ni_conns n) = Some c \<Longrightarrow> conn_ok c \<and> cid \<noteq> 0 \<and> cid < ni_nextConnId n"
  by (simp add: net_inv_def)

lemma net_inv_push [simp]: "net_inv n \<Longrightarrow> net_inv (snd (push_inbound n ev))"
  by (simp add: net_inv_def push_inbound_def async.push_ok)

lemma push_frame [simp]:
  "ni_conns (snd (push_inbound n ev)) = ni_conns n" "ni_peerToConn (snd (push_inbound n ev)) = ni_peerToConn n"
  "ni_nextConnId (snd (push_inbound n ev)) = ni_nextConnId n"
  by (simp_all add: push_inbound_def)

lemma peer_of_erase [simp]: "peer_of (um_erase k cs) cid = (if cid = k then None else peer_of cs cid)"
  by (simp add: peer_of_def amap)

lemma peer_of_upd: "peer_of (um_upd k f cs) cid =
    (if cid = k then map_option (\<lambda>c. nc_peerId (f c)) (um_find k cs) else peer_of cs cid)"
  by (simp add: peer_of_def amap option.map_comp o_def)

lemma peers_inv_close:
  assumes "peers_inv m cs" and "um_find k cs = Some c"
  shows "peers_inv (if nc_peerId c \<noteq> 0 then um_erase (nc_peerId c) m else m) (um_erase k cs)"
proof -
  have k: "peer_of cs k = Some (nc_peerId c)" using assms(2) by (simp add: peer_of_def)
  have "um_find p m = Some cid \<longleftrightarrow> p \<noteq> 0 \<and> peer_of cs cid = Some p" for p cid
    using assms(1) by (simp add: peers_inv_def)
  then show ?thesis
    unfolding peers_inv_def using k by (auto simp: um_find_erase) (metis option.inject)+
qed

lemma net_inv_close: "net_inv n \<Longrightarrow> net_inv (net_close_conn n k b)"
proof -
  assume inv: "net_inv n"
  show ?thesis
  proof (cases "um_find k (ni_conns n)")
    case (Some c)
    from inv have "peers_inv (ni_peerToConn n) (ni_conns n)" by (simp add: net_inv_def)
    from peers_inv_close [OF this Some] inv Some show ?thesis
      by (auto simp: net_close_conn_def net_inv_def push_inbound_def Let_def async.push_ok amap split: if_splits)
  qed (use inv in \<open>simp add: net_close_conn_def\<close>)
qed

lemma net_close_conns [simp]: "ni_conns (net_close_conn n k b) = um_erase k (ni_conns n)"
proof (cases "um_find k (ni_conns n)")
  case None
  moreover have "um_find k m = None \<Longrightarrow> um_erase k m = m" for m :: "(u64, net_conn) umap"
    unfolding um_find_None_iff um_erase_def by (induction m) auto
  ultimately show ?thesis by (simp add: net_close_conn_def)
qed (simp add: net_close_conn_def Let_def)

lemma net_inv_upd:
  assumes "net_inv n" and "\<And>c. um_find k (ni_conns n) = Some c \<Longrightarrow> nc_peerId (f c) = nc_peerId c \<and> conn_ok (f c)"
  shows "net_inv (upd_conn n k f)"
proof -
  have "peer_of (um_upd k f (ni_conns n)) cid = peer_of (ni_conns n) cid" for cid
    using assms(2) by (cases "um_find k (ni_conns n)") (auto simp: peer_of_upd, auto simp: peer_of_def)
  then have "peers_inv (ni_peerToConn n) (um_upd k f (ni_conns n))"
    using assms(1) by (simp add: net_inv_def peers_inv_def)
  moreover have "um_find cid (um_upd k f (ni_conns n)) = Some c \<Longrightarrow> cid \<noteq> 0 \<and> cid < ni_nextConnId n \<and> conn_ok c" for cid c
    using assms by (auto simp: net_inv_def um_find_upd split: if_splits option.splits)
  ultimately show ?thesis using assms(1) by (simp add: net_inv_def)
qed

lemma sq_inv_drain: "nb_send_ok f \<Longrightarrow> sq_inv q \<Longrightarrow> sq_inv (snd (sq_drain f v q))"
  using tcp_fifo.flush_inv [of "(f, v)" q] by simp

lemma net_inv_drain:
  assumes "net_inv n" and "nb_send_ok f" and "conn_ok c" and "um_find k (ni_conns n) = Some c"
  shows "net_inv (snd (drain_conn f n k c))"
  using assms sq_inv_drain [of f "nc_sendQ c" "nc_sockValid c"]
  by (auto simp: drain_conn_def conn_ok_def split: prod.split intro!: net_inv_upd)

lemma net_inv_tcp_send:
  assumes inv: "net_inv n" and f: "nb_send_ok f"
  shows "net_inv (do_tcp_send f n cmd)"
proof -
  define cid where "cid = target_conn n cmd"
  have "net_inv (snd (drain_conn f (upd_conn n cid (\<lambda>_. c1)) cid c1))"
    if c: "um_find cid (ni_conns n) = Some c" and c1: "c1 = c\<lparr>nc_sendQ := snd (sq_append (nc_sendQ c) (oc_bytes cmd))\<rparr>" for c c1
  proof (rule net_inv_drain [OF _ f])
    have "sq_inv (nc_sendQ c)" using net_inv_conn [OF inv c] by (simp add: conn_ok_def)
    then show ok: "conn_ok c1" using net_inv_conn [OF inv c] by (simp add: c1 conn_ok_def tcp_fifo.app_inv)
    show "net_inv (upd_conn n cid (\<lambda>_. c1))" using inv c ok by (intro net_inv_upd) (simp_all add: c1)
    show "um_find cid (ni_conns (upd_conn n cid (\<lambda>_. c1))) = Some c1" using c by (simp add: amap)
  qed
  with inv show ?thesis
    by (auto simp: do_tcp_send_def Let_def cid_def [symmetric] intro: net_inv_close split: option.split)
qed

lemma peers_inv_bind:
  assumes inv: "peers_inv m cs" and c: "um_find k cs = Some c" and p: "p \<noteq> 0"
    and m1: "m1 = (if nc_peerId c \<noteq> 0 \<and> nc_peerId c \<noteq> p then um_erase (nc_peerId c) m else m)"
    and m2: "m2 = (case um_find p m1 of Some old \<Rightarrow> if old \<noteq> k then um_erase p m1 else m1 | None \<Rightarrow> m1)"
    and cs2: "cs2 = (case um_find p m1 of Some old \<Rightarrow> if old \<noteq> k then um_erase old cs else cs | None \<Rightarrow> cs)"
  shows "peers_inv (um_put p k m2) (um_upd k (\<lambda>c. c\<lparr>nc_peerId := p\<rparr>) cs2)"
proof -
  have m: "um_find q m = Some cid \<longleftrightarrow> q \<noteq> 0 \<and> peer_of cs cid = Some q" for q cid
    using inv by (simp add: peers_inv_def)
  have k: "peer_of cs k = Some (nc_peerId c)" using c by (simp add: peer_of_def)
  have pm1: "um_find p m1 = um_find p m" by (simp add: m1 amap)
  have k2: "um_find k cs2 = Some c" using c by (auto simp: cs2 amap split: option.split)
  have other: "q \<noteq> p \<Longrightarrow> um_find q (um_put p k m2) = (if nc_peerId c \<noteq> 0 \<and> q = nc_peerId c then None else um_find q m)" for q
    by (auto simp: m2 m1 amap split: option.split)
  have oc: "cid \<noteq> k \<Longrightarrow> peer_of cs2 cid = (if um_find p m = Some cid then None else peer_of cs cid)" for cid
    by (auto simp: cs2 pm1 split: option.split)
  show ?thesis
    unfolding peers_inv_def
  proof (intro allI)
    fix q cid
    show "um_find q (um_put p k m2) = Some cid \<longleftrightarrow>
        q \<noteq> 0 \<and> peer_of (um_upd k (\<lambda>c. c\<lparr>nc_peerId := p\<rparr>) cs2) cid = Some q"
    proof (cases "q = p")
      case True
      have "cid \<noteq> k \<Longrightarrow> peer_of cs2 cid \<noteq> Some p" using oc [of cid] m [of p cid] p by auto
      with True p k2 show ?thesis by (auto simp: peer_of_upd amap)
    next
      case False
      then show ?thesis
        using other [of q] m [of q cid] m [of q k] m [of p cid] oc [of cid] k k2 by (auto simp: peer_of_upd)
    qed
  qed
qed

lemma net_inv_bind:
  assumes inv: "net_inv n"
  shows "net_inv (do_bind_peer n k p)"
proof (cases "um_find k (ni_conns n)")
  case None
  with inv show ?thesis by (simp add: do_bind_peer_def)
next
  case (Some c)
  let ?m1 = "if nc_peerId c \<noteq> 0 \<and> nc_peerId c \<noteq> p then um_erase (nc_peerId c) (ni_peerToConn n) else ni_peerToConn n"
  have pi: "peers_inv (ni_peerToConn n) (ni_conns n)" using inv by (simp add: net_inv_def)
  have m: "um_find q (ni_peerToConn n) = Some cid \<longleftrightarrow> q \<noteq> 0 \<and> peer_of (ni_conns n) cid = Some q" for q cid
    using pi by (simp add: peers_inv_def)
  have kc: "peer_of (ni_conns n) k = Some (nc_peerId c)" using Some by (simp add: peer_of_def)
  show ?thesis
  proof (cases "p = 0")
    case True
    have "peers_inv ?m1 (um_upd k (\<lambda>c. c\<lparr>nc_peerId := p\<rparr>) (ni_conns n))"
      unfolding peers_inv_def peer_of_upd using True Some kc m by (auto simp: um_find_erase) (metis option.inject)+
    with inv True Some show ?thesis
      by (auto simp: do_bind_peer_def Let_def net_inv_def um_find_upd conn_ok_def split: if_splits option.splits)
  next
    case False
    have "um_find p ?m1 = Some old \<Longrightarrow> \<exists>d. um_find old (ni_conns n) = Some d \<and> nc_peerId d = p" for old
      using m [of p old] by (auto simp: amap peer_of_def split: if_splits)
    then have "peers_inv (ni_peerToConn (do_bind_peer n k p)) (ni_conns (do_bind_peer n k p))"
      using peers_inv_bind [OF pi Some False refl refl refl] False Some
      by (auto simp: do_bind_peer_def Let_def net_close_conn_def split: option.split)
    moreover have "um_find cid (ni_conns (do_bind_peer n k p)) = Some d \<Longrightarrow>
        cid \<noteq> 0 \<and> cid < ni_nextConnId n \<and> conn_ok d" for cid d
      using inv Some by (auto simp: do_bind_peer_def Let_def net_inv_def um_find_upd um_find_erase conn_ok_def
          split: if_splits option.splits)
    moreover have "ni_nextConnId (do_bind_peer n k p) = ni_nextConnId n" "ni_inbound (do_bind_peer n k p) = ni_inbound n"
      "ni_outbound (do_bind_peer n k p) = ni_outbound n"
      by (auto simp: do_bind_peer_def net_close_conn_def Let_def split: option.split)
    ultimately show ?thesis using inv by (simp add: net_inv_def)
  qed
qed

lemma net_inv_keep:
  assumes inv: "net_inv n"
  shows "net_inv (do_keep_pending n p now)"
proof (cases "um_find p (ni_peerToConn n)")
  case None
  with inv show ?thesis by (simp add: do_keep_pending_def)
next
  case (Some cid)
  have m: "um_find q (ni_peerToConn n) = Some i \<longleftrightarrow> q \<noteq> 0 \<and> peer_of (ni_conns n) i = Some q" for q i
    using inv by (simp add: net_inv_def peers_inv_def)
  from m [of p cid] Some obtain c where c: "um_find cid (ni_conns n) = Some c" "nc_peerId c = p" "p \<noteq> 0"
    by (auto simp: peer_of_def)
  have "peers_inv (um_erase p (ni_peerToConn n)) (um_upd cid (\<lambda>c. c\<lparr>nc_peerId := 0, nc_connectedAt := now\<rparr>) (ni_conns n))"
    unfolding peers_inv_def
  proof (intro allI)
    fix q i
    show "um_find q (um_erase p (ni_peerToConn n)) = Some i \<longleftrightarrow> q \<noteq> 0 \<and>
        peer_of (um_upd cid (\<lambda>c. c\<lparr>nc_peerId := 0, nc_connectedAt := now\<rparr>) (ni_conns n)) i = Some q"
      using m [of q i] m [of p i] Some c by (auto simp: peer_of_upd um_find_erase)
  qed
  with inv Some c show ?thesis
    by (auto simp: do_keep_pending_def Let_def net_inv_def um_find_upd conn_ok_def split: if_splits option.splits)
qed

lemma net_inv_udpSent [simp]: "net_inv (n\<lparr>ni_udpSent := l\<rparr>) = net_inv n"
  by (simp add: net_inv_def)

lemma net_inv_cmd: "net_inv n \<Longrightarrow> nb_send_ok f \<Longrightarrow> net_inv (do_cmd f now n cmd)"
  by (simp add: do_cmd_def do_close_def do_udp_send_def Let_def net_inv_tcp_send net_inv_bind net_inv_keep
      net_inv_close split: outbound_kind.split)

lemma net_inv_process_one:
  assumes "net_inv n" and "nb_send_ok f"
  shows "net_inv (process_one f now n)"
proof -
  have "aq_ok (snd (aq_try_pop (ni_outbound n)))" using assms(1) by (simp add: net_inv_def async.pop_ok)
  with assms have "net_inv (n\<lparr>ni_outbound := snd (aq_try_pop (ni_outbound n))\<rparr>)" by (simp add: net_inv_def)
  with assms show ?thesis by (auto simp: process_one_def net_inv_cmd split: prod.split option.split)
qed

lemma net_inv_process_outbound:
  "net_inv n \<Longrightarrow> \<forall>i. nb_send_ok (fs i) \<Longrightarrow> net_inv (process_outbound fs i now n)"
proof (induction fs i now n rule: process_outbound.induct)
  case (1 fs i now n)
  have "net_inv (process_one (fs i) now n)" using 1(2,3) by (simp add: net_inv_process_one)
  with 1 show ?case by (subst process_outbound.simps) simp
qed

lemma net_inv_accept:
  assumes inv: "net_inv n" and "ni_nextConnId n + 1 \<noteq> 0"
  shows "net_inv (accept_one n a now)"
proof -
  let ?i = "ni_nextConnId n"
  have new: "um_find ?i (ni_conns n) = None"
    using net_inv_conn [OF inv, of ?i] by (cases "um_find ?i (ni_conns n)") auto
  have lt: "k < ?i + 1" if "k < ?i \<or> k = ?i" for k
    using that unatSuc [of ?i] assms(2) by (auto simp: word_less_nat_alt add.commute)
  let ?c = "\<lparr>nc_sockValid = True, nc_addr = a, nc_recvBuf = [], nc_sendQ = sq_init, nc_peerId = 0,
      nc_connectedAt = now, nc_wantOut = False\<rparr>"
  let ?cs = "um_emplace ?i ?c (ni_conns n)"
  have f: "um_find cid ?cs = (if cid = ?i then Some ?c else um_find cid (ni_conns n))" for cid
    using new by (simp add: um_find_emplace)
  have p: "peer_of ?cs cid = (if cid = ?i then Some 0 else peer_of (ni_conns n) cid)" for cid
    by (simp add: peer_of_def f)
  have "peers_inv (ni_peerToConn n) ?cs"
    using inv new unfolding net_inv_def peers_inv_def p by (auto simp: peer_of_def)
  moreover have "conn_ok ?c" by (simp add: conn_ok_def sq_inv_def sq_init_def sq_abs_def kMaxTcpFrame_def)
  ultimately show ?thesis
    using inv assms(2) lt
    unfolding accept_one_def Let_def by (intro net_inv_push) (auto simp: net_inv_def f)
qed

lemma net_inv_deliver:
  assumes "um_find k (ni_conns n) = Some c0" and "nc_peerId c0 = nc_peerId c" and "conn_ok c0"
  shows "net_inv n \<Longrightarrow> net_inv (snd (deliver_frames n k c buf))"
  using assms(1)
proof (induction n k c buf rule: deliver_frames.induct)
  case (1 n k c buf)
  obtain o' b where e: "tcp_try_extract_frame buf = (o', b)" by fastforce
  show ?case
  proof (cases o')
    case None
    with e have "length b < kMaxTcpFrame"
      by (auto simp: tcp_try_extract_frame_def Let_def sizeof_Header_def kMaxTcpFrame_def split: if_splits)
    with 1 e None assms show ?thesis
      by (subst deliver_frames.simps) (auto simp: conn_ok_def intro!: net_inv_upd)
  next
    case (Some f)
    let ?n = "snd (push_inbound n (frame_event k c f))"
    show ?thesis
    proof (cases "fst (push_inbound n (frame_event k c f))")
      case True
      with 1 e Some show ?thesis by (subst deliver_frames.simps) simp
    next
      case False
      with 1 e Some show ?thesis by (subst deliver_frames.simps) (simp add: net_inv_close)
    qed
  qed
qed

lemma net_inv_poll_in: "net_inv n \<Longrightarrow> net_inv (poll_in n k rs)"
proof (induction n k rs rule: poll_in.induct)
  case (2 n k r rs)
  show ?case
  proof (cases "um_find k (ni_conns n)")
    case (Some c)
    obtain j buf where a: "tcp_recv_append r (nc_recvBuf c) recv_max = (j, buf)" by fastforce
    let ?d = "deliver_frames n k c buf"
    have d: "net_inv (snd ?d)"
      using net_inv_deliver [OF Some refl] net_inv_conn [OF 2(2) Some] 2(2) by blast
    show ?thesis
    proof (cases "j = 0 \<or> j = -2 \<or> j < 0")
      case True
      with 2(2) Some a show ?thesis by (auto simp: net_inv_close split: recv_res.split)
    next
      case False
      then have "fst ?d \<Longrightarrow> net_inv (poll_in (snd ?d) k rs)"
        using 2(1) [OF Some a [symmetric] _ _ refl _ d] by simp
      with False Some a d show ?thesis by (simp add: Let_def)
    qed
  qed (use 2 in simp)
qed simp

lemma net_inv_poll_conn:
  assumes "net_inv n" and "nb_send_ok f"
  shows "net_inv (poll_conn f n k revents rs)"
proof (cases "um_find k (ni_conns n)")
  case (Some c)
  have "net_inv (snd (drain_conn f n k c))"
    using assms net_inv_conn [OF assms(1) Some] Some by (intro net_inv_drain) auto
  with assms Some show ?thesis
    by (auto simp: poll_conn_def Let_def intro: net_inv_close net_inv_poll_in)
qed (use assms in \<open>simp add: poll_conn_def\<close>)

text \<open>
  With at most 4096 bytes per \<^verbatim>\<open>recv\<close>, the buffer limit is never hit: the branch that reports an
  overflow is not reachable.
\<close>

lemma recv_no_overflow:
  assumes "net_inv n" and "um_find k (ni_conns n) = Some c" and "length d \<le> 4096"
  shows "tcp_recv_append (RData d) (nc_recvBuf c) recv_max = (int (length d), nc_recvBuf c @ d)"
  using net_inv_conn [OF assms(1,2)] assms(3)
  by (simp add: tcp_recv_append_def conn_ok_def recv_max_def kMaxTcpFrame_def)

text \<open>While the queue has room, the frames go on in order and the buffer keeps the rest.\<close>

lemma deliver_frames_room:
  assumes "length (aq_q (ni_inbound n)) + length (fst (extract_frames buf)) \<le> aq_maxSize (ni_inbound n)"
  shows "deliver_frames n k c buf =
    (True, upd_conn (n\<lparr>ni_inbound := (ni_inbound n)
       \<lparr>aq_q := aq_q (ni_inbound n) @ map (frame_event k c) (fst (extract_frames buf))\<rparr>\<rparr>) k
       (\<lambda>c. c\<lparr>nc_recvBuf := snd (extract_frames buf)\<rparr>))"
  using assms
proof (induction n k c buf rule: deliver_frames.induct)
  case (1 n k c buf)
  obtain o' b where e: "tcp_try_extract_frame buf = (o', b)" by fastforce
  show ?case
  proof (cases o')
    case None
    with e show ?thesis by (subst deliver_frames.simps) (simp add: extract_frames.simps [of buf])
  next
    case (Some f)
    with e have x: "extract_frames buf = (f # fst (extract_frames b), snd (extract_frames b))"
      by (simp add: extract_frames.simps [of buf])
    have p: "fst (push_inbound n (frame_event k c f))" "snd (push_inbound n (frame_event k c f)) =
        n\<lparr>ni_inbound := (ni_inbound n)\<lparr>aq_q := aq_q (ni_inbound n) @ [frame_event k c f]\<rparr>\<rparr>"
      using 1(2) x by (simp_all add: push_inbound_def aq_push_def)
    with 1(1) [OF e [symmetric] Some p(1)] 1(2) e Some x show ?thesis
      by (subst deliver_frames.simps) (simp add: p upd_conn_def)
  qed
qed

text \<open>
  One call of \<^verbatim>\<open>process_outbound\<close> ends with the outbound queue empty: every command that was
  queued has been taken out, whatever the sockets did.
\<close>

lemma outbound_drained: "aq_q (ni_outbound (process_outbound fs i now n)) = []"
proof (induction fs i now n rule: process_outbound.induct)
  case (1 fs i now n)
  then show ?case by (subst process_outbound.simps) simp
qed

text \<open>
  When the inbound queue has room, every frame complete in the receive buffer is handed to the
  main thread as an event of its connection, in stream order, each event carrying the peer the
  connection is bound to, and the incomplete rest stays in the buffer.
\<close>

lemma frames_delivered_in_order:
  assumes "aq_size (ni_inbound n) + length (fst (extract_frames buf)) \<le> aq_maxSize (ni_inbound n)"
  shows "fst (deliver_frames n k c buf) \<and>
    aq_q (ni_inbound (snd (deliver_frames n k c buf))) =
      aq_q (ni_inbound n) @ map (\<lambda>f. \<lparr>ie_kind = TcpFrame, ie_connId = k, ie_peerId = nc_peerId c, ie_addr = nc_addr c,
        ie_bytes = f\<rparr>) (fst (extract_frames buf)) \<and>
    ni_conns (snd (deliver_frames n k c buf)) =
      um_upd k (\<lambda>c. c\<lparr>nc_recvBuf := snd (extract_frames buf)\<rparr>) (ni_conns n)"
  using deliver_frames_room [of n buf k c] assms by (simp add: aq_size_def frame_event_def)

lemma frames_delivered_in_order_witness:
  "let b = enc_bye (make_bye 7); c = \<lparr>nc_sockValid = True, nc_addr = sockaddr_zero, nc_recvBuf = [], nc_sendQ = sq_init,
         nc_peerId = 7, nc_connectedAt = 0, nc_wantOut = False\<rparr>;
       n = (NetIo_init (aq_new 8) (aq_new 8))\<lparr>ni_conns := [(1, c)]\<rparr>
   in map ie_bytes (aq_q (ni_inbound (snd (deliver_frames n 1 c (b @ b))))) = [b, b]"
proof -
  let ?b = "enc_bye (make_bye 7)"
  let ?c = "\<lparr>nc_sockValid = True, nc_addr = sockaddr_zero, nc_recvBuf = [], nc_sendQ = sq_init,
         nc_peerId = 7, nc_connectedAt = 0, nc_wantOut = False\<rparr>"
  let ?n = "(NetIo_init (aq_new 8) (aq_new 8))\<lparr>ni_conns := [(1, ?c)]\<rparr>"
  have "valid_frame ?b"
    using bye_c.enc_len [of "make_bye 7"] bye_c.hdr_enc [of "make_bye 7" "[]"]
    by (simp add: valid_frame_def sizeof_Header_def make_bye_def bye_wf_def) (simp add: fill_header_def)
  then have e: "extract_frames (?b @ ?b) = ([?b, ?b], [])" using extract_frames_valid [of "[?b, ?b]" "[]"] by simp
  then have "aq_size (ni_inbound ?n) + length (fst (extract_frames (?b @ ?b))) \<le> aq_maxSize (ni_inbound ?n)"
    by (simp add: aq_size_def NetIo_init_def aq_new_def)
  from frames_delivered_in_order [OF this, of 1 ?c] e show ?thesis
    by (simp add: Let_def NetIo_init_def aq_new_def)
qed

end
