(* ===== verification/Persist.thy ===== *)
theory Persist
  imports ServerState
begin

text \<open>
  \<^verbatim>\<open>server/src/session_persist.cpp\<close> and \<^verbatim>\<open>server/src/persist_worker.cpp\<close>: the files of a session and the thread
  that writes them. A file system maps paths to contents; a binary file holds one character per
  byte. \<open>canWrite\<close> says which paths can be opened for writing. Directories are implied by the paths
  of the files in them.
\<close>

subsection \<open>Writing\<close>

definition path_join :: "string \<Rightarrow> string \<Rightarrow> string" where
  "path_join d f = d @ ''/'' @ f"

definition put_file :: "(string \<Rightarrow> bool) \<Rightarrow> string \<Rightarrow> string \<Rightarrow> files \<Rightarrow> files" where
  "put_file canWrite path content fs = (if canWrite path then um_put path content fs else fs)"

abbreviation nl :: string where "nl \<equiv> [CHR 0x0A]"

text \<open>A line \<open>"key": value\<close> of a record, with what ends it.\<close>

definition json_line :: "string \<Rightarrow> string \<Rightarrow> string \<Rightarrow> string" where
  "json_line key val rest = '' '' @ '' '' @ [dq] @ key @ [dq] @ '': '' @ val @ rest"

definition world_json :: "session_world \<Rightarrow> string" where
  "world_json w =
     ''{'' @ nl @
     json_line ''pluginVersion'' (show_u32 kPluginVersion) ('','' @ nl) @
     json_line ''spawnLocation'' (show_u32 (wo_spawnLocation w)) ('','' @ nl) @
     json_line ''spawnX'' (show_f32 (wo_spawnX w)) ('','' @ nl) @
     json_line ''spawnY'' (show_f32 (wo_spawnY w)) ('','' @ nl) @
     json_line ''spawnZ'' (show_f32 (wo_spawnZ w)) ('','' @ nl) @
     json_line ''gameHour'' (show_f32 (wo_gameHour w)) ('','' @ nl) @
     json_line ''gameDaysPassed'' (show_f32 (wo_gameDaysPassed w)) ('','' @ nl) @
     json_line ''weatherFormId'' (show_u32 (wo_weatherFormId w)) nl @
     ''}'' @ nl"

definition persist_world :: "(string \<Rightarrow> bool) \<Rightarrow> string \<Rightarrow> session_world \<Rightarrow> files \<Rightarrow> files" where
  "persist_world canWrite dir w fs = put_file canWrite (path_join dir ''world.json'') (world_json w) fs"

definition player_json :: "player_rec \<Rightarrow> string" where
  "player_json p =
     ''{'' @ nl @
     json_line ''key'' ([dq] @ pr_key p @ [dq]) ('','' @ nl) @
     json_line ''name'' ([dq] @ pr_name p @ [dq]) ('','' @ nl) @
     json_line ''havePose'' (if pr_havePose p then ''1'' else ''0'') ('','' @ nl) @
     json_line ''locationFormId'' (show_u32 (pr_locationFormId p)) ('','' @ nl) @
     json_line ''x'' (show_f32 (pr_x p)) ('','' @ nl) @
     json_line ''y'' (show_f32 (pr_y p)) ('','' @ nl) @
     json_line ''z'' (show_f32 (pr_z p)) ('','' @ nl) @
     json_line ''yaw'' (show_f32 (pr_yaw p)) nl @
     ''}'' @ nl"

definition bin_text :: "bytes \<Rightarrow> string" where
  "bin_text b = map b2c b"

definition persist_player :: "(string \<Rightarrow> bool) \<Rightarrow> string \<Rightarrow> player_rec \<Rightarrow> files \<Rightarrow> files" where
  "persist_player canWrite sdir p fs =
     (if pr_key p = [] then fs
      else
        let dir = path_join sdir ''players'';
            fs1 = put_file canWrite (path_join dir (pr_key p @ ''.json'')) (player_json p) fs;
            fs2 = (if pr_appearance p \<noteq> []
                   then put_file canWrite (path_join dir (pr_key p @ ''.appearance.bin'')) (bin_text (pr_appearance p)) fs1
                   else fs1)
        in if pr_inventory p \<noteq> []
           then put_file canWrite (path_join dir (pr_key p @ ''.inventory.bin'')) (bin_text (pr_inventory p)) fs2
           else fs2)"

definition bans_json :: "string list \<Rightarrow> string" where
  "bans_json bans =
     ''['' @ nl @
     (case bans of [] \<Rightarrow> []
      | k # ks \<Rightarrow> '' '' @ '' '' @ [dq] @ k @ [dq] @ concat (map (\<lambda>k. '','' @ nl @ '' '' @ '' '' @ [dq] @ k @ [dq]) ks)) @
     nl @ '']'' @ nl"

definition persist_bans :: "(string \<Rightarrow> bool) \<Rightarrow> string \<Rightarrow> string list \<Rightarrow> files \<Rightarrow> files" where
  "persist_bans canWrite dir bans fs = put_file canWrite (path_join dir ''bans.json'') (bans_json bans) fs"

text \<open>The synchronous flush: the dirty flag and the dirty set come back cleared.\<close>

definition flush_dirty ::
  "(string \<Rightarrow> bool) \<Rightarrow> string \<Rightarrow> session_world \<Rightarrow> bool \<Rightarrow> (string, player_rec) umap \<Rightarrow> string list \<Rightarrow> files \<Rightarrow>
   bool \<times> string list \<times> files" where
  "flush_dirty canWrite dir world worldDirty players dirtyPlayers fs =
     (let fs1 = (if worldDirty then persist_world canWrite dir world fs else fs);
          fs2 = foldl (\<lambda>fs key. case um_find key players of
                         Some p \<Rightarrow> persist_player canWrite dir p fs | None \<Rightarrow> fs) fs1 dirtyPlayers
      in (False, [], fs2))"

subsection \<open>Reading\<close>

definition read_bin :: "files \<Rightarrow> string \<Rightarrow> bytes" where
  "read_bin fs path =
     (case um_find path fs of
        None \<Rightarrow> []
      | Some content \<Rightarrow> if length content > 2 ^ 20 then [] else map c2b content)"

definition load_world_text :: "session_world \<Rightarrow> string \<Rightarrow> session_world" where
  "load_world_text w text =
     w\<lparr>wo_created := True,
       wo_spawnLocation := f64_to_u32 (json_number text ''spawnLocation'' (f64_of_int (uint (wo_spawnLocation w)))),
       wo_spawnX := f64_to_f32 (json_number text ''spawnX'' (f32_to_f64 (wo_spawnX w))),
       wo_spawnY := f64_to_f32 (json_number text ''spawnY'' (f32_to_f64 (wo_spawnY w))),
       wo_spawnZ := f64_to_f32 (json_number text ''spawnZ'' (f32_to_f64 (wo_spawnZ w))),
       wo_gameHour := f64_to_f32 (json_number text ''gameHour'' (f32_to_f64 (wo_gameHour w))),
       wo_gameDaysPassed := f64_to_f32 (json_number text ''gameDaysPassed'' (f32_to_f64 (wo_gameDaysPassed w))),
       wo_weatherFormId := f64_to_u32 (json_number text ''weatherFormId'' 0)\<rparr>"

text \<open>Splitting a file name at its last dot, as \<^verbatim>\<open>path::stem\<close> and \<^verbatim>\<open>path::extension\<close> do.\<close>

definition name_ext :: "string \<Rightarrow> string \<times> string" where
  "name_ext f =
     (let e = rev (takeWhile (\<lambda>c. c \<noteq> CHR ''.'') (rev f)); s = take (length f - length e - 1) f
      in if e = f \<or> s = [] then (f, []) else (s, ''.'' @ e))"

definition load_player :: "files \<Rightarrow> string \<Rightarrow> string \<Rightarrow> string \<Rightarrow> player_rec" where
  "load_player fs dir stem text =
     (let d = default_player;
          q = json_quoted text ''key'';
          key = (if q = [] then stem else q)
      in \<lparr>pr_key = key, pr_name = json_quoted text ''name'',
          pr_havePose = (\<not> f64_eq (json_number text ''havePose'' 0) 0),
          pr_locationFormId = f64_to_u32 (json_number text ''locationFormId'' (f64_of_int (uint (pr_locationFormId d)))),
          pr_x = f64_to_f32 (json_number text ''x'' (f32_to_f64 (pr_x d))),
          pr_y = f64_to_f32 (json_number text ''y'' (f32_to_f64 (pr_y d))),
          pr_z = f64_to_f32 (json_number text ''z'' (f32_to_f64 (pr_z d))),
          pr_yaw = f64_to_f32 (json_number text ''yaw'' 0),
          pr_appearance = read_bin fs (path_join dir (key @ ''.appearance.bin'')),
          pr_inventory = read_bin fs (path_join dir (key @ ''.inventory.bin''))\<rparr>)"

text \<open>The regular files directly in a directory.\<close>

definition dir_files :: "files \<Rightarrow> string \<Rightarrow> string list" where
  "dir_files fs dir =
     map (\<lambda>p. drop (length dir + 1) p)
       (filter (\<lambda>p. take (length dir + 1) p = dir @ ''/'' \<and> CHR ''/'' \<notin> set (drop (length dir + 1) p)) (map fst fs))"

definition load_entry :: "files \<Rightarrow> string \<Rightarrow> (string, player_rec) umap \<Rightarrow> string \<Rightarrow> (string, player_rec) umap" where
  "load_entry fs dir players entry =
     (if snd (name_ext entry) \<noteq> ''.json'' then players
      else case um_find (path_join dir entry) fs of
        None \<Rightarrow> players
      | Some text \<Rightarrow>
          let rec = load_player fs dir (fst (name_ext entry)) text in um_put (pr_key rec) rec players)"

definition load_world ::
  "files \<Rightarrow> string \<Rightarrow> session_world \<Rightarrow> (string, player_rec) umap \<Rightarrow> session_world \<times> (string, player_rec) umap" where
  "load_world fs sdir world players =
     (let dir = path_join sdir ''players''
      in ((case um_find (path_join sdir ''world.json'') fs of
             None \<Rightarrow> world | Some text \<Rightarrow> load_world_text world text),
          foldl (load_entry fs dir) players (dir_files fs dir)))"

text \<open>The scan of \<^verbatim>\<open>load_bans\<close>: quoted strings from position to position.\<close>

function bans_scan :: "string \<Rightarrow> nat \<Rightarrow> string list \<Rightarrow> string list" where
  "bans_scan text i bans =
     (if i \<ge> length text then bans
      else case find_char dq text i of
        None \<Rightarrow> bans
      | Some q1 \<Rightarrow>
          (case find_char dq text (q1 + 1) of
             None \<Rightarrow> bans
           | Some q2 \<Rightarrow>
               let key = sanitize_player_key (substr text (q1 + 1) (q2 - q1 - 1)) []
               in bans_scan text (q2 + 1) (if key = [] then bans else us_insert key bans)))"
  by pat_completeness auto
termination
proof (relation "measure (\<lambda>(text, i, bans). length text - i)", goal_cases)
  case (2 s i bans q1 q2 key)
  then have "i \<le> q1" "q1 + 1 \<le> q2" by (auto simp: find_char_def find_from_def split: if_splits)
  with 2 show ?case by simp
qed simp

declare bans_scan.simps [simp del]

definition load_bans :: "files \<Rightarrow> string \<Rightarrow> string list" where
  "load_bans fs dir =
     (case um_find (path_join dir ''bans.json'') fs of None \<Rightarrow> [] | Some text \<Rightarrow> bans_scan text 0 [])"

text \<open>Copy a session folder to its backup.\<close>

definition under :: "string \<Rightarrow> string \<Rightarrow> bool" where
  "under dir p \<longleftrightarrow> take (length dir + 1) p = dir @ ''/''"

definition backup_session_folder :: "string \<Rightarrow> files \<Rightarrow> files" where
  "backup_session_folder src fs =
     (if \<not> list_ex (\<lambda>kv. under src (fst kv)) fs then fs
      else
        let dst = src @ ''.bak'';
            kept = filter (\<lambda>kv. \<not> under dst (fst kv)) fs
        in kept @ map (\<lambda>kv. (dst @ drop (length src) (fst kv), snd kv)) (filter (\<lambda>kv. under src (fst kv)) kept))"

subsection \<open>The ban list survives a restart\<close>

lemma find_sub_char: "c \<notin> set a \<Longrightarrow> find_sub [c] (a @ c # b) = Some (length a)"
  by (induction a) auto

lemma find_sub_char_None: "c \<notin> set a \<Longrightarrow> find_sub [c] a = None"
  by (induction a) auto

lemma find_char_at:
  assumes "c \<notin> set a"
  shows "find_char c (p @ a @ c # b) (length p) = Some (length p + length a)"
  using find_sub_char [OF assms, of b] by (simp add: find_char_def find_from_def)

text \<open>One quoted key, after text without quotes.\<close>

lemma bans_scan_key:
  assumes "dq \<notin> set a" and "player_key_ok k"
  shows "bans_scan (p @ a @ [dq] @ k @ [dq] @ r) (length p) bans =
    bans_scan ((p @ a @ [dq] @ k @ [dq]) @ r) (length (p @ a @ [dq] @ k @ [dq])) (us_insert k bans)"
proof -
  let ?t = "p @ a @ [dq] @ k @ [dq] @ r"
  have nq: "dq \<notin> set k" using assms(2) key_char_neq by (fastforce simp: player_key_ok_def list_all_iff)
  have q1: "find_char dq ?t (length p) = Some (length p + length a)"
    using find_char_at [OF assms(1), of p "k @ [dq] @ r"] by simp
  have q2: "find_char dq ?t (length p + length a + 1) = Some (length p + length a + 1 + length k)"
    using find_char_at [OF nq, of "p @ a @ [dq]" r] by simp
  have s: "substr ?t (length p + length a + 1) (length p + length a + 1 + length k - (length p + length a) - 1) = k"
    by (simp add: substr_def)
  have "bans_scan ?t (length p) bans = bans_scan ?t (length p + length a + 1 + length k + 1) (us_insert k bans)"
    using q1 q2 s sanitize_idem [OF assms(2), of "[]"] assms(2)
    by (subst bans_scan.simps) (simp add: player_key_ok_def)
  then show ?thesis by (simp add: add.assoc)
qed

lemma bans_scan_end: "dq \<notin> set a \<Longrightarrow> bans_scan (p @ a) (length p) bans = bans"
  by (subst bans_scan.simps) (simp add: find_char_def find_from_def find_sub_char_None)

lemma bans_scan_keys:
  assumes "list_all player_key_ok ks"
  shows "bans_scan (p @ concat (map (\<lambda>k. '','' @ nl @ '' '' @ '' '' @ [dq] @ k @ [dq]) ks) @ nl @ '']'' @ nl) (length p) bans =
    foldl (\<lambda>b k. us_insert k b) bans ks"
  using assms
proof (induction ks arbitrary: p bans)
  case Nil
  then show ?case using bans_scan_end [of "nl @ '']'' @ nl" p bans] by simp
next
  case (Cons k ks)
  let ?r = "concat (map (\<lambda>k. '','' @ nl @ '' '' @ '' '' @ [dq] @ k @ [dq]) ks) @ nl @ '']'' @ nl"
  have "bans_scan (p @ ('','' @ nl @ '' '' @ '' '') @ [dq] @ k @ [dq] @ ?r) (length p) bans =
      bans_scan ((p @ ('','' @ nl @ '' '' @ '' '') @ [dq] @ k @ [dq]) @ ?r)
        (length (p @ ('','' @ nl @ '' '' @ '' '') @ [dq] @ k @ [dq])) (us_insert k bans)"
    using Cons.prems by (intro bans_scan_key) auto
  also have "\<dots> = foldl (\<lambda>b k. us_insert k b) (us_insert k bans) ks"
    using Cons.prems by (intro Cons.IH) simp
  finally show ?case by simp
qed

lemma foldl_us_insert: "distinct (xs @ ks) \<Longrightarrow> foldl (\<lambda>b k. us_insert k b) xs ks = xs @ ks"
proof (induction ks arbitrary: xs)
  case (Cons k ks)
  then have "us_insert k xs = xs @ [k]" by (simp add: us_insert_def)
  with Cons.IH [of "xs @ [k]"] Cons.prems show ?case by simp
qed simp

lemma bans_roundtrip:
  assumes "distinct bans" and "list_all player_key_ok bans"
  shows "bans_scan (bans_json bans) 0 [] = bans"
proof (cases bans)
  case Nil
  then show ?thesis using bans_scan_end [of "bans_json []" "[]" "[]"] by (simp add: bans_json_def)
next
  case (Cons k ks)
  let ?a = "''['' @ nl @ '' '' @ '' ''"
  let ?r = "concat (map (\<lambda>k. '','' @ nl @ '' '' @ '' '' @ [dq] @ k @ [dq]) ks) @ nl @ '']'' @ nl"
  have t: "bans_json bans = [] @ ?a @ [dq] @ k @ [dq] @ ?r" by (simp add: bans_json_def Cons)
  have "bans_scan (bans_json bans) 0 [] =
      bans_scan (([] @ ?a @ [dq] @ k @ [dq]) @ ?r) (length ([] @ ?a @ [dq] @ k @ [dq])) (us_insert k [])"
    using bans_scan_key [of ?a k "[]" ?r "[]"] assms Cons t by simp
  also have "\<dots> = foldl (\<lambda>b k. us_insert k b) (us_insert k []) ks"
    using assms Cons by (intro bans_scan_keys) simp
  also have "\<dots> = k # ks"
    using foldl_us_insert [of "[k]" ks] assms(1) Cons by (simp add: us_insert_def)
  finally show ?thesis by (simp add: Cons)
qed

lemma bans_scan_ok: "list_all player_key_ok bans \<Longrightarrow> list_all player_key_ok (bans_scan s i bans)"
proof (induction s i bans rule: bans_scan.induct)
  case (1 s i bans)
  show ?case
  proof (cases "i < length s \<and> (\<exists>q1 q2. find_char dq s i = Some q1 \<and> find_char dq s (q1 + 1) = Some q2)")
    case True
    then obtain q1 q2 where q: "find_char dq s i = Some q1" "find_char dq s (q1 + 1) = Some q2"
      and i: "\<not> length s \<le> i" by auto
    define key where "key = sanitize_player_key (substr s (q1 + 1) (q2 - q1 - 1)) []"
    have "key = [] \<or> player_key_ok key"
      using player_key_ok_sanitize [of "substr s (q1 + 1) (q2 - q1 - 1)" "[]"] by (auto simp: key_def)
    with 1(2) have "list_all player_key_ok (if key = [] then bans else us_insert key bans)"
      by (auto simp: list_all_iff)
    with 1(1) [OF i q key_def]
    have "list_all player_key_ok (bans_scan s (q2 + 1) (if key = [] then bans else us_insert key bans))" by simp
    moreover have "bans_scan s i bans = bans_scan s (q2 + 1) (if key = [] then bans else us_insert key bans)"
      using i q by (subst bans_scan.simps) (simp add: key_def)
    ultimately show ?thesis by simp
  next
    case False
    then have "bans_scan s i bans = bans" by (subst bans_scan.simps) (auto split: option.split)
    with 1(2) show ?thesis by simp
  qed
qed

lemma load_bans_ok: "list_all player_key_ok (load_bans fs dir)"
  by (auto simp: load_bans_def bans_scan_ok split: option.split)

subsection \<open>The worker thread\<close>

text \<open>One job, as the worker carries it out.\<close>

definition run_job :: "(string \<Rightarrow> bool) \<Rightarrow> string \<Rightarrow> files \<Rightarrow> persist_job \<Rightarrow> files" where
  "run_job canWrite dir fs job =
     (let fs1 = (if pj_world job then persist_world canWrite dir (pj_worldSnap job) fs else fs);
          fs2 = foldl (\<lambda>fs p. persist_player canWrite dir p fs) fs1 (pj_players job)
      in if pj_writeBans job then persist_bans canWrite dir (remdups (pj_banKeys job)) fs2 else fs2)"

datatype worker_phase = WNotStarted | WLoop | WDrain | WDone

record persist_worker =
  pw_queue :: "persist_job AsyncQueue"
  pw_running :: bool
  pw_phase :: worker_phase
  pw_files :: files

definition worker_init :: "files \<Rightarrow> persist_worker" where
  "worker_init fs =
     \<lparr>pw_queue = aq_new 256, pw_running = False, pw_phase = WNotStarted, pw_files = fs\<rparr>"

definition worker_start :: "persist_worker \<Rightarrow> persist_worker" where
  "worker_start w = (if pw_running w then w else w\<lparr>pw_running := True, pw_phase := WLoop\<rparr>)"

definition worker_enqueue :: "persist_worker \<Rightarrow> persist_job \<Rightarrow> bool \<times> persist_worker" where
  "worker_enqueue w job = (fst (aq_push (pw_queue w) job), w\<lparr>pw_queue := snd (aq_push (pw_queue w) job)\<rparr>)"

text \<open>\<^verbatim>\<open>stop\<close> up to the join: the flag falls and an empty job wakes the thread.\<close>

definition worker_stop :: "persist_worker \<Rightarrow> persist_worker" where
  "worker_stop w =
     (if \<not> pw_running w then w else snd (worker_enqueue (w\<lparr>pw_running := False\<rparr>) empty_job))"

definition job_empty :: "persist_job \<Rightarrow> bool" where
  "job_empty job \<longleftrightarrow> pj_players job = [] \<and> \<not> pj_world job \<and> \<not> pj_writeBans job"

text \<open>One turn of the thread; \<open>woken\<close> says whether the wait ended with something to look at.\<close>

definition worker_turn :: "(string \<Rightarrow> bool) \<Rightarrow> string \<Rightarrow> bool \<Rightarrow> persist_worker \<Rightarrow> persist_worker" where
  "worker_turn canWrite dir woken w =
     (case pw_phase w of
        WNotStarted \<Rightarrow> w
      | WLoop \<Rightarrow>
          if \<not> pw_running w then w\<lparr>pw_phase := WDrain\<rparr>
          else (case aq_wait_pop woken (pw_queue w) of
                  (None, _) \<Rightarrow> w
                | (Some job, q) \<Rightarrow>
                    w\<lparr>pw_queue := q, pw_files := run_job canWrite dir (pw_files w) job\<rparr>)
      | WDrain \<Rightarrow>
          (case aq_try_pop (pw_queue w) of
             (None, _) \<Rightarrow> w\<lparr>pw_phase := WDone\<rparr>
           | (Some job, q) \<Rightarrow> w\<lparr>pw_queue := q, pw_files := run_job canWrite dir (pw_files w) job\<rparr>)
      | WDone \<Rightarrow> w)"

text \<open>
  The thread as it stands between the wait and the look at the flag: the flag may have fallen, and
  an empty job then ends the loop.
\<close>

definition worker_race :: "(string \<Rightarrow> bool) \<Rightarrow> string \<Rightarrow> persist_worker \<Rightarrow> persist_worker" where
  "worker_race canWrite dir w =
     (case aq_try_pop (pw_queue w) of
        (None, _) \<Rightarrow> w
      | (Some job, q) \<Rightarrow>
          if \<not> pw_running w \<and> job_empty job then w\<lparr>pw_queue := q, pw_phase := WDrain\<rparr>
          else w\<lparr>pw_queue := q, pw_files := run_job canWrite dir (pw_files w) job\<rparr>)"

lemma run_job_empty: "job_empty job \<Longrightarrow> run_job canWrite dir fs job = fs"
  by (simp add: run_job_def job_empty_def)

inductive worker_step ::
  "(string \<Rightarrow> bool) \<Rightarrow> string \<Rightarrow> persist_worker \<times> persist_job list \<Rightarrow> persist_worker \<times> persist_job list \<Rightarrow> bool"
  for canWrite dir where
  enq: "worker_step canWrite dir (w, acc)
          (snd (worker_enqueue w job), if fst (worker_enqueue w job) then acc @ [job] else acc)"
| stop: "worker_step canWrite dir (w, acc) (worker_stop w, acc)"
| start: "pw_phase w = WNotStarted \<Longrightarrow> worker_step canWrite dir (w, acc) (worker_start w, acc)"
| turn: "worker_step canWrite dir (w, acc) (worker_turn canWrite dir woken w, acc)"
| race: "pw_phase w = WLoop \<Longrightarrow> worker_step canWrite dir (w, acc) (worker_race canWrite dir w, acc)"

inductive_cases worker_stepE: "worker_step canWrite dir (w, acc) s"

text \<open>
  Nothing accepted is lost: at every moment the files, once the jobs still queued have run, are
  those of all accepted jobs run in order.
\<close>

definition no_loss :: "(string \<Rightarrow> bool) \<Rightarrow> string \<Rightarrow> files \<Rightarrow> persist_worker \<times> persist_job list \<Rightarrow> bool" where
  "no_loss canWrite dir fs0 s \<longleftrightarrow>
     foldl (run_job canWrite dir) (pw_files (fst s)) (aq_q (pw_queue (fst s))) = foldl (run_job canWrite dir) fs0 (snd s)"

lemma no_loss_pop:
  "aq_try_pop q = (Some job, q') \<Longrightarrow> aq_q q = job # aq_q q'"
  by (auto simp: aq_try_pop_def split: list.splits)

lemma no_loss_step:
  assumes "worker_step canWrite dir s s'" and "no_loss canWrite dir fs0 s"
  shows "no_loss canWrite dir fs0 s'"
  using assms
proof (cases rule: worker_step.cases)
  case (enq w acc job)
  with assms(2) show ?thesis by (auto simp: no_loss_def worker_enqueue_def aq_push_def)
next
  case (stop w acc)
  have "job_empty empty_job" by (simp add: job_empty_def empty_job_def)
  with stop assms(2) show ?thesis
    by (auto simp: no_loss_def worker_stop_def worker_enqueue_def aq_push_def run_job_empty)
next
  case (start w acc)
  with assms(2) show ?thesis by (auto simp: no_loss_def worker_start_def)
next
  case (turn w acc woken)
  with assms(2) show ?thesis
    by (auto simp: no_loss_def worker_turn_def aq_wait_pop_def dest: no_loss_pop
        split: worker_phase.split prod.split option.split)
next
  case (race w acc)
  with assms(2) show ?thesis
    by (auto simp: no_loss_def worker_race_def run_job_empty dest: no_loss_pop split: prod.split option.split)
qed

text \<open>Once the flag is down, the thread ends after finitely many turns.\<close>

lemma drain_ends:
  "pw_phase w = WDrain \<Longrightarrow>
     ((worker_turn canWrite dir True) ^^ (length (aq_q (pw_queue w)) + 1)) w =
       w\<lparr>pw_queue := (pw_queue w)\<lparr>aq_q := []\<rparr>, pw_phase := WDone,
         pw_files := foldl (run_job canWrite dir) (pw_files w) (aq_q (pw_queue w))\<rparr>"
proof (induction "aq_q (pw_queue w)" arbitrary: w)
  case Nil
  then show ?case by (cases w; cases "pw_queue w") (simp add: worker_turn_def aq_try_pop_def)
next
  case (Cons job js)
  let ?w = "worker_turn canWrite dir True w"
  have w: "?w = w\<lparr>pw_queue := (pw_queue w)\<lparr>aq_q := js\<rparr>, pw_files := run_job canWrite dir (pw_files w) job\<rparr>"
    using Cons.hyps(2) [symmetric] Cons.prems by (simp add: worker_turn_def aq_try_pop_def)
  have len: "length (aq_q (pw_queue w)) + 1 = Suc (length js + 1)" using Cons.hyps(2) [symmetric] by simp
  have IH: "((worker_turn canWrite dir True) ^^ (length js + 1)) ?w = ?w
      \<lparr>pw_queue := (pw_queue ?w)\<lparr>aq_q := []\<rparr>, pw_phase := WDone,
       pw_files := foldl (run_job canWrite dir) (pw_files ?w) js\<rparr>"
    using Cons.hyps(1) [of ?w] Cons.prems by (simp add: w)
  show ?case
    unfolding len funpow_Suc_right o_apply IH using Cons.hyps(2) [symmetric] by (simp add: w)
qed

text \<open>
  The ban list survives a restart: written to disk and read back it is the same list of keys.
\<close>

lemma bans_survive_restart:
  assumes "distinct bans" and "list_all player_key_ok bans" and "canWrite (path_join dir ''bans.json'')"
  shows "load_bans (persist_bans canWrite dir bans fs) dir = bans"
  using bans_roundtrip [OF assms(1,2)] assms(3) by (simp add: load_bans_def persist_bans_def put_file_def amap)

lemma bans_survive_restart_witness:
  "load_bans (persist_bans (\<lambda>_. True) ''s'' [''bob'', ''eve-1''] []) ''s'' = [''bob'', ''eve-1'']"
  by (rule bans_survive_restart)
    (simp_all add: player_key_ok_def kPlayerKeyMax_def key_char_def c_isalnum_def c_isalpha_def is_digit_def)

text \<open>
  C23: the persist worker loses nothing it accepted. In every interleaving of enqueuing, starting,
  stopping and the worker's own turns, the files on disk, once the jobs still queued are carried out,
  are those of all accepted jobs carried out in the order they were accepted.
\<close>

theorem persist_worker_no_loss:
  assumes "(worker_step canWrite dir)\<^sup>*\<^sup>* (worker_init fs, []) (w, accepted)"
  shows "foldl (run_job canWrite dir) (pw_files w) (aq_q (pw_queue w)) = foldl (run_job canWrite dir) fs accepted"
proof -
  have "no_loss canWrite dir fs (w, accepted)"
    using assms
  proof (induction rule: rtranclp_induct)
    case base
    show ?case by (simp add: no_loss_def worker_init_def aq_new_def)
  next
    case (step s s')
    from no_loss_step [OF step(2,3)] show ?case .
  qed
  then show ?thesis by (simp add: no_loss_def)
qed

theorem persist_worker_no_loss_witness:
  "\<exists>w. (worker_step (\<lambda>_. True) ''s'')\<^sup>*\<^sup>* (worker_init [], [])
      (w, [empty_job\<lparr>pj_writeBans := True, pj_banKeys := [''bob'']\<rparr>]) \<and> aq_q (pw_queue w) = [] \<and>
    pw_files w = persist_bans (\<lambda>_. True) ''s'' [''bob''] []"
proof -
  let ?job = "empty_job\<lparr>pj_writeBans := True, pj_banKeys := [''bob'']\<rparr>"
  let ?w1 = "worker_start (worker_init [])"
  let ?w2 = "snd (worker_enqueue ?w1 ?job)"
  let ?w3 = "worker_turn (\<lambda>_. True) ''s'' True ?w2"
  have a: "fst (worker_enqueue ?w1 ?job)"
    by (simp add: worker_enqueue_def worker_start_def worker_init_def aq_push_def aq_new_def)
  have s1: "worker_step (\<lambda>_. True) ''s'' (worker_init [], []) (?w1, [])"
    by (rule worker_step.start) (simp add: worker_init_def)
  have s2: "worker_step (\<lambda>_. True) ''s'' (?w1, []) (?w2, [?job])"
    using worker_step.enq [of "\<lambda>_. True" "''s''" ?w1 "[]" ?job] a by simp
  have s3: "worker_step (\<lambda>_. True) ''s'' (?w2, [?job]) (?w3, [?job])" by (rule worker_step.turn)
  from s1 s2 s3 have r: "(worker_step (\<lambda>_. True) ''s'')\<^sup>*\<^sup>* (worker_init [], []) (?w3, [?job])"
    by (meson converse_rtranclp_into_rtranclp rtranclp.rtrancl_refl)
  have q: "aq_q (pw_queue ?w3) = []"
    by (simp add: worker_turn_def worker_enqueue_def worker_start_def worker_init_def aq_push_def aq_new_def
        aq_wait_pop_def aq_try_pop_def)
  from persist_worker_no_loss [OF r] q have "pw_files ?w3 = run_job (\<lambda>_. True) ''s'' [] ?job" by simp
  then have "pw_files ?w3 = persist_bans (\<lambda>_. True) ''s'' [''bob''] []"
    by (simp add: run_job_def empty_job_def Let_def)
  with r q show ?thesis by blast
qed

text \<open>
  Once the running flag is down the worker finishes: after one turn per queued job and one more
  it has carried out every job that was queued, in order, and is done.
\<close>

lemma persist_worker_drains:
  assumes "pw_phase w = WDrain"
  shows "let w' = ((worker_turn canWrite dir True) ^^ (aq_size (pw_queue w) + 1)) w
    in pw_phase w' = WDone \<and> aq_q (pw_queue w') = [] \<and>
       pw_files w' = foldl (run_job canWrite dir) (pw_files w) (aq_q (pw_queue w))"
  using drain_ends [OF assms, of canWrite dir] by (simp add: aq_size_def Let_def)

lemma persist_worker_drains_witness:
  "let w = (worker_init [])\<lparr>pw_phase := WDrain, pw_queue := \<lparr>aq_q = [empty_job, empty_job], aq_maxSize = 256\<rparr>\<rparr>
   in pw_phase (((worker_turn (\<lambda>_. True) ''s'' True) ^^ 3) w) = WDone"
proof -
  let ?w = "(worker_init [])\<lparr>pw_phase := WDrain, pw_queue := \<lparr>aq_q = [empty_job, empty_job], aq_maxSize = 256\<rparr>\<rparr>"
  from persist_worker_drains [of ?w "\<lambda>_. True" "''s''"] show ?thesis
    by (simp add: Let_def aq_size_def eval_nat_numeral)
qed

end
