(* ===== verification/ServerMain.thy ===== *)
theory ServerMain
  imports Admin NetIo Persist "HOL-Library.Multiset"
begin

text \<open>
  \<^verbatim>\<open>server/src/main.cpp\<close>: the command line, one turn of the main loop and the shutdown; then the
  whole server as a transition system in which the main thread and the network thread take turns
  on the queues they share.
\<close>

subsection \<open>The command line\<close>

datatype cli = CliRun ServerConfig | CliExit int | CliThrow

text \<open>
  The second pass over the arguments. \<open>CliThrow\<close> is an exception of \<^verbatim>\<open>std::stoi\<close> or \<^verbatim>\<open>std::stof\<close>,
  which \<^verbatim>\<open>main\<close> does not catch.
\<close>

definition f32_max :: "f32 \<Rightarrow> f32 \<Rightarrow> f32" where
  "f32_max a b = (if f32_less a b then b else a)"

fun parse_args :: "ServerConfig \<Rightarrow> string list \<Rightarrow> cli" where
  "parse_args cfg [] = CliRun cfg"
| "parse_args cfg [a] =
     (if a = ''--help'' \<or> a = ''-h'' then CliExit 0
      else if a = ''--reset-session'' then CliRun (cfg\<lparr>cfg_resetSession := True\<rparr>)
      else if a = ''--verbose'' then CliRun (cfg\<lparr>cfg_verbose := True, cfg_quiet := False\<rparr>)
      else if a = ''--quiet'' then CliRun (cfg\<lparr>cfg_quiet := True, cfg_verbose := False\<rparr>)
      else if a = ''--json-log'' then CliRun (cfg\<lparr>cfg_jsonLog := True\<rparr>)
      else if a = ''--pvp'' then CliRun (cfg\<lparr>cfg_pvp := True\<rparr>)
      else if a = ''--no-pvp'' then CliRun (cfg\<lparr>cfg_pvp := False\<rparr>)
      else CliExit 2)"
| "parse_args cfg (a # v # rest) =
     (if a = ''--help'' \<or> a = ''-h'' then CliExit 0
      else if a = ''--config'' then parse_args cfg rest
      else if a = ''--reset-session'' then parse_args (cfg\<lparr>cfg_resetSession := True\<rparr>) (v # rest)
      else if a = ''--verbose'' then parse_args (cfg\<lparr>cfg_verbose := True, cfg_quiet := False\<rparr>) (v # rest)
      else if a = ''--quiet'' then parse_args (cfg\<lparr>cfg_quiet := True, cfg_verbose := False\<rparr>) (v # rest)
      else if a = ''--port'' then
        (case stoi v of None \<Rightarrow> CliThrow | Some n \<Rightarrow> parse_args (cfg\<lparr>cfg_port := word_of_int n\<rparr>) rest)
      else if a = ''--max-players'' then
        (case stoi v of None \<Rightarrow> CliThrow | Some n \<Rightarrow> parse_args (cfg\<lparr>cfg_maxPlayers := max 1 n\<rparr>) rest)
      else if a = ''--log-file'' then parse_args (cfg\<lparr>cfg_logFile := v\<rparr>) rest
      else if a = ''--session-dir'' then parse_args (cfg\<lparr>cfg_sessionDir := v\<rparr>) rest
      else if a = ''--name'' then parse_args (cfg\<lparr>cfg_name := v\<rparr>) rest
      else if a = ''--motd'' then parse_args (cfg\<lparr>cfg_motd := v\<rparr>) rest
      else if a = ''--interest-uu'' then
        (case stof v of None \<Rightarrow> CliThrow | Some x \<Rightarrow> parse_args (cfg\<lparr>cfg_interestUu := f32_max 0 x\<rparr>) rest)
      else if a = ''--json-log'' then parse_args (cfg\<lparr>cfg_jsonLog := True\<rparr>) (v # rest)
      else if a = ''--pvp'' then parse_args (cfg\<lparr>cfg_pvp := True\<rparr>) (v # rest)
      else if a = ''--no-pvp'' then parse_args (cfg\<lparr>cfg_pvp := False\<rparr>) (v # rest)
      else if a = ''--password'' then parse_args (cfg\<lparr>cfg_password := cut_password v\<rparr>) rest
      else if a = ''--mod-hash'' then parse_args (cfg\<lparr>cfg_modHash := parse_mod_hash_ini v\<rparr>) rest
      else if a = ''--ban'' then parse_args (cfg\<lparr>cfg_banKeys := cfg_banKeys cfg @ [v]\<rparr>) rest
      else CliExit 2)"

text \<open>The first pass: the last \<^verbatim>\<open>--config\<close> names the file.\<close>

fun config_arg :: "string \<Rightarrow> string list \<Rightarrow> string" where
  "config_arg path (a # v # rest) =
     (if a = ''--config'' then config_arg v rest else config_arg path (v # rest))"
| "config_arg path _ = path"

text \<open>The start of a session: what was saved, the bans, and a runtime with its queues.\<close>

definition startup :: "ServerConfig \<Rightarrow> files \<Rightarrow> string \<Rightarrow> server_runtime" where
  "startup cfg fs0 dir =
     (let fs = (if cfg_resetSession cfg then filter (\<lambda>kv. \<not> under dir (fst kv)) fs0 else backup_session_folder dir fs0);
          wp = load_world fs dir default_world [];
          bans = foldl (\<lambda>b k. us_insert (sanitize_player_key k ''player'') b) (load_bans fs dir) (cfg_banKeys cfg)
      in (ServerRuntime cfg (fst wp) (snd wp) bans (cfg_modHash cfg))
           \<lparr>rt_outbound := Some (aq_new 8192), rt_persist := Some (aq_new 256)\<rparr>)"

subsection \<open>The main loop\<close>

record main_state =
  ms_rt :: server_runtime
  ms_running :: bool
  ms_lastPersist :: f64
  ms_lastHeartbeat :: f64

definition apply_events :: "server_runtime \<Rightarrow> inbound_event list \<Rightarrow> f64 \<Rightarrow> f64 \<Rightarrow> server_runtime" where
  "apply_events r evs t now = foldl (\<lambda>r ev. apply_inbound r ev t now) r evs"

text \<open>
  One turn at time \<open>t\<close>: the console lines, the events popped from the inbound queue, the timeouts
  and the periodic jobs. The status line is left out.
\<close>

definition main_turn :: "files \<Rightarrow> string \<Rightarrow> string list \<Rightarrow> inbound_event list \<Rightarrow> f64 \<Rightarrow> f64 \<Rightarrow> main_state \<Rightarrow> main_state" where
  "main_turn fs path lines evs t now m =
     (let a = foldl (\<lambda>st l. run_admin_command l fs path st) (ms_rt m, ms_running m) lines;
          r1 = apply_events (fst a) evs t now;
          r2 = expire_clients (expire_pending r1 t) t now;
          persist = f64_le kPersistIntervalSec (f64_sub t (ms_lastPersist m));
          r3 = (if persist then flush_dirty_async r2 else r2);
          beat = f64_le (f64_of_int 5) (f64_sub t (ms_lastHeartbeat m));
          r4 = (if beat then send_heartbeat r3 else r3)
      in \<lparr>ms_rt = r4, ms_running = snd a, ms_lastPersist = (if persist then t else ms_lastPersist m),
          ms_lastHeartbeat = (if beat then t else ms_lastHeartbeat m)\<rparr>)"

text \<open>After the loop: what is left in the inbound queue, a last flush, and a job with everything.\<close>

definition final_job :: "server_runtime \<Rightarrow> persist_job" where
  "final_job r =
     empty_job\<lparr>pj_world := True, pj_worldSnap := rt_world r, pj_players := map snd (rt_players r)\<rparr>"

definition shutdown :: "server_runtime \<Rightarrow> inbound_event list \<Rightarrow> f64 \<Rightarrow> f64 \<Rightarrow> server_runtime \<times> persist_job" where
  "shutdown r evs t now =
     (let r1 = apply_events r evs t now;
          r2 = r1\<lparr>rt_dirtyPlayers := foldl (\<lambda>d kc. us_insert (cl_playerKey (snd kc)) d) (rt_dirtyPlayers r1) (rt_clients r1),
                  rt_worldDirty := True\<rparr>;
          r3 = flush_dirty_async r2
      in (r3, final_job r3))"

subsection \<open>Connection numbers of the runtime\<close>

definition conn_ids :: "server_runtime \<Rightarrow> u64 set" where
  "conn_ids r = pt_connId ` set (rt_pendingTcp r) \<union> snd ` set (conn_view (rt_clients r))"

lemma conn_ids_quiet: "quiet r r' \<Longrightarrow> conn_ids r' = conn_ids r"
  by (simp add: quiet_def conn_ids_def)

lemma conn_ids_remove: "conn_ids (remove_client r k keepTcp now) \<subseteq> conn_ids r"
proof (cases "um_find k (rt_clients r)")
  case None
  then show ?thesis by (simp add: remove_client_none)
next
  case (Some c)
  then have "(k, c) \<in> set (rt_clients r)" by (rule um_find_SomeD)
  then have "cl_connId c \<in> conn_ids r" by (force simp: conn_ids_def conn_view_def)
  then show ?thesis
    using remove_client_pending [OF Some, of keepTcp now]
    by (auto simp: conn_ids_def conn_view_def set_um_erase split: if_splits)
qed

lemma conn_ids_remove_all: "conn_ids (foldl (\<lambda>r p. remove_client r p (f r p) now) r ps) \<subseteq> conn_ids r"
proof (induction ps arbitrary: r)
  case (Cons p ps)
  from subset_trans [OF Cons [of "remove_client r p (f r p) now"] conn_ids_remove] show ?case by simp
qed simp

lemma conn_ids_misc [simp]:
  "conn_ids (r\<lparr>rt_removePeers := l\<rparr>) = conn_ids r" "conn_ids (r\<lparr>rt_keepTcpPeers := l\<rparr>) = conn_ids r"
  "conn_ids (out_cmds r cs) = conn_ids r" "conn_ids (r\<lparr>rt_outbound := q\<rparr>) = conn_ids r"
  "conn_ids (r\<lparr>rt_persist := pq\<rparr>) = conn_ids r"
  by (simp_all add: conn_ids_def)

lemma conn_ids_client_frame:
  assumes "core_inv r"
  shows "conn_ids (client_frame r k buf t now) \<subseteq> conn_ids r"
proof -
  let ?r = "r\<lparr>rt_removePeers := [], rt_keepTcpPeers := []\<rparr>"
  have "quiet ?r (handle_tcp_message ?r k buf t now)" using core_inv_tcp_message [of ?r] assms by simp
  then have "conn_ids (handle_tcp_message ?r k buf t now) = conn_ids r"
    by (simp add: conn_ids_quiet)
  then show ?thesis
    using conn_ids_remove_all [of "\<lambda>r p. p \<in> set (rt_keepTcpPeers r)" now "handle_tcp_message ?r k buf t now"]
    by (simp add: client_frame_def Let_def)
qed

lemma conn_ids_moved:
  assumes "moved r i r'" and "i < length (rt_pendingTcp r)"
  shows "conn_ids (r'\<lparr>rt_pendingTcp := filter (\<lambda>p. pt_connId p \<noteq> 0) (rt_pendingTcp r')\<rparr>) \<subseteq> conn_ids r"
proof -
  have "pt_connId (rt_pendingTcp r ! i) \<in> pt_connId ` set (rt_pendingTcp r)" using assms(2) by simp
  moreover have "pt_connId ` set (filter (\<lambda>p. pt_connId p \<noteq> 0) (rt_pendingTcp r')) \<subseteq> pt_connId ` set (rt_pendingTcp r)"
  proof -
    have "p \<in> set (rt_pendingTcp r') \<Longrightarrow> p \<in> set (rt_pendingTcp r) \<or> pt_connId p = 0" for p
      using assms unfolding moved_def clear_pending_def by (auto dest!: set_update_subset_insert [THEN subsetD])
    then show ?thesis by auto
  qed
  ultimately show ?thesis using assms(1) unfolding conn_ids_def moved_def by auto
qed

lemma conn_ids_pending_frame:
  assumes inv: "runtime_inv r" and i: "i < length (rt_pendingTcp r)"
  shows "conn_ids (pending_frame r i buf t) \<subseteq> conn_ids r"
proof -
  let ?r = "handle_pending_message r i buf t"
  have ci: "core_inv r" using inv by (simp add: runtime_inv_def)
  consider (q) "quiet r ?r" | (m) "moved r i ?r" using pending_effect [OF ci] by blast
  then show ?thesis
  proof cases
    case q
    have "conn_ids (?r\<lparr>rt_pendingTcp := filter (\<lambda>p. pt_connId p \<noteq> 0) (rt_pendingTcp ?r)\<rparr>) \<subseteq> conn_ids ?r"
      by (auto simp: conn_ids_def)
    with conn_ids_quiet [OF q] show ?thesis by (simp add: pending_frame_def Let_def)
  next
    case m
    then have "pt_connId (rt_pendingTcp ?r ! i) = 0" using i by (simp add: moved_def clear_pending_def)
    with conn_ids_moved [OF m i] show ?thesis by (simp add: pending_frame_def Let_def)
  qed
qed

lemma conn_ids_event:
  assumes inv: "runtime_inv r"
  shows "conn_ids (apply_inbound r ev t now) \<subseteq>
    (if ie_kind ev = TcpAccept then insert (ie_connId ev) (conn_ids r) else conn_ids r)"
proof -
  have ci: "core_inv r" using inv by (simp add: runtime_inv_def)
  show ?thesis
  proof (cases "ie_kind ev")
    case TcpAccept
    then show ?thesis by (auto simp: apply_inbound_def conn_ids_def)
  next
    case TcpFrame
    have "conn_ids (pending_frame r i (ie_bytes ev) t) \<subseteq> conn_ids r" if "find_pending r (ie_connId ev) = Some i" for i
      using that find_index_Some [of _ "rt_pendingTcp r" i] inv
      by (intro conn_ids_pending_frame) (auto simp: find_pending_def)
    with TcpFrame conn_ids_client_frame [OF ci] show ?thesis
      by (auto simp: apply_inbound_def tcp_frame_event_def split: option.split)
  next
    case TcpClosed
    let ?r = "r\<lparr>rt_pendingTcp := filter (\<lambda>p. pt_connId p \<noteq> ie_connId ev) (rt_pendingTcp r)\<rparr>"
    have f: "conn_ids ?r \<subseteq> conn_ids r" by (auto simp: conn_ids_def)
    have "conn_ids (remove_client (upd_client ?r k (\<lambda>c. c\<lparr>cl_connId := 0\<rparr>)) (cl_peerId c) False now) \<subseteq> conn_ids r"
      if k: "um_find k (rt_clients ?r) = Some c" for k c
    proof -
      have pk: "cl_peerId c = k" using core_inv_client [OF ci, of k c] k by simp
      let ?u = "upd_client ?r k (\<lambda>c. c\<lparr>cl_connId := 0\<rparr>)"
      have "um_find k (rt_clients ?u) = Some (c\<lparr>cl_connId := 0\<rparr>)" using k by (simp add: upd_client_def amap)
      then have "rt_pendingTcp (remove_client ?u k False now) = rt_pendingTcp ?r"
        by (simp add: remove_client_pending) (simp add: upd_client_def)
      moreover have "rt_clients (remove_client ?u k False now) = um_erase k (rt_clients r)" by (simp add: upd_client_def)
      ultimately show ?thesis by (auto simp: conn_ids_def conn_view_def set_um_erase pk)
    qed
    with TcpClosed f subset_trans [OF conn_ids_remove [of ?r] f] show ?thesis
      by (simp add: apply_inbound_def tcp_closed_event_def Let_def split: option.split)
  next
    case UdpDatagram
    with core_inv_udp_packet [OF ci] conn_ids_quiet [of r "handle_udp_packet r (ie_bytes ev) (ie_addr ev) t"]
    show ?thesis by (simp add: apply_inbound_def)
  qed
qed

lemma conn_ids_subset:
  "rt_pendingTcp r' = rt_pendingTcp r \<Longrightarrow> set (rt_clients r') \<subseteq> set (rt_clients r) \<Longrightarrow> conn_ids r' \<subseteq> conn_ids r"
  by (auto simp: conn_ids_def conn_view_def)

lemma cmd_kick_frame:
  "rt_pendingTcp (cmd_kick r target b) = rt_pendingTcp r" "set (rt_clients (cmd_kick r target b)) \<subseteq> set (rt_clients r)"
  by (auto simp: cmd_kick_def kick_client_eq kicked_state_def set_um_erase split: option.split)

lemma cmd_frame:
  "rt_pendingTcp (admin_dispatch r fs path cmd ws) = rt_pendingTcp r"
  "set (rt_clients (admin_dispatch r fs path cmd ws)) \<subseteq> set (rt_clients r)"
  using cmd_kick_frame
  by (auto simp: admin_dispatch_def cmd_say_def cmd_save_def cmd_maxplayers_def cmd_reload_def cmd_pvp_def
      cmd_password_def cmd_ban_def cmd_unban_def cmd_motd_def sends broadcast_rules_out Let_def
      split: option.split prod.split)

lemma conn_ids_admin: "conn_ids (fst (run_admin_command l fs path st)) \<subseteq> conn_ids (fst st)"
  using conn_ids_subset [OF cmd_frame] by (simp add: run_admin_command_def Let_def)

subsection \<open>The server as a transition system\<close>

record server =
  sv_rt :: server_runtime
  sv_net :: net_io
  sv_running :: bool

text \<open>
  The outbound queue is shared: after a step of either thread the other one sees it. A step of the
  main thread is one command, one event, one expiry pass, one flush or one heartbeat; a step of the
  network thread is one outbound command, one accepted connection, one datagram or one ready
  connection.
\<close>

definition sim_step :: "server_runtime \<Rightarrow> server \<Rightarrow> server" where
  "sim_step r s =
     (let q = (case rt_outbound r of Some q \<Rightarrow> q | None \<Rightarrow> ni_outbound (sv_net s))
      in s\<lparr>sv_rt := r\<lparr>rt_outbound := Some q\<rparr>, sv_net := (sv_net s)\<lparr>ni_outbound := q\<rparr>\<rparr>)"

definition net_step :: "net_io \<Rightarrow> server \<Rightarrow> server" where
  "net_step n s = s\<lparr>sv_net := n, sv_rt := (sv_rt s)\<lparr>rt_outbound := Some (ni_outbound n)\<rparr>\<rparr>"

inductive server_step :: "server \<Rightarrow> server \<Rightarrow> bool" where
  admin: "st = run_admin_command l fs path (sv_rt s, sv_running s) \<Longrightarrow>
    server_step s (sim_step (fst st) (s\<lparr>sv_running := snd st\<rparr>))"
| event: "aq_try_pop (ni_inbound (sv_net s)) = (Some ev, q) \<Longrightarrow> rt_nextPeer (sv_rt s) + 1 \<noteq> 0 \<Longrightarrow>
    server_step s (sim_step (apply_inbound (sv_rt s) ev t now) (s\<lparr>sv_net := (sv_net s)\<lparr>ni_inbound := q\<rparr>\<rparr>))"
| expire_pending: "server_step s (sim_step (expire_pending (sv_rt s) t) s)"
| expire_clients: "server_step s (sim_step (expire_clients (sv_rt s) t now) s)"
| flush: "server_step s (sim_step (flush_dirty_async (sv_rt s)) s)"
| heartbeat: "server_step s (sim_step (send_heartbeat (sv_rt s)) s)"
| worker: "rt_persist (sv_rt s) = Some pq \<Longrightarrow>
    server_step s (s\<lparr>sv_rt := (sv_rt s)\<lparr>rt_persist := Some (snd (aq_try_pop pq))\<rparr>\<rparr>)"
| rehash: "mset cs = mset (rt_clients (sv_rt s)) \<Longrightarrow>
    server_step s (s\<lparr>sv_rt := (sv_rt s)\<lparr>rt_clients := cs\<rparr>\<rparr>)"
| command: "nb_send_ok f \<Longrightarrow> server_step s (net_step (process_one f now (sv_net s)) s)"
| accept: "ni_nextConnId (sv_net s) + 1 \<noteq> 0 \<Longrightarrow> server_step s (net_step (accept_one (sv_net s) a now) s)"
| datagram: "server_step s (net_step (udp_one (sv_net s) a d) s)"
| poll: "nb_send_ok f \<Longrightarrow> server_step s (net_step (poll_conn f (sv_net s) cid revents rs) s)"

inductive reachable :: "server \<Rightarrow> server \<Rightarrow> bool" for s0 where
  reach_init: "reachable s0 s0"
| reach_step: "reachable s0 s \<Longrightarrow> server_step s s' \<Longrightarrow> reachable s0 s'"

definition server_init :: "server_runtime \<Rightarrow> server" where
  "server_init r =
     (let out = aq_new 8192
      in \<lparr>sv_rt = r\<lparr>rt_outbound := Some out\<rparr>, sv_net = net_start (NetIo_init (aq_new 8192) out), sv_running = True\<rparr>)"

subsection \<open>Connection numbers across the threads\<close>

definition accept_ids :: "inbound_event AsyncQueue \<Rightarrow> u64 list" where
  "accept_ids q = map ie_connId (filter (\<lambda>e. ie_kind e = TcpAccept) (aq_q q))"

definition ids_inv :: "server_runtime \<Rightarrow> net_io \<Rightarrow> bool" where
  "ids_inv r n \<longleftrightarrow>
     distinct (accept_ids (ni_inbound n)) \<and> 0 \<notin> set (accept_ids (ni_inbound n)) \<and>
     (\<forall>i\<in>set (accept_ids (ni_inbound n)) \<union> conn_ids r. i < ni_nextConnId n) \<and>
     set (accept_ids (ni_inbound n)) \<inter> conn_ids r = {}"

text \<open>Everything the network thread does, except accepting, leaves the announced connections alone.\<close>

definition accepts_same :: "net_io \<Rightarrow> net_io \<Rightarrow> bool" where
  "accepts_same n n' \<longleftrightarrow> accept_ids (ni_inbound n') = accept_ids (ni_inbound n) \<and> ni_nextConnId n' = ni_nextConnId n"

lemma accepts_refl [simp]: "accepts_same n n"
  by (simp add: accepts_same_def)

lemma accepts_trans: "accepts_same n n' \<Longrightarrow> accepts_same n' n'' \<Longrightarrow> accepts_same n n''"
  by (simp add: accepts_same_def)

lemma accepts_upd [simp]: "accepts_same n (upd_conn n' k f) = accepts_same n n'"
  by (simp add: accepts_same_def)

lemma accepts_push: "ie_kind ev \<noteq> TcpAccept \<Longrightarrow> accepts_same n (snd (push_inbound n ev))"
  by (simp add: accepts_same_def push_inbound_def aq_push_def accept_ids_def)

lemma accepts_close: "accepts_same n (net_close_conn n k b)"
proof -
  have "accepts_same n (snd (push_inbound (n\<lparr>ni_peerToConn := m\<rparr>) ev))" if "ie_kind ev \<noteq> TcpAccept" for m ev
    using accepts_push [OF that, of "n\<lparr>ni_peerToConn := m\<rparr>"] by (simp add: accepts_same_def)
  with accepts_push [of _ n] show ?thesis
    by (auto simp: net_close_conn_def Let_def accepts_same_def split: option.split)
qed

lemma accepts_drain: "accepts_same n (snd (drain_conn f n k c))"
  by (simp add: drain_conn_def split: prod.split)

lemma accepts_cmd: "accepts_same n (do_cmd f now n cmd)"
proof -
  have t: "accepts_same n (do_tcp_send f n cmd)"
    using accepts_trans [OF _ accepts_close] accepts_trans [OF _ accepts_drain]
    by (simp add: do_tcp_send_def Let_def split: option.split)
  have c: "accepts_same n (net_close_conn (n\<lparr>ni_peerToConn := m\<rparr>) k b)" for m k b
    using accepts_close [of "n\<lparr>ni_peerToConn := m\<rparr>" k b] by (simp add: accepts_same_def)
  have b: "accepts_same n (do_bind_peer n k p)" for k p
    using c accepts_close [of n] by (auto simp: do_bind_peer_def Let_def accepts_same_def split: option.split)
  from t b accepts_close show ?thesis
    by (auto simp: do_cmd_def do_close_def do_udp_send_def do_keep_pending_def Let_def accepts_same_def
        split: outbound_kind.split option.split)
qed

lemma accepts_process_one: "accepts_same n (process_one f now n)"
  using accepts_cmd [of "n\<lparr>ni_outbound := q\<rparr>" for q]
  by (auto simp: process_one_def accepts_same_def split: prod.split option.split)

lemma accepts_deliver: "accepts_same n (snd (deliver_frames n k c buf))"
proof (induction n k c buf rule: deliver_frames.induct)
  case (1 n k c buf)
  obtain o' b where e: "tcp_try_extract_frame buf = (o', b)" by fastforce
  show ?case
  proof (cases o')
    case None
    with e show ?thesis by (subst deliver_frames.simps) simp
  next
    case (Some f)
    have p: "accepts_same n (snd (push_inbound n (frame_event k c f)))"
      by (rule accepts_push) (simp add: frame_event_def)
    show ?thesis
    proof (cases "fst (push_inbound n (frame_event k c f))")
      case True
      with 1 e Some accepts_trans [OF p] show ?thesis by (subst deliver_frames.simps) simp
    next
      case False
      with e Some accepts_trans [OF p accepts_close] show ?thesis by (subst deliver_frames.simps) simp
    qed
  qed
qed

lemma accepts_poll_in: "accepts_same n (poll_in n k rs)"
proof (induction n k rs rule: poll_in.induct)
  case (2 n k r rs)
  show ?case
  proof (cases "um_find k (ni_conns n)")
    case (Some c)
    obtain j buf where a: "tcp_recv_append r (nc_recvBuf c) recv_max = (j, buf)" by fastforce
    let ?d = "deliver_frames n k c buf"
    show ?thesis
    proof (cases "j = 0 \<or> j = -2 \<or> j < 0")
      case True
      with Some a show ?thesis by (auto simp: accepts_close split: recv_res.split)
    next
      case False
      then have "fst ?d \<Longrightarrow> accepts_same (snd ?d) (poll_in (snd ?d) k rs)"
        using 2(1) [OF Some a [symmetric] _ _ refl] by simp
      then have "fst ?d \<Longrightarrow> accepts_same n (poll_in (snd ?d) k rs)"
        using accepts_trans [OF accepts_deliver [of n k c buf]] by blast
      with False Some a show ?thesis by (simp add: Let_def accepts_deliver)
    qed
  qed simp
qed simp

lemma accepts_poll_conn: "accepts_same n (poll_conn f n k revents rs)"
  using accepts_trans [OF accepts_drain accepts_close] accepts_trans [OF accepts_drain accepts_poll_in]
  by (simp add: poll_conn_def Let_def accepts_close accepts_poll_in accepts_drain split: option.split)

text \<open>Iteration order of the client map does not matter to the invariant.\<close>

lemma um_find_mset: "um_ok m \<Longrightarrow> mset m' = mset m \<Longrightarrow> um_find k m' = um_find k m \<and> um_ok m'"
proof -
  assume ok: "um_ok m" and eq: "mset m' = mset m"
  have "mset (map fst m') = mset (map fst m)" using eq by (simp add: mset_map)
  with ok have ok': "um_ok m'" unfolding um_ok_def by (metis mset_eq_imp_distinct_iff)
  have "set m' = set m" using eq by (rule mset_eq_setD)
  then have "um_find k m' = Some v \<longleftrightarrow> um_find k m = Some v" for v
    using ok ok' by (simp add: um_find_Some_iff)
  with ok' show ?thesis by (metis option.exhaust)
qed

lemma runtime_inv_rehash:
  assumes inv: "runtime_inv r" and eq: "mset cs = mset (rt_clients r)"
  shows "runtime_inv (r\<lparr>rt_clients := cs\<rparr>)" and "conn_ids (r\<lparr>rt_clients := cs\<rparr>) = conn_ids r"
proof -
  have c: "core_inv r" using inv by (simp add: runtime_inv_def)
  note f = um_find_mset [OF core_inv_um_ok [OF c] eq]
  have s: "set cs = set (rt_clients r)" using eq by (rule mset_eq_setD)
  have "clients_inv (rt_clients r) (rt_nextPeer r) (fst ` set (rt_players r))" using c by (simp only: core_inv_def)
  then have "clients_inv cs (rt_nextPeer r) (fst ` set (rt_players r))"
    by (rule clients_inv_subset) (simp_all add: f s)
  moreover have "host_ok cs (rt_world r)"
    using c host_ok_keys [of cs "rt_clients r"] unfolding core_inv_def s by blast
  moreover have "udp_inv (rt_udpPeerByAddr r) cs" using c f by (simp add: core_inv_def udp_inv_def)
  moreover have "conns_inv (rt_pendingTcp r) cs"
    by (rule conns_inv_subset [of _ "rt_clients r"]) (use inv s in \<open>simp_all only: runtime_inv_def\<close>)
  ultimately show "runtime_inv (r\<lparr>rt_clients := cs\<rparr>)" using c by (simp add: runtime_inv_def core_inv_def)
  show "conn_ids (r\<lparr>rt_clients := cs\<rparr>) = conn_ids r" by (simp add: conn_ids_def conn_view_def s)
qed

definition server_inv :: "server \<Rightarrow> bool" where
  "server_inv s \<longleftrightarrow>
     runtime_inv (sv_rt s) \<and> net_inv (sv_net s) \<and> rt_outbound (sv_rt s) = Some (ni_outbound (sv_net s)) \<and>
     ids_inv (sv_rt s) (sv_net s)"

lemma runtime_inv_outbound: "runtime_inv r \<Longrightarrow> queue_inv q \<Longrightarrow> runtime_inv (r\<lparr>rt_outbound := q\<rparr>)"
  by (simp add: runtime_inv_def core_inv_def)

lemma ids_inv_mono: "ids_inv r n \<Longrightarrow> conn_ids r' \<subseteq> conn_ids r \<Longrightarrow> accepts_same n n' \<Longrightarrow> ids_inv r' n'"
  unfolding ids_inv_def accepts_same_def by auto

lemma server_inv_sim:
  assumes "runtime_inv r" and "net_inv (sv_net s)" and "ids_inv r (sv_net s)"
  shows "server_inv (sim_step r s)"
proof -
  let ?q = "case rt_outbound r of Some q \<Rightarrow> q | None \<Rightarrow> ni_outbound (sv_net s)"
  have q: "aq_ok ?q"
    using assms(1,2) by (cases "rt_outbound r") (simp_all add: runtime_inv_def core_inv_def queue_inv_def net_inv_def)
  then have "runtime_inv (r\<lparr>rt_outbound := Some ?q\<rparr>)"
    using assms(1) by (intro runtime_inv_outbound) (simp_all add: queue_inv_def)
  moreover have "net_inv ((sv_net s)\<lparr>ni_outbound := ?q\<rparr>)" using assms(2) q by (simp add: net_inv_def)
  ultimately show ?thesis using assms(3) by (simp add: server_inv_def sim_step_def Let_def ids_inv_def)
qed

lemma server_inv_net:
  assumes "server_inv s" and "net_inv n" and "ids_inv (sv_rt s) n"
  shows "server_inv (net_step n s)"
proof -
  have "runtime_inv ((sv_rt s)\<lparr>rt_outbound := Some (ni_outbound n)\<rparr>)"
    using assms by (intro runtime_inv_outbound) (simp_all add: server_inv_def queue_inv_def net_inv_def)
  with assms show ?thesis by (simp add: server_inv_def net_step_def ids_inv_def)
qed

lemma ids_inv_accept:
  assumes "ids_inv r n" and "net_inv n" and "ni_nextConnId n + 1 \<noteq> 0"
  shows "ids_inv r (accept_one n a now)"
proof -
  let ?i = "ni_nextConnId n"
  let ?acc = "accept_ids (ni_inbound n)"
  have lt: "k < ?i + 1" if "k < ?i \<or> k = ?i" for k
    using that unatSuc [of ?i] assms(3) by (auto simp: word_less_nat_alt add.commute)
  have "?i \<noteq> 0" using assms(2) by (simp add: net_inv_def)
  have old: "i \<in> set ?acc \<union> conn_ids r \<Longrightarrow> i < ?i" for i using assms(1) by (auto simp: ids_inv_def)
  then have "?i \<notin> set ?acc \<union> conn_ids r" by blast
  moreover have "accept_ids (ni_inbound (accept_one n a now)) = ?acc \<or>
      accept_ids (ni_inbound (accept_one n a now)) = ?acc @ [?i]"
    by (simp add: accept_one_def Let_def push_inbound_def aq_push_def accept_ids_def)
  moreover have "ni_nextConnId (accept_one n a now) = ?i + 1" by (simp add: accept_one_def Let_def)
  ultimately show ?thesis
    using assms(1) \<open>?i \<noteq> 0\<close> lt old unfolding ids_inv_def by auto
qed

lemma ids_inv_pop:
  assumes ids: "ids_inv r n" and inv: "runtime_inv r" and p: "aq_try_pop (ni_inbound n) = (Some ev, q)"
  shows "event_ok r ev" and "ids_inv (apply_inbound r ev t now) (n\<lparr>ni_inbound := q\<rparr>)"
proof -
  have q: "aq_q (ni_inbound n) = ev # aq_q q" using p by (auto simp: aq_try_pop_def split: list.splits)
  have sub: "conn_ids (apply_inbound r ev t now) \<subseteq>
      (if ie_kind ev = TcpAccept then insert (ie_connId ev) (conn_ids r) else conn_ids r)"
    by (rule conn_ids_event [OF inv])
  show "event_ok r ev"
  proof (cases "ie_kind ev = TcpAccept")
    case True
    with q have "ie_connId ev \<in> set (accept_ids (ni_inbound n))" by (simp add: accept_ids_def)
    with ids have "ie_connId ev \<noteq> 0" "ie_connId ev \<notin> conn_ids r" by (auto simp: ids_inv_def)
    then show ?thesis by (auto simp: event_ok_def conn_ids_def conn_view_def image_image)
  qed (simp add: event_ok_def)
  show "ids_inv (apply_inbound r ev t now) (n\<lparr>ni_inbound := q\<rparr>)"
  proof (cases "ie_kind ev = TcpAccept")
    case True
    with q have a: "accept_ids (ni_inbound n) = ie_connId ev # accept_ids q" by (simp add: accept_ids_def)
    from sub True have "conn_ids (apply_inbound r ev t now) \<subseteq> insert (ie_connId ev) (conn_ids r)" by simp
    with ids show ?thesis unfolding ids_inv_def a by auto
  next
    case False
    with q have a: "accept_ids (ni_inbound n) = accept_ids q" by (simp add: accept_ids_def)
    from sub False have "conn_ids (apply_inbound r ev t now) \<subseteq> conn_ids r" by simp
    with ids show ?thesis unfolding ids_inv_def a by auto
  qed
qed

lemma ids_inv_sub: "ids_inv r n \<Longrightarrow> conn_ids r' \<subseteq> conn_ids r \<Longrightarrow> ids_inv r' n"
  by (erule ids_inv_mono) simp_all

lemma conn_ids_expire: "conn_ids (expire_pending r t) \<subseteq> conn_ids r" "conn_ids (expire_clients r t now) \<subseteq> conn_ids r"
proof -
  show "conn_ids (expire_pending r t) \<subseteq> conn_ids r" by (auto simp: expire_pending_out conn_ids_def)
  show "conn_ids (expire_clients r t now) \<subseteq> conn_ids r"
    using conn_ids_remove_all [of "\<lambda>_ _. False"] by (simp add: expire_clients_def Let_def)
qed

subsection \<open>Every step keeps the invariant\<close>

lemma runtime_inv_flush: "runtime_inv r \<Longrightarrow> runtime_inv (flush_dirty_async r)"
  using core_inv_flush [of r] by (simp add: runtime_inv_def)

lemma runtime_inv_heartbeat: "runtime_inv r \<Longrightarrow> runtime_inv (send_heartbeat r)"
  by (simp add: send_heartbeat_out runtime_inv_def)

lemma runtime_inv_worker:
  "runtime_inv r \<Longrightarrow> rt_persist r = Some pq \<Longrightarrow> runtime_inv (r\<lparr>rt_persist := Some (snd (aq_try_pop pq))\<rparr>)"
  by (auto simp: runtime_inv_def core_inv_def queue_inv_def aq_ok_def aq_try_pop_def split: list.split)

lemma net_inv_pop_inbound:
  "net_inv n \<Longrightarrow> aq_try_pop (ni_inbound n) = (Some ev, q) \<Longrightarrow> net_inv (n\<lparr>ni_inbound := q\<rparr>)"
  by (auto simp: net_inv_def aq_ok_def aq_try_pop_def split: list.splits)

lemma net_inv_udp: "net_inv n \<Longrightarrow> net_inv (udp_one n a d)"
  by (simp add: udp_one_def)

lemma net_inv_start: "aq_ok q \<Longrightarrow> aq_ok q' \<Longrightarrow> net_inv (net_start (NetIo_init q q'))"
  by (simp add: net_inv_def peers_inv_def peer_of_def net_start_def NetIo_init_def amap)

lemma server_inv_parts:
  assumes "server_inv s"
  shows "runtime_inv (sv_rt s)" and "net_inv (sv_net s)" and "ids_inv (sv_rt s) (sv_net s)"
  using assms by (simp_all add: server_inv_def)

lemma server_inv_step:
  assumes "server_step s s'" and "server_inv s"
  shows "server_inv s'"
proof -
  note inv = server_inv_parts [OF assms(2)]
  note [simp] = inv
  from assms(1) show ?thesis
  proof cases
    case (admin st l fs path)
    have "runtime_inv (fst st)" using runtime_inv_admin [of "(sv_rt s, sv_running s)"] admin(2) by simp
    moreover have "ids_inv (fst st) (sv_net s)"
      using ids_inv_sub [OF inv(3)] conn_ids_admin [of l fs path "(sv_rt s, sv_running s)"] admin(2) by simp
    ultimately show ?thesis unfolding admin(1) by (intro server_inv_sim) simp_all
  next
    case (event ev q t now)
    note p = ids_inv_pop [OF inv(3,1) event(2)]
    have "runtime_inv (apply_inbound (sv_rt s) ev t now)" by (rule runtime_inv_apply [OF inv(1) p(1) event(3)])
    with p(2) net_inv_pop_inbound [OF inv(2) event(2)] show ?thesis
      unfolding event(1) by (intro server_inv_sim) simp_all
  next
    case (expire_pending t)
    then show ?thesis
      using ids_inv_sub [OF inv(3) conn_ids_expire(1)] by (simp add: server_inv_sim runtime_inv_expire_pending)
  next
    case (expire_clients t now)
    then show ?thesis
      using ids_inv_sub [OF inv(3) conn_ids_expire(2)] by (simp add: server_inv_sim runtime_inv_expire_clients)
  next
    case flush
    have "ids_inv (flush_dirty_async (sv_rt s)) (sv_net s)"
      by (rule ids_inv_sub [OF inv(3)]) (simp add: conn_ids_def)
    with flush show ?thesis by (simp add: server_inv_sim runtime_inv_flush)
  next
    case heartbeat
    have "ids_inv (send_heartbeat (sv_rt s)) (sv_net s)"
      by (rule ids_inv_sub [OF inv(3)]) (simp add: send_heartbeat_out)
    with heartbeat show ?thesis by (simp add: server_inv_sim runtime_inv_heartbeat)
  next
    case (worker pq)
    then show ?thesis using assms(2) by (simp add: server_inv_def runtime_inv_worker ids_inv_def)
  next
    case (rehash cs)
    then show ?thesis
      using assms(2) runtime_inv_rehash [OF inv(1) rehash(2)] by (simp add: server_inv_def ids_inv_def)
  next
    case (command f now)
    then show ?thesis
      using ids_inv_mono [OF inv(3) subset_refl accepts_process_one]
      by (simp add: server_inv_net assms(2) net_inv_process_one)
  next
    case (accept a now)
    then show ?thesis
      using ids_inv_accept [OF inv(3,2)] by (simp add: server_inv_net assms(2) net_inv_accept)
  next
    case (datagram a d)
    have "accepts_same (sv_net s) (udp_one (sv_net s) a d)"
      by (simp add: udp_one_def accepts_push)
    from ids_inv_mono [OF inv(3) subset_refl this] datagram show ?thesis
      by (simp add: server_inv_net assms(2) net_inv_udp)
  next
    case (poll f cid revents rs)
    then show ?thesis
      using ids_inv_mono [OF inv(3) subset_refl accepts_poll_conn]
      by (simp add: server_inv_net assms(2) net_inv_poll_conn)
  qed
qed

lemma server_inv_init:
  assumes "runtime_inv r" and "rt_pendingTcp r = []" and "rt_clients r = []"
  shows "server_inv (server_init r)"
proof -
  have "net_inv (net_start (NetIo_init (aq_new 8192) (aq_new 8192)))" by (rule net_inv_start) (simp_all add: aq_ok_def aq_new_def)
  moreover have "runtime_inv (r\<lparr>rt_outbound := Some (aq_new 8192)\<rparr>)"
    using assms(1) by (rule runtime_inv_outbound) (simp add: queue_inv_def aq_ok_def aq_new_def)
  ultimately show ?thesis
    using assms by (simp add: server_inv_def server_init_def Let_def ids_inv_def conn_ids_def conn_view_def
        accept_ids_def aq_new_def net_start_def NetIo_init_def)
qed

lemma server_inv_reachable: "reachable s0 s \<Longrightarrow> server_inv s0 \<Longrightarrow> server_inv s"
  by (induction rule: reachable.induct) (auto intro: server_inv_step)

end
