(* ===== verification/Session.thy ===== *)
theory Session
  imports Relay ServerMain
begin

text \<open>
  Whole sessions: the invariant holds from the start of the server on, and a first run in which a
  player connects, says Hello and becomes the host.
\<close>

subsection \<open>The start\<close>

lemma load_world_host [simp]: "wo_hostPeerId (fst (load_world fs dir w ps)) = wo_hostPeerId w"
  by (simp add: load_world_def load_world_text_def Let_def split: option.split)

lemma startup_fields [simp]:
  "rt_clients (startup cfg fs dir) = []" "rt_pendingTcp (startup cfg fs dir) = []" "rt_cfg (startup cfg fs dir) = cfg"
  "rt_nextPeer (startup cfg fs dir) = 1" "rt_token (startup cfg fs dir) = udp_token_seed"
  "rt_helloRates (startup cfg fs dir) = []" "rt_sessionModHash (startup cfg fs dir) = cfg_modHash cfg"
  by (simp_all add: startup_def ServerRuntime_def Let_def)

lemma runtime_inv_startup: "runtime_inv (startup cfg fs dir)"
proof -
  have "runtime_inv (ServerRuntime cfg (fst (load_world fs' dir default_world [])) ps bans mh)" for fs' ps bans mh
    by (rule runtime_inv_init) (simp add: default_world_def)
  then show ?thesis
    by (simp add: startup_def Let_def runtime_inv_def core_inv_def queue_inv_def aq_ok_def aq_new_def)
qed

lemma server_inv_startup: "server_inv (server_init (startup cfg fs dir))"
  by (rule server_inv_init) (simp_all add: runtime_inv_startup)

lemma server_inv_session: "reachable (server_init (startup cfg fs dir)) s \<Longrightarrow> server_inv s"
  by (erule server_inv_reachable) (rule server_inv_startup)

subsection \<open>What the invariant says of one entry\<close>

lemma runtime_inv_entry:
  assumes inv: "runtime_inv r" and c: "(k, c) \<in> set (rt_clients r)"
  shows "cl_peerId c = k \<and> k \<noteq> 0 \<and> player_key_ok (cl_playerKey c) \<and> cl_playerKey c \<in> fst ` set (rt_players r) \<and>
    cl_udpToken c \<noteq> 0 \<and> cl_connId c \<noteq> 0 \<and> cl_connId c \<notin> pt_connId ` set (rt_pendingTcp r)"
proof -
  have "\<forall>kc\<in>set (rt_clients r). client_ok (snd kc) \<and> cl_playerKey (snd kc) \<in> fst ` set (rt_players r) \<and>
      cl_peerId (snd kc) = fst kc"
    using inv by (simp add: runtime_inv_def core_inv_def clients_inv_def clients_keyed_def)
  from bspec [OF this c] have a: "client_ok c" "cl_playerKey c \<in> fst ` set (rt_players r)" "cl_peerId c = k" by simp_all
  have "\<forall>kc\<in>set (rt_clients r). cl_connId (snd kc) \<noteq> 0 \<and> cl_connId (snd kc) \<notin> pt_connId ` set (rt_pendingTcp r)"
    using inv by (simp add: runtime_inv_def conns_inv_def)
  from bspec [OF this c] a show ?thesis by (simp add: client_ok_def)
qed

lemma runtime_inv_unique:
  assumes inv: "runtime_inv r" and c: "(k, c) \<in> set (rt_clients r)" and c': "(k', c') \<in> set (rt_clients r)"
  shows "cl_playerKey c = cl_playerKey c' \<or> cl_connId c = cl_connId c' \<longrightarrow> k = k' \<and> c = c'"
proof -
  have u: "uniq_on cl_playerKey (rt_clients r)" "uniq_on cl_connId (rt_clients r)" and ok: "um_ok (rt_clients r)"
    using inv by (simp_all add: runtime_inv_def core_inv_def clients_inv_def conns_inv_def core_inv_um_ok clients_keyed_def)
  have "k = k' \<Longrightarrow> c = c'" using um_find_Some_iff [OF ok] c c' by (metis option.inject)
  with uniq_onD [OF u(1) c c'] uniq_onD [OF u(2) c c'] show ?thesis by blast
qed

subsection \<open>A first run\<close>

definition ex_start :: server where
  "ex_start = server_init (startup default_config [] ''s'')"

definition ex_conn :: net_conn where
  "ex_conn = \<lparr>nc_sockValid = True, nc_addr = ex_addr 7, nc_recvBuf = [], nc_sendQ = sq_init, nc_peerId = 0,
     nc_connectedAt = 0, nc_wantOut = False\<rparr>"

lemma ex_start_fields:
  "rt_clients (sv_rt ex_start) = []" "rt_pendingTcp (sv_rt ex_start) = []" "rt_nextPeer (sv_rt ex_start) = 1"
  "rt_cfg (sv_rt ex_start) = default_config" "rt_bannedKeys (sv_rt ex_start) = []" "rt_helloRates (sv_rt ex_start) = []"
  "rt_sessionModHash (sv_rt ex_start) = 0" "ni_conns (sv_net ex_start) = []" "ni_nextConnId (sv_net ex_start) = 1"
  "ni_inbound (sv_net ex_start) = aq_new 8192" "ni_outbound (sv_net ex_start) = aq_new 8192" "sv_running ex_start"
  "rt_outbound (sv_rt ex_start) = Some (aq_new 8192)"
  by (simp_all add: ex_start_def server_init_def Let_def net_start_def NetIo_init_def startup_def ServerRuntime_def
      default_config_def backup_session_folder_def load_bans_def amap)

definition ex_accepted :: server where
  "ex_accepted = ex_start
     \<lparr>sv_rt := (sv_rt ex_start)\<lparr>rt_pendingTcp := [\<lparr>pt_connId = 1, pt_addr = ex_addr 7, pt_connectedAt = 0\<rparr>],
        rt_outbound := Some (aq_new 8192)\<rparr>,
      sv_net := (sv_net ex_start)\<lparr>ni_conns := [(1, ex_conn)], ni_nextConnId := 2, ni_inbound := aq_new 8192,
        ni_outbound := aq_new 8192\<rparr>\<rparr>"

lemma ex_accepted_reach: "reachable ex_start ex_accepted"
proof -
  let ?ev = "\<lparr>ie_kind = TcpAccept, ie_connId = 1, ie_peerId = 0, ie_addr = ex_addr 7, ie_bytes = []\<rparr>"
  let ?n = "(sv_net ex_start)\<lparr>ni_conns := [(1, ex_conn)], ni_nextConnId := 2, ni_inbound := (aq_new 8192)\<lparr>aq_q := [?ev]\<rparr>\<rparr>"
  have n: "accept_one (sv_net ex_start) (ex_addr 7) 0 = ?n"
    by (simp add: accept_one_def Let_def push_inbound_def aq_push_def ex_start_fields ex_conn_def um_emplace_def aq_new_def amap)
  have "server_step ex_start (net_step ?n ex_start)"
    using server_step.accept [of ex_start "ex_addr 7" 0] n by (simp add: ex_start_fields)
  then have r: "reachable ex_start (net_step ?n ex_start)" by (rule reach_step [OF reach_init])
  have "sim_step (apply_inbound (sv_rt (net_step ?n ex_start)) ?ev 0 0)
      ((net_step ?n ex_start)\<lparr>sv_net := ?n\<lparr>ni_inbound := aq_new 8192\<rparr>\<rparr>) = ex_accepted"
    by (simp add: sim_step_def net_step_def apply_inbound_def ex_start_fields ex_accepted_def Let_def)
  moreover have "server_step (net_step ?n ex_start) (sim_step (apply_inbound (sv_rt (net_step ?n ex_start)) ?ev 0 0)
      ((net_step ?n ex_start)\<lparr>sv_net := ?n\<lparr>ni_inbound := aq_new 8192\<rparr>\<rparr>))"
    using server_step.event [of "net_step ?n ex_start" ?ev "aq_new 8192" 0 0]
    by (simp add: net_step_def aq_try_pop_def ex_start_fields aq_new_def)
  ultimately show ?thesis using reach_step [OF r] by simp
qed


lemma ex_accepted_fields:
  "rt_clients (sv_rt ex_accepted) = []" "rt_nextPeer (sv_rt ex_accepted) = 1"
  "rt_pendingTcp (sv_rt ex_accepted) = [\<lparr>pt_connId = 1, pt_addr = ex_addr 7, pt_connectedAt = 0\<rparr>]"
  "rt_cfg (sv_rt ex_accepted) = default_config" "rt_bannedKeys (sv_rt ex_accepted) = []"
  "rt_helloRates (sv_rt ex_accepted) = []" "rt_sessionModHash (sv_rt ex_accepted) = 0"
  "ni_conns (sv_net ex_accepted) = [(1, ex_conn)]" "ni_inbound (sv_net ex_accepted) = aq_new 8192"
  by (simp_all add: ex_accepted_def ex_start_fields)

text \<open>The Hello of a player arrives on the connection.\<close>

definition ex_frame :: "string \<Rightarrow> inbound_event" where
  "ex_frame key = frame_event 1 ex_conn (enc_hello (ex_hello key))"

definition ex_received :: "string \<Rightarrow> net_io" where
  "ex_received key = upd_conn ((sv_net ex_accepted)\<lparr>ni_inbound := (aq_new 8192)\<lparr>aq_q := [ex_frame key]\<rparr>\<rparr>) 1
     (\<lambda>c. c\<lparr>nc_recvBuf := []\<rparr>)"

lemma ex_hello_valid: "valid_frame (enc_hello (ex_hello key))"
  using hello_c.enc_len [of "ex_hello key"] hello_c.hdr_enc [of "ex_hello key" "[]"]
  by (simp add: valid_frame_def sizeof_Header_def ex_hello_def made_wf) (simp add: make_hello_def fill_header_def)

lemma ex_received_poll:
  "poll_conn f (sv_net ex_accepted) 1 kPollIn [RData (enc_hello (ex_hello key))] = ex_received key"
proof -
  let ?b = "enc_hello (ex_hello key)"
  have len: "length ?b = sizeof_msg Hello" using hello_c.enc_len [of "ex_hello key"] by (simp add: ex_hello_def made_wf)
  have e: "extract_frames ?b = ([?b], [])" using extract_frames_valid [of "[?b]" "[]"] ex_hello_valid by simp
  have d: "deliver_frames (sv_net ex_accepted) 1 ex_conn ?b = (True, ex_received key)"
    using deliver_frames_room [of "sv_net ex_accepted" ?b 1 ex_conn]
    by (simp add: e ex_accepted_fields aq_new_def ex_received_def ex_frame_def)
  have r: "tcp_recv_append (RData ?b) [] recv_max = (int (length ?b), ?b)"
    by (simp add: tcp_recv_append_def len recv_max_def kMaxTcpFrame_def)
  have "poll_in (sv_net ex_accepted) 1 [RData ?b] = ex_received key"
    using r d by (simp add: ex_accepted_fields um_find_def len Let_def) (simp add: ex_conn_def)
  then show ?thesis
    by (simp add: poll_conn_def ex_accepted_fields um_find_def kPollIn_def kPollOut_def kPollErr_def kPollHup_def)
qed

lemma nb_send_all: "nb_send_ok (\<lambda>k d. if d = [] then WouldBlock else Sent (length d))"
  by (simp add: nb_send_ok_def)

lemma ex_join:
  assumes "player_key_ok key"
  shows "\<exists>s c. reachable ex_start s \<and> rt_clients (sv_rt s) = [(1, c)] \<and> cl_playerKey c = key \<and> cl_connId c = 1"
proof -
  let ?n = "ex_received key" and ?b = "enc_hello (ex_hello key)"
  let ?s = "net_step ?n ex_accepted"
  have "server_step ex_accepted ?s"
    using server_step.poll [OF nb_send_all, of ex_accepted 1 kPollIn "[RData ?b]"] by (simp add: ex_received_poll)
  then have r: "reachable ex_start ?s" by (rule reach_step [OF ex_accepted_reach])
  have f: "rt_clients (sv_rt ?s) = []" "rt_nextPeer (sv_rt ?s) = 1" "rt_cfg (sv_rt ?s) = default_config"
    "rt_bannedKeys (sv_rt ?s) = []" "rt_helloRates (sv_rt ?s) = []" "rt_sessionModHash (sv_rt ?s) = 0"
    "rt_pendingTcp (sv_rt ?s) = [\<lparr>pt_connId = 1, pt_addr = ex_addr 7, pt_connectedAt = 0\<rparr>]"
    by (simp_all add: net_step_def ex_accepted_fields)
  let ?s' = "sim_step (apply_inbound (sv_rt ?s) (ex_frame key) 0 0) (?s\<lparr>sv_net := (sv_net ?s)\<lparr>ni_inbound := aq_new 8192\<rparr>\<rparr>)"
  have "server_step ?s ?s'"
    using f by (intro server_step.event) (simp_all add: net_step_def ex_received_def aq_try_pop_def aq_new_def)
  then have r': "reachable ex_start ?s'" by (rule reach_step [OF r])
  have ci: "core_inv (sv_rt ?s)"
    using server_inv_session [OF r [unfolded ex_start_def]] by (simp add: server_inv_def runtime_inv_def)
  have p: "hello_passes (sv_rt ?s) ?b"
    using ex_hello_frame [of key] by (simp add: hello_passes_def Let_def ex_hello_read f default_config_def)
      (simp add: ex_hello_def make_hello_def flag_u8_def requires_host_def kProtocolVersion_def)
  have "same_key (sv_rt ?s) (read_hello ?b) = None" by (simp add: same_key_def f)
  moreover have "fst (allow_rate (rt_helloRates (sv_rt ?s)) (addr_key (pt_addr (rt_pendingTcp (sv_rt ?s) ! 0))) 0 2)"
    using ex_rate by (simp add: f)
  ultimately obtain c where "rt_clients (handle_pending_message (sv_rt ?s) 0 ?b 0) = [(1, c)]" "cl_playerKey c = key" "cl_connId c = 1"
    using passes_new_client [OF ci p, of 0 0] by (auto simp: f ex_hello_read ex_hello_key assms)
  then have "rt_clients (sv_rt ?s') = [(1, c)]"
    by (simp add: sim_step_def Let_def apply_inbound_def ex_frame_def frame_event_def ex_conn_def tcp_frame_event_def
        find_pending_def f pending_frame_def)
  with r' \<open>cl_playerKey c = key\<close> \<open>cl_connId c = 1\<close> show ?thesis by blast
qed

end
