(* ===== verification/Leaving.thy ===== *)
theory Leaving
  imports Relay Admin
begin

text \<open>
  Who leaves and who is kept out: removal of a client, the timeout, the ban commands, and what a late
  \<^verbatim>\<open>TcpClosed\<close> does after a player has come back on a new connection.
\<close>

subsection \<open>Removal\<close>

lemma removed_host:
  assumes inv: "core_inv r" and c: "um_find k (rt_clients r) = Some c" and "k \<noteq> wo_hostPeerId (rt_world r)"
  shows "rt_world (remove_client r k keepTcp now) = rt_world r"
proof -
  let ?cs = "um_erase k (rt_clients r)"
  have "clients_keyed ?cs" using core_inv_keyed [OF inv] by (auto simp: clients_keyed_def set_um_erase)
  moreover have "wo_hostPeerId (rt_world r) \<in> fst ` set (rt_clients r)"
    using inv um_find_SomeD [OF c] by (auto simp: core_inv_def host_ok_def split: if_splits)
  then have "wo_hostPeerId (rt_world r) \<in> fst ` set ?cs" using assms(3) by (auto simp: keys_um_erase)
  ultimately have "snd (find_host ?cs (rt_world r)) = rt_world r" by (simp add: find_host_stays)
  then show ?thesis using assms(3) core_inv_client(2) [OF inv c]
    by (simp add: remove_client_eq [OF c] removed_state_def host_gone_def)
qed

lemma flush_saves:
  assumes "rt_persist r = Some q" and "key \<in> set (rt_dirtyPlayers r)" and "um_find key (rt_players r) = Some rec"
  shows "rt_persist (flush_dirty_async r) = Some (snd (aq_push q (dirty_job r))) \<and> rec \<in> set (pj_players (dirty_job r))"
proof -
  have "rec \<in> set (pj_players (dirty_job r))"
    using assms(2,3) by (force simp: dirty_job_def List.map_filter_def)
  then show ?thesis using assms(1) by (auto simp: flush_dirty_async_def Let_def enqueue_def)
qed

lemma removed_saved:
  assumes c: "um_find k (rt_clients r) = Some c" and q: "rt_persist r = Some q" and p: "um_find (cl_playerKey c) (rt_players r) = Some rec"
  shows "\<exists>job. rt_persist (remove_client r k keepTcp now) = Some (snd (aq_push q job)) \<and> rec \<in> set (pj_players job)"
proof -
  let ?s = "out_cmds (removed_state r k c keepTcp now) (remove_cmds r k c keepTcp)"
  have "rt_persist ?s = Some q" "cl_playerKey c \<in> set (rt_dirtyPlayers ?s)" "um_find (cl_playerKey c) (rt_players ?s) = Some rec"
    using q p by (simp_all add: removed_state_def us_insert_def)
  from flush_saves [OF this] show ?thesis by (auto simp: remove_client_eq [OF c])
qed

lemma remove_all_clients:
  "rt_clients (foldl (\<lambda>r p. remove_client r p (f r p) now) r ps) = filter (\<lambda>kc. fst kc \<notin> set ps) (rt_clients r)"
proof (induction ps arbitrary: r)
  case (Cons p ps)
  then show ?case by (simp add: um_erase_def conj_commute)
qed simp

lemma split_two_words:
  assumes "a \<noteq> []" and "b \<noteq> []" and "\<forall>c\<in>set a. \<not> c_isspace c" and "\<forall>c\<in>set b. \<not> c_isspace c"
  shows "split_words (a @ '' '' @ b) = [a, b]"
proof -
  have sp: "c_isspace CHR '' ''" by (simp add: c_isspace_def)
  have one: "split_words (CHR '' '' # b) = [b]"
  proof -
    have d: "dropWhile c_isspace (CHR '' '' # b) = b" using assms(2,4) sp by (cases b) auto
    have t: "takeWhile (\<lambda>c. \<not> c_isspace c) b = b" "dropWhile (\<lambda>c. \<not> c_isspace c) b = []"
      using assms(4) by (simp_all add: takeWhile_eq_all_conv)
    have "split_words [] = []" by (subst split_words.simps) simp
    with assms(2) show ?thesis unfolding split_words.simps [of "CHR '' '' # b"] Let_def d t by simp
  qed
  have d: "dropWhile c_isspace (a @ '' '' @ b) = a @ '' '' @ b"
    using assms(1,3) by (cases a) auto
  have t: "takeWhile (\<lambda>c. \<not> c_isspace c) (a @ '' '' @ b) = a" "dropWhile (\<lambda>c. \<not> c_isspace c) (a @ '' '' @ b) = '' '' @ b"
    using assms(3) sp by (simp_all add: takeWhile_append dropWhile_append)
  show ?thesis using assms(1) one unfolding split_words.simps [of "a @ '' '' @ b"] Let_def d t by simp
qed

lemma key_no_space: "player_key_ok key \<Longrightarrow> c \<in> set key \<Longrightarrow> \<not> c_isspace c"
  by (auto simp: player_key_ok_def list_all_iff key_char_def c_isalnum_def c_isalpha_def is_digit_def c_isspace_def)

text \<open>
  C28: removing a client takes exactly that client out of the table, tells every other client with one
  \<^verbatim>\<open>Bye\<close> and closes the connection (or leaves it pending when it is to be kept); afterwards no UDP
  address leads to the client, somebody connected is the host if anybody is left, the host is the
  same as before unless it was the one who left, and the record of the player is in the job handed
  to the persist worker.
\<close>

theorem client_removed:
  assumes inv: "core_inv r" and c: "um_find k (rt_clients r) = Some c"
  shows "let r' = remove_client r k keepTcp now
    in rt_clients r' = filter (\<lambda>kc. fst kc \<noteq> k) (rt_clients r) \<and>
       rt_outbound r' = rt_outbound (out_cmds r
         (each_client (rt_clients r) (\<lambda>oid other. if oid \<noteq> k then tcp_cmds other (enc_bye (make_bye k)) else []) @
          (if keepTcp \<and> cl_connId c \<noteq> 0 then [(outbound_default KeepPending)\<lparr>oc_peerId := k\<rparr>]
           else close_cmds (cl_connId c)))) \<and>
       (\<forall>a. um_find a (rt_udpPeerByAddr r') \<noteq> Some k) \<and>
       host_ok (rt_clients r') (rt_world r') \<and>
       (k \<noteq> wo_hostPeerId (rt_world r) \<longrightarrow> rt_world r' = rt_world r) \<and>
       (\<forall>q rec. rt_persist r = Some q \<and> um_find (cl_playerKey c) (rt_players r) = Some rec \<longrightarrow>
          (\<exists>job. rt_persist r' = Some (snd (aq_push q job)) \<and> rec \<in> set (pj_players job)))"
proof -
  have k: "cl_peerId c = k" by (rule core_inv_client(2) [OF inv c])
  have "core_inv (remove_client r k keepTcp now)" using inv by blast
  then have "host_ok (rt_clients (remove_client r k keepTcp now)) (rt_world (remove_client r k keepTcp now))"
    by (simp add: core_inv_def)
  moreover have "um_find a (rt_udpPeerByAddr (remove_client r k keepTcp now)) \<noteq> Some k" for a
    using udp_inv_unbound [OF inv] by (auto simp: remove_client_eq [OF c] removed_state_def)
  moreover have "rt_outbound (remove_client r k keepTcp now) = rt_outbound (out_cmds r (remove_cmds r k c keepTcp))"
    by (simp add: remove_client_eq [OF c] out_cmds_def removed_state_def)
  ultimately show ?thesis
    using removed_host [OF inv c] removed_saved [OF c] remove_client_clients [of r k keepTcp now]
    unfolding Let_def remove_cmds_def k um_erase_def by blast
qed

theorem client_removed_witness:
  "let r' = remove_client ex_rt 1 False 0
   in rt_clients r' = [(2, ex_client 2 ''bob'')] \<and> wo_hostPeerId (rt_world r') = 2"
proof -
  have "um_find 1 (rt_clients ex_rt) = Some (ex_client 1 ''ann'')" by simp
  from client_removed [OF ex_rt_core this, of False 0] show ?thesis
    by (simp add: Let_def host_ok_def um_erase_def split: if_splits)
qed

text \<open>
  The timeout removes exactly the clients that were silent for more than
  \<^verbatim>\<open>kClientTimeoutSec\<close>: the others stay, with their entries unchanged and in order.
\<close>

lemma silent_clients_expire:
  assumes "core_inv r"
  shows "rt_clients (expire_clients r t now) = filter (\<lambda>kc. \<not> client_expired t (snd kc)) (rt_clients r)"
proof -
  have u: "um_ok (rt_clients r)" by (rule core_inv_um_ok [OF assms])
  have "fst kc \<in> set (map fst (filter (\<lambda>kc. client_expired t (snd kc)) (rt_clients r))) \<longleftrightarrow> client_expired t (snd kc)"
    if "kc \<in> set (rt_clients r)" for kc
    using that u unfolding um_ok_def by (auto simp: distinct_map inj_on_def)
  then show ?thesis
    using remove_all_clients [of "\<lambda>_ _. False" now r]
    by (auto simp: expire_clients_def Let_def intro!: filter_cong)
qed

lemma silent_clients_expire_witness:
  "rt_clients (expire_clients ex_rt (f64_of_int 9) 0) = []"
proof -
  have "client_expired (f64_of_int 9) (ex_client k key)" for k key
    by (simp add: client_expired_def kClientTimeoutSec_def ex_client_def f64_of_int_def ieee_eval)
  with silent_clients_expire [OF ex_rt_core] show ?thesis by simp
qed

subsection \<open>Bans\<close>

lemma ban_command:
  assumes "player_key_ok key"
  shows "run_admin_command (''ban '' @ key) fs path (r, b) = (cmd_ban r key, b)"
    and "run_admin_command (''unban '' @ key) fs path (r, b) = (cmd_unban r key, b)"
proof -
  have k: "key \<noteq> []" "\<forall>c\<in>set key. \<not> c_isspace c"
    using assms key_no_space by (auto simp: player_key_ok_def)
  have "split_words (''ban '' @ key) = [''ban'', key]" "split_words (''unban '' @ key) = [''unban'', key]"
    using split_two_words [of "''ban''" key] split_two_words [of "''unban''" key] k by (simp_all add: c_isspace_def)
  then show "run_admin_command (''ban '' @ key) fs path (r, b) = (cmd_ban r key, b)"
    "run_admin_command (''unban '' @ key) fs path (r, b) = (cmd_unban r key, b)"
    by (simp_all add: run_admin_command_def admin_dispatch_def lower_copy_def c_tolower_def Let_def)
qed

text \<open>
  After the operator's \<^verbatim>\<open>ban\<close> command no Hello with that key changes the table of clients, whatever
  else it carries, and the list of bans is on its way to the disk; \<^verbatim>\<open>unban\<close> takes the key off the list
  again. Neither command touches who is connected.
\<close>

lemma ban_keeps_out:
  assumes inv: "core_inv r" and key: "player_key_ok key" and h: "hello_key (read_hello buf) = key"
  shows "let r' = fst (run_admin_command (''ban '' @ key) fs path (r, True));
             r'' = fst (run_admin_command (''unban '' @ key) fs path (r', True))
    in rt_clients r' = rt_clients r \<and> rt_clients (handle_pending_message r' i buf t) = rt_clients r \<and>
       rt_persist r' = map_option (\<lambda>q. snd (aq_push q (empty_job\<lparr>pj_writeBans := True, pj_banKeys := rt_bannedKeys r'\<rparr>)))
         (rt_persist r) \<and>
       set (rt_bannedKeys r') = insert key (set (rt_bannedKeys r)) \<and>
       set (rt_bannedKeys r'') = set (rt_bannedKeys r) - {key}"
proof -
  let ?r = "cmd_ban r key"
  have s: "sanitize_player_key key ''player'' = key" by (rule sanitize_idem [OF key])
  have b: "set (rt_bannedKeys ?r) = insert key (set (rt_bannedKeys r))" by (auto simp: cmd_ban_def s us_insert_def)
  have ci: "core_inv ?r" using inv by (auto simp: cmd_ban_def)
  have "\<not> hello_passes ?r buf" using b h by (simp add: hello_passes_def Let_def)
  with pending_gate [OF ci] have "rt_clients (handle_pending_message ?r i buf t) = rt_clients ?r" by blast
  moreover have "rt_persist ?r = map_option (\<lambda>q. snd (aq_push q (empty_job\<lparr>pj_writeBans := True, pj_banKeys := rt_bannedKeys ?r\<rparr>)))
         (rt_persist r)"
    by (simp add: cmd_ban_def persist_bans_async_def enqueue_def)
  moreover have "set (rt_bannedKeys (cmd_unban ?r key)) = set (rt_bannedKeys r) - {key}"
    using b by (auto simp: cmd_unban_def s us_erase_def)
  moreover have "rt_clients ?r = rt_clients r" by (simp add: cmd_ban_def)
  ultimately show ?thesis using b unfolding ban_command [OF key] Let_def fst_conv by simp
qed

lemma ban_keeps_out_witness:
  "rt_clients (handle_pending_message (fst (run_admin_command ''ban cat'' [] [] (ex_rt, True))) 0 (enc_hello (ex_hello ''cat'')) 0) =
   rt_clients ex_rt"
proof -
  have "hello_key (read_hello (enc_hello (ex_hello ''cat''))) = ''cat''" by (simp add: ex_hello_read ex_hello_key ex_cat)
  from ban_keeps_out [OF ex_rt_core ex_cat this, of "[]" "[]" 0 0] show ?thesis by (simp add: Let_def)
qed

subsection \<open>A late close\<close>

text \<open>
  C39: a close of the old connection that is still queued when a player has come back removes the
  player again. \<^verbatim>\<open>apply_inbound\<close> looks the client up by the peer id of the event and does not compare
  the connection: after the Hello the client is on its new connection, after the close of the old
  connection it is gone.
\<close>

theorem late_close_drops_player:
  assumes inv: "core_inv r" and p: "hello_passes r buf" and old: "same_key r (read_hello buf) = Some (k, c)"
    and i: "find_pending r cid = Some i"
    and rate: "fst (allow_rate (rt_helloRates r) (addr_key (pt_addr (rt_pendingTcp r ! i))) t 2)"
  shows "let r1 = apply_inbound r \<lparr>ie_kind = TcpFrame, ie_connId = cid, ie_peerId = 0, ie_addr = a, ie_bytes = buf\<rparr> t now;
             r2 = apply_inbound r1 \<lparr>ie_kind = TcpClosed, ie_connId = cl_connId c, ie_peerId = k, ie_addr = a', ie_bytes = []\<rparr> t now
    in (\<exists>c'. um_find k (rt_clients r1) = Some c' \<and> cl_connId c' = cid) \<and> um_find k (rt_clients r2) = None"
proof -
  have f: "um_find k (rt_clients r) = Some c" using find_client [OF inv old [unfolded same_key_def]] by simp
  have "k \<noteq> 0" using core_inv_client [OF inv f] by (auto simp: client_ok_def)
  have cid: "pt_connId (rt_pendingTcp r ! i) = cid" using find_index_Some i by (fastforce simp: find_pending_def)
  let ?q = "snd (allow_rate (rt_helloRates r) (addr_key (pt_addr (rt_pendingTcp r ! i))) t 2)"
  have a: "handle_pending_message r i buf t = admit (r\<lparr>rt_helloRates := ?q\<rparr>) i (read_hello buf) (requires_host (read_hello buf)) t"
    using passes_admit [OF inv p, of i t ?q] rate by (simp add: prod_eq_iff)
  have "core_inv (r\<lparr>rt_helloRates := ?q\<rparr>)" "same_key (r\<lparr>rt_helloRates := ?q\<rparr>) (read_hello buf) = Some (k, c)"
    using inv old by simp_all
  from admit_again [OF this] obtain c' where c': "rt_clients (handle_pending_message r i buf t) = um_upd k (\<lambda>_. c') (rt_clients r)"
    "cl_connId c' = cid"
    using cid by (force simp: a reconnected_def)
  have "um_find k (rt_clients (handle_pending_message r i buf t)) = Some c'" using f by (simp add: c'(1) amap)
  with i \<open>k \<noteq> 0\<close> c'(2) show ?thesis
    by (simp add: Let_def apply_inbound_def tcp_frame_event_def pending_frame_def tcp_closed_event_def amap)
qed

theorem late_close_drops_player_witness:
  "let r1 = apply_inbound ex_rt \<lparr>ie_kind = TcpFrame, ie_connId = 3, ie_peerId = 0, ie_addr = ex_addr 3, ie_bytes = enc_hello (ex_hello ''bob'')\<rparr> 0 0;
       r2 = apply_inbound r1 \<lparr>ie_kind = TcpClosed, ie_connId = 2, ie_peerId = 2, ie_addr = ex_addr 2, ie_bytes = []\<rparr> 0 0
   in (\<exists>c'. um_find 2 (rt_clients r1) = Some c' \<and> cl_connId c' = 3) \<and> um_find 2 (rt_clients r2) = None"
proof -
  have "same_key ex_rt (read_hello (enc_hello (ex_hello ''bob''))) = Some (2, ex_client 2 ''bob'')"
    by (simp add: same_key_def ex_hello_read ex_hello_key ex_keys)
  moreover have "find_pending ex_rt 3 = Some 0" by (simp add: find_pending_def)
  moreover have "''bob'' \<noteq> ''eve''" by simp
  ultimately show ?thesis
    using late_close_drops_player [OF ex_rt_core ex_hello_passes [OF ex_keys(2)] _ _ ex_rate, of 2 "ex_client 2 ''bob''" 3 0] by simp
qed

end
