(* ===== verification/ClientNet.thy ===== *)
theory ClientNet
  imports Net
begin

text \<open>
  \<^verbatim>\<open>plugin/src/udp_win.cpp\<close>: the sockets of the game plugin. The two sockets and the receive buffer are
  a record; what Winsock answers is the record \<open>winsock\<close> and, for \<^verbatim>\<open>recv\<close>, the list of its results up
  to the first one that is not data. The record also keeps what was handed to the network: the bytes
  of the current TCP connection and the datagrams.
\<close>

record winsock =
  sk_startup :: bool
  sk_udpSocket :: bool
  sk_tcpSocket :: bool
  sk_pton :: "string \<Rightarrow> bool"
  sk_connect :: bool
  sk_send :: send_fn
  sk_sendto :: "bytes \<Rightarrow> bool"

record client_net =
  cn_wsa :: bool
  cn_udp :: bool
  cn_tcp :: bool
  cn_tcpRecv :: bytes
  cn_tcpSent :: bytes
  cn_udpSent :: "bytes list"

definition client_net_init :: client_net where
  "client_net_init =
   \<lparr>cn_wsa = False, cn_udp = False, cn_tcp = False, cn_tcpRecv = [], cn_tcpSent = [], cn_udpSent = []\<rparr>"

definition cmp_net_startup :: "winsock \<Rightarrow> client_net \<Rightarrow> bool \<times> client_net" where
  "cmp_net_startup ws n =
     (if \<not> cn_wsa n \<and> \<not> sk_startup ws then (False, n)
      else
        let n1 = n\<lparr>cn_wsa := True, cn_udp := False\<rparr>
        in if \<not> sk_udpSocket ws then (False, n1) else (True, n1\<lparr>cn_udp := True\<rparr>))"

definition cmp_net_shutdown :: "client_net \<Rightarrow> client_net" where
  "cmp_net_shutdown n = n\<lparr>cn_tcp := False, cn_udp := False, cn_tcpRecv := []\<rparr>"

definition cmp_net_tcp_connected :: "client_net \<Rightarrow> bool" where
  "cmp_net_tcp_connected n = cn_tcp n"

definition cmp_net_tcp_connect :: "winsock \<Rightarrow> string \<Rightarrow> client_net \<Rightarrow> bool \<times> client_net" where
  "cmp_net_tcp_connect ws host n =
     (let n1 = n\<lparr>cn_tcp := False, cn_tcpRecv := []\<rparr>
      in if \<not> sk_tcpSocket ws then (False, n1)
         else if \<not> sk_pton ws host then (False, n1)
         else if \<not> sk_connect ws then (False, n1)
         else (True, n1\<lparr>cn_tcp := True, cn_tcpSent := []\<rparr>))"

definition cmp_net_tcp_send :: "winsock \<Rightarrow> bytes \<Rightarrow> client_net \<Rightarrow> bool \<times> client_net" where
  "cmp_net_tcp_send ws data n =
     (if \<not> cn_tcp n \<or> data = [] then (False, n)
      else
        let r = send_loop (sk_send ws) 0 data
        in (fst r, n\<lparr>cn_tcpSent := cn_tcpSent n @ snd r\<rparr>))"

definition WSAEWOULDBLOCK :: int where "WSAEWOULDBLOCK = 10035"
definition WSAETIMEDOUT :: int where "WSAETIMEDOUT = 10060"

text \<open>The loop around \<^verbatim>\<open>recv\<close>: whether the socket was closed, and the buffer.\<close>

fun recv_more :: "recv_res list \<Rightarrow> bytes \<Rightarrow> bool \<times> bytes" where
  "recv_more [] buf = (False, buf)"
| "recv_more (RData d # rs) buf = recv_more rs (buf @ d)"
| "recv_more (RClosed # rs) buf = (True, buf)"
| "recv_more (RErr err # rs) buf = (err \<noteq> WSAEWOULDBLOCK \<and> err \<noteq> WSAETIMEDOUT, buf)"

text \<open>The result is \<open>-1\<close> for nothing, \<open>-2\<close> for closed, or the length of the frame, which comes with it.\<close>

definition cmp_net_tcp_recv_frame :: "nat \<Rightarrow> recv_res list \<Rightarrow> client_net \<Rightarrow> (int \<times> bytes) \<times> client_net" where
  "cmp_net_tcp_recv_frame maxlen rs n =
     (if \<not> cn_tcp n \<or> maxlen < 12 then ((-1, []), n)
      else case recv_more rs (cn_tcpRecv n) of (gone, buf) \<Rightarrow>
        let n1 = n\<lparr>cn_tcpRecv := buf\<rparr>
        in if gone then ((-2, []), n1\<lparr>cn_tcp := False\<rparr>)
           else if length buf < 12 then ((-1, []), n1)
           else
             let size = unat (h_size (dec_header buf))
             in if size < 12 then ((-1, []), n1\<lparr>cn_tcpRecv := []\<rparr>)
                else if length buf < size then ((-1, []), n1)
                else if size > maxlen then ((-1, []), n1\<lparr>cn_tcpRecv := drop size buf\<rparr>)
                else ((int size, take size buf), n1\<lparr>cn_tcpRecv := drop size buf\<rparr>))"

definition cmp_net_udp_send :: "winsock \<Rightarrow> string \<Rightarrow> bytes \<Rightarrow> client_net \<Rightarrow> bool \<times> client_net" where
  "cmp_net_udp_send ws host data n =
     (if \<not> cn_udp n \<or> data = [] then (False, n)
      else if \<not> sk_pton ws host then (False, n)
      else if sk_sendto ws data then (True, n\<lparr>cn_udpSent := cn_udpSent n @ [data]\<rparr>)
      else (False, n))"

text \<open>
  \<open>None\<close> is a result of \<^verbatim>\<open>recvfrom\<close> that is not positive; it also fails for a datagram longer than the buffer.
\<close>

definition cmp_net_udp_recv :: "nat \<Rightarrow> bytes option \<Rightarrow> client_net \<Rightarrow> int \<times> bytes" where
  "cmp_net_udp_recv maxlen d n =
     (if \<not> cn_udp n \<or> maxlen = 0 then (-1, [])
      else case d of
        None \<Rightarrow> (-1, [])
      | Some b \<Rightarrow> if b = [] \<or> length b > maxlen then (-1, []) else (int (length b), b))"

subsection \<open>Frames\<close>

lemma recv_more_data: "recv_more (map RData cs @ rs) buf = recv_more rs (buf @ concat cs)"
  by (induction cs arbitrary: buf) simp_all

lemma recv_frame_valid:
  assumes "cn_tcp n" and "valid_frame f" and "12 \<le> maxlen" and "length f \<le> maxlen" and "recv_more rs (cn_tcpRecv n) = (False, f @ r)"
  shows "cmp_net_tcp_recv_frame maxlen rs n = ((int (length f), f), n\<lparr>cn_tcpRecv := r\<rparr>)"
  using assms dec_header_append [of f r]
  by (auto simp: cmp_net_tcp_recv_frame_def valid_frame_def sizeof_Header_def Let_def)

lemma recv_frame_partial:
  assumes "cn_tcp n" and "p = [] \<or> (\<exists>q. q \<noteq> [] \<and> valid_frame (p @ q))" and "12 \<le> maxlen"
    and "recv_more rs (cn_tcpRecv n) = (False, p)"
  shows "cmp_net_tcp_recv_frame maxlen rs n = ((-1, []), n\<lparr>cn_tcpRecv := p\<rparr>)"
proof (cases "length p < 12")
  case True
  with assms show ?thesis by (auto simp: cmp_net_tcp_recv_frame_def Let_def)
next
  case False
  with assms(2) obtain q where q: "q \<noteq> []" "valid_frame (p @ q)" by auto
  with False have "unat (h_size (dec_header p)) = length p + length q"
    using dec_header_append [of p q] by (simp add: valid_frame_def)
  with assms False q show ?thesis by (simp add: cmp_net_tcp_recv_frame_def Let_def)
qed

text \<open>Successive calls, each with the results of its own \<^verbatim>\<open>recv\<close> calls.\<close>

fun recv_calls :: "nat \<Rightarrow> recv_res list list \<Rightarrow> client_net \<Rightarrow> (int \<times> bytes) list \<times> client_net" where
  "recv_calls maxlen [] n = ([], n)"
| "recv_calls maxlen (rs # rss) n =
     (let r = cmp_net_tcp_recv_frame maxlen rs n; rest = recv_calls maxlen rss (snd r)
      in (fst r # fst rest, snd rest))"

lemma recv_calls_frames:
  assumes "cn_tcp n" and "list_all (\<lambda>f. valid_frame f \<and> length f \<le> maxlen) fs" and "12 \<le> maxlen"
    and "p = [] \<or> (\<exists>q. q \<noteq> [] \<and> valid_frame (p @ q))" and "cn_tcpRecv n = concat fs @ p"
  shows "recv_calls maxlen (replicate (Suc (length fs)) []) n =
    (map (\<lambda>f. (int (length f), f)) fs @ [(-1, [])], n\<lparr>cn_tcpRecv := p\<rparr>)"
  using assms
proof (induction fs arbitrary: n)
  case Nil
  then show ?case using recv_frame_partial [of n p maxlen "[]"] by (simp add: Let_def)
next
  case (Cons f fs)
  have "cmp_net_tcp_recv_frame maxlen [] n = ((int (length f), f), n\<lparr>cn_tcpRecv := concat fs @ p\<rparr>)"
    by (rule recv_frame_valid) (use Cons.prems in simp_all)
  moreover have "recv_calls maxlen (replicate (Suc (length fs)) []) (n\<lparr>cn_tcpRecv := concat fs @ p\<rparr>) =
      (map (\<lambda>f. (int (length f), f)) fs @ [(-1, [])], n\<lparr>cn_tcpRecv := p\<rparr>)"
    using Cons.IH [of "n\<lparr>cn_tcpRecv := concat fs @ p\<rparr>"] Cons.prems by simp
  ultimately show ?case by (simp add: Let_def)
qed

lemma bye_frame: "valid_frame (enc_bye (make_bye p))" "length (enc_bye (make_bye p)) = 16"
  using bye_c.enc_len [of "make_bye p"] bye_c.hdr_enc [of "make_bye p" "[]"]
  by (simp_all add: valid_frame_def sizeof_Header_def make_bye_def bye_wf_def) (simp add: fill_header_def)

text \<open>
  The plugin takes the same frames out of a TCP stream as the server would: when the bytes buffered
  and received, however \<^verbatim>\<open>recv\<close> cut them, are whole frames followed by the start of one more, successive
  calls return exactly the frames the server's extraction yields, in order, then nothing, and keep the
  start of the unfinished one.
\<close>

lemma client_frames:
  assumes "cn_tcp n" and "list_all (\<lambda>f. valid_frame f \<and> length f \<le> maxlen) fs" and "12 \<le> maxlen"
    and "p = [] \<or> (\<exists>q. q \<noteq> [] \<and> valid_frame (p @ q))" and "cn_tcpRecv n @ concat cs = concat fs @ p"
  shows "fst (extract_frames (cn_tcpRecv n @ concat cs)) = fs \<and>
    recv_calls maxlen (map RData cs # replicate (length fs) []) n =
      (map (\<lambda>f. (int (length f), f)) fs @ [(-1, [])], n\<lparr>cn_tcpRecv := p\<rparr>)"
proof -
  let ?n = "n\<lparr>cn_tcpRecv := concat fs @ p\<rparr>"
  have m: "recv_more (map RData cs) (cn_tcpRecv n) = recv_more [] (cn_tcpRecv ?n)"
    using recv_more_data [of cs "[]" "cn_tcpRecv n"] assms(5) by simp
  then have "cmp_net_tcp_recv_frame maxlen (map RData cs) n = cmp_net_tcp_recv_frame maxlen [] ?n"
    using assms(1,3) by (simp add: cmp_net_tcp_recv_frame_def Let_def)
  then have "recv_calls maxlen (map RData cs # replicate (length fs) []) n = recv_calls maxlen (replicate (Suc (length fs)) []) ?n"
    by simp
  moreover have "recv_calls maxlen (replicate (Suc (length fs)) []) ?n =
      (map (\<lambda>f. (int (length f), f)) fs @ [(-1, [])], ?n\<lparr>cn_tcpRecv := p\<rparr>)"
    by (rule recv_calls_frames) (use assms in simp_all)
  moreover have "list_all valid_frame fs" using assms(2) by (simp add: list_all_iff)
  ultimately show ?thesis using extract_frames_valid [OF _ assms(4)] assms(5) by simp
qed

text \<open>
  A frame that arrives together with the end of the stream is lost: when \<^verbatim>\<open>recv\<close> reports the end in
  the same call, the result is that the connection is closed, whatever complete frames are in the
  buffer, and the socket is invalid, so no later call returns them. A server that says why it
  disconnects somebody and then closes is not heard.
\<close>

lemma last_frame_lost:
  assumes "cn_tcp n" and "12 \<le> maxlen" and "list_all valid_frame fs" and "cn_tcpRecv n = []"
  shows "fst (extract_frames (concat fs)) = fs \<and>
    fst (recv_calls maxlen ((map RData fs @ [RClosed]) # rss) n) = (-2, []) # replicate (length rss) (-1, [])"
proof -
  let ?n = "n\<lparr>cn_tcpRecv := concat fs, cn_tcp := False\<rparr>"
  have c: "cmp_net_tcp_recv_frame maxlen (map RData fs @ [RClosed]) n = ((-2, []), ?n)"
    using assms by (simp add: cmp_net_tcp_recv_frame_def recv_more_data Let_def)
  have "fst (recv_calls maxlen rss m) = replicate (length rss) (-1, [])" if "\<not> cn_tcp m" for m
    using that by (induction rss arbitrary: m) (simp_all add: cmp_net_tcp_recv_frame_def Let_def)
  from this [of ?n] c have "fst (recv_calls maxlen ((map RData fs @ [RClosed]) # rss) n) = (-2, []) # replicate (length rss) (-1, [])"
    by (simp add: Let_def)
  with extract_frames_valid [OF assms(3), of "[]"] show ?thesis by simp
qed

lemma last_frame_lost_witness:
  "let b = enc_bye (make_bye 7); n = client_net_init\<lparr>cn_tcp := True\<rparr>
   in fst (recv_calls 512 [[RData b, RClosed], []] n) = [(-2, []), (-1, [])]"
proof -
  have "list_all valid_frame [enc_bye (make_bye 7)]" using bye_frame [of 7] by simp
  from last_frame_lost [OF _ _ this, of "client_net_init\<lparr>cn_tcp := True\<rparr>" 512 "[[]]"] show ?thesis
    by (simp add: client_net_init_def Let_def)
qed

end
