(* ===== verification/Rounding.thy ===== *)
theory Rounding
  imports Ieee
begin

text \<open>
  The rounding of \<open>Ieee\<close> is correct: a number rounded lies on the same side of every number of the format as
  it did before. From this, sums and differences stay between numbers of the format that bound them.
\<close>

subsection \<open>The nearest integer\<close>

lemma rne_ge: "0 < b \<Longrightarrow> k * b \<le> a \<Longrightarrow> k \<le> rne a b"
  using div_le_mono [of "k * b" a b] by (simp add: rne_def rne_qr_def)

lemma rne_le:
  assumes "0 < b" "a \<le> k * b"
  shows "rne a b \<le> k"
proof (cases "a = k * b")
  case True
  with assms show ?thesis by (simp add: rne_def rne_qr_def)
next
  case False
  with assms have "a div b < k" by (simp add: div_less_iff_less_mult)
  then show ?thesis by (simp add: rne_def rne_qr_def)
qed

subsection \<open>Bits\<close>

lemma nat_bits_bounds: "0 < n \<Longrightarrow> 2 ^ (nat_bits n - 1) \<le> n \<and> n < 2 ^ nat_bits n \<and> 0 < nat_bits n"
proof (induction n rule: nat_bits.induct)
  case (1 n)
  show ?case
  proof (cases "n div 2 = 0")
    case True
    with 1(2) have "n = 1" by simp
    then show ?thesis by (simp add: nat_bits_eval)
  next
    case False
    then have h: "2 ^ (nat_bits (n div 2) - 1) \<le> n div 2" "n div 2 < 2 ^ nat_bits (n div 2)" "0 < nat_bits (n div 2)"
      using 1 by simp_all
    have b: "nat_bits n = Suc (nat_bits (n div 2))" using 1(2) by (subst nat_bits.simps) simp
    obtain j where j: "nat_bits (n div 2) = Suc j" using h(3) gr0_implies_Suc by blast
    have "2 * 2 ^ j \<le> n" "n < 2 * 2 ^ Suc j" using h(1,2) j by simp_all
    then show ?thesis by (simp add: b j)
  qed
qed

text \<open>The real behind a quotient scaled by a power of two.\<close>

definition quot :: "nat \<Rightarrow> nat \<Rightarrow> int \<Rightarrow> real" where
  "quot n d e = real n / real d * 2 powr (- real_of_int e)"

lemma quot_nat:
  assumes "0 < d"
  shows "real (n * 2 ^ nat (- e)) / real (d * 2 ^ nat e) = quot n d e"
proof (cases "0 \<le> e")
  case True
  then have "2 powr (- real_of_int e) = 1 / 2 ^ nat e"
    by (simp add: powr_minus powr_real_of_int field_simps)
  with True assms show ?thesis by (simp add: quot_def)
next
  case False
  then have "2 powr (- real_of_int e) = 2 ^ nat (- e)"
    by (simp add: powr_real_of_int flip: of_int_minus)
  with False assms show ?thesis by (simp add: quot_def)
qed

lemma quot_le:
  assumes "0 < d"
  shows "quot n d e \<le> real k \<longleftrightarrow> n * 2 ^ nat (- e) \<le> k * (d * 2 ^ nat e)"
proof -
  have "0 < real (d * 2 ^ nat e)" using assms by simp
  then have "quot n d e \<le> real k \<longleftrightarrow> real (n * 2 ^ nat (- e)) \<le> real k * real (d * 2 ^ nat e)"
    unfolding quot_nat [OF assms, symmetric] by (rule pos_divide_le_eq)
  then show ?thesis unfolding of_nat_mult [symmetric] of_nat_le_iff .
qed

lemma quot_ge:
  assumes "0 < d"
  shows "real k \<le> quot n d e \<longleftrightarrow> k * (d * 2 ^ nat e) \<le> n * 2 ^ nat (- e)"
proof -
  have "0 < real (d * 2 ^ nat e)" using assms by simp
  then have "real k \<le> quot n d e \<longleftrightarrow> real k * real (d * 2 ^ nat e) \<le> real (n * 2 ^ nat (- e))"
    unfolding quot_nat [OF assms, symmetric] by (rule pos_le_divide_eq)
  then show ?thesis unfolding of_nat_mult [symmetric] of_nat_le_iff .
qed


subsection \<open>The exponent\<close>

lemma quot_shift: "quot n d (e + 1) = quot n d e / 2"
proof -
  have "- real_of_int (e + 1) = - real_of_int e - 1" by simp
  then have "2 powr (- real_of_int (e + 1)) = 2 powr (- real_of_int e) / 2" by (simp only: powr_diff powr_one)
  then show ?thesis unfolding quot_def by (simp only: times_divide_eq_right)
qed

lemma quot_mono: "e \<le> f \<Longrightarrow> quot n d f \<le> quot n d e"
  unfolding quot_def by (rule mult_left_mono) simp_all

lemma bits_real:
  assumes "0 < n"
  shows "2 powr (real (nat_bits n) - 1) \<le> real n" "real n < 2 powr real (nat_bits n)"
proof -
  obtain j where j: "nat_bits n = Suc j" using nat_bits_bounds [OF assms] gr0_implies_Suc by blast
  have "2 ^ j \<le> n" "n < 2 ^ Suc j" using nat_bits_bounds [OF assms] by (simp_all add: j)
  then have "real (2 ^ j) \<le> real n" "real n < real (2 ^ Suc j)" unfolding of_nat_le_iff of_nat_less_iff .
  then show "2 powr (real (nat_bits n) - 1) \<le> real n" "real n < 2 powr real (nat_bits n)"
    by (simp_all add: j powr_realpow [symmetric] powr_add)
qed

lemma quot_start:
  assumes "0 < n" "0 < d" and e: "e = int (nat_bits n) - int (nat_bits d) - int (mb + 1)"
  shows "2 ^ mb < quot n d e" "quot n d e < 2 ^ (mb + 2)"
proof -
  let ?a = "real (nat_bits n)" and ?b = "real (nat_bits d)"
  note n = bits_real [OF assms(1)] and d = bits_real [OF assms(2)]
  have pos: "0 < real d" "0 < real n" using assms by simp_all
  have w: "2 powr (- real_of_int e) = 2 powr (?b + real mb + 1 - ?a)" by (simp add: e algebra_simps)
  have "2 powr (?a - 1) / 2 powr ?b < real n / real d"
    by (rule frac_less2) (use n d pos in simp_all)
  then have "2 powr (?a - 1) / 2 powr ?b * 2 powr (?b + real mb + 1 - ?a) < real n / real d * 2 powr (?b + real mb + 1 - ?a)"
    by (rule mult_strict_right_mono) (rule powr_gt_zero [THEN iffD2], simp)
  moreover have "2 powr (?a - 1) / 2 powr ?b * 2 powr (?b + real mb + 1 - ?a) = (2::real) ^ mb"
    by (simp add: powr_realpow [symmetric] flip: powr_add powr_diff)
  ultimately show "2 ^ mb < quot n d e" by (simp add: quot_def w)
  have "real n / real d < 2 powr ?a / 2 powr (?b - 1)"
    by (rule frac_less) (use n d pos in simp_all)
  then have "real n / real d * 2 powr (?b + real mb + 1 - ?a) < 2 powr ?a / 2 powr (?b - 1) * 2 powr (?b + real mb + 1 - ?a)"
    by (rule mult_strict_right_mono) (rule powr_gt_zero [THEN iffD2], simp)
  also have "\<dots> = 2 powr real (mb + 2)"
    by (simp flip: powr_add powr_diff)
  also have "\<dots> = 2 ^ (mb + 2)"
    by (rule powr_realpow) simp
  finally show "quot n d e < 2 ^ (mb + 2)" by (simp add: quot_def w)
qed

text \<open>The exponent that is chosen leaves at most \<open>mb + 1\<close> bits, and no fewer unless it is the smallest.\<close>

lemma exponent_fits:
  assumes "0 < n" "0 < d" and f: "f = max lo (fp_exp mb n d (int (nat_bits n) - int (nat_bits d) - int (mb + 1)))"
  shows "quot n d f < 2 ^ (mb + 1)" "f = lo \<or> 2 ^ mb \<le> quot n d f" "lo \<le> f"
proof -
  define e where "e = int (nat_bits n) - int (nat_bits d) - int (mb + 1)"
  note st = quot_start [OF assms(1,2) e_def]
  have le: "2 ^ (mb + 1) * d * 2 ^ nat e \<le> n * 2 ^ nat (- e) \<longleftrightarrow> 2 ^ (mb + 1) \<le> quot n d e"
    using quot_ge [OF assms(2), of "2 ^ (mb + 1)" n e] by (simp add: mult.assoc)
  have "quot n d (fp_exp mb n d e) < 2 ^ (mb + 1) \<and> 2 ^ mb \<le> quot n d (fp_exp mb n d e)"
  proof (cases "2 ^ (mb + 1) \<le> quot n d e")
    case True
    then have "fp_exp mb n d e = e + 1" by (simp only: fp_exp_def le if_True)
    with True st show ?thesis by (simp add: quot_shift)
  next
    case False
    then have "fp_exp mb n d e = e" by (simp only: fp_exp_def le if_False)
    with False st show ?thesis by simp
  qed
  moreover have "f = max lo (fp_exp mb n d e)" by (simp only: f e_def)
  moreover have "fp_exp mb n d e \<le> lo \<Longrightarrow> quot n d lo \<le> quot n d (fp_exp mb n d e)" by (rule quot_mono)
  ultimately show "quot n d f < 2 ^ (mb + 1)" "f = lo \<or> 2 ^ mb \<le> quot n d f" "lo \<le> f"
    by (simp_all add: max_def split: if_splits)
qed


subsection \<open>Numbers of the format\<close>

text \<open>\<open>fp_rep\<close>: a number the format has, whatever its representation; \<open>fp_normal\<close>: as decoding gives it.\<close>

definition fp_rep :: "nat \<Rightarrow> nat \<Rightarrow> fp \<Rightarrow> bool" where
  "fp_rep mb eb v = (case v of FFin s m e \<Rightarrow> m < 2 ^ (mb + 1) \<and> fp_emin mb eb \<le> e \<and> e \<le> fp_emax mb eb | _ \<Rightarrow> False)"

definition fp_normal :: "nat \<Rightarrow> nat \<Rightarrow> fp \<Rightarrow> bool" where
  "fp_normal mb eb v \<longleftrightarrow> fp_rep mb eb v \<and> (case v of FFin s m e \<Rightarrow> 2 ^ mb \<le> m \<or> e = fp_emin mb eb | _ \<Rightarrow> False)"

lemma fp_normal_rep: "fp_normal mb eb v \<Longrightarrow> fp_rep mb eb v"
  by (simp add: fp_normal_def)

lemma fp_rep_finite: "fp_rep mb eb v \<Longrightarrow> fp_finite v"
  by (simp add: fp_rep_def fp_finite_def split: fp.splits)

lemma fp_rep_neg: "fp_rep mb eb (fp_neg v) = fp_rep mb eb v" "fp_real (fp_neg v) = - fp_real v"
  by (cases v; simp add: fp_rep_def fp_real_def sgn_int_def)+

definition mag :: "nat \<Rightarrow> int \<Rightarrow> real" where
  "mag m e = real m * 2 powr real_of_int e"

lemma fp_real_mag: "fp_real (FFin s m e) = (if s then - mag m e else mag m e)"
  by (simp add: fp_real_def mag_def sgn_int_def)

lemma mag_nonneg [simp]: "0 \<le> mag m e"
  by (simp add: mag_def)

lemma quot_mag_le: "0 < d \<Longrightarrow> real n / real d \<le> mag k e \<longleftrightarrow> quot n d e \<le> real k"
  by (simp add: mag_def quot_def powr_minus field_simps)

lemma quot_mag_ge: "0 < d \<Longrightarrow> mag k e \<le> real n / real d \<longleftrightarrow> real k \<le> quot n d e"
  by (simp add: mag_def quot_def powr_minus field_simps)

text \<open>A number of the format that is not below one with full precision is a multiple of its last place.\<close>

lemma mag_multiple:
  assumes "f \<le> j"
  obtains i where "mag k j = mag i f"
proof
  have "real_of_int j = real (nat (j - f)) + real_of_int f" using assms by simp
  then have "2 powr real_of_int j = 2 ^ nat (j - f) * 2 powr real_of_int f" by (simp only: powr_add powr_realpow zero_less_numeral)
  then show "mag k j = mag (k * 2 ^ nat (j - f)) f" by (simp add: mag_def)
qed

lemma mag_small:
  assumes "k < 2 ^ (mb + 1)" "j < f"
  shows "mag k j < mag (2 ^ mb) f"
proof -
  have "real k < real (2 ^ (mb + 1))" using assms(1) unfolding of_nat_less_iff .
  also have "\<dots> = 2 powr real (mb + 1)" by (subst powr_realpow) simp_all
  finally have "mag k j < 2 powr real (mb + 1) * 2 powr real_of_int j"
    unfolding mag_def by (rule mult_strict_right_mono) simp
  also have "\<dots> = 2 powr (real (mb + 1) + real_of_int j)" by (simp only: powr_add)
  also have "\<dots> \<le> 2 powr (real mb + real_of_int f)" using assms(2) by simp
  also have "\<dots> = mag (2 ^ mb) f" by (simp add: mag_def powr_add powr_realpow)
  finally show ?thesis .
qed

lemma round_at_between:
  assumes "0 < n" "0 < d"
    and f: "f = max (fp_emin mb eb) (fp_exp mb n d (int (nat_bits n) - int (nat_bits d) - int (mb + 1)))"
    and q: "q = rne (n * 2 ^ nat (- f)) (d * 2 ^ nat f)"
    and k: "k < 2 ^ (mb + 1)" "fp_emin mb eb \<le> j"
  shows "real n / real d \<le> mag k j \<Longrightarrow> mag q f \<le> mag k j" and "mag k j \<le> real n / real d \<Longrightarrow> mag k j \<le> mag q f"
    and "q \<le> 2 ^ (mb + 1)" and "2 ^ mb \<le> q \<or> f = fp_emin mb eb"
proof -
  note fits = exponent_fits [OF assms(1,2) f]
  have B: "0 < d * 2 ^ nat f" using assms(2) by simp
  have le: "quot n d f \<le> real i \<Longrightarrow> q \<le> i" for i
    unfolding quot_le [OF assms(2)] q using B by (rule rne_le)
  have ge: "real i \<le> quot n d f \<Longrightarrow> i \<le> q" for i
    unfolding quot_ge [OF assms(2)] q using B by (rule rne_ge)
  show "q \<le> 2 ^ (mb + 1)" using le [of "2 ^ (mb + 1)"] fits(1) by simp
  show full: "2 ^ mb \<le> q \<or> f = fp_emin mb eb" using ge [of "2 ^ mb"] fits(2) by auto
  have small: "mag k j < mag (2 ^ mb) f" if "j < f" using k(1) that by (rule mag_small)
  have mono: "a \<le> b \<Longrightarrow> mag a f \<le> mag b f" for a b by (simp add: mag_def)
  show "mag q f \<le> mag k j" if x: "real n / real d \<le> mag k j"
  proof (cases "f \<le> j")
    case True
    then obtain i where i: "mag k j = mag i f" by (rule mag_multiple)
    with x have "quot n d f \<le> real i" by (simp add: quot_mag_le assms(2))
    then show ?thesis using le mono i by simp
  next
    case False
    then have "f \<noteq> fp_emin mb eb" using k(2) by linarith
    then have "mag (2 ^ mb) f \<le> real n / real d" using fits(2) by (simp add: quot_mag_ge assms(2))
    with x small False show ?thesis by linarith
  qed
  show "mag k j \<le> mag q f" if x: "mag k j \<le> real n / real d"
  proof (cases "f \<le> j")
    case True
    then obtain i where i: "mag k j = mag i f" by (rule mag_multiple)
    with x have "real i \<le> quot n d f" by (simp add: quot_mag_ge assms(2))
    then show ?thesis using ge mono i by simp
  next
    case False
    then have "f \<noteq> fp_emin mb eb" using k(2) by linarith
    then have "mag (2 ^ mb) f \<le> mag q f" using full mono by blast
    with small False show ?thesis by linarith
  qed
qed


lemma mag_carry: "mag (2 ^ (mb + 1)) f = mag (2 ^ mb) (f + 1)"
  by (simp add: mag_def powr_add)

lemma mag_mono_exp: "e \<le> f \<Longrightarrow> mag m e \<le> mag m f"
  by (simp add: mag_def mult_left_mono)

text \<open>What is bounded by a number of the format is rounded to one, below it, and above every one that was below.\<close>

lemma round_between:
  assumes "0 < n" "0 < d" "0 < mb" and k: "k < 2 ^ (mb + 1)" "fp_emin mb eb \<le> j" "j \<le> fp_emax mb eb"
    and "real n / real d \<le> mag k j"
  shows "\<exists>m e. fp_round mb eb s n d = FFin s m e \<and> fp_normal mb eb (FFin s m e) \<and> mag m e \<le> mag k j \<and>
    (\<forall>k' j'. k' < 2 ^ (mb + 1) \<longrightarrow> fp_emin mb eb \<le> j' \<longrightarrow> mag k' j' \<le> real n / real d \<longrightarrow> mag k' j' \<le> mag m e)"
proof -
  define f where "f = max (fp_emin mb eb) (fp_exp mb n d (int (nat_bits n) - int (nat_bits d) - int (mb + 1)))"
  define q where "q = rne (n * 2 ^ nat (- f)) (d * 2 ^ nat f)"
  note at = round_at_between [OF assms(1,2) f_def q_def]
  have r: "fp_round mb eb s n d = fp_pack mb eb s q f"
    using assms(1) by (simp only: fp_round_def fp_round_at_def f_def q_def neq0_conv [symmetric] if_False Let_def)
  have up: "mag q f \<le> mag k j" using at(1) [OF k(1,2)] assms(7) by simp
  have low: "fp_emin mb eb \<le> f" by (simp add: f_def)
  have strict: "mag k j < mag (2 ^ mb) (fp_emax mb eb + 1)" using k by (intro mag_small) simp_all
  have over: "f' \<le> fp_emax mb eb" if "mag (2 ^ mb) f' \<le> mag q f" for f'
    using strict up that mag_mono_exp [of "fp_emax mb eb + 1" f' "2 ^ mb"] by fastforce
  show ?thesis
  proof (cases "q = 2 ^ (mb + 1)")
    case True
    have c: "mag q f = mag (2 ^ mb) (f + 1)" unfolding True by (rule mag_carry)
    have e: "f + 1 \<le> fp_emax mb eb" using over [of "f + 1"] c by simp
    have "fp_round mb eb s n d = FFin s (2 ^ mb) (f + 1)" using e by (simp add: r fp_pack_def True)
    moreover have "fp_normal mb eb (FFin s (2 ^ mb) (f + 1))" using low e by (simp add: fp_normal_def fp_rep_def)
    ultimately show ?thesis using up at(2) unfolding c by blast
  next
    case False
    then have q: "q < 2 ^ (mb + 1)" using at(3) [OF k(1,2)] by simp
    have "fp_emin mb eb \<le> fp_emax mb eb" using k by simp
    have full: "2 ^ mb \<le> q \<or> f = fp_emin mb eb" using at(4) [OF k(1,2)] .
    have e: "f \<le> fp_emax mb eb"
    proof (cases "2 ^ mb \<le> q")
      case True
      then have "mag (2 ^ mb) f \<le> mag q f" unfolding mag_def by (intro mult_right_mono) (simp_all flip: of_nat_le_iff)
      then show ?thesis by (rule over)
    next
      case False
      with full k show ?thesis by simp
    qed
    have "fp_round mb eb s n d = FFin s q f" using e False by (simp add: r fp_pack_def)
    moreover have "fp_normal mb eb (FFin s q f)" using low e q full by (simp add: fp_normal_def fp_rep_def)
    ultimately show ?thesis using up at(2) by blast
  qed
qed

subsection \<open>Sums\<close>

lemma add_exact:
  assumes "a = FFin s m e" "b = FFin t n f"
  defines "g \<equiv> min e f"
  defines "z \<equiv> sgn_int s m * 2 ^ nat (e - g) + sgn_int t n * 2 ^ nat (f - g)"
  shows "fp_real a + fp_real b = of_int z * 2 powr of_int g" "fp_add mb eb a b = fp_add_fin mb eb (s \<and> t) z g"
proof -
  have "fp_real a + fp_real b =
      of_int (sgn_int s m * 2 ^ nat (e - g)) * 2 powr of_int g + of_int (sgn_int t n * 2 ^ nat (f - g)) * 2 powr of_int g"
    unfolding assms(1,2) fp_real_def fp.case g_def
    by (simp only: scale_real [of "min e f" e] scale_real [of "min e f" f] min.cobounded1 min.cobounded2)
  then show "fp_real a + fp_real b = of_int z * 2 powr of_int g"
    by (simp only: z_def of_int_add distrib_right)
  show "fp_add mb eb a b = fp_add_fin mb eb (s \<and> t) z g"
    by (simp add: assms)
qed

lemma quot_of_scaled: "real (nat \<bar>z\<bar> * 2 ^ nat g) / real (2 ^ nat (- g)) = \<bar>of_int z * 2 powr of_int g\<bar>"
proof -
  have "real (2 ^ nat g) / real (2 ^ nat (- g)) = 2 powr of_int g"
    by (cases "0 \<le> g") (simp_all add: powr_real_of_int inverse_eq_divide)
  then show ?thesis by (simp add: abs_mult flip: times_divide_eq_right)
qed

text \<open>A sum that lies between two numbers of the format is rounded to one between them.\<close>

lemma fp_add_between:
  assumes mb: "0 < mb" and "fp_rep mb eb a" "fp_rep mb eb b" and c: "fp_rep mb eb c" and c': "fp_rep mb eb c'"
    and "fp_real c \<le> fp_real a + fp_real b" "fp_real a + fp_real b \<le> fp_real c'"
  shows "fp_normal mb eb (fp_add mb eb a b) \<and> fp_real c \<le> fp_real (fp_add mb eb a b) \<and> fp_real (fp_add mb eb a b) \<le> fp_real c'"
proof -
  obtain s m e t n f where ab: "a = FFin s m e" "b = FFin t n f"
    using assms(2,3) by (auto simp: fp_rep_def split: fp.splits)
  define g where "g = min e f"
  define z where "z = sgn_int s m * 2 ^ nat (e - g) + sgn_int t n * 2 ^ nat (f - g)"
  have ex: "fp_real a + fp_real b = of_int z * 2 powr of_int g" "fp_add mb eb a b = fp_add_fin mb eb (s \<and> t) z g"
    using add_exact [OF ab] unfolding g_def z_def by simp_all
  obtain u k j where c_eq: "c = FFin u k j" and ck: "k < 2 ^ (mb + 1)" "fp_emin mb eb \<le> j" "j \<le> fp_emax mb eb"
    using c by (auto simp: fp_rep_def split: fp.splits)
  obtain u' k' j' where c'_eq: "c' = FFin u' k' j'" and ck': "k' < 2 ^ (mb + 1)" "fp_emin mb eb \<le> j'" "j' \<le> fp_emax mb eb"
    using c' by (auto simp: fp_rep_def split: fp.splits)
  show ?thesis
  proof (cases "z = 0")
    case True
    with ex assms(6,7) ck show ?thesis
      by (simp add: fp_add_fin_def fp_normal_def fp_rep_def fp_real_mag mag_def)
  next
    case False
    define N where "N = nat \<bar>z\<bar> * 2 ^ nat g"
    define D where "D = (2 ^ nat (- g) :: nat)"
    have pos: "0 < N" "0 < D" using False by (simp_all add: N_def D_def)
    have x: "real N / real D = \<bar>fp_real a + fp_real b\<bar>" unfolding N_def D_def ex(1) by (rule quot_of_scaled)
    have r: "fp_add mb eb a b = fp_round mb eb (z < 0) N D" using False by (simp add: ex(2) fp_add_fin_def N_def D_def)
    show ?thesis
    proof (cases "z < 0")
      case True
      then have neg: "fp_real a + fp_real b < 0" by (simp add: ex(1) mult_neg_pos)
      have "\<not> mag k j \<le> fp_real a + fp_real b" using neg mag_nonneg [of k j] by linarith
      then have "u" using assms(6) by (simp add: c_eq fp_real_mag split: if_splits)
      then have "real N / real D \<le> mag k j" using assms(6) neg by (simp add: x c_eq fp_real_mag)
      from round_between [OF pos mb ck this, of "z < 0"] obtain m' e' where
        v: "fp_round mb eb (z < 0) N D = FFin (z < 0) m' e'" "fp_normal mb eb (FFin (z < 0) m' e')" "mag m' e' \<le> mag k j"
        "\<And>i l. i < 2 ^ (mb + 1) \<Longrightarrow> fp_emin mb eb \<le> l \<Longrightarrow> mag i l \<le> real N / real D \<Longrightarrow> mag i l \<le> mag m' e'" by blast
      have "fp_real (FFin True m' e') \<le> fp_real c'"
      proof (cases u')
        case True
        then have "mag k' j' \<le> real N / real D" using assms(7) neg by (simp add: x c'_eq fp_real_mag)
        with v(4) ck' True show ?thesis by (simp add: c'_eq fp_real_mag)
      next
        case False
        then show ?thesis using mag_nonneg [of m' e'] mag_nonneg [of k' j'] by (simp add: c'_eq fp_real_mag del: mag_nonneg)
      qed
      then show ?thesis using v \<open>u\<close> True by (simp add: r c_eq fp_real_mag)
    next
      case no: False
      then have sgn: "0 < fp_real a + fp_real b" using False by (simp add: ex(1))
      have "\<not> fp_real a + fp_real b \<le> - mag k' j'" using sgn mag_nonneg [of k' j'] by linarith
      then have "\<not> u'" using assms(7) by (auto simp: c'_eq fp_real_mag)
      then have "real N / real D \<le> mag k' j'" using assms(7) sgn by (simp add: x c'_eq fp_real_mag)
      from round_between [OF pos mb ck' this, of "z < 0"] obtain m' e' where
        v: "fp_round mb eb (z < 0) N D = FFin (z < 0) m' e'" "fp_normal mb eb (FFin (z < 0) m' e')" "mag m' e' \<le> mag k' j'"
        "\<And>i l. i < 2 ^ (mb + 1) \<Longrightarrow> fp_emin mb eb \<le> l \<Longrightarrow> mag i l \<le> real N / real D \<Longrightarrow> mag i l \<le> mag m' e'" by blast
      have "fp_real c \<le> fp_real (FFin False m' e')"
      proof (cases u)
        case True
        then show ?thesis using mag_nonneg [of m' e'] mag_nonneg [of k j] by (simp add: c_eq fp_real_mag del: mag_nonneg)
      next
        case False
        then have "mag k j \<le> real N / real D" using assms(6) sgn by (simp add: x c_eq fp_real_mag)
        with v(4) ck False show ?thesis by (simp add: c_eq fp_real_mag)
      qed
      then show ?thesis using v \<open>\<not> u'\<close> no by (simp add: r c'_eq fp_real_mag)
    qed
  qed
qed


subsection \<open>Single precision\<close>

definition f32_real :: "f32 \<Rightarrow> real" where
  "f32_real w = fp_real (f32_fp w)"

lemma f32_consts: "fp_emin 23 8 = - 149" "fp_emax 23 8 = 104"
  by (simp_all add: fp_emin_def fp_emax_def)

lemma f32_normal: "fp_finite (f32_fp w) \<Longrightarrow> fp_normal 23 8 (f32_fp w)"
  by (auto simp: f32_fp_def fp_of_bits_def fp_fields_def fp_finite_def fp_normal_def fp_rep_def f32_consts
      split: if_splits)

lemma f32_fp_f32:
  assumes "fp_normal 23 8 v"
  shows "f32_fp (fp_f32 v) = v"
proof -
  obtain s m e where v: "v = FFin s m e" and m: "m < 2 ^ 24" "- 149 \<le> e" "e \<le> 104" "2 ^ 23 \<le> m \<or> e = - 149"
    using assms by (auto simp: fp_normal_def fp_rep_def f32_consts split: fp.splits)
  define x where "x = (if m < 2 ^ 23 then 0 else nat (e + 150))"
  define f where "f = (if m < 2 ^ 23 then m else m - 2 ^ 23)"
  have f: "f < 2 ^ 23" using m(1) by (auto simp: f_def)
  have x: "x < 255" using m(2,3) by (auto simp: x_def)
  let ?b = "(if s then 2 ^ 31 else 0) + (x * 2 ^ 23 + f)"
  have xf: "x * 2 ^ 23 + f < 2 ^ 31" using f x by simp
  have "nat (e + 150) = nat (e + 149) + 1" using m(2) by simp
  then have b: "bits_of_fp 23 8 v = ?b"
    by (auto simp: v bits_of_fp_def f32_consts x_def f_def)
  have "?b < 2 ^ 32" using xf by simp
  then have u: "unat (fp_f32 v) = ?b"
    unfolding fp_f32_def b unsigned_of_nat of_nat_id by (intro take_bit_nat_eq_self) simp
  have "?b = f + ((if s then 256 else 0) + x) * 2 ^ 23" by simp
  then have d: "?b div 2 ^ 23 mod 2 ^ 8 = x" "?b mod 2 ^ 23 = f"
    using f x by (simp_all only: div_mult_self1 mod_mult_self1 div_less mod_less) (simp_all split: if_split)
  have d3: "odd (?b div 2 ^ 31) = s" using xf by (simp split: if_split)
  note d = d d3
  show ?thesis
    unfolding f32_fp_def fp_of_bits_def u using d m x
    by (simp add: fp_fields_def v x_def f_def f32_consts split: if_splits)
qed


lemma finite_not_nan: "fp_finite v \<Longrightarrow> v \<noteq> FNan"
  by (auto simp: fp_finite_def)

lemma f32_less_real: "fp_finite (f32_fp a) \<Longrightarrow> fp_finite (f32_fp b) \<Longrightarrow> f32_less a b \<longleftrightarrow> f32_real a < f32_real b"
  by (simp add: f32_less_def fp_less_real f32_real_def)

lemma f32_add_between:
  assumes "fp_finite (f32_fp a)" "fp_finite (f32_fp b)" "fp_rep 23 8 c" "fp_rep 23 8 c'"
    and "fp_real c \<le> f32_real a + f32_real b" "f32_real a + f32_real b \<le> fp_real c'"
  shows "fp_finite (f32_fp (f32_add a b))" "fp_real c \<le> f32_real (f32_add a b)" "f32_real (f32_add a b) \<le> fp_real c'"
proof -
  note rep = fp_normal_rep [OF f32_normal [OF assms(1)]] fp_normal_rep [OF f32_normal [OF assms(2)]]
  note add = fp_add_between [OF _ rep assms(3,4) assms(5,6) [unfolded f32_real_def]]
  have "f32_fp (f32_add a b) = fp_add 23 8 (f32_fp a) (f32_fp b)"
    using add assms(1,2) by (simp add: f32_add_def f32_op_def finite_not_nan f32_fp_f32)
  then show "fp_finite (f32_fp (f32_add a b))" "fp_real c \<le> f32_real (f32_add a b)" "f32_real (f32_add a b) \<le> fp_real c'"
    using add fp_rep_finite [OF fp_normal_rep, of 23 8] by (auto simp: f32_real_def)
qed

lemma f32_sub_between:
  assumes "fp_finite (f32_fp a)" "fp_finite (f32_fp b)" "fp_rep 23 8 c" "fp_rep 23 8 c'"
    and "fp_real c \<le> f32_real a - f32_real b" "f32_real a - f32_real b \<le> fp_real c'"
  shows "fp_finite (f32_fp (f32_sub a b))" "fp_real c \<le> f32_real (f32_sub a b)" "f32_real (f32_sub a b) \<le> fp_real c'"
proof -
  have rep: "fp_rep 23 8 (f32_fp a)" "fp_rep 23 8 (fp_neg (f32_fp b))"
    using fp_normal_rep [OF f32_normal] assms(1,2) by (simp_all add: fp_rep_neg)
  have "fp_real c \<le> fp_real (f32_fp a) + fp_real (fp_neg (f32_fp b))" "fp_real (f32_fp a) + fp_real (fp_neg (f32_fp b)) \<le> fp_real c'"
    using assms(5,6) by (simp_all add: f32_real_def fp_rep_neg)
  note add = fp_add_between [OF _ rep assms(3,4) this]
  have "f32_fp (f32_sub a b) = fp_add 23 8 (f32_fp a) (fp_neg (f32_fp b))"
    using add assms(1,2) by (simp add: f32_sub_def f32_op_def finite_not_nan f32_fp_f32)
  then show "fp_finite (f32_fp (f32_sub a b))" "fp_real c \<le> f32_real (f32_sub a b)" "f32_real (f32_sub a b) \<le> fp_real c'"
    using add fp_rep_finite [OF fp_normal_rep, of 23 8] by (auto simp: f32_real_def)
qed

text \<open>The number one unit of its last place below a positive one.\<close>

lemma pred_rep:
  assumes "fp_normal 23 8 v" "0 < fp_real v"
  obtains m e where "fp_real v = mag m e" "fp_rep 23 8 (FFin False (m - 1) e)"
    "fp_real (FFin False (m - 1) e) = fp_real v - 2 powr real_of_int e" "- 149 \<le> e" "e = - 149 \<or> 2 ^ 23 \<le> m"
proof -
  obtain s m e where v: "v = FFin s m e" using assms(1) by (auto simp: fp_normal_def fp_rep_def split: fp.splits)
  have r: "fp_real v = (if s then - mag m e else mag m e)" by (simp add: v fp_real_mag)
  have s: "\<not> s"
  proof
    assume s
    then have "fp_real v \<le> 0" by (simp add: r)
    with assms(2) show False by simp
  qed
  have m: "0 < m" using assms(2) s r by (cases m) (simp_all add: mag_def)
  have below: "mag (m - 1) e = mag m e - 2 powr real_of_int e" using m by (simp add: mag_def of_nat_diff algebra_simps)
  have n: "m < 2 ^ 24" "- 149 \<le> e" "e \<le> 104" "2 ^ 23 \<le> m \<or> e = - 149"
    using assms(1) by (simp_all add: v fp_normal_def fp_rep_def f32_consts)
  show ?thesis
    by (rule that [of m e]) (use n s r below in \<open>auto simp: fp_rep_def f32_consts fp_real_mag\<close>)
qed

lemma fp_normal_neg: "fp_normal mb eb (fp_neg v) = fp_normal mb eb v"
  by (cases v) (simp_all add: fp_normal_def fp_rep_def)

lemma small_exponent:
  assumes "mag m e \<le> 2 powr 25" "e = - 149 \<or> 2 ^ 23 \<le> m"
  shows "e \<le> 2"
proof (rule ccontr)
  assume "\<not> e \<le> 2"
  then have e: "3 \<le> e" and m: "2 ^ 23 \<le> m" using assms(2) by auto
  have three: "(2::real) powr 3 \<le> 2 powr real_of_int e" using e by (intro powr_mono) simp_all
  have "(2::real) powr 26 = 2 powr 23 * 2 powr 3" by (simp flip: powr_add)
  also have "\<dots> \<le> real m * 2 powr real_of_int e"
    by (rule mult_mono) (use m three in \<open>simp_all flip: of_nat_le_iff\<close>)
  finally have "(2::real) powr 26 \<le> 2 powr 25" using assms(1) by (simp add: mag_def)
  then show False by simp
qed

end
