(* ===== verification/Motion.thy ===== *)
theory Motion
  imports Protocol Util Rounding
begin

text \<open>
  \<^verbatim>\<open>plugin/src/net/motion_interp.h\<close>: the ring of received poses of a remote player and the transform
  the game shows for it. \<^verbatim>\<open>std::min\<close>, \<^verbatim>\<open>std::max\<close> return their first argument unless the comparison
  decides for the second. The two loops of \<^verbatim>\<open>LerpAngle\<close> may run forever, so it returns an option:
  \<open>None\<close> is a call that does not return.
\<close>

subsection \<open>Square root\<close>

text \<open>The integer square root, two bits at a time, and the correctly rounded root of a number.\<close>

fun isqrt :: "nat \<Rightarrow> nat" where
  "isqrt n =
     (if n = 0 then 0
      else let r = 2 * isqrt (n div 4) in if (r + 1) * (r + 1) \<le> n then r + 1 else r)"

declare isqrt.simps [simp del]

lemma isqrt_bounds: "isqrt n * isqrt n \<le> n \<and> n < (isqrt n + 1) * (isqrt n + 1)"
proof (induction n rule: isqrt.induct)
  case (1 n)
  show ?case
  proof (cases "n = 0")
    case True
    then show ?thesis by (simp add: isqrt.simps)
  next
    case False
    define k where "k = isqrt (n div 4)"
    have k: "k * k \<le> n div 4" "n div 4 < (k + 1) * (k + 1)" using 1 [OF False] by (simp_all add: k_def)
    have n: "n = 4 * (n div 4) + n mod 4" "n mod 4 < 4" by simp_all
    have lo: "4 * (k * k) \<le> n" using k(1) n by linarith
    have "4 * (n div 4) + 4 \<le> 4 * ((k + 1) * (k + 1))" using k(2) by linarith
    then have hi: "n < 4 * ((k + 1) * (k + 1))" using n by linarith
    have "isqrt n = (if (2 * k + 1) * (2 * k + 1) \<le> n then 2 * k + 1 else 2 * k)"
      using False by (subst isqrt.simps) (simp add: k_def Let_def)
    with lo hi show ?thesis by (auto simp: algebra_simps)
  qed
qed

text \<open>
  The root of \<open>m * 2 ^ e\<close>: enough zero bits are appended for the integer root to have more bits than
  the result; the bit after them records whether the root is exact, which decides the rounding.
\<close>

fun fp_sqrt :: "nat \<Rightarrow> nat \<Rightarrow> fp \<Rightarrow> fp" where
  "fp_sqrt mb eb (FFin s m e) =
     (if m = 0 then FFin s 0 (fp_emin mb eb)
      else if s then FNan
      else
        let k = 2 * (mb + 3) + (if odd e then 1 else 0);
            n = m * 2 ^ k;
            q = isqrt n;
            x = 2 * q + (if q * q = n then 0 else 1);
            g = (e - int k) div 2 - 1
        in fp_round mb eb False (x * 2 ^ nat g) (2 ^ nat (- g)))"
| "fp_sqrt mb eb (FInf s) = (if s then FNan else FInf False)"
| "fp_sqrt mb eb FNan = FNan"

definition f32_sqrt :: "f32 \<Rightarrow> f32" where
  "f32_sqrt a = (if f32_fp a = FNan then a OR 0x00400000 else fp_f32 (fp_sqrt 23 8 (f32_fp a)))"

subsection \<open>Constants\<close>

definition kPoseRingSize :: nat where "kPoseRingSize = 8"
definition kSnapUu :: f32 where "kSnapUu = f32_of_int 2048"
definition kMinMoveUu :: f32 where "kMinMoveUu = 0x3C23D70A"
definition kCatchUpMult :: f32 where "kCatchUpMult = 0x40200000"

text \<open>The literals \<^verbatim>\<open>3.14159265f\<close> and \<^verbatim>\<open>6.2831853f\<close>.\<close>

definition f32_pi :: f32 where "f32_pi = 0x40490FDB"
definition f32_2pi :: f32 where "f32_2pi = 0x40C90FDB"

subsection \<open>Samples\<close>

record TimedSample =
  ts_recvSec :: f64
  ts_x :: f32
  ts_y :: f32
  ts_z :: f32
  ts_yaw :: f32
  ts_pitch :: f32
  ts_speed :: f32
  ts_vx :: f32
  ts_vy :: f32
  ts_flags :: u32
  ts_locationFormId :: u32

record PoseRing =
  ring_samples :: "TimedSample list"

definition empty_ring :: PoseRing where
  "empty_ring = \<lparr>ring_samples = []\<rparr>"

definition same_motion :: "TimedSample \<Rightarrow> TimedSample \<Rightarrow> bool" where
  "same_motion s l \<longleftrightarrow>
     f32_eq (ts_x s) (ts_x l) \<and> f32_eq (ts_y s) (ts_y l) \<and> f32_eq (ts_z s) (ts_z l) \<and> f32_eq (ts_yaw s) (ts_yaw l) \<and>
     f32_eq (ts_speed s) (ts_speed l) \<and> ts_flags s = ts_flags l"

definition ring_trim :: "TimedSample list \<Rightarrow> TimedSample list" where
  "ring_trim l = drop (length l - kPoseRingSize) l"

definition ring_push :: "PoseRing \<Rightarrow> TimedSample \<Rightarrow> PoseRing" where
  "ring_push ring s =
     (let l = ring_samples ring
      in if l = [] then \<lparr>ring_samples = ring_trim [s]\<rparr>
         else
           let s1 = (if f64_less (ts_recvSec s) (ts_recvSec (last l)) then s\<lparr>ts_recvSec := ts_recvSec (last l)\<rparr> else s)
           in if same_motion s1 (last l) then \<lparr>ring_samples = butlast l @ [s1]\<rparr>
              else \<lparr>ring_samples = ring_trim (l @ [s1])\<rparr>)"

definition ring_clear :: "PoseRing \<Rightarrow> PoseRing" where
  "ring_clear ring = \<lparr>ring_samples = []\<rparr>"

definition FromPlayerPose :: "player_pose \<Rightarrow> f64 \<Rightarrow> TimedSample" where
  "FromPlayerPose pose recvSec =
   \<lparr>ts_recvSec = recvSec, ts_x = pp_x pose, ts_y = pp_y pose, ts_z = pp_z pose, ts_yaw = pp_yaw pose,
    ts_pitch = pp_pitch pose, ts_speed = pp_speed pose, ts_vx = pp_vx pose, ts_vy = pp_vy pose,
    ts_flags = pp_flags pose, ts_locationFormId = pp_locationFormId pose\<rparr>"

definition FromActorPose :: "actor_pose \<Rightarrow> f64 \<Rightarrow> TimedSample" where
  "FromActorPose pose recvSec =
   \<lparr>ts_recvSec = recvSec, ts_x = ap_x pose, ts_y = ap_y pose, ts_z = ap_z pose, ts_yaw = ap_yaw pose,
    ts_pitch = ap_pitch pose, ts_speed = ap_speed pose, ts_vx = ap_vx pose, ts_vy = ap_vy pose,
    ts_flags = ap_flags pose, ts_locationFormId = ap_locationFormId pose\<rparr>"

subsection \<open>Interpolation\<close>

record SampledTransform =
  st_x :: f32
  st_y :: f32
  st_z :: f32
  st_yaw :: f32
  st_pitch :: f32
  st_speed :: f32
  st_vx :: f32
  st_vy :: f32
  st_flags :: u32
  st_locationFormId :: u32
  st_valid :: bool
  st_extrapolated :: bool

definition no_transform :: SampledTransform where
  "no_transform =
   \<lparr>st_x = 0, st_y = 0, st_z = 0, st_yaw = 0, st_pitch = 0, st_speed = 0, st_vx = 0, st_vy = 0, st_flags = 0,
    st_locationFormId = 0, st_valid = False, st_extrapolated = False\<rparr>"

definition Lerp :: "f32 \<Rightarrow> f32 \<Rightarrow> f32 \<Rightarrow> f32" where
  "Lerp a b t = f32_add a (f32_mul (f32_sub b a) t)"

text \<open>\<^verbatim>\<open>while (d > 3.14159265f) d -= 6.2831853f;\<close> and its mirror image.\<close>

partial_function (option) wrap_down :: "f32 \<Rightarrow> f32 option" where
  "wrap_down d = (if f32_less f32_pi d then wrap_down (f32_sub d f32_2pi) else Some d)"

definition f32_neg_pi :: f32 where "f32_neg_pi = 0xC0490FDB"

partial_function (option) wrap_up :: "f32 \<Rightarrow> f32 option" where
  "wrap_up d = (if f32_less d f32_neg_pi then wrap_up (f32_add d f32_2pi) else Some d)"

definition LerpAngle :: "f32 \<Rightarrow> f32 \<Rightarrow> f32 \<Rightarrow> f32 option" where
  "LerpAngle a b t =
     (case wrap_down (f32_sub b a) of
        None \<Rightarrow> None
      | Some d1 \<Rightarrow>
          (case wrap_up d1 of
             None \<Rightarrow> None
           | Some d \<Rightarrow> Some (f32_add a (f32_mul d t))))"

text \<open>A sample taken as it is.\<close>

definition sample_here :: "TimedSample \<Rightarrow> SampledTransform" where
  "sample_here s =
   \<lparr>st_x = ts_x s, st_y = ts_y s, st_z = ts_z s, st_yaw = ts_yaw s, st_pitch = ts_pitch s, st_speed = ts_speed s,
    st_vx = ts_vx s, st_vy = ts_vy s, st_flags = ts_flags s, st_locationFormId = ts_locationFormId s,
    st_valid = True, st_extrapolated = False\<rparr>"

definition extrapolate :: "TimedSample \<Rightarrow> f64 \<Rightarrow> SampledTransform" where
  "extrapolate newest renderSec =
     (let d = f64_sub renderSec (ts_recvSec newest);
          dt = f64_to_f32 (if f64_less d 0x3FC3333333333333 then d else 0x3FC3333333333333)
      in (sample_here newest)
           \<lparr>st_x := f32_add (ts_x newest) (f32_mul (ts_vx newest) dt),
            st_y := f32_add (ts_y newest) (f32_mul (ts_vy newest) dt),
            st_extrapolated := f32_less 0x38D1B717 dt\<rparr>)"

definition blend :: "TimedSample \<Rightarrow> TimedSample \<Rightarrow> f64 \<Rightarrow> SampledTransform option" where
  "blend a b renderSec =
     (let span = f64_sub (ts_recvSec b) (ts_recvSec a);
          t = (if f64_less 0x3EB0C6F7A0B5ED8D span
               then f64_to_f32 (f64_div (f64_sub renderSec (ts_recvSec a)) span) else f32_of_int 1)
      in case LerpAngle (ts_yaw a) (ts_yaw b) t of
           None \<Rightarrow> None
         | Some yaw \<Rightarrow> Some
             \<lparr>st_x = Lerp (ts_x a) (ts_x b) t, st_y = Lerp (ts_y a) (ts_y b) t, st_z = Lerp (ts_z a) (ts_z b) t,
              st_yaw = yaw, st_pitch = Lerp (ts_pitch a) (ts_pitch b) t, st_speed = Lerp (ts_speed a) (ts_speed b) t,
              st_vx = Lerp (ts_vx a) (ts_vx b) t, st_vy = Lerp (ts_vy a) (ts_vy b) t,
              st_flags = (if f32_less t 0x3F000000 then ts_flags a else ts_flags b),
              st_locationFormId = (if ts_locationFormId b \<noteq> 0 then ts_locationFormId b else ts_locationFormId a),
              st_valid = True, st_extrapolated = False\<rparr>)"

text \<open>The search for the pair of samples around the time; past the end, the newest sample.\<close>

fun sample_between :: "TimedSample list \<Rightarrow> TimedSample \<Rightarrow> f64 \<Rightarrow> SampledTransform option" where
  "sample_between (a # b # rest) newest renderSec =
     (if f64_less renderSec (ts_recvSec a) \<or> f64_less (ts_recvSec b) renderSec
      then sample_between (b # rest) newest renderSec else blend a b renderSec)"
| "sample_between _ newest renderSec = Some (sample_here newest)"

definition SampleAt :: "PoseRing \<Rightarrow> f64 \<Rightarrow> SampledTransform option" where
  "SampleAt ring renderSec =
     (let l = ring_samples ring
      in if l = [] then Some no_transform
         else if length l = 1 \<or> f64_le renderSec (ts_recvSec (hd l)) then Some (sample_here (hd l))
         else if f64_le (ts_recvSec (last l)) renderSec then Some (extrapolate (last l) renderSec)
         else sample_between l (last l) renderSec)"

subsection \<open>Moving the puppet\<close>

record ApplyResult =
  ar_x :: f32
  ar_y :: f32
  ar_z :: f32
  ar_yaw :: f32
  ar_snapped :: bool

definition StepToward :: "f32 \<Rightarrow> f32 \<Rightarrow> f32 \<Rightarrow> SampledTransform \<Rightarrow> f32 \<Rightarrow> f32 \<Rightarrow> ApplyResult" where
  "StepToward curX curY curZ target dt interpDelayMs =
     (let dx = f32_sub (st_x target) curX; dy = f32_sub (st_y target) curY; dz = f32_sub (st_z target) curZ;
          dist = f32_sqrt (f32_add (f32_add (f32_mul dx dx) (f32_mul dy dy)) (f32_mul dz dz))
      in if f32_less kSnapUu dist \<or> f32_less dist kMinMoveUu \<or> f32_le interpDelayMs 0
         then \<lparr>ar_x = st_x target, ar_y = st_y target, ar_z = st_z target, ar_yaw = st_yaw target,
               ar_snapped = f32_less kSnapUu dist\<rparr>
         else
           let speed = (if f32_less (st_speed target) (f32_of_int 40) then f32_of_int 40 else st_speed target);
               catchUp = (if f32_less (f32_of_int 256) dist then kCatchUpMult else 0x3FACCCCD);
               go = f32_mul (f32_mul speed dt) catchUp;
               step = (if f32_less go dist then go else dist);
               s = f32_div step dist
           in \<lparr>ar_x = f32_add curX (f32_mul dx s), ar_y = f32_add curY (f32_mul dy s), ar_z = f32_add curZ (f32_mul dz s),
               ar_yaw = st_yaw target, ar_snapped = False\<rparr>)"

subsection \<open>The ring\<close>

lemma fp_not_less_trans:
  assumes "b \<noteq> FNan" and "\<not> fp_less b a" and "\<not> fp_less c b"
  shows "\<not> fp_less c a"
proof (cases "fp_finite a \<and> fp_finite b \<and> fp_finite c")
  case True
  with assms show ?thesis by (simp add: fp_less_real)
next
  case False
  with assms show ?thesis by (cases a; cases b; cases c) (auto simp: fp_finite_def)
qed

lemma f64_less_not_le: "f64_less a b \<Longrightarrow> \<not> f64_le b a"
proof -
  have "fp_less x y \<Longrightarrow> \<not> fp_equal y x" for x y by (cases x; cases y) (auto simp: min.commute)
  then show "f64_less a b \<Longrightarrow> \<not> f64_le b a"
    using fp_less_asym by (auto simp: f64_less_def f64_le_def f64_eq_def)
qed

text \<open>Oldest first, no time undefined, at most \<^verbatim>\<open>kPoseRingSize\<close> samples.\<close>

definition ring_ok :: "PoseRing \<Rightarrow> bool" where
  "ring_ok ring \<longleftrightarrow>
     length (ring_samples ring) \<le> kPoseRingSize \<and>
     (\<forall>s\<in>set (ring_samples ring). f64_fp (ts_recvSec s) \<noteq> FNan) \<and>
     sorted_wrt (\<lambda>a b. \<not> f64_less (ts_recvSec b) (ts_recvSec a)) (ring_samples ring)"

lemma ring_trim_props:
  "length (ring_trim l) \<le> kPoseRingSize" "set (ring_trim l) \<subseteq> set l" "sorted_wrt R l \<Longrightarrow> sorted_wrt R (ring_trim l)"
  "l \<noteq> [] \<Longrightarrow> ring_trim l \<noteq> [] \<and> last (ring_trim l) = last l"
proof -
  show "length (ring_trim l) \<le> kPoseRingSize" "set (ring_trim l) \<subseteq> set l" "sorted_wrt R l \<Longrightarrow> sorted_wrt R (ring_trim l)"
    by (auto simp: ring_trim_def kPoseRingSize_def sorted_wrt_drop dest: in_set_dropD)
  show "l \<noteq> [] \<Longrightarrow> ring_trim l \<noteq> [] \<and> last (ring_trim l) = last l"
    by (cases "length l \<le> kPoseRingSize") (simp_all add: ring_trim_def kPoseRingSize_def)
qed

text \<open>A sample that is not before the last one may follow it or take its place.\<close>

lemma sorted_after:
  assumes s: "sorted_wrt (\<lambda>a b. \<not> f64_less (ts_recvSec b) (ts_recvSec a)) (l @ [y])"
    and y: "f64_fp (ts_recvSec y) \<noteq> FNan" and x: "\<not> f64_less (ts_recvSec x) (ts_recvSec y)"
  shows "sorted_wrt (\<lambda>a b. \<not> f64_less (ts_recvSec b) (ts_recvSec a)) (l @ [y, x])"
    and "sorted_wrt (\<lambda>a b. \<not> f64_less (ts_recvSec b) (ts_recvSec a)) (l @ [x])"
proof -
  have "\<not> f64_less (ts_recvSec x) (ts_recvSec a)" if "a \<in> set l" for a
  proof -
    have "\<not> f64_less (ts_recvSec y) (ts_recvSec a)" using s that by (auto simp: sorted_wrt_append)
    then show ?thesis using fp_not_less_trans [OF y] x by (simp add: f64_less_def)
  qed
  with s x show "sorted_wrt (\<lambda>a b. \<not> f64_less (ts_recvSec b) (ts_recvSec a)) (l @ [y, x])"
    "sorted_wrt (\<lambda>a b. \<not> f64_less (ts_recvSec b) (ts_recvSec a)) (l @ [x])"
    by (auto simp: sorted_wrt_append)
qed

text \<open>What the last sample keeps of the one that was pushed: everything but its time.\<close>

definition same_pose :: "TimedSample \<Rightarrow> TimedSample \<Rightarrow> bool" where
  "same_pose a b \<longleftrightarrow> (\<exists>t. a = b\<lparr>ts_recvSec := t\<rparr>)"

lemma ring_push_ok:
  assumes inv: "ring_ok ring" and s: "f64_fp (ts_recvSec s) \<noteq> FNan"
  shows "ring_ok (ring_push ring s) \<and> ring_samples (ring_push ring s) \<noteq> [] \<and>
    same_pose (last (ring_samples (ring_push ring s))) s"
proof (cases "ring_samples ring" rule: rev_cases)
  case Nil
  have "same_pose s s" unfolding same_pose_def by (rule exI [of _ "ts_recvSec s"]) simp
  with Nil s show ?thesis by (simp add: ring_push_def ring_ok_def ring_trim_def kPoseRingSize_def)
next
  case (snoc l y)
  define x where "x = (if f64_less (ts_recvSec s) (ts_recvSec y) then s\<lparr>ts_recvSec := ts_recvSec y\<rparr> else s)"
  have y: "f64_fp (ts_recvSec y) \<noteq> FNan" "sorted_wrt (\<lambda>a b. \<not> f64_less (ts_recvSec b) (ts_recvSec a)) (l @ [y])"
    "\<forall>s\<in>set (l @ [y]). f64_fp (ts_recvSec s) \<noteq> FNan" "length (l @ [y]) \<le> kPoseRingSize"
    using inv unfolding ring_ok_def snoc by auto
  have "s = s\<lparr>ts_recvSec := ts_recvSec s\<rparr>" by simp
  then have p: "same_pose x s" unfolding same_pose_def x_def by (metis (full_types))
  have nan: "f64_fp (ts_recvSec x) \<noteq> FNan" using s y(1) by (simp add: x_def)
  have "\<not> f64_less (ts_recvSec x) (ts_recvSec y)" by (simp add: x_def f64_less_def)
  note after = sorted_after [OF y(2,1) this]
  have e: "ring_samples (ring_push ring s) = (if same_motion x y then l @ [x] else ring_trim (l @ [y, x]))"
    by (simp add: ring_push_def snoc x_def Let_def)
  show ?thesis
  proof (cases "same_motion x y")
    case True
    with e p nan y after(2) show ?thesis by (simp add: ring_ok_def)
  next
    case False
    note trim = ring_trim_props [where l = "l @ [y, x]"]
    have "\<forall>s\<in>set (l @ [y, x]). f64_fp (ts_recvSec s) \<noteq> FNan" using y(3) nan by simp
    then have "\<forall>s\<in>set (ring_trim (l @ [y, x])). f64_fp (ts_recvSec s) \<noteq> FNan" using trim(2) by blast
    with e p False trim(1,4) trim(3) [OF after(1)] show ?thesis by (simp add: ring_ok_def)
  qed
qed

text \<open>
  Whatever poses arrive and in whatever order their times are, the ring of a remote player holds at
  most eight samples ordered by time, and the newest one is the pose pushed last.
\<close>

lemma pose_ring_ordered:
  assumes "\<forall>s\<in>set ss. f64_fp (ts_recvSec s) \<noteq> FNan"
  shows "let l = ring_samples (foldl ring_push empty_ring ss)
    in length l \<le> 8 \<and> sorted_wrt (\<lambda>a b. \<not> f64_less (ts_recvSec b) (ts_recvSec a)) l \<and>
       (ss \<noteq> [] \<longrightarrow> l \<noteq> [] \<and> (\<exists>t. last l = (last ss)\<lparr>ts_recvSec := t\<rparr>))"
proof -
  have "ring_ok (foldl ring_push empty_ring ss) \<and> (ss \<noteq> [] \<longrightarrow> ring_samples (foldl ring_push empty_ring ss) \<noteq> [] \<and>
      same_pose (last (ring_samples (foldl ring_push empty_ring ss))) (last ss))"
    using assms
  proof (induction ss rule: rev_induct)
    case Nil
    then show ?case by (simp add: ring_ok_def empty_ring_def)
  next
    case (snoc s ss)
    with ring_push_ok [of "foldl ring_push empty_ring ss" s] show ?case by simp
  qed
  then show ?thesis by (auto simp: ring_ok_def kPoseRingSize_def same_pose_def Let_def)
qed

lemma pose_ring_ordered_witness:
  "let p = make_pose 2 0x3C 0 0 0 0 0 0 0 0 0; s = FromPlayerPose p (f64_of_int 2); s' = FromPlayerPose p (f64_of_int 1);
       l = ring_samples (foldl ring_push empty_ring [s, s'])
   in l \<noteq> [] \<and> (\<exists>t. last l = s'\<lparr>ts_recvSec := t\<rparr>)"
proof -
  let ?p = "make_pose 2 0x3C 0 0 0 0 0 0 0 0 0"
  let ?ss = "[FromPlayerPose ?p (f64_of_int 2), FromPlayerPose ?p (f64_of_int 1)]"
  have "\<forall>s\<in>set ?ss. f64_fp (ts_recvSec s) \<noteq> FNan" by (simp add: FromPlayerPose_def f64_of_int_def ieee_eval)
  from pose_ring_ordered [OF this] show ?thesis by (simp add: Let_def)
qed

subsection \<open>Sampling\<close>

lemma wrap_down_returns: "\<not> f32_less f32_pi d \<Longrightarrow> wrap_down d = Some d"
  by (simp add: wrap_down.simps)

lemma wrap_up_returns: "\<not> f32_less d f32_neg_pi \<Longrightarrow> wrap_up d = Some d"
  by (simp add: wrap_up.simps)

text \<open>A difference that the subtraction does not move keeps the loop going forever.\<close>

lemma wrap_down_stuck:
  assumes "f32_less f32_pi d0" and "f32_sub d0 f32_2pi = d0"
  shows "wrap_down d0 = None"
proof -
  have "d = d0 \<Longrightarrow> False" if "wrap_down d = Some y" for d y
    by (rule wrap_down.raw_induct [where P = "\<lambda>d y. d = d0 \<longrightarrow> False", OF _ that, rule_format])
      (use assms in \<open>auto split: if_splits\<close>)
  then show ?thesis by (metis option.exhaust)
qed

subsubsection \<open>The loops of \<open>LerpAngle\<close> end\<close>

lemma pi_fp:
  "f32_fp f32_pi = FFin False 13176795 (- 22)" "f32_fp f32_2pi = FFin False 13176795 (- 21)"
  "f32_fp f32_neg_pi = FFin True 13176795 (- 22)"
  by (simp_all add: f32_pi_def f32_2pi_def f32_neg_pi_def ieee_eval)

lemma pi_facts:
  "fp_finite (f32_fp f32_pi)" "fp_finite (f32_fp f32_2pi)" "fp_finite (f32_fp f32_neg_pi)"
  "f32_real f32_2pi = 2 * f32_real f32_pi" "f32_real f32_neg_pi = - f32_real f32_pi" "4 \<le> f32_real f32_2pi"
  "fp_rep 23 8 (f32_fp f32_pi)" "fp_rep 23 8 (f32_fp f32_neg_pi)" "0 < f32_real f32_pi"
proof -
  have "2 powr (- 21 :: real) = 2 * 2 powr - 22" "2 powr (- 22 :: real) = 1 / 4194304"
    by (simp_all add: powr_minus powr_numeral powr_add [of 2 1 "- 22", simplified])
  then show "fp_finite (f32_fp f32_pi)" "fp_finite (f32_fp f32_2pi)" "fp_finite (f32_fp f32_neg_pi)"
    "f32_real f32_2pi = 2 * f32_real f32_pi" "f32_real f32_neg_pi = - f32_real f32_pi" "4 \<le> f32_real f32_2pi"
    "fp_rep 23 8 (f32_fp f32_pi)" "fp_rep 23 8 (f32_fp f32_neg_pi)" "0 < f32_real f32_pi"
    by (simp_all add: f32_real_def pi_fp fp_finite_def fp_real_mag mag_def fp_rep_def f32_consts)
qed

text \<open>A difference is counted in units of the smallest number; every turn of a loop takes at least one off.\<close>

definition units :: "real \<Rightarrow> nat" where
  "units x = nat \<lfloor>x * 2 powr 149\<rfloor>"

lemma units_less:
  assumes "y \<le> x - 2 powr real_of_int e" "- 149 \<le> e" "1 \<le> x"
  shows "units y < units x"
proof -
  have "1 \<le> (2::real) powr (real_of_int e + 149)" using assms(2) by (intro ge_one_powr_ge_zero) simp_all
  then have one: "1 \<le> 2 powr real_of_int e * (2::real) powr 149" by (simp only: powr_add)
  have "y * 2 powr 149 \<le> (x - 2 powr real_of_int e) * 2 powr 149" using assms(1) by (intro mult_right_mono) simp_all
  also have "\<dots> \<le> x * 2 powr 149 - 1" using one by (simp add: left_diff_distrib)
  finally have "\<lfloor>y * 2 powr 149\<rfloor> \<le> \<lfloor>x * 2 powr 149 - 1\<rfloor>" by (rule floor_mono)
  moreover have "1 * 1 \<le> x * 2 powr 149" using assms(3) by (intro mult_mono) simp_all
  then have "1 \<le> \<lfloor>x * 2 powr 149\<rfloor>" by (simp add: le_floor_iff)
  ultimately show ?thesis by (simp add: units_def)
qed

definition on_turn :: "f32 \<Rightarrow> bool" where
  "on_turn d \<longleftrightarrow> fp_finite (f32_fp d) \<and> - f32_real f32_pi \<le> f32_real d \<and> f32_real d \<le> f32_real f32_pi"

lemma wrap_down_lands:
  assumes "fp_finite (f32_fp d)" "- f32_real f32_pi \<le> f32_real d" "f32_real d \<le> 2 powr 25"
  shows "\<exists>y. wrap_down d = Some y \<and> on_turn y"
  using assms
proof (induction "units (f32_real d)" arbitrary: d rule: less_induct)
  case less
  show ?case
  proof (cases "f32_less f32_pi d")
    case False
    then have "f32_real d \<le> f32_real f32_pi" using f32_less_real [OF pi_facts(1) less.prems(1)] by simp
    with False less.prems show ?thesis by (simp add: wrap_down_returns on_turn_def)
  next
    case True
    let ?r = "f32_sub d f32_2pi"
    have d: "f32_real f32_pi < f32_real d" using True f32_less_real [OF pi_facts(1) less.prems(1)] by simp
    have n: "fp_normal 23 8 (f32_fp d)" "0 < fp_real (f32_fp d)"
      using f32_normal [OF less.prems(1)] d pi_facts(9) unfolding f32_real_def by simp_all
    obtain m e where "fp_real (f32_fp d) = mag m e" "fp_rep 23 8 (FFin False (m - 1) e)"
      "fp_real (FFin False (m - 1) e) = fp_real (f32_fp d) - 2 powr real_of_int e" "- 149 \<le> e" "e = - 149 \<or> 2 ^ 23 \<le> m"
      using pred_rep [OF n] by metis
    note me = this [folded f32_real_def]
    have "e \<le> 2" by (rule small_exponent [OF _ me(5)]) (use less.prems(3) me(1) in simp)
    then have "2 powr real_of_int e \<le> 2 powr (2::real)" by (intro powr_mono) simp_all
    then have four: "2 powr real_of_int e \<le> f32_real f32_2pi" using pi_facts(6) by simp
    have lo: "fp_real (f32_fp f32_neg_pi) \<le> f32_real d - f32_real f32_2pi"
      using d pi_facts(4,5) by (simp add: f32_real_def)
    have hi: "f32_real d - f32_real f32_2pi \<le> fp_real (FFin False (m - 1) e)" using four me(3) by simp
    note r = f32_sub_between [OF less.prems(1) pi_facts(2,8) me(2) lo hi]
    have down: "f32_real ?r \<le> f32_real d - 2 powr real_of_int e" using r(3) me(3) by simp
    have "units (f32_real ?r) < units (f32_real d)"
      by (rule units_less [OF down me(4)]) (use d pi_facts(4,6) in linarith)
    moreover have "- f32_real f32_pi \<le> f32_real ?r" using r(2) pi_facts(5) by (simp add: f32_real_def)
    moreover have "f32_real ?r \<le> 2 powr 25" using down less.prems(3) powr_ge_zero [of 2 "real_of_int e"] by linarith
    ultimately have "\<exists>y. wrap_down ?r = Some y \<and> on_turn y" using less.hyps r(1) by blast
    then show ?thesis using True by (subst wrap_down.simps) simp
  qed
qed

lemma wrap_up_lands:
  assumes "fp_finite (f32_fp d)" "f32_real d \<le> f32_real f32_pi" "- (2 powr 25) \<le> f32_real d"
  shows "\<exists>y. wrap_up d = Some y \<and> on_turn y"
  using assms
proof (induction "units (- f32_real d)" arbitrary: d rule: less_induct)
  case less
  show ?case
  proof (cases "f32_less d f32_neg_pi")
    case False
    then have "- f32_real f32_pi \<le> f32_real d" using f32_less_real [OF less.prems(1) pi_facts(3)] pi_facts(5) by simp
    with False less.prems show ?thesis by (simp add: wrap_up_returns on_turn_def)
  next
    case True
    let ?r = "f32_add d f32_2pi" and ?n = "fp_neg (f32_fp d)"
    have d: "f32_real d < - f32_real f32_pi" using True f32_less_real [OF less.prems(1) pi_facts(3)] pi_facts(5) by simp
    have n: "fp_normal 23 8 ?n" "fp_real ?n = - f32_real d" "0 < fp_real ?n"
      using f32_normal [OF less.prems(1)] d pi_facts(9) by (simp_all add: fp_normal_neg fp_rep_neg f32_real_def)
    obtain m e where me: "fp_real ?n = mag m e" "fp_rep 23 8 (FFin False (m - 1) e)"
      "fp_real (FFin False (m - 1) e) = fp_real ?n - 2 powr real_of_int e" "- 149 \<le> e" "e = - 149 \<or> 2 ^ 23 \<le> m"
      using pred_rep [OF n(1,3)] by metis
    have "e \<le> 2" by (rule small_exponent [OF _ me(5)]) (use less.prems(3) me(1) n(2) in simp)
    then have "2 powr real_of_int e \<le> 2 powr (2::real)" by (intro powr_mono) simp_all
    then have four: "2 powr real_of_int e \<le> f32_real f32_2pi" using pi_facts(6) by simp
    have c: "fp_rep 23 8 (fp_neg (FFin False (m - 1) e))" "fp_real (fp_neg (FFin False (m - 1) e)) = f32_real d + 2 powr real_of_int e"
      using me(2,3) n(2) unfolding fp_rep_neg by simp_all
    have lo: "fp_real (fp_neg (FFin False (m - 1) e)) \<le> f32_real d + f32_real f32_2pi" using four c(2) by simp
    have hi: "f32_real d + f32_real f32_2pi \<le> fp_real (f32_fp f32_pi)"
      using d pi_facts(4) by (simp add: f32_real_def)
    note r = f32_add_between [OF less.prems(1) pi_facts(2) c(1) pi_facts(7) lo hi]
    have up: "- f32_real ?r \<le> - f32_real d - 2 powr real_of_int e" using r(2) c(2) by simp
    have "units (- f32_real ?r) < units (- f32_real d)"
      by (rule units_less [OF up me(4)]) (use d pi_facts(4,6) in linarith)
    moreover have "f32_real ?r \<le> f32_real f32_pi" using r(3) by (simp add: f32_real_def)
    moreover have "- (2 powr 25) \<le> f32_real ?r" using up less.prems(3) powr_ge_zero [of 2 "real_of_int e"] by linarith
    ultimately have "\<exists>y. wrap_up ?r = Some y \<and> on_turn y" using less.hyps r(1) by blast
    then show ?thesis using True by (subst wrap_up.simps) simp
  qed
qed


text \<open>
  The turn that is blended: never more than half a turn; the difference itself when that is no more, and the
  difference less one turn when that is at most a whole one.
\<close>

definition short_turn :: "f32 \<Rightarrow> f32 \<Rightarrow> bool" where
  "short_turn delta d \<longleftrightarrow>
     \<not> f32_less f32_pi d \<and> \<not> f32_less d f32_neg_pi \<and>
     (\<not> f32_less f32_pi delta \<and> \<not> f32_less delta f32_neg_pi \<longrightarrow> d = delta) \<and>
     (f32_less f32_pi delta \<and> \<not> f32_less f32_2pi delta \<longrightarrow> d = f32_sub delta f32_2pi) \<and>
     (f32_less delta f32_neg_pi \<and> \<not> f32_less delta 0xC0C90FDB \<longrightarrow> d = f32_add delta f32_2pi)"

text \<open>Two headings whose difference is a number of at most \<^verbatim>\<open>2^25\<close>, more than five million turns, or none.\<close>

definition yaw_within :: "TimedSample \<Rightarrow> TimedSample \<Rightarrow> bool" where
  "yaw_within a b \<longleftrightarrow>
     (let d = f32_sub (ts_yaw b) (ts_yaw a) in \<not> f32_less 0x4C000000 d \<and> \<not> f32_less d 0xCC000000)"

lemma bound_fp: "f32_fp 0x4C000000 = FFin False 8388608 2" "f32_fp 0xCC000000 = FFin True 8388608 2"
  "f32_fp 0xC0C90FDB = FFin True 13176795 (- 21)"
  by (simp_all add: ieee_eval)

lemma bound_real:
  "fp_finite (f32_fp 0x4C000000)" "fp_finite (f32_fp 0xCC000000)" "fp_finite (f32_fp 0xC0C90FDB)"
  "f32_real 0x4C000000 = 2 powr 25" "f32_real 0xCC000000 = - (2 powr 25)" "f32_real 0xC0C90FDB = - f32_real f32_2pi"
  by (simp_all add: f32_real_def bound_fp pi_fp fp_finite_def fp_real_mag mag_def)

lemma on_turn_less: "on_turn d \<Longrightarrow> \<not> f32_less f32_pi d \<and> \<not> f32_less d f32_neg_pi"
  by (simp add: on_turn_def f32_less_real pi_facts)

lemma wrap_keeps: "on_turn d \<Longrightarrow> wrap_down d = Some d \<and> wrap_up d = Some d"
  using on_turn_less wrap_down_returns wrap_up_returns by blast

lemma turn_once_down:
  assumes "fp_finite (f32_fp d)" "f32_less f32_pi d" "\<not> f32_less f32_2pi d"
  shows "on_turn (f32_sub d f32_2pi)"
proof -
  have d: "f32_real f32_pi < f32_real d" "f32_real d \<le> f32_real f32_2pi"
    using assms by (simp_all add: f32_less_real pi_facts)
  show ?thesis
    using f32_sub_between [OF assms(1) pi_facts(2,8,7)] d pi_facts(4,5,9) by (simp add: on_turn_def f32_real_def)
qed

lemma turn_once_up:
  assumes "fp_finite (f32_fp d)" "f32_less d f32_neg_pi" "\<not> f32_less d 0xC0C90FDB"
  shows "on_turn (f32_add d f32_2pi)"
proof -
  have d: "f32_real d < - f32_real f32_pi" "- f32_real f32_2pi \<le> f32_real d"
    using assms by (simp_all add: f32_less_real pi_facts bound_real)
  show ?thesis
    using f32_add_between [OF assms(1) pi_facts(2,8,7)] d pi_facts(4,5,9) by (simp add: on_turn_def f32_real_def)
qed

lemma wraps_return:
  assumes "\<not> f32_less 0x4C000000 delta" "\<not> f32_less delta 0xCC000000"
  shows "\<exists>d1 d. wrap_down delta = Some d1 \<and> wrap_up d1 = Some d \<and> short_turn delta d"
proof (cases "fp_finite (f32_fp delta)")
  case fin: True
  then have b: "f32_real delta \<le> 2 powr 25" "- (2 powr 25) \<le> f32_real delta"
    using assms by (simp_all add: f32_less_real bound_real)
  have "f32_less f32_pi delta \<or> f32_less delta f32_neg_pi \<or> on_turn delta"
    using fin by (simp add: on_turn_def f32_less_real pi_facts) linarith
  then consider "f32_less f32_pi delta" | "f32_less delta f32_neg_pi" | "on_turn delta" by blast
  then show ?thesis
  proof cases
    case 1
    then have "- f32_real f32_pi \<le> f32_real delta" using fin pi_facts(9) by (simp add: f32_less_real pi_facts(1,2,3,5))
    from wrap_down_lands [OF fin this b(1)] obtain y where y: "wrap_down delta = Some y" "on_turn y" by blast
    have "\<not> f32_less delta f32_neg_pi" using 1 fin pi_facts(9) by (simp add: f32_less_real pi_facts(1,2,3,5))
    moreover have "y = f32_sub delta f32_2pi" if "\<not> f32_less f32_2pi delta"
      using y(1) wrap_keeps [OF turn_once_down [OF fin 1 that]] 1 by (simp add: wrap_down.simps [of delta])
    ultimately show ?thesis using y wrap_keeps [OF y(2)] on_turn_less [OF y(2)] 1 by (simp add: short_turn_def)
  next
    case 2
    have no: "\<not> f32_less f32_pi delta" using 2 fin pi_facts(9) by (simp add: f32_less_real pi_facts(1,2,3,5))
    have "f32_real delta \<le> f32_real f32_pi" using no fin by (simp add: f32_less_real pi_facts)
    from wrap_up_lands [OF fin this b(2)] obtain y where y: "wrap_up delta = Some y" "on_turn y" by blast
    have "y = f32_add delta f32_2pi" if "\<not> f32_less delta 0xC0C90FDB"
      using y(1) wrap_keeps [OF turn_once_up [OF fin 2 that]] 2 by (simp add: wrap_up.simps [of delta])
    then show ?thesis using y no on_turn_less [OF y(2)] 2 by (simp add: short_turn_def wrap_down_returns)
  next
    case 3
    then show ?thesis using wrap_keeps [OF 3] on_turn_less [OF 3] by (simp add: short_turn_def)
  qed
next
  case False
  have lt: "f32_fp delta \<noteq> FInf s" for s
    using assms by (cases s) (auto simp: f32_less_def bound_fp)
  have nan: "f32_fp delta = FNan"
  proof (cases "f32_fp delta")
    case (FInf s)
    then show ?thesis using lt [of s] by simp
  qed (use False in \<open>simp_all add: fp_finite_def\<close>)
  then have "\<not> f32_less f32_pi delta" "\<not> f32_less delta f32_neg_pi" by (simp_all add: f32_less_def)
  then show ?thesis by (simp add: short_turn_def wrap_down_returns wrap_up_returns)
qed

lemma blend_returns:
  assumes "yaw_within a b"
  shows "\<exists>st d t. blend a b r = Some st \<and> st_valid st \<and> st_flags st \<in> {ts_flags a, ts_flags b} \<and>
    short_turn (f32_sub (ts_yaw b) (ts_yaw a)) d \<and> st_yaw st = f32_add (ts_yaw a) (f32_mul d t)"
proof -
  obtain d1 d where w: "wrap_down (f32_sub (ts_yaw b) (ts_yaw a)) = Some d1" "wrap_up d1 = Some d"
    and d: "short_turn (f32_sub (ts_yaw b) (ts_yaw a)) d"
    using wraps_return assms unfolding yaw_within_def Let_def by blast
  have l: "LerpAngle (ts_yaw a) (ts_yaw b) t = Some (f32_add (ts_yaw a) (f32_mul d t))" for t
    by (simp add: LerpAngle_def w)
  show ?thesis unfolding blend_def Let_def l option.case
    by (intro exI [of _ d] exI conjI, rule refl) (simp_all add: d)
qed

text \<open>The pair of samples that is blended, when the time is between the oldest and the newest.\<close>

definition blended :: "TimedSample list \<Rightarrow> f64 \<Rightarrow> SampledTransform \<Rightarrow> bool" where
  "blended l r st \<longleftrightarrow>
     (\<exists>i d t. Suc i < length l \<and> \<not> f64_less r (ts_recvSec (l ! i)) \<and> \<not> f64_less (ts_recvSec (l ! Suc i)) r \<and>
        blend (l ! i) (l ! Suc i) r = Some st \<and> short_turn (f32_sub (ts_yaw (l ! Suc i)) (ts_yaw (l ! i))) d \<and>
        st_yaw st = f32_add (ts_yaw (l ! i)) (f32_mul d t))"

lemma blended_later: "blended l r st \<Longrightarrow> blended (a # l) r st"
  unfolding blended_def by (metis Suc_less_eq length_Cons nth_Cons_Suc)

lemma between_returns:
  assumes "successively yaw_within l" and "newest \<in> set ring" and "set l \<subseteq> set ring"
  shows "\<exists>st. sample_between l newest r = Some st \<and> st_valid st \<and> st_flags st \<in> ts_flags ` set ring \<and>
    (l \<noteq> [] \<and> \<not> f64_less r (ts_recvSec (hd l)) \<and> f64_less r (ts_recvSec (last l)) \<longrightarrow> blended l r st)"
  using assms
proof (induction l newest r rule: sample_between.induct)
  case (1 a b rest newest r)
  show ?case
  proof (cases "f64_less r (ts_recvSec a) \<or> f64_less (ts_recvSec b) r")
    case True
    then have "\<not> f64_less r (ts_recvSec a) \<longrightarrow> \<not> f64_less r (ts_recvSec b)"
      using fp_less_asym by (auto simp: f64_less_def)
    with 1(1) [OF True] 1(2-) True show ?thesis by (fastforce intro: blended_later)
  next
    case False
    from 1(2) have "yaw_within a b" by simp
    from blend_returns [OF this, of r] obtain st d t where st: "blend a b r = Some st" "st_valid st" "st_flags st \<in> {ts_flags a, ts_flags b}"
      "short_turn (f32_sub (ts_yaw b) (ts_yaw a)) d" "st_yaw st = f32_add (ts_yaw a) (f32_mul d t)" by blast
    have "blended (a # b # rest) r st"
      unfolding blended_def by (rule exI [of _ 0], rule exI [of _ d], rule exI [of _ t]) (use st False in simp)
    with st False 1(4) show ?thesis by auto
  qed
qed (simp_all add: sample_here_def)

text \<open>
  C34: sampling the ring of a player that has sent a pose returns a valid transform at every time, as long as no
  two neighbouring headings are more than \<^verbatim>\<open>2^25\<close> apart: the loops that take whole turns off the
  difference end, and what is left is at most half a turn, the difference itself where that is no more, and one turn
  less where it is at most a whole one. Before its time the oldest pose is returned, after the end the
  newest moved along its velocity, and in between a blend of the two around that time which turns by what is
  left; the animation flags are always those of one of the poses received.
\<close>

theorem sample_returns:
  assumes "ring_samples ring \<noteq> []" and "successively yaw_within (ring_samples ring)"
  shows "\<exists>st. SampleAt ring r = Some st \<and> st_valid st \<and> st_flags st \<in> ts_flags ` set (ring_samples ring) \<and>
    (f64_le r (ts_recvSec (hd (ring_samples ring))) \<longrightarrow> st = sample_here (hd (ring_samples ring))) \<and>
    (f64_less (ts_recvSec (hd (ring_samples ring))) r \<and> f64_le (ts_recvSec (last (ring_samples ring))) r \<and>
       1 < length (ring_samples ring) \<longrightarrow> st = extrapolate (last (ring_samples ring)) r) \<and>
    (f64_less (ts_recvSec (hd (ring_samples ring))) r \<and> f64_less r (ts_recvSec (last (ring_samples ring))) \<longrightarrow>
       blended (ring_samples ring) r st)"
proof -
  let ?l = "ring_samples ring"
  have in_ring: "hd ?l \<in> set ?l" "last ?l \<in> set ?l" using assms(1) by simp_all
  from between_returns [OF assms(2) in_ring(2) subset_refl, of r] obtain st where
    st: "sample_between ?l (last ?l) r = Some st" "st_valid st" "st_flags st \<in> ts_flags ` set ?l"
    "\<not> f64_less r (ts_recvSec (hd ?l)) \<and> f64_less r (ts_recvSec (last ?l)) \<longrightarrow> blended ?l r st"
    using assms(1) by blast
  have asym: "f64_less x r \<Longrightarrow> \<not> f64_less r x" for x using fp_less_asym by (auto simp: f64_less_def)
  have one: "length ?l = 1 \<Longrightarrow> hd ?l = last ?l" by (cases ?l) simp_all
  show ?thesis
    using assms(1) in_ring f64_less_not_le st asym one
    by (auto simp: SampleAt_def Let_def sample_here_def extrapolate_def)
qed

theorem sample_returns_witness:
  "let p = make_pose 2 0x3C 0 0 0 0 0 0 0 0 7; q = p\<lparr>pp_yaw := f32_of_int 6\<rparr>;
       ring = ring_push (ring_push empty_ring (FromPlayerPose p (f64_of_int 1))) (FromPlayerPose q (f64_of_int 3))
   in \<exists>st. SampleAt ring (f64_of_int 2) = Some st \<and> st_valid st \<and> st_flags st = 7 \<and> blended (ring_samples ring) (f64_of_int 2) st"
proof -
  let ?p = "make_pose 2 0x3C 0 0 0 0 0 0 0 0 7"
  let ?a = "FromPlayerPose ?p (f64_of_int 1)" and ?b = "FromPlayerPose (?p\<lparr>pp_yaw := f32_of_int 6\<rparr>) (f64_of_int 3)"
  let ?ring = "ring_push (ring_push empty_ring ?a) ?b"
  have t: "f64_less (f64_of_int 1) (f64_of_int 2)" "f64_less (f64_of_int 2) (f64_of_int 3)" "\<not> f64_less (f64_of_int 3) (f64_of_int 1)"
    by (simp_all add: f64_of_int_def ieee_eval)
  have y: "ts_yaw ?a = 0" "ts_yaw ?b = 0x40C00000" "ts_recvSec ?a = f64_of_int 1" "ts_recvSec ?b = f64_of_int 3"
    "ts_flags ?a = 7" "ts_flags ?b = 7"
    by (simp_all add: FromPlayerPose_def make_pose_def f32_of_int_def ieee_eval)
  have "\<not> same_motion ?b ?a" by (simp add: same_motion_def y ieee_eval)
  then have r: "ring_samples ?ring = [?a, ?b]"
    by (simp add: ring_push_def empty_ring_def ring_trim_def kPoseRingSize_def y t)
  have "yaw_within ?a ?b" by (simp add: yaw_within_def y ieee_eval)
  then show ?thesis
    using sample_returns [of ?ring "f64_of_int 2"] t unfolding Let_def r by (simp add: y) blast
qed

text \<open>
  A heading that is infinite makes the loops of \<^verbatim>\<open>LerpAngle\<close> run forever: once a pose with such a
  heading follows an ordinary one, sampling at any time between the two never returns. Nothing on
  the way of a pose from one plugin to another checks its heading.
\<close>

lemma infinite_yaw_hangs:
  assumes "fp_finite (f32_fp (pp_yaw p))" and "pp_yaw q = 0x7F800000" and "f64_less t1 r" and "f64_less r t2"
  shows "SampleAt (ring_push (ring_push empty_ring (FromPlayerPose p t1)) (FromPlayerPose q t2)) r = None"
proof -
  let ?a = "FromPlayerPose p t1" and ?b = "FromPlayerPose q t2"
  have inf: "f32_fp 0x7F800000 = FInf False" by (simp add: ieee_eval)
  have sub: "f32_sub 0x7F800000 x = 0x7F800000" if "fp_finite (f32_fp x)" for x
    using that inf by (cases "f32_fp x") (simp_all add: f32_sub_def f32_op_def fp_finite_def fp_f32_def bits_of_fp_def)
  have pi: "fp_finite (f32_fp f32_2pi)" "fp_finite (f32_fp f32_pi)"
    by (simp_all add: f32_2pi_def f32_pi_def fp_finite_def ieee_eval)
  have "wrap_down 0x7F800000 = None"
    by (rule wrap_down_stuck) (use pi inf sub in \<open>auto simp: f32_less_def fp_finite_def split: fp.splits\<close>)
  then have lerp: "LerpAngle (pp_yaw p) 0x7F800000 x = None" for x
    using sub [OF assms(1)] by (simp add: LerpAngle_def)
  have "\<not> f32_eq 0x7F800000 (pp_yaw p)"
    using assms(1) inf by (auto simp: f32_eq_def fp_finite_def split: fp.splits)
  then have "\<not> same_motion ?b ?a" by (simp add: same_motion_def FromPlayerPose_def assms(2))
  moreover have times: "ts_recvSec ?a = t1" "ts_recvSec ?b = t2" "ts_yaw ?a = pp_yaw p" "ts_yaw ?b = 0x7F800000"
    by (simp_all add: FromPlayerPose_def assms(2))
  moreover note less = assms(3,4) [unfolded f64_less_def]
  have t: "\<not> f64_less t2 t1" "\<not> f64_less r t1" "\<not> f64_less t2 r"
    unfolding f64_less_def
    using fp_less_asym [OF less(1)] fp_less_asym [OF less(2)] fp_less_asym [OF fp_less_trans [OF less]] by simp_all
  ultimately have ring: "ring_samples (ring_push (ring_push empty_ring ?a) ?b) = [?a, ?b]"
    by (simp add: ring_push_def empty_ring_def Let_def ring_trim_def kPoseRingSize_def)
  have "\<not> f64_le r t1" "\<not> f64_le t2 r" using assms(3,4) by (simp_all add: f64_less_not_le)
  then show ?thesis
    using t by (simp add: SampleAt_def ring Let_def times blend_def lerp)
qed

lemma infinite_yaw_hangs_witness:
  "let p = make_pose 2 0x3C 0 0 0 0 0 0 0 0 0; q = p\<lparr>pp_yaw := 0x7F800000\<rparr>
   in SampleAt (ring_push (ring_push empty_ring (FromPlayerPose p (f64_of_int 1))) (FromPlayerPose q (f64_of_int 3)))
        (f64_of_int 2) = None"
proof -
  let ?p = "make_pose 2 0x3C 0 0 0 0 0 0 0 0 0"
  have "fp_finite (f32_fp (pp_yaw ?p))" "f64_less (f64_of_int 1) (f64_of_int 2)" "f64_less (f64_of_int 2) (f64_of_int 3)"
    by (simp_all add: make_pose_def fp_finite_def f64_of_int_def ieee_eval)
  from infinite_yaw_hangs [OF this(1) _ this(2,3), of "?p\<lparr>pp_yaw := 0x7F800000\<rparr>"] show ?thesis by (simp add: Let_def)
qed

end
