(* ===== verification/ModHash.thy ===== *)
theory ModHash
  imports Util "HOL-Library.List_Lexorder" "HOL-Library.Char_ord"
begin

text \<open>
  \<^verbatim>\<open>plugin/src/modhash.cpp\<close>: the number that stands for the list of loaded game plugins, which the
  server compares with its own (\<^verbatim>\<open>mod_hash\<close>). The game's data handler is an argument: \<open>None\<close> when the
  game has none, otherwise its two lists of files, each entry a file name or a null pointer.
  \<^verbatim>\<open>std::string\<close> compares bytes as unsigned numbers, as the order on strings here does.
\<close>

type_synonym file_lists = "string option list \<times> string option list"

definition Fnv1aAppend :: "u32 \<Rightarrow> string \<Rightarrow> u32" where
  "Fnv1aAppend h data = foldl (\<lambda>h c. (h XOR ucast (c2b c)) * 16777619) h data"

text \<open>The names kept of one list: no null pointer, no empty name, in lower case.\<close>

definition file_names :: "string option list \<Rightarrow> string list" where
  "file_names files =
     map lower_copy (List.map_filter (\<lambda>f. case f of None \<Rightarrow> None | Some n \<Rightarrow> if c_str n = [] then None else Some (c_str n)) files)"

definition CMP_ComputeModHash :: "file_lists option \<Rightarrow> u32" where
  "CMP_ComputeModHash data =
     (case data of
        None \<Rightarrow> 0
      | Some d \<Rightarrow>
          let names = file_names (fst d) @ file_names (snd d);
              names = remdups_adj (sort names)
          in foldl (\<lambda>h name. Fnv1aAppend (Fnv1aAppend h name) [CHR 0x0A]) 2166136261 names)"

subsection \<open>The hash depends on the set of names\<close>

definition mod_names :: "file_lists \<Rightarrow> string set" where
  "mod_names d = set (file_names (fst d)) \<union> set (file_names (snd d))"

text \<open>The text that is hashed: the names in order, each ended by a line feed.\<close>

definition mod_text :: "file_lists \<Rightarrow> string" where
  "mod_text d = concat (map (\<lambda>n. n @ [CHR 0x0A]) (sorted_list_of_set (mod_names d)))"

lemma Fnv1aAppend_append: "Fnv1aAppend h (a @ b) = Fnv1aAppend (Fnv1aAppend h a) b"
  by (simp add: Fnv1aAppend_def)

lemma distinct_remdups_adj: "sorted (xs :: 'a::linorder list) \<Longrightarrow> distinct (remdups_adj xs)"
proof (induction xs rule: remdups_adj.induct)
  case (3 x y xs)
  then show ?case by (auto simp: order.order_iff_strict)
qed simp_all

lemma remdups_adj_sort: "remdups_adj (sort (xs :: 'a::linorder list)) = sorted_list_of_set (set xs)"
  by (rule sorted_distinct_set_unique) (simp_all add: distinct_remdups_adj)

lemma hash_text:
  "foldl (\<lambda>h name. Fnv1aAppend (Fnv1aAppend h name) [CHR 0x0A]) h ns = Fnv1aAppend h (concat (map (\<lambda>n. n @ [CHR 0x0A]) ns))"
proof (induction ns arbitrary: h)
  case Nil
  then show ?case by (simp add: Fnv1aAppend_def)
next
  case (Cons n ns)
  then show ?case by (simp add: Fnv1aAppend_append [symmetric])
qed

lemma lines_inject:
  assumes "\<forall>n\<in>set ns \<union> set ms. CHR 0x0A \<notin> set n"
    and "concat (map (\<lambda>n. n @ [CHR 0x0A]) ns) = concat (map (\<lambda>n. n @ [CHR 0x0A]) ms)"
  shows "ns = ms"
  using assms
proof (induction ns arbitrary: ms)
  case Nil
  then show ?case by (cases ms) auto
next
  case (Cons n ns)
  then obtain m ms' where ms: "ms = m # ms'" by (cases ms) auto
  have e: "n @ CHR 0x0A # concat (map (\<lambda>n. n @ [CHR 0x0A]) ns) = m @ CHR 0x0A # concat (map (\<lambda>n. n @ [CHR 0x0A]) ms')"
    using Cons.prems(2) by (simp add: ms)
  then have "n = m \<and> concat (map (\<lambda>n. n @ [CHR 0x0A]) ns) = concat (map (\<lambda>n. n @ [CHR 0x0A]) ms')"
    by (rule split_at_sep) (use Cons.prems(1) ms in auto)
  with Cons.IH [of ms'] Cons.prems(1) show ?case by (simp add: ms)
qed

lemma file_names_finite: "finite (mod_names d)"
  by (simp add: mod_names_def)

lemma hash_of_text: "CMP_ComputeModHash (Some d) = Fnv1aAppend 2166136261 (mod_text d)"
  by (simp add: CMP_ComputeModHash_def Let_def hash_text remdups_adj_sort mod_text_def mod_names_def)

text \<open>
  The number a client reports for its plugins is the 32-bit FNV-1a hash of a text that depends only on
  which plugins are loaded, not on their order, their case, or being listed twice; and two different
  sets of plugins have different texts, so a difference goes unnoticed only when the hash collides.
\<close>

lemma mod_hash_set:
  assumes "\<forall>n\<in>mod_names d \<union> mod_names d'. CHR 0x0A \<notin> set n"
  shows "CMP_ComputeModHash (Some d) = Fnv1aAppend 2166136261 (mod_text d) \<and>
    (mod_text d = mod_text d' \<longleftrightarrow> mod_names d = mod_names d') \<and>
    (mod_names d = mod_names d' \<longrightarrow> CMP_ComputeModHash (Some d) = CMP_ComputeModHash (Some d'))"
proof -
  have "mod_names d = mod_names d'" if "mod_text d = mod_text d'"
  proof -
    have "sorted_list_of_set (mod_names d) = sorted_list_of_set (mod_names d')"
      by (rule lines_inject) (use assms that file_names_finite in \<open>simp_all add: mod_text_def\<close>)
    then show ?thesis by (metis file_names_finite set_sorted_list_of_set)
  qed
  then show ?thesis by (auto simp: hash_of_text mod_text_def)
qed

end
