(* ===== verification/Client.thy ===== *)
theory Client
  imports ClientNet Motion ModHash Blobs
begin

text \<open>
  The session of the game plugin: the structs of \<^verbatim>\<open>plugin/src/session.h\<close> and the operations of
  \<^verbatim>\<open>plugin/src/net/session.cpp\<close>, \<^verbatim>\<open>reliable.cpp\<close>, \<^verbatim>\<open>outbound.cpp\<close>, \<^verbatim>\<open>poll.cpp\<close> and \<^verbatim>\<open>query.cpp\<close>, with the
  parts of \<^verbatim>\<open>actors.cpp\<close>, \<^verbatim>\<open>combat.cpp\<close>, \<^verbatim>\<open>ghost/spawn.cpp\<close> and \<^verbatim>\<open>appearance\<close> they call that change the
  session. The game engine is not in the repository: what the plugin reads from it is the record
  \<open>game\<close>, one value per call of an operation (the clock included), and what it asks the engine to do is
  the list of \<open>game_call\<close>s it makes, in order. Log lines are left out.
\<close>

subsection \<open>The session\<close>

record settings =
  se_host :: string
  se_port :: u16
  se_autoJoin :: bool
  se_ghostEditorId :: string
  se_ghostSpawn :: bool
  se_ghostSourceForm :: u32
  se_poseHz :: int
  se_interpDelayMs :: int
  se_reliableRetries :: int
  se_blobAssembleTtlMs :: int
  se_pointerHud :: bool
  se_pointerSeconds :: int
  se_playerKey :: string
  se_playerName :: string
  se_password :: string
  se_serverExe :: string
  se_overlayVisible :: bool
  se_overlayChatOpen :: bool
  se_overlayDebugOpen :: bool
  se_overlayToggleKey :: u32
  se_overlayFontScale :: f32
  se_presenceDiscord :: bool
  se_presenceSteam :: bool

definition default_settings :: settings where
  "default_settings =
   \<lparr>se_host = ''127.0.0.1'', se_port = kDefaultPort, se_autoJoin = False, se_ghostEditorId = ''CMP_RemotePlayer'',
    se_ghostSpawn = True, se_ghostSourceForm = 0x0001D323, se_poseHz = 20, se_interpDelayMs = -1,
    se_reliableRetries = 8, se_blobAssembleTtlMs = 5000, se_pointerHud = True, se_pointerSeconds = 4,
    se_playerKey = [], se_playerName = ''Player'', se_password = [], se_serverExe = [],
    se_overlayVisible = False, se_overlayChatOpen = True, se_overlayDebugOpen = True, se_overlayToggleKey = 0x2D,
    se_overlayFontScale = f32_of_int 1, se_presenceDiscord = True, se_presenceSteam = False\<rparr>"

record queued_pose =
  qp_pose :: player_pose
  qp_recvSec :: f64

record net_runtime =
  nr_joined :: bool
  nr_myPeerId :: u32
  nr_isHost :: bool
  nr_isNewPlayer :: bool
  nr_incoming :: "queued_pose list"
  nr_latestPose :: "(u32, player_pose) umap"
  nr_poseRing :: "(u32, PoseRing) umap"
  nr_actorRing :: "(u32, PoseRing) umap"
  nr_latestActors :: "(u32, actor_pose) umap"
  nr_lastSnapshot :: "world_snapshot option"
  nr_haveSnapshot :: bool
  nr_snapshotApplied :: bool
  nr_probedForms :: bool
  nr_lastSend :: f64
  nr_lastPointerHud :: f64
  nr_lastSendPoseSec :: f64
  nr_lastRecvPoseSec :: f64
  nr_measuredRttMs :: f32
  nr_joinSentSec :: f64
  nr_lastHelloRetrySec :: f64
  nr_udpToken :: u32
  nr_udpBound :: bool

definition net_runtime_init :: net_runtime where
  "net_runtime_init =
   \<lparr>nr_joined = False, nr_myPeerId = 0, nr_isHost = False, nr_isNewPlayer = False, nr_incoming = [], nr_latestPose = [],
    nr_poseRing = [], nr_actorRing = [], nr_latestActors = [], nr_lastSnapshot = None, nr_haveSnapshot = False,
    nr_snapshotApplied = False, nr_probedForms = False, nr_lastSend = 0, nr_lastPointerHud = 0, nr_lastSendPoseSec = 0,
    nr_lastRecvPoseSec = 0, nr_measuredRttMs = 0, nr_joinSentSec = 0, nr_lastHelloRetrySec = 0, nr_udpToken = 0,
    nr_udpBound = False\<rparr>"

record ghost_runtime =
  gr_names :: "(u32, string) umap"
  gr_animOverridePeer :: u32
  gr_animOverrideUntil :: f64

record blob_runtime =
  br_appearances :: "(u32, bytes) umap"
  br_inventories :: "(u32, bytes) umap"
  br_appearanceParts :: "(u32, blob_assembly) umap"
  br_inventoryParts :: "(u32, blob_assembly) umap"
  br_lastEquipKey :: u64
  br_lastInvKey :: u64
  br_lastAppearanceSend :: f64
  br_lastInventorySend :: f64
  br_pendingInventoryForce :: bool
  br_pendingInventoryAt :: f64

definition blob_runtime_init :: blob_runtime where
  "blob_runtime_init =
   \<lparr>br_appearances = [], br_inventories = [], br_appearanceParts = [], br_inventoryParts = [], br_lastEquipKey = 0,
    br_lastInvKey = 0, br_lastAppearanceSend = 0, br_lastInventorySend = 0, br_pendingInventoryForce = False,
    br_pendingInventoryAt = 0\<rparr>"

record presence_runtime =
  pn_serverName :: string
  pn_maxPlayers :: u32
  pn_interior :: bool
  pn_worldspace :: u32

record menu_runtime =
  mr_menuJoin :: bool
  mr_joinFlags :: u8
  mr_sessionFlags :: u32

record query_result =
  qr_ok :: bool
  qr_info :: "session_info option"
  qr_error :: string

definition query_result_init :: query_result where
  "query_result_init = \<lparr>qr_ok = False, qr_info = None, qr_error = []\<rparr>"

text \<open>What the plugin asks of the engine and of the other services of the game process.\<close>

datatype game_call =
    GPrint string
  | GHud string
  | GDespawnGhosts
  | GIndicatorsClear
  | GPresenceInvalidate
  | GUnfreeze u32
  | GDismissCompanions
  | GHour f32
  | GDays f32
  | GWeather u32
  | GSetPosition f32 f32 f32
  | GApplyAppearance u32 bytes
  | GApplyInventory u32 inventory_sheet
  | GReapplyPuppet u32
  | GDamage f32

text \<open>
  The session with the globals of its files: the sockets, \<^verbatim>\<open>g_lastRecvSec\<close>, the heartbeat flag, the query
  of \<^verbatim>\<open>query.cpp\<close>, the tables of \<^verbatim>\<open>actors.cpp\<close>, and the engine calls made.
\<close>

record session =
  ss_settings :: settings
  ss_net :: net_runtime
  ss_ghosts :: ghost_runtime
  ss_blobs :: blob_runtime
  ss_chatHistory :: "string list"
  ss_presence :: presence_runtime
  ss_menu :: menu_runtime
  ss_lastStatus :: string
  ss_lastGhostNote :: string
  ss_lastReject :: string
  ss_sock :: client_net
  ss_lastRecvSec :: f64
  ss_heartbeatRun :: bool
  ss_queryPending :: bool
  ss_queryStart :: f64
  ss_queryResult :: query_result
  ss_puppeted :: "u32 list"
  ss_actorSeen :: "(u32, f64) umap"
  ss_calls :: "game_call list"

definition session_init :: "settings \<Rightarrow> session" where
  "session_init st =
   \<lparr>ss_settings = st, ss_net = net_runtime_init,
    ss_ghosts = \<lparr>gr_names = [], gr_animOverridePeer = 0, gr_animOverrideUntil = 0\<rparr>, ss_blobs = blob_runtime_init,
    ss_chatHistory = [], ss_presence = \<lparr>pn_serverName = [], pn_maxPlayers = 0, pn_interior = False, pn_worldspace = 0\<rparr>,
    ss_menu = \<lparr>mr_menuJoin = False, mr_joinFlags = 0, mr_sessionFlags = 0\<rparr>, ss_lastStatus = ''idle'',
    ss_lastGhostNote = [], ss_lastReject = [], ss_sock = client_net_init, ss_lastRecvSec = 0, ss_heartbeatRun = False,
    ss_queryPending = False, ss_queryStart = 0, ss_queryResult = query_result_init, ss_puppeted = [], ss_actorSeen = [],
    ss_calls = []\<rparr>"

text \<open>
  The engine's objects, as far as the plugin reads them: the cell an object is in, the base form of an
  actor (with the answer of \<^verbatim>\<open>CMP_IsPaintableGhostBase\<close>), and an actor with what \<^verbatim>\<open>CMP_FillActorMotion\<close> reads of
  it (pitch, speed, velocity, flags). Two actors are the same object when their \<open>ea_ptr\<close> is the same.
\<close>

record cell =
  ce_interior :: bool
  ce_formId :: u32
  ce_worldSpace :: "u32 option"

record npc =
  np_formId :: u32
  np_unique :: bool
  np_ghostBase :: bool

record engine_actor =
  ea_ptr :: nat
  ea_formId :: u32
  ea_isPlayerRef :: bool
  ea_dead :: bool
  ea_disabled :: bool
  ea_npc :: "npc option"
  ea_cell :: "cell option"
  ea_x :: f32
  ea_y :: f32
  ea_z :: f32
  ea_heading :: f32
  ea_motion :: "f32 \<times> f32 \<times> f32 \<times> f32 \<times> u32"

text \<open>
  The readings of one call: the clock, the player, the calendar (days and hour), the current and the
  override weather, the handles of the two actor lists the host publishes from, the loaded plugins, which
  peers have a ghost actor, which weather forms resolve, the keys and blobs of the player's looks and
  inventory, the socket library, what successive receive calls return on the two sockets.
\<close>

record game =
  gm_now :: f64
  gm_player :: "engine_actor option"
  gm_days :: "f32 option"
  gm_hour :: "f32 option"
  gm_currentWeather :: "u32 option"
  gm_overrideWeather :: "u32 option"
  gm_lists :: "(engine_actor option list \<times> engine_actor option list) option"
  gm_mods :: "file_lists option"
  gm_ghostActor :: "u32 \<Rightarrow> bool"
  gm_weatherForm :: "u32 \<Rightarrow> bool"
  gm_equipKey :: u64
  gm_invKey :: u64
  gm_appearance :: "bytes option"
  gm_inventory :: "bytes option"
  gm_sock :: winsock
  gm_recv :: "recv_res list list"
  gm_recvfrom :: "bytes option list"

subsection \<open>The local world\<close>

record local_world =
  lw_location :: u32
  lw_x :: f32
  lw_y :: f32
  lw_z :: f32
  lw_yaw :: f32
  lw_days :: f32
  lw_hour :: f32
  lw_weather :: u32
  lw_inWorld :: bool
  lw_interior :: bool

definition no_world :: local_world where
  "no_world = \<lparr>lw_location = 0, lw_x = 0, lw_y = 0, lw_z = 0, lw_yaw = 0, lw_days = 0, lw_hour = 0, lw_weather = 0,
     lw_inWorld = False, lw_interior = False\<rparr>"

definition cell_location :: "cell \<Rightarrow> u32" where
  "cell_location c =
     (if ce_interior c then ce_formId c
      else case ce_worldSpace c of Some w \<Rightarrow> w | None \<Rightarrow> ce_formId c)"

definition ReadLocalWorld :: "game \<Rightarrow> local_world" where
  "ReadLocalWorld g =
     (case gm_player g of
        None \<Rightarrow> no_world
      | Some p \<Rightarrow>
          let w = (case ea_cell p of
                     None \<Rightarrow> no_world
                   | Some c \<Rightarrow> no_world\<lparr>lw_inWorld := True, lw_interior := ce_interior c, lw_location := cell_location c\<rparr>);
              w = w\<lparr>lw_x := ea_x p, lw_y := ea_y p, lw_z := ea_z p, lw_yaw := ea_heading p\<rparr>;
              w = (case gm_days g of None \<Rightarrow> w | Some d \<Rightarrow> w\<lparr>lw_days := d\<rparr>);
              w = (case gm_hour g of None \<Rightarrow> w | Some h \<Rightarrow> w\<lparr>lw_hour := h\<rparr>)
          in case (case gm_currentWeather g of Some f \<Rightarrow> Some f | None \<Rightarrow> gm_overrideWeather g) of
               None \<Rightarrow> w
             | Some f \<Rightarrow> w\<lparr>lw_weather := f AND 0x00FFFFFF\<rparr>)"

definition player_in_cell :: "game \<Rightarrow> bool" where
  "player_in_cell g = (case gm_player g of None \<Rightarrow> False | Some p \<Rightarrow> ea_cell p \<noteq> None)"

definition upd_net :: "(net_runtime \<Rightarrow> net_runtime) \<Rightarrow> session \<Rightarrow> session" where
  "upd_net f s = s\<lparr>ss_net := f (ss_net s)\<rparr>"

definition upd_blobs :: "(blob_runtime \<Rightarrow> blob_runtime) \<Rightarrow> session \<Rightarrow> session" where
  "upd_blobs f s = s\<lparr>ss_blobs := f (ss_blobs s)\<rparr>"

definition call :: "game_call \<Rightarrow> session \<Rightarrow> session" where
  "call c s = s\<lparr>ss_calls := ss_calls s @ [c]\<rparr>"

definition tcp_out :: "game \<Rightarrow> bytes \<Rightarrow> session \<Rightarrow> bool \<times> session" where
  "tcp_out g data s =
     (let r = cmp_net_tcp_send (gm_sock g) data (ss_sock s) in (fst r, s\<lparr>ss_sock := snd r\<rparr>))"

definition udp_out :: "game \<Rightarrow> bytes \<Rightarrow> session \<Rightarrow> bool \<times> session" where
  "udp_out g data s =
     (let r = cmp_net_udp_send (gm_sock g) (se_host (ss_settings s)) data (ss_sock s)
      in (fst r, s\<lparr>ss_sock := snd r\<rparr>))"

subsection \<open>Sending\<close>

definition CMP_Net_Send :: "game \<Rightarrow> bytes \<Rightarrow> session \<Rightarrow> session" where
  "CMP_Net_Send g data s =
     (if length data < sizeof_Header then s
      else
        let udp = (case msg_of_u8 (h_type (dec_header data)) of None \<Rightarrow> False | Some t \<Rightarrow> msg_is_udp t)
        in if udp then snd (udp_out g data s) else snd (tcp_out g data s))"

definition CMP_EffectiveInterpDelayMs :: "session \<Rightarrow> f32" where
  "CMP_EffectiveInterpDelayMs s =
     (let st = ss_settings s
      in if se_interpDelayMs st = 0 then 0
         else if se_interpDelayMs st > 0 then f32_of_int (se_interpDelayMs st)
         else
           let tickMs = f32_div (f32_of_int 1000) (f32_of_int (max 1 (se_poseHz st)));
               delay = f32_mul tickMs 0x3FC00000;
               rtt = nr_measuredRttMs (ss_net s);
               alt = f32_add (f32_mul rtt 0x3F000000) tickMs;
               delay = (if f32_less 0 rtt \<and> f32_less delay alt then alt else delay)
           in if f32_less delay (f32_of_int 20) then f32_of_int 20
              else if f32_less (f32_of_int 250) delay then f32_of_int 250 else delay)"

definition CMP_SendChat :: "game \<Rightarrow> string \<Rightarrow> session \<Rightarrow> session" where
  "CMP_SendChat g txt s =
     (if \<not> nr_joined (ss_net s) \<or> nr_myPeerId (ss_net s) = 0 \<or> c_str txt = [] then s
      else CMP_Net_Send g (enc_chat (make_chat (nr_myPeerId (ss_net s)) (c_str txt))) s)"

definition CMP_SendKick :: "game \<Rightarrow> u32 \<Rightarrow> string \<Rightarrow> session \<Rightarrow> session" where
  "CMP_SendKick g targetPeerId reason s =
     (if \<not> nr_joined (ss_net s) \<or> nr_myPeerId (ss_net s) = 0 \<or> targetPeerId = 0 then s
      else CMP_Net_Send g (enc_kick (make_kick targetPeerId (c_str reason))) s)"

definition CMP_SendTeleport :: "game \<Rightarrow> u32 \<Rightarrow> session \<Rightarrow> session" where
  "CMP_SendTeleport g targetPeerId s =
     (if \<not> nr_joined (ss_net s) \<or> nr_myPeerId (ss_net s) = 0 \<or> targetPeerId = 0 then s
      else case gm_player g of
        None \<Rightarrow> s
      | Some p \<Rightarrow>
          let location = (case ea_cell p of
                            None \<Rightarrow> 0
                          | Some c \<Rightarrow> if ce_interior c then ce_formId c
                                     else case ce_worldSpace c of Some w \<Rightarrow> w | None \<Rightarrow> 0)
          in CMP_Net_Send g (enc_teleport (make_teleport targetPeerId (ea_x p) (ea_y p) (ea_z p) location)) s)"

definition SendChunks :: "game \<Rightarrow> msg \<Rightarrow> bytes \<Rightarrow> u32 \<Rightarrow> session \<Rightarrow> session" where
  "SendChunks g t blob peerId s =
     (case split_blob_chunks t peerId blob of
        None \<Rightarrow> s
      | Some packets \<Rightarrow> foldl (\<lambda>s pkt. CMP_Net_Send g pkt s) s packets)"

definition CMP_SendAppearance :: "game \<Rightarrow> bool \<Rightarrow> session \<Rightarrow> session" where
  "CMP_SendAppearance g force s =
     (if \<not> nr_joined (ss_net s) \<or> nr_myPeerId (ss_net s) = 0 then s
      else if \<not> player_in_cell g then s
      else
        let t = gm_now g; b = ss_blobs s; first = f64_le (br_lastAppearanceSend b) 0
        in if \<not> force \<and> \<not> first \<and> f64_less (f64_sub t (br_lastAppearanceSend b)) (f64_of_int 2) \<and>
              gm_equipKey g = br_lastEquipKey b
           then s
           else
             let s1 = upd_blobs (\<lambda>b. b\<lparr>br_lastAppearanceSend := t, br_lastEquipKey := gm_equipKey g\<rparr>) s
             in case gm_appearance g of
                  None \<Rightarrow> s1
                | Some blob \<Rightarrow> SendChunks g AppearanceChunk blob (nr_myPeerId (ss_net s1)) s1)"

definition CMP_SendInventory :: "game \<Rightarrow> bool \<Rightarrow> session \<Rightarrow> session" where
  "CMP_SendInventory g force s =
     (if \<not> nr_joined (ss_net s) \<or> nr_myPeerId (ss_net s) = 0 then s
      else if \<not> player_in_cell g then s
      else
        let t = gm_now g; b = ss_blobs s
        in if \<not> force \<and> f64_less 0 (br_lastInventorySend b) \<and>
              f64_less (f64_sub t (br_lastInventorySend b)) (f64_of_int 3) \<and> gm_invKey g = br_lastInvKey b
           then s
           else
             let s1 = upd_blobs (\<lambda>b. b\<lparr>br_lastInventorySend := t, br_lastInvKey := gm_invKey g\<rparr>) s
             in case gm_inventory g of
                  None \<Rightarrow> s1
                | Some blob \<Rightarrow> SendChunks g InventoryChunk blob (nr_myPeerId (ss_net s1)) s1)"

definition kMaxHostActors :: nat where "kMaxHostActors = 24"

definition ActorLocationForm :: "engine_actor \<Rightarrow> u32" where
  "ActorLocationForm a = (case ea_cell a of None \<Rightarrow> 0 | Some c \<Rightarrow> cell_location c)"

definition PlayerLocationForm :: "game \<Rightarrow> u32" where
  "PlayerLocationForm g = (case gm_player g of None \<Rightarrow> 0 | Some p \<Rightarrow> ActorLocationForm p)"

definition IsGhostCloneActor :: "engine_actor \<Rightarrow> bool" where
  "IsGhostCloneActor a = (case ea_npc a of None \<Rightarrow> False | Some n \<Rightarrow> np_ghostBase n)"

definition ShouldPublish :: "game \<Rightarrow> u32 \<Rightarrow> engine_actor \<Rightarrow> bool" where
  "ShouldPublish g hostLoc a =
     (if ea_isPlayerRef a \<or> ea_dead a \<or> ea_disabled a then False
      else if map_option ea_ptr (gm_player g) = Some (ea_ptr a) then False
      else if IsGhostCloneActor a then False
      else case ea_npc a of
        None \<Rightarrow> False
      | Some n \<Rightarrow>
          if \<not> np_unique n \<or> forbidden_actor_base (np_formId n) then False
          else \<not> (hostLoc \<noteq> 0 \<and> ActorLocationForm a \<noteq> 0 \<and> ActorLocationForm a \<noteq> hostLoc))"

fun CollectHandles :: "game \<Rightarrow> u32 \<Rightarrow> engine_actor option list \<Rightarrow> engine_actor list \<Rightarrow> engine_actor list" where
  "CollectHandles g hostLoc [] out = out"
| "CollectHandles g hostLoc (None # hs) out = CollectHandles g hostLoc hs out"
| "CollectHandles g hostLoc (Some a # hs) out =
     (if \<not> ShouldPublish g hostLoc a then CollectHandles g hostLoc hs out
      else if ea_ptr a \<in> set (map ea_ptr out) then CollectHandles g hostLoc hs out
      else
        let out' = out @ [a]
        in if length out' \<ge> kMaxHostActors then out' else CollectHandles g hostLoc hs out')"

definition host_actors :: "game \<Rightarrow> engine_actor option list \<Rightarrow> engine_actor option list \<Rightarrow> engine_actor list" where
  "host_actors g high middle =
     (let hostLoc = PlayerLocationForm g; actors = CollectHandles g hostLoc high []
      in if length actors < kMaxHostActors then CollectHandles g hostLoc middle actors else actors)"

definition host_actor_msg :: "engine_actor \<Rightarrow> actor_pose" where
  "host_actor_msg a =
     (case ea_motion a of (pitch, speed, vx, vy, flags) \<Rightarrow>
        make_actor_pose (ea_formId a) (case ea_npc a of None \<Rightarrow> 0 | Some n \<Rightarrow> np_formId n) (ActorLocationForm a)
          (ea_x a) (ea_y a) (ea_z a) (ea_heading a) pitch speed vx vy flags True False)"

definition CMP_SendHostActors :: "game \<Rightarrow> session \<Rightarrow> session" where
  "CMP_SendHostActors g s =
     (if \<not> nr_joined (ss_net s) \<or> \<not> nr_isHost (ss_net s) then s
      else case (gm_player g, gm_lists g) of
        (Some _, Some (high, middle)) \<Rightarrow>
          foldl (\<lambda>s a. CMP_Net_Send g (enc_actor_pose (host_actor_msg a)) s) s (host_actors g high middle)
      | _ \<Rightarrow> s)"

definition CMP_SendLocalPose :: "game \<Rightarrow> session \<Rightarrow> session" where
  "CMP_SendLocalPose g s =
     (if \<not> nr_joined (ss_net s) \<or> \<not> nr_udpBound (ss_net s) then s
      else case gm_player g of
        None \<Rightarrow> s
      | Some p \<Rightarrow>
        let t = gm_now g;
            minDt = f64_div (f64_of_int 1) (f64_of_int (max 1 (se_poseHz (ss_settings s))));
            last' = nr_lastSend (ss_net s)
        in if f64_less 0 last' \<and> f64_less (f64_sub t last') minDt then s
           else
             let s1 = upd_net (\<lambda>n. n\<lparr>nr_lastSend := t, nr_lastSendPoseSec := t\<rparr>) s;
                 w = ReadLocalWorld g;
                 s2 = s1\<lparr>ss_presence := (ss_presence s1)\<lparr>pn_interior := lw_interior w, pn_worldspace := lw_location w\<rparr>\<rparr>;
                 (pitch, speed, vx, vy, flags) = ea_motion p;
                 pose = make_pose (nr_myPeerId (ss_net s2)) (lw_location w) (lw_x w) (lw_y w) (lw_z w) (lw_yaw w)
                   pitch speed vx vy flags
             in CMP_SendInventory g False (CMP_SendAppearance g False (CMP_SendHostActors g
                  (CMP_Net_Send g (enc_player_pose pose) s2))))"

subsection \<open>Joining and leaving\<close>

definition CMP_DespawnGhosts :: "session \<Rightarrow> session" where
  "CMP_DespawnGhosts s =
     call GDespawnGhosts (s\<lparr>ss_ghosts := \<lparr>gr_names = [], gr_animOverridePeer = 0, gr_animOverrideUntil = 0\<rparr>,
       ss_lastGhostNote := []\<rparr>)"

definition CMP_ClearHostActors :: "session \<Rightarrow> session" where
  "CMP_ClearHostActors s =
     upd_net (\<lambda>n. n\<lparr>nr_latestActors := []\<rparr>)
       ((foldl (\<lambda>s i. call (GUnfreeze i) s) s (ss_puppeted s))\<lparr>ss_puppeted := [], ss_actorSeen := []\<rparr>)"

definition left_net :: "net_runtime \<Rightarrow> net_runtime" where
  "left_net n =
     n\<lparr>nr_joined := False, nr_myPeerId := 0, nr_isHost := False, nr_isNewPlayer := False, nr_haveSnapshot := False,
       nr_snapshotApplied := False, nr_udpToken := 0, nr_udpBound := False, nr_incoming := [], nr_latestPose := [],
       nr_poseRing := [], nr_actorRing := [], nr_latestActors := [], nr_lastPointerHud := 0, nr_lastSendPoseSec := 0,
       nr_lastRecvPoseSec := 0, nr_measuredRttMs := 0\<rparr>"

definition left_blobs :: "blob_runtime \<Rightarrow> blob_runtime" where
  "left_blobs b =
     b\<lparr>br_appearances := [], br_inventories := [], br_appearanceParts := [], br_inventoryParts := [],
       br_lastAppearanceSend := 0, br_lastInventorySend := 0\<rparr>"

definition CMP_Leave :: "game \<Rightarrow> session \<Rightarrow> session" where
  "CMP_Leave g s =
     (let s1 = (if nr_joined (ss_net s) \<and> cmp_net_tcp_connected (ss_sock s)
                then snd (tcp_out g (enc_bye (make_bye (nr_myPeerId (ss_net s)))) s) else s);
          s2 = s1\<lparr>ss_heartbeatRun := False, ss_sock := cmp_net_shutdown (ss_sock s1)\<rparr>;
          s3 = call GIndicatorsClear (CMP_DespawnGhosts s2);
          s4 = upd_blobs left_blobs (upd_net left_net s3);
          s5 = s4\<lparr>ss_ghosts := (ss_ghosts s4)\<lparr>gr_names := []\<rparr>, ss_lastGhostNote := [], ss_lastStatus := ''disconnected'',
                  ss_menu := \<lparr>mr_menuJoin = False, mr_joinFlags = 0, mr_sessionFlags = 0\<rparr>\<rparr>
      in call GPresenceInvalidate (CMP_ClearHostActors s5))"

definition join_hello :: "game \<Rightarrow> settings \<Rightarrow> u8 \<Rightarrow> hello" where
  "join_hello g st flags =
     (let w = ReadLocalWorld g
      in make_hello (se_playerName st) (se_playerKey st) True (lw_location w) (lw_days w) (lw_hour w) (lw_weather w)
           (lw_x w) (lw_y w) (lw_z w) (lw_interior w) flags (CMP_ComputeModHash (gm_mods g)) (se_password st))"

definition fail_join :: "string \<Rightarrow> session \<Rightarrow> session" where
  "fail_join status s =
     (let s1 = call (GPrint status) (s\<lparr>ss_lastStatus := status\<rparr>)
      in s1\<lparr>ss_sock := cmp_net_shutdown (ss_sock s1)\<rparr>)"

definition join_reset :: "string \<Rightarrow> u16 \<Rightarrow> u8 \<Rightarrow> session \<Rightarrow> session" where
  "join_reset host port flags s =
     s\<lparr>ss_settings := (ss_settings s)\<lparr>se_host := host, se_port := port\<rparr>,
       ss_menu := (ss_menu s)\<lparr>mr_joinFlags := flags\<rparr>,
       ss_net := (ss_net s)\<lparr>nr_snapshotApplied := False, nr_haveSnapshot := False, nr_isHost := False,
         nr_isNewPlayer := False, nr_udpToken := 0, nr_udpBound := False\<rparr>,
       ss_lastReject := []\<rparr>"

definition CMP_Join :: "game \<Rightarrow> string \<Rightarrow> u16 \<Rightarrow> u8 \<Rightarrow> session \<Rightarrow> bool \<times> session" where
  "CMP_Join g host port flags s =
     (let s0 = CMP_Leave g s;
          st = cmp_net_startup (gm_sock g) (ss_sock s0);
          s1 = s0\<lparr>ss_sock := snd st\<rparr>
      in if \<not> fst st
         then (False, call (GPrint ''net startup failed'') (s1\<lparr>ss_lastStatus := ''net startup failed''\<rparr>))
         else
           let s2 = join_reset host port flags s1;
               nw = ''not in world (load any save first)''
           in if \<not> lw_inWorld (ReadLocalWorld g)
              then (False, (let s3 = call (GHud nw) (call (GPrint nw) (s2\<lparr>ss_lastStatus := nw\<rparr>))
                            in s3\<lparr>ss_sock := cmp_net_shutdown (ss_sock s3)\<rparr>))
              else
                let c = cmp_net_tcp_connect (gm_sock g) host (ss_sock s2); s3 = s2\<lparr>ss_sock := snd c\<rparr>
                in if \<not> fst c then (False, fail_join ''tcp connect failed (bad host?)'' s3)
                   else
                     let o1 = tcp_out g (enc_hello (join_hello g (ss_settings s3) flags)) s3; s4 = snd o1
                     in if \<not> fst o1 then (False, fail_join ''send Hello failed'' s4)
                        else
                          let s5 = upd_net (\<lambda>n. n\<lparr>nr_joined := True, nr_joinSentSec := gm_now g,
                                     nr_lastHelloRetrySec := gm_now g\<rparr>) s4;
                              s6 = s5\<lparr>ss_heartbeatRun := True, ss_lastStatus := ''hello sent, waiting Welcome''\<rparr>;
                              line = ''Join IP '' @ host @ '':'' @ dec_str (unat port) @ '' key='' @ se_playerKey (ss_settings s6) @
                                (if flags AND kHelloFlagRequireHost \<noteq> 0 then '' requireHost'' else [])
                          in (True, call GPresenceInvalidate (call (GPrint line) s6)))"

text \<open>
  What a turn of the heartbeat thread does after its five seconds of sleep. The run flag is asked before the sleep only, so a
  turn may still follow the end of the run: \<^verbatim>\<open>StopHeartbeat\<close> waits for it.
\<close>

definition HeartbeatLoop :: "game \<Rightarrow> session \<Rightarrow> session" where
  "HeartbeatLoop g s =
     (if \<not> nr_joined (ss_net s) \<or> nr_myPeerId (ss_net s) = 0 then s
      else snd (tcp_out g (enc_heartbeat (make_heartbeat (nr_myPeerId (ss_net s))
             (f64_to_u32 (f64_mul (gm_now g) (f64_of_int 1000))))) s))"

end
