(* ===== verification/ClientPoll.thy ===== *)
theory ClientPoll
  imports Client
begin

text \<open>
  What the plugin does with what it receives: \<^verbatim>\<open>plugin/src/net/poll.cpp\<close>, with \<^verbatim>\<open>CMP_ApplyWorldSnapshot\<close> of
  \<^verbatim>\<open>net/session.cpp\<close>, \<^verbatim>\<open>CMP_OnActorPose\<close> of \<^verbatim>\<open>actors.cpp\<close>, \<^verbatim>\<open>CMP_OnHit\<close> of \<^verbatim>\<open>combat.cpp\<close>, the session's part of
  \<^verbatim>\<open>ApplyGhostInventory\<close>, and the server query of \<^verbatim>\<open>net/query.cpp\<close>.
\<close>

subsection \<open>The world of the host\<close>

definition apply_calendar :: "game \<Rightarrow> world_snapshot \<Rightarrow> session \<Rightarrow> session" where
  "apply_calendar g snap s =
     (let s1 = (if gm_hour g = None then s else call (GHour (ws_gameHour snap)) s);
          s2 = (if gm_days g = None then s1 else call (GDays (ws_gameDaysPassed snap)) s1)
      in if ws_weatherFormId snap \<noteq> 0 \<and> gm_weatherForm g (ws_weatherFormId snap)
         then call (GWeather (ws_weatherFormId snap)) s2 else s2)"

definition CMP_ApplyWorldSnapshot :: "game \<Rightarrow> world_snapshot \<Rightarrow> session \<Rightarrow> session" where
  "CMP_ApplyWorldSnapshot g snap s =
     (let s1 = upd_net (\<lambda>n. n\<lparr>nr_lastSnapshot := Some snap, nr_haveSnapshot := True\<rparr>) s
      in if nr_snapshotApplied (ss_net s1) then s1
         else
           let s2 = upd_net (\<lambda>n. n\<lparr>nr_snapshotApplied := True\<rparr>) s1;
               n = ss_net s2;
               iAmHost = (nr_isHost n \<or> (nr_myPeerId n \<noteq> 0 \<and> ws_hostPeerId snap = nr_myPeerId n));
               s3 = (if \<not> iAmHost then apply_calendar g snap s2 else s2)
           in if iAmHost then s3
              else if ws_placeLocationFormId snap \<noteq> 0 \<and> ws_placeLocationFormId snap \<noteq> kCommonwealthWorldspace then s3
              else if gm_player g = None then s3
              else call (GSetPosition (ws_placeX snap) (ws_placeY snap) (f32_add (ws_placeZ snap) (f32_of_int 12))) s3)"

subsection \<open>Actors and hits\<close>

definition CMP_OnActorPose :: "game \<Rightarrow> actor_pose \<Rightarrow> session \<Rightarrow> session" where
  "CMP_OnActorPose g pose s =
     (if ap_refFormId pose = 0 then s
      else if \<not> nr_joined (ss_net s) \<or> nr_isHost (ss_net s) then s
      else
        let i = ap_refFormId pose; now = gm_now g;
            ring = (case um_find i (nr_actorRing (ss_net s)) of None \<Rightarrow> empty_ring | Some r \<Rightarrow> r);
            s1 = upd_net (\<lambda>n. n\<lparr>nr_latestActors := um_put i pose (nr_latestActors n)\<rparr>) s;
            s2 = s1\<lparr>ss_actorSeen := um_put i now (ss_actorSeen s1)\<rparr>
        in upd_net (\<lambda>n. n\<lparr>nr_actorRing := um_put i (ring_push ring (FromActorPose pose now)) (nr_actorRing n)\<rparr>) s2)"

definition CMP_OnHit :: "game \<Rightarrow> hit \<Rightarrow> session \<Rightarrow> session" where
  "CMP_OnHit g hit s =
     (if \<not> nr_joined (ss_net s) \<or> hi_targetPeerId hit \<noteq> nr_myPeerId (ss_net s) then s
      else if mr_sessionFlags (ss_menu s) AND kSessionPvpEnabled = 0 then s
      else
        let damage = clamp_hit_damage (hi_damage hit)
        in if f32_le damage 0 then s
           else case gm_player g of
             None \<Rightarrow> s
           | Some p \<Rightarrow> if ea_dead p then s else call (GDamage damage) s)"

subsection \<open>Looks and inventories\<close>

definition ExpireBlobAssemblies :: "(u32, blob_assembly) umap \<Rightarrow> f64 \<Rightarrow> f64 \<Rightarrow> (u32, blob_assembly) umap" where
  "ExpireBlobAssemblies parts now ttlSec =
     filter (\<lambda>pa. \<not> (f64_less 0 (ba_startedSec (snd pa)) \<and> f64_less ttlSec (f64_sub now (ba_startedSec (snd pa))))) parts"

text \<open>The part of \<^verbatim>\<open>HandleBlobChunk\<close> under the lock: the peer whose blob is complete, the assemblies and the blobs.\<close>

definition blob_chunk_in ::
  "f64 \<Rightarrow> bytes \<Rightarrow> (u32, blob_assembly) umap \<Rightarrow> (u32, bytes) umap \<Rightarrow> u32 option \<times> (u32, blob_assembly) umap \<times> (u32, bytes) umap" where
  "blob_chunk_in now buf parts dest =
     (let peer = bc_peerId (dec_blob_chunk buf);
          a = (case um_find peer parts of None \<Rightarrow> empty_assembly | Some a \<Rightarrow> a);
          a = (if f64_le (ba_startedSec a) 0 then a\<lparr>ba_startedSec := now\<rparr> else a)
      in case assemble_blob_chunk a buf now of
           (A_Complete, _, Some whole) \<Rightarrow> (Some peer, um_erase peer (um_put peer a parts), um_put peer whole dest)
         | (_, a', _) \<Rightarrow> (None, um_put peer a' parts, dest))"

definition ApplyGhostInventory :: "u32 \<Rightarrow> session \<Rightarrow> session" where
  "ApplyGhostInventory peerId s =
     (case um_find peerId (br_inventories (ss_blobs s)) of
        None \<Rightarrow> s
      | Some blob \<Rightarrow>
          (case decode_inventory_sheet blob of
             None \<Rightarrow> s
           | Some sheet \<Rightarrow>
               let s1 = (if c_str (iv_name sheet) \<noteq> []
                         then s\<lparr>ss_ghosts := (ss_ghosts s)\<lparr>gr_names := um_put peerId (c_str (iv_name sheet)) (gr_names (ss_ghosts s))\<rparr>\<rparr>
                         else s)
               in call (GReapplyPuppet peerId) (call (GApplyInventory peerId sheet) s1)))"

definition CMP_ApplyGhostAppearance :: "u32 \<Rightarrow> session \<Rightarrow> session" where
  "CMP_ApplyGhostAppearance peerId s =
     (case um_find peerId (br_appearances (ss_blobs s)) of
        None \<Rightarrow> s
      | Some blob \<Rightarrow> call (GApplyAppearance peerId blob) s)"

definition HandleAppearanceChunk :: "game \<Rightarrow> bytes \<Rightarrow> session \<Rightarrow> session" where
  "HandleAppearanceChunk g buf s =
     (if length buf < sizeof_BlobChunk then s
      else case blob_chunk_in (gm_now g) buf (br_appearanceParts (ss_blobs s)) (br_appearances (ss_blobs s)) of
        (done, parts, dest) \<Rightarrow>
          let s1 = upd_blobs (\<lambda>b. b\<lparr>br_appearanceParts := parts, br_appearances := dest\<rparr>) s
          in case done of
               None \<Rightarrow> s1
             | Some peer \<Rightarrow>
                 if gm_ghostActor g peer then call (GReapplyPuppet peer) (CMP_ApplyGhostAppearance peer s1) else s1)"

definition HandleInventoryChunk :: "game \<Rightarrow> bytes \<Rightarrow> session \<Rightarrow> session" where
  "HandleInventoryChunk g buf s =
     (if length buf < sizeof_BlobChunk then s
      else case blob_chunk_in (gm_now g) buf (br_inventoryParts (ss_blobs s)) (br_inventories (ss_blobs s)) of
        (done, parts, dest) \<Rightarrow>
          let s1 = upd_blobs (\<lambda>b. b\<lparr>br_inventoryParts := parts, br_inventories := dest\<rparr>) s
          in case done of
               None \<Rightarrow> s1
             | Some peer \<Rightarrow>
                 if gm_ghostActor g peer then call (GReapplyPuppet peer) (ApplyGhostInventory peer s1) else s1)"

subsection \<open>Messages\<close>

definition PeerDisplayName :: "u32 \<Rightarrow> session \<Rightarrow> string" where
  "PeerDisplayName peerId s =
     (case um_find peerId (gr_names (ss_ghosts s)) of
        Some nm \<Rightarrow> if nm \<noteq> [] then nm else ''peer '' @ dec_str (unat peerId)
      | None \<Rightarrow> ''peer '' @ dec_str (unat peerId))"

definition on_reject :: "game \<Rightarrow> reject \<Rightarrow> session \<Rightarrow> session" where
  "on_reject g r s =
     (let m = c_str ((re_message r)[95 := nul]); status = ''rejected: '' @ m
      in CMP_Leave g (call (GHud status) (call (GPrint status) (s\<lparr>ss_lastReject := m, ss_lastStatus := status\<rparr>))))"

definition send_bind :: "game \<Rightarrow> session \<Rightarrow> session" where
  "send_bind g s =
     (let o1 = udp_out g (enc_udp_bind (make_udp_bind (nr_myPeerId (ss_net s)) (nr_udpToken (ss_net s)))) s
      in if fst o1 then upd_net (\<lambda>n. n\<lparr>nr_udpBound := True\<rparr>) (snd o1) else snd o1)"

definition on_welcome :: "game \<Rightarrow> welcome_msg \<Rightarrow> session \<Rightarrow> session" where
  "on_welcome g w s =
     (let s1 = upd_net (\<lambda>n. n\<lparr>nr_myPeerId := we_peerId w, nr_isNewPlayer := we_isNewPlayer w \<noteq> 0,
                 nr_isHost := we_isHost w \<noteq> 0, nr_udpToken := we_udpToken w\<rparr>) s;
          s2 = s1\<lparr>ss_menu := (ss_menu s1)\<lparr>mr_sessionFlags := we_sessionFlags w\<rparr>,
                  ss_lastStatus := ''welcome peer '' @ dec_str (unat (we_peerId w))\<rparr>;
          s3 = call (GPrint (if nr_isHost (ss_net s2) then ''Connected as host'' else ''Connected as guest'')) s2;
          s4 = call GDismissCompanions (call (GHud ''Quests and loot are per-save until host-world ships.'') s3);
          s5 = (if pn_serverName (ss_presence s4) = [] then s4\<lparr>ss_presence := (ss_presence s4)\<lparr>pn_serverName := ''CMP''\<rparr>\<rparr> else s4);
          s6 = send_bind g (call GPresenceInvalidate s5);
          l = ReadLocalWorld g;
          snap = make_world_snapshot (lw_hour l) (lw_days l) (lw_weather l) (lw_location l) (lw_x l) (lw_y l) (lw_z l)
            (nr_myPeerId (ss_net s6)) (lw_location l) (lw_x l) (lw_y l) (lw_z l) (nr_isNewPlayer (ss_net s6));
          s7 = CMP_SendAppearance g True (CMP_Net_Send g (enc_world_snapshot snap) s6)
      in upd_blobs (\<lambda>b. b\<lparr>br_pendingInventoryForce := True,
           br_pendingInventoryAt := f64_add (gm_now g) 0x3FC3333333333333\<rparr>) s7)"

definition on_bye :: "game \<Rightarrow> bye \<Rightarrow> session \<Rightarrow> session" where
  "on_bye g b s =
     (let i = by_peerId b
      in if i = nr_myPeerId (ss_net s) then CMP_Leave g (call (GPrint ''Disconnected by server'') s)
         else
           let leftName = (case um_find i (gr_names (ss_ghosts s)) of None \<Rightarrow> [] | Some nm \<Rightarrow> nm);
               s1 = upd_net (\<lambda>n. n\<lparr>nr_latestPose := um_erase i (nr_latestPose n), nr_poseRing := um_erase i (nr_poseRing n)\<rparr>) s;
               s2 = upd_blobs (\<lambda>b. b\<lparr>br_appearances := um_erase i (br_appearances b), br_inventories := um_erase i (br_inventories b)\<rparr>) s1;
               s3 = s2\<lparr>ss_ghosts := (ss_ghosts s2)\<lparr>gr_names := um_erase i (gr_names (ss_ghosts s2))\<rparr>\<rparr>
           in call (GPrint (if leftName = [] then ''Peer '' @ dec_str (unat i) @ '' left'' else leftName @ '' left'')) s3)"

definition on_player_pose :: "game \<Rightarrow> player_pose \<Rightarrow> session \<Rightarrow> session" where
  "on_player_pose g p s =
     upd_net (\<lambda>n. n\<lparr>nr_incoming := nr_incoming n @ [\<lparr>qp_pose = p, qp_recvSec = gm_now g\<rparr>], nr_lastRecvPoseSec := gm_now g\<rparr>) s"

definition on_heartbeat :: "game \<Rightarrow> heartbeat \<Rightarrow> session \<Rightarrow> session" where
  "on_heartbeat g hb s =
     (if hb_clientStampMs hb = 0 then s
      else
        let nowMs = f64_to_u32 (f64_mul (gm_now g) (f64_of_int 1000));
            rtt = f32_of_int (uint (nowMs - hb_clientStampMs hb));
            old = nr_measuredRttMs (ss_net s)
        in if f32_le 0 rtt \<and> f32_less rtt (f32_of_int 5000)
           then upd_net (\<lambda>n. n\<lparr>nr_measuredRttMs :=
                  (if f32_le old 0 then rtt else f32_add (f32_mul old 0x3F4CCCCD) (f32_mul rtt 0x3E4CCCCD))\<rparr>) s
           else s)"

definition on_session_rules :: "session_rules \<Rightarrow> session \<Rightarrow> session" where
  "on_session_rules r s =
     (let oldFlags = mr_sessionFlags (ss_menu s);
          s1 = s\<lparr>ss_menu := (ss_menu s)\<lparr>mr_sessionFlags := sr_sessionFlags r\<rparr>\<rparr>;
          pvpOn = (sr_sessionFlags r AND kSessionPvpEnabled \<noteq> 0);
          wasPvpOn = (oldFlags AND kSessionPvpEnabled \<noteq> 0)
      in if pvpOn \<noteq> wasPvpOn then call (GHud (if pvpOn then ''PvP enabled'' else ''PvP disabled'')) s1 else s1)"

definition on_chat :: "chat \<Rightarrow> session \<Rightarrow> session" where
  "on_chat c s =
     (let txt = c_str ((ch_text c)[length (ch_text c) - 1 := nul]);
          from = (if ch_fromPeerId c = 0 then ''Server'' else PeerDisplayName (ch_fromPeerId c) s);
          line = ''['' @ from @ ''] '' @ txt;
          hist = ss_chatHistory s @ [line]
      in (call (GPrint line) s)\<lparr>ss_chatHistory := (if length hist > 200 then tl hist else hist)\<rparr>)"

definition on_kick :: "game \<Rightarrow> kick \<Rightarrow> session \<Rightarrow> session" where
  "on_kick g k s =
     CMP_Leave g (call (GPrint (''Kicked: '' @ c_str ((ki_reason k)[length (ki_reason k) - 1 := nul]))) s)"

definition on_teleport :: "game \<Rightarrow> teleport \<Rightarrow> session \<Rightarrow> session" where
  "on_teleport g t s =
     (if gm_player g \<noteq> None \<and> tp_targetPeerId t = nr_myPeerId (ss_net s)
      then call (GPrint ''Teleported by host'') (call (GSetPosition (tp_x t) (tp_y t) (f32_add (tp_z t) (f32_of_int 8))) s)
      else s)"

text \<open>
  The chain of conditions of \<^verbatim>\<open>HandleMessage\<close>, each on the type and on the number of bytes; a type it has no
  branch for is ignored.
\<close>

definition dispatch_message :: "game \<Rightarrow> msg \<Rightarrow> bytes \<Rightarrow> session \<Rightarrow> session" where
  "dispatch_message g t buf s =
     (let n = length buf; long = (sizeof_msg t \<le> n)
      in case t of
           Reject \<Rightarrow> if long then on_reject g (dec_reject buf) s else s
         | Welcome \<Rightarrow> if long then on_welcome g (dec_welcome buf) s else s
         | WorldSnapshot \<Rightarrow> if long then CMP_ApplyWorldSnapshot g (dec_world_snapshot buf) s else s
         | Bye \<Rightarrow> if long then on_bye g (dec_bye buf) s else s
         | PlayerPose \<Rightarrow> if long then on_player_pose g (dec_player_pose buf) s else s
         | ActorPose \<Rightarrow> if long then CMP_OnActorPose g (dec_actor_pose buf) s else s
         | Hit \<Rightarrow> if long then CMP_OnHit g (dec_hit buf) s else s
         | AppearanceChunk \<Rightarrow> HandleAppearanceChunk g buf s
         | InventoryChunk \<Rightarrow> HandleInventoryChunk g buf s
         | Heartbeat \<Rightarrow> if long then on_heartbeat g (dec_heartbeat buf) s else s
         | SessionRules \<Rightarrow> if long then on_session_rules (dec_session_rules buf) s else s
         | Chat \<Rightarrow> if long then on_chat (dec_chat buf) s else s
         | Kick \<Rightarrow> if long then on_kick g (dec_kick buf) s else s
         | Teleport \<Rightarrow> if long then on_teleport g (dec_teleport buf) s else s
         | _ \<Rightarrow> s)"

definition HandleMessage :: "game \<Rightarrow> bytes \<Rightarrow> session \<Rightarrow> session" where
  "HandleMessage g buf s =
     (let header = dec_header buf
      in if \<not> header_ok header (length buf) then s
         else case msg_of_u8 (h_type header) of
                None \<Rightarrow> s
              | Some t \<Rightarrow> dispatch_message g t buf (s\<lparr>ss_lastRecvSec := gm_now g\<rparr>))"

subsection \<open>The poll\<close>

text \<open>Both loops tell whether the poll returns from within them.\<close>

fun poll_frames :: "nat \<Rightarrow> game \<Rightarrow> recv_res list list \<Rightarrow> session \<Rightarrow> bool \<times> session" where
  "poll_frames 0 g rss s = (False, s)"
| "poll_frames (Suc k) g rss s =
     (let r = cmp_net_tcp_recv_frame 65536 (case rss of [] \<Rightarrow> [] | rs # _ \<Rightarrow> rs) (ss_sock s);
          n = fst (fst r); buf = snd (fst r);
          s1 = s\<lparr>ss_sock := snd r\<rparr>
      in if n = -2 then (True, CMP_Leave g (call (GPrint ''TCP connection closed'') s1))
         else if n < int sizeof_Header then (False, s1)
         else
           let s2 = HandleMessage g buf s1
           in if \<not> nr_joined (ss_net s2) then (True, s2)
              else poll_frames k g (case rss of [] \<Rightarrow> [] | _ # rss' \<Rightarrow> rss') s2)"

fun poll_datagrams :: "nat \<Rightarrow> game \<Rightarrow> bytes option list \<Rightarrow> session \<Rightarrow> bool \<times> session" where
  "poll_datagrams 0 g ds s = (False, s)"
| "poll_datagrams (Suc k) g ds s =
     (let r = cmp_net_udp_recv 512 (case ds of [] \<Rightarrow> None | d # _ \<Rightarrow> d) (ss_sock s);
          n = fst r; buf = snd r
      in if n < int sizeof_Header then (False, s)
         else
           let s2 = HandleMessage g buf s
           in if \<not> nr_joined (ss_net s2) then (True, s2)
              else poll_datagrams k g (case ds of [] \<Rightarrow> [] | _ # ds' \<Rightarrow> ds') s2)"

definition hello_retry :: "game \<Rightarrow> session \<Rightarrow> session" where
  "hello_retry g s =
     (let now = gm_now g; n = ss_net s; wait = 0x3FF8000000000000
      in if nr_myPeerId n = 0 \<and> f64_less 0 (nr_joinSentSec n) \<and> f64_less wait (f64_sub now (nr_joinSentSec n)) \<and>
            f64_less wait (f64_sub now (nr_lastHelloRetrySec n))
         then
           let s1 = upd_net (\<lambda>n. n\<lparr>nr_lastHelloRetrySec := now\<rparr>) s
           in if lw_inWorld (ReadLocalWorld g)
              then snd (tcp_out g (enc_hello (join_hello g (ss_settings s1) (mr_joinFlags (ss_menu s1)))) s1) else s1
         else s)"

definition bind_retry :: "game \<Rightarrow> session \<Rightarrow> session" where
  "bind_retry g s =
     (let n = ss_net s
      in if nr_myPeerId n \<noteq> 0 \<and> nr_udpToken n \<noteq> 0 \<and> \<not> nr_udpBound n then send_bind g s else s)"

definition inventory_due :: "game \<Rightarrow> session \<Rightarrow> session" where
  "inventory_due g s =
     (if br_pendingInventoryForce (ss_blobs s) \<and> f64_le (br_pendingInventoryAt (ss_blobs s)) (gm_now g)
      then CMP_SendInventory g True (upd_blobs (\<lambda>b. b\<lparr>br_pendingInventoryForce := False\<rparr>) s) else s)"

definition expire_parts :: "game \<Rightarrow> session \<Rightarrow> session" where
  "expire_parts g s =
     (let ttlSec = f64_div (f64_of_int (max 1 (se_blobAssembleTtlMs (ss_settings s)))) (f64_of_int 1000)
      in upd_blobs (\<lambda>b. b\<lparr>br_appearanceParts := ExpireBlobAssemblies (br_appearanceParts b) (gm_now g) ttlSec,
           br_inventoryParts := ExpireBlobAssemblies (br_inventoryParts b) (gm_now g) ttlSec\<rparr>) s)"

definition take_pose :: "u32 \<Rightarrow> net_runtime \<Rightarrow> queued_pose \<Rightarrow> net_runtime" where
  "take_pose me n q =
     (let i = pp_peerId (qp_pose q)
      in if i = me then n
         else
           let ring = (case um_find i (nr_poseRing n) of None \<Rightarrow> empty_ring | Some r \<Rightarrow> r)
           in n\<lparr>nr_latestPose := um_put i (qp_pose q) (nr_latestPose n),
                nr_poseRing := um_put i (ring_push ring (FromPlayerPose (qp_pose q) (qp_recvSec q))) (nr_poseRing n)\<rparr>)"

definition take_poses :: "session \<Rightarrow> session" where
  "take_poses s = upd_net (\<lambda>n. (foldl (take_pose (nr_myPeerId n)) n (nr_incoming n))\<lparr>nr_incoming := []\<rparr>) s"

definition server_timed_out :: "game \<Rightarrow> session \<Rightarrow> bool" where
  "server_timed_out g s \<longleftrightarrow>
     nr_joined (ss_net s) \<and> f64_less 0 (ss_lastRecvSec s) \<and> f64_less (f64_of_int 15) (f64_sub (gm_now g) (ss_lastRecvSec s))"

definition CMP_NetPoll :: "game \<Rightarrow> session \<Rightarrow> session" where
  "CMP_NetPoll g s =
     (if \<not> nr_joined (ss_net s) then s
      else if \<not> cmp_net_tcp_connected (ss_sock s) then CMP_Leave g (call (GPrint ''TCP connection lost'') s)
      else
        let s1 = expire_parts g (inventory_due g (bind_retry g (hello_retry g s)));
            t = poll_frames 16 g (gm_recv g) s1
        in if fst t then snd t
           else
             let u = poll_datagrams 16 g (gm_recvfrom g) (snd t)
             in if fst u then snd u
                else if server_timed_out g (snd u)
                then CMP_Leave g (call (GPrint ''Server timed out (no packets for 15s)'') (snd u))
                else take_poses (snd u))"

subsection \<open>Asking a server what it runs\<close>

definition query_fail :: "string \<Rightarrow> session \<Rightarrow> session" where
  "query_fail e s =
     s\<lparr>ss_queryResult := (ss_queryResult s)\<lparr>qr_error := e\<rparr>, ss_sock := cmp_net_shutdown (ss_sock s)\<rparr>"

definition CMP_QueryStart :: "game \<Rightarrow> string \<Rightarrow> u16 \<Rightarrow> session \<Rightarrow> session" where
  "CMP_QueryStart g host port s =
     (let s1 = (if nr_joined (ss_net s) then CMP_Leave g s else s\<lparr>ss_sock := cmp_net_shutdown (ss_sock s)\<rparr>);
          s2 = s1\<lparr>ss_queryPending := False, ss_queryResult := query_result_init,
                  ss_settings := (ss_settings s1)\<lparr>se_host := host, se_port := port\<rparr>\<rparr>;
          st = cmp_net_startup (gm_sock g) (ss_sock s2);
          s3 = s2\<lparr>ss_sock := snd st\<rparr>
      in if \<not> fst st
         then s3\<lparr>ss_queryResult := (ss_queryResult s3)\<lparr>qr_error := ''net startup failed'', qr_ok := False\<rparr>\<rparr>
         else
           let c = cmp_net_tcp_connect (gm_sock g) host (ss_sock s3); s4 = s3\<lparr>ss_sock := snd c\<rparr>
           in if \<not> fst c then query_fail ''tcp connect failed (bad host?)'' s4
              else
                let o1 = tcp_out g (enc_session_query make_session_query) s4
                in if \<not> fst o1 then query_fail ''send query failed'' (snd o1)
                   else (snd o1)\<lparr>ss_queryPending := True, ss_queryStart := gm_now g,
                     ss_lastStatus := ''querying '' @ host @ '':'' @ dec_str (unat port)\<rparr>)"

definition judge_info :: "session_info \<Rightarrow> query_result" where
  "judge_info info =
     (if si_haveHost info = 0 then \<lparr>qr_ok = False, qr_info = Some info, qr_error = ''no live host on that server''\<rparr>
      else if si_hostInterior info \<noteq> 0 \<or> si_hostLocationFormId info \<noteq> kCommonwealthWorldspace
      then \<lparr>qr_ok = False, qr_info = Some info, qr_error = ''host is not Commonwealth exterior''\<rparr>
      else \<lparr>qr_ok = True, qr_info = Some info, qr_error = []\<rparr>)"

definition terminated_info :: "session_info \<Rightarrow> session_info" where
  "terminated_info info =
     info\<lparr>si_serverName := (si_serverName info)[length (si_serverName info) - 1 := nul],
          si_motd := (si_motd info)[length (si_motd info) - 1 := nul]\<rparr>"

definition query_answer :: "session_info \<Rightarrow> session \<Rightarrow> session" where
  "query_answer info s =
     (let r = judge_info (terminated_info info)
      in call GPresenceInvalidate (s\<lparr>ss_queryPending := False, ss_sock := cmp_net_shutdown (ss_sock s), ss_queryResult := r,
           ss_presence := (ss_presence s)\<lparr>pn_serverName := c_str (si_serverName (terminated_info info)),
             pn_maxPlayers := si_maxPlayers info\<rparr>\<rparr>))"

text \<open>The loop of \<^verbatim>\<open>CMP_QueryPoll\<close>, and the answer it gives when it found one.\<close>

fun query_loop :: "nat \<Rightarrow> recv_res list list \<Rightarrow> session \<Rightarrow> bool \<times> session" where
  "query_loop 0 rss s = (False, s)"
| "query_loop (Suc k) rss s =
     (let r = cmp_net_tcp_recv_frame 512 (case rss of [] \<Rightarrow> [] | rs # _ \<Rightarrow> rs) (ss_sock s);
          n = fst (fst r); buf = snd (fst r);
          s1 = s\<lparr>ss_sock := snd r\<rparr>;
          rest = (case rss of [] \<Rightarrow> [] | _ # rss' \<Rightarrow> rss')
      in if n < int sizeof_Header then (False, s1)
         else if \<not> header_ok (dec_header buf) (length buf) then query_loop k rest s1
         else if msg_of_u8 (h_type (dec_header buf)) = Some SessionInfo \<and> sizeof_msg SessionInfo \<le> length buf
         then (True, query_answer (dec_session_info buf) s1)
         else query_loop k rest s1)"

text \<open>The result is the answer, if there is one; \<^verbatim>\<open>out\<close> keeps what it held when only its error is set.\<close>

definition CMP_QueryPoll :: "game \<Rightarrow> query_result \<Rightarrow> session \<Rightarrow> query_result option \<times> session" where
  "CMP_QueryPoll g out s =
     (if \<not> ss_queryPending s
      then (if qr_error (ss_queryResult s) \<noteq> [] \<or> qr_ok (ss_queryResult s) then (Some (ss_queryResult s), s)
            else (Some (out\<lparr>qr_error := ''no query''\<rparr>), s))
      else
        let q = query_loop 8 (gm_recv g) s; s1 = snd q
        in if fst q then (Some (ss_queryResult s1), s1)
           else if f64_less (f64_of_int 2) (f64_sub (gm_now g) (ss_queryStart s1))
           then
             let r = (ss_queryResult s1)\<lparr>qr_ok := False, qr_error := ''server timeout (need matching protocol server)''\<rparr>
             in (Some r, s1\<lparr>ss_queryPending := False, ss_sock := cmp_net_shutdown (ss_sock s1), ss_queryResult := r\<rparr>)
           else (None, s1))"

definition CMP_PlayerInCommonwealth :: "game \<Rightarrow> bool" where
  "CMP_PlayerInCommonwealth g =
     (let w = ReadLocalWorld g in lw_inWorld w \<and> \<not> lw_interior w \<and> lw_location w = kCommonwealthWorldspace)"

end
