(* ===== verification/ClientInv.thy ===== *)
theory ClientInv
  imports ClientPoll
begin

text \<open>
  The invariant of the plugin's session and that every operation keeps it: the tables of poses, actors
  and blobs are consistent and bounded, the heartbeat runs exactly while the session is joined, and a
  session that is not joined holds no identity, pose, name, blob or rule of the one before.
\<close>

definition pose_tables_ok :: "net_runtime \<Rightarrow> bool" where
  "pose_tables_ok n \<longleftrightarrow>
     um_ok (nr_poseRing n) \<and> map fst (nr_poseRing n) = map fst (nr_latestPose n) \<and>
     um_ok (nr_actorRing n) \<and> map fst (nr_actorRing n) = map fst (nr_latestActors n) \<and>
     list_all ring_ok (map snd (nr_poseRing n)) \<and> list_all ring_ok (map snd (nr_actorRing n)) \<and>
     list_all (\<lambda>q. f64_fp (qp_recvSec q) \<noteq> FNan) (nr_incoming n)"

definition blob_tables_ok :: "blob_runtime \<Rightarrow> bool" where
  "blob_tables_ok b \<longleftrightarrow>
     um_ok (br_appearanceParts b) \<and> um_ok (br_inventoryParts b) \<and> um_ok (br_appearances b) \<and> um_ok (br_inventories b) \<and>
     list_all assembly_wf (map snd (br_appearanceParts b)) \<and> list_all assembly_wf (map snd (br_inventoryParts b)) \<and>
     list_all (\<lambda>d. length d \<le> 65535) (map snd (br_appearances b)) \<and>
     list_all (\<lambda>d. length d \<le> 65535) (map snd (br_inventories b))"

text \<open>
  What leaving resets. The chat history, the last snapshot (its flag is reset), the time of the last reception and the status text
  are not among it.
\<close>

definition session_clean :: "session \<Rightarrow> bool" where
  "session_clean s \<longleftrightarrow>
     (let n = ss_net s; b = ss_blobs s
      in nr_myPeerId n = 0 \<and> \<not> nr_isHost n \<and> \<not> nr_isNewPlayer n \<and> \<not> nr_haveSnapshot n \<and> \<not> nr_snapshotApplied n \<and>
         nr_udpToken n = 0 \<and> \<not> nr_udpBound n \<and> nr_incoming n = [] \<and> nr_latestPose n = [] \<and> nr_poseRing n = [] \<and>
         nr_actorRing n = [] \<and> nr_latestActors n = [] \<and> nr_measuredRttMs n = 0 \<and>
         br_appearances b = [] \<and> br_inventories b = [] \<and> br_appearanceParts b = [] \<and> br_inventoryParts b = [] \<and>
         gr_names (ss_ghosts s) = [] \<and> mr_sessionFlags (ss_menu s) = 0 \<and> ss_puppeted s = [] \<and> ss_actorSeen s = [])"

definition client_inv :: "session \<Rightarrow> bool" where
  "client_inv s \<longleftrightarrow>
     pose_tables_ok (ss_net s) \<and> blob_tables_ok (ss_blobs s) \<and> length (ss_chatHistory s) \<le> 200 \<and>
     ss_heartbeatRun s = nr_joined (ss_net s) \<and> (\<not> nr_joined (ss_net s) \<longrightarrow> session_clean s)"

definition clock_ok :: "game \<Rightarrow> bool" where
  "clock_ok g \<longleftrightarrow> f64_fp (gm_now g) \<noteq> FNan"

subsection \<open>Sending changes the sockets\<close>

lemma call_fields [simp]:
  "ss_net (call c s) = ss_net s" "ss_blobs (call c s) = ss_blobs s" "ss_ghosts (call c s) = ss_ghosts s"
  "ss_menu (call c s) = ss_menu s" "ss_chatHistory (call c s) = ss_chatHistory s"
  "ss_heartbeatRun (call c s) = ss_heartbeatRun s" "ss_puppeted (call c s) = ss_puppeted s"
  "ss_actorSeen (call c s) = ss_actorSeen s" "ss_settings (call c s) = ss_settings s" "ss_sock (call c s) = ss_sock s"
  "ss_lastRecvSec (call c s) = ss_lastRecvSec s" "ss_presence (call c s) = ss_presence s"
  "ss_queryPending (call c s) = ss_queryPending s" "ss_queryResult (call c s) = ss_queryResult s"
  by (simp_all add: call_def)

lemma upd_net_fields [simp]:
  "ss_net (upd_net f s) = f (ss_net s)" "ss_blobs (upd_net f s) = ss_blobs s" "ss_ghosts (upd_net f s) = ss_ghosts s"
  "ss_menu (upd_net f s) = ss_menu s" "ss_chatHistory (upd_net f s) = ss_chatHistory s"
  "ss_heartbeatRun (upd_net f s) = ss_heartbeatRun s" "ss_puppeted (upd_net f s) = ss_puppeted s"
  "ss_actorSeen (upd_net f s) = ss_actorSeen s" "ss_settings (upd_net f s) = ss_settings s" "ss_sock (upd_net f s) = ss_sock s"
  "ss_lastRecvSec (upd_net f s) = ss_lastRecvSec s" "ss_presence (upd_net f s) = ss_presence s"
  by (simp_all add: upd_net_def)

lemma upd_blobs_fields [simp]:
  "ss_blobs (upd_blobs h s) = h (ss_blobs s)" "ss_net (upd_blobs h s) = ss_net s" "ss_ghosts (upd_blobs h s) = ss_ghosts s"
  "ss_menu (upd_blobs h s) = ss_menu s" "ss_chatHistory (upd_blobs h s) = ss_chatHistory s"
  "ss_heartbeatRun (upd_blobs h s) = ss_heartbeatRun s" "ss_puppeted (upd_blobs h s) = ss_puppeted s"
  "ss_actorSeen (upd_blobs h s) = ss_actorSeen s" "ss_settings (upd_blobs h s) = ss_settings s" "ss_sock (upd_blobs h s) = ss_sock s"
  "ss_lastRecvSec (upd_blobs h s) = ss_lastRecvSec s" "ss_presence (upd_blobs h s) = ss_presence s"
  by (simp_all add: upd_blobs_def)

text \<open>
  What an operation that only sends leaves alone: all of the session but the bytes handed to the
  network, the engine calls, and the times and keys of the last sendings.
\<close>

definition core_net :: "net_runtime \<Rightarrow> net_runtime" where
  "core_net n = n\<lparr>nr_lastSend := 0, nr_lastSendPoseSec := 0, nr_lastHelloRetrySec := 0, nr_udpBound := False\<rparr>"

definition core_blobs :: "blob_runtime \<Rightarrow> blob_runtime" where
  "core_blobs b = b\<lparr>br_lastAppearanceSend := 0, br_lastEquipKey := 0, br_lastInventorySend := 0, br_lastInvKey := 0,
     br_pendingInventoryForce := False, br_pendingInventoryAt := 0\<rparr>"

definition core_sock :: "client_net \<Rightarrow> client_net" where
  "core_sock n = n\<lparr>cn_tcpSent := [], cn_udpSent := []\<rparr>"

definition core_of :: "session \<Rightarrow> session" where
  "core_of s = s\<lparr>ss_net := core_net (ss_net s), ss_blobs := core_blobs (ss_blobs s), ss_sock := core_sock (ss_sock s),
     ss_presence := \<lparr>pn_serverName = [], pn_maxPlayers = 0, pn_interior = False, pn_worldspace = 0\<rparr>, ss_calls := []\<rparr>"

definition only_sent :: "session \<Rightarrow> session \<Rightarrow> bool" where
  "only_sent s s' \<longleftrightarrow> core_of s' = core_of s \<and> (\<not> nr_joined (ss_net s) \<longrightarrow> ss_net s' = ss_net s)"

lemma only_sent_refl [simp]: "only_sent s s"
  by (simp add: only_sent_def)

lemma core_fields:
  assumes "core_of s' = core_of s"
  shows "core_net (ss_net s') = core_net (ss_net s)" "core_blobs (ss_blobs s') = core_blobs (ss_blobs s)"
    "core_sock (ss_sock s') = core_sock (ss_sock s)" "ss_ghosts s' = ss_ghosts s" "ss_menu s' = ss_menu s"
    "ss_chatHistory s' = ss_chatHistory s" "ss_heartbeatRun s' = ss_heartbeatRun s" "ss_puppeted s' = ss_puppeted s"
    "ss_actorSeen s' = ss_actorSeen s" "ss_settings s' = ss_settings s" "ss_lastRecvSec s' = ss_lastRecvSec s"
proof -
  have "f (core_of s') = f (core_of s)" for f using assms by simp
  from this [of ss_net] this [of ss_blobs] this [of ss_sock] this [of ss_ghosts] this [of ss_menu] this [of ss_chatHistory]
    this [of ss_heartbeatRun] this [of ss_puppeted] this [of ss_actorSeen] this [of ss_settings] this [of ss_lastRecvSec]
  show "core_net (ss_net s') = core_net (ss_net s)" "core_blobs (ss_blobs s') = core_blobs (ss_blobs s)"
    "core_sock (ss_sock s') = core_sock (ss_sock s)" "ss_ghosts s' = ss_ghosts s" "ss_menu s' = ss_menu s"
    "ss_chatHistory s' = ss_chatHistory s" "ss_heartbeatRun s' = ss_heartbeatRun s" "ss_puppeted s' = ss_puppeted s"
    "ss_actorSeen s' = ss_actorSeen s" "ss_settings s' = ss_settings s" "ss_lastRecvSec s' = ss_lastRecvSec s"
    by (simp_all add: core_of_def)
qed

lemma core_net_fields:
  assumes "core_net n' = core_net n"
  shows "nr_joined n' = nr_joined n" "nr_myPeerId n' = nr_myPeerId n" "nr_isHost n' = nr_isHost n"
    "nr_udpToken n' = nr_udpToken n" "nr_incoming n' = nr_incoming n" "pose_tables_ok n' = pose_tables_ok n"
proof -
  have "f (core_net n') = f (core_net n)" for f :: "net_runtime \<Rightarrow> 'a" using assms by simp
  note e = this [of nr_joined] this [of nr_myPeerId] this [of nr_isHost] this [of nr_udpToken] this [of nr_incoming] this [of pose_tables_ok]
  have "pose_tables_ok (core_net m) = pose_tables_ok m" for m by (simp add: pose_tables_ok_def core_net_def)
  with e show "nr_joined n' = nr_joined n" "nr_myPeerId n' = nr_myPeerId n" "nr_isHost n' = nr_isHost n"
    "nr_udpToken n' = nr_udpToken n" "nr_incoming n' = nr_incoming n" "pose_tables_ok n' = pose_tables_ok n"
    by (simp_all add: core_net_def)
qed

lemma only_sent_joined: "only_sent s s' \<Longrightarrow> nr_joined (ss_net s') = nr_joined (ss_net s)"
  using core_fields(1) core_net_fields(1) unfolding only_sent_def by blast

lemma only_sent_trans:
  assumes "only_sent s s'" and "only_sent s' s''"
  shows "only_sent s s''"
  using assms only_sent_joined [OF assms(1)] by (auto simp: only_sent_def)

lemma core_blobs_fields:
  assumes "core_blobs b' = core_blobs b"
  shows "blob_tables_ok b' = blob_tables_ok b" "br_appearances b' = br_appearances b" "br_inventories b' = br_inventories b"
    "br_appearanceParts b' = br_appearanceParts b" "br_inventoryParts b' = br_inventoryParts b"
proof -
  have "f (core_blobs b') = f (core_blobs b)" for f :: "blob_runtime \<Rightarrow> 'a" using assms by simp
  note e = this [of blob_tables_ok] this [of br_appearances] this [of br_inventories] this [of br_appearanceParts] this [of br_inventoryParts]
  have "blob_tables_ok (core_blobs d) = blob_tables_ok d" for d by (simp add: blob_tables_ok_def core_blobs_def)
  with e show "blob_tables_ok b' = blob_tables_ok b" "br_appearances b' = br_appearances b" "br_inventories b' = br_inventories b"
    "br_appearanceParts b' = br_appearanceParts b" "br_inventoryParts b' = br_inventoryParts b"
    by (simp_all add: core_blobs_def)
qed

lemma only_sent_inv:
  assumes "only_sent s s'" and "client_inv s"
  shows "client_inv s'"
proof -
  have c: "core_of s' = core_of s" and n: "\<not> nr_joined (ss_net s) \<Longrightarrow> ss_net s' = ss_net s"
    using assms(1) by (auto simp: only_sent_def)
  note f = core_fields [OF c] and nf = core_net_fields [OF core_fields(1) [OF c]] and bf = core_blobs_fields [OF core_fields(2) [OF c]]
  have "session_clean s'" if "\<not> nr_joined (ss_net s)"
    using assms(2) that n [OF that] by (simp add: client_inv_def session_clean_def f bf Let_def)
  then show ?thesis using assms(2) by (simp add: client_inv_def f nf bf)
qed

subsection \<open>The operations that only send\<close>

lemma only_sent_tcp_out [simp]: "only_sent s (snd (tcp_out g d s))"
  by (simp add: only_sent_def core_of_def core_sock_def tcp_out_def cmp_net_tcp_send_def Let_def)

lemma only_sent_udp_out [simp]: "only_sent s (snd (udp_out g d s))"
  by (simp add: only_sent_def core_of_def core_sock_def udp_out_def cmp_net_udp_send_def Let_def)

lemma only_sent_Net_Send [simp]: "only_sent s (CMP_Net_Send g d s)"
  by (simp add: CMP_Net_Send_def Let_def split: option.split)

lemma only_sent_foldl: "(\<And>s x. only_sent s (f s x)) \<Longrightarrow> only_sent s (foldl f s xs)"
  by (induction xs arbitrary: s) (auto intro: only_sent_trans)

lemma only_sent_SendChunks [simp]: "only_sent s (SendChunks g t blob p s)"
  by (simp add: SendChunks_def only_sent_foldl split: option.split)

lemma only_sent_blob_stamp:
  "core_blobs (h (ss_blobs s)) = core_blobs (ss_blobs s) \<Longrightarrow> only_sent s (upd_blobs h s)"
  by (simp add: only_sent_def core_of_def upd_blobs_def)

lemma only_sent_SendAppearance [simp]: "only_sent s (CMP_SendAppearance g force s)"
proof -
  let ?s = "upd_blobs (\<lambda>b. b\<lparr>br_lastAppearanceSend := gm_now g, br_lastEquipKey := gm_equipKey g\<rparr>) s"
  have "only_sent s ?s" by (rule only_sent_blob_stamp) (simp add: core_blobs_def)
  from this only_sent_trans [OF this only_sent_SendChunks] show ?thesis
    by (simp add: CMP_SendAppearance_def Let_def split: option.split)
qed

lemma only_sent_SendInventory [simp]: "only_sent s (CMP_SendInventory g force s)"
proof -
  let ?s = "upd_blobs (\<lambda>b. b\<lparr>br_lastInventorySend := gm_now g, br_lastInvKey := gm_invKey g\<rparr>) s"
  have "only_sent s ?s" by (rule only_sent_blob_stamp) (simp add: core_blobs_def)
  from this only_sent_trans [OF this only_sent_SendChunks] show ?thesis
    by (simp add: CMP_SendInventory_def Let_def split: option.split)
qed

lemma only_sent_HostActors [simp]: "only_sent s (CMP_SendHostActors g s)"
  by (simp add: CMP_SendHostActors_def only_sent_foldl split: option.split prod.split)

lemma only_sent_pose_stamp:
  assumes "nr_joined (ss_net s)"
  shows "only_sent s ((upd_net (\<lambda>n. n\<lparr>nr_lastSend := t, nr_lastSendPoseSec := t'\<rparr>) s)\<lparr>ss_presence := p\<rparr>)"
  using assms by (simp add: only_sent_def core_of_def core_net_def upd_net_def)

lemmas sent_intros =
  only_sent_trans [OF _ only_sent_Net_Send] only_sent_trans [OF _ only_sent_HostActors]
  only_sent_trans [OF _ only_sent_SendAppearance] only_sent_trans [OF _ only_sent_SendInventory]

lemma only_sent_LocalPose [simp]: "only_sent s (CMP_SendLocalPose g s)"
proof (cases "nr_joined (ss_net s) \<and> nr_udpBound (ss_net s)")
  case True
  then have j: "nr_joined (ss_net s)" by simp
  show ?thesis
  proof (cases "gm_player g")
    case (Some p)
    obtain pitch speed vx vy flags where m: "ea_motion p = (pitch, speed, vx, vy, flags)" by (cases "ea_motion p")
    have "only_sent s (CMP_SendInventory g False (CMP_SendAppearance g False (CMP_SendHostActors g (CMP_Net_Send g d
        ((upd_net (\<lambda>n. n\<lparr>nr_lastSend := t, nr_lastSendPoseSec := t\<rparr>) s)\<lparr>ss_presence := q\<rparr>)))))" for d t q
      by (intro sent_intros only_sent_pose_stamp [OF j])
    with True show ?thesis by (simp add: CMP_SendLocalPose_def Some m Let_def)
  qed (simp add: CMP_SendLocalPose_def)
qed (auto simp: CMP_SendLocalPose_def)

lemma only_sent_chat [simp]:
  "only_sent s (CMP_SendChat g txt s)" "only_sent s (CMP_SendKick g k reason s)" "only_sent s (CMP_SendTeleport g k s)"
  "only_sent s (HeartbeatLoop g s)"
  by (simp_all add: CMP_SendChat_def CMP_SendKick_def CMP_SendTeleport_def HeartbeatLoop_def Let_def split: option.split)

lemma only_sent_send_bind:
  assumes "nr_joined (ss_net s)"
  shows "only_sent s (send_bind g s)"
proof -
  let ?d = "enc_udp_bind (make_udp_bind (nr_myPeerId (ss_net s)) (nr_udpToken (ss_net s)))"
  have "nr_joined (ss_net (snd (udp_out g ?d s)))" using only_sent_joined [OF only_sent_udp_out] assms by simp
  then have "only_sent (snd (udp_out g ?d s)) (upd_net (\<lambda>n. n\<lparr>nr_udpBound := True\<rparr>) (snd (udp_out g ?d s)))"
    by (simp add: only_sent_def core_of_def core_net_def upd_net_def)
  from only_sent_trans [OF only_sent_udp_out this] show ?thesis by (simp add: send_bind_def Let_def)
qed

lemma only_sent_retries:
  assumes "nr_joined (ss_net s)"
  shows "only_sent s (hello_retry g s)" "only_sent s (bind_retry g s)" "only_sent s (inventory_due g s)"
proof -
  have "only_sent s (upd_net (\<lambda>n. n\<lparr>nr_lastHelloRetrySec := gm_now g\<rparr>) s)"
    using assms by (simp add: only_sent_def core_of_def core_net_def upd_net_def)
  then show "only_sent s (hello_retry g s)"
    by (auto simp: hello_retry_def Let_def intro: only_sent_trans [OF _ only_sent_tcp_out])
  show "only_sent s (bind_retry g s)" using assms by (simp add: bind_retry_def only_sent_send_bind Let_def)
  have "only_sent s (upd_blobs (\<lambda>b. b\<lparr>br_pendingInventoryForce := False\<rparr>) s)"
    by (rule only_sent_blob_stamp) (simp add: core_blobs_def)
  then show "only_sent s (inventory_due g s)"
    by (auto simp: inventory_due_def intro: only_sent_trans [OF _ only_sent_SendInventory])
qed

subsection \<open>Leaving and joining\<close>

lemma unfreeze_all: "foldl (\<lambda>s i. call (GUnfreeze i) s) s xs = s\<lparr>ss_calls := ss_calls s @ map GUnfreeze xs\<rparr>"
  by (induction xs arbitrary: s) (simp_all add: call_def)

lemma leave_fields:
  "ss_net (CMP_Leave g s) = left_net (ss_net s)" "ss_blobs (CMP_Leave g s) = left_blobs (ss_blobs s)"
  "ss_chatHistory (CMP_Leave g s) = ss_chatHistory s" "ss_settings (CMP_Leave g s) = ss_settings s"
  "ss_lastRecvSec (CMP_Leave g s) = ss_lastRecvSec s" "\<not> ss_heartbeatRun (CMP_Leave g s)"
  "gr_names (ss_ghosts (CMP_Leave g s)) = []" "mr_sessionFlags (ss_menu (CMP_Leave g s)) = 0"
  "ss_puppeted (CMP_Leave g s) = []" "ss_actorSeen (CMP_Leave g s) = []" "\<not> cn_tcp (ss_sock (CMP_Leave g s))"
  "\<not> cn_udp (ss_sock (CMP_Leave g s))" "cn_tcpRecv (ss_sock (CMP_Leave g s)) = []"
  by (simp_all add: CMP_Leave_def CMP_DespawnGhosts_def CMP_ClearHostActors_def unfreeze_all left_net_def tcp_out_def
      cmp_net_shutdown_def Let_def)

lemma leave_clean: "\<not> nr_joined (ss_net (CMP_Leave g s))" "session_clean (CMP_Leave g s)"
  by (simp_all add: session_clean_def leave_fields left_net_def left_blobs_def Let_def)

lemma clean_inv: "\<not> nr_joined (ss_net s) \<Longrightarrow> session_clean s \<Longrightarrow> \<not> ss_heartbeatRun s \<Longrightarrow> length (ss_chatHistory s) \<le> 200 \<Longrightarrow> client_inv s"
  by (simp add: client_inv_def session_clean_def pose_tables_ok_def blob_tables_ok_def Let_def)

lemma leave_inv: "length (ss_chatHistory s) \<le> 200 \<Longrightarrow> client_inv (CMP_Leave g s)"
  by (rule clean_inv) (simp_all add: leave_clean leave_fields(3,6))

lemma init_inv: "client_inv (session_init st)"
  by (rule clean_inv) (simp_all add: session_init_def net_runtime_init_def blob_runtime_init_def session_clean_def)

text \<open>The session a join starts from: left, with the sockets, the target and the status of its own.\<close>

lemma join_reset_fields [simp]:
  "nr_joined (ss_net (join_reset h p f s)) = nr_joined (ss_net s)" "ss_chatHistory (join_reset h p f s) = ss_chatHistory s"
  "ss_heartbeatRun (join_reset h p f s) = ss_heartbeatRun s" "ss_blobs (join_reset h p f s) = ss_blobs s"
  "session_clean s \<Longrightarrow> session_clean (join_reset h p f s)" "pose_tables_ok (ss_net s) \<Longrightarrow> pose_tables_ok (ss_net (join_reset h p f s))"
  by (simp_all add: join_reset_def session_clean_def pose_tables_ok_def Let_def)

lemma clean_updates [simp]:
  "session_clean (s\<lparr>ss_sock := k\<rparr>) = session_clean s" "session_clean (s\<lparr>ss_lastStatus := st\<rparr>) = session_clean s"
  "session_clean (call c s) = session_clean s" "session_clean (s\<lparr>ss_queryPending := b\<rparr>) = session_clean s"
  "session_clean (s\<lparr>ss_queryResult := q\<rparr>) = session_clean s" "session_clean (s\<lparr>ss_settings := t\<rparr>) = session_clean s"
  "session_clean (s\<lparr>ss_presence := pr\<rparr>) = session_clean s" "session_clean (s\<lparr>ss_queryStart := qs\<rparr>) = session_clean s"
  by (simp_all add: session_clean_def Let_def)

lemma inv_updates [simp]:
  "client_inv (s\<lparr>ss_sock := k\<rparr>) = client_inv s" "client_inv (s\<lparr>ss_lastStatus := st\<rparr>) = client_inv s"
  "client_inv (call c s) = client_inv s" "client_inv (s\<lparr>ss_queryPending := b\<rparr>) = client_inv s"
  "client_inv (s\<lparr>ss_queryResult := q\<rparr>) = client_inv s" "client_inv (s\<lparr>ss_settings := t\<rparr>) = client_inv s"
  "client_inv (s\<lparr>ss_presence := pr\<rparr>) = client_inv s" "client_inv (s\<lparr>ss_queryStart := qs\<rparr>) = client_inv s"
  by (simp_all add: client_inv_def)

lemma join_reset_inv: "client_inv s \<Longrightarrow> client_inv (join_reset h p f s)"
  by (simp add: client_inv_def)

lemma joined_now_inv:
  "client_inv s \<Longrightarrow>
   client_inv ((upd_net (\<lambda>n. n\<lparr>nr_joined := True, nr_joinSentSec := t, nr_lastHelloRetrySec := t'\<rparr>) s)\<lparr>ss_heartbeatRun := True\<rparr>)"
  by (simp add: client_inv_def pose_tables_ok_def)

lemma join_inv:
  assumes "length (ss_chatHistory s) \<le> 200"
  shows "client_inv (snd (CMP_Join g h p f s))"
proof -
  have "client_inv (join_reset h p f ((CMP_Leave g s)\<lparr>ss_sock := k\<rparr>))" for k
    using leave_inv [OF assms, of g] by (intro join_reset_inv) simp
  moreover from this have "client_inv (snd (tcp_out g d ((join_reset h p f ((CMP_Leave g s)\<lparr>ss_sock := k\<rparr>))\<lparr>ss_sock := k'\<rparr>)))" for k k' d
    by (intro only_sent_inv [OF only_sent_tcp_out]) simp
  ultimately show ?thesis
    using leave_inv [OF assms, of g] by (simp add: CMP_Join_def fail_join_def joined_now_inv Let_def)
qed

subsection \<open>Messages\<close>

lemma keys_um_put_cong: "map fst m = map fst m' \<Longrightarrow> map fst (um_put k v m) = map fst (um_put k v' m')"
  by (simp add: um_put_def update_keys)

lemma keys_um_erase_cong: "map fst m = map fst m' \<Longrightarrow> map fst (um_erase k m) = map fst (um_erase k m')"
  using filter_map [of "\<lambda>x. x \<noteq> k" fst m] filter_map [of "\<lambda>x. x \<noteq> k" fst m'] by (simp add: um_erase_def comp_def)

lemma list_all_um_put: "list_all P (map snd m) \<Longrightarrow> P v \<Longrightarrow> list_all P (map snd (um_put k v m))"
  unfolding um_put_def by (induction m) auto

lemma list_all_um_erase: "list_all P (map snd m) \<Longrightarrow> list_all P (map snd (um_erase k m))"
  by (simp add: um_erase_def list_all_iff)

lemma list_all_um_find: "list_all P (map snd m) \<Longrightarrow> um_find k m = Some v \<Longrightarrow> P v"
  by (auto simp: um_find_def list_all_iff dest!: map_of_SomeD)

lemma um_find_default: "list_all P (map snd m) \<Longrightarrow> P d \<Longrightarrow> P (case um_find k m of None \<Rightarrow> d | Some v \<Rightarrow> v)"
  using list_all_um_find [of P m k] by (simp split: option.split)

lemma ring_ok_empty [simp]: "ring_ok empty_ring"
  by (simp add: ring_ok_def empty_ring_def)

lemma assemble_complete_length:
  assumes "assemble_blob_chunk a d now = (A_Complete, a', Some w)"
  shows "length w \<le> 65535"
proof -
  have "length w = unat (bc_blobBytes (dec_blob_chunk d))"
    using assms by (auto simp: assemble_blob_chunk_def Let_def chunks_got_eq split: if_splits option.splits)
  moreover have "unat (bc_blobBytes (dec_blob_chunk d)) < 2 ^ 16" using unsigned_less [of "bc_blobBytes (dec_blob_chunk d)", where 'a = nat] by simp
  ultimately show ?thesis by simp
qed

lemma blob_chunk_in_inv:
  assumes "um_ok parts" "um_ok dest" "list_all assembly_wf (map snd parts)" "list_all (\<lambda>d. length d \<le> 65535) (map snd dest)"
    and "blob_chunk_in now buf parts dest = (d, parts', dest')"
  shows "um_ok parts' \<and> um_ok dest' \<and> list_all assembly_wf (map snd parts') \<and> list_all (\<lambda>d. length d \<le> 65535) (map snd dest')"
proof -
  let ?p = "bc_peerId (dec_blob_chunk buf)"
  define a where "a = (case um_find ?p parts of None \<Rightarrow> empty_assembly | Some a \<Rightarrow> a)"
  define b where "b = (if f64_le (ba_startedSec a) 0 then a\<lparr>ba_startedSec := now\<rparr> else a)"
  have "assembly_wf a" unfolding a_def using um_find_default [OF assms(3)] by simp
  then have b: "assembly_wf b" by (simp add: b_def assembly_wf_def)
  obtain st a' w where r: "assemble_blob_chunk b buf now = (st, a', w)" by (cases "assemble_blob_chunk b buf now")
  have a': "assembly_wf a'" using assemble_keeps_wf [OF b, of buf now] r by simp
  have w: "st = A_Complete \<Longrightarrow> w = Some v \<Longrightarrow> length v \<le> 65535" for v
    using assemble_complete_length r by auto
  have e: "blob_chunk_in now buf parts dest = (case (st, a', w) of
      (A_Complete, _, Some whole) \<Rightarrow> (Some ?p, um_erase ?p (um_put ?p b parts), um_put ?p whole dest)
    | (_, a', _) \<Rightarrow> (None, um_put ?p a' parts, dest))"
    unfolding blob_chunk_in_def Let_def a_def [symmetric] b_def [symmetric] r ..
  show ?thesis
    using assms e b a' w
    by (cases st; cases w) (auto simp: list_all_um_put list_all_um_erase)
qed

lemma blobs_inv_parts:
  assumes "blob_tables_ok b" and "blob_chunk_in now buf (br_appearanceParts b) (br_appearances b) = (d, parts, dest)"
  shows "blob_tables_ok (b\<lparr>br_appearanceParts := parts, br_appearances := dest\<rparr>)"
  using blob_chunk_in_inv [OF _ _ _ _ assms(2)] assms(1) by (simp add: blob_tables_ok_def)

lemma blobs_inv_inventory_parts:
  assumes "blob_tables_ok b" and "blob_chunk_in now buf (br_inventoryParts b) (br_inventories b) = (d, parts, dest)"
  shows "blob_tables_ok (b\<lparr>br_inventoryParts := parts, br_inventories := dest\<rparr>)"
  using blob_chunk_in_inv [OF _ _ _ _ assms(2)] assms(1) by (simp add: blob_tables_ok_def)

text \<open>A joined session that keeps the invariant: what the handlers of a poll start from and return, unless they leave.\<close>

definition playing :: "session \<Rightarrow> bool" where
  "playing s \<longleftrightarrow> client_inv s \<and> nr_joined (ss_net s)"

lemma playing_eq:
  "playing s \<longleftrightarrow> pose_tables_ok (ss_net s) \<and> blob_tables_ok (ss_blobs s) \<and> length (ss_chatHistory s) \<le> 200 \<and> ss_heartbeatRun s \<and> nr_joined (ss_net s)"
  by (auto simp: playing_def client_inv_def)

lemma playing_call [simp]: "playing (call c s) = playing s"
  by (simp add: playing_eq)

lemma only_sent_playing: "only_sent s s' \<Longrightarrow> playing s \<Longrightarrow> playing s'"
  unfolding playing_def using only_sent_inv only_sent_joined by blast

lemma chunk_playing:
  assumes "playing s"
  shows "playing (HandleAppearanceChunk g buf s)" "playing (HandleInventoryChunk g buf s)"
proof -
  have "playing (upd_blobs (\<lambda>b. b\<lparr>br_appearanceParts := parts, br_appearances := dest\<rparr>) s)"
    if "blob_chunk_in (gm_now g) buf (br_appearanceParts (ss_blobs s)) (br_appearances (ss_blobs s)) = (d, parts, dest)" for d parts dest
    using assms that by (auto simp: playing_eq intro: blobs_inv_parts)
  then show "playing (HandleAppearanceChunk g buf s)"
    using assms by (auto simp: HandleAppearanceChunk_def CMP_ApplyGhostAppearance_def Let_def split: option.split prod.split)
  have "playing (upd_blobs (\<lambda>b. b\<lparr>br_inventoryParts := parts, br_inventories := dest\<rparr>) s)"
    if "blob_chunk_in (gm_now g) buf (br_inventoryParts (ss_blobs s)) (br_inventories (ss_blobs s)) = (d, parts, dest)" for d parts dest
    using assms that by (auto simp: playing_eq intro: blobs_inv_inventory_parts)
  moreover have "playing t \<Longrightarrow> playing (t\<lparr>ss_ghosts := h\<rparr>)" for t h by (simp add: playing_eq)
  ultimately show "playing (HandleInventoryChunk g buf s)"
    using assms by (auto simp: HandleInventoryChunk_def ApplyGhostInventory_def Let_def split: option.split prod.split)
qed

lemma snapshot_playing:
  assumes "playing s"
  shows "playing (CMP_ApplyWorldSnapshot g snap s)"
proof -
  have "playing (apply_calendar g snap t) = playing t" for t by (simp add: apply_calendar_def Let_def)
  moreover have "playing (upd_net (\<lambda>n. n\<lparr>nr_snapshotApplied := True\<rparr>) (upd_net (\<lambda>n. n\<lparr>nr_lastSnapshot := Some snap, nr_haveSnapshot := True\<rparr>) s))"
    "playing (upd_net (\<lambda>n. n\<lparr>nr_lastSnapshot := Some snap, nr_haveSnapshot := True\<rparr>) s)"
    using assms by (simp_all add: playing_eq pose_tables_ok_def)
  ultimately show ?thesis by (simp add: CMP_ApplyWorldSnapshot_def Let_def)
qed

lemma actor_pose_playing:
  assumes "playing s" and "clock_ok g"
  shows "playing (CMP_OnActorPose g pose s)"
proof (cases "ap_refFormId pose = 0 \<or> nr_isHost (ss_net s)")
  case False
  let ?n = "ss_net s" and ?i = "ap_refFormId pose"
  have inv: "pose_tables_ok ?n" using assms(1) by (simp add: playing_eq)
  then have "list_all ring_ok (map snd (nr_actorRing ?n))" by (simp add: pose_tables_ok_def)
  from um_find_default [OF this ring_ok_empty]
  have "ring_ok (case um_find ?i (nr_actorRing ?n) of None \<Rightarrow> empty_ring | Some r \<Rightarrow> r)" .
  then have "ring_ok (ring_push (case um_find ?i (nr_actorRing ?n) of None \<Rightarrow> empty_ring | Some r \<Rightarrow> r) (FromActorPose pose (gm_now g)))"
    using ring_push_ok assms(2) by (simp add: clock_ok_def FromActorPose_def)
  moreover have "map fst (um_put ?i r (nr_actorRing ?n)) = map fst (um_put ?i pose (nr_latestActors ?n))" for r
    using inv by (intro keys_um_put_cong) (simp add: pose_tables_ok_def)
  ultimately have "pose_tables_ok (?n\<lparr>nr_latestActors := um_put ?i pose (nr_latestActors ?n),
      nr_actorRing := um_put ?i (ring_push (case um_find ?i (nr_actorRing ?n) of None \<Rightarrow> empty_ring | Some r \<Rightarrow> r)
        (FromActorPose pose (gm_now g))) (nr_actorRing ?n)\<rparr>)"
    using inv by (simp add: pose_tables_ok_def list_all_um_put)
  with False assms(1) show ?thesis by (simp add: CMP_OnActorPose_def playing_eq Let_def)
qed (use assms(1) in \<open>auto simp: CMP_OnActorPose_def\<close>)

lemma hit_playing: "playing s \<Longrightarrow> playing (CMP_OnHit g hit s)"
  by (simp add: CMP_OnHit_def Let_def split: option.split)

lemma welcome_playing:
  assumes "playing s"
  shows "playing (on_welcome g w s)"
proof -
  have bind: "playing t \<Longrightarrow> playing (send_bind g t)" for t
    using only_sent_playing [OF only_sent_send_bind] by (simp add: playing_eq)
  have pres: "playing (t\<lparr>ss_presence := q\<rparr>) = playing t" for t q by (simp add: playing_eq)
  have due: "playing t \<Longrightarrow> playing (upd_blobs (\<lambda>b. b\<lparr>br_pendingInventoryForce := x, br_pendingInventoryAt := y\<rparr>) t)" for t x y
    by (simp add: playing_eq blob_tables_ok_def)
  have "playing ((upd_net (\<lambda>n. n\<lparr>nr_myPeerId := a, nr_isNewPlayer := b, nr_isHost := c, nr_udpToken := d\<rparr>) s)\<lparr>ss_menu := m, ss_lastStatus := st\<rparr>)"
    for a b c d m st using assms by (simp add: playing_eq pose_tables_ok_def)
  then show ?thesis
    unfolding on_welcome_def Let_def
    by (intro due only_sent_playing [OF only_sent_SendAppearance] only_sent_playing [OF only_sent_Net_Send] bind)
      (simp add: pres)
qed

lemma bye_playing:
  assumes "playing s" and "by_peerId b \<noteq> nr_myPeerId (ss_net s)"
  shows "playing (on_bye g b s)"
proof -
  let ?i = "by_peerId b"
  have "map fst (um_erase ?i (nr_poseRing (ss_net s))) = map fst (um_erase ?i (nr_latestPose (ss_net s)))"
    using assms(1) by (intro keys_um_erase_cong) (simp add: playing_eq pose_tables_ok_def)
  with assms show ?thesis
    by (simp add: on_bye_def Let_def playing_eq pose_tables_ok_def blob_tables_ok_def list_all_um_erase)
qed

lemma small_playing:
  assumes "playing s"
  shows "playing (on_heartbeat g hb s)" "playing (on_session_rules r s)" "playing (on_chat c s)" "playing (on_teleport g t s)"
    "clock_ok g \<Longrightarrow> playing (on_player_pose g p s)"
  using assms
  by (simp_all add: on_heartbeat_def on_session_rules_def on_chat_def on_teleport_def on_player_pose_def Let_def playing_eq
      pose_tables_ok_def clock_ok_def)

lemma dispatch_inv:
  assumes "playing s" and "clock_ok g"
  shows "client_inv (dispatch_message g t buf s)"
proof -
  have p: "playing u \<Longrightarrow> client_inv u" for u by (simp add: playing_def)
  have l: "client_inv (CMP_Leave g (call c s))" "client_inv (CMP_Leave g (call c' (call c (s\<lparr>ss_lastReject := x, ss_lastStatus := y\<rparr>))))" for c c' x y
    using assms(1) by (auto intro!: leave_inv simp: playing_eq)
  have "client_inv (on_bye g b s)" for b
    using p [OF bye_playing [OF assms(1)]] l(1) by (cases "by_peerId b = nr_myPeerId (ss_net s)") (simp_all add: on_bye_def Let_def)
  moreover have "client_inv (on_kick g k s)" "client_inv (on_reject g r s)" for k r
    using l by (simp_all add: on_kick_def on_reject_def Let_def)
  ultimately show ?thesis
    using p [OF assms(1)] p [OF welcome_playing [OF assms(1)]] p [OF snapshot_playing [OF assms(1)]]
      p [OF small_playing(1) [OF assms(1)]] p [OF small_playing(2) [OF assms(1)]] p [OF small_playing(3) [OF assms(1)]]
      p [OF small_playing(4) [OF assms(1)]] p [OF small_playing(5) [OF assms]] p [OF actor_pose_playing [OF assms]]
      p [OF hit_playing [OF assms(1)]] p [OF chunk_playing(1) [OF assms(1)]] p [OF chunk_playing(2) [OF assms(1)]]
    by (cases t) (simp_all add: dispatch_message_def Let_def)
qed

lemma message_inv:
  assumes "playing s" and "clock_ok g"
  shows "client_inv (HandleMessage g buf s)"
proof -
  have "playing (s\<lparr>ss_lastRecvSec := gm_now g\<rparr>)" using assms(1) by (simp add: playing_eq)
  from dispatch_inv [OF this assms(2)] assms(1) show ?thesis
    by (simp add: HandleMessage_def playing_def Let_def split: option.split)
qed

subsection \<open>The poll and the query\<close>

lemma sock_playing [simp]: "playing (s\<lparr>ss_sock := k\<rparr>) = playing s"
  by (simp add: playing_eq)

lemma poll_tcp_inv:
  assumes "playing s" and "clock_ok g"
  shows "client_inv (snd (poll_frames k g rss s)) \<and> (\<not> fst (poll_frames k g rss s) \<longrightarrow> playing (snd (poll_frames k g rss s)))"
  using assms(1)
proof (induction k arbitrary: rss s)
  case (Suc k)
  define r where "r = cmp_net_tcp_recv_frame 65536 (case rss of [] \<Rightarrow> [] | rs # _ \<Rightarrow> rs) (ss_sock s)"
  have p: "playing (s\<lparr>ss_sock := snd r\<rparr>)" using Suc.prems by simp
  from message_inv [OF p assms(2)]
  have m: "client_inv (HandleMessage g (snd (fst r)) (s\<lparr>ss_sock := snd r\<rparr>))" .
  have l: "client_inv (CMP_Leave g (call c (s\<lparr>ss_sock := snd r\<rparr>)))" for c
    using p by (auto intro!: leave_inv simp: playing_eq)
  show ?case
    using Suc.IH [of "HandleMessage g (snd (fst r)) (s\<lparr>ss_sock := snd r\<rparr>)" "case rss of [] \<Rightarrow> [] | _ # rss' \<Rightarrow> rss'"] p m l
    by (simp add: Let_def flip: r_def) (simp add: playing_def)
qed (simp add: playing_def)

lemma poll_udp_inv:
  assumes "playing s" and "clock_ok g"
  shows "client_inv (snd (poll_datagrams k g ds s)) \<and> (\<not> fst (poll_datagrams k g ds s) \<longrightarrow> playing (snd (poll_datagrams k g ds s)))"
  using assms(1)
proof (induction k arbitrary: ds s)
  case (Suc k)
  define r where "r = cmp_net_udp_recv 512 (case ds of [] \<Rightarrow> None | d # _ \<Rightarrow> d) (ss_sock s)"
  have m: "client_inv (HandleMessage g (snd r) s)" by (rule message_inv [OF Suc.prems assms(2)])
  show ?case
    using Suc.IH [of "HandleMessage g (snd r) s" "case ds of [] \<Rightarrow> [] | _ # ds' \<Rightarrow> ds'"] Suc.prems m
    by (simp add: Let_def flip: r_def) (simp add: playing_def)
qed (simp add: playing_def)

lemma expire_playing:
  assumes "playing s"
  shows "playing (expire_parts g s)"
proof -
  have "um_ok m \<Longrightarrow> um_ok (filter P m)" for m :: "(u32, blob_assembly) umap" and P
    by (simp add: um_ok_def distinct_map_filter)
  with assms show ?thesis
    by (simp add: expire_parts_def playing_eq blob_tables_ok_def ExpireBlobAssemblies_def list_all_iff Let_def)
qed

lemma take_pose_inv:
  assumes "pose_tables_ok n" and "f64_fp (qp_recvSec q) \<noteq> FNan"
  shows "pose_tables_ok (take_pose me n q)"
proof (cases "pp_peerId (qp_pose q) = me")
  case False
  let ?i = "pp_peerId (qp_pose q)"
  have "list_all ring_ok (map snd (nr_poseRing n))" using assms(1) by (simp add: pose_tables_ok_def)
  from um_find_default [OF this ring_ok_empty]
  have "ring_ok (ring_push (case um_find ?i (nr_poseRing n) of None \<Rightarrow> empty_ring | Some r \<Rightarrow> r) (FromPlayerPose (qp_pose q) (qp_recvSec q)))"
    using ring_push_ok assms(2) by (simp add: FromPlayerPose_def)
  moreover have "map fst (um_put ?i r (nr_poseRing n)) = map fst (um_put ?i (qp_pose q) (nr_latestPose n))" for r
    using assms(1) by (intro keys_um_put_cong) (simp add: pose_tables_ok_def)
  ultimately show ?thesis using assms(1) False by (simp add: take_pose_def pose_tables_ok_def list_all_um_put Let_def)
qed (simp add: take_pose_def assms(1))

lemma take_poses_fold:
  assumes "pose_tables_ok n" and "list_all (\<lambda>q. f64_fp (qp_recvSec q) \<noteq> FNan) qs"
  shows "pose_tables_ok (foldl (take_pose me) n qs) \<and> nr_joined (foldl (take_pose me) n qs) = nr_joined n"
  using assms
proof (induction qs arbitrary: n)
  case (Cons q qs)
  from Cons.IH [of "take_pose me n q"] Cons.prems take_pose_inv [of n q me] show ?case
    by (simp add: take_pose_def Let_def)
qed simp

lemma take_poses_playing:
  assumes "playing s"
  shows "playing (take_poses s)"
proof -
  have "pose_tables_ok (ss_net s)" "list_all (\<lambda>q. f64_fp (qp_recvSec q) \<noteq> FNan) (nr_incoming (ss_net s))"
    using assms by (simp_all add: playing_eq pose_tables_ok_def)
  from take_poses_fold [OF this, of "nr_myPeerId (ss_net s)"] assms show ?thesis
    by (simp add: take_poses_def playing_eq) (simp add: pose_tables_ok_def)
qed

lemma before_poll:
  assumes "playing s"
  shows "playing (expire_parts g (inventory_due g (bind_retry g (hello_retry g s))))"
proof -
  have j: "playing t \<Longrightarrow> nr_joined (ss_net t)" for t by (simp add: playing_def)
  have 1: "playing (hello_retry g s)" using only_sent_playing [OF only_sent_retries(1) [OF j [OF assms]] assms] .
  have 2: "playing (bind_retry g (hello_retry g s))" using only_sent_playing [OF only_sent_retries(2) [OF j [OF 1]] 1] .
  have "playing (inventory_due g (bind_retry g (hello_retry g s)))" using only_sent_playing [OF only_sent_retries(3) [OF j [OF 2]] 2] .
  then show ?thesis by (rule expire_playing)
qed

lemma poll_inv:
  assumes "client_inv s" and "clock_ok g"
  shows "client_inv (CMP_NetPoll g s)"
proof (cases "nr_joined (ss_net s)")
  case True
  with assms(1) have p: "playing s" by (simp add: playing_def)
  define t where "t = poll_frames 16 g (gm_recv g) (expire_parts g (inventory_due g (bind_retry g (hello_retry g s))))"
  define u where "u = poll_datagrams 16 g (gm_recvfrom g) (snd t)"
  have t: "client_inv (snd t)" "\<not> fst t \<Longrightarrow> playing (snd t)"
    using poll_tcp_inv [OF before_poll [OF p] assms(2)] by (simp_all add: t_def)
  have u: "client_inv (snd u)" "\<not> fst u \<Longrightarrow> playing (snd u)" if "\<not> fst t"
    using poll_udp_inv [OF t(2) [OF that] assms(2)] by (simp_all add: u_def)
  have l: "client_inv x \<Longrightarrow> client_inv (CMP_Leave g (call c x))" for x c
    by (rule leave_inv) (simp add: client_inv_def)
  have "client_inv (take_poses (snd u))" if "\<not> fst t" "\<not> fst u"
    using take_poses_playing [OF u(2) [OF that]] by (simp add: playing_def)
  with True t u l assms(1) show ?thesis by (simp add: CMP_NetPoll_def Let_def flip: t_def u_def)
qed (use assms in \<open>simp add: CMP_NetPoll_def\<close>)

lemma query_start_inv:
  assumes "client_inv s"
  shows "client_inv (CMP_QueryStart g h p s)"
proof -
  have "client_inv (CMP_Leave g s)" using assms by (intro leave_inv) (simp add: client_inv_def)
  with assms have "client_inv (if nr_joined (ss_net s) then CMP_Leave g s else s\<lparr>ss_sock := cmp_net_shutdown (ss_sock s)\<rparr>)" by simp
  moreover have "client_inv t \<Longrightarrow> client_inv (snd (tcp_out g d t))" for t d using only_sent_inv [OF only_sent_tcp_out] .
  ultimately show ?thesis by (simp add: CMP_QueryStart_def query_fail_def Let_def)
qed

lemma query_loop_inv: "client_inv s \<Longrightarrow> client_inv (snd (query_loop k rss s))"
  by (induction k arbitrary: rss s) (simp_all add: query_answer_def Let_def)

lemma query_poll_inv: "client_inv s \<Longrightarrow> client_inv (snd (CMP_QueryPoll g out s))"
  using query_loop_inv [of s 8 "gm_recv g"] by (simp add: CMP_QueryPoll_def Let_def)

subsection \<open>The sessions of a run\<close>

text \<open>
  The operations the rest of the plugin calls, in any order and with any answers of the engine and of
  the network, on a clock that is not a NaN; the heartbeat is the turn of its thread.
\<close>

inductive client_session :: "session \<Rightarrow> bool" where
  cs_start: "client_session (session_init st)"
| cs_join: "client_session s \<Longrightarrow> clock_ok g \<Longrightarrow> client_session (snd (CMP_Join g host port flags s))"
| cs_leave: "client_session s \<Longrightarrow> clock_ok g \<Longrightarrow> client_session (CMP_Leave g s)"
| cs_poll: "client_session s \<Longrightarrow> clock_ok g \<Longrightarrow> client_session (CMP_NetPoll g s)"
| cs_pose: "client_session s \<Longrightarrow> clock_ok g \<Longrightarrow> client_session (CMP_SendLocalPose g s)"
| cs_chat: "client_session s \<Longrightarrow> clock_ok g \<Longrightarrow> client_session (CMP_SendChat g txt s)"
| cs_kick: "client_session s \<Longrightarrow> clock_ok g \<Longrightarrow> client_session (CMP_SendKick g k reason s)"
| cs_teleport: "client_session s \<Longrightarrow> clock_ok g \<Longrightarrow> client_session (CMP_SendTeleport g k s)"
| cs_heartbeat: "client_session s \<Longrightarrow> clock_ok g \<Longrightarrow> client_session (HeartbeatLoop g s)"
| cs_query: "client_session s \<Longrightarrow> clock_ok g \<Longrightarrow> client_session (CMP_QueryStart g host port s)"
| cs_query_poll: "client_session s \<Longrightarrow> clock_ok g \<Longrightarrow> client_session (snd (CMP_QueryPoll g out s))"

lemma client_session_inv: "client_session s \<Longrightarrow> client_inv s"
proof (induction rule: client_session.induct)
  case (cs_join s g host port flags)
  then show ?case by (intro join_inv) (simp add: client_inv_def)
next
  case (cs_leave s g)
  then show ?case by (intro leave_inv) (simp add: client_inv_def)
qed (simp_all add: init_inv poll_inv query_start_inv query_poll_inv only_sent_inv [OF only_sent_LocalPose]
    only_sent_inv [OF only_sent_chat(1)] only_sent_inv [OF only_sent_chat(2)] only_sent_inv [OF only_sent_chat(3)]
    only_sent_inv [OF only_sent_chat(4)])

end
