(* ===== verification/ClientRun.thy ===== *)
theory ClientRun
  imports ClientInv
begin

text \<open>
  Runs of the plugin: a join that works, a poll in which nothing arrives, and what single datagrams and
  an old clock reading do to a session. The example at the end of each part is a player standing in the
  Commonwealth with a network that answers.
\<close>

subsection \<open>Joining\<close>

text \<open>The answers of a socket library under which connecting and sending work.\<close>

definition net_up :: "winsock \<Rightarrow> string \<Rightarrow> bool" where
  "net_up ws host \<longleftrightarrow>
     sk_startup ws \<and> sk_udpSocket ws \<and> sk_tcpSocket ws \<and> sk_pton ws host \<and> sk_connect ws \<and>
     sk_send ws = (\<lambda>k n. int n) \<and> sk_sendto ws = (\<lambda>d. True)"

lemma send_loop_all: "send_loop (\<lambda>k n. int n) k d = (True, d)"
proof (cases d)
  case (Cons x xs)
  then show ?thesis using send_loop.simps [of "\<lambda>k n. int n" "k + 1" "[]"]
    by (subst send_loop.simps) (simp add: Let_def)
qed (simp add: send_loop.simps)

lemma tcp_out_up:
  "net_up (gm_sock g) host \<Longrightarrow> cn_tcp (ss_sock s) \<Longrightarrow> d \<noteq> [] \<Longrightarrow>
   tcp_out g d s = (True, s\<lparr>ss_sock := (ss_sock s)\<lparr>cn_tcpSent := cn_tcpSent (ss_sock s) @ d\<rparr>\<rparr>)"
  by (simp add: tcp_out_def cmp_net_tcp_send_def net_up_def send_loop_all Let_def)

lemma udp_out_up:
  "net_up (gm_sock g) (se_host (ss_settings s)) \<Longrightarrow> cn_udp (ss_sock s) \<Longrightarrow> d \<noteq> [] \<Longrightarrow>
   udp_out g d s = (True, s\<lparr>ss_sock := (ss_sock s)\<lparr>cn_udpSent := cn_udpSent (ss_sock s) @ [d]\<rparr>\<rparr>)"
  by (simp add: udp_out_def cmp_net_udp_send_def net_up_def Let_def)

lemma join_hello_wf: "hello_wf (join_hello g st flags)" and join_hello_enc: "enc_hello (join_hello g st flags) \<noteq> []"
proof -
  show w: "hello_wf (join_hello g st flags)" by (simp add: join_hello_def made_wf zeros_def Let_def)
  show "enc_hello (join_hello g st flags) \<noteq> []" using hello_c.enc_len [OF w] by auto
qed

lemma join_up:
  fixes g :: game and host :: string and port :: u16 and flags :: u8 and s :: session
  assumes up: "net_up (gm_sock g) host" and inw: "lw_inWorld (ReadLocalWorld g)"
  defines "s' \<equiv> snd (CMP_Join g host port flags s)"
  shows "fst (CMP_Join g host port flags s)"
    and "ss_net s' = (left_net (ss_net s))\<lparr>nr_joined := True, nr_joinSentSec := gm_now g, nr_lastHelloRetrySec := gm_now g\<rparr>"
    and "cn_tcp (ss_sock s')" "cn_udp (ss_sock s')" "cn_tcpRecv (ss_sock s') = []"
    and "cn_tcpSent (ss_sock s') = enc_hello (join_hello g (ss_settings s') flags)"
    and "ss_settings s' = (ss_settings s)\<lparr>se_host := host, se_port := port\<rparr>" "ss_lastRecvSec s' = ss_lastRecvSec s"
    and "mr_joinFlags (ss_menu s') = flags"
proof -
  define k where "k = (ss_sock (CMP_Leave g s))\<lparr>cn_wsa := True, cn_udp := True, cn_tcpRecv := [], cn_tcp := True, cn_tcpSent := []\<rparr>"
  define b where "b = (join_reset host port flags ((CMP_Leave g s)\<lparr>ss_sock := (ss_sock (CMP_Leave g s))\<lparr>cn_wsa := True, cn_udp := True\<rparr>\<rparr>))"
  have st: "cmp_net_startup (gm_sock g) (ss_sock (CMP_Leave g s)) = (True, (ss_sock (CMP_Leave g s))\<lparr>cn_wsa := True, cn_udp := True\<rparr>)"
    using up by (simp add: cmp_net_startup_def net_up_def Let_def)
  have "ss_sock b = (ss_sock (CMP_Leave g s))\<lparr>cn_wsa := True, cn_udp := True\<rparr>" by (simp add: b_def join_reset_def)
  then have co: "cmp_net_tcp_connect (gm_sock g) host (ss_sock b) = (True, k)"
    using up by (simp add: cmp_net_tcp_connect_def net_up_def k_def Let_def)
  have se: "ss_settings b = (ss_settings s)\<lparr>se_host := host, se_port := port\<rparr>" by (simp add: b_def join_reset_def leave_fields)
  let ?h = "enc_hello (join_hello g (ss_settings b) flags)"
  have o: "tcp_out g ?h (b\<lparr>ss_sock := k\<rparr>) = (True, b\<lparr>ss_sock := k\<lparr>cn_tcpSent := ?h\<rparr>\<rparr>)"
    using tcp_out_up [OF up, of "b\<lparr>ss_sock := k\<rparr>", OF _ join_hello_enc] by (simp add: k_def)
  have e: "CMP_Join g host port flags s = (True, call GPresenceInvalidate (call (GPrint (''Join IP '' @ host @ '':'' @
      dec_str (unat port) @ '' key='' @ se_playerKey (ss_settings b) @
      (if flags AND kHelloFlagRequireHost \<noteq> 0 then '' requireHost'' else [])))
    ((upd_net (\<lambda>n. n\<lparr>nr_joined := True, nr_joinSentSec := gm_now g, nr_lastHelloRetrySec := gm_now g\<rparr>)
        (b\<lparr>ss_sock := k\<lparr>cn_tcpSent := ?h\<rparr>\<rparr>))\<lparr>ss_heartbeatRun := True, ss_lastStatus := ''hello sent, waiting Welcome''\<rparr>)))"
    using inw co o by (simp add: CMP_Join_def Let_def st flip: b_def)
  show "fst (CMP_Join g host port flags s)" by (simp add: e)
  have "ss_net b = left_net (ss_net s)" by (simp add: b_def join_reset_def leave_fields) (simp add: left_net_def)
  then show "ss_net s' = (left_net (ss_net s))\<lparr>nr_joined := True, nr_joinSentSec := gm_now g, nr_lastHelloRetrySec := gm_now g\<rparr>"
    by (simp add: s'_def e)
  show "cn_tcp (ss_sock s')" "cn_udp (ss_sock s')" "cn_tcpRecv (ss_sock s') = []" by (simp_all add: s'_def e k_def)
  show "cn_tcpSent (ss_sock s') = enc_hello (join_hello g (ss_settings s') flags)"
    "ss_settings s' = (ss_settings s)\<lparr>se_host := host, se_port := port\<rparr>" by (simp_all add: s'_def e se)
  show "ss_lastRecvSec s' = ss_lastRecvSec s" "mr_joinFlags (ss_menu s') = flags"
    by (simp_all add: s'_def e b_def join_reset_def leave_fields)
qed

subsection \<open>A poll in which nothing arrives\<close>

lemma core_sock_fields:
  assumes "core_sock n' = core_sock n"
  shows "cn_tcp n' = cn_tcp n" "cn_udp n' = cn_udp n" "cn_tcpRecv n' = cn_tcpRecv n"
proof -
  have "f (core_sock n') = f (core_sock n)" for f :: "client_net \<Rightarrow> 'a" using assms by simp
  from this [of cn_tcp] this [of cn_udp] this [of cn_tcpRecv]
  show "cn_tcp n' = cn_tcp n" "cn_udp n' = cn_udp n" "cn_tcpRecv n' = cn_tcpRecv n" by (simp_all add: core_sock_def)
qed

lemma only_sent_fields:
  assumes "only_sent s s'"
  shows "nr_joined (ss_net s') = nr_joined (ss_net s)" "cn_tcp (ss_sock s') = cn_tcp (ss_sock s)"
    "cn_udp (ss_sock s') = cn_udp (ss_sock s)" "cn_tcpRecv (ss_sock s') = cn_tcpRecv (ss_sock s)"
    "ss_lastRecvSec s' = ss_lastRecvSec s" "ss_settings s' = ss_settings s" "nr_myPeerId (ss_net s') = nr_myPeerId (ss_net s)"
    "nr_udpToken (ss_net s') = nr_udpToken (ss_net s)"
proof -
  have c: "core_of s' = core_of s" using assms by (simp add: only_sent_def)
  note f = core_fields [OF c] and n = core_net_fields [OF core_fields(1) [OF c]] and k = core_sock_fields [OF core_fields(3) [OF c]]
  show "nr_joined (ss_net s') = nr_joined (ss_net s)" "cn_tcp (ss_sock s') = cn_tcp (ss_sock s)"
    "cn_udp (ss_sock s') = cn_udp (ss_sock s)" "cn_tcpRecv (ss_sock s') = cn_tcpRecv (ss_sock s)"
    "ss_lastRecvSec s' = ss_lastRecvSec s" "ss_settings s' = ss_settings s" "nr_myPeerId (ss_net s') = nr_myPeerId (ss_net s)"
    "nr_udpToken (ss_net s') = nr_udpToken (ss_net s)"
    by (fact n k f)+
qed

text \<open>What the poll does before it reads: it may send, and it forgets old assemblies.\<close>

definition poll_start :: "game \<Rightarrow> session \<Rightarrow> session" where
  "poll_start g s = expire_parts g (inventory_due g (bind_retry g (hello_retry g s)))"

lemma poll_start_fields:
  assumes "nr_joined (ss_net s)"
  shows "nr_joined (ss_net (poll_start g s))" "cn_tcp (ss_sock (poll_start g s)) = cn_tcp (ss_sock s)"
    "cn_udp (ss_sock (poll_start g s)) = cn_udp (ss_sock s)" "cn_tcpRecv (ss_sock (poll_start g s)) = cn_tcpRecv (ss_sock s)"
    "ss_lastRecvSec (poll_start g s) = ss_lastRecvSec s"
proof -
  have 1: "only_sent s (hello_retry g s)" by (rule only_sent_retries(1) [OF assms])
  have 2: "only_sent s (bind_retry g (hello_retry g s))"
    using only_sent_trans [OF 1 only_sent_retries(2)] only_sent_fields(1) [OF 1] assms by simp
  have "only_sent s (inventory_due g (bind_retry g (hello_retry g s)))"
    using only_sent_trans [OF 2 only_sent_retries(3)] only_sent_fields(1) [OF 2] assms by simp
  note f = only_sent_fields [OF this]
  show "nr_joined (ss_net (poll_start g s))" "cn_tcp (ss_sock (poll_start g s)) = cn_tcp (ss_sock s)"
    "cn_udp (ss_sock (poll_start g s)) = cn_udp (ss_sock s)" "cn_tcpRecv (ss_sock (poll_start g s)) = cn_tcpRecv (ss_sock s)"
    "ss_lastRecvSec (poll_start g s) = ss_lastRecvSec s"
    using assms by (simp_all add: poll_start_def expire_parts_def Let_def f)
qed

lemma tcp_quiet:
  assumes "cn_tcp (ss_sock s)" and "cn_tcpRecv (ss_sock s) = []" and "0 < k"
  shows "poll_frames k g [] s = (False, s)"
proof (cases k)
  case (Suc j)
  have "ss_sock s\<lparr>cn_tcpRecv := []\<rparr> = ss_sock s" using assms(2) by (cases "ss_sock s") simp
  with assms have "cmp_net_tcp_recv_frame 65536 [] (ss_sock s) = ((-1, []), ss_sock s)"
    by (simp add: cmp_net_tcp_recv_frame_def Let_def)
  then show ?thesis by (simp add: Suc Let_def sizeof_Header_def)
qed (use assms in simp)

lemma poll_tcp_quiet:
  assumes "nr_joined (ss_net s)" and "cn_tcp (ss_sock s)" and "cn_tcpRecv (ss_sock s) = []" and "gm_recv g = []"
  shows "CMP_NetPoll g s =
    (let u = poll_datagrams 16 g (gm_recvfrom g) (poll_start g s)
     in if fst u then snd u
        else if server_timed_out g (snd u)
        then CMP_Leave g (call (GPrint ''Server timed out (no packets for 15s)'') (snd u))
        else take_poses (snd u))"
  using assms tcp_quiet [of "poll_start g s" 16 g] poll_start_fields [OF assms(1), of g]
  by (simp add: CMP_NetPoll_def cmp_net_tcp_connected_def poll_start_def Let_def)

lemma udp_quiet: "poll_datagrams k g [] s = (False, s)"
  by (cases k) (simp_all add: cmp_net_udp_recv_def Let_def sizeof_Header_def)

lemma silent_poll_leaves:
  assumes "nr_joined (ss_net s)" and "cn_tcp (ss_sock s)" and "cn_tcpRecv (ss_sock s) = []"
    and "gm_recv g = []" and "gm_recvfrom g = []" and "f64_less 0 (ss_lastRecvSec s)"
    and "f64_less (f64_of_int 15) (f64_sub (gm_now g) (ss_lastRecvSec s))"
  shows "CMP_NetPoll g s = CMP_Leave g (call (GPrint ''Server timed out (no packets for 15s)'') (poll_start g s))"
proof -
  have "server_timed_out g (poll_start g s)" using assms poll_start_fields [OF assms(1), of g] by (simp add: server_timed_out_def)
  with assms show ?thesis using poll_tcp_quiet [OF assms(1-4)] udp_quiet
    by (simp add: Let_def)
qed

subsection \<open>Example\<close>

definition ex_player :: engine_actor where
  "ex_player =
   \<lparr>ea_ptr = 0, ea_formId = 0x14, ea_isPlayerRef = True, ea_dead = False, ea_disabled = False, ea_npc = None,
    ea_cell = Some \<lparr>ce_interior = False, ce_formId = 0x1000, ce_worldSpace = Some kCommonwealthWorldspace\<rparr>,
    ea_x = kSanctuaryX, ea_y = kSanctuaryY, ea_z = kSanctuaryZ, ea_heading = 0, ea_motion = (0, 0, 0, 0, 0)\<rparr>"

definition ex_winsock :: winsock where
  "ex_winsock = \<lparr>sk_startup = True, sk_udpSocket = True, sk_tcpSocket = True, sk_pton = (\<lambda>_. True), sk_connect = True,
     sk_send = (\<lambda>k n. int n), sk_sendto = (\<lambda>_. True)\<rparr>"

text \<open>The player of \<open>ex_player\<close> at a time in seconds, with what the UDP socket holds.\<close>

definition ex_game :: "int \<Rightarrow> bytes option list \<Rightarrow> game" where
  "ex_game t ds =
   \<lparr>gm_now = f64_of_int t, gm_player = Some ex_player, gm_days = None, gm_hour = None, gm_currentWeather = None,
    gm_overrideWeather = None, gm_lists = None, gm_mods = None, gm_ghostActor = (\<lambda>_. False), gm_weatherForm = (\<lambda>_. False),
    gm_equipKey = 0, gm_invKey = 0, gm_appearance = None, gm_inventory = None, gm_sock = ex_winsock, gm_recv = [],
    gm_recvfrom = ds\<rparr>"

lemma ex_game_fields [simp]:
  "gm_now (ex_game t ds) = f64_of_int t" "gm_recv (ex_game t ds) = []" "gm_recvfrom (ex_game t ds) = ds"
  "lw_inWorld (ReadLocalWorld (ex_game t ds))" "net_up (gm_sock (ex_game t ds)) host"
  by (simp_all add: ex_game_def ReadLocalWorld_def ex_player_def no_world_def net_up_def ex_winsock_def Let_def)

definition ex_session :: session where
  "ex_session = session_init (default_settings\<lparr>se_playerKey := ''cat'', se_playerName := ''Cat''\<rparr>)"

definition ex_joined :: session where
  "ex_joined = snd (CMP_Join (ex_game 100 []) ''10.0.0.1'' 7777 0 ex_session)"

lemma ex_joined_fields:
  "nr_joined (ss_net ex_joined)" "nr_myPeerId (ss_net ex_joined) = 0" "cn_tcp (ss_sock ex_joined)" "cn_udp (ss_sock ex_joined)"
  "cn_tcpRecv (ss_sock ex_joined) = []" "se_host (ss_settings ex_joined) = ''10.0.0.1''" "ss_lastRecvSec ex_joined = 0"
  using join_up [of "ex_game 100 []" "''10.0.0.1''" 7777 0 ex_session]
  by (simp_all add: ex_joined_def) (simp_all add: left_net_def ex_session_def session_init_def)



subsection \<open>One datagram\<close>

lemma kick_sent:
  "header_ok (dec_header (enc_kick (make_kick p reason))) (length (enc_kick (make_kick p reason)))"
  "msg_of_u8 (h_type (dec_header (enc_kick (make_kick p reason)))) = Some Kick"
  "dec_kick (enc_kick (make_kick p reason)) = make_kick p reason"
  "length (enc_kick (make_kick p reason)) = sizeof_msg Kick"
proof -
  have "delivers dec_kick Kick (make_kick p reason) (enc_kick (make_kick p reason))"
    by (rule kick_c.made_delivers) (simp_all add: made_wf zeros_def)
  then show "header_ok (dec_header (enc_kick (make_kick p reason))) (length (enc_kick (make_kick p reason)))"
    "msg_of_u8 (h_type (dec_header (enc_kick (make_kick p reason)))) = Some Kick"
    "dec_kick (enc_kick (make_kick p reason)) = make_kick p reason" by (simp_all add: delivers_def)
  show "length (enc_kick (make_kick p reason)) = sizeof_msg Kick"
    using kick_c.enc_len [of "make_kick p reason"] by (simp add: made_wf zeros_def)
qed

lemma kick_message:
  "HandleMessage g (enc_kick (make_kick p reason)) s = on_kick g (make_kick p reason) (s\<lparr>ss_lastRecvSec := gm_now g\<rparr>)"
  using kick_sent(1) [of p reason] by (simp add: HandleMessage_def dispatch_message_def kick_sent(2-4) Let_def)

lemma kick_datagram:
  assumes "nr_joined (ss_net s)" and "cn_tcp (ss_sock s)" and "cn_udp (ss_sock s)" and "cn_tcpRecv (ss_sock s) = []"
    and "gm_recv g = []" and "gm_recvfrom g = Some (enc_kick (make_kick p reason)) # ds"
  shows "CMP_NetPoll g s = on_kick g (make_kick p reason) ((poll_start g s)\<lparr>ss_lastRecvSec := gm_now g\<rparr>)"
proof -
  have "poll_datagrams 16 g (gm_recvfrom g) (poll_start g s) =
      (True, on_kick g (make_kick p reason) ((poll_start g s)\<lparr>ss_lastRecvSec := gm_now g\<rparr>))"
    using assms poll_start_fields [OF assms(1), of g] kick_sent(4) [of p reason]
    by (simp add: poll_datagrams.simps(2) [of 15, simplified] cmp_net_udp_recv_def kick_message sizeof_Header_def Let_def)
      (auto simp: on_kick_def leave_clean)
  then show ?thesis using poll_tcp_quiet [OF assms(1,2,4,5)] by (simp add: Let_def)
qed

text \<open>
  C29: anybody who can send the player a datagram can end the session. The poll hands every datagram it
  receives to \<^verbatim>\<open>HandleMessage\<close>, whoever sent it and whether or not its type is one that travels over UDP:
  one that holds a Kick, for whatever peer, makes the plugin leave, and the peer id and the token of the
  session are gone.
\<close>

theorem spoofed_kick:
  assumes "nr_joined (ss_net s)" and "cn_tcp (ss_sock s)" and "cn_udp (ss_sock s)" and "cn_tcpRecv (ss_sock s) = []"
    and "gm_recv g = []" and "gm_recvfrom g = Some (enc_kick (make_kick p reason)) # ds"
  shows "\<not> msg_is_udp Kick \<and> \<not> nr_joined (ss_net (CMP_NetPoll g s)) \<and> session_clean (CMP_NetPoll g s)"
  unfolding kick_datagram [OF assms] by (simp add: on_kick_def leave_clean)

theorem spoofed_kick_witness:
  "let g = ex_game 101 [Some (enc_kick (make_kick 77 ''bye''))]
   in nr_joined (ss_net ex_joined) \<and> \<not> nr_joined (ss_net (CMP_NetPoll g ex_joined))"
  using spoofed_kick [of ex_joined "ex_game 101 [Some (enc_kick (make_kick 77 ''bye''))]" 77 "''bye''" "[]"] ex_joined_fields
  by (simp add: Let_def)

subsection \<open>The clock of the last session\<close>

text \<open>
  A player who comes back is timed out before the server can answer. The time of the last message
  is not reset when a session ends or begins; when the last one was received more than 15 seconds ago, in
  whatever session, the join succeeds and the first poll that finds nothing to read leaves again, at
  the very time of the join.
\<close>

lemma stale_timeout:
  assumes "net_up (gm_sock g) host" and "lw_inWorld (ReadLocalWorld g)" and "f64_less 0 (ss_lastRecvSec s)"
    and "f64_less (f64_of_int 15) (f64_sub (gm_now g) (ss_lastRecvSec s))"
    and "gm_recv g = []" and "gm_recvfrom g = []"
  shows "fst (CMP_Join g host port flags s) \<and> nr_joined (ss_net (snd (CMP_Join g host port flags s))) \<and>
    \<not> nr_joined (ss_net (CMP_NetPoll g (snd (CMP_Join g host port flags s))))"
proof -
  note j = join_up [OF assms(1,2), of port flags s]
  have jn: "nr_joined (ss_net (snd (CMP_Join g host port flags s)))" by (simp add: j(2))
  from silent_poll_leaves [OF jn j(3,5) assms(5,6)] assms(3,4) j(8)
  show ?thesis using j(1) jn by (simp add: leave_clean)
qed

text \<open>The witness runs two sessions: joined at 100, ended by a message at 110, joined again at 200.\<close>

lemma stale_timeout_witness:
  "let s = CMP_NetPoll (ex_game 110 [Some (enc_kick (make_kick 7 ''later''))]) ex_joined;
       j = snd (CMP_Join (ex_game 200 []) ''10.0.0.1'' 7777 0 s)
   in nr_joined (ss_net j) \<and> \<not> nr_joined (ss_net (CMP_NetPoll (ex_game 200 []) j))"
proof -
  define s where "s = CMP_NetPoll (ex_game 110 [Some (enc_kick (make_kick 7 ''later''))]) ex_joined"
  have "s = on_kick (ex_game 110 [Some (enc_kick (make_kick 7 ''later''))]) (make_kick 7 ''later'')
      ((poll_start (ex_game 110 [Some (enc_kick (make_kick 7 ''later''))]) ex_joined)\<lparr>ss_lastRecvSec := f64_of_int 110\<rparr>)"
    unfolding s_def using kick_datagram [OF ex_joined_fields(1,3,4,5), of "ex_game 110 [Some (enc_kick (make_kick 7 ''later''))]"] by simp
  then have l: "ss_lastRecvSec s = f64_of_int 110" by (simp add: on_kick_def leave_fields)
  have "f64_less 0 (ss_lastRecvSec s)" "f64_less (f64_of_int 15) (f64_sub (gm_now (ex_game 200 [])) (ss_lastRecvSec s))"
    unfolding l by (simp_all add: f64_of_int_def ieee_eval)
  from stale_timeout [OF _ _ this, of "''10.0.0.1''" 7777 0] show ?thesis by (simp add: Let_def flip: s_def)
qed



end
