(* ===== verification/ClientData.thy ===== *)
theory ClientData
  imports ClientRun
begin

text \<open>
  What other players send arrives: the inventory of a peer, split into chunks, is put together by the
  plugin whatever the order, and the answer to a query says whether the server can be joined.
\<close>

subsection \<open>Chunks as messages\<close>

lemma chunk_frame:
  fixes t :: msg and p :: u32
  assumes "i < blob_count blob" and "length blob \<le> 65535" and "t \<in> {AppearanceChunk, InventoryChunk}"
  defines "d \<equiv> chunk_packet t p blob (blob_count blob) i"
  shows "msg_of_u8 (h_type (dec_header d)) = Some t" and "header_ok (dec_header d) (length d)" and "24 \<le> length d"
proof -
  define n where "n = min 488 (length blob - i * 488)"
  define c where "c = \<lparr>bc_header = (fill_header 24 t)\<lparr>h_size := word_of_nat (24 + n)\<rparr>,
     bc_peerId = p, bc_chunkIndex = word_of_nat i, bc_chunkCount = word_of_nat (blob_count blob),
     bc_blobBytes = word_of_nat (length blob), bc_payloadBytes = word_of_nat n\<rparr>"
  have d: "d = enc_blob_chunk c @ take n (drop (i * 488) blob)"
    by (simp add: d_def chunk_packet_def Let_def blob_consts c_def n_def)
  have wf: "blob_chunk_wf c" by (simp add: c_def blob_chunk_wf_def header_wf_def fill_header_def kMagic_def)
  have h: "dec_header d = (fill_header 24 t)\<lparr>h_size := word_of_nat (24 + n)\<rparr>"
    unfolding d using blob_chunk_c.hdr_enc [OF wf] by (simp add: c_def)
  have l: "length d = 24 + n"
    using chunk_packet_decoded(1) [OF assms(1,2), of t p] by (simp add: d_def n_def length_blob_piece)
  show m: "msg_of_u8 (h_type (dec_header d)) = Some t"
    by (simp add: h fill_header_def)
  have "24 + n < 65536" by (simp add: n_def)
  then have "unat (word_of_nat (24 + n) :: u16) = 24 + n" by (simp only: unat_of_nat) simp
  then show "header_ok (dec_header d) (length d)"
    using assms(3) by (auto simp: header_ok_def h l fill_header_def sizeof_Header_def sizeof_BlobChunk_def)
  show "24 \<le> length d" by (simp add: l)
qed

definition assembly_of :: "u32 \<Rightarrow> session \<Rightarrow> blob_assembly" where
  "assembly_of p s = (case um_find p (br_inventoryParts (ss_blobs s)) of None \<Rightarrow> empty_assembly | Some a \<Rightarrow> a)"

lemma has_pieces_started [simp]: "has_pieces blob S (a\<lparr>ba_startedSec := t\<rparr>) = has_pieces blob S a"
  by (simp add: has_pieces_def held_def)

lemma chunk_in_step:
  fixes p :: u32 and t :: msg and now :: f64 and dest :: "(u32, bytes) umap"
  assumes a: "has_pieces blob S (case um_find p parts of None \<Rightarrow> empty_assembly | Some a \<Rightarrow> a)" and i: "i < blob_count blob"
    and len: "length blob \<le> 65535"
  defines "r \<equiv> blob_chunk_in now (chunk_packet t p blob (blob_count blob) i) parts dest"
  shows "{..<blob_count blob} \<subseteq> insert i S \<Longrightarrow>
      \<exists>parts'. r = (Some p, parts', um_put p blob dest) \<and> um_find p parts' = None"
    and "\<not> {..<blob_count blob} \<subseteq> insert i S \<Longrightarrow>
      \<exists>a'. r = (None, um_put p a' parts, dest) \<and> has_pieces blob (insert i S) a'"
proof -
  define b where "b = (case um_find p parts of None \<Rightarrow> empty_assembly | Some a \<Rightarrow> a)"
  define a' where "a' = (if f64_le (ba_startedSec b) 0 then b\<lparr>ba_startedSec := now\<rparr> else b)"
  have h: "has_pieces blob S a'" using a by (simp add: a'_def b_def)
  have pe: "bc_peerId (dec_blob_chunk (chunk_packet t p blob (blob_count blob) i)) = p"
    by (rule chunk_packet_decoded(7) [OF i len])
  let ?r = "assemble_blob_chunk a' (chunk_packet t p blob (blob_count blob) i) now"
  have r: "r = (case ?r of (A_Complete, _, Some whole) \<Rightarrow> (Some p, um_erase p (um_put p a' parts), um_put p whole dest)
      | (_, a', _) \<Rightarrow> (None, um_put p a' parts, dest))"
    unfolding r_def blob_chunk_in_def Let_def pe b_def [symmetric] a'_def [symmetric] ..
  show "\<exists>parts'. r = (Some p, parts', um_put p blob dest) \<and> um_find p parts' = None" if "{..<blob_count blob} \<subseteq> insert i S"
    using assemble_step(1) [OF h i len that, of t p now] by (simp add: r amap)
  show "\<exists>a'. r = (None, um_put p a' parts, dest) \<and> has_pieces blob (insert i S) a'" if "\<not> {..<blob_count blob} \<subseteq> insert i S"
    using assemble_step(2) [OF h i len that, of t p now] by (cases ?r) (auto simp: r)
qed

subsection \<open>An inventory arrives\<close>

lemma inventory_chunk_message:
  fixes p :: u32
  assumes "i < blob_count blob" and "length blob \<le> 65535"
  defines "d \<equiv> chunk_packet InventoryChunk p blob (blob_count blob) i"
  shows "HandleMessage g d s = HandleInventoryChunk g d (s\<lparr>ss_lastRecvSec := gm_now g\<rparr>)"
  using chunk_frame [OF assms(1,2), of InventoryChunk p]
  by (simp add: HandleMessage_def dispatch_message_def d_def Let_def)

lemma inventory_chunk_pending:
  assumes "has_pieces blob S (assembly_of p s)" and "i < blob_count blob" and "length blob \<le> 65535"
    and "\<not> {..<blob_count blob} \<subseteq> insert i S"
  shows "has_pieces blob (insert i S) (assembly_of p (HandleMessage g (chunk_packet InventoryChunk p blob (blob_count blob) i) s))"
proof -
  let ?d = "chunk_packet InventoryChunk p blob (blob_count blob) i"
  from chunk_in_step(2) [OF assms(1) [unfolded assembly_of_def] assms(2-4), where t = InventoryChunk and now = "gm_now g" and dest = "br_inventories (ss_blobs s)"]
  obtain a where a: "blob_chunk_in (gm_now g) ?d (br_inventoryParts (ss_blobs s)) (br_inventories (ss_blobs s)) =
      (None, um_put p a (br_inventoryParts (ss_blobs s)), br_inventories (ss_blobs s))" "has_pieces blob (insert i S) a" by blast
  then show ?thesis
    using chunk_frame(3) [OF assms(2,3), of InventoryChunk p]
    by (simp add: inventory_chunk_message [OF assms(2,3)] HandleInventoryChunk_def blob_consts assembly_of_def amap)
qed

lemma inventory_chunks_pending:
  assumes "has_pieces blob S (assembly_of p s)" and "length blob \<le> 65535" and "\<forall>i\<in>set is. i < blob_count blob"
    and "\<not> {..<blob_count blob} \<subseteq> S \<union> set is"
  shows "has_pieces blob (S \<union> set is) (assembly_of p
    (foldl (\<lambda>s i. HandleMessage (gs i) (chunk_packet InventoryChunk p blob (blob_count blob) i) s) s is))"
  using assms
proof (induction "is" arbitrary: S s)
  case (Cons i "is")
  have "\<not> {..<blob_count blob} \<subseteq> insert i S" using Cons.prems(4) by auto
  from inventory_chunk_pending [OF Cons.prems(1) _ Cons.prems(2) this, of "gs i"] Cons.prems(3)
  have "has_pieces blob (insert i S) (assembly_of p (HandleMessage (gs i) (chunk_packet InventoryChunk p blob (blob_count blob) i) s))"
    by simp
  from Cons.IH [OF this Cons.prems(2)] Cons.prems(3,4) show ?case by simp
qed simp

lemma inventory_chunk_last:
  fixes p :: u32 and g :: game
  assumes "has_pieces blob S (assembly_of p s)" and "i < blob_count blob" and "length blob \<le> 65535"
    and "{..<blob_count blob} \<subseteq> insert i S"
  defines "s' \<equiv> HandleMessage g (chunk_packet InventoryChunk p blob (blob_count blob) i) s"
  shows "um_find p (br_inventories (ss_blobs s')) = Some blob" "um_find p (br_inventoryParts (ss_blobs s')) = None"
    and "gm_ghostActor g p \<Longrightarrow> decode_inventory_sheet blob = Some sheet \<Longrightarrow> c_str (iv_name sheet) \<noteq> [] \<Longrightarrow>
      PeerDisplayName p s' = c_str (iv_name sheet) \<and> GApplyInventory p sheet \<in> set (ss_calls s')"
proof -
  let ?d = "chunk_packet InventoryChunk p blob (blob_count blob) i"
  from chunk_in_step(1) [OF assms(1) [unfolded assembly_of_def] assms(2-4), where t = InventoryChunk and now = "gm_now g" and dest = "br_inventories (ss_blobs s)"]
  obtain parts where c: "blob_chunk_in (gm_now g) ?d (br_inventoryParts (ss_blobs s)) (br_inventories (ss_blobs s)) =
      (Some p, parts, um_put p blob (br_inventories (ss_blobs s)))" "um_find p parts = None" by blast
  define u where "u = upd_blobs (\<lambda>b. b\<lparr>br_inventoryParts := parts, br_inventories := um_put p blob (br_inventories (ss_blobs s))\<rparr>)
    (s\<lparr>ss_lastRecvSec := gm_now g\<rparr>)"
  have e: "s' = (if gm_ghostActor g p then call (GReapplyPuppet p) (ApplyGhostInventory p u) else u)"
    using chunk_frame(3) [OF assms(2,3), of InventoryChunk p] c(1)
    by (simp add: s'_def inventory_chunk_message [OF assms(2,3)] HandleInventoryChunk_def blob_consts u_def Let_def)
  have b: "ss_blobs (ApplyGhostInventory p v) = ss_blobs v" for v
    by (simp add: ApplyGhostInventory_def Let_def split: option.split)
  show "um_find p (br_inventories (ss_blobs s')) = Some blob" "um_find p (br_inventoryParts (ss_blobs s')) = None"
    using c(2) by (simp_all add: e b) (simp_all add: u_def amap)
  assume g: "gm_ghostActor g p" "decode_inventory_sheet blob = Some sheet" "c_str (iv_name sheet) \<noteq> []"
  have "um_find p (br_inventories (ss_blobs u)) = Some blob" by (simp add: u_def amap)
  with g show "PeerDisplayName p s' = c_str (iv_name sheet) \<and> GApplyInventory p sheet \<in> set (ss_calls s')"
    by (simp add: e ApplyGhostInventory_def PeerDisplayName_def amap) (simp add: call_def)
qed

text \<open>
  C13: a player's inventory arrives whole. When every chunk of it has come, in whatever order and with
  repetitions, each as its own message, the plugin holds the bytes that were sent and no assembly is left;
  and if the peer stands in the world, an encoded inventory sheet is decoded, its name becomes the name
  the peer is shown under and its gear is put on the ghost.
\<close>

theorem inventory_arrives:
  fixes gs :: "nat \<Rightarrow> game"
  assumes "split_blob_chunks InventoryChunk p (encode_inventory_sheet sheet) = Some pkts"
    and "um_find p (br_inventoryParts (ss_blobs s)) = None"
    and "j \<notin> set js" and "insert j (set js) = {..<length pkts}"
  shows "let s' = foldl (\<lambda>s i. HandleMessage (gs i) (pkts ! i) s) s (js @ [j]); name = take 31 (c_str (iv_name sheet))
    in um_find p (br_inventories (ss_blobs s')) = Some (encode_inventory_sheet sheet) \<and>
       um_find p (br_inventoryParts (ss_blobs s')) = None \<and>
       (gm_ghostActor (gs j) p \<and> name \<noteq> [] \<longrightarrow>
          PeerDisplayName p s' = name \<and> GApplyInventory p (norm_sheet sheet) \<in> set (ss_calls s'))"
proof -
  let ?b = "encode_inventory_sheet sheet" and ?pk = "chunk_packet InventoryChunk p (encode_inventory_sheet sheet)"
  from assms(1) have b: "?b \<noteq> []" "length ?b \<le> 65535" and pk: "pkts = map (?pk (blob_count ?b)) [0..<blob_count ?b]"
    by (simp_all add: split_blob_Some)
  have lt: "i \<in> insert j (set js) \<Longrightarrow> i < blob_count ?b" for i using assms(4) pk by simp
  define u where "u = foldl (\<lambda>s i. HandleMessage (gs i) (?pk (blob_count ?b) i) s) s js"
  have f: "foldl (\<lambda>s i. HandleMessage (gs i) (pkts ! i) s) s js = u"
    unfolding u_def by (rule foldl_cong) (use lt pk in auto)
  have "has_pieces ?b {} (assembly_of p s)" using has_pieces_empty [OF b] assms(2) by (simp add: assembly_of_def)
  moreover have "\<not> {..<blob_count ?b} \<subseteq> {} \<union> set js" using assms(3) lt by auto
  ultimately have h: "has_pieces ?b (set js) (assembly_of p u)"
    using inventory_chunks_pending [of ?b "{}" p s js gs] b lt by (simp add: u_def)
  have j: "j < blob_count ?b" "{..<blob_count ?b} \<subseteq> insert j (set js)" using lt assms(4) pk by auto
  have n: "c_str (iv_name (norm_sheet sheet)) = take 31 (c_str (iv_name sheet))"
    using c_str_copy_cstr [of "zeros 32" "c_str (iv_name sheet)"] nul_notin_take [of 31 "iv_name sheet"]
    by (simp add: norm_sheet_def zeros_def c_str_idem)
  note l = inventory_chunk_last [OF h j(1) b(2) j(2), of "gs j"]
  have pj: "pkts ! j = ?pk (blob_count ?b) j" using j(1) pk by simp
  show ?thesis
    using l(1,2) l(3) [OF _ decode_encode_sheet] unfolding n by (simp add: Let_def f pj)
qed

text \<open>Bob's sheet in the witness.\<close>

definition ex_sheet :: inventory_sheet where
  "ex_sheet = \<lparr>iv_name = ''Bob'', iv_sex = 0, iv_race = \<lparr>pf_raw = 0x13746, pf_plugin = []\<rparr>, iv_worn = [], iv_stacks = []\<rparr>"

theorem inventory_arrives_witness:
  "\<exists>pkts. split_blob_chunks InventoryChunk 2 (encode_inventory_sheet ex_sheet) = Some pkts \<and>
     PeerDisplayName 2 (foldl (\<lambda>s i. HandleMessage ((ex_game 100 [])\<lparr>gm_ghostActor := \<lambda>_. True\<rparr>) (pkts ! i) s) ex_session [0]) = ''Bob''"
proof -
  let ?b = "encode_inventory_sheet ex_sheet"
  have l: "0 < length ?b" "length ?b \<le> 488"
    by (simp_all add: encode_inventory_sheet_def ex_sheet_def bw_raw_def bw_u8_def bw_u16_def
        bw_u32_def write_form_def bw_plugin_def Let_def)
  then obtain pkts where p: "split_blob_chunks InventoryChunk 2 ?b = Some pkts"
    and "pkts = map (chunk_packet InventoryChunk 2 ?b (blob_count ?b)) [0..<blob_count ?b]"
    by (auto simp: split_blob_Some)
  moreover have "blob_count ?b = 1" using l unfolding blob_count_def by linarith
  ultimately have c: "insert 0 (set []) = {..<length pkts}" by auto
  have n: "um_find 2 (br_inventoryParts (ss_blobs ex_session)) = None"
    by (simp add: ex_session_def session_init_def blob_runtime_init_def amap)
  have "take 31 (c_str (iv_name ex_sheet)) = ''Bob''" by (simp add: ex_sheet_def c_str_def)
  with inventory_arrives [OF p n _ c, where gs = "\<lambda>_. (ex_game 100 [])\<lparr>gm_ghostActor := \<lambda>_. True\<rparr>"] p show ?thesis
    by (auto simp: Let_def)
qed

subsection \<open>The answer to a query\<close>

lemma info_sent:
  fixes i :: session_info
  assumes "i = make_session_info a b x y z n have int' nm mx motd fl"
  shows "header_ok (dec_header (enc_session_info i)) (length (enc_session_info i))"
    "msg_of_u8 (h_type (dec_header (enc_session_info i))) = Some SessionInfo" "dec_session_info (enc_session_info i) = i"
    "length (enc_session_info i) = sizeof_msg SessionInfo" "valid_frame (enc_session_info i)" "terminated_info i = i"
proof -
  have "delivers dec_session_info SessionInfo i (enc_session_info i)"
    unfolding assms by (rule session_info_c.made_delivers) (simp_all add: made_wf zeros_def)
  then show "header_ok (dec_header (enc_session_info i)) (length (enc_session_info i))"
    "msg_of_u8 (h_type (dec_header (enc_session_info i))) = Some SessionInfo" "dec_session_info (enc_session_info i) = i"
    "valid_frame (enc_session_info i)" by (simp_all add: delivers_def)
  show "length (enc_session_info i) = sizeof_msg SessionInfo"
    using session_info_c.enc_len [of i] by (simp add: assms made_wf zeros_def)
  show "terminated_info i = i"
    by (simp add: terminated_info_def assms make_session_info_def copy_cstr_stays zeros_def)
qed

text \<open>
  A query tells the player whether the server can be joined. When the answer of a server is the next
  thing on the connection, however it was cut up, the poll of the query ends with it: the result holds the
  answer as it was sent, it is good exactly when the server has a live host outside in the Commonwealth,
  and the query is over and its sockets are closed.
\<close>

lemma query_answered:
  assumes "ss_queryPending s" and "cn_tcp (ss_sock s)" and "cn_tcpRecv (ss_sock s) = []"
    and "gm_recv g = map RData cs # rss" and "concat cs = enc_session_info i"
    and "i = make_session_info hostPeer loc x y z clients haveHost interior nm mx motd fl"
  shows "let r = CMP_QueryPoll g out s
    in (\<exists>q. fst r = Some q \<and> qr_info q = Some i \<and>
          (qr_ok q \<longleftrightarrow> haveHost \<and> \<not> interior \<and> loc = kCommonwealthWorldspace) \<and> (qr_ok q \<longleftrightarrow> qr_error q = [])) \<and>
       \<not> ss_queryPending (snd r) \<and> \<not> cn_tcp (ss_sock (snd r)) \<and> \<not> cn_udp (ss_sock (snd r))"
proof -
  note f = info_sent [OF assms(6)]
  let ?b = "enc_session_info i"
  have "recv_more (map RData cs) (cn_tcpRecv (ss_sock s)) = (False, ?b @ [])"
    using recv_more_data [of cs "[]" "[]"] assms(3,5) by simp
  from recv_frame_valid [OF assms(2) f(5) _ _ this, of 512]
  have r: "cmp_net_tcp_recv_frame 512 (map RData cs) (ss_sock s) = ((int (length ?b), ?b), (ss_sock s)\<lparr>cn_tcpRecv := []\<rparr>)"
    by (simp add: f(4))
  have "query_loop 8 (gm_recv g) s = (True, query_answer i (s\<lparr>ss_sock := (ss_sock s)\<lparr>cn_tcpRecv := []\<rparr>\<rparr>))"
    using f(1) by (simp add: query_loop.simps(2) [of 7, simplified] assms(4) r f(2-4) sizeof_Header_def)
  then have e: "CMP_QueryPoll g out s = (Some (judge_info i), query_answer i (s\<lparr>ss_sock := (ss_sock s)\<lparr>cn_tcpRecv := []\<rparr>\<rparr>))"
    using assms(1) by (simp add: CMP_QueryPoll_def Let_def) (simp add: query_answer_def f(6) Let_def)
  have "\<not> ss_queryPending (query_answer i u) \<and> \<not> cn_tcp (ss_sock (query_answer i u)) \<and> \<not> cn_udp (ss_sock (query_answer i u))" for u
    by (simp add: query_answer_def cmp_net_shutdown_def Let_def)
  moreover have "qr_info (judge_info i) = Some i \<and> (qr_ok (judge_info i) \<longleftrightarrow> haveHost \<and> \<not> interior \<and> loc = kCommonwealthWorldspace) \<and>
      (qr_ok (judge_info i) \<longleftrightarrow> qr_error (judge_info i) = [])"
    by (simp add: judge_info_def assms(6) make_session_info_def flag_u8_def)
  ultimately show ?thesis unfolding e Let_def fst_conv snd_conv by blast
qed

lemma query_answered_witness:
  "let i = make_session_info 1 kCommonwealthWorldspace 0 0 0 2 True False ''home'' 8 [] 0;
       s = ex_joined\<lparr>ss_queryPending := True\<rparr>; g = (ex_game 101 [])\<lparr>gm_recv := [map RData [enc_session_info i]]\<rparr>
   in \<exists>q. fst (CMP_QueryPoll g query_result_init s) = Some q \<and> qr_ok q"
proof -
  let ?i = "make_session_info 1 kCommonwealthWorldspace 0 0 0 2 True False ''home'' 8 [] 0"
  have "gm_recv ((ex_game 101 [])\<lparr>gm_recv := [map RData [enc_session_info ?i]]\<rparr>) = map RData [enc_session_info ?i] # []"
    "concat [enc_session_info ?i] = enc_session_info ?i" by simp_all
  from query_answered [OF _ _ _ this refl, of "ex_joined\<lparr>ss_queryPending := True\<rparr>" query_result_init] ex_joined_fields
  show ?thesis by (auto simp: Let_def)
qed

end
