(* ===== verification/Handshake.thy ===== *)
theory Handshake
  imports ClientData Relay
begin

text \<open>
  The plugin and the server together: the Hello of \<^verbatim>\<open>CMP_Join\<close>, the Welcome the server answers with, and the
  \<^verbatim>\<open>UdpBind\<close> the plugin sends for it.
\<close>

subsection \<open>What the server reads of the plugin's Hello\<close>

lemma join_hello_frame: "frame_of (enc_hello (join_hello g st flags)) Hello"
  "dec_hello (enc_hello (join_hello g st flags)) = join_hello g st flags"
  "h_version (dec_header (enc_hello (join_hello g st flags))) = 12"
proof -
  have "delivers dec_hello Hello (join_hello g st flags) (enc_hello (join_hello g st flags))"
    by (rule hello_c.made_delivers) (simp_all add: join_hello_def made_wf zeros_def Let_def)
  then show "frame_of (enc_hello (join_hello g st flags)) Hello"
    "dec_hello (enc_hello (join_hello g st flags)) = join_hello g st flags"
    using hello_c.enc_len [OF join_hello_wf] by (simp_all add: delivers_def frame_of_def sizeof_Header_def)
  show "h_version (dec_header (enc_hello (join_hello g st flags))) = 12"
    using hello_c.hdr_enc [OF join_hello_wf, of g st flags "[]"]
    by (simp add: join_hello_def make_hello_def Let_def) (simp add: fill_header_def kProtocolVersion_def)
qed

lemma join_hello_read: "read_hello (enc_hello (join_hello g st flags)) = join_hello g st flags"
  using join_hello_frame(2) [of g st flags]
  by (simp add: read_hello_def join_hello_def make_hello_def copy_cstr_stays zeros_def Let_def)

lemma field_text:
  assumes "nul \<notin> set t" and "length t < n"
  shows "c_str (copy_cstr (zeros n) t) = t"
  using c_str_copy_cstr [of "zeros n" t] assms by (simp add: zeros_def c_str_idem)

lemma join_hello_fields:
  "he_protocol (join_hello g st flags) = 12" "he_pluginVersion (join_hello g st flags) = kPluginVersion"
  "he_inWorld (join_hello g st flags) = 1" "he_flags (join_hello g st flags) = flags"
  "he_modHash (join_hello g st flags) = CMP_ComputeModHash (gm_mods g)"
  "he_password (join_hello g st flags) = copy_cstr (zeros 16) (se_password st)"
  "he_playerKey (join_hello g st flags) = copy_cstr (zeros 32) (se_playerKey st)"
  by (simp_all add: join_hello_def make_hello_def flag_u8_def kProtocolVersion_def Let_def)

lemma join_hello_passes:
  assumes "nul \<notin> set (se_playerKey st)" and "length (se_playerKey st) \<le> 31"
    and "nul \<notin> set (se_password st)" and "length (se_password st) \<le> 15"
  shows "hello_key (join_hello g st flags) = sanitize_player_key (se_playerKey st) ''player''"
    "hello_passes r (enc_hello (join_hello g st flags)) \<longleftrightarrow>
    (let key = sanitize_player_key (se_playerKey st) ''player''; w = rt_world r
     in key \<notin> set (rt_bannedKeys r) \<and>
        (cfg_password (rt_cfg r) \<noteq> [] \<longrightarrow> se_password st = cfg_password (rt_cfg r)) \<and>
        (rt_sessionModHash r \<noteq> 0 \<longrightarrow> CMP_ComputeModHash (gm_mods g) = rt_sessionModHash r) \<and>
        (flags AND kHelloFlagRequireHost \<noteq> 0 \<longrightarrow> wo_hostLocation w = kCommonwealthWorldspace \<and>
           (\<exists>c. um_find (wo_hostPeerId w) (rt_clients r) = Some c \<and> cl_havePose c)) \<and>
        (key \<in> cl_playerKey ` snd ` set (rt_clients r) \<or> int (length (rt_clients r)) < cfg_maxPlayers (rt_cfg r)))"
proof -
  show k: "hello_key (join_hello g st flags) = sanitize_player_key (se_playerKey st) ''player''"
    using assms by (simp add: hello_key_def join_hello_fields field_text)
  have p: "c_str (he_password (join_hello g st flags)) = se_password st"
    using assms by (simp add: join_hello_fields field_text)
  have "same_key r (join_hello g st flags) \<noteq> None \<longleftrightarrow>
      sanitize_player_key (se_playerKey st) ''player'' \<in> cl_playerKey ` snd ` set (rt_clients r)"
    unfolding same_key_def k by (force simp: find_None_iff image_iff)
  then show "hello_passes r (enc_hello (join_hello g st flags)) \<longleftrightarrow>
    (let key = sanitize_player_key (se_playerKey st) ''player''; w = rt_world r
     in key \<notin> set (rt_bannedKeys r) \<and>
        (cfg_password (rt_cfg r) \<noteq> [] \<longrightarrow> se_password st = cfg_password (rt_cfg r)) \<and>
        (rt_sessionModHash r \<noteq> 0 \<longrightarrow> CMP_ComputeModHash (gm_mods g) = rt_sessionModHash r) \<and>
        (flags AND kHelloFlagRequireHost \<noteq> 0 \<longrightarrow> wo_hostLocation w = kCommonwealthWorldspace \<and>
           (\<exists>c. um_find (wo_hostPeerId w) (rt_clients r) = Some c \<and> cl_havePose c)) \<and>
        (key \<in> cl_playerKey ` snd ` set (rt_clients r) \<or> int (length (rt_clients r)) < cfg_maxPlayers (rt_cfg r)))"
    by (simp add: hello_passes_def Let_def join_hello_read join_hello_frame k p)
      (simp add: join_hello_fields requires_host_def kProtocolVersion_def)
qed

text \<open>The player with the key is in the session, over the connection.\<close>

definition plays_on :: "u64 \<Rightarrow> string \<Rightarrow> server_runtime \<Rightarrow> bool" where
  "plays_on conn key r \<longleftrightarrow> (\<exists>(k, c) \<in> set (rt_clients r). cl_connId c = conn \<and> cl_playerKey c = key)"

lemma passing_plays:
  assumes inv: "core_inv r" and p: "hello_passes r buf"
    and rate: "fst (allow_rate (rt_helloRates r) (addr_key (pt_addr (rt_pendingTcp r ! i))) t 2)"
  shows "plays_on (pt_connId (rt_pendingTcp r ! i)) (hello_key (read_hello buf)) (handle_pending_message r i buf t)"
proof (cases "same_key r (read_hello buf)")
  case None
  from passes_new_client [OF inv p this rate] show ?thesis by (auto simp: plays_on_def)
next
  case (Some kc)
  obtain k c where kc: "kc = (k, c)" by fastforce
  have f: "um_find k (rt_clients r) = Some c" "cl_playerKey c = hello_key (read_hello buf)"
    using find_client [OF inv Some [unfolded same_key_def kc]] by simp_all
  from passes_reconnect [OF inv p Some [unfolded kc] rate] obtain c' where c':
    "rt_clients (handle_pending_message r i buf t) = um_upd k (\<lambda>_. c') (rt_clients r)" "cl_playerKey c' = cl_playerKey c"
    "cl_connId c' = pt_connId (rt_pendingTcp r ! i)" by blast
  have "k \<in> fst ` set (rt_clients r)" using um_find_in_keys [OF f(1)] .
  then have "(k, c') \<in> set (um_upd k (\<lambda>_. c') (rt_clients r))" by (force simp: um_upd_def image_iff)
  with c' f(2) show ?thesis by (force simp: plays_on_def)
qed

text \<open>
  C6: what becomes of the Hello of \<^verbatim>\<open>CMP_Join\<close> at the server. For a player whose key and password fit their fields,
  on a pending connection within its rate that is nobody's yet, the server's handler lets him in under his sanitized key,
  over this connection, exactly when the key is not banned, the password is the server's if it has
  one, the mod list is the session's if there is one, there is a live host in the Commonwealth if the player asked
  for one, and there is room or the player is already in: the version checks and the check that he is in the world never
  stand in the way. Else no client is added or changed and a Reject is the answer.
\<close>

theorem plugin_hello_accepted:
  assumes "core_inv r" and "nul \<notin> set (se_playerKey st)" and "length (se_playerKey st) \<le> 31"
    and "nul \<notin> set (se_password st)" and "length (se_password st) \<le> 15"
    and "fst (allow_rate (rt_helloRates r) (addr_key (pt_addr (rt_pendingTcp r ! i))) t 2)"
    and "pt_connId (rt_pendingTcp r ! i) \<notin> cl_connId ` snd ` set (rt_clients r)"
  shows "let r' = handle_pending_message r i (enc_hello (join_hello g st flags)) t;
      key = sanitize_player_key (se_playerKey st) ''player''; w = rt_world r; conn = pt_connId (rt_pendingTcp r ! i)
    in if key \<notin> set (rt_bannedKeys r) \<and>
         (cfg_password (rt_cfg r) \<noteq> [] \<longrightarrow> se_password st = cfg_password (rt_cfg r)) \<and>
         (rt_sessionModHash r \<noteq> 0 \<longrightarrow> CMP_ComputeModHash (gm_mods g) = rt_sessionModHash r) \<and>
         (flags AND kHelloFlagRequireHost \<noteq> 0 \<longrightarrow> wo_hostLocation w = kCommonwealthWorldspace \<and>
            (\<exists>c. um_find (wo_hostPeerId w) (rt_clients r) = Some c \<and> cl_havePose c)) \<and>
         (key \<in> cl_playerKey ` snd ` set (rt_clients r) \<or> int (length (rt_clients r)) < cfg_maxPlayers (rt_cfg r))
       then plays_on conn key r'
       else \<not> plays_on conn key r' \<and> rt_clients r' = rt_clients r \<and>
         (\<exists>r0 reason txt'. r' = reject_conn r0 conn reason txt')"
proof -
  let ?buf = "enc_hello (join_hello g st flags)" and ?conn = "pt_connId (rt_pendingTcp r ! i)"
  let ?key = "sanitize_player_key (se_playerKey st) ''player''"
  have key: "hello_key (read_hello ?buf) = ?key"
    using join_hello_passes(1) [OF assms(2-5)] by (simp add: join_hello_read)
  note passes = join_hello_passes(2) [OF assms(2-5), of r g flags]
  have yes: "hello_passes r ?buf \<Longrightarrow> plays_on ?conn ?key (handle_pending_message r i ?buf t)"
    using passing_plays [OF assms(1) _ assms(6), of ?buf] unfolding key .
  have no: "\<not> plays_on ?conn ?key (handle_pending_message r i ?buf t) \<and>
      rt_clients (handle_pending_message r i ?buf t) = rt_clients r \<and>
      (\<exists>r0 reason txt'. handle_pending_message r i ?buf t = reject_conn r0 ?conn reason txt')" if "\<not> hello_passes r ?buf"
  proof -
    from hello_refused [OF assms(1) join_hello_frame(1) that assms(6)] obtain r0 reason txt' where
      r0: "handle_pending_message r i ?buf t = reject_conn r0 ?conn reason txt'" "rt_clients r0 = rt_clients r" by blast
    then have "rt_clients (handle_pending_message r i ?buf t) = rt_clients r" by (simp add: sends)
    moreover from this have "\<not> plays_on ?conn ?key (handle_pending_message r i ?buf t)"
      using assms(7) by (force simp: plays_on_def)
    ultimately show ?thesis using r0 by blast
  qed
  show ?thesis
    using yes no unfolding passes Let_def by (simp only: if_bool_eq_conj) blast
qed

text \<open>The server of the example and a player with the key \<^verbatim>\<open>cat\<close>; and with the key \<^verbatim>\<open>eve\<close>, which is banned.\<close>

theorem plugin_hello_accepted_witness:
  "plays_on 3 ''cat'' (handle_pending_message ex_rt 0 (enc_hello (join_hello (ex_game 100 []) (ss_settings ex_joined) 0)) 0) \<and>
   \<not> plays_on 3 ''eve'' (handle_pending_message ex_rt 0
     (enc_hello (join_hello (ex_game 100 []) ((ss_settings ex_joined)\<lparr>se_playerKey := ''eve''\<rparr>) 0)) 0)"
proof -
  have st: "ss_settings ex_joined = default_settings\<lparr>se_playerKey := ''cat'', se_playerName := ''Cat'', se_host := ''10.0.0.1'', se_port := 7777\<rparr>"
    using join_up(7) [of "ex_game 100 []" "''10.0.0.1''" 7777 0 ex_session]
    by (simp add: ex_joined_def ex_session_def session_init_def)
  have eve: "player_key_ok ''eve''"
    by (simp add: player_key_ok_def kPlayerKeyMax_def key_char_def c_isalnum_def c_isalpha_def is_digit_def)
  have k: "sanitize_player_key ''cat'' ''player'' = ''cat''" "sanitize_player_key ''eve'' ''player'' = ''eve''"
    by (rule sanitize_idem [OF ex_cat]) (rule sanitize_idem [OF eve])
  have c: "cfg_password default_config = []" "cfg_maxPlayers default_config = 8" by (simp_all add: default_config_def)
  have f: "se_playerKey (ss_settings ex_joined) = ''cat''" "se_password (ss_settings ex_joined) = []"
    by (simp_all add: st default_settings_def)
  have conn: "pt_connId (rt_pendingTcp ex_rt ! 0) \<notin> cl_connId ` snd ` set (rt_clients ex_rt)" by simp
  from plugin_hello_accepted [OF ex_rt_core _ _ _ _ ex_rate conn, of "ss_settings ex_joined" "ex_game 100 []" 0]
    plugin_hello_accepted [OF ex_rt_core _ _ _ _ ex_rate conn, of "(ss_settings ex_joined)\<lparr>se_playerKey := ''eve''\<rparr>" "ex_game 100 []" 0]
  show ?thesis by (simp add: f k c Let_def)
qed

subsection \<open>The Welcome\<close>

lemma finish_join_out:
  assumes "um_find k (rt_clients r) = Some c"
  shows "\<exists>r0 isHost cs. finish_join r i k h req isNew rec = out_cmds r0 (tcp_cmds c (enc_welcome (make_welcome (cl_peerId c) 0 isNew isHost
      (build_session_flags (rt_cfg r)) (cl_udpToken c))) @ cs)"
proof -
  have "rt_cfg (host_hello r' h) = rt_cfg r'" "rt_cfg (clear_pending r' i) = rt_cfg r'" for r'
    by (simp_all add: host_hello_def clear_pending_def Let_def)
  then show ?thesis
    using assms by (auto simp: finish_join_def Let_def sends intro!: exI)
qed

lemma passes_welcome:
  assumes inv: "core_inv r" and p: "hello_passes r buf" and new: "same_key r (read_hello buf) = None"
    and rate: "fst (allow_rate (rt_helloRates r) (addr_key (pt_addr (rt_pendingTcp r ! i))) t 2)"
    and conn: "pt_connId (rt_pendingTcp r ! i) \<noteq> 0"
  shows "\<exists>r0 isNew isHost cs. handle_pending_message r i buf t =
    out_cmds r0 ((outbound_default TcpSend)\<lparr>oc_connId := pt_connId (rt_pendingTcp r ! i), oc_peerId := rt_nextPeer r,
      oc_bytes := enc_welcome (make_welcome (rt_nextPeer r) 0 isNew isHost (build_session_flags (rt_cfg r)) (make_udp_token (rt_token r)))\<rparr> # cs)"
proof -
  let ?q = "snd (allow_rate (rt_helloRates r) (addr_key (pt_addr (rt_pendingTcp r ! i))) t 2)"
  let ?h = "read_hello buf" and ?p = "rt_pendingTcp r ! i" and ?k = "hello_key (read_hello buf)"
  define q where "q = r\<lparr>rt_helloRates := ?q\<rparr>"
  define rec where "rec = joined_rec (player_at q ?k) ?k ?h"
  define u where "u = recorded q ?k rec"
  have ci: "core_inv u" unfolding u_def by (rule core_inv_recorded) (use inv in \<open>simp add: q_def\<close>)
  have host: "requires_host ?h \<Longrightarrow> wo_hostPeerId (rt_world u) \<noteq> 0" using passes_host_reject(2) [OF inv p] by (simp add: u_def q_def)
  have room: "int (length (rt_clients r)) < cfg_maxPlayers (rt_cfg r)" using p new by (simp add: hello_passes_def Let_def)
  have "handle_pending_message r i buf t = admit q i ?h (requires_host ?h) t"
    using passes_admit [OF inv p, of i t ?q] rate by (simp add: prod_eq_iff q_def)
  also have "\<dots> = join_new u i ?p ?k ?h rec (requires_host ?h) t"
    using new room by (simp add: admit_eq Let_def same_key_def q_def u_def rec_def)
  also have "\<dots> = finish_join (out_cmds ((joined_state u ?p ?k ?h rec t)\<lparr>rt_world := elect (rt_world u) (rt_nextPeer u)\<rparr>)
      (bind_cmds (pt_connId ?p) (rt_nextPeer u))) i (rt_nextPeer u) ?h (requires_host ?h) (\<not> pr_havePose rec) rec"
    using join_new_eq [OF ci] host by auto
  finally have e: "handle_pending_message r i buf t = \<dots>" .
  let ?c = "fresh_client u ?p ?k ?h rec t (rt_nextPeer u) (make_udp_token (rt_token u))"
  let ?j = "out_cmds ((joined_state u ?p ?k ?h rec t)\<lparr>rt_world := elect (rt_world u) (rt_nextPeer u)\<rparr>) (bind_cmds (pt_connId ?p) (rt_nextPeer u))"
  have "um_find (rt_nextPeer u) (rt_clients ?j) = Some ?c"
    using next_peer_fresh [OF ci] by (simp add: joined_state_def Let_def um_find_def map_add_Some_iff split: option.split)
  from finish_join_out [OF this] obtain r0 isHost cs where
    "finish_join ?j i (rt_nextPeer u) ?h (requires_host ?h) (\<not> pr_havePose rec) rec = out_cmds r0 (tcp_cmds ?c
      (enc_welcome (make_welcome (cl_peerId ?c) 0 (\<not> pr_havePose rec) isHost (build_session_flags (rt_cfg ?j)) (cl_udpToken ?c))) @ cs)"
    by blast
  moreover have "rt_cfg ?j = rt_cfg r" "rt_nextPeer u = rt_nextPeer r" "rt_token u = rt_token r"
    by (simp_all add: joined_state_def u_def q_def Let_def)
  moreover have "enc_welcome w \<noteq> []" if "welcome_wf w" for w using welcome_c.enc_len [OF that] by auto
  then have "enc_welcome (make_welcome a b x y z v) \<noteq> []" for a b x y z v by (simp add: made_wf)
  ultimately show ?thesis
    unfolding e using conn by (auto simp: tcp_cmds_def fresh_client_def Let_def)
qed

subsection \<open>What the plugin makes of it\<close>

lemma send_net [simp]:
  "ss_net (snd (tcp_out g d s)) = ss_net s" "ss_net (snd (udp_out g d s)) = ss_net s" "ss_net (CMP_Net_Send g d s) = ss_net s"
  by (simp_all add: tcp_out_def udp_out_def CMP_Net_Send_def Let_def split: option.split)

lemma tcp_only:
  assumes "msg_of_u8 (h_type (dec_header d)) = Some t" and "\<not> msg_is_udp t"
  shows "cn_udpSent (ss_sock (CMP_Net_Send g d s)) = cn_udpSent (ss_sock s)"
  using assms by (simp add: CMP_Net_Send_def tcp_out_def cmp_net_tcp_send_def Let_def)

lemma appearance_keeps:
  "ss_net (CMP_SendAppearance g force s) = ss_net s"
  "cn_udpSent (ss_sock (CMP_SendAppearance g force s)) = cn_udpSent (ss_sock s)"
proof -
  have f: "ss_net (foldl (\<lambda>s pkt. CMP_Net_Send g pkt s) s pkts) = ss_net s" for pkts s
    by (induction pkts arbitrary: s) simp_all
  have "cn_udpSent (ss_sock (foldl (\<lambda>s pkt. CMP_Net_Send g pkt s) s pkts)) = cn_udpSent (ss_sock s)"
    if "\<forall>d\<in>set pkts. msg_of_u8 (h_type (dec_header d)) = Some AppearanceChunk" for pkts s
    using that by (induction pkts arbitrary: s) (simp_all add: tcp_only)
  then have "cn_udpSent (ss_sock (SendChunks g AppearanceChunk blob p s)) = cn_udpSent (ss_sock s)" for blob p s
    using chunk_frame(1) [where t = AppearanceChunk] by (auto simp: SendChunks_def split_blob_Some split: option.split)
  then show "ss_net (CMP_SendAppearance g force s) = ss_net s"
    "cn_udpSent (ss_sock (CMP_SendAppearance g force s)) = cn_udpSent (ss_sock s)"
    by (simp_all add: CMP_SendAppearance_def SendChunks_def f Let_def split: option.split)
qed

lemma welcome_message:
  assumes "w = make_welcome k fk isNew isHost fl tok"
  shows "HandleMessage g (enc_welcome w) s = on_welcome g w (s\<lparr>ss_lastRecvSec := gm_now g\<rparr>)"
proof -
  have d: "delivers dec_welcome Welcome w (enc_welcome w)"
    unfolding assms by (rule welcome_c.made_delivers) (simp_all add: made_wf)
  have l: "length (enc_welcome w) = sizeof_msg Welcome" using welcome_c.enc_len [of w] by (simp add: assms made_wf)
  have "header_ok (dec_header (enc_welcome w)) (length (enc_welcome w))" "msg_of_u8 (h_type (dec_header (enc_welcome w))) = Some Welcome"
    "dec_welcome (enc_welcome w) = w" using d by (simp_all add: delivers_def)
  then show ?thesis by (simp add: HandleMessage_def dispatch_message_def Let_def) (simp add: l)
qed

lemma bind_frame:
  "frame_of (enc_udp_bind (make_udp_bind k tok)) UdpBind" "dec_udp_bind (enc_udp_bind (make_udp_bind k tok)) = make_udp_bind k tok"
  "enc_udp_bind (make_udp_bind k tok) \<noteq> []"
proof -
  have d: "delivers dec_udp_bind UdpBind (make_udp_bind k tok) (enc_udp_bind (make_udp_bind k tok))"
    by (rule udp_bind_c.made_delivers) (simp_all add: made_wf)
  have l: "length (enc_udp_bind (make_udp_bind k tok)) = sizeof_msg UdpBind"
    using udp_bind_c.enc_len [of "make_udp_bind k tok"] by (simp add: made_wf)
  from d l show "frame_of (enc_udp_bind (make_udp_bind k tok)) UdpBind"
    "dec_udp_bind (enc_udp_bind (make_udp_bind k tok)) = make_udp_bind k tok"
    by (simp_all add: delivers_def frame_of_def sizeof_Header_def)
  show "enc_udp_bind (make_udp_bind k tok) \<noteq> []" using l by auto
qed

lemma snapshot_not_udp: "msg_of_u8 (h_type (dec_header (enc_world_snapshot (make_world_snapshot a b c d e f h i j k l m n)))) = Some WorldSnapshot"
proof -
  have "delivers dec_world_snapshot WorldSnapshot (make_world_snapshot a b c d e f h i j k l m n)
      (enc_world_snapshot (make_world_snapshot a b c d e f h i j k l m n))"
    by (rule world_snapshot_c.made_delivers) (simp_all add: made_wf zeros_def)
  then show ?thesis by (simp add: delivers_def)
qed

lemma welcomed:
  fixes g :: game and s :: session
  assumes up: "net_up (gm_sock g) (se_host (ss_settings s))" and udp: "cn_udp (ss_sock s)"
    and w: "w = make_welcome k fk isNew isHost fl tok"
  defines "s' \<equiv> HandleMessage g (enc_welcome w) s"
  shows "nr_myPeerId (ss_net s') = k" "nr_isHost (ss_net s') = isHost" "nr_udpBound (ss_net s')"
    "cn_udpSent (ss_sock s') = cn_udpSent (ss_sock s) @ [enc_udp_bind (make_udp_bind k tok)]"
proof -
  define b where "b = call GPresenceInvalidate
    (let s1 = upd_net (\<lambda>n. n\<lparr>nr_myPeerId := we_peerId w, nr_isNewPlayer := we_isNewPlayer w \<noteq> 0,
                 nr_isHost := we_isHost w \<noteq> 0, nr_udpToken := we_udpToken w\<rparr>) (s\<lparr>ss_lastRecvSec := gm_now g\<rparr>);
          s2 = s1\<lparr>ss_menu := (ss_menu s1)\<lparr>mr_sessionFlags := we_sessionFlags w\<rparr>,
                  ss_lastStatus := ''welcome peer '' @ dec_str (unat (we_peerId w))\<rparr>;
          s3 = call (GPrint (if nr_isHost (ss_net s2) then ''Connected as host'' else ''Connected as guest'')) s2;
          s4 = call GDismissCompanions (call (GHud ''Quests and loot are per-save until host-world ships.'') s3)
     in if pn_serverName (ss_presence s4) = [] then s4\<lparr>ss_presence := (ss_presence s4)\<lparr>pn_serverName := ''CMP''\<rparr>\<rparr> else s4)"
  have bf: "nr_myPeerId (ss_net b) = k" "nr_udpToken (ss_net b) = tok" "nr_isHost (ss_net b) = isHost" "ss_sock b = ss_sock s"
    "ss_settings b = ss_settings s"
    by (simp_all add: b_def w make_welcome_def flag_u8_def Let_def)
  let ?d = "enc_udp_bind (make_udp_bind k tok)"
  define c where "c = send_bind g b"
  have c: "nr_myPeerId (ss_net c) = k" "nr_isHost (ss_net c) = isHost" "nr_udpBound (ss_net c)"
    "cn_udpSent (ss_sock c) = cn_udpSent (ss_sock s) @ [?d]"
    using udp_out_up [of g b ?d] up udp bind_frame(3) [of k tok] by (simp_all add: c_def send_bind_def bf)
  let ?l = "ReadLocalWorld g"
  have "s' = upd_blobs (\<lambda>b. b\<lparr>br_pendingInventoryForce := True, br_pendingInventoryAt := f64_add (gm_now g) 0x3FC3333333333333\<rparr>)
     (CMP_SendAppearance g True (CMP_Net_Send g (enc_world_snapshot (make_world_snapshot (lw_hour ?l) (lw_days ?l) (lw_weather ?l)
       (lw_location ?l) (lw_x ?l) (lw_y ?l) (lw_z ?l) (nr_myPeerId (ss_net c)) (lw_location ?l) (lw_x ?l) (lw_y ?l) (lw_z ?l)
       (nr_isNewPlayer (ss_net c)))) c))"
    unfolding s'_def welcome_message [OF w] on_welcome_def Let_def c_def b_def ..
  then show "nr_myPeerId (ss_net s') = k" "nr_isHost (ss_net s') = isHost" "nr_udpBound (ss_net s')"
    "cn_udpSent (ss_sock s') = cn_udpSent (ss_sock s) @ [?d]"
    using c by (simp_all add: appearance_keeps tcp_only [OF snapshot_not_udp])
qed

subsection \<open>The whole handshake\<close>

text \<open>
  C5: the handshake of the plugin and the server fits together. When a Hello passes on a connection within
  its rate, with a key nobody holds, the server sends a Welcome on that connection; the plugin that receives it takes the peer id the
  server gave out, is the host exactly if the Welcome says so, and sends one datagram, and the server that
  receives this datagram, from whatever address, attributes that address to this peer from then on.
\<close>

theorem handshake_binds:
  assumes "core_inv r" and "rt_nextPeer r + 1 \<noteq> 0" and "hello_passes r buf" and "same_key r (read_hello buf) = None"
    and "fst (allow_rate (rt_helloRates r) (addr_key (pt_addr (rt_pendingTcp r ! i))) t 2)"
    and "pt_connId (rt_pendingTcp r ! i) \<noteq> 0"
    and "net_up (gm_sock g) (se_host (ss_settings s))" and "cn_udp (ss_sock s)"
  shows "let r1 = handle_pending_message r i buf t
    in \<exists>r0 w cs d. r1 = out_cmds r0 ((outbound_default TcpSend)\<lparr>oc_connId := pt_connId (rt_pendingTcp r ! i),
           oc_peerId := rt_nextPeer r, oc_bytes := enc_welcome w\<rparr> # cs) \<and>
         nr_myPeerId (ss_net (HandleMessage g (enc_welcome w) s)) = rt_nextPeer r \<and>
         nr_isHost (ss_net (HandleMessage g (enc_welcome w) s)) = (we_isHost w \<noteq> 0) \<and>
         cn_udpSent (ss_sock (HandleMessage g (enc_welcome w) s)) = cn_udpSent (ss_sock s) @ [d] \<and>
         fst (find_by_udp (handle_udp_packet r1 d from' t') from') = Some (rt_nextPeer r)"
proof -
  define r1 where "r1 = handle_pending_message r i buf t"
  let ?k = "rt_nextPeer r" and ?tok = "make_udp_token (rt_token r)"
  from passes_welcome [OF assms(1,3-6)] obtain r0 isNew isHost cs where out: "r1 = out_cmds r0
      ((outbound_default TcpSend)\<lparr>oc_connId := pt_connId (rt_pendingTcp r ! i), oc_peerId := ?k,
        oc_bytes := enc_welcome (make_welcome ?k 0 isNew isHost (build_session_flags (rt_cfg r)) ?tok)\<rparr> # cs)"
    unfolding r1_def by blast
  let ?w = "make_welcome ?k 0 isNew isHost (build_session_flags (rt_cfg r)) ?tok"
  note wd = welcomed [OF assms(7,8) refl, of ?k 0 isNew isHost "build_session_flags (rt_cfg r)" ?tok]
  from passes_new_client [OF assms(1,3-5)] obtain c where c: "rt_clients r1 = rt_clients r @ [(?k, c)]" "cl_udpToken c = ?tok"
    unfolding r1_def by blast
  have "um_find ?k (rt_clients r1) = Some c"
    using next_peer_fresh [OF assms(1)] by (simp add: c(1) um_find_def map_add_Some_iff split: option.split)
  moreover have "core_inv r1" unfolding r1_def by (rule core_inv_pending_message [OF assms(1,2)])
  from udp_bind_effect [OF this bind_frame(1) [of ?k ?tok], of from' t']
  have "case um_find ?k (rt_clients r1) of None \<Rightarrow> True
      | Some c \<Rightarrow> cl_udpToken c \<noteq> ?tok \<or> fst (find_by_udp (handle_udp_packet r1 (enc_udp_bind (make_udp_bind ?k ?tok)) from' t') from') = Some ?k"
    unfolding Let_def bind_frame(2) by (simp add: make_udp_bind_def split: option.splits if_splits)
  ultimately have "fst (find_by_udp (handle_udp_packet r1 (enc_udp_bind (make_udp_bind ?k ?tok)) from' t') from') = Some ?k"
    using c(2) by simp
  moreover have "we_isHost ?w \<noteq> 0 \<longleftrightarrow> isHost" by (simp add: make_welcome_def flag_u8_def)
  ultimately show ?thesis using out wd unfolding r1_def [symmetric] Let_def by blast
qed

theorem handshake_binds_witness:
  "let buf = enc_hello (ex_hello ''cat''); r1 = handle_pending_message ex_rt 0 buf 0; g = ex_game 101 []
   in \<exists>w d. nr_myPeerId (ss_net (HandleMessage g (enc_welcome w) ex_joined)) = 3 \<and>
        cn_udpSent (ss_sock (HandleMessage g (enc_welcome w) ex_joined)) = cn_udpSent (ss_sock ex_joined) @ [d] \<and>
        fst (find_by_udp (handle_udp_packet r1 d (ex_addr 9) 0) (ex_addr 9)) = Some 3"
proof -
  have "same_key ex_rt (read_hello (enc_hello (ex_hello ''cat''))) = None"
    by (simp add: same_key_def ex_hello_read ex_hello_key ex_cat)
  moreover have "pt_connId (rt_pendingTcp ex_rt ! 0) \<noteq> 0" "rt_nextPeer ex_rt + 1 \<noteq> 0" by simp_all
  ultimately show ?thesis
    using handshake_binds [OF ex_rt_core _ ex_hello_passes [OF ex_cat] _ ex_rate, of 0 "ex_game 101 []" ex_joined "ex_addr 9" 0]
      ex_joined_fields(4)
    by (simp add: Let_def) blast
qed

end
