(* ===== verification/ServerLog.thy ===== *)
theory ServerLog
  imports Util
begin

text \<open>
  The server's logger, \<^verbatim>\<open>server/src/log.hpp\<close>: the log file with its delayed flushes, the console
  with its colours, and the title and status line.

  The log file is what \<^verbatim>\<open>std::ofstream\<close> guarantees: \<open>lg_buffer\<close> holds the lines written since the
  last flush, \<open>lg_disk\<close> the lines a flush has handed over, for each path. The stream may hand a
  line over earlier; only a flush promises it. Times are nanoseconds of the steady clock.

  The console is the sequence of things sent to it: on Windows with a console handle
  (\<open>lg_consoleOut\<close>) an attribute and a text, with escape sequences enabled (\<open>lg_vtOut\<close>) an escape
  sequence and a text, otherwise the bare text. \<open>lg_win\<close> says which branch of the preprocessor the
  program was built with.
\<close>

subsection \<open>Levels and parts\<close>

datatype log_level = LDebug | LInfo | LWarn | LError

fun level_code :: "log_level \<Rightarrow> nat" where
  "level_code LDebug = 0"
| "level_code LInfo = 1"
| "level_code LWarn = 2"
| "level_code LError = 3"

datatype log_part =
    PPlain | PDim | PTimestamp | PLevelDebug | PLevelInfo | PLevelWarn | PLevelError | PMessage
  | PMetaKey | PMetaValue | PPath | PNumber | PEmphasis | PErrorText | PBannerGold | PBanner
  | PBannerAccent

text \<open>The colour bits of a Windows console attribute (\<^verbatim>\<open>FOREGROUND_*\<close>).\<close>

definition fg_blue :: u16 where "fg_blue = 1"
definition fg_green :: u16 where "fg_green = 2"
definition fg_red :: u16 where "fg_red = 4"
definition fg_intensity :: u16 where "fg_intensity = 8"

fun part_attr :: "log_part \<Rightarrow> u16 \<Rightarrow> u16" where
  "part_attr PPlain d = (d AND 0xF0) OR fg_red OR fg_green OR fg_blue"
| "part_attr PMessage d = (d AND 0xF0) OR fg_red OR fg_green OR fg_blue"
| "part_attr PDim d = (d AND 0xF0) OR fg_intensity"
| "part_attr PTimestamp d = (d AND 0xF0) OR fg_intensity"
| "part_attr PLevelDebug d = (d AND 0xF0) OR fg_blue OR fg_intensity"
| "part_attr PLevelInfo d = (d AND 0xF0) OR fg_green OR fg_blue OR fg_intensity"
| "part_attr PLevelWarn d = (d AND 0xF0) OR fg_red OR fg_green OR fg_intensity"
| "part_attr PLevelError d = (d AND 0xF0) OR fg_red OR fg_intensity"
| "part_attr PMetaKey d = (d AND 0xF0) OR fg_green OR fg_intensity"
| "part_attr PMetaValue d = (d AND 0xF0) OR fg_red OR fg_blue OR fg_intensity"
| "part_attr PPath d = (d AND 0xF0) OR fg_red OR fg_green OR fg_blue OR fg_intensity"
| "part_attr PNumber d = (d AND 0xF0) OR fg_red OR fg_green OR fg_intensity"
| "part_attr PEmphasis d = (d AND 0xF0) OR fg_green OR fg_blue OR fg_intensity"
| "part_attr PErrorText d = (d AND 0xF0) OR fg_red OR fg_intensity"
| "part_attr PBannerGold d = (d AND 0xF0) OR fg_red OR fg_green OR fg_intensity"
| "part_attr PBanner d = (d AND 0xF0) OR fg_green OR fg_blue OR fg_intensity"
| "part_attr PBannerAccent d = (d AND 0xF0) OR fg_red OR fg_blue OR fg_intensity"

abbreviation esc :: char where "esc \<equiv> CHR 0x1B"

fun vt_part :: "log_part \<Rightarrow> string" where
  "vt_part PPlain = esc # ''[37m''"
| "vt_part PMessage = esc # ''[37m''"
| "vt_part PDim = esc # ''[90m''"
| "vt_part PTimestamp = esc # ''[90m''"
| "vt_part PLevelDebug = esc # ''[94m''"
| "vt_part PLevelInfo = esc # ''[96m''"
| "vt_part PLevelWarn = esc # ''[93m''"
| "vt_part PLevelError = esc # ''[91m''"
| "vt_part PMetaKey = esc # ''[92m''"
| "vt_part PMetaValue = esc # ''[95m''"
| "vt_part PPath = esc # ''[97m''"
| "vt_part PNumber = esc # ''[33m''"
| "vt_part PEmphasis = esc # ''[96m''"
| "vt_part PErrorText = esc # ''[91m''"
| "vt_part PBannerGold = esc # ''[93m''"
| "vt_part PBanner = esc # ''[96m''"
| "vt_part PBannerAccent = esc # ''[95m''"

fun level_part :: "log_level \<Rightarrow> log_part" where
  "level_part LDebug = PLevelDebug"
| "level_part LInfo = PLevelInfo"
| "level_part LWarn = PLevelWarn"
| "level_part LError = PLevelError"

fun level_name :: "log_level \<Rightarrow> string" where
  "level_name LDebug = ''DEBUG''"
| "level_name LInfo = ''INFO''"
| "level_name LWarn = ''WARN''"
| "level_name LError = ''ERROR''"

text \<open>\<^verbatim>\<open>stamp\<close>: the broken-down local time (\<^verbatim>\<open>localtime_r\<close>) and the milliseconds, zero-padded.\<close>

definition pad_dec :: "nat \<Rightarrow> nat \<Rightarrow> string" where
  "pad_dec w n = (let s = dec_str n in replicate (w - length s) CHR ''0'' @ s)"

record tm =
  tm_year :: nat
  tm_mon :: nat
  tm_mday :: nat
  tm_hour :: nat
  tm_min :: nat
  tm_sec :: nat

definition log_stamp :: "tm \<Rightarrow> nat \<Rightarrow> string" where
  "log_stamp t msSinceEpoch =
     take 31 (pad_dec 4 (tm_year t + 1900) @ ''-'' @ pad_dec 2 (tm_mon t + 1) @ ''-'' @
       pad_dec 2 (tm_mday t) @ '' '' @ pad_dec 2 (tm_hour t) @ '':'' @ pad_dec 2 (tm_min t) @ '':'' @
       pad_dec 2 (tm_sec t) @ ''.'' @ pad_dec 3 (msSinceEpoch mod 1000))"

subsection \<open>What a token looks like\<close>

fun number_chars :: "string \<Rightarrow> bool \<Rightarrow> bool" where
  "number_chars [] sawDigit = sawDigit"
| "number_chars (ch # cs) sawDigit =
     (if is_digit ch then number_chars cs True
      else if ch = CHR ''.'' \<and> sawDigit then number_chars cs sawDigit
      else False)"

definition is_number_token :: "string \<Rightarrow> bool" where
  "is_number_token token =
     (if token = [] then False
      else if hd token = CHR ''-'' \<or> hd token = CHR ''+'' then number_chars (tl token) False
      else number_chars token False)"

definition is_path_token :: "string \<Rightarrow> bool" where
  "is_path_token token \<longleftrightarrow>
     CHR 0x5C \<in> set token \<or> CHR ''/'' \<in> set token \<or> CHR '':'' \<in> set token"

definition error_words :: "string list" where
  "error_words =
     [''failed'', ''failure'', ''error'', ''rejected'', ''reject'', ''denied'', ''invalid'',
      ''unknown'', ''bad'', ''timeout'', ''full'']"

definition is_error_word :: "string \<Rightarrow> bool" where
  "is_error_word token = List.member error_words (lower_copy token)"

subsection \<open>The logger's state\<close>

datatype con_item = SetAttr u16 | Chars string

record server_log =
  lg_win :: bool
  lg_path :: string
  lg_titlePrefix :: string
  lg_statusLine :: string
  lg_consoleLevel :: log_level
  lg_fileLevel :: log_level
  lg_vtOut :: bool
  lg_statusEnabled :: bool
  lg_consoleOut :: bool
  lg_defaultAttr :: u16
  lg_pending :: nat
  lg_lastFlush :: nat
  lg_open :: bool
  lg_buffer :: "string list"
  lg_disk :: "string \<Rightarrow> string list"
  lg_title :: string
  lg_console :: "con_item list"

definition server_log0 :: "bool \<Rightarrow> nat \<Rightarrow> (string \<Rightarrow> string list) \<Rightarrow> server_log" where
  "server_log0 win now disk =
     \<lparr> lg_win = win, lg_path = [], lg_titlePrefix = [], lg_statusLine = [],
       lg_consoleLevel = LDebug, lg_fileLevel = LDebug, lg_vtOut = False, lg_statusEnabled = False,
       lg_consoleOut = False, lg_defaultAttr = fg_red OR fg_green OR fg_blue, lg_pending = 0,
       lg_lastFlush = now, lg_open = False, lg_buffer = [], lg_disk = disk, lg_title = [],
       lg_console = [] \<rparr>"

subsection \<open>Flushing and the title\<close>

definition flush_file :: "nat \<Rightarrow> server_log \<Rightarrow> server_log" where
  "flush_file now lg =
     (if lg_open lg
      then lg\<lparr>lg_disk := (lg_disk lg)(lg_path lg := lg_disk lg (lg_path lg) @ lg_buffer lg),
              lg_buffer := [], lg_pending := 0, lg_lastFlush := now\<rparr>
      else lg)"

definition maybe_flush_timed :: "nat \<Rightarrow> server_log \<Rightarrow> server_log" where
  "maybe_flush_timed now lg =
     (if lg_pending lg = 0 then lg
      else if lg_lastFlush lg + 250000000 \<le> now then flush_file now lg
      else lg)"

definition refresh_title :: "server_log \<Rightarrow> server_log" where
  "refresh_title lg =
     (if lg_win lg
      then let title = (if lg_statusEnabled lg \<and> lg_statusLine lg \<noteq> [] then lg_statusLine lg
                        else if lg_titlePrefix lg = [] then ''CMP'' else lg_titlePrefix lg)
           in lg\<lparr>lg_title := (if length title > 200 then take 200 title else title)\<rparr>
      else lg)"

text \<open>Off Windows \<^verbatim>\<open>ensure_console\<close> only names the title.\<close>

definition ensure_console_posix :: "server_log \<Rightarrow> server_log" where
  "ensure_console_posix lg = refresh_title (lg\<lparr>lg_titlePrefix := ''CMP''\<rparr>)"

definition set_title :: "string \<Rightarrow> server_log \<Rightarrow> server_log" where
  "set_title title lg = refresh_title (lg\<lparr>lg_titlePrefix := (if title = [] then ''CMP'' else title)\<rparr>)"

text \<open>\<^verbatim>\<open>open_file\<close>: \<open>ok\<close> is whether the new path could be opened for appending.\<close>

definition open_file :: "nat \<Rightarrow> bool \<Rightarrow> string \<Rightarrow> server_log \<Rightarrow> server_log" where
  "open_file now ok path lg = (flush_file now lg)\<lparr>lg_open := ok, lg_path := path\<rparr>"

definition set_level :: "log_level \<Rightarrow> log_level \<Rightarrow> server_log \<Rightarrow> server_log" where
  "set_level consoleLevel fileLevel lg =
     lg\<lparr>lg_consoleLevel := consoleLevel, lg_fileLevel := fileLevel\<rparr>"

definition set_status_enabled :: "bool \<Rightarrow> server_log \<Rightarrow> server_log" where
  "set_status_enabled enabled lg =
     (let lg1 = lg\<lparr>lg_statusEnabled := enabled\<rparr>;
          lg2 = (if \<not> enabled then lg1\<lparr>lg_statusLine := []\<rparr> else lg1)
      in refresh_title lg2)"

definition set_log_status :: "string \<Rightarrow> server_log \<Rightarrow> server_log" where
  "set_log_status line lg =
     (let lg1 = lg\<lparr>lg_statusLine := (if length line > 180 then take 180 line else line)\<rparr>
      in if lg_statusEnabled lg1 then refresh_title lg1 else lg1)"

subsection \<open>Writing to the console\<close>

definition emit :: "con_item list \<Rightarrow> server_log \<Rightarrow> server_log" where
  "emit xs lg = lg\<lparr>lg_console := lg_console lg @ xs\<rparr>"

definition restore_default :: "server_log \<Rightarrow> server_log" where
  "restore_default lg =
     (let lg1 = (if lg_win lg \<and> lg_consoleOut lg then emit [SetAttr (lg_defaultAttr lg)] lg else lg)
      in if lg_vtOut lg1 then emit [Chars (esc # ''[0m'')] lg1 else lg1)"

definition write_slice :: "string \<Rightarrow> log_part \<Rightarrow> server_log \<Rightarrow> server_log" where
  "write_slice text part lg =
     (if text = [] then lg
      else if lg_win lg \<and> lg_consoleOut lg
      then emit [SetAttr (part_attr part (lg_defaultAttr lg)), Chars text] lg
      else emit ((if lg_vtOut lg then [Chars (vt_part part)] else []) @ [Chars text]) lg)"

text \<open>\<^verbatim>\<open>write_text_unlocked\<close> writes up to the first NUL.\<close>

definition write_text :: "string \<Rightarrow> log_part \<Rightarrow> server_log \<Rightarrow> server_log" where
  "write_text text part lg = write_slice (c_str text) part lg"

definition token_part :: "log_level \<Rightarrow> string \<Rightarrow> log_part" where
  "token_part level token =
     (if level = LError then PErrorText
      else if level = LWarn \<and> is_error_word token then PErrorText
      else if is_path_token token then PPath
      else if is_number_token token then PNumber
      else if is_error_word token then PErrorText
      else if token = ''CommonwealthMP.Server'' \<or> token = ''CommonwealthMP'' \<or> token = ''CMP1''
      then PEmphasis
      else PMessage)"

definition write_token :: "log_level \<Rightarrow> string \<Rightarrow> bool \<Rightarrow> server_log \<Rightarrow> server_log" where
  "write_token level token first lg =
     (let lg1 = (if \<not> first then write_text '' '' PPlain lg else lg)
      in if token = [] then lg1
         else case find_char CHR ''='' token 0 of
           Some eq \<Rightarrow>
             (if eq > 0
              then write_slice (drop (eq + 1) token) PMetaValue
                     (write_slice (take (eq + 1) token) PMetaKey lg1)
              else write_text token (token_part level token) lg1)
         | None \<Rightarrow> write_text token (token_part level token) lg1)"

text \<open>The loop of \<^verbatim>\<open>write_body_unlocked\<close>, from the position \<open>p\<close>.\<close>

function write_tokens :: "log_level \<Rightarrow> string \<Rightarrow> bool \<Rightarrow> server_log \<Rightarrow> server_log" where
  "write_tokens level p first lg =
     (let start = dropWhile (\<lambda>c. c = CHR '' '') p
      in if start = [] then lg
         else write_tokens level (dropWhile (\<lambda>c. c \<noteq> CHR '' '') start) False
                (write_token level (takeWhile (\<lambda>c. c \<noteq> CHR '' '') start) first lg))"
  by pat_completeness auto
termination
proof (relation "measure (\<lambda>(level, p, first, lg). length p)", goal_cases)
  case (2 level p first lg x)
  then have "hd x \<noteq> CHR '' ''" using hd_dropWhile [of "\<lambda>c. c = CHR '' ''" p] by simp
  with 2(2) have "length (dropWhile (\<lambda>c. c \<noteq> CHR '' '') x) < length x"
    by (rule length_dropWhile_hd)
  moreover have "length x \<le> length p" using 2 by (simp add: length_dropWhile_le)
  ultimately show ?case by simp
qed simp

declare write_tokens.simps [simp del]

definition write_body :: "log_level \<Rightarrow> string \<Rightarrow> server_log \<Rightarrow> server_log" where
  "write_body level body lg =
     (if body = [] then write_text [CHR 0x0A] PPlain lg
      else write_text [CHR 0x0A] PPlain (write_tokens level body True lg))"

definition write_console :: "log_level \<Rightarrow> string \<Rightarrow> string \<Rightarrow> string \<Rightarrow> server_log \<Rightarrow> server_log" where
  "write_console level stampStr levelStr body lg =
     (let lg1 = write_text stampStr PTimestamp lg;
          lg2 = write_text '' ['' PDim lg1;
          lg3 = write_text levelStr (level_part level) lg2;
          lg4 = write_text ''] '' PDim lg3;
          lg5 = write_body level body lg4
      in restore_default lg5)"

subsection \<open>A line of the log\<close>

text \<open>\<open>formatted\<close> is what \<^verbatim>\<open>vsnprintf\<close> makes of the format and its arguments, before the cut.\<close>

definition log_body :: "string \<Rightarrow> string" where
  "log_body formatted = c_str (take 1023 formatted)"

definition log_plain :: "string \<Rightarrow> log_level \<Rightarrow> string \<Rightarrow> string" where
  "log_plain stampStr level body = stampStr @ '' ['' @ level_name level @ ''] '' @ body @ [CHR 0x0A]"

definition log_write :: "nat \<Rightarrow> string \<Rightarrow> log_level \<Rightarrow> string \<Rightarrow> server_log \<Rightarrow> server_log" where
  "log_write now stampStr level formatted lg =
     (let body = log_body formatted;
          levelStr = level_name level;
          plain = log_plain stampStr level body;
          lg1 = (if level_code level \<ge> level_code (lg_consoleLevel lg)
                 then write_console level stampStr levelStr body lg else lg)
      in if lg_open lg1 \<and> level_code level \<ge> level_code (lg_fileLevel lg1)
         then let lg2 = lg1\<lparr>lg_buffer := lg_buffer lg1 @ [plain], lg_pending := lg_pending lg1 + 1\<rparr>
              in if level_code level \<ge> level_code LInfo \<or> lg_pending lg2 \<ge> 64
                 then flush_file now lg2
                 else maybe_flush_timed now lg2
         else lg1)"

definition write_raw :: "string \<Rightarrow> server_log \<Rightarrow> server_log" where
  "write_raw text lg = write_text text PPlain lg"

function write_banner_from :: "string \<Rightarrow> nat \<Rightarrow> server_log \<Rightarrow> server_log" where
  "write_banner_from p line lg =
     (if p = [] then lg
      else let start = takeWhile (\<lambda>c. c \<noteq> CHR 0x0A) p;
               rest = dropWhile (\<lambda>c. c \<noteq> CHR 0x0A) p;
               part = (if line = 0 then PBannerGold else if line \<ge> 4 then PBannerAccent else PBanner);
               lg1 = (if start \<noteq> [] then write_slice start part lg else lg)
           in if rest \<noteq> []
              then write_banner_from (tl rest) (line + 1) (write_text [CHR 0x0A] PPlain lg1)
              else lg1)"
  by pat_completeness auto
termination
proof (relation "measure (\<lambda>(p, line, lg). length p)", goal_cases)
  case (2 p line lg x xa xb xc)
  then have "length (tl xa) < length xa" "length xa \<le> length p"
    by (simp_all add: length_dropWhile_le)
  then show ?case by simp
qed simp

declare write_banner_from.simps [simp del]

definition write_banner :: "string \<Rightarrow> server_log \<Rightarrow> server_log" where
  "write_banner text lg = restore_default (write_banner_from text 0 lg)"

text \<open>The banner of \<^verbatim>\<open>net_util.cpp\<close>.\<close>

definition banner_text :: string where
  "banner_text =
     [CHR 0x0A] @
     ''   ____                                      _ _   _      __  __ ____  '' @ [CHR 0x0A] @
     ''  / ___|___  _ __ ___  _ __ ___   ___  _ __ | | | | |    |  '' @ [CHR 0x5C] @ ''/  |  _ '' @
       [CHR 0x5C] @ '' '' @ [CHR 0x0A] @
     '' | |   / _ '' @ [CHR 0x5C] @ ''| '' @ [CHR 0x27] @ ''_ ` _ '' @ [CHR 0x5C] @ ''| '' @ [CHR 0x27] @
       ''_ ` _ '' @ [CHR 0x5C] @ '' / _ '' @ [CHR 0x5C] @ ''| '' @ [CHR 0x27] @ ''_ '' @ [CHR 0x5C] @
       ''| | |_| |____| |'' @ [CHR 0x5C] @ ''/| | |_) |'' @ [CHR 0x0A] @
     '' | |__| (_) | | | | | | | | | | | (_) | | | | |  _  |____| |  | |  __/ '' @ [CHR 0x0A] @
     ''  '' @ [CHR 0x5C] @ ''____'' @ [CHR 0x5C] @ ''___/|_| |_| |_|_| |_| |_|'' @ [CHR 0x5C] @
       ''___/|_| |_|_| |_|    |_|_|  |_|_|    '' @ [CHR 0x0A] @ [CHR 0x0A]"

definition print_banner :: "server_log \<Rightarrow> server_log" where
  "print_banner lg = write_banner banner_text lg"


subsection \<open>What a reader of the console sees\<close>

text \<open>
  The text of a sequence of console items, and that text without its escape sequences: from the
  escape character to the next \<^verbatim>\<open>m\<close>.
\<close>

fun item_text :: "con_item \<Rightarrow> string" where
  "item_text (SetAttr a) = []"
| "item_text (Chars s) = s"

definition console_text :: "con_item list \<Rightarrow> string" where
  "console_text xs = concat (map item_text xs)"

function strip_vt :: "string \<Rightarrow> string" where
  "strip_vt [] = []"
| "strip_vt (c # cs) = (if c = esc then strip_vt (tl (dropWhile (\<lambda>d. d \<noteq> CHR ''m'') cs))
                       else c # strip_vt cs)"
  by pat_completeness auto
termination
proof (relation "measure length", goal_cases)
  case (2 c cs)
  have "length (tl (dropWhile (\<lambda>d. d \<noteq> CHR ''m'') cs)) \<le> length cs"
    using length_dropWhile_le [of "\<lambda>d. d \<noteq> CHR ''m''" cs] by simp
  then show ?case by simp
qed simp_all

lemma console_text_append [simp]: "console_text (xs @ ys) = console_text xs @ console_text ys"
  and console_text_Chars [simp]: "console_text [Chars s] = s"
  and console_text_Nil [simp]: "console_text [] = []"
  and console_text_Attr [simp]: "console_text (SetAttr a # xs) = console_text xs"
  and console_text_Cons [simp]: "console_text (Chars s # xs) = s @ console_text xs"
  by (simp_all add: console_text_def)

lemma strip_vt_plain: "esc \<notin> set s \<Longrightarrow> strip_vt (s @ t) = s @ strip_vt t"
  by (induction s) auto

lemma strip_vt_part: "strip_vt (vt_part p @ t) = strip_vt t"
  by (cases p) simp_all

text \<open>
  \<open>shows_text lg lg' s\<close>: from \<open>lg\<close> to \<open>lg'\<close> only the console has grown, by items whose visible text
  is \<open>s\<close>.
\<close>

definition shows_text :: "server_log \<Rightarrow> server_log \<Rightarrow> string \<Rightarrow> bool" where
  "shows_text lg lg' s \<longleftrightarrow>
     (\<exists>out. lg' = lg\<lparr>lg_console := lg_console lg @ out\<rparr> \<and>
        (\<forall>t. strip_vt (console_text out @ t) = s @ strip_vt t))"

named_theorems shows_intros \<open>what each console operation shows\<close>

lemma shows_refl [shows_intros]: "shows_text lg lg []"
  by (auto simp: shows_text_def intro: exI [of _ "[]"])

lemma shows_trans:
  assumes "shows_text a b s" "shows_text b c t"
  shows "shows_text a c (s @ t)"
proof -
  from assms obtain x y where "b = a\<lparr>lg_console := lg_console a @ x\<rparr>"
    "\<And>t. strip_vt (console_text x @ t) = s @ strip_vt t"
    "c = b\<lparr>lg_console := lg_console b @ y\<rparr>"
    "\<And>u. strip_vt (console_text y @ u) = t @ strip_vt u"
    by (auto simp: shows_text_def)
  then show ?thesis by (auto simp: shows_text_def intro!: exI [of _ "x @ y"])
qed

lemma shows_emit:
  "(\<And>t. strip_vt (console_text out @ t) = s @ strip_vt t) \<Longrightarrow> shows_text lg (emit out lg) s"
  by (auto simp: shows_text_def emit_def)

lemma shows_slice [shows_intros]:
  assumes "esc \<notin> set s"
  shows "shows_text lg (write_slice s part lg) s"
proof -
  note em = shows_emit [of "[SetAttr a, Chars s]" s lg for a]
    shows_emit [of "[Chars (vt_part part), Chars s]" s lg] shows_emit [of "[Chars s]" s lg]
  show ?thesis
    using assms by (auto simp: write_slice_def strip_vt_plain strip_vt_part intro: em shows_refl)
qed

lemma shows_text_c_str [shows_intros]:
  "esc \<notin> set s \<Longrightarrow> nul \<notin> set s \<Longrightarrow> shows_text lg (write_text s part lg) s"
  by (simp add: write_text_def c_str_idem shows_slice)

lemma shows_restore [shows_intros]: "shows_text lg (restore_default lg) []"
proof -
  have attr: "shows_text lg (emit [SetAttr a] lg) []" for a lg
    by (rule shows_emit) simp
  have vt: "shows_text lg (emit [Chars (esc # ''[0m'')] lg) []" for lg
    by (rule shows_emit) simp
  from shows_trans [OF attr vt] attr vt show ?thesis
    by (auto simp: restore_default_def Let_def intro: shows_refl)
qed

subsection \<open>Tokens\<close>

text \<open>A reference for the token loop: cut at every blank, drop the empty pieces, join by one blank.\<close>

fun split_at_char :: "char \<Rightarrow> string \<Rightarrow> string list" where
  "split_at_char c [] = [[]]"
| "split_at_char c (x # xs) =
     (if x = c then [] # split_at_char c xs
      else (x # hd (split_at_char c xs)) # tl (split_at_char c xs))"

fun join_blank :: "string list \<Rightarrow> string" where
  "join_blank [] = []"
| "join_blank [w] = w"
| "join_blank (w # v # ws) = w @ '' '' @ join_blank (v # ws)"

definition body_tokens :: "string \<Rightarrow> string list" where
  "body_tokens s = filter (\<lambda>w. w \<noteq> []) (split_at_char CHR '' '' s)"

lemma split_at_char_ne [simp]: "split_at_char c xs \<noteq> []"
  by (cases xs) auto

lemma body_tokens_blank [simp]: "body_tokens (CHR '' '' # s) = body_tokens s"
  by (simp add: body_tokens_def)

lemma body_tokens_skip: "body_tokens (dropWhile (\<lambda>c. c = CHR '' '') s) = body_tokens s"
  by (induction s) auto

lemma split_at_word:
  "w \<noteq> [] \<Longrightarrow> c \<notin> set w \<Longrightarrow> r = [] \<or> hd r = c \<Longrightarrow>
   split_at_char c (w @ r) = w # (if r = [] then [] else split_at_char c (tl r))"
proof (induction w)
  case (Cons x w)
  then show ?case by (cases w; cases r) auto
qed simp

lemma body_tokens_word:
  assumes "w \<noteq> []" "CHR '' '' \<notin> set w" "r = [] \<or> hd r = CHR '' ''"
  shows "body_tokens (w @ r) = w # body_tokens r"
proof (cases r)
  case Nil
  with split_at_word [OF assms] assms show ?thesis by (simp add: body_tokens_def)
next
  case (Cons x r')
  with split_at_word [OF assms] assms show ?thesis by (simp add: body_tokens_def)
qed

lemma shows_token:
  assumes "esc \<notin> set w" "nul \<notin> set w"
  shows "shows_text lg (write_token level w first lg) ((if first then [] else '' '') @ w)"
proof -
  let ?lg1 = "if \<not> first then write_text '' '' PPlain lg else lg"
  have 1: "shows_text lg ?lg1 (if first then [] else '' '')"
    by (auto intro!: shows_intros)
  have whole: "shows_text ?lg1 (write_text w p ?lg1) w" for p
    using assms by (rule shows_text_c_str)
  have cut: "shows_text ?lg1 (write_slice (drop n w) PMetaValue (write_slice (take n w) PMetaKey ?lg1)) w" for n
  proof -
    have "esc \<notin> set (take n w)" "esc \<notin> set (drop n w)"
      using assms by (auto dest: in_set_takeD in_set_dropD)
    from shows_trans [OF shows_slice [OF this(1)] shows_slice [OF this(2)]] show ?thesis by simp
  qed
  have "shows_text ?lg1 (write_token level w first lg) w"
    using whole cut by (auto simp: write_token_def Let_def shows_refl split: option.split)
  from shows_trans [OF 1 this] show ?thesis .
qed

lemma shows_tokens:
  "esc \<notin> set p \<Longrightarrow> nul \<notin> set p \<Longrightarrow>
   shows_text lg (write_tokens level p first lg)
     ((if first \<or> body_tokens p = [] then [] else '' '') @ join_blank (body_tokens p))"
proof (induction level p first lg rule: write_tokens.induct)
  case (1 level p first lg)
  let ?s = "dropWhile (\<lambda>c. c = CHR '' '') p"
  let ?w = "takeWhile (\<lambda>c. c \<noteq> CHR '' '') ?s" and ?r = "dropWhile (\<lambda>c. c \<noteq> CHR '' '') ?s"
  show ?case
  proof (cases "?s = []")
    case True
    then have "body_tokens p = body_tokens []" using body_tokens_skip [of p] by metis
    then have "body_tokens p = []" by (simp add: body_tokens_def)
    with True show ?thesis by (simp add: write_tokens.simps shows_refl)
  next
    case False
    then have hd: "hd ?s \<noteq> CHR '' ''" using hd_dropWhile [of "\<lambda>c. c = CHR '' ''" p] by simp
    with False have w: "?w \<noteq> []" by (cases ?s) auto
    have nb: "CHR '' '' \<notin> set ?w" by (auto dest: set_takeWhileD)
    have r: "?r = [] \<or> hd ?r = CHR '' ''" using hd_dropWhile [of "\<lambda>c. c \<noteq> CHR '' ''" ?s] by auto
    have toks: "body_tokens p = ?w # body_tokens ?r"
      using body_tokens_word [OF w nb r] body_tokens_skip [of p] by simp
    have sub: "set ?w \<subseteq> set p" "set ?r \<subseteq> set p"
      by (auto dest!: set_takeWhileD set_dropWhileD)
    then have ne: "esc \<notin> set ?w" "nul \<notin> set ?w" "esc \<notin> set ?r" "nul \<notin> set ?r"
      using 1(2,3) by auto
    have "shows_text lg (write_tokens level ?r False (write_token level ?w first lg))
      (((if first then [] else '' '') @ ?w) @ (if body_tokens ?r = [] then [] else '' '') @ join_blank (body_tokens ?r))"
      using shows_trans [OF shows_token [OF ne(1,2)] 1(1) [OF refl False ne(3,4)]] by simp
    then show ?thesis
      using False toks by (cases "body_tokens ?r") (auto simp: write_tokens.simps Let_def)
  qed
qed


lemma shows_body:
  assumes "esc \<notin> set body" "nul \<notin> set body"
  shows "shows_text lg (write_body level body lg) (join_blank (body_tokens body) @ [CHR 0x0A])"
proof -
  have nl: "shows_text lg (write_text [CHR 0x0A] PPlain lg) [CHR 0x0A]" for lg
    by (rule shows_text_c_str) auto
  from shows_trans [OF shows_tokens [OF assms, of lg level True] nl] nl [of lg] show ?thesis
    by (cases "body = []") (simp_all add: write_body_def body_tokens_def)
qed

lemma level_name_clean: "esc \<notin> set (level_name l)" "nul \<notin> set (level_name l)"
  by (cases l; simp)+

lemma shows_console:
  assumes "esc \<notin> set st" "nul \<notin> set st" "esc \<notin> set body" "nul \<notin> set body"
  shows "shows_text lg (write_console level st (level_name level) body lg)
    (st @ '' ['' @ level_name level @ ''] '' @ join_blank (body_tokens body) @ [CHR 0x0A])"
proof -
  have open_b: "shows_text lg (write_text '' ['' PDim lg) '' [''" for lg
    by (rule shows_text_c_str) auto
  have close_b: "shows_text lg (write_text ''] '' PDim lg) ''] ''" for lg
    by (rule shows_text_c_str) auto
  note steps = shows_trans [OF shows_trans [OF shows_trans [OF shows_trans [OF shows_trans
    [OF shows_text_c_str [OF assms(1,2)] open_b] shows_text_c_str [OF level_name_clean]] close_b]
    shows_body [OF assms(3,4)]] shows_restore]
  from steps show ?thesis by (simp add: write_console_def Let_def)
qed

subsection \<open>The frame of the console operations\<close>

definition console_only :: "server_log \<Rightarrow> server_log \<Rightarrow> bool" where
  "console_only lg lg' \<longleftrightarrow> (\<exists>c. lg' = lg\<lparr>lg_console := c\<rparr>)"

named_theorems console_intros \<open>operations that only touch the console\<close>

lemma console_refl [console_intros]: "console_only lg lg"
  unfolding console_only_def by (metis server_log.surjective server_log.update_convs(17))

lemma console_trans: "console_only a b \<Longrightarrow> console_only b c \<Longrightarrow> console_only a c"
  by (auto simp: console_only_def)

lemma console_emit [console_intros]: "console_only lg (emit xs lg)"
  by (auto simp: console_only_def emit_def)

lemma console_slice [console_intros]: "console_only lg (write_slice s part lg)"
  by (auto simp: write_slice_def intro: console_intros)

lemma console_write_text [console_intros]: "console_only lg (write_text s part lg)"
  by (simp add: write_text_def console_slice)

lemma console_restore [console_intros]: "console_only lg (restore_default lg)"
  by (auto simp: restore_default_def Let_def intro: console_intros console_trans [OF console_emit console_emit])

lemma console_token [console_intros]: "console_only lg (write_token level w first lg)"
proof -
  have 1: "console_only lg (if \<not> first then write_text '' '' PPlain lg else lg)"
    by (simp add: console_intros)
  show ?thesis
    by (auto simp: write_token_def Let_def split: option.split
        intro!: console_trans [OF 1] console_trans [OF console_slice console_slice] console_intros)
qed

lemma console_tokens [console_intros]: "console_only lg (write_tokens level p first lg)"
proof (induction level p first lg rule: write_tokens.induct)
  case (1 level p first lg)
  show ?case
    using console_trans [OF console_token 1] console_refl
    by (subst write_tokens.simps) (auto simp: Let_def)
qed

lemma console_body [console_intros]: "console_only lg (write_body level body lg)"
  by (auto simp: write_body_def intro: console_write_text console_trans [OF console_tokens console_write_text])

lemma console_console [console_intros]: "console_only lg (write_console level st nm body lg)"
  unfolding write_console_def Let_def
  by (rule console_trans [OF console_trans [OF console_trans [OF console_trans [OF console_trans
    [OF console_write_text console_write_text] console_write_text] console_write_text] console_body]
    console_restore])

lemma console_banner_from [console_intros]: "console_only lg (write_banner_from p line lg)"
proof (induction p line lg rule: write_banner_from.induct)
  case (1 p line lg)
  have "console_only lg (if s \<noteq> [] then write_slice s part lg else lg)" for s part
    by (simp add: console_intros)
  from console_trans [OF console_trans [OF this console_write_text] 1] this console_refl show ?case
    by (subst write_banner_from.simps) (auto simp: Let_def)
qed

lemma console_fields:
  assumes "console_only lg lg'"
  shows "lg_win lg' = lg_win lg" "lg_path lg' = lg_path lg" "lg_titlePrefix lg' = lg_titlePrefix lg"
    "lg_statusLine lg' = lg_statusLine lg" "lg_consoleLevel lg' = lg_consoleLevel lg"
    "lg_fileLevel lg' = lg_fileLevel lg" "lg_statusEnabled lg' = lg_statusEnabled lg"
    "lg_pending lg' = lg_pending lg" "lg_lastFlush lg' = lg_lastFlush lg" "lg_open lg' = lg_open lg"
    "lg_buffer lg' = lg_buffer lg" "lg_disk lg' = lg_disk lg" "lg_title lg' = lg_title lg"
  using assms by (auto simp: console_only_def)

subsection \<open>The log file\<close>

text \<open>The state of the logger between two calls.\<close>

definition log_inv :: "server_log \<Rightarrow> bool" where
  "log_inv lg \<longleftrightarrow>
     lg_pending lg = length (lg_buffer lg) \<and> lg_pending lg < 64 \<and>
     (\<not> lg_open lg \<longrightarrow> lg_buffer lg = []) \<and> length (lg_statusLine lg) \<le> 180 \<and>
     length (lg_title lg) \<le> 200"

text \<open>The calls the rest of the server makes.\<close>

inductive logger_run :: "server_log \<Rightarrow> bool" where
  run_start: "logger_run (server_log0 win now disk)"
| run_ensure: "logger_run lg \<Longrightarrow> logger_run (ensure_console_posix lg)"
| run_title: "logger_run lg \<Longrightarrow> logger_run (set_title t lg)"
| run_open: "logger_run lg \<Longrightarrow> logger_run (open_file now ok path lg)"
| run_level: "logger_run lg \<Longrightarrow> logger_run (set_level c f lg)"
| run_status_enabled: "logger_run lg \<Longrightarrow> logger_run (set_status_enabled e lg)"
| run_status: "logger_run lg \<Longrightarrow> logger_run (set_log_status l lg)"
| run_flush: "logger_run lg \<Longrightarrow> logger_run (flush_file now lg)"
| run_write: "logger_run lg \<Longrightarrow> logger_run (log_write now st level fmt lg)"
| run_raw: "logger_run lg \<Longrightarrow> logger_run (write_raw t lg)"
| run_banner: "logger_run lg \<Longrightarrow> logger_run (write_banner t lg)"

text \<open>A write that reaches the file, after the console has been served.\<close>

definition file_write :: "nat \<Rightarrow> log_level \<Rightarrow> string \<Rightarrow> server_log \<Rightarrow> server_log" where
  "file_write now level line lg =
     (let lg2 = lg\<lparr>lg_buffer := lg_buffer lg @ [line], lg_pending := lg_pending lg + 1\<rparr>
      in if level_code level \<ge> level_code LInfo \<or> lg_pending lg2 \<ge> 64 then flush_file now lg2
         else maybe_flush_timed now lg2)"

lemma log_write_split:
  obtains lg1 where "console_only lg lg1"
    "log_write now st level fmt lg =
       (if lg_open lg \<and> level_code (lg_fileLevel lg) \<le> level_code level
        then file_write now level (log_plain st level (log_body fmt)) lg1 else lg1)"
proof -
  let ?lg1 = "if level_code level \<ge> level_code (lg_consoleLevel lg)
    then write_console level st (level_name level) (log_body fmt) lg else lg"
  have c: "console_only lg ?lg1" by (simp add: console_intros)
  show ?thesis
    by (rule that [OF c]) (simp add: log_write_def file_write_def Let_def console_fields [OF c])
qed

lemma level_Info_iff: "level_code LInfo \<le> level_code l \<longleftrightarrow> l \<noteq> LDebug"
  by (cases l) auto

text \<open>What a file write does: the line is buffered or, with all before it, handed over.\<close>

lemma file_write_cases:
  assumes "lg_open lg"
  obtains (buffered) "level = LDebug" "lg_pending lg + 1 < 64"
      "file_write now level line lg =
         lg\<lparr>lg_buffer := lg_buffer lg @ [line], lg_pending := lg_pending lg + 1\<rparr>"
  | (flushed) "file_write now level line lg =
      lg\<lparr>lg_disk := (lg_disk lg)(lg_path lg := lg_disk lg (lg_path lg) @ lg_buffer lg @ [line]),
         lg_buffer := [], lg_pending := 0, lg_lastFlush := now\<rparr>"
proof -
  let ?b = "lg\<lparr>lg_buffer := lg_buffer lg @ [line], lg_pending := lg_pending lg + 1\<rparr>"
  have fl: "flush_file now ?b = lg\<lparr>lg_disk := (lg_disk lg)(lg_path lg := lg_disk lg (lg_path lg) @ lg_buffer lg @ [line]),
         lg_buffer := [], lg_pending := 0, lg_lastFlush := now\<rparr>"
    using assms by (simp add: flush_file_def)
  consider "level = LDebug \<and> lg_pending lg + 1 < 64 \<and> file_write now level line lg = ?b"
    | "file_write now level line lg = flush_file now ?b"
    unfolding file_write_def Let_def maybe_flush_timed_def level_Info_iff by (fastforce split: if_splits)
  then show thesis
  proof cases
    case 1
    then show thesis using buffered by blast
  next
    case 2
    with fl show thesis using flushed by simp
  qed
qed

lemma log_inv_console: "console_only lg lg' \<Longrightarrow> log_inv lg \<Longrightarrow> log_inv lg'"
  by (simp add: log_inv_def console_fields)

lemma log_inv_refresh: "log_inv lg \<Longrightarrow> log_inv (refresh_title lg)"
  by (simp add: log_inv_def refresh_title_def Let_def)

lemma log_inv_flush: "log_inv lg \<Longrightarrow> log_inv (flush_file now lg)"
  by (simp add: log_inv_def flush_file_def)

lemma log_inv_write:
  assumes "log_inv lg"
  shows "log_inv (log_write now st level fmt lg)"
proof (rule log_write_split [of lg now st level fmt])
  fix lg1 assume 1: "console_only lg lg1"
    and eq: "log_write now st level fmt lg =
       (if lg_open lg \<and> level_code (lg_fileLevel lg) \<le> level_code level
        then file_write now level (log_plain st level (log_body fmt)) lg1 else lg1)"
  have inv: "log_inv lg1" using 1 assms by (rule log_inv_console)
  have "log_inv (file_write now level line lg1)" if "lg_open lg1" for line
    using that inv by (rule_tac file_write_cases [OF that, of level now line]) (simp_all add: log_inv_def)
  with inv show ?thesis by (simp add: eq console_fields [OF 1])
qed

lemma logger_run_inv: "logger_run lg \<Longrightarrow> log_inv lg"
proof (induction rule: logger_run.induct)
  case (run_open lg now ok path)
  then have "log_inv (flush_file now lg)" by (rule_tac log_inv_flush)
  then show ?case by (auto simp: open_file_def log_inv_def flush_file_def split: if_splits)
next
  case (run_banner lg t)
  have "console_only lg (write_banner t lg)"
    unfolding write_banner_def by (rule console_trans [OF console_banner_from console_restore])
  then show ?case using run_banner(2) by (rule log_inv_console)
qed (auto simp: server_log0_def ensure_console_posix_def set_title_def set_level_def set_status_enabled_def
    set_log_status_def Let_def write_raw_def log_inv_flush log_inv_write
    intro!: log_inv_refresh log_inv_console [OF console_write_text] | simp add: log_inv_def)+


subsection \<open>The banner\<close>

text \<open>The first line of a banner is meant to be gold; the banner of the program starts with an empty line.\<close>

definition not_gold :: "server_log \<Rightarrow> bool" where
  "not_gold lg \<longleftrightarrow> Chars (vt_part PBannerGold) \<notin> set (lg_console lg)"

lemma not_gold_slice:
  "esc \<notin> set s \<Longrightarrow> part \<in> {PPlain, PBanner, PBannerAccent} \<Longrightarrow> not_gold lg \<Longrightarrow> not_gold (write_slice s part lg)"
  by (auto simp: not_gold_def write_slice_def emit_def)

lemma not_gold_newline: "not_gold lg \<Longrightarrow> not_gold (write_text [CHR 0x0A] PPlain lg)"
  by (simp add: write_text_def c_str_def not_gold_slice)

lemma not_gold_from: "esc \<notin> set p \<Longrightarrow> line \<noteq> 0 \<Longrightarrow> not_gold lg \<Longrightarrow> not_gold (write_banner_from p line lg)"
proof (induction p line lg rule: write_banner_from.induct)
  case (1 p line lg)
  let ?s = "takeWhile (\<lambda>c. c \<noteq> CHR 0x0A) p" and ?r = "dropWhile (\<lambda>c. c \<noteq> CHR 0x0A) p"
  let ?part = "if line = 0 then PBannerGold else if line \<ge> 4 then PBannerAccent else PBanner"
  have s: "esc \<notin> set ?s" and r: "esc \<notin> set (tl ?r)"
    using 1(2) by (auto dest: set_takeWhileD list.set_sel(2) [rotated] set_dropWhileD)
      (metis list.sel(2) list.set_sel(2) set_dropWhileD)
  have ng: "not_gold (if ?s \<noteq> [] then write_slice ?s ?part lg else lg)"
    using not_gold_slice [OF s] 1(3,4) by simp
  show ?case
    using 1(1) [OF _ refl refl refl refl _ r _ not_gold_newline [OF ng]] 1(4) ng
    by (subst write_banner_from.simps) (auto simp: Let_def)
qed

lemma banner_never_gold:
  assumes "lg_console lg = []"
  shows "Chars (vt_part PBannerGold) \<notin> set (lg_console (print_banner lg))"
proof -
  have b: "banner_text = CHR 0x0A # tl banner_text" by (simp add: banner_text_def)
  have "esc \<notin> set (tl banner_text)" by (simp add: banner_text_def)
  moreover have "not_gold lg" using assms by (simp add: not_gold_def)
  ultimately have "not_gold (write_banner_from (tl banner_text) 1 (write_text [CHR 0x0A] PPlain lg))"
    by (intro not_gold_from not_gold_newline) simp_all
  moreover have "write_banner_from banner_text 0 lg =
      write_banner_from (tl banner_text) 1 (write_text [CHR 0x0A] PPlain lg)"
    by (subst b, subst write_banner_from.simps) simp
  ultimately have "not_gold (write_banner_from banner_text 0 lg)" by simp
  then show ?thesis
    by (auto simp: print_banner_def write_banner_def restore_default_def not_gold_def Let_def emit_def)
qed

subsection \<open>Properties\<close>

text \<open>A sequence of calls of \<^verbatim>\<open>write\<close>: the time, the stamp, the level and the formatted text of each.\<close>

type_synonym log_entry = "nat \<times> string \<times> log_level \<times> string"

definition entry_level :: "log_entry \<Rightarrow> log_level" where
  "entry_level e = fst (snd (snd e))"

definition entry_line :: "log_entry \<Rightarrow> string" where
  "entry_line e = (case e of (now, st, level, fmt) \<Rightarrow> log_plain st level (log_body fmt))"

fun log_writes :: "log_entry list \<Rightarrow> server_log \<Rightarrow> server_log" where
  "log_writes [] lg = lg"
| "log_writes ((now, st, level, fmt) # es) lg = log_writes es (log_write now st level fmt lg)"

text \<open>The entries the file level lets through.\<close>

definition filed :: "log_level \<Rightarrow> log_entry list \<Rightarrow> log_entry list" where
  "filed fl es = filter (\<lambda>e. level_code fl \<le> level_code (entry_level e)) es"

lemma filed_Cons: "filed fl (e # es) =
    (if level_code fl \<le> level_code (entry_level e) then e # filed fl es else filed fl es)"
  by (simp add: filed_def)

lemma log_write_file:
  assumes "lg_open lg"
  shows "let lg' = log_write now st level fmt lg; line = log_plain st level (log_body fmt) in
    lg_open lg' \<and> lg_path lg' = lg_path lg \<and> lg_fileLevel lg' = lg_fileLevel lg \<and>
    (\<forall>q. q \<noteq> lg_path lg \<longrightarrow> lg_disk lg' q = lg_disk lg q) \<and>
    lg_disk lg' (lg_path lg) @ lg_buffer lg' = lg_disk lg (lg_path lg) @ lg_buffer lg @
      (if level_code (lg_fileLevel lg) \<le> level_code level then [line] else []) \<and>
    (lg_buffer lg' = [] \<or> lg_buffer lg' = lg_buffer lg \<and> \<not> level_code (lg_fileLevel lg) \<le> level_code level \<or>
     lg_buffer lg' = lg_buffer lg @ [line] \<and> level = LDebug)"
proof (rule log_write_split [of lg now st level fmt])
  fix lg1 assume 1: "console_only lg lg1"
    and eq: "log_write now st level fmt lg =
       (if lg_open lg \<and> level_code (lg_fileLevel lg) \<le> level_code level
        then file_write now level (log_plain st level (log_body fmt)) lg1 else lg1)"
  have "lg_open lg1" using assms console_fields [OF 1] by simp
  then show ?thesis
    unfolding eq Let_def
    by (rule file_write_cases [of lg1 level now "log_plain st level (log_body fmt)"])
      (auto simp: assms console_fields [OF 1])
qed

lemma log_writes_file:
  assumes "lg_open lg" "lg_buffer lg = map entry_line ds" "\<forall>d\<in>set ds. entry_level d = LDebug"
  shows "\<exists>ds'. lg_buffer (log_writes es lg) = map entry_line ds' \<and> (\<forall>d\<in>set ds'. entry_level d = LDebug) \<and>
    lg_disk (log_writes es lg) (lg_path lg) @ map entry_line ds' =
      lg_disk lg (lg_path lg) @ map entry_line ds @ map entry_line (filed (lg_fileLevel lg) es)"
  using assms
proof (induction es arbitrary: lg ds)
  case Nil
  then show ?case by (auto simp: filed_def)
next
  case (Cons e es)
  obtain now st level fmt where e: "e = (now, st, level, fmt)" by (cases e)
  let ?lg = "log_write now st level fmt lg"
  note w = log_write_file [OF Cons.prems(1), of now st level fmt, unfolded Let_def]
  have line: "log_plain st level (log_body fmt) = entry_line e" and lev: "level = entry_level e"
    by (simp_all add: e entry_line_def entry_level_def)
  have step: "log_writes (e # es) lg = log_writes es ?lg" by (simp add: e)
  from w Cons.prems(2,3) obtain ds1 where ds1: "lg_buffer ?lg = map entry_line ds1"
    "\<forall>d\<in>set ds1. entry_level d = LDebug"
    unfolding line unfolding lev
  proof (elim conjE disjE, goal_cases)
    case 1
    then show ?thesis by (intro 1(1) [of "[]"]) auto
  next
    case 2
    then show ?thesis by (intro 2(1) [of ds]) auto
  next
    case 3
    then show ?thesis by (intro 3(1) [of "ds @ [e]"]) auto
  qed
  from Cons.IH [OF _ ds1] w
  obtain ds' where "lg_buffer (log_writes es ?lg) = map entry_line ds'" "\<forall>d\<in>set ds'. entry_level d = LDebug"
    "lg_disk (log_writes es ?lg) (lg_path lg) @ map entry_line ds' =
       lg_disk ?lg (lg_path lg) @ lg_buffer ?lg @ map entry_line (filed (lg_fileLevel lg) es)"
    using ds1 by auto
  with w Cons.prems(2) show ?case
    by (intro exI [of _ ds']) (simp add: filed_Cons line [symmetric] lev [symmetric] step)
qed

lemma log_inv_writes: "log_inv lg \<Longrightarrow> log_inv (log_writes es lg)"
  by (induction es arbitrary: lg) (auto simp: log_inv_write)

text \<open>
  C24: the log file is complete and at most a few debug lines late. After \<open>open_file\<close> has opened
  a file in any state the logger can be in, and any sequence of calls of \<open>write\<close>, the file followed
  by the stream's buffer is the old content followed by one line for every call at or above the file
  level, in order; what the buffer still holds are fewer than 64 lines, all of them of level Debug,
  so every line of level Info or above has been handed over.
\<close>

theorem log_file_complete:
  assumes "logger_run lg0"
  shows "let lg = open_file now True path lg0; lg' = log_writes es lg in
    \<exists>ds. lg_buffer lg' = map entry_line ds \<and> length ds < 64 \<and> (\<forall>d\<in>set ds. entry_level d = LDebug) \<and>
      lg_disk lg' path @ map entry_line ds =
        lg_disk lg path @ map entry_line (filed (lg_fileLevel lg) es)"
proof -
  let ?lg = "open_file now True path lg0"
  have inv: "log_inv ?lg" using logger_run_inv [OF run_open [OF assms, of now True path]] .
  have inv0: "log_inv lg0" using logger_run_inv [OF assms] .
  then have open0: "lg_open ?lg" "lg_buffer ?lg = map entry_line []" "lg_path ?lg = path"
    by (auto simp: open_file_def flush_file_def log_inv_def)
  from log_writes_file [OF open0(1,2), of es] open0(3) obtain ds where
    ds: "lg_buffer (log_writes es ?lg) = map entry_line ds" "\<forall>d\<in>set ds. entry_level d = LDebug"
      "lg_disk (log_writes es ?lg) path @ map entry_line ds =
        lg_disk ?lg path @ map entry_line (filed (lg_fileLevel ?lg) es)"
    by auto
  have "length ds < 64"
    using log_inv_writes [OF inv, of es] ds(1) by (simp add: log_inv_def)
  with ds show ?thesis by (auto simp: Let_def)
qed

theorem log_file_complete_witness:
  "let lg = open_file 5 True ''a.log'' (server_log0 False 0 (\<lambda>_. []));
       lg' = log_writes [(6, ''t'', LInfo, ''up''), (7, ''u'', LDebug, ''x'')] lg in
    \<exists>ds. lg_buffer lg' = map entry_line ds \<and> length ds < 64 \<and> (\<forall>d\<in>set ds. entry_level d = LDebug) \<and>
      lg_disk lg' ''a.log'' @ map entry_line ds = [''t [INFO] up'' @ [CHR 0x0A], ''u [DEBUG] x'' @ [CHR 0x0A]]"
  using log_file_complete [OF run_start, of 5 "''a.log''" False 0 "\<lambda>_. []"
      "[(6, ''t'', LInfo, ''up''), (7, ''u'', LDebug, ''x'')]"]
  by (simp add: Let_def open_file_def flush_file_def server_log0_def filed_def entry_level_def
      entry_line_def log_plain_def log_body_def c_str_def)

text \<open>
  What a console shows of a line, whatever way it has of colouring: the stamp, the level in
  brackets and the body with its blanks collapsed to one between words. Escape sequences and
  attributes that \<open>write\<close> adds never change the text, provided the body has no escape character.
\<close>

lemma console_line_readable:
  assumes "level_code (lg_consoleLevel lg) \<le> level_code level" "esc \<notin> set st" "nul \<notin> set st"
    "esc \<notin> set (log_body fmt)"
  shows "\<exists>out. lg_console (log_write now st level fmt lg) = lg_console lg @ out \<and>
    strip_vt (console_text out) =
      st @ '' ['' @ level_name level @ ''] '' @ join_blank (body_tokens (log_body fmt)) @ [CHR 0x0A]"
proof -
  have "nul \<notin> set (log_body fmt)" by (simp add: log_body_def)
  from shows_console [OF assms(2,3,4) this, of lg level] obtain out where
    1: "write_console level st (level_name level) (log_body fmt) lg = lg\<lparr>lg_console := lg_console lg @ out\<rparr>"
    and 2: "\<And>t. strip_vt (console_text out @ t) =
      (st @ '' ['' @ level_name level @ ''] '' @ join_blank (body_tokens (log_body fmt)) @ [CHR 0x0A]) @ strip_vt t"
    by (auto simp: shows_text_def)
  have "lg_console (flush_file n l) = lg_console l" "lg_console (maybe_flush_timed n l) = lg_console l" for n l
    by (simp_all add: flush_file_def maybe_flush_timed_def)
  then have "lg_console (log_write now st level fmt lg) = lg_console lg @ out"
    using assms(1) 1 by (simp add: log_write_def Let_def)
  with 2 [of "[]"] show ?thesis by auto
qed

lemma console_line_readable_witness:
  "\<exists>out. lg_console (log_write 1 ''t'' LWarn ''  key=7   failed '' ((server_log0 False 0 (\<lambda>_. []))\<lparr>lg_vtOut := True\<rparr>)) = out \<and>
    strip_vt (console_text out) = ''t [WARN] key=7 failed'' @ [CHR 0x0A]"
  using console_line_readable [of "(server_log0 False 0 (\<lambda>_. []))\<lparr>lg_vtOut := True\<rparr>" LWarn "''t''"
      "''  key=7   failed ''" 1]
  by (simp add: server_log0_def log_body_def c_str_def body_tokens_def)

end
