(* ===== verification/WinConsole.thy ===== *)
theory WinConsole
  imports ServerLog
begin

text \<open>
  The console window of the Windows build, \<^verbatim>\<open>server/src/win_console.cpp\<close>: the redirection of the
  standard streams, the line splitter of the reader thread, the log view with its line limit and the
  command line with its queue.

  What Windows and the C run-time answer is an argument: the handles of \<^verbatim>\<open>CreatePipe\<close>, the
  descriptors of \<^verbatim>\<open>_dup\<close> and \<^verbatim>\<open>_open_osfhandle\<close>, the bytes of \<^verbatim>\<open>ReadFile\<close>, and of the edit control
  \<^verbatim>\<open>EM_GETLINECOUNT\<close> and \<^verbatim>\<open>EM_LINEINDEX\<close>. Layout, fonts and the message loop are not modelled.
\<close>

definition kMaxLogLines :: nat where "kMaxLogLines = 2000"

datatype std_target = StdOriginal | StdPipe

text \<open>\<open>wc_handles\<close> are the handles the object has opened and not closed or given away.\<close>

record win_console =
  wc_running :: bool
  wc_stdout_dup :: int
  wc_stderr_dup :: int
  wc_out_target :: std_target
  wc_err_target :: std_target
  wc_pipe_read :: "int option"
  wc_handles :: "int list"
  wc_threads :: bool
  wc_hwnd :: bool
  wc_title :: string
  wc_input_edit :: "string option"
  wc_log_edit :: "string option"
  wc_cmd_queue :: "string list"
  wc_pending_line :: string
  wc_log_queue :: "string list"
  wc_has_callback :: bool
  wc_shutdowns :: nat

definition win_console0 :: win_console where
  "win_console0 =
     \<lparr> wc_running = False, wc_stdout_dup = - 1, wc_stderr_dup = - 1, wc_out_target = StdOriginal,
       wc_err_target = StdOriginal, wc_pipe_read = None, wc_handles = [], wc_threads = False,
       wc_hwnd = False, wc_title = [], wc_input_edit = None, wc_log_edit = None, wc_cmd_queue = [],
       wc_pending_line = [], wc_log_queue = [], wc_has_callback = False, wc_shutdowns = 0 \<rparr>"

subsection \<open>Starting and stopping\<close>

definition wc_start :: "(int \<times> int) option \<Rightarrow> int \<Rightarrow> int \<Rightarrow> int \<Rightarrow> win_console \<Rightarrow> bool \<times> win_console" where
  "wc_start pipe dupOut dupErr pipe_fd w =
     (if wc_running w then (True, w)
      else let w1 = w\<lparr>wc_running := True\<rparr> in
        case pipe of
          None \<Rightarrow> (False, w1\<lparr>wc_running := False\<rparr>)
        | Some (hr, hw) \<Rightarrow>
            (let w2 = w1\<lparr>wc_handles := hr # hw # wc_handles w1, wc_stdout_dup := dupOut,
                         wc_stderr_dup := dupErr\<rparr>
             in if pipe_fd = - 1
                then (False, w2\<lparr>wc_handles := remove1 hr (wc_handles w2), wc_stdout_dup := - 1,
                                wc_stderr_dup := - 1, wc_running := False\<rparr>)
                else (True, w2\<lparr>wc_out_target := StdPipe, wc_err_target := StdPipe,
                               wc_handles := remove1 hw (wc_handles w2), wc_pipe_read := Some hr,
                               wc_threads := True\<rparr>)))"

text \<open>\<^verbatim>\<open>WM_CLOSE\<close>: after it the window is destroyed and \<^verbatim>\<open>run_ui\<close> ends, forgetting its controls.\<close>

definition on_close :: "win_console \<Rightarrow> win_console" where
  "on_close w =
     (let w1 = (if wc_has_callback w then w\<lparr>wc_shutdowns := wc_shutdowns w + 1\<rparr> else w)
      in w1\<lparr>wc_hwnd := False, wc_input_edit := None, wc_log_edit := None\<rparr>)"

definition wc_stop :: "win_console \<Rightarrow> win_console" where
  "wc_stop w =
     (if \<not> wc_running w then w
      else let w0 = w\<lparr>wc_running := False\<rparr>;
               w1 = (if wc_stdout_dup w0 \<noteq> - 1
                     then w0\<lparr>wc_out_target := StdOriginal, wc_stdout_dup := - 1\<rparr> else w0);
               w2 = (if wc_stderr_dup w1 \<noteq> - 1
                     then w1\<lparr>wc_err_target := StdOriginal, wc_stderr_dup := - 1\<rparr> else w1);
               w3 = (case wc_pipe_read w2 of
                       Some hr \<Rightarrow> w2\<lparr>wc_handles := remove1 hr (wc_handles w2), wc_pipe_read := None\<rparr>
                     | None \<Rightarrow> w2);
               w4 = (if wc_hwnd w3 then on_close w3 else w3)
           in w4\<lparr>wc_threads := False\<rparr>)"

subsection \<open>The command line\<close>

definition wc_poll :: "win_console \<Rightarrow> string option \<times> win_console" where
  "wc_poll w =
     (case wc_cmd_queue w of
        [] \<Rightarrow> (None, w)
      | c # cs \<Rightarrow> (Some c, w\<lparr>wc_cmd_queue := cs\<rparr>))"

definition wc_set_title :: "string \<Rightarrow> win_console \<Rightarrow> win_console" where
  "wc_set_title title w = (if \<not> wc_hwnd w then w else w\<lparr>wc_title := title\<rparr>)"

definition wc_set_shutdown_callback :: "bool \<Rightarrow> win_console \<Rightarrow> win_console" where
  "wc_set_shutdown_callback callback w = w\<lparr>wc_has_callback := callback\<rparr>"

definition trim_line_end :: "string \<Rightarrow> string" where
  "trim_line_end s =
     rev (dropWhile (\<lambda>c. c = CHR 0x0D \<or> c = CHR 0x0A \<or> c = CHR '' '') (rev s))"

text \<open>\<^verbatim>\<open>GetWindowTextA\<close> copies at most 1022 characters and a terminating NUL into the buffer.\<close>

definition submit_input :: "win_console \<Rightarrow> win_console" where
  "submit_input w =
     (case wc_input_edit w of
        None \<Rightarrow> w
      | Some text \<Rightarrow>
          (let w1 = w\<lparr>wc_input_edit := Some []\<rparr>;
               line = trim_line_end (c_str (take 1022 text))
           in if line = [] then w1 else w1\<lparr>wc_cmd_queue := wc_cmd_queue w1 @ [line]\<rparr>))"

subsection \<open>The reader thread\<close>

definition pop_cr :: "string \<Rightarrow> string" where
  "pop_cr line = (if line \<noteq> [] \<and> last line = CHR 0x0D then butlast line else line)"

text \<open>The inner loop: the lines from \<open>pos\<close> on, and where it stopped.\<close>

function take_lines :: "string \<Rightarrow> nat \<Rightarrow> string list \<times> nat" where
  "take_lines pending pos =
     (case find_char CHR 0x0A pending pos of
        None \<Rightarrow> ([], pos)
      | Some nl \<Rightarrow>
          (let line = pop_cr (substr pending pos (nl - pos));
               (ls, stop) = take_lines pending (nl + 1)
           in (line # ls, stop)))"
  by pat_completeness auto
termination
proof (relation "measure (\<lambda>(p, pos). Suc (length p) - pos)", goal_cases)
  case (2 pending pos nl x)
  have "pos \<le> length pending"
    using 2(1) by (auto simp: find_char_def find_from_def split: if_splits)
  moreover have "pos \<le> nl"
    using 2(1) by (auto simp: find_char_def find_from_def split: if_splits)
  ultimately show ?case by simp
qed simp

declare take_lines.simps [simp del]

text \<open>One turn of \<^verbatim>\<open>run_reader\<close>: \<open>chunk\<close> is what \<^verbatim>\<open>ReadFile\<close> put into the buffer.\<close>

definition read_chunk :: "string \<Rightarrow> win_console \<Rightarrow> win_console" where
  "read_chunk chunk w =
     (let pending = wc_pending_line w @ c_str chunk;
          (ls, pos) = take_lines pending 0
      in w\<lparr>wc_log_queue := wc_log_queue w @ ls,
           wc_pending_line := (if pos < length pending then drop pos pending else [])\<rparr>)"

text \<open>\<open>None\<close>: \<^verbatim>\<open>ReadFile\<close> fails; it never asks for more than 4095 bytes.\<close>

fun run_reader :: "string option list \<Rightarrow> win_console \<Rightarrow> win_console" where
  "run_reader [] w = w"
| "run_reader (r # rs) w =
     (if \<not> wc_running w then w
      else case r of
        None \<Rightarrow> w
      | Some chunk \<Rightarrow> (if chunk = [] then w else run_reader rs (read_chunk (take 4095 chunk) w)))"

subsection \<open>The log view\<close>

text \<open>
  \<open>lineCount\<close> and \<open>lineIndex\<close> are the answers of the edit control for its text. Replacing the
  selection from 0 to \<open>n\<close> by nothing drops the first \<open>n\<close> characters.
\<close>

definition trim_log_buffer ::
  "(string \<Rightarrow> nat) \<Rightarrow> (string \<Rightarrow> nat \<Rightarrow> int) \<Rightarrow> string \<Rightarrow> string" where
  "trim_log_buffer lineCount lineIndex text =
     (let count = lineCount text
      in if count \<le> kMaxLogLines then text
         else let remove = count - kMaxLogLines;
                  first_index = lineIndex text remove
              in if first_index \<ge> 0 then drop (nat (first_index + 1)) text else text)"

definition append_log_line ::
  "(string \<Rightarrow> nat) \<Rightarrow> (string \<Rightarrow> nat \<Rightarrow> int) \<Rightarrow> string \<Rightarrow> win_console \<Rightarrow> win_console" where
  "append_log_line lineCount lineIndex line w =
     (case wc_log_edit w of
        None \<Rightarrow> w
      | Some text \<Rightarrow>
          (let t1 = (if length text > 0 then text @ [CHR 0x0D, CHR 0x0A] else text)
           in w\<lparr>wc_log_edit := Some (trim_log_buffer lineCount lineIndex (t1 @ c_str line))\<rparr>))"

definition on_timer ::
  "(string \<Rightarrow> nat) \<Rightarrow> (string \<Rightarrow> nat \<Rightarrow> int) \<Rightarrow> win_console \<Rightarrow> win_console" where
  "on_timer lineCount lineIndex w =
     fold (append_log_line lineCount lineIndex) (wc_log_queue w) (w\<lparr>wc_log_queue := []\<rparr>)"


subsection \<open>Lines, whatever way they are cut\<close>

text \<open>Cutting at a character, and cutting what is appended later.\<close>

lemma split_absent: "c \<notin> set s \<Longrightarrow> split_at_char c s = [s]"
  by (induction s) auto

lemma split_first: "c \<notin> set a \<Longrightarrow> split_at_char c (a @ c # b) = a # split_at_char c b"
  by (induction a) auto

lemma split_append:
  "split_at_char c (s @ t) = butlast (split_at_char c s) @ split_at_char c (last (split_at_char c s) @ t)"
proof (induction s)
  case (Cons x s)
  obtain w ws where "split_at_char c s = w # ws" by (cases "split_at_char c s") auto
  with Cons show ?case by (cases ws) auto
qed simp

lemma last_split_absent: "c \<notin> set (last (split_at_char c s))"
proof (induction s)
  case (Cons x s)
  obtain w ws where "split_at_char c s = w # ws" by (cases "split_at_char c s") auto
  with Cons show ?case by (cases ws) auto
qed simp

lemma split_single: "split_at_char c s = [w] \<Longrightarrow> w = s"
proof (induction s arbitrary: w)
  case (Cons x s)
  then show ?case by (cases "split_at_char c s") (auto split: if_splits)
qed simp

lemma last_split_suffix: "\<exists>p. s = p @ last (split_at_char c s)"
proof (induction s)
  case IH: (Cons x s)
  obtain w ws where w: "split_at_char c s = w # ws" by (cases "split_at_char c s") auto
  show ?case
  proof (cases ws)
    case Nil
    with w have "w = s" using split_single by metis
    with w Nil show ?thesis by auto
  next
    case (Cons v vs)
    from IH obtain p where "s = p @ last (split_at_char c s)" by auto
    then have "x # s = (x # p) @ last (split_at_char c s)" by simp
    with w Cons show ?thesis by (auto intro: exI [of _ "x # p"])
  qed
qed simp

lemma find_sub_singleton: "find_sub [c] s = (if c \<in> set s then Some (length (takeWhile (\<lambda>d. d \<noteq> c) s)) else None)"
  by (induction s) auto

lemma find_char_drop:
  assumes "pos \<le> length s"
  shows "find_char c s pos =
    (if c \<in> set (drop pos s) then Some (pos + length (takeWhile (\<lambda>d. d \<noteq> c) (drop pos s))) else None)"
  using assms by (simp add: find_char_def find_from_def find_sub_singleton)

lemma takeWhile_first: "c \<notin> set a \<Longrightarrow> takeWhile (\<lambda>d. d \<noteq> c) (a @ c # b) = a"
  by (induction a) auto

lemma take_lines_spec:
  "pos \<le> length p \<Longrightarrow>
   take_lines p pos =
     (map pop_cr (butlast (split_at_char CHR 0x0A (drop pos p))),
      length p - length (last (split_at_char CHR 0x0A (drop pos p))))"
proof (induction p pos rule: take_lines.induct)
  case (1 p pos)
  let ?d = "drop pos p" and ?nl = "CHR 0x0A"
  show ?case
  proof (cases "?nl \<in> set ?d")
    case False
    then have "find_char ?nl p pos = None" using 1(2) by (simp add: find_char_drop)
    with False 1(2) show ?thesis
      by (subst take_lines.simps) (simp add: split_absent)
  next
    case True
    let ?a = "takeWhile (\<lambda>d. d \<noteq> ?nl) ?d"
    from split_list_first [OF True] obtain a b where ab: "?d = a @ ?nl # b" "?nl \<notin> set a" by blast
    have "?a = a" unfolding ab(1) by (rule takeWhile_first [OF ab(2)])
    with ab have b: "?d = ?a @ ?nl # b" by metis
    have na: "?nl \<notin> set ?a" by (auto dest: set_takeWhileD)
    have f: "find_char ?nl p pos = Some (pos + length ?a)" using True 1(2) by (simp add: find_char_drop)
    have len: "pos + length ?a + 1 \<le> length p"
      using arg_cong [OF b, of length] 1(2) by simp
    have d2: "drop (pos + length ?a + 1) p = b"
    proof -
      have "drop (pos + length ?a + 1) p = drop (length ?a + 1) ?d" by (simp add: add.commute)
      also have "\<dots> = b" by (subst b) simp
      finally show ?thesis .
    qed
    have line: "substr p pos (pos + length ?a - pos) = ?a"
      unfolding substr_def by (subst b) simp
    from 1(1) [OF f refl] len d2
    have "take_lines p (pos + length ?a + 1) =
      (map pop_cr (butlast (split_at_char ?nl b)), length p - length (last (split_at_char ?nl b)))"
      by simp
    moreover have "split_at_char ?nl ?d = ?a # split_at_char ?nl b"
      using split_first [OF na, of b] b by simp
    ultimately show ?thesis
      using f line by (subst take_lines.simps) simp
  qed
qed

lemma read_chunk_lines:
  "read_chunk chunk w =
     w\<lparr>wc_log_queue := wc_log_queue w @ map pop_cr (butlast (split_at_char CHR 0x0A (wc_pending_line w @ c_str chunk))),
       wc_pending_line := last (split_at_char CHR 0x0A (wc_pending_line w @ c_str chunk))\<rparr>"
proof -
  let ?p = "wc_pending_line w @ c_str chunk"
  obtain q where q: "?p = q @ last (split_at_char CHR 0x0A ?p)" using last_split_suffix by blast
  then have "(if length ?p - length (last (split_at_char CHR 0x0A ?p)) < length ?p
     then drop (length ?p - length (last (split_at_char CHR 0x0A ?p))) ?p else []) = last (split_at_char CHR 0x0A ?p)"
    by (metis append_eq_conv_conj diff_add_inverse2 diff_less_mono2 length_append length_greater_0_conv
        less_add_same_cancel2 linorder_neqE_nat not_less_zero self_append_conv)
  then show ?thesis by (simp add: read_chunk_def take_lines_spec Let_def)
qed

text \<open>
  The lines of the log window do not depend on how the pipe cut the output: after any
  sequence of reads of non-empty pieces without NUL, the queue has got the lines of everything read,
  in order and without their carriage returns, and the text after the last line feed waits for more.
\<close>

lemma console_lines_any_chunking:
  assumes "wc_running w" "wc_pending_line w = []"
    "\<forall>c\<in>set chunks. c \<noteq> [] \<and> length c \<le> 4095 \<and> nul \<notin> set c"
  shows "run_reader (map Some chunks) w =
    w\<lparr>wc_log_queue := wc_log_queue w @ map pop_cr (butlast (split_at_char CHR 0x0A (concat chunks))),
      wc_pending_line := last (split_at_char CHR 0x0A (concat chunks))\<rparr>"
proof -
  have "run_reader (map Some chunks) w =
    w\<lparr>wc_log_queue := wc_log_queue w @ map pop_cr (butlast (split_at_char CHR 0x0A (wc_pending_line w @ concat chunks))),
      wc_pending_line := last (split_at_char CHR 0x0A (wc_pending_line w @ concat chunks))\<rparr>"
    if "wc_running w" "CHR 0x0A \<notin> set (wc_pending_line w)" for w
    using assms(3) that
  proof (induction chunks arbitrary: w)
    case Nil
    then show ?case by (simp add: split_absent)
  next
    case (Cons c chunks)
    let ?p = "wc_pending_line w"
    let ?s = "split_at_char CHR 0x0A (?p @ c)"
    have run: "run_reader (map Some (c # chunks)) w =
      run_reader (map Some chunks) (w\<lparr>wc_log_queue := wc_log_queue w @ map pop_cr (butlast ?s), wc_pending_line := last ?s\<rparr>)"
      using Cons.prems by (simp add: read_chunk_lines c_str_idem)
    have ap: "split_at_char CHR 0x0A (?p @ c @ concat chunks) =
      butlast ?s @ split_at_char CHR 0x0A (last ?s @ concat chunks)"
      using split_append [of "CHR 0x0A" "?p @ c" "concat chunks"] by simp
    show ?case
      unfolding run using Cons.prems
      by (subst Cons.IH) (simp_all add: last_split_absent ap butlast_append)
  qed
  from this [OF assms(1)] assms(2) show ?thesis by simp
qed

lemma console_lines_any_chunking_witness:
  "run_reader [Some ''ab'', Some (''c'' @ [CHR 0x0D, CHR 0x0A] @ ''d'')] (win_console0\<lparr>wc_running := True\<rparr>) =
    win_console0\<lparr>wc_running := True, wc_log_queue := [''abc''], wc_pending_line := ''d''\<rparr>"
  using console_lines_any_chunking [of "win_console0\<lparr>wc_running := True\<rparr>"
      "[''ab'', ''c'' @ [CHR 0x0D, CHR 0x0A] @ ''d'']"]
  by (simp add: win_console0_def pop_cr_def)

subsection \<open>Commands\<close>

lemma trim_line_end_last:
  "trim_line_end s \<noteq> [] \<Longrightarrow> last (trim_line_end s) \<notin> {CHR 0x0D, CHR 0x0A, CHR '' ''}"
  unfolding trim_line_end_def using hd_dropWhile [of "\<lambda>c. c = CHR 0x0D \<or> c = CHR 0x0A \<or> c = CHR '' ''" "rev s"]
  by (auto simp: last_rev)

text \<open>No empty command and none with trailing blanks is ever queued; a command is handed out once, in order.\<close>

lemma submit_then_poll:
  assumes "wc_input_edit w = Some text" "trim_line_end (c_str (take 1022 text)) \<noteq> []"
  shows "\<exists>rest w'. wc_poll (submit_input w) = (Some (hd (wc_cmd_queue w @ [trim_line_end (c_str (take 1022 text))])), w') \<and>
    wc_cmd_queue w' = tl (wc_cmd_queue w @ [trim_line_end (c_str (take 1022 text))])"
  using assms by (cases "wc_cmd_queue w") (auto simp: submit_input_def wc_poll_def Let_def)

subsection \<open>The oldest line of the log view\<close>

text \<open>
  The text of an edit control with the given lines. When the view is over its limit,
  \<open>trim_log_buffer\<close> means to drop the first lines; selecting up to the index of the first line kept,
  plus one, drops the first character of that line as well.
\<close>

definition view_text :: "string list \<Rightarrow> string" where
  "view_text ls = concat (map (\<lambda>l. l @ [CHR 0x0D, CHR 0x0A]) (butlast ls)) @ last ls"

lemma trim_drops_one_more:
  assumes "length gone + length kept = lineCount (view_text (gone @ kept))" "length kept = kMaxLogLines"
    and "gone \<noteq> []" "lineIndex (view_text (gone @ kept)) (length gone) =
      int (length (concat (map (\<lambda>l. l @ [CHR 0x0D, CHR 0x0A]) gone)))"
  shows "trim_log_buffer lineCount lineIndex (view_text (gone @ kept)) = tl (view_text kept)"
proof -
  have k: "kept \<noteq> []" using assms(2) by (auto simp: kMaxLogLines_def)
  then have v: "view_text (gone @ kept) = concat (map (\<lambda>l. l @ [CHR 0x0D, CHR 0x0A]) gone) @ view_text kept"
    by (simp add: view_text_def butlast_append)
  have c: "lineCount (view_text (gone @ kept)) - kMaxLogLines = length gone"
    "\<not> lineCount (view_text (gone @ kept)) \<le> kMaxLogLines"
    using assms(1,2,3) by (simp_all flip: assms(1))
  show ?thesis
    using c assms(4) by (simp add: trim_log_buffer_def Let_def v nat_add_distrib drop_Suc flip: tl_drop)
qed

subsection \<open>Stopping\<close>

text \<open>A stop after a start gives the standard streams back and closes the pipe.\<close>

lemma stop_after_start:
  assumes "\<not> wc_running w" "dupOut \<noteq> - 1" "dupErr \<noteq> - 1" "pipe_fd \<noteq> - 1" "hr \<noteq> hw"
    "wc_start (Some (hr, hw)) dupOut dupErr pipe_fd w = (ok, w')"
  shows "ok \<and> wc_out_target (wc_stop w') = StdOriginal \<and> wc_err_target (wc_stop w') = StdOriginal \<and>
    wc_handles (wc_stop w') = wc_handles w \<and> \<not> wc_threads (wc_stop w')"
  using assms by (auto simp: wc_start_def wc_stop_def on_close_def Let_def)

text \<open>When the C run-time has no descriptor left, the write end of the pipe is never closed.\<close>

lemma failed_start_keeps_handle:
  assumes "\<not> wc_running w" "hr \<noteq> hw"
  shows "wc_handles (snd (wc_start (Some (hr, hw)) dupOut dupErr (- 1) w)) = hw # wc_handles w"
  using assms by (simp add: wc_start_def)

end
