(* ===== verification/PluginConfig.thy ===== *)
theory PluginConfig
  imports Client
begin

text \<open>
  The settings of the plugin, \<^verbatim>\<open>plugin/src/config.cpp\<close>: reading them from the INI file at start, the
  player key in its side file, and saving the address, the name and the password.

  The INI file is what the Windows profile functions answer: the string of a section and key, if
  there is one. Converting such a string to a number (\<^verbatim>\<open>GetPrivateProfileIntA\<close>) and writing one
  (\<^verbatim>\<open>WritePrivateProfileStringA\<close>) are arguments, as are the path of the module, the tick count and
  the name Steam knows the player by.
\<close>

subsection \<open>The environment\<close>

type_synonym profile = "string \<Rightarrow> string \<Rightarrow> string option"

record plugin_files =
  pf_ini :: profile
  pf_text :: "string \<Rightarrow> string option"

record config_env =
  cf_module :: string
  cf_parseInt :: "string \<Rightarrow> u32"
  cf_write :: "profile \<Rightarrow> string \<Rightarrow> string \<Rightarrow> string \<Rightarrow> profile"
  cf_haveWrite :: bool
  cf_writable :: "string \<Rightarrow> bool"
  cf_ticks :: u64
  cf_steam :: string

subsection \<open>Paths and keys\<close>

definition find_last_of :: "char \<Rightarrow> string \<Rightarrow> nat option" where
  "find_last_of c s =
     (if c \<in> set s then Some (length s - 1 - length (takeWhile (\<lambda>d. d \<noteq> c) (rev s))) else None)"

definition IniPath :: "config_env \<Rightarrow> string" where
  "IniPath e =
     (let full = c_str (take 259 (cf_module e))
      in case find_last_of CHR ''.'' full of
           Some dot \<Rightarrow> take dot full @ ''.ini''
         | None \<Rightarrow> full @ ''.ini'')"

definition KeyPath :: "string \<Rightarrow> string" where
  "KeyPath ini =
     (case find_last_of CHR ''.'' ini of None \<Rightarrow> ini | Some dot \<Rightarrow> take dot ini) @ ''.playerkey''"

definition IniStr :: "plugin_files \<Rightarrow> string \<Rightarrow> string \<Rightarrow> string \<Rightarrow> string" where
  "IniStr f section key fallback =
     take 511 (c_str (case pf_ini f section key of None \<Rightarrow> fallback | Some v \<Rightarrow> v))"

definition IniInt :: "config_env \<Rightarrow> plugin_files \<Rightarrow> string \<Rightarrow> string \<Rightarrow> int \<Rightarrow> u32" where
  "IniInt e f section key dflt =
     (case pf_ini f section key of None \<Rightarrow> word_of_int dflt | Some v \<Rightarrow> cf_parseInt e v)"

definition SanitizeKey :: "string \<Rightarrow> string" where
  "SanitizeKey raw = sanitize_player_key raw []"

definition hex_digit_up :: "nat \<Rightarrow> char" where
  "hex_digit_up n = (if n < 10 then char_of (48 + n) else char_of (55 + n))"

text \<open>\<^verbatim>\<open>%08X\<close>.\<close>

definition hex8_up :: "u32 \<Rightarrow> string" where
  "hex8_up w = map (\<lambda>i. hex_digit_up (unat (drop_bit (4 * (7 - i)) w) mod 16)) [0..<8]"

definition GenerateKey :: "config_env \<Rightarrow> string" where
  "GenerateKey e =
     (let h = Fnv1aAppend 2166136261 (c_str (take 259 (cf_module e)));
          t = (ucast (cf_ticks e AND 0xFFFFFFFF) :: u32)
      in hex8_up h @ hex8_up t)"

definition first_line :: "string \<Rightarrow> string" where
  "first_line s = takeWhile (\<lambda>c. c \<noteq> CHR 0x0A) s"

text \<open>The key and the files afterwards.\<close>

definition LoadOrCreatePlayerKey :: "config_env \<Rightarrow> string \<Rightarrow> plugin_files \<Rightarrow> string \<times> plugin_files" where
  "LoadOrCreatePlayerKey e ini f =
     (let key = SanitizeKey (IniStr f ''Session'' ''PlayerKey'' [])
      in if key \<noteq> [] then (key, f)
         else
           let side = KeyPath ini;
               fromSide = (case pf_text f side of None \<Rightarrow> [] | Some t \<Rightarrow> SanitizeKey (first_line t))
           in if fromSide \<noteq> [] then (fromSide, f)
              else
                let key = GenerateKey e
                in (key, if cf_writable e side
                         then f\<lparr>pf_text := (pf_text f)(side := Some key)\<rparr> else f))"

subsection \<open>Loading\<close>

text \<open>
  \<^verbatim>\<open>strtoul(s, \<dots>, 16)\<close> with the 32-bit \<^verbatim>\<open>unsigned long\<close> of Windows: \<open>None\<close> when nothing was parsed,
  the largest value when it does not fit.
\<close>

definition strtoul16_win :: "string \<Rightarrow> u32 option" where
  "strtoul16_win s =
     (let s1 = dropWhile c_isspace s; s2 = skip_sign s1;
          s3 = (if lower_copy (take 2 s2) = ''0x'' \<and> takeWhile is_xdigit (drop 2 s2) \<noteq> []
                then drop 2 s2 else s2);
          ds = takeWhile is_xdigit s3
      in if ds = [] then None
         else if 2 ^ 32 \<le> hex_val ds then Some 0xFFFFFFFF
         else Some (if neg_sign s1 then - word_of_nat (hex_val ds) else word_of_nat (hex_val ds)))"

definition source_form :: "string \<Rightarrow> u32" where
  "source_form raw =
     (case strtoul16_win raw of
        Some parsed \<Rightarrow> if parsed \<noteq> 0 then parsed else 0x0001D323
      | None \<Rightarrow> 0x0001D323)"

definition fmin32 :: "f32 \<Rightarrow> f32 \<Rightarrow> f32" where
  "fmin32 a b = (if f32_less b a then b else a)"

definition fmax32 :: "f32 \<Rightarrow> f32 \<Rightarrow> f32" where
  "fmax32 a b = (if f32_less a b then b else a)"

definition font_scale :: "u32 \<Rightarrow> f32" where
  "font_scale v =
     fmax32 0x3E800000 (fmin32 (f32_of_int 4) (f32_div (f32_of_int (uint v)) (f32_of_int 100)))"

definition resize_to :: "nat \<Rightarrow> string \<Rightarrow> string" where
  "resize_to n s = (if length s > n then take n s else s)"

definition CMP_LoadSettings :: "config_env \<Rightarrow> plugin_files \<Rightarrow> plugin_files \<times> settings" where
  "CMP_LoadSettings e f =
     (let ini = IniPath e;
          iniName = IniStr f ''Session'' ''PlayerName'' [];
          name = (if iniName \<noteq> [] then iniName
                  else if cf_steam e \<noteq> [] then cf_steam e else ''Player'');
          (key, f') = LoadOrCreatePlayerKey e ini f
      in (f',
          \<lparr>se_host = IniStr f ''Network'' ''Host'' ''127.0.0.1'',
           se_port = ucast (IniInt e f ''Network'' ''Port'' (uint kDefaultPort)),
           se_autoJoin = (IniInt e f ''Network'' ''AutoJoin'' 0 \<noteq> 0),
           se_ghostEditorId = IniStr f ''Ghost'' ''EditorID'' ''CMP_RemotePlayer'',
           se_ghostSpawn = (IniInt e f ''Ghost'' ''Spawn'' 1 \<noteq> 0),
           se_ghostSourceForm = source_form (IniStr f ''Ghost'' ''SourceForm'' ''1D323''),
           se_poseHz = max 1 (sint (IniInt e f ''Debug'' ''PoseHz'' 20)),
           se_interpDelayMs = sint (IniInt e f ''Network'' ''InterpDelayMs'' (- 1)),
           se_reliableRetries = max 1 (sint (IniInt e f ''Network'' ''ReliableRetries'' 8)),
           se_blobAssembleTtlMs = max 500 (sint (IniInt e f ''Network'' ''BlobAssembleTtlMs'' 5000)),
           se_pointerHud = (IniInt e f ''Debug'' ''PointerHud'' 1 \<noteq> 0),
           se_pointerSeconds = max 1 (sint (IniInt e f ''Debug'' ''PointerSeconds'' 4)),
           se_playerKey = key,
           se_playerName = name,
           se_password = resize_to 15 (IniStr f ''Network'' ''Password'' []),
           se_serverExe = IniStr f ''Network'' ''ServerExe'' [],
           se_overlayVisible = (IniInt e f ''UI'' ''OverlayVisible'' 0 \<noteq> 0),
           se_overlayChatOpen = (IniInt e f ''UI'' ''ChatOpen'' 1 \<noteq> 0),
           se_overlayDebugOpen = (IniInt e f ''UI'' ''DebugOpen'' 1 \<noteq> 0),
           se_overlayToggleKey = IniInt e f ''UI'' ''ToggleKey'' 0x2D,
           se_overlayFontScale = font_scale (IniInt e f ''UI'' ''FontScale'' 100),
           se_presenceDiscord = (IniInt e f ''Presence'' ''Discord'' 1 \<noteq> 0),
           se_presenceSteam = (IniInt e f ''Presence'' ''Steam'' 0 \<noteq> 0)\<rparr>))"

subsection \<open>Saving\<close>

text \<open>The files and settings, as the session holds them.\<close>

type_synonym config_state = "plugin_files \<times> settings"

definition write_ini :: "config_env \<Rightarrow> string \<Rightarrow> string \<Rightarrow> string \<Rightarrow> plugin_files \<Rightarrow> plugin_files" where
  "write_ini e section key v f =
     (if cf_haveWrite e then f\<lparr>pf_ini := cf_write e (pf_ini f) section key v\<rparr> else f)"

definition CMP_SaveNetworkSettings :: "config_env \<Rightarrow> string \<Rightarrow> u16 \<Rightarrow> config_state \<Rightarrow> config_state" where
  "CMP_SaveNetworkSettings e host port st =
     (let s = (snd st)\<lparr>se_host := (if host = [] then ''127.0.0.1'' else host),
                       se_port := (if port = 0 then kDefaultPort else port)\<rparr>;
          f1 = write_ini e ''Network'' ''Host'' (c_str (se_host s)) (fst st);
          f2 = write_ini e ''Network'' ''Port'' (dec_str (unat (se_port s))) f1
      in (f2, s))"

abbreviation is_blank :: "char \<Rightarrow> bool" where
  "is_blank c \<equiv> c = CHR '' '' \<or> c = CHR 0x09"

text \<open>The two loops that strip blanks and tabs, here and in \<^verbatim>\<open>menu/forms.cpp\<close> and \<^verbatim>\<open>menu/stamp.cpp\<close>.\<close>

definition trim_front :: "string \<Rightarrow> string" where
  "trim_front s = dropWhile (\<lambda>c. is_blank c) s"

definition trim_back :: "string \<Rightarrow> string" where
  "trim_back s = rev (dropWhile (\<lambda>c. is_blank c) (rev s))"

definition TrimCopy :: "string \<Rightarrow> string" where
  "TrimCopy s = trim_back (trim_front s)"

definition CMP_SavePlayerName :: "config_env \<Rightarrow> string \<Rightarrow> config_state \<Rightarrow> config_state" where
  "CMP_SavePlayerName e name st =
     (let trimmed = resize_to 31 (trim_back (trim_front name));
          placeholder = (trimmed = [] \<or> trimmed = ''Player'');
          f1 = write_ini e ''Session'' ''PlayerName'' (if placeholder then [] else c_str trimmed) (fst st)
      in if placeholder
         then (f1, (snd st)\<lparr>se_playerName := (if cf_steam e = [] then ''Player'' else cf_steam e)\<rparr>)
         else (f1, (snd st)\<lparr>se_playerName := trimmed\<rparr>))"

definition CMP_RefreshPlayerNameFromSteam :: "config_env \<Rightarrow> bool \<Rightarrow> config_state \<Rightarrow> config_state" where
  "CMP_RefreshPlayerNameFromSteam e force st =
     (let iniName = IniStr (fst st) ''Session'' ''PlayerName'' []; n = se_playerName (snd st)
      in if \<not> force \<and> iniName \<noteq> [] \<and> iniName \<noteq> ''Player'' then st
         else if \<not> force \<and> n \<noteq> ''Player'' \<and> n \<noteq> [] \<and> n \<noteq> ''fo4'' then st
         else if cf_steam e = [] then st
         else (fst st, (snd st)\<lparr>se_playerName := cf_steam e\<rparr>))"

definition CMP_SavePassword :: "config_env \<Rightarrow> string \<Rightarrow> config_state \<Rightarrow> config_state" where
  "CMP_SavePassword e password st =
     (let trimmed = resize_to 15 (trim_back (trim_front password));
          f1 = write_ini e ''Network'' ''Password'' (c_str trimmed) (fst st)
      in (f1, (snd st)\<lparr>se_password := trimmed\<rparr>))"


subsection \<open>Facts about the pieces\<close>

lemma length_IniStr [simp]: "length (IniStr f section key fallback) \<le> 511"
  by (simp add: IniStr_def)

lemma nul_IniStr [simp]: "nul \<notin> set (IniStr f section key fallback)"
  using nul_notin_c_str by (auto simp: IniStr_def dest: in_set_takeD)

lemma length_resize_to [simp]: "length (resize_to n s) \<le> n"
  by (simp add: resize_to_def)

lemma source_form_pos [simp]: "source_form raw \<noteq> 0"
  by (simp add: source_form_def split: option.split)

lemma f32_clamp_range:
  assumes "\<not> f32_less hi lo"
  shows "\<not> f32_less (fmax32 lo (fmin32 hi x)) lo \<and> \<not> f32_less hi (fmax32 lo (fmin32 hi x))"
  using assms by (auto simp: fmax32_def fmin32_def f32_less_def dest: fp_less_asym)

lemma font_scale_range: "\<not> f32_less (font_scale v) 0x3E800000 \<and> \<not> f32_less (f32_of_int 4) (font_scale v)"
  unfolding font_scale_def by (rule f32_clamp_range) (simp add: f32_of_int_def ieee_eval)

text \<open>Keys made here pass the check of the server.\<close>

lemma key_char_hex: "n < 16 \<Longrightarrow> key_char (hex_digit_up n)"
  by (simp add: hex_digit_up_def key_char_def c_isalnum_def c_isalpha_def is_digit_def)

lemma hex8_up_ok: "length (hex8_up w) = 8" "list_all key_char (hex8_up w)"
  by (simp_all add: hex8_up_def list_all_iff key_char_hex)

lemma GenerateKey_ok: "player_key_ok (GenerateKey e)" "length (GenerateKey e) = 16"
proof -
  show 16: "length (GenerateKey e) = 16" by (simp add: GenerateKey_def hex8_up_ok)
  have "list_all key_char (GenerateKey e)" by (simp add: GenerateKey_def hex8_up_ok)
  moreover have "GenerateKey e \<noteq> []" using 16 by force
  ultimately show "player_key_ok (GenerateKey e)"
    using 16 by (simp add: player_key_ok_def kPlayerKeyMax_def)
qed

lemma SanitizeKey_ok: "SanitizeKey raw \<noteq> [] \<Longrightarrow> player_key_ok (SanitizeKey raw)"
  using player_key_ok_sanitize [of raw "[]"] by (auto simp: SanitizeKey_def)

lemma SanitizeKey_idem: "player_key_ok k \<Longrightarrow> SanitizeKey k = k"
  by (simp add: SanitizeKey_def sanitize_idem)

lemma LoadOrCreate_ok: "player_key_ok (fst (LoadOrCreatePlayerKey e ini f))"
  by (auto simp: LoadOrCreatePlayerKey_def Let_def SanitizeKey_ok GenerateKey_ok split: option.splits)

lemma LoadOrCreate_ini [simp]: "pf_ini (snd (LoadOrCreatePlayerKey e ini f)) = pf_ini f"
  by (simp add: LoadOrCreatePlayerKey_def Let_def)

lemma key_char_not_newline: "list_all key_char k \<Longrightarrow> CHR 0x0A \<notin> set k"
proof -
  have "\<not> key_char (CHR 0x0A)" by (simp add: key_char_def c_isalnum_def c_isalpha_def is_digit_def)
  then show "list_all key_char k \<Longrightarrow> CHR 0x0A \<notin> set k" by (auto simp: list_all_iff)
qed

lemma first_line_key: "player_key_ok k \<Longrightarrow> first_line k = k"
  using key_char_not_newline [of k] by (auto simp: first_line_def player_key_ok_def takeWhile_eq_all_conv)

subsection \<open>Properties\<close>

text \<open>
  C31: whatever the INI file holds, the settings the plugin starts with are usable: the rates and
  delays are at least their minimum, the password fits a Hello, the font scale lies between a quarter
  and four, there is a form to copy ghosts from, the name is not empty, and the key is one the server
  takes as it is.
\<close>

theorem settings_in_bounds:
  "let s = snd (CMP_LoadSettings e f) in
     1 \<le> se_poseHz s \<and> 1 \<le> se_reliableRetries s \<and> 500 \<le> se_blobAssembleTtlMs s \<and> 1 \<le> se_pointerSeconds s \<and>
     length (se_password s) \<le> 15 \<and> se_ghostSourceForm s \<noteq> 0 \<and> se_playerName s \<noteq> [] \<and>
     \<not> f32_less (se_overlayFontScale s) 0x3E800000 \<and> \<not> f32_less (f32_of_int 4) (se_overlayFontScale s) \<and>
     se_playerKey s \<noteq> [] \<and> sanitize_player_key (se_playerKey s) ''player'' = se_playerKey s"
proof -
  let ?s = "snd (CMP_LoadSettings e f)"
  have key: "se_playerKey ?s = fst (LoadOrCreatePlayerKey e (IniPath e) f)"
    and scale: "se_overlayFontScale ?s = font_scale (IniInt e f ''UI'' ''FontScale'' 100)"
    and form: "se_ghostSourceForm ?s = source_form (IniStr f ''Ghost'' ''SourceForm'' ''1D323'')"
    and pw: "se_password ?s = resize_to 15 (IniStr f ''Network'' ''Password'' [])"
    by (simp_all only: CMP_LoadSettings_def Let_def split_beta snd_conv settings.select_convs)
  have rates: "1 \<le> se_poseHz ?s" "1 \<le> se_reliableRetries ?s" "500 \<le> se_blobAssembleTtlMs ?s"
      "1 \<le> se_pointerSeconds ?s"
    by (simp_all only: CMP_LoadSettings_def Let_def split_beta snd_conv settings.select_convs max.cobounded1)
  have name: "se_playerName ?s \<noteq> []"
    unfolding CMP_LoadSettings_def Let_def split_beta snd_conv settings.select_convs by simp
  have ok: "player_key_ok (se_playerKey ?s)" unfolding key by (rule LoadOrCreate_ok)
  then have "se_playerKey ?s \<noteq> []" by (simp add: player_key_ok_def)
  then show ?thesis
    unfolding Let_def using rates name sanitize_idem [OF ok] font_scale_range
    by (simp only: scale form pw length_resize_to source_form_pos) simp
qed

text \<open>
  A player keeps the key. When the INI file names none and the side file can be written, every
  later start of the same installation finds the key of the first start, whatever the clock says then.
\<close>

lemma player_key_stable:
  assumes "cf_writable e (KeyPath (IniPath e))" "cf_module e' = cf_module e"
  shows "let (f1, s1) = CMP_LoadSettings e f; (f2, s2) = CMP_LoadSettings e' f1
    in f2 = f1 \<and> se_playerKey s2 = se_playerKey s1"
proof -
  let ?ini = "IniPath e"
  have ini: "IniPath e' = ?ini" using assms(2) by (simp add: IniPath_def)
  let ?r = "LoadOrCreatePlayerKey e ?ini f"
  let ?k = "SanitizeKey (IniStr f ''Session'' ''PlayerKey'' [])"
  have "LoadOrCreatePlayerKey e' ?ini (snd ?r) = ?r"
  proof (cases "?k = []")
    case False
    then show ?thesis by (simp add: LoadOrCreatePlayerKey_def Let_def)
  next
    case True
    have same: "IniStr (f\<lparr>pf_text := t\<rparr>) a b c = IniStr f a b c" for t a b c
      by (simp add: IniStr_def)
    have "first_line (GenerateKey e) = GenerateKey e" "SanitizeKey (GenerateKey e) = GenerateKey e"
      "GenerateKey e \<noteq> []"
      using GenerateKey_ok [of e] by (auto simp: first_line_key SanitizeKey_idem)
    with True assms(1) show ?thesis
      by (simp add: LoadOrCreatePlayerKey_def Let_def same)
  qed
  then show ?thesis
    by (simp add: CMP_LoadSettings_def Let_def ini split_beta)
qed

lemma player_key_stable_witness:
  "let e = \<lparr>cf_module = ''C.dll'', cf_parseInt = \<lambda>_. 0, cf_write = \<lambda>p _ _ _. p, cf_haveWrite = False,
       cf_writable = \<lambda>_. True, cf_ticks = 5, cf_steam = []\<rparr>;
     f = \<lparr>pf_ini = \<lambda>_ _. None, pf_text = \<lambda>_. None\<rparr>;
     (f1, s1) = CMP_LoadSettings e f; (f2, s2) = CMP_LoadSettings (e\<lparr>cf_ticks := 99\<rparr>) f1
   in f2 = f1 \<and> se_playerKey s2 = se_playerKey s1"
  using player_key_stable [of "\<lparr>cf_module = ''C.dll'', cf_parseInt = \<lambda>_. 0, cf_write = \<lambda>p _ _ _. p,
      cf_haveWrite = False, cf_writable = \<lambda>_. True, cf_ticks = 5, cf_steam = []\<rparr>"
    "\<lparr>cf_module = ''C.dll'', cf_parseInt = \<lambda>_. 0, cf_write = \<lambda>p _ _ _. p,
      cf_haveWrite = False, cf_writable = \<lambda>_. True, cf_ticks = 99, cf_steam = []\<rparr>"
    "\<lparr>pf_ini = \<lambda>_ _. None, pf_text = \<lambda>_. None\<rparr>"]
  by (simp add: Let_def)

text \<open>A value that the profile functions keep as it is.\<close>

definition clean_value :: "string \<Rightarrow> bool" where
  "clean_value v \<longleftrightarrow>
     length v \<le> 511 \<and> nul \<notin> set v \<and> CHR 0x0D \<notin> set v \<and> CHR 0x0A \<notin> set v \<and>
     (v \<noteq> [] \<longrightarrow> \<not> is_blank (hd v) \<and> \<not> is_blank (last v) \<and> hd v \<notin> {CHR 0x22, CHR 0x27})"

text \<open>
  What the documentation of the profile functions says of a value written and read back: section and
  key are compared without case, a clean value comes back as written, the others are untouched, and a
  decimal number below \<open>65536\<close> is read as that number.
\<close>

definition profile_laws :: "config_env \<Rightarrow> bool" where
  "profile_laws e \<longleftrightarrow>
     (\<forall>p s k v. clean_value v \<longrightarrow> cf_write e p s k v s k = Some v) \<and>
     (\<forall>p s k v s' k'. (lower_copy s, lower_copy k) \<noteq> (lower_copy s', lower_copy k') \<longrightarrow>
        cf_write e p s k v s' k' = p s' k') \<and>
     (\<forall>n. n < 65536 \<longrightarrow> cf_parseInt e (dec_str n) = word_of_nat n)"

lemma trim_back_clean: "v = [] \<or> \<not> is_blank (last v) \<Longrightarrow> trim_back v = v"
  by (cases v rule: rev_cases) (auto simp: trim_back_def)

lemma trim_front_clean: "v = [] \<or> \<not> is_blank (hd v) \<Longrightarrow> trim_front v = v"
  by (cases v) (auto simp: trim_front_def)

lemma trim_clean: "clean_value v \<Longrightarrow> trim_back (trim_front v) = v"
  by (subst trim_front_clean) (auto simp: clean_value_def intro!: trim_back_clean)

lemma is_digit_neq: "is_digit c \<Longrightarrow> c \<notin> {nul, CHR 0x0D, CHR 0x0A, CHR '' '', CHR 0x09, CHR 0x22, CHR 0x27}"
  by (auto simp: is_digit_def)

lemma length_dec_str: "n < 10 ^ Suc k \<Longrightarrow> length (dec_str n) \<le> Suc k"
proof (induction k arbitrary: n)
  case 0
  then show ?case by (subst dec_str.simps) simp
next
  case (Suc k)
  then have "n div 10 < 10 ^ Suc k" by (simp add: less_mult_imp_div_less)
  from Suc.IH [OF this] show ?case by (subst dec_str.simps) simp
qed

lemma dec_str_u16: "length (dec_str (unat (w :: u16))) \<le> 5"
proof -
  have "unat w < 65536" using unsigned_less [of w] by simp
  then show ?thesis using length_dec_str [of "unat w" 4] by simp
qed

lemma clean_port: "clean_value (dec_str (unat (w :: u16)))"
proof -
  let ?d = "dec_str (unat w)"
  have "c \<in> set ?d \<Longrightarrow> c \<notin> {nul, CHR 0x0D, CHR 0x0A, CHR '' '', CHR 0x09, CHR 0x22, CHR 0x27}" for c
    using is_digit_neq dec_str_digits by blast
  moreover have "hd ?d \<in> set ?d" "last ?d \<in> set ?d" by simp_all
  ultimately show ?thesis
    using dec_str_u16 [of w] unfolding clean_value_def by fastforce
qed

text \<open>
  What the player enters is there at the next start. With the laws of the profile functions,
  a clean address, name and password that are saved one after the other are loaded again as they
  were; the name must not be the placeholder \<^verbatim>\<open>Player\<close>, which stands for none.
\<close>

lemma saved_settings_return:
  assumes "profile_laws e" "cf_haveWrite e" "clean_value host" "host \<noteq> []" "port \<noteq> 0"
    "clean_value name" "name \<noteq> []" "name \<noteq> ''Player''" "length name \<le> 31"
    "clean_value pw" "length pw \<le> 15"
  shows "let st = CMP_SavePassword e pw (CMP_SavePlayerName e name (CMP_SaveNetworkSettings e host port st0));
      s = snd (CMP_LoadSettings e (fst st))
    in se_host s = host \<and> se_port s = port \<and> se_playerName s = name \<and> se_password s = pw \<and>
       se_host (snd st) = host \<and> se_port (snd st) = port \<and> se_playerName (snd st) = name \<and> se_password (snd st) = pw"
proof -
  let ?p0 = "pf_ini (fst st0)"
  let ?p1 = "cf_write e ?p0 ''Network'' ''Host'' host"
  let ?p2 = "cf_write e ?p1 ''Network'' ''Port'' (dec_str (unat port))"
  let ?p3 = "cf_write e ?p2 ''Session'' ''PlayerName'' name"
  let ?p4 = "cf_write e ?p3 ''Network'' ''Password'' pw"
  have same: "clean_value v \<Longrightarrow> cf_write e p s k v s k = Some v" for p s k v
    using assms(1) by (simp add: profile_laws_def)
  have other: "(lower_copy s, lower_copy k) \<noteq> (lower_copy s', lower_copy k') \<Longrightarrow>
      cf_write e p s k v s' k' = p s' k'" for p s k v s' k'
    using assms(1) by (simp add: profile_laws_def)
  note keys = lower_copy_def c_tolower_def
  have ini: "?p4 ''Network'' ''Host'' = Some host" "?p4 ''Network'' ''Port'' = Some (dec_str (unat port))"
    "?p4 ''Session'' ''PlayerName'' = Some name" "?p4 ''Network'' ''Password'' = Some pw"
    using assms(3,6,10) clean_port [of port] by (simp_all add: same other keys)
  have nul: "c_str host = host" "c_str name = name" "c_str pw = pw"
    using assms(3,6,10) by (auto simp: clean_value_def intro: c_str_idem)
  have len: "length host \<le> 511" "length name \<le> 511" "length pw \<le> 511"
    using assms(3,6,10) by (auto simp: clean_value_def)
  have parse: "cf_parseInt e (dec_str (unat port)) = word_of_nat (unat port)"
  proof -
    have "unat port < 65536" using unsigned_less [of port] by simp
    with assms(1) show ?thesis unfolding profile_laws_def by blast
  qed
  have port: "ucast (word_of_nat (unat port) :: u32) = port"
    by (simp add: ucast_up_ucast_id is_up)
  let ?st = "CMP_SavePassword e pw (CMP_SavePlayerName e name (CMP_SaveNetworkSettings e host port st0))"
  have st: "pf_ini (fst ?st) = ?p4" "se_host (snd ?st) = host" "se_port (snd ?st) = port"
    "se_playerName (snd ?st) = name" "se_password (snd ?st) = pw"
    using assms(2,4,5,7,8,9,11) nul trim_clean [OF assms(6)] trim_clean [OF assms(10)]
    by (simp_all add: CMP_SavePassword_def CMP_SavePlayerName_def CMP_SaveNetworkSettings_def write_ini_def
        Let_def resize_to_def)
  have "se_host (snd (CMP_LoadSettings e (fst ?st))) = host" "se_port (snd (CMP_LoadSettings e (fst ?st))) = port"
    "se_playerName (snd (CMP_LoadSettings e (fst ?st))) = name" "se_password (snd (CMP_LoadSettings e (fst ?st))) = pw"
    using st(1) ini nul len parse port assms(7,11)
    by (simp_all add: CMP_LoadSettings_def Let_def split_beta IniStr_def IniInt_def resize_to_def)
  with st show ?thesis by (simp add: Let_def)
qed


text \<open>A profile kept as a function, compared without case, with decimal numbers: the laws can hold.\<close>

definition plain_env :: config_env where
  "plain_env =
     \<lparr>cf_module = ''C:/mods/CommonwealthMP.dll'', cf_parseInt = \<lambda>v. word_of_nat (dec_val v),
      cf_write = \<lambda>p s k v s' k'. if (lower_copy s, lower_copy k) = (lower_copy s', lower_copy k') then Some v else p s' k',
      cf_haveWrite = True, cf_writable = \<lambda>_. True, cf_ticks = 7, cf_steam = []\<rparr>"

lemma plain_env_laws: "profile_laws plain_env"
  by (simp add: profile_laws_def plain_env_def)

lemma saved_settings_return_witness:
  "let st0 = (\<lparr>pf_ini = \<lambda>_ _. None, pf_text = \<lambda>_. None\<rparr>, default_settings);
     st = CMP_SavePassword plain_env ''pw'' (CMP_SavePlayerName plain_env ''Nora'' (CMP_SaveNetworkSettings plain_env ''10.0.0.2'' 7777 st0));
     s = snd (CMP_LoadSettings plain_env (fst st))
   in se_host s = ''10.0.0.2'' \<and> se_port s = 7777 \<and> se_playerName s = ''Nora'' \<and> se_password s = ''pw''"
  using saved_settings_return [OF plain_env_laws, of "''10.0.0.2''" 7777 "''Nora''" "''pw''"
      "(\<lparr>pf_ini = \<lambda>_ _. None, pf_text = \<lambda>_. None\<rparr>, default_settings)"]
  by (simp add: Let_def clean_value_def plain_env_def)

end
