(* ===== verification/PluginSteam.thy ===== *)
theory PluginSteam
  imports PluginConfig
begin

text \<open>
  Two services of the game process: Steam (\<^verbatim>\<open>plugin/src/steam/\<close>), which gives the player's name and
  shows the presence, and the launcher of a server process (\<^verbatim>\<open>plugin/src/host_launch.cpp\<close>).

  The exports of \<^verbatim>\<open>steam_api64.dll\<close> are an argument: \<open>None\<close> stands for an export that is missing,
  and an interface pointer is a number, \<open>None\<close> the null pointer. A call made under \<^verbatim>\<open>CMP_SehCall\<close>
  that crashes is \<open>None\<close>.
\<close>

subsection \<open>The exports of Steam\<close>

record steam_env =
  st_loaded :: bool
  st_void :: "string \<Rightarrow> nat option option"
  st_create :: "(string \<Rightarrow> nat option) option"
  st_getUser :: "int option"
  st_getPipe :: "int option"
  st_findUser :: "(int \<Rightarrow> string \<Rightarrow> nat option) option"
  st_getFriends :: "(nat \<Rightarrow> int \<Rightarrow> int \<Rightarrow> string \<Rightarrow> nat option) option"
  st_persona :: "nat \<Rightarrow> string option option"
  st_setRich :: "nat \<Rightarrow> string \<Rightarrow> string \<Rightarrow> bool option"
  st_clearRich :: "nat \<Rightarrow> unit option"
  st_fileVersion :: "(nat \<times> nat \<times> nat \<times> nat) option"

definition TruncateName :: "string option \<Rightarrow> string" where
  "TruncateName raw = (case raw of None \<Rightarrow> [] | Some r \<Rightarrow> take 31 (c_str r))"

definition SteamUserHandle :: "steam_env \<Rightarrow> int" where
  "SteamUserHandle e = (if st_loaded e then (case st_getUser e of Some u \<Rightarrow> u | None \<Rightarrow> 0) else 0)"

definition SteamPipeHandle :: "steam_env \<Rightarrow> int" where
  "SteamPipeHandle e = (if st_loaded e then (case st_getPipe e of Some u \<Rightarrow> u | None \<Rightarrow> 0) else 0)"

definition SteamCreateInterface :: "steam_env \<Rightarrow> (string \<Rightarrow> nat option) option" where
  "SteamCreateInterface e = (if st_loaded e then st_create e else None)"

definition steam_void :: "steam_env \<Rightarrow> string \<Rightarrow> nat option" where
  "steam_void e name =
     (if st_loaded e then (case st_void e name of None \<Rightarrow> None | Some r \<Rightarrow> r) else None)"

text \<open>The loops over candidate names: the first that gives an interface, with its name.\<close>

fun first_iface :: "(string \<Rightarrow> nat option) \<Rightarrow> string list \<Rightarrow> (nat \<times> string) option" where
  "first_iface f [] = None"
| "first_iface f (n # ns) = (case f n of Some p \<Rightarrow> Some (p, n) | None \<Rightarrow> first_iface f ns)"

definition client_flat_names :: "string list" where
  "client_flat_names =
     [''SteamAPI_SteamClient_v018'', ''SteamAPI_SteamClient_v017'', ''SteamAPI_SteamClient_v016'',
      ''SteamAPI_SteamClient_v015'', ''SteamAPI_SteamClient_v014'', ''SteamAPI_SteamClient_v013'',
      ''SteamAPI_SteamClient_v012'', ''SteamAPI_SteamClient_v011'', ''SteamAPI_SteamClient_v010'',
      ''SteamAPI_SteamClient_v009'', ''SteamAPI_SteamClient_v008'', ''SteamAPI_SteamClient_v007'',
      ''SteamAPI_SteamClient_v006'']"

definition client_versions :: "string list" where
  "client_versions =
     [''SteamClient018'', ''SteamClient017'', ''SteamClient016'', ''SteamClient015'', ''SteamClient014'',
      ''SteamClient013'', ''SteamClient012'', ''SteamClient011'', ''SteamClient010'', ''SteamClient009'',
      ''SteamClient008'', ''SteamClient007'', ''SteamClient006'']"

definition SteamClientPtr :: "steam_env \<Rightarrow> nat option" where
  "SteamClientPtr e =
     (case steam_void e ''SteamClient'' of
        Some client \<Rightarrow> Some client
      | None \<Rightarrow>
          (case first_iface (steam_void e) client_flat_names of
             Some (client, _) \<Rightarrow> Some client
           | None \<Rightarrow>
               (case SteamCreateInterface e of
                  None \<Rightarrow> None
                | Some create \<Rightarrow> map_option fst (first_iface create client_versions))))"

definition kFriendsVersions :: "string list" where
  "kFriendsVersions =
     [''SteamFriends018'', ''SteamFriends017'', ''SteamFriends016'', ''SteamFriends015'',
      ''SteamFriends014'', ''SteamFriends013'', ''SteamFriends012'', ''SteamFriends011'',
      ''SteamFriends010'', ''SteamFriends009'', ''SteamFriends008'']"

definition friends_flat_names :: "string list" where
  "friends_flat_names =
     [''SteamAPI_SteamFriends_v018'', ''SteamAPI_SteamFriends_v017'', ''SteamAPI_SteamFriends_v016'',
      ''SteamAPI_SteamFriends_v015'', ''SteamAPI_SteamFriends_v014'', ''SteamAPI_SteamFriends_v013'',
      ''SteamAPI_SteamFriends_v012'', ''SteamAPI_SteamFriends_v011'', ''SteamAPI_SteamFriends_v010'',
      ''SteamAPI_SteamFriends_v009'', ''SteamAPI_SteamFriends_v008'', ''SteamAPI_SteamFriends'']"

definition friends_by_user :: "steam_env \<Rightarrow> (nat \<times> string) option" where
  "friends_by_user e =
     (if SteamUserHandle e \<noteq> 0
      then (case st_findUser e of None \<Rightarrow> None
            | Some findUser \<Rightarrow> first_iface (findUser (SteamUserHandle e)) kFriendsVersions)
      else None)"

definition friends_by_create :: "steam_env \<Rightarrow> (nat \<times> string) option" where
  "friends_by_create e =
     (case SteamCreateInterface e of None \<Rightarrow> None | Some create \<Rightarrow> first_iface create kFriendsVersions)"

definition friends_by_client :: "steam_env \<Rightarrow> (nat \<times> string) option" where
  "friends_by_client e =
     (case SteamClientPtr e of
        None \<Rightarrow> None
      | Some client \<Rightarrow>
          if SteamUserHandle e \<noteq> 0 \<and> SteamPipeHandle e \<noteq> 0
          then (case st_getFriends e of None \<Rightarrow> None
                | Some getFriends \<Rightarrow>
                    first_iface (getFriends client (SteamUserHandle e) (SteamPipeHandle e)) kFriendsVersions)
          else None)"

fun or_else :: "'a option \<Rightarrow> 'a option \<Rightarrow> 'a option" where
  "or_else (Some x) _ = Some x"
| "or_else None y = y"

definition MatchSteamFriends :: "steam_env \<Rightarrow> (nat \<times> string) option" where
  "MatchSteamFriends e =
     (if \<not> st_loaded e then None
      else or_else (first_iface (steam_void e) friends_flat_names)
          (or_else (friends_by_user e)
            (or_else (friends_by_create e)
              (or_else (friends_by_client e)
                (map_option (\<lambda>p. (p, ''SteamFriends()'')) (steam_void e ''SteamFriends''))))))"

definition ModuleFileVersion :: "steam_env \<Rightarrow> string" where
  "ModuleFileVersion e =
     (case st_fileVersion e of
        None \<Rightarrow> []
      | Some (a, b, c, d) \<Rightarrow>
          take 63 (dec_str a @ ''.'' @ dec_str b @ ''.'' @ dec_str c @ ''.'' @ dec_str d))"

subsection \<open>The persona name\<close>

text \<open>\<open>None\<close>: the call crashed. The probe keeps the name and whether there was one.\<close>

definition PersonaProbeFn :: "steam_env \<Rightarrow> nat \<Rightarrow> (string \<times> bool) option" where
  "PersonaProbeFn e friends =
     (case st_persona e friends of
        None \<Rightarrow> None
      | Some None \<Rightarrow> Some ([], False)
      | Some (Some rawName) \<Rightarrow>
          if c_str rawName = [] then Some ([], False) else Some (take 31 (c_str rawName), True))"

definition CMP_SteamPersonaName :: "steam_env \<Rightarrow> string" where
  "CMP_SteamPersonaName e =
     (case MatchSteamFriends e of
        None \<Rightarrow> []
      | Some (iface, _) \<Rightarrow>
          (case PersonaProbeFn e iface of
             None \<Rightarrow> []
           | Some (name, ok) \<Rightarrow> if ok then TruncateName (Some name) else []))"

subsection \<open>Rich presence\<close>

record steam_state =
  sp_match :: "(nat \<times> string) option"
  sp_ok :: bool
  sp_probed :: bool

definition steam_state0 :: steam_state where
  "steam_state0 = \<lparr>sp_match = None, sp_ok = False, sp_probed = False\<rparr>"

definition c_atoi :: "string \<Rightarrow> int" where
  "c_atoi s =
     (let s1 = dropWhile c_isspace s; v = int (dec_val (takeWhile is_digit (skip_sign s1)))
      in if neg_sign s1 then - v else v)"

definition RichPresenceVersionOk :: "string option \<Rightarrow> bool" where
  "RichPresenceVersionOk version =
     (case version of
        None \<Rightarrow> False
      | Some v \<Rightarrow>
          if v = ''SteamFriends()'' then False
          else let digits = (if take 12 v = ''SteamFriends'' then drop 12 v
                             else if take 23 v = ''SteamAPI_SteamFriends_v'' then drop 23 v
                             else [])
               in digits \<noteq> [] \<and> c_atoi digits \<ge> 14)"

definition FriendsPresenceIface :: "steam_state \<Rightarrow> nat option" where
  "FriendsPresenceIface s = (if \<not> sp_ok s then None else map_option fst (sp_match s))"

definition CMP_SteamPresenceAvailable :: "steam_state \<Rightarrow> bool" where
  "CMP_SteamPresenceAvailable s = sp_ok s"

definition CMP_SteamSetRichPresence ::
  "steam_env \<Rightarrow> string option \<Rightarrow> string option \<Rightarrow> steam_state \<Rightarrow> bool \<times> steam_state" where
  "CMP_SteamSetRichPresence e key value s =
     (case FriendsPresenceIface s of
        None \<Rightarrow> (False, s)
      | Some friends \<Rightarrow>
          (case key of
             None \<Rightarrow> (False, s)
           | Some k \<Rightarrow>
               (case st_setRich e friends k (case value of Some v \<Rightarrow> v | None \<Rightarrow> []) of
                  None \<Rightarrow> (False, s\<lparr>sp_ok := False\<rparr>)
                | Some ok \<Rightarrow> (ok, s))))"

definition CMP_SteamClearRichPresence :: "steam_env \<Rightarrow> steam_state \<Rightarrow> steam_state" where
  "CMP_SteamClearRichPresence e s =
     (case FriendsPresenceIface s of
        None \<Rightarrow> s
      | Some friends \<Rightarrow>
          (case st_clearRich e friends of None \<Rightarrow> s\<lparr>sp_ok := False\<rparr> | Some _ \<Rightarrow> s))"

record steam_probe =
  pb_dllLoaded :: bool
  pb_dllVersion :: string
  pb_createInterface :: bool
  pb_steamUser :: int
  pb_steamPipe :: int
  pb_friendsVersion :: string
  pb_personaName :: string
  pb_richPresenceProbe :: bool
  pb_error :: string

definition steam_probe0 :: steam_probe where
  "steam_probe0 =
     \<lparr>pb_dllLoaded = False, pb_dllVersion = [], pb_createInterface = False, pb_steamUser = 0,
      pb_steamPipe = 0, pb_friendsVersion = [], pb_personaName = [], pb_richPresenceProbe = False, pb_error = []\<rparr>"

text \<open>Setting a status and clearing it again; \<open>None\<close>: one of the calls crashed.\<close>

definition RichPresenceProbeFn :: "steam_env \<Rightarrow> nat \<Rightarrow> bool option" where
  "RichPresenceProbeFn e friends =
     (case st_setRich e friends ''status'' ''CMP probe'' of
        None \<Rightarrow> None
      | Some False \<Rightarrow> Some False
      | Some True \<Rightarrow> (case st_clearRich e friends of None \<Rightarrow> None | Some _ \<Rightarrow> Some True))"

definition CMP_ProbeSteamApi :: "steam_env \<Rightarrow> steam_state \<Rightarrow> steam_probe \<times> steam_state" where
  "CMP_ProbeSteamApi e s =
     (let s1 = s\<lparr>sp_probed := True, sp_ok := False\<rparr>
      in if \<not> st_loaded e
         then (steam_probe0\<lparr>pb_error := ''steam_api64.dll not loaded''\<rparr>, s1)
         else
           let p = steam_probe0\<lparr>pb_dllLoaded := True, pb_dllVersion := ModuleFileVersion e,
                     pb_createInterface := SteamCreateInterface e \<noteq> None,
                     pb_steamUser := SteamUserHandle e, pb_steamPipe := SteamPipeHandle e\<rparr>;
               m = MatchSteamFriends e;
               s2 = s1\<lparr>sp_match := m\<rparr>;
               p = p\<lparr>pb_friendsVersion := (case m of Some (_, v) \<Rightarrow> v | None \<Rightarrow> ''none'')\<rparr>;
               noHandles = (pb_steamUser p = 0 \<or> pb_steamPipe p = 0)
           in case m of
                None \<Rightarrow>
                  (p\<lparr>pb_error := ''ISteamFriends unavailable'' @
                       (if noHandles then '' (Steam user/pipe not ready; try in main menu or in-world)'' else [])\<rparr>, s2)
              | Some (friends, version) \<Rightarrow>
                  if noHandles then (p\<lparr>pb_error := ''Steam user/pipe not ready''\<rparr>, s2)
                  else case PersonaProbeFn e friends of
                    None \<Rightarrow> (p\<lparr>pb_error := ''GetPersonaName crashed (vtable mismatch)''\<rparr>, s2)
                  | Some (name, _) \<Rightarrow>
                      let p = p\<lparr>pb_personaName := name\<rparr>
                      in if \<not> RichPresenceVersionOk (Some version)
                         then (p\<lparr>pb_error := ''SteamFriends version too old for Rich Presence layout''\<rparr>, s2)
                         else if \<not> pb_createInterface p
                         then (p\<lparr>pb_error := ''SteamInternal_CreateInterface missing''\<rparr>, s2)
                         else case RichPresenceProbeFn e friends of
                           None \<Rightarrow> (p\<lparr>pb_error := ''SetRichPresence crashed (vtable mismatch)''\<rparr>, s2)
                         | Some False \<Rightarrow> (p\<lparr>pb_error := ''SetRichPresence returned false''\<rparr>, s2)
                         | Some True \<Rightarrow> (p\<lparr>pb_richPresenceProbe := True\<rparr>, s2\<lparr>sp_ok := True\<rparr>))"

definition int_str :: "int \<Rightarrow> string" where
  "int_str i = (if i < 0 then CHR ''-'' # dec_str (nat (- i)) else dec_str (nat i))"

definition CMP_FormatSteamProbe :: "steam_probe \<Rightarrow> string" where
  "CMP_FormatSteamProbe p =
     ''cmp_steam: dll='' @ (if pb_dllLoaded p then ''yes'' else ''no'') @
     (if pb_dllVersion p \<noteq> [] then '' ver='' @ pb_dllVersion p else []) @
     '' createInterface='' @ (if pb_createInterface p then ''yes'' else ''no'') @
     '' user='' @ int_str (pb_steamUser p) @ '' pipe='' @ int_str (pb_steamPipe p) @
     '' friends='' @ (if pb_friendsVersion p = [] then ''none'' else pb_friendsVersion p) @
     (if pb_personaName p \<noteq> [] then '' persona='' @ pb_personaName p else []) @
     '' richPresence='' @ (if pb_richPresenceProbe p then ''ok'' else ''fail'') @
     (if pb_error p \<noteq> [] then '' err='' @ pb_error p else [])"


subsection \<open>Which interfaces are trusted\<close>

text \<open>The versions whose layout the presence calls rely on.\<close>

definition trusted_versions :: "string list" where
  "trusted_versions =
     [''SteamFriends018'', ''SteamFriends017'', ''SteamFriends016'', ''SteamFriends015'', ''SteamFriends014'',
      ''SteamAPI_SteamFriends_v018'', ''SteamAPI_SteamFriends_v017'', ''SteamAPI_SteamFriends_v016'',
      ''SteamAPI_SteamFriends_v015'', ''SteamAPI_SteamFriends_v014'']"

lemma first_iface_in: "first_iface f ns = Some (p, n) \<Longrightarrow> n \<in> set ns \<and> f n = Some p"
  by (induction ns) (auto split: option.splits)

lemma or_else_Some: "or_else a b = Some x \<longleftrightarrow> a = Some x \<or> a = None \<and> b = Some x"
  by (cases a) auto

lemma match_version:
  assumes "MatchSteamFriends e = Some (p, v)"
  shows "v \<in> set (friends_flat_names @ kFriendsVersions @ [''SteamFriends()''])"
  using assms
  by (auto simp: MatchSteamFriends_def or_else_Some friends_by_user_def friends_by_create_def friends_by_client_def
      dest!: first_iface_in split: if_splits option.splits)

lemma version_ok_trusted:
  "v \<in> set (friends_flat_names @ kFriendsVersions @ [''SteamFriends()'']) \<Longrightarrow>
   RichPresenceVersionOk (Some v) \<Longrightarrow> v \<in> set trusted_versions"
proof -
  have "list_all (\<lambda>v. RichPresenceVersionOk (Some v) \<longrightarrow> v \<in> set trusted_versions)
      (friends_flat_names @ kFriendsVersions @ [''SteamFriends()''])"
    by code_simp
  then show "v \<in> set (friends_flat_names @ kFriendsVersions @ [''SteamFriends()'']) \<Longrightarrow>
     RichPresenceVersionOk (Some v) \<Longrightarrow> v \<in> set trusted_versions"
    by (simp add: list_all_iff del: set_append)
qed

text \<open>The states of the presence services, whatever Steam answers to each call.\<close>

inductive steam_run :: "steam_state \<Rightarrow> bool" where
  steam_start: "steam_run steam_state0"
| steam_probe: "steam_run s \<Longrightarrow> steam_run (snd (CMP_ProbeSteamApi e s))"
| steam_set: "steam_run s \<Longrightarrow> steam_run (snd (CMP_SteamSetRichPresence e k v s))"
| steam_clear: "steam_run s \<Longrightarrow> steam_run (CMP_SteamClearRichPresence e s)"

definition steam_ok :: "steam_state \<Rightarrow> bool" where
  "steam_ok s \<longleftrightarrow> (sp_ok s \<longrightarrow> (\<exists>p v. sp_match s = Some (p, v) \<and> v \<in> set trusted_versions))"

lemma probe_ok: "steam_ok (snd (CMP_ProbeSteamApi e s))"
proof (cases "MatchSteamFriends e")
  case None
  then show ?thesis by (simp add: CMP_ProbeSteamApi_def steam_ok_def Let_def)
next
  case (Some pv)
  obtain p v where pv: "pv = (p, v)" by (cases pv)
  have "RichPresenceVersionOk (Some v) \<Longrightarrow> v \<in> set trusted_versions"
    using version_ok_trusted match_version Some pv by blast
  then show ?thesis
    using Some pv
    by (simp add: CMP_ProbeSteamApi_def steam_ok_def Let_def split: option.split bool.split prod.split)
qed

lemma set_presence_frame:
  "snd (CMP_SteamSetRichPresence e k v s) = s \<or> snd (CMP_SteamSetRichPresence e k v s) = s\<lparr>sp_ok := False\<rparr>"
  by (simp add: CMP_SteamSetRichPresence_def split: option.split)

lemma clear_presence_frame:
  "CMP_SteamClearRichPresence e s = s \<or> CMP_SteamClearRichPresence e s = s\<lparr>sp_ok := False\<rparr>"
  by (simp add: CMP_SteamClearRichPresence_def split: option.split)

lemma steam_run_ok: "steam_run s \<Longrightarrow> steam_ok s"
proof (induction rule: steam_run.induct)
  case (steam_set s e k v)
  then show ?case using set_presence_frame [of e k v s] by (auto simp: steam_ok_def)
next
  case (steam_clear s e)
  then show ?case using clear_presence_frame [of e s] by (auto simp: steam_ok_def)
qed (simp_all add: probe_ok, simp add: steam_ok_def steam_state0_def)

text \<open>
  Rich presence is set only through an interface whose layout is known. In every state the
  services can reach, whatever Steam answered before, the interface the presence calls use is one
  that was found under a version tag from 14 to 18; the bare export and older versions are never used.
\<close>

lemma presence_iface_trusted:
  assumes "steam_run s" "FriendsPresenceIface s = Some iface"
  shows "\<exists>v. sp_match s = Some (iface, v) \<and> v \<in> set trusted_versions"
  using steam_run_ok [OF assms(1)] assms(2)
  by (auto simp: steam_ok_def FriendsPresenceIface_def split: if_splits)

definition demo_steam :: steam_env where
  "demo_steam =
     \<lparr>st_loaded = True, st_void = \<lambda>n. if n = ''SteamAPI_SteamFriends_v015'' then Some (Some 3) else None,
      st_create = Some (\<lambda>_. None), st_getUser = Some 1, st_getPipe = Some 1, st_findUser = None,
      st_getFriends = None, st_persona = \<lambda>_. Some (Some ''Nora''), st_setRich = \<lambda>_ _ _. Some True,
      st_clearRich = \<lambda>_. Some (), st_fileVersion = None\<rparr>"

lemma demo_steam_match: "MatchSteamFriends demo_steam = Some (3, ''SteamAPI_SteamFriends_v015'')"
  by (simp add: MatchSteamFriends_def demo_steam_def steam_void_def friends_flat_names_def)

lemma presence_iface_trusted_witness:
  "\<exists>v. sp_match (snd (CMP_ProbeSteamApi demo_steam steam_state0)) = Some (3, v) \<and> v \<in> set trusted_versions"
proof -
  have "RichPresenceVersionOk (Some ''SteamAPI_SteamFriends_v015'')" by code_simp
  moreover have "st_loaded demo_steam" "st_persona demo_steam = (\<lambda>_. Some (Some ''Nora''))"
    "SteamUserHandle demo_steam = 1" "SteamPipeHandle demo_steam = 1" "SteamCreateInterface demo_steam \<noteq> None"
    "RichPresenceProbeFn demo_steam 3 = Some True"
    by (simp_all add: demo_steam_def SteamUserHandle_def SteamPipeHandle_def SteamCreateInterface_def RichPresenceProbeFn_def)
  ultimately have "FriendsPresenceIface (snd (CMP_ProbeSteamApi demo_steam steam_state0)) = Some 3"
    by (simp add: CMP_ProbeSteamApi_def demo_steam_match FriendsPresenceIface_def Let_def PersonaProbeFn_def c_str_def)
  then show ?thesis by (rule presence_iface_trusted [OF steam_probe [OF steam_start]])
qed

subsection \<open>Launching a server\<close>

text \<open>
  Paths as \<^verbatim>\<open>std::filesystem\<close> sees them on Windows (drive-relative paths aside), and what the system
  answers: which files and directories there are, the entries of a directory with whether they are
  regular files, the process created for an executable, a command line and a working directory.
\<close>

definition is_sep :: "char \<Rightarrow> bool" where
  "is_sep c \<longleftrightarrow> c = CHR 0x5C \<or> c = CHR ''/''"

definition strip_seps :: "string \<Rightarrow> string" where
  "strip_seps s = rev (dropWhile is_sep (rev s))"

definition fs_parent :: "string \<Rightarrow> string" where
  "fs_parent p =
     (let d = rev (dropWhile (\<lambda>c. \<not> is_sep c) (rev p)); t = strip_seps d
      in if d = [] then []
         else if t = [] \<or> (length t = 2 \<and> last t = CHR '':'') then take (length t + 1) d else t)"

definition fs_join :: "string \<Rightarrow> string \<Rightarrow> string" where
  "fs_join d f = (if d = [] then f else if is_sep (last d) then d @ f else d @ [CHR 0x5C] @ f)"

definition fs_extension :: "string \<Rightarrow> string" where
  "fs_extension name =
     (case find_last_of CHR ''.'' name of
        None \<Rightarrow> []
      | Some i \<Rightarrow> if i = 0 \<or> name = ''..'' then [] else drop i name)"

record launch_env =
  ln_module :: string
  ln_isFile :: "string \<Rightarrow> bool"
  ln_isDir :: "string \<Rightarrow> bool"
  ln_entries :: "string \<Rightarrow> (string \<times> bool) list"
  ln_create :: "string \<Rightarrow> string \<Rightarrow> string \<Rightarrow> nat option"
  ln_alive :: "nat \<Rightarrow> bool"

definition PluginDir :: "launch_env \<Rightarrow> string" where
  "PluginDir e = fs_parent (c_str (take 259 (ln_module e)))"

definition FileExists :: "launch_env \<Rightarrow> string \<Rightarrow> bool" where
  "FileExists e path \<longleftrightarrow> path \<noteq> [] \<and> ln_isFile e path"

definition ProcessAlive :: "launch_env \<Rightarrow> nat option \<Rightarrow> bool" where
  "ProcessAlive e h = (case h of None \<Rightarrow> False | Some p \<Rightarrow> ln_alive e p)"

definition repo_exes :: "launch_env \<Rightarrow> string \<Rightarrow> string list" where
  "repo_exes e dir =
     (let repoServer = fs_join (fs_join (fs_parent (fs_parent (fs_parent dir))) ''dist'') ''server''
      in if ln_isDir e repoServer
         then map (\<lambda>(name, _). fs_join repoServer name)
                (filter (\<lambda>(name, regular). regular \<and> take 21 name = ''CommonwealthMP.Server'' \<and>
                    fs_extension name = ''.exe'') (ln_entries e repoServer))
         else [])"

definition ServerExeCandidates :: "launch_env \<Rightarrow> string \<Rightarrow> string list" where
  "ServerExeCandidates e serverExe =
     (let dir = PluginDir e
      in (if serverExe \<noteq> [] then [serverExe] else []) @
         (if dir \<noteq> []
          then [fs_join dir ''CommonwealthMP.Server.exe'', fs_join dir ''CommonwealthMP.Server-0.7.0.exe''] @
               repo_exes e dir
          else []))"

definition CMP_ServerProcessRunning :: "launch_env \<Rightarrow> nat option \<Rightarrow> bool" where
  "CMP_ServerProcessRunning e proc = ProcessAlive e proc"

text \<open>The error if there is one, and the handle kept; the old handle of a dead process is closed.\<close>

definition CMP_LaunchServer :: "launch_env \<Rightarrow> string \<Rightarrow> nat option \<Rightarrow> string option \<times> nat option" where
  "CMP_LaunchServer e serverExe proc =
     (if CMP_ServerProcessRunning e proc then (None, proc)
      else case find (FileExists e) (ServerExeCandidates e serverExe) of
        None \<Rightarrow>
          (Some ''CommonwealthMP.Server.exe not found (set [Network] ServerExe in CommonwealthMP.ini)'', None)
      | Some exePath \<Rightarrow>
          (case ln_create e exePath exePath (fs_parent exePath) of
             None \<Rightarrow> (Some (''CreateProcess failed for '' @ exePath), None)
           | Some p \<Rightarrow> (None, Some p)))"

lemma launch_configured:
  assumes "\<not> CMP_ServerProcessRunning e proc" "FileExists e serverExe"
    "ln_create e serverExe serverExe (fs_parent serverExe) = Some p"
  shows "CMP_LaunchServer e serverExe proc = (None, Some p)"
proof -
  have "ServerExeCandidates e serverExe = serverExe # tl (ServerExeCandidates e serverExe)"
    using assms(2) by (simp add: ServerExeCandidates_def FileExists_def Let_def)
  then have "find (FileExists e) (ServerExeCandidates e serverExe) = Some serverExe"
    using assms(2) by (metis find.simps(2))
  with assms show ?thesis by (simp add: CMP_LaunchServer_def)
qed

lemma launch_keeps_running: "CMP_ServerProcessRunning e proc \<Longrightarrow> CMP_LaunchServer e x proc = (None, proc)"
  by (simp add: CMP_LaunchServer_def)

end
