(* ===== verification/PluginMenu.thy ===== *)
theory PluginMenu
  imports ClientRun PluginSteam
begin

text \<open>
  The plugin's menus, \<^verbatim>\<open>plugin/src/menu/\<close>: the state machine that takes a player from the join form
  through a query, a new game and character creation into a session (\<^verbatim>\<open>flow.cpp\<close>, \<^verbatim>\<open>chargen.cpp\<close>), the
  join and host forms (\<^verbatim>\<open>forms.cpp\<close>) and their globals (\<^verbatim>\<open>menu.cpp\<close>), with \<^verbatim>\<open>CMP_OnGameReady\<close> and
  \<^verbatim>\<open>CMP_OnPreLoad\<close> of \<^verbatim>\<open>main.cpp\<close>.

  The globals are the record \<open>menu\<close>, which holds the session too. What the engine answers is the
  record \<open>menu_env\<close>; the engine calls of the menu are collected in \<open>mn_calls\<close>. One call reads the
  clock once (\<open>gm_now\<close>); the source reads it again for each comparison.
\<close>

subsection \<open>The state\<close>

datatype flow =
    FlowIdle | FlowQuerying | FlowStartingGame | FlowWaitWorld | FlowSkipIntro | FlowWaitSkip | FlowLooks
  | FlowWaitLooks | FlowSpecial | FlowWaitSpecial | FlowStrip | FlowJoining | FlowDone | FlowFailed

datatype menu_form = FormNone | FormJoin | FormHost
datatype join_context = TitleMenu | InGame

record host_save_row =
  hs_listIndex :: int
  hs_label :: string

datatype menu_call =
    MConsole string
  | MConfirmText string
  | MMessageBox string
  | MHidePauseMenu
  | MStartNewGame
  | MLoadGame int

record menu =
  mn_flow :: flow
  mn_flowAt :: f64
  mn_sinkReady :: bool
  mn_stampWait :: nat
  mn_form :: menu_form
  mn_popupQueued :: bool
  mn_pendingHostJoin :: bool
  mn_savesRefreshed :: bool
  mn_saveSelection :: int
  mn_saves :: "host_save_row list"
  mn_looksOpen :: bool
  mn_specialOpen :: bool
  mn_joinContext :: join_context
  mn_hostContext :: join_context
  mn_joinHost :: string
  mn_joinPort :: string
  mn_joinName :: string
  mn_joinPassword :: string
  mn_ses :: session
  mn_files :: plugin_files
  mn_server :: "nat option"
  mn_calls :: "menu_call list"

record save_entry =
  sv_corrupt :: bool
  sv_playerName :: string
  sv_number :: nat
  sv_location :: string
  sv_playTime :: string

record menu_env =
  me_game :: game
  me_config :: config_env
  me_launch :: launch_env
  me_ui :: bool
  me_mainMenu :: bool
  me_confirmText :: bool
  me_pauseOpen :: bool
  me_messageMenus :: bool
  me_displayName :: "string option"
  me_saves :: "save_entry option list option"

definition menu0 :: "session \<Rightarrow> plugin_files \<Rightarrow> menu" where
  "menu0 s f =
     \<lparr>mn_flow = FlowIdle, mn_flowAt = 0, mn_sinkReady = False, mn_stampWait = 0, mn_form = FormNone,
      mn_popupQueued = False, mn_pendingHostJoin = False, mn_savesRefreshed = False, mn_saveSelection = - 1,
      mn_saves = [], mn_looksOpen = False, mn_specialOpen = False, mn_joinContext = TitleMenu,
      mn_hostContext = TitleMenu, mn_joinHost = [], mn_joinPort = [], mn_joinName = [], mn_joinPassword = [],
      mn_ses = s, mn_files = f, mn_server = None, mn_calls = []\<rparr>"

definition upd_ses :: "(session \<Rightarrow> session) \<Rightarrow> menu \<Rightarrow> menu" where
  "upd_ses f m = m\<lparr>mn_ses := f (mn_ses m)\<rparr>"

definition mcall :: "menu_call \<Rightarrow> menu \<Rightarrow> menu" where
  "mcall c m = m\<lparr>mn_calls := mn_calls m @ [c]\<rparr>"

definition set_menuJoin :: "bool \<Rightarrow> menu \<Rightarrow> menu" where
  "set_menuJoin b m = upd_ses (\<lambda>s. s\<lparr>ss_menu := (ss_menu s)\<lparr>mr_menuJoin := b\<rparr>\<rparr>) m"

text \<open>The settings operations on the files and the session's settings.\<close>

definition with_config :: "(config_state \<Rightarrow> config_state) \<Rightarrow> menu \<Rightarrow> menu" where
  "with_config f m =
     (let r = f (mn_files m, ss_settings (mn_ses m))
      in m\<lparr>mn_files := fst r, mn_ses := (mn_ses m)\<lparr>ss_settings := snd r\<rparr>\<rparr>)"

subsection \<open>Small operations\<close>

definition SetFlow :: "menu_env \<Rightarrow> flow \<Rightarrow> menu \<Rightarrow> menu" where
  "SetFlow e f m = upd_ses (call GPresenceInvalidate) (m\<lparr>mn_flow := f, mn_flowAt := gm_now (me_game e)\<rparr>)"

definition TimedOut :: "menu_env \<Rightarrow> int \<Rightarrow> menu \<Rightarrow> bool" where
  "TimedOut e seconds m \<longleftrightarrow> f64_less (f64_of_int seconds) (f64_sub (gm_now (me_game e)) (mn_flowAt m))"

definition ClosePauseMenu :: "menu_env \<Rightarrow> menu \<Rightarrow> menu" where
  "ClosePauseMenu e m = (if \<not> me_ui e \<or> \<not> me_pauseOpen e then m else mcall MHidePauseMenu m)"

definition SetStatus :: "menu_env \<Rightarrow> string \<Rightarrow> menu \<Rightarrow> menu" where
  "SetStatus e text m =
     (let m1 = upd_ses (\<lambda>s. s\<lparr>ss_lastStatus := text\<rparr>) m;
          m2 = (if me_mainMenu e \<and> me_confirmText e then mcall (MConfirmText (c_str text)) m1 else m1)
      in upd_ses (call (GHud (c_str text))) m2)"

definition CMP_EnsureCommonwealthExterior :: "menu_env \<Rightarrow> menu \<Rightarrow> menu" where
  "CMP_EnsureCommonwealthExterior e m =
     (if CMP_PlayerInCommonwealth (me_game e) then m else mcall (MConsole ''coc SanctuaryExt'') m)"

definition CMP_StripLocalGear :: "menu \<Rightarrow> menu" where
  "CMP_StripLocalGear m =
     mcall (MConsole ''player.equipitem 21B3B'') (mcall (MConsole ''player.additem 21B3B 1'')
       (mcall (MConsole ''player.removeallitems'') m))"

subsection \<open>Character creation\<close>

definition BeginChargen :: "menu_env \<Rightarrow> menu \<Rightarrow> menu" where
  "BeginChargen e m =
     (let m1 = upd_ses (\<lambda>s. s\<lparr>ss_menu := (ss_menu s)\<lparr>mr_menuJoin := True, mr_joinFlags := kHelloFlagRequireHost\<rparr>\<rparr>) m;
          m2 = SetStatus e ''starting new game for join'' (SetFlow e FlowStartingGame m1)
      in if me_mainMenu e then mcall MStartNewGame m2 else m2)"

definition SkipIntro :: "menu_env \<Rightarrow> menu \<Rightarrow> menu" where
  "SkipIntro e m =
     (let m1 = mcall (MConsole ''enableplayercontrols'') (mcall (MConsole ''StopQuest MQ102'')
                 (mcall (MConsole ''StopQuest MQ101'') m))
      in SetStatus e ''skipping vault, moving to Commonwealth'' (CMP_EnsureCommonwealthExterior e m1))"

definition OpenLooks :: "menu_env \<Rightarrow> menu \<Rightarrow> menu" where
  "OpenLooks e m = SetStatus e ''character looks'' (mcall (MConsole ''showlooksmenu player'') m)"

definition OpenSpecial :: "menu_env \<Rightarrow> menu \<Rightarrow> menu" where
  "OpenSpecial e m = SetStatus e ''SPECIAL and name'' (mcall (MConsole ''ShowSPECIALMenu'') m)"

definition CopyChargenName :: "menu_env \<Rightarrow> menu \<Rightarrow> menu" where
  "CopyChargenName e m =
     (if gm_player (me_game e) = None then m
      else case me_displayName e of
        None \<Rightarrow> m
      | Some name \<Rightarrow>
          if c_str name = [] then m
          else upd_ses (\<lambda>s. s\<lparr>ss_settings := (ss_settings s)\<lparr>se_playerName := c_str name\<rparr>\<rparr>) m)"

subsection \<open>The state machine\<close>

definition menu_join :: "menu_env \<Rightarrow> string \<Rightarrow> u16 \<Rightarrow> u8 \<Rightarrow> menu \<Rightarrow> bool \<times> menu" where
  "menu_join e host port flags m =
     (let r = CMP_Join (me_game e) host port flags (mn_ses m) in (fst r, m\<lparr>mn_ses := snd r\<rparr>))"

text \<open>The server's answer; without one the struct is all zeros.\<close>

definition info_name :: "query_result \<Rightarrow> string" where
  "info_name r = (case qr_info r of None \<Rightarrow> [] | Some i \<Rightarrow> c_str (si_serverName i))"

definition OnQueryFinished :: "menu_env \<Rightarrow> query_result \<Rightarrow> menu \<Rightarrow> menu" where
  "OnQueryFinished e r m =
     (if \<not> qr_ok r
      then
        let m1 = SetFlow e FlowFailed m;
            err = (if qr_error r = [] then ''join failed'' else qr_error r);
            err = (if info_name r \<noteq> [] then info_name r @ '': '' @ err else err);
            m2 = SetStatus e err m1;
            m3 = (if mn_joinContext m2 = TitleMenu
                  then (if me_messageMenus e then mcall (MMessageBox (c_str err)) m2 else m2)
                  else upd_ses (call (GHud (c_str err))) m2)
        in set_menuJoin False (SetFlow e FlowIdle m3)
      else
        let count = (case qr_info r of None \<Rightarrow> 0 | Some i \<Rightarrow> si_clientCount i);
            cap = (case qr_info r of None \<Rightarrow> 0 | Some i \<Rightarrow> si_maxPlayers i);
            motd = (case qr_info r of None \<Rightarrow> [] | Some i \<Rightarrow> c_str (si_motd i));
            ok = (if info_name r \<noteq> [] then info_name r else ''host ok'') @
                 '' ('' @ dec_str (unat count) @ ''/'' @ dec_str (unat cap) @ '')'' @
                 (if motd \<noteq> [] then CHR 0x0A # motd else []);
            m1 = SetStatus e ok m
        in if mn_joinContext m1 = InGame
           then
             let st = ss_settings (mn_ses m1); (joined, m2) = menu_join e (se_host st) (se_port st) 0 m1
             in if joined
                then ClosePauseMenu e
                       (SetStatus e (if nr_isHost (ss_net (mn_ses m2)) then ''Connected as host'' else ''Connected as guest'')
                         (SetFlow e FlowDone m2))
                else SetStatus e ''join failed after query'' (SetFlow e FlowFailed m2)
           else BeginChargen e m1)"

definition tick_querying :: "menu_env \<Rightarrow> menu \<Rightarrow> menu" where
  "tick_querying e m =
     (let q = CMP_QueryPoll (me_game e) query_result_init (mn_ses m); m1 = m\<lparr>mn_ses := snd q\<rparr>
      in case fst q of None \<Rightarrow> m1 | Some r \<Rightarrow> OnQueryFinished e r m1)"

definition flow_fail :: "menu_env \<Rightarrow> string \<Rightarrow> menu \<Rightarrow> menu" where
  "flow_fail e text m = set_menuJoin False (SetStatus e text (SetFlow e FlowFailed m))"

definition tick_wait_skip :: "menu_env \<Rightarrow> menu \<Rightarrow> menu" where
  "tick_wait_skip e m =
     (let m1 = (if CMP_PlayerInCommonwealth (me_game e)
                then SetFlow e (if mn_looksOpen m then FlowWaitLooks else FlowLooks) m
                else if TimedOut e 20 m then CMP_EnsureCommonwealthExterior e m
                else m)
      in if TimedOut e 60 m1 then flow_fail e ''could not reach Commonwealth'' m1 else m1)"

definition tick_strip :: "menu_env \<Rightarrow> menu \<Rightarrow> menu" where
  "tick_strip e m =
     (let m1 = CMP_StripLocalGear (CopyChargenName e m);
          m2 = (if \<not> CMP_PlayerInCommonwealth (me_game e) then CMP_EnsureCommonwealthExterior e m1 else m1)
      in SetFlow e FlowJoining m2)"

definition tick_joining :: "menu_env \<Rightarrow> menu \<Rightarrow> menu" where
  "tick_joining e m =
     (if \<not> CMP_PlayerInCommonwealth (me_game e)
      then (if TimedOut e 20 m then flow_fail e ''not in Commonwealth for Hello'' m else m)
      else
        let st = ss_settings (mn_ses m); (joined, m1) = menu_join e (se_host st) (se_port st) kHelloFlagRequireHost m
        in if joined then SetStatus e ''joined host'' (SetFlow e FlowDone (set_menuJoin False m1))
           else set_menuJoin False (SetFlow e FlowFailed m1))"

definition TickFlow :: "menu_env \<Rightarrow> menu \<Rightarrow> menu" where
  "TickFlow e m =
     (case mn_flow m of
        FlowIdle \<Rightarrow> m
      | FlowDone \<Rightarrow> m
      | FlowFailed \<Rightarrow> m
      | FlowQuerying \<Rightarrow> tick_querying e m
      | FlowStartingGame \<Rightarrow> if TimedOut e 30 m then flow_fail e ''new game did not start'' m else m
      | FlowWaitWorld \<Rightarrow>
          if player_in_cell (me_game e) then SetFlow e FlowSkipIntro m
          else if TimedOut e 90 m then flow_fail e ''timed out waiting for world'' m else m
      | FlowSkipIntro \<Rightarrow> SetFlow e FlowWaitSkip (SkipIntro e m)
      | FlowWaitSkip \<Rightarrow> tick_wait_skip e m
      | FlowLooks \<Rightarrow> SetFlow e FlowWaitLooks (OpenLooks e m)
      | FlowWaitLooks \<Rightarrow>
          if \<not> mn_looksOpen m \<and> TimedOut e 1 m then SetFlow e FlowSpecial m
          else if TimedOut e 600 m then SetFlow e FlowSpecial m else m
      | FlowSpecial \<Rightarrow> SetFlow e FlowWaitSpecial (OpenSpecial e m)
      | FlowWaitSpecial \<Rightarrow>
          if \<not> mn_specialOpen m \<and> TimedOut e 1 m then SetFlow e FlowStrip m
          else if TimedOut e 600 m then SetFlow e FlowStrip m else m
      | FlowStrip \<Rightarrow> tick_strip e m
      | FlowJoining \<Rightarrow> tick_joining e m)"

subsection \<open>The forms\<close>

text \<open>\<^verbatim>\<open>snprintf(dest, size, "%s", src)\<close>: cut at the first NUL and to \<open>n - 1\<close> characters.\<close>

definition buf_text :: "nat \<Rightarrow> string \<Rightarrow> string" where
  "buf_text n src = take (n - 1) (c_str src)"

definition CopyJoinField :: "string \<Rightarrow> nat \<Rightarrow> string option \<Rightarrow> string" where
  "CopyJoinField dest destSize src =
     (if destSize = 0 then dest else buf_text destSize (case src of Some s \<Rightarrow> s | None \<Rightarrow> []))"

definition CloseMenuForm :: "menu \<Rightarrow> menu" where
  "CloseMenuForm m = m\<lparr>mn_form := FormNone, mn_popupQueued := False, mn_savesRefreshed := False\<rparr>"

definition SyncJoinFieldsFromSettings :: "menu_env \<Rightarrow> menu \<Rightarrow> menu" where
  "SyncJoinFieldsFromSettings e m =
     (let m1 = with_config (CMP_RefreshPlayerNameFromSteam (me_config e) False) m;
          st = ss_settings (mn_ses m1);
          port = dec_str (unat (se_port st))
      in m1\<lparr>mn_joinHost := buf_text 256 (se_host st @ '':'' @ port), mn_joinPort := buf_text 16 port,
            mn_joinName := buf_text 64 (se_playerName st), mn_joinPassword := buf_text 16 (se_password st)\<rparr>)"

text \<open>A port field: \<open>Inl\<close> the message, \<open>Inr\<close> the port.\<close>

definition parse_port :: "string \<Rightarrow> string + u16" where
  "parse_port portStr =
     (case stoi (if portStr = [] then dec_str (unat kDefaultPort) else portStr) of
        None \<Rightarrow> Inl ''port must be a number''
      | Some port \<Rightarrow> if port < 1 \<or> port > 65535 then Inl ''port must be 1-65535'' else Inr (word_of_int port))"

definition ParsePortField :: "menu \<Rightarrow> string + u16" where
  "ParsePortField m = parse_port (TrimCopy (mn_joinPort m))"

definition ParseJoinAddress :: "menu \<Rightarrow> string + string \<times> u16" where
  "ParseJoinAddress m =
     (let host = TrimCopy (mn_joinHost m);
          portStr = TrimCopy (mn_joinPort m);
          (host, portStr) = (case find_char CHR '':'' host 0 of
                               None \<Rightarrow> (host, portStr)
                             | Some colon \<Rightarrow> (TrimCopy (take colon host), TrimCopy (drop (colon + 1) host)))
      in if host = [] then Inl ''server address is empty''
         else if length host > 255 then Inl ''host too long''
         else case parse_port portStr of Inl err \<Rightarrow> Inl err | Inr port \<Rightarrow> Inr (host, port))"

definition save_label :: "save_entry \<Rightarrow> string" where
  "save_label s =
     (if c_str (sv_playerName s) \<noteq> [] then c_str (sv_playerName s) else ''Save '' @ dec_str (sv_number s)) @
     (if c_str (sv_location s) \<noteq> [] then '' | '' @ c_str (sv_location s) else []) @
     (if c_str (sv_playTime s) \<noteq> [] then '' | '' @ c_str (sv_playTime s) else [])"

fun save_rows :: "nat \<Rightarrow> save_entry option list \<Rightarrow> host_save_row list" where
  "save_rows i [] = []"
| "save_rows i (None # es) = save_rows (Suc i) es"
| "save_rows i (Some s # es) =
     (if sv_corrupt s then save_rows (Suc i) es
      else \<lparr>hs_listIndex = int i, hs_label = save_label s\<rparr> # save_rows (Suc i) es)"

definition RefreshHostSaveList :: "menu_env \<Rightarrow> menu \<Rightarrow> menu" where
  "RefreshHostSaveList e m =
     (let m1 = m\<lparr>mn_saves := [], mn_saveSelection := - 1\<rparr>
      in case me_saves e of
           None \<Rightarrow> m1
         | Some entries \<Rightarrow>
             let m2 = m1\<lparr>mn_saves := save_rows 0 entries\<rparr>
             in if mn_saves m2 \<noteq> [] then m2\<lparr>mn_saveSelection := 0\<rparr> else m2)"

definition LoadSaveFromTitleMenu :: "menu_env \<Rightarrow> int \<Rightarrow> menu \<Rightarrow> menu" where
  "LoadSaveFromTitleMenu e saveIndex m =
     (if \<not> me_mainMenu e then SetStatus e ''main menu missing'' m else mcall (MLoadGame saveIndex) m)"

definition launch_server :: "menu_env \<Rightarrow> menu \<Rightarrow> string option \<times> menu" where
  "launch_server e m =
     (let r = CMP_LaunchServer (me_launch e) (se_serverExe (ss_settings (mn_ses m))) (mn_server m)
      in (fst r, m\<lparr>mn_server := snd r\<rparr>))"

definition ConfirmHost :: "menu_env \<Rightarrow> menu \<Rightarrow> menu" where
  "ConfirmHost e m =
     (if nr_joined (ss_net (mn_ses m)) then SetStatus e ''already in session'' m
      else case ParsePortField m of
        Inl err \<Rightarrow> SetStatus e err m
      | Inr port \<Rightarrow>
          let m1 = with_config (CMP_SaveNetworkSettings (me_config e) ''127.0.0.1'' port) m;
              m2 = with_config (CMP_SavePassword (me_config e) (TrimCopy (mn_joinPassword m1))) m1;
              (err, m3) = launch_server e m2
          in case err of
               Some t \<Rightarrow> SetStatus e t m3
             | None \<Rightarrow>
                 if mn_hostContext m3 = TitleMenu
                 then
                   if mn_saveSelection m3 < 0 \<or> mn_saveSelection m3 \<ge> int (length (mn_saves m3))
                   then SetStatus e ''select a save'' m3
                   else
                     let m4 = m3\<lparr>mn_pendingHostJoin := True\<rparr>;
                         loadIndex = hs_listIndex (mn_saves m4 ! nat (mn_saveSelection m4))
                     in SetStatus e ''loading save for host...'' (LoadSaveFromTitleMenu e loadIndex (CloseMenuForm m4))
                 else
                   let (joined, m4) = menu_join e ''127.0.0.1'' port 0 (CloseMenuForm m3)
                   in if joined then ClosePauseMenu e (SetStatus e ''connected as host'' m4)
                      else SetStatus e ''host join failed'' m4)"

definition confirm_name :: "menu_env \<Rightarrow> menu \<Rightarrow> menu" where
  "confirm_name e m =
     (let typed = TrimCopy (mn_joinName m);
          m1 = (if typed = [] \<or> typed = ''Player''
                then let n = with_config (CMP_RefreshPlayerNameFromSteam (me_config e) True) m
                     in n\<lparr>mn_joinName := buf_text 64 (se_playerName (ss_settings (mn_ses n)))\<rparr>
                else m)
      in with_config (CMP_SavePlayerName (me_config e) (TrimCopy (mn_joinName m1))) m1)"

definition ConfirmJoin :: "menu_env \<Rightarrow> menu \<Rightarrow> menu" where
  "ConfirmJoin e m =
     (case ParseJoinAddress m of
        Inl err \<Rightarrow> SetStatus e err m
      | Inr (host, port) \<Rightarrow>
          let m1 = with_config (CMP_SaveNetworkSettings (me_config e) host port) m;
              m2 = confirm_name e m1;
              m3 = with_config (CMP_SavePassword (me_config e) (TrimCopy (mn_joinPassword m2))) m2;
              m4 = upd_ses (\<lambda>s. s\<lparr>ss_settings := (ss_settings s)\<lparr>se_password := resize_to 15 (se_password (ss_settings s))\<rparr>\<rparr>) m3;
              m5 = SetFlow e FlowQuerying (CloseMenuForm m4);
              m6 = SetStatus e (''querying '' @ host @ '':'' @ dec_str (unat port)) m5
          in upd_ses (CMP_QueryStart (me_game e) host port) m6)"

definition OpenHostFlow :: "menu_env \<Rightarrow> join_context \<Rightarrow> menu \<Rightarrow> menu" where
  "OpenHostFlow e ctx m =
     (if ctx = InGame \<and> nr_joined (ss_net (mn_ses m)) then SetStatus e ''already in session'' m
      else if mn_flow m \<noteq> FlowIdle then m
      else (SyncJoinFieldsFromSettings e (m\<lparr>mn_hostContext := ctx\<rparr>))
             \<lparr>mn_savesRefreshed := False, mn_saveSelection := - 1, mn_form := FormHost, mn_popupQueued := True\<rparr>)"

definition DisconnectSession :: "menu_env \<Rightarrow> menu \<Rightarrow> menu" where
  "DisconnectSession e m = ClosePauseMenu e (SetStatus e ''disconnected'' (upd_ses (CMP_Leave (me_game e)) m))"

definition OpenJoinFlow :: "menu_env \<Rightarrow> join_context \<Rightarrow> menu \<Rightarrow> menu" where
  "OpenJoinFlow e ctx m =
     (let m1 = m\<lparr>mn_joinContext := ctx\<rparr>
      in if mn_flow m1 \<noteq> FlowIdle then m1
         else (SyncJoinFieldsFromSettings e m1)\<lparr>mn_form := FormJoin, mn_popupQueued := True\<rparr>)"

subsection \<open>A frame of the forms\<close>

text \<open>What the widgets answer: the texts after editing, the save clicked on, the buttons pressed.\<close>

record form_input =
  fi_popup :: bool
  fi_server :: string
  fi_name :: string
  fi_password :: string
  fi_port :: string
  fi_select :: "nat option"
  fi_confirm :: bool
  fi_cancel :: bool

definition join_form :: "menu_env \<Rightarrow> form_input \<Rightarrow> menu \<Rightarrow> menu" where
  "join_form e i m =
     (let m1 = m\<lparr>mn_joinHost := buf_text 256 (fi_server i), mn_joinName := buf_text 64 (fi_name i),
                 mn_joinPassword := buf_text 16 (fi_password i)\<rparr>;
          m2 = (if fi_confirm i then ConfirmJoin e m1 else m1)
      in if fi_cancel i then CloseMenuForm m2 else m2)"

definition host_form :: "menu_env \<Rightarrow> form_input \<Rightarrow> menu \<Rightarrow> menu" where
  "host_form e i m =
     (let m1 = (if mn_hostContext m = TitleMenu
                then
                  let n = (if \<not> mn_savesRefreshed m then (RefreshHostSaveList e m)\<lparr>mn_savesRefreshed := True\<rparr> else m)
                  in (case fi_select i of
                        Some k \<Rightarrow> if k < length (mn_saves n) then n\<lparr>mn_saveSelection := int k\<rparr> else n
                      | None \<Rightarrow> n)
                else m);
          m2 = m1\<lparr>mn_joinPort := buf_text 16 (fi_port i), mn_joinPassword := buf_text 16 (fi_password i)\<rparr>;
          m3 = (if fi_confirm i then ConfirmHost e m2 else m2)
      in if fi_cancel i then CloseMenuForm m3 else m3)"

definition CMP_MenuDrawForms :: "menu_env \<Rightarrow> form_input \<Rightarrow> menu \<Rightarrow> menu" where
  "CMP_MenuDrawForms e i m =
     (if mn_form m = FormNone then m
      else
        let m1 = (if mn_popupQueued m then m\<lparr>mn_popupQueued := False\<rparr> else m)
        in if \<not> fi_popup i then m1
           else if mn_form m1 = FormJoin then join_form e i m1 else host_form e i m1)"

subsection \<open>Events and entry points\<close>

definition MenuSink :: "string \<Rightarrow> bool \<Rightarrow> menu \<Rightarrow> menu" where
  "MenuSink name opening m =
     (if name = ''MainMenu''
      then (if opening then m\<lparr>mn_stampWait := 0, mn_form := FormNone\<rparr> else CloseMenuForm m)
      else if name = ''LooksMenu'' then m\<lparr>mn_looksOpen := opening\<rparr>
      else if name = ''SPECIALMenu'' then m\<lparr>mn_specialOpen := opening\<rparr>
      else m)"

definition flow_active :: "flow \<Rightarrow> bool" where
  "flow_active f \<longleftrightarrow> f \<noteq> FlowIdle \<and> f \<noteq> FlowDone \<and> f \<noteq> FlowFailed"

fun phase_text :: "flow \<Rightarrow> string" where
  "phase_text FlowQuerying = ''Querying server''"
| "phase_text FlowStartingGame = ''Starting game''"
| "phase_text FlowWaitWorld = ''Starting game''"
| "phase_text FlowSkipIntro = ''Skipping intro''"
| "phase_text FlowWaitSkip = ''Skipping intro''"
| "phase_text FlowLooks = ''Creating character''"
| "phase_text FlowWaitLooks = ''Creating character''"
| "phase_text FlowSpecial = ''Setting SPECIAL''"
| "phase_text FlowWaitSpecial = ''Setting SPECIAL''"
| "phase_text FlowStrip = ''Preparing to join''"
| "phase_text FlowJoining = ''Joining server''"
| "phase_text _ = []"

definition CMP_MenuPresencePhase :: "menu \<Rightarrow> bool \<times> string" where
  "CMP_MenuPresencePhase m = (flow_active (mn_flow m), phase_text (mn_flow m))"

definition CMP_MenuJoinPending :: "menu \<Rightarrow> bool" where
  "CMP_MenuJoinPending m = flow_active (mn_flow m)"

definition CMP_MenuFormOpen :: "menu \<Rightarrow> bool" where
  "CMP_MenuFormOpen m \<longleftrightarrow> mn_form m \<noteq> FormNone"

definition CMP_MenuHostJoinPending :: "menu \<Rightarrow> bool" where
  "CMP_MenuHostJoinPending m = mn_pendingHostJoin m"

definition CMP_MenuHostJoinAfterLoad :: "menu_env \<Rightarrow> menu \<Rightarrow> menu" where
  "CMP_MenuHostJoinAfterLoad e m =
     (if \<not> mn_pendingHostJoin m then m
      else
        let m1 = m\<lparr>mn_pendingHostJoin := False\<rparr>;
            (joined, m2) = menu_join e ''127.0.0.1'' (se_port (ss_settings (mn_ses m1))) 0 m1
        in SetStatus e (if joined then ''connected as host'' else ''host join failed'') m2)"

definition CMP_InstallMenu :: "menu_env \<Rightarrow> menu \<Rightarrow> menu" where
  "CMP_InstallMenu e m = (if mn_sinkReady m \<or> \<not> me_ui e then m else m\<lparr>mn_sinkReady := True\<rparr>)"

definition CMP_MenuTick :: "menu_env \<Rightarrow> menu \<Rightarrow> menu" where
  "CMP_MenuTick e m = TickFlow e (if \<not> mn_sinkReady m then CMP_InstallMenu e m else m)"

definition CMP_MenuOpenJoin :: "menu_env \<Rightarrow> bool \<Rightarrow> menu \<Rightarrow> menu" where
  "CMP_MenuOpenJoin e titleMenu m = OpenJoinFlow e (if titleMenu then TitleMenu else InGame) m"

definition CMP_MenuOpenHost :: "menu_env \<Rightarrow> bool \<Rightarrow> menu \<Rightarrow> menu" where
  "CMP_MenuOpenHost e titleMenu m = OpenHostFlow e (if titleMenu then TitleMenu else InGame) m"

definition CMP_MenuOnNewGame :: "menu_env \<Rightarrow> menu \<Rightarrow> menu" where
  "CMP_MenuOnNewGame e m =
     (if mn_flow m = FlowStartingGame \<or> mr_menuJoin (ss_menu (mn_ses m))
      then SetStatus e ''new game loaded, waiting for player'' (SetFlow e FlowWaitWorld m) else m)"

definition CMP_OnGameReady :: "menu_env \<Rightarrow> menu \<Rightarrow> menu" where
  "CMP_OnGameReady e m =
     (let m1 = with_config (CMP_RefreshPlayerNameFromSteam (me_config e) False) m;
          m2 = upd_ses (upd_net (\<lambda>n. n\<lparr>nr_probedForms := True\<rparr>)) m1
      in if mr_menuJoin (ss_menu (mn_ses m2)) \<or> CMP_MenuJoinPending m2 then m2
         else if CMP_MenuHostJoinPending m2 then CMP_MenuHostJoinAfterLoad e m2
         else
           let st = ss_settings (mn_ses m2)
           in if se_autoJoin st \<and> \<not> nr_joined (ss_net (mn_ses m2))
              then snd (menu_join e (se_host st) (se_port st) 0 m2) else m2)"

definition CMP_OnPreLoad :: "menu_env \<Rightarrow> menu \<Rightarrow> menu" where
  "CMP_OnPreLoad e m = upd_ses (\<lambda>s. CMP_DespawnGhosts (CMP_Leave (me_game e) s)) m"

end
