(* ===== verification/MenuFlow.thy ===== *)
theory MenuFlow
  imports PluginMenu
begin

text \<open>
  Correctness of the menus: the invariant of the forms and of the join flow together with that of the
  session, the order in which the flow passes through its states and that it ends, reading back the
  address a form was filled with, and the state the menus are left in by a join.
\<close>

subsection \<open>The menu flag of the session\<close>

abbreviation mjoin :: "session \<Rightarrow> bool" where
  "mjoin s \<equiv> mr_menuJoin (ss_menu s)"

text \<open>\<open>no_new_join s s'\<close>: from \<open>s\<close> to \<open>s'\<close> no menu join has begun.\<close>

definition no_new_join :: "session \<Rightarrow> session \<Rightarrow> bool" where
  "no_new_join s s' \<longleftrightarrow> (mjoin s' \<longrightarrow> mjoin s)"

named_theorems no_join \<open>operations of the session that begin no menu join\<close>

lemma no_join_refl [no_join]: "no_new_join s s"
  by (simp add: no_new_join_def)

lemma no_join_trans: "no_new_join a b \<Longrightarrow> no_new_join b c \<Longrightarrow> no_new_join a c"
  by (simp add: no_new_join_def)

lemma mjoin_leave [simp]: "\<not> mjoin (CMP_Leave g s)"
  by (simp add: CMP_Leave_def CMP_ClearHostActors_def unfreeze_all Let_def)

lemma no_join_leave [no_join]: "no_new_join s (CMP_Leave g s')"
  by (simp add: no_new_join_def)

lemma no_join_sent [no_join]: "only_sent s s' \<Longrightarrow> no_new_join s s'"
  by (auto simp: only_sent_def no_new_join_def dest: core_fields(5))

lemma mjoin_tcp_out [simp]: "ss_menu (snd (tcp_out g d s)) = ss_menu s"
  by (simp add: tcp_out_def Let_def)

lemma mjoin_join [simp]: "\<not> mjoin (snd (CMP_Join g h p f s))"
  by (simp add: CMP_Join_def fail_join_def join_reset_def Let_def)

lemma no_join_query_start [no_join]: "no_new_join s (CMP_QueryStart g h p s)"
  by (simp add: CMP_QueryStart_def query_fail_def no_new_join_def Let_def)

lemma menu_query_loop: "ss_menu (snd (query_loop k rss s)) = ss_menu s"
  by (induction k arbitrary: rss s) (simp_all add: query_answer_def Let_def)

lemma menu_query_poll [simp]: "ss_menu (snd (CMP_QueryPoll g out s)) = ss_menu s"
  using menu_query_loop [of 8 "gm_recv g" s] by (simp add: CMP_QueryPoll_def Let_def)

lemma no_join_net [no_join]: "no_new_join s (upd_net f s)" "no_new_join s (upd_blobs h s)" "no_new_join s (call c s)"
  "no_new_join s (s\<lparr>ss_lastRecvSec := t\<rparr>)" "no_new_join s (s\<lparr>ss_sock := k\<rparr>)"
  by (simp_all add: no_new_join_def)

lemma mjoin_send_bind [simp]: "ss_menu (send_bind g s) = ss_menu s"
  by (simp add: send_bind_def udp_out_def Let_def)

lemma sent_menu: "only_sent s s' \<Longrightarrow> ss_menu s' = ss_menu s"
  by (auto simp: only_sent_def dest: core_fields(5))

lemma no_join_welcome [no_join]: "no_new_join s (on_welcome g w s)"
proof -
  have a: "ss_menu (CMP_SendAppearance g True t) = ss_menu t" "ss_menu (CMP_Net_Send g d t) = ss_menu t" for t d
    by (simp_all add: sent_menu)
  show ?thesis by (simp add: on_welcome_def no_new_join_def Let_def a)
qed

lemma no_join_chunks [no_join]:
  "no_new_join s (HandleAppearanceChunk g buf s)" "no_new_join s (HandleInventoryChunk g buf s)"
  by (simp_all add: HandleAppearanceChunk_def HandleInventoryChunk_def CMP_ApplyGhostAppearance_def
      ApplyGhostInventory_def no_new_join_def Let_def split: prod.split option.split)

lemma no_join_dispatch [no_join]: "no_new_join s (dispatch_message g t buf s)"
  by (cases t)
    (simp_all add: dispatch_message_def Let_def no_join on_reject_def CMP_ApplyWorldSnapshot_def apply_calendar_def
      on_bye_def on_player_pose_def CMP_OnActorPose_def CMP_OnHit_def on_heartbeat_def on_session_rules_def
      on_chat_def on_kick_def on_teleport_def no_join_welcome,
     auto simp: no_new_join_def split: option.split)

lemma no_join_message [no_join]: "no_new_join s (HandleMessage g buf s)"
  using no_join_trans [OF no_join_net(4) no_join_dispatch]
  by (simp add: HandleMessage_def Let_def no_join_refl split: option.split)

lemma no_join_frames: "no_new_join s (snd (poll_frames k g rss s))"
proof (induction k arbitrary: rss s)
  case (Suc k)
  show ?case
    using no_join_trans [OF no_join_trans [OF no_join_net(5) no_join_message] Suc]
      no_join_trans [OF no_join_net(5) no_join_message]
    by (simp add: Let_def no_join_leave no_join_net)
qed (simp add: no_join_refl)

lemma no_join_datagrams: "no_new_join s (snd (poll_datagrams k g ds s))"
proof (induction k arbitrary: ds s)
  case (Suc k)
  show ?case using no_join_trans [OF no_join_message Suc] no_join_message by (simp add: Let_def no_join_refl)
qed (simp add: no_join_refl)

lemma no_join_poll [no_join]: "no_new_join s (CMP_NetPoll g s)"
proof -
  let ?s1 = "expire_parts g (inventory_due g (bind_retry g (hello_retry g s)))"
  have "no_new_join s ?s1" if j: "nr_joined (ss_net s)"
  proof -
    note r = only_sent_retries
    have 1: "only_sent s (hello_retry g s)" using r(1) [OF j] .
    have 2: "only_sent (hello_retry g s) (bind_retry g (hello_retry g s))"
      using r(2) only_sent_joined [OF 1] j by simp
    have 3: "only_sent (bind_retry g (hello_retry g s)) (inventory_due g (bind_retry g (hello_retry g s)))"
      using r(3) only_sent_joined [OF 1] only_sent_joined [OF 2] j by simp
    from only_sent_trans [OF only_sent_trans [OF 1 2] 3] have "no_new_join s (inventory_due g (bind_retry g (hello_retry g s)))"
      by (rule no_join_sent)
    then show ?thesis unfolding expire_parts_def Let_def by (rule no_join_trans) (rule no_join_net)
  qed
  note f = no_join_trans [OF this no_join_frames]
  note d = no_join_trans [OF f no_join_datagrams]
  have "no_new_join a (take_poses b) = no_new_join a b" for a b
    by (simp add: take_poses_def no_new_join_def)
  with f d show ?thesis
    by (simp add: CMP_NetPoll_def Let_def no_join_leave no_join_refl)
qed


subsection \<open>Operations that only talk\<close>

text \<open>
  What a status line, a console command or a settings operation leaves alone: all of the menu but
  the calls made, the files, the server process and the session's status, settings and calls.
\<close>

definition talk_ses :: "session \<Rightarrow> session" where
  "talk_ses s = s\<lparr>ss_lastStatus := [], ss_settings := default_settings, ss_calls := []\<rparr>"

definition talk_of :: "menu \<Rightarrow> menu" where
  "talk_of m = m\<lparr>mn_calls := [], mn_files := \<lparr>pf_ini = \<lambda>_ _. None, pf_text = \<lambda>_. None\<rparr>, mn_server := None,
     mn_ses := talk_ses (mn_ses m), mn_joinName := []\<rparr>"

definition talks :: "menu \<Rightarrow> menu \<Rightarrow> bool" where
  "talks m m' \<longleftrightarrow> talk_of m' = talk_of m"

lemma talks_refl: "talks m m" and talks_trans: "talks a b \<Longrightarrow> talks b c \<Longrightarrow> talks a c"
  by (simp_all add: talks_def)

lemma talk_ses_inv: "client_inv (talk_ses s) = client_inv s"
  by (simp add: talk_ses_def client_inv_def session_clean_def Let_def)

lemma talk_ses_fields:
  assumes "talk_ses s' = talk_ses s"
  shows "client_inv s' = client_inv s" "mjoin s' = mjoin s" "ss_net s' = ss_net s"
proof -
  have "f (talk_ses s') = f (talk_ses s)" for f :: "session \<Rightarrow> 'a" using assms by simp
  note e = this [of client_inv] this [of ss_menu] this [of ss_net]
  show "client_inv s' = client_inv s" "mjoin s' = mjoin s" "ss_net s' = ss_net s"
    using e by (simp_all add: talk_ses_inv) (simp_all add: talk_ses_def)
qed

lemma talks_fields:
  assumes "talks m m'"
  shows "mn_flow m' = mn_flow m" "mn_flowAt m' = mn_flowAt m" "mn_form m' = mn_form m"
    "mn_looksOpen m' = mn_looksOpen m" "mn_specialOpen m' = mn_specialOpen m" "mn_joinContext m' = mn_joinContext m"
    "mn_hostContext m' = mn_hostContext m" "mn_saves m' = mn_saves m" "mn_saveSelection m' = mn_saveSelection m"
    "mn_pendingHostJoin m' = mn_pendingHostJoin m" "mn_joinHost m' = mn_joinHost m" "mn_joinPort m' = mn_joinPort m"
    "mn_joinPassword m' = mn_joinPassword m" "client_inv (mn_ses m') = client_inv (mn_ses m)"
    "mjoin (mn_ses m') = mjoin (mn_ses m)" "ss_net (mn_ses m') = ss_net (mn_ses m)"
proof -
  have "f (talk_of m') = f (talk_of m)" for f :: "menu \<Rightarrow> 'a" using assms by (simp add: talks_def)
  note e = this [of mn_flow] this [of mn_flowAt] this [of mn_form] this [of mn_looksOpen] this [of mn_specialOpen]
    this [of mn_joinContext] this [of mn_hostContext] this [of mn_saves] this [of mn_saveSelection]
    this [of mn_pendingHostJoin] this [of mn_joinHost] this [of mn_joinPort] this [of mn_joinPassword] this [of mn_ses]
  show "mn_flow m' = mn_flow m" "mn_flowAt m' = mn_flowAt m" "mn_form m' = mn_form m"
    "mn_looksOpen m' = mn_looksOpen m" "mn_specialOpen m' = mn_specialOpen m" "mn_joinContext m' = mn_joinContext m"
    "mn_hostContext m' = mn_hostContext m" "mn_saves m' = mn_saves m" "mn_saveSelection m' = mn_saveSelection m"
    "mn_pendingHostJoin m' = mn_pendingHostJoin m" "mn_joinHost m' = mn_joinHost m" "mn_joinPort m' = mn_joinPort m"
    "mn_joinPassword m' = mn_joinPassword m"
    using e by (simp_all add: talk_of_def)
  have "talk_ses (mn_ses m') = talk_ses (mn_ses m)" using e by (simp add: talk_of_def)
  from talk_ses_fields [OF this] show "client_inv (mn_ses m') = client_inv (mn_ses m)"
    "mjoin (mn_ses m') = mjoin (mn_ses m)" "ss_net (mn_ses m') = ss_net (mn_ses m)" .
qed

lemma talks_mcall: "talks m (mcall c m)"
  by (simp add: talks_def talk_of_def mcall_def)

lemma talks_status: "talks m (SetStatus e t m)"
  by (simp add: talks_def talk_of_def SetStatus_def upd_ses_def mcall_def call_def talk_ses_def Let_def)

lemma talks_pause: "talks m (ClosePauseMenu e m)"
  by (simp add: ClosePauseMenu_def talks_refl talks_mcall)

lemma talks_ensure: "talks m (CMP_EnsureCommonwealthExterior e m)"
  by (simp add: CMP_EnsureCommonwealthExterior_def talks_refl talks_mcall)

lemma talks_strip: "talks m (CMP_StripLocalGear m)"
  by (simp add: talks_def talk_of_def CMP_StripLocalGear_def mcall_def)

lemma talks_name: "talks m (CopyChargenName e m)"
  by (simp add: talks_def talk_of_def CopyChargenName_def upd_ses_def talk_ses_def split: option.split)

lemma talks_skip: "talks m (SkipIntro e m)"
  unfolding SkipIntro_def Let_def
  by (rule talks_trans [OF talks_trans [OF talks_trans [OF talks_trans [OF talks_mcall talks_mcall] talks_mcall]
    talks_ensure] talks_status])

lemma talks_looks: "talks m (OpenLooks e m)" and talks_special: "talks m (OpenSpecial e m)"
  unfolding OpenLooks_def OpenSpecial_def by (rule talks_trans [OF talks_mcall talks_status])+

lemma talks_config: "talks m (with_config f m)"
  by (simp add: talks_def talk_of_def with_config_def talk_ses_def Let_def)

lemma talks_launch: "talks m (snd (launch_server e m))"
  by (simp add: talks_def talk_of_def launch_server_def Let_def)

lemma talks_load: "talks m (LoadSaveFromTitleMenu e i m)"
  by (simp add: LoadSaveFromTitleMenu_def talks_status talks_mcall)

lemma talks_confirm_name: "talks m (confirm_name e m)"
proof -
  have "talks m (m\<lparr>mn_joinName := t\<rparr>)" for t m by (simp add: talks_def talk_of_def)
  then have "talks m (let n = with_config (CMP_RefreshPlayerNameFromSteam (me_config e) True) m
       in n\<lparr>mn_joinName := buf_text 64 (se_playerName (ss_settings (mn_ses n)))\<rparr>)"
    unfolding Let_def by (rule talks_trans [OF talks_config])
  then show ?thesis
    unfolding confirm_name_def Let_def by (auto intro: talks_config talks_trans [OF _ talks_config])
qed

lemmas status_fields [simp] = talks_fields [OF talks_status]
lemmas mcall_fields [simp] = talks_fields [OF talks_mcall]
lemmas pause_fields [simp] = talks_fields [OF talks_pause]
lemmas ensure_fields [simp] = talks_fields [OF talks_ensure]
lemmas strip_fields [simp] = talks_fields [OF talks_strip]
lemmas name_fields [simp] = talks_fields [OF talks_name]
lemmas skip_fields [simp] = talks_fields [OF talks_skip]
lemmas looks_fields [simp] = talks_fields [OF talks_looks]
lemmas special_fields [simp] = talks_fields [OF talks_special]
lemmas config_fields [simp] = talks_fields [OF talks_config]
lemmas launch_fields [simp] = talks_fields [OF talks_launch]
lemmas load_fields [simp] = talks_fields [OF talks_load]
lemmas confirm_name_fields [simp] = talks_fields [OF talks_confirm_name]

lemma upd_ses_fields [simp]:
  "mn_flow (upd_ses f m) = mn_flow m" "mn_flowAt (upd_ses f m) = mn_flowAt m" "mn_form (upd_ses f m) = mn_form m"
  "mn_looksOpen (upd_ses f m) = mn_looksOpen m" "mn_specialOpen (upd_ses f m) = mn_specialOpen m"
  "mn_joinContext (upd_ses f m) = mn_joinContext m" "mn_hostContext (upd_ses f m) = mn_hostContext m"
  "mn_saves (upd_ses f m) = mn_saves m" "mn_saveSelection (upd_ses f m) = mn_saveSelection m"
  "mn_pendingHostJoin (upd_ses f m) = mn_pendingHostJoin m" "mn_joinHost (upd_ses f m) = mn_joinHost m"
  "mn_joinPort (upd_ses f m) = mn_joinPort m" "mn_joinPassword (upd_ses f m) = mn_joinPassword m"
  "mn_joinName (upd_ses f m) = mn_joinName m" "mn_ses (upd_ses f m) = f (mn_ses m)"
  by (simp_all add: upd_ses_def)

lemma SetFlow_fields [simp]:
  "mn_flow (SetFlow e f m) = f" "mn_flowAt (SetFlow e f m) = gm_now (me_game e)" "mn_form (SetFlow e f m) = mn_form m"
  "mn_looksOpen (SetFlow e f m) = mn_looksOpen m" "mn_specialOpen (SetFlow e f m) = mn_specialOpen m"
  "mn_joinContext (SetFlow e f m) = mn_joinContext m" "mn_hostContext (SetFlow e f m) = mn_hostContext m"
  "mn_saves (SetFlow e f m) = mn_saves m" "mn_saveSelection (SetFlow e f m) = mn_saveSelection m"
  "mn_pendingHostJoin (SetFlow e f m) = mn_pendingHostJoin m" "mn_joinHost (SetFlow e f m) = mn_joinHost m"
  "mn_joinPort (SetFlow e f m) = mn_joinPort m" "mn_joinPassword (SetFlow e f m) = mn_joinPassword m"
  "mn_joinName (SetFlow e f m) = mn_joinName m" "mn_ses (SetFlow e f m) = call GPresenceInvalidate (mn_ses m)"
  by (simp_all add: SetFlow_def)

lemma set_menuJoin_fields [simp]:
  "mn_flow (set_menuJoin b m) = mn_flow m" "mn_flowAt (set_menuJoin b m) = mn_flowAt m"
  "mn_form (set_menuJoin b m) = mn_form m" "mn_saves (set_menuJoin b m) = mn_saves m"
  "mn_saveSelection (set_menuJoin b m) = mn_saveSelection m" "mn_joinHost (set_menuJoin b m) = mn_joinHost m"
  "mn_joinPort (set_menuJoin b m) = mn_joinPort m" "mn_joinPassword (set_menuJoin b m) = mn_joinPassword m"
  "mn_joinName (set_menuJoin b m) = mn_joinName m" "mjoin (mn_ses (set_menuJoin b m)) = b"
  "client_inv (mn_ses (set_menuJoin b m)) = client_inv (mn_ses m)"
  by (simp_all add: set_menuJoin_def client_inv_def session_clean_def Let_def)

lemma menu_join_fields [simp]:
  "mn_flow (snd (menu_join e h p f m)) = mn_flow m" "mn_flowAt (snd (menu_join e h p f m)) = mn_flowAt m"
  "mn_form (snd (menu_join e h p f m)) = mn_form m" "mn_saves (snd (menu_join e h p f m)) = mn_saves m"
  "mn_saveSelection (snd (menu_join e h p f m)) = mn_saveSelection m" "mn_joinHost (snd (menu_join e h p f m)) = mn_joinHost m"
  "mn_joinPort (snd (menu_join e h p f m)) = mn_joinPort m" "mn_joinPassword (snd (menu_join e h p f m)) = mn_joinPassword m"
  "mn_joinName (snd (menu_join e h p f m)) = mn_joinName m" "\<not> mjoin (mn_ses (snd (menu_join e h p f m)))"
  "client_inv (mn_ses m) \<Longrightarrow> client_inv (mn_ses (snd (menu_join e h p f m)))"
  using join_inv by (simp_all add: menu_join_def Let_def client_inv_def)


subsection \<open>The order of the states\<close>

text \<open>The place of a state on the way from the query to the end.\<close>

fun flow_rank :: "flow \<Rightarrow> nat" where
  "flow_rank FlowQuerying = 0"
| "flow_rank FlowStartingGame = 1"
| "flow_rank FlowWaitWorld = 2"
| "flow_rank FlowSkipIntro = 3"
| "flow_rank FlowWaitSkip = 4"
| "flow_rank FlowLooks = 5"
| "flow_rank FlowWaitLooks = 6"
| "flow_rank FlowSpecial = 7"
| "flow_rank FlowWaitSpecial = 8"
| "flow_rank FlowStrip = 9"
| "flow_rank FlowJoining = 10"
| "flow_rank FlowDone = 11"
| "flow_rank FlowFailed = 11"
| "flow_rank FlowIdle = 11"

text \<open>The moves of a tick, one rule for each, and what it takes.\<close>

inductive flow_edge :: "menu_env \<Rightarrow> menu \<Rightarrow> flow \<Rightarrow> flow \<Rightarrow> bool" for e m where
  edge_refused: "flow_edge e m FlowQuerying FlowIdle"
| edge_joined: "mn_joinContext m = InGame \<Longrightarrow> flow_edge e m FlowQuerying FlowDone"
| edge_join_failed: "mn_joinContext m = InGame \<Longrightarrow> flow_edge e m FlowQuerying FlowFailed"
| edge_chargen: "mn_joinContext m = TitleMenu \<Longrightarrow> flow_edge e m FlowQuerying FlowStartingGame"
| edge_no_game: "TimedOut e 30 m \<Longrightarrow> flow_edge e m FlowStartingGame FlowFailed"
| edge_world: "player_in_cell (me_game e) \<Longrightarrow> flow_edge e m FlowWaitWorld FlowSkipIntro"
| edge_no_world: "\<not> player_in_cell (me_game e) \<Longrightarrow> TimedOut e 90 m \<Longrightarrow> flow_edge e m FlowWaitWorld FlowFailed"
| edge_skip: "flow_edge e m FlowSkipIntro FlowWaitSkip"
| edge_looks: "CMP_PlayerInCommonwealth (me_game e) \<Longrightarrow> flow_edge e m FlowWaitSkip FlowLooks"
| edge_looks_open: "CMP_PlayerInCommonwealth (me_game e) \<Longrightarrow> mn_looksOpen m \<Longrightarrow> flow_edge e m FlowWaitSkip FlowWaitLooks"
| edge_no_commonwealth: "flow_edge e m FlowWaitSkip FlowFailed"
| edge_wait_looks: "flow_edge e m FlowLooks FlowWaitLooks"
| edge_special: "TimedOut e 1 m \<or> TimedOut e 600 m \<Longrightarrow> flow_edge e m FlowWaitLooks FlowSpecial"
| edge_wait_special: "flow_edge e m FlowSpecial FlowWaitSpecial"
| edge_strip: "TimedOut e 1 m \<or> TimedOut e 600 m \<Longrightarrow> flow_edge e m FlowWaitSpecial FlowStrip"
| edge_joining: "flow_edge e m FlowStrip FlowJoining"
| edge_done: "CMP_PlayerInCommonwealth (me_game e) \<Longrightarrow> flow_edge e m FlowJoining FlowDone"
| edge_failed: "flow_edge e m FlowJoining FlowFailed"

declare flow_edge.intros [intro]

inductive_simps flow_edge_from [simp]:
  "flow_edge e m FlowIdle f" "flow_edge e m FlowDone f" "flow_edge e m FlowFailed f"

lemma edge_rank: "flow_edge e m f f' \<Longrightarrow> flow_rank f < flow_rank f'"
  by (induction rule: flow_edge.induct) simp_all

lemma flow_rank_max: "flow_rank f \<le> 11"
  by (cases f) simp_all

lemma flow_rank_11: "flow_rank f = 11 \<longleftrightarrow> \<not> flow_active f"
  by (cases f) (simp_all add: flow_active_def)

text \<open>What a tick makes of the flow, of the menu flag and of the session.\<close>

definition tick_ok :: "menu_env \<Rightarrow> menu \<Rightarrow> menu \<Rightarrow> bool" where
  "tick_ok e m m' \<longleftrightarrow>
     (mn_flow m' = mn_flow m \<and> mn_flowAt m' = mn_flowAt m \<or>
      flow_edge e m (mn_flow m) (mn_flow m') \<and> mn_flowAt m' = gm_now (me_game e)) \<and>
     mn_form m' = mn_form m \<and> mn_saves m' = mn_saves m \<and> mn_saveSelection m' = mn_saveSelection m \<and>
     mn_joinHost m' = mn_joinHost m \<and> mn_joinPort m' = mn_joinPort m \<and> mn_joinPassword m' = mn_joinPassword m \<and>
     (client_inv (mn_ses m) \<longrightarrow> client_inv (mn_ses m')) \<and>
     (mjoin (mn_ses m') \<longrightarrow> mjoin (mn_ses m) \<and> flow_active (mn_flow m') \<or> mn_flow m' = FlowStartingGame)"

lemma flow_fail_fields [simp]:
  "mn_flow (flow_fail e t m) = FlowFailed" "mn_flowAt (flow_fail e t m) = gm_now (me_game e)"
  "mn_form (flow_fail e t m) = mn_form m" "mn_saves (flow_fail e t m) = mn_saves m"
  "mn_saveSelection (flow_fail e t m) = mn_saveSelection m" "mn_joinHost (flow_fail e t m) = mn_joinHost m"
  "mn_joinPort (flow_fail e t m) = mn_joinPort m" "mn_joinPassword (flow_fail e t m) = mn_joinPassword m"
  "\<not> mjoin (mn_ses (flow_fail e t m))" "client_inv (mn_ses (flow_fail e t m)) = client_inv (mn_ses m)"
  by (simp_all add: flow_fail_def)

lemma inv_menu_flags [simp]:
  "client_inv (s\<lparr>ss_menu := (ss_menu s)\<lparr>mr_menuJoin := b, mr_joinFlags := fl\<rparr>\<rparr>) = client_inv s"
  by (simp add: client_inv_def session_clean_def Let_def)

lemma query_finished_ok:
  assumes "mn_flow m = FlowQuerying"
  shows "tick_ok e m (OnQueryFinished e r m)"
proof (cases "qr_ok r")
  case False
  then show ?thesis using assms by (auto simp: OnQueryFinished_def tick_ok_def Let_def)
next
  case True
  show ?thesis
  proof (cases "mn_joinContext m")
    case InGame
    then show ?thesis using assms True
      by (auto simp: OnQueryFinished_def tick_ok_def Let_def split_beta)
  next
    case TitleMenu
    then show ?thesis using assms True
      by (auto simp: OnQueryFinished_def BeginChargen_def tick_ok_def Let_def)
  qed
qed


lemma TimedOut_cong: "mn_flowAt m' = mn_flowAt m \<Longrightarrow> TimedOut e k m' = TimedOut e k m"
  by (simp add: TimedOut_def)

lemma tick_querying_ok:
  assumes "mn_flow m = FlowQuerying"
  shows "tick_ok e m (tick_querying e m)"
proof -
  let ?q = "CMP_QueryPoll (me_game e) query_result_init (mn_ses m)"
  let ?m = "m\<lparr>mn_ses := snd ?q\<rparr>"
  have inv: "client_inv (mn_ses m) \<Longrightarrow> client_inv (snd ?q)" by (rule query_poll_inv)
  have "tick_ok e m m'" if "tick_ok e ?m m'" for m'
  proof -
    have "flow_edge e ?m f f' \<Longrightarrow> flow_edge e m f f'" for f f'
      by (induction rule: flow_edge.induct) (auto simp: TimedOut_def)
    with that inv show ?thesis by (auto simp: tick_ok_def)
  qed
  moreover have "tick_ok e ?m ?m" using assms by (simp add: tick_ok_def flow_active_def)
  moreover have "tick_ok e ?m (OnQueryFinished e r ?m)" for r
    using assms by (intro query_finished_ok) simp
  ultimately show ?thesis by (simp add: tick_querying_def Let_def split: option.split)
qed

lemma tick_wait_skip_ok: "mn_flow m = FlowWaitSkip \<Longrightarrow> tick_ok e m (tick_wait_skip e m)"
  by (auto simp: tick_wait_skip_def tick_ok_def flow_active_def Let_def)

lemma tick_joining_ok: "mn_flow m = FlowJoining \<Longrightarrow> tick_ok e m (tick_joining e m)"
  by (auto simp: tick_joining_def tick_ok_def flow_active_def Let_def split_beta)

lemma tick_strip_ok: "mn_flow m = FlowStrip \<Longrightarrow> tick_ok e m (tick_strip e m)"
  by (auto simp: tick_strip_def tick_ok_def flow_active_def Let_def)

lemma tick_flow_ok:
  assumes "mjoin (mn_ses m) \<Longrightarrow> flow_active (mn_flow m)"
  shows "tick_ok e m (TickFlow e m)"
  using assms
  by (cases "mn_flow m"; simp add: TickFlow_def tick_querying_ok tick_wait_skip_ok tick_joining_ok tick_strip_ok;
      (auto simp: tick_ok_def flow_active_def)?)

subsection \<open>The invariant\<close>

definition menu_ok :: "menu \<Rightarrow> bool" where
  "menu_ok m \<longleftrightarrow>
     (mn_form m \<noteq> FormNone \<longrightarrow> mn_flow m = FlowIdle) \<and>
     (mjoin (mn_ses m) \<longrightarrow> flow_active (mn_flow m) \<and> mn_flow m \<noteq> FlowQuerying) \<and>
     - 1 \<le> mn_saveSelection m \<and> mn_saveSelection m < int (length (mn_saves m)) \<and>
     length (mn_joinHost m) \<le> 255 \<and> length (mn_joinPort m) \<le> 15 \<and> length (mn_joinPassword m) \<le> 15 \<and>
     client_inv (mn_ses m)"

lemma length_field_text: "length (buf_text n t) \<le> n - 1"
  by (simp add: buf_text_def)

lemma menu_ok_talks: "talks m m' \<Longrightarrow> menu_ok m \<Longrightarrow> menu_ok m'"
  by (simp add: menu_ok_def talks_fields)

lemma menu_ok_tick:
  assumes "menu_ok m"
  shows "menu_ok (TickFlow e m)"
proof -
  have "tick_ok e m (TickFlow e m)" using assms by (intro tick_flow_ok) (simp add: menu_ok_def)
  moreover have "flow_edge e m FlowIdle f = False" "\<not> flow_edge e m f FlowQuerying" for f
    by (auto elim: flow_edge.cases)
  ultimately show ?thesis
    using assms by (auto simp: menu_ok_def tick_ok_def flow_active_def)
qed

lemma menu_ok_close: "menu_ok m \<Longrightarrow> menu_ok (CloseMenuForm m)"
  by (simp add: menu_ok_def CloseMenuForm_def)

lemma menu_ok_sync: "menu_ok m \<Longrightarrow> menu_ok (SyncJoinFieldsFromSettings e m)"
  using length_field_text [of 256] length_field_text [of 16]
  by (auto simp: menu_ok_def SyncJoinFieldsFromSettings_def Let_def)

lemma sync_flow [simp]: "mn_flow (SyncJoinFieldsFromSettings e m) = mn_flow m"
  by (simp add: SyncJoinFieldsFromSettings_def Let_def)

lemma menu_ok_open_join: "menu_ok m \<Longrightarrow> menu_ok (OpenJoinFlow e ctx m)"
  using menu_ok_sync [of "m\<lparr>mn_joinContext := ctx\<rparr>" e] sync_flow [of e "m\<lparr>mn_joinContext := ctx\<rparr>"]
  by (auto simp: OpenJoinFlow_def Let_def menu_ok_def)

lemma menu_ok_open_host: "menu_ok m \<Longrightarrow> menu_ok (OpenHostFlow e ctx m)"
  using menu_ok_sync [of "m\<lparr>mn_hostContext := ctx\<rparr>" e] sync_flow [of e "m\<lparr>mn_hostContext := ctx\<rparr>"]
  by (auto simp: OpenHostFlow_def Let_def intro: menu_ok_talks [OF talks_status]) (auto simp: menu_ok_def)

lemma menu_ok_disconnect: "menu_ok m \<Longrightarrow> menu_ok (DisconnectSession e m)"
  unfolding DisconnectSession_def
  by (intro menu_ok_talks [OF talks_pause] menu_ok_talks [OF talks_status])
    (simp add: menu_ok_def leave_inv client_inv_def [of "mn_ses m"])

lemma menu_ok_menu_join:
  "menu_ok m \<Longrightarrow> menu_ok (snd (menu_join e h p f m))"
  by (simp add: menu_ok_def)

lemma menu_ok_host:
  assumes "menu_ok m"
  shows "menu_ok (ConfirmHost e m)"
proof -
  have t: "menu_ok n \<Longrightarrow> menu_ok (SetStatus e t n)" for n t by (rule menu_ok_talks [OF talks_status])
  have c: "menu_ok n \<Longrightarrow> menu_ok (with_config f n)" for n f by (rule menu_ok_talks [OF talks_config])
  have l: "menu_ok n \<Longrightarrow> menu_ok (snd (launch_server e n))" for n by (rule menu_ok_talks [OF talks_launch])
  have p: "menu_ok n \<Longrightarrow> menu_ok (n\<lparr>mn_pendingHostJoin := b\<rparr>)" for n b by (simp add: menu_ok_def)
  have d: "menu_ok n \<Longrightarrow> menu_ok (LoadSaveFromTitleMenu e i n)" for n i by (rule menu_ok_talks [OF talks_load])
  have x: "menu_ok n \<Longrightarrow> menu_ok (ClosePauseMenu e n)" for n by (rule menu_ok_talks [OF talks_pause])
  show ?thesis
    using assms
    by (simp add: ConfirmHost_def Let_def split_beta t c l p d x menu_ok_close menu_ok_menu_join split: sum.split option.split)
qed

lemma menu_ok_confirm_join:
  assumes "menu_ok m" "mn_form m = FormJoin"
  shows "menu_ok (ConfirmJoin e m)"
proof -
  have idle: "mn_flow m = FlowIdle" using assms by (simp add: menu_ok_def)
  then have nj: "\<not> mjoin (mn_ses m)" using assms(1) by (simp add: menu_ok_def flow_active_def)
  have "\<not> mjoin (CMP_QueryStart (me_game e) h p s)" if "\<not> mjoin s" for h p s
    using no_join_query_start [of s "me_game e" h p] that by (simp add: no_new_join_def)
  with assms(1) nj show ?thesis
    by (auto simp: ConfirmJoin_def Let_def menu_ok_def CloseMenuForm_def query_start_inv split: sum.split)
qed

lemma menu_ok_refresh: "menu_ok m \<Longrightarrow> menu_ok (RefreshHostSaveList e m)"
  by (auto simp: menu_ok_def RefreshHostSaveList_def Let_def split: option.split)


lemma menu_ok_select: "menu_ok m \<Longrightarrow> k < length (mn_saves m) \<Longrightarrow> menu_ok (m\<lparr>mn_saveSelection := int k\<rparr>)"
  and menu_ok_refreshed: "menu_ok m \<Longrightarrow> menu_ok (m\<lparr>mn_savesRefreshed := b\<rparr>)"
  and menu_ok_popup: "menu_ok m \<Longrightarrow> menu_ok (m\<lparr>mn_popupQueued := b\<rparr>)"
  and menu_ok_host_fields: "menu_ok m \<Longrightarrow>
    menu_ok (m\<lparr>mn_joinPort := buf_text 16 t, mn_joinPassword := buf_text 16 u\<rparr>)"
  and menu_ok_join_fields: "menu_ok m \<Longrightarrow>
    menu_ok (m\<lparr>mn_joinHost := buf_text 256 t, mn_joinName := buf_text 64 n, mn_joinPassword := buf_text 16 u\<rparr>)"
  using length_field_text [of 256] length_field_text [of 16] by (simp_all add: menu_ok_def)

lemma menu_ok_forms:
  assumes "menu_ok m"
  shows "menu_ok (CMP_MenuDrawForms e i m)"
proof -
  let ?p = "if mn_popupQueued m then m\<lparr>mn_popupQueued := False\<rparr> else m"
  have p: "menu_ok ?p" using assms by (simp add: menu_ok_popup)
  have "menu_ok (join_form e i n)" if "menu_ok n" "mn_form n = FormJoin" for n
  proof -
    let ?n = "n\<lparr>mn_joinHost := buf_text 256 (fi_server i), mn_joinName := buf_text 64 (fi_name i),
                 mn_joinPassword := buf_text 16 (fi_password i)\<rparr>"
    have "menu_ok ?n" "menu_ok (ConfirmJoin e ?n)"
      using that by (simp_all add: menu_ok_join_fields menu_ok_confirm_join)
    then show ?thesis by (simp add: join_form_def Let_def menu_ok_close)
  qed
  moreover have "menu_ok (host_form e i n)" if "menu_ok n" for n
    using that
    by (simp add: host_form_def Let_def menu_ok_close menu_ok_host menu_ok_host_fields menu_ok_select
        menu_ok_refreshed menu_ok_refresh split: option.split)
  ultimately show ?thesis using assms p by (simp add: CMP_MenuDrawForms_def Let_def)
qed

lemma menu_ok_sink: "menu_ok m \<Longrightarrow> menu_ok (MenuSink name opening m)"
  by (simp add: MenuSink_def menu_ok_close) (simp add: menu_ok_def)

lemma menu_ok_new_game: "menu_ok m \<Longrightarrow> menu_ok (CMP_MenuOnNewGame e m)"
  by (auto simp: CMP_MenuOnNewGame_def menu_ok_def flow_active_def)

lemma menu_ok_after_load: "menu_ok m \<Longrightarrow> menu_ok (CMP_MenuHostJoinAfterLoad e m)"
proof -
  assume "menu_ok m"
  then have "menu_ok (m\<lparr>mn_pendingHostJoin := False\<rparr>)" by (simp add: menu_ok_def)
  then show ?thesis
    using \<open>menu_ok m\<close> menu_ok_talks [OF talks_status] menu_ok_menu_join
    by (simp add: CMP_MenuHostJoinAfterLoad_def Let_def split_beta)
qed

lemma inv_probed [simp]: "client_inv (upd_net (\<lambda>n. n\<lparr>nr_probedForms := b\<rparr>) s) = client_inv s"
  by (simp add: client_inv_def session_clean_def pose_tables_ok_def Let_def)

lemma menu_ok_game_ready: "menu_ok m \<Longrightarrow> menu_ok (CMP_OnGameReady e m)"
proof -
  assume "menu_ok m"
  then have "menu_ok (upd_ses (upd_net (\<lambda>n. n\<lparr>nr_probedForms := True\<rparr>))
      (with_config (CMP_RefreshPlayerNameFromSteam (me_config e) False) m))"
    by (simp add: menu_ok_def)
  then show ?thesis
    using menu_ok_after_load menu_ok_menu_join by (simp add: CMP_OnGameReady_def Let_def)
qed

lemma despawn_inv [simp]: "\<not> nr_joined (ss_net s) \<Longrightarrow> client_inv s \<Longrightarrow> client_inv (CMP_DespawnGhosts s)"
  by (simp add: CMP_DespawnGhosts_def client_inv_def session_clean_def Let_def)

lemma menu_ok_preload: "menu_ok m \<Longrightarrow> menu_ok (CMP_OnPreLoad e m)"
  by (simp add: CMP_OnPreLoad_def menu_ok_def leave_inv leave_clean client_inv_def [of "mn_ses m"])
    (simp add: CMP_DespawnGhosts_def)

lemma menu_ok_menu_tick: "menu_ok m \<Longrightarrow> menu_ok (CMP_MenuTick e m)"
proof -
  assume "menu_ok m"
  then have "menu_ok (if \<not> mn_sinkReady m then CMP_InstallMenu e m else m)"
    by (simp add: CMP_InstallMenu_def menu_ok_def)
  then show ?thesis unfolding CMP_MenuTick_def by (rule menu_ok_tick)
qed

text \<open>What else happens to the session in a frame: the operations of the network side.\<close>

inductive session_step :: "session \<Rightarrow> session \<Rightarrow> bool" where
  "clock_ok g \<Longrightarrow> session_step s (CMP_NetPoll g s)"
| "session_step s (CMP_SendLocalPose g s)"
| "session_step s (CMP_SendChat g txt s)"
| "session_step s (CMP_SendKick g k reason s)"
| "session_step s (CMP_SendTeleport g k s)"
| "session_step s (HeartbeatLoop g s)"
| "session_step s (CMP_Leave g s)"

lemma session_step_ok:
  assumes "session_step s s'"
  shows "client_inv s \<Longrightarrow> client_inv s'" and "no_new_join s s'"
proof -
  show "no_new_join s s'"
    using assms by cases (simp_all add: no_join no_join_sent)
  show "client_inv s \<Longrightarrow> client_inv s'"
    using assms by cases (simp_all add: poll_inv only_sent_inv [OF only_sent_LocalPose] only_sent_inv [OF only_sent_chat(1)]
        only_sent_inv [OF only_sent_chat(2)] only_sent_inv [OF only_sent_chat(3)] only_sent_inv [OF only_sent_chat(4)]
        leave_inv client_inv_def [of s])
qed

text \<open>One event of the plugin, as the game and the player cause them.\<close>

inductive menu_step :: "menu \<Rightarrow> menu \<Rightarrow> bool" where
  ms_tick: "menu_step m (CMP_MenuTick e m)"
| ms_open_join: "menu_step m (CMP_MenuOpenJoin e title m)"
| ms_open_host: "menu_step m (CMP_MenuOpenHost e title m)"
| ms_disconnect: "menu_step m (DisconnectSession e m)"
| ms_forms: "menu_step m (CMP_MenuDrawForms e i m)"
| ms_sink: "menu_step m (MenuSink name opening m)"
| ms_new_game: "menu_step m (CMP_MenuOnNewGame e m)"
| ms_game_ready: "menu_step m (CMP_OnGameReady e m)"
| ms_preload: "menu_step m (CMP_OnPreLoad e m)"
| ms_session: "session_step (mn_ses m) s \<Longrightarrow> menu_step m (m\<lparr>mn_ses := s\<rparr>)"

lemma menu_step_ok: "menu_step m m' \<Longrightarrow> menu_ok m \<Longrightarrow> menu_ok m'"
proof (induction rule: menu_step.induct)
  case (ms_session m s)
  then show ?case using session_step_ok [of "mn_ses m" s] by (auto simp: menu_ok_def no_new_join_def)
qed (simp_all add: menu_ok_menu_tick CMP_MenuOpenJoin_def CMP_MenuOpenHost_def menu_ok_open_join menu_ok_open_host
    menu_ok_disconnect menu_ok_forms menu_ok_sink menu_ok_new_game menu_ok_game_ready menu_ok_preload)

definition menu_run :: "menu \<Rightarrow> menu \<Rightarrow> bool" where
  "menu_run = menu_step\<^sup>*\<^sup>*"

lemma menu_run_ok: "menu_run m m' \<Longrightarrow> menu_ok m \<Longrightarrow> menu_ok m'"
  unfolding menu_run_def by (induction rule: rtranclp_induct) (auto intro: menu_step_ok)

lemma menu0_ok: "menu_ok (menu0 (session_init st) f)"
  by (simp add: menu_ok_def menu0_def init_inv) (simp add: session_init_def)


subsection \<open>Properties\<close>

text \<open>
  C18: the menus stay consistent. In every state the plugin can reach from its start, by any events of
  the player, the game and the network: a form is open only while no join is under way, the menu-join
  flag is set only between the new game and the Hello, the selected save is one of the list or none,
  the edit fields are within their buffers, and the session satisfies its invariant.
\<close>

theorem menu_invariant:
  assumes "menu_run (menu0 (session_init st) f) m"
  shows "(mn_form m \<noteq> FormNone \<longrightarrow> mn_flow m = FlowIdle) \<and>
    (mr_menuJoin (ss_menu (mn_ses m)) \<longrightarrow> flow_active (mn_flow m) \<and> mn_flow m \<noteq> FlowQuerying) \<and>
    - 1 \<le> mn_saveSelection m \<and> mn_saveSelection m < int (length (mn_saves m)) \<and>
    length (mn_joinHost m) \<le> 255 \<and> length (mn_joinPort m) \<le> 15 \<and> length (mn_joinPassword m) \<le> 15 \<and>
    client_inv (mn_ses m)"
  using menu_run_ok [OF assms menu0_ok] by (simp add: menu_ok_def)

theorem menu_invariant_witness:
  "let m = MenuSink ''LooksMenu'' True (menu0 (session_init default_settings) (\<lparr>pf_ini = \<lambda>_ _. None, pf_text = \<lambda>_. None\<rparr>))
   in mn_looksOpen m \<and> client_inv (mn_ses m)"
proof -
  let ?m0 = "menu0 (session_init default_settings) (\<lparr>pf_ini = \<lambda>_ _. None, pf_text = \<lambda>_. None\<rparr>)"
  have "menu_run ?m0 (MenuSink ''LooksMenu'' True ?m0)"
    unfolding menu_run_def by (rule r_into_rtranclp) (rule ms_sink)
  from menu_invariant [OF this] show ?thesis by (simp add: Let_def MenuSink_def)
qed

text \<open>Ticks at the times of a list of readings, each more than ten minutes after the one before.\<close>

fun flow_ticks :: "menu_env list \<Rightarrow> menu \<Rightarrow> menu" where
  "flow_ticks [] m = m"
| "flow_ticks (e # es) m = flow_ticks es (TickFlow e m)"

fun spaced :: "f64 \<Rightarrow> menu_env list \<Rightarrow> bool" where
  "spaced t [] = True"
| "spaced t (e # es) \<longleftrightarrow> f64_less (f64_of_int 600) (f64_sub (gm_now (me_game e)) t) \<and> spaced (gm_now (me_game e)) es"

lemma late_times:
  assumes "f64_less (f64_of_int 600) (f64_sub (gm_now (me_game e)) (mn_flowAt m))" "k \<in> {1, 20, 30, 60, 90, 600}"
  shows "TimedOut e k m"
proof -
  have "f64_less (f64_of_int 1) (f64_of_int 600)" "f64_less (f64_of_int 20) (f64_of_int 600)"
    "f64_less (f64_of_int 30) (f64_of_int 600)" "f64_less (f64_of_int 60) (f64_of_int 600)"
    "f64_less (f64_of_int 90) (f64_of_int 600)"
    by (simp_all add: f64_of_int_def ieee_eval)
  with assms show ?thesis unfolding TimedOut_def f64_less_def by (auto intro: fp_less_trans)
qed

lemma late_tick_moves:
  assumes "f64_less (f64_of_int 600) (f64_sub (gm_now (me_game e)) (mn_flowAt m))"
    "flow_active (mn_flow m)" "mn_flow m \<noteq> FlowQuerying"
  shows "mn_flow (TickFlow e m) \<noteq> mn_flow m"
proof -
  have t: "TimedOut e k n" if "k \<in> {1, 20, 30, 60, 90, 600}" "mn_flowAt n = mn_flowAt m" for k n
    using late_times [of e n k] that assms(1) by simp
  show ?thesis
    using assms(2,3)
    by (cases "mn_flow m") (auto simp: TickFlow_def flow_active_def t tick_wait_skip_def tick_strip_def tick_joining_def
        Let_def split_beta)
qed

text \<open>
  C19: the join flow cannot hang. Once character creation has begun, ten ticks that come more than ten
  minutes apart bring the flow to its end, whatever the game does in between; each state has a time
  after which it is left, and no state is entered twice.
\<close>

theorem flow_finishes:
  assumes "\<not> mr_menuJoin (ss_menu (mn_ses m)) \<or> flow_active (mn_flow m)" "mn_flow m \<noteq> FlowQuerying"
    "spaced (mn_flowAt m) es" "10 \<le> length es"
  shows "\<not> flow_active (mn_flow (flow_ticks es m))"
proof -
  have "11 \<le> flow_rank (mn_flow (flow_ticks es m))"
    if "\<not> mjoin (mn_ses m) \<or> flow_active (mn_flow m)" "mn_flow m \<noteq> FlowQuerying" "spaced (mn_flowAt m) es"
      "11 \<le> flow_rank (mn_flow m) + length es" for es
    using that
  proof (induction es arbitrary: m)
    case (Cons e es)
    have ok: "tick_ok e m (TickFlow e m)" using Cons.prems(1) by (intro tick_flow_ok) auto
    have nq: "\<not> flow_edge e m f FlowQuerying" for f by (auto elim: flow_edge.cases)
    show ?case
    proof (cases "flow_active (mn_flow m)")
      case True
      then have "mn_flow (TickFlow e m) \<noteq> mn_flow m"
        using Cons.prems(2,3) by (intro late_tick_moves) simp_all
      with ok have edge: "flow_edge e m (mn_flow m) (mn_flow (TickFlow e m))"
        and at: "mn_flowAt (TickFlow e m) = gm_now (me_game e)" by (auto simp: tick_ok_def)
      have "11 \<le> flow_rank (mn_flow (TickFlow e m)) + length es"
        using edge_rank [OF edge] Cons.prems(4) by simp
      moreover have "\<not> mjoin (mn_ses (TickFlow e m)) \<or> flow_active (mn_flow (TickFlow e m))"
        using ok by (auto simp: tick_ok_def flow_active_def)
      moreover have "mn_flow (TickFlow e m) \<noteq> FlowQuerying" using edge nq by metis
      ultimately show ?thesis using Cons.IH [of "TickFlow e m"] Cons.prems(3) at by simp
    next
      case False
      then have same: "TickFlow e m = m" by (cases "mn_flow m") (auto simp: TickFlow_def flow_active_def)
      have stay: "flow_ticks es m = m" for es
      proof (induction es)
        case (Cons a es)
        have "TickFlow a m = m" using False by (cases "mn_flow m") (auto simp: TickFlow_def flow_active_def)
        with Cons show ?case by simp
      qed simp
      have "flow_rank (mn_flow m) = 11" using False by (simp add: flow_rank_11)
      then show ?thesis using same stay by simp
    qed
  qed simp
  moreover have "1 \<le> flow_rank (mn_flow m)" using assms(2) by (cases "mn_flow m") simp_all
  ultimately have "11 \<le> flow_rank (mn_flow (flow_ticks es m))" using assms by force
  then have "flow_rank (mn_flow (flow_ticks es m)) = 11" using flow_rank_max by (metis le_antisym)
  then show ?thesis by (simp add: flow_rank_11)
qed


text \<open>A game, as the menu sees it, with the clock at a given number of seconds.\<close>

definition demo_menu_env :: "int \<Rightarrow> menu_env" where
  "demo_menu_env t =
     \<lparr>me_game = ex_game t [], me_config = plain_env,
      me_launch = \<lparr>ln_module = ''C.dll'', ln_isFile = \<lambda>_. False, ln_isDir = \<lambda>_. False, ln_entries = \<lambda>_. [],
        ln_create = \<lambda>_ _ _. None, ln_alive = \<lambda>_. False\<rparr>,
      me_ui = True, me_mainMenu = True, me_confirmText = True, me_pauseOpen = False, me_messageMenus = True,
      me_displayName = None, me_saves = None\<rparr>"

definition demo_menu :: "flow \<Rightarrow> menu" where
  "demo_menu f = (menu0 (session_init default_settings) (\<lparr>pf_ini = \<lambda>_ _. None, pf_text = \<lambda>_. None\<rparr>))\<lparr>mn_flow := f\<rparr>"

theorem flow_finishes_witness:
  "\<not> flow_active (mn_flow (flow_ticks (map (\<lambda>i. demo_menu_env (1000 * int i)) [1..<11]) (demo_menu FlowStartingGame)))"
proof (rule flow_finishes)
  show "spaced (mn_flowAt (demo_menu FlowStartingGame)) (map (\<lambda>i. demo_menu_env (1000 * int i)) [1..<11])"
    by (simp add: demo_menu_def menu0_def demo_menu_env_def upt_rec f64_of_int_def ieee_eval)
qed (simp_all add: demo_menu_def menu0_def session_init_def flow_active_def)

lemma session_step_joined:
  "session_step s s' \<Longrightarrow> \<not> mjoin s \<Longrightarrow> \<not> mjoin s'"
  using session_step_ok(2) [of s s'] by (auto simp: no_new_join_def)

lemma dead_step:
  assumes "menu_step m m'" "mn_flow m \<in> {FlowDone, FlowFailed}" "mn_form m = FormNone" "\<not> mjoin (mn_ses m)"
  shows "mn_flow m' = mn_flow m \<and> mn_form m' = FormNone \<and> \<not> mjoin (mn_ses m')"
  using assms
proof (induction rule: menu_step.induct)
  case (ms_tick m e)
  have "TickFlow e n = n" if "mn_flow n \<in> {FlowDone, FlowFailed}" for n
    using that by (auto simp: TickFlow_def)
  with ms_tick show ?case by (simp add: CMP_MenuTick_def CMP_InstallMenu_def)
next
  case (ms_session m s)
  then show ?case using session_step_joined by auto
next
  case (ms_game_ready m e)
  then show ?case
    by (auto simp: CMP_OnGameReady_def CMP_MenuHostJoinAfterLoad_def Let_def split_beta)
qed (auto simp: CMP_MenuOpenJoin_def OpenJoinFlow_def CMP_MenuOpenHost_def OpenHostFlow_def DisconnectSession_def
    CMP_MenuDrawForms_def MenuSink_def CloseMenuForm_def CMP_MenuOnNewGame_def CMP_OnPreLoad_def CMP_DespawnGhosts_def Let_def)

text \<open>
  C30: after a join the menus are dead. When the query of a join from the pause menu is answered well,
  the flow ends as done or failed, and from then on nothing the player, the game or the network does
  brings it back to idle: neither the join form nor the host form ever opens again, also after the
  session has ended.
\<close>

theorem menus_dead_after_join:
  assumes "menu_ok m" "mn_flow m = FlowQuerying" "mn_joinContext m = InGame" "qr_ok r"
    "menu_run (OnQueryFinished e r m) m'"
  shows "mn_flow m' \<in> {FlowDone, FlowFailed} \<and> mn_form m' = FormNone"
proof -
  let ?m = "OnQueryFinished e r m"
  have "mn_flow ?m \<in> {FlowDone, FlowFailed}" "mn_form ?m = FormNone" "\<not> mjoin (mn_ses ?m)"
    using assms(1-4) by (auto simp: OnQueryFinished_def Let_def split_beta menu_ok_def)
  with assms(5) have "mn_flow m' = mn_flow ?m \<and> mn_form m' = FormNone \<and> \<not> mjoin (mn_ses m')"
    unfolding menu_run_def
  proof (induction rule: rtranclp_induct)
    case (step n n')
    then show ?case using dead_step [OF step(2)] by auto
  qed simp
  with \<open>mn_flow ?m \<in> {FlowDone, FlowFailed}\<close> show ?thesis by simp
qed

theorem menus_dead_after_join_witness:
  "let m = (demo_menu FlowQuerying)\<lparr>mn_joinContext := InGame\<rparr>;
       r = \<lparr>qr_ok = True, qr_info = None, qr_error = []\<rparr>;
       e = demo_menu_env 5;
       m' = CMP_MenuOpenJoin e False (OnQueryFinished e r m)
   in mn_flow m' \<in> {FlowDone, FlowFailed} \<and> mn_form m' = FormNone"
proof -
  have "menu_ok ((demo_menu FlowQuerying)\<lparr>mn_joinContext := InGame\<rparr>)"
    by (simp add: menu_ok_def demo_menu_def menu0_def init_inv) (simp add: session_init_def)
  then show ?thesis
    unfolding Let_def
    by (rule menus_dead_after_join [where r = "\<lparr>qr_ok = True, qr_info = None, qr_error = []\<rparr>" and e = "demo_menu_env 5"])
      (simp_all add: demo_menu_def menu_run_def r_into_rtranclp ms_open_join)
qed


text \<open>An address that a join form can show and read back.\<close>

definition clean_host :: "string \<Rightarrow> bool" where
  "clean_host h \<longleftrightarrow> h \<noteq> [] \<and> length h \<le> 249 \<and> nul \<notin> set h \<and> CHR '':'' \<notin> set h \<and>
     \<not> is_blank (hd h) \<and> \<not> is_blank (last h)"

lemma find_char_first: "c \<notin> set a \<Longrightarrow> find_char c (a @ c # b) 0 = Some (length a)"
  by (simp add: find_char_def find_from_def, induction a) auto

lemma skip_digits: "takeWhile is_digit (dec_str n) = dec_str n" "skip_sign (dec_str n) = dec_str n"
  "dropWhile c_isspace (dec_str n) = dec_str n" "\<not> neg_sign (dec_str n)"
proof -
  have d: "is_digit c \<Longrightarrow> \<not> c_isspace c \<and> c \<noteq> CHR ''+'' \<and> c \<noteq> CHR ''-''" for c
    by (auto simp: is_digit_def c_isspace_def)
  obtain c cs where c: "dec_str n = c # cs" by (cases "dec_str n") auto
  then have "is_digit c" using dec_str_digits [of c n] by simp
  then show "skip_sign (dec_str n) = dec_str n" "dropWhile c_isspace (dec_str n) = dec_str n" "\<not> neg_sign (dec_str n)"
    using d [of c] by (auto simp: c skip_sign_def neg_sign_def)
  show "takeWhile is_digit (dec_str n) = dec_str n"
    using dec_str_digits by (simp add: takeWhile_eq_all_conv)
qed

lemma stoi_dec_nat: "n < 2 ^ 31 \<Longrightarrow> stoi (dec_str n) = Some (int n)"
  by (simp add: stoi_def Let_def skip_digits)

lemma parse_port_dec: "w \<noteq> 0 \<Longrightarrow> parse_port (dec_str (unat (w :: u16))) = Inr w"
proof -
  assume "w \<noteq> 0"
  then have "0 < unat w" by (simp add: unat_gt_0)
  have "unat w < 65536" using unsigned_less [of w] by simp
  then have s: "stoi (dec_str (unat w)) = Some (int (unat w))" by (intro stoi_dec_nat) simp
  have "\<not> (int (unat w) < 1 \<or> int (unat w) > 65535)" using \<open>0 < unat w\<close> \<open>unat w < 65536\<close> by linarith
  then have "(if int (unat w) < 1 \<or> int (unat w) > 65535 then Inl ''port must be 1-65535''
      else Inr (word_of_int (int (unat w)))) = (Inr w :: string + u16)" by (simp only: if_False) simp
  moreover have "dec_str (unat w) \<noteq> []" by simp
  ultimately show ?thesis unfolding parse_port_def by (simp only: if_False s option.case)
qed

lemma trim_copy_id: "s = [] \<or> \<not> is_blank (hd s) \<and> \<not> is_blank (last s) \<Longrightarrow> TrimCopy s = s"
  unfolding TrimCopy_def by (subst trim_front_clean) (auto intro: trim_back_clean)

lemma dec_str_ends: "\<not> is_blank (hd (dec_str n))" "\<not> is_blank (last (dec_str n))"
proof -
  have "is_digit (hd (dec_str n))" "is_digit (last (dec_str n))"
    by (rule dec_str_digits [of _ n]; simp)+
  then show "\<not> is_blank (hd (dec_str n))" "\<not> is_blank (last (dec_str n))"
    using is_digit_neq by auto
qed

text \<open>
  The join form shows what it will use. Opened on an idle menu, the form is filled with the
  address of the settings, and confirming it unedited reads that address and port back.
\<close>

lemma join_address_round_trip:
  assumes "clean_host (se_host (ss_settings (mn_ses m)))" "se_port (ss_settings (mn_ses m)) \<noteq> 0" "mn_flow m = FlowIdle"
  shows "ParseJoinAddress (OpenJoinFlow e ctx m) =
    Inr (se_host (ss_settings (mn_ses m)), se_port (ss_settings (mn_ses m)))"
proof -
  let ?h = "se_host (ss_settings (mn_ses m))" and ?p = "se_port (ss_settings (mn_ses m))"
  let ?d = "dec_str (unat ?p)" and ?m = "OpenJoinFlow e ctx m"
  let ?n = "with_config (CMP_RefreshPlayerNameFromSteam (me_config e) False) (m\<lparr>mn_joinContext := ctx\<rparr>)"
  have "se_host (ss_settings (mn_ses ?n)) = ?h" "se_port (ss_settings (mn_ses ?n)) = ?p"
    by (simp_all add: with_config_def CMP_RefreshPlayerNameFromSteam_def Let_def)
  then have field: "mn_joinHost ?m = buf_text 256 (?h @ '':'' @ ?d)"
    using assms(3) by (simp add: OpenJoinFlow_def SyncJoinFieldsFromSettings_def Let_def)
  have nn: "nul \<notin> set ?d" "CHR '':'' \<notin> set ?d"
    using is_digit_neq dec_str_digits by (blast, fastforce simp: is_digit_def dest: dec_str_digits)
  have "length (?h @ '':'' @ ?d) \<le> 255"
    using assms(1) dec_str_u16 [of ?p] by (simp add: clean_host_def)
  moreover have "c_str (?h @ '':'' @ ?d) = ?h @ '':'' @ ?d"
    using assms(1) nn by (intro c_str_idem) (auto simp: clean_host_def)
  ultimately have f: "mn_joinHost ?m = ?h @ '':'' @ ?d" by (simp add: field buf_text_def)
  have trim: "TrimCopy (?h @ '':'' @ ?d) = ?h @ '':'' @ ?d"
    using assms(1) dec_str_ends [of "unat ?p"] by (intro trim_copy_id) (auto simp: clean_host_def)
  have th: "TrimCopy ?h = ?h" using assms(1) by (intro trim_copy_id) (auto simp: clean_host_def)
  have td: "TrimCopy ?d = ?d" using dec_str_ends [of "unat ?p"] by (intro trim_copy_id) simp
  have c: "find_char CHR '':'' (?h @ '':'' @ ?d) 0 = Some (length ?h)"
    using assms(1) find_char_first [of "CHR '':''" ?h ?d] by (simp add: clean_host_def)
  have split: "take (length ?h) (?h @ '':'' @ ?d) = ?h" "drop (length ?h + 1) (?h @ '':'' @ ?d) = ?d" by simp_all
  have "?h \<noteq> []" "\<not> length ?h > 255" using assms(1) by (auto simp: clean_host_def)
  then show ?thesis
    unfolding ParseJoinAddress_def Let_def f trim c option.case split th td prod.case parse_port_dec [OF assms(2)]
    by simp
qed

lemma join_address_round_trip_witness:
  "ParseJoinAddress (OpenJoinFlow (demo_menu_env 1) TitleMenu (demo_menu FlowIdle)) = Inr (''127.0.0.1'', 7777)"
  using join_address_round_trip [of "demo_menu FlowIdle" "demo_menu_env 1" TitleMenu]
  by (simp add: demo_menu_def menu0_def session_init_def default_settings_def clean_host_def kDefaultPort_def)

subsection \<open>What the player is told\<close>

text \<open>Right after a join the session never says it is the host: the server's Welcome comes later.\<close>

lemma join_never_host: "\<not> nr_isHost (ss_net (snd (CMP_Join g h p f s)))"
  by (simp add: CMP_Join_def fail_join_def join_reset_def tcp_out_def call_def upd_net_def leave_fields left_net_def Let_def)

text \<open>Without a main menu the save cannot be loaded, but the pending host join stays for the next load.\<close>

lemma failed_load_stays_pending:
  assumes "\<not> nr_joined (ss_net (mn_ses m))" "ParsePortField m = Inr port" "mn_hostContext m = TitleMenu"
    "0 \<le> mn_saveSelection m" "mn_saveSelection m < int (length (mn_saves m))" "\<not> me_mainMenu e"
    "CMP_ServerProcessRunning (me_launch e) (mn_server m)"
  shows "mn_pendingHostJoin (ConfirmHost e m) \<and> mn_form (ConfirmHost e m) = FormNone"
proof -
  have "mn_server (with_config f n) = mn_server n" for f n by (simp add: with_config_def Let_def)
  with assms show ?thesis
    by (simp add: ConfirmHost_def Let_def launch_server_def launch_keeps_running CloseMenuForm_def)
qed

end
