(* ===== verification/Presence.thy ===== *)
theory Presence
  imports PluginMenu
begin

text \<open>
  The presence shown in Discord and Steam: \<^verbatim>\<open>plugin/src/presence\<close>. The globals of its files are the record
  \<open>presence\<close>; what the clock, the Discord SDK and the system answer during one call is the record
  \<open>presence_env\<close>. The Discord core is a flag, since only whether there is one matters; what is asked of the
  SDK is a list of \<open>discord_call\<close>s. The results the SDK hands to the callbacks of \<^verbatim>\<open>UpdateActivity\<close> arrive
  inside \<^verbatim>\<open>RunCallbacks\<close>.
\<close>

subsection \<open>The state\<close>

datatype presence_phase = PhIdle | PhMenuJoin | PhConnecting | PhHost | PhGuest

fun phase_code :: "presence_phase \<Rightarrow> nat" where
  "phase_code PhIdle = 0"
| "phase_code PhMenuJoin = 1"
| "phase_code PhConnecting = 2"
| "phase_code PhHost = 3"
| "phase_code PhGuest = 4"

record presence_snapshot =
  sn_phase :: presence_phase
  sn_details :: string
  sn_state :: string
  sn_steamStatus :: string
  sn_playerCount :: u32
  sn_maxPlayers :: u32
  sn_hash :: u64

definition snapshot0 :: presence_snapshot where
  "snapshot0 =
     \<lparr>sn_phase = PhIdle, sn_details = [], sn_state = [], sn_steamStatus = [], sn_playerCount = 0,
      sn_maxPlayers = 0, sn_hash = 0\<rparr>"

text \<open>An activity: details, state, the start of the session, the party's size and limit.\<close>

record activity =
  ac_details :: string
  ac_state :: string
  ac_start :: "int option"
  ac_party :: "(int \<times> int) option"

datatype discord_call = DUpdate activity | DClear

record presence =
  pz_initialized :: bool
  pz_connected :: bool
  pz_wanted :: bool
  pz_lastInitSec :: f64
  pz_lastDiscordPush :: f64
  pz_error :: string
  pz_user :: string
  pz_details :: string
  pz_state :: string
  pz_steamEnabled :: bool
  pz_steamProbeDone :: bool
  pz_lastPushSec :: f64
  pz_lastHeartbeatSec :: f64
  pz_sessionStart :: int
  pz_lastPushed :: presence_snapshot
  pz_steamNote :: string
  pz_repushUntil :: f64
  pz_pipe :: bool
  pz_elevated :: bool
  pz_core :: bool
  pz_sdk :: bool
  pz_lastDiag :: f64
  pz_steam :: steam_state
  pz_calls :: "discord_call list"

definition presence0 :: presence where
  "presence0 =
     \<lparr>pz_initialized = False, pz_connected = False, pz_wanted = False, pz_lastInitSec = 0, pz_lastDiscordPush = 0,
      pz_error = [], pz_user = [], pz_details = [], pz_state = [], pz_steamEnabled = False, pz_steamProbeDone = False,
      pz_lastPushSec = 0, pz_lastHeartbeatSec = 0, pz_sessionStart = 0, pz_lastPushed = snapshot0, pz_steamNote = [],
      pz_repushUntil = 0, pz_pipe = False, pz_elevated = False, pz_core = False, pz_sdk = False, pz_lastDiag = 0,
      pz_steam = steam_state0, pz_calls = []\<rparr>"

text \<open>
  \<open>pe_appId\<close> and \<open>pe_image\<close> are build-time constants; \<open>pe_module\<close> is the path of the plugin (\<open>None\<close>: it could not
  be read, with the reason), \<open>pe_load\<close> whether a library loads; \<open>pe_create\<close> and \<open>pe_user\<close> are result codes of the
  SDK, zero for success, with the user's name; \<open>pe_callbacks\<close> are the results \<^verbatim>\<open>RunCallbacks\<close> delivers.
\<close>

record presence_env =
  pe_now :: f64
  pe_unix :: int
  pe_appId :: string
  pe_image :: string
  pe_module :: "string + string"
  pe_load :: "string \<Rightarrow> bool"
  pe_create :: "int \<times> bool"
  pe_user :: "int + string option"
  pe_callbacks :: "int list"
  pe_pipe :: bool
  pe_elevated :: bool
  pe_steam :: steam_env

subsection \<open>Snapshots\<close>

definition fnv_prime :: u64 where "fnv_prime = 1099511628211"
definition fnv_basis :: u64 where "fnv_basis = 14695981039346656037"

definition mix_hash :: "u64 \<Rightarrow> string \<Rightarrow> u64" where
  "mix_hash h s = foldl (\<lambda>h c. (h XOR of_char c) * fnv_prime) h s"

definition HashSnapshot :: "presence_snapshot \<Rightarrow> u64" where
  "HashSnapshot snap =
     (let h = mix_hash fnv_basis (dec_str (phase_code (sn_phase snap)));
          h = mix_hash h (sn_details snap);
          h = mix_hash h (sn_state snap);
          h = mix_hash h (sn_steamStatus snap);
          h = h XOR ucast (sn_playerCount snap)
      in h XOR push_bit 32 (ucast (sn_maxPlayers snap)))"

definition LocationText :: "bool \<Rightarrow> bool \<Rightarrow> u32 \<Rightarrow> string" where
  "LocationText joined interior worldspace =
     (if \<not> joined then []
      else if interior then ''Interior''
      else if worldspace = kCommonwealthWorldspace then ''Commonwealth''
      else if worldspace \<noteq> 0 then ''Wasteland''
      else ''Unknown'')"

definition with_location :: "string \<Rightarrow> string \<Rightarrow> string" where
  "with_location location s = (if location \<noteq> [] then s @ '' - '' @ location else s)"

definition snapshot_of :: "menu \<Rightarrow> presence_snapshot" where
  "snapshot_of m =
     (let s = mn_ses m; n = ss_net s; p = ss_presence s;
          (menuActive, menuPhase) = CMP_MenuPresencePhase m;
          playerCount = of_nat (length (nr_latestPose n)) :: u32;
          snap = snapshot0\<lparr>sn_playerCount := playerCount, sn_maxPlayers := pn_maxPlayers p\<rparr>;
          serverName = (if pn_serverName p \<noteq> [] then pn_serverName p else ''CMP'');
          connecting = (nr_joined n \<and> nr_myPeerId n = 0);
          location = LocationText (nr_joined n) (pn_interior p) (pn_worldspace p)
      in if menuActive
         then let st = (if menuPhase = [] then ''Joining'' else menuPhase)
              in snap\<lparr>sn_phase := PhMenuJoin, sn_details := ''CMP'', sn_state := st, sn_steamStatus := st\<rparr>
         else if connecting \<or> (\<not> nr_joined n \<and> find_sub ''waiting Welcome'' (ss_lastStatus s) \<noteq> None)
         then snap\<lparr>sn_phase := PhConnecting, sn_details := ''CMP'', sn_state := ''Connecting...'',
                   sn_steamStatus := ''Connecting''\<rparr>
         else if nr_joined n \<and> nr_myPeerId n \<noteq> 0
         then
           let others = (if playerCount > 0 then playerCount - 1 else 0);
               cap = (if sn_maxPlayers snap > 0 then sn_maxPlayers snap else playerCount)
           in if nr_isHost n
              then snap\<lparr>sn_phase := PhHost, sn_details := serverName,
                        sn_state := with_location location
                          (''Hosting ('' @ dec_str (unat playerCount) @ ''/'' @ dec_str (unat cap) @ '' players)''),
                        sn_steamStatus := ''Hosting''\<rparr>
              else snap\<lparr>sn_phase := PhGuest, sn_details := serverName,
                        sn_state := with_location location (''Playing ('' @ dec_str (unat others) @ '' others)''),
                        sn_steamStatus := ''Playing''\<rparr>
         else snap\<lparr>sn_phase := PhIdle, sn_details := ''CMP'', sn_state := ''Solo'', sn_steamStatus := ''Solo''\<rparr>)"

definition BuildSnapshot :: "menu \<Rightarrow> presence_snapshot" where
  "BuildSnapshot m = (let snap = snapshot_of m in snap\<lparr>sn_hash := HashSnapshot snap\<rparr>)"

definition in_session :: "presence_snapshot \<Rightarrow> bool" where
  "in_session snap \<longleftrightarrow> sn_phase snap = PhHost \<or> sn_phase snap = PhGuest"

subsection \<open>Discord\<close>

text \<open>\<^verbatim>\<open>strtoull\<close> in base ten takes blanks and a sign first and sticks at the largest value.\<close>

definition DiscordAppIdU64 :: "presence_env \<Rightarrow> u64" where
  "DiscordAppIdU64 e =
     (let appId = c_str (pe_appId e)
      in if appId = [] then 0
         else
           let s1 = dropWhile c_isspace appId; s2 = skip_sign s1;
               ds = takeWhile is_digit s2; rest = dropWhile is_digit s2;
               v = dec_val ds
           in if ds = [] \<or> rest \<noteq> [] then 0
              else if v \<ge> 2 ^ 64 then - 1
              else if neg_sign s1 then - of_nat v else of_nat v)"

definition DiscordAppIdValid :: "presence_env \<Rightarrow> bool" where
  "DiscordAppIdValid e \<longleftrightarrow> DiscordAppIdU64 e \<noteq> 0"

definition LoadDiscordSdkBesidePlugin :: "presence_env \<Rightarrow> presence \<Rightarrow> bool \<times> presence" where
  "LoadDiscordSdkBesidePlugin e p =
     (if pz_sdk p then (True, p)
      else case pe_module e of
        Inl err \<Rightarrow> (False, p\<lparr>pz_error := err\<rparr>)
      | Inr path \<Rightarrow>
          (case find_last_of CHR 0x5C path of
             None \<Rightarrow> (False, p\<lparr>pz_error := ''plugin path has no directory''\<rparr>)
           | Some slash \<Rightarrow>
               if pe_load e (take 259 (take (slash + 1) path @ ''discord_game_sdk.dll''))
               then (True, p\<lparr>pz_sdk := True\<rparr>)
               else (False, p\<lparr>pz_error :=
                      ''LoadLibrary discord_game_sdk.dll failed (ship it next to CommonwealthMP.dll)''\<rparr>)))"

definition RefreshDiscordDiagnostics :: "presence_env \<Rightarrow> presence \<Rightarrow> presence" where
  "RefreshDiscordDiagnostics e p =
     (let p1 = p\<lparr>pz_pipe := pe_pipe e, pz_elevated := pe_elevated e\<rparr>
      in if \<not> pz_connected p1 \<and> pz_initialized p1
         then if \<not> pz_pipe p1
              then p1\<lparr>pz_error := ''Discord IPC pipe not found (start Discord desktop app)'' @
                     (if pz_elevated p1
                      then ''; Fallout4 is elevated - run Discord as admin or launch FO4 normally'' else [])\<rparr>
              else if pz_error p1 = ''waiting for Discord desktop'' \<or> pz_error p1 = ''connecting to Discord'' \<or>
                      find_sub ''IPC pipe not found'' (pz_error p1) \<noteq> None
              then p1\<lparr>pz_error :=
                     ''Discord pipe open; enable Settings > Activity Privacy > Display current activity''\<rparr>
              else p1
         else p1)"

definition RunCallbacks :: "presence_env \<Rightarrow> presence \<Rightarrow> presence" where
  "RunCallbacks e p =
     foldl (\<lambda>p r. if r \<noteq> 0 then p\<lparr>pz_error := ''UpdateActivity result='' @ int_str r\<rparr> else p) p (pe_callbacks e)"

definition discord_out :: "discord_call \<Rightarrow> presence \<Rightarrow> presence" where
  "discord_out c p = p\<lparr>pz_calls := pz_calls p @ [c]\<rparr>"

definition ShutdownDiscord :: "presence_env \<Rightarrow> presence \<Rightarrow> presence" where
  "ShutdownDiscord e p =
     (if \<not> pz_initialized p \<and> \<not> pz_core p then p
      else
        let p1 = (if pz_core p then (RunCallbacks e (discord_out DClear p))\<lparr>pz_core := False\<rparr> else p)
        in p1\<lparr>pz_initialized := False, pz_connected := False, pz_user := []\<rparr>)"

definition activity_of :: "presence_snapshot \<Rightarrow> presence \<Rightarrow> activity" where
  "activity_of snap p =
     \<lparr>ac_details = pz_details p, ac_state = pz_state p,
      ac_start = (if in_session snap \<and> pz_sessionStart p > 0 then Some (pz_sessionStart p) else None),
      ac_party = (if in_session snap \<and> sn_maxPlayers snap > 0
                  then Some (sint (sn_playerCount snap), sint (sn_maxPlayers snap)) else None)\<rparr>"

definition PushDiscord :: "presence_env \<Rightarrow> presence_snapshot \<Rightarrow> presence \<Rightarrow> presence" where
  "PushDiscord e snap p =
     (if \<not> pz_core p then p
      else
        let p1 = p\<lparr>pz_details := take 127 (c_str (sn_details snap)), pz_state := take 127 (c_str (sn_state snap))\<rparr>
        in (discord_out (DUpdate (activity_of snap p1)) p1)\<lparr>pz_lastDiscordPush := pe_now e\<rparr>)"

subsection \<open>Pushing\<close>

definition push_steam_key :: "presence_env \<Rightarrow> string \<Rightarrow> string \<Rightarrow> presence \<Rightarrow> presence" where
  "push_steam_key e key val p =
     p\<lparr>pz_steam := snd (CMP_SteamSetRichPresence (pe_steam e) (Some key) (Some val) (pz_steam p))\<rparr>"

definition PushSteam :: "presence_env \<Rightarrow> presence_snapshot \<Rightarrow> presence \<Rightarrow> presence" where
  "PushSteam e snap p =
     (if \<not> pz_steamEnabled p then p
      else push_steam_key e ''steam_player_group''
             (if in_session snap then dec_str (unat (sn_playerCount snap)) else [])
             (push_steam_key e ''status'' (c_str (sn_steamStatus snap)) p))"

definition nothing_to_push :: "presence_env \<Rightarrow> presence_snapshot \<Rightarrow> presence \<Rightarrow> bool" where
  "nothing_to_push e snap p \<longleftrightarrow>
     (let unchanged = (sn_hash snap = sn_hash (pz_lastPushed p));
          aggressive = (pz_connected p \<and> f64_less (pe_now e) (pz_repushUntil p));
          interval = f64_of_int (if aggressive then 5 else 30)
      in unchanged \<and>
         (f64_less (f64_sub (pe_now e) (pz_lastPushSec p)) (f64_of_int 1) \<or>
          f64_less (f64_sub (pe_now e) (pz_lastHeartbeatSec p)) interval))"

definition PushSnapshot :: "presence_env \<Rightarrow> presence_snapshot \<Rightarrow> bool \<Rightarrow> presence \<Rightarrow> presence" where
  "PushSnapshot e snap force p =
     (if \<not> force \<and> nothing_to_push e snap p then p
      else
        let p1 = p\<lparr>pz_sessionStart :=
                   (if in_session snap then (if pz_sessionStart p = 0 then pe_unix e else pz_sessionStart p) else 0)\<rparr>;
            p2 = PushSteam e snap (PushDiscord e snap p1)
        in p2\<lparr>pz_lastPushed := snap, pz_lastPushSec := pe_now e, pz_lastHeartbeatSec := pe_now e\<rparr>)"

definition CMP_Presence_Invalidate :: "presence_env \<Rightarrow> menu \<Rightarrow> presence \<Rightarrow> presence" where
  "CMP_Presence_Invalidate e m p = PushSnapshot e (BuildSnapshot m) True p"

definition PollDiscordUser :: "presence_env \<Rightarrow> menu \<Rightarrow> presence \<Rightarrow> presence" where
  "PollDiscordUser e m p =
     (if \<not> pz_core p then p
      else case pe_user e of
        Inr username \<Rightarrow>
          (let name = (case username of Some u \<Rightarrow> c_str u | None \<Rightarrow> [])
           in if \<not> pz_connected p \<or> pz_user p \<noteq> name
              then CMP_Presence_Invalidate e m (p\<lparr>pz_connected := True, pz_user := name, pz_error := []\<rparr>)
              else p)
      | Inl code \<Rightarrow>
          if pz_connected p
          then p\<lparr>pz_connected := False, pz_user := [], pz_error := ''disconnected result='' @ int_str code\<rparr>
          else p)"

definition InitDiscord :: "presence_env \<Rightarrow> menu \<Rightarrow> bool \<Rightarrow> presence \<Rightarrow> bool \<times> presence" where
  "InitDiscord e m force p =
     (if \<not> pz_wanted p then (False, p)
      else if DiscordAppIdU64 e = 0
      then (False, p\<lparr>pz_error := ''CMP_DISCORD_APP_ID missing at build time''\<rparr>)
      else if pz_initialized p \<and> pz_connected p \<and> \<not> force then (True, p)
      else if pz_initialized p \<and> \<not> force \<and>
              f64_less (f64_sub (pe_now e) (pz_lastInitSec p)) (f64_of_int 15) then (pz_connected p, p)
      else
        let p1 = (if pz_initialized p then ShutdownDiscord e p else p);
            (loaded, p2) = LoadDiscordSdkBesidePlugin e p1
        in if \<not> loaded then (False, p2)
           else if fst (pe_create e) \<noteq> 0 \<or> \<not> snd (pe_create e)
           then (False, p2\<lparr>pz_error := ''Core::Create failed result='' @ int_str (fst (pe_create e))\<rparr>)
           else
             let p3 = RefreshDiscordDiagnostics e
                        (p2\<lparr>pz_core := True, pz_initialized := True, pz_lastInitSec := pe_now e,
                            pz_connected := False, pz_user := []\<rparr>);
                 p4 = PollDiscordUser e m
                        (p3\<lparr>pz_error := (if pz_pipe p3 then ''connecting to Discord'' else ''waiting for Discord desktop'')\<rparr>)
             in (pz_connected p4, p4))"

definition TickDiscordConnection :: "presence_env \<Rightarrow> menu \<Rightarrow> presence \<Rightarrow> presence" where
  "TickDiscordConnection e m p =
     (if \<not> pz_core p then p
      else
        let p1 = (if \<not> pz_connected p \<and> f64_le (f64_of_int 3) (f64_sub (pe_now e) (pz_lastDiag p))
                  then RefreshDiscordDiagnostics e (p\<lparr>pz_lastDiag := pe_now e\<rparr>) else p)
        in PollDiscordUser e m (RunCallbacks e p1))"

subsection \<open>Entry points\<close>

definition TryProbeSteam :: "presence_env \<Rightarrow> menu \<Rightarrow> presence \<Rightarrow> presence" where
  "TryProbeSteam e m p =
     (if \<not> se_presenceSteam (ss_settings (mn_ses m)) \<or> pz_steamEnabled p \<or> pz_steamProbeDone p then p
      else
        let (probe, st) = CMP_ProbeSteamApi (pe_steam e) (pz_steam p)
        in p\<lparr>pz_steamProbeDone := True, pz_steam := st, pz_steamNote := CMP_FormatSteamProbe probe,
             pz_steamEnabled := CMP_SteamPresenceAvailable st\<rparr>)"

definition CMP_Presence_Init :: "presence_env \<Rightarrow> menu \<Rightarrow> presence \<Rightarrow> presence" where
  "CMP_Presence_Init e m p =
     (let st = ss_settings (mn_ses m);
          p1 = p\<lparr>pz_steamEnabled := False, pz_steamProbeDone := False,
                 pz_steamNote := (if \<not> se_presenceSteam st then ''cmp_steam: disabled in INI'' else []),
                 pz_wanted := se_presenceDiscord st\<rparr>
      in if \<not> pz_wanted p1 then p1
         else if \<not> DiscordAppIdValid e then p1\<lparr>pz_error := ''CMP_DISCORD_APP_ID missing at build time''\<rparr>
         else p1)"

definition CMP_Presence_OnPreLoad :: "presence \<Rightarrow> presence" where
  "CMP_Presence_OnPreLoad p =
     p\<lparr>pz_lastPushed := snapshot0, pz_sessionStart := 0, pz_lastDiscordPush := 0, pz_lastHeartbeatSec := 0\<rparr>"

definition CMP_Presence_OnGameReady :: "presence_env \<Rightarrow> menu \<Rightarrow> presence \<Rightarrow> presence" where
  "CMP_Presence_OnGameReady e m p =
     (let p1 = TryProbeSteam e m p
      in if \<not> pz_wanted p1 \<or> \<not> DiscordAppIdValid e then p1
         else
           let p2 = p1\<lparr>pz_repushUntil := f64_add (pe_now e) (f64_of_int 90)\<rparr>;
               p3 = (if \<not> pz_initialized p2 \<or> \<not> pz_connected p2 then snd (InitDiscord e m True p2) else p2)
           in CMP_Presence_Invalidate e m p3)"

definition CMP_Presence_Shutdown :: "presence_env \<Rightarrow> presence \<Rightarrow> presence" where
  "CMP_Presence_Shutdown e p =
     (let p1 = ShutdownDiscord e p;
          p2 = (if pz_steamEnabled p1
                then p1\<lparr>pz_steam := CMP_SteamClearRichPresence (pe_steam e) (pz_steam p1)\<rparr> else p1)
      in p2\<lparr>pz_lastPushed := snapshot0, pz_sessionStart := 0\<rparr>)"

definition tick_discord :: "presence_env \<Rightarrow> menu \<Rightarrow> presence \<Rightarrow> presence" where
  "tick_discord e m p =
     (if \<not> pz_wanted p \<or> \<not> DiscordAppIdValid e then p
      else
        let p1 = (if \<not> pz_initialized p \<or>
                     (\<not> pz_connected p \<and> f64_le (f64_of_int 15) (f64_sub (pe_now e) (pz_lastInitSec p)))
                  then snd (InitDiscord e m (\<not> pz_initialized p) p) else p);
            p2 = TickDiscordConnection e m p1
        in if pz_initialized p2 \<and> pz_connected p2 \<and> f64_eq (pz_lastDiscordPush p2) 0
           then CMP_Presence_Invalidate e m p2 else p2)"

definition CMP_Presence_Tick :: "presence_env \<Rightarrow> menu \<Rightarrow> presence \<Rightarrow> presence" where
  "CMP_Presence_Tick e m p =
     (let p1 = tick_discord e m p;
          p2 = (if \<not> pz_steamProbeDone p1 \<and> se_presenceSteam (ss_settings (mn_ses m)) then TryProbeSteam e m p1 else p1);
          heartbeat = f64_le (f64_of_int 30) (f64_sub (pe_now e) (pz_lastHeartbeatSec p2))
      in PushSnapshot e (BuildSnapshot m) heartbeat p2)"

definition CMP_Presence_ReinitDiscord :: "presence_env \<Rightarrow> menu \<Rightarrow> presence \<Rightarrow> bool \<times> presence" where
  "CMP_Presence_ReinitDiscord e m p =
     (if \<not> pz_wanted p then (False, p) else InitDiscord e m True (RefreshDiscordDiagnostics e p))"

fun phase_word :: "presence_phase \<Rightarrow> string" where
  "phase_word PhIdle = ''idle''"
| "phase_word PhMenuJoin = ''menu''"
| "phase_word PhConnecting = ''connecting''"
| "phase_word PhHost = ''host''"
| "phase_word PhGuest = ''guest''"

definition quoted :: "string \<Rightarrow> string" where
  "quoted s = [CHR 0x22] @ s @ [CHR 0x22]"

definition CMP_PresenceStatusText :: "presence_env \<Rightarrow> menu \<Rightarrow> presence \<Rightarrow> string" where
  "CMP_PresenceStatusText e m p =
     (let snap = BuildSnapshot m
      in ''cmp_presence:'' @
         (if \<not> pz_wanted p then '' discord=ini_off''
          else if \<not> DiscordAppIdValid e then '' discord=no_app_id''
          else if pz_connected p then '' discord=connected''
          else if pz_initialized p then '' discord=waiting''
          else '' discord=off'') @
         '' appId='' @ c_str (pe_appId e) @ '' image='' @ c_str (pe_image e) @
         '' pipe='' @ (if pz_pipe p then ''yes'' else ''no'') @
         (if pz_elevated p then '' elevated=yes'' else []) @
         (if pz_user p \<noteq> [] then '' user='' @ pz_user p else []) @
         (if pz_error p \<noteq> [] then '' discord_err='' @ quoted (pz_error p) else []) @
         '' steam='' @ (if pz_steamEnabled p then ''on'' else ''off'') @
         (if pz_steamNote p \<noteq> [] then '' ('' @ pz_steamNote p @ '')'' else []) @
         '' phase='' @ phase_word (sn_phase snap) @
         '' details='' @ quoted (sn_details snap) @ '' state='' @ quoted (sn_state snap) @
         '' players='' @ dec_str (unat (sn_playerCount snap)) @
         (if sn_maxPlayers snap > 0 then ''/'' @ dec_str (unat (sn_maxPlayers snap)) else []))"

subsection \<open>The invariant\<close>

text \<open>
  Discord is initialized exactly while there is a core, which needs the library; a user is known only while
  connected, and connected only while initialized; the session clock runs only while what was pushed last was
  a session; the texts fit the buffers; Steam is used only after its probe, through what the probe trusted.
\<close>

definition services_ok :: "presence \<Rightarrow> bool" where
  "services_ok p \<longleftrightarrow>
     pz_initialized p = pz_core p \<and> (pz_core p \<longrightarrow> pz_sdk p) \<and> (pz_connected p \<longrightarrow> pz_core p) \<and>
     (pz_user p \<noteq> [] \<longrightarrow> pz_connected p) \<and> length (pz_details p) \<le> 127 \<and> length (pz_state p) \<le> 127 \<and>
     (pz_steamEnabled p \<longrightarrow> pz_steamProbeDone p) \<and> steam_run (pz_steam p)"

definition presence_ok :: "presence \<Rightarrow> bool" where
  "presence_ok p \<longleftrightarrow> services_ok p \<and> (pz_sessionStart p \<noteq> 0 \<longrightarrow> in_session (pz_lastPushed p))"

lemma presence0_ok: "presence_ok presence0"
  by (simp add: presence_ok_def services_ok_def presence0_def steam_run.intros)

lemma RunCallbacks_fields:
  obtains err where "RunCallbacks e p = p\<lparr>pz_error := err\<rparr>"
proof -
  have "\<exists>err. foldl (\<lambda>p r. if r \<noteq> 0 then p\<lparr>pz_error := ''UpdateActivity result='' @ int_str r\<rparr> else p) p rs =
    p\<lparr>pz_error := err\<rparr>" for rs
  proof (induction rs arbitrary: p)
    case Nil
    have "p = p\<lparr>pz_error := pz_error p\<rparr>" by simp
    then show ?case by (metis foldl_Nil)
  next
    case (Cons r rs)
    show ?case
    proof (cases "r = 0")
      case False
      from Cons.IH [of "p\<lparr>pz_error := ''UpdateActivity result='' @ int_str r\<rparr>"] show ?thesis
        by (auto simp: False)
    qed (use Cons.IH [of p] in auto)
  qed
  then show ?thesis using that by (auto simp: RunCallbacks_def)
qed

lemma ok_error [simp]: "services_ok (p\<lparr>pz_error := x\<rparr>) = services_ok p"
  by (simp add: services_ok_def)

lemma ok_callbacks [simp]: "services_ok (RunCallbacks e p) = services_ok p"
  by (rule RunCallbacks_fields [of e p]) simp

lemma ok_diagnostics [simp]: "services_ok (RefreshDiscordDiagnostics e p) = services_ok p"
  by (simp add: RefreshDiscordDiagnostics_def services_ok_def Let_def)

lemma ok_out [simp]: "services_ok (discord_out c p) = services_ok p"
  by (simp add: discord_out_def services_ok_def)

lemma ok_times [simp]:
  "services_ok (p\<lparr>pz_lastDiscordPush := t\<rparr>) = services_ok p" "services_ok (p\<lparr>pz_lastDiag := t\<rparr>) = services_ok p"
  "services_ok (p\<lparr>pz_repushUntil := t\<rparr>) = services_ok p" "services_ok (p\<lparr>pz_sessionStart := i\<rparr>) = services_ok p"
  "services_ok (p\<lparr>pz_lastPushed := sn\<rparr>) = services_ok p" "services_ok (p\<lparr>pz_lastPushSec := t\<rparr>) = services_ok p"
  "services_ok (p\<lparr>pz_lastHeartbeatSec := t\<rparr>) = services_ok p"
  by (simp_all add: services_ok_def)

lemma ok_shutdown: "services_ok p \<Longrightarrow> services_ok (ShutdownDiscord e p) \<and> \<not> pz_core (ShutdownDiscord e p)"
  by (rule RunCallbacks_fields [of e "discord_out DClear p"])
    (auto simp: ShutdownDiscord_def services_ok_def discord_out_def Let_def)

lemma ok_load: "services_ok p \<Longrightarrow> services_ok (snd (LoadDiscordSdkBesidePlugin e p)) \<and>
    (fst (LoadDiscordSdkBesidePlugin e p) \<longrightarrow> pz_sdk (snd (LoadDiscordSdkBesidePlugin e p)))"
  by (auto simp: LoadDiscordSdkBesidePlugin_def services_ok_def split: sum.split option.split)

lemma ok_push_key: "services_ok p \<Longrightarrow> services_ok (push_steam_key e k v p)"
  by (auto simp: push_steam_key_def services_ok_def intro: steam_run.intros)

lemma ok_push_discord: "services_ok p \<Longrightarrow> services_ok (PushDiscord e snap p)"
  unfolding PushDiscord_def Let_def by (auto simp: services_ok_def discord_out_def)

lemma ok_push: "services_ok p \<Longrightarrow> services_ok (PushSnapshot e snap force p)"
  unfolding PushSnapshot_def PushSteam_def Let_def by (simp add: ok_push_key ok_push_discord)

lemma push_clock:
  "pz_sessionStart (PushSteam e snap p) = pz_sessionStart p" "pz_sessionStart (PushDiscord e snap p) = pz_sessionStart p"
  by (simp_all add: PushSteam_def push_steam_key_def PushDiscord_def discord_out_def Let_def)

lemma presence_ok_push: "presence_ok p \<Longrightarrow> presence_ok (PushSnapshot e snap force p)"
  unfolding presence_ok_def by (simp add: ok_push) (simp add: PushSnapshot_def push_clock Let_def)

lemma presence_ok_frame:
  "presence_ok p \<Longrightarrow> services_ok q \<Longrightarrow> pz_sessionStart q = pz_sessionStart p \<Longrightarrow> pz_lastPushed q = pz_lastPushed p \<Longrightarrow>
   presence_ok q"
  by (simp add: presence_ok_def)

lemma presence_ok_services: "presence_ok p \<Longrightarrow> services_ok p"
  by (simp add: presence_ok_def)

definition clock_same :: "presence \<Rightarrow> presence \<Rightarrow> bool" where
  "clock_same p q \<longleftrightarrow> pz_sessionStart q = pz_sessionStart p \<and> pz_lastPushed q = pz_lastPushed p"

lemma clock_diagnostics: "clock_same p (RefreshDiscordDiagnostics e p)"
  by (simp add: clock_same_def RefreshDiscordDiagnostics_def Let_def)

lemma clock_callbacks: "clock_same p (RunCallbacks e p)"
  by (rule RunCallbacks_fields [of e p]) (simp add: clock_same_def)

lemma clock_shutdown: "clock_same p (ShutdownDiscord e p)"
  by (rule RunCallbacks_fields [of e "discord_out DClear p"])
    (simp add: ShutdownDiscord_def clock_same_def discord_out_def Let_def)

lemma clock_load: "clock_same p (snd (LoadDiscordSdkBesidePlugin e p))"
  by (simp add: LoadDiscordSdkBesidePlugin_def clock_same_def split: sum.split option.split)

lemma clock_probe: "clock_same p (TryProbeSteam e m p)"
  by (simp add: TryProbeSteam_def clock_same_def split: prod.split)

lemma presence_ok_same: "presence_ok p \<Longrightarrow> clock_same p q \<Longrightarrow> services_ok q \<Longrightarrow> presence_ok q"
  by (simp add: presence_ok_def clock_same_def)

lemma presence_ok_diagnostics: "presence_ok p \<Longrightarrow> presence_ok (RefreshDiscordDiagnostics e p)"
  by (rule presence_ok_same [OF _ clock_diagnostics]) (simp_all add: presence_ok_services)

lemma presence_ok_probe: "presence_ok p \<Longrightarrow> presence_ok (TryProbeSteam e m p)"
proof (rule presence_ok_same [OF _ clock_probe], assumption)
  assume "presence_ok p"
  then have "services_ok p" by (rule presence_ok_services)
  then show "services_ok (TryProbeSteam e m p)"
    using steam_run.steam_probe [of "pz_steam p" "pe_steam e"]
    by (auto simp: TryProbeSteam_def services_ok_def split: prod.split)
qed

lemma presence_ok_poll: "presence_ok p \<Longrightarrow> presence_ok (PollDiscordUser e m p)"
proof -
  assume ok: "presence_ok p"
  then have "presence_ok (p\<lparr>pz_connected := True, pz_user := name, pz_error := []\<rparr>)" if "pz_core p" for name
    using that by (simp add: presence_ok_def services_ok_def)
  moreover have "presence_ok (p\<lparr>pz_connected := False, pz_user := [], pz_error := x\<rparr>)" for x
    using ok by (simp add: presence_ok_def services_ok_def)
  ultimately show ?thesis
    using ok by (simp add: PollDiscordUser_def CMP_Presence_Invalidate_def presence_ok_push Let_def split: sum.split)
qed

lemma presence_ok_init: "presence_ok p \<Longrightarrow> presence_ok (snd (InitDiscord e m force p))"
proof -
  assume ok: "presence_ok p"
  let ?p1 = "if pz_initialized p then ShutdownDiscord e p else p"
  let ?l = "LoadDiscordSdkBesidePlugin e ?p1"
  have 1: "presence_ok ?p1" "\<not> pz_core ?p1"
    using ok ok_shutdown [OF presence_ok_services [OF ok], of e] presence_ok_same [OF ok clock_shutdown]
    by (auto simp: presence_ok_def services_ok_def)
  have 2: "presence_ok (snd ?l)" "fst ?l \<longrightarrow> pz_sdk (snd ?l)"
    using ok_load [OF presence_ok_services [OF 1(1)], of e] presence_ok_same [OF 1(1) clock_load] by auto
  have err: "presence_ok (q\<lparr>pz_error := x\<rparr>)" if "presence_ok q" for q x
    using that by (simp add: presence_ok_def)
  have 3: "presence_ok (RefreshDiscordDiagnostics e (snd ?l\<lparr>pz_core := True, pz_initialized := True,
      pz_lastInitSec := t, pz_connected := False, pz_user := []\<rparr>))" if "fst ?l" for t
    using 2 that by (intro presence_ok_diagnostics) (auto simp: presence_ok_def services_ok_def)
  show ?thesis
    using ok 2(1) 3 unfolding InitDiscord_def Let_def split_beta
    by (auto intro!: err presence_ok_poll)
qed

lemma presence_ok_error: "presence_ok p \<Longrightarrow> presence_ok (p\<lparr>pz_error := x\<rparr>)"
  by (simp add: presence_ok_def)

lemma presence_ok_invalidate: "presence_ok p \<Longrightarrow> presence_ok (CMP_Presence_Invalidate e m p)"
  by (simp add: CMP_Presence_Invalidate_def presence_ok_push)

lemma presence_ok_connection: "presence_ok p \<Longrightarrow> presence_ok (TickDiscordConnection e m p)"
proof -
  assume ok: "presence_ok p"
  have cb: "presence_ok (RunCallbacks e q)" if "presence_ok q" for q
    using that by (intro presence_ok_same [OF that clock_callbacks]) (simp add: presence_ok_services)
  have "presence_ok (p\<lparr>pz_lastDiag := t\<rparr>)" for t using ok by (simp add: presence_ok_def)
  then show ?thesis
    using ok by (simp add: TickDiscordConnection_def Let_def cb presence_ok_poll presence_ok_diagnostics)
qed

lemma presence_ok_tick: "presence_ok p \<Longrightarrow> presence_ok (CMP_Presence_Tick e m p)"
  unfolding CMP_Presence_Tick_def tick_discord_def Let_def
  by (auto intro!: presence_ok_push presence_ok_probe presence_ok_invalidate presence_ok_connection presence_ok_init)

lemma presence_ok_ready: "presence_ok p \<Longrightarrow> presence_ok (CMP_Presence_OnGameReady e m p)"
proof -
  assume ok: "presence_ok p"
  have "presence_ok (q\<lparr>pz_repushUntil := t\<rparr>)" if "presence_ok q" for q t using that by (simp add: presence_ok_def)
  then show ?thesis
    using ok unfolding CMP_Presence_OnGameReady_def Let_def
    by (auto intro!: presence_ok_probe presence_ok_invalidate presence_ok_init)
qed

lemma presence_ok_preload: "presence_ok p \<Longrightarrow> presence_ok (CMP_Presence_OnPreLoad p)"
  by (simp add: presence_ok_def CMP_Presence_OnPreLoad_def)

lemma presence_ok_shutdown: "presence_ok p \<Longrightarrow> presence_ok (CMP_Presence_Shutdown e p)"
proof -
  assume "presence_ok p"
  then have "services_ok (ShutdownDiscord e p)" using ok_shutdown [OF presence_ok_services] by blast
  then show ?thesis
    by (auto simp: CMP_Presence_Shutdown_def presence_ok_def services_ok_def Let_def intro: steam_run.steam_clear)
qed

lemma presence_ok_reinit: "presence_ok p \<Longrightarrow> presence_ok (snd (CMP_Presence_ReinitDiscord e m p))"
  by (simp add: CMP_Presence_ReinitDiscord_def presence_ok_init presence_ok_diagnostics)

text \<open>The life of the presence: it is set up once when the plugin loads; every answer may differ each time.\<close>

inductive presence_run :: "presence \<Rightarrow> bool" where
  pr_start: "presence_run (CMP_Presence_Init e m presence0)"
| pr_tick: "presence_run p \<Longrightarrow> presence_run (CMP_Presence_Tick e m p)"
| pr_invalidate: "presence_run p \<Longrightarrow> presence_run (CMP_Presence_Invalidate e m p)"
| pr_preload: "presence_run p \<Longrightarrow> presence_run (CMP_Presence_OnPreLoad p)"
| pr_ready: "presence_run p \<Longrightarrow> presence_run (CMP_Presence_OnGameReady e m p)"
| pr_shutdown: "presence_run p \<Longrightarrow> presence_run (CMP_Presence_Shutdown e p)"
| pr_reinit: "presence_run p \<Longrightarrow> presence_run (snd (CMP_Presence_ReinitDiscord e m p))"

lemma presence_run_ok: "presence_run p \<Longrightarrow> presence_ok p"
proof (induction rule: presence_run.induct)
  case (pr_start e m)
  then show ?case
    using presence0_ok by (simp add: CMP_Presence_Init_def presence_ok_def services_ok_def presence0_def Let_def)
qed (simp_all add: presence_ok_tick presence_ok_invalidate presence_ok_preload presence_ok_ready
    presence_ok_shutdown presence_ok_reinit)

subsection \<open>What is shown\<close>

definition displayed :: "presence_snapshot \<Rightarrow> presence \<Rightarrow> bool" where
  "displayed snap p \<longleftrightarrow>
     (pz_core p \<longrightarrow>
      (\<exists>a cs. pz_calls p = cs @ [DUpdate a] \<and> ac_details a = take 127 (c_str (sn_details snap)) \<and>
         ac_state a = take 127 (c_str (sn_state snap))))"

definition pushes :: "presence_snapshot \<Rightarrow> presence \<Rightarrow> presence \<Rightarrow> bool" where
  "pushes snap p q \<longleftrightarrow> pz_lastPushed q = pz_lastPushed p \<or> pz_lastPushed q = snap \<and> displayed snap q"

definition keeps_shown :: "presence_snapshot \<Rightarrow> presence \<Rightarrow> presence \<Rightarrow> bool" where
  "keeps_shown snap p q \<longleftrightarrow>
     pz_lastPushed q = pz_lastPushed p \<and> (displayed snap p \<longrightarrow> displayed snap q) \<or>
     pz_lastPushed q = snap \<and> displayed snap q"

lemma keeps_shown_refl: "keeps_shown snap p p"
  by (simp add: keeps_shown_def)

lemma pushes_keeps: "pushes snap p q \<Longrightarrow> keeps_shown snap q r \<Longrightarrow> pushes snap p r"
  by (auto simp: pushes_def keeps_shown_def)

lemma keeps_shown_trans: "keeps_shown snap p q \<Longrightarrow> keeps_shown snap q r \<Longrightarrow> keeps_shown snap p r"
  by (auto simp: keeps_shown_def)

lemma keeps_shown_frame:
  "pz_lastPushed q = pz_lastPushed p \<Longrightarrow> pz_calls q = pz_calls p \<Longrightarrow> pz_core q = pz_core p \<Longrightarrow> keeps_shown snap p q"
  by (simp add: keeps_shown_def displayed_def)

lemma push_snapshot_shows:
  "PushSnapshot e snap force p = p \<and> nothing_to_push e snap p \<and> \<not> force \<or>
   pz_lastPushed (PushSnapshot e snap force p) = snap \<and> displayed snap (PushSnapshot e snap force p)"
proof (cases "\<not> force \<and> nothing_to_push e snap p")
  case False
  have calls: "pz_calls (PushSteam e snap q) = pz_calls q" "pz_core (PushSteam e snap q) = pz_core q" for q
    by (simp_all add: PushSteam_def push_steam_key_def)
  have "displayed snap (PushDiscord e snap q)" for q
    by (auto simp: displayed_def PushDiscord_def discord_out_def activity_of_def Let_def)
  then have "displayed snap (PushSteam e snap (PushDiscord e snap q))" for q
    by (simp add: displayed_def calls)
  with False show ?thesis by (simp add: PushSnapshot_def displayed_def Let_def)
qed (simp add: PushSnapshot_def)

lemma push_keeps_shown: "keeps_shown snap p (PushSnapshot e snap force p)"
  using push_snapshot_shows [of e snap force p] keeps_shown_refl by (auto simp: keeps_shown_def)

lemma poll_keeps_shown: "keeps_shown (BuildSnapshot m) p (PollDiscordUser e m p)"
proof -
  let ?s = "BuildSnapshot m"
  have f: "keeps_shown ?s p (p\<lparr>pz_connected := c, pz_user := u, pz_error := x\<rparr>)" for c u x
    by (rule keeps_shown_frame) simp_all
  have "keeps_shown ?s p (CMP_Presence_Invalidate e m (p\<lparr>pz_connected := c, pz_user := u, pz_error := x\<rparr>))" for c u x
    unfolding CMP_Presence_Invalidate_def by (rule keeps_shown_trans [OF f push_keeps_shown])
  then show ?thesis
    by (simp add: PollDiscordUser_def f keeps_shown_refl Let_def split: sum.split)
qed

lemma connection_keeps_shown: "keeps_shown (BuildSnapshot m) p (TickDiscordConnection e m p)"
proof -
  have d: "keeps_shown s q (RefreshDiscordDiagnostics e (q\<lparr>pz_lastDiag := t\<rparr>))" for s q t
    by (rule keeps_shown_frame) (simp_all add: RefreshDiscordDiagnostics_def Let_def)
  have c: "keeps_shown s q (RunCallbacks e q)" for s q
    by (rule RunCallbacks_fields [of e q]) (auto intro: keeps_shown_frame)
  show ?thesis
    unfolding TickDiscordConnection_def Let_def
    by (auto intro: keeps_shown_refl keeps_shown_trans [OF _ poll_keeps_shown] keeps_shown_trans [OF d c] c)
qed

lemma init_pushes: "pushes (BuildSnapshot m) p (snd (InitDiscord e m force p))"
proof -
  let ?s = "BuildSnapshot m"
  let ?p1 = "if pz_initialized p then ShutdownDiscord e p else p"
  let ?l = "LoadDiscordSdkBesidePlugin e ?p1"
  have "pz_lastPushed ?p1 = pz_lastPushed p" using clock_shutdown [of p e] by (simp add: clock_same_def)
  then have l: "pz_lastPushed (snd ?l) = pz_lastPushed p" using clock_load [of ?p1 e] by (simp add: clock_same_def)
  have d: "pz_lastPushed (RefreshDiscordDiagnostics e q) = pz_lastPushed q" for q
    using clock_diagnostics [of q e] by (simp add: clock_same_def)
  have polled: "pushes ?s p (PollDiscordUser e m (RefreshDiscordDiagnostics e (snd ?l\<lparr>pz_core := True,
      pz_initialized := True, pz_lastInitSec := t, pz_connected := False, pz_user := []\<rparr>)\<lparr>pz_error := x\<rparr>))" for t x
    by (rule pushes_keeps [OF _ poll_keeps_shown]) (simp add: pushes_def l d)
  have branch: "pushes ?s p (snd (if c then x else y))" if "pushes ?s p (snd x)" "pushes ?s p (snd y)" for c and x y :: "bool \<times> presence"
    using that by simp
  have same: "pushes ?s p q" if "pz_lastPushed q = pz_lastPushed p" for q using that by (simp add: pushes_def)
  have error: "pz_lastPushed (q\<lparr>pz_error := x\<rparr>) = pz_lastPushed q" for q x by simp
  show ?thesis
    unfolding InitDiscord_def Let_def split_beta
    by (intro branch; simp only: snd_conv; (rule polled | rule same, simp only: error l))
qed

lemma tick_discord_pushes: "pushes (BuildSnapshot m) p (tick_discord e m p)"
proof -
  let ?s = "BuildSnapshot m"
  have refl: "pushes ?s p p" by (simp add: pushes_def)
  have "keeps_shown ?s q (CMP_Presence_Invalidate e m q)" for q
    unfolding CMP_Presence_Invalidate_def by (rule push_keeps_shown)
  then show ?thesis
    unfolding tick_discord_def Let_def
    by (auto intro: refl init_pushes pushes_keeps [OF pushes_keeps [OF _ connection_keeps_shown]]
        pushes_keeps [OF _ connection_keeps_shown])
qed

text \<open>
  C20: the presence is never stale. After every tick what was pushed last has the fingerprint of what the
  session is now; and when that differs from what was pushed before, the last thing Discord was told, if
  there is a connection to it, is the activity of the present state.
\<close>

theorem presence_fresh:
  "let snap = BuildSnapshot m; p' = CMP_Presence_Tick e m p
   in sn_hash (pz_lastPushed p') = sn_hash snap \<and>
      (sn_hash (pz_lastPushed p) = sn_hash snap \<or> \<not> pz_core p' \<or>
       (\<exists>a cs. pz_calls p' = cs @ [DUpdate a] \<and> ac_details a = take 127 (c_str (sn_details snap)) \<and>
          ac_state a = take 127 (c_str (sn_state snap))))"
proof -
  let ?s = "BuildSnapshot m" and ?p1 = "tick_discord e m p"
  let ?p2 = "if \<not> pz_steamProbeDone ?p1 \<and> se_presenceSteam (ss_settings (mn_ses m)) then TryProbeSteam e m ?p1 else ?p1"
  have "keeps_shown ?s ?p1 ?p2"
    by (rule keeps_shown_frame) (auto simp: TryProbeSteam_def split: prod.split)
  from pushes_keeps [OF tick_discord_pushes this]
  have "pushes ?s p ?p2" .
  then have 2: "pz_lastPushed ?p2 = pz_lastPushed p \<or> pz_lastPushed ?p2 = ?s \<and> displayed ?s ?p2"
    by (simp only: pushes_def)
  obtain force where 3: "CMP_Presence_Tick e m p = PushSnapshot e ?s force ?p2"
    unfolding CMP_Presence_Tick_def Let_def by blast
  have q: "sn_hash (pz_lastPushed ?p2) = sn_hash ?s" if "nothing_to_push e ?s ?p2"
    using that by (simp only: nothing_to_push_def Let_def)
  consider "PushSnapshot e ?s force ?p2 = ?p2" "sn_hash (pz_lastPushed ?p2) = sn_hash ?s"
    | "pz_lastPushed (PushSnapshot e ?s force ?p2) = ?s" "displayed ?s (PushSnapshot e ?s force ?p2)"
    using push_snapshot_shows [of e ?s force ?p2] q by blast
  then show ?thesis
  proof cases
    case 1
    show ?thesis unfolding Let_def 3 1(1) using 2 1(2) unfolding displayed_def by metis
  next
    case 2
    then show ?thesis unfolding Let_def 3 displayed_def by metis
  qed
qed

definition demo_presence_env :: presence_env where
  "demo_presence_env =
     \<lparr>pe_now = f64_of_int 100, pe_unix = 1700000000, pe_appId = ''1234'', pe_image = ''cmp_logo1'',
      pe_module = Inr (''C:'' @ [CHR 0x5C] @ ''CommonwealthMP.dll''), pe_load = \<lambda>_. True, pe_create = (0, True),
      pe_user = Inr (Some ''Sole''), pe_callbacks = [], pe_pipe = True, pe_elevated = False,
      pe_steam = \<lparr>st_loaded = False, st_void = \<lambda>_. None, st_create = None, st_getUser = None, st_getPipe = None,
        st_findUser = None, st_getFriends = None, st_persona = \<lambda>_. None, st_setRich = \<lambda>_ _ _. None,
        st_clearRich = \<lambda>_. None, st_fileVersion = None\<rparr>\<rparr>"

definition demo_solo :: menu where
  "demo_solo = menu0 (session_init default_settings) \<lparr>pf_ini = \<lambda>_ _. None, pf_text = \<lambda>_. None\<rparr>"

text \<open>Connected, and shown something else before.\<close>

definition demo_presence :: presence where
  "demo_presence = presence0\<lparr>pz_wanted := True, pz_initialized := True, pz_connected := True, pz_core := True,
     pz_sdk := True, pz_user := ''Sole'', pz_lastPushed := snapshot0\<lparr>sn_hash := sn_hash (BuildSnapshot demo_solo) + 1\<rparr>\<rparr>"

lemma push_core: "pz_core (PushSnapshot e snap force p) = pz_core p"
  by (simp add: PushSnapshot_def PushSteam_def push_steam_key_def PushDiscord_def discord_out_def Let_def)

lemma demo_core: "pz_core (CMP_Presence_Tick demo_presence_env demo_solo demo_presence)"
  by (simp add: CMP_Presence_Tick_def tick_discord_def TickDiscordConnection_def RunCallbacks_def PollDiscordUser_def
      CMP_Presence_Invalidate_def TryProbeSteam_def RefreshDiscordDiagnostics_def
      push_core demo_presence_def presence0_def demo_presence_env_def Let_def c_str_def split: prod.split)

theorem presence_fresh_witness:
  "\<exists>a cs. pz_calls (CMP_Presence_Tick demo_presence_env demo_solo demo_presence) = cs @ [DUpdate a] \<and>
     ac_details a = ''CMP'' \<and> ac_state a = ''Solo''"
proof -
  have "take 127 (c_str (sn_details (BuildSnapshot demo_solo))) = ''CMP''"
    "take 127 (c_str (sn_state (BuildSnapshot demo_solo))) = ''Solo''"
    by (simp_all add: demo_solo_def BuildSnapshot_def snapshot_of_def menu0_def session_init_def net_runtime_init_def
        CMP_MenuPresencePhase_def flow_active_def find_sub.simps c_str_def Let_def)
  moreover have "sn_hash (pz_lastPushed demo_presence) \<noteq> sn_hash (BuildSnapshot demo_solo)"
    by (simp add: demo_presence_def)
  ultimately show ?thesis
    using presence_fresh [of demo_solo demo_presence_env demo_presence] demo_core
    unfolding Let_def by simp
qed

subsection \<open>Who is counted\<close>

text \<open>
  The poses of a session are those of the other players: the plugin never files one under its own id. The
  presence nevertheless takes one off the number of poses for the player, so a guest always reads one too few.
\<close>

lemma take_pose_not_me:
  assumes "me \<notin> fst ` set (nr_latestPose n)"
  shows "me \<notin> fst ` set (nr_latestPose (take_pose me n q))"
proof -
  have "keys \<union> {pp_peerId (qp_pose q)} = insert (pp_peerId (qp_pose q)) keys" for keys by blast
  with assms show ?thesis
    by (auto simp: take_pose_def Let_def keys_um_put)
qed

lemma take_poses_not_me:
  assumes "nr_myPeerId (ss_net s) \<notin> fst ` set (nr_latestPose (ss_net s))"
  shows "nr_myPeerId (ss_net s) \<notin> fst ` set (nr_latestPose (ss_net (take_poses s)))"
proof -
  have "me \<notin> fst ` set (nr_latestPose (foldl (take_pose me) n qs))" if "me \<notin> fst ` set (nr_latestPose n)" for me n qs
    using that by (induction qs arbitrary: n) (simp_all add: take_pose_not_me)
  then show ?thesis using assms by (simp add: take_poses_def)
qed

lemma guest_reads_one_less:
  assumes "\<not> flow_active (mn_flow m)" "nr_joined (ss_net (mn_ses m))" "nr_myPeerId (ss_net (mn_ses m)) \<noteq> 0"
    "\<not> nr_isHost (ss_net (mn_ses m))" "length (nr_latestPose (ss_net (mn_ses m))) = Suc others" "Suc others < 2 ^ 32"
  shows "sn_state (BuildSnapshot m) =
    with_location (LocationText True (pn_interior (ss_presence (mn_ses m))) (pn_worldspace (ss_presence (mn_ses m))))
      (''Playing ('' @ dec_str others @ '' others)'')"
proof -
  have n: "unat (of_nat (Suc others) :: u32) = Suc others"
    using assms(6) by (simp add: unsigned_of_nat take_bit_nat_eq_self del: of_nat_Suc)
  then have "(of_nat (Suc others) :: u32) > 0" by (metis Zero_not_Suc unat_0 word_gt_0)
  moreover have "unat (of_nat (Suc others) - 1 :: u32) = others"
    using assms(6) by (simp add: unsigned_of_nat take_bit_nat_eq_self)
  ultimately show ?thesis
    using assms(1-5) by (simp add: BuildSnapshot_def snapshot_of_def CMP_MenuPresencePhase_def Let_def del: of_nat_Suc)
qed

text \<open>
  C21: the presence services hang together. In every state they can reach, whatever Discord, Steam and the
  system answer, Discord is initialized exactly while there is a core, a user is shown only while connected,
  the texts fit their buffers, the clock of a session runs only while a session was pushed last, and Steam is
  used only after its probe and through an interface of a trusted version.
\<close>

theorem presence_invariant:
  assumes "presence_run p"
  shows "pz_initialized p = pz_core p \<and> (pz_connected p \<longrightarrow> pz_core p) \<and> (pz_user p \<noteq> [] \<longrightarrow> pz_connected p) \<and>
    length (pz_details p) \<le> 127 \<and> length (pz_state p) \<le> 127 \<and>
    (pz_sessionStart p \<noteq> 0 \<longrightarrow> in_session (pz_lastPushed p)) \<and> (pz_steamEnabled p \<longrightarrow> pz_steamProbeDone p) \<and>
    (\<forall>i. FriendsPresenceIface (pz_steam p) = Some i \<longrightarrow> (\<exists>v\<in>set trusted_versions. sp_match (pz_steam p) = Some (i, v)))"
proof -
  from presence_run_ok [OF assms] have ok: "presence_ok p" .
  then have "steam_ok (pz_steam p)" using steam_run_ok by (simp add: presence_ok_def services_ok_def)
  then have "\<forall>i. FriendsPresenceIface (pz_steam p) = Some i \<longrightarrow>
      (\<exists>v\<in>set trusted_versions. sp_match (pz_steam p) = Some (i, v))"
    by (auto simp: steam_ok_def FriendsPresenceIface_def split: if_splits)
  with ok show ?thesis by (simp add: presence_ok_def services_ok_def)
qed

theorem presence_invariant_witness:
  "pz_initialized (CMP_Presence_Tick demo_presence_env demo_solo (CMP_Presence_Init demo_presence_env demo_solo presence0)) =
   pz_core (CMP_Presence_Tick demo_presence_env demo_solo (CMP_Presence_Init demo_presence_env demo_solo presence0))"
  using presence_invariant [OF pr_tick [OF pr_start], of demo_presence_env demo_solo demo_presence_env demo_solo] by blast

end
