(* ===== verification/Looks.thy ===== *)
theory Looks
  imports ClientPoll
begin

text \<open>
  Looks and gear: \<^verbatim>\<open>plugin/src/appearance/{pack,apply,appearance,inventory}.cpp\<close>. What the local player looks
  like is packed into a blob, and a blob that came from another player is painted onto the ghost. Forms of the
  engine are records; a null pointer is \<open>None\<close>. The engine's tables of forms and files and the calls that change
  a ghost (adding to its inventory, equipping, setting race and hair colour) are the record \<open>engine\<close>. A read
  that fails ends the painting where it is: such an operation gives the ghost so far and \<open>None\<close> for the rest of
  the blob.
\<close>

subsection \<open>Forms\<close>

datatype form_kind = FRace | FColor | FHeadPart | FWeapon | FArmor bool | FFurniture | FNpc | FOther

record engine_form =
  ef_id :: u32
  ef_local :: u32
  ef_file :: "(string \<times> bool) option"
  ef_kind :: form_kind
  ef_bound :: bool

record file_info =
  fi_light :: bool
  fi_index :: u8

text \<open>
  An actor's gear: its inventory, one entry for each object with the count and the equipped flag of each stack,
  and the forms on its biped slots. A tint entry has a type and, when it is of the palette type, a colour.
\<close>

record worn_actor =
  wa_inventory :: "(engine_form option \<times> (u32 \<times> bool) list) list option"
  wa_biped :: "engine_form option list option"

record tint_entry =
  ti_id :: u16
  ti_value :: u8
  ti_type :: u8
  ti_color :: u32

record looks =
  lk_id :: u32
  lk_clone :: bool
  lk_female :: bool
  lk_unique :: bool
  lk_outfits :: bool
  lk_race :: "engine_form option"
  lk_originalRace :: "engine_form option"
  lk_weight :: "f32 \<times> f32 \<times> f32"
  lk_height :: f32
  lk_related :: bool
  lk_hair :: "engine_form option"
  lk_facial :: "engine_form option"
  lk_body :: "u8 \<times> u8 \<times> u8 \<times> u8"
  lk_faceNpc :: bool
  lk_heads :: "engine_form option list option"
  lk_morphs :: "(u32, f32) umap option"
  lk_tints :: "tint_entry option list option"

record engine =
  en_form :: "u32 \<Rightarrow> engine_form option"
  en_data :: bool
  en_mod :: "string \<Rightarrow> file_info option"
  en_lookup :: "u32 \<Rightarrow> string \<Rightarrow> engine_form option"
  en_pipboy :: nat
  en_palette :: u8
  en_equipManager :: bool
  en_alloc :: bool
  en_add :: "engine_form \<Rightarrow> worn_actor \<Rightarrow> worn_actor"
  en_equip :: "engine_form \<Rightarrow> worn_actor \<Rightarrow> worn_actor"
  en_unequip :: "engine_form \<Rightarrow> worn_actor \<Rightarrow> worn_actor"
  en_setRace :: "engine_form \<Rightarrow> looks \<Rightarrow> looks"
  en_setHair :: "engine_form \<Rightarrow> looks \<Rightarrow> looks"

definition kAppearMagic :: u32 where "kAppearMagic = 0x45505041"
definition kAppearVersion :: u16 where "kAppearVersion = 1"
definition kMaxHead :: nat where "kMaxHead = 16"
definition kMaxMorph :: nat where "kMaxMorph = 32"
definition kMaxTint :: nat where "kMaxTint = 32"
definition kMaxEquip :: nat where "kMaxEquip = 16"

definition no_form :: packed_form where
  "no_form = \<lparr>pf_raw = 0, pf_plugin = zeros kPluginField\<rparr>"

definition PackForm :: "engine_form option \<Rightarrow> packed_form" where
  "PackForm form =
     (case form of
        None \<Rightarrow> no_form
      | Some f \<Rightarrow>
          (case ef_file f of
             Some (name, light) \<Rightarrow>
               if c_str name \<noteq> [] then pack_form_id (if light then ef_local f else ef_id f) (c_str name) light
               else pack_form_id (ef_id f) ''Fallout4.esm'' False
           | None \<Rightarrow> pack_form_id (ef_id f) ''Fallout4.esm'' False))"

definition WriteForm :: "engine_form option \<Rightarrow> bytes \<Rightarrow> bytes" where
  "WriteForm form w = write_form (PackForm form) w"

definition CMP_ResolveForm :: "engine \<Rightarrow> u32 \<Rightarrow> string \<Rightarrow> engine_form option" where
  "CMP_ResolveForm e rawId plugin =
     (if rawId = 0 then None
      else if rawId < 0x01000000 then en_form e rawId
      else if \<not> en_data e \<or> c_str plugin = [] then None
      else case en_mod e (c_str plugin) of
        None \<Rightarrow> None
      | Some file \<Rightarrow>
          if fi_light file then en_lookup e rawId (c_str plugin)
          else en_form e (full_form_id rawId (fi_index file) False))"

subsection \<open>What an actor wears\<close>

definition stacks_count :: "(u32 \<times> bool) list \<Rightarrow> u32" where
  "stacks_count stacks = foldl (\<lambda>n s. n + fst s) 0 stacks"

definition EquipKey :: "worn_actor option \<Rightarrow> u64" where
  "EquipKey actor =
     (case actor of
        Some a \<Rightarrow>
          (case wa_inventory a of
             Some items \<Rightarrow>
               foldl (\<lambda>h (obj, stacks). case obj of
                   None \<Rightarrow> h
                 | Some f \<Rightarrow> foldl (\<lambda>h s. if snd s then (h XOR ucast (ef_id f)) * 1099511628211 else h) h stacks)
                 14695981039346656037 items
           | None \<Rightarrow> 14695981039346656037)
      | None \<Rightarrow> 14695981039346656037)"

definition InvKey :: "worn_actor option \<Rightarrow> u64" where
  "InvKey actor =
     (case actor of
        Some a \<Rightarrow>
          (case wa_inventory a of
             Some items \<Rightarrow>
               foldl (\<lambda>h (obj, stacks). case obj of
                   None \<Rightarrow> h
                 | Some f \<Rightarrow> (((h XOR ucast (ef_id f)) * 1099511628211) XOR ucast (stacks_count stacks)) * 1099511628211)
                 14695981039346656037 items
           | None \<Rightarrow> 14695981039346656037)
      | None \<Rightarrow> 14695981039346656037)"

definition IsPipboyForm :: "engine \<Rightarrow> worn_actor \<Rightarrow> engine_form \<Rightarrow> bool" where
  "IsPipboyForm e a f =
     (case wa_biped a of None \<Rightarrow> False | Some slots \<Rightarrow> en_pipboy e < length slots \<and> slots ! en_pipboy e = Some f)"

definition no_slot :: u8 where "no_slot = 0xFF"

fun worn_items :: "engine \<Rightarrow> worn_actor \<Rightarrow> (engine_form option \<times> (u32 \<times> bool) list) list \<Rightarrow> (engine_form \<times> u8) list" where
  "worn_items e a [] = []"
| "worn_items e a ((None, stacks) # items) = worn_items e a items"
| "worn_items e a ((Some f, stacks) # items) =
     (if IsPipboyForm e a f then worn_items e a items
      else if list_ex snd stacks then (f, no_slot) # worn_items e a items
      else worn_items e a items)"

text \<open>The biped slots: a form already listed gets the slot if it has none; another is added.\<close>

fun put_slot :: "engine_form \<Rightarrow> u8 \<Rightarrow> (engine_form \<times> u8) list \<Rightarrow> (engine_form \<times> u8) list" where
  "put_slot f i [] = [(f, i)]"
| "put_slot f i ((g, s) # out) =
     (if g = f then (if s = no_slot then (g, i) else (g, s)) # out else (g, s) # put_slot f i out)"

definition put_biped :: "engine \<Rightarrow> (engine_form \<times> u8) list \<Rightarrow> nat \<times> engine_form option \<Rightarrow> (engine_form \<times> u8) list" where
  "put_biped e out = (\<lambda>(i, obj).
     if i = en_pipboy e then out else case obj of None \<Rightarrow> out | Some f \<Rightarrow> put_slot f (of_nat i) out)"

definition CollectWornItems :: "engine \<Rightarrow> worn_actor option \<Rightarrow> (engine_form \<times> u8) list" where
  "CollectWornItems e actor =
     (case actor of
        None \<Rightarrow> []
      | Some a \<Rightarrow>
          let out = (case wa_inventory a of None \<Rightarrow> [] | Some items \<Rightarrow> worn_items e a items)
          in case wa_biped a of None \<Rightarrow> out | Some slots \<Rightarrow> foldl (put_biped e) out (enumerate 0 slots))"

definition CollectWorn :: "engine \<Rightarrow> worn_actor option \<Rightarrow> engine_form list" where
  "CollectWorn e actor = map fst (CollectWornItems e actor)"

definition Uniq :: "engine_form list \<Rightarrow> engine_form list" where
  "Uniq forms = foldl (\<lambda>out f. if f \<in> set out then out else out @ [f]) [] forms"

subsection \<open>Packing\<close>

record player_look =
  py_npc :: "looks option"
  py_actor :: worn_actor
  py_headsTrue :: "engine_form option list"
  py_headsFalse :: "engine_form option list"
  py_tints :: "tint_entry option list option"
  py_display :: "string option"

definition bw_f32 :: "f32 \<Rightarrow> bytes \<Rightarrow> bytes" where "bw_f32 v w = bw_u32 v w"

definition write_base :: "looks \<Rightarrow> bytes \<Rightarrow> bytes" where
  "write_base n w =
     (let (x, y, z) = lk_weight n; (r, g, b, a) = lk_body n;
          w = bw_u8 (if lk_female n then 1 else 0) w;
          w = bw_u8 0 w;
          w = WriteForm (lk_race n) w;
          w = bw_f32 (lk_height n) (bw_f32 z (bw_f32 y (bw_f32 x w)));
          hair = (if lk_related n then lk_hair n else None);
          facial = (if lk_related n then lk_facial n else None);
          w = WriteForm facial (WriteForm hair w)
      in bw_u8 a (bw_u8 b (bw_u8 g (bw_u8 r w))))"

definition write_heads :: "engine_form option list \<Rightarrow> bytes \<Rightarrow> bytes" where
  "write_heads parts w =
     (let ps = take kMaxHead parts in foldl (\<lambda>w p. WriteForm p w) (bw_u8 (of_nat (length ps)) w) ps)"

definition write_morphs :: "(u32, f32) umap option \<Rightarrow> bytes \<Rightarrow> bytes" where
  "write_morphs morphs w =
     (let ms = take kMaxMorph (case morphs of None \<Rightarrow> [] | Some ms \<Rightarrow> ms)
      in foldl (\<lambda>w (k, v). bw_f32 v (bw_u32 k w)) (bw_u8 (of_nat (length ms)) w) ms)"

definition write_tints :: "engine \<Rightarrow> tint_entry option list option \<Rightarrow> bytes \<Rightarrow> bytes" where
  "write_tints e tints w =
     (let ts = take kMaxTint (List.map_filter id (case tints of None \<Rightarrow> [] | Some ts \<Rightarrow> ts))
      in foldl (\<lambda>w t. bw_u32 (if ti_type t = en_palette e then ti_color t else 0)
                        (bw_u8 (ti_type t) (bw_u8 (ti_value t) (bw_u16 (ti_id t) w))))
           (bw_u8 (of_nat (length ts)) w) ts)"

definition write_worn :: "(engine_form \<times> u8) list \<Rightarrow> bytes \<Rightarrow> bytes" where
  "write_worn worn w =
     (let ws = take kMaxEquip worn
      in foldl (\<lambda>w (f, slot). bw_u8 slot (WriteForm (Some f) w)) (bw_u8 (of_nat (length ws)) w) ws)"

definition ExtractBlob :: "engine \<Rightarrow> player_look option \<Rightarrow> bytes option" where
  "ExtractBlob e player =
     (case player of
        None \<Rightarrow> None
      | Some p \<Rightarrow>
          (case py_npc p of
             None \<Rightarrow> None
           | Some n \<Rightarrow>
               let w = bw_u16 kAppearVersion (bw_u32 kAppearMagic []);
                   w = write_base n w;
                   parts = (if py_headsTrue p = [] then py_headsFalse p else py_headsTrue p);
                   w = write_heads parts w;
                   w = write_morphs (lk_morphs n) w;
                   w = write_tints e (case py_tints p of Some t \<Rightarrow> Some t | None \<Rightarrow> lk_tints n) w;
                   w = write_worn (CollectWornItems e (Some (py_actor p))) w
               in Some w))"

definition ExtractInventory :: "engine \<Rightarrow> string \<Rightarrow> player_look option \<Rightarrow> bytes option" where
  "ExtractInventory e sessionName player =
     (case player of
        None \<Rightarrow> None
      | Some p \<Rightarrow>
          let name = (if sessionName \<noteq> [] then sessionName
                      else case py_display p of
                        Some d \<Rightarrow> if c_str d \<noteq> [] then c_str d else ''Player''
                      | None \<Rightarrow> ''Player'');
              worn = take kMaxWorn (Uniq (CollectWorn e (Some (py_actor p))));
              rows = List.map_filter (\<lambda>(obj, stacks). case obj of
                         None \<Rightarrow> None
                       | Some f \<Rightarrow>
                           if forbidden_actor_base (ef_id f) \<or> sint (stacks_count stacks) \<le> 0 then None
                           else Some \<lparr>is_form = PackForm (Some f), is_count = stacks_count stacks\<rparr>)
                       (case wa_inventory (py_actor p) of None \<Rightarrow> [] | Some items \<Rightarrow> items)
          in Some (encode_inventory_sheet
               \<lparr>iv_name = copy_cstr (zeros 32) name,
                iv_sex = (case py_npc p of Some n \<Rightarrow> if lk_female n then 1 else 0 | None \<Rightarrow> 0),
                iv_race = PackForm (case py_npc p of Some n \<Rightarrow> lk_race n | None \<Rightarrow> None),
                iv_worn = map (\<lambda>f. PackForm (Some f)) worn,
                iv_stacks = take kMaxStacks rows\<rparr>))"

subsection \<open>Putting gear on\<close>

definition GhostHasForm :: "worn_actor \<Rightarrow> engine_form \<Rightarrow> bool" where
  "GhostHasForm a f =
     (case wa_inventory a of
        None \<Rightarrow> False
      | Some items \<Rightarrow> list_ex (\<lambda>(obj, stacks). obj = Some f \<and> list_ex (\<lambda>s. fst s > 0) stacks) items)"

definition GhostHasWeapon :: "engine \<Rightarrow> worn_actor \<Rightarrow> bool" where
  "GhostHasWeapon e a = list_ex (\<lambda>(f, _). ef_kind f = FWeapon) (CollectWornItems e (Some a))"

definition IsSkippedGear :: "engine_form \<Rightarrow> bool" where
  "IsSkippedGear f \<longleftrightarrow> ef_kind f = FFurniture \<or> ef_kind f = FArmor True"

definition EquipForm :: "engine \<Rightarrow> engine_form \<Rightarrow> worn_actor \<Rightarrow> worn_actor" where
  "EquipForm e f a =
     (if \<not> en_equipManager e \<or> forbidden_actor_base (ef_id f) \<or> IsSkippedGear f \<or> \<not> ef_bound f then a
      else en_equip e f (if GhostHasForm a f then a else en_add e f a))"

definition StripGhostWorn :: "engine \<Rightarrow> worn_actor \<Rightarrow> worn_actor" where
  "StripGhostWorn e a =
     (if \<not> en_equipManager e then a
      else foldl (\<lambda>b f. if IsPipboyForm e b f then b else en_unequip e f b) a (CollectWorn e (Some a)))"

definition CMP_EquipGhostFallbackWeapon :: "engine \<Rightarrow> worn_actor \<Rightarrow> worn_actor" where
  "CMP_EquipGhostFallbackWeapon e a =
     (case (case en_form e 0x00004822 of Some f \<Rightarrow> Some f | None \<Rightarrow> en_form e 0x000913CA) of
        None \<Rightarrow> a
      | Some f \<Rightarrow> EquipForm e f a)"

subsection \<open>Painting\<close>

text \<open>The ghost: its base and its gear. A stage gives the ghost and what is left of the blob, if it goes on.\<close>

type_synonym ghost_look = "looks \<times> worn_actor"
type_synonym stage = "ghost_look \<times> bytes option"

definition then_read :: "stage \<Rightarrow> (bytes \<Rightarrow> ('a \<times> bytes) option) \<Rightarrow> ('a \<Rightarrow> ghost_look \<Rightarrow> ghost_look) \<Rightarrow> stage" where
  "then_read st rdr f =
     (case snd st of
        None \<Rightarrow> st
      | Some b \<Rightarrow> (case rdr b of None \<Rightarrow> (fst st, None) | Some (x, b') \<Rightarrow> (f x (fst st), Some b')))"

fun read_n :: "(bytes \<Rightarrow> ('a \<times> bytes) option) \<Rightarrow> nat \<Rightarrow> bytes \<Rightarrow> 'a list \<times> bytes option" where
  "read_n rdr 0 b = ([], Some b)"
| "read_n rdr (Suc n) b =
     (case rdr b of None \<Rightarrow> ([], None) | Some (x, b') \<Rightarrow> (let r = read_n rdr n b' in (x # fst r, snd r)))"

definition rd_pair :: "(bytes \<Rightarrow> ('a \<times> bytes) option) \<Rightarrow> (bytes \<Rightarrow> ('b \<times> bytes) option) \<Rightarrow> bytes \<Rightarrow> (('a \<times> 'b) \<times> bytes) option" where
  "rd_pair f g b =
     (case f b of None \<Rightarrow> None | Some (x, b1) \<Rightarrow> (case g b1 of None \<Rightarrow> None | Some (y, b2) \<Rightarrow> Some ((x, y), b2)))"

definition resolve :: "engine \<Rightarrow> packed_form \<Rightarrow> engine_form option" where
  "resolve e f = CMP_ResolveForm e (pf_raw f) (c_str (pf_plugin f))"

definition as_kind :: "form_kind \<Rightarrow> engine_form option \<Rightarrow> engine_form option" where
  "as_kind k f = (case f of None \<Rightarrow> None | Some g \<Rightarrow> if ef_kind g = k then Some g else None)"

definition set_sex :: "u8 \<Rightarrow> looks \<Rightarrow> looks" where
  "set_sex sex n = n\<lparr>lk_female := (sex \<noteq> 0), lk_unique := False, lk_outfits := False\<rparr>"

definition set_race :: "engine \<Rightarrow> packed_form \<Rightarrow> looks \<Rightarrow> looks" where
  "set_race e f n =
     (case as_kind FRace (resolve e f) of None \<Rightarrow> n | Some r \<Rightarrow> (en_setRace e r n)\<lparr>lk_originalRace := Some r\<rparr>)"

definition set_hair :: "engine \<Rightarrow> packed_form \<times> packed_form \<Rightarrow> looks \<Rightarrow> looks" where
  "set_hair e = (\<lambda>(hair, face) n.
     let n1 = (case as_kind FColor (resolve e hair) of None \<Rightarrow> n | Some c \<Rightarrow> en_setHair e c n)
     in case as_kind FColor (resolve e face) of
          None \<Rightarrow> n1
        | Some c \<Rightarrow> if lk_related n1 then n1\<lparr>lk_facial := Some c\<rparr> else n1)"

definition head_parts :: "engine \<Rightarrow> packed_form list \<Rightarrow> engine_form list" where
  "head_parts e fs = List.map_filter (\<lambda>f. as_kind FHeadPart (resolve e f)) fs"

text \<open>The array of head parts is replaced when it is too short; it ends as long as the parts that fit.\<close>

definition set_heads :: "engine \<Rightarrow> engine_form list \<Rightarrow> looks \<Rightarrow> looks" where
  "set_heads e parts n0 =
     (let n = n0\<lparr>lk_faceNpc := False\<rparr>
      in if parts = [] then n
         else
           let want = min (length parts) 127;
               short = (case lk_heads n of None \<Rightarrow> True | Some hs \<Rightarrow> length hs < want);
               heads = (if short \<and> en_alloc e then Some (replicate want None) else lk_heads n)
           in case heads of
                None \<Rightarrow> n
              | Some hs \<Rightarrow>
                  if hs = [] then n\<lparr>lk_heads := heads\<rparr>
                  else n\<lparr>lk_heads := Some (map Some (take (min want (length hs)) parts))\<rparr>)"

definition set_morphs :: "(u32 \<times> f32) list \<Rightarrow> looks \<Rightarrow> looks" where
  "set_morphs ms n =
     (case lk_morphs n of None \<Rightarrow> n | Some m \<Rightarrow> n\<lparr>lk_morphs := Some (foldl (\<lambda>m (k, v). um_put k v m) m ms)\<rparr>)"

fun put_tint :: "u8 \<Rightarrow> tint_entry \<Rightarrow> tint_entry option list \<Rightarrow> tint_entry option list" where
  "put_tint pal t [] = []"
| "put_tint pal t (None # es) = None # put_tint pal t es"
| "put_tint pal t (Some d # es) =
     (if ti_id d = ti_id t
      then Some (d\<lparr>ti_value := ti_value t,
             ti_color := (if ti_type t = pal \<and> ti_type d = pal then ti_color t else ti_color d)\<rparr>) # es
      else Some d # put_tint pal t es)"

definition set_tints :: "engine \<Rightarrow> tint_entry list \<Rightarrow> looks \<Rightarrow> looks" where
  "set_tints e ts n =
     (case lk_tints n of None \<Rightarrow> n | Some es \<Rightarrow> n\<lparr>lk_tints := Some (foldl (\<lambda>es t. put_tint (en_palette e) t es) es ts)\<rparr>)"

definition br_tint :: "bytes \<Rightarrow> (tint_entry \<times> bytes) option" where
  "br_tint b =
     map_option (\<lambda>((i, v, t, c), r). (\<lparr>ti_id = i, ti_value = v, ti_type = t, ti_color = c\<rparr>, r))
       (rd_pair br_u16 (rd_pair br_u8 (rd_pair br_u8 br_u32)) b)"

definition wear :: "engine \<Rightarrow> (packed_form \<times> u8) list \<Rightarrow> worn_actor \<Rightarrow> worn_actor" where
  "wear e ws a =
     foldl (\<lambda>a (f, _). case resolve e f of None \<Rightarrow> a | Some g \<Rightarrow> EquipForm e g a) a ws"

text \<open>A counted list: what was read of it before a read failed has had its effect.\<close>

definition then_list :: "stage \<Rightarrow> (bytes \<Rightarrow> ('a \<times> bytes) option) \<Rightarrow> bool \<Rightarrow> (ghost_look \<Rightarrow> ghost_look) \<Rightarrow>
    ('a list \<Rightarrow> ghost_look \<Rightarrow> ghost_look) \<Rightarrow> stage" where
  "then_list st rdr all before f =
     (case snd st of
        None \<Rightarrow> st
      | Some b \<Rightarrow>
          (case br_u8 b of
             None \<Rightarrow> (fst st, None)
           | Some (n, b1) \<Rightarrow>
               let (xs, rest) = read_n rdr (unat n) b1; gh = before (fst st)
               in (if all \<and> rest = None then gh else f xs gh, rest)))"

definition ApplyToNpc :: "engine \<Rightarrow> bytes \<Rightarrow> ghost_look \<Rightarrow> stage" where
  "ApplyToNpc e b gh =
     (if forbidden_actor_base (lk_id (fst gh)) then (gh, None)
      else if \<not> lk_clone (fst gh) then (gh, None)
      else
        let st = (apsnd (StripGhostWorn e) gh, Some b);
            st = then_read st (rd_pair br_u8 br_u8) (\<lambda>(sex, _). apfst (set_sex sex));
            st = then_read st read_form (\<lambda>race. apfst (set_race e race));
            st = then_read st br_u32 (\<lambda>x. apfst (\<lambda>n. n\<lparr>lk_weight := (x, snd (lk_weight n))\<rparr>));
            st = then_read st br_u32 (\<lambda>y. apfst (\<lambda>n. n\<lparr>lk_weight := (fst (lk_weight n), y, snd (snd (lk_weight n)))\<rparr>));
            st = then_read st br_u32 (\<lambda>z. apfst (\<lambda>n. n\<lparr>lk_weight := (fst (lk_weight n), fst (snd (lk_weight n)), z)\<rparr>));
            st = then_read st br_u32 (\<lambda>h. apfst (\<lambda>n. n\<lparr>lk_height := h\<rparr>));
            st = then_read st (rd_pair read_form read_form) (\<lambda>hf. apfst (set_hair e hf));
            st = then_read st (rd_pair br_u8 (rd_pair br_u8 (rd_pair br_u8 br_u8))) (\<lambda>c. apfst (\<lambda>n. n\<lparr>lk_body := c\<rparr>));
            st = then_list st read_form True id (\<lambda>fs. apfst (set_heads e (head_parts e fs)));
            st = then_list st (rd_pair br_u32 br_u32) False id (\<lambda>ms. apfst (set_morphs ms));
            st = then_list st br_tint False id (\<lambda>ts. apfst (set_tints e ts))
        in then_list st (rd_pair read_form br_u8) False (apsnd (StripGhostWorn e)) (\<lambda>ws. apsnd (wear e ws)))"

definition ApplyAppearanceBlob :: "engine \<Rightarrow> bytes \<Rightarrow> looks option \<times> worn_actor \<Rightarrow> bool \<times> looks option \<times> worn_actor" where
  "ApplyAppearanceBlob e blob gh =
     (if length blob < 8 then (False, gh)
      else case br_u32 blob of
        None \<Rightarrow> (False, gh)
      | Some (magic, b1) \<Rightarrow>
          if magic \<noteq> kAppearMagic then (False, gh)
          else case br_u16 b1 of
            None \<Rightarrow> (False, gh)
          | Some (ver, b2) \<Rightarrow>
              (case fst gh of
                 None \<Rightarrow> (False, gh)
               | Some n \<Rightarrow> (let (n', a') = fst (ApplyToNpc e b2 (n, snd gh)) in (True, Some n', a'))))"

definition CMP_PaintGhostFromLocal :: "engine \<Rightarrow> player_look option \<Rightarrow> looks option \<times> worn_actor \<Rightarrow> bool \<times> looks option \<times> worn_actor" where
  "CMP_PaintGhostFromLocal e player gh =
     (case fst gh of
        None \<Rightarrow> (False, gh)
      | Some n \<Rightarrow>
          if forbidden_actor_base (lk_id n) \<or> \<not> lk_clone n then (False, gh)
          else case ExtractBlob e player of
            None \<Rightarrow> (False, gh)
          | Some blob \<Rightarrow>
              let (ok, gh1) = ApplyAppearanceBlob e blob gh
              in if \<not> ok then (False, gh1)
                 else (True, if GhostHasWeapon e (snd gh1) then gh1 else apsnd (CMP_EquipGhostFallbackWeapon e) gh1))"

definition paint_ghost :: "engine \<Rightarrow> u32 \<Rightarrow> session \<Rightarrow> looks option \<times> worn_actor \<Rightarrow> looks option \<times> worn_actor" where
  "paint_ghost e peerId s gh =
     (case um_find peerId (br_appearances (ss_blobs s)) of
        None \<Rightarrow> gh
      | Some blob \<Rightarrow> snd (ApplyAppearanceBlob e blob gh))"

text \<open>The gear of an inventory sheet: worn forms are put on; the stacks are only looked up.\<close>

definition wear_sheet :: "engine \<Rightarrow> inventory_sheet \<Rightarrow> worn_actor \<Rightarrow> worn_actor" where
  "wear_sheet e sheet a =
     foldl (\<lambda>a f. case resolve e f of
              None \<Rightarrow> a
            | Some g \<Rightarrow> if forbidden_actor_base (ef_id g) \<or> ef_kind g = FNpc then a else EquipForm e g a)
       (StripGhostWorn e a) (iv_worn sheet)"

subsection \<open>The layout of a blob\<close>

definition enc_opt :: "engine_form option \<Rightarrow> bytes" where
  "enc_opt f = enc_form (PackForm f)"

definition enc_tint :: "engine \<Rightarrow> tint_entry \<Rightarrow> bytes" where
  "enc_tint e t = wr (ti_id t) @ [ti_value t, ti_type t] @ wr (if ti_type t = en_palette e then ti_color t else 0)"

definition enc_list :: "('a \<Rightarrow> bytes) \<Rightarrow> 'a list \<Rightarrow> bytes" where
  "enc_list enc xs = [of_nat (length xs)] @ concat (map enc xs)"

definition enc_base :: "looks \<Rightarrow> bytes" where
  "enc_base n =
     (let (x, y, z) = lk_weight n; (r, g, b, a) = lk_body n
      in [if lk_female n then 1 else 0, 0] @ enc_opt (lk_race n) @ wr x @ wr y @ wr z @ wr (lk_height n) @
         enc_opt (if lk_related n then lk_hair n else None) @ enc_opt (if lk_related n then lk_facial n else None) @
         [r, g, b, a])"

lemma WriteForm_append: "WriteForm f w = w @ enc_opt f"
  by (simp add: WriteForm_def enc_opt_def write_form_append)

lemma write_base_append: "write_base n w = w @ enc_base n"
  by (simp add: write_base_def enc_base_def WriteForm_append bw_u8_def bw_f32_def bw_u32_def bw_raw_def Let_def
      split: prod.split)

lemma foldl_append_concat: "(\<And>w x. f w x = w @ g x) \<Longrightarrow> foldl f w xs = w @ concat (map g xs)"
  by (induction xs arbitrary: w) simp_all

lemma write_heads_append: "write_heads ps w = w @ enc_list enc_opt (take kMaxHead ps)"
  unfolding write_heads_def enc_list_def Let_def
  by (subst foldl_append_concat [where g = enc_opt]) (simp_all add: WriteForm_append bw_u8_def)

definition the_morphs :: "looks \<Rightarrow> (u32 \<times> f32) list" where
  "the_morphs n = (case lk_morphs n of None \<Rightarrow> [] | Some ms \<Rightarrow> ms)"

definition enc_morph :: "u32 \<times> f32 \<Rightarrow> bytes" where
  "enc_morph = (\<lambda>(k, v). wr k @ wr v)"

lemma write_morphs_append: "write_morphs ms w = w @ enc_list enc_morph (take kMaxMorph (case ms of None \<Rightarrow> [] | Some ms \<Rightarrow> ms))"
  unfolding write_morphs_def enc_list_def Let_def
  by (subst foldl_append_concat [where g = enc_morph])
    (auto simp: enc_morph_def bw_u8_def bw_f32_def bw_u32_def bw_raw_def)

definition the_tints :: "tint_entry option list option \<Rightarrow> tint_entry list" where
  "the_tints ts = List.map_filter id (case ts of None \<Rightarrow> [] | Some ts \<Rightarrow> ts)"

lemma write_tints_append: "write_tints e ts w = w @ enc_list (enc_tint e) (take kMaxTint (the_tints ts))"
  unfolding write_tints_def enc_list_def Let_def the_tints_def
  by (subst foldl_append_concat [where g = "enc_tint e"])
    (simp_all add: enc_tint_def bw_u8_def bw_u16_def bw_u32_def bw_raw_def)

definition enc_worn :: "engine_form \<times> u8 \<Rightarrow> bytes" where
  "enc_worn = (\<lambda>(f, slot). enc_opt (Some f) @ [slot])"

lemma write_worn_append: "write_worn ws w = w @ enc_list enc_worn (take kMaxEquip ws)"
  unfolding write_worn_def enc_list_def Let_def
  by (subst foldl_append_concat [where g = enc_worn]) (auto simp: enc_worn_def WriteForm_append bw_u8_def)

lemma extract_layout:
  assumes "ExtractBlob e (Some p) = Some blob"
  obtains n where "py_npc p = Some n"
    "blob = wr kAppearMagic @ wr kAppearVersion @ enc_base n @
       enc_list enc_opt (take kMaxHead (if py_headsTrue p = [] then py_headsFalse p else py_headsTrue p)) @
       enc_list enc_morph (take kMaxMorph (the_morphs n)) @
       enc_list (enc_tint e) (take kMaxTint (the_tints (case py_tints p of Some t \<Rightarrow> Some t | None \<Rightarrow> lk_tints n))) @
       enc_list enc_worn (take kMaxEquip (CollectWornItems e (Some (py_actor p))))"
proof (cases "py_npc p")
  case (Some n)
  with assms show ?thesis
    by (intro that [of n])
      (simp_all add: ExtractBlob_def write_base_append write_heads_append write_morphs_append write_tints_append
        write_worn_append the_morphs_def bw_u32_def bw_u16_def bw_raw_def Let_def)
qed (use assms in \<open>simp add: ExtractBlob_def\<close>)

lemma length_enc_opt [simp]: "length (enc_opt f) = 28"
  by (simp add: enc_opt_def enc_form_def wr_str_def)

lemma length_concat_map: "(\<And>x. length (f x) = k) \<Longrightarrow> length (concat (map f xs)) = k * length xs"
  by (induction xs) simp_all

lemma length_enc_list: "(\<And>x. length (enc x) = k) \<Longrightarrow> length (enc_list enc xs) = 1 + k * length xs"
  by (simp add: enc_list_def length_concat_map)

lemma length_enc_base [simp]: "length (enc_base n) = 106"
  by (simp add: enc_base_def Let_def split: prod.split)

lemma extract_length:
  assumes "ExtractBlob e (Some p) = Some blob"
  shows "116 \<le> length blob \<and> length blob \<le> 1542"
proof -
  have "length (enc_morph x) = 8" "length (enc_tint e t) = 8" "length (enc_worn y) = 29" for x t y
    by (simp_all add: enc_morph_def enc_tint_def enc_worn_def split: prod.split)
  note len = length_enc_list [of enc_opt 28] length_enc_list [of enc_morph 8, OF this(1)]
    length_enc_list [of "enc_tint e" 8, OF this(2)] length_enc_list [of enc_worn 29, OF this(3)]
  from assms obtain n hs ms ts ws where
    "blob = wr kAppearMagic @ wr kAppearVersion @ enc_base n @ enc_list enc_opt (take kMaxHead hs) @
       enc_list enc_morph (take kMaxMorph ms) @ enc_list (enc_tint e) (take kMaxTint ts) @
       enc_list enc_worn (take kMaxEquip ws)"
    by (rule extract_layout) blast
  then show ?thesis
    by (simp add: len kMaxHead_def kMaxMorph_def kMaxTint_def kMaxEquip_def min_def)
qed

subsection \<open>Reading back\<close>

definition sent :: "engine_form option \<Rightarrow> packed_form" where
  "sent f = norm_form (PackForm f)"

lemma read_enc_opt [simp]: "read_form (enc_opt f @ r) = Some (sent f, r)"
  by (simp add: enc_opt_def sent_def)

lemma then_read_step: "rdr b = Some (x, r) \<Longrightarrow> then_read (gh, Some b) rdr f = (f x gh, Some r)"
  by (simp add: then_read_def)

lemma read_n_enc:
  assumes "\<And>x r. rdr (enc x @ r) = Some (g x, r)"
  shows "read_n rdr (length xs) (concat (map enc xs) @ r) = (map g xs, Some r)"
  by (induction xs) (simp_all add: assms)

lemma then_list_step:
  assumes "\<And>x r. rdr (enc x @ r) = Some (g x, r)" "length xs < 256"
  shows "then_list (gh, Some (enc_list enc xs @ r)) rdr all before f = (f (map g xs) (before gh), Some r)"
proof -
  have "unat (of_nat (length xs) :: u8) = length xs"
    using assms(2) by (simp add: unsigned_of_nat take_bit_nat_eq_self)
  then show ?thesis
    using read_n_enc [of rdr enc g xs r, OF assms(1)] by (simp add: then_list_def enc_list_def)
qed

definition sent_tint :: "engine \<Rightarrow> tint_entry \<Rightarrow> tint_entry" where
  "sent_tint e t = t\<lparr>ti_color := (if ti_type t = en_palette e then ti_color t else 0)\<rparr>"

lemma br_tint_enc: "br_tint (enc_tint e t @ r) = Some (sent_tint e t, r)"
  by (simp add: br_tint_def enc_tint_def rd_pair_def sent_tint_def)

lemma pair_morph: "rd_pair br_u32 br_u32 (enc_morph kv @ r) = Some (kv, r)"
  by (simp add: rd_pair_def enc_morph_def split: prod.split)

lemma pair_worn: "rd_pair read_form br_u8 (enc_worn fs @ r) = Some (case fs of (f, slot) \<Rightarrow> (sent (Some f), slot), r)"
  by (simp add: rd_pair_def enc_worn_def split: prod.split)

definition painted :: "engine \<Rightarrow> engine \<Rightarrow> looks \<Rightarrow> engine_form option list \<Rightarrow> (u32 \<times> f32) list \<Rightarrow> tint_entry list \<Rightarrow> looks \<Rightarrow> looks" where
  "painted e0 e n hs ms ts d =
     (let d = set_race e (sent (lk_race n)) (set_sex (if lk_female n then 1 else 0) d);
          d = d\<lparr>lk_weight := lk_weight n, lk_height := lk_height n\<rparr>;
          d = set_hair e (sent (if lk_related n then lk_hair n else None), sent (if lk_related n then lk_facial n else None)) d;
          d = set_heads e (head_parts e (map sent hs)) (d\<lparr>lk_body := lk_body n\<rparr>)
      in set_tints e (map (sent_tint e0) ts) (set_morphs ms d))"

lemma apply_read:
  assumes "\<not> forbidden_actor_base (lk_id d)" "lk_clone d"
    "length hs < 256" "length ms < 256" "length ts < 256" "length ws < 256"
  shows "ApplyToNpc e (enc_base n @ enc_list enc_opt hs @ enc_list enc_morph ms @ enc_list (enc_tint e0) ts @
      enc_list enc_worn ws) (d, a) =
    ((painted e0 e n hs ms ts d,
      wear e (map (\<lambda>(f, slot). (sent (Some f), slot)) ws) (StripGhostWorn e (StripGhostWorn e a))), Some [])"
proof -
  obtain x y z where w: "lk_weight n = (x, y, z)" by (cases "lk_weight n")
  obtain r g b al where c: "lk_body n = (r, g, b, al)" by (cases "lk_body n")
  have l: "then_list (gh, Some (enc_list enc_opt hs @ q)) read_form al before f = (f (map sent hs) (before gh), Some q)"
    "then_list (gh, Some (enc_list enc_morph ms @ q)) (rd_pair br_u32 br_u32) al before f' = (f' ms (before gh), Some q)"
    "then_list (gh, Some (enc_list (enc_tint e0) ts @ q)) br_tint al before h = (h (map (sent_tint e0) ts) (before gh), Some q)"
    for gh q al before f f' h
    using then_list_step [of read_form enc_opt sent hs] then_list_step [of "rd_pair br_u32 br_u32" enc_morph id ms]
      then_list_step [of br_tint "enc_tint e0" "sent_tint e0" ts] assms(3-5) by (simp_all add: pair_morph br_tint_enc)
  have lw: "then_list (gh, Some (enc_list enc_worn ws)) (rd_pair read_form br_u8) al before f =
      (f (map (\<lambda>(f, slot). (sent (Some f), slot)) ws) (before gh), Some [])" for gh al before f
    using then_list_step [of "rd_pair read_form br_u8" enc_worn "\<lambda>(f, slot). (sent (Some f), slot)" ws gh "[]"] assms(6)
    by (simp add: pair_worn)
  have base: "enc_base n = [if lk_female n then 1 else 0, 0] @ enc_opt (lk_race n) @ wr x @ wr y @ wr z @ wr (lk_height n) @
     enc_opt (if lk_related n then lk_hair n else None) @ enc_opt (if lk_related n then lk_facial n else None) @ [r, g, b, al]"
    by (simp add: enc_base_def w c)
  show ?thesis
    unfolding ApplyToNpc_def base Let_def append_assoc
    using assms(1,2)
    by (simp add: then_read_def rd_pair_def l lw painted_def Let_def w c)
qed

subsection \<open>Forms on the way\<close>

lemma form_24: "(f :: u32) < 0x01000000 \<Longrightarrow> f AND 0x00FFFFFF = f"
  using less_mask_eq [of f 24] by (simp add: take_bit_eq_mask mask_eq_exp_minus_1 flip: take_bit_eq_mask)

lemma low_24: "(f :: u32) AND 0x00FFFFFF < 0x01000000"
  using and_mask_less_size [of 24 f] by (simp add: mask_eq_exp_minus_1 word_size)

text \<open>What a form is sent as: its lower 24 bits, for a light plugin its local number.\<close>

definition low_id :: "engine_form \<Rightarrow> u32" where
  "low_id f = (case ef_file f of
      Some (name, light) \<Rightarrow> if light \<and> c_str name \<noteq> [] then ef_local f else ef_id f AND 0x00FFFFFF
    | None \<Rightarrow> ef_id f AND 0x00FFFFFF)"

lemma sent_raw: "pf_raw (sent (Some f)) = low_id f"
  by (auto simp: sent_def norm_form_def PackForm_def pack_form_id_def low_id_def split: option.split prod.split)

lemma sent_None [simp]: "resolve e (sent None) = None"
  by (simp add: resolve_def CMP_ResolveForm_def sent_def norm_form_def PackForm_def no_form_def)

lemma resolve_low: "pf_raw f < 0x01000000 \<Longrightarrow> resolve e f = (if pf_raw f = 0 then None else en_form e (pf_raw f))"
  by (simp add: resolve_def CMP_ResolveForm_def)

text \<open>A form of the base game, the same on both machines.\<close>

definition base_form :: "engine \<Rightarrow> form_kind \<Rightarrow> engine_form option \<Rightarrow> bool" where
  "base_form e k f \<longleftrightarrow>
     (case f of
        None \<Rightarrow> True
      | Some g \<Rightarrow> ef_kind g = k \<and> ef_id g \<noteq> 0 \<and> ef_id g < 0x01000000 \<and> low_id g = ef_id g \<and> en_form e (ef_id g) = Some g)"

lemma base_form_resolve: "base_form e k f \<Longrightarrow> resolve e (sent f) = f"
proof (cases f)
  case (Some g)
  assume "base_form e k f"
  with Some show ?thesis using resolve_low [of "sent f" e] by (simp add: base_form_def sent_raw)
qed simp

lemma base_form_kind: "base_form e k f \<Longrightarrow> as_kind k (resolve e (sent f)) = f"
  by (simp add: base_form_resolve) (auto simp: base_form_def as_kind_def split: option.split)

text \<open>
  The forms of mods get lost on the way. Whatever plugin a form comes from, the packed form that arrives
  is looked up by its lower 24 bits alone, as a form of the base game: the plugin's name, which is sent along,
  is never used. So a piece of gear of a mod arrives as whatever the base game has under the same number.
\<close>

lemma mod_forms_lose_plugin:
  assumes "\<forall>name. ef_file f = Some (name, True) \<longrightarrow> ef_local f < 0x01000000"
  shows "\<exists>p. read_form (WriteForm (Some f) []) = Some (p, []) \<and>
    resolve e p = (if low_id f = 0 then None else en_form e (low_id f))"
proof -
  have "low_id f < 0x01000000"
    using assms low_24 by (auto simp: low_id_def split: option.split prod.split)
  then have "resolve e (sent (Some f)) = (if low_id f = 0 then None else en_form e (low_id f))"
    using resolve_low [of "sent (Some f)" e] by (simp add: sent_raw)
  moreover have "read_form (WriteForm (Some f) []) = Some (sent (Some f), [])"
    using read_enc_opt [of "Some f" "[]"] by (simp add: WriteForm_append)
  ultimately show ?thesis by blast
qed

text \<open>Armor 0x800 of a mod in slot 5 arrives as form 0x800 of the base game.\<close>

lemma mod_forms_lose_plugin_witness:
  "\<forall>e. \<exists>p. read_form (WriteForm (Some \<lparr>ef_id = 0x05000800, ef_local = 0x800, ef_file = Some (''Armor.esp'', False),
       ef_kind = FArmor False, ef_bound = True\<rparr>) []) = Some (p, []) \<and> resolve e p = en_form e 0x800"
proof
  fix e
  show "\<exists>p. read_form (WriteForm (Some \<lparr>ef_id = 0x05000800, ef_local = 0x800, ef_file = Some (''Armor.esp'', False),
       ef_kind = FArmor False, ef_bound = True\<rparr>) []) = Some (p, []) \<and> resolve e p = en_form e 0x800"
    using mod_forms_lose_plugin [of "\<lparr>ef_id = 0x05000800, ef_local = 0x800, ef_file = Some (''Armor.esp'', False),
         ef_kind = FArmor False, ef_bound = True\<rparr>" e]
    by (simp add: low_id_def)
qed

subsection \<open>Looks of the base game arrive\<close>

lemma set_heads_all:
  assumes "parts \<noteq> []" "length parts \<le> 127" "en_alloc e \<or> (\<exists>hs. lk_heads n = Some hs \<and> length parts \<le> length hs)"
  shows "set_heads e parts n = n\<lparr>lk_faceNpc := False, lk_heads := Some (map Some parts)\<rparr>"
proof -
  have len: "min (length parts) 127 = length parts" using assms(2) by simp
  show ?thesis
  proof (cases "lk_heads n")
    case None
    with assms(1,3) show ?thesis by (simp add: set_heads_def len Let_def)
  next
    case (Some hs)
    show ?thesis
    proof (cases "length hs < length parts")
      case True
      then have "en_alloc e" using assms(3) Some by simp
      with True Some assms(1) show ?thesis by (simp add: set_heads_def len)
    next
      case False
      then have "hs \<noteq> []" "min (length parts) (length hs) = length parts" using assms(1) by auto
      with False Some assms(1) show ?thesis by (simp add: set_heads_def len)
    qed
  qed
qed

lemma head_parts_base:
  assumes "\<forall>f\<in>set fs. f \<noteq> None \<and> base_form e FHeadPart f"
  shows "map Some (head_parts e (map sent fs)) = fs"
  using assms
proof (induction fs)
  case (Cons f fs)
  then have "as_kind FHeadPart (resolve e (sent f)) = f" by (intro base_form_kind) simp
  with Cons show ?case by (auto simp: head_parts_def map_filter_simps)
qed (simp add: head_parts_def map_filter_simps)

lemma morphs_put:
  fixes ms :: "(u32 \<times> f32) list"
  assumes "distinct (map fst ms)" "(k, v) \<in> set ms"
  shows "um_find k (foldl (\<lambda>m (k, v). um_put k v m) m ms) = Some v"
proof -
  have keep: "k \<notin> fst ` set ms \<Longrightarrow> um_find k (foldl (\<lambda>m (k, v). um_put k v m) m ms) = um_find k m" for k m and ms :: "(u32 \<times> f32) list"
    by (induction ms arbitrary: m) (auto simp: amap)
  show ?thesis
    using assms
  proof (induction ms arbitrary: m)
    case (Cons kv ms)
    obtain k' v' where kv: "kv = (k', v')" by (cases kv)
    show ?case
    proof (cases "(k, v) \<in> set ms")
      case False
      with Cons.prems kv have "k' = k" "v' = v" "k \<notin> fst ` set ms" by auto
      then show ?thesis using keep [of k ms] by (simp add: kv amap)
    qed (use Cons kv in simp)
  qed simp
qed

lemma wear_base:
  assumes "\<forall>fs\<in>set ws. \<exists>k. base_form e k (Some (fst fs))"
  shows "wear e (map (\<lambda>(f, slot). (sent (Some f), slot)) ws) a = foldl (\<lambda>a f. EquipForm e f a) a (map fst ws)"
  using assms
proof (induction ws arbitrary: a)
  case (Cons w ws)
  then obtain k where "base_form e k (Some (fst w))" by auto
  then have "resolve e (sent (Some (fst w))) = Some (fst w)" by (rule base_form_resolve)
  with Cons show ?case by (cases w) (simp add: wear_def)
qed (simp add: wear_def)

definition shown_parts :: "player_look \<Rightarrow> engine_form option list" where
  "shown_parts p = (if py_headsTrue p = [] then py_headsFalse p else py_headsTrue p)"

text \<open>The player wears the base game, and the engine's setters set what they say.\<close>

definition base_player :: "engine \<Rightarrow> engine \<Rightarrow> player_look \<Rightarrow> looks \<Rightarrow> bool" where
  "base_player e0 e p n \<longleftrightarrow>
     py_npc p = Some n \<and> lk_related n \<and> lk_race n \<noteq> None \<and> base_form e FRace (lk_race n) \<and>
     lk_hair n \<noteq> None \<and> base_form e FColor (lk_hair n) \<and> lk_facial n \<noteq> None \<and> base_form e FColor (lk_facial n) \<and>
     shown_parts p \<noteq> [] \<and> (\<forall>f\<in>set (shown_parts p). f \<noteq> None \<and> base_form e FHeadPart f) \<and>
     distinct (map fst (the_morphs n)) \<and>
     (\<forall>w\<in>set (CollectWornItems e0 (Some (py_actor p))). \<exists>k. base_form e k (Some (fst w)))"

definition engine_sets :: "engine \<Rightarrow> bool" where
  "engine_sets e \<longleftrightarrow>
     en_alloc e \<and> (\<forall>r m. en_setRace e r m = m\<lparr>lk_race := Some r\<rparr>) \<and> (\<forall>c m. en_setHair e c m = m\<lparr>lk_hair := Some c\<rparr>)"

lemma painted_fields:
  assumes "base_player e0 e p n" "engine_sets e" "lk_related d"
    "hs = take kMaxHead (shown_parts p)"
  shows "lk_female (painted e0 e n hs ms ts d) = lk_female n" "lk_race (painted e0 e n hs ms ts d) = lk_race n"
    "lk_weight (painted e0 e n hs ms ts d) = lk_weight n" "lk_height (painted e0 e n hs ms ts d) = lk_height n"
    "lk_hair (painted e0 e n hs ms ts d) = lk_hair n" "lk_facial (painted e0 e n hs ms ts d) = lk_facial n"
    "lk_body (painted e0 e n hs ms ts d) = lk_body n" "lk_heads (painted e0 e n hs ms ts d) = Some hs"
    "lk_morphs (painted e0 e n hs ms ts d) = map_option (\<lambda>m. foldl (\<lambda>m (k, v). um_put k v m) m ms) (lk_morphs d)"
proof -
  obtain race hair face where f: "lk_race n = Some race" "lk_hair n = Some hair" "lk_facial n = Some face"
    using assms(1) by (auto simp: base_player_def)
  have k: "as_kind FRace (resolve e (sent (Some race))) = Some race" "as_kind FColor (resolve e (sent (Some hair))) = Some hair"
    "as_kind FColor (resolve e (sent (Some face))) = Some face"
    using assms(1) f by (simp_all add: base_player_def base_form_kind)
  have hs: "map Some (head_parts e (map sent hs)) = hs"
    using assms(1,4) by (intro head_parts_base) (auto simp: base_player_def dest: in_set_takeD)
  have "hs \<noteq> []" "length hs \<le> 16" using assms(1,4) by (auto simp: base_player_def kMaxHead_def)
  moreover have "length (head_parts e (map sent hs)) = length hs" using arg_cong [OF hs, of length] by simp
  ultimately have "head_parts e (map sent hs) \<noteq> []" "length (head_parts e (map sent hs)) \<le> 127"
    by (metis length_0_conv, linarith)
  then have heads: "set_heads e (head_parts e (map sent hs)) x = x\<lparr>lk_faceNpc := False, lk_heads := Some hs\<rparr>" for x
    using assms(2) set_heads_all [of "head_parts e (map sent hs)" e x] by (simp add: engine_sets_def hs)
  have p: "painted e0 e n hs ms ts d = set_tints e (map (sent_tint e0) ts) (set_morphs ms
      (d\<lparr>lk_female := lk_female n, lk_unique := False, lk_outfits := False, lk_race := Some race,
        lk_originalRace := Some race, lk_weight := lk_weight n, lk_height := lk_height n, lk_hair := Some hair,
        lk_facial := Some face, lk_body := lk_body n, lk_faceNpc := False, lk_heads := Some hs\<rparr>))"
    using assms(1-3) unfolding painted_def Let_def heads f base_player_def engine_sets_def
    by (simp add: set_sex_def set_race_def set_hair_def k)
  show "lk_female (painted e0 e n hs ms ts d) = lk_female n" "lk_race (painted e0 e n hs ms ts d) = lk_race n"
    "lk_weight (painted e0 e n hs ms ts d) = lk_weight n" "lk_height (painted e0 e n hs ms ts d) = lk_height n"
    "lk_hair (painted e0 e n hs ms ts d) = lk_hair n" "lk_facial (painted e0 e n hs ms ts d) = lk_facial n"
    "lk_body (painted e0 e n hs ms ts d) = lk_body n" "lk_heads (painted e0 e n hs ms ts d) = Some hs"
    "lk_morphs (painted e0 e n hs ms ts d) = map_option (\<lambda>m. foldl (\<lambda>m (k, v). um_put k v m) m ms) (lk_morphs d)"
    unfolding p by (simp_all add: set_tints_def set_morphs_def f split: option.split)
qed

text \<open>
  C14: looks of the base game arrive. When a player whose race, colours, head parts and gear belong to the base
  game packs the looks and another machine paints them onto a clone, the clone gets the sex, race, weight, height,
  hair and beard colour and body colour of the player, the first 16 head parts, the first 32 face morphs, and the
  first 16 worn items are put on after everything it wore has been taken off.
\<close>

theorem looks_round_trip:
  assumes "ExtractBlob e0 (Some p) = Some blob" "base_player e0 e p n" "engine_sets e"
    "\<not> forbidden_actor_base (lk_id d)" "lk_clone d" "lk_related d"
  shows "\<exists>d' a'. ApplyAppearanceBlob e blob (Some d, a) = (True, Some d', a') \<and>
    lk_female d' = lk_female n \<and> lk_race d' = lk_race n \<and> lk_weight d' = lk_weight n \<and> lk_height d' = lk_height n \<and>
    lk_hair d' = lk_hair n \<and> lk_facial d' = lk_facial n \<and> lk_body d' = lk_body n \<and>
    lk_heads d' = Some (take kMaxHead (shown_parts p)) \<and>
    (lk_morphs d = None \<or> (\<exists>m. lk_morphs d' = Some m \<and> (\<forall>(k, v)\<in>set (take kMaxMorph (the_morphs n)). um_find k m = Some v))) \<and>
    a' = foldl (\<lambda>a f. EquipForm e f a) (StripGhostWorn e (StripGhostWorn e a))
           (map fst (take kMaxEquip (CollectWornItems e0 (Some (py_actor p)))))"
proof -
  let ?hs = "take kMaxHead (shown_parts p)" and ?ms = "take kMaxMorph (the_morphs n)"
  let ?ws = "take kMaxEquip (CollectWornItems e0 (Some (py_actor p)))"
  define ts where "ts = take kMaxTint (the_tints (case py_tints p of Some t \<Rightarrow> Some t | None \<Rightarrow> lk_tints n))"
  define rest where "rest = enc_base n @ enc_list enc_opt ?hs @ enc_list enc_morph ?ms @
     enc_list (enc_tint e0) ts @ enc_list enc_worn ?ws"
  have npc: "py_npc p = Some n" using assms(2) by (simp add: base_player_def)
  have blob: "blob = wr kAppearMagic @ wr kAppearVersion @ rest"
    using extract_layout [OF assms(1)] npc unfolding rest_def ts_def shown_parts_def by (metis option.inject)
  have len: "length ?hs < 256" "length ?ms < 256" "length ts < 256" "length ?ws < 256"
    by (simp_all add: ts_def kMaxHead_def kMaxMorph_def kMaxTint_def kMaxEquip_def min_def)
  have "\<not> length blob < 8" using extract_length [OF assms(1)] by linarith
  then have "ApplyAppearanceBlob e blob (Some d, a) =
      (True, Some (painted e0 e n ?hs ?ms ts d),
       wear e (map (\<lambda>(f, slot). (sent (Some f), slot)) ?ws) (StripGhostWorn e (StripGhostWorn e a)))"
    using apply_read [OF assms(4,5) len, of e n e0 a]
    by (simp add: ApplyAppearanceBlob_def blob rest_def)
  moreover have "wear e (map (\<lambda>(f, slot). (sent (Some f), slot)) ?ws) b = foldl (\<lambda>a f. EquipForm e f a) b (map fst ?ws)" for b
    using assms(2) by (intro wear_base) (auto simp: base_player_def dest: in_set_takeD)
  moreover have "lk_morphs d = None \<or> (\<exists>m. lk_morphs (painted e0 e n ?hs ?ms ts d) = Some m \<and>
      (\<forall>(k, v)\<in>set ?ms. um_find k m = Some v))"
  proof (cases "lk_morphs d")
    case (Some m)
    have "distinct (map fst ?ms)" using assms(2) by (simp add: base_player_def take_map [symmetric] distinct_take)
    then have "um_find k (foldl (\<lambda>m (k, v). um_put k v m) m ?ms) = Some v" if "(k, v) \<in> set ?ms" for k v
      using that by (intro morphs_put)
    then show ?thesis using Some painted_fields(9) [OF assms(2,3,6) refl] by auto
  qed simp
  ultimately show ?thesis
    using painted_fields(1-8) [OF assms(2,3,6) refl] by simp
qed

text \<open>A player of the base game with one head part, one morph and a gun, and a clone to paint.\<close>

definition mk_form :: "form_kind \<Rightarrow> u32 \<Rightarrow> engine_form" where
  "mk_form k i = \<lparr>ef_id = i, ef_local = i, ef_file = None, ef_kind = k, ef_bound = True\<rparr>"

definition demo_engine :: engine where
  "demo_engine =
     \<lparr>en_form = \<lambda>i. map_of [(1, mk_form FRace 1), (2, mk_form FColor 2), (3, mk_form FHeadPart 3), (4, mk_form FWeapon 4)] i,
      en_data = True, en_mod = \<lambda>_. None, en_lookup = \<lambda>_ _. None, en_pipboy = 29, en_palette = 1, en_equipManager = True,
      en_alloc = True, en_add = \<lambda>_ a. a, en_equip = \<lambda>_ a. a, en_unequip = \<lambda>_ a. a,
      en_setRace = \<lambda>r n. n\<lparr>lk_race := Some r\<rparr>, en_setHair = \<lambda>c n. n\<lparr>lk_hair := Some c\<rparr>\<rparr>"

definition demo_looks :: looks where
  "demo_looks =
     \<lparr>lk_id = 7, lk_clone = False, lk_female = True, lk_unique = True, lk_outfits = True, lk_race = Some (mk_form FRace 1),
      lk_originalRace = None, lk_weight = (0, 0, 0), lk_height = 0, lk_related = True, lk_hair = Some (mk_form FColor 2),
      lk_facial = Some (mk_form FColor 2), lk_body = (1, 2, 3, 4), lk_faceNpc = False, lk_heads = None,
      lk_morphs = Some [(5, 0)], lk_tints = None\<rparr>"

definition demo_clone :: looks where
  "demo_clone = demo_looks\<lparr>lk_id := 0xFF000800, lk_clone := True, lk_female := False, lk_race := None, lk_hair := None,
     lk_facial := None\<rparr>"

definition demo_player :: player_look where
  "demo_player =
     \<lparr>py_npc = Some demo_looks, py_actor = \<lparr>wa_inventory = Some [(Some (mk_form FWeapon 4), [(1, True)])], wa_biped = None\<rparr>,
      py_headsTrue = [Some (mk_form FHeadPart 3)], py_headsFalse = [], py_tints = None, py_display = None\<rparr>"

lemma demo_base: "base_player demo_engine demo_engine demo_player demo_looks" "engine_sets demo_engine"
  by (simp_all add: base_player_def base_form_def demo_player_def demo_looks_def demo_engine_def mk_form_def
      shown_parts_def the_morphs_def low_id_def CollectWornItems_def IsPipboyForm_def engine_sets_def)

theorem looks_round_trip_witness:
  "\<exists>blob d' a'. ExtractBlob demo_engine (Some demo_player) = Some blob \<and>
     ApplyAppearanceBlob demo_engine blob (Some demo_clone, py_actor demo_player) = (True, Some d', a') \<and>
     lk_female d' \<and> lk_race d' = Some (mk_form FRace 1) \<and> lk_heads d' = Some [Some (mk_form FHeadPart 3)]"
proof -
  obtain blob where b: "ExtractBlob demo_engine (Some demo_player) = Some blob"
    by (simp add: ExtractBlob_def demo_player_def Let_def)
  have "\<not> forbidden_actor_base (lk_id demo_clone)" "lk_clone demo_clone" "lk_related demo_clone"
    by (simp_all add: demo_clone_def demo_looks_def forbidden_actor_base_def kPlayerBaseForm_def kEncWorkshopNpcForm_def)
  from looks_round_trip [OF b demo_base this, of "py_actor demo_player"] b show ?thesis
    by (auto simp: demo_looks_def shown_parts_def demo_player_def kMaxHead_def)
qed

text \<open>
  Looks always fit. Whatever the player looks like and wears, the packed looks are between 116 and 1542
  bytes, so they can always be cut into chunks, and four are enough.
\<close>

lemma looks_always_fit:
  assumes "ExtractBlob e (Some p) = Some blob"
  shows "116 \<le> length blob \<and> length blob \<le> 1542 \<and>
    (\<exists>pkts. split_blob_chunks AppearanceChunk peer blob = Some pkts \<and> length pkts \<le> 4)"
proof -
  have len: "116 \<le> length blob" "length blob \<le> 1542" using extract_length [OF assms] by simp_all
  then have "blob_count blob \<le> 4" by (simp add: blob_count_def blob_consts)
  with len show ?thesis by (auto simp: split_blob_Some)
qed

lemma looks_always_fit_witness:
  "\<exists>blob pkts. ExtractBlob demo_engine (Some demo_player) = Some blob \<and>
     split_blob_chunks AppearanceChunk 3 blob = Some pkts \<and> length pkts \<le> 4"
proof -
  obtain blob where b: "ExtractBlob demo_engine (Some demo_player) = Some blob"
    by (simp add: ExtractBlob_def demo_player_def Let_def)
  with looks_always_fit [OF b, of 3] show ?thesis by blast
qed

text \<open>What is worn is listed once per form, without the Pip-Boy, if no object stands twice in the inventory.\<close>

lemma put_slot_forms: "map fst (put_slot f i out) = (if f \<in> set (map fst out) then map fst out else map fst out @ [f])"
  by (induction f i out rule: put_slot.induct) auto

lemma collect_distinct:
  assumes "wa_inventory a = Some items" "distinct (map fst items)"
  shows "distinct (map fst (CollectWornItems e (Some a)))"
proof -
  have worn: "set (map fst (worn_items e a its)) \<subseteq> {f. Some f \<in> fst ` set its} \<and>
      (distinct (map fst its) \<longrightarrow> distinct (map fst (worn_items e a its)))" for its
    by (induction e a its rule: worn_items.induct) (auto simp: subset_iff)
  have biped: "distinct (map fst out) \<Longrightarrow> distinct (map fst (put_biped e out x))" for out x
    by (auto simp: put_biped_def put_slot_forms simp del: set_map split: prod.split option.split)
  have fold: "distinct (map fst out) \<Longrightarrow> distinct (map fst (foldl (put_biped e) out xs))" for out xs
    by (induction xs arbitrary: out) (auto intro: biped simp del: distinct_map)
  have "distinct (map fst (worn_items e a items))" using worn assms(2) by blast
  then show ?thesis by (simp add: CollectWornItems_def assms(1) Let_def fold split: option.split)
qed

end
