(* ===== verification/Puppet.thy ===== *)
theory Puppet
  imports Motion
begin

text \<open>
  How a remote actor is animated: \<^verbatim>\<open>plugin/src/puppet/apply.cpp\<close>, \<^verbatim>\<open>plugin/src/puppet/motion.cpp\<close> and
  \<^verbatim>\<open>plugin/src/ui_pose.cpp\<close>. A pose becomes a list of calls on the actor's animation graph: variables set and
  events fired, most of them only when a flag changes against the pose before. What the engine answers during
  one call is the record \<open>puppet_env\<close>. The sets that only keep a warning from being logged twice are left out.
  The loops that wrap an angle may not end, so applying a pose gives an option.
\<close>

subsection \<open>Angles\<close>

definition f32_180 :: f32 where "f32_180 = 0x43340000"
definition f32_360 :: f32 where "f32_360 = 0x43B40000"
definition f32_neg_180 :: f32 where "f32_neg_180 = 0xC3340000"

partial_function (option) deg_down :: "f32 \<Rightarrow> f32 option" where
  "deg_down d = (if f32_less f32_180 d then deg_down (f32_sub d f32_360) else Some d)"

partial_function (option) deg_up :: "f32 \<Rightarrow> f32 option" where
  "deg_up d = (if f32_less d f32_neg_180 then deg_up (f32_add d f32_360) else Some d)"

definition WrapDeg :: "f32 \<Rightarrow> f32 option" where
  "WrapDeg d = (case deg_down d of None \<Rightarrow> None | Some x \<Rightarrow> deg_up x)"

definition WrapRad :: "f32 \<Rightarrow> f32 option" where
  "WrapRad a = (case wrap_down a of None \<Rightarrow> None | Some x \<Rightarrow> wrap_up x)"

definition rad_to_deg :: "f32 \<Rightarrow> f32" where
  "rad_to_deg a = f32_mul a (f32_div f32_180 f32_pi)"

subsection \<open>The state and the engine\<close>

record puppet_prev =
  pq_flags :: u32
  pq_moving :: bool
  pq_have :: bool
  pq_sticky :: int
  pq_yaw :: f32

definition puppet_prev0 :: puppet_prev where
  "puppet_prev0 = \<lparr>pq_flags = 0, pq_moving = False, pq_have = False, pq_sticky = 0, pq_yaw = 0\<rparr>"

type_synonym puppets = "(u32, puppet_prev) umap"

datatype graph_call =
    GFire string
  | GBool string bool
  | GInt string int
  | GFloat string f32
  | GDraw bool
  | GPitch f32

text \<open>
  Whether the graph can be driven, whether the actor is a ghost, whether its weapon is drawn at the two places
  that ask, the weapon types of what its right hand holds (if it has a biped, if it holds a weapon), the order
  the types are tried in, the first of which is the bare hand, and the arc tangent.
\<close>

record puppet_env =
  pv_ready :: bool
  pv_ghost :: bool
  pv_drawn :: bool
  pv_drawnLater :: bool
  pv_biped :: bool
  pv_right :: "int set option"
  pv_order :: "int list"
  pv_atan2 :: "f32 \<Rightarrow> f32 \<Rightarrow> f32"

definition kMoveSpeedEps :: f32 where "kMoveSpeedEps = 0x40A00000"
definition kSlowWalkMax :: f32 where "kSlowWalkMax = 0x42F00000"
definition kStickyRetryTicks :: int where "kStickyRetryTicks = 30"

subsection \<open>The calls on the graph\<close>

definition WeaponTypeFor :: "puppet_env \<Rightarrow> int" where
  "WeaponTypeFor e =
     (if \<not> pv_biped e then 0
      else case pv_right e of
        None \<Rightarrow> hd (pv_order e)
      | Some types \<Rightarrow> (case filter (\<lambda>w. w \<in> types) (pv_order e) of [] \<Rightarrow> hd (pv_order e) | w # _ \<Rightarrow> w))"

definition SetDumpVars ::
  "puppet_env \<Rightarrow> f32 \<Rightarrow> f32 \<Rightarrow> f32 \<Rightarrow> f32 \<Rightarrow> f32 \<Rightarrow> f32 \<Rightarrow> u32 \<Rightarrow> bool \<Rightarrow> bool \<Rightarrow> graph_call list option" where
  "SetDumpVars e pitch yaw turnDelta speed vx vy flags moving inMenu =
     (let useSpeed = (if inMenu then 0 else speed);
          dir = (if moving \<and> \<not> inMenu then WrapDeg (rad_to_deg (f32_sub (pv_atan2 e vx vy) yaw)) else Some 0);
          sprint = has_pose_flag flags PF_Sprint;
          slowWalk = has_pose_flag flags PF_SlowWalk;
          weapType = WeaponTypeFor e
      in case dir of
           None \<Rightarrow> None
         | Some d \<Rightarrow> Some
             [GFloat ''Speed'' useSpeed, GFloat ''SpeedSampled'' useSpeed, GFloat ''Pitch'' pitch,
              GFloat ''TurnDelta'' turnDelta, GFloat ''Direction'' d,
              GBool ''IsSneaking'' (has_pose_flag flags PF_Sneak), GBool ''IsSprinting'' sprint,
              GBool ''bInJumpState'' (has_pose_flag flags PF_Jumping),
              GBool ''IsAttacking'' (has_pose_flag flags PF_Attacking),
              GBool ''bWantGait'' sprint, GInt ''iWantGait'' (if sprint then 1 else if slowWalk then 0 else 1),
              GInt ''iSyncSprintState'' (if sprint then 1 else 0),
              GInt ''iSyncIdleLocomotion'' (if moving \<and> \<not> inMenu then 1 else 0),
              GBool ''bMotionDriven'' (moving \<and> \<not> inMenu), GBool ''bAnimationDriven'' True,
              GBool ''bAllowRotation'' (f32_less 0x3F000000 (turnDelta AND 0x7FFFFFFF)),
              GInt ''EquippedWeaponType'' weapType, GInt ''iRightHandType'' weapType])"

definition EdgeFlag :: "bool \<Rightarrow> bool \<Rightarrow> string \<Rightarrow> string \<Rightarrow> string option \<Rightarrow> string option \<Rightarrow> graph_call list" where
  "EdgeFlag had now onEvent offEvent onAlt offAlt =
     (if had = now then []
      else if now then GFire onEvent # (case onAlt of None \<Rightarrow> [] | Some a \<Rightarrow> [GFire a])
      else GFire offEvent # (case offAlt of None \<Rightarrow> [] | Some a \<Rightarrow> [GFire a]))"

definition fire_if :: "bool \<Rightarrow> string list \<Rightarrow> graph_call list" where
  "fire_if b evs = (if b then map GFire evs else [])"

definition weapon_calls :: "puppet_env \<Rightarrow> u32 \<Rightarrow> u32 \<Rightarrow> bool \<Rightarrow> graph_call list" where
  "weapon_calls e prevFlags flags hadPrev =
     (let nowDrawn = has_pose_flag flags PF_Drawn; wasDrawn = has_pose_flag prevFlags PF_Drawn
      in (if nowDrawn \<and> \<not> pv_drawn e then [GDraw True]
          else if \<not> nowDrawn \<and> pv_drawn e then [GDraw False] else []) @
         (if \<not> hadPrev \<or> wasDrawn \<noteq> nowDrawn
          then (if nowDrawn then [GFire ''weaponDraw''] else if hadPrev then [GFire ''weaponSheathe''] else [])
          else []))"

definition ApplyCombatFlags :: "puppet_env \<Rightarrow> u32 \<Rightarrow> u32 \<Rightarrow> bool \<Rightarrow> bool \<Rightarrow> graph_call list" where
  "ApplyCombatFlags e prevFlags flags hadPrev isGhost =
     (let now = has_pose_flag flags; was = has_pose_flag prevFlags
      in weapon_calls e prevFlags flags hadPrev @
         (if \<not> hadPrev
          then fire_if (now PF_Attacking \<and> \<not> isGhost) [''attackStart''] @
               fire_if (now PF_Reloading) [''reloadStart'', ''reloadState''] @
               fire_if (now PF_Sighted) [''sightedStart'', ''SightedStart''] @
               fire_if (now PF_Jumping) [''JumpStandingStart''] @
               fire_if (now PF_Pipboy) [''pipboyIdle'']
          else (if isGhost then [] else EdgeFlag (was PF_Attacking) (now PF_Attacking) ''attackStart'' ''attackStop'' None None) @
               EdgeFlag (was PF_Reloading) (now PF_Reloading) ''reloadStart'' ''reloadStop'' (Some ''reloadState'') None @
               EdgeFlag (was PF_Sighted) (now PF_Sighted) ''sightedStart'' ''sightedRelease'' (Some ''SightedStart'') (Some ''sightedEnd'') @
               EdgeFlag (was PF_Jumping) (now PF_Jumping) ''JumpStandingStart'' ''JumpLand'' None None @
               EdgeFlag (was PF_Pipboy) (now PF_Pipboy) ''pipboyIdle'' ''pipboyLower'' None None))"

definition RetryStickyFlags :: "puppet_env \<Rightarrow> u32 \<Rightarrow> puppet_prev \<Rightarrow> puppet_prev \<times> graph_call list" where
  "RetryStickyFlags e flags prev =
     (let p = prev\<lparr>pq_sticky := pq_sticky prev + 1\<rparr>
      in if pq_sticky p < kStickyRetryTicks then (p, [])
         else
           let wantDrawn = has_pose_flag flags PF_Drawn
           in (p\<lparr>pq_sticky := 0\<rparr>,
               (if wantDrawn \<and> \<not> pv_drawnLater e then [GDraw True, GFire ''weaponDraw'']
                else if \<not> wantDrawn \<and> pv_drawnLater e then [GDraw False, GFire ''weaponSheathe''] else []) @
               (if has_pose_flag flags PF_Sneak then [GBool ''IsSneaking'' True, GFire ''sneakStart''] else []) @
               (if has_pose_flag flags PF_Jumping then [GBool ''bInJumpState'' True, GFire ''JumpStandingStart''] else [])))"

definition stance_calls :: "puppet_prev \<Rightarrow> u32 \<Rightarrow> bool \<Rightarrow> graph_call list" where
  "stance_calls prev flags moving =
     (if \<not> pq_have prev \<or> pq_moving prev \<noteq> moving
      then GFire (if moving then ''MoveStart'' else ''MoveStop'') # fire_if moving [''walkStart''] else []) @
     (if \<not> pq_have prev
      then fire_if (has_pose_flag flags PF_Sneak) [''sneakStart''] @ fire_if (has_pose_flag flags PF_Sprint) [''sprintStart'']
      else EdgeFlag (has_pose_flag (pq_flags prev) PF_Sneak) (has_pose_flag flags PF_Sneak) ''sneakStart'' ''sneakStop'' None None @
           EdgeFlag (has_pose_flag (pq_flags prev) PF_Sprint) (has_pose_flag flags PF_Sprint) ''sprintStart'' ''sprintStop'' None None)"

subsection \<open>Applying a pose\<close>

definition prev_of :: "u32 \<Rightarrow> puppets \<Rightarrow> puppet_prev" where
  "prev_of i ps = (case um_find i ps of None \<Rightarrow> puppet_prev0 | Some p \<Rightarrow> p)"

definition turn_delta :: "puppet_prev \<Rightarrow> f32 \<Rightarrow> f32 option" where
  "turn_delta prev yaw = (if pq_have prev then WrapDeg (rad_to_deg (f32_sub yaw (pq_yaw prev))) else Some 0)"

definition pose_step ::
  "puppet_env \<Rightarrow> f32 \<Rightarrow> f32 \<Rightarrow> f32 \<Rightarrow> f32 \<Rightarrow> f32 \<Rightarrow> u32 \<Rightarrow> puppet_prev \<Rightarrow> (puppet_prev \<times> graph_call list) option" where
  "pose_step e pitch yaw speed vx vy flags prev0 =
     (let inMenu = (has_pose_flag flags PF_Pipboy \<or> has_pose_flag flags PF_Menu);
          prev = prev0\<lparr>pq_yaw := yaw\<rparr>
      in case turn_delta prev0 yaw of
           None \<Rightarrow> None
         | Some turnDelta \<Rightarrow>
             if has_pose_flag flags PF_Dead
             then (case SetDumpVars e pitch yaw 0 0 0 0 flags False True of
                     None \<Rightarrow> None
                   | Some vars \<Rightarrow>
                       Some (prev\<lparr>pq_flags := flags, pq_moving := False, pq_have := True\<rparr>,
                             [GPitch pitch] @ vars @ ApplyCombatFlags e (pq_flags prev) flags (pq_have prev) (pv_ghost e)))
             else
               let moving = (\<not> inMenu \<and> f32_less kMoveSpeedEps speed)
               in case SetDumpVars e pitch yaw turnDelta speed vx vy flags moving inMenu of
                    None \<Rightarrow> None
                  | Some vars \<Rightarrow>
                      let (p, sticky) = (if pq_have prev then RetryStickyFlags e flags prev else (prev\<lparr>pq_sticky := 0\<rparr>, []))
                      in Some (p\<lparr>pq_flags := flags, pq_moving := moving, pq_have := True\<rparr>,
                               [GPitch pitch] @ vars @ stance_calls prev flags moving @
                               ApplyCombatFlags e (pq_flags prev) flags (pq_have prev) (pv_ghost e) @ sticky))"

definition CMP_ApplyGhostPuppet ::
  "puppet_env \<Rightarrow> u32 \<Rightarrow> f32 \<Rightarrow> f32 \<Rightarrow> f32 \<Rightarrow> f32 \<Rightarrow> f32 \<Rightarrow> u32 \<Rightarrow> puppets \<Rightarrow> (puppets \<times> graph_call list) option" where
  "CMP_ApplyGhostPuppet e i pitch yaw speed vx vy flags ps =
     (if \<not> pv_ready e then Some (ps, [])
      else map_option (\<lambda>(p, calls). (um_put i p ps, calls)) (pose_step e pitch yaw speed vx vy flags (prev_of i ps)))"

definition apply_pose :: "puppet_env \<Rightarrow> player_pose \<Rightarrow> puppets \<Rightarrow> (puppets \<times> graph_call list) option" where
  "apply_pose e pose ps =
     CMP_ApplyGhostPuppet e (pp_peerId pose) (pp_pitch pose) (pp_yaw pose) (pp_speed pose) (pp_vx pose) (pp_vy pose)
       (pp_flags pose) ps"

definition CMP_ResetGhostPuppet :: "u32 \<Rightarrow> puppets \<Rightarrow> puppets" where
  "CMP_ResetGhostPuppet i ps = um_erase i ps"

definition CMP_ResetAllPuppets :: "puppets \<Rightarrow> puppets" where
  "CMP_ResetAllPuppets ps = []"

subsection \<open>Reading the local player's motion\<close>

text \<open>What the engine tells of an actor; the gun states are the numbers of the library's enumeration.\<close>

record actor_motion =
  am_pitch :: f32
  am_speed :: f32
  am_vx :: f32
  am_vy :: f32
  am_sneaking :: bool
  am_sprinting :: bool
  am_drawn :: bool
  am_reloading :: bool
  am_firing :: bool
  am_fireSighted :: bool
  am_sighted :: bool
  am_melee :: bool
  am_jumping :: bool
  am_dead :: bool

definition flag_if :: "bool \<Rightarrow> u32 \<Rightarrow> u32" where
  "flag_if b f = (if b then f else 0)"

definition CMP_FillActorMotion :: "u32 \<Rightarrow> actor_motion \<Rightarrow> f32 \<times> f32 \<times> f32 \<times> f32 \<times> u32" where
  "CMP_FillActorMotion menuFlags a =
     (let speed = (if f32_le (am_speed a) 0x3C23D70A
                   then f32_sqrt (f32_add (f32_mul (am_vx a) (am_vx a)) (f32_mul (am_vy a) (am_vy a)))
                   else am_speed a);
          flags = menuFlags OR flag_if (am_sneaking a) PF_Sneak OR
            (if am_sprinting a then PF_Sprint
             else flag_if (f32_less kMoveSpeedEps speed \<and> f32_less speed kSlowWalkMax) PF_SlowWalk) OR
            flag_if (am_drawn a) PF_Drawn OR
            flag_if (am_reloading a) PF_Reloading OR
            flag_if (am_firing a \<or> am_fireSighted a) PF_Attacking OR
            flag_if (am_sighted a \<or> am_fireSighted a) PF_Sighted OR
            flag_if (am_melee a) PF_Attacking OR
            flag_if (am_jumping a) PF_Jumping OR
            flag_if (am_dead a) PF_Dead
      in (am_pitch a, speed, am_vx a, am_vy a, flags))"

definition clamp32 :: "f32 \<Rightarrow> f32 \<Rightarrow> f32 \<Rightarrow> f32" where
  "clamp32 v lo hi = (if f32_less v lo then lo else if f32_less hi v then hi else v)"

definition CMP_InterpolateHeading :: "f32 \<Rightarrow> f32 \<Rightarrow> f32 \<Rightarrow> f32 option" where
  "CMP_InterpolateHeading currentRad targetRad alpha =
     map_option (\<lambda>delta. f32_add currentRad (f32_mul delta (clamp32 alpha 0 (f32_of_int 1))))
       (WrapRad (f32_sub targetRad currentRad))"

text \<open>The menus the player has open, as pose flags; the second component tells whether the map is refreshed.\<close>

definition CMP_OnMenuOpenClose :: "string option \<Rightarrow> bool \<Rightarrow> u32 \<Rightarrow> u32 \<times> bool" where
  "CMP_OnMenuOpenClose menuName opening flags =
     (case menuName of
        None \<Rightarrow> (flags, False)
      | Some name \<Rightarrow>
          if name = ''PipboyMenu''
          then (if opening then (flags OR PF_Pipboy, True) else (flags AND NOT PF_Pipboy, False))
          else if name = ''ContainerMenu'' \<or> name = ''WorkbenchMenu''
          then ((if opening then flags OR PF_Menu else flags AND NOT PF_Menu), False)
          else (flags, False))"

definition CMP_LocalMenuFlags :: "u32 \<Rightarrow> u32" where
  "CMP_LocalMenuFlags flags = flags"

subsection \<open>What the graph has been told\<close>

text \<open>
  For each activity, whether the last event about it that was fired was the one that starts it. Nothing is said
  here of what the engine makes of these events.
\<close>

record anim =
  an_move :: bool
  an_sneak :: bool
  an_sprint :: bool
  an_reload :: bool
  an_sighted :: bool
  an_jump :: bool
  an_pipboy :: bool
  an_weapon :: bool

definition still :: anim where
  "still = \<lparr>an_move = False, an_sneak = False, an_sprint = False, an_reload = False, an_sighted = False,
     an_jump = False, an_pipboy = False, an_weapon = False\<rparr>"

definition anim_event :: "string \<Rightarrow> anim \<Rightarrow> anim" where
  "anim_event ev a =
     (if ev = ''MoveStart'' then a\<lparr>an_move := True\<rparr>
      else if ev = ''MoveStop'' then a\<lparr>an_move := False\<rparr>
      else if ev = ''sneakStart'' then a\<lparr>an_sneak := True\<rparr>
      else if ev = ''sneakStop'' then a\<lparr>an_sneak := False\<rparr>
      else if ev = ''sprintStart'' then a\<lparr>an_sprint := True\<rparr>
      else if ev = ''sprintStop'' then a\<lparr>an_sprint := False\<rparr>
      else if ev = ''reloadStart'' then a\<lparr>an_reload := True\<rparr>
      else if ev = ''reloadStop'' then a\<lparr>an_reload := False\<rparr>
      else if ev = ''sightedStart'' then a\<lparr>an_sighted := True\<rparr>
      else if ev = ''sightedRelease'' then a\<lparr>an_sighted := False\<rparr>
      else if ev = ''JumpStandingStart'' then a\<lparr>an_jump := True\<rparr>
      else if ev = ''JumpLand'' then a\<lparr>an_jump := False\<rparr>
      else if ev = ''pipboyIdle'' then a\<lparr>an_pipboy := True\<rparr>
      else if ev = ''pipboyLower'' then a\<lparr>an_pipboy := False\<rparr>
      else if ev = ''weaponDraw'' then a\<lparr>an_weapon := True\<rparr>
      else if ev = ''weaponSheathe'' then a\<lparr>an_weapon := False\<rparr>
      else a)"

fun anim_run :: "graph_call list \<Rightarrow> anim \<Rightarrow> anim" where
  "anim_run [] a = a"
| "anim_run (GFire ev # cs) a = anim_run cs (anim_event ev a)"
| "anim_run (c # cs) a = anim_run cs a"

lemma anim_run_append [simp]: "anim_run (xs @ ys) a = anim_run ys (anim_run xs a)"
  by (induction xs a rule: anim_run.induct) simp_all

lemma anim_vars: "SetDumpVars e pitch yaw td speed vx vy flags moving inMenu = Some vars \<Longrightarrow> anim_run vars a = a"
  by (auto simp: SetDumpVars_def Let_def split: option.splits)

text \<open>Each group of calls, as an update of the activities.\<close>

lemma anim_edges:
  "anim_run (EdgeFlag had now ''sneakStart'' ''sneakStop'' None None) a = a\<lparr>an_sneak := if had = now then an_sneak a else now\<rparr>"
  "anim_run (EdgeFlag had now ''sprintStart'' ''sprintStop'' None None) a = a\<lparr>an_sprint := if had = now then an_sprint a else now\<rparr>"
  "anim_run (EdgeFlag had now ''reloadStart'' ''reloadStop'' (Some ''reloadState'') None) a =
     a\<lparr>an_reload := if had = now then an_reload a else now\<rparr>"
  "anim_run (EdgeFlag had now ''sightedStart'' ''sightedRelease'' (Some ''SightedStart'') (Some ''sightedEnd'')) a =
     a\<lparr>an_sighted := if had = now then an_sighted a else now\<rparr>"
  "anim_run (EdgeFlag had now ''JumpStandingStart'' ''JumpLand'' None None) a = a\<lparr>an_jump := if had = now then an_jump a else now\<rparr>"
  "anim_run (EdgeFlag had now ''pipboyIdle'' ''pipboyLower'' None None) a = a\<lparr>an_pipboy := if had = now then an_pipboy a else now\<rparr>"
  "anim_run (EdgeFlag had now ''attackStart'' ''attackStop'' None None) a = a"
  by (simp_all add: EdgeFlag_def anim_event_def)

lemma anim_fires:
  "anim_run (fire_if b [''sneakStart'']) a = a\<lparr>an_sneak := b \<or> an_sneak a\<rparr>"
  "anim_run (fire_if b [''sprintStart'']) a = a\<lparr>an_sprint := b \<or> an_sprint a\<rparr>"
  "anim_run (fire_if b [''reloadStart'', ''reloadState'']) a = a\<lparr>an_reload := b \<or> an_reload a\<rparr>"
  "anim_run (fire_if b [''sightedStart'', ''SightedStart'']) a = a\<lparr>an_sighted := b \<or> an_sighted a\<rparr>"
  "anim_run (fire_if b [''JumpStandingStart'']) a = a\<lparr>an_jump := b \<or> an_jump a\<rparr>"
  "anim_run (fire_if b [''pipboyIdle'']) a = a\<lparr>an_pipboy := b \<or> an_pipboy a\<rparr>"
  "anim_run (fire_if b [''attackStart'']) a = a"
  "anim_run (fire_if b [''walkStart'']) a = a"
  by (simp_all add: fire_if_def anim_event_def)

lemma anim_weapon:
  "anim_run (weapon_calls e prev flags had) a =
     a\<lparr>an_weapon := if \<not> had \<or> has_pose_flag prev PF_Drawn \<noteq> has_pose_flag flags PF_Drawn
       then (if has_pose_flag flags PF_Drawn then True else if had then False else an_weapon a) else an_weapon a\<rparr>"
  by (simp add: weapon_calls_def anim_event_def Let_def)

lemma anim_sticky:
  assumes "RetryStickyFlags e flags prev = (p, cs)"
    "has_pose_flag flags PF_Drawn \<longrightarrow> an_weapon a" "\<not> has_pose_flag flags PF_Drawn \<longrightarrow> \<not> an_weapon a"
    "has_pose_flag flags PF_Sneak \<longrightarrow> an_sneak a" "has_pose_flag flags PF_Jumping \<longrightarrow> an_jump a"
  shows "anim_run cs a = a"
proof -
  have up: "an_sneak a \<Longrightarrow> a\<lparr>an_sneak := True\<rparr> = a" "an_jump a \<Longrightarrow> a\<lparr>an_jump := True\<rparr> = a"
    "an_weapon a \<Longrightarrow> a\<lparr>an_weapon := True\<rparr> = a" "\<not> an_weapon a \<Longrightarrow> a\<lparr>an_weapon := False\<rparr> = a"
    by simp_all
  show ?thesis
    using assms by (auto simp: RetryStickyFlags_def Let_def anim_event_def up split: if_splits)
qed

text \<open>The events fired agree with the flags of the last pose.\<close>

definition showing :: "u32 \<Rightarrow> anim \<Rightarrow> bool" where
  "showing flags a \<longleftrightarrow>
     an_sneak a = has_pose_flag flags PF_Sneak \<and> an_sprint a = has_pose_flag flags PF_Sprint \<and>
     an_reload a = has_pose_flag flags PF_Reloading \<and> an_sighted a = has_pose_flag flags PF_Sighted \<and>
     an_jump a = has_pose_flag flags PF_Jumping \<and> an_pipboy a = has_pose_flag flags PF_Pipboy \<and>
     an_weapon a = has_pose_flag flags PF_Drawn"

definition follows :: "puppet_prev \<Rightarrow> anim \<Rightarrow> bool" where
  "follows p a \<longleftrightarrow> (if pq_have p then showing (pq_flags p) a \<and> an_move a = pq_moving p else a = still)"

lemma alive_calls:
  assumes "pose_step e pitch yaw speed vx vy flags prev = Some (prev', calls)" "\<not> has_pose_flag flags PF_Dead"
  obtains vars p sticky moving where
    "moving = (\<not> has_pose_flag flags PF_Pipboy \<and> \<not> has_pose_flag flags PF_Menu \<and> f32_less kMoveSpeedEps speed)"
    "\<And>a. anim_run vars a = a"
    "(p, sticky) = (if pq_have prev then RetryStickyFlags e flags (prev\<lparr>pq_yaw := yaw\<rparr>) else (prev\<lparr>pq_yaw := yaw, pq_sticky := 0\<rparr>, []))"
    "prev' = p\<lparr>pq_flags := flags, pq_moving := moving, pq_have := True\<rparr>"
    "calls = GPitch pitch # vars @ stance_calls (prev\<lparr>pq_yaw := yaw\<rparr>) flags moving @
       ApplyCombatFlags e (pq_flags prev) flags (pq_have prev) (pv_ghost e) @ sticky"
proof -
  define moving where "moving = (\<not> (has_pose_flag flags PF_Pipboy \<or> has_pose_flag flags PF_Menu) \<and> f32_less kMoveSpeedEps speed)"
  obtain p sticky where ps: "(if pq_have prev then RetryStickyFlags e flags (prev\<lparr>pq_yaw := yaw\<rparr>) else (prev\<lparr>pq_yaw := yaw, pq_sticky := 0\<rparr>, [])) = (p, sticky)"
    by fastforce
  from assms obtain td vars where
    "turn_delta prev yaw = Some td"
    "SetDumpVars e pitch yaw td speed vx vy flags moving (has_pose_flag flags PF_Pipboy \<or> has_pose_flag flags PF_Menu) = Some vars"
    unfolding pose_step_def Let_def moving_def by (auto split: option.splits)
  then show ?thesis
    using assms ps anim_vars
    by (intro that [of moving vars p sticky]) (auto simp: pose_step_def Let_def moving_def split: prod.splits if_splits)
qed

lemma sticky_fields:
  "fst (RetryStickyFlags e flags p) = p\<lparr>pq_sticky := pq_sticky (fst (RetryStickyFlags e flags p))\<rparr>"
  by (simp add: RetryStickyFlags_def Let_def)

lemma follows_alive:
  assumes "pose_step e pitch yaw speed vx vy flags prev = Some (prev', calls)" "\<not> has_pose_flag flags PF_Dead"
    "follows prev a"
  shows "showing flags (anim_run calls a) \<and>
    an_move (anim_run calls a) = (\<not> has_pose_flag flags PF_Pipboy \<and> \<not> has_pose_flag flags PF_Menu \<and> f32_less kMoveSpeedEps speed) \<and>
    follows prev' (anim_run calls a)"
proof -
  from alive_calls [OF assms(1,2)] obtain vars p sticky moving where
    m: "moving = (\<not> has_pose_flag flags PF_Pipboy \<and> \<not> has_pose_flag flags PF_Menu \<and> f32_less kMoveSpeedEps speed)"
    and v: "\<And>a. anim_run vars a = a"
    and p: "(p, sticky) = (if pq_have prev then RetryStickyFlags e flags (prev\<lparr>pq_yaw := yaw\<rparr>) else (prev\<lparr>pq_yaw := yaw, pq_sticky := 0\<rparr>, []))"
    and prev': "prev' = p\<lparr>pq_flags := flags, pq_moving := moving, pq_have := True\<rparr>"
    and calls: "calls = GPitch pitch # vars @ stance_calls (prev\<lparr>pq_yaw := yaw\<rparr>) flags moving @
       ApplyCombatFlags e (pq_flags prev) flags (pq_have prev) (pv_ghost e) @ sticky" by metis
  let ?b = "anim_run (stance_calls (prev\<lparr>pq_yaw := yaw\<rparr>) flags moving) a"
  let ?c = "anim_run (ApplyCombatFlags e (pq_flags prev) flags (pq_have prev) (pv_ghost e)) ?b"
  have f1: "an_sneak a = has_pose_flag (pq_flags prev) PF_Sneak" "an_sprint a = has_pose_flag (pq_flags prev) PF_Sprint"
    "an_reload a = has_pose_flag (pq_flags prev) PF_Reloading" "an_sighted a = has_pose_flag (pq_flags prev) PF_Sighted"
    "an_jump a = has_pose_flag (pq_flags prev) PF_Jumping" "an_pipboy a = has_pose_flag (pq_flags prev) PF_Pipboy"
    "an_weapon a = has_pose_flag (pq_flags prev) PF_Drawn" "an_move a = pq_moving prev" if "pq_have prev"
    using assms(3) that by (simp_all add: follows_def showing_def)
  have f0: "\<not> an_sneak a" "\<not> an_sprint a" "\<not> an_reload a" "\<not> an_sighted a" "\<not> an_jump a" "\<not> an_pipboy a"
    "\<not> an_weapon a" if "\<not> pq_have prev"
    using assms(3) that by (simp_all add: follows_def still_def)
  have b: "an_move ?b = moving" "an_sneak ?b = has_pose_flag flags PF_Sneak" "an_sprint ?b = has_pose_flag flags PF_Sprint"
    "an_reload ?b = an_reload a" "an_sighted ?b = an_sighted a" "an_jump ?b = an_jump a" "an_pipboy ?b = an_pipboy a"
    "an_weapon ?b = an_weapon a"
    by (cases "pq_have prev"; simp add: stance_calls_def anim_edges anim_fires anim_event_def f0 f1)+
  have c: "an_move ?c = moving" "an_sneak ?c = has_pose_flag flags PF_Sneak" "an_sprint ?c = has_pose_flag flags PF_Sprint"
    "an_reload ?c = has_pose_flag flags PF_Reloading" "an_sighted ?c = has_pose_flag flags PF_Sighted"
    "an_jump ?c = has_pose_flag flags PF_Jumping" "an_pipboy ?c = has_pose_flag flags PF_Pipboy"
    "an_weapon ?c = has_pose_flag flags PF_Drawn"
    by (cases "pq_have prev"; simp add: ApplyCombatFlags_def Let_def anim_edges anim_fires anim_weapon b f0 f1)+
  have s: "anim_run sticky ?c = ?c"
  proof (cases "pq_have prev")
    case True
    with p have "RetryStickyFlags e flags (prev\<lparr>pq_yaw := yaw\<rparr>) = (p, sticky)" by simp
    then show ?thesis using c by (intro anim_sticky) auto
  qed (use p in simp)
  have run: "anim_run calls a = ?c" by (simp add: calls v s)
  show ?thesis unfolding run m [symmetric] follows_def prev' showing_def by (simp add: c)
qed

text \<open>Poses one after the other, each in what the engine then answers.\<close>

definition play_step :: "puppet_env \<times> player_pose \<Rightarrow> puppet_prev \<times> anim \<Rightarrow> (puppet_prev \<times> anim) option" where
  "play_step = (\<lambda>(e, q) (p, a).
     map_option (\<lambda>(p', cs). (p', anim_run cs a))
       (pose_step e (pp_pitch q) (pp_yaw q) (pp_speed q) (pp_vx q) (pp_vy q) (pp_flags q) p))"

fun play :: "(puppet_env \<times> player_pose) list \<Rightarrow> puppet_prev \<times> anim \<Rightarrow> (puppet_prev \<times> anim) option" where
  "play [] st = Some st"
| "play (x # xs) st = (case play_step x st of None \<Rightarrow> None | Some st' \<Rightarrow> play xs st')"

lemma play_snoc: "play (xs @ [x]) st = (case play xs st of None \<Rightarrow> None | Some st' \<Rightarrow> play_step x st')"
  by (induction xs arbitrary: st) (auto split: option.split)

abbreviation alive :: "puppet_env \<times> player_pose \<Rightarrow> bool" where
  "alive x \<equiv> \<not> has_pose_flag (pp_flags (snd x)) PF_Dead"

lemma play_follows:
  "play xs st = Some st' \<Longrightarrow> list_all alive xs \<Longrightarrow> follows (fst st) (snd st) \<Longrightarrow> follows (fst st') (snd st')"
proof (induction xs arbitrary: st)
  case (Cons x xs)
  obtain e q p a where x: "x = (e, q)" "st = (p, a)" by fastforce
  from Cons.prems(1) obtain st1 where "play_step x st = Some st1" and r: "play xs st1 = Some st'"
    by (auto split: option.splits)
  then obtain p1 cs where
    1: "pose_step e (pp_pitch q) (pp_yaw q) (pp_speed q) (pp_vx q) (pp_vy q) (pp_flags q) p = Some (p1, cs)"
    "st1 = (p1, anim_run cs a)"
    by (auto simp: play_step_def x)
  have "follows p1 (anim_run cs a)"
    using follows_alive [OF 1(1)] Cons.prems(2,3) by (simp add: x)
  then show ?case using Cons.IH [OF r] Cons.prems(2) by (simp add: 1(2))
qed simp

text \<open>
  C22: the events follow the player. From a fresh puppet of which nothing has been started, after any sequence
  of poses of a living player, whatever the engine answers in between, the last event fired about sneaking,
  sprinting, reloading, aiming, jumping, the Pip-Boy, the weapon and moving is the one that starts it exactly
  when the last pose says so.
\<close>

theorem graph_follows_flags:
  assumes "play (xs @ [(e, q)]) (puppet_prev0, still) = Some (p, a)" "list_all alive (xs @ [(e, q)])"
  shows "an_sneak a = has_pose_flag (pp_flags q) PF_Sneak \<and> an_sprint a = has_pose_flag (pp_flags q) PF_Sprint \<and>
    an_reload a = has_pose_flag (pp_flags q) PF_Reloading \<and> an_sighted a = has_pose_flag (pp_flags q) PF_Sighted \<and>
    an_jump a = has_pose_flag (pp_flags q) PF_Jumping \<and> an_pipboy a = has_pose_flag (pp_flags q) PF_Pipboy \<and>
    an_weapon a = has_pose_flag (pp_flags q) PF_Drawn \<and>
    an_move a = (\<not> has_pose_flag (pp_flags q) PF_Pipboy \<and> \<not> has_pose_flag (pp_flags q) PF_Menu \<and> f32_less kMoveSpeedEps (pp_speed q))"
proof -
  from assms(1) obtain p1 a1 where 1: "play xs (puppet_prev0, still) = Some (p1, a1)" "play_step (e, q) (p1, a1) = Some (p, a)"
    by (auto simp: play_snoc split: option.splits)
  have f: "follows p1 a1"
    using play_follows [OF 1(1)] assms(2) by (simp add: follows_def puppet_prev0_def)
  from 1(2) obtain cs where
    "pose_step e (pp_pitch q) (pp_yaw q) (pp_speed q) (pp_vx q) (pp_vy q) (pp_flags q) p1 = Some (p, cs)" "a = anim_run cs a1"
    by (auto simp: play_step_def)
  with follows_alive [OF this(1) _ f] assms(2) show ?thesis by (simp add: showing_def)
qed

definition demo_puppet :: puppet_env where
  "demo_puppet = \<lparr>pv_ready = True, pv_ghost = True, pv_drawn = False, pv_drawnLater = False, pv_biped = True,
     pv_right = None, pv_order = [0, 9], pv_atan2 = \<lambda>_ _. 0\<rparr>"

definition demo_pose :: "u32 \<Rightarrow> player_pose" where
  "demo_pose flags =
     \<lparr>pp_header = fill_header (sizeof_msg PlayerPose) PlayerPose, pp_peerId = 2, pp_locationFormId = 0x3C, pp_x = 0, pp_y = 0,
      pp_z = 0, pp_yaw = 0, pp_pitch = 0, pp_speed = 0, pp_vx = 0, pp_vy = 0, pp_flags = flags\<rparr>"

lemma demo_play: "\<exists>r. play [(demo_puppet, demo_pose flags)] (puppet_prev0, b) = Some r"
  by (simp add: play_step_def pose_step_def turn_delta_def SetDumpVars_def puppet_prev0_def demo_pose_def
      demo_puppet_def kMoveSpeedEps_def Let_def ieee_eval split: prod.split)

theorem graph_follows_flags_witness:
  "\<exists>p a. play [(demo_puppet, demo_pose 5)] (puppet_prev0, still) = Some (p, a) \<and> an_sneak a \<and> an_weapon a \<and> \<not> an_jump a"
proof -
  obtain p a where r: "play ([] @ [(demo_puppet, demo_pose 5)]) (puppet_prev0, still) = Some (p, a)"
    using demo_play [of 5 still] by fastforce
  have "list_all alive ([] @ [(demo_puppet, demo_pose 5)])"
    by (simp add: demo_pose_def has_pose_flag_def PF_Dead_def)
  from graph_follows_flags [OF r this] r show ?thesis
    by (auto simp: demo_pose_def has_pose_flag_def PF_Sneak_def PF_Drawn_def PF_Jumping_def)
qed

text \<open>A step that starts no sneaking leaves a sneaking actor sneaking when the pose before did not sneak either.\<close>

lemma sneak_stays:
  assumes "pose_step e pitch yaw speed vx vy flags prev = Some (prev', calls)" "\<not> has_pose_flag flags PF_Dead"
    "\<not> has_pose_flag flags PF_Sneak" "pq_have prev \<longrightarrow> \<not> has_pose_flag (pq_flags prev) PF_Sneak"
  shows "an_sneak (anim_run calls a) = an_sneak a \<and> pq_flags prev' = flags"
proof -
  have keep: "an_sneak (anim_run (ApplyCombatFlags e pf flags h g) b) = an_sneak b" for pf h g b
    by (simp add: ApplyCombatFlags_def Let_def anim_edges anim_fires anim_weapon)
  have st: "an_sneak (anim_run (stance_calls p flags moving) b) = an_sneak b"
    if "pq_have p \<longrightarrow> \<not> has_pose_flag (pq_flags p) PF_Sneak" for p moving b
    using that assms(3) by (simp add: stance_calls_def anim_edges anim_fires anim_event_def fire_if_def)
  have sticky: "an_sneak (anim_run (snd (RetryStickyFlags e flags p)) b) = an_sneak b" for p b
    using assms(3) by (simp add: RetryStickyFlags_def Let_def anim_event_def)
  from alive_calls [OF assms(1,2)] obtain vars p sticky moving where
    v: "\<And>a. anim_run vars a = a"
    and p: "(p, sticky) = (if pq_have prev then RetryStickyFlags e flags (prev\<lparr>pq_yaw := yaw\<rparr>) else (prev\<lparr>pq_yaw := yaw, pq_sticky := 0\<rparr>, []))"
    and prev': "prev' = p\<lparr>pq_flags := flags, pq_moving := moving, pq_have := True\<rparr>"
    and calls: "calls = GPitch pitch # vars @ stance_calls (prev\<lparr>pq_yaw := yaw\<rparr>) flags moving @
       ApplyCombatFlags e (pq_flags prev) flags (pq_have prev) (pv_ghost e) @ sticky" by metis
  have "an_sneak (anim_run sticky b) = an_sneak b" for b
    using p sticky [of "prev\<lparr>pq_yaw := yaw\<rparr>" b] by (cases "pq_have prev") (simp_all, metis snd_conv)
  then show ?thesis
    using assms(4) by (simp add: calls v keep st prev')
qed

text \<open>
  A puppet that is reset in mid-sneak is never told to stop. Resetting forgets the last pose but fires no
  event, and the first pose of a fresh puppet only starts activities; so after a reset while the actor was told to
  sneak, poses that do not sneak never fire the event that ends it, however many come.
\<close>

lemma reset_keeps_stance:
  assumes "an_sneak a" "play xs (prev_of i (CMP_ResetGhostPuppet i ps), a) = Some (p, a')"
    "list_all (\<lambda>x. alive x \<and> \<not> has_pose_flag (pp_flags (snd x)) PF_Sneak) xs"
  shows "an_sneak a'"
proof -
  have "an_sneak (snd st')"
    if "play xs st = Some st'" "list_all (\<lambda>x. alive x \<and> \<not> has_pose_flag (pp_flags (snd x)) PF_Sneak) xs"
      "an_sneak (snd st)" "pq_have (fst st) \<longrightarrow> \<not> has_pose_flag (pq_flags (fst st)) PF_Sneak" for xs st st'
    using that
  proof (induction xs arbitrary: st)
    case (Cons x xs)
    obtain e q p b where x: "x = (e, q)" "st = (p, b)" by fastforce
    from Cons.prems(1) obtain st1 where "play_step x st = Some st1" and r: "play xs st1 = Some st'"
      by (auto split: option.splits)
    then obtain p1 cs where
      1: "pose_step e (pp_pitch q) (pp_yaw q) (pp_speed q) (pp_vx q) (pp_vy q) (pp_flags q) p = Some (p1, cs)"
      "st1 = (p1, anim_run cs b)"
      by (auto simp: play_step_def x)
    show ?case
      using Cons.IH [OF r] sneak_stays [OF 1(1), of b] Cons.prems(2-4) by (simp add: x 1(2))
  qed simp
  from this [OF assms(2,3)] show ?thesis
    using assms(1) by (simp add: prev_of_def CMP_ResetGhostPuppet_def amap puppet_prev0_def)
qed

lemma reset_keeps_stance_witness:
  "\<exists>p a. play [(demo_puppet, demo_pose 0)] (prev_of 2 (CMP_ResetGhostPuppet 2 []), still\<lparr>an_sneak := True\<rparr>) = Some (p, a) \<and> an_sneak a"
proof -
  obtain p a where r: "play [(demo_puppet, demo_pose 0)] (prev_of 2 (CMP_ResetGhostPuppet 2 []), still\<lparr>an_sneak := True\<rparr>) = Some (p, a)"
    using demo_play [of 0 "still\<lparr>an_sneak := True\<rparr>"] by (fastforce simp: prev_of_def CMP_ResetGhostPuppet_def amap)
  have "an_sneak (still\<lparr>an_sneak := True\<rparr>)" by simp
  from reset_keeps_stance [OF this r] r show ?thesis by (simp add: demo_pose_def has_pose_flag_def)
qed

text \<open>The pose of a dead player ends neither sneaking nor sprinting nor moving, yet the puppet forgets all three.\<close>

lemma death_keeps_stance:
  assumes "pose_step e pitch yaw speed vx vy flags prev = Some (prev', calls)" "has_pose_flag flags PF_Dead"
  shows "an_sneak (anim_run calls a) = an_sneak a \<and> an_sprint (anim_run calls a) = an_sprint a \<and>
    an_move (anim_run calls a) = an_move a \<and> pq_flags prev' = flags \<and> \<not> pq_moving prev'"
proof -
  from assms obtain vars where "SetDumpVars e pitch yaw 0 0 0 0 flags False True = Some vars"
    "calls = [GPitch pitch] @ vars @ ApplyCombatFlags e (pq_flags prev) flags (pq_have prev) (pv_ghost e)"
    "prev' = prev\<lparr>pq_yaw := yaw, pq_flags := flags, pq_moving := False, pq_have := True\<rparr>"
    by (auto simp: pose_step_def Let_def split: option.splits)
  then show ?thesis
    by (simp add: anim_vars ApplyCombatFlags_def Let_def anim_edges anim_fires anim_weapon)
qed

end
