(* ===== verification/Ghosts.thy ===== *)
theory Ghosts
  imports Puppet ClientPoll
begin

text \<open>
  The bodies of the other players and of the host's actors: \<^verbatim>\<open>plugin/src/ghost/spawn.cpp\<close>,
  \<^verbatim>\<open>plugin/src/ghost/ghost.cpp\<close>, \<^verbatim>\<open>CMP_SetGhostLabel\<close> of \<^verbatim>\<open>labels.cpp\<close>, and \<^verbatim>\<open>MoveUnique\<close> and \<^verbatim>\<open>CMP_ApplyHostActors\<close> of
  \<^verbatim>\<open>plugin/src/actors.cpp\<close>. The state \<open>ghosts\<close> holds the session, the globals of these files and the calls made on
  actors; an actor is known by the number its handle stands for. What the engine answers is \<open>ghost_env\<close>; where
  it is asked about one actor again and again, \<open>body\<close> holds what it says while one pose is applied. Of the
  calls that dress a ghost the session keeps the list. Log output is left out.
\<close>

subsection \<open>State\<close>

datatype ghost_call =
    GhClone u32
  | GhCell nat
  | GhEnable nat
  | GhScale nat
  | GhLabel nat string
  | GhRefresh nat
  | GhQueue3D nat
  | GhDisable nat
  | GhFlags nat
  | GhUnflag nat
  | GhStopCombat nat
  | GhAlive nat
  | GhEnableAI nat bool
  | GhPosition nat f32 f32 f32
  | GhHeading nat f32
  | GhGraph nat "graph_call list"

record ghosts =
  gh_session :: session
  gh_byPeer :: "(u32, nat) umap"
  gh_animFlags :: u32
  gh_bases :: "(u32, u32) umap"
  gh_cloneIds :: "u32 list"
  gh_ready :: "u32 list"
  gh_freeze :: "(u32, int) umap"
  gh_lastMove :: "(u32, f64) umap"
  gh_uniqueMove :: "(u32, f64) umap"
  gh_sourceFailed :: bool
  gh_puppets :: puppets
  gh_calls :: "ghost_call list"

definition ghosts_init :: "session \<Rightarrow> ghosts" where
  "ghosts_init s =
     \<lparr>gh_session = s, gh_byPeer = [], gh_animFlags = 0, gh_bases = [], gh_cloneIds = [], gh_ready = [], gh_freeze = [],
      gh_lastMove = [], gh_uniqueMove = [], gh_sourceFailed = False, gh_puppets = [], gh_calls = []\<rparr>"

text \<open>
  What the engine says of one actor: whether it stands in the player's cell, is disabled and has its 3D, where
  it is, what moves it, its graph, and the clock.
\<close>

record body =
  bo_sameCell :: bool
  bo_disabled :: bool
  bo_3D :: bool
  bo_x :: f32
  bo_y :: f32
  bo_z :: f32
  bo_heading :: f32
  bo_motion :: actor_motion
  bo_puppet :: puppet_env
  bo_now :: f64

text \<open>
  The player and its cell, which handles resolve to an actor, the actor base a form id stands for, what
  duplicating it and the form factory give for a peer, the actor created at a location, the answers
  about a body while it is set up and while it is moved, and the actors of the host's form ids.
\<close>

record ghost_env =
  ge_game :: game
  ge_taskQueue :: bool
  ge_dataHandler :: bool
  ge_alive :: "nat \<Rightarrow> bool"
  ge_source :: "u32 \<Rightarrow> u32 option"
  ge_dup :: "u32 \<Rightarrow> u32 option option"
  ge_factory :: "u32 \<Rightarrow> u32 option option"
  ge_place :: "u32 \<Rightarrow> nat option"
  ge_setup :: "u32 \<Rightarrow> body"
  ge_body :: "u32 \<Rightarrow> body"
  ge_form :: "u32 \<Rightarrow> engine_actor option"

definition on_actor :: "ghost_call list \<Rightarrow> ghosts \<Rightarrow> ghosts" where
  "on_actor cs w = w\<lparr>gh_calls := gh_calls w @ cs\<rparr>"

subsection \<open>ghost.cpp\<close>

definition SetGhostNote :: "string \<Rightarrow> ghosts \<Rightarrow> ghosts" where
  "SetGhostNote note w = w\<lparr>gh_session := (gh_session w)\<lparr>ss_lastGhostNote := note\<rparr>\<rparr>"

definition GhostLabel :: "u32 \<Rightarrow> ghosts \<Rightarrow> string" where
  "GhostLabel peer w =
     (case um_find peer (gr_names (ss_ghosts (gh_session w))) of
        Some nm \<Rightarrow> if nm \<noteq> [] then nm else ''Player''
      | None \<Rightarrow> ''Player'')"

definition FreezeGhost :: "nat \<Rightarrow> u32 \<Rightarrow> ghosts \<Rightarrow> ghosts" where
  "FreezeGhost a peer w =
     (let tick = (case um_find peer (gh_freeze w) of None \<Rightarrow> 0 | Some t \<Rightarrow> t) + 1
      in on_actor ([GhFlags a, GhStopCombat a] @ (if tick = 1 then [GhAlive a, GhEnableAI a False] else []))
           (w\<lparr>gh_freeze := um_put peer tick (gh_freeze w)\<rparr>))"

definition CMP_UnfreezeRemoteActor :: "nat \<Rightarrow> u32 \<Rightarrow> ghosts \<Rightarrow> ghosts" where
  "CMP_UnfreezeRemoteActor a i w =
     (let w1 = on_actor [GhUnflag a, GhEnableAI a True] w
      in w1\<lparr>gh_puppets := CMP_ResetGhostPuppet i (gh_puppets w1)\<rparr>)"

definition CMP_PeerForGhost :: "ghost_env \<Rightarrow> nat \<Rightarrow> ghosts \<Rightarrow> u32" where
  "CMP_PeerForGhost e a w =
     (case filter (\<lambda>ph. ge_alive e (snd ph) \<and> snd ph = a) (gh_byPeer w) of [] \<Rightarrow> 0 | ph # _ \<Rightarrow> fst ph)"

text \<open>Driving the graph of an actor: whether it is a ghost is what \<^verbatim>\<open>CMP_PeerForGhost\<close> says.\<close>

definition drive ::
  "ghost_env \<Rightarrow> body \<Rightarrow> nat \<Rightarrow> u32 \<Rightarrow> f32 \<Rightarrow> f32 \<Rightarrow> f32 \<Rightarrow> f32 \<Rightarrow> f32 \<Rightarrow> u32 \<Rightarrow> ghosts \<Rightarrow> ghosts option" where
  "drive e b a i pitch yaw speed vx vy flags w =
     (let pe = (bo_puppet b)\<lparr>pv_ghost := (CMP_PeerForGhost e a w \<noteq> 0)\<rparr>
      in case CMP_ApplyGhostPuppet pe i pitch yaw speed vx vy flags (gh_puppets w) of
           None \<Rightarrow> None
         | Some (ps, cs) \<Rightarrow> Some (on_actor [GhGraph a cs] (w\<lparr>gh_puppets := ps\<rparr>)))"

definition CMP_ReapplyGhostPuppet :: "ghost_env \<Rightarrow> body \<Rightarrow> u32 \<Rightarrow> ghosts \<Rightarrow> ghosts option" where
  "CMP_ReapplyGhostPuppet e b peer w =
     (case um_find peer (nr_latestPose (ss_net (gh_session w))) of
        None \<Rightarrow> Some w
      | Some pose \<Rightarrow>
          (case um_find peer (gh_byPeer w) of
             None \<Rightarrow> Some w
           | Some a \<Rightarrow>
               if ge_alive e a
               then drive e b a (pp_peerId pose) (pp_pitch pose) (pp_yaw pose) (pp_speed pose) (pp_vx pose) (pp_vy pose)
                      (pp_flags pose) (w\<lparr>gh_puppets := CMP_ResetGhostPuppet peer (gh_puppets w)\<rparr>)
               else Some w))"

definition CMP_IsPaintableGhostBase :: "u32 option \<Rightarrow> ghosts \<Rightarrow> bool" where
  "CMP_IsPaintableGhostBase npc w =
     (case npc of None \<Rightarrow> False | Some n \<Rightarrow> \<not> forbidden_actor_base n \<and> n \<in> set (gh_cloneIds w))"

definition CMP_CountGhostsWith3D :: "ghost_env \<Rightarrow> ghosts \<Rightarrow> nat" where
  "CMP_CountGhostsWith3D e w = length (filter (\<lambda>(p, a). ge_alive e a \<and> bo_3D (ge_body e p)) (gh_byPeer w))"

text \<open>The player itself stands under the id with all bits set; its number is an argument.\<close>

definition CMP_ForceAnim :: "ghost_env \<Rightarrow> nat \<Rightarrow> body \<Rightarrow> int \<Rightarrow> ghosts \<Rightarrow> (bool \<times> string \<times> ghosts) option" where
  "CMP_ForceAnim e self selfBody step w =
     (let flags = pose_anim_flags step;
          found = filter (\<lambda>(p, a). ge_alive e a \<and> bo_3D (ge_body e p)) (gh_byPeer w);
          play = (\<lambda>a b i w. case CMP_FillActorMotion 0 (bo_motion b) of
                    (pitch, speed, vx, vy, _) \<Rightarrow> drive e b a i pitch (bo_heading b) speed vx vy flags w)
      in case found of
           [] \<Rightarrow>
             (if gm_player (ge_game e) = None then Some (False, ''cmp_anim: no actor'', w)
              else map_option (\<lambda>w'. (True, ''cmp_anim: no remote ghost, applying to you '' @ pose_anim_name flags, w'))
                     (play self selfBody 0xFFFFFFFF w))
         | (p, a) # _ \<Rightarrow>
             let s = gh_session w;
                 until = f64_add (bo_now (ge_body e p)) (f64_of_int 4);
                 w1 = w\<lparr>gh_session := s\<lparr>ss_ghosts := (ss_ghosts s)\<lparr>gr_animOverridePeer := p, gr_animOverrideUntil := until\<rparr>\<rparr>,
                        gh_animFlags := flags\<rparr>
             in map_option (\<lambda>w'. (True, ''cmp_anim: peer '' @ dec_str (unat p) @ '' '' @ pose_anim_name flags @ '' (4s)'', w'))
                  (play a (ge_body e p) p w1))"

subsection \<open>Clones of an actor base\<close>

text \<open>\<open>GhClone\<close> stands for making the copy temporary, taking the flags of a unique actor from it and registering it.\<close>

definition NpcFromForm :: "u32 option \<Rightarrow> u32 option" where
  "NpcFromForm form = (case form of None \<Rightarrow> None | Some n \<Rightarrow> if forbidden_actor_base n then None else Some n)"

definition FindCloneSource :: "ghost_env \<Rightarrow> ghosts \<Rightarrow> u32 option \<times> ghosts" where
  "FindCloneSource e w =
     (if gh_sourceFailed w then (None, w)
      else case NpcFromForm (ge_source e (se_ghostSourceForm (ss_settings (gh_session w)))) of
             None \<Rightarrow> (None, SetGhostNote ''ghost SourceForm missing'' (w\<lparr>gh_sourceFailed := True\<rparr>))
           | Some n \<Rightarrow> (Some n, w))"

definition FinalizeClone :: "u32 option \<Rightarrow> ghosts \<Rightarrow> u32 option \<times> ghosts" where
  "FinalizeClone npc w =
     (case npc of
        None \<Rightarrow> (None, w)
      | Some n \<Rightarrow> (Some n, on_actor [GhClone n] (w\<lparr>gh_cloneIds := us_insert n (gh_cloneIds w)\<rparr>)))"

definition new_clone :: "ghost_env \<Rightarrow> u32 \<Rightarrow> ghosts \<Rightarrow> u32 option \<times> ghosts" where
  "new_clone e peer w =
     (case (case ge_dup e peer of None \<Rightarrow> (None, w) | Some dup \<Rightarrow> FinalizeClone dup w) of
        (Some n, w1) \<Rightarrow> (Some n, w1)
      | (None, w1) \<Rightarrow>
          (case ge_factory e peer of
             None \<Rightarrow> (None, SetGhostNote ''TESNPC factory missing'' w1)
           | Some None \<Rightarrow> (None, SetGhostNote ''TESNPC Create failed'' w1)
           | Some (Some n) \<Rightarrow> FinalizeClone (Some n) w1))"

definition CloneGhostBase :: "ghost_env \<Rightarrow> u32 \<Rightarrow> ghosts \<Rightarrow> u32 option \<times> ghosts" where
  "CloneGhostBase e peer w =
     (case um_find peer (gh_bases w) of
        Some n \<Rightarrow> (Some n, w)
      | None \<Rightarrow>
          (case FindCloneSource e w of
             (None, w1) \<Rightarrow> (None, w1)
           | (Some _, w1) \<Rightarrow>
               (case new_clone e peer w1 of
                  (None, w2) \<Rightarrow> (None, w2)
                | (Some n, w2) \<Rightarrow> (Some n, w2\<lparr>gh_bases := um_put peer n (gh_bases w2)\<rparr>))))"

definition DropPeerClone :: "u32 \<Rightarrow> ghosts \<Rightarrow> ghosts" where
  "DropPeerClone peer w =
     (let w1 = (case um_find peer (gh_bases w) of
                  None \<Rightarrow> w
                | Some n \<Rightarrow> w\<lparr>gh_cloneIds := us_erase n (gh_cloneIds w), gh_bases := um_erase peer (gh_bases w)\<rparr>)
      in w1\<lparr>gh_ready := us_erase peer (gh_ready w1), gh_freeze := um_erase peer (gh_freeze w1),
            gh_lastMove := um_erase peer (gh_lastMove w1), gh_puppets := CMP_ResetGhostPuppet peer (gh_puppets w1)\<rparr>)"

definition ClearAllClones :: "ghosts \<Rightarrow> ghosts" where
  "ClearAllClones w =
     w\<lparr>gh_bases := [], gh_cloneIds := [], gh_ready := [], gh_freeze := [], gh_lastMove := [], gh_sourceFailed := False,
       gh_puppets := CMP_ResetAllPuppets (gh_puppets w)\<rparr>"

subsection \<open>Bodies\<close>

definition EnsureGhost3D :: "ghost_env \<Rightarrow> body \<Rightarrow> nat \<Rightarrow> ghosts \<Rightarrow> ghosts" where
  "EnsureGhost3D e b a w =
     on_actor ((if player_in_cell (ge_game e) \<and> \<not> bo_sameCell b then [GhCell a] else []) @
               (if bo_disabled b then [GhEnable a] else []) @ [GhRefresh a] @
               (if ge_taskQueue e then [GhQueue3D a] else [])) w"

definition CMP_SetGhostLabel :: "nat \<Rightarrow> string \<Rightarrow> ghosts \<Rightarrow> ghosts" where
  "CMP_SetGhostLabel a name w = (if name = [] then w else on_actor [GhLabel a name] w)"

text \<open>\<^verbatim>\<open>CMP_ApplyGhostAppearance\<close> and \<^verbatim>\<open>CMP_ApplyGhostInventory\<close>, the second of which drives the graph again.\<close>

definition dress :: "ghost_env \<Rightarrow> body \<Rightarrow> nat \<Rightarrow> u32 \<Rightarrow> ghosts \<Rightarrow> ghosts option" where
  "dress e b a peer w =
     (let w1 = w\<lparr>gh_session := ApplyGhostInventory peer (CMP_ApplyGhostAppearance peer (gh_session w))\<rparr>
      in case um_find peer (br_inventories (ss_blobs (gh_session w))) of
           None \<Rightarrow> Some w1
         | Some blob \<Rightarrow>
             (case decode_inventory_sheet blob of
                None \<Rightarrow> Some w1
              | Some sheet \<Rightarrow> CMP_ReapplyGhostPuppet e b peer (CMP_SetGhostLabel a (c_str (iv_name sheet)) w1)))"

definition FinishGhostSetup :: "ghost_env \<Rightarrow> nat \<Rightarrow> u32 \<Rightarrow> ghosts \<Rightarrow> ghosts option" where
  "FinishGhostSetup e a peer w =
     (let b = ge_setup e peer;
          w1 = on_actor ((if player_in_cell (ge_game e) then [GhCell a] else []) @ [GhEnable a, GhScale a]) w;
          w2 = EnsureGhost3D e b a (CMP_SetGhostLabel a (GhostLabel peer w1) w1);
          w3 = (if \<not> bo_3D b then Some w2
                else case dress e b a peer (FreezeGhost a peer (w2\<lparr>gh_ready := us_insert peer (gh_ready w2)\<rparr>)) of
                       None \<Rightarrow> None
                     | Some v \<Rightarrow> CMP_ReapplyGhostPuppet e b peer v)
      in map_option (SetGhostNote []) w3)"

definition SpawnGhost :: "ghost_env \<Rightarrow> u32 \<Rightarrow> ghosts \<Rightarrow> (nat option \<times> ghosts) option" where
  "SpawnGhost e peer w =
     (case CloneGhostBase e peer w of
        (base, w1) \<Rightarrow>
          if gm_player (ge_game e) = None \<or> \<not> ge_dataHandler e then Some (None, w1)
          else case base of
            None \<Rightarrow> Some (None, w1)
          | Some n \<Rightarrow>
              if forbidden_actor_base n then Some (None, SetGhostNote ''refused forbidden ActorBase'' w1)
              else if \<not> player_in_cell (ge_game e) then Some (None, w1)
              else case ge_place e peer of
                     None \<Rightarrow> Some (None, SetGhostNote ''CreateReferenceAtLocation failed'' w1)
                   | Some a \<Rightarrow> map_option (\<lambda>w2. (Some a, w2)) (FinishGhostSetup e a peer w1))"

subsection \<open>Moving a body\<close>

definition clamp64 :: "f64 \<Rightarrow> f64 \<Rightarrow> f64 \<Rightarrow> f64" where
  "clamp64 v lo hi = (if f64_less v lo then lo else if f64_less hi v then hi else v)"

definition frame_time :: "f64 option \<Rightarrow> f64 \<Rightarrow> f64" where
  "frame_time before now =
     (case before of
        None \<Rightarrow> f64_div (f64_of_int 1) (f64_of_int 20)
      | Some t \<Rightarrow> clamp64 (f64_sub now t) (f64_div (f64_of_int 1) (f64_of_int 120)) 0x3FD0000000000000)"

definition sample_or :: "SampledTransform \<Rightarrow> PoseRing option \<Rightarrow> f64 \<Rightarrow> SampledTransform option" where
  "sample_or fallback ring renderSec =
     map_option (\<lambda>st. if st_valid st then st else fallback)
       (case ring of None \<Rightarrow> Some no_transform | Some r \<Rightarrow> SampleAt r renderSec)"

definition glide :: "nat \<Rightarrow> body \<Rightarrow> SampledTransform \<Rightarrow> f64 \<Rightarrow> f32 \<Rightarrow> ghost_call list option" where
  "glide a b st dt delayMs =
     (let r = StepToward (bo_x b) (bo_y b) (bo_z b) st (f64_to_f32 dt) delayMs
      in map_option (\<lambda>h. [GhPosition a (ar_x r) (ar_y r) (ar_z r), GhHeading a h])
           (CMP_InterpolateHeading (bo_heading b) (st_yaw st)
              (clamp32 (f32_mul (f64_to_f32 dt) (f32_of_int 12)) 0x3DCCCCCD (f32_of_int 1))))"

definition render_time :: "session \<Rightarrow> f64 \<Rightarrow> f64" where
  "render_time s now = f64_sub now (f64_div (f32_to_f64 (CMP_EffectiveInterpDelayMs s)) (f64_of_int 1000))"

definition player_transform :: "player_pose \<Rightarrow> SampledTransform" where
  "player_transform p =
     no_transform\<lparr>st_x := pp_x p, st_y := pp_y p, st_z := pp_z p, st_yaw := pp_yaw p, st_pitch := pp_pitch p,
       st_speed := pp_speed p, st_vx := pp_vx p, st_vy := pp_vy p, st_flags := pp_flags p, st_valid := True\<rparr>"

definition actor_transform :: "actor_pose \<Rightarrow> SampledTransform" where
  "actor_transform p =
     no_transform\<lparr>st_x := ap_x p, st_y := ap_y p, st_z := ap_z p, st_yaw := ap_yaw p, st_pitch := ap_pitch p,
       st_speed := ap_speed p, st_vx := ap_vx p, st_vy := ap_vy p, st_flags := ap_flags p, st_valid := True\<rparr>"

definition shown_flags :: "u32 \<Rightarrow> f64 \<Rightarrow> u32 \<Rightarrow> ghosts \<Rightarrow> u32" where
  "shown_flags peer now flags w =
     (let g = ss_ghosts (gh_session w)
      in if gr_animOverridePeer g = peer \<and> f64_less now (gr_animOverrideUntil g) then gh_animFlags w else flags)"

text \<open>A body whose 3D is there is frozen, and dressed the first time; then it glides.\<close>

definition MoveGhost :: "ghost_env \<Rightarrow> nat \<Rightarrow> player_pose \<Rightarrow> ghosts \<Rightarrow> ghosts option" where
  "MoveGhost e a pose w =
     (let peer = pp_peerId pose; b = ge_body e peer; now = bo_now b
      in if \<not> bo_3D b
         then Some (EnsureGhost3D e b a (on_actor [GhPosition a (pp_x pose) (pp_y pose) (pp_z pose), GhHeading a (pp_yaw pose)] w))
         else case (if peer \<notin> set (gh_ready w)
                    then dress e b a peer (FreezeGhost a peer (w\<lparr>gh_ready := us_insert peer (gh_ready w)\<rparr>))
                    else Some (FreezeGhost a peer w)) of
           None \<Rightarrow> None
         | Some w1 \<Rightarrow>
             let s = gh_session w1;
                 dt = frame_time (um_find peer (gh_lastMove w1)) now;
                 w2 = w1\<lparr>gh_lastMove := um_put peer now (gh_lastMove w1)\<rparr>
             in case sample_or (player_transform pose) (um_find peer (nr_poseRing (ss_net s))) (render_time s now) of
                  None \<Rightarrow> None
                | Some st \<Rightarrow>
                    (case glide a b st dt (CMP_EffectiveInterpDelayMs s) of
                       None \<Rightarrow> None
                     | Some cs \<Rightarrow>
                         drive e b a peer (st_pitch st) (st_yaw st) (st_speed st) (st_vx st) (st_vy st)
                           (shown_flags peer now (st_flags st) w2) (on_actor cs w2)))"

subsection \<open>One pass over the players\<close>

definition DespawnGhosts :: "ghost_env \<Rightarrow> ghosts \<Rightarrow> ghosts" where
  "DespawnGhosts e w =
     ClearAllClones ((on_actor (map (\<lambda>(p, a). GhDisable a) (filter (\<lambda>(p, a). ge_alive e a) (gh_byPeer w))) w)
       \<lparr>gh_byPeer := [], gh_session := CMP_DespawnGhosts (gh_session w)\<rparr>)"

definition elsewhere :: "u32 \<Rightarrow> u32 \<Rightarrow> bool" where
  "elsewhere there loc \<longleftrightarrow> there \<noteq> 0 \<and> loc \<noteq> 0 \<and> there \<noteq> loc"

definition ghost_for :: "ghost_env \<Rightarrow> u32 \<Rightarrow> ghosts \<Rightarrow> nat option" where
  "ghost_for e peer w =
     (case um_find peer (gh_byPeer w) of None \<Rightarrow> None | Some a \<Rightarrow> if ge_alive e a then Some a else None)"

definition apply_peer :: "ghost_env \<Rightarrow> u32 \<times> player_pose \<Rightarrow> ghosts \<times> u32 list \<Rightarrow> (ghosts \<times> u32 list) option" where
  "apply_peer e = (\<lambda>(peer, pose) (w, live).
     (let s = gh_session w; loc = PlayerLocationForm (ge_game e)
      in if peer = nr_myPeerId (ss_net s) then Some (w, live)
         else if \<not> se_ghostSpawn (ss_settings s) then Some (w, live)
         else if elsewhere (pp_locationFormId pose) loc
           then Some (SetGhostNote ''remote in another cell (same-cell ghosts only)'' w, live)
         else
           let live' = us_insert peer live
           in case (case ghost_for e peer w of
                      Some a \<Rightarrow> Some (Some a, w)
                    | None \<Rightarrow>
                        map_option (\<lambda>(a, w1). (a, case a of None \<Rightarrow> w1 | Some h \<Rightarrow> w1\<lparr>gh_byPeer := um_put peer h (gh_byPeer w1)\<rparr>))
                          (SpawnGhost e (pp_peerId pose) w)) of
                None \<Rightarrow> None
              | Some (None, w1) \<Rightarrow> Some (w1, live')
              | Some (Some a, w1) \<Rightarrow> map_option (\<lambda>w2. (w2, live')) (MoveGhost e a pose w1)))"

fun apply_peers :: "ghost_env \<Rightarrow> (u32 \<times> player_pose) list \<Rightarrow> ghosts \<times> u32 list \<Rightarrow> (ghosts \<times> u32 list) option" where
  "apply_peers e [] wl = Some wl"
| "apply_peers e (x # xs) wl = (case apply_peer e x wl of None \<Rightarrow> None | Some wl' \<Rightarrow> apply_peers e xs wl')"

definition drop_gone :: "ghost_env \<Rightarrow> u32 list \<Rightarrow> ghosts \<Rightarrow> ghosts" where
  "drop_gone e live w =
     foldl (\<lambda>w (peer, a). if peer \<in> set live then w
              else let w1 = DropPeerClone peer (if ge_alive e a then on_actor [GhDisable a] w else w)
                   in w1\<lparr>gh_byPeer := um_erase peer (gh_byPeer w1)\<rparr>) w (gh_byPeer w)"

definition CMP_ApplyGhosts :: "ghost_env \<Rightarrow> ghosts \<Rightarrow> ghosts option" where
  "CMP_ApplyGhosts e w =
     (if \<not> player_in_cell (ge_game e) then Some w
      else
        let w1 = (if \<not> se_ghostSpawn (ss_settings (gh_session w)) then SetGhostNote ''Ghost.Spawn=0 (join only, no bodies)'' w else w)
        in map_option (\<lambda>(w2, live). drop_gone e live w2)
             (apply_peers e (nr_latestPose (ss_net (gh_session w))) (w1, [])))"

subsection \<open>One pass over the host's actors\<close>

definition MoveUnique :: "ghost_env \<Rightarrow> nat \<Rightarrow> actor_pose \<Rightarrow> ghosts \<Rightarrow> ghosts option" where
  "MoveUnique e a pose w =
     (let i = ap_refFormId pose; b = ge_body e i; now = bo_now b; s = gh_session w;
          dt = frame_time (um_find i (gh_uniqueMove w)) now;
          w1 = w\<lparr>gh_uniqueMove := um_put i now (gh_uniqueMove w)\<rparr>
      in case sample_or (actor_transform pose) (um_find i (nr_actorRing (ss_net s))) (render_time s now) of
           None \<Rightarrow> None
         | Some st \<Rightarrow>
             (case glide a b st dt (CMP_EffectiveInterpDelayMs s) of
                None \<Rightarrow> None
              | Some cs \<Rightarrow>
                  drive e b a i (st_pitch st) (st_yaw st) (st_speed st) (st_vx st) (st_vy st) (st_flags st)
                    (FreezeGhost a i (on_actor cs w1))))"

definition npc_id :: "engine_actor \<Rightarrow> u32 option" where
  "npc_id a = map_option np_formId (ea_npc a)"

definition actor_target :: "ghost_env \<Rightarrow> u32 \<Rightarrow> actor_pose \<Rightarrow> ghosts \<Rightarrow> nat option" where
  "actor_target e i pose w =
     (let s = gh_session w; now = gm_now (ge_game e)
      in case um_find i (ss_actorSeen s) of
           None \<Rightarrow> None
         | Some t \<Rightarrow>
             if f64_less 0x3FF8000000000000 (f64_sub now t) then None
             else if elsewhere (ap_locationFormId pose) (PlayerLocationForm (ge_game e)) then None
             else if ap_unique pose = 0 \<or> ap_dead pose \<noteq> 0 then None
             else case ge_form e (ap_refFormId pose) of
                    None \<Rightarrow> None
                  | Some a \<Rightarrow>
                      if ea_isPlayerRef a \<or> CMP_IsPaintableGhostBase (npc_id a) w then None else Some (ea_ptr a))"

definition apply_actor :: "ghost_env \<Rightarrow> u32 \<times> actor_pose \<Rightarrow> ghosts \<times> u32 list \<Rightarrow> (ghosts \<times> u32 list) option" where
  "apply_actor e = (\<lambda>(i, pose) (w, live).
     case actor_target e i pose w of
       None \<Rightarrow> Some (w, live)
     | Some a \<Rightarrow>
         let s = gh_session w
         in map_option (\<lambda>w'. (w', us_insert (ap_refFormId pose) live))
              (MoveUnique e a pose (w\<lparr>gh_session := s\<lparr>ss_puppeted := us_insert (ap_refFormId pose) (ss_puppeted s)\<rparr>\<rparr>)))"

fun apply_actors :: "ghost_env \<Rightarrow> (u32 \<times> actor_pose) list \<Rightarrow> ghosts \<times> u32 list \<Rightarrow> (ghosts \<times> u32 list) option" where
  "apply_actors e [] wl = Some wl"
| "apply_actors e (x # xs) wl = (case apply_actor e x wl of None \<Rightarrow> None | Some wl' \<Rightarrow> apply_actors e xs wl')"

definition release_gone :: "ghost_env \<Rightarrow> u32 list \<Rightarrow> ghosts \<Rightarrow> ghosts" where
  "release_gone e live w =
     foldl (\<lambda>w i. if i \<in> set live then w
              else let w1 = (case ge_form e i of None \<Rightarrow> w | Some a \<Rightarrow> CMP_UnfreezeRemoteActor (ea_ptr a) i w); s = gh_session w1
                   in w1\<lparr>gh_session := s\<lparr>ss_puppeted := us_erase i (ss_puppeted s)\<rparr>\<rparr>) w (ss_puppeted (gh_session w))"

definition CMP_ApplyHostActors :: "ghost_env \<Rightarrow> ghosts \<Rightarrow> ghosts option" where
  "CMP_ApplyHostActors e w =
     (let n = ss_net (gh_session w)
      in if \<not> nr_joined n \<or> nr_isHost n then Some w
         else if \<not> player_in_cell (ge_game e) then Some w
         else map_option (\<lambda>(w1, live). release_gone e live w1) (apply_actors e (nr_latestActors n) (w, [])))"

subsection \<open>What work on one body leaves alone\<close>

definition frozen :: "u32 \<Rightarrow> ghosts \<Rightarrow> bool" where
  "frozen i w \<longleftrightarrow> (\<exists>t > 0. um_find i (gh_freeze w) = Some t)"

definition sleeps :: "ghost_call \<Rightarrow> bool" where
  "sleeps c \<longleftrightarrow> (case c of GhEnableAI a on \<Rightarrow> \<not> on | _ \<Rightarrow> False)"

text \<open>
  Work on the body with id \<open>i\<close> changes neither who has a ghost nor the tables of the network, keeps what is frozen
  frozen, and never switches an AI off again when \<open>i\<close> was frozen before.
\<close>

definition touches :: "u32 \<Rightarrow> ghosts \<Rightarrow> ghosts \<Rightarrow> bool" where
  "touches i w w' \<longleftrightarrow>
     gh_byPeer w' = gh_byPeer w \<and> ss_net (gh_session w') = ss_net (gh_session w) \<and>
     ss_settings (gh_session w') = ss_settings (gh_session w) \<and> ss_actorSeen (gh_session w') = ss_actorSeen (gh_session w) \<and>
     ss_puppeted (gh_session w') = ss_puppeted (gh_session w) \<and>
     (\<forall>j. frozen j w \<longrightarrow> frozen j w') \<and>
     (\<exists>cs. gh_calls w' = gh_calls w @ cs \<and> (frozen i w \<longrightarrow> \<not> list_ex sleeps cs))"

definition same_clones :: "ghosts \<Rightarrow> ghosts \<Rightarrow> bool" where
  "same_clones w w' \<longleftrightarrow>
     gh_bases w' = gh_bases w \<and> gh_cloneIds w' = gh_cloneIds w \<and> gh_sourceFailed w' = gh_sourceFailed w"

definition body_work :: "u32 \<Rightarrow> ghosts \<Rightarrow> ghosts \<Rightarrow> bool" where
  "body_work i w w' \<longleftrightarrow> touches i w w' \<and> same_clones w w'"

named_theorems body_intro \<open>operations that only work on one body\<close>

lemma touches_refl [simp]: "touches i w w"
  by (simp add: touches_def)

lemma touches_trans: "touches i u v \<Longrightarrow> touches i v w \<Longrightarrow> touches i u w"
  unfolding touches_def by (metis append.assoc list_ex_append)

lemma work_refl [body_intro]: "body_work i w w"
  by (simp add: body_work_def same_clones_def)

lemma work_trans: "body_work i u v \<Longrightarrow> body_work i v w \<Longrightarrow> body_work i u w"
  unfolding body_work_def same_clones_def using touches_trans by metis

lemma work_on_actor [body_intro]: "\<not> list_ex sleeps cs \<Longrightarrow> body_work i w (on_actor cs w)"
  by (simp add: body_work_def same_clones_def touches_def on_actor_def frozen_def)

lemma work_note [body_intro]: "body_work i w (SetGhostNote n w)"
  by (simp add: body_work_def same_clones_def touches_def SetGhostNote_def frozen_def)

lemma work_freeze [body_intro]: "body_work i w (FreezeGhost a i w)"
  by (auto simp: body_work_def same_clones_def touches_def FreezeGhost_def frozen_def on_actor_def Let_def sleeps_def amap
      split: option.splits)

lemma work_puppets [body_intro]: "body_work i w (w\<lparr>gh_puppets := ps\<rparr>)"
  and work_ready [body_intro]: "body_work i w (w\<lparr>gh_ready := rs\<rparr>)"
  and work_last [body_intro]: "body_work i w (w\<lparr>gh_lastMove := ls\<rparr>)"
  and work_unique [body_intro]: "body_work i w (w\<lparr>gh_uniqueMove := us\<rparr>)"
  by (simp_all add: body_work_def same_clones_def touches_def frozen_def)

lemma gear_session:
  "ss_net (ApplyGhostInventory p s) = ss_net s \<and> ss_settings (ApplyGhostInventory p s) = ss_settings s \<and>
   ss_actorSeen (ApplyGhostInventory p s) = ss_actorSeen s \<and> ss_puppeted (ApplyGhostInventory p s) = ss_puppeted s"
  by (simp add: ApplyGhostInventory_def call_def Let_def split: option.split)

lemma looks_session:
  "ss_net (CMP_ApplyGhostAppearance p s) = ss_net s \<and> ss_settings (CMP_ApplyGhostAppearance p s) = ss_settings s \<and>
   ss_actorSeen (CMP_ApplyGhostAppearance p s) = ss_actorSeen s \<and> ss_puppeted (CMP_ApplyGhostAppearance p s) = ss_puppeted s"
  by (simp add: CMP_ApplyGhostAppearance_def call_def split: option.split)

lemma work_gear [body_intro]:
  "body_work i w (w\<lparr>gh_session := ApplyGhostInventory p (CMP_ApplyGhostAppearance p (gh_session w))\<rparr>)"
  by (simp add: body_work_def same_clones_def touches_def frozen_def gear_session looks_session)

lemma work_drive:
  assumes "drive e b a k pitch yaw speed vx vy flags w = Some w'"
  shows "body_work i w w'"
proof -
  from assms obtain ps cs where "w' = on_actor [GhGraph a cs] (w\<lparr>gh_puppets := ps\<rparr>)"
    by (auto simp: drive_def Let_def split: option.splits)
  then show ?thesis
    using work_trans [OF work_puppets work_on_actor] by (simp add: sleeps_def)
qed

lemma work_reapply: "CMP_ReapplyGhostPuppet e b peer w = Some w' \<Longrightarrow> body_work i w w'"
  using work_trans [OF work_puppets work_drive]
  by (auto simp: CMP_ReapplyGhostPuppet_def intro: body_intro split: option.splits if_splits)

lemma work_ensure [body_intro]: "body_work i w (EnsureGhost3D e b a w)"
  unfolding EnsureGhost3D_def by (rule work_on_actor) (simp add: sleeps_def)

lemma work_label [body_intro]: "body_work i w (CMP_SetGhostLabel a name w)"
  by (auto simp: CMP_SetGhostLabel_def sleeps_def intro: body_intro)

lemma work_dress: "dress e b a peer w = Some w' \<Longrightarrow> body_work i w w'"
  using work_trans [OF work_trans [OF work_gear work_label] work_reapply]
  by (auto simp: dress_def Let_def intro: body_intro split: option.splits)

lemma work_finish:
  assumes "FinishGhostSetup e a i w = Some w'"
  shows "body_work i w w'"
proof -
  let ?b = "ge_setup e i"
  define w1 where "w1 = on_actor ((if player_in_cell (ge_game e) then [GhCell a] else []) @ [GhEnable a, GhScale a]) w"
  define w2 where "w2 = EnsureGhost3D e ?b a (CMP_SetGhostLabel a (GhostLabel i w1) w1)"
  have 1: "body_work i w w1" unfolding w1_def by (rule work_on_actor) (simp add: sleeps_def)
  have 2: "body_work i w w2"
    unfolding w2_def by (rule work_trans [OF 1 work_trans [OF work_label work_ensure]])
  have 3: "body_work i w w3" if "dress e ?b a i (FreezeGhost a i (w2\<lparr>gh_ready := rs\<rparr>)) = Some v"
    "CMP_ReapplyGhostPuppet e ?b i v = Some w3" for rs v w3
    by (rule work_trans [OF 2 work_trans [OF work_ready work_trans [OF work_freeze
          work_trans [OF work_dress [OF that(1)] work_reapply [OF that(2)]]]]])
  from assms obtain w3 where w3: "w' = SetGhostNote [] w3" "body_work i w w3"
    using 2 3 unfolding FinishGhostSetup_def Let_def w1_def [symmetric] w2_def [symmetric]
    by (auto split: if_splits option.splits)
  then show ?thesis using work_trans [OF w3(2) work_note] by simp
qed

lemma glide_calls: "glide a b st dt ms = Some cs \<Longrightarrow> \<not> list_ex sleeps cs"
  by (auto simp: glide_def Let_def sleeps_def)

lemma work_move:
  assumes "MoveGhost e a pose w = Some w'"
  shows "body_work (pp_peerId pose) w w'"
proof -
  let ?i = "pp_peerId pose" let ?b = "ge_body e ?i"
  show ?thesis
  proof (cases "bo_3D ?b")
    case False
    then have "w' = EnsureGhost3D e ?b a (on_actor [GhPosition a (pp_x pose) (pp_y pose) (pp_z pose), GhHeading a (pp_yaw pose)] w)"
      using assms by (simp add: MoveGhost_def Let_def)
    then show ?thesis
      using work_trans [OF work_on_actor work_ensure] by (simp add: sleeps_def)
  next
    case True
    with assms obtain w1 st cs where
      1: "(if ?i \<notin> set (gh_ready w) then dress e ?b a ?i (FreezeGhost a ?i (w\<lparr>gh_ready := us_insert ?i (gh_ready w)\<rparr>))
           else Some (FreezeGhost a ?i w)) = Some w1"
      and cs: "\<exists>dt ms. glide a ?b st dt ms = Some cs"
      and d: "\<exists>fl ls. drive e ?b a ?i (st_pitch st) (st_yaw st) (st_speed st) (st_vx st) (st_vy st) fl
                (on_actor cs (w1\<lparr>gh_lastMove := ls\<rparr>)) = Some w'"
      unfolding MoveGhost_def Let_def by (fastforce split: option.splits)
    have a: "body_work ?i w w1"
      using 1 work_trans [OF work_ready work_trans [OF work_freeze work_dress]] work_freeze by (auto split: if_splits)
    have b: "\<not> list_ex sleeps cs" using cs glide_calls by blast
    from d obtain fl ls where "drive e ?b a ?i (st_pitch st) (st_yaw st) (st_speed st) (st_vx st) (st_vy st) fl
                (on_actor cs (w1\<lparr>gh_lastMove := ls\<rparr>)) = Some w'" by blast
    from work_trans [OF a work_trans [OF work_last work_trans [OF work_on_actor [OF b] work_drive [OF this]]]]
    show ?thesis .
  qed
qed

lemma work_move_unique:
  assumes "MoveUnique e a pose w = Some w'"
  shows "body_work (ap_refFormId pose) w w'"
proof -
  let ?i = "ap_refFormId pose" let ?b = "ge_body e ?i"
  from assms obtain st cs where
    cs: "\<exists>dt ms. glide a ?b st dt ms = Some cs"
    and d: "\<exists>fl us. drive e ?b a ?i (st_pitch st) (st_yaw st) (st_speed st) (st_vx st) (st_vy st) fl
              (FreezeGhost a ?i (on_actor cs (w\<lparr>gh_uniqueMove := us\<rparr>))) = Some w'"
    unfolding MoveUnique_def Let_def by (fastforce split: option.splits)
  have b: "\<not> list_ex sleeps cs" using cs glide_calls by blast
  from d obtain fl us where "drive e ?b a ?i (st_pitch st) (st_yaw st) (st_speed st) (st_vx st) (st_vy st) fl
              (FreezeGhost a ?i (on_actor cs (w\<lparr>gh_uniqueMove := us\<rparr>))) = Some w'" by blast
  from work_trans [OF work_unique work_trans [OF work_on_actor [OF b] work_trans [OF work_freeze work_drive [OF this]]]]
  show ?thesis .
qed

subsection \<open>Spawning\<close>

text \<open>The form a clone for a peer gets, and whether there is something to clone.\<close>

definition gives :: "ghost_env \<Rightarrow> u32 \<Rightarrow> u32 option" where
  "gives e p =
     (case ge_dup e p of Some (Some n) \<Rightarrow> Some n
      | _ \<Rightarrow> (case ge_factory e p of Some (Some n) \<Rightarrow> Some n | _ \<Rightarrow> None))"

definition has_source :: "ghost_env \<Rightarrow> settings \<Rightarrow> bool" where
  "has_source e st \<longleftrightarrow> NpcFromForm (ge_source e (se_ghostSourceForm st)) \<noteq> None"

definition base_for :: "ghost_env \<Rightarrow> u32 \<Rightarrow> ghosts \<Rightarrow> u32 option" where
  "base_for e p w =
     (case um_find p (gh_bases w) of
        Some n \<Rightarrow> Some n
      | None \<Rightarrow> if gh_sourceFailed w \<or> \<not> has_source e (ss_settings (gh_session w)) then None else gives e p)"

lemma touches_note: "touches i w (SetGhostNote n w)"
  and touches_clone_fields:
    "touches i w (w\<lparr>gh_cloneIds := c\<rparr>)" "touches i w (w\<lparr>gh_bases := b\<rparr>)" "touches i w (w\<lparr>gh_sourceFailed := f\<rparr>)"
  by (simp_all add: touches_def frozen_def SetGhostNote_def)

lemma source_cases:
  assumes "FindCloneSource e w = (r, w1)"
  shows "touches i w w1 \<and> gh_bases w1 = gh_bases w \<and> gh_cloneIds w1 = gh_cloneIds w \<and>
    (r \<noteq> None \<longleftrightarrow> \<not> gh_sourceFailed w \<and> has_source e (ss_settings (gh_session w))) \<and>
    (gh_sourceFailed w1 \<longleftrightarrow> gh_sourceFailed w \<or> \<not> has_source e (ss_settings (gh_session w)))"
proof -
  have t: "touches i w (SetGhostNote n (w\<lparr>gh_sourceFailed := f\<rparr>))" for n f
    by (rule touches_trans [OF touches_clone_fields(3) touches_note])
  define src where "src = NpcFromForm (ge_source e (se_ghostSourceForm (ss_settings (gh_session w))))"
  show ?thesis
    using assms t unfolding FindCloneSource_def has_source_def src_def [symmetric]
    by (cases src) (auto simp: SetGhostNote_def split: if_splits)
qed

lemma touches_finalize: "touches i w (on_actor [GhClone n] (w\<lparr>gh_cloneIds := c\<rparr>))"
  by (auto simp: touches_def frozen_def on_actor_def sleeps_def)

lemma new_clone_cases:
  assumes "new_clone e p w = (r, w')"
  shows "r = gives e p \<and> touches i w w' \<and> gh_bases w' = gh_bases w \<and> gh_sourceFailed w' = gh_sourceFailed w \<and>
    gh_cloneIds w' = (case gives e p of None \<Rightarrow> gh_cloneIds w | Some n \<Rightarrow> us_insert n (gh_cloneIds w))"
  using assms touches_note touches_finalize
  by (auto simp: new_clone_def gives_def FinalizeClone_def SetGhostNote_def on_actor_def split: option.splits)

lemma clone_cases:
  assumes "CloneGhostBase e p w = (r, w')"
  shows "r = base_for e p w \<and> touches i w w' \<and>
    (gh_sourceFailed w' \<longrightarrow> gh_sourceFailed w \<or> \<not> has_source e (ss_settings (gh_session w))) \<and>
    (gh_sourceFailed w \<longrightarrow> gh_sourceFailed w') \<and>
    (if um_find p (gh_bases w) = None \<and> r \<noteq> None
     then gives e p = r \<and> gh_bases w' = um_put p (the r) (gh_bases w) \<and> gh_cloneIds w' = us_insert (the r) (gh_cloneIds w)
     else gh_bases w' = gh_bases w \<and> gh_cloneIds w' = gh_cloneIds w)"
proof (cases "um_find p (gh_bases w)")
  case (Some n)
  then have "r = Some n" "w' = w" using assms by (simp_all add: CloneGhostBase_def)
  with Some show ?thesis by (simp add: base_for_def)
next
  case None
  obtain src w1 where f: "FindCloneSource e w = (src, w1)" by fastforce
  note fs = source_cases [OF f, of i]
  show ?thesis
  proof (cases src)
    case None': None
    then have "r = None" "w' = w1" using assms f None by (simp_all add: CloneGhostBase_def)
    with fs None' None show ?thesis by (auto simp: base_for_def)
  next
    case (Some x)
    obtain n w2 where n: "new_clone e p w1 = (n, w2)" by fastforce
    note ns = new_clone_cases [OF n, of i]
    have src: "\<not> gh_sourceFailed w" "has_source e (ss_settings (gh_session w))" using fs Some by auto
    have t: "touches i w w2" using fs ns touches_trans by blast
    have r: "r = n" "w' = (case n of None \<Rightarrow> w2 | Some k \<Rightarrow> w2\<lparr>gh_bases := um_put p k (gh_bases w2)\<rparr>)"
      using assms f n None Some by (auto simp: CloneGhostBase_def split: option.splits)
    have "touches i w w'"
      using t touches_trans [OF t touches_clone_fields(2)] by (simp add: r(2) split: option.split)
    with fs ns src None show ?thesis
      by (auto simp: r base_for_def split: option.splits)
  qed
qed

definition spawn_result :: "ghost_env \<Rightarrow> u32 \<Rightarrow> ghosts \<Rightarrow> nat option" where
  "spawn_result e p w =
     (if \<not> ge_dataHandler e \<or> \<not> player_in_cell (ge_game e) then None
      else case base_for e p w of None \<Rightarrow> None | Some n \<Rightarrow> if forbidden_actor_base n then None else ge_place e p)"

lemma spawn_cases:
  assumes "SpawnGhost e p w = Some (r, w')"
  obtains b w1 where "CloneGhostBase e p w = (b, w1)" "body_work p w1 w'" "r = spawn_result e p w"
proof -
  obtain b w1 where c: "CloneGhostBase e p w = (b, w1)" by fastforce
  have b: "b = base_for e p w" using clone_cases [OF c] by simp
  have pl: "gm_player (ge_game e) = None \<Longrightarrow> \<not> player_in_cell (ge_game e)" by (simp add: player_in_cell_def)
  have "body_work p w1 w' \<and> r = spawn_result e p w"
    using assms work_finish work_note [of p w1] work_refl [of p w1] pl
    by (auto simp: SpawnGhost_def c b [symmetric] spawn_result_def split: if_splits option.splits)
  then show ?thesis using that c by blast
qed

text \<open>The body of a peer after a pass: the old one while it is there, else the new one.\<close>

definition ghost_after :: "ghost_env \<Rightarrow> ghosts \<Rightarrow> u32 \<Rightarrow> nat option" where
  "ghost_after e w p =
     (case ghost_for e p w of
        Some a \<Rightarrow> Some a
      | None \<Rightarrow> (case spawn_result e p w of Some a \<Rightarrow> Some a | None \<Rightarrow> um_find p (gh_byPeer w)))"

definition wanted :: "ghost_env \<Rightarrow> ghosts \<Rightarrow> u32 \<Rightarrow> player_pose \<Rightarrow> bool" where
  "wanted e w p q \<longleftrightarrow>
     p \<noteq> nr_myPeerId (ss_net (gh_session w)) \<and> se_ghostSpawn (ss_settings (gh_session w)) \<and>
     \<not> elsewhere (pp_locationFormId q) (PlayerLocationForm (ge_game e))"

text \<open>What handling one peer may change for the others: nothing.\<close>

definition others_same :: "ghost_env \<Rightarrow> u32 \<Rightarrow> ghosts \<Rightarrow> ghosts \<Rightarrow> bool" where
  "others_same e p w w' \<longleftrightarrow>
     ss_net (gh_session w') = ss_net (gh_session w) \<and> ss_settings (gh_session w') = ss_settings (gh_session w) \<and>
     (gh_sourceFailed w' \<longrightarrow> gh_sourceFailed w \<or> \<not> has_source e (ss_settings (gh_session w))) \<and>
     (gh_sourceFailed w \<longrightarrow> gh_sourceFailed w') \<and>
     (\<forall>j. j \<noteq> p \<longrightarrow> um_find j (gh_bases w') = um_find j (gh_bases w) \<and> um_find j (gh_byPeer w') = um_find j (gh_byPeer w))"

lemma others_after:
  assumes "others_same e p w w'" "j \<noteq> p"
  shows "ghost_after e w' j = ghost_after e w j \<and> wanted e w' j q = wanted e w j q"
proof -
  have "base_for e j w' = base_for e j w"
    using assms by (auto simp: base_for_def others_same_def split: option.split)
  moreover from this have "spawn_result e j w' = spawn_result e j w" by (simp add: spawn_result_def)
  ultimately show ?thesis
    using assms by (simp add: ghost_after_def ghost_for_def wanted_def others_same_def cong: option.case_cong)
qed

lemma work_fields:
  assumes "body_work i w w'"
  shows "gh_byPeer w' = gh_byPeer w" "ss_net (gh_session w') = ss_net (gh_session w)"
    "ss_settings (gh_session w') = ss_settings (gh_session w)" "gh_bases w' = gh_bases w" "gh_cloneIds w' = gh_cloneIds w"
    "gh_sourceFailed w' = gh_sourceFailed w"
  using assms by (simp_all add: body_work_def touches_def same_clones_def)

lemma spawn_others:
  assumes "SpawnGhost e p w = Some (r, w')"
  shows "others_same e p w w' \<and> gh_byPeer w' = gh_byPeer w \<and> r = spawn_result e p w"
proof -
  obtain b w1 where c: "CloneGhostBase e p w = (b, w1)" "body_work p w1 w'" "r = spawn_result e p w"
    using spawn_cases [OF assms] by metis
  note k = clone_cases [OF c(1), of p] work_fields [OF c(2)]
  have "gh_byPeer w1 = gh_byPeer w" "ss_net (gh_session w1) = ss_net (gh_session w)" "ss_settings (gh_session w1) = ss_settings (gh_session w)"
    using k(1) by (simp_all add: touches_def)
  with k c(3) show ?thesis by (auto simp: others_same_def amap split: if_splits)
qed

lemma peer_step:
  assumes "apply_peer e (p, q) (w, live) = Some (w', live')" and "pp_peerId q = p"
  shows "others_same e p w w' \<and> live' = (if wanted e w p q then us_insert p live else live) \<and>
    um_find p (gh_byPeer w') = (if wanted e w p q then ghost_after e w p else um_find p (gh_byPeer w))"
proof (cases "wanted e w p q")
  case False
  then have "w' = w \<or> w' = SetGhostNote ''remote in another cell (same-cell ghosts only)'' w" "live' = live"
    using assms(1) by (auto simp: apply_peer_def wanted_def Let_def split: if_splits)
  with False show ?thesis by (auto simp: others_same_def SetGhostNote_def)
next
  case True
  note w = True [unfolded wanted_def]
  show ?thesis
  proof (cases "ghost_for e p w")
    case (Some a)
    with assms(1) w have "MoveGhost e a q w = Some w'" "live' = us_insert p live"
      by (auto simp: apply_peer_def Let_def)
    with work_fields [OF work_move [OF this(1)]] Some True show ?thesis
      by (auto simp: others_same_def ghost_after_def ghost_for_def split: option.splits if_splits)
  next
    case None
    with assms w obtain r w1 where s: "SpawnGhost e p w = Some (r, w1)"
      and r: "r = None \<Longrightarrow> w' = w1" "\<And>a. r = Some a \<Longrightarrow> MoveGhost e a q (w1\<lparr>gh_byPeer := um_put p a (gh_byPeer w1)\<rparr>) = Some w'"
      and l: "live' = us_insert p live"
      by (auto simp: apply_peer_def Let_def split: option.splits)
    note o = spawn_others [OF s]
    show ?thesis
    proof (cases r)
      case n: None
      with o r(1) True None l show ?thesis by (simp add: ghost_after_def)
    next
      case (Some a)
      have "spawn_result e p w = Some a" using o Some by simp
      then have "ghost_after e w p = Some a" using None by (simp add: ghost_after_def)
      with work_fields [OF work_move [OF r(2) [OF Some]]] o True l show ?thesis
        by (auto simp: others_same_def amap)
    qed
  qed
qed

lemma peers_step:
  assumes "apply_peers e xs (w, live) = Some (w', live')" "um_ok xs" "\<forall>(p, q) \<in> set xs. pp_peerId q = p"
  shows "(\<forall>j. um_find j (gh_byPeer w') =
      (case um_find j xs of Some q \<Rightarrow> if wanted e w j q then ghost_after e w j else um_find j (gh_byPeer w)
       | None \<Rightarrow> um_find j (gh_byPeer w))) \<and>
    set live' = set live \<union> {j. \<exists>q. um_find j xs = Some q \<and> wanted e w j q}"
  using assms
proof (induction xs arbitrary: w live)
  case (Cons x xs)
  obtain p q where x: "x = (p, q)" by fastforce
  from Cons.prems(1) obtain w1 live1 where 1: "apply_peer e (p, q) (w, live) = Some (w1, live1)"
    and 2: "apply_peers e xs (w1, live1) = Some (w', live')"
    by (auto simp: x split: option.splits)
  have id: "pp_peerId q = p" using Cons.prems(3) by (simp add: x)
  note s = peer_step [OF 1 id]
  have ok: "um_ok xs" "um_find p xs = None" "\<forall>(p, q) \<in> set xs. pp_peerId q = p"
    using Cons.prems(2,3) by (auto simp: um_ok_def x um_find_None_iff)
  note IH = Cons.IH [OF 2 ok(1,3)]
  have find: "um_find j (x # xs) = (if j = p then Some q else um_find j xs)" for j
    by (simp add: um_find_def x)
  have keep: "j \<noteq> p \<Longrightarrow> ghost_after e w1 j = ghost_after e w j \<and> wanted e w1 j k = wanted e w j k \<and>
      um_find j (gh_byPeer w1) = um_find j (gh_byPeer w)" for j k
    using others_after [OF conjunct1 [OF s], of j k] s by (simp add: others_same_def)
  have "um_find j (gh_byPeer w') = (case um_find j (x # xs) of
      Some q \<Rightarrow> if wanted e w j q then ghost_after e w j else um_find j (gh_byPeer w) | None \<Rightarrow> um_find j (gh_byPeer w))" for j
    using IH s ok(2) keep [of j] by (cases "j = p") (simp_all add: find split: option.split)
  moreover have "set live' = set live \<union> {j. \<exists>q. um_find j (x # xs) = Some q \<and> wanted e w j q}"
    using IH s ok(2) keep by (auto simp: find split: if_splits)
  ultimately show ?case by blast
qed (simp add: um_find_def)

lemma drop_one_fields:
  "gh_byPeer (DropPeerClone p w) = gh_byPeer w"
  by (simp add: DropPeerClone_def Let_def split: option.split)

lemma drop_gone_find:
  "um_find j (gh_byPeer (drop_gone e live w)) = (if j \<in> set live then um_find j (gh_byPeer w) else None)"
proof -
  let ?f = "\<lambda>w (peer, a). if peer \<in> set live then w
              else let w1 = DropPeerClone peer (if ge_alive e a then on_actor [GhDisable a] w else w)
                   in w1\<lparr>gh_byPeer := um_erase peer (gh_byPeer w1)\<rparr>"
  have "um_find j (gh_byPeer (foldl ?f u xs)) = (if j \<in> fst ` set xs \<and> j \<notin> set live then None else um_find j (gh_byPeer u))" for u xs
  proof (induction xs arbitrary: u)
    case (Cons x xs)
    obtain p a where x: "x = (p, a)" by fastforce
    show ?case by (auto simp: Cons.IH x Let_def drop_one_fields on_actor_def amap)
  qed simp
  then show ?thesis
    unfolding drop_gone_def by (auto simp: um_find_None_iff)
qed

lemma ghosts_after_pass:
  assumes "CMP_ApplyGhosts e w = Some w'" "player_in_cell (ge_game e)"
    and "um_ok (nr_latestPose (ss_net (gh_session w)))"
    and "\<forall>(p, q) \<in> set (nr_latestPose (ss_net (gh_session w))). pp_peerId q = p"
  shows "um_find p (gh_byPeer w') =
    (case um_find p (nr_latestPose (ss_net (gh_session w))) of
       None \<Rightarrow> None
     | Some q \<Rightarrow> if wanted e w p q then ghost_after e w p else None)"
proof -
  define w0 where "w0 = (if \<not> se_ghostSpawn (ss_settings (gh_session w)) then SetGhostNote ''Ghost.Spawn=0 (join only, no bodies)'' w else w)"
  from assms(1,2) obtain w2 live where
    a: "apply_peers e (nr_latestPose (ss_net (gh_session w))) (w0, []) = Some (w2, live)" and w': "w' = drop_gone e live w2"
    by (auto simp: CMP_ApplyGhosts_def Let_def w0_def)
  have same: "ghost_after e w0 j = ghost_after e w j" "wanted e w0 j q = wanted e w j q" for j q
    by (simp_all add: w0_def SetGhostNote_def ghost_after_def ghost_for_def spawn_result_def base_for_def wanted_def
        cong: option.case_cong)
  show ?thesis
    using peers_step [OF a assms(3,4)] by (auto simp: w' drop_gone_find same split: option.splits)
qed

text \<open>
  C15: after a pass over the players in a cell, the ghosts are exactly those of the other players whose pose is
  not of another place, if ghosts are wanted at all: the body that was there while its handle resolves, else the one
  that could be created, else what was noted before. Whoever left, went elsewhere or is the player has none.
\<close>

theorem ghosts_are_the_players_here:
  assumes "CMP_ApplyGhosts e w = Some w'" "player_in_cell (ge_game e)"
    and "um_ok (nr_latestPose (ss_net (gh_session w)))"
    and "\<forall>(p, q) \<in> set (nr_latestPose (ss_net (gh_session w))). pp_peerId q = p"
  shows "um_find p (gh_byPeer w') =
    (case um_find p (nr_latestPose (ss_net (gh_session w))) of
       None \<Rightarrow> None
     | Some q \<Rightarrow> if wanted e w p q then ghost_after e w p else None)"
  using ghosts_after_pass [OF assms] .

text \<open>A pass always ends while no body has its 3D: only angles are wrapped in loops, and only then.\<close>

lemma no_3D_returns:
  assumes "\<forall>p. \<not> bo_3D (ge_setup e p) \<and> \<not> bo_3D (ge_body e p)"
  shows "CMP_ApplyGhosts e w \<noteq> None"
proof -
  have f: "FinishGhostSetup e a p u \<noteq> None" and m: "MoveGhost e a q u \<noteq> None" for a p q u
    using assms by (simp_all add: FinishGhostSetup_def MoveGhost_def Let_def)
  have s: "SpawnGhost e p u \<noteq> None" for p u
    using f by (simp add: SpawnGhost_def split: prod.split option.split)
  have "apply_peer e x ul \<noteq> None" for x ul
    using s m by (cases x; cases ul) (auto simp: apply_peer_def Let_def simp del: not_None_eq split: option.split)
  then have "apply_peers e xs ul \<noteq> None" for xs ul
    by (induction xs arbitrary: ul) (simp_all split: option.split)
  then show ?thesis by (simp add: CMP_ApplyGhosts_def Let_def)
qed

text \<open>A player with a pose in the same worldspace gets the actor the engine creates.\<close>

definition demo_body :: body where
  "demo_body = \<lparr>bo_sameCell = True, bo_disabled = False, bo_3D = False, bo_x = 0, bo_y = 0, bo_z = 0, bo_heading = 0,
     bo_motion = \<lparr>am_pitch = 0, am_speed = 0, am_vx = 0, am_vy = 0, am_sneaking = False, am_sprinting = False, am_drawn = False,
       am_reloading = False, am_firing = False, am_fireSighted = False, am_sighted = False, am_melee = False,
       am_jumping = False, am_dead = False\<rparr>,
     bo_puppet = demo_puppet, bo_now = 0\<rparr>"

definition game_of_cell :: game where
  "game_of_cell =
     \<lparr>gm_now = 0, gm_player = Some
        \<lparr>ea_ptr = 0, ea_formId = 0x14, ea_isPlayerRef = True, ea_dead = False, ea_disabled = False, ea_npc = None,
         ea_cell = Some \<lparr>ce_interior = False, ce_formId = 0x1000, ce_worldSpace = Some 0x3C\<rparr>,
         ea_x = 0, ea_y = 0, ea_z = 0, ea_heading = 0, ea_motion = (0, 0, 0, 0, 0)\<rparr>,
      gm_days = None, gm_hour = None, gm_currentWeather = None, gm_overrideWeather = None, gm_lists = None, gm_mods = None,
      gm_ghostActor = (\<lambda>_. False), gm_weatherForm = (\<lambda>_. False), gm_equipKey = 0, gm_invKey = 0, gm_appearance = None,
      gm_inventory = None, gm_sock = \<lparr>sk_startup = True, sk_udpSocket = True, sk_tcpSocket = True, sk_pton = (\<lambda>_. True),
        sk_connect = True, sk_send = (\<lambda>k n. int n), sk_sendto = (\<lambda>_. True)\<rparr>, gm_recv = [], gm_recvfrom = []\<rparr>"

definition demo_ghost_env :: ghost_env where
  "demo_ghost_env = \<lparr>ge_game = game_of_cell, ge_taskQueue = True, ge_dataHandler = True, ge_alive = \<lambda>_. True,
     ge_source = Some, ge_dup = \<lambda>p. Some (Some (0xFF000800 + p)), ge_factory = \<lambda>_. None, ge_place = \<lambda>_. Some 7,
     ge_setup = \<lambda>_. demo_body, ge_body = \<lambda>_. demo_body, ge_form = \<lambda>_. None\<rparr>"

definition demo_ghosts :: ghosts where
  "demo_ghosts = ghosts_init ((session_init default_settings)\<lparr>ss_net := net_runtime_init\<lparr>nr_joined := True, nr_myPeerId := 1,
     nr_latestPose := [(2, demo_pose 0)]\<rparr>\<rparr>)"

lemma demo_ghosts_returns: "\<exists>w'. CMP_ApplyGhosts demo_ghost_env demo_ghosts = Some w'"
  using no_3D_returns [of demo_ghost_env demo_ghosts] by (auto simp: demo_ghost_env_def demo_body_def)

lemma demo_ghosts_facts:
  "player_in_cell (ge_game demo_ghost_env)" "nr_latestPose (ss_net (gh_session demo_ghosts)) = [(2, demo_pose 0)]"
  "ghost_after demo_ghost_env demo_ghosts 2 = Some 7" "wanted demo_ghost_env demo_ghosts 2 (demo_pose 0)"
proof -
  show c: "player_in_cell (ge_game demo_ghost_env)" 
    by (simp add: demo_ghost_env_def game_of_cell_def player_in_cell_def)
  have loc: "PlayerLocationForm (ge_game demo_ghost_env) = 0x3C"
    by (simp add: demo_ghost_env_def game_of_cell_def PlayerLocationForm_def ActorLocationForm_def cell_location_def)
  show poses: "nr_latestPose (ss_net (gh_session demo_ghosts)) = [(2, demo_pose 0)]"
    by (simp add: demo_ghosts_def ghosts_init_def)
  have b: "base_for demo_ghost_env 2 demo_ghosts = Some 0xFF000802"
    by (simp add: base_for_def demo_ghosts_def ghosts_init_def um_find_def has_source_def demo_ghost_env_def NpcFromForm_def
        gives_def session_init_def default_settings_def forbidden_actor_base_def kPlayerBaseForm_def
        kEncWorkshopNpcForm_def)
  have s: "spawn_result demo_ghost_env 2 demo_ghosts = Some 7"
    using c b by (simp add: spawn_result_def forbidden_actor_base_def kPlayerBaseForm_def kEncWorkshopNpcForm_def)
      (simp add: demo_ghost_env_def)
  show a: "ghost_after demo_ghost_env demo_ghosts 2 = Some 7"
    using s by (simp add: ghost_after_def ghost_for_def) (simp add: demo_ghosts_def ghosts_init_def um_find_def)
  show wt: "wanted demo_ghost_env demo_ghosts 2 (demo_pose 0)"
    by (simp add: wanted_def loc elsewhere_def) (simp add: demo_ghosts_def ghosts_init_def session_init_def default_settings_def demo_pose_def)
qed

theorem ghosts_are_the_players_here_witness:
  "\<exists>w'. CMP_ApplyGhosts demo_ghost_env demo_ghosts = Some w' \<and> um_find 2 (gh_byPeer w') = Some 7 \<and> um_find 3 (gh_byPeer w') = None"
proof -
  note f = demo_ghosts_facts
  obtain w' where w': "CMP_ApplyGhosts demo_ghost_env demo_ghosts = Some w'" using demo_ghosts_returns by blast
  from ghosts_are_the_players_here [OF w' f(1), of 2] ghosts_are_the_players_here [OF w' f(1), of 3] f(3,4) show ?thesis
    by (simp add: f(2) um_ok_def w' um_find_def) (simp add: demo_pose_def)
qed

subsection \<open>Every ghost has a base of its own\<close>

definition clones_ok :: "ghosts \<Rightarrow> bool" where
  "clones_ok w \<longleftrightarrow>
     (\<forall>n. n \<in> set (gh_cloneIds w) \<longleftrightarrow> (\<exists>p. um_find p (gh_bases w) = Some n)) \<and>
     (\<forall>p q n. um_find p (gh_bases w) = Some n \<and> um_find q (gh_bases w) = Some n \<longrightarrow> p = q) \<and>
     (\<forall>p a. um_find p (gh_byPeer w) = Some a \<longrightarrow> (\<exists>n. um_find p (gh_bases w) = Some n \<and> \<not> forbidden_actor_base n))"

text \<open>The engine gives forms that are not in use, a different one for each peer.\<close>

definition fresh_forms :: "ghost_env \<Rightarrow> u32 set \<Rightarrow> ghosts \<Rightarrow> bool" where
  "fresh_forms e ps w \<longleftrightarrow>
     (\<forall>p \<in> ps. \<forall>n. gives e p = Some n \<longrightarrow> n \<notin> set (gh_cloneIds w)) \<and>
     (\<forall>p \<in> ps. \<forall>q \<in> ps. \<forall>n. gives e p = Some n \<and> gives e q = Some n \<longrightarrow> p = q)"

lemma work_clones_ok: "body_work i w w' \<Longrightarrow> clones_ok w \<Longrightarrow> clones_ok w'"
  using work_fields by (simp add: clones_ok_def)

lemma spawn_clones:
  assumes "SpawnGhost e p w = Some (r, w')" "clones_ok w" "\<And>n. gives e p = Some n \<Longrightarrow> n \<notin> set (gh_cloneIds w)"
  shows "clones_ok w' \<and> (\<forall>a. r = Some a \<longrightarrow> clones_ok (w'\<lparr>gh_byPeer := um_put p a (gh_byPeer w')\<rparr>)) \<and>
    (\<forall>n \<in> set (gh_cloneIds w'). n \<in> set (gh_cloneIds w) \<or> gives e p = Some n)"
proof -
  obtain b w1 where c: "CloneGhostBase e p w = (b, w1)" "body_work p w1 w'" "r = spawn_result e p w"
    using spawn_cases [OF assms(1)] by metis
  note k = clone_cases [OF c(1), of p] and f = work_fields [OF c(2)]
  have keep: "gh_byPeer w' = gh_byPeer w" using k f by (simp add: touches_def)
  have b: "b = base_for e p w" using k by simp
  consider (new) n where "um_find p (gh_bases w) = None" "b = Some n" "gives e p = Some n" "gh_bases w' = um_put p n (gh_bases w)"
      "gh_cloneIds w' = us_insert n (gh_cloneIds w)"
    | (old) "gh_bases w' = gh_bases w" "gh_cloneIds w' = gh_cloneIds w" "um_find p (gh_bases w) = b"
  proof (cases "um_find p (gh_bases w) = None \<and> b \<noteq> None")
    case True
    then obtain n where "b = Some n" by blast
    with True k f show ?thesis by (intro new [of n]) auto
  next
    case False
    then have "um_find p (gh_bases w) = b" by (cases "um_find p (gh_bases w)") (simp_all add: b base_for_def)
    with False k f show ?thesis by (intro old) auto
  qed
  then have ok: "clones_ok w' \<and> (\<forall>n \<in> set (gh_cloneIds w'). n \<in> set (gh_cloneIds w) \<or> gives e p = Some n) \<and> um_find p (gh_bases w') = b"
  proof cases
    case new
    then show ?thesis
      using assms(2) assms(3) [OF new(3)] by (auto simp: clones_ok_def keep amap) (metis option.distinct(1))+
  next
    case old
    then show ?thesis using assms(2) by (auto simp: clones_ok_def keep)
  qed
  moreover have "\<exists>n. b = Some n \<and> \<not> forbidden_actor_base n" if "r = Some a" for a
    using that c(3) by (auto simp: spawn_result_def b split: if_splits option.splits)
  ultimately show ?thesis by (auto simp: clones_ok_def amap)
qed

lemma peer_clones:
  assumes "apply_peer e (p, q) (w, live) = Some (w', live')" "pp_peerId q = p" "clones_ok w"
    "\<And>n. gives e p = Some n \<Longrightarrow> n \<notin> set (gh_cloneIds w)"
  shows "clones_ok w' \<and> (\<forall>n \<in> set (gh_cloneIds w'). n \<in> set (gh_cloneIds w) \<or> gives e p = Some n)"
proof (cases "wanted e w p q")
  case False
  then have "w' = w \<or> w' = SetGhostNote ''remote in another cell (same-cell ghosts only)'' w"
    using assms(1) by (auto simp: apply_peer_def wanted_def Let_def split: if_splits)
  with assms(3) show ?thesis using work_clones_ok [OF work_note] work_fields(5) [OF work_note] by metis
next
  case True
  note w = True [unfolded wanted_def]
  show ?thesis
  proof (cases "ghost_for e p w")
    case (Some a)
    with assms(1) w have "MoveGhost e a q w = Some w'" by (auto simp: apply_peer_def Let_def)
    from work_move [OF this] show ?thesis using work_clones_ok work_fields(5) assms(3) by metis
  next
    case None
    with assms w obtain r w1 where s: "SpawnGhost e p w = Some (r, w1)"
      and r: "r = None \<Longrightarrow> w' = w1" "\<And>a. r = Some a \<Longrightarrow> MoveGhost e a q (w1\<lparr>gh_byPeer := um_put p a (gh_byPeer w1)\<rparr>) = Some w'"
      by (auto simp: apply_peer_def Let_def split: option.splits)
    note c = spawn_clones [OF s assms(3,4)]
    show ?thesis
    proof (cases r)
      case n: None
      with r(1) c show ?thesis by simp
    next
      case (Some a)
      note m = work_move [OF r(2) [OF Some]]
      show ?thesis using work_clones_ok [OF m] work_fields(5) [OF m] c Some by simp
    qed
  qed
qed

lemma peers_clones:
  assumes "apply_peers e xs (w, live) = Some (w', live')" "um_ok xs" "\<forall>(p, q) \<in> set xs. pp_peerId q = p" "clones_ok w"
    "fresh_forms e (fst ` set xs) w"
  shows "clones_ok w'"
  using assms
proof (induction xs arbitrary: w live)
  case (Cons x xs)
  obtain p q where x: "x = (p, q)" by fastforce
  from Cons.prems(1) obtain w1 live1 where 1: "apply_peer e (p, q) (w, live) = Some (w1, live1)"
    and 2: "apply_peers e xs (w1, live1) = Some (w', live')"
    by (auto simp: x split: option.splits)
  have id: "pp_peerId q = p" and ok: "um_ok xs" "p \<notin> fst ` set xs" "\<forall>(p, q) \<in> set xs. pp_peerId q = p"
    using Cons.prems(2,3) by (auto simp: x um_ok_def)
  have keys: "fst ` set (x # xs) = insert p (fst ` set xs)" by (simp add: x)
  have f: "gives e r = Some n \<Longrightarrow> n \<notin> set (gh_cloneIds w)" "gives e r = Some n \<Longrightarrow> gives e r' = Some n \<Longrightarrow> r = r'"
    if "r \<in> insert p (fst ` set xs)" "r' \<in> insert p (fst ` set xs)" for r r' n
    using Cons.prems(5) [unfolded fresh_forms_def keys] that by blast+
  have "\<And>n. gives e p = Some n \<Longrightarrow> n \<notin> set (gh_cloneIds w)" using f(1) by blast
  note s = peer_clones [OF 1 id Cons.prems(4) this]
  have "n \<notin> set (gh_cloneIds w1)" if r: "r \<in> fst ` set xs" "gives e r = Some n" for r n
    using f [of r p n] r s ok(2) by blast
  with f(2) have "fresh_forms e (fst ` set xs) w1" unfolding fresh_forms_def by blast
  with Cons.IH [OF 2 ok(1,3)] s show ?case by blast
qed simp

lemma drop_clones:
  assumes "clones_ok w"
  shows "clones_ok (drop_gone e live w)"
proof -
  have one: "clones_ok ((DropPeerClone p u)\<lparr>gh_byPeer := um_erase p (gh_byPeer u)\<rparr>)" if "clones_ok u" for p u
  proof (cases "um_find p (gh_bases u)")
    case None
    with that show ?thesis by (simp add: clones_ok_def DropPeerClone_def amap)
  next
    case (Some n)
    note ok = that [unfolded clones_ok_def]
    have "m \<in> set (us_erase n (gh_cloneIds u)) \<longleftrightarrow> (\<exists>q. um_find q (um_erase p (gh_bases u)) = Some m)" for m
    proof
      assume "m \<in> set (us_erase n (gh_cloneIds u))"
      then obtain q where "um_find q (gh_bases u) = Some m" "m \<noteq> n" using ok by auto
      with Some show "\<exists>q. um_find q (um_erase p (gh_bases u)) = Some m" by (intro exI [of _ q]) (auto simp: amap)
    next
      assume "\<exists>q. um_find q (um_erase p (gh_bases u)) = Some m"
      then obtain q where "q \<noteq> p" "um_find q (gh_bases u) = Some m" by (auto simp: amap split: if_splits)
      with ok Some show "m \<in> set (us_erase n (gh_cloneIds u))" by auto
    qed
    with ok Some show ?thesis by (auto simp: clones_ok_def DropPeerClone_def amap)
  qed
  have disable: "clones_ok (on_actor cs u) = clones_ok u" for cs u by (simp add: clones_ok_def on_actor_def)
  let ?f = "\<lambda>w (peer, a). if peer \<in> set live then w
              else let w1 = DropPeerClone peer (if ge_alive e a then on_actor [GhDisable a] w else w)
                   in w1\<lparr>gh_byPeer := um_erase peer (gh_byPeer w1)\<rparr>"
  have "clones_ok (foldl ?f u xs)" if "clones_ok u" for u xs
    using that
  proof (induction xs arbitrary: u)
    case (Cons x xs)
    obtain p a where x: "x = (p, a)" by fastforce
    define v where "v = (if ge_alive e a then on_actor [GhDisable a] u else u)"
    have "clones_ok v" using Cons.prems disable by (simp add: v_def)
    from one [OF this, of p] have "clones_ok (?f u x)"
      using Cons.prems by (simp add: x Let_def drop_one_fields v_def)
    then show ?case using Cons.IH by simp
  qed simp
  then show ?thesis unfolding drop_gone_def using assms by blast
qed

lemma ghosts_clones:
  assumes "CMP_ApplyGhosts e w = Some w'" "clones_ok w" "um_ok (nr_latestPose (ss_net (gh_session w)))"
    "\<forall>(p, q) \<in> set (nr_latestPose (ss_net (gh_session w))). pp_peerId q = p"
    "fresh_forms e (fst ` set (nr_latestPose (ss_net (gh_session w)))) w"
  shows "clones_ok w'"
proof (cases "player_in_cell (ge_game e)")
  case True
  define w0 where "w0 = (if \<not> se_ghostSpawn (ss_settings (gh_session w)) then SetGhostNote ''Ghost.Spawn=0 (join only, no bodies)'' w else w)"
  from assms(1) True obtain w2 live where
    a: "apply_peers e (nr_latestPose (ss_net (gh_session w))) (w0, []) = Some (w2, live)" and w': "w' = drop_gone e live w2"
    by (auto simp: CMP_ApplyGhosts_def Let_def w0_def)
  have "clones_ok w0" "fresh_forms e (fst ` set (nr_latestPose (ss_net (gh_session w)))) w0"
    using assms(2,5) by (auto simp: w0_def SetGhostNote_def clones_ok_def fresh_forms_def)
  from drop_clones [OF peers_clones [OF a assms(3,4) this]] show ?thesis by (simp add: w')
qed (use assms in \<open>simp add: CMP_ApplyGhosts_def\<close>)

subsection \<open>Actors of the host\<close>

definition calm :: "ghosts \<Rightarrow> ghosts \<Rightarrow> bool" where
  "calm w w' \<longleftrightarrow>
     gh_byPeer w' = gh_byPeer w \<and> same_clones w w' \<and> ss_net (gh_session w') = ss_net (gh_session w) \<and>
     (\<forall>j. frozen j w \<longrightarrow> frozen j w')"

definition no_sleep :: "ghosts \<Rightarrow> ghosts \<Rightarrow> bool" where
  "no_sleep w w' \<longleftrightarrow> (\<exists>cs. gh_calls w' = gh_calls w @ cs \<and> \<not> list_ex sleeps cs)"

lemma calm_trans: "calm u v \<Longrightarrow> calm v w \<Longrightarrow> calm u w"
  by (simp add: calm_def same_clones_def)

lemma no_sleep_trans: "no_sleep u v \<Longrightarrow> no_sleep v w \<Longrightarrow> no_sleep u w"
  unfolding no_sleep_def by (metis append.assoc list_ex_append)

lemma actor_step:
  assumes "apply_actor e x (w, live) = Some (w', live')"
  shows "calm w w' \<and> (frozen (ap_refFormId (snd x)) w \<longrightarrow> no_sleep w w')"
proof -
  obtain i q where x: "x = (i, q)" by fastforce
  show ?thesis
  proof (cases "actor_target e i q w")
    case None
    with assms show ?thesis by (simp add: apply_actor_def x calm_def same_clones_def no_sleep_def)
  next
    case (Some a)
    define v where "v = w\<lparr>gh_session := (gh_session w)\<lparr>ss_puppeted := us_insert (ap_refFormId q) (ss_puppeted (gh_session w))\<rparr>\<rparr>"
    from assms Some have m: "MoveUnique e a q v = Some w'"
      by (auto simp: apply_actor_def x Let_def v_def)
    from work_move_unique [OF m] show ?thesis
      by (auto simp: body_work_def touches_def calm_def same_clones_def no_sleep_def v_def frozen_def x)
  qed
qed

lemma actors_step:
  assumes "apply_actors e xs (w, live) = Some (w', live')"
  shows "calm w w' \<and> ((\<forall>(i, q) \<in> set xs. frozen (ap_refFormId q) w) \<longrightarrow> no_sleep w w')"
  using assms
proof (induction xs arbitrary: w live)
  case Nil
  then show ?case by (simp add: calm_def same_clones_def no_sleep_def)
next
  case (Cons x xs)
  from Cons.prems obtain w1 live1 where 1: "apply_actor e x (w, live) = Some (w1, live1)"
    and 2: "apply_actors e xs (w1, live1) = Some (w', live')"
    by (auto split: option.splits)
  note s = actor_step [OF 1] and IH = Cons.IH [OF 2]
  have "\<forall>(i, q) \<in> set (x # xs). frozen (ap_refFormId q) w \<Longrightarrow> \<forall>(i, q) \<in> set xs. frozen (ap_refFormId q) w1"
    using s by (auto simp: calm_def)
  then show ?case
    using s IH calm_trans [OF conjunct1 [OF s]] no_sleep_trans [of w w1 w'] by (auto split: prod.splits)
qed

lemma release_step: "calm w (release_gone e live w) \<and> no_sleep w (release_gone e live w)"
proof -
  let ?f = "\<lambda>w i. if i \<in> set live then w
              else let w1 = (case ge_form e i of None \<Rightarrow> w | Some a \<Rightarrow> CMP_UnfreezeRemoteActor (ea_ptr a) i w); s = gh_session w1
                   in w1\<lparr>gh_session := s\<lparr>ss_puppeted := us_erase i (ss_puppeted s)\<rparr>\<rparr>"
  have one: "calm u (?f u i) \<and> no_sleep u (?f u i)" for u i
    by (auto simp: calm_def same_clones_def no_sleep_def frozen_def Let_def CMP_UnfreezeRemoteActor_def on_actor_def sleeps_def
        split: option.split)
  have "calm u (foldl ?f u is) \<and> no_sleep u (foldl ?f u is)" for u "is"
  proof (induction "is" arbitrary: u)
    case (Cons i "is")
    show ?case
      using one [of u i] Cons.IH [of "?f u i"] calm_trans no_sleep_trans unfolding foldl_Cons by blast
  qed (simp add: calm_def same_clones_def no_sleep_def)
  then show ?thesis unfolding release_gone_def by blast
qed

lemma host_actors_step:
  assumes "CMP_ApplyHostActors e w = Some w'"
  shows "calm w w' \<and>
    ((\<forall>(i, q) \<in> set (nr_latestActors (ss_net (gh_session w))). frozen (ap_refFormId q) w) \<longrightarrow> no_sleep w w')"
proof -
  have refl: "calm w w" "no_sleep w w" by (simp_all add: calm_def same_clones_def no_sleep_def)
  show ?thesis
  proof (cases "w' = w")
    case False
    with assms obtain w1 live where a: "apply_actors e (nr_latestActors (ss_net (gh_session w))) (w, []) = Some (w1, live)"
      and w': "w' = release_gone e live w1"
      by (auto simp: CMP_ApplyHostActors_def Let_def split: if_splits)
    show ?thesis
      using actors_step [OF a] release_step [of w1 e live] calm_trans no_sleep_trans unfolding w' by blast
  qed (use refl in simp)
qed

subsection \<open>Runs\<close>

text \<open>
  What happens to the bodies: a pass over the players or the host's actors, a forced animation, the puppet of a peer
  driven again, all bodies taken away, and whatever the network does to the session in between.
\<close>

definition poses_keyed :: "session \<Rightarrow> bool" where
  "poses_keyed s \<longleftrightarrow> um_ok (nr_latestPose (ss_net s)) \<and> (\<forall>(p, q) \<in> set (nr_latestPose (ss_net s)). pp_peerId q = p)"

inductive ghost_step :: "ghosts \<Rightarrow> ghosts \<Rightarrow> bool" where
  players: "CMP_ApplyGhosts e w = Some w' \<Longrightarrow> poses_keyed (gh_session w) \<Longrightarrow>
    fresh_forms e (fst ` set (nr_latestPose (ss_net (gh_session w)))) w \<Longrightarrow> ghost_step w w'"
| actors: "CMP_ApplyHostActors e w = Some w' \<Longrightarrow> ghost_step w w'"
| anim: "CMP_ForceAnim e self b k w = Some (ok, msg, w') \<Longrightarrow> ghost_step w w'"
| again: "CMP_ReapplyGhostPuppet e b p w = Some w' \<Longrightarrow> ghost_step w w'"
| despawn: "ghost_step w (DespawnGhosts e w)"
| network: "ghost_step w (w\<lparr>gh_session := s\<rparr>)"

inductive ghost_run :: "ghosts \<Rightarrow> bool" where
  start: "ghost_run (ghosts_init s)"
| step: "ghost_run w \<Longrightarrow> ghost_step w w' \<Longrightarrow> ghost_run w'"

lemma anim_clones:
  assumes "CMP_ForceAnim e self b k w = Some (ok, msg, w')" "clones_ok w"
  shows "clones_ok w'"
proof -
  have same: "clones_ok (w\<lparr>gh_session := s, gh_animFlags := f\<rparr>)" for s f
    using assms(2) by (simp add: clones_ok_def)
  have d: "clones_ok v'" if "drive e c a i p y sp vx vy fl v = Some v'" "clones_ok v" for c a i p y sp vx vy fl v v'
    using work_clones_ok [OF work_drive [OF that(1), of 0] that(2)] .
  from assms(1) show ?thesis
    unfolding CMP_ForceAnim_def Let_def
    using assms(2) by (auto split: list.splits if_splits prod.splits intro: d [OF _ assms(2)] d [OF _ same])
qed

lemma step_clones: "ghost_step w w' \<Longrightarrow> clones_ok w \<Longrightarrow> clones_ok w'"
proof (induction rule: ghost_step.induct)
  case (players e w w')
  then show ?case using ghosts_clones by (simp add: poses_keyed_def)
next
  case (actors e w w')
  then show ?case using host_actors_step [OF actors(1)] by (simp add: clones_ok_def calm_def same_clones_def)
next
  case (anim e self b k w ok msg w')
  then show ?case using anim_clones by blast
next
  case (again e b p w w')
  then show ?case using work_clones_ok [OF work_reapply [OF again(1), of 0]] by simp
qed (simp_all add: clones_ok_def DespawnGhosts_def ClearAllClones_def um_find_def)

text \<open>
  C16: in every state that can be reached, the forms that may be painted are exactly the bases made for peers, no
  two peers share one, and whoever has a ghost has a base of his own that is not one of the forbidden ones.
\<close>

theorem ghost_bases_own:
  assumes "ghost_run w"
  shows "(CMP_IsPaintableGhostBase (Some n) w \<longleftrightarrow> \<not> forbidden_actor_base n \<and> (\<exists>p. um_find p (gh_bases w) = Some n)) \<and>
    (um_find p (gh_bases w) = Some n \<longrightarrow> um_find q (gh_bases w) = Some n \<longrightarrow> p = q) \<and>
    (um_find p (gh_byPeer w) \<noteq> None \<longrightarrow> (\<exists>m. um_find p (gh_bases w) = Some m \<and> CMP_IsPaintableGhostBase (Some m) w))"
proof -
  have "clones_ok w"
    using assms by induction (use step_clones in \<open>auto simp: clones_ok_def ghosts_init_def um_find_def\<close>)
  then have "CMP_IsPaintableGhostBase (Some m) w \<longleftrightarrow> \<not> forbidden_actor_base m \<and> (\<exists>p. um_find p (gh_bases w) = Some m)"
    and "um_find p (gh_bases w) = Some n \<Longrightarrow> um_find q (gh_bases w) = Some n \<Longrightarrow> p = q"
    and "um_find p (gh_byPeer w) = Some a \<Longrightarrow> \<exists>m. um_find p (gh_bases w) = Some m \<and> \<not> forbidden_actor_base m" for m p q n a
    unfolding clones_ok_def CMP_IsPaintableGhostBase_def by simp_all
  then show ?thesis by blast
qed

theorem ghost_bases_own_witness:
  "\<exists>w. ghost_run w \<and> um_find 2 (gh_byPeer w) = Some 7 \<and> (\<exists>m. um_find 2 (gh_bases w) = Some m \<and> CMP_IsPaintableGhostBase (Some m) w)"
proof -
  note d = demo_ghosts_facts
  have s: "poses_keyed (gh_session demo_ghosts)" by (simp add: poses_keyed_def d(2) demo_pose_def um_ok_def)
  obtain w where w: "CMP_ApplyGhosts demo_ghost_env demo_ghosts = Some w" using demo_ghosts_returns by blast
  have g: "um_find 2 (gh_byPeer w) = Some 7"
    using ghosts_after_pass [OF w d(1), of 2] s d(3,4) by (simp add: poses_keyed_def d(2) um_find_def)
  have f: "fresh_forms demo_ghost_env ps demo_ghosts" for ps
    by (auto simp: fresh_forms_def gives_def demo_ghost_env_def demo_ghosts_def ghosts_init_def)
  have "ghost_run demo_ghosts" unfolding demo_ghosts_def by (rule ghost_run.start)
  from ghost_run.step [OF this ghost_step.players [OF w s f]] have r: "ghost_run w" .
  from ghost_bases_own [OF r, of 0 2 2] g r show ?thesis by auto
qed

subsection \<open>Released and taken again\<close>

text \<open>
  A new body for a player whose old one was lost is treated as the old one: neither setting it up nor moving it
  switches its AI off, and if it has no 3D at first it is not dressed either.
\<close>

lemma respawned_body_stays_awake:
  assumes "SpawnGhost e p w = Some (r, w1)" "frozen p w" "MoveGhost e' a pose w1 = Some w'" "pp_peerId pose = p"
  shows "no_sleep w w'"
proof -
  obtain b v where c: "CloneGhostBase e p w = (b, v)" "body_work p v w1" using spawn_cases [OF assms(1)] by metis
  have "touches p w w'"
    using touches_trans [OF _ touches_trans, of p w v w1 w'] clone_cases [OF c(1), of p] c(2) work_move [OF assms(3)] assms(4)
    by (simp add: body_work_def)
  with assms(2) show ?thesis by (auto simp: touches_def no_sleep_def)
qed

lemma drive_session: "drive e b a k pitch yaw speed vx vy flags w = Some w' \<Longrightarrow> gh_session w' = gh_session w"
  by (auto simp: drive_def on_actor_def Let_def split: option.splits)

lemma respawned_body_undressed:
  assumes "FinishGhostSetup e a p w = Some w1" "\<not> bo_3D (ge_setup e p)" "p \<in> set (gh_ready w)"
    and "MoveGhost e' a pose w1 = Some w'" "pp_peerId pose = p"
  shows "ss_calls (gh_session w') = ss_calls (gh_session w)"
proof -
  have 1: "ss_calls (gh_session w1) = ss_calls (gh_session w)" "gh_ready w1 = gh_ready w"
    using assms(1,2)
    by (auto simp: FinishGhostSetup_def SetGhostNote_def EnsureGhost3D_def CMP_SetGhostLabel_def on_actor_def Let_def)
  have "gh_session w' = gh_session w1"
    using assms(3-5) 1(2)
    by (auto simp: MoveGhost_def Let_def EnsureGhost3D_def on_actor_def FreezeGhost_def dest!: drive_session
        split: if_splits option.splits)
  with 1 show ?thesis by simp
qed

text \<open>Passes over the host's actors, each with what the session then holds.\<close>

fun actor_passes :: "(ghost_env \<times> session) list \<Rightarrow> ghosts \<Rightarrow> ghosts option" where
  "actor_passes [] w = Some w"
| "actor_passes ((e, s) # xs) w =
     (case CMP_ApplyHostActors e (w\<lparr>gh_session := s\<rparr>) of None \<Rightarrow> None | Some w' \<Rightarrow> actor_passes xs w')"

lemma passes_no_sleep:
  "actor_passes xs w = Some w' \<Longrightarrow>
   \<forall>(e, s) \<in> set xs. \<forall>(i, q) \<in> set (nr_latestActors (ss_net s)). frozen (ap_refFormId q) w \<Longrightarrow> no_sleep w w'"
proof (induction xs arbitrary: w)
  case (Cons x xs)
  obtain e s where x: "x = (e, s)" by fastforce
  let ?v = "w\<lparr>gh_session := s\<rparr>"
  from Cons.prems(1) obtain w1 where 1: "CMP_ApplyHostActors e ?v = Some w1" and 2: "actor_passes xs w1 = Some w'"
    by (auto simp: x split: option.splits)
  have v: "frozen j ?v = frozen j w" "no_sleep ?v u = no_sleep w u" for j u
    by (simp_all add: frozen_def no_sleep_def)
  have n: "no_sleep w w1" and k: "\<And>j. frozen j w \<Longrightarrow> frozen j w1"
    using host_actors_step [OF 1] Cons.prems(2) by (auto simp: x v calm_def)
  have "\<forall>(e, s) \<in> set xs. \<forall>(i, q) \<in> set (nr_latestActors (ss_net s)). frozen (ap_refFormId q) w1"
    using Cons.prems(2) k by fastforce
  from Cons.IH [OF 2 this] n show ?case using no_sleep_trans by blast
qed (simp add: no_sleep_def)

text \<open>
  An actor whose AI was switched off while the host moved it, and that was released, stays awake when it is
  taken again: releasing it switches its AI on but keeps the count of how often it was frozen, and only the first
  time switches the AI off. So through any passes over actors that have all been frozen before, no AI is ever
  switched off.
\<close>

lemma released_actor_stays_awake:
  assumes "actor_passes xs (CMP_UnfreezeRemoteActor a i w) = Some w'"
    and "\<forall>(e, s) \<in> set xs. \<forall>(j, q) \<in> set (nr_latestActors (ss_net s)). \<exists>t > 0. um_find (ap_refFormId q) (gh_freeze w) = Some t"
  shows "\<exists>cs. gh_calls w' = gh_calls w @ [GhUnflag a, GhEnableAI a True] @ cs \<and> (\<forall>b. GhEnableAI b False \<notin> set cs)"
proof -
  have "gh_freeze (CMP_UnfreezeRemoteActor a i w) = gh_freeze w"
    and c: "gh_calls (CMP_UnfreezeRemoteActor a i w) = gh_calls w @ [GhUnflag a, GhEnableAI a True]"
    by (simp_all add: CMP_UnfreezeRemoteActor_def on_actor_def Let_def)
  with passes_no_sleep [OF assms(1)] assms(2) have "no_sleep (CMP_UnfreezeRemoteActor a i w) w'"
    by (simp add: frozen_def)
  with c show ?thesis by (fastforce simp: no_sleep_def list_ex_iff sleeps_def)
qed

definition demo_actor_pose :: actor_pose where
  "demo_actor_pose = make_actor_pose 0x800 0x900 0 0 0 0 0 0 0 0 0 0 True False"

definition demo_actor_env :: ghost_env where
  "demo_actor_env = demo_ghost_env\<lparr>
     ge_form := \<lambda>i. if i = 0x800 then Some ((the (gm_player game_of_cell))\<lparr>ea_ptr := 9, ea_isPlayerRef := False\<rparr>) else None,
     ge_body := \<lambda>_. demo_body\<lparr>bo_puppet := demo_puppet\<lparr>pv_ready := False\<rparr>\<rparr>\<rparr>"

definition demo_guest :: session where
  "demo_guest = (session_init (default_settings\<lparr>se_interpDelayMs := 0\<rparr>))
     \<lparr>ss_net := net_runtime_init\<lparr>nr_joined := True, nr_latestActors := [(0x800, demo_actor_pose)]\<rparr>, ss_actorSeen := [(0x800, 0)]\<rparr>"

text \<open>Actor 9 is taken again by the next pass: it is told to stop fighting, but its AI stays on.\<close>

lemma released_actor_stays_awake_witness:
  "\<exists>w' cs. actor_passes [(demo_actor_env, demo_guest)]
       (CMP_UnfreezeRemoteActor 9 0x800 ((ghosts_init demo_guest)\<lparr>gh_freeze := [(0x800, 1)]\<rparr>)) = Some w' \<and>
     gh_calls w' = [GhUnflag 9, GhEnableAI 9 True] @ cs \<and> GhStopCombat 9 \<in> set cs \<and> (\<forall>b. GhEnableAI b False \<notin> set cs)"
proof -
  let ?w = "(ghosts_init demo_guest)\<lparr>gh_freeze := [(0x800, 1)]\<rparr>"
  have h: "CMP_InterpolateHeading 0 0 x = Some (f32_add 0 (f32_mul 0 (clamp32 x 0 (f32_of_int 1))))" for x
  proof -
    have "wrap_down 0 = Some 0" "wrap_up 0 = Some 0" "f32_sub 0 0 = 0"
      by (subst wrap_down.simps, simp add: f32_pi_def ieee_eval) (subst wrap_up.simps, simp add: f32_neg_pi_def ieee_eval, simp add: ieee_eval)
    then show ?thesis by (simp add: CMP_InterpolateHeading_def WrapRad_def)
  qed
  have t: "actor_target demo_actor_env 0x800 demo_actor_pose v = Some 9" if "gh_session v = demo_guest" "gh_cloneIds v = []" for v
    using that
    by (simp add: actor_target_def demo_guest_def demo_actor_env_def demo_ghost_env_def game_of_cell_def um_find_def ieee_eval
        demo_actor_pose_def make_actor_pose_def elsewhere_def npc_id_def CMP_IsPaintableGhostBase_def flag_u8_def)
  have m: "\<exists>v' xs. MoveUnique demo_actor_env 9 demo_actor_pose v = Some v' \<and> gh_calls v' = gh_calls v @ xs \<and> GhStopCombat 9 \<in> set xs"
    if "nr_actorRing (ss_net (gh_session v)) = []" for v
    using that
    by (auto simp: MoveUnique_def sample_or_def glide_def drive_def CMP_ApplyGhostPuppet_def actor_transform_def no_transform_def
        demo_actor_env_def demo_ghost_env_def demo_body_def demo_puppet_def demo_actor_pose_def make_actor_pose_def Let_def h um_find_def
        on_actor_def FreezeGhost_def)
  let ?v = "(CMP_UnfreezeRemoteActor 9 0x800 ?w)\<lparr>gh_session := demo_guest\<rparr>"
  have d: "gh_cloneIds ?v = []" "nr_joined (ss_net demo_guest)" "\<not> nr_isHost (ss_net demo_guest)"
    "nr_latestActors (ss_net demo_guest) = [(0x800, demo_actor_pose)]" "nr_actorRing (ss_net demo_guest) = []"
    "player_in_cell (ge_game demo_actor_env)" "gh_calls ?v = [GhUnflag 9, GhEnableAI 9 True]"
    using demo_ghosts_facts(1)
    by (simp_all add: CMP_UnfreezeRemoteActor_def on_actor_def ghosts_init_def demo_guest_def net_runtime_init_def demo_actor_env_def)
  obtain v' live where a: "apply_actors demo_actor_env [(0x800, demo_actor_pose)] (?v, []) = Some (v', live)"
    and c: "GhStopCombat 9 \<in> set (drop 2 (gh_calls v'))"
  proof -
    let ?u = "?v\<lparr>gh_session := demo_guest\<lparr>ss_puppeted := us_insert (ap_refFormId demo_actor_pose) (ss_puppeted demo_guest)\<rparr>\<rparr>"
    have "nr_actorRing (ss_net (gh_session ?u)) = []" by (simp add: d)
    from m [OF this] obtain v' xs where "MoveUnique demo_actor_env 9 demo_actor_pose ?u = Some v'"
      "gh_calls v' = gh_calls ?v @ xs" "GhStopCombat 9 \<in> set xs" by auto
    then show ?thesis using t [of ?v] d by (intro that) (auto simp: apply_actor_def Let_def)
  qed
  obtain w' where w': "actor_passes [(demo_actor_env, demo_guest)] (CMP_UnfreezeRemoteActor 9 0x800 ?w) = Some w'"
    "w' = release_gone demo_actor_env live v'"
    using a d by (simp add: CMP_ApplyHostActors_def Let_def)
  have "GhStopCombat 9 \<in> set (drop 2 (gh_calls w'))"
    using release_step [of v' demo_actor_env live] c by (auto simp: no_sleep_def w'(2))
  note w' = w'(1) this
  from released_actor_stays_awake [OF w'(1)] w' show ?thesis
    by (fastforce simp: demo_guest_def demo_actor_pose_def make_actor_pose_def um_find_def ghosts_init_def)
qed

end
