(* ===== verification/Indicators.thy ===== *)
theory Indicators
  imports Ghosts PluginSteam "HOL-Library.Multiset"
begin

text \<open>
  Where the other players are shown: \<^verbatim>\<open>plugin/src/indicators\<close> puts them on the compass and on the map,
  \<^verbatim>\<open>plugin/src/pointer.cpp\<close> tells the way in words and warps to them. The record \<open>indicators\<close> holds the globals
  of these files with the two lists of the engine they write into, the numbers of the compass and the markers
  of the map; \<open>hud_env\<close> is what the engine answers. An actor is known by the number of its handle, as in \<open>Ghosts\<close>.
  A float that is out of range becomes the smallest integer, as the target's conversion does.
\<close>

subsection \<open>Numbers\<close>

definition int_of_fp :: "fp \<Rightarrow> int" where
  "int_of_fp v =
     (case v of
        FFin s m e \<Rightarrow> (let z = fp_trunc s m e in if - (2 ^ 31) \<le> z \<and> z < 2 ^ 31 then z else - (2 ^ 31))
      | _ \<Rightarrow> - (2 ^ 31))"

definition int_of_f32 :: "f32 \<Rightarrow> int" where "int_of_f32 x = int_of_fp (f32_fp x)"
definition int_of_f64 :: "f64 \<Rightarrow> int" where "int_of_f64 x = int_of_fp (f64_fp x)"

text \<open>\<^verbatim>\<open>std::round\<close>: halves away from zero.\<close>

definition round_f32 :: "f32 \<Rightarrow> int" where
  "round_f32 x =
     (case f32_fp x of
        FFin s m e \<Rightarrow> sgn_int s ((2 * m * 2 ^ nat e + 2 ^ nat (- e)) div (2 * 2 ^ nat (- e)))
      | _ \<Rightarrow> - (2 ^ 31))"

partial_function (option) turn_up :: "f32 \<Rightarrow> f32 option" where
  "turn_up d = (if f32_less d 0 then turn_up (f32_add d f32_360) else Some d)"

partial_function (option) turn_down :: "f32 \<Rightarrow> f32 option" where
  "turn_down d = (if f32_le f32_360 d then turn_down (f32_sub d f32_360) else Some d)"

definition full_turn :: "f32 \<Rightarrow> f32 option" where
  "full_turn d = (case turn_up d of None \<Rightarrow> None | Some x \<Rightarrow> turn_down x)"

definition Compass8 :: "f32 \<Rightarrow> string option" where
  "Compass8 radians =
     map_option (\<lambda>deg. [''N'', ''NE'', ''E'', ''SE'', ''S'', ''SW'', ''W'', ''NW''] ! nat (round_f32 (f32_div deg 0x42340000) mod 8))
       (full_turn (rad_to_deg radians))"

subsection \<open>State\<close>

record PeerIndicator =
  pi_peer :: u32
  pi_pose :: player_pose
  pi_name :: string
  pi_hasGhost :: bool
  pi_handle :: "nat option"
  pi_isHost :: bool
  pi_isNearest :: bool

datatype hud_call =
    HudMarkers
  | HudHeading f64
  | HudRefreshMap
  | HudMoveActor nat f32 f32 f32

record indicators =
  in_slots :: nat
  in_handles :: "nat list"
  in_refs :: "(u32, nat) umap"
  in_setFrame :: int
  in_questFrame :: int
  in_hudOk :: bool
  in_compassOk :: bool
  in_lastPeers :: nat
  in_lastMarkers :: nat
  in_array :: "f64 list"
  in_markers :: "nat list"
  in_calls :: "hud_call list"


text \<open>
  The game; which handles resolve; whether the HUD has a movie, and whether its root object and the array of the
  compass are found; the numbers among its members; whether the n-th push of a call succeeds; whether the Pip-Boy
  menu is there; the arc tangent.
\<close>

record hud_env =
  he_game :: game
  he_actor :: "nat \<Rightarrow> bool"
  he_hud :: bool
  he_menuObj :: bool
  he_variable :: "string \<Rightarrow> bool"
  he_member :: "string \<Rightarrow> bool"
  he_number :: "string \<Rightarrow> f64 option"
  he_push :: "nat \<Rightarrow> bool"
  he_pipboy :: bool
  he_atan2 :: "f32 \<Rightarrow> f32 \<Rightarrow> f32"

definition on_hud :: "hud_call list \<Rightarrow> indicators \<Rightarrow> indicators" where
  "on_hud cs i = i\<lparr>in_calls := in_calls i @ cs\<rparr>"

definition you_at :: "game \<Rightarrow> f32 \<times> f32 \<times> f32" where
  "you_at g = (case gm_player g of None \<Rightarrow> (0, 0, 0) | Some p \<Rightarrow> (ea_x p, ea_y p, ea_z p))"

subsection \<open>The players around\<close>

definition SameWorldspace :: "u32 \<Rightarrow> u32 \<Rightarrow> bool" where
  "SameWorldspace youLoc peerLoc \<longleftrightarrow> youLoc \<noteq> 0 \<and> peerLoc \<noteq> 0 \<and> youLoc = peerLoc"

definition WorldBearingDeg :: "hud_env \<Rightarrow> f32 \<times> f32 \<times> f32 \<Rightarrow> player_pose \<Rightarrow> f32 option" where
  "WorldBearingDeg e from pose =
     (case from of (x, y, z) \<Rightarrow>
        full_turn (rad_to_deg (he_atan2 e (f32_sub (pp_x pose) x) (f32_sub (pp_y pose) y))))"

definition dist_to :: "f32 \<times> f32 \<times> f32 \<Rightarrow> player_pose \<Rightarrow> f32" where
  "dist_to you pose =
     (case you of (x, y, z) \<Rightarrow>
        let dx = f32_sub (pp_x pose) x; dy = f32_sub (pp_y pose) y; dz = f32_sub (pp_z pose) z
        in f32_add (f32_add (f32_mul dx dx) (f32_mul dy dy)) (f32_mul dz dz))"

definition name_or_peer :: "u32 \<Rightarrow> string \<Rightarrow> string" where
  "name_or_peer peer name = (if name = [] then ''peer '' @ dec_str (unat peer) else name)"

definition name_of :: "u32 \<Rightarrow> session \<Rightarrow> string" where
  "name_of peer s = (case um_find peer (gr_names (ss_ghosts s)) of None \<Rightarrow> [] | Some nm \<Rightarrow> nm)"

definition peer_row :: "hud_env \<Rightarrow> ghosts \<Rightarrow> u32 \<Rightarrow> player_pose \<Rightarrow> PeerIndicator" where
  "peer_row e w peer pose =
     (let s = gh_session w;
          hostPeer = (if nr_haveSnapshot (ss_net s)
                      then (case nr_lastSnapshot (ss_net s) of Some sn \<Rightarrow> ws_hostPeerId sn | None \<Rightarrow> 0) else 0);
          h = um_find peer (gh_byPeer w)
      in \<lparr>pi_peer = peer, pi_pose = pose, pi_name = name_or_peer peer (name_of peer s),
          pi_hasGhost = (case h of None \<Rightarrow> False | Some a \<Rightarrow> he_actor e a), pi_handle = h,
          pi_isHost = (hostPeer \<noteq> 0 \<and> peer = hostPeer), pi_isNearest = False\<rparr>)"

text \<open>The loop over the poses: the rows so far, the smallest distance and whose it is.\<close>

fun collect :: "hud_env \<Rightarrow> ghosts \<Rightarrow> (u32 \<times> player_pose) list \<Rightarrow> PeerIndicator list \<times> f32 \<times> nat \<Rightarrow> PeerIndicator list \<times> f32 \<times> nat" where
  "collect e w [] acc = acc"
| "collect e w ((peer, pose) # ps) (out, best, idx) =
     (if peer = nr_myPeerId (ss_net (gh_session w)) then collect e w ps (out, best, idx)
      else if \<not> SameWorldspace (PlayerLocationForm (he_game e)) (pp_locationFormId pose) then collect e w ps (out, best, idx)
      else
        let dist = dist_to (you_at (he_game e)) pose;
            (best', idx') = (if f32_less dist best then (dist, length out) else (best, idx))
        in collect e w ps (out @ [peer_row e w peer pose], best', idx'))"

definition CollectPeers :: "hud_env \<Rightarrow> ghosts \<Rightarrow> PeerIndicator list" where
  "CollectPeers e w =
     (let n = ss_net (gh_session w); last' = nr_lastRecvPoseSec n
      in if f64_less 0 last' \<and> f64_less (f64_of_int 5) (f64_sub (gm_now (he_game e)) last') then []
         else
           let (out, _, idx) = collect e w (nr_latestPose n) ([], 0x7149F2CA, 0)
           in if out \<noteq> [] then out[idx := (out ! idx)\<lparr>pi_isNearest := True\<rparr>] else [])"

subsection \<open>The compass\<close>

definition HudRoot :: "hud_env \<Rightarrow> bool" where
  "HudRoot e \<longleftrightarrow>
     he_hud e \<and> (he_menuObj e \<or> list_ex (he_variable e) [''_level0'', ''_level0.HUDMovieBaseInstance'', ''HUDMovieBaseInstance''])"

definition CompassArray :: "hud_env \<Rightarrow> bool" where
  "CompassArray e \<longleftrightarrow>
     list_ex (he_member e) [''CompassTargetDataA'', ''compassTargetDataA''] \<or>
     list_ex (he_variable e) [''_level0.HUDMovieBaseInstance.CompassTargetDataA'', ''HUDMovieBaseInstance.CompassTargetDataA'']"

definition CacheCompassFrames :: "hud_env \<Rightarrow> indicators \<Rightarrow> indicators" where
  "CacheCompassFrames e i =
     (let get = (\<lambda>member dflt. case he_number e member of Some x \<Rightarrow> int_of_f64 x | None \<Rightarrow> dflt);
          i1 = (if in_setFrame i = 0 then i\<lparr>in_setFrame := get ''CompassMarkerPlayerSet'' 3\<rparr> else i)
      in if in_questFrame i1 = 0 then i1\<lparr>in_questFrame := get ''CompassMarkerQuest'' 1\<rparr> else i1)"

text \<open>The pushes of one call are numbered, so that the engine may refuse any of them.\<close>

fun push_all :: "hud_env \<Rightarrow> f64 list \<Rightarrow> nat \<times> f64 list \<Rightarrow> bool \<times> nat \<times> f64 list" where
  "push_all e [] (k, arr) = (True, k, arr)"
| "push_all e (v # vs) (k, arr) = (if he_push e k then push_all e vs (Suc k, arr @ [v]) else (False, Suc k, arr))"

definition PushCompassSlot :: "hud_env \<Rightarrow> f64 \<Rightarrow> f64 \<Rightarrow> f64 \<Rightarrow> f64 \<Rightarrow> nat \<times> f64 list \<Rightarrow> bool \<times> nat \<times> f64 list" where
  "PushCompassSlot e heading alpha frame scale ka = push_all e [heading, alpha, frame, scale] ka"

definition kCompassStride :: nat where "kCompassStride = 4"

definition TrimCompassPeers :: "indicators \<Rightarrow> indicators" where
  "TrimCompassPeers i =
     (if in_slots i = 0 then i
      else
        let trim = in_slots i * kCompassStride; n = length (in_array i)
        in (if trim \<le> n then i\<lparr>in_array := take (n - trim) (in_array i)\<rparr> else i)\<lparr>in_slots := 0\<rparr>)"

definition slot_alpha :: "PeerIndicator \<Rightarrow> f64" where
  "slot_alpha p = (if pi_isNearest p \<or> pi_isHost p then f64_of_int 100 else f64_of_int 72)"

definition slot_scale :: "PeerIndicator \<Rightarrow> f64" where
  "slot_scale p = (if pi_isNearest p then f64_of_int 112 else f64_of_int 100)"

definition slot_frame :: "indicators \<Rightarrow> PeerIndicator \<Rightarrow> f64" where
  "slot_frame i p = f64_of_int (if pi_isHost p then in_questFrame i else in_setFrame i)"

fun push_slots :: "hud_env \<Rightarrow> PeerIndicator list \<Rightarrow> nat \<Rightarrow> indicators \<Rightarrow> indicators option" where
  "push_slots e [] k i = Some i"
| "push_slots e (p # ps) k i =
     (case WorldBearingDeg e (you_at (he_game e)) (pi_pose p) of
        None \<Rightarrow> None
      | Some heading \<Rightarrow>
          (case PushCompassSlot e (f32_to_f64 heading) (slot_alpha p) (slot_frame i p) (slot_scale p) (k, in_array i) of
             (True, k', arr) \<Rightarrow> push_slots e ps k' (i\<lparr>in_array := arr, in_slots := in_slots i + 1\<rparr>)
           | (False, k', arr) \<Rightarrow> Some (i\<lparr>in_array := arr\<rparr>)))"

definition UpdateCompass :: "hud_env \<Rightarrow> PeerIndicator list \<Rightarrow> indicators \<Rightarrow> indicators option" where
  "UpdateCompass e peers i =
     (if \<not> HudRoot e then Some (i\<lparr>in_hudOk := False, in_compassOk := False\<rparr>)
      else
        let i1 = CacheCompassFrames e (i\<lparr>in_hudOk := True\<rparr>)
        in if \<not> CompassArray e then Some (i1\<lparr>in_compassOk := False\<rparr>)
           else
             let i2 = TrimCompassPeers (i1\<lparr>in_compassOk := True\<rparr>)
             in case gm_player (he_game e) of
                  None \<Rightarrow> Some i2
                | Some p \<Rightarrow>
                    (case push_slots e peers 0 i2 of
                       None \<Rightarrow> None
                     | Some i3 \<Rightarrow>
                         map_option (\<lambda>deg. on_hud [HudMarkers, HudHeading (f32_to_f64 deg)] (i3\<lparr>in_lastPeers := in_slots i3\<rparr>))
                           (full_turn (rad_to_deg (ea_heading p)))))"

definition ClearCompassPeers :: "hud_env \<Rightarrow> indicators \<Rightarrow> indicators" where
  "ClearCompassPeers e i =
     (if \<not> HudRoot e \<or> \<not> CompassArray e then i\<lparr>in_slots := 0\<rparr> else on_hud [HudMarkers] (TrimCompassPeers i))"

subsection \<open>The map\<close>

definition RefreshMap :: "hud_env \<Rightarrow> indicators \<Rightarrow> indicators" where
  "RefreshMap e i = (if he_pipboy e then on_hud [HudRefreshMap] i else i)"

definition RemoveMapMarkerHandle :: "hud_env \<Rightarrow> nat \<Rightarrow> indicators \<Rightarrow> indicators" where
  "RemoveMapMarkerHandle e h i = (if gm_player (he_game e) = None then i else i\<lparr>in_markers := remove1 h (in_markers i)\<rparr>)"


definition mark_peer :: "hud_env \<Rightarrow> PeerIndicator \<Rightarrow> indicators \<times> nat list \<Rightarrow> indicators \<times> nat list" where
  "mark_peer e p = (\<lambda>(i, next).
     case pi_handle p of
       None \<Rightarrow> (i, next)
     | Some h \<Rightarrow>
         let pose = pi_pose p;
             i1 = (if he_actor e h then on_hud [HudMoveActor h (pp_x pose) (pp_y pose) (pp_z pose)] i else i);
             i2 = (if h \<in> set (in_handles i1) then i1 else i1\<lparr>in_markers := in_markers i1 @ [h]\<rparr>)
         in (i2\<lparr>in_refs := um_put (pi_peer p) h (in_refs i2)\<rparr>, next @ [h]))"

definition UpdateMapMarkers :: "hud_env \<Rightarrow> PeerIndicator list \<Rightarrow> indicators \<Rightarrow> indicators" where
  "UpdateMapMarkers e peers i =
     (if gm_player (he_game e) = None then i\<lparr>in_lastMarkers := 0\<rparr>
      else
        let (i1, next) = foldl (\<lambda>a p. mark_peer e p a) (i, []) peers;
            i2 = foldl (\<lambda>i old. if old \<in> set next then i else RemoveMapMarkerHandle e old i) i1 (in_handles i1);
            i3 = i2\<lparr>in_handles := next, in_lastMarkers := length next\<rparr>
        in if next \<noteq> [] then RefreshMap e i3 else i3)"

subsection \<open>The tick\<close>



definition bit :: "bool \<Rightarrow> string" where
  "bit b = (if b then ''1'' else ''0'')"

definition CMP_IndicatorsDebugText :: "session \<Rightarrow> indicators \<Rightarrow> string" where
  "CMP_IndicatorsDebugText s i =
     ''pointerHud='' @ bit (se_pointerHud (ss_settings s)) @ '' joined='' @ bit (nr_joined (ss_net s)) @
     '' hudRoot='' @ bit (in_hudOk i) @ '' compass='' @ bit (in_compassOk i) @
     '' compassPeers='' @ dec_str (in_lastPeers i) @ '' mapMarkers='' @ dec_str (in_lastMarkers i)"

subsection \<open>The pointer\<close>

record RemoteSnapshot =
  rm_peer :: u32
  rm_pose :: player_pose
  rm_hasGhost :: bool
  rm_youLoc :: u32
  rm_ghostNote :: string
  rm_name :: string
  rm_joined :: bool
  rm_myPeer :: u32

text \<open>The first player of the table who is not the own one; the pose alone when there is one.\<close>

definition CopyNearest :: "game \<Rightarrow> ghosts \<Rightarrow> RemoteSnapshot option" where
  "CopyNearest g w =
     (let s = gh_session w; n = ss_net s
      in case filter (\<lambda>(peer, pose). peer \<noteq> nr_myPeerId n) (nr_latestPose n) of
           [] \<Rightarrow> None
         | (peer, pose) # _ \<Rightarrow> Some
             \<lparr>rm_peer = peer, rm_pose = pose, rm_hasGhost = um_find peer (gh_byPeer w) \<noteq> None,
              rm_youLoc = PlayerLocationForm g, rm_ghostNote = ss_lastGhostNote s, rm_name = name_of peer s,
              rm_joined = nr_joined n, rm_myPeer = nr_myPeerId n\<rparr>)"

definition in_brackets :: "string \<Rightarrow> string" where
  "in_brackets note = (if note = [] then [] else '' ('' @ note @ '')'')"

definition look_word :: "f32 \<Rightarrow> string" where
  "look_word rel =
     (if f32_less 0x3EE66666 rel then ''look right'' else if f32_less rel 0xBEE66666 then ''look left'' else ''ahead'')"

definition FormatPointer :: "hud_env \<Rightarrow> session \<Rightarrow> RemoteSnapshot option \<Rightarrow> string option" where
  "FormatPointer e s snap =
     (if \<not> nr_joined (ss_net s) then Some ''CMP idle. Open console: cmp_join 127 0 0 1 7777''
      else case snap of
        None \<Rightarrow> Some (''CMP joined peer='' @ dec_str (unat (nr_myPeerId (ss_net s))) @ '' waiting for remotes'' @
                      in_brackets (ss_lastGhostNote s))
      | Some r \<Rightarrow>
          let label = name_or_peer (rm_peer r) (rm_name r); pose = rm_pose r
          in if elsewhere (pp_locationFormId pose) (rm_youLoc r)
             then Some (''CMP '' @ label @ '' '' @ [CHR 0xC2, CHR 0xB7] @ '' other cell'' @ in_brackets (rm_ghostNote r))
             else
               let you = you_at (he_game e);
                   distM = int_of_f32 (f32_add (f32_div (f32_sqrt (dist_to you pose)) 0x428C0000) 0x3F000000);
                   bearing = (case you of (x, y, z) \<Rightarrow> he_atan2 e (f32_sub (pp_x pose) x) (f32_sub (pp_y pose) y));
                   heading = (case gm_player (he_game e) of None \<Rightarrow> 0 | Some p \<Rightarrow> ea_heading p)
               in case (WrapRad (f32_sub bearing heading), Compass8 bearing) of
                    (Some rel, Some dir) \<Rightarrow> Some
                      (''CMP '' @ label @ ''  '' @ int_str distM @ ''m  '' @ dir @ ''  '' @ look_word rel @
                       (if rm_hasGhost r then ''  ghost=yes'' else ''  ghost=no'') @
                       (if \<not> rm_hasGhost r \<and> rm_ghostNote r \<noteq> [] then ''  '' @ rm_ghostNote r else []))
                  | _ \<Rightarrow> None)"

definition CMP_PointerText :: "hud_env \<Rightarrow> ghosts \<Rightarrow> string option" where
  "CMP_PointerText e w = FormatPointer e (gh_session w) (CopyNearest (he_game e) w)"

text \<open>
  The warp: where the player is put and turned to, what is printed, and the text after the warp, which sees the
  player at the new place; \<open>after\<close> is the engine then. No place means that nothing moved.
\<close>

definition goto_place :: "f32 \<times> f32 \<times> f32 \<Rightarrow> player_pose \<Rightarrow> f32 \<times> f32 \<times> f32" where
  "goto_place you pose =
     (case you of (x, y, z) \<Rightarrow>
        let dx = f32_sub x (pp_x pose); dy = f32_sub y (pp_y pose);
            len = f32_sqrt (f32_add (f32_mul dx dx) (f32_mul dy dy));
            z' = f32_add (pp_z pose) 0x41400000
        in if f32_less (f32_of_int 1) len
           then (f32_add (pp_x pose) (f32_mul (f32_div dx len) 0x435C0000),
                 f32_add (pp_y pose) (f32_mul (f32_div dy len) 0x435C0000), z')
           else (f32_add (pp_x pose) 0x435C0000, pp_y pose, z'))"

definition CMP_GotoNearest ::
  "hud_env \<Rightarrow> hud_env \<Rightarrow> ghosts \<Rightarrow> (bool \<times> ((f32 \<times> f32 \<times> f32) \<times> f32) option \<times> string) option" where
  "CMP_GotoNearest e after w =
     (case CopyNearest (he_game e) w of
        None \<Rightarrow> Some (False, None, ''cmp_goto: no remote pose (join first, wait for a friend)'')
      | Some r \<Rightarrow>
          if gm_player (he_game e) = None then Some (False, None, ''cmp_goto: no player'')
          else
            let dest = goto_place (you_at (he_game e)) (rm_pose r)
            in case dest of (x, y, z) \<Rightarrow>
                 map_option (\<lambda>t. (True, Some (dest, he_atan2 e (f32_sub (pp_x (rm_pose r)) x) (f32_sub (pp_y (rm_pose r)) y)),
                      ''cmp_goto: warped to peer '' @ dec_str (unat (rm_peer r)) @ '' at '' @ int_str (int_of_f32 x) @ '','' @
                      int_str (int_of_f32 y) @ '','' @ int_str (int_of_f32 z) @ ''  '' @ t))
                   (CMP_PointerText after w))"

subsection \<open>The rows\<close>

definition shown :: "hud_env \<Rightarrow> ghosts \<Rightarrow> u32 \<times> player_pose \<Rightarrow> bool" where
  "shown e w = (\<lambda>(peer, pose). peer \<noteq> nr_myPeerId (ss_net (gh_session w)) \<and>
     SameWorldspace (PlayerLocationForm (he_game e)) (pp_locationFormId pose))"

definition rows_of :: "hud_env \<Rightarrow> ghosts \<Rightarrow> PeerIndicator list" where
  "rows_of e w = map (\<lambda>(peer, pose). peer_row e w peer pose) (filter (shown e w) (nr_latestPose (ss_net (gh_session w))))"

abbreviation row_dist :: "hud_env \<Rightarrow> PeerIndicator \<Rightarrow> f32" where
  "row_dist e r \<equiv> dist_to (you_at (he_game e)) (pi_pose r)"

text \<open>The smallest distance so far is that of the row noted, or still the one that counts as far away.\<close>

definition nearest_ok :: "hud_env \<Rightarrow> PeerIndicator list \<Rightarrow> f32 \<Rightarrow> nat \<Rightarrow> bool" where
  "nearest_ok e rows best idx \<longleftrightarrow>
     (\<forall>r \<in> set rows. \<not> f32_less (row_dist e r) best) \<and> \<not> f32_less 0x7149F2CA best \<and>
     (if idx < length rows \<and> best = row_dist e (rows ! idx) then True else best = 0x7149F2CA \<and> idx = 0)"

lemma f32_less_trans: "f32_less a b \<Longrightarrow> f32_less b c \<Longrightarrow> f32_less a c"
  unfolding f32_less_def by (rule fp_less_trans)

lemma f32_less_irrefl: "\<not> f32_less a a"
  unfolding f32_less_def using fp_less_asym by blast

lemma pose_peer_row [simp]: "pi_pose (peer_row e w p q) = q" "pi_peer (peer_row e w p q) = p" "pi_isNearest (peer_row e w p q) = False"
  "pi_handle (peer_row e w p q) = um_find p (gh_byPeer w)"
  by (simp_all add: peer_row_def Let_def)

lemma collect_rows:
  assumes "collect e w ps (out, best, idx) = (out', best', idx')" "nearest_ok e out best idx"
  shows "out' = out @ map (\<lambda>(peer, pose). peer_row e w peer pose) (filter (shown e w) ps) \<and> nearest_ok e out' best' idx'"
  using assms
proof (induction ps arbitrary: out best idx)
  case (Cons x ps)
  obtain p q where x: "x = (p, q)" by fastforce
  show ?case
  proof (cases "shown e w (p, q)")
    case False
    then have "collect e w ps (out, best, idx) = (out', best', idx')"
      using Cons.prems(1) by (auto simp: x shown_def split: if_splits)
    note IH = Cons.IH [OF this Cons.prems(2)]
    have f: "filter (shown e w) (x # ps) = filter (shown e w) ps" using False by (simp add: x)
    from IH show ?thesis unfolding f .
  next
    case True
    let ?d = "dist_to (you_at (he_game e)) q" let ?out = "out @ [peer_row e w p q]"
    define bi where "bi = (if f32_less ?d best then (?d, length out) else (best, idx))"
    obtain b k where bk: "bi = (b, k)" by fastforce
    have c: "collect e w ps (?out, b, k) = (out', best', idx')"
      using Cons.prems(1) True by (simp add: x shown_def Let_def bi_def [symmetric] bk split: if_splits)
    have "nearest_ok e ?out b k"
    proof (cases "f32_less ?d best")
      case near: True
      then have "b = ?d" "k = length out" using bk by (simp_all add: bi_def)
      moreover have "\<not> f32_less (row_dist e r) ?d" if "r \<in> set out" for r
        using that Cons.prems(2) near f32_less_trans unfolding nearest_ok_def by blast
      moreover have "\<not> f32_less 0x7149F2CA ?d" using Cons.prems(2) near f32_less_trans unfolding nearest_ok_def by blast
      ultimately show ?thesis using f32_less_irrefl by (simp add: nearest_ok_def)
    next
      case far: False
      then have "b = best" "k = idx" using bk by (simp_all add: bi_def)
      with far Cons.prems(2) show ?thesis by (auto simp: nearest_ok_def nth_append split: if_splits)
    qed
    note IH = Cons.IH [OF c this]
    have f: "filter (shown e w) (x # ps) = (p, q) # filter (shown e w) ps" using True by (simp add: x)
    show ?thesis
    proof
      show "out' = out @ map (\<lambda>(peer, pose). peer_row e w peer pose) (filter (shown e w) (x # ps))"
        unfolding f using conjunct1 [OF IH] by simp
      show "nearest_ok e out' best' idx'" using conjunct2 [OF IH] .
    qed
  qed
qed simp

text \<open>
  Of the players shown exactly one is marked as the nearest, and no other is nearer, as soon as one of them
  is nearer than the distance that stands for far away.
\<close>

lemma nearest_is_nearest:
  assumes "CollectPeers e w \<noteq> []" "\<exists>r \<in> set (rows_of e w). f32_less (row_dist e r) 0x7149F2CA"
  shows "\<exists>j < length (CollectPeers e w). \<forall>k < length (CollectPeers e w).
    (pi_isNearest (CollectPeers e w ! k) \<longleftrightarrow> k = j) \<and>
    \<not> f32_less (row_dist e (CollectPeers e w ! k)) (row_dist e (CollectPeers e w ! j))"
proof -
  obtain out best idx where c: "collect e w (nr_latestPose (ss_net (gh_session w))) ([], 0x7149F2CA, 0) = (out, best, idx)"
    by (metis prod_cases3)
  have "nearest_ok e [] 0x7149F2CA 0" using f32_less_irrefl by (simp add: nearest_ok_def)
  note cr = collect_rows [OF c this]
  then have out: "out = rows_of e w" unfolding rows_of_def by simp
  from cr have ok: "nearest_ok e out best idx" by blast
  have cp: "CollectPeers e w = out[idx := (out ! idx)\<lparr>pi_isNearest := True\<rparr>]"
    using assms(1) by (auto simp: CollectPeers_def Let_def c split: if_splits)
  have idx: "idx < length out" "best = row_dist e (out ! idx)"
    using ok assms(2) by (auto simp: nearest_ok_def out split: if_splits)
  have d: "row_dist e (CollectPeers e w ! k) = row_dist e (out ! k)" if "k < length out" for k
    using that by (cases "k = idx") (simp_all add: cp)
  have "\<not> pi_isNearest (out ! k)" if "k < length out" for k
    using nth_mem [OF that] by (auto simp: out rows_of_def)
  then show ?thesis
    using ok idx d by (intro exI [of _ idx]) (auto simp: cp nearest_ok_def nth_list_update)
qed

subsection \<open>The compass\<close>



definition own_tail :: "f64 list \<Rightarrow> indicators \<Rightarrow> bool" where
  "own_tail game i \<longleftrightarrow> (\<exists>ours. in_array i = game @ ours \<and> length ours = in_slots i * 4)"




lemma trim_own: "own_tail game i \<Longrightarrow> in_array (TrimCompassPeers i) = game \<and> in_slots (TrimCompassPeers i) = 0"
  by (auto simp: own_tail_def TrimCompassPeers_def kCompassStride_def Let_def)





text \<open>
  A push that is refused in the middle of a row leaves a part of the row that no trim ever takes away: the first
  value of a player stays on the compass of the game.
\<close>

lemma partial_row_stays:
  assumes "UpdateCompass e (p # ps) i = Some i'" "HudRoot e" "CompassArray e" "gm_player (he_game e) \<noteq> None" "own_tail game i"
    and "he_push e 0" "\<not> he_push e 1"
  shows "\<exists>deg. in_array (ClearCompassPeers e i') = game @ [f32_to_f64 deg]"
proof -
  define i2 where "i2 = TrimCompassPeers ((CacheCompassFrames e (i\<lparr>in_hudOk := True\<rparr>))\<lparr>in_compassOk := True\<rparr>)"
  have "own_tail game ((CacheCompassFrames e (i\<lparr>in_hudOk := True\<rparr>))\<lparr>in_compassOk := True\<rparr>)"
    using assms(5) by (simp add: own_tail_def CacheCompassFrames_def Let_def)
  from trim_own [OF this] have 2: "in_array i2 = game" "in_slots i2 = 0" by (simp_all add: i2_def)
  from assms(1-4) obtain i3 c where 3: "push_slots e (p # ps) 0 i2 = Some i3" and i': "in_array i' = in_array i3" "in_slots i' = in_slots i3"
    by (auto simp: UpdateCompass_def Let_def i2_def [symmetric] on_hud_def split: option.splits)
  from 3 assms(6,7) obtain deg where "in_array i3 = game @ [f32_to_f64 deg]" "in_slots i3 = 0"
    by (auto simp: PushCompassSlot_def 2 split: option.splits)
  then show ?thesis
    using assms(2,3) i' by (auto simp: ClearCompassPeers_def TrimCompassPeers_def on_hud_def)
qed

subsection \<open>The map\<close>


lemma remove_fields:
  "in_array (RemoveMapMarkerHandle e h i) = in_array i" "in_slots (RemoveMapMarkerHandle e h i) = in_slots i"
  "in_handles (RemoveMapMarkerHandle e h i) = in_handles i" "in_setFrame (RemoveMapMarkerHandle e h i) = in_setFrame i"
  "in_questFrame (RemoveMapMarkerHandle e h i) = in_questFrame i"
  by (simp_all add: RemoveMapMarkerHandle_def)


lemma refresh_fields [simp]:
  "in_array (RefreshMap e i) = in_array i" "in_slots (RefreshMap e i) = in_slots i" "in_markers (RefreshMap e i) = in_markers i"
  "in_handles (RefreshMap e i) = in_handles i" "in_setFrame (RefreshMap e i) = in_setFrame i"
  "in_questFrame (RefreshMap e i) = in_questFrame i"
  by (simp_all add: RefreshMap_def on_hud_def)


text \<open>The handles the rows hold.\<close>

definition handles_of :: "PeerIndicator list \<Rightarrow> nat list" where
  "handles_of ps = concat (map (\<lambda>p. case pi_handle p of None \<Rightarrow> [] | Some h \<Rightarrow> [h]) ps)"

lemma mark_all:
  assumes "foldl (\<lambda>a p. mark_peer e p a) (i, next) ps = (i', next')"
  shows "next' = next @ handles_of ps \<and> in_markers i' = in_markers i @ filter (\<lambda>h. h \<notin> set (in_handles i)) (handles_of ps) \<and>
    in_handles i' = in_handles i \<and> in_array i' = in_array i \<and> in_slots i' = in_slots i \<and>
    in_setFrame i' = in_setFrame i \<and> in_questFrame i' = in_questFrame i \<and>
    in_calls i' = in_calls i @ map (\<lambda>p. HudMoveActor (the (pi_handle p)) (pp_x (pi_pose p)) (pp_y (pi_pose p)) (pp_z (pi_pose p)))
      (filter (\<lambda>p. \<exists>h. pi_handle p = Some h \<and> he_actor e h) ps)"
  using assms
proof (induction ps arbitrary: i "next")
  case (Cons p ps)
  obtain i1 n1 where 1: "mark_peer e p (i, next) = (i1, n1)" by fastforce
  with Cons.prems have "foldl (\<lambda>a p. mark_peer e p a) (i1, n1) ps = (i', next')" by simp
  note IH = Cons.IH [OF this]
  from 1 have "n1 = next @ handles_of [p] \<and> in_markers i1 = in_markers i @ filter (\<lambda>h. h \<notin> set (in_handles i)) (handles_of [p]) \<and>
    in_handles i1 = in_handles i \<and> in_array i1 = in_array i \<and> in_slots i1 = in_slots i \<and>
    in_setFrame i1 = in_setFrame i \<and> in_questFrame i1 = in_questFrame i \<and>
    in_calls i1 = in_calls i @ map (\<lambda>p. HudMoveActor (the (pi_handle p)) (pp_x (pi_pose p)) (pp_y (pi_pose p)) (pp_z (pi_pose p)))
      (filter (\<lambda>p. \<exists>h. pi_handle p = Some h \<and> he_actor e h) [p])"
    by (auto simp: mark_peer_def handles_of_def on_hud_def Let_def split: option.splits)
  with IH show ?case by (simp add: handles_of_def)
qed (simp add: handles_of_def)



text \<open>Each tick puts the ghosts where their last pose is, whatever the pass before has made of it.\<close>

lemma tick_puts_ghosts_at_pose:
  assumes "gm_player (he_game e) \<noteq> None" "p \<in> set peers" "pi_handle p = Some h" "he_actor e h"
  shows "HudMoveActor h (pp_x (pi_pose p)) (pp_y (pi_pose p)) (pp_z (pi_pose p)) \<in> set (in_calls (UpdateMapMarkers e peers i))"
proof -
  obtain i1 nx where m: "foldl (\<lambda>a p. mark_peer e p a) (i, []) peers = (i1, nx)" by fastforce
  have "HudMoveActor h (pp_x (pi_pose p)) (pp_y (pi_pose p)) (pp_z (pi_pose p)) \<in> set (in_calls i1)"
    using mark_all [OF m] assms(2-4) by force
  moreover have "in_calls (foldl (\<lambda>i h. if P h then i else RemoveMapMarkerHandle e h i) j hs) = in_calls j" for P j hs
    by (induction hs arbitrary: j) (simp_all add: RemoveMapMarkerHandle_def)
  moreover have "nx \<noteq> []" using mark_all [OF m] assms(2,3) by (force simp: handles_of_def)
  ultimately show ?thesis
    using assms(1) by (simp add: UpdateMapMarkers_def m RefreshMap_def on_hud_def Let_def del: not_None_eq)
qed

text \<open>A marker the game has dropped from its list is never put back while the ghost is noted as marked.\<close>

lemma lost_marker_stays_lost:
  assumes "h \<in> set (in_handles i)" "h \<notin> set (in_markers i)"
  shows "h \<notin> set (in_markers (UpdateMapMarkers e peers i))"
proof -
  obtain i1 nx where m: "foldl (\<lambda>a p. mark_peer e p a) (i, []) peers = (i1, nx)" by fastforce
  have "h \<notin> set (in_markers i1)" using mark_all [OF m] assms by simp
  moreover have "set (in_markers (foldl (\<lambda>i h. if P h then i else RemoveMapMarkerHandle e h i) j hs)) \<subseteq> set (in_markers j)" for P j hs
  proof (induction hs arbitrary: j)
    case (Cons x hs)
    have "set (in_markers (RemoveMapMarkerHandle e x j)) \<subseteq> set (in_markers j)"
      using set_remove1_subset [of x "in_markers j"] by (simp add: RemoveMapMarkerHandle_def)
    with Cons [of "if P x then j else RemoveMapMarkerHandle e x j"] show ?case by (auto split: if_splits)
  qed simp
  ultimately have "h \<notin> set (in_markers (foldl (\<lambda>i h. if h \<in> set nx then i else RemoveMapMarkerHandle e h i) i1 (in_handles i1)))"
    by (meson subsetD)
  with assms(2) show ?thesis by (cases "nx = []") (simp_all add: UpdateMapMarkers_def m Let_def)
qed

subsection \<open>Ticks\<close>











lemma rows_of_others: "rows_of e w \<noteq> [] \<Longrightarrow> PlayerLocationForm (he_game e) \<noteq> 0"
  by (auto simp: rows_of_def shown_def SameWorldspace_def filter_empty_conv)






subsection \<open>The warp\<close>

text \<open>
  \<^verbatim>\<open>cmp_goto\<close> goes to the first other player in the table, near or far and in whatever place he is: the rest of the
  table and where the players are does not matter.
\<close>

lemma goto_takes_first:
  assumes "nr_latestPose (ss_net (gh_session w)) = (p, q) # others" "p \<noteq> nr_myPeerId (ss_net (gh_session w))"
    and "gm_player (he_game e) \<noteq> None" "CMP_GotoNearest e after w = Some r"
  shows "\<exists>h msg. r = (True, Some (goto_place (you_at (he_game e)) q, h), msg)"
  using assms by (auto simp: CMP_GotoNearest_def CopyNearest_def Let_def split: prod.splits)

subsection \<open>Examples\<close>

text \<open>Two players where the player is; bearings come out as zero.\<close>

definition demo_hud :: hud_env where
  "demo_hud = \<lparr>he_game = game_of_cell, he_actor = \<lambda>_. True, he_hud = True, he_menuObj = True, he_variable = \<lambda>_. False,
     he_member = \<lambda>_. True, he_number = \<lambda>_. None, he_push = \<lambda>_. True, he_pipboy = True, he_atan2 = \<lambda>_ _. 0\<rparr>"

definition demo_others :: ghosts where
  "demo_others = (ghosts_init ((session_init default_settings)\<lparr>ss_net := net_runtime_init\<lparr>nr_joined := True, nr_myPeerId := 1,
     nr_latestPose := [(2, demo_pose 0), (3, demo_pose 0)]\<rparr>\<rparr>))
     \<lparr>gh_byPeer := [(2, 7), (3, 8)]\<rparr>"

lemma demo_hud_facts:
  "you_at (he_game demo_hud) = (0, 0, 0)" "PlayerLocationForm (he_game demo_hud) = 0x3C"
  "nr_lastRecvPoseSec (ss_net (gh_session demo_others)) = 0" "nr_myPeerId (ss_net (gh_session demo_others)) = 1"
  "nr_latestPose (ss_net (gh_session demo_others)) = [(2, demo_pose 0), (3, demo_pose 0)]"
  "pp_locationFormId (demo_pose 0) = 0x3C" "gh_byPeer demo_others = [(2, 7), (3, 8)]"
  by (simp_all add: demo_hud_def game_of_cell_def you_at_def PlayerLocationForm_def ActorLocationForm_def cell_location_def
      demo_others_def ghosts_init_def session_init_def net_runtime_init_def demo_pose_def)

lemma demo_dist: "dist_to (0, 0, 0) (demo_pose 0) = 0" "f32_less 0 0x7149F2CA"
proof -
  have "f32_sub 0 0 = 0" "f32_mul 0 0 = 0" "f32_add 0 0 = 0" by (simp_all add: ieee_eval)
  then show "dist_to (0, 0, 0) (demo_pose 0) = 0" by (simp add: dist_to_def demo_pose_def Let_def)
  show "f32_less 0 0x7149F2CA" by (simp add: ieee_eval)
qed

lemma demo_collect:
  "CollectPeers demo_hud demo_others =
     [(peer_row demo_hud demo_others 2 (demo_pose 0))\<lparr>pi_isNearest := True\<rparr>, peer_row demo_hud demo_others 3 (demo_pose 0)]"
proof -
  have "\<not> f64_less 0 0" by (simp add: ieee_eval)
  then show ?thesis
    using f32_less_irrefl by (simp add: CollectPeers_def Let_def demo_hud_facts demo_dist SameWorldspace_def)
qed

lemma nearest_is_nearest_witness:
  "\<exists>j < 2. \<forall>k < 2. (pi_isNearest (CollectPeers demo_hud demo_others ! k) \<longleftrightarrow> k = j)"
proof -
  have "peer_row demo_hud demo_others 2 (demo_pose 0) \<in> set (rows_of demo_hud demo_others)"
    by (simp add: rows_of_def shown_def demo_hud_facts SameWorldspace_def)
  then have "\<exists>r \<in> set (rows_of demo_hud demo_others). f32_less (row_dist demo_hud r) 0x7149F2CA"
    using demo_dist by (intro bexI) (simp_all add: demo_hud_facts)
  moreover have "length (CollectPeers demo_hud demo_others) = 2" "CollectPeers demo_hud demo_others \<noteq> []" by (simp_all add: demo_collect)
  ultimately show ?thesis using nearest_is_nearest [of demo_hud demo_others] by metis
qed


end
