(* ===== verification/Crash.thy ===== *)
theory Crash
  imports PluginConfig ServerLog
begin

text \<open>
  The crash handler, \<^verbatim>\<open>plugin/src/crash.cpp\<close>: the ring of notes, the report that is written when the process dies,
  the filters through which an exception reaches it, and calls that survive one. The record \<open>crash\<close> holds the
  globals with the depth of guarded calls of each thread and what was asked of Windows; \<open>crash_env\<close> is what Windows
  and the game answer. Exceptions are known by their code; a path is its characters before the terminating zero.
\<close>

subsection \<open>State\<close>

definition kNoteCount :: nat where "kNoteCount = 24"
definition kNoteLen :: nat where "kNoteLen = 120"
definition MAX_PATH :: nat where "MAX_PATH = 260"

datatype crash_call =
    CrLog string
  | CrMiniDump
  | CrReporter string
  | CrBox string
  | CrPrevFilter
  | CrPassWindow
  | CrInstall
  | CrMkDir string

record crash =
  cr_notes :: "string list"
  cr_seq :: u32
  cr_writing :: bool
  cr_quit :: bool
  cr_logPath :: string
  cr_dmpPath :: string
  cr_prevFilter :: bool
  cr_hooked :: bool
  cr_prevWnd :: bool
  cr_installed :: bool
  cr_depth :: "(u32, int) umap"
  cr_calls :: "crash_call list"

definition crash_init :: crash where
  "crash_init = \<lparr>cr_notes = replicate kNoteCount [], cr_seq = 0, cr_writing = False, cr_quit = False, cr_logPath = [], cr_dmpPath = [],
     cr_prevFilter = False, cr_hooked = False, cr_prevWnd = False, cr_installed = False, cr_depth = [], cr_calls = []\<rparr>"

text \<open>An exception: code, address and parameters of its record, and the registers rip, rsp, rbp, rax, rcx and rdx.\<close>

record exc =
  ex_record :: "(u32 \<times> u64 \<times> u64 list) option"
  ex_context :: "(u64 \<times> u64 \<times> u64 \<times> u64 \<times> u64 \<times> u64) option"

text \<open>
  Whether the game is quitting; whether the log and the dump can be created; the time in six numbers; the thread; the
  versions; the module at an address with its base; the stack; the modules; the executable of the plugin;
  whether the reporter is there and starts; text to wide characters and back; the folder of the documents, the
  name of the folder of the saves; whether there was a filter or window procedure before; whether the game has a window.
\<close>

record crash_env =
  ka_quitGame :: bool
  ka_logFile :: bool
  ka_dumpFile :: bool
  ka_time :: "nat \<times> nat \<times> nat \<times> nat \<times> nat \<times> nat"
  ka_thread :: u32
  ka_plugin :: string
  ka_f4se :: string
  ka_module :: "u64 \<Rightarrow> (string \<times> u64) option"
  ka_stack :: "u64 list"
  ka_modules :: "(string \<times> u64 \<times> u64) list option"
  ka_self :: "string option"
  ka_reporter :: bool
  ka_process :: bool
  ka_wide :: "string \<Rightarrow> string"
  ka_utf8 :: "string \<Rightarrow> string"
  ka_documents :: "string option"
  ka_saves :: string
  ka_prevFilter :: bool
  ka_prevWnd :: bool
  ka_window :: bool

definition cr_do :: "crash_call list \<Rightarrow> crash \<Rightarrow> crash" where
  "cr_do cs c = c\<lparr>cr_calls := cr_calls c @ cs\<rparr>"

subsection \<open>Codes\<close>

definition CodeName :: "u32 \<Rightarrow> string" where
  "CodeName code =
     (if code = 0xC0000005 then ''ACCESS_VIOLATION''
      else if code = 0xC0000006 then ''IN_PAGE_ERROR''
      else if code = 0xC000001D then ''ILLEGAL_INSTRUCTION''
      else if code = 0xC0000094 then ''INT_DIVIDE_BY_ZERO''
      else if code = 0xC00000FD then ''STACK_OVERFLOW''
      else if code = 0xC000008C then ''ARRAY_BOUNDS''
      else if code = 0xC0000096 then ''PRIV_INSTRUCTION''
      else if code = 0xC0000025 then ''NONCONTINUABLE''
      else if code = 0x80000002 then ''MISALIGNMENT''
      else if code = 0xC000008E then ''FLT_DIVIDE_BY_ZERO''
      else if code = 0xC0000374 then ''HEAP_CORRUPTION''
      else if code = 0xC0000409 then ''STACK_BUFFER_OVERRUN''
      else if code = 0x40000015 then ''FATAL_APP_EXIT''
      else if code = 0xE06D7363 then ''CPP_EXCEPTION''
      else ''EXCEPTION'')"

definition IsFatal :: "u32 \<Rightarrow> bool" where
  "IsFatal code \<longleftrightarrow> code \<in> {0xC0000005, 0xC0000006, 0xC000001D, 0xC0000094, 0xC00000FD, 0xC000008C, 0xC0000096, 0xC0000025,
     0x80000002, 0xC0000374, 0xC0000409, 0x40000015}"

definition QuitWndProc :: "u32 \<Rightarrow> u64 \<Rightarrow> crash \<Rightarrow> crash" where
  "QuitWndProc m wp c =
     (let quits = (m = 0x0010 \<or> m = 0x0002 \<or> m = 0x0012 \<or> (m = 0x0112 \<and> wp AND 0xFFF0 = 0xF060))
      in (if cr_prevWnd c then cr_do [CrPassWindow] else id) (if quits then c\<lparr>cr_quit := True\<rparr> else c))"

definition IsQuitting :: "crash_env \<Rightarrow> crash \<Rightarrow> bool" where
  "IsQuitting e c \<longleftrightarrow> cr_quit c \<or> ka_quitGame e"

subsection \<open>Paths\<close>

definition WcsCopy :: "nat \<Rightarrow> string \<Rightarrow> string" where
  "WcsCopy cap src = take (cap - 1) src"

definition WcsCat :: "nat \<Rightarrow> string \<Rightarrow> string \<Rightarrow> string" where
  "WcsCat cap dst src = (if cap \<le> length dst + 1 then dst else dst @ WcsCopy (cap - length dst) src)"

definition AppendPath :: "string \<Rightarrow> string \<Rightarrow> string" where
  "AppendPath dst name =
     (if MAX_PATH \<le> length dst + 8 then dst
      else WcsCat MAX_PATH (if dst \<noteq> [] \<and> last dst \<noteq> CHR 0x5C \<and> last dst \<noteq> CHR ''/'' then dst @ [CHR 0x5C] else dst) name)"

text \<open>The text up to its last backslash, and what follows it.\<close>

definition upto_slash :: "string \<Rightarrow> string" where
  "upto_slash s = (if CHR 0x5C \<in> set s then rev (dropWhile (\<lambda>ch. ch \<noteq> CHR 0x5C) (rev s)) else s)"

definition base_name :: "string \<Rightarrow> string" where
  "base_name s = rev (takeWhile (\<lambda>ch. ch \<noteq> CHR 0x5C) (rev s))"

definition ResolvePaths :: "crash_env \<Rightarrow> crash \<Rightarrow> crash" where
  "ResolvePaths e c =
     (let (dir, made) =
        (case ka_documents e of
           Some known \<Rightarrow>
             let p1 = WcsCat MAX_PATH (WcsCopy MAX_PATH known) (CHR 0x5C # ''My Games'' @ [CHR 0x5C]);
                 p2 = WcsCat MAX_PATH p1
                        (if ka_saves e \<noteq> [] then take 63 (ka_wide e (c_str (take 63 (ka_saves e)))) else ''Fallout4'');
                 p3 = WcsCat MAX_PATH p2 (CHR 0x5C # ''F4SE'')
             in (p3, [CrMkDir p3])
         | None \<Rightarrow> (upto_slash (case ka_self e of None \<Rightarrow> cr_logPath c | Some p \<Rightarrow> take (MAX_PATH - 1) p), []))
      in cr_do made c\<lparr>cr_logPath := AppendPath dir ''CommonwealthMP.crash.txt'',
           cr_dmpPath := AppendPath (WcsCopy MAX_PATH dir) ''CommonwealthMP.dmp''\<rparr>)"

subsection \<open>Notes\<close>

definition CMP_CrashNote :: "string \<Rightarrow> crash \<Rightarrow> crash" where
  "CMP_CrashNote what c =
     c\<lparr>cr_notes := (cr_notes c)[unat (cr_seq c) mod kNoteCount := take (kNoteLen - 1) (c_str what)], cr_seq := cr_seq c + 1\<rparr>"

definition LastNote :: "crash \<Rightarrow> string" where
  "LastNote c = (if cr_seq c = 0 then ''-'' else cr_notes c ! (unat (cr_seq c - 1) mod kNoteCount))"

text \<open>The notes written, oldest first; the subtraction and addition are those of unsigned integers.\<close>

definition noted :: "crash \<Rightarrow> string list" where
  "noted c =
     (let seq = cr_seq c; n = (if unat seq < kNoteCount then seq else of_nat kNoteCount)
      in map (\<lambda>i. cr_notes c ! (unat (seq - n + of_nat i) mod kNoteCount)) [0..<unat n])"

definition WriteNotes :: "crash \<Rightarrow> string" where
  "WriteNotes c =
     ''notes (newest last):'' @ [CHR 0x0A] @ concat (map (\<lambda>t. ''  '' @ t @ [CHR 0x0A]) (noted c))"

subsection \<open>The text of the report\<close>

fun hex_up :: "nat \<Rightarrow> string" where
  "hex_up n = (if n < 16 then [hex_digit_up n] else hex_up (n div 16) @ [hex_digit_up (n mod 16)])"

declare hex_up.simps [simp del]

definition FormatModAddr :: "crash_env \<Rightarrow> nat \<Rightarrow> u64 \<Rightarrow> string" where
  "FormatModAddr e cap addr =
     take (cap - 1)
       (case ka_module e addr of
          None \<Rightarrow> hex_up (unat addr)
        | Some (name, base) \<Rightarrow> base_name (take (MAX_PATH - 1) name) @ ''+'' @ hex_up (unat (addr - base)))"

definition DescribeAddr :: "crash_env \<Rightarrow> u64 \<Rightarrow> string" where
  "DescribeAddr e addr = hex_up (unat addr) @ '' '' @ FormatModAddr e (MAX_PATH + 32) addr @ [CHR 0x0A]"

definition WhyText :: "nat \<Rightarrow> exc option \<Rightarrow> string" where
  "WhyText cap ep =
     take (cap - 1)
       (case (case ep of None \<Rightarrow> None | Some x \<Rightarrow> ex_record x) of
          None \<Rightarrow> ''Fallout 4 stopped with no exception record.''
        | Some (code, addr, params) \<Rightarrow>
            if code = 0xC0000005
            then
              let op = (if params \<noteq> [] then params ! 0 else 0); target = (if 2 \<le> length params then params ! 1 else 0)
              in if target = 0
                 then ''Null pointer. The game '' @ (if op = 1 then ''wrote to'' else if op = 8 then ''tried to run code at'' else ''read'') @
                      '' address 0 (nothing was there).''
                 else ''Bad memory '' @ (if op = 1 then ''write'' else if op = 8 then ''execute'' else ''read'') @ '' at '' @
                      hex_up (unat target) @ ''. That address is not valid.''
            else if code = 0xC0000006 then ''A memory page failed to load from disk (paged-out or missing file).''
            else if code = 0xC000001D then ''Illegal instruction. Execution jumped into damaged or non-code memory.''
            else if code = 0xC0000094 then ''Integer divide by zero.''
            else if code = 0xC00000FD then ''Stack overflow. Likely infinite recursion or a huge local buffer.''
            else if code = 0xC000008C then ''Array bounds exceeded.''
            else if code = 0xC0000374 then ''Heap corruption. Memory was overwritten before this crash.''
            else if code = 0xC0000409 then ''Stack buffer overrun (fast fail / security cookie).''
            else if code = 0x40000015 then ''The process aborted (Address Library mismatch or REX::FAIL).''
            else if code = 0xE06D7363 then ''Uncaught C++ exception.''
            else ''Fatal exception '' @ CodeName code @ '' ('' @ hex8_up code @ '').'')"

definition WriteModules :: "crash_env \<Rightarrow> string" where
  "WriteModules e =
     (case ka_modules e of
        None \<Rightarrow> []
      | Some mods \<Rightarrow> ''modules:'' @ [CHR 0x0A] @
          concat (map (\<lambda>(name, base, size). ''  '' @ base_name (take (MAX_PATH - 1) name) @ '' base='' @ hex_up (unat base) @
            '' size='' @ hex_up (unat size) @ [CHR 0x0A]) (take 384 mods)))"

definition or_dash :: "string \<Rightarrow> string" where
  "or_dash s = (if s = [] then ''-'' else s)"

definition crash_header :: "crash_env \<Rightarrow> string \<Rightarrow> string" where
  "crash_header e origin =
     (case ka_time e of (y, mo, d, h, mi, s) \<Rightarrow>
        take 159 (''CommonwealthMP crash origin='' @ origin @ '' '' @ pad_dec 4 y @ ''-'' @ pad_dec 2 mo @ ''-'' @ pad_dec 2 d @ '' '' @
          pad_dec 2 h @ '':'' @ pad_dec 2 mi @ '':'' @ pad_dec 2 s @ '' tid='' @ dec_str (unat (ka_thread e)) @ [CHR 0x0A]))"

definition record_text :: "crash_env \<Rightarrow> exc option \<Rightarrow> string" where
  "record_text e ep =
     (case (case ep of None \<Rightarrow> None | Some x \<Rightarrow> ex_record x) of
        None \<Rightarrow> []
      | Some (code, addr, params) \<Rightarrow>
          ''code '' @ CodeName code @ '' '' @ hex_up (unat code) @ [CHR 0x0A] @ ''addr '' @ DescribeAddr e addr @
          (if code = 0xC0000005 \<and> 2 \<le> length params
           then (if params ! 0 = 1 then ''write '' else ''read '') @ hex_up (unat (params ! 1)) @ [CHR 0x0A] else []) @
          ''why '' @ WhyText 320 ep @ [CHR 0x0A])"

definition context_text :: "crash_env \<Rightarrow> exc option \<Rightarrow> string" where
  "context_text e ep =
     (case (case ep of None \<Rightarrow> None | Some x \<Rightarrow> ex_context x) of
        None \<Rightarrow> []
      | Some (rip, rsp, rbp, rax, rcx, rdx) \<Rightarrow>
          ''rip '' @ DescribeAddr e rip @ ''rsp '' @ hex_up (unat rsp) @ '' rbp '' @ hex_up (unat rbp) @ '' rax '' @ hex_up (unat rax) @
          '' rcx '' @ hex_up (unat rcx) @ '' rdx '' @ hex_up (unat rdx) @ [CHR 0x0A])"

definition crash_text :: "crash_env \<Rightarrow> exc option \<Rightarrow> string \<Rightarrow> crash \<Rightarrow> string" where
  "crash_text e ep origin c =
     crash_header e origin @ ''plugin '' @ ka_plugin e @ '' f4se '' @ ka_f4se e @ [CHR 0x0A] @
     record_text e ep @ context_text e ep @ WriteNotes c @ ''stack:'' @ [CHR 0x0A] @
     concat (map (\<lambda>a. ''  '' @ DescribeAddr e a) (take 48 (ka_stack e))) @ WriteModules e @
     ''minidump '' @ ka_utf8 e (cr_dmpPath c) @ [CHR 0x0A]"

subsection \<open>Telling the player\<close>

definition LaunchGuiReporter :: "crash_env \<Rightarrow> string \<Rightarrow> crash \<Rightarrow> bool \<times> crash" where
  "LaunchGuiReporter e origin c =
     (case ka_self e of
        None \<Rightarrow> (False, c)
      | Some p \<Rightarrow>
          let path = take (MAX_PATH - 1) p
          in if CHR 0x5C \<notin> set path \<or> \<not> ka_reporter e then (False, c)
             else
               let exe = WcsCat MAX_PATH (upto_slash path) ''cmp-reporter.exe'';
                   wide = (if origin \<noteq> [] then take 63 (ka_wide e origin) else ''unknown'');
                   q = [CHR 0x22]
               in (ka_process e, cr_do [CrReporter (q @ exe @ q @ '' --crash-txt '' @ q @ cr_logPath c @ q @ '' --crash-dmp '' @ q @
                     cr_dmpPath c @ q @ '' --origin '' @ wide)] c))"

definition crash_ip :: "exc option \<Rightarrow> u64" where
  "crash_ip ep =
     (case ep of
        None \<Rightarrow> 0
      | Some x \<Rightarrow> (case ex_record x of
                     Some (_, addr, _) \<Rightarrow> addr
                   | None \<Rightarrow> (case ex_context x of Some (rip, _) \<Rightarrow> rip | None \<Rightarrow> 0)))"

definition box_text :: "crash_env \<Rightarrow> exc option \<Rightarrow> string \<Rightarrow> crash \<Rightarrow> string" where
  "box_text e ep origin c =
     (let nl = [CHR 0x0A]
      in take 1399 (
           ''CommonwealthMP stopped Fallout 4. (or atleast i hope I was the reason!)'' @ nl @ nl @
           ''Why:'' @ nl @ WhyText 320 ep @ nl @ nl @
           ''Where: '' @ or_dash (FormatModAddr e (MAX_PATH + 32) (crash_ip ep)) @ nl @
           ''Doing: '' @ LastNote c @ nl @ ''Origin: '' @ origin @ nl @ nl @
           ''Full log:'' @ nl @ or_dash (ka_utf8 e (cr_logPath c)) @ nl @ nl @
           ''cmp-reporter.exe was not found next to the plugin. Install it or attach the log above.'' @ nl))"

definition ShowReporter :: "crash_env \<Rightarrow> exc option \<Rightarrow> string \<Rightarrow> crash \<Rightarrow> crash" where
  "ShowReporter e ep origin c =
     (let (ok, c1) = LaunchGuiReporter e origin c in if ok then c1 else cr_do [CrBox (box_text e ep origin c1)] c1)"

definition WriteMiniDump :: "crash_env \<Rightarrow> crash \<Rightarrow> crash" where
  "WriteMiniDump e c = (if ka_dumpFile e then cr_do [CrMiniDump] c else c)"

definition WriteCrash :: "crash_env \<Rightarrow> exc option \<Rightarrow> string \<Rightarrow> crash \<Rightarrow> crash" where
  "WriteCrash e ep origin c =
     (if IsQuitting e c then c
      else if cr_writing c then c
      else
        let c1 = c\<lparr>cr_writing := True\<rparr>;
            c2 = (if ka_logFile e then cr_do [CrLog (crash_text e ep origin c1)] c1 else c1)
        in ShowReporter e ep origin (WriteMiniDump e c2))"

subsection \<open>How an exception gets there\<close>

definition depth_of :: "u32 \<Rightarrow> crash \<Rightarrow> int" where
  "depth_of t c = (case um_find t (cr_depth c) of None \<Rightarrow> 0 | Some d \<Rightarrow> d)"

definition Veh :: "crash_env \<Rightarrow> exc option \<Rightarrow> crash \<Rightarrow> crash" where
  "Veh e ep c =
     (case (case ep of None \<Rightarrow> None | Some x \<Rightarrow> ex_record x) of
        None \<Rightarrow> c
      | Some (code, _, _) \<Rightarrow>
          if \<not> IsFatal code then c
          else if depth_of (ka_thread e) c > 0 then c
          else WriteCrash e ep ''veh'' c)"

definition Unhandled :: "crash_env \<Rightarrow> exc option \<Rightarrow> crash \<Rightarrow> crash" where
  "Unhandled e ep c =
     (let c1 = WriteCrash e ep ''unhandled'' c in if cr_prevFilter c1 then cr_do [CrPrevFilter] c1 else c1)"

definition OnTerminate :: "crash_env \<Rightarrow> u64 \<times> u64 \<times> u64 \<times> u64 \<times> u64 \<times> u64 \<Rightarrow> crash \<Rightarrow> crash" where
  "OnTerminate e ctx c = WriteCrash e (Some \<lparr>ex_record = Some (0xE06D7363, fst ctx, []), ex_context = Some ctx\<rparr>) ''terminate'' c"

definition OnAbort :: "crash_env \<Rightarrow> u64 \<times> u64 \<times> u64 \<times> u64 \<times> u64 \<times> u64 \<Rightarrow> crash \<Rightarrow> crash" where
  "OnAbort e ctx c = WriteCrash e (Some \<lparr>ex_record = Some (0x40000015, fst ctx, []), ex_context = Some ctx\<rparr>) ''abort'' c"

subsection \<open>Guarded calls\<close>

text \<open>
  The function called may itself use the handler; it gives the state it leaves and the exception it ended with, if any.
  An exception is first offered to \<open>Veh\<close>, then caught.
\<close>

definition SehRun :: "crash_env \<Rightarrow> (crash \<Rightarrow> crash \<times> exc option) \<Rightarrow> crash \<Rightarrow> (u32 \<times> u64) \<times> crash" where
  "SehRun e fn c =
     (let t = ka_thread e;
          (c1, raised) = fn (c\<lparr>cr_depth := um_put t (depth_of t c + 1) (cr_depth c)\<rparr>)
      in case raised of
           None \<Rightarrow> ((0, 0), c1)
         | Some x \<Rightarrow>
             (((case ex_record x of Some (code, _, _) \<Rightarrow> code | None \<Rightarrow> 0), (case ex_context x of Some (rip, _) \<Rightarrow> rip | None \<Rightarrow> 0)),
              Veh e raised c1))"

definition CMP_SehCall :: "crash_env \<Rightarrow> string \<Rightarrow> (crash \<Rightarrow> crash \<times> exc option) option \<Rightarrow> crash \<Rightarrow> bool \<times> crash" where
  "CMP_SehCall e what fn c =
     (case fn of
        None \<Rightarrow> (False, c)
      | Some f \<Rightarrow>
          (case SehRun e f (CMP_CrashNote what c) of
             ((code, ip), c1) \<Rightarrow>
               if code \<noteq> 0
               then (False, CMP_CrashNote (take 159 (''SEH '' @ what @ '' '' @ CodeName code @ '' '' @ hex8_up code @ '' ip='' @ hex_up (unat ip))) c1)
               else (True, c1)))"

definition CMP_WatchQuit :: "crash_env \<Rightarrow> crash \<Rightarrow> crash" where
  "CMP_WatchQuit e c =
     (if cr_hooked c \<or> cr_quit c \<or> \<not> ka_window e then c else c\<lparr>cr_hooked := True, cr_prevWnd := ka_prevWnd e\<rparr>)"

definition CMP_InstallCrashHandler :: "crash_env \<Rightarrow> crash \<Rightarrow> crash" where
  "CMP_InstallCrashHandler e c =
     (if cr_installed c then c
      else cr_do [CrInstall] ((ResolvePaths e (c\<lparr>cr_installed := True\<rparr>))\<lparr>cr_prevFilter := ka_prevFilter e\<rparr>))"

subsection \<open>The ring keeps the last notes\<close>

definition cut_note :: "string \<Rightarrow> string" where
  "cut_note w = take (kNoteLen - 1) (c_str w)"

definition last_notes :: "string list \<Rightarrow> string list" where
  "last_notes ws = drop (length ws - kNoteCount) (map cut_note ws)"

definition ring_holds :: "string list \<Rightarrow> crash \<Rightarrow> bool" where
  "ring_holds ws c \<longleftrightarrow>
     cr_seq c = of_nat (length ws) \<and> length (cr_notes c) = kNoteCount \<and>
     (\<forall>i < length ws. length ws \<le> i + kNoteCount \<longrightarrow> cr_notes c ! (i mod kNoteCount) = cut_note (ws ! i))"

lemma unat_u32: "n < 2 ^ 32 \<Longrightarrow> unat (of_nat n :: u32) = n"
  by (simp add: unsigned_of_nat take_bit_nat_eq_self)

lemma ring_holds_init: "ring_holds [] crash_init"
  by (simp add: ring_holds_def crash_init_def)

lemma near_mod_eq:
  fixes i j k :: nat
  assumes "i < j" "j \<le> i + k" "i mod k = j mod k"
  shows "j = i + k"
proof -
  have "k dvd j - i"
    using assms by (metis mod_eq_dvd_iff_nat less_imp_le)
  then have "k \<le> j - i"
    using assms(1) by (simp add: dvd_imp_le)
  then show ?thesis
    using assms(1,2) by simp
qed

lemma ring_holds_note:
  assumes "ring_holds ws c" "length ws < 2 ^ 32"
  shows "ring_holds (ws @ [w]) (CMP_CrashNote w c)"
proof -
  have seq: "unat (cr_seq c) = length ws"
    using assms by (simp add: ring_holds_def unat_u32)
  have "cr_notes (CMP_CrashNote w c) ! (i mod kNoteCount) = cut_note ((ws @ [w]) ! i)"
    if "i < Suc (length ws)" "Suc (length ws) \<le> i + kNoteCount" for i
  proof (cases "i = length ws")
    case True
    then show ?thesis
      using assms(1) seq by (simp add: CMP_CrashNote_def ring_holds_def cut_note_def kNoteCount_def)
  next
    case False
    then have "i mod kNoteCount \<noteq> length ws mod kNoteCount"
      using that near_mod_eq[of i "length ws" kNoteCount] by auto
    then show ?thesis
      using assms(1) seq that False by (simp add: CMP_CrashNote_def ring_holds_def nth_append)
  qed
  then show ?thesis
    using assms(1) by (simp add: ring_holds_def CMP_CrashNote_def)
qed

lemma ring_holds_fold: "length ws \<le> 2 ^ 32 \<Longrightarrow> ring_holds ws (fold CMP_CrashNote ws crash_init)"
proof (induction ws rule: rev_induct)
  case Nil
  show ?case
    by (simp add: ring_holds_init)
next
  case (snoc w ws)
  then show ?case
    using ring_holds_note[of ws "fold CMP_CrashNote ws crash_init" w] by simp
qed

lemma noted_ring:
  assumes "ring_holds ws c" "length ws < 2 ^ 32"
  shows "noted c = last_notes ws"
proof (rule nth_equalityI)
  have seq: "unat (cr_seq c) = length ws" "cr_seq c = of_nat (length ws)"
    using assms by (simp_all add: ring_holds_def unat_u32)
  define n :: u32 where "n = (if unat (cr_seq c) < kNoteCount then cr_seq c else of_nat kNoteCount)"
  have n: "unat n = min (length ws) kNoteCount"
    using seq by (simp add: n_def kNoteCount_def)
  have nle: "n \<le> cr_seq c"
    using n seq by (simp add: word_le_nat_alt)
  show len: "length (noted c) = length (last_notes ws)"
    using n by (simp add: noted_def last_notes_def Let_def n_def)
  fix i
  assume i: "i < length (noted c)"
  then have il: "i < unat n"
    by (simp add: noted_def Let_def n_def)
  have start: "unat (cr_seq c - n) = length ws - kNoteCount"
    using n seq(1) by (simp add: unat_sub[OF nle] min_def)
  have ui: "unat (of_nat i :: u32) = i"
    using il n assms(2) by (intro unat_u32) simp
  have pos: "unat (cr_seq c - n + of_nat i) = length ws - kNoteCount + i"
    using start ui il n assms(2) by (subst unat_add_lem[THEN iffD1]) auto
  have "noted c ! i = cr_notes c ! ((length ws - kNoteCount + i) mod kNoteCount)"
    using il pos by (simp add: noted_def Let_def n_def)
  also have "\<dots> = cut_note (ws ! (length ws - kNoteCount + i))"
    using assms(1) il n by (auto simp: ring_holds_def)
  also have "\<dots> = last_notes ws ! i"
    using il n by (cases "length ws \<le> kNoteCount") (simp_all add: last_notes_def)
  finally show "noted c ! i = last_notes ws ! i" .
qed

lemma last_note_ring:
  assumes "ring_holds ws c" "length ws < 2 ^ 32"
  shows "LastNote c = (if ws = [] then ''-'' else cut_note (last ws))"
proof (cases ws rule: rev_cases)
  case Nil
  then show ?thesis
    using assms(1) by (simp add: LastNote_def ring_holds_def)
next
  case (snoc vs w)
  have seq: "cr_seq c = of_nat (Suc (length vs))"
    using assms(1) snoc by (simp add: ring_holds_def)
  have len: "Suc (length vs) < 2 ^ 32"
    using assms(2) snoc by simp
  have "unat (cr_seq c) = Suc (length vs)"
    unfolding seq by (rule unat_u32) (rule len)
  then have nz: "cr_seq c \<noteq> 0"
    by auto
  have "cr_seq c - 1 = of_nat (length vs)"
    by (simp add: seq)
  then have "unat (cr_seq c - 1) = length vs"
    using len by (simp add: unat_u32)
  then show ?thesis
    using assms(1) snoc nz by (simp add: LastNote_def ring_holds_def kNoteCount_def)
qed

text \<open>
  C26: after any fewer than 2^32 notes from the start, what the report lists are exactly the last twenty-four of them
  in the order they were made, each up to its first zero character and cut to 119 characters, and the note the player
  is shown is the last one (a dash when there was none).
\<close>

theorem notes_are_the_last:
  assumes "length ws < 2 ^ 32"
  shows "noted (fold CMP_CrashNote ws crash_init) = last_notes ws \<and>
         LastNote (fold CMP_CrashNote ws crash_init) = (if ws = [] then ''-'' else cut_note (last ws))"
  using ring_holds_fold[of ws] assms by (simp add: noted_ring last_note_ring)

theorem notes_are_the_last_witness:
  "noted (fold CMP_CrashNote (map (\<lambda>i. dec_str i) [0..<30]) crash_init) = map (\<lambda>i. dec_str i) [6..<30] \<and>
   LastNote (fold CMP_CrashNote (map (\<lambda>i. dec_str i) [0..<30]) crash_init) = ''29''"
proof -
  let ?ws = "map (\<lambda>i. dec_str i) [0..<30]"
  have "last_notes ?ws = map (\<lambda>i. dec_str i) [6..<30] \<and> cut_note (last ?ws) = ''29''"
    by code_simp
  then show ?thesis
    using notes_are_the_last[of ?ws] by simp
qed

subsection \<open>Everything that can happen to the handler\<close>

text \<open>The ways the process comes to the handler, a guarded call doing any of them inside it.\<close>

inductive crash_runs :: "crash \<Rightarrow> crash \<Rightarrow> bool" where
  nothing: "crash_runs c c"
| noting: "crash_runs c c1 \<Longrightarrow> crash_runs c (CMP_CrashNote w c1)"
| installed: "crash_runs c c1 \<Longrightarrow> crash_runs c (CMP_InstallCrashHandler e c1)"
| watched: "crash_runs c c1 \<Longrightarrow> crash_runs c (CMP_WatchQuit e c1)"
| window: "crash_runs c c1 \<Longrightarrow> crash_runs c (QuitWndProc m wp c1)"
| raised: "crash_runs c c1 \<Longrightarrow> crash_runs c (Veh e ep c1)"
| uncaught: "crash_runs c c1 \<Longrightarrow> crash_runs c (Unhandled e ep c1)"
| ended: "crash_runs c c1 \<Longrightarrow> crash_runs c (OnTerminate e ctx c1)"
| aborted: "crash_runs c c1 \<Longrightarrow> crash_runs c (OnAbort e ctx c1)"
| guarded: "crash_runs c c1 \<Longrightarrow> (\<And>d. crash_runs d (fst (f d))) \<Longrightarrow> crash_runs c (snd (CMP_SehCall e w (Some f) c1))"
| unguarded: "crash_runs c c1 \<Longrightarrow> crash_runs c (snd (CMP_SehCall e w None c1))"

text \<open>What every entry point keeps holds of whatever they do together.\<close>

definition keeps_step :: "(crash \<Rightarrow> crash \<Rightarrow> bool) \<Rightarrow> (crash \<Rightarrow> crash) \<Rightarrow> bool" where
  "keeps_step R g \<longleftrightarrow> (\<forall>c. R c (g c))"

definition seh_enter :: "crash_env \<Rightarrow> crash \<Rightarrow> crash" where
  "seh_enter e c = c\<lparr>cr_depth := um_put (ka_thread e) (depth_of (ka_thread e) c + 1) (cr_depth c)\<rparr>"

lemma SehCall_steps:
  assumes "\<And>c. R c c" "\<And>a b c. R a b \<Longrightarrow> R b c \<Longrightarrow> R a c" "\<And>w. keeps_step R (CMP_CrashNote w)" "keeps_step R (seh_enter e)"
    "\<And>ep. keeps_step R (Veh e ep)" "\<And>d. R d (fst (f d))"
  shows "R c (snd (CMP_SehCall e w (Some f) c))"
proof -
  obtain c1 r where f: "f (seh_enter e (CMP_CrashNote w c)) = (c1, r)"
    by fastforce
  have "R c c1"
    using assms(6)[of "seh_enter e (CMP_CrashNote w c)"] assms(2,3,4) unfolding f keeps_step_def by (metis fst_conv)
  then have "R c (snd (SehRun e f (CMP_CrashNote w c)))"
    using f assms(2,5) unfolding keeps_step_def
    by (auto simp: SehRun_def seh_enter_def Let_def split: option.split)
  then show ?thesis
    using assms(2,3) by (auto simp: CMP_SehCall_def keeps_step_def split: prod.splits)
qed

lemma crash_runs_keeps:
  assumes "crash_runs c c'"
    and "\<And>c. R c c" "\<And>a b c. R a b \<Longrightarrow> R b c \<Longrightarrow> R a c"
    and "\<And>w. keeps_step R (CMP_CrashNote w)" "\<And>e. keeps_step R (CMP_InstallCrashHandler e)" "\<And>e. keeps_step R (CMP_WatchQuit e)"
    and "\<And>m wp. keeps_step R (QuitWndProc m wp)" "\<And>e. keeps_step R (seh_enter e)" "\<And>e. keeps_step R (cr_do [CrPrevFilter])"
    and "\<And>e ep origin. keeps_step R (WriteCrash e ep origin)"
  shows "R c c'"
proof -
  have go: "R c (g c1)" if "R c c1" "keeps_step R g" for c c1 g
    using that assms(3) unfolding keeps_step_def by blast
  have veh: "keeps_step R (Veh e ep)" for e ep
    using assms(2,10) by (auto simp: keeps_step_def Veh_def split: option.split)
  have unhandled: "keeps_step R (Unhandled e ep)" for e ep
    unfolding keeps_step_def
  proof
    fix c
    have "R c (WriteCrash e ep ''unhandled'' c)"
      using assms(10) by (simp add: keeps_step_def)
    then show "R c (Unhandled e ep c)"
      using go[OF _ assms(9)] by (simp add: Unhandled_def Let_def)
  qed
  have ends: "keeps_step R (OnTerminate e ctx)" "keeps_step R (OnAbort e ctx)" for e ctx
    using assms(10) by (simp_all add: keeps_step_def OnTerminate_def OnAbort_def)
  from assms(1) show ?thesis
  proof (induction rule: crash_runs.induct)
    case (nothing c)
    show ?case
      by (rule assms(2))
  next
    case (guarded c c1 f e w)
    have "R c1 (snd (CMP_SehCall e w (Some f) c1))"
      by (rule SehCall_steps[where R = R]) (fact assms veh guarded.IH)+
    then show ?case
      using guarded.IH(1) assms(3) by blast
  next
    case (unguarded c c1 e w)
    then show ?case
      by (simp add: CMP_SehCall_def)
  qed (rule go[OF _ assms(4)] go[OF _ assms(5)] go[OF _ assms(6)] go[OF _ assms(7)] go[OF _ veh] go[OF _ unhandled]
         go[OF _ ends(1)] go[OF _ ends(2)], assumption)+
qed


subsection \<open>The report is written once, and never while quitting\<close>

text \<open>What is asked of Windows by the report, and how often each was asked.\<close>

datatype report_kind = WroteLog | MadeDump | StartedReporter | ShownBox

fun kind_of :: "crash_call \<Rightarrow> report_kind option" where
  "kind_of (CrLog _) = Some WroteLog"
| "kind_of CrMiniDump = Some MadeDump"
| "kind_of (CrReporter _) = Some StartedReporter"
| "kind_of (CrBox _) = Some ShownBox"
| "kind_of _ = None"

definition told :: "report_kind \<Rightarrow> crash \<Rightarrow> nat" where
  "told k c = length (filter (\<lambda>x. kind_of x = Some k) (cr_calls c))"

definition may_tell :: "crash \<Rightarrow> nat" where
  "may_tell c = (if cr_writing c \<or> cr_quit c then 0 else 1)"

text \<open>What is told more afterwards: each kind at most once, and only while it was still allowed.\<close>

definition tells_once :: "crash \<Rightarrow> crash \<Rightarrow> bool" where
  "tells_once c c' \<longleftrightarrow>
     (\<forall>k. told k c \<le> told k c' \<and> told k c' + may_tell c' \<le> told k c + may_tell c) \<and> (cr_quit c \<longrightarrow> cr_quit c')"

lemma tells_once_refl: "tells_once c c"
  by (simp add: tells_once_def)


lemma told_do: "told k (cr_do xs c) = told k c + length (filter (\<lambda>x. kind_of x = Some k) xs)"
  by (simp add: told_def cr_do_def)

lemma crash_flags_do [simp]:
  "cr_writing (cr_do xs c) = cr_writing c" "cr_quit (cr_do xs c) = cr_quit c" "cr_depth (cr_do xs c) = cr_depth c"
  "cr_prevFilter (cr_do xs c) = cr_prevFilter c" "cr_notes (cr_do xs c) = cr_notes c" "cr_seq (cr_do xs c) = cr_seq c"
  by (simp_all add: cr_do_def)


lemma LaunchGuiReporter_told:
  "snd (LaunchGuiReporter e origin c) = c \<or> (\<exists>t. snd (LaunchGuiReporter e origin c) = cr_do [CrReporter t] c)"
  by (simp add: LaunchGuiReporter_def Let_def split: option.split) blast

lemma ShowReporter_told:
  "\<exists>xs. ShowReporter e ep origin c = cr_do xs c \<and> set xs \<subseteq> range CrReporter \<union> range CrBox \<and> distinct (map kind_of xs)"
proof -
  have "\<exists>xs. snd (LaunchGuiReporter e origin c) = cr_do xs c \<and> (xs = [] \<or> (\<exists>t. xs = [CrReporter t]))"
    using LaunchGuiReporter_told[of e origin c]
  proof
    assume "snd (LaunchGuiReporter e origin c) = c"
    then show ?thesis
      by (intro exI[of _ "[]"]) (simp add: cr_do_def)
  qed blast
  then obtain xs where xs: "snd (LaunchGuiReporter e origin c) = cr_do xs c" "xs = [] \<or> (\<exists>t. xs = [CrReporter t])"
    by blast
  show ?thesis
  proof (cases "fst (LaunchGuiReporter e origin c)")
    case True
    then show ?thesis
      using xs by (intro exI[of _ xs]) (auto simp: ShowReporter_def split: prod.split)
  next
    case False
    define t where "t = box_text e ep origin (snd (LaunchGuiReporter e origin c))"
    have "ShowReporter e ep origin c = cr_do (xs @ [CrBox t]) c"
      using xs(1) False by (cases "LaunchGuiReporter e origin c") (simp add: ShowReporter_def cr_do_def t_def)
    then show ?thesis
      using xs(2) by (intro exI[of _ "xs @ [CrBox t]"]) auto
  qed
qed

lemma kinds_once: "distinct (map kind_of xs) \<Longrightarrow> length (filter (\<lambda>x. kind_of x = Some k) xs) \<le> 1"
  proof (induction xs)
  case (Cons x xs)
  show ?case
  proof (cases "kind_of x = Some k")
    case True
    then have "\<forall>y \<in> set xs. kind_of y \<noteq> Some k"
      using Cons.prems by (auto simp: image_iff)
    then show ?thesis
      using True by simp
  qed (use Cons in simp)
qed simp

lemma WriteCrash_calls:
  "WriteCrash e ep origin c = c \<or>
   \<not> cr_quit c \<and> \<not> cr_writing c \<and>
   (\<exists>xs. WriteCrash e ep origin c = cr_do xs (c\<lparr>cr_writing := True\<rparr>) \<and> distinct (map kind_of xs))"
proof (cases "IsQuitting e c \<or> cr_writing c")
  case True
  then show ?thesis
    by (auto simp: WriteCrash_def)
next
  case False
  define c1 where "c1 = c\<lparr>cr_writing := True\<rparr>"
  define ls where "ls = (if ka_logFile e then [CrLog (crash_text e ep origin c1)] else [])"
  define ds where "ds = (if ka_dumpFile e then [CrMiniDump] else [])"
  obtain xs where xs: "ShowReporter e ep origin (cr_do (ls @ ds) c1) = cr_do xs (cr_do (ls @ ds) c1)"
    "set xs \<subseteq> range CrReporter \<union> range CrBox" "distinct (map kind_of xs)"
    using ShowReporter_told by blast
  have "WriteCrash e ep origin c = ShowReporter e ep origin (cr_do (ls @ ds) c1)"
    using False by (simp add: WriteCrash_def WriteMiniDump_def ls_def ds_def c1_def cr_do_def Let_def)
  then have "WriteCrash e ep origin c = cr_do (ls @ ds @ xs) (c\<lparr>cr_writing := True\<rparr>)"
    using xs(1) by (simp add: cr_do_def c1_def)
  moreover have "distinct (map kind_of (ls @ ds @ xs))"
    using xs(2,3) by (auto simp: ls_def ds_def)
  ultimately show ?thesis
    using False by (auto simp: IsQuitting_def)
qed

lemma WriteCrash_tells: "tells_once c (WriteCrash e ep origin c)"
  using WriteCrash_calls[of e ep origin c]
proof (elim disjE conjE exE)
  fix xs
  assume a: "\<not> cr_quit c" "\<not> cr_writing c" "WriteCrash e ep origin c = cr_do xs (c\<lparr>cr_writing := True\<rparr>)" "distinct (map kind_of xs)"
  have "told k (c\<lparr>cr_writing := True\<rparr>) = told k c" for k
    by (simp add: told_def)
  then show ?thesis
    using a kinds_once[OF a(4)] by (simp add: tells_once_def may_tell_def told_do)
qed (simp add: tells_once_refl)

lemma ResolvePaths_keeps:
  "told k (ResolvePaths e c) = told k c" "cr_writing (ResolvePaths e c) = cr_writing c" "cr_quit (ResolvePaths e c) = cr_quit c"
  "cr_depth (ResolvePaths e c) = cr_depth c"
  by (simp_all add: ResolvePaths_def told_def cr_do_def Let_def split: option.split)





lemma WriteCrash_logs:
  assumes "\<not> IsQuitting e c" "\<not> cr_writing c" "ka_logFile e"
  shows "\<exists>xs. WriteCrash e ep origin c =
    cr_do (CrLog (crash_text e ep origin (c\<lparr>cr_writing := True\<rparr>)) # xs) (c\<lparr>cr_writing := True\<rparr>)"
proof -
  let ?c = "cr_do (if ka_dumpFile e then [CrMiniDump] else [])
    (cr_do [CrLog (crash_text e ep origin (c\<lparr>cr_writing := True\<rparr>))] (c\<lparr>cr_writing := True\<rparr>))"
  obtain xs where "ShowReporter e ep origin ?c = cr_do xs ?c"
    using ShowReporter_told by blast
  moreover have "WriteCrash e ep origin c = ShowReporter e ep origin ?c"
    using assms by (simp add: WriteCrash_def WriteMiniDump_def Let_def cr_do_def)
  ultimately show ?thesis
    by (auto simp: cr_do_def)
qed


lemma WriteCrash_logs_told:
  assumes "\<not> IsQuitting e c" "\<not> cr_writing c" "ka_logFile e"
  shows "told WroteLog (WriteCrash e ep origin c) = told WroteLog c + 1"
proof -
  obtain xs where "WriteCrash e ep origin c =
    cr_do (CrLog (crash_text e ep origin (c\<lparr>cr_writing := True\<rparr>)) # xs) (c\<lparr>cr_writing := True\<rparr>)"
    using WriteCrash_logs[OF assms] by blast
  then have "told WroteLog c + 1 \<le> told WroteLog (WriteCrash e ep origin c)"
    by (simp add: told_def cr_do_def)
  moreover have "told WroteLog (WriteCrash e ep origin c) \<le> told WroteLog c + 1"
  proof -
    have "told WroteLog (WriteCrash e ep origin c) + may_tell (WriteCrash e ep origin c) \<le> told WroteLog c + may_tell c"
      using WriteCrash_tells[of c e ep origin] by (simp add: tells_once_def)
    moreover have "may_tell c \<le> 1"
      by (simp add: may_tell_def)
    ultimately show ?thesis
      by simp
  qed
  ultimately show ?thesis
    by simp
qed




definition dead_env :: crash_env where
  "dead_env = \<lparr>ka_quitGame = False, ka_logFile = True, ka_dumpFile = True, ka_time = (2026, 1, 2, 3, 4, 5), ka_thread = 7,
     ka_plugin = ''1.0.0'', ka_f4se = ''0.7.2'', ka_module = (\<lambda>a. None), ka_stack = [1, 2], ka_modules = None, ka_self = None,
     ka_reporter = False, ka_process = False, ka_wide = id, ka_utf8 = id, ka_documents = Some ''C:'', ka_saves = [],
     ka_prevFilter = False, ka_prevWnd = False, ka_window = True\<rparr>"


subsection \<open>A guarded call turns the handler off\<close>

definition deeper :: "crash \<Rightarrow> crash \<Rightarrow> bool" where
  "deeper c c' \<longleftrightarrow> (\<forall>t. depth_of t c \<le> depth_of t c')"

lemma same_depth: "cr_depth c' = cr_depth c \<Longrightarrow> depth_of t c' = depth_of t c"
  by (simp add: depth_of_def)

lemma WriteCrash_depth: "cr_depth (WriteCrash e ep origin c) = cr_depth c"
  using WriteCrash_calls[of e ep origin c] by auto

lemma steps_deeper:
  "keeps_step deeper (CMP_CrashNote w)" "keeps_step deeper (CMP_InstallCrashHandler e)" "keeps_step deeper (CMP_WatchQuit e)"
  "keeps_step deeper (QuitWndProc m wp)" "keeps_step deeper (seh_enter e)" "keeps_step deeper (cr_do [CrPrevFilter])"
  "keeps_step deeper (WriteCrash e ep origin)"
  by (auto simp: keeps_step_def deeper_def CMP_CrashNote_def CMP_InstallCrashHandler_def CMP_WatchQuit_def QuitWndProc_def seh_enter_def
      Let_def ResolvePaths_keeps WriteCrash_depth um_find_put depth_of_def)

lemma deeper_refl: "deeper c c"
  by (simp add: deeper_def)

lemma deeper_trans: "deeper a b \<Longrightarrow> deeper b c \<Longrightarrow> deeper a c"
  unfolding deeper_def using order_trans by blast

lemma Veh_depth: "depth_of t (Veh e ep c) = depth_of t c"
  by (auto simp: Veh_def depth_of_def WriteCrash_depth split: option.split)

lemma note_depth: "depth_of t (CMP_CrashNote w c) = depth_of t c"
  by (simp add: CMP_CrashNote_def depth_of_def)

lemma crash_runs_deeper:
  assumes "crash_runs c c'"
  shows "depth_of t c \<le> depth_of t c'"
proof -
  have "deeper c c'"
    using assms by (rule crash_runs_keeps) (fact deeper_refl deeper_trans steps_deeper)+
  then show ?thesis
    by (simp add: deeper_def)
qed

text \<open>
  A guarded call is counted when it begins and never when it ends: after one such call on a thread, whether the
  function returned or was caught, and whatever happens afterwards, the first-chance filter leaves every exception of
  that thread unreported, however fatal.
\<close>

lemma guarded_thread_goes_dark:
  assumes "\<And>d. crash_runs d (fst (f d))" "0 \<le> depth_of (ka_thread e) c"
    and "crash_runs (snd (CMP_SehCall e w (Some f) c)) c'" "ka_thread e' = ka_thread e"
  shows "Veh e' ep c' = c'"
proof -
  let ?t = "ka_thread e"
  let ?c0 = "seh_enter e (CMP_CrashNote w c)"
  have e: "depth_of ?t ?c0 = depth_of ?t c + 1"
    by (simp add: seh_enter_def depth_of_def um_find_put CMP_CrashNote_def)
  obtain c1 r where f: "f ?c0 = (c1, r)"
    by fastforce
  have "depth_of ?t ?c0 \<le> depth_of ?t c1"
    using crash_runs_deeper[OF assms(1)[of ?c0]] by (simp add: f)
  moreover have "depth_of ?t c1 \<le> depth_of ?t (snd (CMP_SehCall e w (Some f) c))"
  proof -
    have "snd (SehRun e f (CMP_CrashNote w c)) \<in> {c1, Veh e r c1}"
      using f by (simp add: SehRun_def seh_enter_def Let_def split: option.split)
    then have "depth_of ?t (snd (SehRun e f (CMP_CrashNote w c))) = depth_of ?t c1"
      by (auto simp: Veh_depth)
    then show ?thesis
      by (cases "SehRun e f (CMP_CrashNote w c)") (auto simp: CMP_SehCall_def note_depth)
  qed
  moreover have "depth_of ?t (snd (CMP_SehCall e w (Some f) c)) \<le> depth_of ?t c'"
    by (rule crash_runs_deeper) (rule assms(3))
  ultimately have "depth_of ?t c' > 0"
    using e assms(2) by simp
  then show ?thesis
    using assms(4) by (simp add: Veh_def split: option.split)
qed

lemma guarded_thread_goes_dark_witness:
  "\<exists>c. c = snd (CMP_SehCall dead_env ''probe'' (Some (\<lambda>d. (d, None))) crash_init) \<and>
       Veh dead_env (Some \<lparr>ex_record = Some (0xC0000005, 0, [0, 0]), ex_context = None\<rparr>) c = c \<and>
       told WroteLog (Veh dead_env (Some \<lparr>ex_record = Some (0xC0000005, 0, [0, 0]), ex_context = None\<rparr>) crash_init) = 1"
proof -
  let ?c = "snd (CMP_SehCall dead_env ''probe'' (Some (\<lambda>d. (d, None))) crash_init)"
  let ?x = "Some \<lparr>ex_record = Some (0xC0000005, 0, [0, 0]), ex_context = None\<rparr>"
  have "crash_runs d (fst ((\<lambda>d. (d, None)) d))" for d :: crash
    by (simp add: crash_runs.nothing)
  moreover have "0 \<le> depth_of (ka_thread dead_env) crash_init"
    by code_simp
  ultimately have "Veh dead_env ?x ?c = ?c"
    using crash_runs.nothing by (intro guarded_thread_goes_dark[where f = "\<lambda>d. (d, None)" and e = dead_env and c = crash_init]) blast+
  moreover have "Veh dead_env ?x crash_init = WriteCrash dead_env ?x ''veh'' crash_init"
    by (simp add: Veh_def IsFatal_def depth_of_def crash_init_def um_find_def)
  then have "told WroteLog (Veh dead_env ?x crash_init) = told WroteLog crash_init + 1"
    by (simp only:) (rule WriteCrash_logs_told, simp_all add: IsQuitting_def dead_env_def crash_init_def)
  moreover have "told WroteLog crash_init = 0"
    by code_simp
  ultimately show ?thesis
    by (metis add_0)
qed

subsection \<open>The paths\<close>

lemma WcsCopy_len: "cap > 0 \<Longrightarrow> length (WcsCopy cap s) < cap"
  by (simp add: WcsCopy_def)

lemma WcsCat_len: "length d < cap \<Longrightarrow> length (WcsCat cap d s) < cap"
  by (auto simp: WcsCat_def WcsCopy_def min_def)

lemma AppendPath_len: "length d < MAX_PATH \<Longrightarrow> length (AppendPath d n) < MAX_PATH"
  by (simp add: AppendPath_def WcsCat_len)

lemma AppendPath_fits:
  assumes "length d + length n + 1 < MAX_PATH" "7 < length n"
  shows "AppendPath d n = (if d \<noteq> [] \<and> last d \<noteq> CHR 0x5C \<and> last d \<noteq> CHR ''/'' then d @ [CHR 0x5C] else d) @ n"
  using assms by (auto simp: AppendPath_def WcsCat_def WcsCopy_def)

lemma upto_slash_len: "length (upto_slash s) \<le> length s"
  using length_dropWhile_le[of "\<lambda>ch. ch \<noteq> CHR 0x5C" "rev s"] by (simp add: upto_slash_def)

lemma crash_paths_fit:
  assumes "length (cr_logPath c) < MAX_PATH"
  shows "length (cr_logPath (ResolvePaths e c)) < MAX_PATH \<and> length (cr_dmpPath (ResolvePaths e c)) < MAX_PATH"
proof -
  have "length (upto_slash s) < MAX_PATH" if "length s < MAX_PATH" for s
    using that upto_slash_len[of s] by simp
  then show ?thesis
    using assms
    by (auto simp: ResolvePaths_def Let_def cr_do_def intro!: AppendPath_len WcsCat_len WcsCopy_len split: option.split)
qed

end
