(* ===== verification/Hits.thy ===== *)
theory Hits
  imports Ghosts Handshake
begin

text \<open>
  Hits, \<^verbatim>\<open>plugin/src/combat.cpp\<close>, and the companions sent home by \<^verbatim>\<open>plugin/src/companions.cpp\<close>. The record \<open>hits\<close> holds
  the state of the ghosts with the globals of \<^verbatim>\<open>combat.cpp\<close> and what was asked of the engine; \<open>hit_env\<close> is what the
  engine answers. An actor is known by its number, as in \<open>Ghosts\<close>. Receiving a hit is in \<open>ClientPoll\<close>; the last part
  puts both sides together with the server between them.
\<close>

subsection \<open>State\<close>

datatype hit_call =
    HtRestore nat f32
  | HtDropped string
  | HtSink

record hits =
  ht_ghosts :: ghosts
  ht_ready :: bool
  ht_lastHitSend :: "(u32, f64) umap"
  ht_lastHitDropLog :: f64
  ht_calls :: "hit_call list"

datatype gun_state = kFire | kFireSighted | kOtherGun

text \<open>The event: an actor is \<open>None\<close> when the reference is gone or is not one; the bool of the target is \<^verbatim>\<open>IsPlayerRef\<close>.\<close>

record hit_event =
  hv_target :: "(nat \<times> bool) option"
  hv_aggressor :: "nat option"
  hv_cause :: "nat option"
  hv_usesHitData :: bool
  hv_healthDamage :: f32
  hv_totalDamage :: f32
  hv_physicalDamage :: f32

text \<open>
  The environment of the ghosts; the player with the state of the gun and of the melee attack; the permanent health of
  an actor, if the engine knows the value; whether the source of hit events is there.
\<close>

record hit_env =
  hx_ghosts :: ghost_env
  hx_player :: "(nat \<times> gun_state \<times> int) option"
  hx_health :: "(nat \<Rightarrow> f32) option"
  hx_source :: bool

definition hits_init :: "ghosts \<Rightarrow> hits" where
  "hits_init w = \<lparr>ht_ghosts = w, ht_ready = False, ht_lastHitSend = [], ht_lastHitDropLog = 0, ht_calls = []\<rparr>"

definition hit_do :: "hit_call \<Rightarrow> hits \<Rightarrow> hits" where
  "hit_do k h = h\<lparr>ht_calls := ht_calls h @ [k]\<rparr>"

definition hit_now :: "hit_env \<Rightarrow> f64" where
  "hit_now e = gm_now (ge_game (hx_ghosts e))"

subsection \<open>Hitting\<close>

definition RestoreGhostHealth :: "hit_env \<Rightarrow> nat \<Rightarrow> hits \<Rightarrow> hits" where
  "RestoreGhostHealth e a h =
     (case hx_health e of
        None \<Rightarrow> h
      | Some permanent \<Rightarrow> let maxHp = permanent a in if f32_less 0 maxHp then hit_do (HtRestore a maxHp) h else h)"

definition LocalPlayerFiring :: "hit_env \<Rightarrow> bool" where
  "LocalPlayerFiring e =
     (case hx_player e of None \<Rightarrow> False | Some (_, gun, melee) \<Rightarrow> gun = kFire \<or> gun = kFireSighted \<or> melee \<noteq> 0)"

definition ResolveAggressor :: "hit_env \<Rightarrow> hit_event \<Rightarrow> nat option" where
  "ResolveAggressor e ev =
     (case hx_player e of
        None \<Rightarrow> None
      | Some (player, _, _) \<Rightarrow>
          (case hv_aggressor ev of
             Some actor \<Rightarrow> Some actor
           | None \<Rightarrow>
               (case hv_cause ev of
                  Some cause \<Rightarrow> Some cause
                | None \<Rightarrow> if LocalPlayerFiring e then Some player else None)))"

definition LogHitDrop :: "hit_env \<Rightarrow> string \<Rightarrow> hits \<Rightarrow> hits" where
  "LogHitDrop e reason h =
     (if f64_less (f64_sub (hit_now e) (ht_lastHitDropLog h)) (f64_of_int 1) then h
      else hit_do (HtDropped reason) (h\<lparr>ht_lastHitDropLog := hit_now e\<rparr>))"

text \<open>The damage of the event; 0x3C23D70A is 0.01f.\<close>

definition event_damage :: "hit_event \<Rightarrow> f32" where
  "event_damage ev =
     (if hv_usesHitData ev
      then
        let enough = f32_less 0x3C23D70A; d1 = hv_healthDamage ev; d2 = (if enough d1 then d1 else hv_totalDamage ev)
        in if enough d2 then d2 else hv_physicalDamage ev
      else 0)"

text \<open>0x3FA999999999999A is 0.05.\<close>

definition hit_too_soon :: "hit_env \<Rightarrow> u32 \<Rightarrow> hits \<Rightarrow> bool" where
  "hit_too_soon e peer h =
     (case um_find peer (ht_lastHitSend h) of
        None \<Rightarrow> False
      | Some prev \<Rightarrow> f64_less (f64_sub (hit_now e) prev) 0x3FA999999999999A)"

definition OnHitEvent :: "hit_env \<Rightarrow> hit_event \<Rightarrow> hits \<Rightarrow> hits" where
  "OnHitEvent e ev h =
     (let s = gh_session (ht_ghosts h)
      in if \<not> nr_joined (ss_net s) then h
         else if mr_sessionFlags (ss_menu s) AND kSessionPvpEnabled = 0 then h
         else case hv_target ev of
           None \<Rightarrow> h
         | Some (target, isPlayer) \<Rightarrow>
             if isPlayer then h
             else
               let peer = CMP_PeerForGhost (hx_ghosts e) target (ht_ghosts h)
               in if peer = 0 then h
                  else if ResolveAggressor e ev = None \<or> ResolveAggressor e ev \<noteq> map_option fst (hx_player e)
                  then LogHitDrop e ''not local player'' (RestoreGhostHealth e target h)
                  else
                    let damage = clamp_hit_damage (event_damage ev);
                        h1 = RestoreGhostHealth e target h;
                        me = nr_myPeerId (ss_net s)
                    in if f32_le damage 0 \<or> me = 0 \<or> peer = me
                       then (if f32_le damage 0 then LogHitDrop e ''zero damage'' h1 else h1)
                       else if hit_too_soon e peer h1 then h1
                       else
                         let g = ge_game (hx_ghosts e);
                             w = ht_ghosts h1
                         in h1\<lparr>ht_lastHitSend := um_put peer (hit_now e) (ht_lastHitSend h1),
                               ht_ghosts := w\<lparr>gh_session := CMP_Net_Send g (enc_hit (make_hit me peer damage 0)) (gh_session w)\<rparr>\<rparr>)"

definition CMP_InstallCombat :: "hit_env \<Rightarrow> hits \<Rightarrow> hits" where
  "CMP_InstallCombat e h = (if ht_ready h \<or> \<not> hx_source e then h else hit_do HtSink (h\<lparr>ht_ready := True\<rparr>))"

subsection \<open>Companions\<close>

text \<open>An actor with whether it is commanded; the actors that are told to go, in order.\<close>

definition DismissActorIfCommanded :: "nat \<Rightarrow> nat \<times> bool \<Rightarrow> nat list \<Rightarrow> nat list" where
  "DismissActorIfCommanded player a dismissed =
     (if fst a = player then dismissed else if \<not> snd a then dismissed else dismissed @ [fst a])"

definition ScanActorHandles :: "(nat \<times> bool) option list \<Rightarrow> nat \<Rightarrow> nat list \<Rightarrow> nat list" where
  "ScanActorHandles handles player dismissed =
     foldl (\<lambda>d h. case h of None \<Rightarrow> d | Some a \<Rightarrow> DismissActorIfCommanded player a d) dismissed handles"

definition CMP_DismissCompanionsOnJoin ::
  "(nat \<times> nat) option \<Rightarrow> ((nat \<times> bool) option list \<times> (nat \<times> bool) option list \<times> (nat \<times> bool) option list) option \<Rightarrow> nat list" where
  "CMP_DismissCompanionsOnJoin player handles =
     (case player of
        None \<Rightarrow> []
      | Some (me, teammateCount) \<Rightarrow>
          if teammateCount = 0 then []
          else case handles of
            None \<Rightarrow> []
          | Some (high, middleHigh, middleLow) \<Rightarrow>
              ScanActorHandles middleLow me (ScanActorHandles middleHigh me (ScanActorHandles high me [])))"

lemma ScanActorHandles_eq:
  "ScanActorHandles hs me d = d @ [fst a. Some a \<leftarrow> hs, fst a \<noteq> me \<and> snd a]"
proof (induction hs arbitrary: d)
  case (Cons h hs)
  then show ?case
    by (cases h) (simp_all add: ScanActorHandles_def DismissActorIfCommanded_def)
qed (simp add: ScanActorHandles_def)

lemma dismissed_are_commanded:
  "set (CMP_DismissCompanionsOnJoin (Some (me, n)) (Some (xs, ys, zs))) =
     (if n = 0 then {} else {a. (Some (a, True) \<in> set xs \<union> set ys \<union> set zs) \<and> a \<noteq> me})"
  by (auto simp: CMP_DismissCompanionsOnJoin_def ScanActorHandles_eq split: option.splits)


subsection \<open>From one player to the other\<close>

lemma made_hit_frame:
  fixes k p :: u32 and d :: f32
  defines "m \<equiv> make_hit k p d 0"
  shows "frame_of (enc_hit m) Hit" "dec_hit (enc_hit m) = m" "sizeof_msg Hit \<le> length (enc_hit m)"
    "header_ok (dec_header (enc_hit m)) (length (enc_hit m))" "msg_of_u8 (h_type (dec_header (enc_hit m))) = Some Hit"
proof -
  have d: "delivers dec_hit Hit m (enc_hit m)"
    unfolding m_def by (rule hit_c.made_delivers) (simp_all add: made_wf)
  then show f: "frame_of (enc_hit m) Hit" "dec_hit (enc_hit m) = m"
    using hit_c.enc_len [of m] by (simp_all add: delivers_def frame_of_def m_def made_wf sizeof_Header_def)
  show "sizeof_msg Hit \<le> length (enc_hit m)"
    using hit_c.enc_len [of m] by (simp add: m_def made_wf)
  show "header_ok (dec_header (enc_hit m)) (length (enc_hit m))" "msg_of_u8 (h_type (dec_header (enc_hit m))) = Some Hit"
    using f(1) by (simp_all add: frame_of_def)
qed

lemma RestoreGhostHealth_keeps [simp]:
  "ht_ghosts (RestoreGhostHealth e a h) = ht_ghosts h" "ht_lastHitSend (RestoreGhostHealth e a h) = ht_lastHitSend h"
  by (simp_all add: RestoreGhostHealth_def hit_do_def Let_def split: option.split)

lemma hit_is_sent:
  assumes "nr_joined (ss_net (gh_session (ht_ghosts h)))" "mr_sessionFlags (ss_menu (gh_session (ht_ghosts h))) AND kSessionPvpEnabled \<noteq> 0"
    and "hv_target ev = Some (a, False)" "CMP_PeerForGhost (hx_ghosts e) a (ht_ghosts h) = p" "p \<noteq> 0"
    and "hx_player e = Some pl" "ResolveAggressor e ev = Some (fst pl)"
    and "k = nr_myPeerId (ss_net (gh_session (ht_ghosts h)))" "k \<noteq> 0" "p \<noteq> k"
    and "d = clamp_hit_damage (event_damage ev)" "\<not> f32_le d 0" "\<not> hit_too_soon e p h"
  shows "gh_session (ht_ghosts (OnHitEvent e ev h)) = CMP_Net_Send (ge_game (hx_ghosts e)) (enc_hit (make_hit k p d 0)) (gh_session (ht_ghosts h))"
  using assms by (simp add: OnHitEvent_def Let_def hit_too_soon_def)

lemma relayed_hit_is_the_same:
  "(make_hit k p (clamp_hit_damage x) 0)\<lparr>hi_damage := clamp_hit_damage (hi_damage (make_hit k p (clamp_hit_damage x) 0)),
     hi_header := fill_header (sizeof_msg Hit) Hit\<rparr> = make_hit k p (clamp_hit_damage x) 0"
  using clamped_damage_range [of x] by (simp add: make_hit_def)

lemma hit_hurts:
  assumes "nr_joined (ss_net s)" "nr_myPeerId (ss_net s) = p" "mr_sessionFlags (ss_menu s) AND kSessionPvpEnabled \<noteq> 0"
    and "d = clamp_hit_damage x" "\<not> f32_le d 0" "gm_player g = Some pl" "\<not> ea_dead pl"
  shows "HandleMessage g (enc_hit (make_hit k p d 0)) s = call (GDamage d) (s\<lparr>ss_lastRecvSec := gm_now g\<rparr>)"
proof -
  have "hi_targetPeerId (make_hit k p d 0) = p" "clamp_hit_damage (hi_damage (make_hit k p d 0)) = d"
    using clamped_damage_range [of x] assms(4) by (simp_all add: make_hit_def)
  then show ?thesis
    using made_hit_frame [of k p d] assms by (simp add: HandleMessage_def dispatch_message_def CMP_OnHit_def Let_def)
qed

text \<open>
  C36: a player hits the body of another player while PvP is on, not within
  a twentieth of a second of the last hit on him and within the server's rate: the plugin sends one Hit, the server passes
  exactly those bytes to the other player and nothing to anyone else, and his plugin takes the damage, a positive number
  of at most 500, from his player if he is alive.
\<close>

theorem hit_goes_home:
  assumes "nr_joined (ss_net (gh_session (ht_ghosts h)))" "mr_sessionFlags (ss_menu (gh_session (ht_ghosts h))) AND kSessionPvpEnabled \<noteq> 0"
    and "hv_target ev = Some (a, False)" "CMP_PeerForGhost (hx_ghosts e) a (ht_ghosts h) = p" "p \<noteq> 0"
    and "hx_player e = Some pl" "ResolveAggressor e ev = Some (fst pl)"
    and "k = nr_myPeerId (ss_net (gh_session (ht_ghosts h)))" "k \<noteq> 0" "p \<noteq> k"
    and "d = clamp_hit_damage (event_damage ev)" "\<not> f32_le d 0" "\<not> hit_too_soon e p h"
    and "core_inv r" "um_find k (rt_clients r) = Some c" "um_find p (rt_clients r) = Some other" "cfg_pvp (rt_cfg r)"
      "fst (allow_rate (rt_hitRates r) (show_u32 k) t 24)"
    and "nr_joined (ss_net s')" "nr_myPeerId (ss_net s') = p" "mr_sessionFlags (ss_menu s') AND kSessionPvpEnabled \<noteq> 0"
      "gm_player g' = Some pl'" "\<not> ea_dead pl'"
    and "m = enc_hit (make_hit k p d 0)"
  shows "gh_session (ht_ghosts (OnHitEvent e ev h)) = CMP_Net_Send (ge_game (hx_ghosts e)) m (gh_session (ht_ghosts h)) \<and>
    (\<exists>r1. handle_tcp_message r k m t now = out_cmds r1 (tcp_cmds other m) \<and> rt_outbound r1 = rt_outbound r) \<and>
    ss_calls (HandleMessage g' m s') = ss_calls s' @ [GDamage d] \<and> f32_le 0 d \<and> f32_le d (f32_of_int 500)"
proof -
  have m: "frame_of m Hit" "dec_hit m = make_hit k p d 0"
    using made_hit_frame assms(24) by simp_all
  have f: "hi_attackerPeerId (make_hit k p d 0) = k" "hi_targetPeerId (make_hit k p d 0) = p"
    "clamp_hit_damage (hi_damage (make_hit k p d 0)) = d"
    using clamped_damage_range [of "event_damage ev"] by (simp_all add: make_hit_def assms(11))
  have e: "(make_hit k p d 0)\<lparr>hi_damage := d, hi_header := fill_header (sizeof_msg Hit) Hit\<rparr> = make_hit k p d 0"
    using relayed_hit_is_the_same [of k p "event_damage ev"] f(3) by (simp add: assms(11))
  from hit_relayed [OF assms(14) m(1) assms(15), of t now]
  obtain r1 where r1: "handle_tcp_message r k m t now = out_cmds r1 (tcp_cmds other m)" "rt_outbound r1 = rt_outbound r"
    unfolding Let_def m(2) f e using assms(5,10,12,16-18,24) by auto
  have "ss_calls (HandleMessage g' m s') = ss_calls s' @ [GDamage d]"
    unfolding assms(24) by (subst hit_hurts [OF assms(19-21) assms(11) assms(12) assms(22,23)]) (simp add: call_def)
  then show ?thesis
    using r1 hit_is_sent [OF assms(1-13)] clamped_damage_range [of "event_damage ev"] unfolding assms(24) assms(11) by blast
qed


definition demo_hit_env :: hit_env where
  "demo_hit_env = \<lparr>hx_ghosts = demo_ghost_env, hx_player = Some (0, kFire, 0), hx_health = None, hx_source = True\<rparr>"

definition demo_hit :: hit_event where
  "demo_hit = \<lparr>hv_target = Some (7, False), hv_aggressor = None, hv_cause = None, hv_usesHitData = True,
     hv_healthDamage = f32_of_int 50, hv_totalDamage = 0, hv_physicalDamage = 0\<rparr>"

text \<open>Player \<open>p\<close> in a session with PvP.\<close>

definition demo_fighter :: "u32 \<Rightarrow> session" where
  "demo_fighter p = (session_init default_settings)\<lparr>ss_net := net_runtime_init\<lparr>nr_joined := True, nr_myPeerId := p\<rparr>,
     ss_menu := (ss_menu (session_init default_settings))\<lparr>mr_sessionFlags := kSessionPvpEnabled\<rparr>\<rparr>"

definition demo_fight :: hits where
  "demo_fight = hits_init ((ghosts_init (demo_fighter 2))\<lparr>gh_byPeer := [(1, 7)]\<rparr>)"

lemma demo_fighter_facts:
  "nr_joined (ss_net (demo_fighter p))" "nr_myPeerId (ss_net (demo_fighter p)) = p"
  "mr_sessionFlags (ss_menu (demo_fighter p)) AND kSessionPvpEnabled \<noteq> 0" "ss_calls (demo_fighter p) = []"
  by (simp_all add: demo_fighter_def session_init_def kSessionPvpEnabled_def)

lemma fifty_points:
  "clamp_hit_damage (event_damage demo_hit) = f32_of_int 50" "\<not> f32_le (f32_of_int 50) 0"
  by (simp_all add: clamp_hit_damage_def event_damage_def demo_hit_def f32_le_def f32_of_int_def ieee_eval)

theorem hit_goes_home_witness:
  "\<exists>r1 m. m = enc_hit (make_hit 2 1 (f32_of_int 50) 0) \<and>
     gh_session (ht_ghosts (OnHitEvent demo_hit_env demo_hit demo_fight)) = CMP_Net_Send game_of_cell m (demo_fighter 2) \<and>
     handle_tcp_message ex_rt 2 m 0 0 = out_cmds r1 (tcp_cmds (ex_client 1 ''ann'') m) \<and>
     ss_calls (HandleMessage game_of_cell m (demo_fighter 1)) = [GDamage (f32_of_int 50)]"
proof -
  let ?m = "enc_hit (make_hit 2 1 (f32_of_int 50) 0)"
  let ?s = "gh_session (ht_ghosts demo_fight)"
  have s: "?s = demo_fighter 2" "ge_game (hx_ghosts demo_hit_env) = game_of_cell"
    by (simp_all add: demo_fight_def hits_init_def ghosts_init_def demo_hit_env_def demo_ghost_env_def)
  have sent: "hv_target demo_hit = Some (7, False)" "CMP_PeerForGhost (hx_ghosts demo_hit_env) 7 (ht_ghosts demo_fight) = 1"
    "hx_player demo_hit_env = Some (0, kFire, 0)" "ResolveAggressor demo_hit_env demo_hit = Some (fst (0, kFire, 0 :: int))"
    "\<not> hit_too_soon demo_hit_env 1 demo_fight"
    by (simp_all add: demo_hit_def CMP_PeerForGhost_def demo_hit_env_def demo_ghost_env_def demo_fight_def hits_init_def ghosts_init_def
        ResolveAggressor_def LocalPlayerFiring_def hit_too_soon_def um_find_Nil)
  have rate: "fst (allow_rate (rt_hitRates ex_rt) (show_u32 2) 0 24)"
    by (simp add: allow_rate_def rate_step_def rate_get_def rate_default_def amap f64_of_int_def ieee_eval Let_def)
  have pvp: "cfg_pvp (rt_cfg ex_rt)" "um_find 2 (rt_clients ex_rt) = Some (ex_client 2 ''bob'')"
    "um_find 1 (rt_clients ex_rt) = Some (ex_client 1 ''ann'')"
    by (simp_all add: default_config_def)
  have alive: "gm_player game_of_cell = Some (the (gm_player game_of_cell))" "\<not> ea_dead (the (gm_player game_of_cell))"
    by (simp_all add: game_of_cell_def)
  have "(2 :: u32) = nr_myPeerId (ss_net ?s)"
    by (simp add: s demo_fighter_facts)
  from hit_goes_home [OF _ _ sent(1,2) _ sent(3,4) this _ _ fifty_points(1) [symmetric] fifty_points(2) sent(5) ex_rt_core pvp(2,3,1) rate
      demo_fighter_facts(1,2,3) alive refl, where now = 0]
  show ?thesis
    by (auto simp: s demo_fighter_facts)
qed

end
