(* ===== verification/Scaleform.thy ===== *)
theory Scaleform
  imports PluginMenu
begin

text \<open>
  What the plugin puts into the menus of the game: the version text of the main menu, \<^verbatim>\<open>plugin/src/menu/stamp.cpp\<close>, and
  the companion movie with its functions, \<^verbatim>\<open>plugin/src/scaleform_menu.cpp\<close>. A text field and a movie are records of the
  members the plugin reads and sets; \<open>title_env\<close> and \<open>movie_env\<close> are what else the engine answers.
\<close>

subsection \<open>Texts\<close>

definition nl :: char where "nl = CHR 0x0A"

definition kCmpVersionMarker :: string where "kCmpVersionMarker = ''CMP ''"
definition kVersionStampWaitMax :: nat where "kVersionStampWaitMax = 180"
definition kVersionMarginX :: f64 where "kVersionMarginX = f64_of_int 16"
definition kVersionMarginY :: f64 where "kVersionMarginY = f64_of_int 14"
definition kVersionFieldWidth :: f64 where "kVersionFieldWidth = f64_of_int 440"
definition kVersionLineHeight :: f64 where "kVersionLineHeight = f64_of_int 18"

definition has_text :: "string \<Rightarrow> string \<Rightarrow> bool" where
  "has_text needle text \<longleftrightarrow> find_sub needle text \<noteq> None"

definition VersionHtmlHasVanilla :: "string \<Rightarrow> bool" where
  "VersionHtmlHasVanilla html \<longleftrightarrow> has_text ''Fallout'' html \<or> has_text ''F4SE'' html"

definition TrimCopyLocal :: "string \<Rightarrow> string" where
  "TrimCopyLocal text = trim_back (trim_front text)"

lemma dropWhile_shorter: "dropWhile P s = x # xs \<Longrightarrow> Suc (length xs) \<le> length s"
  using length_dropWhile_le [of P s] by simp

text \<open>
  The loop over the tags: what is before the next \<^verbatim>\<open><\<close> stays, the tag up to its \<^verbatim>\<open>>\<close> is replaced, and the search goes on
  behind it; a tag that is not closed ends the loop.
\<close>

function strip_tags :: "string \<Rightarrow> string" where
  "strip_tags s =
     (case dropWhile (\<lambda>c. c \<noteq> CHR ''<'') s of
        [] \<Rightarrow> s
      | tag_on \<Rightarrow>
          if CHR ''>'' \<notin> set tag_on then s
          else
            let before = takeWhile (\<lambda>c. c \<noteq> CHR ''<'') s;
                tag = takeWhile (\<lambda>c. c \<noteq> CHR ''>'') tag_on;
                rest = drop (length tag + 1) tag_on
            in before @ (if take 3 tag = ''<br'' \<or> take 3 tag = ''<BR'' then [nl] else []) @ strip_tags rest)"
  by auto
termination
  by (relation "measure length") (auto dest!: dropWhile_shorter)

declare strip_tags.simps [simp del]

definition StripHtmlToText :: "string \<Rightarrow> string" where
  "StripHtmlToText html = TrimCopyLocal (strip_tags html)"

text \<open>The lines of a text, trimmed; the first that holds the needle, or nothing.\<close>

function lines_of :: "string \<Rightarrow> string list" where
  "lines_of [] = []"
| "lines_of (c # s) = takeWhile (\<lambda>x. x \<noteq> nl) (c # s) # lines_of (drop 1 (dropWhile (\<lambda>x. x \<noteq> nl) (c # s)))"
  by pat_completeness auto
termination
proof (relation "measure length")
  fix c s
  show "(drop 1 (dropWhile (\<lambda>x. x \<noteq> nl) (c # s)), c # s) \<in> measure length"
    using length_dropWhile_le [of "\<lambda>x. x \<noteq> nl" s] by (auto simp: less_Suc_eq_le le_diff_conv)
qed simp

definition FindLineContaining :: "string \<Rightarrow> string \<Rightarrow> string" where
  "FindLineContaining text needle =
     (case filter (has_text needle) (map TrimCopyLocal (lines_of text)) of [] \<Rightarrow> [] | line # _ \<Rightarrow> line)"

subsection \<open>The version text\<close>

record version_field =
  vf_text :: "string option"
  vf_html :: "string option"
  vf_onRoot :: bool
  vf_style :: bool
  vf_width :: f64
  vf_x :: f64
  vf_y :: f64

record title_env =
  te_open :: bool
  te_ready :: bool
  te_movie :: bool
  te_pause :: bool
  te_stageWidth :: "f64 option"
  te_stageHeight :: "f64 option"
  te_root :: bool
  te_contains :: bool
  te_game :: string
  te_f4se :: string
  te_plugin :: string
  te_stamp :: string

record title =
  tl_wait :: nat
  tl_stamp :: string
  tl_field :: "version_field option"

definition DefaultGameVersionLine :: "title_env \<Rightarrow> string" where
  "DefaultGameVersionLine e = ''Fallout 4 '' @ te_game e"

definition DefaultF4seVersionLine :: "title_env \<Rightarrow> string" where
  "DefaultF4seVersionLine e = ''F4SE '' @ te_f4se e"

definition BuildVersionText :: "title_env \<Rightarrow> string" where
  "BuildVersionText e = DefaultGameVersionLine e @ [nl] @ DefaultF4seVersionLine e @ [nl] @ kCmpVersionMarker @ te_plugin e"

definition VersionTextLooksCorrect :: "string \<Rightarrow> bool" where
  "VersionTextLooksCorrect text \<longleftrightarrow> has_text kCmpVersionMarker text \<and> 3 \<le> 1 + length (filter (\<lambda>c. c = nl) text)"

definition GetStageSize :: "title_env \<Rightarrow> f64 \<times> f64" where
  "GetStageSize e =
     (if \<not> te_movie e then (f64_of_int 1920, f64_of_int 1080)
      else (case te_stageWidth e of Some w \<Rightarrow> w | None \<Rightarrow> f64_of_int 1920, case te_stageHeight e of Some h \<Rightarrow> h | None \<Rightarrow> f64_of_int 1080))"

definition EnsureVersionOnRoot :: "title_env \<Rightarrow> version_field \<Rightarrow> version_field" where
  "EnsureVersionOnRoot e f = (if te_contains e \<and> vf_onRoot f then f else f\<lparr>vf_onRoot := True\<rparr>)"

definition AnchorVersionBottomRight :: "title_env \<Rightarrow> version_field \<Rightarrow> version_field" where
  "AnchorVersionBottomRight e f =
     (case GetStageSize e of (w, h) \<Rightarrow>
        (if te_movie e \<and> te_root e then EnsureVersionOnRoot e f else f)
          \<lparr>vf_style := True, vf_width := kVersionFieldWidth, vf_x := f64_sub (f64_sub w kVersionMarginX) kVersionFieldWidth,
           vf_y := f64_sub (f64_sub h kVersionMarginY) (f64_mul kVersionLineHeight (f64_of_int 3))\<rparr>)"

definition IsPauseMainMenu :: "title_env \<Rightarrow> bool" where
  "IsPauseMainMenu e \<longleftrightarrow> te_movie e \<and> te_pause e"

text \<open>What the field says: its text, else its HTML; nothing when it has neither.\<close>

definition GfxMemberString :: "string option \<Rightarrow> string \<Rightarrow> bool \<times> string" where
  "GfxMemberString member out = (case member of None \<Rightarrow> (False, out) | Some s \<Rightarrow> (True, s))"

definition existing_text :: "version_field \<Rightarrow> bool \<times> string" where
  "existing_text f = (case GfxMemberString (vf_text f) [] of (True, s) \<Rightarrow> (True, s) | (False, s) \<Rightarrow> GfxMemberString (vf_html f) s)"

definition StampVersion :: "title_env \<Rightarrow> title \<Rightarrow> title" where
  "StampVersion e t =
     (case tl_field t of
        None \<Rightarrow> t
      | Some f \<Rightarrow>
          if IsPauseMainMenu e then t
          else
            let existing = snd (existing_text f)
            in if VersionTextLooksCorrect existing
               then t\<lparr>tl_field := Some (AnchorVersionBottomRight e f), tl_stamp := te_stamp e\<rparr>
               else if \<not> VersionHtmlHasVanilla existing \<and> tl_wait t < kVersionStampWaitMax
               then t\<lparr>tl_wait := tl_wait t + 1\<rparr>
               else t\<lparr>tl_field := Some (AnchorVersionBottomRight e (f\<lparr>vf_html := Some [], vf_text := Some (c_str (BuildVersionText e))\<rparr>)),
                      tl_stamp := te_stamp e\<rparr>)"

definition TryStampMainMenuVersion :: "title_env \<Rightarrow> title \<Rightarrow> title" where
  "TryStampMainMenuVersion e t =
     (if \<not> te_open e \<or> \<not> te_ready e \<or> IsPauseMainMenu e then t
      else case tl_field t of
        None \<Rightarrow> StampVersion e t
      | Some f \<Rightarrow>
          if fst (existing_text f) \<and> VersionTextLooksCorrect (snd (existing_text f))
          then t\<lparr>tl_field := Some (AnchorVersionBottomRight e f)\<rparr> else StampVersion e t)"

subsection \<open>The companion movie\<close>

record movie =
  mv_asRoot :: bool
  mv_url :: "string option"
  mv_root :: bool
  mv_pause :: bool
  mv_loader :: bool
  mv_loaded :: nat
  mv_parents :: "bool list"
  mv_functions :: "string list"

record movie_env =
  ve_load :: bool
  ve_addChild :: bool

text \<open>The globals, with the movies of the pause menu and the main menu while they are open.\<close>

record scaleform =
  sc_companionLoaded :: bool
  sc_registered :: bool
  sc_eventsRegistered :: bool
  sc_pause :: "movie option option"
  sc_main :: "movie option option"

definition kHostSwf :: string where "kHostSwf = ''Interface/MainMenu.swf''"

definition PauseModeActive :: "movie \<Rightarrow> bool" where
  "PauseModeActive v = mv_pause v"

definition EnsureCompanionSwf :: "movie_env \<Rightarrow> bool \<Rightarrow> bool \<Rightarrow> movie \<Rightarrow> bool \<times> bool \<times> movie" where
  "EnsureCompanionSwf e titleMenu companionLoaded v =
     (if \<not> mv_asRoot v then (False, companionLoaded, v)
      else if (if titleMenu then PauseModeActive v else \<not> PauseModeActive v) then (False, companionLoaded, v)
      else if companionLoaded then (True, companionLoaded, v)
      else if \<not> mv_root v then (False, companionLoaded, v)
      else if mv_loader v then (True, True, v)
      else
        let v1 = v\<lparr>mv_loader := True\<rparr>
        in if \<not> ve_load e then (False, companionLoaded, v1)
           else
             let v2 = v1\<lparr>mv_loaded := mv_loaded v1 + 1\<rparr>
             in if \<not> ve_addChild e then (False, companionLoaded, v2)
                else (True, True, v2\<lparr>mv_parents := mv_parents v2 @ [titleMenu]\<rparr>))"

definition ensure_in :: "movie_env \<Rightarrow> bool \<Rightarrow> movie option option \<Rightarrow> bool \<Rightarrow> bool \<times> movie option option" where
  "ensure_in e titleMenu menu companionLoaded =
     (case menu of
        Some (Some v) \<Rightarrow> (case EnsureCompanionSwf e titleMenu companionLoaded v of (_, l, v') \<Rightarrow> (l, Some (Some v')))
      | _ \<Rightarrow> (companionLoaded, menu))"

definition ensure_pause :: "movie_env \<Rightarrow> scaleform \<Rightarrow> scaleform" where
  "ensure_pause e s =
     (case ensure_in e False (sc_pause s) (sc_companionLoaded s) of (l, m) \<Rightarrow> s\<lparr>sc_companionLoaded := l, sc_pause := m\<rparr>)"

definition ensure_main :: "movie_env \<Rightarrow> scaleform \<Rightarrow> scaleform" where
  "ensure_main e s =
     (case ensure_in e True (sc_main s) (sc_companionLoaded s) of (l, m) \<Rightarrow> s\<lparr>sc_companionLoaded := l, sc_main := m\<rparr>)"

definition SyncCompanionSwf :: "movie_env \<Rightarrow> bool \<Rightarrow> scaleform \<Rightarrow> scaleform" where
  "SyncCompanionSwf e ui s =
     (if \<not> ui then s
      else if sc_pause s \<noteq> None then ensure_pause e s
      else if sc_main s \<noteq> None then ensure_main e s
      else s)"

definition bound_functions :: "string list" where
  "bound_functions = [''OpenJoin'', ''OpenJoinTitle'', ''OpenHost'', ''OpenHostTitle'', ''Host'', ''Disconnect'', ''IsConnected'']"

definition ScaleformCallback :: "movie_env \<Rightarrow> movie \<Rightarrow> bool \<Rightarrow> bool \<times> movie" where
  "ScaleformCallback e v companionLoaded =
     (if \<not> mv_asRoot v \<or> mv_url v \<noteq> Some kHostSwf \<or> \<not> mv_root v then (companionLoaded, v)
      else
        let v1 = v\<lparr>mv_functions := bound_functions\<rparr>
        in if PauseModeActive v1 then snd (EnsureCompanionSwf e False companionLoaded v1)
           else snd (EnsureCompanionSwf e True False v1))"

text \<open>The sink of menu events; the menu of the event is in the state.\<close>

definition CompanionSink :: "movie_env \<Rightarrow> bool \<Rightarrow> string \<Rightarrow> bool \<Rightarrow> scaleform \<Rightarrow> scaleform" where
  "CompanionSink e ui name opening s =
     (if \<not> opening
      then (if name = ''MainMenu'' \<or> name = ''PauseMenu'' then s\<lparr>sc_companionLoaded := False\<rparr> else s)
      else if \<not> ui then s
      else if name = ''PauseMenu'' then ensure_pause e s
      else if name = ''MainMenu'' then ensure_main e s
      else s)"

definition CMP_InstallScaleformMenu :: "bool option \<Rightarrow> scaleform \<Rightarrow> scaleform" where
  "CMP_InstallScaleformMenu register s =
     (if sc_registered s then s else if register = Some True then s\<lparr>sc_registered := True\<rparr> else s)"

definition CMP_RegisterScaleformMenuEvents :: "bool \<Rightarrow> scaleform \<Rightarrow> scaleform" where
  "CMP_RegisterScaleformMenuEvents ui s = (if sc_eventsRegistered s \<or> \<not> ui then s else s\<lparr>sc_eventsRegistered := True\<rparr>)"

definition CMP_MenuDisconnect :: "menu_env \<Rightarrow> menu \<Rightarrow> menu" where
  "CMP_MenuDisconnect e m = DisconnectSession e m"

definition CMP_MenuIsConnected :: "menu \<Rightarrow> bool" where
  "CMP_MenuIsConnected m = nr_joined (ss_net (mn_ses m))"

text \<open>What a function bound to the movie does and returns.\<close>

fun movie_call :: "string \<Rightarrow> menu_env \<Rightarrow> menu \<Rightarrow> (bool \<times> menu) option" where
  "movie_call f e m =
     (if f = ''OpenJoin'' then Some (True, CMP_MenuOpenJoin e False m)
      else if f = ''OpenJoinTitle'' then Some (True, CMP_MenuOpenJoin e True m)
      else if f = ''OpenHost'' \<or> f = ''Host'' then Some (True, CMP_MenuOpenHost e False m)
      else if f = ''OpenHostTitle'' then Some (True, CMP_MenuOpenHost e True m)
      else if f = ''Disconnect'' then Some (True, CMP_MenuDisconnect e m)
      else if f = ''IsConnected'' then Some (CMP_MenuIsConnected m, m)
      else None)"

subsection \<open>Texts are cleaned\<close>

lemma has_text_within: "has_text n (a @ n @ b)"
proof (induction a)
  case Nil
  have t: "take (length n) (n @ b) = n"
    by simp
  show ?case
  proof (cases "n @ b")
    case (Cons x xs)
    then show ?thesis
      using t by (simp add: has_text_def)
  qed (simp add: has_text_def)
next
  case (Cons c a)
  then show ?case
    by (auto simp: has_text_def)
qed

text \<open>Of the text that is left no tag is whole: behind every \<^verbatim>\<open><\<close> there is no \<^verbatim>\<open>>\<close>.\<close>

definition tagless :: "string \<Rightarrow> bool" where
  "tagless s \<longleftrightarrow> CHR ''>'' \<notin> set (dropWhile (\<lambda>c. c \<noteq> CHR ''<'') s)"

lemma tagless_append: "CHR ''<'' \<notin> set a \<Longrightarrow> tagless (a @ b) = tagless b"
  by (auto simp: tagless_def dropWhile_append)

lemma before_tag: "CHR ''<'' \<notin> set (takeWhile (\<lambda>c. c \<noteq> CHR ''<'') s)"
  by (auto dest: set_takeWhileD)

lemma strip_tagless: "tagless (strip_tags s)"
proof (induction s rule: strip_tags.induct)
  case (1 s)
  show ?case
  proof (cases "dropWhile (\<lambda>c. c \<noteq> CHR ''<'') s")
    case Nil
    then have "strip_tags s = s"
      by (subst strip_tags.simps) (simp only: list.case)
    then show ?thesis
      by (simp only: tagless_def Nil) simp
  next
    case (Cons x xs)
    show ?thesis
    proof (cases "CHR ''>'' \<in> set (x # xs)")
      case False
      then show ?thesis
        using Cons by (simp add: strip_tags.simps [of s] tagless_def)
    next
      case True
      let ?rest = "drop (length (takeWhile (\<lambda>c. c \<noteq> CHR ''>'') (x # xs)) + 1) (x # xs)"
      have "tagless (strip_tags ?rest)"
        using "1.IH" [OF Cons _ refl refl refl] True by simp
      then show ?thesis
        using Cons True before_tag by (auto simp: strip_tags.simps [of s] tagless_append nl_def Let_def)
    qed
  qed
qed

lemma found_line:
  assumes "FindLineContaining text needle \<noteq> []"
  shows "has_text needle (FindLineContaining text needle)"
  using assms by (auto simp: FindLineContaining_def split: list.splits dest!: filter_eq_ConsD)

subsection \<open>The version text is there soon and stays\<close>

lemma built_text_correct:
  assumes "nul \<notin> set (te_game e)" "nul \<notin> set (te_f4se e)"
  shows "VersionTextLooksCorrect (c_str (BuildVersionText e))"
proof -
  have "c_str (a @ b) = a @ c_str b" if "nul \<notin> set a" for a b
    using that by (induction a) (auto simp: c_str_def)
  note cut = this
  let ?a = "DefaultGameVersionLine e @ [nl] @ DefaultF4seVersionLine e @ [nl] @ kCmpVersionMarker"
  have "nul \<notin> set ?a"
    using assms by (simp add: DefaultGameVersionLine_def DefaultF4seVersionLine_def nl_def kCmpVersionMarker_def)
  then have "c_str (?a @ te_plugin e) = ?a @ c_str (te_plugin e)"
    by (rule cut)
  then have c: "c_str (BuildVersionText e) =
      (DefaultGameVersionLine e @ [nl] @ DefaultF4seVersionLine e @ [nl]) @ kCmpVersionMarker @ c_str (te_plugin e)"
    by (simp add: BuildVersionText_def)
  show ?thesis
    unfolding VersionTextLooksCorrect_def c
    using has_text_within [of kCmpVersionMarker "DefaultGameVersionLine e @ [nl] @ DefaultF4seVersionLine e @ [nl]" "c_str (te_plugin e)"]
    by simp
qed

definition stamped :: "title \<Rightarrow> bool" where
  "stamped t \<longleftrightarrow> (\<exists>f. tl_field t = Some f \<and> VersionTextLooksCorrect (snd (existing_text f)))"

definition title_ready :: "title_env \<Rightarrow> bool" where
  "title_ready e \<longleftrightarrow> te_open e \<and> te_ready e \<and> \<not> IsPauseMainMenu e \<and> nul \<notin> set (te_game e) \<and> nul \<notin> set (te_f4se e)"

lemma anchor_members: "vf_text (AnchorVersionBottomRight e f) = vf_text f" "vf_html (AnchorVersionBottomRight e f) = vf_html f"
  by (cases "GetStageSize e"; simp add: AnchorVersionBottomRight_def EnsureVersionOnRoot_def)+

lemma anchor_text: "existing_text (AnchorVersionBottomRight e f) = existing_text f"
  by (simp only: existing_text_def anchor_members)

lemma set_text: "existing_text (f\<lparr>vf_html := Some [], vf_text := Some x\<rparr>) = (True, x)"
  by (simp add: existing_text_def GfxMemberString_def)

lemma stamp_keeps:
  assumes "stamped t"
  shows "stamped (TryStampMainMenuVersion e t)"
  using assms by (auto simp: stamped_def TryStampMainMenuVersion_def StampVersion_def anchor_text Let_def)

lemma stamp_step:
  assumes "title_ready e" "tl_field t \<noteq> None"
  shows "stamped (TryStampMainMenuVersion e t) \<or>
    tl_wait t < kVersionStampWaitMax \<and> TryStampMainMenuVersion e t = t\<lparr>tl_wait := tl_wait t + 1\<rparr>"
proof -
  obtain f where f: "tl_field t = Some f"
    using assms(2) by auto
  have ok: "VersionTextLooksCorrect (c_str (BuildVersionText e))"
    using assms(1) by (intro built_text_correct) (simp_all add: title_ready_def)
  show ?thesis
    using assms(1) f ok
    by (auto simp: stamped_def TryStampMainMenuVersion_def StampVersion_def title_ready_def anchor_text set_text Let_def)
qed

definition stamp_ticks :: "title_env list \<Rightarrow> title \<Rightarrow> title" where
  "stamp_ticks es t = fold TryStampMainMenuVersion es t"

lemma stamp_ticks_keep: "stamped t \<Longrightarrow> stamped (stamp_ticks es t)"
  by (induction es arbitrary: t) (simp_all add: stamp_ticks_def stamp_keeps)

text \<open>
  While the main menu is open and ready, after 181 ticks the version field holds the three lines with the version of the
  plugin, whatever was in it, and every later tick leaves a correct text alone. A field in which the game has put its own
  version is stamped at once.
\<close>

lemma version_stamped:
  assumes "\<forall>e \<in> set es. title_ready e" "tl_field t \<noteq> None" "tl_wait t \<le> kVersionStampWaitMax"
    and "kVersionStampWaitMax < length es + tl_wait t"
  shows "stamped (stamp_ticks (es @ later) t)"
proof -
  have "stamped (stamp_ticks es t)"
    using assms
  proof (induction es arbitrary: t)
    case Nil
    then show ?case
      by simp
  next
    case (Cons e es)
    have "title_ready e"
      using Cons.prems(1) by simp
    from stamp_step [OF this Cons.prems(2)] show ?case
    proof
      assume "stamped (TryStampMainMenuVersion e t)"
      then show ?thesis
        using stamp_ticks_keep [of "TryStampMainMenuVersion e t" es] by (simp add: stamp_ticks_def)
    next
      assume "tl_wait t < kVersionStampWaitMax \<and> TryStampMainMenuVersion e t = t\<lparr>tl_wait := tl_wait t + 1\<rparr>"
      then show ?thesis
        using Cons.IH [of "t\<lparr>tl_wait := tl_wait t + 1\<rparr>"] Cons.prems by (simp add: stamp_ticks_def)
    qed
  qed
  then show ?thesis
    using stamp_ticks_keep [of "stamp_ticks es t" later] by (simp add: stamp_ticks_def)
qed

lemma vanilla_stamped_at_once:
  assumes "title_ready e" "tl_field t = Some f" "VersionHtmlHasVanilla (snd (existing_text f))"
  shows "stamped (TryStampMainMenuVersion e t)"
proof -
  have "VersionTextLooksCorrect (c_str (BuildVersionText e))"
    using assms(1) by (intro built_text_correct) (simp_all add: title_ready_def)
  then show ?thesis
    using assms
    by (auto simp: stamped_def TryStampMainMenuVersion_def StampVersion_def title_ready_def anchor_text set_text Let_def)
qed

subsection \<open>The companion movie is loaded once\<close>

text \<open>
  A load that fails leaves the loader object on the root of the movie. The next attempt on that movie finds it and takes the
  companion as loaded, so it is never tried again while the menu is open, although nothing was ever loaded.
\<close>

lemma failed_load_sticks:
  assumes "mv_asRoot v" "mv_root v" "\<not> mv_loader v" "titleMenu \<longleftrightarrow> \<not> mv_pause v" "\<not> ve_load e"
  shows "\<exists>v'. EnsureCompanionSwf e titleMenu False v = (False, False, v') \<and> mv_loaded v' = mv_loaded v \<and>
    EnsureCompanionSwf e' titleMenu False v' = (True, True, v')"
  using assms by (auto simp: EnsureCompanionSwf_def PauseModeActive_def Let_def)

lemma companion_loaded_once:
  assumes "mv_asRoot v" "mv_root v" "\<not> mv_loader v" "titleMenu \<longleftrightarrow> \<not> mv_pause v" "ve_load e" "ve_addChild e"
  shows "\<exists>v'. EnsureCompanionSwf e titleMenu False v = (True, True, v') \<and> mv_loaded v' = mv_loaded v + 1 \<and>
    mv_parents v' = mv_parents v @ [titleMenu] \<and> EnsureCompanionSwf e' titleMenu l v' = (True, True, v')"
  using assms by (auto simp: EnsureCompanionSwf_def PauseModeActive_def Let_def)

text \<open>Every function the movie gets is one that does something.\<close>

lemma bound_functions_known: "f \<in> set bound_functions \<longleftrightarrow> movie_call f e m \<noteq> None"
  by (simp add: bound_functions_def del: not_None_eq)

end
