(* ===== verification/PluginConsole.thy ===== *)
theory PluginConsole
  imports Hits Indicators Presence Crash
begin

text \<open>
  The console commands of the plugin, \<^verbatim>\<open>plugin/src/console.cpp\<close>, with the status line of
  \<^verbatim>\<open>plugin/src/net/session.cpp\<close> and the lobby probe of \<^verbatim>\<open>plugin/src/steam/probe.cpp\<close>. Each command works on the smallest
  state that holds what it touches; what it prints is a call of the session. The numbers a command is given are those
  that were entered, in order: one that was not entered keeps its default. Registering a command takes over a command of
  the game, whose table is a list of \<open>script_function\<close>s.
\<close>

subsection \<open>Joining and asking\<close>

definition arg :: "int list \<Rightarrow> nat \<Rightarrow> int \<Rightarrow> int" where
  "arg given i d = (if i < length given then given ! i else d)"

definition console_address :: "u16 \<Rightarrow> int list \<Rightarrow> string \<times> u16" where
  "console_address configured given =
     (let port = arg given 4 (uint configured);
          port = (if port \<le> 0 \<or> 65535 < port then uint kDefaultPort else port)
      in (int_str (arg given 0 127) @ ''.'' @ int_str (arg given 1 0) @ ''.'' @ int_str (arg given 2 0) @ ''.'' @
            int_str (arg given 3 1), of_int port))"

definition ExecJoin :: "game \<Rightarrow> int list \<Rightarrow> session \<Rightarrow> session" where
  "ExecJoin g given s =
     (case console_address (se_port (ss_settings s)) given of (host, port) \<Rightarrow> snd (CMP_Join g host port 0 s))"

text \<open>The polls of a query, forty milliseconds apart: the engine and the sockets at each of them.\<close>

fun query_polls :: "nat \<Rightarrow> (nat \<Rightarrow> game) \<Rightarrow> query_result \<Rightarrow> session \<Rightarrow> query_result \<times> session" where
  "query_polls 0 at_poll out s = (out, s)"
| "query_polls (Suc k) at_poll out s =
     (case CMP_QueryPoll (at_poll 0) out s of
        (Some r, s') \<Rightarrow> (r, s')
      | (None, s') \<Rightarrow> query_polls k (\<lambda>i. at_poll (Suc i)) out s')"

definition query_line :: "query_result \<Rightarrow> string" where
  "query_line r =
     (if qr_ok r
      then (case qr_info r of
              None \<Rightarrow> []
            | Some info \<Rightarrow>
                ''cmp_query host yes'' @
                (if c_str (si_serverName info) \<noteq> [] then '' name='' @ c_str (si_serverName info) else []) @
                '' loc='' @ dec_str (unat (si_hostLocationFormId info)) @ '' pose=('' @ int_str (int_of_f32 (si_hostX info)) @ '','' @
                int_str (int_of_f32 (si_hostY info)) @ '','' @ int_str (int_of_f32 (si_hostZ info)) @ '') clients='' @
                dec_str (unat (si_clientCount info)) @ ''/'' @ dec_str (unat (si_maxPlayers info)) @
                (if c_str (si_motd info) \<noteq> [] then '' motd='' @ c_str (si_motd info) else []))
      else ''cmp_query failed: '' @ (if qr_error r = [] then ''timeout'' else qr_error r))"

definition ExecQuery :: "game \<Rightarrow> (nat \<Rightarrow> game) \<Rightarrow> int list \<Rightarrow> session \<Rightarrow> session" where
  "ExecQuery g at_poll given s =
     (case console_address (se_port (ss_settings s)) given of
        (host, port) \<Rightarrow>
          (case query_polls 50 at_poll query_result_init (CMP_QueryStart g host port s) of
             (r, s') \<Rightarrow> call (GPrint (query_line r)) s'))"

definition ExecLeave :: "game \<Rightarrow> session \<Rightarrow> session" where
  "ExecLeave g s = call (GPrint ''cmp_leave: disconnected'') (CMP_DespawnGhosts (CMP_Leave g s))"

subsection \<open>What the host may do\<close>

definition ExecKick :: "game \<Rightarrow> int list \<Rightarrow> session \<Rightarrow> session" where
  "ExecKick g given s =
     (let peer = arg given 0 0
      in if \<not> nr_joined (ss_net s) \<or> nr_myPeerId (ss_net s) = 0 \<or> peer \<le> 0
         then call (GPrint ''cmp_kick: not joined or invalid peer'') s
         else if \<not> nr_isHost (ss_net s) then call (GPrint ''cmp_kick: only host can kick'') s
         else call (GPrint (''cmp_kick: peer '' @ int_str peer)) (CMP_SendKick g (of_int peer) ''kicked by host'' s))"

definition ExecTeleport :: "game \<Rightarrow> int list \<Rightarrow> session \<Rightarrow> session" where
  "ExecTeleport g given s =
     (let peer = arg given 0 0
      in if \<not> nr_joined (ss_net s) \<or> nr_myPeerId (ss_net s) = 0 \<or> peer \<le> 0
         then call (GPrint ''cmp_teleport: not joined or invalid peer'') s
         else if \<not> nr_isHost (ss_net s) then call (GPrint ''cmp_teleport: only host can teleport'') s
         else call (GPrint (''cmp_teleport: peer '' @ int_str peer @ '' to host'')) (CMP_SendTeleport g (of_int peer) s))"

subsection \<open>The status line\<close>

definition yes_no :: "bool \<Rightarrow> string" where
  "yes_no b = (if b then ''yes'' else ''no'')"

definition others_of :: "session \<Rightarrow> (u32 \<times> 'a) list \<Rightarrow> (u32 \<times> 'a) list" where
  "others_of s m = filter (\<lambda>x. fst x \<noteq> nr_myPeerId (ss_net s)) m"

definition pose_words :: "player_pose \<Rightarrow> string" where
  "pose_words p =
     (let flags = pp_flags p; has = \<lambda>f. bit (has_pose_flag flags f)
      in '' spd='' @ int_str (int_of_f32 (pp_speed p)) @ '' anim='' @ pose_anim_name flags @ '' drawn='' @ has PF_Drawn @
         '' atk='' @ has PF_Attacking @ '' rld='' @ has PF_Reloading @ '' ads='' @ has PF_Sighted @ '' jump='' @ has PF_Jumping @
         '' sneak='' @ has PF_Sneak @ '' sprint='' @ has PF_Sprint)"

definition CMP_StatusText :: "string \<Rightarrow> ghost_env \<Rightarrow> hud_env \<Rightarrow> ghosts \<Rightarrow> string option" where
  "CMP_StatusText version e he w =
     (let s = gh_session w; n = ss_net s; st = ss_settings s; world = ReadLocalWorld (ge_game e); now = gm_now (ge_game e)
      in map_option (\<lambda>t.
           ''CommonwealthMP '' @ version @ '' joined='' @ yes_no (nr_joined n) @ '' peer='' @ dec_str (unat (nr_myPeerId n)) @
           '' host='' @ bit (nr_isHost n) @
           '' pvp='' @ (if mr_sessionFlags (ss_menu s) AND kSessionPvpEnabled \<noteq> 0 then ''on'' else ''off'') @
           '' interior='' @ bit (lw_interior world) @ '' loc='' @ hex_up (unat (lw_location world)) @
           '' new='' @ yes_no (nr_isNewPlayer n) @ '' ip='' @ se_host st @ '':'' @ dec_str (unat (se_port st)) @
           '' key='' @ se_playerKey st @ '' remotes='' @ dec_str (length (nr_latestPose n)) @
           '' ghosts='' @ dec_str (length (gh_byPeer w)) @ '' 3D='' @ dec_str (CMP_CountGhostsWith3D e w) @
           (if nr_joined n
            then '' tx='' @ int_str (int_of_f64 (f64_sub now (nr_lastSendPoseSec n))) @ ''s'' @
                 '' rx='' @ int_str (int_of_f64 (f64_sub now (nr_lastRecvPoseSec n))) @ ''s'' @
                 '' rtt='' @ int_str (int_of_f32 (nr_measuredRttMs n)) @ ''ms''
            else []) @
           concat (map (\<lambda>(peer, name). '' ['' @ dec_str (unat peer) @ '']'' @ name) (others_of s (gr_names (ss_ghosts s)))) @
           (case others_of s (nr_latestPose n) of [] \<Rightarrow> [] | (_, best) # _ \<Rightarrow> pose_words best) @
           '' '' @ ss_lastStatus s @ (if ss_lastReject s = [] then [] else '' reject='' @ ss_lastReject s) @ '' | '' @ t)
         (CMP_PointerText he w))"

definition with_session :: "(session \<Rightarrow> session) \<Rightarrow> ghosts \<Rightarrow> ghosts" where
  "with_session f w = w\<lparr>gh_session := f (gh_session w)\<rparr>"

definition ExecStatus :: "string \<Rightarrow> ghost_env \<Rightarrow> hud_env \<Rightarrow> ghosts \<Rightarrow> ghosts option" where
  "ExecStatus version e he w =
     (case (CMP_StatusText version e he w, CMP_PointerText he w) of
        (Some line, Some pointer) \<Rightarrow> Some (with_session (\<lambda>s. call (GHud pointer) (call (GPrint line) s)) w)
      | _ \<Rightarrow> None)"

text \<open>The warp with the place it puts the player at; it prints, and when it warped it shows the same text on the screen.\<close>

definition ExecGoto :: "hud_env \<Rightarrow> hud_env \<Rightarrow> ghosts \<Rightarrow> (((f32 \<times> f32 \<times> f32) \<times> f32) option \<times> ghosts) option" where
  "ExecGoto e after w =
     map_option (\<lambda>(warped, place, msg).
         (place, with_session (\<lambda>s. (if warped then call (GHud msg) else id) (call (GPrint msg) s)) w))
       (CMP_GotoNearest e after w)"

definition ExecAnim :: "ghost_env \<Rightarrow> nat \<Rightarrow> body \<Rightarrow> int list \<Rightarrow> ghosts \<Rightarrow> ghosts option" where
  "ExecAnim e self selfBody given w =
     map_option (\<lambda>(_, note, w'). with_session (call (GPrint note)) w') (CMP_ForceAnim e self selfBody (arg given 0 0) w)"

definition ExecIndicators :: "indicators \<Rightarrow> session \<Rightarrow> session" where
  "ExecIndicators i s = call (GPrint (CMP_IndicatorsDebugText s i)) s"

subsection \<open>Probes\<close>

definition lobby_versions :: "string list" where
  "lobby_versions = [''SteamMatchMaking013'', ''SteamMatchMaking010'', ''SteamMatchMaking009'', ''SteamMatchMaking008'',
     ''SteamMatchMaking007'', ''SteamMatchMaking006'']"

definition CMP_ProbeSteamLobby :: "steam_env \<Rightarrow> string" where
  "CMP_ProbeSteamLobby e =
     (if \<not> st_loaded e then ''cmp_lobby: steam_api64.dll not loaded. Join IP is the session.''
      else
        ''cmp_lobby: steam_api64 loaded (FO4 already initialized Steam). '' @
        (case SteamCreateInterface e of
           None \<Rightarrow> ''SteamInternal_CreateInterface missing (2015 FO4 DLL is old). Join IP stays the real path.''
         | Some create \<Rightarrow>
             (case first_iface create lobby_versions of
                None \<Rightarrow> ''No ISteamMatchmaking interface. CreateLobby likely AccessDenied or unavailable. Use Join IP / Tailscale.''
              | Some (_, hit) \<Rightarrow>
                  ''Found '' @ hit @
                  ''. CreateLobby is NOT invoked from this probe (FO4 2015 vtable is unproven; FO4 is not a Steam MP title). '' @
                  ''If you later call CreateLobby, log LobbyCreated_t.m_eResult. On OK: SetLobbyGameServer(ip, port, nil). '' @
                  ''Gameplay stays on TCP+UDP to CommonwealthMP.Server.exe.'')))"

definition ExecLobby :: "steam_env \<Rightarrow> session \<Rightarrow> session" where
  "ExecLobby e s = call (GPrint (CMP_ProbeSteamLobby e)) s"

text \<open>The dump and the list of forms are written by code of the engine; their commands print where they are.\<close>

definition ExecProbe :: "session \<Rightarrow> session" where
  "ExecProbe s = call (GPrint ''cmp_probeforms: wrote TESForm types to CommonwealthMP.log'') s"

definition ExecDump :: "string \<Rightarrow> session \<Rightarrow> session" where
  "ExecDump path s =
     (if path = [] then call (GPrint ''cmp_dump: failed (see CommonwealthMP.log)'') s
      else call (GPrint ''copy that file to the repo as data/dumps/live.txt'') (call (GPrint (''cmp_dump: '' @ path)) s))"

definition ExecModHash :: "game \<Rightarrow> session \<Rightarrow> session" where
  "ExecModHash g s = call (GPrint (take 31 (''cmp_modhash: 0x'' @ hex8_up (CMP_ComputeModHash (gm_mods g))))) s"

definition ExecPresence :: "presence_env \<Rightarrow> menu \<Rightarrow> presence \<Rightarrow> menu \<times> presence" where
  "ExecPresence e m p =
     (let p1 = snd (CMP_Presence_ReinitDiscord e m p) in (upd_ses (call (GPrint (CMP_PresenceStatusText e m p1))) m, p1))"

definition ExecSteam :: "steam_env \<Rightarrow> steam_state \<Rightarrow> session \<Rightarrow> steam_state \<times> session" where
  "ExecSteam e st s =
     (case CMP_ProbeSteamApi e st of (probe, st') \<Rightarrow> (st', call (GPrint (CMP_FormatSteamProbe probe)) s))"

subsection \<open>Taking commands of the game over\<close>

datatype console_fn =
    FnJoin | FnStatus | FnLeave | FnLobby | FnGoto | FnProbe | FnDump | FnQuery | FnAnim | FnKick | FnTeleport | FnModHash
  | FnPresence | FnSteam | FnIndicators

text \<open>A command of the game: without a function of the plugin it still runs the game's own.\<close>

record script_function =
  sf_name :: string
  sf_short :: string
  sf_help :: string
  sf_fn :: "console_fn option"
  sf_reference :: bool
  sf_params :: "string list"

record stolen =
  so_vanilla :: string
  so_new :: string
  so_help :: string
  so_fn :: console_fn
  so_params :: "string list"

definition stolen_command :: "stolen \<Rightarrow> script_function" where
  "stolen_command c = \<lparr>sf_name = so_new c, sf_short = [], sf_help = so_help c, sf_fn = Some (so_fn c), sf_reference = False,
     sf_params = so_params c\<rparr>"

text \<open>Where the engine finds a command of its own in the table.\<close>

definition Steal :: "(string \<Rightarrow> nat option) \<Rightarrow> stolen \<Rightarrow> script_function list \<Rightarrow> script_function list" where
  "Steal locate c table =
     (case locate (so_vanilla c) of
        None \<Rightarrow> table
      | Some i \<Rightarrow> table[i := stolen_command c])"

definition g_joinParams :: "string list" where "g_joinParams = [''A'', ''B'', ''C'', ''D'', ''Port'']"
definition g_animParams :: "string list" where "g_animParams = [''Step'']"
definition g_peerParams :: "string list" where "g_peerParams = [''PeerId'']"

definition mk_stolen :: "string \<Rightarrow> string \<Rightarrow> string \<Rightarrow> console_fn \<Rightarrow> string list \<Rightarrow> stolen" where
  "mk_stolen v n h f ps = \<lparr>so_vanilla = v, so_new = n, so_help = h, so_fn = f, so_params = ps\<rparr>"

definition stolen_commands :: "stolen list" where
  "stolen_commands =
    [mk_stolen ''DumpTexturePalette'' ''cmp_join'' ''CommonwealthMP: join A.B.C.D Port (default 127.0.0.1:7777)'' FnJoin g_joinParams,
     mk_stolen ''DumpNiUpdates'' ''cmp_status'' ''CommonwealthMP: print join/ghost status and HUD pointer'' FnStatus [],
     mk_stolen ''DumpModelMap'' ''cmp_leave'' ''CommonwealthMP: leave dedicated server'' FnLeave [],
     mk_stolen ''ToggleMaterialGeometry'' ''cmp_lobby'' ''CommonwealthMP: probe Steam CreateLobby (discovery only)'' FnLobby [],
     mk_stolen ''DumpConditionFunctions'' ''cmp_goto'' ''CommonwealthMP: warp to the nearest remote player'' FnGoto [],
     mk_stolen ''DumpPapyrusStacks'' ''cmp_probeforms'' ''CommonwealthMP: dump live TESForm types for ghost spawn'' FnProbe [],
     mk_stolen ''ToggleCollisionGeometry'' ''cmp_dump'' ''CommonwealthMP: write FormID/RVA/idle/cell dump for development'' FnDump [],
     mk_stolen ''ToggleActorMover'' ''cmp_query'' ''CommonwealthMP: query if a live Commonwealth host is on A.B.C.D Port'' FnQuery g_joinParams,
     mk_stolen ''ToggleStairsGeometry'' ''cmp_anim''
       ''CommonwealthMP: force remote (or you) pose 0=draw 1=ads 2=fire 3=reload 4=jump 5=sneak 6=sprint 7=walk'' FnAnim g_animParams,
     mk_stolen ''TestLocalMap'' ''cmp_kick'' ''CommonwealthMP: host kick PEER'' FnKick g_peerParams,
     mk_stolen ''TestUFOCam'' ''cmp_teleport'' ''CommonwealthMP: host teleport PEER to you'' FnTeleport g_peerParams,
     mk_stolen ''ToggleTrees'' ''cmp_modhash'' ''CommonwealthMP: print loaded-mod fingerprint for join checks'' FnModHash [],
     mk_stolen ''ToggleBorders'' ''cmp_presence''
       ''CommonwealthMP: print Discord/Steam rich presence status (reconnects Discord)'' FnPresence [],
     mk_stolen ''ToggleSky'' ''cmp_steam'' ''CommonwealthMP: probe Steam API and Rich Presence'' FnSteam [],
     mk_stolen ''ToggleWireframe'' ''cmp_indicators'' ''CommonwealthMP: print HUD compass and map indicator debug state'' FnIndicators []]"

definition CMP_RegisterConsole :: "(string \<Rightarrow> nat option) \<Rightarrow> script_function list \<Rightarrow> script_function list" where
  "CMP_RegisterConsole locate table = foldl (\<lambda>t c. Steal locate c t) table stolen_commands"

subsection \<open>The table afterwards\<close>

lemma stolen_distinct: "distinct (map so_vanilla stolen_commands)" "distinct (map so_new stolen_commands)"
  by (simp_all add: stolen_commands_def mk_stolen_def)

lemma steal_length: "length (foldl (\<lambda>t c. Steal locate c t) table cs) = length table"
  by (induction cs arbitrary: table) (simp_all add: Steal_def split: option.split)

lemma steal_others:
  "\<forall>c \<in> set cs. locate (so_vanilla c) \<noteq> Some j \<Longrightarrow> foldl (\<lambda>t c. Steal locate c t) table cs ! j = table ! j"
  by (induction cs arbitrary: table) (auto simp: Steal_def split: option.split)

lemma steal_taken:
  assumes "distinct (map so_vanilla cs)" "c \<in> set cs" "locate (so_vanilla c) = Some i" "i < length table"
    and "\<And>a b. locate a = Some i \<Longrightarrow> locate b = Some i \<Longrightarrow> a = b"
  shows "foldl (\<lambda>t c. Steal locate c t) table cs ! i = stolen_command c"
  using assms(1,2,4)
proof (induction cs arbitrary: table)
  case (Cons b cs)
  show ?case
  proof (cases "b = c")
    case True
    then have "\<forall>d \<in> set cs. locate (so_vanilla d) \<noteq> Some i"
      using Cons.prems(1) assms(3,5) by (auto simp: image_iff)
    then show ?thesis
      using True Cons.prems(3) assms(3) steal_others [of cs locate i] by (simp add: Steal_def)
  next
    case False
    then show ?thesis
      using Cons.IH [of "Steal locate b table"] Cons.prems by (simp add: Steal_def split: option.split)
  qed
qed simp

text \<open>
  When the game starts its table of commands keeps its length, each of the fifteen commands the plugin takes over
  that the game has is now the one of the plugin with its own name, help, parameters and function, no two of them under
  one name, and every other command is as it was, provided the game finds different commands in different places.
\<close>

lemma console_registered:
  assumes "\<And>a b i. locate a = Some i \<Longrightarrow> locate b = Some i \<Longrightarrow> a = b" "\<And>a i. locate a = Some i \<Longrightarrow> i < length table"
  shows "length (CMP_RegisterConsole locate table) = length table \<and> distinct (map so_new stolen_commands) \<and>
    (\<forall>c \<in> set stolen_commands. \<forall>i. locate (so_vanilla c) = Some i \<longrightarrow> CMP_RegisterConsole locate table ! i = stolen_command c) \<and>
    (\<forall>j. (\<forall>c \<in> set stolen_commands. locate (so_vanilla c) \<noteq> Some j) \<longrightarrow> CMP_RegisterConsole locate table ! j = table ! j)"
  using assms steal_taken [OF stolen_distinct(1), where locate = locate and table = table]
  by (simp add: CMP_RegisterConsole_def steal_length steal_others stolen_distinct(2))

definition game_command :: "string \<Rightarrow> script_function" where
  "game_command n = \<lparr>sf_name = n, sf_short = [], sf_help = [], sf_fn = None, sf_reference = False, sf_params = []\<rparr>"

lemma console_registered_witness:
  "let locate = (\<lambda>n. if n = ''Quit'' then Some 0 else if n = ''TestLocalMap'' then Some 1 else None);
       table = CMP_RegisterConsole locate [game_command ''Quit'', game_command ''TestLocalMap'']
   in table ! 0 = game_command ''Quit'' \<and> sf_fn (table ! 1) = Some FnKick \<and> sf_name (table ! 1) = ''cmp_kick''"
proof -
  let ?l = "\<lambda>n. if n = ''Quit'' then Some 0 else if n = ''TestLocalMap'' then Some 1 else None :: nat option"
  let ?t = "[game_command ''Quit'', game_command ''TestLocalMap'']"
  have l: "\<And>a b i. ?l a = Some i \<Longrightarrow> ?l b = Some i \<Longrightarrow> a = b" "\<And>a i. ?l a = Some i \<Longrightarrow> i < length ?t"
    by (auto split: if_splits)
  have c: "mk_stolen ''TestLocalMap'' ''cmp_kick'' ''CommonwealthMP: host kick PEER'' FnKick g_peerParams \<in> set stolen_commands"
    by (simp add: stolen_commands_def)
  have "\<forall>c \<in> set stolen_commands. ?l (so_vanilla c) \<noteq> Some 0"
    by (simp add: stolen_commands_def mk_stolen_def)
  then show ?thesis
    using console_registered [of ?l ?t, OF l] c by (auto simp: mk_stolen_def stolen_command_def dest!: bspec)
qed

subsection \<open>Queries\<close>

text \<open>
  Asking a server what it runs ends the session the player is in: after \<^verbatim>\<open>cmp_query\<close> he is not joined any more.
\<close>

lemma query_loop_net: "ss_net (snd (query_loop k rss s)) = ss_net s"
  by (induction k rss s rule: query_loop.induct) (simp_all add: Let_def query_answer_def call_def)

lemma query_poll_net: "ss_net (snd (CMP_QueryPoll g out s)) = ss_net s"
  by (simp add: CMP_QueryPoll_def Let_def query_loop_net)

lemma query_polls_net: "ss_net (snd (query_polls k at_poll out s)) = ss_net s"
proof (induction k at_poll out s rule: query_polls.induct)
  case (2 k at_poll out s)
  then show ?case
    using query_poll_net [of "at_poll 0" out s] by (auto split: option.split prod.split)
qed simp

lemma query_start_net: "\<not> nr_joined (ss_net (CMP_QueryStart g host port s))"
  using leave_clean(1) [of g s] by (simp add: CMP_QueryStart_def query_fail_def tcp_out_def Let_def)

lemma query_ends_session: "\<not> nr_joined (ss_net (ExecQuery g at_poll given s))"
  using query_start_net query_polls_net
  by (auto simp: ExecQuery_def call_def split: prod.split) (metis snd_conv)

text \<open>
  The fifty polls of the command take a little less than the two seconds after which a query gives up by itself. A server
  that does not answer leaves the query pending, with its connection open, although the command has reported a timeout.
\<close>

lemma silent_query_stays_pending:
  assumes "ss_queryPending s"
    and "\<And>i. query_loop 8 (gm_recv (at_poll i)) s = (False, s)"
    and "\<And>i. \<not> f64_less (f64_of_int 2) (f64_sub (gm_now (at_poll i)) (ss_queryStart s))"
  shows "query_polls k at_poll query_result_init s = (query_result_init, s) \<and> query_line query_result_init = ''cmp_query failed: timeout''"
proof -
  have "query_polls k at_poll out s = (out, s)"
    if "\<And>i. query_loop 8 (gm_recv (at_poll i)) s = (False, s)"
      "\<And>i. \<not> f64_less (f64_of_int 2) (f64_sub (gm_now (at_poll i)) (ss_queryStart s))" for k at_poll out
    using that
  proof (induction k arbitrary: at_poll)
    case (Suc k)
    have "CMP_QueryPoll (at_poll 0) out s = (None, s)"
      using Suc.prems assms(1) by (simp add: CMP_QueryPoll_def)
    then show ?case
      using Suc.IH [of "\<lambda>i. at_poll (Suc i)"] Suc.prems by simp
  qed simp
  then show ?thesis
    using assms(2,3) by (simp add: query_line_def query_result_init_def)
qed

text \<open>Without numbers \<^verbatim>\<open>cmp_join\<close> goes to this machine at the configured port, not at 7777 as its help says.\<close>

lemma join_takes_configured_port:
  "0 < port \<Longrightarrow> console_address port [] = (''127.0.0.1'', port)"
  using uint_bounded [of port] by (simp add: console_address_def arg_def int_str_def dec_str.simps word_less_def Let_def)

subsection \<open>A kick\<close>

lemma kick_reason:
  "ki_reason (make_kick p ''kicked by host'') = ''kicked by host'' @ replicate 66 nul"
  by (simp add: make_kick_def copy_cstr_def zeros_def eval_nat_numeral)

lemma kick_relayed_same:
  "(make_kick p ''kicked by host'')\<lparr>ki_reason := (ki_reason (make_kick p ''kicked by host''))[79 := nul]\<rparr> = make_kick p ''kicked by host''"
proof -
  have "(ki_reason (make_kick p ''kicked by host''))[79 := nul] = ki_reason (make_kick p ''kicked by host'')"
    unfolding kick_reason by (simp add: eval_nat_numeral)
  then show ?thesis
    by simp
qed

lemma kick_target: "ki_targetPeerId (make_kick p reason) = p"
  by (simp add: make_kick_def)

lemma kick_relayed:
  assumes "core_inv r" "um_find k (rt_clients r) = Some c" "k = wo_hostPeerId (rt_world r)" "um_find p (rt_clients r) = Some other" "p \<noteq> k"
  shows "\<exists>r1. handle_tcp_message r k (enc_kick (make_kick p ''kicked by host'')) t now =
      out_cmds r1 (tcp_cmds other (enc_kick (make_kick p ''kicked by host''))) \<and>
      rt_outbound r1 = rt_outbound r \<and> um_find p (rt_clients r1) = Some other"
proof -
  let ?m = "make_kick p ''kicked by host''"
  let ?r = "upd_client r k (\<lambda>c. c\<lparr>cl_lastSeen := t\<rparr>)"
  have f: "frame_of (enc_kick ?m) Kick"
    using kick_sent [of p "''kicked by host''"] by (simp add: frame_of_def sizeof_Header_def)
  have cl: "rt_clients ?r = um_upd k (\<lambda>c. c\<lparr>cl_lastSeen := t\<rparr>) (rt_clients r)" "rt_outbound ?r = rt_outbound r" "rt_world ?r = rt_world r"
    by (simp_all add: upd_client_def)
  have p: "um_find p (rt_clients ?r) = Some other"
    using assms(4,5) by (simp add: cl um_find_upd)
  have inv: "core_inv ?r"
    using core_inv_seen(1) [OF assms(1)] .
  have "find (\<lambda>kc. cl_peerId (snd kc) = p) (rt_clients ?r) \<noteq> None"
    using core_inv_client(2) [OF inv p] p by (auto simp: find_None_iff dest!: um_find_SomeD)
  then obtain kc where kc: "find (\<lambda>kc. cl_peerId (snd kc) = p) (rt_clients ?r) = Some kc"
    by auto
  have "snd kc = other"
    using find_client [OF inv kc] core_inv_client(2) [OF inv find_client(1) [OF inv kc]] p by simp
  then have "handle_tcp_message r k (enc_kick ?m) t now = out_cmds ?r (tcp_cmds other (enc_kick ?m))"
    using tcp_frame_dispatch [OF f _ assms(2)] kc kick_sent(3,4) [of p "''kicked by host''"] core_inv_client(2) [OF assms(1,2)] assms(3) cl(3)
    by (simp add: tcp_dispatch_def tcp_kick_def sends kick_relayed_same kick_target Let_def)
  then show ?thesis
    using cl(2) p by blast
qed

lemma leave_calls: "set (ss_calls s) \<subseteq> set (ss_calls (CMP_Leave g s))"
  by (simp add: CMP_Leave_def CMP_DespawnGhosts_def CMP_ClearHostActors_def unfreeze_all tcp_out_def Let_def)
    (auto simp add: call_def upd_net_def upd_blobs_def)

lemma kicked_leaves:
  "\<not> nr_joined (ss_net (HandleMessage g (enc_kick (make_kick p ''kicked by host'')) s))"
  "GPrint ''Kicked: kicked by host'' \<in> set (ss_calls (HandleMessage g (enc_kick (make_kick p ''kicked by host'')) s))"
proof -
  have c: "c_str ((ki_reason (make_kick p ''kicked by host''))[length (ki_reason (make_kick p ''kicked by host'')) - 1 := nul]) = ''kicked by host''"
    unfolding kick_reason by (simp add: eval_nat_numeral c_str_def)
  show "\<not> nr_joined (ss_net (HandleMessage g (enc_kick (make_kick p ''kicked by host'')) s))"
    by (simp add: kick_message on_kick_def leave_clean)
  show "GPrint ''Kicked: kicked by host'' \<in> set (ss_calls (HandleMessage g (enc_kick (make_kick p ''kicked by host'')) s))"
    unfolding kick_message on_kick_def c by (rule subsetD [OF leave_calls]) (simp add: call_def)
qed

text \<open>
  C37: the command \<^verbatim>\<open>cmp_kick\<close> of the host sends one Kick, the server passes exactly those bytes to the player named and
  to nobody else, and the plugin of that player leaves, whatever it was doing, and says why. The server itself keeps the
  player in its table. Of anyone who is not the host, without an own id or for no player the command only prints.
\<close>

theorem cmp_kick_ends_session:
  assumes "0 < arg given 0 0" "p = of_int (arg given 0 0)" "p \<noteq> 0"
    and "nr_joined (ss_net s)" "nr_isHost (ss_net s)" "nr_myPeerId (ss_net s) = k" "k \<noteq> p"
    and "core_inv r" "um_find k (rt_clients r) = Some c" "k = wo_hostPeerId (rt_world r)" "um_find p (rt_clients r) = Some other"
    and "m = enc_kick (make_kick p ''kicked by host'')"
  shows "ss_sock (ExecKick g given s) = ss_sock (CMP_Net_Send g m s) \<and>
    (\<exists>r1. handle_tcp_message r k m t now = out_cmds r1 (tcp_cmds other m) \<and> rt_outbound r1 = rt_outbound r \<and>
       um_find p (rt_clients r1) = Some other) \<and>
    \<not> nr_joined (ss_net (HandleMessage g' m s')) \<and> GPrint ''Kicked: kicked by host'' \<in> set (ss_calls (HandleMessage g' m s')) \<and>
    (\<not> nr_isHost (ss_net s0) \<longrightarrow> (\<exists>line. ExecKick g given s0 = call (GPrint line) s0))"
proof -
  have "k \<noteq> 0"
    using core_inv_client(3) [OF assms(8,9)] .
  then have "ss_sock (ExecKick g given s) = ss_sock (CMP_Net_Send g m s)"
    using assms(1-6,12) by (simp add: ExecKick_def CMP_SendKick_def call_def c_str_def Let_def)
  moreover have "\<not> nr_isHost (ss_net s0) \<longrightarrow> (\<exists>line. ExecKick g given s0 = call (GPrint line) s0)"
    by (auto simp: ExecKick_def Let_def)
  ultimately show ?thesis
    using kick_relayed [OF assms(8,9,10,11)] kicked_leaves assms(7,12) by auto
qed

theorem cmp_kick_ends_session_witness:
  "\<exists>r1. ss_sock (ExecKick game_of_cell [2] ((demo_fighter 1)\<lparr>ss_net := (ss_net (demo_fighter 1))\<lparr>nr_isHost := True\<rparr>\<rparr>)) =
       ss_sock (CMP_Net_Send game_of_cell (enc_kick (make_kick 2 ''kicked by host''))
         ((demo_fighter 1)\<lparr>ss_net := (ss_net (demo_fighter 1))\<lparr>nr_isHost := True\<rparr>\<rparr>)) \<and>
     handle_tcp_message ex_rt 1 (enc_kick (make_kick 2 ''kicked by host'')) 0 0 =
       out_cmds r1 (tcp_cmds (ex_client 2 ''bob'') (enc_kick (make_kick 2 ''kicked by host''))) \<and>
     \<not> nr_joined (ss_net (HandleMessage game_of_cell (enc_kick (make_kick 2 ''kicked by host'')) (demo_fighter 2)))"
proof -
  let ?s = "(demo_fighter 1)\<lparr>ss_net := (ss_net (demo_fighter 1))\<lparr>nr_isHost := True\<rparr>\<rparr>"
  have a: "0 < arg [2] 0 0" "(2 :: u32) = of_int (arg [2] 0 0)" "(2 :: u32) \<noteq> 0"
    by (simp_all add: arg_def)
  have s: "nr_joined (ss_net ?s)" "nr_isHost (ss_net ?s)" "nr_myPeerId (ss_net ?s) = 1" "(1 :: u32) \<noteq> 2"
    by (simp_all add: demo_fighter_facts)
  have r: "um_find 1 (rt_clients ex_rt) = Some (ex_client 1 ''ann'')" "1 = wo_hostPeerId (rt_world ex_rt)"
    "um_find 2 (rt_clients ex_rt) = Some (ex_client 2 ''bob'')"
    by simp_all
  from cmp_kick_ends_session [OF a s ex_rt_core r refl, of game_of_cell 0 0 game_of_cell "demo_fighter 2" ?s]
  show ?thesis
    by blast
qed

end
