(* ===== verification/Overlay.thy ===== *)
theory Overlay
  imports PluginConsole
begin

text \<open>
  What is drawn over the game and the input it takes: \<^verbatim>\<open>plugin/src/overlay.cpp\<close>, the name plates of
  \<^verbatim>\<open>plugin/src/ghost/labels.cpp\<close>, \<^verbatim>\<open>plugin/src/input_hook.cpp\<close> and \<^verbatim>\<open>plugin/src/render_hook.cpp\<close>. The record
  \<open>overlay\<close> holds their globals with the state of the ghosts, the display counter of the Windows cursor, the two entries
  of the swap chain's table that are replaced, and how many render targets were made and released.
\<close>

subsection \<open>State\<close>

datatype slot = SlotGame | SlotHook

record overlay =
  ov_ghosts :: ghosts
  ov_initialized :: bool
  ov_visible :: bool
  ov_pending :: nat
  ov_status :: string
  ov_pointer :: string
  ov_peers :: "(u32 \<times> string) list"
  ov_chat :: string
  ov_scroll :: bool
  ov_cursor :: int
  ov_mouseDraw :: bool
  ov_ignoreInput :: bool
  ih_installed :: bool
  ih_prev :: bool
  ih_clip :: bool
  rh_hooked :: bool
  rh_initialized :: bool
  rh_swapChain :: bool
  rh_device :: bool
  rh_rtv :: bool
  rh_created :: nat
  rh_released :: nat
  rh_origPresent :: "slot option"
  rh_origResize :: "slot option"
  rh_present :: slot
  rh_resize :: slot

definition overlay_init :: "ghosts \<Rightarrow> overlay" where
  "overlay_init w =
     \<lparr>ov_ghosts = w, ov_initialized = False, ov_visible = False, ov_pending = 0, ov_status = [], ov_pointer = [], ov_peers = [],
      ov_chat = [], ov_scroll = False, ov_cursor = 0, ov_mouseDraw = False, ov_ignoreInput = False, ih_installed = False,
      ih_prev = False, ih_clip = False, rh_hooked = False, rh_initialized = False, rh_swapChain = False, rh_device = False,
      rh_rtv = False, rh_created = 0, rh_released = 0, rh_origPresent = None, rh_origResize = None, rh_present = SlotGame,
      rh_resize = SlotGame\<rparr>"

definition ov_settings :: "overlay \<Rightarrow> settings" where
  "ov_settings o' = ss_settings (gh_session (ov_ghosts o'))"

definition upd_overlay_ses :: "(session \<Rightarrow> session) \<Rightarrow> overlay \<Rightarrow> overlay" where
  "upd_overlay_ses f x = x\<lparr>ov_ghosts := with_session f (ov_ghosts x)\<rparr>"

definition set_settings :: "(settings \<Rightarrow> settings) \<Rightarrow> overlay \<Rightarrow> overlay" where
  "set_settings f = upd_overlay_ses (\<lambda>s. s\<lparr>ss_settings := f (ss_settings s)\<rparr>)"

definition kActionNone :: nat where "kActionNone = 0"
definition kActionDump :: nat where "kActionDump = 1"
definition kActionLeave :: nat where "kActionLeave = 2"

subsection \<open>Visibility\<close>

definition CMP_Overlay_SetVisible :: "bool \<Rightarrow> overlay \<Rightarrow> overlay" where
  "CMP_Overlay_SetVisible v x = set_settings (\<lambda>st. st\<lparr>se_overlayVisible := v\<rparr>) (x\<lparr>ov_visible := v\<rparr>)"

definition CMP_Overlay_IsVisible :: "overlay \<Rightarrow> bool" where
  "CMP_Overlay_IsVisible x = ov_visible x"

definition CMP_Overlay_Toggle :: "overlay \<Rightarrow> overlay" where
  "CMP_Overlay_Toggle x = CMP_Overlay_SetVisible (\<not> CMP_Overlay_IsVisible x) x"

text \<open>Setting it up; \<open>valid\<close> tells whether device, context and window were given.\<close>

definition CMP_Overlay_Init :: "bool \<Rightarrow> overlay \<Rightarrow> overlay" where
  "CMP_Overlay_Init valid x =
     (if ov_initialized x \<or> \<not> valid then x
      else x\<lparr>ov_visible := se_overlayVisible (ov_settings x), ov_initialized := True\<rparr>)"

definition CMP_Overlay_Shutdown :: "overlay \<Rightarrow> overlay" where
  "CMP_Overlay_Shutdown x = (if \<not> ov_initialized x then x else x\<lparr>ov_initialized := False\<rparr>)"

subsection \<open>Input\<close>

definition IsMouseMessage :: "u32 \<Rightarrow> bool" where
  "IsMouseMessage msg \<longleftrightarrow> 0x200 \<le> msg \<and> msg \<le> 0x20E \<or> msg = 0x20A \<or> msg = 0x20E"

definition IsKeyboardMessage :: "u32 \<Rightarrow> bool" where
  "IsKeyboardMessage msg \<longleftrightarrow> msg \<in> {0x100, 0x101, 0x104, 0x105, 0x102, 0x106, 0x109, 0x286, 0x10F}"

datatype msg_fate = Toggled | ByPanel int | Swallowed | ToGame | ToDefault

text \<open>The window procedure: \<open>panel\<close> is what the library of the panels answers, \<open>form\<close> whether a form is open.\<close>

definition InputWndProc :: "bool \<Rightarrow> int \<Rightarrow> u32 \<Rightarrow> u64 \<Rightarrow> overlay \<Rightarrow> msg_fate \<times> overlay" where
  "InputWndProc form panel msg wParam x =
     (if (msg = 0x101 \<or> msg = 0x105) \<and> wParam = ucast (se_overlayToggleKey (ov_settings x)) then (Toggled, CMP_Overlay_Toggle x)
      else if (CMP_Overlay_IsVisible x \<or> form) \<and> panel \<noteq> 0 then (ByPanel panel, x)
      else if (CMP_Overlay_IsVisible x \<or> form) \<and> (IsMouseMessage msg \<or> IsKeyboardMessage msg) then (Swallowed, x)
      else (if ih_prev x then ToGame else ToDefault, x))"

text \<open>The rectangle the cursor is really held in: that of the window, if it is known, while something is open.\<close>

type_synonym rect = "int \<times> int \<times> int \<times> int"

definition ClipCursorHook :: "bool \<Rightarrow> rect option \<Rightarrow> (int \<times> int \<Rightarrow> int \<times> int) \<Rightarrow> rect option \<Rightarrow> overlay \<Rightarrow> rect option" where
  "ClipCursorHook form client toScreen asked x =
     (if CMP_Overlay_IsVisible x \<or> form
      then (case client of
              None \<Rightarrow> None
            | Some (l, t, r, b) \<Rightarrow> (case (toScreen (l, t), toScreen (r, b)) of ((l', t'), (r', b')) \<Rightarrow> Some (l', t', r', b')))
      else asked)"

definition InstallClipCursorHook :: "bool \<Rightarrow> overlay \<Rightarrow> overlay" where
  "InstallClipCursorHook found x = (if ih_clip x \<or> \<not> found then x else x\<lparr>ih_clip := True\<rparr>)"

definition CMP_InputHook_Install :: "bool \<Rightarrow> bool \<Rightarrow> bool \<Rightarrow> overlay \<Rightarrow> overlay" where
  "CMP_InputHook_Install found window previous x =
     (let x1 = (if \<not> ih_clip x then InstallClipCursorHook found x else x)
      in if ih_installed x1 \<or> \<not> window then x1
         else if previous then x1\<lparr>ih_prev := True, ih_installed := True\<rparr>
         else x1\<lparr>ih_prev := False\<rparr>)"

definition CMP_InputHook_Shutdown :: "overlay \<Rightarrow> overlay" where
  "CMP_InputHook_Shutdown x = (if \<not> ih_installed x \<or> \<not> ih_prev x then x else x\<lparr>ih_installed := False, ih_prev := False\<rparr>)"

definition UpdateOverlayInputCapture :: "bool \<Rightarrow> overlay \<Rightarrow> overlay" where
  "UpdateOverlayInputCapture form x = x\<lparr>ov_ignoreInput := CMP_Overlay_IsVisible x \<or> form\<rparr>"

text \<open>The loop that shows the cursor: each call adds one to the counter of Windows and returns it.\<close>

function show_cursor :: "int \<Rightarrow> int" where
  "show_cursor c = (if c + 1 < 0 then show_cursor (c + 1) else c + 1)"
  by auto
termination
  by (relation "measure (\<lambda>c. nat (- c))") auto

declare show_cursor.simps [simp del]

definition UpdateOverlayMouseState :: "bool \<Rightarrow> overlay \<Rightarrow> overlay" where
  "UpdateOverlayMouseState form x =
     (if \<not> ov_initialized x \<or> (\<not> ov_visible x \<and> \<not> form) then x
      else x\<lparr>ov_cursor := show_cursor (ov_cursor x), ov_mouseDraw := True\<rparr>)"

subsection \<open>The panels\<close>

text \<open>What the player does with the panels in one frame, and whether a panel is unfolded and left open.\<close>

record panel_input =
  pi_chatShown :: bool
  pi_chatOpen :: bool
  pi_text :: string
  pi_enter :: bool
  pi_send :: bool
  pi_debugShown :: bool
  pi_debugOpen :: bool
  pi_dump :: bool
  pi_leave :: bool

definition say :: "game \<Rightarrow> overlay \<Rightarrow> overlay" where
  "say g x = (upd_overlay_ses (CMP_SendChat g (ov_chat x)) x)\<lparr>ov_chat := [], ov_scroll := True\<rparr>"

definition DrawChatPanel :: "game \<Rightarrow> panel_input \<Rightarrow> overlay \<Rightarrow> overlay" where
  "DrawChatPanel g i x =
     (if \<not> se_overlayChatOpen (ov_settings x) then x
      else
        let x1 = set_settings (\<lambda>st. st\<lparr>se_overlayChatOpen := pi_chatOpen i\<rparr>) x
        in if \<not> pi_chatShown i then x1
           else
             let x2 = x1\<lparr>ov_scroll := False, ov_chat := take 255 (pi_text i)\<rparr>;
                 x3 = (if pi_enter i \<and> ov_chat x2 \<noteq> [] then say g x2 else x2)
             in if pi_send i \<and> ov_chat x3 \<noteq> [] then say g x3 else x3)"

definition DrawDebugPanel :: "panel_input \<Rightarrow> overlay \<Rightarrow> overlay" where
  "DrawDebugPanel i x =
     (if \<not> se_overlayDebugOpen (ov_settings x) then x
      else
        let x1 = set_settings (\<lambda>st. st\<lparr>se_overlayDebugOpen := pi_debugOpen i\<rparr>) x
        in if \<not> pi_debugShown i then x1
           else
             let x2 = (if pi_dump i then x1\<lparr>ov_pending := kActionDump\<rparr> else x1)
             in if pi_leave i then x2\<lparr>ov_pending := kActionLeave\<rparr> else x2)"

definition peer_lines :: "session \<Rightarrow> (u32 \<times> string) list" where
  "peer_lines s =
     map (\<lambda>(peer, _). (peer, case um_find peer (gr_names (ss_ghosts s)) of Some n \<Rightarrow> n | None \<Rightarrow> []))
       (others_of s (nr_latestPose (ss_net s)))"

definition UpdateCachedState :: "string \<Rightarrow> ghost_env \<Rightarrow> hud_env \<Rightarrow> overlay \<Rightarrow> overlay option" where
  "UpdateCachedState version e he x =
     (case (CMP_StatusText version e he (ov_ghosts x), CMP_PointerText he (ov_ghosts x)) of
        (Some status, Some pointer) \<Rightarrow>
          Some (x\<lparr>ov_status := status, ov_pointer := pointer, ov_peers := peer_lines (gh_session (ov_ghosts x))\<rparr>)
      | _ \<Rightarrow> None)"

subsection \<open>Name plates\<close>

record plate =
  pl_label :: string
  pl_x :: f32
  pl_y :: f32
  pl_alpha :: u32

text \<open>
  The camera, if there is one, takes a point to the screen or fails; the scale of a body in percent, the height of its
  base, if it has one; the size of a text.
\<close>

record plate_env =
  na_camera :: "(f32 \<times> f32 \<times> f32 \<Rightarrow> (f32 \<times> f32 \<times> f32) option) option"
  na_refScale :: "u32 \<Rightarrow> int"
  na_height :: "u32 \<Rightarrow> f32 option"
  na_textSize :: "string \<Rightarrow> f32 \<times> f32"

definition plate_head :: "plate_env \<Rightarrow> u32 \<Rightarrow> body \<Rightarrow> f32 \<times> f32 \<times> f32" where
  "plate_head na peer b =
     (let scale = (if na_refScale na peer > 0 then f32_div (f32_of_int (na_refScale na peer)) (f32_of_int 100) else f32_of_int 1);
          offset = (case na_height na peer of
                      Some h \<Rightarrow> if f32_less 0x3DCCCCCD h then f32_mul h scale else f32_mul (f32_of_int 128) scale
                    | None \<Rightarrow> f32_mul (f32_of_int 128) scale)
      in (bo_x b, bo_y b, f32_add (bo_z b) offset))"

definition plate_alpha :: "f32 \<Rightarrow> u32" where
  "plate_alpha away =
     (if f32_less (f32_of_int 80) away
      then
        let v = f32_sub (f32_of_int 1) (f32_div (f32_sub away (f32_of_int 80)) (f32_of_int 120));
            fade = (if f32_less v 0x3E19999A then 0x3E19999A else if f32_less (f32_of_int 1) v then f32_of_int 1 else v)
        in of_int (int_of_f32 (f32_mul fade (f32_of_int 255)))
      else 255)"

definition plate_of :: "ghost_env \<Rightarrow> plate_env \<Rightarrow> (f32 \<times> f32 \<times> f32 \<Rightarrow> (f32 \<times> f32 \<times> f32) option) \<Rightarrow> f32 \<Rightarrow> f32 \<Rightarrow> ghosts \<Rightarrow>
    engine_actor \<Rightarrow> u32 \<times> player_pose \<Rightarrow> plate option" where
  "plate_of e na camera w h ghosts player row =
     (let (peer, pose) = row; loc = PlayerLocationForm (ge_game e)
      in if peer = nr_myPeerId (ss_net (gh_session ghosts)) then None
         else if pp_locationFormId pose \<noteq> 0 \<and> loc \<noteq> 0 \<and> pp_locationFormId pose \<noteq> loc then None
         else case um_find peer (gh_byPeer ghosts) of
           None \<Rightarrow> None
         | Some a \<Rightarrow>
             if \<not> ge_alive e a \<or> \<not> bo_3D (ge_body e peer) then None
             else
               let b = ge_body e peer;
                   dx = f32_sub (bo_x b) (ea_x player); dy = f32_sub (bo_y b) (ea_y player); dz = f32_sub (bo_z b) (ea_z player);
                   away = f32_sqrt (f32_add (f32_add (f32_mul dx dx) (f32_mul dy dy)) (f32_mul dz dz))
               in case camera (plate_head na peer b) of
                    None \<Rightarrow> None
                  | Some (sx, sy, sz) \<Rightarrow>
                      if f32_le sz 0 \<or> f32_le (f32_of_int 1) sz then None
                      else
                        let screenX = f32_mul sx w; screenY = f32_mul (f32_sub (f32_of_int 1) sy) h;
                            edge = f32_of_int (- 50)
                        in if f32_less screenX edge \<or> f32_less (f32_add w (f32_of_int 50)) screenX \<or>
                              f32_less screenY edge \<or> f32_less (f32_add h (f32_of_int 50)) screenY
                           then None
                           else
                             let label = GhostLabel (pp_peerId pose) ghosts; size = na_textSize na (c_str label)
                             in Some \<lparr>pl_label = c_str label, pl_x = f32_sub screenX (f32_mul (fst size) 0x3F000000),
                                      pl_y = f32_sub (f32_sub screenY (snd size)) (f32_of_int 4), pl_alpha = plate_alpha away\<rparr>)"

definition CMP_DrawGhostNameplates :: "ghost_env \<Rightarrow> plate_env \<Rightarrow> f32 \<Rightarrow> f32 \<Rightarrow> ghosts \<Rightarrow> plate list" where
  "CMP_DrawGhostNameplates e na w h ghosts =
     (if f32_le w 0 \<or> f32_le h 0 then []
      else case (na_camera na, gm_player (ge_game e)) of
        (Some camera, Some player) \<Rightarrow>
          if \<not> nr_joined (ss_net (gh_session ghosts)) then []
          else map the (filter (\<lambda>p. p \<noteq> None) (map (plate_of e na camera w h ghosts player) (nr_latestPose (ss_net (gh_session ghosts)))))
      | _ \<Rightarrow> [])"

subsection \<open>A frame and a tick\<close>

record drawn =
  dr_plates :: "plate list"
  dr_forms :: bool
  dr_panels :: bool

text \<open>Drawing into a render target, if there is one; \<open>client\<close> is the size of the window, if it is known.\<close>

definition CMP_Overlay_Draw :: "ghost_env \<Rightarrow> plate_env \<Rightarrow> panel_input \<Rightarrow> bool \<Rightarrow> (int \<times> int) option \<Rightarrow> bool \<Rightarrow> overlay \<Rightarrow> drawn option \<times> overlay" where
  "CMP_Overlay_Draw e na i form client target x =
     (let showPanels = ov_visible x; showNameplates = nr_joined (ss_net (gh_session (ov_ghosts x)))
      in if \<not> ov_initialized x \<or> \<not> target then (None, x)
         else if \<not> showPanels \<and> \<not> showNameplates \<and> \<not> form then (None, x)
         else
           let x1 = UpdateOverlayMouseState form x;
               (w, h) = (case client of Some (w, h) \<Rightarrow> (f32_of_int w, f32_of_int h) | None \<Rightarrow> (f32_of_int 1920, f32_of_int 1080));
               plates = (if showNameplates then CMP_DrawGhostNameplates e na w h (ov_ghosts x1) else []);
               x2 = (if showPanels then DrawDebugPanel i (DrawChatPanel (ge_game e) i x1) else x1)
           in (Some \<lparr>dr_plates = plates, dr_forms = form, dr_panels = showPanels\<rparr>, x2))"

subsection \<open>The render hook\<close>

record render_env =
  re_data :: bool
  re_initialized :: bool
  re_swapChain :: bool
  re_device :: bool
  re_context :: bool
  re_window :: bool
  re_backBuffer :: bool
  re_view :: bool
  re_protectPresent :: bool
  re_protectResize :: bool

definition CleanupRenderTarget :: "overlay \<Rightarrow> overlay" where
  "CleanupRenderTarget x = (if rh_rtv x then x\<lparr>rh_rtv := False, rh_released := rh_released x + 1\<rparr> else x)"

definition CreateRenderTarget :: "render_env \<Rightarrow> overlay \<Rightarrow> overlay" where
  "CreateRenderTarget re x =
     (if \<not> rh_swapChain x \<or> \<not> rh_device x then x
      else
        let x1 = CleanupRenderTarget x
        in if re_backBuffer re \<and> re_view re then x1\<lparr>rh_rtv := True, rh_created := rh_created x1 + 1\<rparr> else x1)"

text \<open>The hook of the resize answers with the original, if it was found.\<close>

definition ResizeBuffersHook :: "overlay \<Rightarrow> slot option \<times> overlay" where
  "ResizeBuffersHook x = (rh_origResize x, CleanupRenderTarget x)"

definition PresentHook :: "render_env \<Rightarrow> (bool \<Rightarrow> overlay \<Rightarrow> drawn option \<times> overlay) \<Rightarrow> overlay \<Rightarrow> slot option \<times> overlay" where
  "PresentHook re draw x =
     (let x1 = (if \<not> rh_initialized x \<and> re_data re \<and> re_device re \<and> re_context re \<and> re_swapChain re \<and> re_window re
                then (CreateRenderTarget re (CMP_Overlay_Init True (x\<lparr>rh_device := True, rh_swapChain := True\<rparr>)))\<lparr>rh_initialized := True\<rparr>
                else x);
          x2 = (if rh_initialized x1
                then let x3 = (if \<not> rh_rtv x1 then CreateRenderTarget re x1 else x1) in snd (draw (rh_rtv x3) x3)
                else x1)
      in (rh_origPresent x2, x2))"

definition CMP_RenderHook_Install :: "render_env \<Rightarrow> overlay \<Rightarrow> overlay" where
  "CMP_RenderHook_Install re x =
     (if rh_hooked x then x
      else if \<not> re_data re \<or> \<not> re_initialized re \<or> \<not> re_swapChain re then x
      else if \<not> re_protectPresent re then x
      else
        let x1 = x\<lparr>rh_origPresent := Some (rh_present x), rh_present := SlotHook\<rparr>;
            x2 = (if re_protectResize re then x1\<lparr>rh_origResize := Some (rh_resize x1), rh_resize := SlotHook\<rparr> else x1)
        in x2\<lparr>rh_swapChain := True, rh_device := re_device re, rh_hooked := True\<rparr>)"

definition CMP_RenderHook_Shutdown :: "render_env \<Rightarrow> overlay \<Rightarrow> overlay" where
  "CMP_RenderHook_Shutdown re x =
     (if \<not> rh_hooked x \<or> \<not> rh_swapChain x then x
      else
        let x1 = CleanupRenderTarget (CMP_Overlay_Shutdown x);
            x2 = (case rh_origPresent x1 of Some s \<Rightarrow> if re_protectPresent re then x1\<lparr>rh_present := s\<rparr> else x1 | None \<Rightarrow> x1);
            x3 = (case rh_origResize x2 of Some s \<Rightarrow> if re_protectResize re then x2\<lparr>rh_resize := s\<rparr> else x2 | None \<Rightarrow> x2)
        in x3\<lparr>rh_hooked := False\<rparr>)"

text \<open>A tick, with whether a dump was asked for; it ends the session when the player pressed the button.\<close>

definition CMP_Overlay_Tick :: "render_env \<Rightarrow> bool \<Rightarrow> bool \<Rightarrow> bool \<Rightarrow> bool \<Rightarrow> string \<Rightarrow> ghost_env \<Rightarrow> hud_env \<Rightarrow> overlay \<Rightarrow> (bool \<times> overlay) option" where
  "CMP_Overlay_Tick re found window previous form version e he x =
     (let x1 = UpdateOverlayInputCapture form (CMP_InputHook_Install found window previous (CMP_RenderHook_Install re x))
      in map_option (\<lambda>x2.
           let action = ov_pending x2; x3 = x2\<lparr>ov_pending := kActionNone\<rparr>
           in if action = kActionDump then (True, x3)
              else if action = kActionLeave
              then (False, upd_overlay_ses (\<lambda>s. CMP_DespawnGhosts (CMP_Leave (ge_game e) s)) x3)
              else (False, x3))
         (UpdateCachedState version e he x1))"

subsection \<open>Whose input it is\<close>

text \<open>
  While the overlay or a form is open no mouse and no keyboard message reaches the game; while nothing is open every message
  does, but for the release of the toggle key, which turns the overlay on or off and changes nothing else of the hook.
\<close>

lemma input_captured:
  "(CMP_Overlay_IsVisible x \<or> form) \<and> (IsMouseMessage msg \<or> IsKeyboardMessage msg) \<longrightarrow>
     fst (InputWndProc form panel msg wParam x) \<notin> {ToGame, ToDefault}"
  "\<not> CMP_Overlay_IsVisible x \<and> \<not> form \<and> ih_prev x \<and> \<not> ((msg = 0x101 \<or> msg = 0x105) \<and> wParam = ucast (se_overlayToggleKey (ov_settings x))) \<longrightarrow>
     InputWndProc form panel msg wParam x = (ToGame, x)"
  by (simp_all add: InputWndProc_def)

lemma toggled_setting: "se_overlayVisible (ov_settings (CMP_Overlay_Toggle x)) = (\<not> ov_visible x)" "ov_visible (CMP_Overlay_Toggle x) = (\<not> ov_visible x)"
  by (simp_all add: CMP_Overlay_Toggle_def CMP_Overlay_SetVisible_def CMP_Overlay_IsVisible_def ov_settings_def set_settings_def
      upd_overlay_ses_def with_session_def)

text \<open>
  The press of the toggle key is not held back: while nothing is open the game gets it, and never the release, which opens
  the overlay. For the game the key stays down.
\<close>

lemma toggle_release_lost:
  assumes "\<not> ov_visible x" "ih_prev x" "key = ucast (se_overlayToggleKey (ov_settings x))"
  shows "InputWndProc False panel 0x100 key x = (ToGame, x)" "fst (InputWndProc False panel 0x101 key x) = Toggled"
  using assms by (simp_all add: InputWndProc_def CMP_Overlay_IsVisible_def)

subsection \<open>The cursor\<close>

lemma show_cursor_eq: "show_cursor c = max 0 (c + 1)"
proof (induction c rule: show_cursor.induct)
  case (1 c)
  then show ?case
    by (subst show_cursor.simps) auto
qed

lemma panels_keep_cursor:
  "ov_cursor (DrawDebugPanel i x) = ov_cursor x" "ov_cursor (DrawChatPanel g i x) = ov_cursor x"
  "ov_initialized (DrawDebugPanel i x) = ov_initialized x" "ov_initialized (DrawChatPanel g i x) = ov_initialized x"
  "ov_visible (DrawDebugPanel i x) = ov_visible x" "ov_visible (DrawChatPanel g i x) = ov_visible x"
  by (simp_all add: DrawDebugPanel_def DrawChatPanel_def say_def set_settings_def upd_overlay_ses_def Let_def)

lemma draw_shows_cursor:
  assumes "ov_initialized x" "ov_visible x"
  shows "ov_cursor (snd (CMP_Overlay_Draw e na i form client True x)) = max 0 (ov_cursor x + 1) \<and>
    ov_initialized (snd (CMP_Overlay_Draw e na i form client True x)) \<and> ov_visible (snd (CMP_Overlay_Draw e na i form client True x))"
  using assms
  by (simp add: CMP_Overlay_Draw_def Let_def UpdateOverlayMouseState_def panels_keep_cursor show_cursor_eq split: prod.split)

text \<open>
  Every frame in which the overlay is open adds one to the display counter of the cursor, and closing the overlay takes none
  of them off: after \<open>n\<close> frames the game has to hide the cursor about \<open>n\<close> times before it is gone.
\<close>

lemma cursor_counts_frames:
  assumes "ov_initialized x" "ov_visible x" "\<And>k y. step k y = snd (CMP_Overlay_Draw (e k) na (i k) (form k) client True y)"
  shows "ov_cursor (fold step [0..<Suc n] x) = max (int n) (ov_cursor x + int n + 1) \<and>
    ov_cursor (CMP_Overlay_Toggle (fold step [0..<Suc n] x)) = ov_cursor (fold step [0..<Suc n] x)"
proof -
  have "ov_cursor (fold step [0..<Suc n] x) = max (int n) (ov_cursor x + int n + 1) \<and> ov_initialized (fold step [0..<Suc n] x) \<and>
    ov_visible (fold step [0..<Suc n] x)"
  proof (induction n)
    case 0
    show ?case
      using draw_shows_cursor [OF assms(1,2)] by (simp add: assms(3))
  next
    case (Suc n)
    define y where "y = fold step [0..<Suc n] x"
    have y: "ov_cursor y = max (int n) (ov_cursor x + int n + 1)" "ov_initialized y" "ov_visible y"
      using Suc by (simp_all only: y_def)
    have f: "fold step [0..<Suc (Suc n)] x = step (Suc n) y"
      by (simp add: y_def)
    have z: "step (Suc n) y = snd (CMP_Overlay_Draw (e (Suc n)) na (i (Suc n)) (form (Suc n)) client True y)"
      by (rule assms(3))
    show ?case
      unfolding f z using draw_shows_cursor [OF y(2,3), of "e (Suc n)" na "i (Suc n)" "form (Suc n)" client] y(1) by simp
  qed
  moreover have "ov_cursor (CMP_Overlay_Toggle y) = ov_cursor y" for y
    by (simp add: CMP_Overlay_Toggle_def CMP_Overlay_SetVisible_def set_settings_def upd_overlay_ses_def)
  ultimately show ?thesis
    by simp
qed

subsection \<open>Name plates are of players who are there\<close>

lemma plate_of_player:
  assumes "plate_of e na camera w h ghosts player (peer, pose) = Some q"
  shows "peer \<noteq> nr_myPeerId (ss_net (gh_session ghosts))"
    "pp_locationFormId pose = 0 \<or> PlayerLocationForm (ge_game e) = 0 \<or> pp_locationFormId pose = PlayerLocationForm (ge_game e)"
    "\<exists>a. um_find peer (gh_byPeer ghosts) = Some a \<and> ge_alive e a"
    "pl_label q = c_str (GhostLabel (pp_peerId pose) ghosts)"
proof -
  show "peer \<noteq> nr_myPeerId (ss_net (gh_session ghosts))"
    using assms by (auto simp: plate_of_def)
  show place: "pp_locationFormId pose = 0 \<or> PlayerLocationForm (ge_game e) = 0 \<or> pp_locationFormId pose = PlayerLocationForm (ge_game e)"
    using assms by (simp add: plate_of_def Let_def split: if_splits)
  obtain a where a: "um_find peer (gh_byPeer ghosts) = Some a"
    using assms by (simp add: plate_of_def Let_def split: if_splits option.splits)
  then have "ge_alive e a"
    using assms by (simp add: plate_of_def Let_def split: if_splits)
  then show "\<exists>a. um_find peer (gh_byPeer ghosts) = Some a \<and> ge_alive e a"
    using a by blast
  show "pl_label q = c_str (GhostLabel (pp_peerId pose) ghosts)"
    using assms a by (auto simp: plate_of_def Let_def split: if_splits option.splits prod.splits)
qed

lemma plates_of_players:
  assumes "p \<in> set (CMP_DrawGhostNameplates e na w h ghosts)"
  shows "nr_joined (ss_net (gh_session ghosts)) \<and>
    (\<exists>peer pose a. (peer, pose) \<in> set (nr_latestPose (ss_net (gh_session ghosts))) \<and> peer \<noteq> nr_myPeerId (ss_net (gh_session ghosts)) \<and>
       um_find peer (gh_byPeer ghosts) = Some a \<and> ge_alive e a \<and> pl_label p = c_str (GhostLabel (pp_peerId pose) ghosts) \<and>
       (pp_locationFormId pose = 0 \<or> PlayerLocationForm (ge_game e) = 0 \<or> pp_locationFormId pose = PlayerLocationForm (ge_game e)))"
proof -
  obtain camera player where d: "nr_joined (ss_net (gh_session ghosts))"
    "p \<in> set (map the (filter (\<lambda>p. p \<noteq> None) (map (plate_of e na camera w h ghosts player) (nr_latestPose (ss_net (gh_session ghosts))))))"
    using assms by (auto simp del: not_None_eq simp: CMP_DrawGhostNameplates_def split: if_splits option.splits)
  from d(2) obtain peer pose where "(peer, pose) \<in> set (nr_latestPose (ss_net (gh_session ghosts)))"
    "plate_of e na camera w h ghosts player (peer, pose) = Some p"
    by auto
  note here = this
  obtain a where "um_find peer (gh_byPeer ghosts) = Some a \<and> ge_alive e a"
    using plate_of_player(3) [OF here(2)] by blast
  then show ?thesis
    using d(1) here(1) plate_of_player(1,2,4) [OF here(2)] by blast
qed

subsection \<open>Render targets\<close>

text \<open>The hooks in any order, whatever is drawn in between.\<close>

inductive render_run :: "overlay \<Rightarrow> bool" where
  begins: "render_run (overlay_init w)"
| installs: "render_run x \<Longrightarrow> render_run (CMP_RenderHook_Install re x)"
| presents: "render_run x \<Longrightarrow> (\<And>t y. \<exists>w c m i v pd sc ch. snd (draw t y) = y\<lparr>ov_ghosts := w, ov_cursor := c, ov_mouseDraw := m, ov_visible := v,
    ov_pending := pd, ov_scroll := sc, ov_chat := ch, ov_initialized := i\<rparr>) \<Longrightarrow> render_run (snd (PresentHook re draw x))"
| resizes: "render_run x \<Longrightarrow> render_run (snd (ResizeBuffersHook x))"
| ends: "render_run x \<Longrightarrow> render_run (CMP_RenderHook_Shutdown re x)"

text \<open>Of the render targets that were made all but the present one were released, and there is one only with a swap chain.\<close>

definition targets_ok :: "overlay \<Rightarrow> bool" where
  "targets_ok x \<longleftrightarrow> rh_created x = rh_released x + (if rh_rtv x then 1 else 0) \<and> (rh_rtv x \<longrightarrow> rh_swapChain x)"

lemma cleanup_targets: "targets_ok x \<Longrightarrow> targets_ok (CleanupRenderTarget x)"
  by (auto simp: targets_ok_def CleanupRenderTarget_def split: if_splits)

lemma create_targets: "targets_ok x \<Longrightarrow> targets_ok (CreateRenderTarget re x)"
  by (auto simp: targets_ok_def CreateRenderTarget_def CleanupRenderTarget_def Let_def split: if_splits)

lemma targets_balanced: "render_run x \<Longrightarrow> targets_ok x"
proof (induction rule: render_run.induct)
  case (begins w)
  then show ?case
    by (simp add: targets_ok_def overlay_init_def)
next
  case (installs x re)
  then show ?case
    by (auto simp: targets_ok_def CMP_RenderHook_Install_def Let_def split: if_splits)
next
  case (presents x draw re)
  have d: "targets_ok (snd (draw t y)) = targets_ok y" for t y
    using presents(2) [of t y] by (auto simp: targets_ok_def)
  have i: "targets_ok (CMP_Overlay_Init v y) = targets_ok y" for v y
    by (simp add: targets_ok_def CMP_Overlay_Init_def)
  have s: "targets_ok (y\<lparr>rh_initialized := b\<rparr>) = targets_ok y" for y b
    by (simp add: targets_ok_def)
  have h: "targets_ok (x\<lparr>rh_device := True, rh_swapChain := True\<rparr>)"
    using presents.IH by (simp add: targets_ok_def)
  show ?case
    using presents.IH create_targets h by (simp add: PresentHook_def Let_def d i s)
next
  case (resizes x)
  then show ?case
    by (simp add: ResizeBuffersHook_def cleanup_targets)
next
  case (ends x re)
  have "targets_ok (CleanupRenderTarget (CMP_Overlay_Shutdown x))"
    using ends by (intro cleanup_targets) (simp add: targets_ok_def CMP_Overlay_Shutdown_def)
  then show ?case
    using ends by (auto simp: CMP_RenderHook_Shutdown_def targets_ok_def Let_def split: option.split)
qed

text \<open>Taking the hooks away puts the table back, when the memory can be written both times.\<close>

lemma hooks_taken_away:
  assumes "\<not> rh_hooked x" "re_data re" "re_initialized re" "re_swapChain re" "re_protectPresent re" "re_protectResize re"
  shows "rh_present (CMP_RenderHook_Shutdown re (CMP_RenderHook_Install re x)) = rh_present x"
    "rh_resize (CMP_RenderHook_Shutdown re (CMP_RenderHook_Install re x)) = rh_resize x"
  using assms
  by (simp_all add: CMP_RenderHook_Install_def CMP_RenderHook_Shutdown_def CleanupRenderTarget_def CMP_Overlay_Shutdown_def Let_def)

end
