(* ===== verification/Startup.thy ===== *)
theory Startup
  imports ServerMain WinConsole PluginSteam
begin

text \<open>
  The start of the server process, \<^verbatim>\<open>server/src/main.cpp\<close> around its main loop: the console it
  chooses, the configuration it ends up with, the session folder, the two sockets with every
  failing path, the status line; and the socket wrappers of \<^verbatim>\<open>cmp_udp.hpp\<close> and \<^verbatim>\<open>cmp_poll.hpp\<close> and
  the senders and process statistics of \<^verbatim>\<open>server/src/net_util.cpp\<close>.

  Winsock is a state, the sockets that are open, and the answers it gives are an argument.
\<close>

subsection \<open>The console of the process\<close>

text \<open>
  \<open>ps_conhost\<close> is the environment variable \<^verbatim>\<open>CMP_CONHOST\<close>, \<open>ps_children\<close> the processes started:
  program, command line and the value of the variable they inherit.
\<close>

record process =
  ps_conhost :: "string option"
  ps_children :: "(string \<times> string \<times> string option) list"

record console_env =
  ce_sysDir :: "string option"
  ce_cmdLine :: string
  ce_created :: bool
  ce_pipe :: "(int \<times> int) option"
  ce_dupOut :: int
  ce_dupErr :: int
  ce_pipeFd :: int

text \<open>\<^verbatim>\<open>GetEnvironmentVariableA\<close> gives the length of the value, 0 when there is none.\<close>

definition conhost_set :: "process \<Rightarrow> bool" where
  "conhost_set p = (case ps_conhost p of None \<Rightarrow> False | Some v \<Rightarrow> v \<noteq> [])"

definition relaunch_in_classic_console :: "console_env \<Rightarrow> process \<Rightarrow> bool \<times> process" where
  "relaunch_in_classic_console e p =
     (if conhost_set p then (False, p)
      else case ce_sysDir e of
        None \<Rightarrow> (False, p)
      | Some sysDir \<Rightarrow>
          let conhost = sysDir @ [CHR 0x5C] @ ''conhost.exe'';
              cmd = [CHR 0x22] @ conhost @ [CHR 0x22] @ '' '' @ ce_cmdLine e;
              p1 = p\<lparr>ps_conhost := Some ''1''\<rparr>
          in if \<not> ce_created e then (False, p1\<lparr>ps_conhost := None\<rparr>)
             else (True, p1\<lparr>ps_children := ps_children p1 @ [(conhost, cmd, ps_conhost p1)]\<rparr>))"

text \<open>The first lines of \<^verbatim>\<open>main\<close>: leave at once, or go on with the console window or without it.\<close>

datatype console_choice = LeaveToChild | GoOn bool

definition choose_console :: "console_env \<Rightarrow> process \<times> win_console \<Rightarrow> console_choice \<times> process \<times> win_console" where
  "choose_console e = (\<lambda>(p, w).
     if \<not> conhost_set p
     then (case wc_start (ce_pipe e) (ce_dupOut e) (ce_dupErr e) (ce_pipeFd e) (wc_set_shutdown_callback True w) of
             (True, w1) \<Rightarrow> (GoOn True, p, w1)
           | (False, w1) \<Rightarrow>
               (case relaunch_in_classic_console e p of
                  (True, p1) \<Rightarrow> (LeaveToChild, p1, w1)
                | (False, p1) \<Rightarrow> (GoOn False, p1, w1)))
     else (case relaunch_in_classic_console e p of
             (True, p1) \<Rightarrow> (LeaveToChild, p1, w)
           | (False, p1) \<Rightarrow> (GoOn False, p1, w)))"

text \<open>What the child process starts with.\<close>

definition child_of :: "process \<Rightarrow> process" where
  "child_of p = \<lparr>ps_conhost = (if ps_children p = [] then None else snd (snd (last (ps_children p)))), ps_children = []\<rparr>"

subsection \<open>The configuration\<close>

fun has_config :: "string list \<Rightarrow> bool" where
  "has_config (a # v # rest) = (a = ''--config'' \<or> has_config (v # rest))"
| "has_config _ = False"

definition default_log :: "string \<Rightarrow> string" where
  "default_log exe = path_join exe ''CommonwealthMP.Server.log''"

definition main_config :: "(string \<Rightarrow> bool) \<Rightarrow> string \<Rightarrow> string list \<Rightarrow> files \<Rightarrow> cli \<times> files" where
  "main_config canWrite exe args fs =
     (let path = config_arg (path_join exe ''server.ini'') args;
          cfg0 = default_config\<lparr>cfg_logFile := default_log exe\<rparr>;
          cfg1 = (if has_config args then cfg0\<lparr>cfg_configPath := path\<rparr> else cfg0);
          r = ensure_server_ini canWrite fs path cfg1;
          cfg2 = er_cfg r;
          cfg3 = (if cfg_logFile cfg2 = [] then cfg2\<lparr>cfg_logFile := default_log exe\<rparr> else cfg2)
      in (parse_args cfg3 args, er_files r))"

text \<open>The log is opened once the configuration is known.\<close>

definition start_log :: "nat \<Rightarrow> bool \<Rightarrow> ServerConfig \<Rightarrow> server_log \<Rightarrow> server_log" where
  "start_log now ok cfg lg =
     set_title (''CMP '' @ cfg_name cfg)
       (open_file now ok (cfg_logFile cfg)
         (set_level (if cfg_verbose cfg then LDebug else if cfg_quiet cfg then LWarn else LInfo) LDebug lg))"

definition session_dir_of :: "string \<Rightarrow> ServerConfig \<Rightarrow> string" where
  "session_dir_of exe cfg = (if cfg_sessionDir cfg = [] then path_join exe ''session'' else cfg_sessionDir cfg)"

definition prepare_session :: "ServerConfig \<Rightarrow> string \<Rightarrow> files \<Rightarrow> files" where
  "prepare_session cfg dir fs =
     (if cfg_resetSession cfg then filter (\<lambda>kv. \<not> under dir (fst kv)) fs else backup_session_folder dir fs)"

subsection \<open>Sockets\<close>

type_synonym cmp_socket = u64

definition kCmpInvalidSocket :: cmp_socket where "kCmpInvalidSocket = - 1"

record sock_info =
  si_dgram :: bool
  si_reuse :: bool
  si_port :: "u16 option"
  si_backlog :: "nat option"
  si_nonblock :: bool

record sockets =
  so_wsa :: nat
  so_open :: "cmp_socket \<Rightarrow> sock_info option"

text \<open>The answers of Winsock. \<open>sa_socket\<close> and the rest are asked with the kind of socket.\<close>

record sock_answers =
  sa_startup :: bool
  sa_socket :: "bool \<Rightarrow> cmp_socket"
  sa_reuse :: "bool \<Rightarrow> bool"
  sa_bind :: "bool \<Rightarrow> bool"
  sa_listen :: bool
  sa_nonblock :: "bool \<Rightarrow> bool"

definition udp_startup :: "sock_answers \<Rightarrow> sockets \<Rightarrow> bool \<times> sockets" where
  "udp_startup a s = (if sa_startup a then (True, s\<lparr>so_wsa := so_wsa s + 1\<rparr>) else (False, s))"

definition udp_cleanup :: "sockets \<Rightarrow> sockets" where
  "udp_cleanup s = s\<lparr>so_wsa := so_wsa s - 1\<rparr>"

definition udp_close :: "cmp_socket \<Rightarrow> sockets \<Rightarrow> sockets" where
  "udp_close k s = (if k = kCmpInvalidSocket then s else s\<lparr>so_open := (so_open s)(k := None)\<rparr>)"

definition set_info :: "cmp_socket \<Rightarrow> (sock_info \<Rightarrow> sock_info) \<Rightarrow> sockets \<Rightarrow> sockets" where
  "set_info k f s = s\<lparr>so_open := (so_open s)(k := map_option f (so_open s k))\<rparr>"

definition new_socket :: "bool \<Rightarrow> sock_answers \<Rightarrow> sockets \<Rightarrow> cmp_socket \<times> sockets" where
  "new_socket dgram a s =
     (let k = sa_socket a dgram
      in if k = kCmpInvalidSocket then (k, s)
         else (k, s\<lparr>so_open := (so_open s)(k \<mapsto>
                \<lparr>si_dgram = dgram, si_reuse = False, si_port = None, si_backlog = None, si_nonblock = False\<rparr>)\<rparr>))"

definition bind_socket :: "bool \<Rightarrow> cmp_socket \<Rightarrow> u16 \<Rightarrow> sock_answers \<Rightarrow> sockets \<Rightarrow> bool \<times> sockets" where
  "bind_socket dgram k port a s =
     (if sa_bind a dgram then (True, set_info k (\<lambda>i. i\<lparr>si_port := Some port\<rparr>) s) else (False, s))"

definition listen_socket :: "cmp_socket \<Rightarrow> nat \<Rightarrow> sock_answers \<Rightarrow> sockets \<Rightarrow> bool \<times> sockets" where
  "listen_socket k n a s = (if sa_listen a then (True, set_info k (\<lambda>i. i\<lparr>si_backlog := Some n\<rparr>) s) else (False, s))"

definition udp_set_nonblock :: "bool \<Rightarrow> cmp_socket \<Rightarrow> sock_answers \<Rightarrow> sockets \<Rightarrow> bool \<times> sockets" where
  "udp_set_nonblock dgram k a s =
     (if sa_nonblock a dgram then (True, set_info k (\<lambda>i. i\<lparr>si_nonblock := True\<rparr>) s) else (False, s))"

text \<open>The result of \<^verbatim>\<open>setsockopt\<close> with \<^verbatim>\<open>SO_REUSEADDR\<close> is ignored: a refusal leaves the socket as it is.\<close>

definition ask_reuse :: "bool \<Rightarrow> cmp_socket \<Rightarrow> sock_answers \<Rightarrow> sockets \<Rightarrow> sockets" where
  "ask_reuse dgram k a s = (if sa_reuse a dgram then set_info k (\<lambda>i. i\<lparr>si_reuse := True\<rparr>) s else s)"

text \<open>The lines of \<^verbatim>\<open>main\<close> that open the sockets: \<open>None\<close> is the return with code 1.\<close>

definition close_both :: "cmp_socket \<Rightarrow> cmp_socket \<Rightarrow> sockets \<Rightarrow> sockets" where
  "close_both x y s = udp_cleanup (udp_close y (udp_close x s))"

definition open_sockets :: "sock_answers \<Rightarrow> u16 \<Rightarrow> sockets \<Rightarrow> (cmp_socket \<times> cmp_socket) option \<times> sockets" where
  "open_sockets a port s0 =
     (case udp_startup a s0 of (started, s1) \<Rightarrow>
      if \<not> started then (None, s1)
      else case new_socket True a s1 of (udpSock, s2) \<Rightarrow>
      if udpSock = kCmpInvalidSocket then (None, udp_cleanup s2)
      else case new_socket False a s2 of (tcpListen, s3) \<Rightarrow>
      if tcpListen = kCmpInvalidSocket then (None, udp_cleanup (udp_close udpSock s3))
      else
        let s4 = ask_reuse False tcpListen a (ask_reuse True udpSock a s3)
        in case bind_socket True udpSock port a s4 of (bu, s5) \<Rightarrow>
           if \<not> bu then (None, close_both udpSock tcpListen s5)
           else case bind_socket False tcpListen port a s5 of (bt, s6) \<Rightarrow>
           if \<not> bt then (None, close_both udpSock tcpListen s6)
           else case listen_socket tcpListen 16 a s6 of (li, s7) \<Rightarrow>
           if \<not> li then (None, close_both udpSock tcpListen s7)
           else case udp_set_nonblock True udpSock a s7 of (nu, s8) \<Rightarrow>
           if \<not> nu then (None, close_both udpSock tcpListen s8)
           else case udp_set_nonblock False tcpListen a s8 of (nt, s9) \<Rightarrow>
           if \<not> nt then (None, close_both udpSock tcpListen s9)
           else (Some (udpSock, tcpListen), s9))"

text \<open>The last lines of \<^verbatim>\<open>main\<close>.\<close>

definition close_sockets :: "cmp_socket \<Rightarrow> cmp_socket \<Rightarrow> sockets \<Rightarrow> sockets" where
  "close_sockets udpSock tcpListen s = udp_cleanup (udp_close udpSock (udp_close tcpListen s))"

subsection \<open>From the arguments to the runtime\<close>

datatype boot = BootExit int | BootThrow | BootRun server_runtime cmp_socket cmp_socket

definition main_boot ::
  "(string \<Rightarrow> bool) \<Rightarrow> sock_answers \<Rightarrow> string \<Rightarrow> string list \<Rightarrow> files \<times> sockets \<Rightarrow> boot \<times> files \<times> sockets" where
  "main_boot canWrite a exe args = (\<lambda>(fs0, s).
     case main_config canWrite exe args fs0 of
       (CliExit n, fs) \<Rightarrow> (BootExit n, fs, s)
     | (CliThrow, fs) \<Rightarrow> (BootThrow, fs, s)
     | (CliRun cfg, fs) \<Rightarrow>
         (let dir = session_dir_of exe cfg
          in case open_sockets a (cfg_port cfg) s of
               (None, s1) \<Rightarrow> (BootExit 1, prepare_session cfg dir fs, s1)
             | (Some (u, t), s1) \<Rightarrow> (BootRun (startup cfg fs dir) u t, prepare_session cfg dir fs, s1)))"

text \<open>A console event, an unhandled exception and a signal only end the main loop.\<close>

definition on_ctrl :: "main_state \<Rightarrow> bool \<times> main_state" where
  "on_ctrl m = (True, m\<lparr>ms_running := False\<rparr>)"

definition on_crash :: "main_state \<Rightarrow> main_state" where
  "on_crash m = m\<lparr>ms_running := False\<rparr>"

subsection \<open>The senders and the poll\<close>

text \<open>\<open>sent\<close> is the answer of \<^verbatim>\<open>sendto\<close> with the last error; a warning is logged when not everything was taken.\<close>

definition send_to :: "(bytes \<Rightarrow> int \<times> int) \<Rightarrow> sockaddr_in \<Rightarrow> bytes \<Rightarrow> string \<Rightarrow> string option" where
  "send_to sent dest data what =
     (case sent data of (n, err) \<Rightarrow>
        if n \<noteq> int (length data)
        then Some (''send '' @ what @ '' failed bytes='' @ int_str n @ ''/'' @ dec_str (length data) @ '' err='' @ int_str err @
                   '' dest='' @ addr_key dest)
        else None)"

definition send_blob :: "(bytes \<Rightarrow> int \<times> int) \<Rightarrow> sockaddr_in \<Rightarrow> msg \<Rightarrow> u32 \<Rightarrow> bytes \<Rightarrow> (bytes \<times> string option) list" where
  "send_blob sent dest ty peerId blob =
     (case split_blob_chunks ty peerId blob of
        None \<Rightarrow> []
      | Some packets \<Rightarrow> map (\<lambda>pkt. (pkt, send_to sent dest pkt (msg_name (Some ty)))) packets)"

record poll_fd =
  pfd_fd :: cmp_socket
  pfd_events :: "16 word"
  pfd_revents :: "16 word"

text \<open>\<open>answer\<close> is the system call on a copy of the list with the results cleared.\<close>

definition poll_fds :: "(poll_fd list \<Rightarrow> int \<Rightarrow> int \<times> poll_fd list) \<Rightarrow> poll_fd list \<Rightarrow> int \<Rightarrow> int \<times> poll_fd list" where
  "poll_fds answer fds timeoutMs =
     (if fds = [] then (0, fds)
      else
        let raw = map (\<lambda>p. p\<lparr>pfd_revents := 0\<rparr>) fds;
            (n, raw') = answer raw timeoutMs
        in if n > 0 then (n, map2 (\<lambda>p q. p\<lparr>pfd_revents := pfd_revents q\<rparr>) fds raw') else (n, fds))"

subsection \<open>Statistics and the status line\<close>

record proc_stats =
  pr_cpuPercent :: f64
  pr_memMb :: f64
  pr_lastSys :: u64
  pr_lastProc :: u64
  pr_haveSample :: bool

definition proc_stats0 :: proc_stats where
  "proc_stats0 = \<lparr>pr_cpuPercent = 0, pr_memMb = 0, pr_lastSys = 0, pr_lastProc = 0, pr_haveSample = False\<rparr>"

text \<open>
  \<open>tms\<close> are the kernel and user times of the process and of the system, \<open>mem\<close> the working set.
\<close>

definition clamp_percent :: "f64 \<Rightarrow> f64" where
  "clamp_percent x =
     (let y = (if f64_less x 0 then 0 else x) in if f64_less (f64_of_int 100) y then f64_of_int 100 else y)"

definition sample_proc_stats :: "((u64 \<times> u64) \<times> (u64 \<times> u64)) option \<Rightarrow> u64 option \<Rightarrow> proc_stats \<Rightarrow> proc_stats" where
  "sample_proc_stats tms mem st =
     (case tms of
        None \<Rightarrow> st
      | Some ((procKernel, procUser), (sysKernel, sysUser)) \<Rightarrow>
          let proc = procKernel + procUser;
              sys = sysKernel + sysUser;
              st1 = (if pr_haveSample st \<and> pr_lastSys st < sys
                     then st\<lparr>pr_cpuPercent := clamp_percent
                            (f64_div (f64_mul (f64_of_int 100) (f64_of_int (uint (proc - pr_lastProc st))))
                                     (f64_of_int (uint (sys - pr_lastSys st))))\<rparr>
                     else st);
              st2 = st1\<lparr>pr_lastProc := proc, pr_lastSys := sys, pr_haveSample := True\<rparr>
          in (case mem of
                None \<Rightarrow> st2
              | Some ws \<Rightarrow> st2\<lparr>pr_memMb := f64_div (f64_of_int (uint ws)) (f64_mul (f64_of_int 1024) (f64_of_int 1024))\<rparr>))"

text \<open>\<^verbatim>\<open>%.0f\<close>: the nearest whole number, ties to even.\<close>

fun fp_whole :: "fp \<Rightarrow> string" where
  "fp_whole FNan = ''nan''"
| "fp_whole (FInf s) = (if s then ''-inf'' else ''inf'')"
| "fp_whole (FFin s m e) = (if s then ''-'' else []) @ dec_str (rne (m * 2 ^ nat e) (2 ^ nat (- e)))"

definition status_bar :: "server_runtime \<Rightarrow> nat \<Rightarrow> u64 \<Rightarrow> proc_stats \<Rightarrow> string" where
  "status_bar r live datagrams st =
     take 255 (''CMP 0.7.0 :'' @ dec_str (unat (cfg_port (rt_cfg r))) @ '' | '' @ dec_str live @ ''/'' @
       int_str (cfg_maxPlayers (rt_cfg r)) @ '' | host '' @ dec_str (unat (wo_hostPeerId (rt_world r))) @
       '' | rx '' @ dec_str (unat datagrams) @ '' | cpu '' @ fp_whole (f64_fp (pr_cpuPercent st)) @ ''% | mem '' @
       fp_whole (f64_fp (pr_memMb st)) @ ''MB'')"

definition kStatusLogIntervalSec :: f64 where "kStatusLogIntervalSec = f64_of_int 30"

record status =
  sl_lastBar :: f64
  sl_lastLog :: f64
  sl_stats :: proc_stats

text \<open>The part of a turn that shows the status; the flag is whether the line for the log is written.\<close>

definition status_turn ::
  "f64 \<Rightarrow> ((u64 \<times> u64) \<times> (u64 \<times> u64)) option \<Rightarrow> u64 option \<Rightarrow> server_runtime \<Rightarrow> bool \<Rightarrow> status \<times> server_log \<times> win_console \<Rightarrow>
   bool \<times> status \<times> server_log \<times> win_console" where
  "status_turn t tms mem r winActive = (\<lambda>(st, lg, w).
     if f64_le kStatusBarIntervalSec (f64_sub t (sl_lastBar st))
     then
       (let st1 = st\<lparr>sl_lastBar := t, sl_stats := sample_proc_stats tms mem (sl_stats st)\<rparr>;
            bar = status_bar r (length (rt_clients r)) (rt_datagrams r) (sl_stats st1);
            quiet = cfg_quiet (rt_cfg r);
            lg1 = (if \<not> quiet then set_log_status bar lg else lg);
            w1 = (if \<not> quiet \<and> winActive then wc_set_title bar w else w)
        in if f64_le kStatusLogIntervalSec (f64_sub t (sl_lastLog st1))
           then (True, st1\<lparr>sl_lastLog := t\<rparr>, lg1, w1)
           else (False, st1, lg1, w1))
     else (False, st, lg, w))"

text \<open>Before the first turn.\<close>

definition first_status ::
  "((u64 \<times> u64) \<times> (u64 \<times> u64)) option \<Rightarrow> u64 option \<Rightarrow> server_runtime \<Rightarrow> bool \<Rightarrow> server_log \<times> win_console \<Rightarrow>
   proc_stats \<times> server_log \<times> win_console" where
  "first_status tms mem r winActive = (\<lambda>(lg, w).
     let st = sample_proc_stats tms mem proc_stats0
     in if cfg_quiet (rt_cfg r) then (st, lg, w)
        else let bar = status_bar r 0 0 st
             in (st, set_log_status bar (set_status_enabled True lg), if winActive then wc_set_title bar w else w))"


subsection \<open>A process is relaunched once\<close>

lemma relaunch_child:
  assumes "relaunch_in_classic_console e p = (True, p')"
  shows "\<exists>c cmd. ps_children p' = ps_children p @ [(c, cmd, Some ''1'')]"
  using assms
  by (auto simp: relaunch_in_classic_console_def Let_def split: if_splits option.splits)

lemma relaunch_not: "conhost_set p \<Longrightarrow> relaunch_in_classic_console e p = (False, p)"
  by (simp add: relaunch_in_classic_console_def)

lemma relaunch_fails: "relaunch_in_classic_console e p = (False, p') \<Longrightarrow> ps_children p' = ps_children p"
  by (auto simp: relaunch_in_classic_console_def Let_def split: if_splits option.splits)

lemma choose_conhost: "conhost_set p \<Longrightarrow> choose_console e (p, w) = (GoOn False, p, w)"
  by (simp add: choose_console_def relaunch_not)

lemma leaves_with_child:
  assumes "choose_console e (p, w) = (LeaveToChild, p', w')"
  shows "conhost_set (child_of p')"
  using assms
  by (auto simp: choose_console_def child_of_def conhost_set_def split: if_splits prod.splits bool.splits
      dest!: relaunch_child)

text \<open>
  A server process that leaves to the classic console has started exactly one other process, and
  that process stays: whatever Windows answers it, it neither leaves nor starts a third one. A
  process that stays has started none.
\<close>

lemma relaunch_once:
  "case choose_console e (p, w) of
     (LeaveToChild, p', _) \<Rightarrow>
       (\<exists>c. ps_children p' = ps_children p @ [c]) \<and> (\<forall>e' w'. choose_console e' (child_of p', w') = (GoOn False, child_of p', w'))
   | (GoOn _, p', _) \<Rightarrow> ps_children p' = ps_children p"
  using choose_conhost [OF leaves_with_child [of e p w]]
  by (auto simp: choose_console_def split: prod.splits bool.splits console_choice.splits dest!: relaunch_child
      dest: relaunch_fails)

subsection \<open>The arguments keep the bounds of the configuration\<close>

lemma f32_max_zero: "\<not> f32_less (f32_max 0 x) 0"
  by (auto simp: f32_max_def f32_less_def dest: fp_less_asym)

lemma cut_password_length [simp]: "length (cut_password v) \<le> 15"
  by (simp add: cut_password_def)

lemma config_ok_upd [simp]:
  "config_ok (c\<lparr>cfg_resetSession := b\<rparr>) = config_ok c"
  "config_ok (c\<lparr>cfg_verbose := b, cfg_quiet := q\<rparr>) = config_ok c"
  "config_ok (c\<lparr>cfg_quiet := b, cfg_verbose := q\<rparr>) = config_ok c"
  "config_ok (c\<lparr>cfg_jsonLog := b\<rparr>) = config_ok c"
  "config_ok (c\<lparr>cfg_pvp := b\<rparr>) = config_ok c"
  "config_ok (c\<lparr>cfg_port := p\<rparr>) = config_ok c"
  "config_ok (c\<lparr>cfg_logFile := s\<rparr>) = config_ok c"
  "config_ok (c\<lparr>cfg_sessionDir := s\<rparr>) = config_ok c"
  "config_ok (c\<lparr>cfg_configPath := s\<rparr>) = config_ok c"
  "config_ok (c\<lparr>cfg_name := s\<rparr>) = config_ok c"
  "config_ok (c\<lparr>cfg_motd := s\<rparr>) = config_ok c"
  "config_ok (c\<lparr>cfg_modHash := h\<rparr>) = config_ok c"
  "config_ok (c\<lparr>cfg_banKeys := ks\<rparr>) = config_ok c"
  by (simp_all add: config_ok_def)

lemma config_ok_set:
  "config_ok c \<Longrightarrow> config_ok (c\<lparr>cfg_maxPlayers := max 1 n\<rparr>)"
  "config_ok c \<Longrightarrow> config_ok (c\<lparr>cfg_interestUu := f32_max 0 x\<rparr>)"
  "config_ok c \<Longrightarrow> config_ok (c\<lparr>cfg_password := cut_password v\<rparr>)"
  by (simp_all add: config_ok_def f32_max_zero)

lemma parse_args_ok:
  "config_ok cfg \<Longrightarrow> parse_args cfg args = CliRun c \<Longrightarrow> config_ok c"
proof (induction "length args" arbitrary: cfg args rule: less_induct)
  case less
  have IH: "parse_args cfg' args' = CliRun c \<Longrightarrow> length args' < length args \<Longrightarrow> config_ok cfg' \<Longrightarrow> config_ok c" for cfg' args'
    using less.hyps by blast
  show ?case
  proof (cases "(cfg, args)" rule: parse_args.cases)
    case (3 cfg' a v rest)
    then show ?thesis
      using less.prems
      by (auto simp: config_ok_set simp del: parse_args.simps(1,2) split: if_splits option.splits elim!: IH)
  qed (use less.prems in \<open>auto split: if_splits\<close>)
qed

lemma config_ok_default [simp]: "config_ok default_config"
  by (simp add: config_ok_def default_config_def f32_of_int_def ieee_eval)


lemma main_config_ok:
  assumes "main_config canWrite exe args fs = (CliRun cfg, fs')"
  shows "config_ok cfg"
proof -
  have ens: "config_ok c \<Longrightarrow> config_ok (er_cfg (ensure_server_ini canWrite fs path c))" for path c
    by (cases "write_default_server_ini canWrite path fs")
      (auto simp: ensure_server_ini_def load_server_ini_def config_ok_clamp Let_def split: option.splits)
  show ?thesis
    using assms
    by (auto simp: main_config_def Let_def ens elim!: parse_args_ok [rotated] split: if_splits)
qed

subsection \<open>Sockets are opened or given back\<close>

text \<open>\<^verbatim>\<open>socket\<close> gives a descriptor that is not in use, or the invalid one.\<close>

definition fresh_sockets :: "sock_answers \<Rightarrow> sockets \<Rightarrow> bool" where
  "fresh_sockets a s \<longleftrightarrow>
     (\<forall>d. sa_socket a d = kCmpInvalidSocket \<or> so_open s (sa_socket a d) = None) \<and>
     (sa_socket a True \<noteq> sa_socket a False \<or> sa_socket a True = kCmpInvalidSocket)"

definition ready_udp :: "bool \<Rightarrow> u16 \<Rightarrow> sock_info" where
  "ready_udp reuse port = \<lparr>si_dgram = True, si_reuse = reuse, si_port = Some port, si_backlog = None, si_nonblock = True\<rparr>"

definition ready_tcp :: "bool \<Rightarrow> u16 \<Rightarrow> sock_info" where
  "ready_tcp reuse port = \<lparr>si_dgram = False, si_reuse = reuse, si_port = Some port, si_backlog = Some 16, si_nonblock = True\<rparr>"

lemmas socket_defs = udp_startup_def new_socket_def set_info_def bind_socket_def listen_socket_def
  udp_set_nonblock_def ask_reuse_def udp_close_def udp_cleanup_def close_both_def close_sockets_def

lemma open_sockets_cases:
  assumes "fresh_sockets a s"
  shows "case open_sockets a port s of
     (None, s') \<Rightarrow> s' = s
   | (Some (u, t), s') \<Rightarrow>
       u \<noteq> t \<and> so_open s' = (so_open s)(u \<mapsto> ready_udp (sa_reuse a True) port, t \<mapsto> ready_tcp (sa_reuse a False) port) \<and> close_sockets u t s' = s"
proof -
  let ?u = "sa_socket a True" and ?t = "sa_socket a False"
  have u: "?u = kCmpInvalidSocket \<or> so_open s ?u = None" and t: "?t = kCmpInvalidSocket \<or> so_open s ?t = None"
    and ne: "?u \<noteq> ?t \<or> ?u = kCmpInvalidSocket"
    using assms by (auto simp: fresh_sockets_def)
  have undo: "so_open s ?u = None \<Longrightarrow> so_open s ?t = None \<Longrightarrow> (so_open s)(?u := x, ?t := y, ?u := None, ?t := None) = so_open s"
    "so_open s ?u = None \<Longrightarrow> (so_open s)(?u := x, ?u := None) = so_open s" for x y
    by (auto simp: fun_eq_iff)
  show ?thesis
    using u t ne
    by (auto simp: open_sockets_def socket_defs Let_def ready_udp_def ready_tcp_def fun_eq_iff split: if_splits)
qed


lemma startup_cfg [simp]: "rt_cfg (startup cfg fs dir) = cfg"
  by (simp add: startup_def ServerRuntime_def Let_def)

lemma startup_session:
  "rt_world (startup cfg fs dir) = fst (load_world (prepare_session cfg dir fs) dir default_world [])"
  by (simp add: startup_def prepare_session_def ServerRuntime_def Let_def)

text \<open>
  C32: the server either runs with two sockets that are bound to the configured port and non-blocking, the stream
  socket listening, each reusable exactly where the system granted it (that it was refused is ignored), and with a
  configuration inside its bounds; or it ends and every socket it opened is closed and Winsock released, whichever of
  the calls it checks failed. The shutdown of a running server leaves no socket either.
\<close>

theorem boot_ready_or_clean:
  assumes "fresh_sockets a s"
  shows "case main_boot canWrite a exe args (fs, s) of
     (BootRun r u t, _, s') \<Rightarrow>
       u \<noteq> t \<and> so_open s' = (so_open s)(u \<mapsto> ready_udp (sa_reuse a True) (cfg_port (rt_cfg r)),
                              t \<mapsto> ready_tcp (sa_reuse a False) (cfg_port (rt_cfg r))) \<and>
       1 \<le> cfg_maxPlayers (rt_cfg r) \<and> length (cfg_password (rt_cfg r)) \<le> 15 \<and> \<not> f32_less (cfg_interestUu (rt_cfg r)) 0 \<and>
       close_sockets u t s' = s
   | (_, _, s') \<Rightarrow> s' = s"
proof -
  obtain c fs' where c: "main_config canWrite exe args fs = (c, fs')"
    by fastforce
  show ?thesis
  proof (cases c)
    case (CliRun cfg)
    with c have "config_ok cfg"
      using main_config_ok by simp
    with open_sockets_cases [OF assms, of "cfg_port cfg"] show ?thesis
      by (auto simp: main_boot_def c CliRun Let_def config_ok_def split: prod.splits option.splits)
  qed (simp_all add: main_boot_def c)
qed

definition ex_answers :: "bool \<Rightarrow> sock_answers" where
  "ex_answers b = \<lparr>sa_startup = True, sa_socket = (\<lambda>d. if d then 5 else 6), sa_reuse = (\<lambda>d. d),
     sa_bind = (\<lambda>d. d \<or> b), sa_listen = True, sa_nonblock = (\<lambda>d. True)\<rparr>"

definition no_sockets :: sockets where
  "no_sockets = \<lparr>so_wsa = 0, so_open = (\<lambda>_. None)\<rparr>"

lemma ex_fresh: "fresh_sockets (ex_answers b) no_sockets"
  by (simp add: fresh_sockets_def ex_answers_def no_sockets_def)

lemma ex_reuse: "sa_reuse (ex_answers b) d = d"
  by (simp add: ex_answers_def)

lemma boot_ready_or_clean_witness:
  "\<forall>b. case main_boot (\<lambda>_. False) (ex_answers b) ''exe'' [''--port'', ''7000''] ([], no_sockets) of
     (BootRun r u t, _, s') \<Rightarrow>
       u \<noteq> t \<and> so_open s' = (so_open no_sockets)(u \<mapsto> ready_udp True (cfg_port (rt_cfg r)), t \<mapsto> ready_tcp False (cfg_port (rt_cfg r))) \<and>
       1 \<le> cfg_maxPlayers (rt_cfg r) \<and> length (cfg_password (rt_cfg r)) \<le> 15 \<and> \<not> f32_less (cfg_interestUu (rt_cfg r)) 0 \<and>
       close_sockets u t s' = no_sockets
   | (_, _, s') \<Rightarrow> s' = no_sockets"
  by (rule allI) (rule boot_ready_or_clean [OF ex_fresh, unfolded ex_reuse])

text \<open>
  The session is cleared before the sockets are opened: a second server started with
  \<^verbatim>\<open>--reset-session\<close> while the port is taken deletes the files of the one that runs.
\<close>

lemma reset_before_bind:
  assumes "main_config canWrite exe args fs0 = (CliRun cfg, fs)" "cfg_resetSession cfg"
    and "fst (open_sockets a (cfg_port cfg) s) = None"
  shows "main_boot canWrite a exe args (fs0, s) =
     (BootExit 1, filter (\<lambda>kv. \<not> under (session_dir_of exe cfg) (fst kv)) fs, snd (open_sockets a (cfg_port cfg) s))"
  using assms by (auto simp: main_boot_def prepare_session_def Let_def split: prod.splits option.splits)

subsection \<open>Bounds of the statistics\<close>

definition percent_ok :: "f64 \<Rightarrow> bool" where
  "percent_ok x \<longleftrightarrow> \<not> f64_less x 0 \<and> \<not> f64_less (f64_of_int 100) x"

lemma percent_zero: "percent_ok 0"
  by (simp add: percent_ok_def f64_of_int_def ieee_eval)

lemma percent_hundred: "percent_ok (f64_of_int 100)"
  by (simp add: percent_ok_def f64_of_int_def ieee_eval)

lemma clamp_percent_ok: "percent_ok (clamp_percent x)"
  using percent_zero percent_hundred by (auto simp: clamp_percent_def percent_ok_def Let_def)

text \<open>The processor share that is shown is never below 0 nor above 100, whatever the clocks say.\<close>

lemma stats_percent: "percent_ok (pr_cpuPercent st) \<Longrightarrow> percent_ok (pr_cpuPercent (sample_proc_stats tms mem st))"
  by (auto simp: sample_proc_stats_def Let_def clamp_percent_ok split: option.splits prod.splits)

text \<open>Without a later sample than the last, no share is computed; after a sample there is always one to compare with.\<close>

lemma stats_first: "\<not> pr_haveSample st \<Longrightarrow> pr_cpuPercent (sample_proc_stats tms mem st) = pr_cpuPercent st"
  by (auto simp: sample_proc_stats_def Let_def split: option.splits prod.splits)

text \<open>The status is shown at most once a second, and never by a quiet server.\<close>

lemma status_quiet:
  assumes "cfg_quiet (rt_cfg r)"
  shows "snd (snd (status_turn t tms mem r act (st, lg, w))) = (lg, w)"
  using assms by (simp add: status_turn_def Let_def)

lemma status_throttled:
  assumes "\<not> f64_le kStatusBarIntervalSec (f64_sub t (sl_lastBar st))"
  shows "status_turn t tms mem r act (st, lg, w) = (False, st, lg, w)"
  using assms by (simp add: status_turn_def)

subsection \<open>Polling\<close>

text \<open>A poll changes nothing but the results, and these only when it found something.\<close>

lemma poll_keeps:
  assumes "\<And>raw t. length (snd (answer raw t)) = length raw"
  shows "map pfd_fd (snd (poll_fds answer fds ms)) = map pfd_fd fds \<and>
    map pfd_events (snd (poll_fds answer fds ms)) = map pfd_events fds \<and>
    (fst (poll_fds answer fds ms) \<le> 0 \<longrightarrow> snd (poll_fds answer fds ms) = fds)"
  using assms [of "map (\<lambda>p. p\<lparr>pfd_revents := 0\<rparr>) fds" ms]
  by (auto simp: poll_fds_def Let_def split: prod.splits intro!: nth_equalityI)

text \<open>Every packet of a blob is handed to the socket, whether or not an earlier one failed.\<close>

lemma send_blob_all:
  "map fst (send_blob sent dest ty peerId blob) =
     (case split_blob_chunks ty peerId blob of None \<Rightarrow> [] | Some ps \<Rightarrow> ps)"
  by (simp add: send_blob_def o_def split: option.split)

end
