(* ===== verification/Dump.thy ===== *)
theory Dump
  imports Crash WinConsole Config "HOL-Library.Sublist"
begin

text \<open>
  The live dump, \<^verbatim>\<open>plugin/src/dump.cpp\<close>: a report in tables of tab-separated rows, which the console
  command \<^verbatim>\<open>cmp_dump\<close> writes. What the engine answers is an argument, \<open>dump_env\<close>; a row about a form
  is written in a guarded call, and any call of the engine in it may raise an exception.
\<close>

subsection \<open>What the engine answers\<close>

text \<open>
  A form with what is read from it; \<open>None\<close> is a null pointer. \<open>df_bad\<close> is the call that raises an
  exception, if one does: 0 the extra text, 1 the id, 2 the name of the type, 3 the editor id, 4 the plugin.
\<close>

datatype dump_kind =
    KIdle "string option" "string option" "string option" "string option" "u32 option"
  | KWorld "string option" "u32 option"
  | KRace "string option" "string option" "string option" "string option" "string option"
  | KCell bool bool nat
  | KNpc bool "u32 option"
  | KMovt "string option"
  | KOther

record dump_form =
  df_id :: u32
  df_typeName :: "string option"
  df_known :: bool
  df_edid :: "string option"
  df_kind :: dump_kind
  df_display :: "string option"
  df_fullName :: string
  df_bad :: "nat option"

record plugin_file =
  pf_index :: u8
  pf_small :: u16
  pf_light :: bool
  pf_filename :: string

record script_fn =
  sf_name :: "string option"
  sf_short :: "string option"
  sf_help :: "string option"
  sf_exec :: u64

record dump_player =
  dp_id :: u32
  dp_npc :: "(u32 \<times> u32 option) option"
  dp_cell :: "(dump_form \<times> bool \<times> u32 option) option"
  dp_pos :: "f32 \<times> f32 \<times> f32"
  dp_angle :: "f32 \<times> f32 \<times> f32"
  dp_3d :: bool
  dp_location :: "dump_form option"
  dp_graph :: "string \<Rightarrow> f32 option \<times> int option \<times> bool option"
  dp_graphBad :: "nat option"
  dp_refs :: "dump_form option list"

record dump_env =
  de_crash :: crash_env
  de_fault :: exc
  de_docs :: "string option"
  de_saveFolder :: string
  de_canWrite :: bool
  de_plugin :: string
  de_pluginVersion :: string
  de_f4seVersion :: string
  de_exeVersion :: string
  de_exeBase :: u64
  de_exePath :: string
  de_ghostSource :: u32
  de_module :: "string \<Rightarrow> (u64 \<times> string \<times> string) option"
  de_rel :: "string \<Rightarrow> u64 \<times> u64 \<times> u64"
  de_data :: bool
  de_mod :: "u8 \<Rightarrow> string option"
  de_lightMod :: "u16 \<Rightarrow> string option"
  de_files :: "plugin_file option list"
  de_smallFiles :: "plugin_file option list"
  de_named :: "(string \<times> dump_form option) list option"
  de_arrays :: "(string \<times> string \<times> dump_form option list) list"
  de_console :: "script_fn list"
  de_script :: "script_fn list"
  de_player :: "dump_player option"
  de_actors :: "(dump_form option list \<times> dump_form option list) option"
  de_joined :: bool
  de_myPeerId :: u32
  de_isHost :: bool
  de_ghosts :: "(u32 \<times> (u32 \<times> bool) option) list"

subsection \<open>Fields\<close>

abbreviation tb :: string where "tb \<equiv> [CHR 0x09]"
abbreviation lf :: string where "lf \<equiv> [CHR 0x0A]"

definition flat_char :: "char \<Rightarrow> char" where
  "flat_char c = (if c = CHR 0x09 \<or> c = CHR 0x0D \<or> c = CHR 0x0A then CHR '' '' else c)"

definition Field :: "string option \<Rightarrow> string" where
  "Field raw =
     (case raw of
        None \<Rightarrow> ''-''
      | Some s \<Rightarrow> if c_str s = [] then ''-'' else map flat_char (c_str s))"

definition path_div :: "string \<Rightarrow> string \<Rightarrow> string" where
  "path_div a b = (if a = [] \<or> last a = CHR 0x5C \<or> last a = CHR ''/'' then a @ b else a @ [CHR 0x5C] @ b)"

definition DumpPath :: "dump_env \<Rightarrow> string" where
  "DumpPath e =
     (case de_docs e of
        None \<Rightarrow> []
      | Some docs \<Rightarrow> path_div (path_div docs (''My Games/'' @ de_saveFolder e @ ''/F4SE'')) ''CommonwealthMP.dump.txt'')"

definition given :: "string option \<Rightarrow> string \<Rightarrow> string" where
  "given p other = (case p of Some s \<Rightarrow> if c_str s = [] then other else c_str s | None \<Rightarrow> other)"

definition PluginName :: "dump_env \<Rightarrow> u32 \<Rightarrow> string" where
  "PluginName e formId =
     (if \<not> de_data e then ''-''
      else if drop_bit 24 formId = 0xFE then given (de_lightMod e (ucast (drop_bit 12 formId AND 0xFFF))) ''light''
      else given (de_mod e (ucast (drop_bit 24 formId))) ''-'')"

definition EditorId :: "dump_form \<Rightarrow> string" where
  "EditorId f =
     (let other = (case df_edid f of Some s \<Rightarrow> c_str s | None \<Rightarrow> [])
      in case df_kind f of
           KIdle edid _ _ _ _ \<Rightarrow> given edid other
         | KWorld edid _ \<Rightarrow> given edid other
         | KRace edid _ _ _ _ \<Rightarrow> given edid other
         | _ \<Rightarrow> other)"

definition skip_types :: "string list" where
  "skip_types =
     [''NONE'', ''TES4'', ''GRUP'', ''STAT'', ''SCOL'', ''MSTT'', ''GRAS'', ''TREE'', ''FLOR'', ''LTEX'', ''REFR'', ''ACHR'', ''PMIS'',
      ''PARW'', ''PGRE'', ''PBEA'', ''PFLA'', ''PCON'', ''PBAR'', ''PHZD'', ''LAND'', ''NAVM'', ''NAVI'', ''INFO'', ''TLOD'', ''TOFT'',
      ''RGDL'', ''RFGP'', ''LAYR'', ''SCCO'', ''NOCM'', ''LSPR'', ''OVIS'']"

definition SkipType :: "string \<Rightarrow> bool" where
  "SkipType ty = List.member skip_types ty"

definition num :: "nat \<Rightarrow> string" where "num n = dec_str n"

definition flag :: "bool \<Rightarrow> string" where "flag b = (if b then ''1'' else ''0'')"

definition or_null :: "string option \<Rightarrow> string" where
  "or_null p = (case p of Some s \<Rightarrow> c_str s | None \<Rightarrow> ''-'')"

definition id_or_0 :: "u32 option \<Rightarrow> u32" where
  "id_or_0 p = (case p of Some i \<Rightarrow> i | None \<Rightarrow> 0)"

text \<open>Printed into a buffer of 512 bytes.\<close>

definition buf512 :: "string \<Rightarrow> string" where
  "buf512 s = Field (Some (take 511 s))"

definition ExtraFor :: "dump_form \<Rightarrow> string" where
  "ExtraFor f =
     (case df_kind f of
        KIdle _ graph event file parent \<Rightarrow>
          buf512 (''graph='' @ or_null graph @ '' event='' @ or_null event @ '' file='' @ or_null file @
            '' parent='' @ hex8_up (id_or_0 parent))
      | KWorld _ parent \<Rightarrow> buf512 (''parent='' @ hex8_up (id_or_0 parent))
      | KRace _ graph0 graph1 project0 project1 \<Rightarrow>
          buf512 (''graph0='' @ or_null graph0 @ '' graph1='' @ or_null graph1 @ '' project0='' @ or_null project0 @
            '' project1='' @ or_null project1)
      | KCell interior attached st \<Rightarrow>
          buf512 (''interior='' @ flag interior @ '' attached='' @ flag attached @ '' state='' @ num st)
      | KNpc unique race \<Rightarrow> buf512 (''unique='' @ flag unique @ '' race='' @ hex8_up (id_or_0 race))
      | KMovt name \<Rightarrow> Field name
      | KOther \<Rightarrow> [])"

subsection \<open>Rows in guarded calls\<close>

text \<open>
  A row is what is sent to the stream, in this order; \<open>None\<close> is the call that raises an exception, and
  what stood before it has been written.
\<close>

fun stream_run :: "string option list \<Rightarrow> string \<times> bool" where
  "stream_run [] = ([], True)"
| "stream_run (None # ps) = ([], False)"
| "stream_run (Some p # ps) = (case stream_run ps of (t, ok) \<Rightarrow> (p @ t, ok))"

definition ask :: "nat option \<Rightarrow> nat \<Rightarrow> string \<Rightarrow> string option" where
  "ask bad k s = (if bad = Some k then None else Some s)"

definition WriteFormRow :: "dump_env \<Rightarrow> dump_form \<Rightarrow> string \<Rightarrow> string option list" where
  "WriteFormRow e f extra =
     [ask (df_bad f) 1 (hex8_up (df_id f)),
      Some tb, ask (df_bad f) 2 (Field (df_typeName f)),
      Some tb, ask (df_bad f) 3 (Field (Some (EditorId f))),
      Some tb, ask (df_bad f) 4 (Field (Some (PluginName e (df_id f)))),
      Some tb, Some ''-'',
      Some (if extra = [] then [] else tb @ extra),
      Some lf]"

definition WriteFormRowSeh :: "dump_env \<Rightarrow> dump_form option \<Rightarrow> string option list" where
  "WriteFormRowSeh e form =
     (case form of
        None \<Rightarrow> []
      | Some f \<Rightarrow> ask (df_bad f) 0 [] # WriteFormRow e f (ExtraFor f))"

definition WriteNamedSeh :: "dump_env \<Rightarrow> dump_form \<Rightarrow> string \<Rightarrow> string option list" where
  "WriteNamedSeh e f edid =
     [ask (df_bad f) 2 [], ask (df_bad f) 1 (hex8_up (df_id f)),
      Some (tb @ Field (if df_known f then df_typeName f else Some ''-'') @ tb @ Field (Some edid) @ tb),
      ask (df_bad f) 4 (Field (Some (PluginName e (df_id f)))),
      Some (tb @ ''-'' @ lf)]"

type_synonym dump = "string \<times> crash"

definition put :: "string \<Rightarrow> dump \<Rightarrow> dump" where
  "put t d = (fst d @ t, snd d)"

definition guarded :: "dump_env \<Rightarrow> string \<Rightarrow> string option list \<Rightarrow> dump \<Rightarrow> dump" where
  "guarded e what ps d =
     (case stream_run ps of (t, ok) \<Rightarrow>
        (fst d @ t, snd (CMP_SehCall (de_crash e) what (Some (\<lambda>c. (c, if ok then None else Some (de_fault e)))) (snd d))))"

fun form_rows :: "dump_env \<Rightarrow> string \<Rightarrow> dump_form option list \<Rightarrow> dump \<Rightarrow> dump" where
  "form_rows e what [] d = d"
| "form_rows e what (f # fs) d = form_rows e what fs (guarded e what (WriteFormRowSeh e f) d)"

fun named_rows :: "dump_env \<Rightarrow> (string \<times> dump_form option) list \<Rightarrow> dump \<Rightarrow> dump" where
  "named_rows e [] d = d"
| "named_rows e ((edid, None) # fs) d = named_rows e fs d"
| "named_rows e ((edid, Some f) # fs) d = named_rows e fs (guarded e ''named_form'' (WriteNamedSeh e f edid) d)"

text \<open>A handle that leads to no actor is passed over.\<close>

definition DumpActors :: "dump_env \<Rightarrow> string \<Rightarrow> dump_form option list \<Rightarrow> dump \<Rightarrow> dump" where
  "DumpActors e label handles d =
     form_rows e ''dump_actor'' (filter (\<lambda>h. h \<noteq> None) handles)
       (put (''# '' @ label @ '' count='' @ num (length handles) @ lf @ ''formid'' @ tb @ ''type'' @ tb @ ''edid'' @ tb @ ''plugin'' @ tb @
             ''name'' @ tb @ ''base'' @ tb @ ''cell'' @ tb @ ''3d'' @ tb @ ''x'' @ tb @ ''y'' @ tb @ ''z'' @ lf) d)"

subsection \<open>The other tables\<close>

definition hex_u64 :: "u64 \<Rightarrow> string" where "hex_u64 v = hex_up (unat v)"

definition WriteRel :: "dump_env \<Rightarrow> string \<Rightarrow> string" where
  "WriteRel e name =
     (case de_rel e name of (i, rva, va) \<Rightarrow>
        if i = 0 then name @ tb @ ''0'' @ tb @ ''-'' @ tb @ ''-'' @ lf
        else name @ tb @ num (unat i) @ tb @ hex_u64 rva @ tb @ hex_u64 va @ lf)"

definition file_name :: "string \<Rightarrow> string" where
  "file_name s = rev (takeWhile (\<lambda>ch. ch \<noteq> CHR 0x5C \<and> ch \<noteq> CHR ''/'') (rev s))"

definition WriteModule :: "dump_env \<Rightarrow> string \<Rightarrow> string" where
  "WriteModule e name =
     (case de_module e name of
        None \<Rightarrow> name @ tb @ ''-'' @ tb @ ''-'' @ tb @ ''-'' @ lf
      | Some (base, version, file) \<Rightarrow>
          Field (Some (file_name file)) @ tb @ hex_u64 base @ tb @ Field (Some version) @ tb @ Field (Some file) @ lf)"

definition graph_names :: "string list" where
  "graph_names =
     [''Speed'', ''SpeedSampled'', ''Direction'', ''TurnDelta'', ''Pitch'', ''IsSprinting'', ''IsSneaking'', ''IsFirstPerson'',
      ''IsBlocking'', ''IsRecoiling'', ''IsStaggering'', ''IsAttacking'', ''IsAttackReady'', ''IsEquipping'', ''IsUnequipping'',
      ''IsInJumpState'', ''bInJumpState'', ''bWantGait'', ''bForceIdleStop'', ''bMotionDriven'', ''bAnimationDriven'',
      ''bAllowRotation'', ''iSyncSprintState'', ''iSyncIdleLocomotion'', ''iState'', ''iWantGait'', ''iRightHandType'',
      ''iLeftHandType'', ''weaponSpeedMult'', ''WeaponSpeedMult'', ''AimHeadingMax'', ''AimPitchMax'', ''EquippedWeaponType'']"

definition show_int :: "int \<Rightarrow> string" where
  "show_int i = (if i < 0 then CHR ''-'' # dec_str (nat (- i)) else dec_str (nat i))"

definition graph_row :: "string \<Rightarrow> f32 option \<times> int option \<times> bool option \<Rightarrow> string" where
  "graph_row name v =
     (case v of (f, i, b) \<Rightarrow>
        if f = None \<and> i = None \<and> b = None then name @ tb @ ''missing'' @ lf
        else name @ tb @
          (case f of Some x \<Rightarrow> ''f='' @ show_f32 x | None \<Rightarrow> []) @
          (case i of Some n \<Rightarrow> (if f \<noteq> None then '' '' else []) @ ''i='' @ show_int n | None \<Rightarrow> []) @
          (case b of Some x \<Rightarrow> (if f \<noteq> None \<or> i \<noteq> None then '' '' else []) @ ''b='' @ flag x | None \<Rightarrow> []) @ lf)"

text \<open>\<open>bad\<close> is the number of the variable whose read raises an exception.\<close>

definition WriteGraphVars :: "(string \<Rightarrow> f32 option \<times> int option \<times> bool option) \<Rightarrow> nat option \<Rightarrow> string option list" where
  "WriteGraphVars graph bad = map (\<lambda>k. ask bad k (graph_row (graph_names ! k) (graph (graph_names ! k)))) [0..<length graph_names]"

definition file_row :: "plugin_file \<Rightarrow> string" where
  "file_row f = num (unat (pf_index f)) @ tb @ num (unat (pf_small f)) @ tb @ flag (pf_light f) @ tb @ Field (Some (pf_filename f)) @ lf"

definition file_rows :: "plugin_file option list \<Rightarrow> string" where
  "file_rows fs = concat (map (\<lambda>f. case f of None \<Rightarrow> [] | Some p \<Rightarrow> file_row p) fs)"

definition named_fn :: "script_fn \<Rightarrow> bool" where
  "named_fn f = (case sf_name f of None \<Rightarrow> False | Some n \<Rightarrow> c_str n \<noteq> [])"

definition console_row :: "u64 \<Rightarrow> script_fn \<Rightarrow> string" where
  "console_row base f =
     Field (sf_name f) @ tb @ Field (sf_short f) @ tb @ Field (sf_help f) @ tb @
     (if sf_exec f \<noteq> 0 \<and> base \<le> sf_exec f then hex_u64 (sf_exec f - base) else ''-'') @ lf"

definition script_row :: "script_fn \<Rightarrow> string" where
  "script_row f = Field (sf_name f) @ tb @ Field (sf_short f) @ lf"

subsection \<open>The sections\<close>

definition section_line :: "string \<Rightarrow> string" where
  "section_line name = lf @ ''## '' @ name @ lf"

definition head_text :: string where
  "head_text =
     ''# CommonwealthMP live dump. TSV. Copy this file into the repo as data/dumps/live.txt'' @ lf @ ''# For research'' @ lf"

definition runtime_text :: "dump_env \<Rightarrow> string" where
  "runtime_text e =
     section_line ''runtime'' @
     ''plugin'' @ tb @ Field (Some (de_plugin e)) @ tb @ Field (Some (de_pluginVersion e)) @ lf @
     ''f4se'' @ tb @ Field (Some (de_f4seVersion e)) @ lf @
     ''save_folder'' @ tb @ Field (Some (de_saveFolder e)) @ lf @
     ''exe_version'' @ tb @ Field (Some (de_exeVersion e)) @ lf @
     ''exe_base'' @ tb @ hex_u64 (de_exeBase e) @ lf @
     ''exe_path'' @ tb @ Field (Some (de_exePath e)) @ lf @
     ''ghost_source'' @ tb @ hex8_up (de_ghostSource e) @ lf @
     ''commonwealth_worldspace'' @ tb @ hex8_up kCommonwealthWorldspace @ lf"

definition module_names :: "string list" where
  "module_names =
     [''Fallout4.exe'', ''CommonwealthMP.dll'', ''f4se_1_11_137.dll'', ''f4se_1_10_163.dll'', ''steam_api64.dll'', ''version.dll'']"

definition rel_names :: "string list" where
  "rel_names =
     [''TESDataHandler::Singleton'', ''TESDataHandler::CreateReferenceAtLocation'', ''TESForm::AllForms'',
      ''TESForm::AllFormsByEditorID'', ''TESForm::GetFile'', ''TESForm::GetFormEnumString'', ''PlayerCharacter::Singleton'',
      ''ProcessLists::Singleton'', ''ActorEquipManager::Singleton'', ''ActorEquipManager::EquipObject'',
      ''SCRIPT_FUNCTION::ConsoleFunctions'', ''SCRIPT_FUNCTION::ScriptFunctions'', ''TESObjectREFR::GetCurrentLocation'',
      ''TESObjectREFR::SetLocationOnReference'', ''IAnimationGraphManagerHolder::SetGraphVariableFloat'',
      ''IAnimationGraphManagerHolder::SetGraphVariableBool'', ''IAnimationGraphManagerHolder::SetGraphVariableInt'',
      ''Actor::GetDesiredSpeed'', ''Actor::IsSneaking'', ''Actor::IsJumping'', ''Actor::UpdateSprinting'', ''Actor::SetHeading'',
      ''Actor::Move'']"

definition modules_text :: "dump_env \<Rightarrow> string" where
  "modules_text e =
     section_line ''modules'' @ ''name'' @ tb @ ''base'' @ tb @ ''version'' @ tb @ ''path'' @ lf @
     concat (map (WriteModule e) module_names) @
     section_line ''rel'' @ ''name'' @ tb @ ''id'' @ tb @ ''rva'' @ tb @ ''va'' @ lf @
     concat (map (WriteRel e) rel_names)"

definition plugins_text :: "dump_env \<Rightarrow> string" where
  "plugins_text e =
     section_line ''plugins'' @ ''index'' @ tb @ ''small'' @ tb @ ''light'' @ tb @ ''filename'' @ lf @
     (if de_data e then file_rows (de_files e) @ file_rows (de_smallFiles e) else ''# TESDataHandler missing'' @ lf) @
     section_line ''form_counts'' @ ''type'' @ tb @ ''count'' @ lf @
     (if de_data e
      then concat (map (\<lambda>(_, typeName, forms). Field (Some typeName) @ tb @ num (length forms) @ lf) (de_arrays e))
      else [])"

definition form_columns :: "string list" where
  "form_columns = [''formid'', ''type'', ''edid'', ''plugin'', ''name'']"

definition columns :: "string list \<Rightarrow> string" where
  "columns cs = (case cs of [] \<Rightarrow> lf | c # ds \<Rightarrow> c @ concat (map (\<lambda>d. tb @ d) ds) @ lf)"

definition named_section :: "dump_env \<Rightarrow> dump \<Rightarrow> dump" where
  "named_section e d =
     (let d1 = put (section_line ''named_forms'' @ columns form_columns) d
      in case de_named e of
           None \<Rightarrow> put (''# AllFormsByEditorID missing'' @ lf) d1
         | Some fs \<Rightarrow> named_rows e fs d1)"

definition array_head :: "string \<Rightarrow> nat \<Rightarrow> string" where
  "array_head typeName n = section_line (''forms_'' @ Field (Some typeName) @ '' count='' @ num n) @ columns (form_columns @ [''extra''])"

fun array_sections :: "dump_env \<Rightarrow> (string \<times> string \<times> dump_form option list) list \<Rightarrow> dump \<Rightarrow> dump" where
  "array_sections e [] d = d"
| "array_sections e ((ty, typeName, forms) # rest) d =
     (if SkipType ty then array_sections e rest d
      else array_sections e rest
        (form_rows e ''form_row'' forms
          (put (array_head typeName (length forms)) d)))"

definition functions_text :: "dump_env \<Rightarrow> string" where
  "functions_text e =
     section_line ''console'' @ columns [''name'', ''short'', ''help'', ''exec_rva''] @
     concat (map (console_row (de_exeBase e)) (filter named_fn (de_console e))) @
     section_line ''script'' @ columns [''name'', ''short''] @
     concat (map script_row (filter named_fn (de_script e)))"

text \<open>At most 2500 references of the cell, and none behind a null pointer.\<close>

fun cell_refs :: "dump_env \<Rightarrow> nat \<Rightarrow> dump_form option list \<Rightarrow> dump \<Rightarrow> nat \<times> dump" where
  "cell_refs e n (Some f # fs) d =
     (if n \<ge> 2500 then (n, d) else cell_refs e (n + 1) fs (guarded e ''cell_ref'' (WriteFormRowSeh e (Some f)) d))"
| "cell_refs e n _ d = (n, d)"

definition DisplayName :: "dump_form \<Rightarrow> string" where
  "DisplayName f = given (df_display f) (df_fullName f)"

definition xyz :: "f32 \<times> f32 \<times> f32 \<Rightarrow> string" where
  "xyz v = (case v of (x, y, z) \<Rightarrow> show_f32 x @ tb @ show_f32 y @ tb @ show_f32 z)"

definition is_interior :: "dump_form \<times> bool \<times> u32 option \<Rightarrow> bool" where
  "is_interior c = fst (snd c)"

definition player_text :: "dump_player \<Rightarrow> string" where
  "player_text p =
     ''formid'' @ tb @ hex8_up (dp_id p) @ lf @
     ''base'' @ tb @ hex8_up (case dp_npc p of Some (i, _) \<Rightarrow> i | None \<Rightarrow> 0) @ lf @
     ''race'' @ tb @ hex8_up (case dp_npc p of Some (_, Some r) \<Rightarrow> r | _ \<Rightarrow> 0) @ lf @
     ''cell'' @ tb @ hex8_up (case dp_cell p of Some (c, _) \<Rightarrow> df_id c | None \<Rightarrow> 0) @ tb @
       Field (Some (case dp_cell p of Some (c, _) \<Rightarrow> EditorId c | None \<Rightarrow> [])) @ tb @
       (case dp_cell p of Some c \<Rightarrow> if is_interior c then ''interior'' else ''exterior'' | None \<Rightarrow> ''exterior'') @ lf @
     ''worldspace'' @ tb @
       hex8_up (case dp_cell p of Some (_, False, Some w) \<Rightarrow> w | _ \<Rightarrow> 0) @ lf @
     ''xyz'' @ tb @ xyz (dp_pos p) @ lf @
     ''angle'' @ tb @ xyz (dp_angle p) @ lf @
     ''3d'' @ tb @ flag (dp_3d p) @ lf @
     (case dp_location p of
        None \<Rightarrow> []
      | Some l \<Rightarrow> ''location'' @ tb @ hex8_up (df_id l) @ tb @ Field (Some (EditorId l)) @ tb @ Field (Some (DisplayName l)) @ lf)"

definition player_section :: "dump_env \<Rightarrow> dump \<Rightarrow> dump" where
  "player_section e d =
     (let d1 = put (section_line ''player'') d
      in case de_player e of
           None \<Rightarrow> put (''# no PlayerCharacter'' @ lf) d1
         | Some p \<Rightarrow>
             (let d2 = put (player_text p @ section_line ''player_graph'' @ columns [''name'', ''value'']) d1;
                  d3 = guarded e ''player_graph'' (WriteGraphVars (dp_graph p) (dp_graphBad p)) d2
              in if dp_cell p = None then d3
                 else case cell_refs e 0 (dp_refs p)
                        (put (section_line ''player_cell_refs'' @ columns (form_columns @ [''extra''])) d3) of
                        (n, d4) \<Rightarrow> put (''# player_cell_refs_written='' @ num n @ lf) d4))"

definition actors_section :: "dump_env \<Rightarrow> dump \<Rightarrow> dump" where
  "actors_section e d =
     (case de_actors e of
        None \<Rightarrow> d
      | Some (high, middle) \<Rightarrow>
          DumpActors e ''middleHigh'' middle (put (section_line ''actors_middle_high'')
            (DumpActors e ''high'' high (put (section_line ''actors_high'') d))))"

definition ghost_row :: "u32 \<times> (u32 \<times> bool) option \<Rightarrow> string" where
  "ghost_row g =
     ''peer='' @ num (unat (fst g)) @ tb @
     (case snd g of None \<Rightarrow> ''missing'' @ lf | Some (i, has3d) \<Rightarrow> hex8_up i @ tb @ (if has3d then ''3d'' else ''no3d'') @ lf)"

definition ghosts_text :: "dump_env \<Rightarrow> string" where
  "ghosts_text e =
     section_line ''ghosts'' @
     ''joined='' @ flag (de_joined e) @ '' peer='' @ num (unat (de_myPeerId e)) @ '' host='' @ flag (de_isHost e) @
     '' ghosts='' @ num (length (de_ghosts e)) @ lf @
     concat (map ghost_row (de_ghosts e))"

definition dump_sections :: "dump_env \<Rightarrow> dump \<Rightarrow> dump" where
  "dump_sections e d =
     (let d1 = put (head_text @ runtime_text e @ modules_text e @ plugins_text e) d;
          d2 = named_section e d1;
          d3 = (if de_data e then array_sections e (de_arrays e) d2 else d2);
          d4 = put (functions_text e) d3;
          d5 = player_section e d4;
          d6 = actors_section e d5
      in put (ghosts_text e) d6)"

text \<open>The path, the file written there, and the state of the crash handler.\<close>

definition CMP_DumpLive :: "dump_env \<Rightarrow> crash \<Rightarrow> string \<times> string option \<times> crash" where
  "CMP_DumpLive e c =
     (let c1 = CMP_CrashNote ''cmp_dump'' c;
          path = DumpPath e
      in if path = [] then ([], None, c1)
         else if \<not> de_canWrite e then ([], None, c1)
         else case dump_sections e ([], c1) of (text, c2) \<Rightarrow> (path, Some text, c2))"


subsection \<open>Fields are clean\<close>

definition clean_cell :: "string \<Rightarrow> bool" where
  "clean_cell s \<longleftrightarrow> s \<noteq> [] \<and> CHR 0x09 \<notin> set s \<and> CHR 0x0A \<notin> set s"

lemma flat_char_clean [simp]: "flat_char c \<noteq> CHR 0x09" "flat_char c \<noteq> CHR 0x0A"
  by (auto simp: flat_char_def)

lemma Field_clean [simp]: "clean_cell (Field raw)"
proof (cases "raw = None \<or> c_str (the raw) = []")
  case True
  then have "Field raw = ''-''" by (auto simp: Field_def split: option.split)
  then show ?thesis by (simp add: clean_cell_def)
next
  case False
  then have "Field raw = map flat_char (c_str (the raw))" "c_str (the raw) \<noteq> []"
    by (auto simp: Field_def)
  moreover have "CHR 0x09 \<notin> flat_char ` A" "CHR 0x0A \<notin> flat_char ` A" for A
    using flat_char_clean by (metis imageE)+
  ultimately show ?thesis by (simp add: clean_cell_def)
qed

lemma hex8_clean [simp]: "clean_cell (hex8_up w)"
proof -
  have "list_all key_char (hex8_up w)" "length (hex8_up w) = 8"
    by (simp_all add: hex8_up_ok)
  moreover have "\<not> key_char (CHR 0x09)" "\<not> key_char (CHR 0x0A)"
    by (simp_all add: key_char_def c_isalnum_def c_isalpha_def is_digit_def)
  ultimately show ?thesis
    by (auto simp: clean_cell_def list_all_iff)
qed

lemma xdigit_hex: "n < 16 \<Longrightarrow> xdigit_val (hex_digit_up n) = n"
  by (auto simp: xdigit_val_def hex_digit_up_def is_digit_def digit_val_def c_tolower_def)

lemma hex_val_hex8: "hex_val (hex8_up w) = unat w"
proof -
  let ?n = "unat w"
  have lt: "?n < 4294967296" using unsigned_less [of w, where ?'a = nat] by simp
  have d: "unat (drop_bit k w) = ?n div 2 ^ k" for k
    by (rule trans [OF unat_drop_bit_eq drop_bit_eq_div])
  have step: "16 * (?n div (k * 16)) + ?n div k mod 16 = ?n div k" for k
    by (simp add: div_mult2_eq)
  have "hex_val (hex8_up w) =
     16 * (16 * (16 * (16 * (16 * (16 * (16 * (?n div 268435456 mod 16) + ?n div 16777216 mod 16) + ?n div 1048576 mod 16) +
       ?n div 65536 mod 16) + ?n div 4096 mod 16) + ?n div 256 mod 16) + ?n div 16 mod 16) + ?n mod 16"
    by (simp add: hex_val_def hex8_up_def upt_rec xdigit_hex d)
  also have "?n div 268435456 mod 16 = ?n div 268435456"
    using lt by simp
  also have "16 * (?n div 268435456) + ?n div 16777216 mod 16 = ?n div 16777216"
    using step [of 16777216] by simp
  also have "16 * (?n div 16777216) + ?n div 1048576 mod 16 = ?n div 1048576"
    using step [of 1048576] by simp
  also have "16 * (?n div 1048576) + ?n div 65536 mod 16 = ?n div 65536"
    using step [of 65536] by simp
  also have "16 * (?n div 65536) + ?n div 4096 mod 16 = ?n div 4096"
    using step [of 4096] by simp
  also have "16 * (?n div 4096) + ?n div 256 mod 16 = ?n div 256"
    using step [of 256] by simp
  also have "16 * (?n div 256) + ?n div 16 mod 16 = ?n div 16"
    using step [of 16] by simp
  also have "16 * (?n div 16) + ?n mod 16 = ?n"
    by simp
  finally show ?thesis .
qed


subsection \<open>Tables read back\<close>

text \<open>What a row is to say about a form, cell by cell.\<close>

definition row_cells :: "dump_env \<Rightarrow> dump_form \<Rightarrow> string list" where
  "row_cells e f =
     [hex8_up (df_id f), Field (df_typeName f), Field (Some (EditorId f)), Field (Some (PluginName e (df_id f))), ''-''] @
     (if ExtraFor f = [] then [] else [ExtraFor f])"

fun join_tabs :: "string list \<Rightarrow> string" where
  "join_tabs [] = []"
| "join_tabs [c] = c"
| "join_tabs (c # d # cs) = c @ tb @ join_tabs (d # cs)"

definition read_table :: "string \<Rightarrow> string list list" where
  "read_table t = map (split_at_char (CHR 0x09)) (text_lines t)"

lemma ExtraFor_clean: "ExtraFor f = [] \<or> clean_cell (ExtraFor f)"
  by (simp add: ExtraFor_def buf512_def split: dump_kind.split)

lemma row_cells_clean: "list_all clean_cell (row_cells e f)"
  using ExtraFor_clean [of f] by (auto simp: row_cells_def) (simp_all add: clean_cell_def)

lemma split_join_tabs: "cs \<noteq> [] \<Longrightarrow> list_all clean_cell cs \<Longrightarrow> split_at_char (CHR 0x09) (join_tabs cs) = cs"
  by (induction cs rule: join_tabs.induct) (auto simp: clean_cell_def split_absent split_first)

lemma join_tabs_no_lf: "list_all clean_cell cs \<Longrightarrow> CHR 0x0A \<notin> set (join_tabs cs)"
  by (induction cs rule: join_tabs.induct) (auto simp: clean_cell_def)

lemma text_lines_cons: "CHR 0x0A \<notin> set l \<Longrightarrow> text_lines (l @ CHR 0x0A # r) = l # text_lines r"
  by (subst text_lines.simps) (auto simp: takeWhile_append dropWhile_append)

lemma read_table_nil [simp]: "read_table [] = []"
  by (simp add: read_table_def text_lines.simps)

lemma read_table_row:
  assumes "cs \<noteq> []" "list_all clean_cell cs"
  shows "read_table (join_tabs cs @ lf @ t) = cs # read_table t"
  using assms by (simp add: read_table_def text_lines_cons join_tabs_no_lf split_join_tabs)

lemma guarded_text: "fst (guarded e what ps d) = fst d @ fst (stream_run ps)"
  by (simp add: guarded_def split: prod.split)

definition row_text :: "dump_env \<Rightarrow> dump_form option \<Rightarrow> string" where
  "row_text e f = fst (stream_run (WriteFormRowSeh e f))"

lemma form_rows_text: "fst (form_rows e what fs d) = fst d @ concat (map (row_text e) fs)"
  by (induction fs arbitrary: d) (simp_all add: guarded_text row_text_def)

text \<open>How far the row of a form gets: the number of its first cells that are written, or all and the line end.\<close>

datatype row_reach = CutAfter nat | Whole

definition reach :: "dump_form \<Rightarrow> row_reach" where
  "reach f = (case df_bad f of None \<Rightarrow> Whole | Some k \<Rightarrow> if 5 \<le> k then Whole else CutAfter (k - 1))"

text \<open>
  What the rows of an array are to say, \<open>pre\<close> the cells in the line that is open: a row that is cut leaves
  its cells in it, and the next one that writes anything goes on there.
\<close>

fun table_rows :: "dump_env \<Rightarrow> string list \<Rightarrow> dump_form option list \<Rightarrow> string list list" where
  "table_rows e pre [] = (if pre = [] then [] else [pre @ [[]]])"
| "table_rows e pre (None # fs) = table_rows e pre fs"
| "table_rows e pre (Some f # fs) =
     (case reach f of
        Whole \<Rightarrow> (pre @ row_cells e f) # table_rows e [] fs
      | CutAfter n \<Rightarrow> table_rows e (pre @ take n (row_cells e f)) fs)"

definition whole_forms :: "dump_form option list \<Rightarrow> dump_form list" where
  "whole_forms fs = concat (map (\<lambda>h. case h of None \<Rightarrow> [] | Some f \<Rightarrow> if reach f = Whole then [f] else []) fs)"

text \<open>No form whose row is cut after its number.\<close>

definition none_torn :: "dump_form option list \<Rightarrow> bool" where
  "none_torn fs \<longleftrightarrow> list_all (\<lambda>h. case h of None \<Rightarrow> True | Some f \<Rightarrow> reach f \<in> {Whole, CutAfter 0}) fs"

definition open_line :: "string list \<Rightarrow> string" where
  "open_line cs = concat (map (\<lambda>c. c @ tb) cs)"

lemma whole_row: "reach f = Whole \<Longrightarrow> row_text e (Some f) = join_tabs (row_cells e f) @ lf"
  by (auto simp: row_text_def reach_def WriteFormRowSeh_def WriteFormRow_def ask_def row_cells_def split: option.splits if_splits)

lemma cut_row:
  assumes "reach f = CutAfter n"
  shows "row_text e (Some f) = open_line (take n (row_cells e f))"
proof -
  obtain k where k: "df_bad f = Some k" "k < 5" "n = k - 1"
    using assms by (auto simp: reach_def split: option.splits if_splits)
  then have "k \<in> {0, 1, 2, 3, 4}"
    by auto
  with k show ?thesis
    by (auto simp: row_text_def WriteFormRowSeh_def WriteFormRow_def ask_def row_cells_def open_line_def numeral_eq_Suc)
qed

lemma split_open_line:
  "list_all clean_cell pre \<Longrightarrow> split_at_char (CHR 0x09) (open_line pre @ t) = pre @ split_at_char (CHR 0x09) t"
  by (induction pre) (auto simp: open_line_def clean_cell_def split_first)

lemma open_line_no_lf: "list_all clean_cell pre \<Longrightarrow> CHR 0x0A \<notin> set (open_line pre)"
  by (auto simp: open_line_def clean_cell_def list_all_iff)

lemma text_lines_last:
  assumes "l \<noteq> []" "CHR 0x0A \<notin> set l"
  shows "text_lines l = [l]"
proof -
  have nil: "text_lines [] = []"
    by (subst text_lines.simps) simp
  have t: "takeWhile (\<lambda>c. c \<noteq> CHR 0x0A) l = l"
    by (subst takeWhile_eq_all_conv) (use assms(2) in auto)
  have d: "dropWhile (\<lambda>c. c \<noteq> CHR 0x0A) l = []"
    by (subst dropWhile_eq_Nil_conv) (use assms(2) in auto)
  show ?thesis
    unfolding text_lines.simps [of l] t d using assms(1) nil by simp
qed

lemma open_line_simps: "open_line [] = []" "open_line (pre @ cs) = open_line pre @ open_line cs"
  by (simp_all add: open_line_def)

lemma read_open_line:
  assumes "list_all clean_cell pre"
  shows "read_table (open_line pre) = (if pre = [] then [] else [pre @ [[]]])"
proof (cases "pre = []")
  case False
  then have "open_line pre \<noteq> []"
    by (cases pre) (simp_all add: open_line_def)
  then show ?thesis
    using False split_open_line [OF assms, of "[]"] by (simp add: read_table_def text_lines_last open_line_no_lf assms)
qed (simp add: open_line_simps)

lemma read_whole_row:
  assumes "list_all clean_cell pre"
  shows "read_table (open_line pre @ join_tabs (row_cells e f) @ lf @ t) = (pre @ row_cells e f) # read_table t"
proof -
  have clean: "list_all clean_cell (row_cells e f)" "row_cells e f \<noteq> []"
    by (rule row_cells_clean) (simp add: row_cells_def)
  have "CHR 0x0A \<notin> set (open_line pre @ join_tabs (row_cells e f))"
    using assms clean(1) by (simp add: open_line_no_lf join_tabs_no_lf)
  from text_lines_cons [OF this, of t] show ?thesis
    using assms clean by (simp add: read_table_def split_open_line split_join_tabs)
qed

lemma read_rows:
  "list_all clean_cell pre \<Longrightarrow> read_table (open_line pre @ concat (map (row_text e) fs)) = table_rows e pre fs"
proof (induction fs arbitrary: pre)
  case Nil
  then show ?case
    by (simp add: read_open_line)
next
  case (Cons h fs)
  show ?case
  proof (cases h)
    case None
    then show ?thesis
      using Cons by (simp add: row_text_def WriteFormRowSeh_def)
  next
    case (Some f)
    have torn: "list_all clean_cell (pre @ take n (row_cells e f))" for n
      using Cons.prems row_cells_clean [of e f] by (auto simp: list_all_iff dest: in_set_takeD)
    show ?thesis
      using Cons.IH [of "[]"] Cons.IH [OF torn] read_whole_row [OF Cons.prems]
      by (cases "reach f") (simp_all add: Some whole_row cut_row open_line_simps)
  qed
qed

lemma untorn_rows: "none_torn fs \<Longrightarrow> table_rows e [] fs = map (row_cells e) (whole_forms fs)"
proof (induction fs)
  case (Cons h fs)
  then show ?case
    by (cases h) (auto simp: none_torn_def whole_forms_def)
qed (simp add: whole_forms_def)

text \<open>Every form that is read to its end is at the end of a row, in order; only a cut row may follow.\<close>

lemma whole_at_row_ends:
  "list_all2 (\<lambda>f r. suffix (row_cells e f) r) (whole_forms fs) (take (length (whole_forms fs)) (table_rows e pre fs)) \<and>
   length (table_rows e pre fs) \<le> length (whole_forms fs) + 1"
proof (induction e pre fs rule: table_rows.induct)
  case (3 e pre f fs)
  then show ?case
    by (cases "reach f") (auto simp: whole_forms_def suffix_def)
qed (auto simp: whole_forms_def)

text \<open>Every section is put behind what is there.\<close>

definition appends :: "(dump \<Rightarrow> dump) \<Rightarrow> bool" where
  "appends h \<longleftrightarrow> (\<forall>d. prefix (fst d) (fst (h d)))"

lemma appendsD: "appends h \<Longrightarrow> prefix p (fst d) \<Longrightarrow> prefix p (fst (h d))"
  unfolding appends_def using prefix_order.trans by blast

lemma appends_put: "appends (put t)"
  by (simp add: appends_def put_def)

lemma put_prefix: "prefix p (fst d) \<Longrightarrow> prefix p (fst (put t d))"
  by (auto simp: put_def prefix_def)

lemma appends_form_rows: "appends (form_rows e what fs)"
  by (simp add: appends_def form_rows_text)

lemma named_rows_prefix: "prefix (fst d) (fst (named_rows e fs d))"
proof (induction e fs d rule: named_rows.induct)
  case (3 e edid f fs d)
  then show ?case
    by (auto simp: guarded_text dest: append_prefixD)
qed simp_all

lemma cell_refs_prefix: "prefix (fst d) (fst (snd (cell_refs e n fs d)))"
proof (induction e n fs d rule: cell_refs.induct)
  case (1 e n f fs d)
  then show ?case
    by (auto simp: guarded_text dest: append_prefixD)
qed simp_all

lemma appends_named: "appends (named_section e)"
  using named_rows_prefix
  by (auto simp: appends_def named_section_def Let_def put_def split: option.split dest: append_prefixD) (metis append_prefixD fst_conv)

lemma appends_player: "appends (player_section e)"
proof -
  have "prefix (fst d) (fst (player_section e d))" for d
  proof (cases "de_player e")
    case (Some p)
    let ?d2 = "put (player_text p @ section_line ''player_graph'' @ columns [''name'', ''value'']) (put (section_line ''player'') d)"
    let ?d3 = "guarded e ''player_graph'' (WriteGraphVars (dp_graph p) (dp_graphBad p)) ?d2"
    let ?d4 = "put (section_line ''player_cell_refs'' @ columns (form_columns @ [''extra''])) ?d3"
    have 3: "prefix (fst d) (fst ?d3)" by (simp add: guarded_text put_def)
    have "prefix (fst d) (fst (snd (cell_refs e 0 (dp_refs p) ?d4)))"
      by (rule prefix_order.trans [OF _ cell_refs_prefix]) (rule put_prefix [OF 3])
    with 3 show ?thesis
      by (auto simp: player_section_def Let_def Some intro: put_prefix split: prod.split)
  qed (simp add: player_section_def put_def)
  then show ?thesis by (simp add: appends_def)
qed

lemma appends_actors: "appends (actors_section e)"
  by (auto simp: appends_def actors_section_def DumpActors_def form_rows_text put_def split: option.split)

lemma appends_arrays: "appends (array_sections e arrays)"
proof -
  have "prefix (fst d) (fst (array_sections e arrays d))" for d
  proof (induction e arrays d rule: array_sections.induct)
    case (2 e ty typeName forms rest d)
    then show ?case
      by (auto simp: form_rows_text put_def dest: append_prefixD)
  qed simp
  then show ?thesis by (simp add: appends_def)
qed

text \<open>The part of the file for one kind of form.\<close>

definition holds_array :: "dump_env \<Rightarrow> string \<Rightarrow> dump_form option list \<Rightarrow> string \<Rightarrow> bool" where
  "holds_array e typeName forms t \<longleftrightarrow> sublist (array_head typeName (length forms) @ concat (map (row_text e) forms)) t"

lemma holds_append: "holds_array e n fs t \<Longrightarrow> prefix t u \<Longrightarrow> holds_array e n fs u"
  unfolding holds_array_def using sublist_order.order.trans by (blast intro: prefix_imp_sublist)

lemma array_sections_hold:
  assumes "(ty, typeName, forms) \<in> set arrays" "\<not> SkipType ty"
  shows "holds_array e typeName forms (fst (array_sections e arrays d))"
  using assms
proof (induction e arrays d rule: array_sections.induct)
  case (2 e ty' typeName' forms' rest d)
  let ?d = "form_rows e ''form_row'' forms' (put (array_head typeName' (length forms')) d)"
  have here: "holds_array e typeName' forms' (fst ?d)"
    by (simp add: holds_array_def form_rows_text put_def)
  show ?case
  proof (cases "(ty, typeName, forms) = (ty', typeName', forms')")
    case True
    then show ?thesis
      using 2(4) holds_append [OF here appendsD [OF appends_arrays [of e rest] prefix_order.order_refl]]
      by simp
  next
    case False
    then show ?thesis using 2 by auto
  qed
qed simp

lemma dump_holds_array:
  assumes "(ty, typeName, forms) \<in> set (de_arrays e)" "\<not> SkipType ty" "de_data e"
  shows "holds_array e typeName forms (fst (dump_sections e d))"
  using array_sections_hold [OF assms(1,2)] assms(3)
  by (auto simp: dump_sections_def Let_def intro!: holds_append [OF array_sections_hold [OF assms(1,2)]]
      appendsD [OF appends_put] appendsD [OF appends_actors] appendsD [OF appends_player])

text \<open>
  C33: the tables of the dump read back. Whatever characters the names of the engine hold, the file
  holds, for every kind of form that is not passed over, a heading and a text which, cut at its line ends and
  tabs, is the table that \<open>table_rows\<close> gives: a null pointer or a form whose number cannot be read costs nothing but its own
  row, a form that fails after its number leaves the cells written so far in a row that the next one
  continues. So every form that is read to its end has its cells at the end of a row, in order; and when no form fails
  after its number, there is exactly one row for each form read, of five or six cells, the first its number.
\<close>

theorem dump_tables_read_back:
  assumes "CMP_DumpLive e c = (path, Some t, c')" "de_data e"
    and "(ty, typeName, forms) \<in> set (de_arrays e)" "\<not> SkipType ty"
  shows "\<exists>rows a b. t = a @ array_head typeName (length forms) @ rows @ b \<and>
    read_table rows = table_rows e [] forms \<and>
    list_all2 (\<lambda>f r. suffix (row_cells e f) r) (whole_forms forms) (take (length (whole_forms forms)) (read_table rows)) \<and>
    length (read_table rows) \<le> length (whole_forms forms) + 1 \<and>
    (none_torn forms \<longrightarrow>
       read_table rows = map (row_cells e) (whole_forms forms) \<and>
       map (\<lambda>r. hex_val (hd r)) (read_table rows) = map (\<lambda>f. unat (df_id f)) (whole_forms forms) \<and>
       list_all (\<lambda>r. length r = 5 \<or> length r = 6) (read_table rows))"
proof -
  have "t = fst (dump_sections e ([], CMP_CrashNote ''cmp_dump'' c))"
    using assms(1) by (auto simp: CMP_DumpLive_def Let_def split: if_splits prod.splits)
  then have "holds_array e typeName forms t"
    using dump_holds_array [OF assms(3,4,2)] by simp
  then obtain a b where "t = a @ array_head typeName (length forms) @ concat (map (row_text e) forms) @ b"
    by (auto simp: holds_array_def sublist_def)
  moreover have "read_table (concat (map (row_text e) forms)) = table_rows e [] forms"
    using read_rows [of "[]" e forms] by (simp add: open_line_def)
  ultimately show ?thesis
    using whole_at_row_ends [of e forms "[]"] untorn_rows [of forms e]
    by (intro exI [of _ "concat (map (row_text e) forms)"] exI [of _ a] exI [of _ b])
      (auto simp: row_cells_def hex_val_hex8 list_all_iff)
qed

definition ex_form :: dump_form where
  "ex_form = \<lparr>df_id = 0xF, df_typeName = Some ''MISC'', df_known = True, df_edid = Some (''Caps'' @ tb @ ''001''), df_kind = KOther,
     df_display = None, df_fullName = [], df_bad = None\<rparr>"

definition ex_dump :: dump_env where
  "ex_dump = \<lparr>de_crash = dead_env, de_fault = \<lparr>ex_record = None, ex_context = None\<rparr>, de_docs = Some ''C:'', de_saveFolder = ''Fallout4'',
     de_canWrite = True, de_plugin = [], de_pluginVersion = [], de_f4seVersion = [], de_exeVersion = [], de_exeBase = 0, de_exePath = [],
     de_ghostSource = 0, de_module = (\<lambda>_. None), de_rel = (\<lambda>_. (0, 0, 0)), de_data = True, de_mod = (\<lambda>_. Some ''Fallout4.esm''),
     de_lightMod = (\<lambda>_. None), de_files = [], de_smallFiles = [], de_named = None,
     de_arrays = [(''MISC'', ''MISC'', [None, Some (ex_form\<lparr>df_bad := Some 1\<rparr>), Some (ex_form\<lparr>df_bad := Some 3\<rparr>), Some ex_form])], de_console = [], de_script = [],
     de_player = None, de_actors = None, de_joined = False, de_myPeerId = 0, de_isHost = False, de_ghosts = []\<rparr>"

lemma ex_dump_runs:
  "CMP_DumpLive ex_dump crash_init =
     (DumpPath ex_dump, Some (fst (dump_sections ex_dump ([], CMP_CrashNote ''cmp_dump'' crash_init))),
      snd (dump_sections ex_dump ([], CMP_CrashNote ''cmp_dump'' crash_init)))"
  by (simp add: CMP_DumpLive_def Let_def DumpPath_def path_div_def ex_dump_def split: prod.split)

lemma dump_tables_read_back_witness:
  "\<exists>rows a b. the (fst (snd (CMP_DumpLive ex_dump crash_init))) = a @ array_head ''MISC'' 4 @ rows @ b \<and>
    read_table rows = [[''0000000F'', ''MISC'', ''0000000F'', ''MISC'', ''Caps 001'', ''Fallout4.esm'', ''-'']]"
proof -
  let ?forms = "[None, Some (ex_form\<lparr>df_bad := Some 1\<rparr>), Some (ex_form\<lparr>df_bad := Some 3\<rparr>), Some ex_form]"
  have one: "row_cells ex_dump ex_form = [''0000000F'', ''MISC'', ''Caps 001'', ''Fallout4.esm'', ''-'']"
    by (simp add: ex_form_def row_cells_def ExtraFor_def Field_def c_str_def flat_char_def EditorId_def given_def
        PluginName_def ex_dump_def hex8_up_def hex_digit_up_def upt_rec char_of_def bit_iff_odd)
  have any: "row_cells ex_dump (ex_form\<lparr>df_bad := b\<rparr>) = row_cells ex_dump ex_form" for b
    by (simp add: row_cells_def ExtraFor_def EditorId_def)
  have "table_rows ex_dump [] ?forms = [take 2 (row_cells ex_dump ex_form) @ row_cells ex_dump ex_form]"
    by (simp add: reach_def any) (simp add: ex_form_def)
  then have cells: "table_rows ex_dump [] ?forms =
      [[''0000000F'', ''MISC'', ''0000000F'', ''MISC'', ''Caps 001'', ''Fallout4.esm'', ''-'']]"
    by (simp add: one)
  have a: "(''MISC'', ''MISC'', ?forms) \<in> set (de_arrays ex_dump)" "de_data ex_dump" "\<not> SkipType ''MISC''"
    by (simp_all add: ex_dump_def SkipType_def skip_types_def)
  have four: "length ?forms = 4" by simp
  show ?thesis
    using dump_tables_read_back [OF ex_dump_runs a(2,1,3)] unfolding cells four ex_dump_runs fst_conv snd_conv option.sel
    by blast
qed

text \<open>The heading of the tables of actors has eleven columns; no row has more than six.\<close>

lemma actor_heading:
  "\<exists>p. fst (DumpActors e label hs d) = fst d @ p @ join_tabs (form_columns @ [''base'', ''cell'', ''3d'', ''x'', ''y'', ''z'']) @ lf @
     concat (map (row_text e) (filter (\<lambda>h. h \<noteq> None) hs))"
  by (simp add: DumpActors_def form_rows_text put_def form_columns_def)

text \<open>The cell lists at most 2500 references, and says how many.\<close>

lemma cell_refs_bound: "n \<le> 2500 \<Longrightarrow> fst (cell_refs e n fs d) \<le> 2500"
  by (induction e n fs d rule: cell_refs.induct) auto

lemma cell_refs_count:
  "fst (cell_refs e n fs d) = n + min (2500 - n) (length (takeWhile (\<lambda>h. h \<noteq> None) fs))"
  by (induction e n fs d rule: cell_refs.induct) auto

end
