(* ===== verification/Spec2Isabelle.thy ===== *)
theory Spec2Isabelle
  imports Session Leaving Handshake WinConsole MenuFlow Presence Looks Ghosts Indicators Crash Hits Scaleform Overlay Startup Dump
begin

text \<open>
  CommonwealthMP, a multiplayer mod for Fallout 4: the dedicated server, the wire protocol it shares
  with the game plugin, and the plugin's side of a session.

  \<^bold>\<open>The program.\<close> The server runs three threads. The network thread (\<^verbatim>\<open>server/src/net_io.cpp\<close>) owns the
  sockets, cuts TCP streams into frames and carries out outbound commands. The main thread
  (\<^verbatim>\<open>server/src/handlers.cpp\<close>, driven by \<^verbatim>\<open>server/src/main.cpp\<close>) owns the session: clients, host, world,
  player records, bans, rate limits. The persist worker (\<^verbatim>\<open>server/src/persist_worker.cpp\<close>) writes JSON
  files. They talk through bounded queues (\<^verbatim>\<open>server/src/queues.hpp\<close>). A connection is accepted, stays
  pending until its Hello passes the checks, becomes a client with a peer id, and binds a UDP address
  with its secret token; poses travel over UDP, everything else over TCP. One client is the host.
  The plugin (\<^verbatim>\<open>plugin/src\<close>) runs in the game: once per frame it reads its sockets, handles the messages, and
  sends the player's pose; a thread of its own sends heartbeats.

  \<^bold>\<open>Theories and sources.\<close>
  \<^item> \<open>Prelude\<close>: byte strings, little-endian words, C strings, association lists standing for
    \<^verbatim>\<open>std::unordered_map\<close> and \<^verbatim>\<open>std::unordered_set\<close>, with the simp collections \<open>wire\<close> and \<open>amap\<close>.
  \<^item> \<open>Ieee\<close>: \<^verbatim>\<open>float\<close> and \<^verbatim>\<open>double\<close> as bit patterns in 32- and 64-bit words, with the comparisons,
    conversions and arithmetic the sources use, computed exactly and rounded to nearest even. \<open>Rounding\<close>: where the
    rounded value lies, which is what makes the loops of \<open>Motion\<close> end.
  \<^item> \<open>Protocol\<close>, \<open>Codec\<close>: \<^verbatim>\<open>protocol/cmp_protocol.hpp\<close>. One record per packed struct, its byte encoding,
    the constructors, \<^verbatim>\<open>header_ok\<close>. The locales \<open>wire_codec\<close> and \<open>framed_codec\<close> state what an encoding
    promises; each message interprets them.
  \<^item> \<open>Blobs\<close>: \<^verbatim>\<open>protocol/cmp_blobs.hpp\<close>, inventory sheets and chunked blobs.
  \<^item> \<open>Net\<close>: \<^verbatim>\<open>protocol/cmp_net.hpp\<close>, framing, the receive buffer and the send queue; the locale
    \<open>byte_fifo\<close> is the abstract byte stream the send queue implements.
  \<^item> \<open>Util\<close>: \<^verbatim>\<open>protocol/cmp_util.hpp\<close>, \<^verbatim>\<open>protocol/cmp_json.hpp\<close>, word splitting and number parsing.
  \<^item> \<open>Sim\<close>, \<open>Queues\<close>, \<open>Config\<close>: \<^verbatim>\<open>server/src/sim.hpp\<close>, \<^verbatim>\<open>server/src/queues.hpp\<close>, \<^verbatim>\<open>server/src/config.hpp\<close>;
    the locale \<open>bounded_queue\<close> is the contract of a queue between threads.
  \<^item> \<open>ServerState\<close>, \<open>Handlers\<close>: \<^verbatim>\<open>server/src/server_state.hpp\<close>, \<^verbatim>\<open>server/src/net_util.cpp\<close>,
    \<^verbatim>\<open>server/src/handlers.cpp\<close>. The runtime is the record \<open>server_runtime\<close>; every method is a function
    from runtime to runtime. \<open>Outputs\<close> restates what the methods send as lists of commands.
  \<^item> \<open>Invariant\<close>: the invariant of the runtime and that every event keeps it.
  \<^item> \<open>Admin\<close>, \<open>NetIo\<close>, \<open>Persist\<close>: \<^verbatim>\<open>server/src/admin_cmds.cpp\<close>, \<^verbatim>\<open>server/src/net_io.cpp\<close>,
    \<^verbatim>\<open>server/src/session_persist.cpp\<close> and \<^verbatim>\<open>server/src/persist_worker.cpp\<close>.
  \<^item> \<open>ServerMain\<close>: \<^verbatim>\<open>server/src/main.cpp\<close>, and the server as a transition system \<open>server_step\<close> in which
    the threads take turns on the shared queues. \<open>Startup\<close>: what \<^verbatim>\<open>main\<close> does around its loop, from the choice of
    a console to the sockets, over the records \<open>process\<close> and \<open>sockets\<close>, with the status line, the senders of
    \<^verbatim>\<open>net_util.cpp\<close> and the wrappers \<^verbatim>\<open>protocol/cmp_udp.hpp\<close> and \<^verbatim>\<open>cmp_poll.hpp\<close>.
  \<^item> \<open>Example\<close>, \<open>Joining\<close>, \<open>Relay\<close>, \<open>Leaving\<close>, \<open>Session\<close>: a small session for the witnesses; who gets in,
    what is passed on to whom, who leaves; whole runs from the start of the server.
  \<^item> \<open>Motion\<close>: \<^verbatim>\<open>plugin/src/net/motion_interp.h\<close>, the pose rings and the sampling between poses. \<open>ModHash\<close>:
    \<^verbatim>\<open>plugin/src/modhash.cpp\<close>. \<open>ClientNet\<close>: \<^verbatim>\<open>plugin/src/udp_win.cpp\<close>, the plugin's sockets.
  \<^item> \<open>Client\<close>, \<open>ClientPoll\<close>: \<^verbatim>\<open>plugin/src/session.h\<close> and \<^verbatim>\<open>plugin/src/net\<close>, with the parts of \<^verbatim>\<open>actors.cpp\<close>,
    \<^verbatim>\<open>combat.cpp\<close>, \<^verbatim>\<open>ghost/spawn.cpp\<close> and \<^verbatim>\<open>appearance\<close> they call. The session is the record \<open>session\<close>; what the
    engine and Winsock answer is the record \<open>game\<close>, and what is asked of the engine is a list of \<open>game_call\<close>s.
  \<^item> \<open>ClientInv\<close>, \<open>ClientRun\<close>, \<open>ClientData\<close>: the invariant of the plugin's session over all its operations; single
    runs; what arrives from other players. \<open>Handshake\<close>: plugin and server together.
  \<^item> \<open>ServerLog\<close>, \<open>WinConsole\<close>: \<^verbatim>\<open>server/src/log.hpp\<close> with the banner of \<^verbatim>\<open>net_util.cpp\<close>, and
    \<^verbatim>\<open>server/src/win_console.cpp\<close>. The logger is the record \<open>server_log\<close>, whose console is the list of what was
    written to it; the Windows console is the record \<open>win_console\<close> with its pipe, queues and edit controls.
  \<^item> \<open>PluginConfig\<close>, \<open>PluginSteam\<close>: \<^verbatim>\<open>plugin/src/config.cpp\<close> over the Windows profile functions, and
    \<^verbatim>\<open>plugin/src/steam\<close> and \<^verbatim>\<open>plugin/src/host_launch.cpp\<close> over what Steam and the system answer.
  \<^item> \<open>PluginMenu\<close>, \<open>MenuFlow\<close>: \<^verbatim>\<open>plugin/src/menu\<close> and \<^verbatim>\<open>plugin/src/main.cpp\<close>, the join flow, the forms and the
    events of the game in the record \<open>menu\<close>, which holds the session; then its invariant over all steps.
  \<^item> \<open>Presence\<close>: \<^verbatim>\<open>plugin/src/presence\<close>, what Discord and Steam are told, over the record \<open>presence\<close>.
  \<^item> \<open>Looks\<close>: \<^verbatim>\<open>plugin/src/appearance\<close>, packing what a player looks like and wears and painting it onto a
    ghost; forms, the engine's tables and its setters are the record \<open>engine\<close>.
  \<^item> \<open>Puppet\<close>: \<^verbatim>\<open>plugin/src/puppet\<close> and \<^verbatim>\<open>plugin/src/ui_pose.cpp\<close>, the calls a pose makes on the animation
    graph of an actor, with what is remembered per peer in \<open>puppets\<close>. \<open>Ghosts\<close>: \<^verbatim>\<open>plugin/src/ghost\<close> and the rest of
    \<^verbatim>\<open>actors.cpp\<close>, the bodies of the players and the actors of the host; the record \<open>ghosts\<close> holds the session, the
    globals of these files and the calls made on actors, \<open>ghost_env\<close> what the engine answers.
  \<^item> \<open>Indicators\<close>: \<^verbatim>\<open>plugin/src/indicators\<close> and \<^verbatim>\<open>plugin/src/pointer.cpp\<close>, the players on the compass and the map and
    the words that point to one; the record \<open>indicators\<close> holds the globals with the two lists of the engine.
  \<^item> \<open>Crash\<close>: \<^verbatim>\<open>plugin/src/crash.cpp\<close>, the ring of notes, the crash report and the ways to it, over the record
    \<open>crash\<close>; \<open>crash_runs\<close> is everything that can happen to it, guarded calls nested in each other included.
  \<^item> \<open>Hits\<close>: \<^verbatim>\<open>plugin/src/combat.cpp\<close> and \<^verbatim>\<open>companions.cpp\<close>, noticing that the player hit somebody's body, up to
    what that player loses. \<open>PluginConsole\<close>: \<^verbatim>\<open>plugin/src/console.cpp\<close>, the commands and how they take the place of
    commands of the game, with the status line.
  \<^item> \<open>Scaleform\<close>: \<^verbatim>\<open>plugin/src/menu/stamp.cpp\<close> and \<^verbatim>\<open>plugin/src/scaleform_menu.cpp\<close>, the version text of the main
    menu and the movie added to the menus. \<open>Overlay\<close>: \<^verbatim>\<open>plugin/src/overlay.cpp\<close>, \<^verbatim>\<open>input_hook.cpp\<close>, \<^verbatim>\<open>render_hook.cpp\<close>
    and the name plates of \<^verbatim>\<open>ghost/labels.cpp\<close>, over the record \<open>overlay\<close>.
  \<^item> \<open>Dump\<close>: \<^verbatim>\<open>plugin/src/dump.cpp\<close>, the report of \<^verbatim>\<open>cmp_dump\<close>; a dump is the text so far with the state of the
    crash handler, \<open>dump_env\<close> what the engine answers.

  \<^bold>\<open>How the code is read.\<close> Machine integers keep their width and wrap. Structs are packed and
  little-endian, as on every platform the program runs on; the POSIX branch of each \<^verbatim>\<open>#ifdef\<close> is
  modelled, in \<open>Startup\<close> and \<open>WinConsole\<close> the Windows one. An unordered map is a list in iteration order; since the order is the library's, the
  transition system may permute the client table at any time. References into maps become keys and
  updates. The clock and the results of \<^verbatim>\<open>send\<close>, \<^verbatim>\<open>recv\<close>, \<^verbatim>\<open>accept\<close> and the file system are arguments; the
  only assumption on them is that a \<^verbatim>\<open>send\<close> that reports bytes sent reports between one and as many as
  it was given (\<open>nb_send_ok\<close>). Log output is left out. A step of the transition system is one command,
  event, expiry pass, flush or heartbeat of the main thread, or one command, accepted connection,
  datagram or ready connection of the network thread; they share only the queues, each operation
  of which holds the queue's lock. Steps that would wrap the peer or connection counter are excluded.
  No definition uses fuel: loops are structural or have a termination measure, and the loops of the
  threads are sequences of steps. The two loops of the plugin that may not end, those that wrap an angle, are
  partial functions whose value is then \<open>None\<close>. An operation of the plugin reads the clock and the
  engine once (\<open>game\<close>); the lists of receive results it is given are those of its successive \<^verbatim>\<open>recv\<close> calls.

  \<^bold>\<open>What is shown.\<close> In every reachable state the table of clients, the host, the UDP table, the pending
  list and the routing tables of the network thread fit together (\<open>session_identities\<close>,
  \<open>session_host\<close>, \<open>session_routing\<close>, \<open>session_udp_senders\<close>). Nobody joins without passing every check,
  whoever passes joins, and reconnecting keeps the peer (\<open>Joining\<close>). Poses, chat and hits reach exactly
  whom they should under the sender's own id, and what is the host's privilege is refused to others
  (\<open>Relay\<close>). Removal, timeout and bans do exactly what they say (\<open>Leaving\<close>). Messages, blobs, inventory
  sheets, bans and settings survive their round trips; streams and queues are first in first out and
  bounded, and a malformed frame costs no frame before it (\<open>Net\<close>); the persist worker loses nothing and ends.

  For the plugin: \<open>plugin_invariant\<close> holds in every state its session can reach, its Hello is what the
  server checks and the Welcome gives it a peer id and a bound address (\<open>Handshake\<close>), inventories arrive whole
  and the answer to a query is read right (\<open>ClientData\<close>), rings of poses stay ordered and sampling them returns
  as long as neighbouring headings differ by no more than \<^verbatim>\<open>2^25\<close> (\<open>Motion\<close>). Some theorems show what goes wrong: \<open>stale_timeout\<close>, \<open>spoofed_kick\<close>, \<open>infinite_yaw_hangs\<close>, \<open>released_actor_stays_awake\<close>, \<open>guarded_thread_goes_dark\<close>,
  \<open>last_frame_lost\<close>, \<open>menus_dead_after_join\<close> and, on the server, \<open>late_close_drops_player\<close>.

  The logger loses no line that should be on disk and colouring never changes its text (\<open>ServerLog\<close>); the log
  window shows the same lines however the pipe is read (\<open>WinConsole\<close>). Settings are within their bounds and
  what the player enters is there at the next start (\<open>PluginConfig\<close>); Steam is spoken to only through an interface
  of a known version (\<open>PluginSteam\<close>); the menus keep their invariant and the join flow ends (\<open>MenuFlow\<close>); the
  presence is never stale (\<open>Presence\<close>). Looks of the base game arrive as they are and always fit a blob, while forms
  of mods lose their plugin (\<open>Looks\<close>). The events fired on a puppet agree with the poses it is given (\<open>Puppet\<close>).
  The ghosts are those of the players here, each with a base of its own (\<open>Ghosts\<close>), and so are the rows of the compass
  and the markers of the map (\<open>Indicators\<close>). A crash is reported once, with the last notes, unless its thread has made
  a guarded call before (\<open>Crash\<close>). A hit and a kick go from one plugin through the server to the other as they should
  (\<open>Hits\<close>, \<open>PluginConsole\<close>). While the overlay is open no key or mouse message reaches the game, and no render target is
  lost (\<open>Overlay\<close>). A server that fails to start leaves no socket open and one that starts has both ready (\<open>Startup\<close>); the tables
  of the dump read back, rows cut off by a fault included (\<open>Dump\<close>).

  \<^bold>\<open>Not modelled.\<close> Creating and drawing windows, panels and forms, text that is only logged (the console command that lists
  forms among it), and what the game engine, Windows, Steam and Discord make of the calls they get. The test programs, the
  probe, the crash reporter written in Rust and the packaging scripts are no part of the two programs.
\<close>

text \<open>
  C1: in every state a session can reach, whoever is in the table of clients is who the table says:
  the entry stands under the client's own, non-zero peer id, its key is a sanitized key with a player
  record, its token is not zero, its TCP connection is a real one that nobody else has and that is
  not pending, and no two entries share a key or a connection.
\<close>

theorem session_identities:
  assumes "reachable (server_init (startup cfg fs dir)) s"
    and "(k, c) \<in> set (rt_clients (sv_rt s))" and "(k', c') \<in> set (rt_clients (sv_rt s))"
  shows "cl_peerId c = k \<and> k \<noteq> 0 \<and> player_key_ok (cl_playerKey c) \<and>
    cl_playerKey c \<in> fst ` set (rt_players (sv_rt s)) \<and> cl_udpToken c \<noteq> 0 \<and>
    cl_connId c \<noteq> 0 \<and> cl_connId c \<notin> pt_connId ` set (rt_pendingTcp (sv_rt s)) \<and>
    (cl_playerKey c = cl_playerKey c' \<or> cl_connId c = cl_connId c' \<longrightarrow> k = k' \<and> c = c')"
proof -
  have inv: "runtime_inv (sv_rt s)" using server_inv_session [OF assms(1)] by (simp add: server_inv_def)
  show ?thesis
    using runtime_inv_entry [OF inv assms(2)] runtime_inv_unique [OF inv assms(2,3)] by simp
qed

theorem session_identities_witness:
  "\<exists>s c. reachable ex_start s \<and> rt_clients (sv_rt s) = [(1, c)] \<and> cl_playerKey c = ''cat'' \<and> cl_peerId c = 1 \<and>
     ''cat'' \<in> fst ` set (rt_players (sv_rt s)) \<and> cl_udpToken c \<noteq> 0"
proof -
  obtain s c where s: "reachable ex_start s" "rt_clients (sv_rt s) = [(1, c)]" "cl_playerKey c = ''cat''"
    using ex_join [OF ex_cat] by blast
  from session_identities [OF s(1) [unfolded ex_start_def], of 1 c 1 c] s show ?thesis by auto
qed

text \<open>
  C2: in every state a session can reach, the host is one of the connected clients, and there is no
  host exactly when nobody is connected.
\<close>

theorem session_host:
  assumes "reachable (server_init (startup cfg fs dir)) s"
  shows "let h = wo_hostPeerId (rt_world (sv_rt s)); cs = rt_clients (sv_rt s)
    in (h = 0 \<longleftrightarrow> cs = []) \<and> (cs \<noteq> [] \<longrightarrow> (\<exists>c. um_find h cs = Some c \<and> cl_peerId c = h))"
proof -
  let ?r = "sv_rt s"
  have inv: "core_inv ?r" using server_inv_session [OF assms] by (simp add: server_inv_def runtime_inv_def)
  have "\<exists>c. um_find (wo_hostPeerId (rt_world ?r)) (rt_clients ?r) = Some c" if "rt_clients ?r \<noteq> []"
    using inv that um_find_None_iff [of "wo_hostPeerId (rt_world ?r)" "rt_clients ?r"]
    by (auto simp: core_inv_def host_ok_def)
  moreover have "um_find k (rt_clients ?r) = Some c \<Longrightarrow> cl_peerId c = k \<and> k \<noteq> 0" for k c
    using core_inv_client [OF inv] by (auto simp: client_ok_def)
  moreover have "rt_clients ?r = [] \<Longrightarrow> wo_hostPeerId (rt_world ?r) = 0" using inv by (simp add: core_inv_def host_ok_def)
  ultimately show ?thesis unfolding Let_def by blast
qed

theorem session_host_witness:
  "\<exists>s c. reachable ex_start s \<and> rt_clients (sv_rt s) = [(1, c)] \<and> wo_hostPeerId (rt_world (sv_rt s)) = 1"
proof -
  obtain s c where s: "reachable ex_start s" "rt_clients (sv_rt s) = [(1, c)]" using ex_join [OF ex_cat] by blast
  from session_host [OF s(1) [unfolded ex_start_def]] s show ?thesis
    by (auto simp: Let_def um_find_def split: if_splits)
qed

text \<open>
  C11: in every state a session can reach, the network thread's routing tables are inverse to each
  other (a peer is routed to a connection exactly when that open connection is bound to the peer), no
  send buffer holds more than \<^verbatim>\<open>kTcpSendQueueMax\<close> unsent bytes, every receive buffer holds less than a
  frame, and therefore a \<^verbatim>\<open>recv\<close> of at most 4096 bytes is always appended: the overflow result that
  would drop the connection never happens.
\<close>

theorem session_routing:
  assumes "reachable (server_init (startup cfg fs dir)) s"
  shows "let n = sv_net s
    in (\<forall>p cid. um_find p (ni_peerToConn n) = Some cid \<longleftrightarrow>
          p \<noteq> 0 \<and> (\<exists>c. um_find cid (ni_conns n) = Some c \<and> nc_peerId c = p)) \<and>
       (\<forall>cid c. um_find cid (ni_conns n) = Some c \<longrightarrow>
          sq_pending (nc_sendQ c) \<le> kTcpSendQueueMax \<and> length (nc_recvBuf c) < kMaxTcpFrame \<and>
          (\<forall>d. length d \<le> 4096 \<longrightarrow>
             tcp_recv_append (RData d) (nc_recvBuf c) recv_max = (int (length d), nc_recvBuf c @ d)))"
proof -
  have inv: "net_inv (sv_net s)" using server_inv_session [OF assms] by (simp add: server_inv_def)
  then have "peers_inv (ni_peerToConn (sv_net s)) (ni_conns (sv_net s))" by (simp add: net_inv_def)
  then have "um_find p (ni_peerToConn (sv_net s)) = Some cid \<longleftrightarrow>
      p \<noteq> 0 \<and> (\<exists>c. um_find cid (ni_conns (sv_net s)) = Some c \<and> nc_peerId c = p)" for p cid
    by (auto simp: peers_inv_def peer_of_def)
  moreover have "sq_inv q \<Longrightarrow> sq_pending q \<le> kTcpSendQueueMax" for q
    by (auto simp: sq_inv_def sq_pending_def sq_abs_def)
  ultimately show ?thesis
    using net_inv_conn [OF inv] recv_no_overflow [OF inv] by (simp add: Let_def conn_ok_def)
qed

theorem session_routing_witness:
  "\<exists>c. um_find 1 (ni_conns (sv_net ex_accepted)) = Some c \<and> sq_pending (nc_sendQ c) \<le> kTcpSendQueueMax"
proof -
  have "um_find 1 (ni_conns (sv_net ex_accepted)) = Some ex_conn" by (simp add: ex_accepted_fields um_find_def)
  with session_routing [OF ex_accepted_reach [unfolded ex_start_def]] show ?thesis by (auto simp: Let_def)
qed

text \<open>
  In every state a session can reach, looking up the sender of a datagram finds only a client that
  is connected and bound to exactly that address, and changes nothing: the branch of \<^verbatim>\<open>find_by_udp\<close>
  that drops a stale entry is never taken.
\<close>

lemma session_udp_senders:
  assumes "reachable (server_init (startup cfg fs dir)) s"
  shows "snd (find_by_udp (sv_rt s) a) = sv_rt s \<and>
    (\<forall>k. fst (find_by_udp (sv_rt s) a) = Some k \<longrightarrow>
       (\<exists>c. um_find k (rt_clients (sv_rt s)) = Some c \<and> cl_udpBound c \<and> same_addr (cl_udpAddr c) a))"
proof -
  have inv: "core_inv (sv_rt s)" using server_inv_session [OF assms] by (simp add: server_inv_def runtime_inv_def)
  show ?thesis using find_by_udp_live [OF inv, of a] find_by_udp_bound [OF inv] by (auto simp: same_addr_def)
qed

lemma session_udp_senders_witness: "snd (find_by_udp (sv_rt ex_accepted) (ex_addr 7)) = sv_rt ex_accepted"
  using session_udp_senders [OF ex_accepted_reach [unfolded ex_start_def], of "ex_addr 7"] by blast

end
